(* ===== verification/Prelude.thy ===== *)
theory Prelude
  imports Main "HOL-Library.Word"
begin

text \<open>
  Shared vocabulary of the development: the machine integer types of the C++ sources, the
  little-endian view of words as byte lists (what \<open>std::memcpy\<close> between an integer and a byte
  array computes on the little-endian hosts the simulator targets), slices of byte arrays, and the
  bit-level lemmas that the component theories use.

  \<^item> \<open>wf_intros\<close> collects the rules by which an operation keeps a component's well-formedness.
  \<^item> \<open>ram_simps\<close> collects the read-after-write equations of the memories.
\<close>

unbundle bit_operations_syntax

named_theorems wf_intros
named_theorems ram_simps

type_synonym u8 = "8 word"
type_synonym u16 = "16 word"
type_synonym u32 = "32 word"
type_synonym u64 = "64 word"

section \<open>Bits\<close>

text \<open>The simplifier turns \<open>push_bit n 1\<close> (the C++ \<open>1 << n\<close>) into \<open>2 ^ n\<close>.\<close>

lemma bit_one_shift [simp]:
  "bit ((2 :: 'a::len word) ^ n) i \<longleftrightarrow> i = n \<and> n < LENGTH('a)"
  by (auto simp: bit_exp_iff possible_bit_def)

lemma and_bit_eq_0_iff:
  "(w AND 2 ^ n = 0) \<longleftrightarrow> \<not> bit w n" for w :: "'a::len word"
proof
  assume "w AND 2 ^ n = 0"
  then have "\<not> bit (w AND 2 ^ n) n" by simp
  then show "\<not> bit w n"
    by (auto simp: bit_and_iff dest: bit_imp_le_length)
next
  assume "\<not> bit w n"
  then show "w AND 2 ^ n = 0"
    by (intro bit_word_eqI) (auto simp: bit_and_iff)
qed

lemma bit_set_bit_mask:
  "bit (w OR 2 ^ n) i \<longleftrightarrow> bit w i \<or> (i = n \<and> n < LENGTH('a))" for w :: "'a::len word"
  by (auto simp: bit_or_iff)

lemma bit_clear_bit_mask:
  "bit (w AND NOT (2 ^ n)) i \<longleftrightarrow> bit w i \<and> i \<noteq> n" for w :: "'a::len word"
  by (auto simp: bit_and_iff bit_not_iff possible_bit_def dest: bit_imp_le_length)

lemmas mask_bits = and_bit_eq_0_iff bit_set_bit_mask bit_clear_bit_mask

text \<open>Equality of words of a fixed width, one bit position at a time.\<close>

lemma word_eq_by_bits:
  fixes a b :: "'a::len word"
  assumes "list_all (\<lambda>i. bit a i = bit b i) [0..<LENGTH('a)]"
  shows "a = b"
  using assms by (intro bit_word_eqI) (auto simp: list_all_iff)

lemma upto_16: "[0..<16] = [0, 1, 2, 3, 4, 5, 6, 7, 8, 9, 10, 11, 12, 13, 14, 15::nat]"
  by code_simp

lemma upto_32: "[0..<32] = [0..<16] @ map ((+) 16) [0..<16::nat]"
  by code_simp

lemma upto_64: "[0..<64] = [0..<32] @ map ((+) 32) [0..<32::nat]"
  by code_simp

text \<open>Rewriting with \<open>bitwise_unfold\<close> turns the premise of \<open>word_eq_by_bits\<close> into one conjunct per
  bit, before the words themselves are unfolded.\<close>

lemmas bitwise_unfold =
  upto_64 upto_32 upto_16 list.pred_inject list_all_append list.map append.simps simp_thms
  len_num1 len_bit0 len_bit1 mult_1_right arith_simps numeral_One

text \<open>\<open>within v m\<close>: every bit of \<open>v\<close> is a bit of the mask \<open>m\<close>.\<close>

definition within :: "'a::len word \<Rightarrow> 'a word \<Rightarrow> bool" where
  "within v m \<longleftrightarrow> v AND m = v"

lemma within_or: "within a m \<Longrightarrow> within b n \<Longrightarrow> within (a OR b) (m OR n)"
  by (auto simp: within_def bit_eq_iff bit_and_iff bit_or_iff)

lemma within_le: "within v m \<Longrightarrow> v \<le> m"
  unfolding within_def by (metis word_and_le1)

lemma within_and: "within (v AND m) m"
  by (simp add: within_def and.assoc)

lemma within_mask_iff: "within v (mask n) \<longleftrightarrow> (\<forall>i. bit v i \<longrightarrow> i < n)" for v :: "'a::len word"
  by (auto simp: within_def bit_eq_iff bit_and_iff bit_mask_iff dest: bit_imp_le_length)

section \<open>Words as little-endian bytes\<close>

definition le_bytes :: "nat \<Rightarrow> 'a::len word \<Rightarrow> u8 list" where
  "le_bytes n w = map (\<lambda>i. ucast (drop_bit (8 * i) w)) [0..<n]"

primrec le_word :: "u8 list \<Rightarrow> 'a::len word" where
  "le_word [] = 0"
| "le_word (b # bs) = ucast b OR push_bit 8 (le_word bs)"

lemma length_le_bytes [simp]: "length (le_bytes n w) = n"
  by (simp add: le_bytes_def)

lemma nth_le_bytes [simp]: "i < n \<Longrightarrow> le_bytes n w ! i = ucast (drop_bit (8 * i) w)"
  by (simp add: le_bytes_def)

lemma bit_le_word:
  "bit (le_word bs :: 'a::len word) i \<longleftrightarrow>
     i < LENGTH('a) \<and> i < 8 * length bs \<and> bit (bs ! (i div 8)) (i mod 8)"
proof (induction bs arbitrary: i)
  case Nil
  then show ?case by simp
next
  case (Cons b bs)
  show ?case
  proof (cases "i < 8")
    case True
    then show ?thesis
      by (auto simp: bit_or_iff bit_push_bit_iff bit_ucast_iff)
  next
    case False
    then obtain j where j: "i = 8 + j" by (metis le_add_diff_inverse not_less)
    have "(8 + j) div 8 = Suc (j div 8)" by simp
    moreover have "\<not> bit b (8 + j)" using bit_imp_le_length [of b "8 + j"] by auto
    ultimately show ?thesis
      using Cons.IH [of j]
      by (auto simp: j bit_or_iff bit_push_bit_iff bit_ucast_iff possible_bit_def
          dest: bit_imp_le_length)
  qed
qed

lemma le_word_le_bytes:
  fixes w :: "'a::len word"
  assumes "LENGTH('a) \<le> 8 * n"
  shows "le_word (le_bytes n w) = w"
proof (rule bit_word_eqI)
  fix i assume i: "i < LENGTH('a)"
  with assms have "i div 8 < n" by auto
  moreover have "8 * (i div 8) + i mod 8 = i" by simp
  ultimately show "bit (le_word (le_bytes n w) :: 'a word) i = bit w i"
    using i assms by (simp add: bit_le_word bit_ucast_iff bit_drop_bit_eq)
qed

lemma le_bytes_le_word:
  assumes "length bs = n" and "8 * n \<le> LENGTH('a::len)"
  shows "le_bytes n (le_word bs :: 'a word) = bs"
proof (rule nth_equalityI)
  show "length (le_bytes n (le_word bs :: 'a word)) = length bs" using assms by simp
next
  fix i assume "i < length (le_bytes n (le_word bs :: 'a word))"
  then have i: "i < n" by simp
  show "le_bytes n (le_word bs :: 'a word) ! i = bs ! i"
  proof (rule bit_word_eqI)
    fix k assume "k < LENGTH(8)"
    then have k: "k < 8" by simp
    with i assms have "8 * i + k < LENGTH('a)" "8 * i + k < 8 * length bs" by auto
    moreover have "(8 * i + k) div 8 = i" "(8 * i + k) mod 8 = k" using k by auto
    ultimately show "bit (le_bytes n (le_word bs :: 'a word) ! i) k = bit (bs ! i) k"
      using i k by (simp add: bit_ucast_iff bit_drop_bit_eq bit_le_word add.commute)
  qed
qed

section \<open>Slices of byte arrays\<close>

text \<open>
  \<open>slice_get off n xs\<close> and \<open>slice_put off bs xs\<close> are \<open>memcpy(dst, xs + off, n)\<close> and
  \<open>memcpy(xs + off, bs, length bs)\<close>. Outside the array \<open>slice_put\<close> changes the length, so an
  invariant that fixes the length of an array also shows that the copies into it stay inside.
\<close>

definition slice_get :: "nat \<Rightarrow> nat \<Rightarrow> 'a list \<Rightarrow> 'a list" where
  "slice_get off n xs = take n (drop off xs)"

definition slice_put :: "nat \<Rightarrow> 'a list \<Rightarrow> 'a list \<Rightarrow> 'a list" where
  "slice_put off bs xs = take off xs @ bs @ drop (off + length bs) xs"

lemma length_slice_get [simp]: "off + n \<le> length xs \<Longrightarrow> length (slice_get off n xs) = n"
  by (simp add: slice_get_def)

lemma nth_slice_get [simp]: "off + n \<le> length xs \<Longrightarrow> i < n \<Longrightarrow> slice_get off n xs ! i = xs ! (off + i)"
  by (simp add: slice_get_def)

lemma length_slice_put [simp]:
  "off + length bs \<le> length xs \<Longrightarrow> length (slice_put off bs xs) = length xs"
  by (simp add: slice_put_def)

lemma length_slice_put_iff:
  "length (slice_put off bs xs) = length xs \<longleftrightarrow> bs = [] \<or> off + length bs \<le> length xs"
  by (cases bs) (auto simp: slice_put_def min_def)

lemma nth_slice_put:
  assumes "off + length bs \<le> length xs" and "i < length xs"
  shows "slice_put off bs xs ! i = (if off \<le> i \<and> i < off + length bs then bs ! (i - off) else xs ! i)"
  using assms by (auto simp: slice_put_def nth_append min_def)

lemma slice_get_put_same [ram_simps]:
  "off + length bs \<le> length xs \<Longrightarrow> n = length bs \<Longrightarrow> slice_get off n (slice_put off bs xs) = bs"
  by (simp add: slice_get_def slice_put_def min_def)

lemma slice_get_put_disjoint:
  assumes "off + length bs \<le> length xs" and "off' + n \<le> length xs"
    and "off' + n \<le> off \<or> off + length bs \<le> off'"
  shows "slice_get off' n (slice_put off bs xs) = slice_get off' n xs"
proof (rule nth_equalityI)
  show "length (slice_get off' n (slice_put off bs xs)) = length (slice_get off' n xs)"
    using assms by simp
next
  fix i assume "i < length (slice_get off' n (slice_put off bs xs))"
  then have "i < n" using assms by simp
  then show "slice_get off' n (slice_put off bs xs) ! i = slice_get off' n xs ! i"
    using assms by (auto simp: nth_slice_put)
qed

lemma slice_put_put_same:
  assumes "off + length bs \<le> length xs" and "length cs = length bs"
  shows "slice_put off cs (slice_put off bs xs) = slice_put off cs xs"
  using assms by (intro nth_equalityI) (auto simp: nth_slice_put)

lemma slice_put_commute:
  assumes "off + length bs \<le> length xs" and "off' + length cs \<le> length xs"
    and "off' + length cs \<le> off \<or> off + length bs \<le> off'"
  shows "slice_put off' cs (slice_put off bs xs) = slice_put off bs (slice_put off' cs xs)"
  using assms by (intro nth_equalityI) (auto simp: nth_slice_put)

lemma slice_put_get_id:
  "off + n \<le> length xs \<Longrightarrow> slice_put off (slice_get off n xs) xs = xs"
  by (intro nth_equalityI) (auto simp: nth_slice_put)

section \<open>Counters of threads\<close>

text \<open>An atomic 32-bit counter of the threads in certain states follows an update of one thread.\<close>

lemma length_filter_list_update:
  assumes "i < length xs"
  shows "int (length (filter P (xs[i := y]))) =
    int (length (filter P xs)) - of_bool (P (xs ! i)) + of_bool (P y)"
  using assms
proof (induction xs arbitrary: i)
  case (Cons x xs)
  then show ?case by (cases i) auto
qed simp

lemma length_filter_update_word:
  assumes "i < length xs"
  shows "(of_nat (length (filter P (xs[i := y]))) :: u32) =
    of_nat (length (filter P xs)) - of_bool (P (xs ! i)) + of_bool (P y)"
  using arg_cong [OF length_filter_list_update [OF assms, of P y], of "of_int :: int \<Rightarrow> u32"]
  by simp

lemma set_list_update_subset: "x \<in> set (xs[i := y]) \<Longrightarrow> x = y \<or> x \<in> set xs"
  using set_update_subset_insert by fastforce

lemma none_counted:
  assumes "length xs < 2 ^ 32" and "(of_nat (length (filter P xs)) :: u32) = 0"
  shows "filter P xs = []"
proof -
  have "length (filter P xs) < 2 ^ 32" using assms(1) length_filter_le [of P xs] by linarith
  with assms(2) show ?thesis using word_of_nat_eq_0_iff [where ?'a = 32] by (auto dest: nat_dvd_not_less)
qed

section \<open>Error numbers\<close>

text \<open>The values of \<open>errno\<close> that the sources set or return.\<close>

datatype errno =
    EACCES | EBADF | EBUSY | EEXIST | EFAULT | EINVAL | EIO | EISDIR | ELOOP | EMFILE | ENODEV | ENOENT | ENOMEM
  | ENOSYS | ENOTDIR | ENOTTY | EOPNOTSUPP | ESPIPE
  | Eother int \<comment> \<open>the number that a callback reports\<close>

end
