(* ===== verification/Isa.thy ===== *)
theory Isa
  imports Prelude
begin

text \<open>
  The decoded form of an instruction (\<open>RawDecoded48\<close> of \<open>contrib/hostpimsim-upmem/dpu/pipeline.cc\<close>),
  the fifteen condition-code maps, and \<open>populate_hot_metadata_48\<close>, which derives from the decoded
  fields what the executor looks at. Fields of type \<open>int32_t\<close> are 32-bit words; \<open>sint\<close> reads them
  where the source compares them as signed numbers. Constructors carry the name of the source's
  enumerator with a prefix per enumeration.
\<close>

section \<open>Enumerations and the decoded instruction\<close>

datatype hot_op =
    H_None | H_Acquire | H_Release | H_Or | H_OrS | H_OrU | H_Add | H_Addc | H_And | H_AndS
    | H_AndU | H_Sub | H_Subc | H_MulStep | H_DivStep | H_Resume | H_Boot | H_Call | H_Ldma
    | H_Sdma | H_Lsl | H_LslS | H_LslU | H_Lslx | H_LslxS | H_LslxU | H_Lsr | H_LsrS | H_LsrU
    | H_Lsrx | H_LsrxS | H_LsrxU | H_Movd | H_Swapd | H_Clz | H_Clo | H_MulUlUl | H_MulUlUh
    | H_MulUhUl | H_MulUhUh | H_LslAdd | H_LslAddS | H_LslAddU | H_LslSub | H_LslSubS | H_LslSubU
    | H_LsrAdd | H_LsrAddS | H_LsrAddU | H_Lbu | H_Lbs | H_Lw | H_LwS | H_Ld | H_Sw | H_Sb | H_Sh
    | H_Sd | H_Time | H_TimeCfg | H_Stop | H_Nop | H_Fault

datatype hot_format =
    F_None | F_Ci | F_Erii | F_Erir | F_Erri | F_Ersi | F_Esii | F_Esir | F_I | F_R | F_Rci
    | F_Rici | F_Rir | F_Rirc | F_Rirci | F_Rirf | F_Rki | F_Rr | F_Rrc | F_Rrci | F_Rri | F_Rric
    | F_Rrici | F_Rrif | F_Rrr | F_Rrrc | F_Rrrci | F_Rrri | F_Rrrici | F_Ssi | F_Sss | F_Z
    | F_Zci | F_Zir | F_Zirc | F_Zirci | F_Zirf | F_Zr | F_Zrc | F_Zrci | F_Zri | F_Zric | F_Zrici
    | F_Zrif | F_Zrr | F_Zrrc | F_Zrrci | F_Zrri | F_Zrrici

datatype cc_kind =
    CC_None | CC_False | CC_True | CC_Zero | CC_NonZero | CC_Carry | CC_NoCarry
    | CC_LessEqualUnsigned | CC_GreaterUnsigned | CC_LessSigned | CC_LessEqualSigned
    | CC_GreaterSigned | CC_GreaterEqualSigned | CC_XZero | CC_XNonZero | CC_Max | CC_NotMax
    | CC_Even | CC_Odd | CC_XLessEqualUnsigned | CC_XGreaterUnsigned | CC_XLessEqualSigned
    | CC_XGreaterSigned | CC_SubwordNoCarry | CC_Unknown

datatype writeback_mode =
    WB_None | WB_DregSign32 | WB_DregZero32

datatype mul_byte_pair_mode =
    MB_None | MB_UlUl | MB_UlUh | MB_UhUl | MB_UhUh

datatype store_source_mode =
    SS_None | SS_Imm32 | SS_Reg32 | SS_Dreg64

datatype cc_map_kind =
    CM_None | CM_Map0 | CM_Map1 | CM_Map2 | CM_Map3 | CM_Map4 | CM_Map5 | CM_Map6 | CM_Map7
    | CM_Map8 | CM_Map9 | CM_Map10 | CM_Map11 | CM_Map13 | CM_Map14 | CM_Map15

record raw_decoded48 =
  rd_valid :: bool
  rd_hot_op :: hot_op
  rd_hot_fmt :: hot_format
  rd_has_ra :: bool
  rd_ra :: u32
  rd_has_rb :: bool
  rd_rb :: u32
  rd_has_rc :: bool
  rd_rc :: u32
  rd_has_dc :: bool
  rd_dc :: u32
  rd_has_db :: bool
  rd_db :: u32
  rd_has_imm :: bool
  rd_imm :: u32
  rd_has_off :: bool
  rd_off :: u32
  rd_has_pc :: bool
  rd_pc :: u32
  rd_has_shift :: bool
  rd_shift :: u32
  rd_has_immDma :: bool
  rd_immDma :: u32
  rd_has_endian :: bool
  rd_endian :: u32
  rd_has_cc :: bool
  rd_cc :: u32
  rd_off_uses_sign_extend24 :: bool
  rd_cc_kind :: cc_kind
  rd_cc_subword_bits :: u8
  rd_writeback_mode :: writeback_mode
  rd_mul_byte_pair_mode :: mul_byte_pair_mode
  rd_store_source_mode :: store_source_mode
  rd_hot_supported :: bool
  rd_imm_is_signed8 :: bool
  rd_imm_passthrough :: bool
  rd_suppress_scalar_write :: bool
  rd_acquire_is_release :: bool
  rd_dma_to_mram :: bool
  rd_movd_is_swap :: bool
  rd_clz_invert_input :: bool
  rd_time_cfg_uses_ra :: bool
  rd_sub_lhs_is_imm :: bool
  rd_sub_rhs_is_reg :: bool
  rd_sub_is_rrrc :: bool
  rd_sub_is_zrrc :: bool
  rd_subc_lhs_is_imm :: bool
  rd_subc_rhs_is_reg :: bool
  rd_subc_is_rrrc :: bool
  rd_subc_is_zrrc :: bool
  rd_cc_map_kind :: cc_map_kind

definition raw_decoded48_init :: raw_decoded48 where
  "raw_decoded48_init = \<lparr>
     rd_valid = False,
     rd_hot_op = H_None,
     rd_hot_fmt = F_None,
     rd_has_ra = False,
     rd_ra = 0,
     rd_has_rb = False,
     rd_rb = 0,
     rd_has_rc = False,
     rd_rc = 0,
     rd_has_dc = False,
     rd_dc = 0,
     rd_has_db = False,
     rd_db = 0,
     rd_has_imm = False,
     rd_imm = 0,
     rd_has_off = False,
     rd_off = 0,
     rd_has_pc = False,
     rd_pc = 0,
     rd_has_shift = False,
     rd_shift = 0,
     rd_has_immDma = False,
     rd_immDma = 0,
     rd_has_endian = False,
     rd_endian = 0,
     rd_has_cc = False,
     rd_cc = 0,
     rd_off_uses_sign_extend24 = False,
     rd_cc_kind = CC_None,
     rd_cc_subword_bits = 0,
     rd_writeback_mode = WB_None,
     rd_mul_byte_pair_mode = MB_None,
     rd_store_source_mode = SS_None,
     rd_hot_supported = False,
     rd_imm_is_signed8 = False,
     rd_imm_passthrough = False,
     rd_suppress_scalar_write = False,
     rd_acquire_is_release = False,
     rd_dma_to_mram = False,
     rd_movd_is_swap = False,
     rd_clz_invert_input = False,
     rd_time_cfg_uses_ra = False,
     rd_sub_lhs_is_imm = False,
     rd_sub_rhs_is_reg = False,
     rd_sub_is_rrrc = False,
     rd_sub_is_zrrc = False,
     rd_subc_lhs_is_imm = False,
     rd_subc_rhs_is_reg = False,
     rd_subc_is_rrrc = False,
     rd_subc_is_zrrc = False,
     rd_cc_map_kind = CM_None\<rparr>"

definition decode_cc_map_0_metadata :: "u32 \<Rightarrow> cc_kind \<times> u8" where
  "decode_cc_map_0_metadata cc =
     (if cc = 1 then (CC_True, 0)
      else if cc = 2 then (CC_Zero, 0)
      else if cc = 3 then (CC_NonZero, 0)
      else (CC_False, 0))"

definition decode_cc_map_1_metadata :: "u32 \<Rightarrow> cc_kind \<times> u8" where
  "decode_cc_map_1_metadata cc =
     (if cc = 6 then (CC_Zero, 0)
      else if cc = 7 then (CC_NonZero, 0)
      else if cc = 10 then (CC_XZero, 0)
      else if cc = 11 then (CC_XNonZero, 0)
      else (CC_False, 0))"

definition decode_cc_map_2_metadata :: "u32 \<Rightarrow> cc_kind \<times> u8" where
  "decode_cc_map_2_metadata cc =
     (if cc = 1 then (CC_True, 0)
      else if cc = 2 then (CC_Zero, 0)
      else if cc = 3 then (CC_NonZero, 0)
      else if cc = 4 then (CC_XZero, 0)
      else if cc = 5 then (CC_XNonZero, 0)
      else if cc = 8 \<or> cc = 14 then (CC_GreaterEqualSigned, 0)
      else if cc = 9 \<or> cc = 15 then (CC_LessSigned, 0)
      else if cc = 12 then (CC_Zero, 0)
      else if cc = 13 then (CC_NonZero, 0)
      else if cc = 18 \<or> cc = 19 then (CC_Unknown, 0)
      else if cc = 20 then (CC_Carry, 0)
      else if cc = 21 then (CC_NoCarry, 0)
      else if cc = 22 then (CC_SubwordNoCarry, 5)
      else if cc = 23 then (CC_SubwordNoCarry, 6)
      else if cc = 24 then (CC_SubwordNoCarry, 7)
      else if cc = 25 then (CC_SubwordNoCarry, 8)
      else if cc = 26 then (CC_SubwordNoCarry, 9)
      else if cc = 27 then (CC_SubwordNoCarry, 10)
      else if cc = 28 then (CC_SubwordNoCarry, 11)
      else if cc = 29 then (CC_SubwordNoCarry, 12)
      else if cc = 30 then (CC_SubwordNoCarry, 13)
      else if cc = 31 then (CC_SubwordNoCarry, 14)
      else (CC_False, 0))"

definition decode_cc_map_3_metadata :: "u32 \<Rightarrow> cc_kind \<times> u8" where
  "decode_cc_map_3_metadata cc =
     (if cc = 0 then (CC_False, 0)
      else (CC_False, 0))"

definition decode_cc_map_4_metadata :: "u32 \<Rightarrow> cc_kind \<times> u8" where
  "decode_cc_map_4_metadata cc =
     (if cc = 1 then (CC_True, 0)
      else if cc = 2 then (CC_Zero, 0)
      else if cc = 3 then (CC_NonZero, 0)
      else if cc = 4 then (CC_XZero, 0)
      else if cc = 5 then (CC_XNonZero, 0)
      else if cc = 8 \<or> cc = 14 then (CC_GreaterEqualSigned, 0)
      else if cc = 9 \<or> cc = 15 then (CC_LessSigned, 0)
      else if cc = 12 then (CC_Zero, 0)
      else if cc = 13 then (CC_NonZero, 0)
      else (CC_False, 0))"

definition decode_cc_map_5_metadata :: "u32 \<Rightarrow> cc_kind \<times> u8" where
  "decode_cc_map_5_metadata cc =
     (if cc = 1 then (CC_True, 0)
      else if cc = 2 then (CC_Zero, 0)
      else if cc = 3 then (CC_NonZero, 0)
      else if cc = 4 then (CC_XZero, 0)
      else if cc = 5 then (CC_XNonZero, 0)
      else if cc = 8 \<or> cc = 14 then (CC_GreaterEqualSigned, 0)
      else if cc = 9 \<or> cc = 15 then (CC_LessSigned, 0)
      else if cc = 12 then (CC_Zero, 0)
      else if cc = 13 then (CC_NonZero, 0)
      else if cc = 24 \<or> cc = 30 then (CC_Even, 0)
      else if cc = 25 \<or> cc = 31 then (CC_Odd, 0)
      else (CC_False, 0))"

definition decode_cc_map_6_metadata :: "u32 \<Rightarrow> cc_kind \<times> u8" where
  "decode_cc_map_6_metadata cc =
     (if cc = 1 then (CC_True, 0)
      else if cc = 2 then (CC_Zero, 0)
      else if cc = 3 then (CC_NonZero, 0)
      else if cc = 4 then (CC_XZero, 0)
      else if cc = 5 then (CC_XNonZero, 0)
      else if cc = 8 \<or> cc = 14 then (CC_GreaterEqualSigned, 0)
      else if cc = 9 \<or> cc = 15 then (CC_LessSigned, 0)
      else if cc = 12 then (CC_Zero, 0)
      else if cc = 13 then (CC_NonZero, 0)
      else if cc = 24 \<or> cc = 30 then (CC_Even, 0)
      else if cc = 25 \<or> cc = 31 then (CC_Odd, 0)
      else if cc = 28 \<or> cc = 29 then (CC_Unknown, 0)
      else (CC_False, 0))"

definition decode_cc_map_7_metadata :: "u32 \<Rightarrow> cc_kind \<times> u8" where
  "decode_cc_map_7_metadata cc =
     (if cc = 0 then (CC_False, 0)
      else if cc = 1 then (CC_True, 0)
      else if cc = 2 \<or> cc = 12 then (CC_Zero, 0)
      else if cc = 3 \<or> cc = 13 then (CC_NonZero, 0)
      else if cc = 4 then (CC_XZero, 0)
      else if cc = 5 then (CC_XNonZero, 0)
      else if cc = 14 then (CC_GreaterEqualSigned, 0)
      else if cc = 15 then (CC_LessSigned, 0)
      else (CC_False, 0))"

definition decode_cc_map_8_metadata :: "u32 \<Rightarrow> cc_kind \<times> u8" where
  "decode_cc_map_8_metadata cc =
     (if cc = 1 then (CC_True, 0)
      else if cc = 2 \<or> cc = 12 then (CC_Zero, 0)
      else if cc = 3 \<or> cc = 13 then (CC_NonZero, 0)
      else if cc = 4 then (CC_XZero, 0)
      else if cc = 5 then (CC_XNonZero, 0)
      else if cc = 8 then (CC_Max, 0)
      else if cc = 9 then (CC_NotMax, 0)
      else if cc = 14 then (CC_GreaterEqualSigned, 0)
      else if cc = 15 then (CC_LessSigned, 0)
      else (CC_False, 0))"

definition decode_cc_map_9_metadata :: "u32 \<Rightarrow> cc_kind \<times> u8" where
  "decode_cc_map_9_metadata cc =
     (if cc = 0 then (CC_False, 0)
      else if cc = 1 then (CC_True, 0)
      else if cc = 12 then (CC_Zero, 0)
      else if cc = 13 then (CC_NonZero, 0)
      else if cc = 14 then (CC_GreaterEqualSigned, 0)
      else if cc = 15 then (CC_LessSigned, 0)
      else (CC_False, 0))"

definition decode_cc_map_10_metadata :: "u32 \<Rightarrow> cc_kind \<times> u8" where
  "decode_cc_map_10_metadata cc =
     (if cc = 1 then (CC_True, 0)
      else if cc = 12 then (CC_Zero, 0)
      else if cc = 13 then (CC_NonZero, 0)
      else if cc = 14 then (CC_GreaterEqualSigned, 0)
      else if cc = 15 then (CC_LessSigned, 0)
      else (CC_False, 0))"

definition decode_cc_map_11_metadata :: "u32 \<Rightarrow> cc_kind \<times> u8" where
  "decode_cc_map_11_metadata cc =
     (if cc = 0 then (CC_False, 0)
      else if cc = 1 then (CC_True, 0)
      else (CC_False, 0))"

definition decode_cc_map_13_metadata :: "u32 \<Rightarrow> cc_kind \<times> u8" where
  "decode_cc_map_13_metadata cc =
     (if cc = 1 then (CC_True, 0)
      else if cc = 2 \<or> cc = 12 then (CC_Zero, 0)
      else if cc = 3 \<or> cc = 13 then (CC_NonZero, 0)
      else if cc = 4 then (CC_XZero, 0)
      else if cc = 5 then (CC_XNonZero, 0)
      else if cc = 8 \<or> cc = 14 then (CC_GreaterEqualSigned, 0)
      else if cc = 9 \<or> cc = 15 then (CC_LessSigned, 0)
      else if cc = 18 \<or> cc = 19 then (CC_Unknown, 0)
      else if cc = 20 then (CC_Carry, 0)
      else if cc = 21 then (CC_NoCarry, 0)
      else if cc = 22 then (CC_LessSigned, 0)
      else if cc = 23 then (CC_GreaterEqualSigned, 0)
      else if cc = 24 then (CC_LessEqualSigned, 0)
      else if cc = 25 then (CC_GreaterSigned, 0)
      else if cc = 26 then (CC_LessEqualUnsigned, 0)
      else if cc = 27 then (CC_GreaterUnsigned, 0)
      else if cc = 28 then (CC_XLessEqualSigned, 0)
      else if cc = 29 then (CC_XGreaterSigned, 0)
      else if cc = 30 then (CC_XLessEqualUnsigned, 0)
      else if cc = 31 then (CC_XGreaterUnsigned, 0)
      else (CC_False, 0))"

definition decode_cc_map_14_metadata :: "u32 \<Rightarrow> cc_kind \<times> u8" where
  "decode_cc_map_14_metadata cc =
     (if cc = 0 then (CC_NonZero, 0)
      else (CC_False, 0))"

definition decode_cc_map_15_metadata :: "u32 \<Rightarrow> cc_kind \<times> u8" where
  "decode_cc_map_15_metadata cc =
     (if cc = 6 \<or> cc = 34 \<or> cc = 44 then (CC_Zero, 0)
      else if cc = 7 \<or> cc = 35 \<or> cc = 45 then (CC_NonZero, 0)
      else if cc = 10 \<or> cc = 36 then (CC_XZero, 0)
      else if cc = 11 \<or> cc = 37 then (CC_XNonZero, 0)
      else if cc = 33 then (CC_True, 0)
      else if cc = 40 \<or> cc = 46 then (CC_GreaterEqualSigned, 0)
      else if cc = 41 \<or> cc = 47 then (CC_LessSigned, 0)
      else if cc = 50 \<or> cc = 51 then (CC_Unknown, 0)
      else if cc = 52 then (CC_Carry, 0)
      else if cc = 53 then (CC_NoCarry, 0)
      else if cc = 54 then (CC_LessSigned, 0)
      else if cc = 55 then (CC_GreaterEqualSigned, 0)
      else if cc = 56 then (CC_LessEqualSigned, 0)
      else if cc = 57 then (CC_GreaterSigned, 0)
      else if cc = 58 then (CC_LessEqualUnsigned, 0)
      else if cc = 59 then (CC_GreaterUnsigned, 0)
      else if cc = 60 then (CC_XLessEqualSigned, 0)
      else if cc = 61 then (CC_XGreaterSigned, 0)
      else if cc = 62 then (CC_XLessEqualUnsigned, 0)
      else if cc = 63 then (CC_XGreaterUnsigned, 0)
      else (CC_False, 0))"

section \<open>Which condition map an instruction uses\<close>

definition select_cc_map_48 :: "hot_op \<Rightarrow> hot_format \<Rightarrow> cc_map_kind" where
  "select_cc_map_48 op fmt =
     (if op = H_Acquire then (if fmt = F_Rici then CM_Map0 else CM_None)
      else if op = H_Release then (if fmt = F_Rici then CM_Map14 else CM_None)
      else if op \<in> {H_Add, H_Addc} then
        (if fmt \<in> {F_Rric, F_Rrrc, F_Zric, F_Zrrc} then CM_Map1
         else if fmt \<in> {F_Rrici, F_Rrrci, F_Zrici, F_Zrrci} then CM_Map2
         else if fmt \<in> {F_Rrif, F_Zrif} then CM_Map3
         else CM_None)
      else if op \<in> {H_Or, H_OrS, H_OrU, H_And, H_AndS, H_AndU} then
        (if fmt \<in> {F_Rric, F_Rrrc, F_Zric, F_Zrrc} then CM_Map1
         else if fmt \<in> {F_Rrici, F_Rrrci, F_Zrici, F_Zrrci} then CM_Map4
         else if fmt \<in> {F_Rrif, F_Zrif} then CM_Map3
         else CM_None)
      else if op \<in> {H_Sub, H_Subc} then
        (if fmt \<in> {F_Rirc, F_Zirc} then CM_Map1
         else if fmt \<in> {F_Rirci, F_Rrici, F_Rrrci, F_Zirci, F_Zrici, F_Zrrci} then CM_Map13
         else if fmt \<in> {F_Rirf, F_Rrif, F_Zirf, F_Zrif} then CM_Map3
         else if fmt \<in> {F_Rric, F_Rrrc, F_Zric, F_Zrrc} then CM_Map15
         else CM_None)
      else if op \<in> {H_Boot, H_Resume} then (if fmt = F_Rici then CM_Map7 else CM_None)
      else if op = H_Stop then (if fmt = F_Ci then CM_Map7 else CM_None)
      else if op \<in> {H_Lsl, H_LslS, H_LslU, H_Lslx, H_LslxS, H_LslxU,
                    H_Lsr, H_LsrS, H_LsrU, H_Lsrx, H_LsrxS, H_LsrxU} then
        (if fmt \<in> {F_Rric, F_Rrrc, F_Zric, F_Zrrc} then CM_Map1
         else if fmt \<in> {F_Rrici, F_Zrici} then CM_Map5
         else if fmt \<in> {F_Rrrci, F_Zrrci} then CM_Map6
         else CM_None)
      else if op \<in> {H_Movd, H_Swapd} then (if fmt = F_Rrci then CM_Map11 else CM_None)
      else if op \<in> {H_Clz, H_Clo} then
        (if fmt \<in> {F_Rrc, F_Zrc} then CM_Map1
         else if fmt \<in> {F_Rrci, F_Zrci} then CM_Map8
         else CM_None)
      else if op = H_MulStep then (if fmt = F_Rrrici then CM_Map7 else CM_None)
      else if op = H_DivStep then (if fmt = F_Rrrici then CM_Map9 else CM_None)
      else if op \<in> {H_LslAdd, H_LslAddS, H_LslAddU, H_LslSub, H_LslSubS, H_LslSubU,
                    H_LsrAdd, H_LsrAddS, H_LsrAddU} then
        (if fmt = F_Rrrici \<or> fmt = F_Zrrici then CM_Map10 else CM_None)
      else CM_None)"

definition decode_cc_metadata_48 :: "cc_map_kind \<Rightarrow> u32 \<Rightarrow> cc_kind \<times> u8" where
  "decode_cc_metadata_48 k cc =
     (if sint cc < 0 \<or> sint cc > 63 then (CC_False, 0)
      else case k of
          CM_Map0 \<Rightarrow> decode_cc_map_0_metadata cc
        | CM_Map1 \<Rightarrow> decode_cc_map_1_metadata cc
        | CM_Map2 \<Rightarrow> decode_cc_map_2_metadata cc
        | CM_Map3 \<Rightarrow> decode_cc_map_3_metadata cc
        | CM_Map4 \<Rightarrow> decode_cc_map_4_metadata cc
        | CM_Map5 \<Rightarrow> decode_cc_map_5_metadata cc
        | CM_Map6 \<Rightarrow> decode_cc_map_6_metadata cc
        | CM_Map7 \<Rightarrow> decode_cc_map_7_metadata cc
        | CM_Map8 \<Rightarrow> decode_cc_map_8_metadata cc
        | CM_Map9 \<Rightarrow> decode_cc_map_9_metadata cc
        | CM_Map10 \<Rightarrow> decode_cc_map_10_metadata cc
        | CM_Map11 \<Rightarrow> decode_cc_map_11_metadata cc
        | CM_Map13 \<Rightarrow> decode_cc_map_13_metadata cc
        | CM_Map14 \<Rightarrow> decode_cc_map_14_metadata cc
        | CM_Map15 \<Rightarrow> decode_cc_map_15_metadata cc
        | CM_None \<Rightarrow> (CC_False, 0))"

section \<open>The derived fields of a decoded instruction\<close>

text \<open>
  \<open>populate_hot_metadata_48\<close> clears the derived fields, fills the ones that depend on the condition
  field and then switches on the operation. The switch is cut into three definitions at the
  boundaries of its cases; each passes the operations it does not know to the next.
\<close>

definition reset_hot_metadata_48 :: "raw_decoded48 \<Rightarrow> raw_decoded48" where
  "reset_hot_metadata_48 decoded = decoded\<lparr>
     rd_off_uses_sign_extend24 := False, rd_cc_kind := CC_None, rd_cc_subword_bits := 0,
     rd_cc_map_kind := CM_None, rd_writeback_mode := WB_None, rd_mul_byte_pair_mode := MB_None,
     rd_store_source_mode := SS_None, rd_hot_supported := False, rd_imm_is_signed8 := False,
     rd_imm_passthrough := False, rd_suppress_scalar_write := False, rd_acquire_is_release := False,
     rd_dma_to_mram := False, rd_movd_is_swap := False, rd_clz_invert_input := False,
     rd_time_cfg_uses_ra := False, rd_sub_lhs_is_imm := False, rd_sub_rhs_is_reg := False,
     rd_sub_is_rrrc := False, rd_sub_is_zrrc := False, rd_subc_lhs_is_imm := False,
     rd_subc_rhs_is_reg := False, rd_subc_is_rrrc := False, rd_subc_is_zrrc := False\<rparr>"

definition populate_memory_ops :: "hot_op \<Rightarrow> hot_format \<Rightarrow> raw_decoded48 \<Rightarrow> raw_decoded48" where
  "populate_memory_ops op fmt decoded =
     (if op = H_Lbu then decoded\<lparr>rd_hot_supported := (fmt = F_Erri)\<rparr>
      else if op = H_Lbs then decoded\<lparr>rd_hot_supported := (fmt = F_Erri)\<rparr>
      else if op \<in> {H_Lw, H_LwS} then decoded\<lparr>
        rd_hot_supported := (fmt = F_Erri),
        rd_writeback_mode := (if op = H_LwS then WB_DregSign32 else WB_DregZero32)\<rparr>
      else if op = H_Ld then decoded\<lparr>rd_hot_supported := (fmt = F_Erri)\<rparr>
      else if op = H_Sw then decoded\<lparr>
        rd_hot_supported := (fmt \<in> {F_Erii, F_Erir}),
        rd_store_source_mode := (if fmt = F_Erii then SS_Imm32 else SS_Reg32)\<rparr>
      else if op = H_Sb then decoded\<lparr>
        rd_hot_supported := (fmt \<in> {F_Erii, F_Esii, F_Erir, F_Esir}),
        rd_store_source_mode := (if fmt \<in> {F_Erii, F_Esii} then SS_Imm32 else SS_Reg32)\<rparr>
      else if op = H_Sh then decoded\<lparr>
        rd_hot_supported := (fmt \<in> {F_Erii, F_Esii, F_Erir, F_Esir}),
        rd_store_source_mode := (if fmt \<in> {F_Erii, F_Esii} then SS_Imm32 else SS_Reg32)\<rparr>
      else if op = H_Sd then decoded\<lparr>
        rd_hot_supported := (fmt \<in> {F_Erii, F_Erir}),
        rd_store_source_mode := (if fmt = F_Erii then SS_Imm32 else SS_Dreg64)\<rparr>
      else if op = H_Time then decoded\<lparr>rd_hot_supported := (fmt = F_R)\<rparr>
      else if op = H_TimeCfg then decoded\<lparr>
        rd_hot_supported := (fmt \<in> {F_Rr, F_Zr}), rd_time_cfg_uses_ra := (fmt = F_Zr)\<rparr>
      else if op = H_Stop then decoded\<lparr>rd_hot_supported := (fmt = F_Ci)\<rparr>
      else if op = H_Nop then decoded\<lparr>rd_hot_supported := (fmt = F_None)\<rparr>
      else if op = H_Fault then decoded\<lparr>rd_hot_supported := (fmt = F_I)\<rparr>
      else decoded)"

definition populate_shift_ops :: "hot_op \<Rightarrow> hot_format \<Rightarrow> raw_decoded48 \<Rightarrow> raw_decoded48" where
  "populate_shift_ops op fmt decoded =
     (if op \<in> {H_Acquire, H_Release} then decoded\<lparr>
        rd_hot_supported := (fmt = F_Rici), rd_acquire_is_release := (op = H_Release)\<rparr>
      else if op = H_Resume then decoded\<lparr>rd_hot_supported := (fmt = F_Rici)\<rparr>
      else if op = H_Boot then decoded\<lparr>rd_hot_supported := (fmt = F_Rici)\<rparr>
      else if op = H_Call then decoded\<lparr>rd_hot_supported := (fmt \<in> {F_Rri, F_Zri})\<rparr>
      else if op \<in> {H_Ldma, H_Sdma} then decoded\<lparr>
        rd_hot_supported := (fmt = F_Rri), rd_dma_to_mram := (op = H_Sdma)\<rparr>
      else if op \<in> {H_Lsl, H_LslS, H_LslU, H_Lslx, H_LslxS, H_LslxU,
                    H_Lsr, H_LsrS, H_LsrU, H_Lsrx, H_LsrxS, H_LsrxU} then decoded\<lparr>
        rd_hot_supported := (fmt \<in> {F_Rri, F_Rric, F_Rrici, F_Rrr, F_Rrrc, F_Rrrci, F_Zri} \<or>
                             fmt \<in> {F_Zric, F_Zrici, F_Zrr, F_Zrrc, F_Zrrci})\<rparr>
      else if op \<in> {H_Movd, H_Swapd} then decoded\<lparr>
        rd_hot_supported := (fmt = F_Rrci), rd_movd_is_swap := (op = H_Swapd)\<rparr>
      else if op \<in> {H_Clz, H_Clo} then decoded\<lparr>
        rd_hot_supported := ((op = H_Clz \<and> fmt \<in> {F_Rr, F_Rrci}) \<or> (op = H_Clo \<and> fmt = F_Zrci)),
        rd_clz_invert_input := (op = H_Clo)\<rparr>
      else if op \<in> {H_MulUlUl, H_MulUlUh, H_MulUhUl, H_MulUhUh} then decoded\<lparr>
        rd_hot_supported := (fmt = F_Rrr),
        rd_mul_byte_pair_mode := (if op = H_MulUlUl then MB_UlUl else if op = H_MulUlUh then MB_UlUh
                                  else if op = H_MulUhUl then MB_UhUl else MB_UhUh)\<rparr>
      else if op \<in> {H_LslAdd, H_LslAddS, H_LslAddU} then decoded\<lparr>
        rd_hot_supported := (fmt \<in> {F_Rrri, F_Rrrici, F_Zrri, F_Zrrici}),
        rd_suppress_scalar_write := (op = H_LslAdd \<and> fmt \<in> {F_Zrri, F_Zrrici}),
        rd_writeback_mode := (if op = H_LslAddS then WB_DregSign32
                              else if op = H_LslAddU then WB_DregZero32 else rd_writeback_mode decoded)\<rparr>
      else if op \<in> {H_LslSub, H_LslSubS, H_LslSubU} then decoded\<lparr>
        rd_hot_supported := (fmt \<in> {F_Rrri, F_Rrrici, F_Zrri, F_Zrrici}),
        rd_suppress_scalar_write := (op = H_LslSub \<and> fmt \<in> {F_Zrri, F_Zrrici}),
        rd_writeback_mode := (if op = H_LslSubS then WB_DregSign32
                              else if op = H_LslSubU then WB_DregZero32 else rd_writeback_mode decoded)\<rparr>
      else if op \<in> {H_LsrAdd, H_LsrAddS, H_LsrAddU} then decoded\<lparr>
        rd_hot_supported := (fmt \<in> {F_Rrri, F_Rrrici, F_Zrrici}),
        rd_suppress_scalar_write := (op = H_LsrAdd \<and> fmt = F_Zrrici),
        rd_writeback_mode := (if op = H_LsrAddS then WB_DregSign32
                              else if op = H_LsrAddU then WB_DregZero32 else rd_writeback_mode decoded)\<rparr>
      else populate_memory_ops op fmt decoded)"

definition populate_alu_ops :: "hot_op \<Rightarrow> hot_format \<Rightarrow> raw_decoded48 \<Rightarrow> raw_decoded48" where
  "populate_alu_ops op fmt decoded =
     (if op \<in> {H_Or, H_OrS, H_OrU} then decoded\<lparr>
        rd_hot_supported := (fmt \<in> {F_Rri, F_Rrr, F_Rrif, F_Rrici, F_Rrrci, F_Zrr, F_Zrrci}),
        rd_suppress_scalar_write := (op = H_Or \<and> fmt \<in> {F_Zrr, F_Zrrci}),
        rd_writeback_mode := (if op = H_OrS then WB_DregSign32
                              else if op = H_OrU then WB_DregZero32 else rd_writeback_mode decoded)\<rparr>
      else if op = H_Add then decoded\<lparr>
        rd_hot_supported := (fmt \<in> {F_Rri, F_Rrr, F_Rrici, F_Rrrci}),
        rd_imm_is_signed8 := (fmt = F_Rrici)\<rparr>
      else if op = H_Addc then decoded\<lparr>rd_hot_supported := (fmt \<in> {F_Rri, F_Rrr, F_Zrr})\<rparr>
      else if op \<in> {H_And, H_AndS, H_AndU} then
        (if op = H_And then decoded\<lparr>rd_hot_supported := (fmt \<in> {F_Rri, F_Rrr, F_Rrici})\<rparr>
         else decoded\<lparr>
           rd_hot_supported := (fmt = F_Rki), rd_imm_passthrough := (fmt = F_Rki),
           rd_writeback_mode := (if op = H_AndS then WB_DregSign32 else WB_DregZero32)\<rparr>)
      else if op = H_Sub then decoded\<lparr>
        rd_hot_supported := (fmt \<in> {F_Rir, F_Rrr, F_Zrr, F_Rrrc, F_Zrrc, F_Rrrci, F_Zrrci} \<or>
                             fmt \<in> {F_Rrif, F_Rrici, F_Zrici}),
        rd_sub_lhs_is_imm := (fmt = F_Rir),
        rd_sub_rhs_is_reg := (fmt \<in> {F_Rrr, F_Zrr, F_Rrrc, F_Zrrc, F_Rrrci, F_Zrrci}),
        rd_sub_is_rrrc := (fmt = F_Rrrc), rd_sub_is_zrrc := (fmt = F_Zrrc)\<rparr>
      else if op = H_Subc then decoded\<lparr>
        rd_hot_supported := (fmt \<in> {F_Rir, F_Rirci, F_Zirci, F_Rrr, F_Zrr, F_Rrrc, F_Zrrc} \<or>
                             fmt \<in> {F_Rrrci, F_Zrrci, F_Rric, F_Zric, F_Rrici, F_Zrici}),
        rd_subc_lhs_is_imm := (fmt \<in> {F_Rir, F_Rirci, F_Zirci}),
        rd_subc_rhs_is_reg := (fmt \<in> {F_Rrr, F_Zrr, F_Rrrc, F_Zrrc, F_Rrrci, F_Zrrci}),
        rd_subc_is_rrrc := (fmt = F_Rrrc), rd_subc_is_zrrc := (fmt = F_Zrrc)\<rparr>
      else if op = H_MulStep then decoded\<lparr>rd_hot_supported := (fmt = F_Rrrici \<or> fmt = F_Rrri)\<rparr>
      else if op = H_DivStep then decoded\<lparr>rd_hot_supported := (fmt = F_Rrrici)\<rparr>
      else populate_shift_ops op fmt decoded)"

definition populate_hot_metadata_48 :: "raw_decoded48 \<Rightarrow> raw_decoded48" where
  "populate_hot_metadata_48 decoded =
     (let decoded = reset_hot_metadata_48 decoded in
      if \<not> rd_valid decoded \<or> rd_hot_op decoded = H_None then decoded
      else
        let fmt = rd_hot_fmt decoded;
            decoded = decoded\<lparr>rd_off_uses_sign_extend24 :=
              (fmt = F_Erri \<or> fmt = F_Erir \<or> fmt = F_Erii \<or> fmt = F_Esii \<or> fmt = F_Esir)\<rparr>;
            decoded =
              (if rd_has_cc decoded then
                 let k = select_cc_map_48 (rd_hot_op decoded) fmt;
                     (cck, bits) = decode_cc_metadata_48 k (rd_cc decoded)
                 in decoded\<lparr>rd_cc_map_kind := k, rd_cc_kind := cck, rd_cc_subword_bits := bits\<rparr>
               else decoded)
        in populate_alu_ops (rd_hot_op decoded) fmt decoded)"

end
