(* ===== verification/Decode_Base.thy ===== *)
theory Decode_Base
  imports Isa
begin

text \<open>
  The vocabulary of the instruction decoder \<open>decode_raw_word_48\<close> (\<open>dpu/pipeline.cc\<close>): the bit-field
  expression \<open>(instruction >> n) & m\<close>, one setter per operand field of \<open>RawDecoded48\<close> (the source
  always assigns \<open>out.x\<close> and \<open>out.has_x = true\<close> together), the two ways in which the decoder
  accepts a word, and the specification of what an accepted word looks like:

  \<^item> \<open>operands_placed\<close>: every operand that was extracted comes from its place in the word;
  \<^item> \<open>dec_in s\<close>: the state of the decoder between two tests, \<open>s\<close> being the operands read so far;
  \<^item> \<open>dec_ok\<close>: the state on return. An accepted word carries exactly the branch target, condition,
    endianness and destination fields that the name of its format announces.

  The rules \<open>dec_rules\<close> derive \<open>dec_ok\<close> for a decision tree by following its structure.
\<close>

section \<open>Bit fields and setters\<close>

definition fld :: "u64 \<Rightarrow> nat \<Rightarrow> u64 \<Rightarrow> u64" where
  "fld inst n m = drop_bit n inst AND m"

definition pos :: "u64 \<Rightarrow> nat \<Rightarrow> u64 \<Rightarrow> nat \<Rightarrow> u64" where
  "pos inst n m s = push_bit s (fld inst n m)"

definition sign_extend11 :: "u32 \<Rightarrow> u32" where
  "sign_extend11 v =
     (let masked = v AND 0x7FF
      in if masked AND 0x400 \<noteq> 0 then masked OR 0xFFFFF800 else masked)"

definition set_ra :: "u32 \<Rightarrow> raw_decoded48 \<Rightarrow> raw_decoded48" where
  "set_ra v out = out\<lparr>rd_ra := v, rd_has_ra := True\<rparr>"

definition set_rb :: "u32 \<Rightarrow> raw_decoded48 \<Rightarrow> raw_decoded48" where
  "set_rb v out = out\<lparr>rd_rb := v, rd_has_rb := True\<rparr>"

definition set_rc :: "u32 \<Rightarrow> raw_decoded48 \<Rightarrow> raw_decoded48" where
  "set_rc v out = out\<lparr>rd_rc := v, rd_has_rc := True\<rparr>"

definition set_dc :: "u32 \<Rightarrow> raw_decoded48 \<Rightarrow> raw_decoded48" where
  "set_dc v out = out\<lparr>rd_dc := v, rd_has_dc := True\<rparr>"

definition set_db :: "u32 \<Rightarrow> raw_decoded48 \<Rightarrow> raw_decoded48" where
  "set_db v out = out\<lparr>rd_db := v, rd_has_db := True\<rparr>"

definition set_imm :: "u32 \<Rightarrow> raw_decoded48 \<Rightarrow> raw_decoded48" where
  "set_imm v out = out\<lparr>rd_imm := v, rd_has_imm := True\<rparr>"

definition set_off :: "u32 \<Rightarrow> raw_decoded48 \<Rightarrow> raw_decoded48" where
  "set_off v out = out\<lparr>rd_off := v, rd_has_off := True\<rparr>"

definition set_pc :: "u32 \<Rightarrow> raw_decoded48 \<Rightarrow> raw_decoded48" where
  "set_pc v out = out\<lparr>rd_pc := v, rd_has_pc := True\<rparr>"

definition set_shift :: "u32 \<Rightarrow> raw_decoded48 \<Rightarrow> raw_decoded48" where
  "set_shift v out = out\<lparr>rd_shift := v, rd_has_shift := True\<rparr>"

definition set_immDma :: "u32 \<Rightarrow> raw_decoded48 \<Rightarrow> raw_decoded48" where
  "set_immDma v out = out\<lparr>rd_immDma := v, rd_has_immDma := True\<rparr>"

definition set_endian :: "u32 \<Rightarrow> raw_decoded48 \<Rightarrow> raw_decoded48" where
  "set_endian v out = out\<lparr>rd_endian := v, rd_has_endian := True\<rparr>"

definition set_cc :: "u32 \<Rightarrow> raw_decoded48 \<Rightarrow> raw_decoded48" where
  "set_cc v out = out\<lparr>rd_cc := v, rd_has_cc := True\<rparr>"

lemmas set_operand_defs =
  set_ra_def set_rb_def set_rc_def set_dc_def set_db_def set_imm_def set_off_def set_pc_def
  set_shift_def set_immDma_def set_endian_def set_cc_def

text \<open>\<open>set_hot_metadata\<close>; then \<open>out.valid = true; ... return true;\<close> with and without it.\<close>

definition set_hot_metadata :: "raw_decoded48 \<Rightarrow> hot_op \<Rightarrow> hot_format \<Rightarrow> raw_decoded48" where
  "set_hot_metadata decoded op fmt = decoded\<lparr>rd_hot_op := op, rd_hot_fmt := fmt\<rparr>"

definition accept_hot :: "hot_op \<Rightarrow> hot_format \<Rightarrow> raw_decoded48 \<Rightarrow> bool \<times> raw_decoded48" where
  "accept_hot op fmt out = (True, set_hot_metadata (out\<lparr>rd_valid := True\<rparr>) op fmt)"

definition accept_plain :: "raw_decoded48 \<Rightarrow> bool \<times> raw_decoded48" where
  "accept_plain out = (True, out\<lparr>rd_valid := True\<rparr>)"

section \<open>What a format promises\<close>

definition fmt_has_pc :: "hot_format \<Rightarrow> bool" where
  "fmt_has_pc fmt \<longleftrightarrow> fmt \<in> set [F_Rici, F_Ci, F_Rrici, F_Rirci, F_Zrici, F_Zirci, F_Rrrci, F_Zrrci,
     F_Rci, F_Zci, F_Rrci, F_Zrci, F_Rrrici, F_Zrrici]"

definition fmt_has_cc :: "hot_format \<Rightarrow> bool" where
  "fmt_has_cc fmt \<longleftrightarrow> fmt_has_pc fmt \<or>
     fmt \<in> set [F_Rric, F_Rirc, F_Zric, F_Zirc, F_Rrrc, F_Zrrc, F_Rrc, F_Zrc]"

definition fmt_has_endian :: "hot_format \<Rightarrow> bool" where
  "fmt_has_endian fmt \<longleftrightarrow> fmt \<in> set [F_Erii, F_Esii, F_Erri, F_Ersi, F_Erir, F_Esir]"

definition fmt_zero_dest :: "hot_format \<Rightarrow> bool" where
  "fmt_zero_dest fmt \<longleftrightarrow> fmt \<in> set [F_Zric, F_Zrici, F_Zrif, F_Zirc, F_Zirci, F_Zirf, F_Zrr, F_Zrrc,
     F_Zrrci, F_Z, F_Zci, F_Zr, F_Zrci, F_Zri, F_Zir, F_Zrc, F_Zrri, F_Zrrici]"

definition fmt_one_dest :: "hot_format \<Rightarrow> bool" where
  "fmt_one_dest fmt \<longleftrightarrow> fmt \<in> set [F_Erri, F_Ersi, F_Rric, F_Rrici, F_Rrif, F_Ssi, F_Rirc, F_Rirci,
     F_Rirf, F_Rrr, F_Rrrc, F_Rrrci, F_Sss, F_R, F_Rci, F_Rr, F_Rrci, F_Rki, F_Rir, F_Rrc, F_Rrri,
     F_Rrrici]"

datatype operand = RA | RB | RC | DC | DB | IMM | OFF | PC | SHIFT | IMMDMA | ENDIAN | CC

primrec has_operand :: "raw_decoded48 \<Rightarrow> operand \<Rightarrow> bool" where
  "has_operand out RA = rd_has_ra out"
| "has_operand out RB = rd_has_rb out"
| "has_operand out RC = rd_has_rc out"
| "has_operand out DC = rd_has_dc out"
| "has_operand out DB = rd_has_db out"
| "has_operand out IMM = rd_has_imm out"
| "has_operand out OFF = rd_has_off out"
| "has_operand out PC = rd_has_pc out"
| "has_operand out SHIFT = rd_has_shift out"
| "has_operand out IMMDMA = rd_has_immDma out"
| "has_operand out ENDIAN = rd_has_endian out"
| "has_operand out CC = rd_has_cc out"

definition operands_of :: "raw_decoded48 \<Rightarrow> operand set" where
  "operands_of out = {x. has_operand out x}"

definition format_fits :: "operand set \<Rightarrow> hot_format \<Rightarrow> bool" where
  "format_fits s fmt \<longleftrightarrow>
     (PC \<in> s \<longleftrightarrow> fmt_has_pc fmt) \<and> (CC \<in> s \<longleftrightarrow> fmt_has_cc fmt) \<and>
     (ENDIAN \<in> s \<longleftrightarrow> fmt_has_endian fmt) \<and>
     (fmt_zero_dest fmt \<longrightarrow> RC \<notin> s \<and> DC \<notin> s) \<and>
     (fmt_one_dest fmt \<longrightarrow> (RC \<in> s \<longleftrightarrow> DC \<notin> s)) \<and>
     (RA \<in> s \<or> RB \<in> s)"

text \<open>The places of the operands in the 48-bit word.\<close>

definition operands_placed :: "u64 \<Rightarrow> raw_decoded48 \<Rightarrow> bool" where
  "operands_placed inst out \<longleftrightarrow>
     rd_ra out \<in> set [0, ucast (pos inst 34 31 0), ucast (pos inst 17 7 0 OR pos inst 32 3 3)] \<and>
     rd_rb out \<in> set [0, ucast (pos inst 34 31 0), ucast (pos inst 17 7 0 OR pos inst 32 3 3)] \<and>
     rd_rc out \<in> set [0, ucast (pos inst 39 31 0), ucast (pos inst 39 7 0 OR pos inst 44 3 3)] \<and>
     rd_dc out \<in> set [0, ucast (pos inst 40 15 1), ucast (pos inst 40 3 1 OR pos inst 44 3 3),
       ucast (pos inst 39 31 0)] \<and>
     rd_db out \<in> set [0, ucast (pos inst 17 7 0 OR pos inst 32 3 3)] \<and>
     rd_pc out = (if rd_has_pc out then ucast (pos inst 0 65535 0) else 0) \<and>
     rd_shift out = (if rd_has_shift out then ucast (pos inst 20 15 0 OR pos inst 28 1 4) else 0) \<and>
     rd_immDma out = (if rd_has_immDma out then ucast (pos inst 24 255 0) else 0) \<and>
     rd_endian out = (if rd_has_endian out then ucast (pos inst 27 1 0) else 0) \<and>
     rd_cc out \<in> set [0, ucast (pos inst 24 3 0), ucast (pos inst 24 15 0), ucast (pos inst 24 31 0),
       ucast (pos inst 24 15 0 OR pos inst 29 1 4), ucast (pos inst 24 31 0 OR pos inst 30 1 5)]"

definition dec_in :: "operand set \<Rightarrow> u64 \<Rightarrow> raw_decoded48 \<Rightarrow> bool" where
  "dec_in s inst out \<longleftrightarrow>
     operands_of out = s \<and> operands_placed inst out \<and> \<not> rd_valid out \<and> rd_hot_op out = H_None \<and>
     \<not> rd_hot_supported out"

definition word_ok :: "u64 \<Rightarrow> bool \<Rightarrow> raw_decoded48 \<Rightarrow> bool" where
  "word_ok inst accepted out \<longleftrightarrow>
     operands_placed inst out \<and> (rd_valid out \<longleftrightarrow> accepted) \<and>
     (rd_hot_op out \<noteq> H_None \<longrightarrow> accepted \<and> format_fits (operands_of out) (rd_hot_fmt out))"

definition dec_ok :: "u64 \<Rightarrow> bool \<times> raw_decoded48 \<Rightarrow> bool" where
  "dec_ok inst r \<longleftrightarrow> word_ok inst (fst r) (snd r) \<and> \<not> rd_hot_supported (snd r)"

section \<open>Rules for decision trees\<close>

lemma has_operand_set [simp]:
  "has_operand (set_ra v out) x \<longleftrightarrow> x = RA \<or> has_operand out x"
  "has_operand (set_rb v out) x \<longleftrightarrow> x = RB \<or> has_operand out x"
  "has_operand (set_rc v out) x \<longleftrightarrow> x = RC \<or> has_operand out x"
  "has_operand (set_dc v out) x \<longleftrightarrow> x = DC \<or> has_operand out x"
  "has_operand (set_db v out) x \<longleftrightarrow> x = DB \<or> has_operand out x"
  "has_operand (set_imm v out) x \<longleftrightarrow> x = IMM \<or> has_operand out x"
  "has_operand (set_off v out) x \<longleftrightarrow> x = OFF \<or> has_operand out x"
  "has_operand (set_pc v out) x \<longleftrightarrow> x = PC \<or> has_operand out x"
  "has_operand (set_shift v out) x \<longleftrightarrow> x = SHIFT \<or> has_operand out x"
  "has_operand (set_immDma v out) x \<longleftrightarrow> x = IMMDMA \<or> has_operand out x"
  "has_operand (set_endian v out) x \<longleftrightarrow> x = ENDIAN \<or> has_operand out x"
  "has_operand (set_cc v out) x \<longleftrightarrow> x = CC \<or> has_operand out x"
  by (cases x; simp add: set_operand_defs)+

lemma has_operand_valid [simp]:
  "has_operand (out\<lparr>rd_valid := b\<rparr>) x = has_operand out x"
  "has_operand (set_hot_metadata out op fmt) x = has_operand out x"
  by (cases x; simp add: set_hot_metadata_def)+

lemma operands_of_set [simp]:
  "operands_of (set_ra v out) = insert RA (operands_of out)"
  "operands_of (set_rb v out) = insert RB (operands_of out)"
  "operands_of (set_rc v out) = insert RC (operands_of out)"
  "operands_of (set_dc v out) = insert DC (operands_of out)"
  "operands_of (set_db v out) = insert DB (operands_of out)"
  "operands_of (set_imm v out) = insert IMM (operands_of out)"
  "operands_of (set_off v out) = insert OFF (operands_of out)"
  "operands_of (set_pc v out) = insert PC (operands_of out)"
  "operands_of (set_shift v out) = insert SHIFT (operands_of out)"
  "operands_of (set_immDma v out) = insert IMMDMA (operands_of out)"
  "operands_of (set_endian v out) = insert ENDIAN (operands_of out)"
  "operands_of (set_cc v out) = insert CC (operands_of out)"
  "operands_of (out\<lparr>rd_valid := b\<rparr>) = operands_of out"
  "operands_of (set_hot_metadata out op fmt) = operands_of out"
  by (auto simp: operands_of_def)

lemma dec_init: "dec_in {} inst raw_decoded48_init"
proof -
  have "\<not> has_operand raw_decoded48_init x" for x
    by (cases x) (simp_all add: raw_decoded48_init_def)
  then show ?thesis
    by (simp add: dec_in_def operands_of_def operands_placed_def raw_decoded48_init_def)
qed

lemma dec_set_ra:
  assumes "dec_in s inst out"
  shows
    "dec_in (insert RA s) inst (set_ra (ucast (pos inst 34 31 0)) out)"
    "dec_in (insert RA s) inst (set_ra (ucast (pos inst 17 7 0 OR pos inst 32 3 3)) out)"
  using assms by (simp_all add: dec_in_def, simp_all add: operands_placed_def set_ra_def)

lemma dec_set_rb:
  assumes "dec_in s inst out"
  shows
    "dec_in (insert RB s) inst (set_rb (ucast (pos inst 34 31 0)) out)"
    "dec_in (insert RB s) inst (set_rb (ucast (pos inst 17 7 0 OR pos inst 32 3 3)) out)"
  using assms by (simp_all add: dec_in_def, simp_all add: operands_placed_def set_rb_def)

lemma dec_set_rc:
  assumes "dec_in s inst out"
  shows
    "dec_in (insert RC s) inst (set_rc (ucast (pos inst 39 31 0)) out)"
    "dec_in (insert RC s) inst (set_rc (ucast (pos inst 39 7 0 OR pos inst 44 3 3)) out)"
  using assms by (simp_all add: dec_in_def, simp_all add: operands_placed_def set_rc_def)

lemma dec_set_dc:
  assumes "dec_in s inst out"
  shows
    "dec_in (insert DC s) inst (set_dc (ucast (pos inst 40 15 1)) out)"
    "dec_in (insert DC s) inst (set_dc (ucast (pos inst 40 3 1 OR pos inst 44 3 3)) out)"
    "dec_in (insert DC s) inst (set_dc (ucast (pos inst 39 31 0)) out)"
  using assms by (simp_all add: dec_in_def, simp_all add: operands_placed_def set_dc_def)

lemma dec_set_db:
  assumes "dec_in s inst out"
  shows
    "dec_in (insert DB s) inst (set_db (ucast (pos inst 17 7 0 OR pos inst 32 3 3)) out)"
  using assms by (simp_all add: dec_in_def, simp_all add: operands_placed_def set_db_def)

lemma dec_set_imm:
  assumes "dec_in s inst out"
  shows
    "dec_in (insert IMM s) inst (set_imm v out)"
  using assms by (simp_all add: dec_in_def, simp_all add: operands_placed_def set_imm_def)

lemma dec_set_off:
  assumes "dec_in s inst out"
  shows
    "dec_in (insert OFF s) inst (set_off v out)"
  using assms by (simp_all add: dec_in_def, simp_all add: operands_placed_def set_off_def)

lemma dec_set_pc:
  assumes "dec_in s inst out"
  shows
    "dec_in (insert PC s) inst (set_pc (ucast (pos inst 0 65535 0)) out)"
  using assms by (simp_all add: dec_in_def, simp_all add: operands_placed_def set_pc_def)

lemma dec_set_shift:
  assumes "dec_in s inst out"
  shows
    "dec_in (insert SHIFT s) inst (set_shift (ucast (pos inst 20 15 0 OR pos inst 28 1 4)) out)"
  using assms by (simp_all add: dec_in_def, simp_all add: operands_placed_def set_shift_def)

lemma dec_set_immDma:
  assumes "dec_in s inst out"
  shows
    "dec_in (insert IMMDMA s) inst (set_immDma (ucast (pos inst 24 255 0)) out)"
  using assms by (simp_all add: dec_in_def, simp_all add: operands_placed_def set_immDma_def)

lemma dec_set_endian:
  assumes "dec_in s inst out"
  shows
    "dec_in (insert ENDIAN s) inst (set_endian (ucast (pos inst 27 1 0)) out)"
  using assms by (simp_all add: dec_in_def, simp_all add: operands_placed_def set_endian_def)

lemma dec_set_cc:
  assumes "dec_in s inst out"
  shows
    "dec_in (insert CC s) inst (set_cc (ucast (pos inst 24 3 0)) out)"
    "dec_in (insert CC s) inst (set_cc (ucast (pos inst 24 15 0)) out)"
    "dec_in (insert CC s) inst (set_cc (ucast (pos inst 24 31 0)) out)"
    "dec_in (insert CC s) inst (set_cc (ucast (pos inst 24 15 0 OR pos inst 29 1 4)) out)"
    "dec_in (insert CC s) inst (set_cc (ucast (pos inst 24 31 0 OR pos inst 30 1 5)) out)"
  using assms by (simp_all add: dec_in_def, simp_all add: operands_placed_def set_cc_def)

lemma dec_if:
  "dec_ok inst a \<Longrightarrow> dec_ok inst b \<Longrightarrow> dec_ok inst (if c then a else b)"
  by simp

lemma dec_let:
  "dec_in s inst a \<Longrightarrow> (\<And>x. dec_in s inst x \<Longrightarrow> dec_ok inst (f x)) \<Longrightarrow> dec_ok inst (Let a f)"
  by simp

lemma dec_reject: "dec_in s inst out \<Longrightarrow> dec_ok inst (False, out)"
  by (simp add: dec_in_def dec_ok_def word_ok_def)

lemma operands_placed_valid [simp]:
  "operands_placed inst (out\<lparr>rd_valid := b\<rparr>) = operands_placed inst out"
  "operands_placed inst (set_hot_metadata out op fmt) = operands_placed inst out"
  by (simp_all add: operands_placed_def set_hot_metadata_def)

lemma dec_accept_plain: "dec_in s inst out \<Longrightarrow> dec_ok inst (accept_plain out)"
  by (simp add: dec_in_def dec_ok_def word_ok_def accept_plain_def)

lemma dec_accept_hot:
  "dec_in s inst out \<Longrightarrow> format_fits s fmt \<Longrightarrow> dec_ok inst (accept_hot op fmt out)"
  by (simp add: dec_in_def dec_ok_def word_ok_def accept_hot_def) (simp add: set_hot_metadata_def)

lemmas dec_rules =
  dec_let dec_if dec_reject dec_accept_plain dec_accept_hot
  dec_set_ra dec_set_rb dec_set_rc dec_set_dc dec_set_db dec_set_imm dec_set_off dec_set_pc
  dec_set_shift dec_set_immDma dec_set_endian dec_set_cc

lemmas format_simps =
  format_fits_def fmt_has_pc_def fmt_has_cc_def fmt_has_endian_def fmt_zero_dest_def fmt_one_dest_def

end
