(* ===== verification/Decode_1.thy ===== *)
theory Decode_1
  imports Decode_Base
begin

text \<open>
  Part 1 of the decision tree of \<open>decode_raw_word_48\<close> (\<open>dpu/pipeline.cc\<close>). \<open>decode_at_N\<close> is the block
  of the function that starts at source line \<open>N\<close>; a block that is too long for one definition calls
  the definitions of its inner blocks, or of its remaining tests, at the place where the source has
  them. The lemma \<open>decode_at_N_ok\<close> states that the block, entered after the operands on the path to
  it were read, returns with an operand layout that its format announces.
\<close>

definition decode_at_1736 :: "u64 \<Rightarrow> raw_decoded48 \<Rightarrow> bool \<times> raw_decoded48" where
  "decode_at_1736 inst out =
     (if ((fld inst 39 0x1f) AND 0x1b) = 0x1b
     then (
       let out = set_ra (ucast (pos inst 34 31 0)) out
       in if fld inst 24 0xf < 0x6 \<or> fld inst 24 0xf > 0xb
       then (
         let out = set_cc (ucast (pos inst 24 15 0)) out;
             out = set_pc (ucast (pos inst 0 65535 0)) out;
             out = set_imm (ucast (pos inst 20 15 0 OR pos inst 16 15 4)) out
         in accept_hot H_Boot F_Rici out)
       else (False, out))
     else if ((fld inst 39 0x1f) AND 0x1f) = 0x19
     then (
       let out = set_ra (ucast (pos inst 34 31 0)) out
       in if fld inst 24 0xf < 0x6 \<or> fld inst 24 0xf > 0xb
       then (
         let out = set_cc (ucast (pos inst 24 15 0)) out;
             out = set_pc (ucast (pos inst 0 65535 0)) out;
             out = set_imm (ucast (pos inst 20 15 0 OR pos inst 16 15 4)) out
         in accept_plain out)
       else (False, out))
     else if ((fld inst 39 0x1f) AND 0x1f) = 0x1c
     then (
       if fld inst 34 0x1f = 0x18
       then (
         let out = set_ra (ucast (pos inst 34 31 0)) out
         in if fld inst 24 0xf = 0x0
         then (
           let out = set_imm (ucast (pos inst 20 15 0 OR pos inst 16 15 4 OR pos inst 15 1 8 OR
                                 pos inst 14 1 9 OR pos inst 13 1 10 OR pos inst 12 1 11 OR
                                 pos inst 0 4095 12)) out
           in accept_hot H_Fault F_I out)
         else (False, out))
       else (False, out))
     else if ((fld inst 39 0x1f) AND 0x1f) = 0x18
     then (
       if ((fld inst 28 0xf) AND 0xf) = 0x3
       then (
         let out = set_ra (ucast (pos inst 34 31 0)) out
         in if fld inst 24 0xf < 0x6 \<or> fld inst 24 0xf > 0xb
         then (
           let out = set_cc (ucast (pos inst 24 15 0)) out;
               out = set_pc (ucast (pos inst 0 65535 0)) out;
               out = set_imm (ucast (pos inst 20 15 0 OR pos inst 16 15 4)) out
           in accept_plain out)
         else (False, out))
       else (False, out))
     else if ((fld inst 39 0x1f) AND 0x1b) = 0x1a
     then (
       let out = set_ra (ucast (pos inst 34 31 0)) out
       in if fld inst 24 0xf < 0x6 \<or> fld inst 24 0xf > 0xb
       then (
         let out = set_cc (ucast (pos inst 24 15 0)) out;
             out = set_pc (ucast (pos inst 0 65535 0)) out;
             out = set_imm (ucast (pos inst 20 15 0 OR pos inst 16 15 4)) out
         in accept_hot H_Resume F_Rici out)
       else (False, out))
     else if ((fld inst 39 0x1f) AND 0x1f) = 0x1d
     then (
       if fld inst 34 0x1f = 0x1c
       then (
         let out = set_ra (ucast (pos inst 34 31 0)) out
         in if fld inst 24 0xf < 0x6 \<or> fld inst 24 0xf > 0xb
         then (
           let out = set_cc (ucast (pos inst 24 15 0)) out;
               out = set_pc (ucast (pos inst 0 65535 0)) out
           in accept_hot H_Stop F_Ci out)
         else (False, out))
       else (False, out))
     else (False, out))"

lemma decode_at_1736_ok: "dec_in {} inst out \<Longrightarrow> dec_ok inst (decode_at_1736 inst out)"
  unfolding decode_at_1736_def
  by (rule dec_rules | assumption | (unfold format_simps, simp))+

definition decode_at_2015 :: "u64 \<Rightarrow> raw_decoded48 \<Rightarrow> bool \<times> raw_decoded48" where
  "decode_at_2015 inst out =
     (if ((fld inst 28 0xf) AND 0xe) = 0x6
     then (
       let out = set_ra (ucast (pos inst 34 31 0)) out;
           out = set_off (ucast (pos inst 20 15 0 OR pos inst 39 7 4 OR pos inst 24 1 7 OR
                             pos inst 15 1 8 OR pos inst 14 1 9 OR pos inst 13 1 10 OR
                             pos inst 12 1 11)) out;
           out = set_endian (ucast (pos inst 27 1 0)) out
       in if ((fld inst 24 0xf) AND 0x6) = 0x0
       then (
         let out = set_imm (ucast (pos inst 16 15 0 OR pos inst 0 15 4)) out
         in accept_plain out)
       else if ((fld inst 24 0xf) AND 0x6) = 0x6
       then (
         let out = set_imm (ucast (pos inst 16 15 0 OR pos inst 0 4095 4)) out
         in accept_plain out)
       else if ((fld inst 24 0xf) AND 0x6) = 0x2
       then (
         let out = set_imm (ucast (pos inst 16 15 0 OR pos inst 0 4095 4)) out
         in accept_plain out)
       else if ((fld inst 24 0xf) AND 0x6) = 0x4
       then (
         let out = set_imm (ucast (pos inst 16 15 0 OR pos inst 0 4095 4)) out
         in accept_plain out)
       else (False, out))
     else (False, out))"

lemma decode_at_2015_ok: "dec_in {} inst out \<Longrightarrow> dec_ok inst (decode_at_2015 inst out)"
  unfolding decode_at_2015_def
  by (rule dec_rules | assumption | (unfold format_simps, simp))+

definition decode_at_1904 :: "u64 \<Rightarrow> raw_decoded48 \<Rightarrow> bool \<times> raw_decoded48" where
  "decode_at_1904 inst out =
     (if ((fld inst 28 0xf) AND 0xe) = 0x4
     then (
       if fld inst 28 0x1 = 0x0
       then (
         let out = set_ra (ucast (pos inst 34 31 0)) out;
             out = set_off (ucast (pos inst 20 15 0 OR pos inst 39 7 4 OR pos inst 24 1 7 OR
                               pos inst 15 1 8 OR pos inst 14 1 9 OR pos inst 13 1 10 OR
                               pos inst 12 1 11)) out;
             out = set_endian (ucast (pos inst 27 1 0)) out
         in if ((fld inst 24 0xf) AND 0x6) = 0x0
         then (
           let out = set_imm (ucast (pos inst 16 15 0 OR pos inst 0 15 4)) out
           in accept_hot H_Sb F_Erii out)
         else if ((fld inst 24 0xf) AND 0x6) = 0x6
         then (
           let out = set_imm (ucast (pos inst 16 15 0 OR pos inst 0 4095 4)) out
           in accept_hot H_Sd F_Erii out)
         else if ((fld inst 24 0xf) AND 0x6) = 0x2
         then (
           let out = set_imm (ucast (pos inst 16 15 0 OR pos inst 0 4095 4)) out
           in accept_hot H_Sh F_Erii out)
         else if ((fld inst 24 0xf) AND 0x6) = 0x4
         then (
           let out = set_imm (ucast (pos inst 16 15 0 OR pos inst 0 4095 4)) out
           in accept_hot H_Sw F_Erii out)
         else (False, out))
       else if fld inst 28 0x1 = 0x1
       then (
         let out = set_ra (ucast (pos inst 34 31 0)) out;
             out = set_off (ucast (pos inst 20 15 0 OR pos inst 39 7 4 OR pos inst 24 1 7 OR
                               pos inst 15 1 8 OR pos inst 14 1 9 OR pos inst 13 1 10 OR
                               pos inst 12 1 11)) out;
             out = set_endian (ucast (pos inst 27 1 0)) out
         in if ((fld inst 24 0xf) AND 0x6) = 0x0
         then (
           let out = set_imm (ucast (pos inst 16 15 0 OR pos inst 0 15 4)) out
           in accept_hot H_Sb F_Esii out)
         else if ((fld inst 24 0xf) AND 0x6) = 0x6
         then (
           let out = set_imm (ucast (pos inst 16 15 0 OR pos inst 0 4095 4)) out
           in accept_hot H_Sd F_Esii out)
         else if ((fld inst 24 0xf) AND 0x6) = 0x2
         then (
           let out = set_imm (ucast (pos inst 16 15 0 OR pos inst 0 4095 4)) out
           in accept_hot H_Sh F_Esii out)
         else if ((fld inst 24 0xf) AND 0x6) = 0x4
         then (
           let out = set_imm (ucast (pos inst 16 15 0 OR pos inst 0 4095 4)) out
           in accept_hot H_Sw F_Esii out)
         else (False, out))
       else (False, out))
     else decode_at_2015 inst out)"

lemma decode_at_1904_ok: "dec_in {} inst out \<Longrightarrow> dec_ok inst (decode_at_1904 inst out)"
  unfolding decode_at_1904_def
  by (rule dec_rules decode_at_2015_ok | assumption | (unfold format_simps, simp))+

definition decode_at_1863 :: "u64 \<Rightarrow> raw_decoded48 \<Rightarrow> bool \<times> raw_decoded48" where
  "decode_at_1863 inst out =
     (if ((fld inst 28 0xf) AND 0xf) = 0x0
     then (
       if ((fld inst 39 0x1f) AND 0x1f) = 0x18
       then (
         if fld inst 34 0x1f = 0x18
         then (
           let out = set_ra (ucast (pos inst 34 31 0)) out
           in if fld inst 24 0xf = 0x0
           then (
             if ((fld inst 16 0xf) AND 0xf) = 0x0
             then (
               if ((fld inst 0 0xffff) AND 0xffff) = 0x0
               then accept_hot H_Nop F_None out
               else (False, out))
             else (False, out))
           else (False, out))
         else if fld inst 37 0x3 \<noteq> 0x3
         then (
           let out = set_ra (ucast (pos inst 34 31 0)) out
           in if fld inst 24 0xf = 0x0
           then (
             let out = set_off (ucast (pos inst 20 15 0 OR pos inst 16 15 4 OR pos inst 15 1 8 OR
                                   pos inst 14 1 9 OR pos inst 13 1 10 OR pos inst 12 1 11 OR
                                   pos inst 0 4095 12)) out
             in accept_plain out)
           else (False, out))
         else (False, out))
       else (False, out))
     else decode_at_1904 inst out)"

lemma decode_at_1863_ok: "dec_in {} inst out \<Longrightarrow> dec_ok inst (decode_at_1863 inst out)"
  unfolding decode_at_1863_def
  by (rule dec_rules decode_at_1904_ok | assumption | (unfold format_simps, simp))+

definition decode_at_1735 :: "u64 \<Rightarrow> raw_decoded48 \<Rightarrow> bool \<times> raw_decoded48" where
  "decode_at_1735 inst out =
     (if ((fld inst 28 0xf) AND 0xe) = 0x2
     then decode_at_1736 inst out
     else decode_at_1863 inst out)"

lemma decode_at_1735_ok: "dec_in {} inst out \<Longrightarrow> dec_ok inst (decode_at_1735 inst out)"
  unfolding decode_at_1735_def
   by (rule dec_rules decode_at_1736_ok decode_at_1863_ok | assumption | (unfold format_simps,
      simp))+

definition decode_at_1707 :: "u64 \<Rightarrow> raw_decoded48 \<Rightarrow> bool \<times> raw_decoded48" where
  "decode_at_1707 inst out =
     (if ((fld inst 28 0xf) AND 0x8) = 0x8
     then (
       let out = set_ra (ucast (pos inst 34 31 0)) out;
           out = set_pc (ucast (pos inst 0 65535 0)) out;
           out = set_imm (ucast (pos inst 20 15 0 OR pos inst 16 15 4 OR pos inst 26 31 8 OR
                             pos inst 39 7 13)) out
       in if fld inst 24 0x3 \<noteq> 0x0
       then (
         let out = set_cc (ucast (pos inst 24 3 0)) out
         in accept_hot H_Acquire F_Rici out)
       else if fld inst 24 0x3 = 0x0
       then (
         let out = set_cc (ucast (pos inst 24 3 0)) out
         in accept_hot H_Release F_Rici out)
       else (False, out))
     else decode_at_1735 inst out)"

lemma decode_at_1707_ok: "dec_in {} inst out \<Longrightarrow> dec_ok inst (decode_at_1707 inst out)"
  unfolding decode_at_1707_def
  by (rule dec_rules decode_at_1735_ok | assumption | (unfold format_simps, simp))+

definition decode_at_2064 :: "u64 \<Rightarrow> raw_decoded48 \<Rightarrow> bool \<times> raw_decoded48" where
  "decode_at_2064 inst out =
     (let out = set_ra (ucast (pos inst 34 31 0)) out;
         out = set_off (ucast (pos inst 20 15 0 OR pos inst 16 15 4 OR pos inst 15 1 8 OR
                           pos inst 14 1 9 OR pos inst 13 1 10 OR pos inst 12 1 11 OR
                           pos inst 0 4095 12)) out;
         out = set_endian (ucast (pos inst 27 1 0)) out
     in if ((fld inst 24 0xf) AND 0x7) = 0x1
     then (
       if fld inst 29 0x1 = 0x1 \<and> fld inst 39 0x1 = 0x1
       then (
         let out = set_dc (ucast (pos inst 40 15 1)) out
         in accept_plain out)
       else if fld inst 29 0x1 = 0x0
       then (
         let out = set_rc (ucast (pos inst 39 31 0)) out
         in accept_hot H_Lbs F_Erri out)
       else (False, out))
     else if ((fld inst 24 0xf) AND 0x7) = 0x0
     then (
       if fld inst 29 0x1 = 0x1 \<and> fld inst 39 0x1 = 0x0
       then (
         let out = set_dc (ucast (pos inst 40 15 1)) out
         in accept_plain out)
       else if fld inst 29 0x1 = 0x0
       then (
         let out = set_rc (ucast (pos inst 39 31 0)) out
         in accept_hot H_Lbu F_Erri out)
       else (False, out))
     else if ((fld inst 24 0xf) AND 0x7) = 0x3
     then (
       if fld inst 29 0x1 = 0x1 \<and> fld inst 39 0x1 = 0x1
       then (
         let out = set_dc (ucast (pos inst 40 15 1)) out
         in accept_plain out)
       else if fld inst 29 0x1 = 0x0
       then (
         let out = set_rc (ucast (pos inst 39 31 0)) out
         in accept_plain out)
       else (False, out))
     else if ((fld inst 24 0xf) AND 0x7) = 0x2
     then (
       if fld inst 29 0x1 = 0x1 \<and> fld inst 39 0x1 = 0x0
       then (
         let out = set_dc (ucast (pos inst 40 15 1)) out
         in accept_plain out)
       else if fld inst 29 0x1 = 0x0
       then (
         let out = set_rc (ucast (pos inst 39 31 0)) out
         in accept_plain out)
       else (False, out))
     else if ((fld inst 24 0xf) AND 0x6) = 0x4
     then (
       if fld inst 29 0x1 = 0x1 \<and> fld inst 39 0x1 = 0x1
       then (
         let out = set_dc (ucast (pos inst 40 15 1)) out
         in accept_hot H_LwS F_Erri out)
       else if fld inst 29 0x1 = 0x1 \<and> fld inst 39 0x1 = 0x0
       then (
         let out = set_dc (ucast (pos inst 40 15 1)) out
         in accept_plain out)
       else if fld inst 29 0x1 = 0x0
       then (
         let out = set_rc (ucast (pos inst 39 31 0)) out
         in accept_hot H_Lw F_Erri out)
       else (False, out))
     else (False, out))"

lemma decode_at_2064_ok: "dec_in {} inst out \<Longrightarrow> dec_ok inst (decode_at_2064 inst out)"
  unfolding decode_at_2064_def
  by (rule dec_rules | assumption | (unfold format_simps, simp))+

definition decode_at_2186 :: "u64 \<Rightarrow> raw_decoded48 \<Rightarrow> bool \<times> raw_decoded48" where
  "decode_at_2186 inst out =
     (if fld inst 28 0x1 = 0x1
     then (
       let out = set_ra (ucast (pos inst 34 31 0)) out;
           out = set_off (ucast (pos inst 20 15 0 OR pos inst 16 15 4 OR pos inst 15 1 8 OR
                             pos inst 14 1 9 OR pos inst 13 1 10 OR pos inst 12 1 11 OR
                             pos inst 0 4095 12)) out;
           out = set_endian (ucast (pos inst 27 1 0)) out
       in if ((fld inst 24 0xf) AND 0x7) = 0x1
       then (
         if fld inst 29 0x1 = 0x0
         then (
           let out = set_rc (ucast (pos inst 39 31 0)) out
           in accept_hot H_Lbs F_Ersi out)
         else (False, out))
       else if ((fld inst 24 0xf) AND 0x7) = 0x0
       then (
         if fld inst 29 0x1 = 0x0
         then (
           let out = set_rc (ucast (pos inst 39 31 0)) out
           in accept_hot H_Lbu F_Ersi out)
         else (False, out))
       else if ((fld inst 24 0xf) AND 0x7) = 0x3
       then (
         if fld inst 29 0x1 = 0x0
         then (
           let out = set_rc (ucast (pos inst 39 31 0)) out
           in accept_plain out)
         else (False, out))
       else if ((fld inst 24 0xf) AND 0x7) = 0x2
       then (
         if fld inst 29 0x1 = 0x0
         then (
           let out = set_rc (ucast (pos inst 39 31 0)) out
           in accept_plain out)
         else (False, out))
       else if ((fld inst 24 0xf) AND 0x6) = 0x4
       then (
         if fld inst 29 0x1 = 0x0
         then (
           let out = set_rc (ucast (pos inst 39 31 0)) out
           in accept_hot H_Lw F_Ersi out)
         else (False, out))
       else (False, out))
     else (False, out))"

lemma decode_at_2186_ok: "dec_in {} inst out \<Longrightarrow> dec_ok inst (decode_at_2186 inst out)"
  unfolding decode_at_2186_def
  by (rule dec_rules | assumption | (unfold format_simps, simp))+

definition decode_at_2063 :: "u64 \<Rightarrow> raw_decoded48 \<Rightarrow> bool \<times> raw_decoded48" where
  "decode_at_2063 inst out =
     (if fld inst 28 0x1 = 0x0
     then decode_at_2064 inst out
     else decode_at_2186 inst out)"

lemma decode_at_2063_ok: "dec_in {} inst out \<Longrightarrow> dec_ok inst (decode_at_2063 inst out)"
  unfolding decode_at_2063_def
   by (rule dec_rules decode_at_2064_ok decode_at_2186_ok | assumption | (unfold format_simps,
      simp))+

definition decode_at_2062 :: "u64 \<Rightarrow> raw_decoded48 \<Rightarrow> bool \<times> raw_decoded48" where
  "decode_at_2062 inst out =
     (if ((fld inst 28 0xf) AND 0xc) = 0x4
     then decode_at_2063 inst out
     else (False, out))"

lemma decode_at_2062_ok: "dec_in {} inst out \<Longrightarrow> dec_ok inst (decode_at_2062 inst out)"
  unfolding decode_at_2062_def
  by (rule dec_rules decode_at_2063_ok | assumption | (unfold format_simps, simp))+

definition decode_at_2263 :: "u64 \<Rightarrow> raw_decoded48 \<Rightarrow> bool \<times> raw_decoded48" where
  "decode_at_2263 inst out =
     (if fld inst 25 0x3 = 0x3
     then (
       if ((fld inst 28 0xf) AND 0xe) = 0x4
       then (
         if fld inst 28 0x1 = 0x0
         then (
           let out = set_ra (ucast (pos inst 34 31 0)) out;
               out = set_off (ucast (pos inst 20 15 0 OR pos inst 16 15 4 OR pos inst 15 1 8 OR
                                 pos inst 14 1 9 OR pos inst 13 1 10 OR pos inst 12 1 11 OR
                                 pos inst 0 4095 12)) out;
               out = set_endian (ucast (pos inst 27 1 0)) out
           in if ((fld inst 24 0xf) AND 0x6) = 0x6
           then (
             let out = set_dc (ucast (pos inst 39 31 0)) out
             in accept_hot H_Ld F_Erri out)
           else (False, out))
         else if fld inst 28 0x1 = 0x1
         then (
           let out = set_ra (ucast (pos inst 34 31 0)) out;
               out = set_off (ucast (pos inst 20 15 0 OR pos inst 16 15 4 OR pos inst 15 1 8 OR
                                 pos inst 14 1 9 OR pos inst 13 1 10 OR pos inst 12 1 11 OR
                                 pos inst 0 4095 12)) out;
               out = set_endian (ucast (pos inst 27 1 0)) out
           in if ((fld inst 24 0xf) AND 0x6) = 0x6
           then (
             let out = set_dc (ucast (pos inst 39 31 0)) out
             in accept_hot H_Ld F_Ersi out)
           else (False, out))
         else (False, out))
       else (False, out))
     else (False, out))"

lemma decode_at_2263_ok: "dec_in {} inst out \<Longrightarrow> dec_ok inst (decode_at_2263 inst out)"
  unfolding decode_at_2263_def
  by (rule dec_rules | assumption | (unfold format_simps, simp))+

definition decode_at_2061 :: "u64 \<Rightarrow> raw_decoded48 \<Rightarrow> bool \<times> raw_decoded48" where
  "decode_at_2061 inst out =
     (if fld inst 25 0x3 \<noteq> 0x3
     then decode_at_2062 inst out
     else decode_at_2263 inst out)"

lemma decode_at_2061_ok: "dec_in {} inst out \<Longrightarrow> dec_ok inst (decode_at_2061 inst out)"
  unfolding decode_at_2061_def
   by (rule dec_rules decode_at_2062_ok decode_at_2263_ok | assumption | (unfold format_simps,
      simp))+

definition decode_at_2060 :: "u64 \<Rightarrow> raw_decoded48 \<Rightarrow> bool \<times> raw_decoded48" where
  "decode_at_2060 inst out =
     (if fld inst 42 0x3 \<noteq> 0x3
     then decode_at_2061 inst out
     else (False, out))"

lemma decode_at_2060_ok: "dec_in {} inst out \<Longrightarrow> dec_ok inst (decode_at_2060 inst out)"
  unfolding decode_at_2060_def
  by (rule dec_rules decode_at_2061_ok | assumption | (unfold format_simps, simp))+

definition decode_at_1706 :: "u64 \<Rightarrow> raw_decoded48 \<Rightarrow> bool \<times> raw_decoded48" where
  "decode_at_1706 inst out =
     (if fld inst 42 0x3 = 0x3
     then decode_at_1707 inst out
     else decode_at_2060 inst out)"

lemma decode_at_1706_ok: "dec_in {} inst out \<Longrightarrow> dec_ok inst (decode_at_1706 inst out)"
  unfolding decode_at_1706_def
   by (rule dec_rules decode_at_1707_ok decode_at_2060_ok | assumption | (unfold format_simps,
      simp))+

definition decode_at_2353 :: "u64 \<Rightarrow> raw_decoded48 \<Rightarrow> bool \<times> raw_decoded48" where
  "decode_at_2353 inst out =
     (if fld inst 16 0x1 = 0x0
     then (
       let out = set_rb (ucast (pos inst 17 7 0 OR pos inst 32 3 3)) out;
           out = set_ra (ucast (pos inst 34 31 0)) out
       in if ((fld inst 28 0xf) AND 0xc) = 0x4
       then (
         if fld inst 28 0x1 = 0x0
         then (
           let out = set_off (ucast (pos inst 20 15 0 OR pos inst 39 7 4 OR pos inst 24 1 7 OR
                                 pos inst 15 1 8 OR pos inst 14 1 9 OR pos inst 13 1 10 OR
                                 pos inst 12 1 11 OR pos inst 0 4095 12)) out;
               out = set_endian (ucast (pos inst 27 1 0)) out
           in if ((fld inst 24 0xf) AND 0x6) = 0x0
           then accept_hot H_Sb F_Erir out
           else if ((fld inst 24 0xf) AND 0x6) = 0x2
           then accept_hot H_Sh F_Erir out
           else if ((fld inst 24 0xf) AND 0x6) = 0x4
           then accept_hot H_Sw F_Erir out
           else (False, out))
         else if fld inst 28 0x1 = 0x1
         then (
           let out = set_off (ucast (pos inst 20 15 0 OR pos inst 39 7 4 OR pos inst 24 1 7 OR
                                 pos inst 15 1 8 OR pos inst 14 1 9 OR pos inst 13 1 10 OR
                                 pos inst 12 1 11 OR pos inst 0 4095 12)) out;
               out = set_endian (ucast (pos inst 27 1 0)) out
           in if ((fld inst 24 0xf) AND 0x6) = 0x0
           then accept_hot H_Sb F_Esir out
           else if ((fld inst 24 0xf) AND 0x6) = 0x2
           then accept_hot H_Sh F_Esir out
           else if ((fld inst 24 0xf) AND 0x6) = 0x4
           then accept_hot H_Sw F_Esir out
           else (False, out))
         else (False, out))
       else (False, out))
     else if fld inst 16 0x1 = 0x1
     then (
       let out = set_db (ucast (pos inst 17 7 0 OR pos inst 32 3 3)) out;
           out = set_ra (ucast (pos inst 34 31 0)) out
       in if ((fld inst 28 0xf) AND 0xc) = 0x4
       then (
         if fld inst 28 0x1 = 0x0
         then (
           let out = set_off (ucast (pos inst 20 15 0 OR pos inst 39 7 4 OR pos inst 24 1 7 OR
                                 pos inst 15 1 8 OR pos inst 14 1 9 OR pos inst 13 1 10 OR
                                 pos inst 12 1 11 OR pos inst 0 4095 12)) out;
               out = set_endian (ucast (pos inst 27 1 0)) out
           in if ((fld inst 24 0xf) AND 0x6) = 0x6
           then accept_hot H_Sd F_Erir out
           else (False, out))
         else if fld inst 28 0x1 = 0x1
         then (
           let out = set_off (ucast (pos inst 20 15 0 OR pos inst 39 7 4 OR pos inst 24 1 7 OR
                                 pos inst 15 1 8 OR pos inst 14 1 9 OR pos inst 13 1 10 OR
                                 pos inst 12 1 11 OR pos inst 0 4095 12)) out;
               out = set_endian (ucast (pos inst 27 1 0)) out
           in if ((fld inst 24 0xf) AND 0x6) = 0x6
           then accept_hot H_Sd F_Esir out
           else (False, out))
         else (False, out))
       else (False, out))
     else (False, out))"

lemma decode_at_2353_ok: "dec_in {} inst out \<Longrightarrow> dec_ok inst (decode_at_2353 inst out)"
  unfolding decode_at_2353_def
  by (rule dec_rules | assumption | (unfold format_simps, simp))+

definition decode_at_2352 :: "u64 \<Rightarrow> raw_decoded48 \<Rightarrow> bool \<times> raw_decoded48" where
  "decode_at_2352 inst out =
     (if fld inst 42 0x3 = 0x3
     then decode_at_2353 inst out
     else (False, out))"

lemma decode_at_2352_ok: "dec_in {} inst out \<Longrightarrow> dec_ok inst (decode_at_2352 inst out)"
  unfolding decode_at_2352_def
  by (rule dec_rules decode_at_2353_ok | assumption | (unfold format_simps, simp))+

definition decode_at_2326 :: "u64 \<Rightarrow> raw_decoded48 \<Rightarrow> bool \<times> raw_decoded48" where
  "decode_at_2326 inst out =
     (if ((fld inst 39 0x1f) AND 0x1f) = 0x0
     then (
       let out = set_immDma (ucast (pos inst 24 255 0)) out;
           out = set_rb (ucast (pos inst 17 7 0 OR pos inst 32 3 3)) out;
           out = set_ra (ucast (pos inst 34 31 0)) out
       in if ((fld inst 0 0xffff) AND 0xffff) = 0x0
       then accept_hot H_Ldma F_Rri out
       else if ((fld inst 0 0xffff) AND 0xffff) = 0x1
       then accept_plain out
       else if ((fld inst 0 0xffff) AND 0xffff) = 0x2
       then accept_hot H_Sdma F_Rri out
       else (False, out))
     else decode_at_2352 inst out)"

lemma decode_at_2326_ok: "dec_in {} inst out \<Longrightarrow> dec_ok inst (decode_at_2326 inst out)"
  unfolding decode_at_2326_def
  by (rule dec_rules decode_at_2352_ok | assumption | (unfold format_simps, simp))+

definition decode_at_2325 :: "u64 \<Rightarrow> raw_decoded48 \<Rightarrow> bool \<times> raw_decoded48" where
  "decode_at_2325 inst out =
     (if fld inst 32 0x3 \<noteq> 0x3
     then decode_at_2326 inst out
     else (False, out))"

lemma decode_at_2325_ok: "dec_in {} inst out \<Longrightarrow> dec_ok inst (decode_at_2325 inst out)"
  unfolding decode_at_2325_def
  by (rule dec_rules decode_at_2326_ok | assumption | (unfold format_simps, simp))+

definition decode_at_1705 :: "u64 \<Rightarrow> raw_decoded48 \<Rightarrow> bool \<times> raw_decoded48" where
  "decode_at_1705 inst out =
     (if fld inst 32 0x3 = 0x3
     then decode_at_1706 inst out
     else decode_at_2325 inst out)"

lemma decode_at_1705_ok: "dec_in {} inst out \<Longrightarrow> dec_ok inst (decode_at_1705 inst out)"
  unfolding decode_at_1705_def
   by (rule dec_rules decode_at_1706_ok decode_at_2325_ok | assumption | (unfold format_simps,
      simp))+

definition decode_at_2818 :: "u64 \<Rightarrow> raw_decoded48 \<Rightarrow> bool \<times> raw_decoded48" where
  "decode_at_2818 inst out =
     (if ((fld inst 28 0xf) AND 0xe) = 0x6
     then (
       if ((fld inst 26 0x1) XOR (fld inst 27 0x1)) = 0x1 \<and> (fld inst 25 0x1 = 0x1
          \<and> fld inst 28 0x1 = 0x0)
       then (
         let out = set_cc (ucast (pos inst 24 31 0)) out;
             out = set_imm (ucast (pos inst 20 15 0 OR pos inst 16 15 4 OR pos inst 15 1 8 OR
                               pos inst 14 1 9 OR pos inst 13 1 10 OR pos inst 12 1 11 OR
                               pos inst 0 4095 12)) out
         in accept_plain out)
       else if (fld inst 24 0x1f < 0x6 \<or> (fld inst 24 0x1f > 0xb
          \<or> ((fld inst 24 0x1f) AND 0x1e) = 0x8)) \<and> fld inst 24 0x1f \<noteq> 0x0
       then (
         let out = set_cc (ucast (pos inst 24 31 0)) out;
             out = set_pc (ucast (pos inst 0 65535 0)) out;
             out = set_imm (ucast (pos inst 20 15 0 OR pos inst 16 15 4)) out
         in accept_plain out)
       else if fld inst 24 0x1f = 0x0
       then (
         let out = set_imm (ucast (pos inst 20 15 0 OR pos inst 16 15 4 OR pos inst 15 1 8 OR
                               pos inst 14 1 9 OR pos inst 13 1 10 OR pos inst 12 1 11 OR
                               pos inst 0 4095 12)) out
         in accept_plain out)
       else (False, out))
     else if ((fld inst 28 0xf) AND 0xa) = 0xa
     then (
       if fld inst 28 0x1 \<noteq> 0x1 \<or> fld inst 24 0xf \<noteq> 0x0
       then (
         if (fld inst 30 0x1 = 0x1 \<or> (((fld inst 26 0x1) XOR (fld inst 27 0x1)) = 0x1
            \<and> (fld inst 25 0x1 = 0x1 \<and> fld inst 28 0x1 = 0x0)))
            \<and> (fld inst 30 0x1 \<noteq> 0x1 \<or> fld inst 24 0x1f \<noteq> 0x0)
         then (
           let out = set_cc (ucast (pos inst 24 31 0 OR pos inst 30 1 5)) out;
               out = set_imm (ucast (pos inst 20 15 0 OR pos inst 16 15 4 OR pos inst 15 1 8 OR
                                 pos inst 14 1 9 OR pos inst 13 1 10 OR pos inst 12 1 11 OR
                                 pos inst 0 4095 12)) out
           in accept_plain out)
         else if (fld inst 30 0x1 = 0x0 \<and> (fld inst 24 0x1f < 0x6 \<or> (fld inst 24 0x1f > 0xb
            \<or> ((fld inst 24 0x1f) AND 0x1e) = 0x8))) \<and> (fld inst 30 0x1 \<noteq> 0x0
            \<or> fld inst 24 0x1f \<noteq> 0x0)
         then (
           let out = set_cc (ucast (pos inst 24 31 0 OR pos inst 30 1 5)) out;
               out = set_pc (ucast (pos inst 0 65535 0)) out;
               out = set_imm (ucast (pos inst 20 15 0 OR pos inst 16 15 4)) out
           in accept_plain out)
         else if fld inst 24 0x1f = 0x0 \<and> fld inst 30 0x1 = 0x0
         then (
           let out = set_imm (ucast (pos inst 20 15 0 OR pos inst 16 15 4 OR pos inst 15 1 8 OR
                                 pos inst 14 1 9 OR pos inst 13 1 10 OR pos inst 12 1 11 OR
                                 pos inst 0 4095 12)) out
           in accept_plain out)
         else (False, out))
       else (False, out))
     else (False, out))"

lemma decode_at_2818_ok: "dec_in {RA, DC} inst out \<Longrightarrow> dec_ok inst (decode_at_2818 inst out)"
  unfolding decode_at_2818_def
  by (rule dec_rules | assumption | (unfold format_simps, simp))+

definition decode_at_2711 :: "u64 \<Rightarrow> raw_decoded48 \<Rightarrow> bool \<times> raw_decoded48" where
  "decode_at_2711 inst out =
     (if ((fld inst 28 0xf) AND 0xe) = 0x4
     then (
       if ((fld inst 26 0x1) XOR (fld inst 27 0x1)) = 0x1 \<and> (fld inst 25 0x1 = 0x1
          \<and> fld inst 28 0x1 = 0x0)
       then (
         let out = set_cc (ucast (pos inst 24 31 0)) out;
             out = set_imm (ucast (pos inst 20 15 0 OR pos inst 16 15 4 OR pos inst 15 1 8 OR
                               pos inst 14 1 9 OR pos inst 13 1 10 OR pos inst 12 1 11 OR
                               pos inst 0 4095 12)) out
         in accept_plain out)
       else if (fld inst 24 0x1f < 0x6 \<or> (fld inst 24 0x1f > 0xb
          \<or> ((fld inst 24 0x1f) AND 0x1e) = 0x8)) \<and> fld inst 24 0x1f \<noteq> 0x0
       then (
         let out = set_cc (ucast (pos inst 24 31 0)) out;
             out = set_pc (ucast (pos inst 0 65535 0)) out;
             out = set_imm (ucast (pos inst 20 15 0 OR pos inst 16 15 4)) out
         in accept_plain out)
       else if fld inst 24 0x1f = 0x0
       then (
         let out = set_imm (ucast (pos inst 20 15 0 OR pos inst 16 15 4 OR pos inst 15 1 8 OR
                               pos inst 14 1 9 OR pos inst 13 1 10 OR pos inst 12 1 11 OR
                               pos inst 0 4095 12)) out
         in accept_plain out)
       else (False, out))
     else if ((fld inst 28 0xf) AND 0xa) = 0x8
     then (
       if fld inst 28 0x1 \<noteq> 0x1 \<or> fld inst 24 0xf \<noteq> 0x0
       then (
         if (fld inst 30 0x1 = 0x1 \<or> (((fld inst 26 0x1) XOR (fld inst 27 0x1)) = 0x1
            \<and> (fld inst 25 0x1 = 0x1 \<and> fld inst 28 0x1 = 0x0)))
            \<and> (fld inst 30 0x1 \<noteq> 0x1 \<or> fld inst 24 0x1f \<noteq> 0x0)
         then (
           let out = set_cc (ucast (pos inst 24 31 0 OR pos inst 30 1 5)) out;
               out = set_imm (ucast (pos inst 20 15 0 OR pos inst 16 15 4 OR pos inst 15 1 8 OR
                                 pos inst 14 1 9 OR pos inst 13 1 10 OR pos inst 12 1 11 OR
                                 pos inst 0 4095 12)) out
           in accept_plain out)
         else if (fld inst 30 0x1 = 0x0 \<and> (fld inst 24 0x1f < 0x6 \<or> (fld inst 24 0x1f > 0xb
            \<or> ((fld inst 24 0x1f) AND 0x1e) = 0x8))) \<and> (fld inst 30 0x1 \<noteq> 0x0
            \<or> fld inst 24 0x1f \<noteq> 0x0)
         then (
           let out = set_cc (ucast (pos inst 24 31 0 OR pos inst 30 1 5)) out;
               out = set_pc (ucast (pos inst 0 65535 0)) out;
               out = set_imm (ucast (pos inst 20 15 0 OR pos inst 16 15 4)) out
           in accept_plain out)
         else if fld inst 24 0x1f = 0x0 \<and> fld inst 30 0x1 = 0x0
         then (
           let out = set_imm (ucast (pos inst 20 15 0 OR pos inst 16 15 4 OR pos inst 15 1 8 OR
                                 pos inst 14 1 9 OR pos inst 13 1 10 OR pos inst 12 1 11 OR
                                 pos inst 0 4095 12)) out
           in accept_plain out)
         else (False, out))
       else (False, out))
     else decode_at_2818 inst out)"

lemma decode_at_2711_ok: "dec_in {RA, DC} inst out \<Longrightarrow> dec_ok inst (decode_at_2711 inst out)"
  unfolding decode_at_2711_def
  by (rule dec_rules decode_at_2818_ok | assumption | (unfold format_simps, simp))+

definition decode_at_2600 :: "u64 \<Rightarrow> raw_decoded48 \<Rightarrow> bool \<times> raw_decoded48" where
  "decode_at_2600 inst out =
     (let out = set_dc (ucast (pos inst 40 3 1 OR pos inst 44 3 3)) out;
         out = set_ra (ucast (pos inst 34 31 0)) out
     in if ((fld inst 28 0xf) AND 0xe) = 0x0
     then (
       if fld inst 28 0x1 \<noteq> 0x1 \<or> fld inst 24 0xf \<noteq> 0x0
       then (
         if ((fld inst 26 0x1) XOR (fld inst 27 0x1)) = 0x1 \<and> (fld inst 25 0x1 = 0x1
            \<and> fld inst 28 0x1 = 0x0)
         then (
           let out = set_cc (ucast (pos inst 24 31 0)) out;
               out = set_imm (ucast (pos inst 20 15 0 OR pos inst 16 15 4 OR pos inst 15 1 8 OR
                                 pos inst 14 1 9 OR pos inst 13 1 10 OR pos inst 12 1 11 OR
                                 pos inst 0 4095 12)) out
           in accept_plain out)
         else if (fld inst 24 0x1f < 0x6 \<or> (fld inst 24 0x1f > 0xb
            \<or> ((fld inst 24 0x1f) AND 0x1e) = 0x8)) \<and> fld inst 24 0x1f \<noteq> 0x0
         then (
           let out = set_cc (ucast (pos inst 24 31 0)) out;
               out = set_pc (ucast (pos inst 0 65535 0)) out;
               out = set_imm (ucast (pos inst 20 15 0 OR pos inst 16 15 4)) out
           in accept_plain out)
         else if fld inst 24 0x1f = 0x0
         then (
           let out = set_imm (ucast (pos inst 20 15 0 OR pos inst 16 15 4 OR pos inst 15 1 8 OR
                                 pos inst 14 1 9 OR pos inst 13 1 10 OR pos inst 12 1 11 OR
                                 pos inst 0 4095 12)) out
           in accept_plain out)
         else (False, out))
       else (False, out))
     else if ((fld inst 28 0xf) AND 0xe) = 0x2
     then (
       if fld inst 28 0x1 \<noteq> 0x1 \<or> fld inst 24 0xf \<noteq> 0x0
       then (
         if ((fld inst 26 0x1) XOR (fld inst 27 0x1)) = 0x1 \<and> (fld inst 25 0x1 = 0x1
            \<and> fld inst 28 0x1 = 0x0)
         then (
           let out = set_cc (ucast (pos inst 24 31 0)) out;
               out = set_imm (ucast (pos inst 20 15 0 OR pos inst 16 15 4 OR pos inst 15 1 8 OR
                                 pos inst 14 1 9 OR pos inst 13 1 10 OR pos inst 12 1 11 OR
                                 pos inst 0 4095 12)) out
           in accept_plain out)
         else if (fld inst 24 0x1f < 0x6 \<or> (fld inst 24 0x1f > 0xb
            \<or> ((fld inst 24 0x1f) AND 0x1e) = 0x8)) \<and> fld inst 24 0x1f \<noteq> 0x0
         then (
           let out = set_cc (ucast (pos inst 24 31 0)) out;
               out = set_pc (ucast (pos inst 0 65535 0)) out;
               out = set_imm (ucast (pos inst 20 15 0 OR pos inst 16 15 4)) out
           in accept_plain out)
         else if fld inst 24 0x1f = 0x0
         then (
           let out = set_imm (ucast (pos inst 20 15 0 OR pos inst 16 15 4 OR pos inst 15 1 8 OR
                                 pos inst 14 1 9 OR pos inst 13 1 10 OR pos inst 12 1 11 OR
                                 pos inst 0 4095 12)) out
           in accept_plain out)
         else (False, out))
       else (False, out))
     else decode_at_2711 inst out)"

lemma decode_at_2600_ok: "dec_in {} inst out \<Longrightarrow> dec_ok inst (decode_at_2600 inst out)"
  unfolding decode_at_2600_def
  by (rule dec_rules decode_at_2711_ok | assumption | (unfold format_simps, simp))+

definition decode_at_3148 :: "u64 \<Rightarrow> raw_decoded48 \<Rightarrow> bool \<times> raw_decoded48" where
  "decode_at_3148 inst out =
     (if ((fld inst 28 0xf) AND 0xe) = 0x6
     then (
       if ((fld inst 26 0x1) XOR (fld inst 27 0x1)) = 0x1 \<and> (fld inst 25 0x1 = 0x1
          \<and> fld inst 28 0x1 = 0x0)
       then (
         let out = set_cc (ucast (pos inst 24 31 0)) out;
             out = set_imm (ucast (pos inst 20 15 0 OR pos inst 16 15 4 OR pos inst 15 1 8 OR
                               pos inst 14 1 9 OR pos inst 13 1 10 OR pos inst 12 1 11 OR
                               pos inst 0 4095 12)) out
         in accept_plain out)
       else if (fld inst 24 0x1f < 0x6 \<or> (fld inst 24 0x1f > 0xb
          \<or> ((fld inst 24 0x1f) AND 0x1e) = 0x8)) \<and> fld inst 24 0x1f \<noteq> 0x0
       then (
         let out = set_cc (ucast (pos inst 24 31 0)) out;
             out = set_pc (ucast (pos inst 0 65535 0)) out;
             out = set_imm (ucast (pos inst 20 15 0 OR pos inst 16 15 4)) out
         in accept_plain out)
       else if fld inst 24 0x1f = 0x0
       then (
         let out = set_imm (ucast (pos inst 20 15 0 OR pos inst 16 15 4 OR pos inst 15 1 8 OR
                               pos inst 14 1 9 OR pos inst 13 1 10 OR pos inst 12 1 11 OR
                               pos inst 0 4095 12)) out
         in accept_plain out)
       else (False, out))
     else if ((fld inst 28 0xf) AND 0xa) = 0xa
     then (
       if fld inst 28 0x1 \<noteq> 0x1 \<or> fld inst 24 0xf \<noteq> 0x0
       then (
         if (fld inst 30 0x1 = 0x1 \<or> (((fld inst 26 0x1) XOR (fld inst 27 0x1)) = 0x1
            \<and> (fld inst 25 0x1 = 0x1 \<and> fld inst 28 0x1 = 0x0)))
            \<and> (fld inst 30 0x1 \<noteq> 0x1 \<or> fld inst 24 0x1f \<noteq> 0x0)
         then (
           let out = set_cc (ucast (pos inst 24 31 0 OR pos inst 30 1 5)) out;
               out = set_imm (ucast (pos inst 20 15 0 OR pos inst 16 15 4 OR pos inst 15 1 8 OR
                                 pos inst 14 1 9 OR pos inst 13 1 10 OR pos inst 12 1 11 OR
                                 pos inst 0 4095 12)) out
           in accept_plain out)
         else if (fld inst 30 0x1 = 0x0 \<and> (fld inst 24 0x1f < 0x6 \<or> (fld inst 24 0x1f > 0xb
            \<or> ((fld inst 24 0x1f) AND 0x1e) = 0x8))) \<and> (fld inst 30 0x1 \<noteq> 0x0
            \<or> fld inst 24 0x1f \<noteq> 0x0)
         then (
           let out = set_cc (ucast (pos inst 24 31 0 OR pos inst 30 1 5)) out;
               out = set_pc (ucast (pos inst 0 65535 0)) out;
               out = set_imm (ucast (pos inst 20 15 0 OR pos inst 16 15 4)) out
           in accept_plain out)
         else if fld inst 24 0x1f = 0x0 \<and> fld inst 30 0x1 = 0x0
         then (
           let out = set_imm (ucast (pos inst 20 15 0 OR pos inst 16 15 4 OR pos inst 15 1 8 OR
                                 pos inst 14 1 9 OR pos inst 13 1 10 OR pos inst 12 1 11 OR
                                 pos inst 0 4095 12)) out
           in accept_plain out)
         else (False, out))
       else (False, out))
     else (False, out))"

lemma decode_at_3148_ok: "dec_in {RA, DC} inst out \<Longrightarrow> dec_ok inst (decode_at_3148 inst out)"
  unfolding decode_at_3148_def
  by (rule dec_rules | assumption | (unfold format_simps, simp))+

definition decode_at_3041 :: "u64 \<Rightarrow> raw_decoded48 \<Rightarrow> bool \<times> raw_decoded48" where
  "decode_at_3041 inst out =
     (if ((fld inst 28 0xf) AND 0xe) = 0x4
     then (
       if ((fld inst 26 0x1) XOR (fld inst 27 0x1)) = 0x1 \<and> (fld inst 25 0x1 = 0x1
          \<and> fld inst 28 0x1 = 0x0)
       then (
         let out = set_cc (ucast (pos inst 24 31 0)) out;
             out = set_imm (ucast (pos inst 20 15 0 OR pos inst 16 15 4 OR pos inst 15 1 8 OR
                               pos inst 14 1 9 OR pos inst 13 1 10 OR pos inst 12 1 11 OR
                               pos inst 0 4095 12)) out
         in accept_plain out)
       else if (fld inst 24 0x1f < 0x6 \<or> (fld inst 24 0x1f > 0xb
          \<or> ((fld inst 24 0x1f) AND 0x1e) = 0x8)) \<and> fld inst 24 0x1f \<noteq> 0x0
       then (
         let out = set_cc (ucast (pos inst 24 31 0)) out;
             out = set_pc (ucast (pos inst 0 65535 0)) out;
             out = set_imm (ucast (pos inst 20 15 0 OR pos inst 16 15 4)) out
         in accept_plain out)
       else if fld inst 24 0x1f = 0x0
       then (
         let out = set_imm (ucast (pos inst 20 15 0 OR pos inst 16 15 4 OR pos inst 15 1 8 OR
                               pos inst 14 1 9 OR pos inst 13 1 10 OR pos inst 12 1 11 OR
                               pos inst 0 4095 12)) out
         in accept_plain out)
       else (False, out))
     else if ((fld inst 28 0xf) AND 0xa) = 0x8
     then (
       if fld inst 28 0x1 \<noteq> 0x1 \<or> fld inst 24 0xf \<noteq> 0x0
       then (
         if (fld inst 30 0x1 = 0x1 \<or> (((fld inst 26 0x1) XOR (fld inst 27 0x1)) = 0x1
            \<and> (fld inst 25 0x1 = 0x1 \<and> fld inst 28 0x1 = 0x0)))
            \<and> (fld inst 30 0x1 \<noteq> 0x1 \<or> fld inst 24 0x1f \<noteq> 0x0)
         then (
           let out = set_cc (ucast (pos inst 24 31 0 OR pos inst 30 1 5)) out;
               out = set_imm (ucast (pos inst 20 15 0 OR pos inst 16 15 4 OR pos inst 15 1 8 OR
                                 pos inst 14 1 9 OR pos inst 13 1 10 OR pos inst 12 1 11 OR
                                 pos inst 0 4095 12)) out
           in accept_plain out)
         else if (fld inst 30 0x1 = 0x0 \<and> (fld inst 24 0x1f < 0x6 \<or> (fld inst 24 0x1f > 0xb
            \<or> ((fld inst 24 0x1f) AND 0x1e) = 0x8))) \<and> (fld inst 30 0x1 \<noteq> 0x0
            \<or> fld inst 24 0x1f \<noteq> 0x0)
         then (
           let out = set_cc (ucast (pos inst 24 31 0 OR pos inst 30 1 5)) out;
               out = set_pc (ucast (pos inst 0 65535 0)) out;
               out = set_imm (ucast (pos inst 20 15 0 OR pos inst 16 15 4)) out
           in accept_plain out)
         else if fld inst 24 0x1f = 0x0 \<and> fld inst 30 0x1 = 0x0
         then (
           let out = set_imm (ucast (pos inst 20 15 0 OR pos inst 16 15 4 OR pos inst 15 1 8 OR
                                 pos inst 14 1 9 OR pos inst 13 1 10 OR pos inst 12 1 11 OR
                                 pos inst 0 4095 12)) out
           in accept_plain out)
         else (False, out))
       else (False, out))
     else decode_at_3148 inst out)"

lemma decode_at_3041_ok: "dec_in {RA, DC} inst out \<Longrightarrow> dec_ok inst (decode_at_3041 inst out)"
  unfolding decode_at_3041_def
  by (rule dec_rules decode_at_3148_ok | assumption | (unfold format_simps, simp))+

definition decode_at_2930 :: "u64 \<Rightarrow> raw_decoded48 \<Rightarrow> bool \<times> raw_decoded48" where
  "decode_at_2930 inst out =
     (let out = set_dc (ucast (pos inst 40 3 1 OR pos inst 44 3 3)) out;
         out = set_ra (ucast (pos inst 34 31 0)) out
     in if ((fld inst 28 0xf) AND 0xe) = 0x0
     then (
       if fld inst 28 0x1 \<noteq> 0x1 \<or> fld inst 24 0xf \<noteq> 0x0
       then (
         if ((fld inst 26 0x1) XOR (fld inst 27 0x1)) = 0x1 \<and> (fld inst 25 0x1 = 0x1
            \<and> fld inst 28 0x1 = 0x0)
         then (
           let out = set_cc (ucast (pos inst 24 31 0)) out;
               out = set_imm (ucast (pos inst 20 15 0 OR pos inst 16 15 4 OR pos inst 15 1 8 OR
                                 pos inst 14 1 9 OR pos inst 13 1 10 OR pos inst 12 1 11 OR
                                 pos inst 0 4095 12)) out
           in accept_plain out)
         else if (fld inst 24 0x1f < 0x6 \<or> (fld inst 24 0x1f > 0xb
            \<or> ((fld inst 24 0x1f) AND 0x1e) = 0x8)) \<and> fld inst 24 0x1f \<noteq> 0x0
         then (
           let out = set_cc (ucast (pos inst 24 31 0)) out;
               out = set_pc (ucast (pos inst 0 65535 0)) out;
               out = set_imm (ucast (pos inst 20 15 0 OR pos inst 16 15 4)) out
           in accept_plain out)
         else if fld inst 24 0x1f = 0x0
         then (
           let out = set_imm (ucast (pos inst 20 15 0 OR pos inst 16 15 4 OR pos inst 15 1 8 OR
                                 pos inst 14 1 9 OR pos inst 13 1 10 OR pos inst 12 1 11 OR
                                 pos inst 0 4095 12)) out
           in accept_plain out)
         else (False, out))
       else (False, out))
     else if ((fld inst 28 0xf) AND 0xe) = 0x2
     then (
       if fld inst 28 0x1 \<noteq> 0x1 \<or> fld inst 24 0xf \<noteq> 0x0
       then (
         if ((fld inst 26 0x1) XOR (fld inst 27 0x1)) = 0x1 \<and> (fld inst 25 0x1 = 0x1
            \<and> fld inst 28 0x1 = 0x0)
         then (
           let out = set_cc (ucast (pos inst 24 31 0)) out;
               out = set_imm (ucast (pos inst 20 15 0 OR pos inst 16 15 4 OR pos inst 15 1 8 OR
                                 pos inst 14 1 9 OR pos inst 13 1 10 OR pos inst 12 1 11 OR
                                 pos inst 0 4095 12)) out
           in accept_plain out)
         else if (fld inst 24 0x1f < 0x6 \<or> (fld inst 24 0x1f > 0xb
            \<or> ((fld inst 24 0x1f) AND 0x1e) = 0x8)) \<and> fld inst 24 0x1f \<noteq> 0x0
         then (
           let out = set_cc (ucast (pos inst 24 31 0)) out;
               out = set_pc (ucast (pos inst 0 65535 0)) out;
               out = set_imm (ucast (pos inst 20 15 0 OR pos inst 16 15 4)) out
           in accept_plain out)
         else if fld inst 24 0x1f = 0x0
         then (
           let out = set_imm (ucast (pos inst 20 15 0 OR pos inst 16 15 4 OR pos inst 15 1 8 OR
                                 pos inst 14 1 9 OR pos inst 13 1 10 OR pos inst 12 1 11 OR
                                 pos inst 0 4095 12)) out
           in accept_plain out)
         else (False, out))
       else (False, out))
     else decode_at_3041 inst out)"

lemma decode_at_2930_ok: "dec_in {} inst out \<Longrightarrow> dec_ok inst (decode_at_2930 inst out)"
  unfolding decode_at_2930_def
  by (rule dec_rules decode_at_3041_ok | assumption | (unfold format_simps, simp))+

definition decode_at_3545 :: "u64 \<Rightarrow> raw_decoded48 \<Rightarrow> bool \<times> raw_decoded48" where
  "decode_at_3545 inst out =
     (if ((fld inst 28 0xf) AND 0xe) = 0x6
     then (
       if ((fld inst 26 0x1) XOR (fld inst 27 0x1)) = 0x1 \<and> (fld inst 25 0x1 = 0x1
          \<and> fld inst 28 0x1 = 0x0)
       then (
         let out = set_cc (ucast (pos inst 24 31 0)) out;
             out = set_imm (ucast (pos inst 20 15 0 OR pos inst 16 15 4 OR pos inst 15 1 8 OR
                               pos inst 14 1 9 OR pos inst 13 1 10 OR pos inst 12 1 11 OR
                               pos inst 0 4095 12)) out
         in accept_hot H_Subc F_Rirc out)
       else if (fld inst 24 0x1f < 0x6 \<or> (fld inst 24 0x1f > 0xb
          \<or> ((fld inst 24 0x1f) AND 0x1e) = 0x8)) \<and> fld inst 24 0x1f \<noteq> 0x0
       then (
         let out = set_cc (ucast (pos inst 24 31 0)) out;
             out = set_pc (ucast (pos inst 0 65535 0)) out;
             out = set_imm (ucast (pos inst 20 15 0 OR pos inst 16 15 4)) out
         in accept_hot H_Subc F_Rirci out)
       else if fld inst 24 0x1f = 0x0
       then (
         let out = set_imm (ucast (pos inst 20 15 0 OR pos inst 16 15 4 OR pos inst 15 1 8 OR
                               pos inst 14 1 9 OR pos inst 13 1 10 OR pos inst 12 1 11 OR
                               pos inst 0 4095 12)) out
         in accept_hot H_Subc F_Rirf out)
       else (False, out))
     else if ((fld inst 28 0xf) AND 0xa) = 0xa
     then (
       if fld inst 28 0x1 \<noteq> 0x1 \<or> fld inst 24 0xf \<noteq> 0x0
       then (
         if (fld inst 30 0x1 = 0x1 \<or> (((fld inst 26 0x1) XOR (fld inst 27 0x1)) = 0x1
            \<and> (fld inst 25 0x1 = 0x1 \<and> fld inst 28 0x1 = 0x0)))
            \<and> (fld inst 30 0x1 \<noteq> 0x1 \<or> fld inst 24 0x1f \<noteq> 0x0)
         then (
           let out = set_cc (ucast (pos inst 24 31 0 OR pos inst 30 1 5)) out;
               out = set_imm (ucast (pos inst 20 15 0 OR pos inst 16 15 4 OR pos inst 15 1 8 OR
                                 pos inst 14 1 9 OR pos inst 13 1 10 OR pos inst 12 1 11 OR
                                 pos inst 0 4095 12)) out
           in accept_hot H_Subc F_Rric out)
         else if (fld inst 30 0x1 = 0x0 \<and> (fld inst 24 0x1f < 0x6 \<or> (fld inst 24 0x1f > 0xb
            \<or> ((fld inst 24 0x1f) AND 0x1e) = 0x8))) \<and> (fld inst 30 0x1 \<noteq> 0x0
            \<or> fld inst 24 0x1f \<noteq> 0x0)
         then (
           let out = set_cc (ucast (pos inst 24 31 0 OR pos inst 30 1 5)) out;
               out = set_pc (ucast (pos inst 0 65535 0)) out;
               out = set_imm (ucast (pos inst 20 15 0 OR pos inst 16 15 4)) out
           in accept_hot H_Subc F_Rrici out)
         else if fld inst 24 0x1f = 0x0 \<and> fld inst 30 0x1 = 0x0
         then (
           let out = set_imm (ucast (pos inst 20 15 0 OR pos inst 16 15 4 OR pos inst 15 1 8 OR
                                 pos inst 14 1 9 OR pos inst 13 1 10 OR pos inst 12 1 11 OR
                                 pos inst 0 4095 12)) out
           in accept_hot H_Subc F_Rrif out)
         else (False, out))
       else (False, out))
     else (False, out))"

lemma decode_at_3545_ok: "dec_in {RA, RC} inst out \<Longrightarrow> dec_ok inst (decode_at_3545 inst out)"
  unfolding decode_at_3545_def
  by (rule dec_rules | assumption | (unfold format_simps, simp))+

definition decode_at_3404 :: "u64 \<Rightarrow> raw_decoded48 \<Rightarrow> bool \<times> raw_decoded48" where
  "decode_at_3404 inst out =
     (if ((fld inst 28 0xf) AND 0xe) = 0x4
     then (
       if ((fld inst 26 0x1) XOR (fld inst 27 0x1)) = 0x1 \<and> (fld inst 25 0x1 = 0x1
          \<and> fld inst 28 0x1 = 0x0)
       then (
         let out = set_cc (ucast (pos inst 24 31 0)) out;
             out = set_imm (ucast (pos inst 20 15 0 OR pos inst 16 15 4 OR pos inst 15 1 8 OR
                               pos inst 14 1 9 OR pos inst 13 1 10 OR pos inst 12 1 11 OR
                               pos inst 0 4095 12)) out
         in accept_hot H_Sub F_Rirc out)
       else if (fld inst 24 0x1f < 0x6 \<or> (fld inst 24 0x1f > 0xb
          \<or> ((fld inst 24 0x1f) AND 0x1e) = 0x8)) \<and> fld inst 24 0x1f \<noteq> 0x0
       then (
         let out = set_cc (ucast (pos inst 24 31 0)) out;
             out = set_pc (ucast (pos inst 0 65535 0)) out;
             out = set_imm (ucast (pos inst 20 15 0 OR pos inst 16 15 4)) out
         in accept_hot H_Sub F_Rirci out)
       else if fld inst 24 0x1f = 0x0
       then (
         let out = set_imm (ucast (pos inst 20 15 0 OR pos inst 16 15 4 OR pos inst 15 1 8 OR
                               pos inst 14 1 9 OR pos inst 13 1 10 OR pos inst 12 1 11 OR
                               pos inst 0 4095 12)) out
         in accept_hot H_Sub F_Rirf out)
       else (False, out))
     else if ((fld inst 28 0xf) AND 0xa) = 0x8
     then (
       if fld inst 28 0x1 \<noteq> 0x1 \<or> fld inst 24 0xf \<noteq> 0x0
       then (
         if (fld inst 30 0x1 = 0x1 \<or> (((fld inst 26 0x1) XOR (fld inst 27 0x1)) = 0x1
            \<and> (fld inst 25 0x1 = 0x1 \<and> fld inst 28 0x1 = 0x0)))
            \<and> (fld inst 30 0x1 \<noteq> 0x1 \<or> fld inst 24 0x1f \<noteq> 0x0)
         then (
           let out = set_cc (ucast (pos inst 24 31 0 OR pos inst 30 1 5)) out;
               out = set_imm (ucast (pos inst 20 15 0 OR pos inst 16 15 4 OR pos inst 15 1 8 OR
                                 pos inst 14 1 9 OR pos inst 13 1 10 OR pos inst 12 1 11 OR
                                 pos inst 0 4095 12)) out
           in accept_hot H_Sub F_Rric out)
         else if (fld inst 30 0x1 = 0x0 \<and> (fld inst 24 0x1f < 0x6 \<or> (fld inst 24 0x1f > 0xb
            \<or> ((fld inst 24 0x1f) AND 0x1e) = 0x8))) \<and> (fld inst 30 0x1 \<noteq> 0x0
            \<or> fld inst 24 0x1f \<noteq> 0x0)
         then (
           let out = set_cc (ucast (pos inst 24 31 0 OR pos inst 30 1 5)) out;
               out = set_pc (ucast (pos inst 0 65535 0)) out;
               out = set_imm (ucast (pos inst 20 15 0 OR pos inst 16 15 4)) out
           in accept_hot H_Sub F_Rrici out)
         else if fld inst 24 0x1f = 0x0 \<and> fld inst 30 0x1 = 0x0
         then (
           let out = set_imm (ucast (pos inst 20 15 0 OR pos inst 16 15 4 OR pos inst 15 1 8 OR
                                 pos inst 14 1 9 OR pos inst 13 1 10 OR pos inst 12 1 11 OR
                                 pos inst 0 4095 12)) out
           in accept_hot H_Sub F_Rrif out)
         else (False, out))
       else if fld inst 28 0x1 = 0x1 \<and> fld inst 24 0xf = 0x0
       then (
         let out = set_imm (ucast (pos inst 20 15 0 OR pos inst 16 15 4 OR pos inst 15 1 8 OR
                               pos inst 14 1 9 OR pos inst 13 1 10 OR pos inst 12 1 11 OR
                               pos inst 0 31 12 OR pos inst 5 1 16 OR pos inst 6 1 16 OR
                               pos inst 7 1 16 OR pos inst 8 1 16 OR pos inst 9 1 16 OR
                               pos inst 10 1 16 OR pos inst 11 1 16)) out
         in accept_hot H_Sub F_Ssi out)
       else (False, out))
     else decode_at_3545 inst out)"

lemma decode_at_3404_ok: "dec_in {RA, RC} inst out \<Longrightarrow> dec_ok inst (decode_at_3404 inst out)"
  unfolding decode_at_3404_def
  by (rule dec_rules decode_at_3545_ok | assumption | (unfold format_simps, simp))+

end
