(* ===== verification/Decode_2.thy ===== *)
theory Decode_2
  imports Decode_1
begin

text \<open>
  Part 2 of the decision tree of \<open>decode_raw_word_48\<close> (\<open>dpu/pipeline.cc\<close>). \<open>decode_at_N\<close> is the block
  of the function that starts at source line \<open>N\<close>; a block that is too long for one definition calls
  the definitions of its inner blocks, or of its remaining tests, at the place where the source has
  them. The lemma \<open>decode_at_N_ok\<close> states that the block, entered after the operands on the path to
  it were read, returns with an operand layout that its format announces.
\<close>

definition decode_at_3259 :: "u64 \<Rightarrow> raw_decoded48 \<Rightarrow> bool \<times> raw_decoded48" where
  "decode_at_3259 inst out =
     (let out = set_rc (ucast (pos inst 39 7 0 OR pos inst 44 3 3)) out;
         out = set_ra (ucast (pos inst 34 31 0)) out
     in if ((fld inst 28 0xf) AND 0xe) = 0x0
     then (
       if fld inst 28 0x1 \<noteq> 0x1 \<or> fld inst 24 0xf \<noteq> 0x0
       then (
         if ((fld inst 26 0x1) XOR (fld inst 27 0x1)) = 0x1 \<and> (fld inst 25 0x1 = 0x1
            \<and> fld inst 28 0x1 = 0x0)
         then (
           let out = set_cc (ucast (pos inst 24 31 0)) out;
               out = set_imm (ucast (pos inst 20 15 0 OR pos inst 16 15 4 OR pos inst 15 1 8 OR
                                 pos inst 14 1 9 OR pos inst 13 1 10 OR pos inst 12 1 11 OR
                                 pos inst 0 4095 12)) out
           in accept_hot H_Add F_Rric out)
         else if (fld inst 24 0x1f < 0x6 \<or> (fld inst 24 0x1f > 0xb
            \<or> ((fld inst 24 0x1f) AND 0x1e) = 0x8)) \<and> fld inst 24 0x1f \<noteq> 0x0
         then (
           let out = set_cc (ucast (pos inst 24 31 0)) out;
               out = set_pc (ucast (pos inst 0 65535 0)) out;
               out = set_imm (ucast (pos inst 20 15 0 OR pos inst 16 15 4)) out
           in accept_hot H_Add F_Rrici out)
         else if fld inst 24 0x1f = 0x0
         then (
           let out = set_imm (ucast (pos inst 20 15 0 OR pos inst 16 15 4 OR pos inst 15 1 8 OR
                                 pos inst 14 1 9 OR pos inst 13 1 10 OR pos inst 12 1 11 OR
                                 pos inst 0 4095 12)) out
           in accept_hot H_Add F_Rrif out)
         else (False, out))
       else if fld inst 28 0x1 = 0x1 \<and> fld inst 24 0xf = 0x0
       then (
         let out = set_imm (ucast (pos inst 20 15 0 OR pos inst 16 15 4 OR pos inst 15 1 8 OR
                               pos inst 14 1 9 OR pos inst 13 1 10 OR pos inst 12 1 11 OR
                               pos inst 0 31 12 OR pos inst 5 1 16 OR pos inst 6 1 16 OR
                               pos inst 7 1 16 OR pos inst 8 1 16 OR pos inst 9 1 16 OR
                               pos inst 10 1 16 OR pos inst 11 1 16)) out
         in accept_hot H_Add F_Ssi out)
       else (False, out))
     else if ((fld inst 28 0xf) AND 0xe) = 0x2
     then (
       if fld inst 28 0x1 \<noteq> 0x1 \<or> fld inst 24 0xf \<noteq> 0x0
       then (
         if ((fld inst 26 0x1) XOR (fld inst 27 0x1)) = 0x1 \<and> (fld inst 25 0x1 = 0x1
            \<and> fld inst 28 0x1 = 0x0)
         then (
           let out = set_cc (ucast (pos inst 24 31 0)) out;
               out = set_imm (ucast (pos inst 20 15 0 OR pos inst 16 15 4 OR pos inst 15 1 8 OR
                                 pos inst 14 1 9 OR pos inst 13 1 10 OR pos inst 12 1 11 OR
                                 pos inst 0 4095 12)) out
           in accept_hot H_Addc F_Rric out)
         else if (fld inst 24 0x1f < 0x6 \<or> (fld inst 24 0x1f > 0xb
            \<or> ((fld inst 24 0x1f) AND 0x1e) = 0x8)) \<and> fld inst 24 0x1f \<noteq> 0x0
         then (
           let out = set_cc (ucast (pos inst 24 31 0)) out;
               out = set_pc (ucast (pos inst 0 65535 0)) out;
               out = set_imm (ucast (pos inst 20 15 0 OR pos inst 16 15 4)) out
           in accept_hot H_Addc F_Rrici out)
         else if fld inst 24 0x1f = 0x0
         then (
           let out = set_imm (ucast (pos inst 20 15 0 OR pos inst 16 15 4 OR pos inst 15 1 8 OR
                                 pos inst 14 1 9 OR pos inst 13 1 10 OR pos inst 12 1 11 OR
                                 pos inst 0 4095 12)) out
           in accept_hot H_Addc F_Rrif out)
         else (False, out))
       else (False, out))
     else decode_at_3404 inst out)"

lemma decode_at_3259_ok: "dec_in {} inst out \<Longrightarrow> dec_ok inst (decode_at_3259 inst out)"
  unfolding decode_at_3259_def
  by (rule dec_rules decode_at_3404_ok | assumption | (unfold format_simps, simp))+

definition decode_at_3919 :: "u64 \<Rightarrow> raw_decoded48 \<Rightarrow> bool \<times> raw_decoded48" where
  "decode_at_3919 inst out =
     (if ((fld inst 28 0xf) AND 0xe) = 0x6
     then (
       if ((fld inst 26 0x1) XOR (fld inst 27 0x1)) = 0x1 \<and> (fld inst 25 0x1 = 0x1
          \<and> fld inst 28 0x1 = 0x0)
       then (
         let out = set_cc (ucast (pos inst 24 31 0)) out;
             out = set_imm (ucast (pos inst 20 15 0 OR pos inst 16 15 4 OR pos inst 15 1 8 OR
                               pos inst 14 1 9 OR pos inst 13 1 10 OR pos inst 12 1 11 OR
                               pos inst 0 4095 12 OR pos inst 39 7 24)) out
         in accept_hot H_Subc F_Zirc out)
       else if (fld inst 24 0x1f < 0x6 \<or> (fld inst 24 0x1f > 0xb
          \<or> ((fld inst 24 0x1f) AND 0x1e) = 0x8)) \<and> fld inst 24 0x1f \<noteq> 0x0
       then (
         let out = set_cc (ucast (pos inst 24 31 0)) out;
             out = set_pc (ucast (pos inst 0 65535 0)) out;
             out = set_imm (ucast (pos inst 20 15 0 OR pos inst 16 15 4 OR pos inst 39 7 8)) out
         in accept_hot H_Subc F_Zirci out)
       else if fld inst 24 0x1f = 0x0
       then (
         let out = set_imm (ucast (pos inst 20 15 0 OR pos inst 16 15 4 OR pos inst 15 1 8 OR
                               pos inst 14 1 9 OR pos inst 13 1 10 OR pos inst 12 1 11 OR
                               pos inst 0 4095 12 OR pos inst 39 7 24)) out
         in accept_hot H_Subc F_Zirf out)
       else (False, out))
     else if ((fld inst 28 0xf) AND 0xa) = 0xa
     then (
       if fld inst 28 0x1 \<noteq> 0x1 \<or> fld inst 24 0xf \<noteq> 0x0
       then (
         if (fld inst 30 0x1 = 0x1 \<or> (((fld inst 26 0x1) XOR (fld inst 27 0x1)) = 0x1
            \<and> (fld inst 25 0x1 = 0x1 \<and> fld inst 28 0x1 = 0x0)))
            \<and> (fld inst 30 0x1 \<noteq> 0x1 \<or> fld inst 24 0x1f \<noteq> 0x0)
         then (
           let out = set_cc (ucast (pos inst 24 31 0 OR pos inst 30 1 5)) out;
               out = set_imm (ucast (pos inst 20 15 0 OR pos inst 16 15 4 OR pos inst 15 1 8 OR
                                 pos inst 14 1 9 OR pos inst 13 1 10 OR pos inst 12 1 11 OR
                                 pos inst 0 4095 12 OR pos inst 39 7 24)) out
           in accept_hot H_Subc F_Zric out)
         else if (fld inst 30 0x1 = 0x0 \<and> (fld inst 24 0x1f < 0x6 \<or> (fld inst 24 0x1f > 0xb
            \<or> ((fld inst 24 0x1f) AND 0x1e) = 0x8))) \<and> (fld inst 30 0x1 \<noteq> 0x0
            \<or> fld inst 24 0x1f \<noteq> 0x0)
         then (
           let out = set_cc (ucast (pos inst 24 31 0 OR pos inst 30 1 5)) out;
               out = set_pc (ucast (pos inst 0 65535 0)) out;
               out = set_imm (sign_extend11 (ucast (pos inst 20 15 0 OR pos inst 16 15 4 OR pos inst 39 7 8))) out
           in accept_hot H_Subc F_Zrici out)
         else if fld inst 24 0x1f = 0x0 \<and> fld inst 30 0x1 = 0x0
         then (
           let out = set_imm (ucast (pos inst 20 15 0 OR pos inst 16 15 4 OR pos inst 15 1 8 OR
                                 pos inst 14 1 9 OR pos inst 13 1 10 OR pos inst 12 1 11 OR
                                 pos inst 0 4095 12 OR pos inst 39 7 24)) out
           in accept_hot H_Subc F_Zrif out)
         else (False, out))
       else (False, out))
     else (False, out))"

lemma decode_at_3919_ok: "dec_in {RA} inst out \<Longrightarrow> dec_ok inst (decode_at_3919 inst out)"
  unfolding decode_at_3919_def
  by (rule dec_rules | assumption | (unfold format_simps, simp))+

definition decode_at_3793 :: "u64 \<Rightarrow> raw_decoded48 \<Rightarrow> bool \<times> raw_decoded48" where
  "decode_at_3793 inst out =
     (if ((fld inst 28 0xf) AND 0xe) = 0x4
     then (
       if ((fld inst 26 0x1) XOR (fld inst 27 0x1)) = 0x1 \<and> (fld inst 25 0x1 = 0x1
          \<and> fld inst 28 0x1 = 0x0)
       then (
         let out = set_cc (ucast (pos inst 24 31 0)) out;
             out = set_imm (ucast (pos inst 20 15 0 OR pos inst 16 15 4 OR pos inst 15 1 8 OR
                               pos inst 14 1 9 OR pos inst 13 1 10 OR pos inst 12 1 11 OR
                               pos inst 0 4095 12 OR pos inst 39 7 24)) out
         in accept_hot H_Sub F_Zirc out)
       else if (fld inst 24 0x1f < 0x6 \<or> (fld inst 24 0x1f > 0xb
          \<or> ((fld inst 24 0x1f) AND 0x1e) = 0x8)) \<and> fld inst 24 0x1f \<noteq> 0x0
       then (
         let out = set_cc (ucast (pos inst 24 31 0)) out;
             out = set_pc (ucast (pos inst 0 65535 0)) out;
             out = set_imm (ucast (pos inst 20 15 0 OR pos inst 16 15 4 OR pos inst 39 7 8)) out
         in accept_hot H_Sub F_Zirci out)
       else if fld inst 24 0x1f = 0x0
       then (
         let out = set_imm (ucast (pos inst 20 15 0 OR pos inst 16 15 4 OR pos inst 15 1 8 OR
                               pos inst 14 1 9 OR pos inst 13 1 10 OR pos inst 12 1 11 OR
                               pos inst 0 4095 12 OR pos inst 39 7 24)) out
         in accept_hot H_Sub F_Zirf out)
       else (False, out))
     else if ((fld inst 28 0xf) AND 0xa) = 0x8
     then (
       if fld inst 28 0x1 \<noteq> 0x1 \<or> fld inst 24 0xf \<noteq> 0x0
       then (
         if (fld inst 30 0x1 = 0x1 \<or> (((fld inst 26 0x1) XOR (fld inst 27 0x1)) = 0x1
            \<and> (fld inst 25 0x1 = 0x1 \<and> fld inst 28 0x1 = 0x0)))
            \<and> (fld inst 30 0x1 \<noteq> 0x1 \<or> fld inst 24 0x1f \<noteq> 0x0)
         then (
           let out = set_cc (ucast (pos inst 24 31 0 OR pos inst 30 1 5)) out;
               out = set_imm (ucast (pos inst 20 15 0 OR pos inst 16 15 4 OR pos inst 15 1 8 OR
                                 pos inst 14 1 9 OR pos inst 13 1 10 OR pos inst 12 1 11 OR
                                 pos inst 0 4095 12 OR pos inst 39 7 24)) out
           in accept_hot H_Sub F_Zric out)
         else if (fld inst 30 0x1 = 0x0 \<and> (fld inst 24 0x1f < 0x6 \<or> (fld inst 24 0x1f > 0xb
            \<or> ((fld inst 24 0x1f) AND 0x1e) = 0x8))) \<and> (fld inst 30 0x1 \<noteq> 0x0
            \<or> fld inst 24 0x1f \<noteq> 0x0)
         then (
           let out = set_cc (ucast (pos inst 24 31 0 OR pos inst 30 1 5)) out;
               out = set_pc (ucast (pos inst 0 65535 0)) out;
               out = set_imm (sign_extend11 (ucast (pos inst 20 15 0 OR pos inst 16 15 4 OR pos inst 39 7 8))) out
           in accept_hot H_Sub F_Zrici out)
         else if fld inst 24 0x1f = 0x0 \<and> fld inst 30 0x1 = 0x0
         then (
           let out = set_imm (ucast (pos inst 20 15 0 OR pos inst 16 15 4 OR pos inst 15 1 8 OR
                                 pos inst 14 1 9 OR pos inst 13 1 10 OR pos inst 12 1 11 OR
                                 pos inst 0 4095 12 OR pos inst 39 7 24)) out
           in accept_hot H_Sub F_Zrif out)
         else (False, out))
       else (False, out))
     else decode_at_3919 inst out)"

lemma decode_at_3793_ok: "dec_in {RA} inst out \<Longrightarrow> dec_ok inst (decode_at_3793 inst out)"
  unfolding decode_at_3793_def
  by (rule dec_rules decode_at_3919_ok | assumption | (unfold format_simps, simp))+

definition decode_at_3667 :: "u64 \<Rightarrow> raw_decoded48 \<Rightarrow> bool \<times> raw_decoded48" where
  "decode_at_3667 inst out =
     (let out = set_ra (ucast (pos inst 34 31 0)) out
     in if ((fld inst 28 0xf) AND 0xe) = 0x0
     then (
       if fld inst 28 0x1 \<noteq> 0x1 \<or> fld inst 24 0xf \<noteq> 0x0
       then (
         if ((fld inst 26 0x1) XOR (fld inst 27 0x1)) = 0x1 \<and> (fld inst 25 0x1 = 0x1
            \<and> fld inst 28 0x1 = 0x0)
         then (
           let out = set_cc (ucast (pos inst 24 31 0)) out;
               out = set_imm (ucast (pos inst 20 15 0 OR pos inst 16 15 4 OR pos inst 15 1 8 OR
                                 pos inst 14 1 9 OR pos inst 13 1 10 OR pos inst 12 1 11 OR
                                 pos inst 0 4095 12 OR pos inst 39 7 24)) out
           in accept_hot H_Add F_Zric out)
         else if (fld inst 24 0x1f < 0x6 \<or> (fld inst 24 0x1f > 0xb
            \<or> ((fld inst 24 0x1f) AND 0x1e) = 0x8)) \<and> fld inst 24 0x1f \<noteq> 0x0
         then (
           let out = set_cc (ucast (pos inst 24 31 0)) out;
               out = set_pc (ucast (pos inst 0 65535 0)) out;
               out = set_imm (ucast (pos inst 20 15 0 OR pos inst 16 15 4 OR pos inst 39 7 8)) out
           in accept_hot H_Add F_Zrici out)
         else if fld inst 24 0x1f = 0x0
         then (
           let out = set_imm (ucast (pos inst 20 15 0 OR pos inst 16 15 4 OR pos inst 15 1 8 OR
                                 pos inst 14 1 9 OR pos inst 13 1 10 OR pos inst 12 1 11 OR
                                 pos inst 0 4095 12 OR pos inst 39 7 24)) out
           in accept_hot H_Add F_Zrif out)
         else (False, out))
       else (False, out))
     else if ((fld inst 28 0xf) AND 0xe) = 0x2
     then (
       if fld inst 28 0x1 \<noteq> 0x1 \<or> fld inst 24 0xf \<noteq> 0x0
       then (
         if ((fld inst 26 0x1) XOR (fld inst 27 0x1)) = 0x1 \<and> (fld inst 25 0x1 = 0x1
            \<and> fld inst 28 0x1 = 0x0)
         then (
           let out = set_cc (ucast (pos inst 24 31 0)) out;
               out = set_imm (ucast (pos inst 20 15 0 OR pos inst 16 15 4 OR pos inst 15 1 8 OR
                                 pos inst 14 1 9 OR pos inst 13 1 10 OR pos inst 12 1 11 OR
                                 pos inst 0 4095 12 OR pos inst 39 7 24)) out
           in accept_hot H_Addc F_Zric out)
         else if (fld inst 24 0x1f < 0x6 \<or> (fld inst 24 0x1f > 0xb
            \<or> ((fld inst 24 0x1f) AND 0x1e) = 0x8)) \<and> fld inst 24 0x1f \<noteq> 0x0
         then (
           let out = set_cc (ucast (pos inst 24 31 0)) out;
               out = set_pc (ucast (pos inst 0 65535 0)) out;
               out = set_imm (ucast (pos inst 20 15 0 OR pos inst 16 15 4 OR pos inst 39 7 8)) out
           in accept_hot H_Addc F_Zrici out)
         else if fld inst 24 0x1f = 0x0
         then (
           let out = set_imm (ucast (pos inst 20 15 0 OR pos inst 16 15 4 OR pos inst 15 1 8 OR
                                 pos inst 14 1 9 OR pos inst 13 1 10 OR pos inst 12 1 11 OR
                                 pos inst 0 4095 12 OR pos inst 39 7 24)) out
           in accept_hot H_Addc F_Zrif out)
         else (False, out))
       else (False, out))
     else decode_at_3793 inst out)"

lemma decode_at_3667_ok: "dec_in {} inst out \<Longrightarrow> dec_ok inst (decode_at_3667 inst out)"
  unfolding decode_at_3667_def
  by (rule dec_rules decode_at_3793_ok | assumption | (unfold format_simps, simp))+

definition decode_at_3666 :: "u64 \<Rightarrow> raw_decoded48 \<Rightarrow> bool \<times> raw_decoded48" where
  "decode_at_3666 inst out =
     (if fld inst 44 0x3 = 0x3
     then decode_at_3667 inst out
     else (False, out))"

lemma decode_at_3666_ok: "dec_in {} inst out \<Longrightarrow> dec_ok inst (decode_at_3666 inst out)"
  unfolding decode_at_3666_def
  by (rule dec_rules decode_at_3667_ok | assumption | (unfold format_simps, simp))+

definition decode_at_3257 :: "u64 \<Rightarrow> raw_decoded48 \<Rightarrow> bool \<times> raw_decoded48" where
  "decode_at_3257 inst out =
     (if fld inst 44 0x3 \<noteq> 0x3 \<and> fld inst 46 0x1 = 0x0
     then decode_at_3259 inst out
     else decode_at_3666 inst out)"

lemma decode_at_3257_ok: "dec_in {} inst out \<Longrightarrow> dec_ok inst (decode_at_3257 inst out)"
  unfolding decode_at_3257_def
   by (rule dec_rules decode_at_3259_ok decode_at_3666_ok | assumption | (unfold format_simps,
      simp))+

definition decode_at_2927 :: "u64 \<Rightarrow> raw_decoded48 \<Rightarrow> bool \<times> raw_decoded48" where
  "decode_at_2927 inst out =
     (if (fld inst 44 0x3 \<noteq> 0x3 \<and> fld inst 46 0x1 = 0x1) \<and> fld inst 39 0x1 = 0x0
     then decode_at_2930 inst out
     else decode_at_3257 inst out)"

lemma decode_at_2927_ok: "dec_in {} inst out \<Longrightarrow> dec_ok inst (decode_at_2927 inst out)"
  unfolding decode_at_2927_def
   by (rule dec_rules decode_at_2930_ok decode_at_3257_ok | assumption | (unfold format_simps,
      simp))+

definition decode_at_2597 :: "u64 \<Rightarrow> raw_decoded48 \<Rightarrow> bool \<times> raw_decoded48" where
  "decode_at_2597 inst out =
     (if (fld inst 44 0x3 \<noteq> 0x3 \<and> fld inst 46 0x1 = 0x1) \<and> fld inst 39 0x1 = 0x1
     then decode_at_2600 inst out
     else decode_at_2927 inst out)"

lemma decode_at_2597_ok: "dec_in {} inst out \<Longrightarrow> dec_ok inst (decode_at_2597 inst out)"
  unfolding decode_at_2597_def
   by (rule dec_rules decode_at_2600_ok decode_at_2927_ok | assumption | (unfold format_simps,
      simp))+

definition decode_at_4175 :: "u64 \<Rightarrow> raw_decoded48 \<Rightarrow> bool \<times> raw_decoded48" where
  "decode_at_4175 inst out =
     (if ((fld inst 28 0xf) AND 0xe) = 0x6
     then (
       if fld inst 28 0x1 \<noteq> 0x1 \<or> fld inst 24 0xf \<noteq> 0x0
       then (
         let out = set_rb (ucast (pos inst 17 7 0 OR pos inst 32 3 3)) out;
             out = set_ra (ucast (pos inst 34 31 0)) out
         in if fld inst 24 0x1f = 0x0
         then accept_plain out
         else if ((fld inst 26 0x1) XOR (fld inst 27 0x1)) = 0x1 \<and> (fld inst 25 0x1 = 0x1
            \<and> fld inst 28 0x1 = 0x0)
         then (
           let out = set_cc (ucast (pos inst 24 31 0)) out
           in accept_plain out)
         else if (fld inst 24 0x1f < 0x6 \<or> (fld inst 24 0x1f > 0xb
            \<or> ((fld inst 24 0x1f) AND 0x1e) = 0x8)) \<and> fld inst 24 0x1f \<noteq> 0x0
         then (
           let out = set_cc (ucast (pos inst 24 31 0)) out;
               out = set_pc (ucast (pos inst 0 65535 0)) out
           in accept_plain out)
         else (False, out))
       else (False, out))
     else if ((fld inst 28 0xf) AND 0xa) = 0x8
     then (
       if fld inst 28 0x1 \<noteq> 0x1 \<or> fld inst 24 0xf \<noteq> 0x0
       then (
         let out = set_rb (ucast (pos inst 17 7 0 OR pos inst 32 3 3)) out;
             out = set_ra (ucast (pos inst 34 31 0)) out
         in if fld inst 24 0x1f = 0x0 \<and> fld inst 30 0x1 = 0x0
         then accept_plain out
         else if (fld inst 30 0x1 = 0x1 \<or> (((fld inst 26 0x1) XOR (fld inst 27 0x1)) = 0x1
            \<and> (fld inst 25 0x1 = 0x1 \<and> fld inst 28 0x1 = 0x0)))
            \<and> (fld inst 30 0x1 \<noteq> 0x1 \<or> fld inst 24 0x1f \<noteq> 0x0)
         then (
           let out = set_cc (ucast (pos inst 24 31 0 OR pos inst 30 1 5)) out
           in accept_plain out)
         else if (fld inst 30 0x1 = 0x0 \<and> (fld inst 24 0x1f < 0x6 \<or> (fld inst 24 0x1f > 0xb
            \<or> ((fld inst 24 0x1f) AND 0x1e) = 0x8))) \<and> (fld inst 30 0x1 \<noteq> 0x0
            \<or> fld inst 24 0x1f \<noteq> 0x0)
         then (
           let out = set_cc (ucast (pos inst 24 31 0 OR pos inst 30 1 5)) out;
               out = set_pc (ucast (pos inst 0 65535 0)) out
           in accept_plain out)
         else (False, out))
       else (False, out))
     else if ((fld inst 28 0xf) AND 0xa) = 0xa
     then (
       if fld inst 28 0x1 \<noteq> 0x1 \<or> fld inst 24 0xf \<noteq> 0x0
       then (
         let out = set_rb (ucast (pos inst 17 7 0 OR pos inst 32 3 3)) out;
             out = set_ra (ucast (pos inst 34 31 0)) out
         in if fld inst 24 0x1f = 0x0 \<and> fld inst 30 0x1 = 0x0
         then accept_plain out
         else if (fld inst 30 0x1 = 0x1 \<or> (((fld inst 26 0x1) XOR (fld inst 27 0x1)) = 0x1
            \<and> (fld inst 25 0x1 = 0x1 \<and> fld inst 28 0x1 = 0x0)))
            \<and> (fld inst 30 0x1 \<noteq> 0x1 \<or> fld inst 24 0x1f \<noteq> 0x0)
         then (
           let out = set_cc (ucast (pos inst 24 31 0 OR pos inst 30 1 5)) out
           in accept_plain out)
         else if (fld inst 30 0x1 = 0x0 \<and> (fld inst 24 0x1f < 0x6 \<or> (fld inst 24 0x1f > 0xb
            \<or> ((fld inst 24 0x1f) AND 0x1e) = 0x8))) \<and> (fld inst 30 0x1 \<noteq> 0x0
            \<or> fld inst 24 0x1f \<noteq> 0x0)
         then (
           let out = set_cc (ucast (pos inst 24 31 0 OR pos inst 30 1 5)) out;
               out = set_pc (ucast (pos inst 0 65535 0)) out
           in accept_plain out)
         else (False, out))
       else (False, out))
     else (False, out))"

lemma decode_at_4175_ok: "dec_in {DC} inst out \<Longrightarrow> dec_ok inst (decode_at_4175 inst out)"
  unfolding decode_at_4175_def
  by (rule dec_rules | assumption | (unfold format_simps, simp))+

definition decode_at_4055 :: "u64 \<Rightarrow> raw_decoded48 \<Rightarrow> bool \<times> raw_decoded48" where
  "decode_at_4055 inst out =
     (let out = set_dc (ucast (pos inst 40 3 1 OR pos inst 44 3 3)) out
     in if ((fld inst 28 0xf) AND 0xe) = 0x0
     then (
       if fld inst 28 0x1 \<noteq> 0x1 \<or> fld inst 24 0xf \<noteq> 0x0
       then (
         let out = set_rb (ucast (pos inst 17 7 0 OR pos inst 32 3 3)) out;
             out = set_ra (ucast (pos inst 34 31 0)) out
         in if fld inst 24 0x1f = 0x0
         then accept_plain out
         else if ((fld inst 26 0x1) XOR (fld inst 27 0x1)) = 0x1 \<and> (fld inst 25 0x1 = 0x1
            \<and> fld inst 28 0x1 = 0x0)
         then (
           let out = set_cc (ucast (pos inst 24 31 0)) out
           in accept_plain out)
         else if (fld inst 24 0x1f < 0x6 \<or> (fld inst 24 0x1f > 0xb
            \<or> ((fld inst 24 0x1f) AND 0x1e) = 0x8)) \<and> fld inst 24 0x1f \<noteq> 0x0
         then (
           let out = set_cc (ucast (pos inst 24 31 0)) out;
               out = set_pc (ucast (pos inst 0 65535 0)) out
           in accept_plain out)
         else (False, out))
       else (False, out))
     else if ((fld inst 28 0xf) AND 0xe) = 0x2
     then (
       if fld inst 28 0x1 \<noteq> 0x1 \<or> fld inst 24 0xf \<noteq> 0x0
       then (
         let out = set_rb (ucast (pos inst 17 7 0 OR pos inst 32 3 3)) out;
             out = set_ra (ucast (pos inst 34 31 0)) out
         in if fld inst 24 0x1f = 0x0
         then accept_plain out
         else if ((fld inst 26 0x1) XOR (fld inst 27 0x1)) = 0x1 \<and> (fld inst 25 0x1 = 0x1
            \<and> fld inst 28 0x1 = 0x0)
         then (
           let out = set_cc (ucast (pos inst 24 31 0)) out
           in accept_plain out)
         else if (fld inst 24 0x1f < 0x6 \<or> (fld inst 24 0x1f > 0xb
            \<or> ((fld inst 24 0x1f) AND 0x1e) = 0x8)) \<and> fld inst 24 0x1f \<noteq> 0x0
         then (
           let out = set_cc (ucast (pos inst 24 31 0)) out;
               out = set_pc (ucast (pos inst 0 65535 0)) out
           in accept_plain out)
         else (False, out))
       else (False, out))
     else if ((fld inst 28 0xf) AND 0xe) = 0x4
     then (
       if fld inst 28 0x1 \<noteq> 0x1 \<or> fld inst 24 0xf \<noteq> 0x0
       then (
         let out = set_rb (ucast (pos inst 17 7 0 OR pos inst 32 3 3)) out;
             out = set_ra (ucast (pos inst 34 31 0)) out
         in if fld inst 24 0x1f = 0x0
         then accept_plain out
         else if ((fld inst 26 0x1) XOR (fld inst 27 0x1)) = 0x1 \<and> (fld inst 25 0x1 = 0x1
            \<and> fld inst 28 0x1 = 0x0)
         then (
           let out = set_cc (ucast (pos inst 24 31 0)) out
           in accept_plain out)
         else if (fld inst 24 0x1f < 0x6 \<or> (fld inst 24 0x1f > 0xb
            \<or> ((fld inst 24 0x1f) AND 0x1e) = 0x8)) \<and> fld inst 24 0x1f \<noteq> 0x0
         then (
           let out = set_cc (ucast (pos inst 24 31 0)) out;
               out = set_pc (ucast (pos inst 0 65535 0)) out
           in accept_plain out)
         else (False, out))
       else (False, out))
     else decode_at_4175 inst out)"

lemma decode_at_4055_ok: "dec_in {} inst out \<Longrightarrow> dec_ok inst (decode_at_4055 inst out)"
  unfolding decode_at_4055_def
  by (rule dec_rules decode_at_4175_ok | assumption | (unfold format_simps, simp))+

definition decode_at_4433 :: "u64 \<Rightarrow> raw_decoded48 \<Rightarrow> bool \<times> raw_decoded48" where
  "decode_at_4433 inst out =
     (if ((fld inst 28 0xf) AND 0xe) = 0x6
     then (
       if fld inst 28 0x1 \<noteq> 0x1 \<or> fld inst 24 0xf \<noteq> 0x0
       then (
         let out = set_rb (ucast (pos inst 17 7 0 OR pos inst 32 3 3)) out;
             out = set_ra (ucast (pos inst 34 31 0)) out
         in if fld inst 24 0x1f = 0x0
         then accept_plain out
         else if ((fld inst 26 0x1) XOR (fld inst 27 0x1)) = 0x1 \<and> (fld inst 25 0x1 = 0x1
            \<and> fld inst 28 0x1 = 0x0)
         then (
           let out = set_cc (ucast (pos inst 24 31 0)) out
           in accept_plain out)
         else if (fld inst 24 0x1f < 0x6 \<or> (fld inst 24 0x1f > 0xb
            \<or> ((fld inst 24 0x1f) AND 0x1e) = 0x8)) \<and> fld inst 24 0x1f \<noteq> 0x0
         then (
           let out = set_cc (ucast (pos inst 24 31 0)) out;
               out = set_pc (ucast (pos inst 0 65535 0)) out
           in accept_plain out)
         else (False, out))
       else (False, out))
     else if ((fld inst 28 0xf) AND 0xa) = 0x8
     then (
       if fld inst 28 0x1 \<noteq> 0x1 \<or> fld inst 24 0xf \<noteq> 0x0
       then (
         let out = set_rb (ucast (pos inst 17 7 0 OR pos inst 32 3 3)) out;
             out = set_ra (ucast (pos inst 34 31 0)) out
         in if fld inst 24 0x1f = 0x0 \<and> fld inst 30 0x1 = 0x0
         then accept_plain out
         else if (fld inst 30 0x1 = 0x1 \<or> (((fld inst 26 0x1) XOR (fld inst 27 0x1)) = 0x1
            \<and> (fld inst 25 0x1 = 0x1 \<and> fld inst 28 0x1 = 0x0)))
            \<and> (fld inst 30 0x1 \<noteq> 0x1 \<or> fld inst 24 0x1f \<noteq> 0x0)
         then (
           let out = set_cc (ucast (pos inst 24 31 0 OR pos inst 30 1 5)) out
           in accept_plain out)
         else if (fld inst 30 0x1 = 0x0 \<and> (fld inst 24 0x1f < 0x6 \<or> (fld inst 24 0x1f > 0xb
            \<or> ((fld inst 24 0x1f) AND 0x1e) = 0x8))) \<and> (fld inst 30 0x1 \<noteq> 0x0
            \<or> fld inst 24 0x1f \<noteq> 0x0)
         then (
           let out = set_cc (ucast (pos inst 24 31 0 OR pos inst 30 1 5)) out;
               out = set_pc (ucast (pos inst 0 65535 0)) out
           in accept_plain out)
         else (False, out))
       else (False, out))
     else if ((fld inst 28 0xf) AND 0xa) = 0xa
     then (
       if fld inst 28 0x1 \<noteq> 0x1 \<or> fld inst 24 0xf \<noteq> 0x0
       then (
         let out = set_rb (ucast (pos inst 17 7 0 OR pos inst 32 3 3)) out;
             out = set_ra (ucast (pos inst 34 31 0)) out
         in if fld inst 24 0x1f = 0x0 \<and> fld inst 30 0x1 = 0x0
         then accept_plain out
         else if (fld inst 30 0x1 = 0x1 \<or> (((fld inst 26 0x1) XOR (fld inst 27 0x1)) = 0x1
            \<and> (fld inst 25 0x1 = 0x1 \<and> fld inst 28 0x1 = 0x0)))
            \<and> (fld inst 30 0x1 \<noteq> 0x1 \<or> fld inst 24 0x1f \<noteq> 0x0)
         then (
           let out = set_cc (ucast (pos inst 24 31 0 OR pos inst 30 1 5)) out
           in accept_plain out)
         else if (fld inst 30 0x1 = 0x0 \<and> (fld inst 24 0x1f < 0x6 \<or> (fld inst 24 0x1f > 0xb
            \<or> ((fld inst 24 0x1f) AND 0x1e) = 0x8))) \<and> (fld inst 30 0x1 \<noteq> 0x0
            \<or> fld inst 24 0x1f \<noteq> 0x0)
         then (
           let out = set_cc (ucast (pos inst 24 31 0 OR pos inst 30 1 5)) out;
               out = set_pc (ucast (pos inst 0 65535 0)) out
           in accept_plain out)
         else (False, out))
       else (False, out))
     else (False, out))"

lemma decode_at_4433_ok: "dec_in {DC} inst out \<Longrightarrow> dec_ok inst (decode_at_4433 inst out)"
  unfolding decode_at_4433_def
  by (rule dec_rules | assumption | (unfold format_simps, simp))+

definition decode_at_4313 :: "u64 \<Rightarrow> raw_decoded48 \<Rightarrow> bool \<times> raw_decoded48" where
  "decode_at_4313 inst out =
     (let out = set_dc (ucast (pos inst 40 3 1 OR pos inst 44 3 3)) out
     in if ((fld inst 28 0xf) AND 0xe) = 0x0
     then (
       if fld inst 28 0x1 \<noteq> 0x1 \<or> fld inst 24 0xf \<noteq> 0x0
       then (
         let out = set_rb (ucast (pos inst 17 7 0 OR pos inst 32 3 3)) out;
             out = set_ra (ucast (pos inst 34 31 0)) out
         in if fld inst 24 0x1f = 0x0
         then accept_plain out
         else if ((fld inst 26 0x1) XOR (fld inst 27 0x1)) = 0x1 \<and> (fld inst 25 0x1 = 0x1
            \<and> fld inst 28 0x1 = 0x0)
         then (
           let out = set_cc (ucast (pos inst 24 31 0)) out
           in accept_plain out)
         else if (fld inst 24 0x1f < 0x6 \<or> (fld inst 24 0x1f > 0xb
            \<or> ((fld inst 24 0x1f) AND 0x1e) = 0x8)) \<and> fld inst 24 0x1f \<noteq> 0x0
         then (
           let out = set_cc (ucast (pos inst 24 31 0)) out;
               out = set_pc (ucast (pos inst 0 65535 0)) out
           in accept_plain out)
         else (False, out))
       else (False, out))
     else if ((fld inst 28 0xf) AND 0xe) = 0x2
     then (
       if fld inst 28 0x1 \<noteq> 0x1 \<or> fld inst 24 0xf \<noteq> 0x0
       then (
         let out = set_rb (ucast (pos inst 17 7 0 OR pos inst 32 3 3)) out;
             out = set_ra (ucast (pos inst 34 31 0)) out
         in if fld inst 24 0x1f = 0x0
         then accept_plain out
         else if ((fld inst 26 0x1) XOR (fld inst 27 0x1)) = 0x1 \<and> (fld inst 25 0x1 = 0x1
            \<and> fld inst 28 0x1 = 0x0)
         then (
           let out = set_cc (ucast (pos inst 24 31 0)) out
           in accept_plain out)
         else if (fld inst 24 0x1f < 0x6 \<or> (fld inst 24 0x1f > 0xb
            \<or> ((fld inst 24 0x1f) AND 0x1e) = 0x8)) \<and> fld inst 24 0x1f \<noteq> 0x0
         then (
           let out = set_cc (ucast (pos inst 24 31 0)) out;
               out = set_pc (ucast (pos inst 0 65535 0)) out
           in accept_plain out)
         else (False, out))
       else (False, out))
     else if ((fld inst 28 0xf) AND 0xe) = 0x4
     then (
       if fld inst 28 0x1 \<noteq> 0x1 \<or> fld inst 24 0xf \<noteq> 0x0
       then (
         let out = set_rb (ucast (pos inst 17 7 0 OR pos inst 32 3 3)) out;
             out = set_ra (ucast (pos inst 34 31 0)) out
         in if fld inst 24 0x1f = 0x0
         then accept_plain out
         else if ((fld inst 26 0x1) XOR (fld inst 27 0x1)) = 0x1 \<and> (fld inst 25 0x1 = 0x1
            \<and> fld inst 28 0x1 = 0x0)
         then (
           let out = set_cc (ucast (pos inst 24 31 0)) out
           in accept_plain out)
         else if (fld inst 24 0x1f < 0x6 \<or> (fld inst 24 0x1f > 0xb
            \<or> ((fld inst 24 0x1f) AND 0x1e) = 0x8)) \<and> fld inst 24 0x1f \<noteq> 0x0
         then (
           let out = set_cc (ucast (pos inst 24 31 0)) out;
               out = set_pc (ucast (pos inst 0 65535 0)) out
           in accept_plain out)
         else (False, out))
       else (False, out))
     else decode_at_4433 inst out)"

lemma decode_at_4313_ok: "dec_in {} inst out \<Longrightarrow> dec_ok inst (decode_at_4313 inst out)"
  unfolding decode_at_4313_def
  by (rule dec_rules decode_at_4433_ok | assumption | (unfold format_simps, simp))+

definition decode_at_4773 :: "u64 \<Rightarrow> raw_decoded48 \<Rightarrow> bool \<times> raw_decoded48" where
  "decode_at_4773 inst out =
     (if ((fld inst 28 0xf) AND 0xa) = 0x8
     then (
       if fld inst 28 0x1 \<noteq> 0x1 \<or> fld inst 24 0xf \<noteq> 0x0
       then (
         let out = set_rb (ucast (pos inst 17 7 0 OR pos inst 32 3 3)) out;
             out = set_ra (ucast (pos inst 34 31 0)) out
         in if fld inst 24 0x1f = 0x0 \<and> fld inst 30 0x1 = 0x0
         then accept_hot H_Sub F_Rrr out
         else if (fld inst 30 0x1 = 0x1 \<or> (((fld inst 26 0x1) XOR (fld inst 27 0x1)) = 0x1
            \<and> (fld inst 25 0x1 = 0x1 \<and> fld inst 28 0x1 = 0x0)))
            \<and> (fld inst 30 0x1 \<noteq> 0x1 \<or> fld inst 24 0x1f \<noteq> 0x0)
         then (
           let out = set_cc (ucast (pos inst 24 31 0 OR pos inst 30 1 5)) out
           in accept_hot H_Sub F_Rrrc out)
         else if (fld inst 30 0x1 = 0x0 \<and> (fld inst 24 0x1f < 0x6 \<or> (fld inst 24 0x1f > 0xb
            \<or> ((fld inst 24 0x1f) AND 0x1e) = 0x8))) \<and> (fld inst 30 0x1 \<noteq> 0x0
            \<or> fld inst 24 0x1f \<noteq> 0x0)
         then (
           let out = set_cc (ucast (pos inst 24 31 0 OR pos inst 30 1 5)) out;
               out = set_pc (ucast (pos inst 0 65535 0)) out
           in accept_hot H_Sub F_Rrrci out)
         else (False, out))
       else (False, out))
     else if ((fld inst 28 0xf) AND 0xa) = 0xa
     then (
       if fld inst 28 0x1 \<noteq> 0x1 \<or> fld inst 24 0xf \<noteq> 0x0
       then (
         let out = set_rb (ucast (pos inst 17 7 0 OR pos inst 32 3 3)) out;
             out = set_ra (ucast (pos inst 34 31 0)) out
         in if fld inst 24 0x1f = 0x0 \<and> fld inst 30 0x1 = 0x0
         then accept_hot H_Subc F_Rrr out
         else if (fld inst 30 0x1 = 0x1 \<or> (((fld inst 26 0x1) XOR (fld inst 27 0x1)) = 0x1
            \<and> (fld inst 25 0x1 = 0x1 \<and> fld inst 28 0x1 = 0x0)))
            \<and> (fld inst 30 0x1 \<noteq> 0x1 \<or> fld inst 24 0x1f \<noteq> 0x0)
         then (
           let out = set_cc (ucast (pos inst 24 31 0 OR pos inst 30 1 5)) out
           in accept_hot H_Subc F_Rrrc out)
         else if (fld inst 30 0x1 = 0x0 \<and> (fld inst 24 0x1f < 0x6 \<or> (fld inst 24 0x1f > 0xb
            \<or> ((fld inst 24 0x1f) AND 0x1e) = 0x8))) \<and> (fld inst 30 0x1 \<noteq> 0x0
            \<or> fld inst 24 0x1f \<noteq> 0x0)
         then (
           let out = set_cc (ucast (pos inst 24 31 0 OR pos inst 30 1 5)) out;
               out = set_pc (ucast (pos inst 0 65535 0)) out
           in accept_hot H_Subc F_Rrrci out)
         else (False, out))
       else (False, out))
     else (False, out))"

lemma decode_at_4773_ok: "dec_in {RC} inst out \<Longrightarrow> dec_ok inst (decode_at_4773 inst out)"
  unfolding decode_at_4773_def
  by (rule dec_rules | assumption | (unfold format_simps, simp))+

definition decode_at_4679 :: "u64 \<Rightarrow> raw_decoded48 \<Rightarrow> bool \<times> raw_decoded48" where
  "decode_at_4679 inst out =
     (if ((fld inst 28 0xf) AND 0xe) = 0x4
     then (
       if fld inst 28 0x1 \<noteq> 0x1 \<or> fld inst 24 0xf \<noteq> 0x0
       then (
         let out = set_rb (ucast (pos inst 17 7 0 OR pos inst 32 3 3)) out;
             out = set_ra (ucast (pos inst 34 31 0)) out
         in if fld inst 24 0x1f = 0x0
         then accept_plain out
         else if ((fld inst 26 0x1) XOR (fld inst 27 0x1)) = 0x1 \<and> (fld inst 25 0x1 = 0x1
            \<and> fld inst 28 0x1 = 0x0)
         then (
           let out = set_cc (ucast (pos inst 24 31 0)) out
           in accept_plain out)
         else if (fld inst 24 0x1f < 0x6 \<or> (fld inst 24 0x1f > 0xb
            \<or> ((fld inst 24 0x1f) AND 0x1e) = 0x8)) \<and> fld inst 24 0x1f \<noteq> 0x0
         then (
           let out = set_cc (ucast (pos inst 24 31 0)) out;
               out = set_pc (ucast (pos inst 0 65535 0)) out
           in accept_plain out)
         else (False, out))
       else if fld inst 28 0x1 = 0x1 \<and> fld inst 24 0xf = 0x0
       then (
         if fld inst 37 0x3 \<noteq> 0x3
         then (
           let out = set_rb (ucast (pos inst 34 31 0)) out;
               out = set_ra (ucast (pos inst 17 7 0 OR pos inst 32 3 3)) out
           in accept_hot H_Sub F_Sss out)
         else (False, out))
       else (False, out))
     else if ((fld inst 28 0xf) AND 0xe) = 0x6
     then (
       if fld inst 28 0x1 \<noteq> 0x1 \<or> fld inst 24 0xf \<noteq> 0x0
       then (
         let out = set_rb (ucast (pos inst 17 7 0 OR pos inst 32 3 3)) out;
             out = set_ra (ucast (pos inst 34 31 0)) out
         in if fld inst 24 0x1f = 0x0
         then accept_plain out
         else if ((fld inst 26 0x1) XOR (fld inst 27 0x1)) = 0x1 \<and> (fld inst 25 0x1 = 0x1
            \<and> fld inst 28 0x1 = 0x0)
         then (
           let out = set_cc (ucast (pos inst 24 31 0)) out
           in accept_plain out)
         else if (fld inst 24 0x1f < 0x6 \<or> (fld inst 24 0x1f > 0xb
            \<or> ((fld inst 24 0x1f) AND 0x1e) = 0x8)) \<and> fld inst 24 0x1f \<noteq> 0x0
         then (
           let out = set_cc (ucast (pos inst 24 31 0)) out;
               out = set_pc (ucast (pos inst 0 65535 0)) out
           in accept_plain out)
         else (False, out))
       else (False, out))
     else decode_at_4773 inst out)"

lemma decode_at_4679_ok: "dec_in {RC} inst out \<Longrightarrow> dec_ok inst (decode_at_4679 inst out)"
  unfolding decode_at_4679_def
  by (rule dec_rules decode_at_4773_ok | assumption | (unfold format_simps, simp))+

definition decode_at_4570 :: "u64 \<Rightarrow> raw_decoded48 \<Rightarrow> bool \<times> raw_decoded48" where
  "decode_at_4570 inst out =
     (let out = set_rc (ucast (pos inst 39 7 0 OR pos inst 44 3 3)) out
     in if ((fld inst 28 0xf) AND 0xe) = 0x0
     then (
       if fld inst 28 0x1 \<noteq> 0x1 \<or> fld inst 24 0xf \<noteq> 0x0
       then (
         let out = set_rb (ucast (pos inst 17 7 0 OR pos inst 32 3 3)) out;
             out = set_ra (ucast (pos inst 34 31 0)) out
         in if fld inst 24 0x1f = 0x0
         then accept_hot H_Add F_Rrr out
         else if ((fld inst 26 0x1) XOR (fld inst 27 0x1)) = 0x1 \<and> (fld inst 25 0x1 = 0x1
            \<and> fld inst 28 0x1 = 0x0)
         then (
           let out = set_cc (ucast (pos inst 24 31 0)) out
           in accept_hot H_Add F_Rrrc out)
         else if (fld inst 24 0x1f < 0x6 \<or> (fld inst 24 0x1f > 0xb
            \<or> ((fld inst 24 0x1f) AND 0x1e) = 0x8)) \<and> fld inst 24 0x1f \<noteq> 0x0
         then (
           let out = set_cc (ucast (pos inst 24 31 0)) out;
               out = set_pc (ucast (pos inst 0 65535 0)) out
           in accept_hot H_Add F_Rrrci out)
         else (False, out))
       else if fld inst 28 0x1 = 0x1 \<and> fld inst 24 0xf = 0x0
       then (
         if fld inst 37 0x3 \<noteq> 0x3
         then (
           let out = set_rb (ucast (pos inst 34 31 0)) out;
               out = set_ra (ucast (pos inst 17 7 0 OR pos inst 32 3 3)) out
           in accept_hot H_Add F_Sss out)
         else (False, out))
       else (False, out))
     else if ((fld inst 28 0xf) AND 0xe) = 0x2
     then (
       if fld inst 28 0x1 \<noteq> 0x1 \<or> fld inst 24 0xf \<noteq> 0x0
       then (
         let out = set_rb (ucast (pos inst 17 7 0 OR pos inst 32 3 3)) out;
             out = set_ra (ucast (pos inst 34 31 0)) out
         in if fld inst 24 0x1f = 0x0
         then accept_hot H_Addc F_Rrr out
         else if ((fld inst 26 0x1) XOR (fld inst 27 0x1)) = 0x1 \<and> (fld inst 25 0x1 = 0x1
            \<and> fld inst 28 0x1 = 0x0)
         then (
           let out = set_cc (ucast (pos inst 24 31 0)) out
           in accept_hot H_Addc F_Rrrc out)
         else if (fld inst 24 0x1f < 0x6 \<or> (fld inst 24 0x1f > 0xb
            \<or> ((fld inst 24 0x1f) AND 0x1e) = 0x8)) \<and> fld inst 24 0x1f \<noteq> 0x0
         then (
           let out = set_cc (ucast (pos inst 24 31 0)) out;
               out = set_pc (ucast (pos inst 0 65535 0)) out
           in accept_hot H_Addc F_Rrrci out)
         else (False, out))
       else (False, out))
     else decode_at_4679 inst out)"

lemma decode_at_4570_ok: "dec_in {} inst out \<Longrightarrow> dec_ok inst (decode_at_4570 inst out)"
  unfolding decode_at_4570_def
  by (rule dec_rules decode_at_4679_ok | assumption | (unfold format_simps, simp))+

definition decode_at_5011 :: "u64 \<Rightarrow> raw_decoded48 \<Rightarrow> bool \<times> raw_decoded48" where
  "decode_at_5011 inst out =
     (if ((fld inst 28 0xf) AND 0xe) = 0x6
     then (
       if fld inst 28 0x1 \<noteq> 0x1 \<or> fld inst 24 0xf \<noteq> 0x0
       then (
         let out = set_rb (ucast (pos inst 17 7 0 OR pos inst 32 3 3)) out;
             out = set_ra (ucast (pos inst 34 31 0)) out
         in if fld inst 24 0x1f = 0x0
         then accept_plain out
         else if ((fld inst 26 0x1) XOR (fld inst 27 0x1)) = 0x1 \<and> (fld inst 25 0x1 = 0x1
            \<and> fld inst 28 0x1 = 0x0)
         then (
           let out = set_cc (ucast (pos inst 24 31 0)) out
           in accept_plain out)
         else if (fld inst 24 0x1f < 0x6 \<or> (fld inst 24 0x1f > 0xb
            \<or> ((fld inst 24 0x1f) AND 0x1e) = 0x8)) \<and> fld inst 24 0x1f \<noteq> 0x0
         then (
           let out = set_cc (ucast (pos inst 24 31 0)) out;
               out = set_pc (ucast (pos inst 0 65535 0)) out
           in accept_plain out)
         else (False, out))
       else (False, out))
     else if ((fld inst 28 0xf) AND 0xa) = 0x8
     then (
       if fld inst 28 0x1 \<noteq> 0x1 \<or> fld inst 24 0xf \<noteq> 0x0
       then (
         let out = set_rb (ucast (pos inst 17 7 0 OR pos inst 32 3 3)) out;
             out = set_ra (ucast (pos inst 34 31 0)) out
         in if fld inst 24 0x1f = 0x0 \<and> fld inst 30 0x1 = 0x0
         then accept_hot H_Sub F_Zrr out
         else if (fld inst 30 0x1 = 0x1 \<or> (((fld inst 26 0x1) XOR (fld inst 27 0x1)) = 0x1
            \<and> (fld inst 25 0x1 = 0x1 \<and> fld inst 28 0x1 = 0x0)))
            \<and> (fld inst 30 0x1 \<noteq> 0x1 \<or> fld inst 24 0x1f \<noteq> 0x0)
         then (
           let out = set_cc (ucast (pos inst 24 31 0 OR pos inst 30 1 5)) out
           in accept_hot H_Sub F_Zrrc out)
         else if (fld inst 30 0x1 = 0x0 \<and> (fld inst 24 0x1f < 0x6 \<or> (fld inst 24 0x1f > 0xb
            \<or> ((fld inst 24 0x1f) AND 0x1e) = 0x8))) \<and> (fld inst 30 0x1 \<noteq> 0x0
            \<or> fld inst 24 0x1f \<noteq> 0x0)
         then (
           let out = set_cc (ucast (pos inst 24 31 0 OR pos inst 30 1 5)) out;
               out = set_pc (ucast (pos inst 0 65535 0)) out
           in accept_hot H_Sub F_Zrrci out)
         else (False, out))
       else (False, out))
     else if ((fld inst 28 0xf) AND 0xa) = 0xa
     then (
       if fld inst 28 0x1 \<noteq> 0x1 \<or> fld inst 24 0xf \<noteq> 0x0
       then (
         let out = set_rb (ucast (pos inst 17 7 0 OR pos inst 32 3 3)) out;
             out = set_ra (ucast (pos inst 34 31 0)) out
         in if fld inst 24 0x1f = 0x0 \<and> fld inst 30 0x1 = 0x0
         then accept_hot H_Subc F_Zrr out
         else if (fld inst 30 0x1 = 0x1 \<or> (((fld inst 26 0x1) XOR (fld inst 27 0x1)) = 0x1
            \<and> (fld inst 25 0x1 = 0x1 \<and> fld inst 28 0x1 = 0x0)))
            \<and> (fld inst 30 0x1 \<noteq> 0x1 \<or> fld inst 24 0x1f \<noteq> 0x0)
         then (
           let out = set_cc (ucast (pos inst 24 31 0 OR pos inst 30 1 5)) out
           in accept_hot H_Subc F_Zrrc out)
         else if (fld inst 30 0x1 = 0x0 \<and> (fld inst 24 0x1f < 0x6 \<or> (fld inst 24 0x1f > 0xb
            \<or> ((fld inst 24 0x1f) AND 0x1e) = 0x8))) \<and> (fld inst 30 0x1 \<noteq> 0x0
            \<or> fld inst 24 0x1f \<noteq> 0x0)
         then (
           let out = set_cc (ucast (pos inst 24 31 0 OR pos inst 30 1 5)) out;
               out = set_pc (ucast (pos inst 0 65535 0)) out
           in accept_hot H_Subc F_Zrrci out)
         else (False, out))
       else (False, out))
     else (False, out))"

lemma decode_at_5011_ok: "dec_in {} inst out \<Longrightarrow> dec_ok inst (decode_at_5011 inst out)"
  unfolding decode_at_5011_def
  by (rule dec_rules | assumption | (unfold format_simps, simp))+

definition decode_at_4882 :: "u64 \<Rightarrow> raw_decoded48 \<Rightarrow> bool \<times> raw_decoded48" where
  "decode_at_4882 inst out =
     (if ((fld inst 28 0xf) AND 0xe) = 0x0
     then (
       if fld inst 28 0x1 \<noteq> 0x1 \<or> fld inst 24 0xf \<noteq> 0x0
       then (
         let out = set_rb (ucast (pos inst 17 7 0 OR pos inst 32 3 3)) out;
             out = set_ra (ucast (pos inst 34 31 0)) out
         in if fld inst 24 0x1f = 0x0
         then accept_hot H_Add F_Zrr out
         else if ((fld inst 26 0x1) XOR (fld inst 27 0x1)) = 0x1 \<and> (fld inst 25 0x1 = 0x1
            \<and> fld inst 28 0x1 = 0x0)
         then (
           let out = set_cc (ucast (pos inst 24 31 0)) out
           in accept_hot H_Add F_Zrrc out)
         else if (fld inst 24 0x1f < 0x6 \<or> (fld inst 24 0x1f > 0xb
            \<or> ((fld inst 24 0x1f) AND 0x1e) = 0x8)) \<and> fld inst 24 0x1f \<noteq> 0x0
         then (
           let out = set_cc (ucast (pos inst 24 31 0)) out;
               out = set_pc (ucast (pos inst 0 65535 0)) out
           in accept_hot H_Add F_Zrrci out)
         else (False, out))
       else (False, out))
     else if ((fld inst 28 0xf) AND 0xe) = 0x2
     then (
       if fld inst 28 0x1 \<noteq> 0x1 \<or> fld inst 24 0xf \<noteq> 0x0
       then (
         let out = set_rb (ucast (pos inst 17 7 0 OR pos inst 32 3 3)) out;
             out = set_ra (ucast (pos inst 34 31 0)) out
         in if fld inst 24 0x1f = 0x0
         then accept_hot H_Addc F_Zrr out
         else if ((fld inst 26 0x1) XOR (fld inst 27 0x1)) = 0x1 \<and> (fld inst 25 0x1 = 0x1
            \<and> fld inst 28 0x1 = 0x0)
         then (
           let out = set_cc (ucast (pos inst 24 31 0)) out
           in accept_hot H_Addc F_Zrrc out)
         else if (fld inst 24 0x1f < 0x6 \<or> (fld inst 24 0x1f > 0xb
            \<or> ((fld inst 24 0x1f) AND 0x1e) = 0x8)) \<and> fld inst 24 0x1f \<noteq> 0x0
         then (
           let out = set_cc (ucast (pos inst 24 31 0)) out;
               out = set_pc (ucast (pos inst 0 65535 0)) out
           in accept_hot H_Addc F_Zrrci out)
         else (False, out))
       else (False, out))
     else if ((fld inst 28 0xf) AND 0xe) = 0x4
     then (
       if fld inst 28 0x1 \<noteq> 0x1 \<or> fld inst 24 0xf \<noteq> 0x0
       then (
         let out = set_rb (ucast (pos inst 17 7 0 OR pos inst 32 3 3)) out;
             out = set_ra (ucast (pos inst 34 31 0)) out
         in if fld inst 24 0x1f = 0x0
         then accept_plain out
         else if ((fld inst 26 0x1) XOR (fld inst 27 0x1)) = 0x1 \<and> (fld inst 25 0x1 = 0x1
            \<and> fld inst 28 0x1 = 0x0)
         then (
           let out = set_cc (ucast (pos inst 24 31 0)) out
           in accept_plain out)
         else if (fld inst 24 0x1f < 0x6 \<or> (fld inst 24 0x1f > 0xb
            \<or> ((fld inst 24 0x1f) AND 0x1e) = 0x8)) \<and> fld inst 24 0x1f \<noteq> 0x0
         then (
           let out = set_cc (ucast (pos inst 24 31 0)) out;
               out = set_pc (ucast (pos inst 0 65535 0)) out
           in accept_plain out)
         else (False, out))
       else (False, out))
     else decode_at_5011 inst out)"

lemma decode_at_4882_ok: "dec_in {} inst out \<Longrightarrow> dec_ok inst (decode_at_4882 inst out)"
  unfolding decode_at_4882_def
  by (rule dec_rules decode_at_5011_ok | assumption | (unfold format_simps, simp))+

end
