(* ===== verification/Decode_3.thy ===== *)
theory Decode_3
  imports Decode_2
begin

text \<open>
  Part 3 of the decision tree of \<open>decode_raw_word_48\<close> (\<open>dpu/pipeline.cc\<close>). \<open>decode_at_N\<close> is the block
  of the function that starts at source line \<open>N\<close>; a block that is too long for one definition calls
  the definitions of its inner blocks, or of its remaining tests, at the place where the source has
  them. The lemma \<open>decode_at_N_ok\<close> states that the block, entered after the operands on the path to
  it were read, returns with an operand layout that its format announces.
\<close>

definition decode_at_4881 :: "u64 \<Rightarrow> raw_decoded48 \<Rightarrow> bool \<times> raw_decoded48" where
  "decode_at_4881 inst out =
     (if fld inst 44 0x3 = 0x3
     then decode_at_4882 inst out
     else (False, out))"

lemma decode_at_4881_ok: "dec_in {} inst out \<Longrightarrow> dec_ok inst (decode_at_4881 inst out)"
  unfolding decode_at_4881_def
  by (rule dec_rules decode_at_4882_ok | assumption | (unfold format_simps, simp))+

definition decode_at_4568 :: "u64 \<Rightarrow> raw_decoded48 \<Rightarrow> bool \<times> raw_decoded48" where
  "decode_at_4568 inst out =
     (if fld inst 44 0x3 \<noteq> 0x3 \<and> fld inst 46 0x1 = 0x0
     then decode_at_4570 inst out
     else decode_at_4881 inst out)"

lemma decode_at_4568_ok: "dec_in {} inst out \<Longrightarrow> dec_ok inst (decode_at_4568 inst out)"
  unfolding decode_at_4568_def
   by (rule dec_rules decode_at_4570_ok decode_at_4881_ok | assumption | (unfold format_simps,
      simp))+

definition decode_at_4310 :: "u64 \<Rightarrow> raw_decoded48 \<Rightarrow> bool \<times> raw_decoded48" where
  "decode_at_4310 inst out =
     (if (fld inst 44 0x3 \<noteq> 0x3 \<and> fld inst 46 0x1 = 0x1) \<and> fld inst 39 0x1 = 0x0
     then decode_at_4313 inst out
     else decode_at_4568 inst out)"

lemma decode_at_4310_ok: "dec_in {} inst out \<Longrightarrow> dec_ok inst (decode_at_4310 inst out)"
  unfolding decode_at_4310_def
   by (rule dec_rules decode_at_4313_ok decode_at_4568_ok | assumption | (unfold format_simps,
      simp))+

definition decode_at_4052 :: "u64 \<Rightarrow> raw_decoded48 \<Rightarrow> bool \<times> raw_decoded48" where
  "decode_at_4052 inst out =
     (if (fld inst 44 0x3 \<noteq> 0x3 \<and> fld inst 46 0x1 = 0x1) \<and> fld inst 39 0x1 = 0x1
     then decode_at_4055 inst out
     else decode_at_4310 inst out)"

lemma decode_at_4052_ok: "dec_in {} inst out \<Longrightarrow> dec_ok inst (decode_at_4052 inst out)"
  unfolding decode_at_4052_def
   by (rule dec_rules decode_at_4055_ok decode_at_4310_ok | assumption | (unfold format_simps,
      simp))+

definition decode_at_6342 :: "u64 \<Rightarrow> raw_decoded48 \<Rightarrow> bool \<times> raw_decoded48" where
  "decode_at_6342 inst out =
     (if ((fld inst 20 0xf) AND 0xf) = 0x0
     then (
       let out = set_rb (ucast (pos inst 17 7 0 OR pos inst 32 3 3)) out;
           out = set_ra (ucast (pos inst 34 31 0)) out
       in if (fld inst 44 0x3 \<noteq> 0x3 \<and> fld inst 46 0x1 = 0x1)
          \<and> fld inst 39 0x1 = 0x0
       then (
         let out = set_dc (ucast (pos inst 40 3 1 OR pos inst 44 3 3)) out
         in if fld inst 24 0xf = 0x0
         then accept_plain out
         else if ((fld inst 26 0x1) XOR (fld inst 27 0x1)) = 0x1 \<and> fld inst 25 0x1 = 0x1
         then (
           let out = set_cc (ucast (pos inst 24 15 0)) out
           in accept_plain out)
         else if (fld inst 24 0xf < 0x6 \<or> (fld inst 24 0xf > 0xb
            \<or> ((fld inst 24 0xf) AND 0xe) = 0x8)) \<and> fld inst 24 0x1f \<noteq> 0x0
         then (
           let out = set_cc (ucast (pos inst 24 31 0)) out;
               out = set_pc (ucast (pos inst 0 65535 0)) out
           in accept_plain out)
         else (False, out))
       else if fld inst 44 0x3 \<noteq> 0x3 \<and> fld inst 46 0x1 = 0x0
       then (
         let out = set_rc (ucast (pos inst 39 7 0 OR pos inst 44 3 3)) out
         in if fld inst 24 0xf = 0x0
         then accept_hot H_MulUlUl F_Rrr out
         else if ((fld inst 26 0x1) XOR (fld inst 27 0x1)) = 0x1 \<and> fld inst 25 0x1 = 0x1
         then (
           let out = set_cc (ucast (pos inst 24 15 0)) out
           in accept_hot H_MulUlUl F_Rrrc out)
         else if (fld inst 24 0xf < 0x6 \<or> (fld inst 24 0xf > 0xb
            \<or> ((fld inst 24 0xf) AND 0xe) = 0x8)) \<and> fld inst 24 0x1f \<noteq> 0x0
         then (
           let out = set_cc (ucast (pos inst 24 31 0)) out;
               out = set_pc (ucast (pos inst 0 65535 0)) out
           in accept_hot H_MulUlUl F_Rrrci out)
         else (False, out))
       else if fld inst 44 0x3 = 0x3
       then (
         if fld inst 24 0xf = 0x0
         then accept_hot H_MulUlUl F_Zrr out
         else if ((fld inst 26 0x1) XOR (fld inst 27 0x1)) = 0x1 \<and> fld inst 25 0x1 = 0x1
         then (
           let out = set_cc (ucast (pos inst 24 15 0)) out
           in accept_hot H_MulUlUl F_Zrrc out)
         else if (fld inst 24 0xf < 0x6 \<or> (fld inst 24 0xf > 0xb
            \<or> ((fld inst 24 0xf) AND 0xe) = 0x8)) \<and> fld inst 24 0x1f \<noteq> 0x0
         then (
           let out = set_cc (ucast (pos inst 24 31 0)) out;
               out = set_pc (ucast (pos inst 0 65535 0)) out
           in accept_hot H_MulUlUl F_Zrrci out)
         else (False, out))
       else (False, out))
     else (False, out))"

lemma decode_at_6342_ok: "dec_in {} inst out \<Longrightarrow> dec_ok inst (decode_at_6342 inst out)"
  unfolding decode_at_6342_def
  by (rule dec_rules | assumption | (unfold format_simps, simp))+

definition decode_at_6226 :: "u64 \<Rightarrow> raw_decoded48 \<Rightarrow> bool \<times> raw_decoded48" where
  "decode_at_6226 inst out =
     (if ((fld inst 20 0xf) AND 0xf) = 0x1
     then (
       let out = set_rb (ucast (pos inst 17 7 0 OR pos inst 32 3 3)) out;
           out = set_ra (ucast (pos inst 34 31 0)) out
       in if (fld inst 44 0x3 \<noteq> 0x3 \<and> fld inst 46 0x1 = 0x1)
          \<and> fld inst 39 0x1 = 0x0
       then (
         let out = set_dc (ucast (pos inst 40 3 1 OR pos inst 44 3 3)) out
         in if fld inst 24 0xf = 0x0
         then accept_plain out
         else if ((fld inst 26 0x1) XOR (fld inst 27 0x1)) = 0x1 \<and> fld inst 25 0x1 = 0x1
         then (
           let out = set_cc (ucast (pos inst 24 15 0)) out
           in accept_plain out)
         else if (fld inst 24 0xf < 0x6 \<or> (fld inst 24 0xf > 0xb
            \<or> ((fld inst 24 0xf) AND 0xe) = 0x8)) \<and> fld inst 24 0x1f \<noteq> 0x0
         then (
           let out = set_cc (ucast (pos inst 24 31 0)) out;
               out = set_pc (ucast (pos inst 0 65535 0)) out
           in accept_plain out)
         else (False, out))
       else if fld inst 44 0x3 \<noteq> 0x3 \<and> fld inst 46 0x1 = 0x0
       then (
         let out = set_rc (ucast (pos inst 39 7 0 OR pos inst 44 3 3)) out
         in if fld inst 24 0xf = 0x0
         then accept_hot H_MulUlUh F_Rrr out
         else if ((fld inst 26 0x1) XOR (fld inst 27 0x1)) = 0x1 \<and> fld inst 25 0x1 = 0x1
         then (
           let out = set_cc (ucast (pos inst 24 15 0)) out
           in accept_hot H_MulUlUh F_Rrrc out)
         else if (fld inst 24 0xf < 0x6 \<or> (fld inst 24 0xf > 0xb
            \<or> ((fld inst 24 0xf) AND 0xe) = 0x8)) \<and> fld inst 24 0x1f \<noteq> 0x0
         then (
           let out = set_cc (ucast (pos inst 24 31 0)) out;
               out = set_pc (ucast (pos inst 0 65535 0)) out
           in accept_hot H_MulUlUh F_Rrrci out)
         else (False, out))
       else if fld inst 44 0x3 = 0x3
       then (
         if fld inst 24 0xf = 0x0
         then accept_hot H_MulUlUh F_Zrr out
         else if ((fld inst 26 0x1) XOR (fld inst 27 0x1)) = 0x1 \<and> fld inst 25 0x1 = 0x1
         then (
           let out = set_cc (ucast (pos inst 24 15 0)) out
           in accept_hot H_MulUlUh F_Zrrc out)
         else if (fld inst 24 0xf < 0x6 \<or> (fld inst 24 0xf > 0xb
            \<or> ((fld inst 24 0xf) AND 0xe) = 0x8)) \<and> fld inst 24 0x1f \<noteq> 0x0
         then (
           let out = set_cc (ucast (pos inst 24 31 0)) out;
               out = set_pc (ucast (pos inst 0 65535 0)) out
           in accept_hot H_MulUlUh F_Zrrci out)
         else (False, out))
       else (False, out))
     else decode_at_6342 inst out)"

lemma decode_at_6226_ok: "dec_in {} inst out \<Longrightarrow> dec_ok inst (decode_at_6226 inst out)"
  unfolding decode_at_6226_def
  by (rule dec_rules decode_at_6342_ok | assumption | (unfold format_simps, simp))+

definition decode_at_6110 :: "u64 \<Rightarrow> raw_decoded48 \<Rightarrow> bool \<times> raw_decoded48" where
  "decode_at_6110 inst out =
     (if ((fld inst 20 0xf) AND 0xf) = 0x2
     then (
       let out = set_rb (ucast (pos inst 17 7 0 OR pos inst 32 3 3)) out;
           out = set_ra (ucast (pos inst 34 31 0)) out
       in if (fld inst 44 0x3 \<noteq> 0x3 \<and> fld inst 46 0x1 = 0x1)
          \<and> fld inst 39 0x1 = 0x0
       then (
         let out = set_dc (ucast (pos inst 40 3 1 OR pos inst 44 3 3)) out
         in if fld inst 24 0xf = 0x0
         then accept_plain out
         else if ((fld inst 26 0x1) XOR (fld inst 27 0x1)) = 0x1 \<and> fld inst 25 0x1 = 0x1
         then (
           let out = set_cc (ucast (pos inst 24 15 0)) out
           in accept_plain out)
         else if (fld inst 24 0xf < 0x6 \<or> (fld inst 24 0xf > 0xb
            \<or> ((fld inst 24 0xf) AND 0xe) = 0x8)) \<and> fld inst 24 0x1f \<noteq> 0x0
         then (
           let out = set_cc (ucast (pos inst 24 31 0)) out;
               out = set_pc (ucast (pos inst 0 65535 0)) out
           in accept_plain out)
         else (False, out))
       else if fld inst 44 0x3 \<noteq> 0x3 \<and> fld inst 46 0x1 = 0x0
       then (
         let out = set_rc (ucast (pos inst 39 7 0 OR pos inst 44 3 3)) out
         in if fld inst 24 0xf = 0x0
         then accept_hot H_MulUhUl F_Rrr out
         else if ((fld inst 26 0x1) XOR (fld inst 27 0x1)) = 0x1 \<and> fld inst 25 0x1 = 0x1
         then (
           let out = set_cc (ucast (pos inst 24 15 0)) out
           in accept_hot H_MulUhUl F_Rrrc out)
         else if (fld inst 24 0xf < 0x6 \<or> (fld inst 24 0xf > 0xb
            \<or> ((fld inst 24 0xf) AND 0xe) = 0x8)) \<and> fld inst 24 0x1f \<noteq> 0x0
         then (
           let out = set_cc (ucast (pos inst 24 31 0)) out;
               out = set_pc (ucast (pos inst 0 65535 0)) out
           in accept_hot H_MulUhUl F_Rrrci out)
         else (False, out))
       else if fld inst 44 0x3 = 0x3
       then (
         if fld inst 24 0xf = 0x0
         then accept_hot H_MulUhUl F_Zrr out
         else if ((fld inst 26 0x1) XOR (fld inst 27 0x1)) = 0x1 \<and> fld inst 25 0x1 = 0x1
         then (
           let out = set_cc (ucast (pos inst 24 15 0)) out
           in accept_hot H_MulUhUl F_Zrrc out)
         else if (fld inst 24 0xf < 0x6 \<or> (fld inst 24 0xf > 0xb
            \<or> ((fld inst 24 0xf) AND 0xe) = 0x8)) \<and> fld inst 24 0x1f \<noteq> 0x0
         then (
           let out = set_cc (ucast (pos inst 24 31 0)) out;
               out = set_pc (ucast (pos inst 0 65535 0)) out
           in accept_hot H_MulUhUl F_Zrrci out)
         else (False, out))
       else (False, out))
     else decode_at_6226 inst out)"

lemma decode_at_6110_ok: "dec_in {} inst out \<Longrightarrow> dec_ok inst (decode_at_6110 inst out)"
  unfolding decode_at_6110_def
  by (rule dec_rules decode_at_6226_ok | assumption | (unfold format_simps, simp))+

definition decode_at_5994 :: "u64 \<Rightarrow> raw_decoded48 \<Rightarrow> bool \<times> raw_decoded48" where
  "decode_at_5994 inst out =
     (if ((fld inst 20 0xf) AND 0xf) = 0x3
     then (
       let out = set_rb (ucast (pos inst 17 7 0 OR pos inst 32 3 3)) out;
           out = set_ra (ucast (pos inst 34 31 0)) out
       in if (fld inst 44 0x3 \<noteq> 0x3 \<and> fld inst 46 0x1 = 0x1)
          \<and> fld inst 39 0x1 = 0x0
       then (
         let out = set_dc (ucast (pos inst 40 3 1 OR pos inst 44 3 3)) out
         in if fld inst 24 0xf = 0x0
         then accept_plain out
         else if ((fld inst 26 0x1) XOR (fld inst 27 0x1)) = 0x1 \<and> fld inst 25 0x1 = 0x1
         then (
           let out = set_cc (ucast (pos inst 24 15 0)) out
           in accept_plain out)
         else if (fld inst 24 0xf < 0x6 \<or> (fld inst 24 0xf > 0xb
            \<or> ((fld inst 24 0xf) AND 0xe) = 0x8)) \<and> fld inst 24 0x1f \<noteq> 0x0
         then (
           let out = set_cc (ucast (pos inst 24 31 0)) out;
               out = set_pc (ucast (pos inst 0 65535 0)) out
           in accept_plain out)
         else (False, out))
       else if fld inst 44 0x3 \<noteq> 0x3 \<and> fld inst 46 0x1 = 0x0
       then (
         let out = set_rc (ucast (pos inst 39 7 0 OR pos inst 44 3 3)) out
         in if fld inst 24 0xf = 0x0
         then accept_hot H_MulUhUh F_Rrr out
         else if ((fld inst 26 0x1) XOR (fld inst 27 0x1)) = 0x1 \<and> fld inst 25 0x1 = 0x1
         then (
           let out = set_cc (ucast (pos inst 24 15 0)) out
           in accept_hot H_MulUhUh F_Rrrc out)
         else if (fld inst 24 0xf < 0x6 \<or> (fld inst 24 0xf > 0xb
            \<or> ((fld inst 24 0xf) AND 0xe) = 0x8)) \<and> fld inst 24 0x1f \<noteq> 0x0
         then (
           let out = set_cc (ucast (pos inst 24 31 0)) out;
               out = set_pc (ucast (pos inst 0 65535 0)) out
           in accept_hot H_MulUhUh F_Rrrci out)
         else (False, out))
       else if fld inst 44 0x3 = 0x3
       then (
         if fld inst 24 0xf = 0x0
         then accept_hot H_MulUhUh F_Zrr out
         else if ((fld inst 26 0x1) XOR (fld inst 27 0x1)) = 0x1 \<and> fld inst 25 0x1 = 0x1
         then (
           let out = set_cc (ucast (pos inst 24 15 0)) out
           in accept_hot H_MulUhUh F_Zrrc out)
         else if (fld inst 24 0xf < 0x6 \<or> (fld inst 24 0xf > 0xb
            \<or> ((fld inst 24 0xf) AND 0xe) = 0x8)) \<and> fld inst 24 0x1f \<noteq> 0x0
         then (
           let out = set_cc (ucast (pos inst 24 31 0)) out;
               out = set_pc (ucast (pos inst 0 65535 0)) out
           in accept_hot H_MulUhUh F_Zrrci out)
         else (False, out))
       else (False, out))
     else decode_at_6110 inst out)"

lemma decode_at_5994_ok: "dec_in {} inst out \<Longrightarrow> dec_ok inst (decode_at_5994 inst out)"
  unfolding decode_at_5994_def
  by (rule dec_rules decode_at_6110_ok | assumption | (unfold format_simps, simp))+

definition decode_at_5890 :: "u64 \<Rightarrow> raw_decoded48 \<Rightarrow> bool \<times> raw_decoded48" where
  "decode_at_5890 inst out =
     (if ((fld inst 20 0xf) AND 0xf) = 0x8
     then (
       let out = set_rb (ucast (pos inst 17 7 0 OR pos inst 32 3 3)) out;
           out = set_ra (ucast (pos inst 34 31 0)) out
       in if (fld inst 44 0x3 \<noteq> 0x3 \<and> fld inst 46 0x1 = 0x1)
          \<and> fld inst 39 0x1 = 0x1
       then (
         let out = set_dc (ucast (pos inst 40 3 1 OR pos inst 44 3 3)) out
         in if fld inst 24 0xf = 0x0
         then accept_plain out
         else if ((fld inst 26 0x1) XOR (fld inst 27 0x1)) = 0x1 \<and> fld inst 25 0x1 = 0x1
         then (
           let out = set_cc (ucast (pos inst 24 15 0)) out
           in accept_plain out)
         else if (fld inst 24 0xf < 0x6 \<or> (fld inst 24 0xf > 0xb
            \<or> ((fld inst 24 0xf) AND 0xe) = 0x8)) \<and> fld inst 24 0x1f \<noteq> 0x0
         then (
           let out = set_cc (ucast (pos inst 24 31 0)) out;
               out = set_pc (ucast (pos inst 0 65535 0)) out
           in accept_plain out)
         else (False, out))
       else if fld inst 44 0x3 \<noteq> 0x3 \<and> fld inst 46 0x1 = 0x0
       then (
         let out = set_rc (ucast (pos inst 39 7 0 OR pos inst 44 3 3)) out
         in if fld inst 24 0xf = 0x0
         then accept_plain out
         else if ((fld inst 26 0x1) XOR (fld inst 27 0x1)) = 0x1 \<and> fld inst 25 0x1 = 0x1
         then (
           let out = set_cc (ucast (pos inst 24 15 0)) out
           in accept_plain out)
         else if (fld inst 24 0xf < 0x6 \<or> (fld inst 24 0xf > 0xb
            \<or> ((fld inst 24 0xf) AND 0xe) = 0x8)) \<and> fld inst 24 0x1f \<noteq> 0x0
         then (
           let out = set_cc (ucast (pos inst 24 31 0)) out;
               out = set_pc (ucast (pos inst 0 65535 0)) out
           in accept_plain out)
         else (False, out))
       else if fld inst 44 0x3 = 0x3
       then (
         if fld inst 24 0xf = 0x0
         then accept_plain out
         else if ((fld inst 26 0x1) XOR (fld inst 27 0x1)) = 0x1 \<and> fld inst 25 0x1 = 0x1
         then (
           let out = set_cc (ucast (pos inst 24 15 0)) out
           in accept_plain out)
         else if (fld inst 24 0xf < 0x6 \<or> (fld inst 24 0xf > 0xb
            \<or> ((fld inst 24 0xf) AND 0xe) = 0x8)) \<and> fld inst 24 0x1f \<noteq> 0x0
         then (
           let out = set_cc (ucast (pos inst 24 31 0)) out;
               out = set_pc (ucast (pos inst 0 65535 0)) out
           in accept_plain out)
         else (False, out))
       else (False, out))
     else decode_at_5994 inst out)"

lemma decode_at_5890_ok: "dec_in {} inst out \<Longrightarrow> dec_ok inst (decode_at_5890 inst out)"
  unfolding decode_at_5890_def
  by (rule dec_rules decode_at_5994_ok | assumption | (unfold format_simps, simp))+

definition decode_at_5786 :: "u64 \<Rightarrow> raw_decoded48 \<Rightarrow> bool \<times> raw_decoded48" where
  "decode_at_5786 inst out =
     (if ((fld inst 20 0xf) AND 0xf) = 0x9
     then (
       let out = set_rb (ucast (pos inst 17 7 0 OR pos inst 32 3 3)) out;
           out = set_ra (ucast (pos inst 34 31 0)) out
       in if (fld inst 44 0x3 \<noteq> 0x3 \<and> fld inst 46 0x1 = 0x1)
          \<and> fld inst 39 0x1 = 0x1
       then (
         let out = set_dc (ucast (pos inst 40 3 1 OR pos inst 44 3 3)) out
         in if fld inst 24 0xf = 0x0
         then accept_plain out
         else if ((fld inst 26 0x1) XOR (fld inst 27 0x1)) = 0x1 \<and> fld inst 25 0x1 = 0x1
         then (
           let out = set_cc (ucast (pos inst 24 15 0)) out
           in accept_plain out)
         else if (fld inst 24 0xf < 0x6 \<or> (fld inst 24 0xf > 0xb
            \<or> ((fld inst 24 0xf) AND 0xe) = 0x8)) \<and> fld inst 24 0x1f \<noteq> 0x0
         then (
           let out = set_cc (ucast (pos inst 24 31 0)) out;
               out = set_pc (ucast (pos inst 0 65535 0)) out
           in accept_plain out)
         else (False, out))
       else if fld inst 44 0x3 \<noteq> 0x3 \<and> fld inst 46 0x1 = 0x0
       then (
         let out = set_rc (ucast (pos inst 39 7 0 OR pos inst 44 3 3)) out
         in if fld inst 24 0xf = 0x0
         then accept_plain out
         else if ((fld inst 26 0x1) XOR (fld inst 27 0x1)) = 0x1 \<and> fld inst 25 0x1 = 0x1
         then (
           let out = set_cc (ucast (pos inst 24 15 0)) out
           in accept_plain out)
         else if (fld inst 24 0xf < 0x6 \<or> (fld inst 24 0xf > 0xb
            \<or> ((fld inst 24 0xf) AND 0xe) = 0x8)) \<and> fld inst 24 0x1f \<noteq> 0x0
         then (
           let out = set_cc (ucast (pos inst 24 31 0)) out;
               out = set_pc (ucast (pos inst 0 65535 0)) out
           in accept_plain out)
         else (False, out))
       else if fld inst 44 0x3 = 0x3
       then (
         if fld inst 24 0xf = 0x0
         then accept_plain out
         else if ((fld inst 26 0x1) XOR (fld inst 27 0x1)) = 0x1 \<and> fld inst 25 0x1 = 0x1
         then (
           let out = set_cc (ucast (pos inst 24 15 0)) out
           in accept_plain out)
         else if (fld inst 24 0xf < 0x6 \<or> (fld inst 24 0xf > 0xb
            \<or> ((fld inst 24 0xf) AND 0xe) = 0x8)) \<and> fld inst 24 0x1f \<noteq> 0x0
         then (
           let out = set_cc (ucast (pos inst 24 31 0)) out;
               out = set_pc (ucast (pos inst 0 65535 0)) out
           in accept_plain out)
         else (False, out))
       else (False, out))
     else decode_at_5890 inst out)"

lemma decode_at_5786_ok: "dec_in {} inst out \<Longrightarrow> dec_ok inst (decode_at_5786 inst out)"
  unfolding decode_at_5786_def
  by (rule dec_rules decode_at_5890_ok | assumption | (unfold format_simps, simp))+

definition decode_at_5682 :: "u64 \<Rightarrow> raw_decoded48 \<Rightarrow> bool \<times> raw_decoded48" where
  "decode_at_5682 inst out =
     (if ((fld inst 20 0xf) AND 0xf) = 0x4
     then (
       let out = set_rb (ucast (pos inst 17 7 0 OR pos inst 32 3 3)) out;
           out = set_ra (ucast (pos inst 34 31 0)) out
       in if (fld inst 44 0x3 \<noteq> 0x3 \<and> fld inst 46 0x1 = 0x1)
          \<and> fld inst 39 0x1 = 0x1
       then (
         let out = set_dc (ucast (pos inst 40 3 1 OR pos inst 44 3 3)) out
         in if fld inst 24 0xf = 0x0
         then accept_plain out
         else if ((fld inst 26 0x1) XOR (fld inst 27 0x1)) = 0x1 \<and> fld inst 25 0x1 = 0x1
         then (
           let out = set_cc (ucast (pos inst 24 15 0)) out
           in accept_plain out)
         else if (fld inst 24 0xf < 0x6 \<or> (fld inst 24 0xf > 0xb
            \<or> ((fld inst 24 0xf) AND 0xe) = 0x8)) \<and> fld inst 24 0x1f \<noteq> 0x0
         then (
           let out = set_cc (ucast (pos inst 24 31 0)) out;
               out = set_pc (ucast (pos inst 0 65535 0)) out
           in accept_plain out)
         else (False, out))
       else if fld inst 44 0x3 \<noteq> 0x3 \<and> fld inst 46 0x1 = 0x0
       then (
         let out = set_rc (ucast (pos inst 39 7 0 OR pos inst 44 3 3)) out
         in if fld inst 24 0xf = 0x0
         then accept_plain out
         else if ((fld inst 26 0x1) XOR (fld inst 27 0x1)) = 0x1 \<and> fld inst 25 0x1 = 0x1
         then (
           let out = set_cc (ucast (pos inst 24 15 0)) out
           in accept_plain out)
         else if (fld inst 24 0xf < 0x6 \<or> (fld inst 24 0xf > 0xb
            \<or> ((fld inst 24 0xf) AND 0xe) = 0x8)) \<and> fld inst 24 0x1f \<noteq> 0x0
         then (
           let out = set_cc (ucast (pos inst 24 31 0)) out;
               out = set_pc (ucast (pos inst 0 65535 0)) out
           in accept_plain out)
         else (False, out))
       else if fld inst 44 0x3 = 0x3
       then (
         if fld inst 24 0xf = 0x0
         then accept_plain out
         else if ((fld inst 26 0x1) XOR (fld inst 27 0x1)) = 0x1 \<and> fld inst 25 0x1 = 0x1
         then (
           let out = set_cc (ucast (pos inst 24 15 0)) out
           in accept_plain out)
         else if (fld inst 24 0xf < 0x6 \<or> (fld inst 24 0xf > 0xb
            \<or> ((fld inst 24 0xf) AND 0xe) = 0x8)) \<and> fld inst 24 0x1f \<noteq> 0x0
         then (
           let out = set_cc (ucast (pos inst 24 31 0)) out;
               out = set_pc (ucast (pos inst 0 65535 0)) out
           in accept_plain out)
         else (False, out))
       else (False, out))
     else decode_at_5786 inst out)"

lemma decode_at_5682_ok: "dec_in {} inst out \<Longrightarrow> dec_ok inst (decode_at_5682 inst out)"
  unfolding decode_at_5682_def
  by (rule dec_rules decode_at_5786_ok | assumption | (unfold format_simps, simp))+

definition decode_at_5578 :: "u64 \<Rightarrow> raw_decoded48 \<Rightarrow> bool \<times> raw_decoded48" where
  "decode_at_5578 inst out =
     (if ((fld inst 20 0xf) AND 0xf) = 0x5
     then (
       let out = set_rb (ucast (pos inst 17 7 0 OR pos inst 32 3 3)) out;
           out = set_ra (ucast (pos inst 34 31 0)) out
       in if (fld inst 44 0x3 \<noteq> 0x3 \<and> fld inst 46 0x1 = 0x1)
          \<and> fld inst 39 0x1 = 0x1
       then (
         let out = set_dc (ucast (pos inst 40 3 1 OR pos inst 44 3 3)) out
         in if fld inst 24 0xf = 0x0
         then accept_plain out
         else if ((fld inst 26 0x1) XOR (fld inst 27 0x1)) = 0x1 \<and> fld inst 25 0x1 = 0x1
         then (
           let out = set_cc (ucast (pos inst 24 15 0)) out
           in accept_plain out)
         else if (fld inst 24 0xf < 0x6 \<or> (fld inst 24 0xf > 0xb
            \<or> ((fld inst 24 0xf) AND 0xe) = 0x8)) \<and> fld inst 24 0x1f \<noteq> 0x0
         then (
           let out = set_cc (ucast (pos inst 24 31 0)) out;
               out = set_pc (ucast (pos inst 0 65535 0)) out
           in accept_plain out)
         else (False, out))
       else if fld inst 44 0x3 \<noteq> 0x3 \<and> fld inst 46 0x1 = 0x0
       then (
         let out = set_rc (ucast (pos inst 39 7 0 OR pos inst 44 3 3)) out
         in if fld inst 24 0xf = 0x0
         then accept_plain out
         else if ((fld inst 26 0x1) XOR (fld inst 27 0x1)) = 0x1 \<and> fld inst 25 0x1 = 0x1
         then (
           let out = set_cc (ucast (pos inst 24 15 0)) out
           in accept_plain out)
         else if (fld inst 24 0xf < 0x6 \<or> (fld inst 24 0xf > 0xb
            \<or> ((fld inst 24 0xf) AND 0xe) = 0x8)) \<and> fld inst 24 0x1f \<noteq> 0x0
         then (
           let out = set_cc (ucast (pos inst 24 31 0)) out;
               out = set_pc (ucast (pos inst 0 65535 0)) out
           in accept_plain out)
         else (False, out))
       else if fld inst 44 0x3 = 0x3
       then (
         if fld inst 24 0xf = 0x0
         then accept_plain out
         else if ((fld inst 26 0x1) XOR (fld inst 27 0x1)) = 0x1 \<and> fld inst 25 0x1 = 0x1
         then (
           let out = set_cc (ucast (pos inst 24 15 0)) out
           in accept_plain out)
         else if (fld inst 24 0xf < 0x6 \<or> (fld inst 24 0xf > 0xb
            \<or> ((fld inst 24 0xf) AND 0xe) = 0x8)) \<and> fld inst 24 0x1f \<noteq> 0x0
         then (
           let out = set_cc (ucast (pos inst 24 31 0)) out;
               out = set_pc (ucast (pos inst 0 65535 0)) out
           in accept_plain out)
         else (False, out))
       else (False, out))
     else decode_at_5682 inst out)"

lemma decode_at_5578_ok: "dec_in {} inst out \<Longrightarrow> dec_ok inst (decode_at_5578 inst out)"
  unfolding decode_at_5578_def
  by (rule dec_rules decode_at_5682_ok | assumption | (unfold format_simps, simp))+

definition decode_at_5474 :: "u64 \<Rightarrow> raw_decoded48 \<Rightarrow> bool \<times> raw_decoded48" where
  "decode_at_5474 inst out =
     (if ((fld inst 20 0xf) AND 0xf) = 0xa
     then (
       let out = set_rb (ucast (pos inst 17 7 0 OR pos inst 32 3 3)) out;
           out = set_ra (ucast (pos inst 34 31 0)) out
       in if (fld inst 44 0x3 \<noteq> 0x3 \<and> fld inst 46 0x1 = 0x1)
          \<and> fld inst 39 0x1 = 0x1
       then (
         let out = set_dc (ucast (pos inst 40 3 1 OR pos inst 44 3 3)) out
         in if fld inst 24 0xf = 0x0
         then accept_plain out
         else if ((fld inst 26 0x1) XOR (fld inst 27 0x1)) = 0x1 \<and> fld inst 25 0x1 = 0x1
         then (
           let out = set_cc (ucast (pos inst 24 15 0)) out
           in accept_plain out)
         else if (fld inst 24 0xf < 0x6 \<or> (fld inst 24 0xf > 0xb
            \<or> ((fld inst 24 0xf) AND 0xe) = 0x8)) \<and> fld inst 24 0x1f \<noteq> 0x0
         then (
           let out = set_cc (ucast (pos inst 24 31 0)) out;
               out = set_pc (ucast (pos inst 0 65535 0)) out
           in accept_plain out)
         else (False, out))
       else if fld inst 44 0x3 \<noteq> 0x3 \<and> fld inst 46 0x1 = 0x0
       then (
         let out = set_rc (ucast (pos inst 39 7 0 OR pos inst 44 3 3)) out
         in if fld inst 24 0xf = 0x0
         then accept_plain out
         else if ((fld inst 26 0x1) XOR (fld inst 27 0x1)) = 0x1 \<and> fld inst 25 0x1 = 0x1
         then (
           let out = set_cc (ucast (pos inst 24 15 0)) out
           in accept_plain out)
         else if (fld inst 24 0xf < 0x6 \<or> (fld inst 24 0xf > 0xb
            \<or> ((fld inst 24 0xf) AND 0xe) = 0x8)) \<and> fld inst 24 0x1f \<noteq> 0x0
         then (
           let out = set_cc (ucast (pos inst 24 31 0)) out;
               out = set_pc (ucast (pos inst 0 65535 0)) out
           in accept_plain out)
         else (False, out))
       else if fld inst 44 0x3 = 0x3
       then (
         if fld inst 24 0xf = 0x0
         then accept_plain out
         else if ((fld inst 26 0x1) XOR (fld inst 27 0x1)) = 0x1 \<and> fld inst 25 0x1 = 0x1
         then (
           let out = set_cc (ucast (pos inst 24 15 0)) out
           in accept_plain out)
         else if (fld inst 24 0xf < 0x6 \<or> (fld inst 24 0xf > 0xb
            \<or> ((fld inst 24 0xf) AND 0xe) = 0x8)) \<and> fld inst 24 0x1f \<noteq> 0x0
         then (
           let out = set_cc (ucast (pos inst 24 31 0)) out;
               out = set_pc (ucast (pos inst 0 65535 0)) out
           in accept_plain out)
         else (False, out))
       else (False, out))
     else decode_at_5578 inst out)"

lemma decode_at_5474_ok: "dec_in {} inst out \<Longrightarrow> dec_ok inst (decode_at_5474 inst out)"
  unfolding decode_at_5474_def
  by (rule dec_rules decode_at_5578_ok | assumption | (unfold format_simps, simp))+

definition decode_at_5370 :: "u64 \<Rightarrow> raw_decoded48 \<Rightarrow> bool \<times> raw_decoded48" where
  "decode_at_5370 inst out =
     (if ((fld inst 20 0xf) AND 0xf) = 0xb
     then (
       let out = set_rb (ucast (pos inst 17 7 0 OR pos inst 32 3 3)) out;
           out = set_ra (ucast (pos inst 34 31 0)) out
       in if (fld inst 44 0x3 \<noteq> 0x3 \<and> fld inst 46 0x1 = 0x1)
          \<and> fld inst 39 0x1 = 0x1
       then (
         let out = set_dc (ucast (pos inst 40 3 1 OR pos inst 44 3 3)) out
         in if fld inst 24 0xf = 0x0
         then accept_plain out
         else if ((fld inst 26 0x1) XOR (fld inst 27 0x1)) = 0x1 \<and> fld inst 25 0x1 = 0x1
         then (
           let out = set_cc (ucast (pos inst 24 15 0)) out
           in accept_plain out)
         else if (fld inst 24 0xf < 0x6 \<or> (fld inst 24 0xf > 0xb
            \<or> ((fld inst 24 0xf) AND 0xe) = 0x8)) \<and> fld inst 24 0x1f \<noteq> 0x0
         then (
           let out = set_cc (ucast (pos inst 24 31 0)) out;
               out = set_pc (ucast (pos inst 0 65535 0)) out
           in accept_plain out)
         else (False, out))
       else if fld inst 44 0x3 \<noteq> 0x3 \<and> fld inst 46 0x1 = 0x0
       then (
         let out = set_rc (ucast (pos inst 39 7 0 OR pos inst 44 3 3)) out
         in if fld inst 24 0xf = 0x0
         then accept_plain out
         else if ((fld inst 26 0x1) XOR (fld inst 27 0x1)) = 0x1 \<and> fld inst 25 0x1 = 0x1
         then (
           let out = set_cc (ucast (pos inst 24 15 0)) out
           in accept_plain out)
         else if (fld inst 24 0xf < 0x6 \<or> (fld inst 24 0xf > 0xb
            \<or> ((fld inst 24 0xf) AND 0xe) = 0x8)) \<and> fld inst 24 0x1f \<noteq> 0x0
         then (
           let out = set_cc (ucast (pos inst 24 31 0)) out;
               out = set_pc (ucast (pos inst 0 65535 0)) out
           in accept_plain out)
         else (False, out))
       else if fld inst 44 0x3 = 0x3
       then (
         if fld inst 24 0xf = 0x0
         then accept_plain out
         else if ((fld inst 26 0x1) XOR (fld inst 27 0x1)) = 0x1 \<and> fld inst 25 0x1 = 0x1
         then (
           let out = set_cc (ucast (pos inst 24 15 0)) out
           in accept_plain out)
         else if (fld inst 24 0xf < 0x6 \<or> (fld inst 24 0xf > 0xb
            \<or> ((fld inst 24 0xf) AND 0xe) = 0x8)) \<and> fld inst 24 0x1f \<noteq> 0x0
         then (
           let out = set_cc (ucast (pos inst 24 31 0)) out;
               out = set_pc (ucast (pos inst 0 65535 0)) out
           in accept_plain out)
         else (False, out))
       else (False, out))
     else decode_at_5474 inst out)"

lemma decode_at_5370_ok: "dec_in {} inst out \<Longrightarrow> dec_ok inst (decode_at_5370 inst out)"
  unfolding decode_at_5370_def
  by (rule dec_rules decode_at_5474_ok | assumption | (unfold format_simps, simp))+

definition decode_at_5266 :: "u64 \<Rightarrow> raw_decoded48 \<Rightarrow> bool \<times> raw_decoded48" where
  "decode_at_5266 inst out =
     (if ((fld inst 20 0xf) AND 0xf) = 0x6
     then (
       let out = set_rb (ucast (pos inst 17 7 0 OR pos inst 32 3 3)) out;
           out = set_ra (ucast (pos inst 34 31 0)) out
       in if (fld inst 44 0x3 \<noteq> 0x3 \<and> fld inst 46 0x1 = 0x1)
          \<and> fld inst 39 0x1 = 0x1
       then (
         let out = set_dc (ucast (pos inst 40 3 1 OR pos inst 44 3 3)) out
         in if fld inst 24 0xf = 0x0
         then accept_plain out
         else if ((fld inst 26 0x1) XOR (fld inst 27 0x1)) = 0x1 \<and> fld inst 25 0x1 = 0x1
         then (
           let out = set_cc (ucast (pos inst 24 15 0)) out
           in accept_plain out)
         else if (fld inst 24 0xf < 0x6 \<or> (fld inst 24 0xf > 0xb
            \<or> ((fld inst 24 0xf) AND 0xe) = 0x8)) \<and> fld inst 24 0x1f \<noteq> 0x0
         then (
           let out = set_cc (ucast (pos inst 24 31 0)) out;
               out = set_pc (ucast (pos inst 0 65535 0)) out
           in accept_plain out)
         else (False, out))
       else if fld inst 44 0x3 \<noteq> 0x3 \<and> fld inst 46 0x1 = 0x0
       then (
         let out = set_rc (ucast (pos inst 39 7 0 OR pos inst 44 3 3)) out
         in if fld inst 24 0xf = 0x0
         then accept_plain out
         else if ((fld inst 26 0x1) XOR (fld inst 27 0x1)) = 0x1 \<and> fld inst 25 0x1 = 0x1
         then (
           let out = set_cc (ucast (pos inst 24 15 0)) out
           in accept_plain out)
         else if (fld inst 24 0xf < 0x6 \<or> (fld inst 24 0xf > 0xb
            \<or> ((fld inst 24 0xf) AND 0xe) = 0x8)) \<and> fld inst 24 0x1f \<noteq> 0x0
         then (
           let out = set_cc (ucast (pos inst 24 31 0)) out;
               out = set_pc (ucast (pos inst 0 65535 0)) out
           in accept_plain out)
         else (False, out))
       else if fld inst 44 0x3 = 0x3
       then (
         if fld inst 24 0xf = 0x0
         then accept_plain out
         else if ((fld inst 26 0x1) XOR (fld inst 27 0x1)) = 0x1 \<and> fld inst 25 0x1 = 0x1
         then (
           let out = set_cc (ucast (pos inst 24 15 0)) out
           in accept_plain out)
         else if (fld inst 24 0xf < 0x6 \<or> (fld inst 24 0xf > 0xb
            \<or> ((fld inst 24 0xf) AND 0xe) = 0x8)) \<and> fld inst 24 0x1f \<noteq> 0x0
         then (
           let out = set_cc (ucast (pos inst 24 31 0)) out;
               out = set_pc (ucast (pos inst 0 65535 0)) out
           in accept_plain out)
         else (False, out))
       else (False, out))
     else decode_at_5370 inst out)"

lemma decode_at_5266_ok: "dec_in {} inst out \<Longrightarrow> dec_ok inst (decode_at_5266 inst out)"
  unfolding decode_at_5266_def
  by (rule dec_rules decode_at_5370_ok | assumption | (unfold format_simps, simp))+

definition decode_at_5162 :: "u64 \<Rightarrow> raw_decoded48 \<Rightarrow> bool \<times> raw_decoded48" where
  "decode_at_5162 inst out =
     (if ((fld inst 20 0xf) AND 0xf) = 0x7
     then (
       let out = set_rb (ucast (pos inst 17 7 0 OR pos inst 32 3 3)) out;
           out = set_ra (ucast (pos inst 34 31 0)) out
       in if (fld inst 44 0x3 \<noteq> 0x3 \<and> fld inst 46 0x1 = 0x1)
          \<and> fld inst 39 0x1 = 0x1
       then (
         let out = set_dc (ucast (pos inst 40 3 1 OR pos inst 44 3 3)) out
         in if fld inst 24 0xf = 0x0
         then accept_plain out
         else if ((fld inst 26 0x1) XOR (fld inst 27 0x1)) = 0x1 \<and> fld inst 25 0x1 = 0x1
         then (
           let out = set_cc (ucast (pos inst 24 15 0)) out
           in accept_plain out)
         else if (fld inst 24 0xf < 0x6 \<or> (fld inst 24 0xf > 0xb
            \<or> ((fld inst 24 0xf) AND 0xe) = 0x8)) \<and> fld inst 24 0x1f \<noteq> 0x0
         then (
           let out = set_cc (ucast (pos inst 24 31 0)) out;
               out = set_pc (ucast (pos inst 0 65535 0)) out
           in accept_plain out)
         else (False, out))
       else if fld inst 44 0x3 \<noteq> 0x3 \<and> fld inst 46 0x1 = 0x0
       then (
         let out = set_rc (ucast (pos inst 39 7 0 OR pos inst 44 3 3)) out
         in if fld inst 24 0xf = 0x0
         then accept_plain out
         else if ((fld inst 26 0x1) XOR (fld inst 27 0x1)) = 0x1 \<and> fld inst 25 0x1 = 0x1
         then (
           let out = set_cc (ucast (pos inst 24 15 0)) out
           in accept_plain out)
         else if (fld inst 24 0xf < 0x6 \<or> (fld inst 24 0xf > 0xb
            \<or> ((fld inst 24 0xf) AND 0xe) = 0x8)) \<and> fld inst 24 0x1f \<noteq> 0x0
         then (
           let out = set_cc (ucast (pos inst 24 31 0)) out;
               out = set_pc (ucast (pos inst 0 65535 0)) out
           in accept_plain out)
         else (False, out))
       else if fld inst 44 0x3 = 0x3
       then (
         if fld inst 24 0xf = 0x0
         then accept_plain out
         else if ((fld inst 26 0x1) XOR (fld inst 27 0x1)) = 0x1 \<and> fld inst 25 0x1 = 0x1
         then (
           let out = set_cc (ucast (pos inst 24 15 0)) out
           in accept_plain out)
         else if (fld inst 24 0xf < 0x6 \<or> (fld inst 24 0xf > 0xb
            \<or> ((fld inst 24 0xf) AND 0xe) = 0x8)) \<and> fld inst 24 0x1f \<noteq> 0x0
         then (
           let out = set_cc (ucast (pos inst 24 31 0)) out;
               out = set_pc (ucast (pos inst 0 65535 0)) out
           in accept_plain out)
         else (False, out))
       else (False, out))
     else decode_at_5266 inst out)"

lemma decode_at_5162_ok: "dec_in {} inst out \<Longrightarrow> dec_ok inst (decode_at_5162 inst out)"
  unfolding decode_at_5162_def
  by (rule dec_rules decode_at_5266_ok | assumption | (unfold format_simps, simp))+

definition decode_at_6565 :: "u64 \<Rightarrow> raw_decoded48 \<Rightarrow> bool \<times> raw_decoded48" where
  "decode_at_6565 inst out =
     (if fld inst 34 0x1f = 0x19
     then (
       let out = set_rb (ucast (pos inst 17 7 0 OR pos inst 32 3 3)) out;
           out = set_ra (ucast (pos inst 34 31 0)) out
       in if (fld inst 44 0x3 \<noteq> 0x3 \<and> fld inst 46 0x1 = 0x1)
          \<and> fld inst 39 0x1 = 0x1
       then (
         let out = set_dc (ucast (pos inst 40 3 1 OR pos inst 44 3 3)) out
         in if fld inst 24 0xf = 0x0
         then accept_plain out
         else if (fld inst 24 0xf < 0x6 \<or> fld inst 24 0xf > 0xb)
            \<and> fld inst 24 0xf \<noteq> 0x0
         then (
           let out = set_cc (ucast (pos inst 24 15 0)) out;
               out = set_pc (ucast (pos inst 0 65535 0)) out
           in accept_plain out)
         else (False, out))
       else if (fld inst 44 0x3 \<noteq> 0x3 \<and> fld inst 46 0x1 = 0x1)
          \<and> fld inst 39 0x1 = 0x0
       then (
         let out = set_dc (ucast (pos inst 40 3 1 OR pos inst 44 3 3)) out
         in if fld inst 24 0xf = 0x0
         then accept_plain out
         else if (fld inst 24 0xf < 0x6 \<or> fld inst 24 0xf > 0xb)
            \<and> fld inst 24 0xf \<noteq> 0x0
         then (
           let out = set_cc (ucast (pos inst 24 15 0)) out;
               out = set_pc (ucast (pos inst 0 65535 0)) out
           in accept_plain out)
         else (False, out))
       else if fld inst 44 0x3 \<noteq> 0x3 \<and> fld inst 46 0x1 = 0x0
       then (
         let out = set_rc (ucast (pos inst 39 7 0 OR pos inst 44 3 3)) out
         in if fld inst 24 0xf = 0x0
         then accept_hot H_TimeCfg F_Rr out
         else if (fld inst 24 0xf < 0x6 \<or> fld inst 24 0xf > 0xb)
            \<and> fld inst 24 0xf \<noteq> 0x0
         then (
           let out = set_cc (ucast (pos inst 24 15 0)) out;
               out = set_pc (ucast (pos inst 0 65535 0)) out
           in accept_hot H_TimeCfg F_Rrci out)
         else (False, out))
       else if fld inst 44 0x3 = 0x3
       then (
         if fld inst 24 0xf = 0x0
         then accept_hot H_TimeCfg F_Zr out
         else if (fld inst 24 0xf < 0x6 \<or> fld inst 24 0xf > 0xb)
            \<and> fld inst 24 0xf \<noteq> 0x0
         then (
           let out = set_cc (ucast (pos inst 24 15 0)) out;
               out = set_pc (ucast (pos inst 0 65535 0)) out
           in accept_hot H_TimeCfg F_Zrci out)
         else (False, out))
       else (False, out))
     else (False, out))"

lemma decode_at_6565_ok: "dec_in {} inst out \<Longrightarrow> dec_ok inst (decode_at_6565 inst out)"
  unfolding decode_at_6565_def
  by (rule dec_rules | assumption | (unfold format_simps, simp))+

definition decode_at_6462 :: "u64 \<Rightarrow> raw_decoded48 \<Rightarrow> bool \<times> raw_decoded48" where
  "decode_at_6462 inst out =
     (if fld inst 34 0x1f = 0x18
     then (
       let out = set_ra (ucast (pos inst 34 31 0)) out
       in if (fld inst 44 0x3 \<noteq> 0x3 \<and> fld inst 46 0x1 = 0x1)
          \<and> fld inst 39 0x1 = 0x1
       then (
         let out = set_dc (ucast (pos inst 40 3 1 OR pos inst 44 3 3)) out
         in if fld inst 24 0xf = 0x0
         then accept_plain out
         else if (fld inst 24 0xf < 0x6 \<or> fld inst 24 0xf > 0xb)
            \<and> fld inst 24 0xf \<noteq> 0x0
         then (
           let out = set_cc (ucast (pos inst 24 15 0)) out;
               out = set_pc (ucast (pos inst 0 65535 0)) out
           in accept_plain out)
         else (False, out))
       else if (fld inst 44 0x3 \<noteq> 0x3 \<and> fld inst 46 0x1 = 0x1)
          \<and> fld inst 39 0x1 = 0x0
       then (
         let out = set_dc (ucast (pos inst 40 3 1 OR pos inst 44 3 3)) out
         in if fld inst 24 0xf = 0x0
         then accept_plain out
         else if (fld inst 24 0xf < 0x6 \<or> fld inst 24 0xf > 0xb)
            \<and> fld inst 24 0xf \<noteq> 0x0
         then (
           let out = set_cc (ucast (pos inst 24 15 0)) out;
               out = set_pc (ucast (pos inst 0 65535 0)) out
           in accept_plain out)
         else (False, out))
       else if fld inst 44 0x3 \<noteq> 0x3 \<and> fld inst 46 0x1 = 0x0
       then (
         let out = set_rc (ucast (pos inst 39 7 0 OR pos inst 44 3 3)) out
         in if fld inst 24 0xf = 0x0
         then accept_hot H_Time F_R out
         else if (fld inst 24 0xf < 0x6 \<or> fld inst 24 0xf > 0xb)
            \<and> fld inst 24 0xf \<noteq> 0x0
         then (
           let out = set_cc (ucast (pos inst 24 15 0)) out;
               out = set_pc (ucast (pos inst 0 65535 0)) out
           in accept_hot H_Time F_Rci out)
         else (False, out))
       else if fld inst 44 0x3 = 0x3
       then (
         if fld inst 24 0xf = 0x0
         then accept_hot H_Time F_Z out
         else if (fld inst 24 0xf < 0x6 \<or> fld inst 24 0xf > 0xb)
            \<and> fld inst 24 0xf \<noteq> 0x0
         then (
           let out = set_cc (ucast (pos inst 24 15 0)) out;
               out = set_pc (ucast (pos inst 0 65535 0)) out
           in accept_hot H_Time F_Zci out)
         else (False, out))
       else (False, out))
     else decode_at_6565 inst out)"

lemma decode_at_6462_ok: "dec_in {} inst out \<Longrightarrow> dec_ok inst (decode_at_6462 inst out)"
  unfolding decode_at_6462_def
  by (rule dec_rules decode_at_6565_ok | assumption | (unfold format_simps, simp))+

definition decode_at_6461 :: "u64 \<Rightarrow> raw_decoded48 \<Rightarrow> bool \<times> raw_decoded48" where
  "decode_at_6461 inst out =
     (if ((fld inst 20 0xf) AND 0xf) = 0x8
     then decode_at_6462 inst out
     else (False, out))"

lemma decode_at_6461_ok: "dec_in {} inst out \<Longrightarrow> dec_ok inst (decode_at_6461 inst out)"
  unfolding decode_at_6461_def
  by (rule dec_rules decode_at_6462_ok | assumption | (unfold format_simps, simp))+

definition decode_at_6460 :: "u64 \<Rightarrow> raw_decoded48 \<Rightarrow> bool \<times> raw_decoded48" where
  "decode_at_6460 inst out =
     (if ((fld inst 28 0xf) AND 0x3) = 0x2
     then decode_at_6461 inst out
     else (False, out))"

lemma decode_at_6460_ok: "dec_in {} inst out \<Longrightarrow> dec_ok inst (decode_at_6460 inst out)"
  unfolding decode_at_6460_def
  by (rule dec_rules decode_at_6461_ok | assumption | (unfold format_simps, simp))+

definition decode_at_5161 :: "u64 \<Rightarrow> raw_decoded48 \<Rightarrow> bool \<times> raw_decoded48" where
  "decode_at_5161 inst out =
     (if ((fld inst 28 0xf) AND 0x2) = 0x0
     then decode_at_5162 inst out
     else decode_at_6460 inst out)"

lemma decode_at_5161_ok: "dec_in {} inst out \<Longrightarrow> dec_ok inst (decode_at_5161 inst out)"
  unfolding decode_at_5161_def
   by (rule dec_rules decode_at_5162_ok decode_at_6460_ok | assumption | (unfold format_simps,
      simp))+

definition decode_at_5160 :: "u64 \<Rightarrow> raw_decoded48 \<Rightarrow> bool \<times> raw_decoded48" where
  "decode_at_5160 inst out =
     (if ((fld inst 20 0xf) AND 0xc) \<noteq> 0xc
     then decode_at_5161 inst out
     else (False, out))"

lemma decode_at_5160_ok: "dec_in {} inst out \<Longrightarrow> dec_ok inst (decode_at_5160 inst out)"
  unfolding decode_at_5160_def
  by (rule dec_rules decode_at_5161_ok | assumption | (unfold format_simps, simp))+

definition decode_at_4051 :: "u64 \<Rightarrow> raw_decoded48 \<Rightarrow> bool \<times> raw_decoded48" where
  "decode_at_4051 inst out =
     (if ((fld inst 20 0xf) AND 0xc) = 0xc
     then decode_at_4052 inst out
     else decode_at_5160 inst out)"

lemma decode_at_4051_ok: "dec_in {} inst out \<Longrightarrow> dec_ok inst (decode_at_4051 inst out)"
  unfolding decode_at_4051_def
   by (rule dec_rules decode_at_4052_ok decode_at_5160_ok | assumption | (unfold format_simps,
      simp))+

end
