(* ===== verification/Decode_4.thy ===== *)
theory Decode_4
  imports Decode_3
begin

text \<open>
  Part 4 of the decision tree of \<open>decode_raw_word_48\<close> (\<open>dpu/pipeline.cc\<close>). \<open>decode_at_N\<close> is the block
  of the function that starts at source line \<open>N\<close>; a block that is too long for one definition calls
  the definitions of its inner blocks, or of its remaining tests, at the place where the source has
  them. The lemma \<open>decode_at_N_ok\<close> states that the block, entered after the operands on the path to
  it were read, returns with an operand layout that its format announces.
\<close>

definition decode_at_4049 :: "u64 \<Rightarrow> raw_decoded48 \<Rightarrow> bool \<times> raw_decoded48" where
  "decode_at_4049 inst out =
     (if fld inst 32 0x3 \<noteq> 0x3 \<and> fld inst 16 0x1 = 0x0
     then decode_at_4051 inst out
     else (False, out))"

lemma decode_at_4049_ok: "dec_in {} inst out \<Longrightarrow> dec_ok inst (decode_at_4049 inst out)"
  unfolding decode_at_4049_def
  by (rule dec_rules decode_at_4051_ok | assumption | (unfold format_simps, simp))+

definition decode_at_2596 :: "u64 \<Rightarrow> raw_decoded48 \<Rightarrow> bool \<times> raw_decoded48" where
  "decode_at_2596 inst out =
     (if fld inst 32 0x3 = 0x3
     then decode_at_2597 inst out
     else decode_at_4049 inst out)"

lemma decode_at_2596_ok: "dec_in {} inst out \<Longrightarrow> dec_ok inst (decode_at_2596 inst out)"
  unfolding decode_at_2596_def
   by (rule dec_rules decode_at_2597_ok decode_at_4049_ok | assumption | (unfold format_simps,
      simp))+

definition decode_at_6768 :: "u64 \<Rightarrow> raw_decoded48 \<Rightarrow> bool \<times> raw_decoded48" where
  "decode_at_6768 inst out =
     (if fld inst 32 0x3 = 0x3
     then (
       if fld inst 44 0xf = 0x5 \<and> fld inst 42 0x3 \<noteq> 0x3
       then (
         if fld inst 37 0x3 = 0x3
         then (
           let out = set_ra (ucast (pos inst 34 31 0)) out
           in if fld inst 42 0x3 \<noteq> 0x3 \<and> fld inst 39 0x1 = 0x1
           then (
             let out = set_dc (ucast (pos inst 40 15 1)) out;
                 out = set_imm (ucast (pos inst 20 15 0 OR pos inst 16 15 4 OR pos inst 15 1 8 OR
                                   pos inst 14 1 9 OR pos inst 13 1 10 OR pos inst 12 1 11 OR
                                   pos inst 0 4095 12 OR pos inst 24 255 24)) out
             in accept_hot H_AndS F_Rki out)
           else if fld inst 42 0x3 \<noteq> 0x3 \<and> fld inst 39 0x1 = 0x0
           then (
             let out = set_dc (ucast (pos inst 40 15 1)) out;
                 out = set_imm (ucast (pos inst 20 15 0 OR pos inst 16 15 4 OR pos inst 15 1 8 OR
                                   pos inst 14 1 9 OR pos inst 13 1 10 OR pos inst 12 1 11 OR
                                   pos inst 0 4095 12 OR pos inst 24 255 24)) out
             in accept_hot H_AndU F_Rki out)
           else (False, out))
         else if fld inst 37 0x3 \<noteq> 0x3
         then (
           let out = set_ra (ucast (pos inst 34 31 0)) out
           in if fld inst 42 0x3 \<noteq> 0x3
           then (
             let out = set_rc (ucast (pos inst 39 31 0)) out;
                 out = set_imm (ucast (pos inst 20 15 0 OR pos inst 16 15 4 OR pos inst 15 1 8 OR
                                   pos inst 14 1 9 OR pos inst 13 1 10 OR pos inst 12 1 11 OR
                                   pos inst 0 4095 12 OR pos inst 24 255 24)) out
             in accept_hot H_And F_Rri out)
           else (False, out))
         else (False, out))
       else if fld inst 44 0xf = 0x4 \<and> fld inst 42 0x3 \<noteq> 0x3
       then (
         if fld inst 42 0x3 \<noteq> 0x3
         then (
           let out = set_rc (ucast (pos inst 39 31 0)) out;
               out = set_ra (ucast (pos inst 34 31 0)) out;
               out = set_imm (ucast (pos inst 20 15 0 OR pos inst 16 15 4 OR pos inst 15 1 8 OR
                                 pos inst 14 1 9 OR pos inst 13 1 10 OR pos inst 12 1 11 OR
                                 pos inst 0 4095 12 OR pos inst 24 255 24)) out
           in accept_plain out)
         else (False, out))
       else (False, out))
     else if fld inst 32 0x3 \<noteq> 0x3 \<and> fld inst 16 0x1 = 0x0
     then (
       let out = set_rb (ucast (pos inst 17 7 0 OR pos inst 32 3 3)) out
       in if fld inst 42 0x3 \<noteq> 0x3 \<and> fld inst 39 0x1 = 0x1
       then (
         let out = set_dc (ucast (pos inst 40 15 1)) out
         in if fld inst 37 0x3 = 0x3
         then (
           let out = set_imm (ucast (pos inst 20 15 0 OR pos inst 34 7 4 OR pos inst 44 1 7 OR
                                 pos inst 15 1 8 OR pos inst 14 1 9 OR pos inst 13 1 10 OR
                                 pos inst 12 1 11 OR pos inst 0 4095 12 OR pos inst 24 255 24)) out
           in accept_hot H_OrS F_Rri out)
         else (False, out))
       else if fld inst 42 0x3 \<noteq> 0x3 \<and> fld inst 39 0x1 = 0x0
       then (
         let out = set_dc (ucast (pos inst 40 15 1)) out
         in if fld inst 37 0x3 = 0x3
         then (
           let out = set_imm (ucast (pos inst 20 15 0 OR pos inst 34 7 4 OR pos inst 44 1 7 OR
                                 pos inst 15 1 8 OR pos inst 14 1 9 OR pos inst 13 1 10 OR
                                 pos inst 12 1 11 OR pos inst 0 4095 12 OR pos inst 24 255 24)) out
           in accept_hot H_OrU F_Rri out)
         else (False, out))
       else (False, out))
     else (False, out))"

lemma decode_at_6768_ok: "dec_in {} inst out \<Longrightarrow> dec_ok inst (decode_at_6768 inst out)"
  unfolding decode_at_6768_def
  by (rule dec_rules | assumption | (unfold format_simps, simp))+

definition decode_at_7133 :: "u64 \<Rightarrow> raw_decoded48 \<Rightarrow> bool \<times> raw_decoded48" where
  "decode_at_7133 inst out =
     (if fld inst 42 0x3 \<noteq> 0x3 \<and> fld inst 44 0x1 = 0x0
     then (
       let out = set_rc (ucast (pos inst 39 31 0)) out;
           out = set_ra (ucast (pos inst 34 31 0)) out
       in if ((fld inst 26 0x1) XOR (fld inst 27 0x1)) = 0x1 \<and> fld inst 25 0x1 = 0x1
       then (
         let out = set_cc (ucast (pos inst 24 15 0)) out;
             out = set_imm (ucast (pos inst 20 15 0 OR pos inst 16 15 4 OR pos inst 15 1 8 OR
                               pos inst 14 1 9 OR pos inst 13 1 10 OR pos inst 12 1 11 OR
                               pos inst 0 4095 12)) out
         in accept_hot H_And F_Rric out)
       else if (fld inst 24 0xf < 0x6 \<or> (fld inst 24 0xf > 0xb
          \<or> ((fld inst 24 0xf) AND 0xe) = 0x8)) \<and> fld inst 24 0xf \<noteq> 0x0
       then (
         let out = set_cc (ucast (pos inst 24 15 0)) out;
             out = set_pc (ucast (pos inst 0 65535 0)) out;
             out = set_imm (ucast (pos inst 20 15 0 OR pos inst 16 15 4)) out
         in accept_hot H_And F_Rrici out)
       else if fld inst 24 0xf = 0x0
       then (
         let out = set_imm (ucast (pos inst 20 15 0 OR pos inst 16 15 4 OR pos inst 15 1 8 OR
                               pos inst 14 1 9 OR pos inst 13 1 10 OR pos inst 12 1 11 OR
                               pos inst 0 4095 12)) out
         in accept_hot H_And F_Rrif out)
       else (False, out))
     else if fld inst 42 0x3 = 0x3
     then (
       let out = set_ra (ucast (pos inst 34 31 0)) out
       in if ((fld inst 26 0x1) XOR (fld inst 27 0x1)) = 0x1 \<and> fld inst 25 0x1 = 0x1
       then (
         let out = set_cc (ucast (pos inst 24 15 0)) out;
             out = set_imm (ucast (pos inst 20 15 0 OR pos inst 16 15 4 OR pos inst 15 1 8 OR
                               pos inst 14 1 9 OR pos inst 13 1 10 OR pos inst 12 1 11 OR
                               pos inst 0 4095 12 OR pos inst 39 7 24 OR pos inst 44 1 27)) out
         in accept_hot H_And F_Zric out)
       else if (fld inst 24 0xf < 0x6 \<or> (fld inst 24 0xf > 0xb
          \<or> ((fld inst 24 0xf) AND 0xe) = 0x8)) \<and> fld inst 24 0xf \<noteq> 0x0
       then (
         let out = set_cc (ucast (pos inst 24 15 0)) out;
             out = set_pc (ucast (pos inst 0 65535 0)) out;
             out = set_imm (ucast (pos inst 20 15 0 OR pos inst 16 15 4 OR pos inst 39 7 8 OR
                               pos inst 44 1 11)) out
         in accept_hot H_And F_Zrici out)
       else if fld inst 24 0xf = 0x0
       then (
         let out = set_imm (ucast (pos inst 20 15 0 OR pos inst 16 15 4 OR pos inst 15 1 8 OR
                               pos inst 14 1 9 OR pos inst 13 1 10 OR pos inst 12 1 11 OR
                               pos inst 0 4095 12 OR pos inst 39 7 24 OR pos inst 44 1 27)) out
         in accept_hot H_And F_Zrif out)
       else (False, out))
     else (False, out))"

lemma decode_at_7133_ok: "dec_in {} inst out \<Longrightarrow> dec_ok inst (decode_at_7133 inst out)"
  unfolding decode_at_7133_def
  by (rule dec_rules | assumption | (unfold format_simps, simp))+

definition decode_at_7019 :: "u64 \<Rightarrow> raw_decoded48 \<Rightarrow> bool \<times> raw_decoded48" where
  "decode_at_7019 inst out =
     (if (fld inst 42 0x3 \<noteq> 0x3 \<and> fld inst 44 0x1 = 0x1) \<and> fld inst 39 0x1 = 0x1
     then (
       let out = set_dc (ucast (pos inst 40 15 1)) out;
           out = set_ra (ucast (pos inst 34 31 0)) out
       in if ((fld inst 26 0x1) XOR (fld inst 27 0x1)) = 0x1 \<and> fld inst 25 0x1 = 0x1
       then (
         let out = set_cc (ucast (pos inst 24 15 0)) out;
             out = set_imm (ucast (pos inst 20 15 0 OR pos inst 16 15 4 OR pos inst 15 1 8 OR
                               pos inst 14 1 9 OR pos inst 13 1 10 OR pos inst 12 1 11 OR
                               pos inst 0 4095 12)) out
         in accept_hot H_AndS F_Rric out)
       else if (fld inst 24 0xf < 0x6 \<or> (fld inst 24 0xf > 0xb
          \<or> ((fld inst 24 0xf) AND 0xe) = 0x8)) \<and> fld inst 24 0xf \<noteq> 0x0
       then (
         let out = set_cc (ucast (pos inst 24 15 0)) out;
             out = set_pc (ucast (pos inst 0 65535 0)) out;
             out = set_imm (ucast (pos inst 20 15 0 OR pos inst 16 15 4)) out
         in accept_hot H_AndS F_Rrici out)
       else if fld inst 24 0xf = 0x0
       then (
         let out = set_imm (ucast (pos inst 20 15 0 OR pos inst 16 15 4 OR pos inst 15 1 8 OR
                               pos inst 14 1 9 OR pos inst 13 1 10 OR pos inst 12 1 11 OR
                               pos inst 0 4095 12)) out
         in accept_hot H_AndS F_Rrif out)
       else (False, out))
     else if (fld inst 42 0x3 \<noteq> 0x3 \<and> fld inst 44 0x1 = 0x1) \<and> fld inst 39 0x1 = 0x0
     then (
       let out = set_dc (ucast (pos inst 40 15 1)) out;
           out = set_ra (ucast (pos inst 34 31 0)) out
       in if ((fld inst 26 0x1) XOR (fld inst 27 0x1)) = 0x1 \<and> fld inst 25 0x1 = 0x1
       then (
         let out = set_cc (ucast (pos inst 24 15 0)) out;
             out = set_imm (ucast (pos inst 20 15 0 OR pos inst 16 15 4 OR pos inst 15 1 8 OR
                               pos inst 14 1 9 OR pos inst 13 1 10 OR pos inst 12 1 11 OR
                               pos inst 0 4095 12)) out
         in accept_hot H_AndU F_Rric out)
       else if (fld inst 24 0xf < 0x6 \<or> (fld inst 24 0xf > 0xb
          \<or> ((fld inst 24 0xf) AND 0xe) = 0x8)) \<and> fld inst 24 0xf \<noteq> 0x0
       then (
         let out = set_cc (ucast (pos inst 24 15 0)) out;
             out = set_pc (ucast (pos inst 0 65535 0)) out;
             out = set_imm (ucast (pos inst 20 15 0 OR pos inst 16 15 4)) out
         in accept_hot H_AndU F_Rrici out)
       else if fld inst 24 0xf = 0x0
       then (
         let out = set_imm (ucast (pos inst 20 15 0 OR pos inst 16 15 4 OR pos inst 15 1 8 OR
                               pos inst 14 1 9 OR pos inst 13 1 10 OR pos inst 12 1 11 OR
                               pos inst 0 4095 12)) out
         in accept_hot H_AndU F_Rrif out)
       else (False, out))
     else decode_at_7133 inst out)"

lemma decode_at_7019_ok: "dec_in {} inst out \<Longrightarrow> dec_ok inst (decode_at_7019 inst out)"
  unfolding decode_at_7019_def
  by (rule dec_rules decode_at_7133_ok | assumption | (unfold format_simps, simp))+

definition decode_at_7353 :: "u64 \<Rightarrow> raw_decoded48 \<Rightarrow> bool \<times> raw_decoded48" where
  "decode_at_7353 inst out =
     (if fld inst 42 0x3 \<noteq> 0x3 \<and> fld inst 44 0x1 = 0x0
     then (
       let out = set_rc (ucast (pos inst 39 31 0)) out;
           out = set_ra (ucast (pos inst 34 31 0)) out
       in if ((fld inst 26 0x1) XOR (fld inst 27 0x1)) = 0x1 \<and> fld inst 25 0x1 = 0x1
       then (
         let out = set_cc (ucast (pos inst 24 15 0)) out;
             out = set_imm (ucast (pos inst 20 15 0 OR pos inst 16 15 4 OR pos inst 15 1 8 OR
                               pos inst 14 1 9 OR pos inst 13 1 10 OR pos inst 12 1 11 OR
                               pos inst 0 4095 12)) out
         in accept_plain out)
       else if (fld inst 24 0xf < 0x6 \<or> (fld inst 24 0xf > 0xb
          \<or> ((fld inst 24 0xf) AND 0xe) = 0x8)) \<and> fld inst 24 0xf \<noteq> 0x0
       then (
         let out = set_cc (ucast (pos inst 24 15 0)) out;
             out = set_pc (ucast (pos inst 0 65535 0)) out;
             out = set_imm (ucast (pos inst 20 15 0 OR pos inst 16 15 4)) out
         in accept_plain out)
       else if fld inst 24 0xf = 0x0
       then (
         let out = set_imm (ucast (pos inst 20 15 0 OR pos inst 16 15 4 OR pos inst 15 1 8 OR
                               pos inst 14 1 9 OR pos inst 13 1 10 OR pos inst 12 1 11 OR
                               pos inst 0 4095 12)) out
         in accept_plain out)
       else (False, out))
     else if fld inst 42 0x3 = 0x3
     then (
       let out = set_ra (ucast (pos inst 34 31 0)) out
       in if ((fld inst 26 0x1) XOR (fld inst 27 0x1)) = 0x1 \<and> fld inst 25 0x1 = 0x1
       then (
         let out = set_cc (ucast (pos inst 24 15 0)) out;
             out = set_imm (ucast (pos inst 20 15 0 OR pos inst 16 15 4 OR pos inst 15 1 8 OR
                               pos inst 14 1 9 OR pos inst 13 1 10 OR pos inst 12 1 11 OR
                               pos inst 0 4095 12 OR pos inst 39 7 24 OR pos inst 44 1 27)) out
         in accept_plain out)
       else if (fld inst 24 0xf < 0x6 \<or> (fld inst 24 0xf > 0xb
          \<or> ((fld inst 24 0xf) AND 0xe) = 0x8)) \<and> fld inst 24 0xf \<noteq> 0x0
       then (
         let out = set_cc (ucast (pos inst 24 15 0)) out;
             out = set_pc (ucast (pos inst 0 65535 0)) out;
             out = set_imm (ucast (pos inst 20 15 0 OR pos inst 16 15 4 OR pos inst 39 7 8 OR
                               pos inst 44 1 11)) out
         in accept_plain out)
       else if fld inst 24 0xf = 0x0
       then (
         let out = set_imm (ucast (pos inst 20 15 0 OR pos inst 16 15 4 OR pos inst 15 1 8 OR
                               pos inst 14 1 9 OR pos inst 13 1 10 OR pos inst 12 1 11 OR
                               pos inst 0 4095 12 OR pos inst 39 7 24 OR pos inst 44 1 27)) out
         in accept_plain out)
       else (False, out))
     else (False, out))"

lemma decode_at_7353_ok: "dec_in {} inst out \<Longrightarrow> dec_ok inst (decode_at_7353 inst out)"
  unfolding decode_at_7353_def
  by (rule dec_rules | assumption | (unfold format_simps, simp))+

definition decode_at_7251 :: "u64 \<Rightarrow> raw_decoded48 \<Rightarrow> bool \<times> raw_decoded48" where
  "decode_at_7251 inst out =
     (if (fld inst 42 0x3 \<noteq> 0x3 \<and> fld inst 44 0x1 = 0x1) \<and> fld inst 39 0x1 = 0x1
     then (
       let out = set_dc (ucast (pos inst 40 15 1)) out;
           out = set_ra (ucast (pos inst 34 31 0)) out
       in if ((fld inst 26 0x1) XOR (fld inst 27 0x1)) = 0x1 \<and> fld inst 25 0x1 = 0x1
       then (
         let out = set_cc (ucast (pos inst 24 15 0)) out;
             out = set_imm (ucast (pos inst 20 15 0 OR pos inst 16 15 4 OR pos inst 15 1 8 OR
                               pos inst 14 1 9 OR pos inst 13 1 10 OR pos inst 12 1 11 OR
                               pos inst 0 4095 12)) out
         in accept_plain out)
       else if (fld inst 24 0xf < 0x6 \<or> (fld inst 24 0xf > 0xb
          \<or> ((fld inst 24 0xf) AND 0xe) = 0x8)) \<and> fld inst 24 0xf \<noteq> 0x0
       then (
         let out = set_cc (ucast (pos inst 24 15 0)) out;
             out = set_pc (ucast (pos inst 0 65535 0)) out;
             out = set_imm (ucast (pos inst 20 15 0 OR pos inst 16 15 4)) out
         in accept_plain out)
       else if fld inst 24 0xf = 0x0
       then (
         let out = set_imm (ucast (pos inst 20 15 0 OR pos inst 16 15 4 OR pos inst 15 1 8 OR
                               pos inst 14 1 9 OR pos inst 13 1 10 OR pos inst 12 1 11 OR
                               pos inst 0 4095 12)) out
         in accept_plain out)
       else (False, out))
     else if (fld inst 42 0x3 \<noteq> 0x3 \<and> fld inst 44 0x1 = 0x1) \<and> fld inst 39 0x1 = 0x0
     then (
       let out = set_dc (ucast (pos inst 40 15 1)) out;
           out = set_ra (ucast (pos inst 34 31 0)) out
       in if ((fld inst 26 0x1) XOR (fld inst 27 0x1)) = 0x1 \<and> fld inst 25 0x1 = 0x1
       then (
         let out = set_cc (ucast (pos inst 24 15 0)) out;
             out = set_imm (ucast (pos inst 20 15 0 OR pos inst 16 15 4 OR pos inst 15 1 8 OR
                               pos inst 14 1 9 OR pos inst 13 1 10 OR pos inst 12 1 11 OR
                               pos inst 0 4095 12)) out
         in accept_plain out)
       else if (fld inst 24 0xf < 0x6 \<or> (fld inst 24 0xf > 0xb
          \<or> ((fld inst 24 0xf) AND 0xe) = 0x8)) \<and> fld inst 24 0xf \<noteq> 0x0
       then (
         let out = set_cc (ucast (pos inst 24 15 0)) out;
             out = set_pc (ucast (pos inst 0 65535 0)) out;
             out = set_imm (ucast (pos inst 20 15 0 OR pos inst 16 15 4)) out
         in accept_plain out)
       else if fld inst 24 0xf = 0x0
       then (
         let out = set_imm (ucast (pos inst 20 15 0 OR pos inst 16 15 4 OR pos inst 15 1 8 OR
                               pos inst 14 1 9 OR pos inst 13 1 10 OR pos inst 12 1 11 OR
                               pos inst 0 4095 12)) out
         in accept_plain out)
       else (False, out))
     else decode_at_7353 inst out)"

lemma decode_at_7251_ok: "dec_in {} inst out \<Longrightarrow> dec_ok inst (decode_at_7251 inst out)"
  unfolding decode_at_7251_def
  by (rule dec_rules decode_at_7353_ok | assumption | (unfold format_simps, simp))+

definition decode_at_7587 :: "u64 \<Rightarrow> raw_decoded48 \<Rightarrow> bool \<times> raw_decoded48" where
  "decode_at_7587 inst out =
     (if ((fld inst 29 0x1 = 0x0 \<and> (fld inst 24 0xf < 0x6 \<or> (fld inst 24 0xf > 0xb
        \<or> ((fld inst 24 0xf) AND 0xe) = 0x8))) \<or> (fld inst 29 0x1 = 0x1
        \<and> (fld inst 24 0xf > 0xd \<or> ((fld inst 24 0xf) AND 0xe) = 0x8)))
        \<and> (fld inst 29 0x1 \<noteq> 0x0 \<or> fld inst 24 0xf \<noteq> 0x0)
     then (
       let out = set_cc (ucast (pos inst 24 15 0 OR pos inst 29 1 4)) out;
           out = set_shift (ucast (pos inst 20 15 0 OR pos inst 28 1 4)) out
       in if ((fld inst 16 0xf) AND 0xf) = 0x8
       then (
         let out = set_pc (ucast (pos inst 0 65535 0)) out
         in accept_plain out)
       else if ((fld inst 16 0xf) AND 0xf) = 0x4
       then (
         let out = set_pc (ucast (pos inst 0 65535 0)) out
         in accept_hot H_LslS F_Rrici out)
       else if ((fld inst 16 0xf) AND 0xf) = 0x6
       then (
         let out = set_pc (ucast (pos inst 0 65535 0)) out
         in accept_plain out)
       else if ((fld inst 16 0xf) AND 0xf) = 0x7
       then (
         let out = set_pc (ucast (pos inst 0 65535 0)) out
         in accept_plain out)
       else if ((fld inst 16 0xf) AND 0xf) = 0x5
       then (
         let out = set_pc (ucast (pos inst 0 65535 0)) out
         in accept_hot H_LslxS F_Rrici out)
       else if ((fld inst 16 0xf) AND 0xf) = 0xc
       then (
         let out = set_pc (ucast (pos inst 0 65535 0)) out
         in accept_hot H_LsrS F_Rrici out)
       else if ((fld inst 16 0xf) AND 0xf) = 0xe
       then (
         let out = set_pc (ucast (pos inst 0 65535 0)) out
         in accept_plain out)
       else if ((fld inst 16 0xf) AND 0xf) = 0xf
       then (
         let out = set_pc (ucast (pos inst 0 65535 0)) out
         in accept_plain out)
       else if ((fld inst 16 0xf) AND 0xf) = 0xd
       then (
         let out = set_pc (ucast (pos inst 0 65535 0)) out
         in accept_hot H_LsrxS F_Rrici out)
       else if ((fld inst 16 0xf) AND 0xf) = 0x2
       then (
         let out = set_pc (ucast (pos inst 0 65535 0)) out
         in accept_plain out)
       else if ((fld inst 16 0xf) AND 0xf) = 0xa
       then (
         let out = set_pc (ucast (pos inst 0 65535 0)) out
         in accept_plain out)
       else (False, out))
     else (False, out))"

lemma decode_at_7587_ok: "dec_in {RA, DC} inst out \<Longrightarrow> dec_ok inst (decode_at_7587 inst out)"
  unfolding decode_at_7587_def
  by (rule dec_rules | assumption | (unfold format_simps, simp))+

definition decode_at_7462 :: "u64 \<Rightarrow> raw_decoded48 \<Rightarrow> bool \<times> raw_decoded48" where
  "decode_at_7462 inst out =
     (let out = set_dc (ucast (pos inst 40 15 1)) out;
         out = set_ra (ucast (pos inst 34 31 0)) out
     in if fld inst 24 0xf = 0x0 \<and> fld inst 29 0x1 = 0x0
     then (
       let out = set_shift (ucast (pos inst 20 15 0 OR pos inst 28 1 4)) out
       in if ((fld inst 16 0xf) AND 0xf) = 0x8
       then accept_plain out
       else if ((fld inst 16 0xf) AND 0xf) = 0x4
       then accept_hot H_LslS F_Rri out
       else if ((fld inst 16 0xf) AND 0xf) = 0x6
       then accept_plain out
       else if ((fld inst 16 0xf) AND 0xf) = 0x7
       then accept_plain out
       else if ((fld inst 16 0xf) AND 0xf) = 0x5
       then accept_hot H_LslxS F_Rri out
       else if ((fld inst 16 0xf) AND 0xf) = 0xc
       then accept_hot H_LsrS F_Rri out
       else if ((fld inst 16 0xf) AND 0xf) = 0xe
       then accept_plain out
       else if ((fld inst 16 0xf) AND 0xf) = 0xf
       then accept_plain out
       else if ((fld inst 16 0xf) AND 0xf) = 0xd
       then accept_hot H_LsrxS F_Rri out
       else if ((fld inst 16 0xf) AND 0xf) = 0x2
       then accept_plain out
       else if ((fld inst 16 0xf) AND 0xf) = 0xa
       then accept_plain out
       else (False, out))
     else if ((fld inst 26 0x1) XOR (fld inst 27 0x1)) = 0x1 \<and> fld inst 25 0x1 = 0x1
     then (
       let out = set_cc (ucast (pos inst 24 15 0)) out;
           out = set_shift (ucast (pos inst 20 15 0 OR pos inst 28 1 4)) out
       in if ((fld inst 16 0xf) AND 0xf) = 0x8
       then accept_plain out
       else if ((fld inst 16 0xf) AND 0xf) = 0x4
       then accept_hot H_LslS F_Rric out
       else if ((fld inst 16 0xf) AND 0xf) = 0x6
       then accept_plain out
       else if ((fld inst 16 0xf) AND 0xf) = 0x7
       then accept_plain out
       else if ((fld inst 16 0xf) AND 0xf) = 0x5
       then accept_hot H_LslxS F_Rric out
       else if ((fld inst 16 0xf) AND 0xf) = 0xc
       then accept_hot H_LsrS F_Rric out
       else if ((fld inst 16 0xf) AND 0xf) = 0xe
       then accept_plain out
       else if ((fld inst 16 0xf) AND 0xf) = 0xf
       then accept_plain out
       else if ((fld inst 16 0xf) AND 0xf) = 0xd
       then accept_hot H_LsrxS F_Rric out
       else if ((fld inst 16 0xf) AND 0xf) = 0x2
       then accept_plain out
       else if ((fld inst 16 0xf) AND 0xf) = 0xa
       then accept_plain out
       else (False, out))
     else decode_at_7587 inst out)"

lemma decode_at_7462_ok: "dec_in {} inst out \<Longrightarrow> dec_ok inst (decode_at_7462 inst out)"
  unfolding decode_at_7462_def
  by (rule dec_rules decode_at_7587_ok | assumption | (unfold format_simps, simp))+

definition decode_at_7819 :: "u64 \<Rightarrow> raw_decoded48 \<Rightarrow> bool \<times> raw_decoded48" where
  "decode_at_7819 inst out =
     (if ((fld inst 29 0x1 = 0x0 \<and> (fld inst 24 0xf < 0x6 \<or> (fld inst 24 0xf > 0xb
        \<or> ((fld inst 24 0xf) AND 0xe) = 0x8))) \<or> (fld inst 29 0x1 = 0x1
        \<and> (fld inst 24 0xf > 0xd \<or> ((fld inst 24 0xf) AND 0xe) = 0x8)))
        \<and> (fld inst 29 0x1 \<noteq> 0x0 \<or> fld inst 24 0xf \<noteq> 0x0)
     then (
       let out = set_cc (ucast (pos inst 24 15 0 OR pos inst 29 1 4)) out;
           out = set_shift (ucast (pos inst 20 15 0 OR pos inst 28 1 4)) out
       in if ((fld inst 16 0xf) AND 0xf) = 0x8
       then (
         let out = set_pc (ucast (pos inst 0 65535 0)) out
         in accept_plain out)
       else if ((fld inst 16 0xf) AND 0xf) = 0x4
       then (
         let out = set_pc (ucast (pos inst 0 65535 0)) out
         in accept_hot H_LslU F_Rrici out)
       else if ((fld inst 16 0xf) AND 0xf) = 0x6
       then (
         let out = set_pc (ucast (pos inst 0 65535 0)) out
         in accept_plain out)
       else if ((fld inst 16 0xf) AND 0xf) = 0x7
       then (
         let out = set_pc (ucast (pos inst 0 65535 0)) out
         in accept_plain out)
       else if ((fld inst 16 0xf) AND 0xf) = 0x5
       then (
         let out = set_pc (ucast (pos inst 0 65535 0)) out
         in accept_hot H_LslxU F_Rrici out)
       else if ((fld inst 16 0xf) AND 0xf) = 0xc
       then (
         let out = set_pc (ucast (pos inst 0 65535 0)) out
         in accept_hot H_LsrU F_Rrici out)
       else if ((fld inst 16 0xf) AND 0xf) = 0xe
       then (
         let out = set_pc (ucast (pos inst 0 65535 0)) out
         in accept_plain out)
       else if ((fld inst 16 0xf) AND 0xf) = 0xf
       then (
         let out = set_pc (ucast (pos inst 0 65535 0)) out
         in accept_plain out)
       else if ((fld inst 16 0xf) AND 0xf) = 0xd
       then (
         let out = set_pc (ucast (pos inst 0 65535 0)) out
         in accept_hot H_LsrxU F_Rrici out)
       else if ((fld inst 16 0xf) AND 0xf) = 0x2
       then (
         let out = set_pc (ucast (pos inst 0 65535 0)) out
         in accept_plain out)
       else if ((fld inst 16 0xf) AND 0xf) = 0xa
       then (
         let out = set_pc (ucast (pos inst 0 65535 0)) out
         in accept_plain out)
       else (False, out))
     else (False, out))"

lemma decode_at_7819_ok: "dec_in {RA, DC} inst out \<Longrightarrow> dec_ok inst (decode_at_7819 inst out)"
  unfolding decode_at_7819_def
  by (rule dec_rules | assumption | (unfold format_simps, simp))+

definition decode_at_7694 :: "u64 \<Rightarrow> raw_decoded48 \<Rightarrow> bool \<times> raw_decoded48" where
  "decode_at_7694 inst out =
     (let out = set_dc (ucast (pos inst 40 15 1)) out;
         out = set_ra (ucast (pos inst 34 31 0)) out
     in if fld inst 24 0xf = 0x0 \<and> fld inst 29 0x1 = 0x0
     then (
       let out = set_shift (ucast (pos inst 20 15 0 OR pos inst 28 1 4)) out
       in if ((fld inst 16 0xf) AND 0xf) = 0x8
       then accept_plain out
       else if ((fld inst 16 0xf) AND 0xf) = 0x4
       then accept_hot H_LslU F_Rri out
       else if ((fld inst 16 0xf) AND 0xf) = 0x6
       then accept_plain out
       else if ((fld inst 16 0xf) AND 0xf) = 0x7
       then accept_plain out
       else if ((fld inst 16 0xf) AND 0xf) = 0x5
       then accept_hot H_LslxU F_Rri out
       else if ((fld inst 16 0xf) AND 0xf) = 0xc
       then accept_hot H_LsrU F_Rri out
       else if ((fld inst 16 0xf) AND 0xf) = 0xe
       then accept_plain out
       else if ((fld inst 16 0xf) AND 0xf) = 0xf
       then accept_plain out
       else if ((fld inst 16 0xf) AND 0xf) = 0xd
       then accept_hot H_LsrxU F_Rri out
       else if ((fld inst 16 0xf) AND 0xf) = 0x2
       then accept_plain out
       else if ((fld inst 16 0xf) AND 0xf) = 0xa
       then accept_plain out
       else (False, out))
     else if ((fld inst 26 0x1) XOR (fld inst 27 0x1)) = 0x1 \<and> fld inst 25 0x1 = 0x1
     then (
       let out = set_cc (ucast (pos inst 24 15 0)) out;
           out = set_shift (ucast (pos inst 20 15 0 OR pos inst 28 1 4)) out
       in if ((fld inst 16 0xf) AND 0xf) = 0x8
       then accept_plain out
       else if ((fld inst 16 0xf) AND 0xf) = 0x4
       then accept_hot H_LslU F_Rric out
       else if ((fld inst 16 0xf) AND 0xf) = 0x6
       then accept_plain out
       else if ((fld inst 16 0xf) AND 0xf) = 0x7
       then accept_plain out
       else if ((fld inst 16 0xf) AND 0xf) = 0x5
       then accept_hot H_LslxU F_Rric out
       else if ((fld inst 16 0xf) AND 0xf) = 0xc
       then accept_hot H_LsrU F_Rric out
       else if ((fld inst 16 0xf) AND 0xf) = 0xe
       then accept_plain out
       else if ((fld inst 16 0xf) AND 0xf) = 0xf
       then accept_plain out
       else if ((fld inst 16 0xf) AND 0xf) = 0xd
       then accept_hot H_LsrxU F_Rric out
       else if ((fld inst 16 0xf) AND 0xf) = 0x2
       then accept_plain out
       else if ((fld inst 16 0xf) AND 0xf) = 0xa
       then accept_plain out
       else (False, out))
     else decode_at_7819 inst out)"

lemma decode_at_7694_ok: "dec_in {} inst out \<Longrightarrow> dec_ok inst (decode_at_7694 inst out)"
  unfolding decode_at_7694_def
  by (rule dec_rules decode_at_7819_ok | assumption | (unfold format_simps, simp))+

definition decode_at_8050 :: "u64 \<Rightarrow> raw_decoded48 \<Rightarrow> bool \<times> raw_decoded48" where
  "decode_at_8050 inst out =
     (if ((fld inst 29 0x1 = 0x0 \<and> (fld inst 24 0xf < 0x6 \<or> (fld inst 24 0xf > 0xb
        \<or> ((fld inst 24 0xf) AND 0xe) = 0x8))) \<or> (fld inst 29 0x1 = 0x1
        \<and> (fld inst 24 0xf > 0xd \<or> ((fld inst 24 0xf) AND 0xe) = 0x8)))
        \<and> (fld inst 29 0x1 \<noteq> 0x0 \<or> fld inst 24 0xf \<noteq> 0x0)
     then (
       let out = set_cc (ucast (pos inst 24 15 0 OR pos inst 29 1 4)) out;
           out = set_shift (ucast (pos inst 20 15 0 OR pos inst 28 1 4)) out
       in if ((fld inst 16 0xf) AND 0xf) = 0x8
       then (
         let out = set_pc (ucast (pos inst 0 65535 0)) out
         in accept_plain out)
       else if ((fld inst 16 0xf) AND 0xf) = 0x6
       then (
         let out = set_pc (ucast (pos inst 0 65535 0)) out
         in accept_plain out)
       else if ((fld inst 16 0xf) AND 0xf) = 0x7
       then (
         let out = set_pc (ucast (pos inst 0 65535 0)) out
         in accept_plain out)
       else if ((fld inst 16 0xf) AND 0xf) = 0x4
       then (
         let out = set_pc (ucast (pos inst 0 65535 0)) out
         in accept_hot H_Lsl F_Rrici out)
       else if ((fld inst 16 0xf) AND 0xf) = 0x5
       then (
         let out = set_pc (ucast (pos inst 0 65535 0)) out
         in accept_hot H_Lslx F_Rrici out)
       else if ((fld inst 16 0xf) AND 0xf) = 0xe
       then (
         let out = set_pc (ucast (pos inst 0 65535 0)) out
         in accept_plain out)
       else if ((fld inst 16 0xf) AND 0xf) = 0xf
       then (
         let out = set_pc (ucast (pos inst 0 65535 0)) out
         in accept_plain out)
       else if ((fld inst 16 0xf) AND 0xf) = 0xc
       then (
         let out = set_pc (ucast (pos inst 0 65535 0)) out
         in accept_hot H_Lsr F_Rrici out)
       else if ((fld inst 16 0xf) AND 0xf) = 0xd
       then (
         let out = set_pc (ucast (pos inst 0 65535 0)) out
         in accept_hot H_Lsrx F_Rrici out)
       else if ((fld inst 16 0xf) AND 0xf) = 0x2
       then (
         let out = set_pc (ucast (pos inst 0 65535 0)) out
         in accept_plain out)
       else if ((fld inst 16 0xf) AND 0xf) = 0xa
       then (
         let out = set_pc (ucast (pos inst 0 65535 0)) out
         in accept_plain out)
       else (False, out))
     else (False, out))"

lemma decode_at_8050_ok: "dec_in {RA, RC} inst out \<Longrightarrow> dec_ok inst (decode_at_8050 inst out)"
  unfolding decode_at_8050_def
  by (rule dec_rules | assumption | (unfold format_simps, simp))+

definition decode_at_7925 :: "u64 \<Rightarrow> raw_decoded48 \<Rightarrow> bool \<times> raw_decoded48" where
  "decode_at_7925 inst out =
     (let out = set_rc (ucast (pos inst 39 31 0)) out;
         out = set_ra (ucast (pos inst 34 31 0)) out
     in if fld inst 24 0xf = 0x0 \<and> fld inst 29 0x1 = 0x0
     then (
       let out = set_shift (ucast (pos inst 20 15 0 OR pos inst 28 1 4)) out
       in if ((fld inst 16 0xf) AND 0xf) = 0x8
       then accept_plain out
       else if ((fld inst 16 0xf) AND 0xf) = 0x6
       then accept_plain out
       else if ((fld inst 16 0xf) AND 0xf) = 0x7
       then accept_plain out
       else if ((fld inst 16 0xf) AND 0xf) = 0x4
       then accept_hot H_Lsl F_Rri out
       else if ((fld inst 16 0xf) AND 0xf) = 0x5
       then accept_hot H_Lslx F_Rri out
       else if ((fld inst 16 0xf) AND 0xf) = 0xe
       then accept_plain out
       else if ((fld inst 16 0xf) AND 0xf) = 0xf
       then accept_plain out
       else if ((fld inst 16 0xf) AND 0xf) = 0xc
       then accept_hot H_Lsr F_Rri out
       else if ((fld inst 16 0xf) AND 0xf) = 0xd
       then accept_hot H_Lsrx F_Rri out
       else if ((fld inst 16 0xf) AND 0xf) = 0x2
       then accept_plain out
       else if ((fld inst 16 0xf) AND 0xf) = 0xa
       then accept_plain out
       else (False, out))
     else if ((fld inst 26 0x1) XOR (fld inst 27 0x1)) = 0x1 \<and> fld inst 25 0x1 = 0x1
     then (
       let out = set_cc (ucast (pos inst 24 15 0)) out;
           out = set_shift (ucast (pos inst 20 15 0 OR pos inst 28 1 4)) out
       in if ((fld inst 16 0xf) AND 0xf) = 0x8
       then accept_plain out
       else if ((fld inst 16 0xf) AND 0xf) = 0x6
       then accept_plain out
       else if ((fld inst 16 0xf) AND 0xf) = 0x7
       then accept_plain out
       else if ((fld inst 16 0xf) AND 0xf) = 0x4
       then accept_hot H_Lsl F_Rric out
       else if ((fld inst 16 0xf) AND 0xf) = 0x5
       then accept_hot H_Lslx F_Rric out
       else if ((fld inst 16 0xf) AND 0xf) = 0xe
       then accept_plain out
       else if ((fld inst 16 0xf) AND 0xf) = 0xf
       then accept_plain out
       else if ((fld inst 16 0xf) AND 0xf) = 0xc
       then accept_hot H_Lsr F_Rric out
       else if ((fld inst 16 0xf) AND 0xf) = 0xd
       then accept_hot H_Lsrx F_Rric out
       else if ((fld inst 16 0xf) AND 0xf) = 0x2
       then accept_plain out
       else if ((fld inst 16 0xf) AND 0xf) = 0xa
       then accept_plain out
       else (False, out))
     else decode_at_8050 inst out)"

lemma decode_at_7925_ok: "dec_in {} inst out \<Longrightarrow> dec_ok inst (decode_at_7925 inst out)"
  unfolding decode_at_7925_def
  by (rule dec_rules decode_at_8050_ok | assumption | (unfold format_simps, simp))+

definition decode_at_8278 :: "u64 \<Rightarrow> raw_decoded48 \<Rightarrow> bool \<times> raw_decoded48" where
  "decode_at_8278 inst out =
     (if ((fld inst 29 0x1 = 0x0 \<and> (fld inst 24 0xf < 0x6 \<or> (fld inst 24 0xf > 0xb
        \<or> ((fld inst 24 0xf) AND 0xe) = 0x8))) \<or> (fld inst 29 0x1 = 0x1
        \<and> (fld inst 24 0xf > 0xd \<or> ((fld inst 24 0xf) AND 0xe) = 0x8)))
        \<and> (fld inst 29 0x1 \<noteq> 0x0 \<or> fld inst 24 0xf \<noteq> 0x0)
     then (
       let out = set_cc (ucast (pos inst 24 15 0 OR pos inst 29 1 4)) out;
           out = set_shift (ucast (pos inst 20 15 0 OR pos inst 28 1 4)) out
       in if ((fld inst 16 0xf) AND 0xf) = 0x8
       then (
         let out = set_pc (ucast (pos inst 0 65535 0)) out
         in accept_plain out)
       else if ((fld inst 16 0xf) AND 0xf) = 0x6
       then (
         let out = set_pc (ucast (pos inst 0 65535 0)) out
         in accept_plain out)
       else if ((fld inst 16 0xf) AND 0xf) = 0x7
       then (
         let out = set_pc (ucast (pos inst 0 65535 0)) out
         in accept_plain out)
       else if ((fld inst 16 0xf) AND 0xf) = 0x4
       then (
         let out = set_pc (ucast (pos inst 0 65535 0)) out
         in accept_hot H_Lsl F_Zrici out)
       else if ((fld inst 16 0xf) AND 0xf) = 0x5
       then (
         let out = set_pc (ucast (pos inst 0 65535 0)) out
         in accept_hot H_Lslx F_Zrici out)
       else if ((fld inst 16 0xf) AND 0xf) = 0xe
       then (
         let out = set_pc (ucast (pos inst 0 65535 0)) out
         in accept_plain out)
       else if ((fld inst 16 0xf) AND 0xf) = 0xf
       then (
         let out = set_pc (ucast (pos inst 0 65535 0)) out
         in accept_plain out)
       else if ((fld inst 16 0xf) AND 0xf) = 0xc
       then (
         let out = set_pc (ucast (pos inst 0 65535 0)) out
         in accept_hot H_Lsr F_Zrici out)
       else if ((fld inst 16 0xf) AND 0xf) = 0xd
       then (
         let out = set_pc (ucast (pos inst 0 65535 0)) out
         in accept_hot H_Lsrx F_Zrici out)
       else if ((fld inst 16 0xf) AND 0xf) = 0x2
       then (
         let out = set_pc (ucast (pos inst 0 65535 0)) out
         in accept_plain out)
       else if ((fld inst 16 0xf) AND 0xf) = 0xa
       then (
         let out = set_pc (ucast (pos inst 0 65535 0)) out
         in accept_plain out)
       else (False, out))
     else (False, out))"

lemma decode_at_8278_ok: "dec_in {RA} inst out \<Longrightarrow> dec_ok inst (decode_at_8278 inst out)"
  unfolding decode_at_8278_def
  by (rule dec_rules | assumption | (unfold format_simps, simp))+

definition decode_at_8155 :: "u64 \<Rightarrow> raw_decoded48 \<Rightarrow> bool \<times> raw_decoded48" where
  "decode_at_8155 inst out =
     (let out = set_ra (ucast (pos inst 34 31 0)) out
     in if fld inst 24 0xf = 0x0 \<and> fld inst 29 0x1 = 0x0
     then (
       let out = set_shift (ucast (pos inst 20 15 0 OR pos inst 28 1 4)) out
       in if ((fld inst 16 0xf) AND 0xf) = 0x8
       then accept_plain out
       else if ((fld inst 16 0xf) AND 0xf) = 0x6
       then accept_plain out
       else if ((fld inst 16 0xf) AND 0xf) = 0x7
       then accept_plain out
       else if ((fld inst 16 0xf) AND 0xf) = 0x4
       then accept_hot H_Lsl F_Zri out
       else if ((fld inst 16 0xf) AND 0xf) = 0x5
       then accept_hot H_Lslx F_Zri out
       else if ((fld inst 16 0xf) AND 0xf) = 0xe
       then accept_plain out
       else if ((fld inst 16 0xf) AND 0xf) = 0xf
       then accept_plain out
       else if ((fld inst 16 0xf) AND 0xf) = 0xc
       then accept_hot H_Lsr F_Zri out
       else if ((fld inst 16 0xf) AND 0xf) = 0xd
       then accept_hot H_Lsrx F_Zri out
       else if ((fld inst 16 0xf) AND 0xf) = 0x2
       then accept_plain out
       else if ((fld inst 16 0xf) AND 0xf) = 0xa
       then accept_plain out
       else (False, out))
     else if ((fld inst 26 0x1) XOR (fld inst 27 0x1)) = 0x1 \<and> fld inst 25 0x1 = 0x1
     then (
       let out = set_cc (ucast (pos inst 24 15 0)) out;
           out = set_shift (ucast (pos inst 20 15 0 OR pos inst 28 1 4)) out
       in if ((fld inst 16 0xf) AND 0xf) = 0x8
       then accept_plain out
       else if ((fld inst 16 0xf) AND 0xf) = 0x6
       then accept_plain out
       else if ((fld inst 16 0xf) AND 0xf) = 0x7
       then accept_plain out
       else if ((fld inst 16 0xf) AND 0xf) = 0x4
       then accept_hot H_Lsl F_Zric out
       else if ((fld inst 16 0xf) AND 0xf) = 0x5
       then accept_hot H_Lslx F_Zric out
       else if ((fld inst 16 0xf) AND 0xf) = 0xe
       then accept_plain out
       else if ((fld inst 16 0xf) AND 0xf) = 0xf
       then accept_plain out
       else if ((fld inst 16 0xf) AND 0xf) = 0xc
       then accept_hot H_Lsr F_Zric out
       else if ((fld inst 16 0xf) AND 0xf) = 0xd
       then accept_hot H_Lsrx F_Zric out
       else if ((fld inst 16 0xf) AND 0xf) = 0x2
       then accept_plain out
       else if ((fld inst 16 0xf) AND 0xf) = 0xa
       then accept_plain out
       else (False, out))
     else decode_at_8278 inst out)"

lemma decode_at_8155_ok: "dec_in {} inst out \<Longrightarrow> dec_ok inst (decode_at_8155 inst out)"
  unfolding decode_at_8155_def
  by (rule dec_rules decode_at_8278_ok | assumption | (unfold format_simps, simp))+

definition decode_at_8154 :: "u64 \<Rightarrow> raw_decoded48 \<Rightarrow> bool \<times> raw_decoded48" where
  "decode_at_8154 inst out =
     (if fld inst 42 0x3 = 0x3
     then decode_at_8155 inst out
     else (False, out))"

lemma decode_at_8154_ok: "dec_in {} inst out \<Longrightarrow> dec_ok inst (decode_at_8154 inst out)"
  unfolding decode_at_8154_def
  by (rule dec_rules decode_at_8155_ok | assumption | (unfold format_simps, simp))+

definition decode_at_7923 :: "u64 \<Rightarrow> raw_decoded48 \<Rightarrow> bool \<times> raw_decoded48" where
  "decode_at_7923 inst out =
     (if fld inst 42 0x3 \<noteq> 0x3 \<and> fld inst 44 0x1 = 0x0
     then decode_at_7925 inst out
     else decode_at_8154 inst out)"

lemma decode_at_7923_ok: "dec_in {} inst out \<Longrightarrow> dec_ok inst (decode_at_7923 inst out)"
  unfolding decode_at_7923_def
   by (rule dec_rules decode_at_7925_ok decode_at_8154_ok | assumption | (unfold format_simps,
      simp))+

definition decode_at_7691 :: "u64 \<Rightarrow> raw_decoded48 \<Rightarrow> bool \<times> raw_decoded48" where
  "decode_at_7691 inst out =
     (if (fld inst 42 0x3 \<noteq> 0x3 \<and> fld inst 44 0x1 = 0x1) \<and> fld inst 39 0x1 = 0x0
     then decode_at_7694 inst out
     else decode_at_7923 inst out)"

lemma decode_at_7691_ok: "dec_in {} inst out \<Longrightarrow> dec_ok inst (decode_at_7691 inst out)"
  unfolding decode_at_7691_def
   by (rule dec_rules decode_at_7694_ok decode_at_7923_ok | assumption | (unfold format_simps,
      simp))+

definition decode_at_7459 :: "u64 \<Rightarrow> raw_decoded48 \<Rightarrow> bool \<times> raw_decoded48" where
  "decode_at_7459 inst out =
     (if (fld inst 42 0x3 \<noteq> 0x3 \<and> fld inst 44 0x1 = 0x1) \<and> fld inst 39 0x1 = 0x1
     then decode_at_7462 inst out
     else decode_at_7691 inst out)"

lemma decode_at_7459_ok: "dec_in {} inst out \<Longrightarrow> dec_ok inst (decode_at_7459 inst out)"
  unfolding decode_at_7459_def
   by (rule dec_rules decode_at_7462_ok decode_at_7691_ok | assumption | (unfold format_simps,
      simp))+

definition decode_at_8556 :: "u64 \<Rightarrow> raw_decoded48 \<Rightarrow> bool \<times> raw_decoded48" where
  "decode_at_8556 inst out =
     (if (fld inst 42 0x3 \<noteq> 0x3 \<and> fld inst 44 0x1 = 0x1) \<and> fld inst 39 0x1 = 0x1
     then (
       let out = set_dc (ucast (pos inst 40 15 1)) out
       in if fld inst 24 0xf = 0x0
       then accept_plain out
       else if ((fld inst 26 0x1) XOR (fld inst 27 0x1)) = 0x1 \<and> fld inst 25 0x1 = 0x1
       then (
         let out = set_cc (ucast (pos inst 24 15 0)) out
         in accept_plain out)
       else if (fld inst 24 0xf < 0x6 \<or> (fld inst 24 0xf > 0xb
          \<or> ((fld inst 24 0xf) AND 0xe) = 0x8)) \<and> fld inst 24 0xf \<noteq> 0x0
       then (
         let out = set_cc (ucast (pos inst 24 15 0)) out;
             out = set_pc (ucast (pos inst 0 65535 0)) out
         in accept_plain out)
       else (False, out))
     else if (fld inst 42 0x3 \<noteq> 0x3 \<and> fld inst 44 0x1 = 0x1) \<and> fld inst 39 0x1 = 0x0
     then (
       let out = set_dc (ucast (pos inst 40 15 1)) out
       in if fld inst 24 0xf = 0x0
       then accept_plain out
       else if ((fld inst 26 0x1) XOR (fld inst 27 0x1)) = 0x1 \<and> fld inst 25 0x1 = 0x1
       then (
         let out = set_cc (ucast (pos inst 24 15 0)) out
         in accept_plain out)
       else if (fld inst 24 0xf < 0x6 \<or> (fld inst 24 0xf > 0xb
          \<or> ((fld inst 24 0xf) AND 0xe) = 0x8)) \<and> fld inst 24 0xf \<noteq> 0x0
       then (
         let out = set_cc (ucast (pos inst 24 15 0)) out;
             out = set_pc (ucast (pos inst 0 65535 0)) out
         in accept_plain out)
       else (False, out))
     else if fld inst 42 0x3 \<noteq> 0x3 \<and> fld inst 44 0x1 = 0x0
     then (
       let out = set_rc (ucast (pos inst 39 31 0)) out
       in if fld inst 24 0xf = 0x0
       then accept_hot H_Clo F_Rr out
       else if ((fld inst 26 0x1) XOR (fld inst 27 0x1)) = 0x1 \<and> fld inst 25 0x1 = 0x1
       then (
         let out = set_cc (ucast (pos inst 24 15 0)) out
         in accept_hot H_Clo F_Rrc out)
       else if (fld inst 24 0xf < 0x6 \<or> (fld inst 24 0xf > 0xb
          \<or> ((fld inst 24 0xf) AND 0xe) = 0x8)) \<and> fld inst 24 0xf \<noteq> 0x0
       then (
         let out = set_cc (ucast (pos inst 24 15 0)) out;
             out = set_pc (ucast (pos inst 0 65535 0)) out
         in accept_hot H_Clo F_Rrci out)
       else (False, out))
     else if fld inst 42 0x3 = 0x3
     then (
       if fld inst 24 0xf = 0x0
       then accept_hot H_Clo F_Zr out
       else if ((fld inst 26 0x1) XOR (fld inst 27 0x1)) = 0x1 \<and> fld inst 25 0x1 = 0x1
       then (
         let out = set_cc (ucast (pos inst 24 15 0)) out
         in accept_hot H_Clo F_Zrc out)
       else if (fld inst 24 0xf < 0x6 \<or> (fld inst 24 0xf > 0xb
          \<or> ((fld inst 24 0xf) AND 0xe) = 0x8)) \<and> fld inst 24 0xf \<noteq> 0x0
       then (
         let out = set_cc (ucast (pos inst 24 15 0)) out;
             out = set_pc (ucast (pos inst 0 65535 0)) out
         in accept_hot H_Clo F_Zrci out)
       else (False, out))
     else (False, out))"

lemma decode_at_8556_ok: "dec_in {RA} inst out \<Longrightarrow> dec_ok inst (decode_at_8556 inst out)"
  unfolding decode_at_8556_def
  by (rule dec_rules | assumption | (unfold format_simps, simp))+

definition decode_at_8812 :: "u64 \<Rightarrow> raw_decoded48 \<Rightarrow> bool \<times> raw_decoded48" where
  "decode_at_8812 inst out =
     (if (fld inst 42 0x3 \<noteq> 0x3 \<and> fld inst 44 0x1 = 0x1) \<and> fld inst 39 0x1 = 0x1
     then (
       let out = set_dc (ucast (pos inst 40 15 1)) out
       in if fld inst 24 0xf = 0x0
       then accept_plain out
       else if ((fld inst 26 0x1) XOR (fld inst 27 0x1)) = 0x1 \<and> fld inst 25 0x1 = 0x1
       then (
         let out = set_cc (ucast (pos inst 24 15 0)) out
         in accept_plain out)
       else if (fld inst 24 0xf < 0x6 \<or> (fld inst 24 0xf > 0xb
          \<or> ((fld inst 24 0xf) AND 0xe) = 0x8)) \<and> fld inst 24 0xf \<noteq> 0x0
       then (
         let out = set_cc (ucast (pos inst 24 15 0)) out;
             out = set_pc (ucast (pos inst 0 65535 0)) out
         in accept_plain out)
       else (False, out))
     else if (fld inst 42 0x3 \<noteq> 0x3 \<and> fld inst 44 0x1 = 0x1) \<and> fld inst 39 0x1 = 0x0
     then (
       let out = set_dc (ucast (pos inst 40 15 1)) out
       in if fld inst 24 0xf = 0x0
       then accept_plain out
       else if ((fld inst 26 0x1) XOR (fld inst 27 0x1)) = 0x1 \<and> fld inst 25 0x1 = 0x1
       then (
         let out = set_cc (ucast (pos inst 24 15 0)) out
         in accept_plain out)
       else if (fld inst 24 0xf < 0x6 \<or> (fld inst 24 0xf > 0xb
          \<or> ((fld inst 24 0xf) AND 0xe) = 0x8)) \<and> fld inst 24 0xf \<noteq> 0x0
       then (
         let out = set_cc (ucast (pos inst 24 15 0)) out;
             out = set_pc (ucast (pos inst 0 65535 0)) out
         in accept_plain out)
       else (False, out))
     else if fld inst 42 0x3 \<noteq> 0x3 \<and> fld inst 44 0x1 = 0x0
     then (
       let out = set_rc (ucast (pos inst 39 31 0)) out
       in if fld inst 24 0xf = 0x0
       then accept_hot H_Clz F_Rr out
       else if ((fld inst 26 0x1) XOR (fld inst 27 0x1)) = 0x1 \<and> fld inst 25 0x1 = 0x1
       then (
         let out = set_cc (ucast (pos inst 24 15 0)) out
         in accept_hot H_Clz F_Rrc out)
       else if (fld inst 24 0xf < 0x6 \<or> (fld inst 24 0xf > 0xb
          \<or> ((fld inst 24 0xf) AND 0xe) = 0x8)) \<and> fld inst 24 0xf \<noteq> 0x0
       then (
         let out = set_cc (ucast (pos inst 24 15 0)) out;
             out = set_pc (ucast (pos inst 0 65535 0)) out
         in accept_hot H_Clz F_Rrci out)
       else (False, out))
     else if fld inst 42 0x3 = 0x3
     then (
       if fld inst 24 0xf = 0x0
       then accept_hot H_Clz F_Zr out
       else if ((fld inst 26 0x1) XOR (fld inst 27 0x1)) = 0x1 \<and> fld inst 25 0x1 = 0x1
       then (
         let out = set_cc (ucast (pos inst 24 15 0)) out
         in accept_hot H_Clz F_Zrc out)
       else if (fld inst 24 0xf < 0x6 \<or> (fld inst 24 0xf > 0xb
          \<or> ((fld inst 24 0xf) AND 0xe) = 0x8)) \<and> fld inst 24 0xf \<noteq> 0x0
       then (
         let out = set_cc (ucast (pos inst 24 15 0)) out;
             out = set_pc (ucast (pos inst 0 65535 0)) out
         in accept_hot H_Clz F_Zrci out)
       else (False, out))
     else (False, out))"

lemma decode_at_8812_ok: "dec_in {RA} inst out \<Longrightarrow> dec_ok inst (decode_at_8812 inst out)"
  unfolding decode_at_8812_def
  by (rule dec_rules | assumption | (unfold format_simps, simp))+

end
