(* ===== verification/Decode_5.thy ===== *)
theory Decode_5
  imports Decode_4
begin

text \<open>
  Part 5 of the decision tree of \<open>decode_raw_word_48\<close> (\<open>dpu/pipeline.cc\<close>). \<open>decode_at_N\<close> is the block
  of the function that starts at source line \<open>N\<close>; a block that is too long for one definition calls
  the definitions of its inner blocks, or of its remaining tests, at the place where the source has
  them. The lemma \<open>decode_at_N_ok\<close> states that the block, entered after the operands on the path to
  it were read, returns with an operand layout that its format announces.
\<close>

definition decode_at_9218 :: "u64 \<Rightarrow> raw_decoded48 \<Rightarrow> bool \<times> raw_decoded48" where
  "decode_at_9218 inst out =
     (if ((fld inst 20 0xf) AND 0x7) = 0x6
     then (
       if (fld inst 42 0x3 \<noteq> 0x3 \<and> fld inst 44 0x1 = 0x1)
          \<and> fld inst 39 0x1 = 0x0
       then (
         let out = set_dc (ucast (pos inst 40 15 1)) out
         in if fld inst 24 0xf = 0x0
         then accept_plain out
         else if ((fld inst 26 0x1) XOR (fld inst 27 0x1)) = 0x1 \<and> fld inst 25 0x1 = 0x1
         then (
           let out = set_cc (ucast (pos inst 24 15 0)) out
           in accept_plain out)
         else if (fld inst 24 0xf < 0x6 \<or> (fld inst 24 0xf > 0xb
            \<or> ((fld inst 24 0xf) AND 0xe) = 0x8)) \<and> fld inst 24 0xf \<noteq> 0x0
         then (
           let out = set_cc (ucast (pos inst 24 15 0)) out;
               out = set_pc (ucast (pos inst 0 65535 0)) out
           in accept_plain out)
         else (False, out))
       else if fld inst 42 0x3 \<noteq> 0x3 \<and> fld inst 44 0x1 = 0x0
       then (
         let out = set_rc (ucast (pos inst 39 31 0)) out
         in if fld inst 24 0xf = 0x0
         then accept_plain out
         else if ((fld inst 26 0x1) XOR (fld inst 27 0x1)) = 0x1 \<and> fld inst 25 0x1 = 0x1
         then (
           let out = set_cc (ucast (pos inst 24 15 0)) out
           in accept_plain out)
         else if (fld inst 24 0xf < 0x6 \<or> (fld inst 24 0xf > 0xb
            \<or> ((fld inst 24 0xf) AND 0xe) = 0x8)) \<and> fld inst 24 0xf \<noteq> 0x0
         then (
           let out = set_cc (ucast (pos inst 24 15 0)) out;
               out = set_pc (ucast (pos inst 0 65535 0)) out
           in accept_plain out)
         else (False, out))
       else if fld inst 42 0x3 = 0x3
       then (
         if fld inst 24 0xf = 0x0
         then accept_plain out
         else if ((fld inst 26 0x1) XOR (fld inst 27 0x1)) = 0x1 \<and> fld inst 25 0x1 = 0x1
         then (
           let out = set_cc (ucast (pos inst 24 15 0)) out
           in accept_plain out)
         else if (fld inst 24 0xf < 0x6 \<or> (fld inst 24 0xf > 0xb
            \<or> ((fld inst 24 0xf) AND 0xe) = 0x8)) \<and> fld inst 24 0xf \<noteq> 0x0
         then (
           let out = set_cc (ucast (pos inst 24 15 0)) out;
               out = set_pc (ucast (pos inst 0 65535 0)) out
           in accept_plain out)
         else (False, out))
       else (False, out))
     else (False, out))"

lemma decode_at_9218_ok: "dec_in {RA} inst out \<Longrightarrow> dec_ok inst (decode_at_9218 inst out)"
  unfolding decode_at_9218_def
  by (rule dec_rules | assumption | (unfold format_simps, simp))+

definition decode_at_9127 :: "u64 \<Rightarrow> raw_decoded48 \<Rightarrow> bool \<times> raw_decoded48" where
  "decode_at_9127 inst out =
     (if ((fld inst 20 0xf) AND 0x7) = 0x4
     then (
       if (fld inst 42 0x3 \<noteq> 0x3 \<and> fld inst 44 0x1 = 0x1)
          \<and> fld inst 39 0x1 = 0x0
       then (
         let out = set_dc (ucast (pos inst 40 15 1)) out
         in if fld inst 24 0xf = 0x0
         then accept_plain out
         else if ((fld inst 26 0x1) XOR (fld inst 27 0x1)) = 0x1 \<and> fld inst 25 0x1 = 0x1
         then (
           let out = set_cc (ucast (pos inst 24 15 0)) out
           in accept_plain out)
         else if (fld inst 24 0xf < 0x6 \<or> (fld inst 24 0xf > 0xb
            \<or> ((fld inst 24 0xf) AND 0xe) = 0x8)) \<and> fld inst 24 0xf \<noteq> 0x0
         then (
           let out = set_cc (ucast (pos inst 24 15 0)) out;
               out = set_pc (ucast (pos inst 0 65535 0)) out
           in accept_plain out)
         else (False, out))
       else if fld inst 42 0x3 \<noteq> 0x3 \<and> fld inst 44 0x1 = 0x0
       then (
         let out = set_rc (ucast (pos inst 39 31 0)) out
         in if fld inst 24 0xf = 0x0
         then accept_plain out
         else if ((fld inst 26 0x1) XOR (fld inst 27 0x1)) = 0x1 \<and> fld inst 25 0x1 = 0x1
         then (
           let out = set_cc (ucast (pos inst 24 15 0)) out
           in accept_plain out)
         else if (fld inst 24 0xf < 0x6 \<or> (fld inst 24 0xf > 0xb
            \<or> ((fld inst 24 0xf) AND 0xe) = 0x8)) \<and> fld inst 24 0xf \<noteq> 0x0
         then (
           let out = set_cc (ucast (pos inst 24 15 0)) out;
               out = set_pc (ucast (pos inst 0 65535 0)) out
           in accept_plain out)
         else (False, out))
       else if fld inst 42 0x3 = 0x3
       then (
         if fld inst 24 0xf = 0x0
         then accept_plain out
         else if ((fld inst 26 0x1) XOR (fld inst 27 0x1)) = 0x1 \<and> fld inst 25 0x1 = 0x1
         then (
           let out = set_cc (ucast (pos inst 24 15 0)) out
           in accept_plain out)
         else if (fld inst 24 0xf < 0x6 \<or> (fld inst 24 0xf > 0xb
            \<or> ((fld inst 24 0xf) AND 0xe) = 0x8)) \<and> fld inst 24 0xf \<noteq> 0x0
         then (
           let out = set_cc (ucast (pos inst 24 15 0)) out;
               out = set_pc (ucast (pos inst 0 65535 0)) out
           in accept_plain out)
         else (False, out))
       else (False, out))
     else decode_at_9218 inst out)"

lemma decode_at_9127_ok: "dec_in {RA} inst out \<Longrightarrow> dec_ok inst (decode_at_9127 inst out)"
  unfolding decode_at_9127_def
  by (rule dec_rules decode_at_9218_ok | assumption | (unfold format_simps, simp))+

definition decode_at_9036 :: "u64 \<Rightarrow> raw_decoded48 \<Rightarrow> bool \<times> raw_decoded48" where
  "decode_at_9036 inst out =
     (if ((fld inst 20 0xf) AND 0x7) = 0x7
     then (
       if (fld inst 42 0x3 \<noteq> 0x3 \<and> fld inst 44 0x1 = 0x1)
          \<and> fld inst 39 0x1 = 0x1
       then (
         let out = set_dc (ucast (pos inst 40 15 1)) out
         in if fld inst 24 0xf = 0x0
         then accept_plain out
         else if ((fld inst 26 0x1) XOR (fld inst 27 0x1)) = 0x1 \<and> fld inst 25 0x1 = 0x1
         then (
           let out = set_cc (ucast (pos inst 24 15 0)) out
           in accept_plain out)
         else if (fld inst 24 0xf < 0x6 \<or> (fld inst 24 0xf > 0xb
            \<or> ((fld inst 24 0xf) AND 0xe) = 0x8)) \<and> fld inst 24 0xf \<noteq> 0x0
         then (
           let out = set_cc (ucast (pos inst 24 15 0)) out;
               out = set_pc (ucast (pos inst 0 65535 0)) out
           in accept_plain out)
         else (False, out))
       else if fld inst 42 0x3 \<noteq> 0x3 \<and> fld inst 44 0x1 = 0x0
       then (
         let out = set_rc (ucast (pos inst 39 31 0)) out
         in if fld inst 24 0xf = 0x0
         then accept_plain out
         else if ((fld inst 26 0x1) XOR (fld inst 27 0x1)) = 0x1 \<and> fld inst 25 0x1 = 0x1
         then (
           let out = set_cc (ucast (pos inst 24 15 0)) out
           in accept_plain out)
         else if (fld inst 24 0xf < 0x6 \<or> (fld inst 24 0xf > 0xb
            \<or> ((fld inst 24 0xf) AND 0xe) = 0x8)) \<and> fld inst 24 0xf \<noteq> 0x0
         then (
           let out = set_cc (ucast (pos inst 24 15 0)) out;
               out = set_pc (ucast (pos inst 0 65535 0)) out
           in accept_plain out)
         else (False, out))
       else if fld inst 42 0x3 = 0x3
       then (
         if fld inst 24 0xf = 0x0
         then accept_plain out
         else if ((fld inst 26 0x1) XOR (fld inst 27 0x1)) = 0x1 \<and> fld inst 25 0x1 = 0x1
         then (
           let out = set_cc (ucast (pos inst 24 15 0)) out
           in accept_plain out)
         else if (fld inst 24 0xf < 0x6 \<or> (fld inst 24 0xf > 0xb
            \<or> ((fld inst 24 0xf) AND 0xe) = 0x8)) \<and> fld inst 24 0xf \<noteq> 0x0
         then (
           let out = set_cc (ucast (pos inst 24 15 0)) out;
               out = set_pc (ucast (pos inst 0 65535 0)) out
           in accept_plain out)
         else (False, out))
       else (False, out))
     else decode_at_9127 inst out)"

lemma decode_at_9036_ok: "dec_in {RA} inst out \<Longrightarrow> dec_ok inst (decode_at_9036 inst out)"
  unfolding decode_at_9036_def
  by (rule dec_rules decode_at_9127_ok | assumption | (unfold format_simps, simp))+

definition decode_at_8945 :: "u64 \<Rightarrow> raw_decoded48 \<Rightarrow> bool \<times> raw_decoded48" where
  "decode_at_8945 inst out =
     (if ((fld inst 20 0xf) AND 0x7) = 0x5
     then (
       if (fld inst 42 0x3 \<noteq> 0x3 \<and> fld inst 44 0x1 = 0x1)
          \<and> fld inst 39 0x1 = 0x1
       then (
         let out = set_dc (ucast (pos inst 40 15 1)) out
         in if fld inst 24 0xf = 0x0
         then accept_plain out
         else if ((fld inst 26 0x1) XOR (fld inst 27 0x1)) = 0x1 \<and> fld inst 25 0x1 = 0x1
         then (
           let out = set_cc (ucast (pos inst 24 15 0)) out
           in accept_plain out)
         else if (fld inst 24 0xf < 0x6 \<or> (fld inst 24 0xf > 0xb
            \<or> ((fld inst 24 0xf) AND 0xe) = 0x8)) \<and> fld inst 24 0xf \<noteq> 0x0
         then (
           let out = set_cc (ucast (pos inst 24 15 0)) out;
               out = set_pc (ucast (pos inst 0 65535 0)) out
           in accept_plain out)
         else (False, out))
       else if fld inst 42 0x3 \<noteq> 0x3 \<and> fld inst 44 0x1 = 0x0
       then (
         let out = set_rc (ucast (pos inst 39 31 0)) out
         in if fld inst 24 0xf = 0x0
         then accept_plain out
         else if ((fld inst 26 0x1) XOR (fld inst 27 0x1)) = 0x1 \<and> fld inst 25 0x1 = 0x1
         then (
           let out = set_cc (ucast (pos inst 24 15 0)) out
           in accept_plain out)
         else if (fld inst 24 0xf < 0x6 \<or> (fld inst 24 0xf > 0xb
            \<or> ((fld inst 24 0xf) AND 0xe) = 0x8)) \<and> fld inst 24 0xf \<noteq> 0x0
         then (
           let out = set_cc (ucast (pos inst 24 15 0)) out;
               out = set_pc (ucast (pos inst 0 65535 0)) out
           in accept_plain out)
         else (False, out))
       else if fld inst 42 0x3 = 0x3
       then (
         if fld inst 24 0xf = 0x0
         then accept_plain out
         else if ((fld inst 26 0x1) XOR (fld inst 27 0x1)) = 0x1 \<and> fld inst 25 0x1 = 0x1
         then (
           let out = set_cc (ucast (pos inst 24 15 0)) out
           in accept_plain out)
         else if (fld inst 24 0xf < 0x6 \<or> (fld inst 24 0xf > 0xb
            \<or> ((fld inst 24 0xf) AND 0xe) = 0x8)) \<and> fld inst 24 0xf \<noteq> 0x0
         then (
           let out = set_cc (ucast (pos inst 24 15 0)) out;
               out = set_pc (ucast (pos inst 0 65535 0)) out
           in accept_plain out)
         else (False, out))
       else (False, out))
     else decode_at_9036 inst out)"

lemma decode_at_8945_ok: "dec_in {RA} inst out \<Longrightarrow> dec_ok inst (decode_at_8945 inst out)"
  unfolding decode_at_8945_def
  by (rule dec_rules decode_at_9036_ok | assumption | (unfold format_simps, simp))+

definition decode_at_8811 :: "u64 \<Rightarrow> raw_decoded48 \<Rightarrow> bool \<times> raw_decoded48" where
  "decode_at_8811 inst out =
     (if ((fld inst 20 0xf) AND 0x7) = 0x3
     then decode_at_8812 inst out
     else decode_at_8945 inst out)"

lemma decode_at_8811_ok: "dec_in {RA} inst out \<Longrightarrow> dec_ok inst (decode_at_8811 inst out)"
  unfolding decode_at_8811_def
   by (rule dec_rules decode_at_8812_ok decode_at_8945_ok | assumption | (unfold format_simps,
      simp))+

definition decode_at_8689 :: "u64 \<Rightarrow> raw_decoded48 \<Rightarrow> bool \<times> raw_decoded48" where
  "decode_at_8689 inst out =
     (if ((fld inst 20 0xf) AND 0x7) = 0x2
     then (
       if (fld inst 42 0x3 \<noteq> 0x3 \<and> fld inst 44 0x1 = 0x1)
          \<and> fld inst 39 0x1 = 0x1
       then (
         let out = set_dc (ucast (pos inst 40 15 1)) out
         in if fld inst 24 0xf = 0x0
         then accept_plain out
         else if ((fld inst 26 0x1) XOR (fld inst 27 0x1)) = 0x1 \<and> fld inst 25 0x1 = 0x1
         then (
           let out = set_cc (ucast (pos inst 24 15 0)) out
           in accept_plain out)
         else if (fld inst 24 0xf < 0x6 \<or> (fld inst 24 0xf > 0xb
            \<or> ((fld inst 24 0xf) AND 0xe) = 0x8)) \<and> fld inst 24 0xf \<noteq> 0x0
         then (
           let out = set_cc (ucast (pos inst 24 15 0)) out;
               out = set_pc (ucast (pos inst 0 65535 0)) out
           in accept_plain out)
         else (False, out))
       else if (fld inst 42 0x3 \<noteq> 0x3 \<and> fld inst 44 0x1 = 0x1)
          \<and> fld inst 39 0x1 = 0x0
       then (
         let out = set_dc (ucast (pos inst 40 15 1)) out
         in if fld inst 24 0xf = 0x0
         then accept_plain out
         else if ((fld inst 26 0x1) XOR (fld inst 27 0x1)) = 0x1 \<and> fld inst 25 0x1 = 0x1
         then (
           let out = set_cc (ucast (pos inst 24 15 0)) out
           in accept_plain out)
         else if (fld inst 24 0xf < 0x6 \<or> (fld inst 24 0xf > 0xb
            \<or> ((fld inst 24 0xf) AND 0xe) = 0x8)) \<and> fld inst 24 0xf \<noteq> 0x0
         then (
           let out = set_cc (ucast (pos inst 24 15 0)) out;
               out = set_pc (ucast (pos inst 0 65535 0)) out
           in accept_plain out)
         else (False, out))
       else if fld inst 42 0x3 \<noteq> 0x3 \<and> fld inst 44 0x1 = 0x0
       then (
         let out = set_rc (ucast (pos inst 39 31 0)) out
         in if fld inst 24 0xf = 0x0
         then accept_plain out
         else if ((fld inst 26 0x1) XOR (fld inst 27 0x1)) = 0x1 \<and> fld inst 25 0x1 = 0x1
         then (
           let out = set_cc (ucast (pos inst 24 15 0)) out
           in accept_plain out)
         else if (fld inst 24 0xf < 0x6 \<or> (fld inst 24 0xf > 0xb
            \<or> ((fld inst 24 0xf) AND 0xe) = 0x8)) \<and> fld inst 24 0xf \<noteq> 0x0
         then (
           let out = set_cc (ucast (pos inst 24 15 0)) out;
               out = set_pc (ucast (pos inst 0 65535 0)) out
           in accept_plain out)
         else (False, out))
       else if fld inst 42 0x3 = 0x3
       then (
         if fld inst 24 0xf = 0x0
         then accept_plain out
         else if ((fld inst 26 0x1) XOR (fld inst 27 0x1)) = 0x1 \<and> fld inst 25 0x1 = 0x1
         then (
           let out = set_cc (ucast (pos inst 24 15 0)) out
           in accept_plain out)
         else if (fld inst 24 0xf < 0x6 \<or> (fld inst 24 0xf > 0xb
            \<or> ((fld inst 24 0xf) AND 0xe) = 0x8)) \<and> fld inst 24 0xf \<noteq> 0x0
         then (
           let out = set_cc (ucast (pos inst 24 15 0)) out;
               out = set_pc (ucast (pos inst 0 65535 0)) out
           in accept_plain out)
         else (False, out))
       else (False, out))
     else decode_at_8811 inst out)"

lemma decode_at_8689_ok: "dec_in {RA} inst out \<Longrightarrow> dec_ok inst (decode_at_8689 inst out)"
  unfolding decode_at_8689_def
  by (rule dec_rules decode_at_8811_ok | assumption | (unfold format_simps, simp))+

definition decode_at_8555 :: "u64 \<Rightarrow> raw_decoded48 \<Rightarrow> bool \<times> raw_decoded48" where
  "decode_at_8555 inst out =
     (if ((fld inst 20 0xf) AND 0x7) = 0x1
     then decode_at_8556 inst out
     else decode_at_8689 inst out)"

lemma decode_at_8555_ok: "dec_in {RA} inst out \<Longrightarrow> dec_ok inst (decode_at_8555 inst out)"
  unfolding decode_at_8555_def
   by (rule dec_rules decode_at_8556_ok decode_at_8689_ok | assumption | (unfold format_simps,
      simp))+

definition decode_at_8431 :: "u64 \<Rightarrow> raw_decoded48 \<Rightarrow> bool \<times> raw_decoded48" where
  "decode_at_8431 inst out =
     (let out = set_ra (ucast (pos inst 34 31 0)) out
     in if ((fld inst 20 0xf) AND 0x7) = 0x0
     then (
       if (fld inst 42 0x3 \<noteq> 0x3 \<and> fld inst 44 0x1 = 0x1)
          \<and> fld inst 39 0x1 = 0x1
       then (
         let out = set_dc (ucast (pos inst 40 15 1)) out
         in if fld inst 24 0xf = 0x0
         then accept_plain out
         else if ((fld inst 26 0x1) XOR (fld inst 27 0x1)) = 0x1 \<and> fld inst 25 0x1 = 0x1
         then (
           let out = set_cc (ucast (pos inst 24 15 0)) out
           in accept_plain out)
         else if (fld inst 24 0xf < 0x6 \<or> (fld inst 24 0xf > 0xb
            \<or> ((fld inst 24 0xf) AND 0xe) = 0x8)) \<and> fld inst 24 0xf \<noteq> 0x0
         then (
           let out = set_cc (ucast (pos inst 24 15 0)) out;
               out = set_pc (ucast (pos inst 0 65535 0)) out
           in accept_plain out)
         else (False, out))
       else if (fld inst 42 0x3 \<noteq> 0x3 \<and> fld inst 44 0x1 = 0x1)
          \<and> fld inst 39 0x1 = 0x0
       then (
         let out = set_dc (ucast (pos inst 40 15 1)) out
         in if fld inst 24 0xf = 0x0
         then accept_plain out
         else if ((fld inst 26 0x1) XOR (fld inst 27 0x1)) = 0x1 \<and> fld inst 25 0x1 = 0x1
         then (
           let out = set_cc (ucast (pos inst 24 15 0)) out
           in accept_plain out)
         else if (fld inst 24 0xf < 0x6 \<or> (fld inst 24 0xf > 0xb
            \<or> ((fld inst 24 0xf) AND 0xe) = 0x8)) \<and> fld inst 24 0xf \<noteq> 0x0
         then (
           let out = set_cc (ucast (pos inst 24 15 0)) out;
               out = set_pc (ucast (pos inst 0 65535 0)) out
           in accept_plain out)
         else (False, out))
       else if fld inst 42 0x3 \<noteq> 0x3 \<and> fld inst 44 0x1 = 0x0
       then (
         let out = set_rc (ucast (pos inst 39 31 0)) out
         in if fld inst 24 0xf = 0x0
         then accept_plain out
         else if ((fld inst 26 0x1) XOR (fld inst 27 0x1)) = 0x1 \<and> fld inst 25 0x1 = 0x1
         then (
           let out = set_cc (ucast (pos inst 24 15 0)) out
           in accept_plain out)
         else if (fld inst 24 0xf < 0x6 \<or> (fld inst 24 0xf > 0xb
            \<or> ((fld inst 24 0xf) AND 0xe) = 0x8)) \<and> fld inst 24 0xf \<noteq> 0x0
         then (
           let out = set_cc (ucast (pos inst 24 15 0)) out;
               out = set_pc (ucast (pos inst 0 65535 0)) out
           in accept_plain out)
         else (False, out))
       else if fld inst 42 0x3 = 0x3
       then (
         if fld inst 24 0xf = 0x0
         then accept_plain out
         else if ((fld inst 26 0x1) XOR (fld inst 27 0x1)) = 0x1 \<and> fld inst 25 0x1 = 0x1
         then (
           let out = set_cc (ucast (pos inst 24 15 0)) out
           in accept_plain out)
         else if (fld inst 24 0xf < 0x6 \<or> (fld inst 24 0xf > 0xb
            \<or> ((fld inst 24 0xf) AND 0xe) = 0x8)) \<and> fld inst 24 0xf \<noteq> 0x0
         then (
           let out = set_cc (ucast (pos inst 24 15 0)) out;
               out = set_pc (ucast (pos inst 0 65535 0)) out
           in accept_plain out)
         else (False, out))
       else (False, out))
     else decode_at_8555 inst out)"

lemma decode_at_8431_ok: "dec_in {} inst out \<Longrightarrow> dec_ok inst (decode_at_8431 inst out)"
  unfolding decode_at_8431_def
  by (rule dec_rules decode_at_8555_ok | assumption | (unfold format_simps, simp))+

definition decode_at_9414 :: "u64 \<Rightarrow> raw_decoded48 \<Rightarrow> bool \<times> raw_decoded48" where
  "decode_at_9414 inst out =
     (if fld inst 42 0x3 \<noteq> 0x3 \<and> fld inst 44 0x1 = 0x0
     then (
       let out = set_rc (ucast (pos inst 39 31 0)) out;
           out = set_ra (ucast (pos inst 34 31 0)) out
       in if ((fld inst 26 0x1) XOR (fld inst 27 0x1)) = 0x1 \<and> fld inst 25 0x1 = 0x1
       then (
         let out = set_cc (ucast (pos inst 24 15 0)) out;
             out = set_imm (ucast (pos inst 20 15 0 OR pos inst 16 15 4 OR pos inst 15 1 8 OR
                               pos inst 14 1 9 OR pos inst 13 1 10 OR pos inst 12 1 11 OR
                               pos inst 0 4095 12)) out
         in accept_plain out)
       else if (fld inst 24 0xf < 0x6 \<or> (fld inst 24 0xf > 0xb
          \<or> ((fld inst 24 0xf) AND 0xe) = 0x8)) \<and> fld inst 24 0xf \<noteq> 0x0
       then (
         let out = set_cc (ucast (pos inst 24 15 0)) out;
             out = set_pc (ucast (pos inst 0 65535 0)) out;
             out = set_imm (ucast (pos inst 20 15 0 OR pos inst 16 15 4)) out
         in accept_plain out)
       else if fld inst 24 0xf = 0x0
       then (
         let out = set_imm (ucast (pos inst 20 15 0 OR pos inst 16 15 4 OR pos inst 15 1 8 OR
                               pos inst 14 1 9 OR pos inst 13 1 10 OR pos inst 12 1 11 OR
                               pos inst 0 4095 12)) out
         in accept_plain out)
       else (False, out))
     else if fld inst 42 0x3 = 0x3
     then (
       let out = set_ra (ucast (pos inst 34 31 0)) out
       in if ((fld inst 26 0x1) XOR (fld inst 27 0x1)) = 0x1 \<and> fld inst 25 0x1 = 0x1
       then (
         let out = set_cc (ucast (pos inst 24 15 0)) out;
             out = set_imm (ucast (pos inst 20 15 0 OR pos inst 16 15 4 OR pos inst 15 1 8 OR
                               pos inst 14 1 9 OR pos inst 13 1 10 OR pos inst 12 1 11 OR
                               pos inst 0 4095 12 OR pos inst 39 7 24 OR pos inst 44 1 27)) out
         in accept_plain out)
       else if (fld inst 24 0xf < 0x6 \<or> (fld inst 24 0xf > 0xb
          \<or> ((fld inst 24 0xf) AND 0xe) = 0x8)) \<and> fld inst 24 0xf \<noteq> 0x0
       then (
         let out = set_cc (ucast (pos inst 24 15 0)) out;
             out = set_pc (ucast (pos inst 0 65535 0)) out;
             out = set_imm (ucast (pos inst 20 15 0 OR pos inst 16 15 4 OR pos inst 39 7 8 OR
                               pos inst 44 1 11)) out
         in accept_plain out)
       else if fld inst 24 0xf = 0x0
       then (
         let out = set_imm (ucast (pos inst 20 15 0 OR pos inst 16 15 4 OR pos inst 15 1 8 OR
                               pos inst 14 1 9 OR pos inst 13 1 10 OR pos inst 12 1 11 OR
                               pos inst 0 4095 12 OR pos inst 39 7 24 OR pos inst 44 1 27)) out
         in accept_plain out)
       else (False, out))
     else (False, out))"

lemma decode_at_9414_ok: "dec_in {} inst out \<Longrightarrow> dec_ok inst (decode_at_9414 inst out)"
  unfolding decode_at_9414_def
  by (rule dec_rules | assumption | (unfold format_simps, simp))+

definition decode_at_9312 :: "u64 \<Rightarrow> raw_decoded48 \<Rightarrow> bool \<times> raw_decoded48" where
  "decode_at_9312 inst out =
     (if (fld inst 42 0x3 \<noteq> 0x3 \<and> fld inst 44 0x1 = 0x1) \<and> fld inst 39 0x1 = 0x1
     then (
       let out = set_dc (ucast (pos inst 40 15 1)) out;
           out = set_ra (ucast (pos inst 34 31 0)) out
       in if ((fld inst 26 0x1) XOR (fld inst 27 0x1)) = 0x1 \<and> fld inst 25 0x1 = 0x1
       then (
         let out = set_cc (ucast (pos inst 24 15 0)) out;
             out = set_imm (ucast (pos inst 20 15 0 OR pos inst 16 15 4 OR pos inst 15 1 8 OR
                               pos inst 14 1 9 OR pos inst 13 1 10 OR pos inst 12 1 11 OR
                               pos inst 0 4095 12)) out
         in accept_plain out)
       else if (fld inst 24 0xf < 0x6 \<or> (fld inst 24 0xf > 0xb
          \<or> ((fld inst 24 0xf) AND 0xe) = 0x8)) \<and> fld inst 24 0xf \<noteq> 0x0
       then (
         let out = set_cc (ucast (pos inst 24 15 0)) out;
             out = set_pc (ucast (pos inst 0 65535 0)) out;
             out = set_imm (ucast (pos inst 20 15 0 OR pos inst 16 15 4)) out
         in accept_plain out)
       else if fld inst 24 0xf = 0x0
       then (
         let out = set_imm (ucast (pos inst 20 15 0 OR pos inst 16 15 4 OR pos inst 15 1 8 OR
                               pos inst 14 1 9 OR pos inst 13 1 10 OR pos inst 12 1 11 OR
                               pos inst 0 4095 12)) out
         in accept_plain out)
       else (False, out))
     else if (fld inst 42 0x3 \<noteq> 0x3 \<and> fld inst 44 0x1 = 0x1) \<and> fld inst 39 0x1 = 0x0
     then (
       let out = set_dc (ucast (pos inst 40 15 1)) out;
           out = set_ra (ucast (pos inst 34 31 0)) out
       in if ((fld inst 26 0x1) XOR (fld inst 27 0x1)) = 0x1 \<and> fld inst 25 0x1 = 0x1
       then (
         let out = set_cc (ucast (pos inst 24 15 0)) out;
             out = set_imm (ucast (pos inst 20 15 0 OR pos inst 16 15 4 OR pos inst 15 1 8 OR
                               pos inst 14 1 9 OR pos inst 13 1 10 OR pos inst 12 1 11 OR
                               pos inst 0 4095 12)) out
         in accept_plain out)
       else if (fld inst 24 0xf < 0x6 \<or> (fld inst 24 0xf > 0xb
          \<or> ((fld inst 24 0xf) AND 0xe) = 0x8)) \<and> fld inst 24 0xf \<noteq> 0x0
       then (
         let out = set_cc (ucast (pos inst 24 15 0)) out;
             out = set_pc (ucast (pos inst 0 65535 0)) out;
             out = set_imm (ucast (pos inst 20 15 0 OR pos inst 16 15 4)) out
         in accept_plain out)
       else if fld inst 24 0xf = 0x0
       then (
         let out = set_imm (ucast (pos inst 20 15 0 OR pos inst 16 15 4 OR pos inst 15 1 8 OR
                               pos inst 14 1 9 OR pos inst 13 1 10 OR pos inst 12 1 11 OR
                               pos inst 0 4095 12)) out
         in accept_plain out)
       else (False, out))
     else decode_at_9414 inst out)"

lemma decode_at_9312_ok: "dec_in {} inst out \<Longrightarrow> dec_ok inst (decode_at_9312 inst out)"
  unfolding decode_at_9312_def
  by (rule dec_rules decode_at_9414_ok | assumption | (unfold format_simps, simp))+

definition decode_at_9622 :: "u64 \<Rightarrow> raw_decoded48 \<Rightarrow> bool \<times> raw_decoded48" where
  "decode_at_9622 inst out =
     (if fld inst 42 0x3 \<noteq> 0x3 \<and> fld inst 44 0x1 = 0x0
     then (
       let out = set_rc (ucast (pos inst 39 31 0)) out;
           out = set_ra (ucast (pos inst 34 31 0)) out
       in if ((fld inst 26 0x1) XOR (fld inst 27 0x1)) = 0x1 \<and> fld inst 25 0x1 = 0x1
       then (
         let out = set_cc (ucast (pos inst 24 15 0)) out;
             out = set_imm (ucast (pos inst 20 15 0 OR pos inst 16 15 4 OR pos inst 15 1 8 OR
                               pos inst 14 1 9 OR pos inst 13 1 10 OR pos inst 12 1 11 OR
                               pos inst 0 4095 12)) out
         in accept_plain out)
       else if (fld inst 24 0xf < 0x6 \<or> (fld inst 24 0xf > 0xb
          \<or> ((fld inst 24 0xf) AND 0xe) = 0x8)) \<and> fld inst 24 0xf \<noteq> 0x0
       then (
         let out = set_cc (ucast (pos inst 24 15 0)) out;
             out = set_pc (ucast (pos inst 0 65535 0)) out;
             out = set_imm (ucast (pos inst 20 15 0 OR pos inst 16 15 4)) out
         in accept_plain out)
       else if fld inst 24 0xf = 0x0
       then (
         let out = set_imm (ucast (pos inst 20 15 0 OR pos inst 16 15 4 OR pos inst 15 1 8 OR
                               pos inst 14 1 9 OR pos inst 13 1 10 OR pos inst 12 1 11 OR
                               pos inst 0 4095 12)) out
         in accept_plain out)
       else (False, out))
     else if fld inst 42 0x3 = 0x3
     then (
       let out = set_ra (ucast (pos inst 34 31 0)) out
       in if ((fld inst 26 0x1) XOR (fld inst 27 0x1)) = 0x1 \<and> fld inst 25 0x1 = 0x1
       then (
         let out = set_cc (ucast (pos inst 24 15 0)) out;
             out = set_imm (ucast (pos inst 20 15 0 OR pos inst 16 15 4 OR pos inst 15 1 8 OR
                               pos inst 14 1 9 OR pos inst 13 1 10 OR pos inst 12 1 11 OR
                               pos inst 0 4095 12 OR pos inst 39 7 24 OR pos inst 44 1 27)) out
         in accept_plain out)
       else if (fld inst 24 0xf < 0x6 \<or> (fld inst 24 0xf > 0xb
          \<or> ((fld inst 24 0xf) AND 0xe) = 0x8)) \<and> fld inst 24 0xf \<noteq> 0x0
       then (
         let out = set_cc (ucast (pos inst 24 15 0)) out;
             out = set_pc (ucast (pos inst 0 65535 0)) out;
             out = set_imm (ucast (pos inst 20 15 0 OR pos inst 16 15 4 OR pos inst 39 7 8 OR
                               pos inst 44 1 11)) out
         in accept_plain out)
       else if fld inst 24 0xf = 0x0
       then (
         let out = set_imm (ucast (pos inst 20 15 0 OR pos inst 16 15 4 OR pos inst 15 1 8 OR
                               pos inst 14 1 9 OR pos inst 13 1 10 OR pos inst 12 1 11 OR
                               pos inst 0 4095 12 OR pos inst 39 7 24 OR pos inst 44 1 27)) out
         in accept_plain out)
       else (False, out))
     else (False, out))"

lemma decode_at_9622_ok: "dec_in {} inst out \<Longrightarrow> dec_ok inst (decode_at_9622 inst out)"
  unfolding decode_at_9622_def
  by (rule dec_rules | assumption | (unfold format_simps, simp))+

definition decode_at_9520 :: "u64 \<Rightarrow> raw_decoded48 \<Rightarrow> bool \<times> raw_decoded48" where
  "decode_at_9520 inst out =
     (if (fld inst 42 0x3 \<noteq> 0x3 \<and> fld inst 44 0x1 = 0x1) \<and> fld inst 39 0x1 = 0x1
     then (
       let out = set_dc (ucast (pos inst 40 15 1)) out;
           out = set_ra (ucast (pos inst 34 31 0)) out
       in if ((fld inst 26 0x1) XOR (fld inst 27 0x1)) = 0x1 \<and> fld inst 25 0x1 = 0x1
       then (
         let out = set_cc (ucast (pos inst 24 15 0)) out;
             out = set_imm (ucast (pos inst 20 15 0 OR pos inst 16 15 4 OR pos inst 15 1 8 OR
                               pos inst 14 1 9 OR pos inst 13 1 10 OR pos inst 12 1 11 OR
                               pos inst 0 4095 12)) out
         in accept_plain out)
       else if (fld inst 24 0xf < 0x6 \<or> (fld inst 24 0xf > 0xb
          \<or> ((fld inst 24 0xf) AND 0xe) = 0x8)) \<and> fld inst 24 0xf \<noteq> 0x0
       then (
         let out = set_cc (ucast (pos inst 24 15 0)) out;
             out = set_pc (ucast (pos inst 0 65535 0)) out;
             out = set_imm (ucast (pos inst 20 15 0 OR pos inst 16 15 4)) out
         in accept_plain out)
       else if fld inst 24 0xf = 0x0
       then (
         let out = set_imm (ucast (pos inst 20 15 0 OR pos inst 16 15 4 OR pos inst 15 1 8 OR
                               pos inst 14 1 9 OR pos inst 13 1 10 OR pos inst 12 1 11 OR
                               pos inst 0 4095 12)) out
         in accept_plain out)
       else (False, out))
     else if (fld inst 42 0x3 \<noteq> 0x3 \<and> fld inst 44 0x1 = 0x1) \<and> fld inst 39 0x1 = 0x0
     then (
       let out = set_dc (ucast (pos inst 40 15 1)) out;
           out = set_ra (ucast (pos inst 34 31 0)) out
       in if ((fld inst 26 0x1) XOR (fld inst 27 0x1)) = 0x1 \<and> fld inst 25 0x1 = 0x1
       then (
         let out = set_cc (ucast (pos inst 24 15 0)) out;
             out = set_imm (ucast (pos inst 20 15 0 OR pos inst 16 15 4 OR pos inst 15 1 8 OR
                               pos inst 14 1 9 OR pos inst 13 1 10 OR pos inst 12 1 11 OR
                               pos inst 0 4095 12)) out
         in accept_plain out)
       else if (fld inst 24 0xf < 0x6 \<or> (fld inst 24 0xf > 0xb
          \<or> ((fld inst 24 0xf) AND 0xe) = 0x8)) \<and> fld inst 24 0xf \<noteq> 0x0
       then (
         let out = set_cc (ucast (pos inst 24 15 0)) out;
             out = set_pc (ucast (pos inst 0 65535 0)) out;
             out = set_imm (ucast (pos inst 20 15 0 OR pos inst 16 15 4)) out
         in accept_plain out)
       else if fld inst 24 0xf = 0x0
       then (
         let out = set_imm (ucast (pos inst 20 15 0 OR pos inst 16 15 4 OR pos inst 15 1 8 OR
                               pos inst 14 1 9 OR pos inst 13 1 10 OR pos inst 12 1 11 OR
                               pos inst 0 4095 12)) out
         in accept_plain out)
       else (False, out))
     else decode_at_9622 inst out)"

lemma decode_at_9520_ok: "dec_in {} inst out \<Longrightarrow> dec_ok inst (decode_at_9520 inst out)"
  unfolding decode_at_9520_def
  by (rule dec_rules decode_at_9622_ok | assumption | (unfold format_simps, simp))+

definition decode_at_9830 :: "u64 \<Rightarrow> raw_decoded48 \<Rightarrow> bool \<times> raw_decoded48" where
  "decode_at_9830 inst out =
     (if fld inst 42 0x3 \<noteq> 0x3 \<and> fld inst 44 0x1 = 0x0
     then (
       let out = set_rc (ucast (pos inst 39 31 0)) out;
           out = set_ra (ucast (pos inst 34 31 0)) out
       in if ((fld inst 26 0x1) XOR (fld inst 27 0x1)) = 0x1 \<and> fld inst 25 0x1 = 0x1
       then (
         let out = set_cc (ucast (pos inst 24 15 0)) out;
             out = set_imm (ucast (pos inst 20 15 0 OR pos inst 16 15 4 OR pos inst 15 1 8 OR
                               pos inst 14 1 9 OR pos inst 13 1 10 OR pos inst 12 1 11 OR
                               pos inst 0 4095 12)) out
         in accept_plain out)
       else if (fld inst 24 0xf < 0x6 \<or> (fld inst 24 0xf > 0xb
          \<or> ((fld inst 24 0xf) AND 0xe) = 0x8)) \<and> fld inst 24 0xf \<noteq> 0x0
       then (
         let out = set_cc (ucast (pos inst 24 15 0)) out;
             out = set_pc (ucast (pos inst 0 65535 0)) out;
             out = set_imm (ucast (pos inst 20 15 0 OR pos inst 16 15 4)) out
         in accept_plain out)
       else if fld inst 24 0xf = 0x0
       then (
         let out = set_imm (ucast (pos inst 20 15 0 OR pos inst 16 15 4 OR pos inst 15 1 8 OR
                               pos inst 14 1 9 OR pos inst 13 1 10 OR pos inst 12 1 11 OR
                               pos inst 0 4095 12)) out
         in accept_plain out)
       else (False, out))
     else if fld inst 42 0x3 = 0x3
     then (
       let out = set_ra (ucast (pos inst 34 31 0)) out
       in if ((fld inst 26 0x1) XOR (fld inst 27 0x1)) = 0x1 \<and> fld inst 25 0x1 = 0x1
       then (
         let out = set_cc (ucast (pos inst 24 15 0)) out;
             out = set_imm (ucast (pos inst 20 15 0 OR pos inst 16 15 4 OR pos inst 15 1 8 OR
                               pos inst 14 1 9 OR pos inst 13 1 10 OR pos inst 12 1 11 OR
                               pos inst 0 4095 12 OR pos inst 39 7 24 OR pos inst 44 1 27)) out
         in accept_plain out)
       else if (fld inst 24 0xf < 0x6 \<or> (fld inst 24 0xf > 0xb
          \<or> ((fld inst 24 0xf) AND 0xe) = 0x8)) \<and> fld inst 24 0xf \<noteq> 0x0
       then (
         let out = set_cc (ucast (pos inst 24 15 0)) out;
             out = set_pc (ucast (pos inst 0 65535 0)) out;
             out = set_imm (ucast (pos inst 20 15 0 OR pos inst 16 15 4 OR pos inst 39 7 8 OR
                               pos inst 44 1 11)) out
         in accept_plain out)
       else if fld inst 24 0xf = 0x0
       then (
         let out = set_imm (ucast (pos inst 20 15 0 OR pos inst 16 15 4 OR pos inst 15 1 8 OR
                               pos inst 14 1 9 OR pos inst 13 1 10 OR pos inst 12 1 11 OR
                               pos inst 0 4095 12 OR pos inst 39 7 24 OR pos inst 44 1 27)) out
         in accept_plain out)
       else (False, out))
     else (False, out))"

lemma decode_at_9830_ok: "dec_in {} inst out \<Longrightarrow> dec_ok inst (decode_at_9830 inst out)"
  unfolding decode_at_9830_def
  by (rule dec_rules | assumption | (unfold format_simps, simp))+

definition decode_at_9728 :: "u64 \<Rightarrow> raw_decoded48 \<Rightarrow> bool \<times> raw_decoded48" where
  "decode_at_9728 inst out =
     (if (fld inst 42 0x3 \<noteq> 0x3 \<and> fld inst 44 0x1 = 0x1) \<and> fld inst 39 0x1 = 0x1
     then (
       let out = set_dc (ucast (pos inst 40 15 1)) out;
           out = set_ra (ucast (pos inst 34 31 0)) out
       in if ((fld inst 26 0x1) XOR (fld inst 27 0x1)) = 0x1 \<and> fld inst 25 0x1 = 0x1
       then (
         let out = set_cc (ucast (pos inst 24 15 0)) out;
             out = set_imm (ucast (pos inst 20 15 0 OR pos inst 16 15 4 OR pos inst 15 1 8 OR
                               pos inst 14 1 9 OR pos inst 13 1 10 OR pos inst 12 1 11 OR
                               pos inst 0 4095 12)) out
         in accept_plain out)
       else if (fld inst 24 0xf < 0x6 \<or> (fld inst 24 0xf > 0xb
          \<or> ((fld inst 24 0xf) AND 0xe) = 0x8)) \<and> fld inst 24 0xf \<noteq> 0x0
       then (
         let out = set_cc (ucast (pos inst 24 15 0)) out;
             out = set_pc (ucast (pos inst 0 65535 0)) out;
             out = set_imm (ucast (pos inst 20 15 0 OR pos inst 16 15 4)) out
         in accept_plain out)
       else if fld inst 24 0xf = 0x0
       then (
         let out = set_imm (ucast (pos inst 20 15 0 OR pos inst 16 15 4 OR pos inst 15 1 8 OR
                               pos inst 14 1 9 OR pos inst 13 1 10 OR pos inst 12 1 11 OR
                               pos inst 0 4095 12)) out
         in accept_plain out)
       else (False, out))
     else if (fld inst 42 0x3 \<noteq> 0x3 \<and> fld inst 44 0x1 = 0x1) \<and> fld inst 39 0x1 = 0x0
     then (
       let out = set_dc (ucast (pos inst 40 15 1)) out;
           out = set_ra (ucast (pos inst 34 31 0)) out
       in if ((fld inst 26 0x1) XOR (fld inst 27 0x1)) = 0x1 \<and> fld inst 25 0x1 = 0x1
       then (
         let out = set_cc (ucast (pos inst 24 15 0)) out;
             out = set_imm (ucast (pos inst 20 15 0 OR pos inst 16 15 4 OR pos inst 15 1 8 OR
                               pos inst 14 1 9 OR pos inst 13 1 10 OR pos inst 12 1 11 OR
                               pos inst 0 4095 12)) out
         in accept_plain out)
       else if (fld inst 24 0xf < 0x6 \<or> (fld inst 24 0xf > 0xb
          \<or> ((fld inst 24 0xf) AND 0xe) = 0x8)) \<and> fld inst 24 0xf \<noteq> 0x0
       then (
         let out = set_cc (ucast (pos inst 24 15 0)) out;
             out = set_pc (ucast (pos inst 0 65535 0)) out;
             out = set_imm (ucast (pos inst 20 15 0 OR pos inst 16 15 4)) out
         in accept_plain out)
       else if fld inst 24 0xf = 0x0
       then (
         let out = set_imm (ucast (pos inst 20 15 0 OR pos inst 16 15 4 OR pos inst 15 1 8 OR
                               pos inst 14 1 9 OR pos inst 13 1 10 OR pos inst 12 1 11 OR
                               pos inst 0 4095 12)) out
         in accept_plain out)
       else (False, out))
     else decode_at_9830 inst out)"

lemma decode_at_9728_ok: "dec_in {} inst out \<Longrightarrow> dec_ok inst (decode_at_9728 inst out)"
  unfolding decode_at_9728_def
  by (rule dec_rules decode_at_9830_ok | assumption | (unfold format_simps, simp))+

definition decode_at_10038 :: "u64 \<Rightarrow> raw_decoded48 \<Rightarrow> bool \<times> raw_decoded48" where
  "decode_at_10038 inst out =
     (if fld inst 42 0x3 \<noteq> 0x3 \<and> fld inst 44 0x1 = 0x0
     then (
       let out = set_rc (ucast (pos inst 39 31 0)) out;
           out = set_ra (ucast (pos inst 34 31 0)) out
       in if ((fld inst 26 0x1) XOR (fld inst 27 0x1)) = 0x1 \<and> fld inst 25 0x1 = 0x1
       then (
         let out = set_cc (ucast (pos inst 24 15 0)) out;
             out = set_imm (ucast (pos inst 20 15 0 OR pos inst 16 15 4 OR pos inst 15 1 8 OR
                               pos inst 14 1 9 OR pos inst 13 1 10 OR pos inst 12 1 11 OR
                               pos inst 0 4095 12)) out
         in accept_plain out)
       else if (fld inst 24 0xf < 0x6 \<or> (fld inst 24 0xf > 0xb
          \<or> ((fld inst 24 0xf) AND 0xe) = 0x8)) \<and> fld inst 24 0xf \<noteq> 0x0
       then (
         let out = set_cc (ucast (pos inst 24 15 0)) out;
             out = set_pc (ucast (pos inst 0 65535 0)) out;
             out = set_imm (ucast (pos inst 20 15 0 OR pos inst 16 15 4)) out
         in accept_plain out)
       else if fld inst 24 0xf = 0x0
       then (
         let out = set_imm (ucast (pos inst 20 15 0 OR pos inst 16 15 4 OR pos inst 15 1 8 OR
                               pos inst 14 1 9 OR pos inst 13 1 10 OR pos inst 12 1 11 OR
                               pos inst 0 4095 12)) out
         in accept_plain out)
       else (False, out))
     else if fld inst 42 0x3 = 0x3
     then (
       let out = set_ra (ucast (pos inst 34 31 0)) out
       in if ((fld inst 26 0x1) XOR (fld inst 27 0x1)) = 0x1 \<and> fld inst 25 0x1 = 0x1
       then (
         let out = set_cc (ucast (pos inst 24 15 0)) out;
             out = set_imm (ucast (pos inst 20 15 0 OR pos inst 16 15 4 OR pos inst 15 1 8 OR
                               pos inst 14 1 9 OR pos inst 13 1 10 OR pos inst 12 1 11 OR
                               pos inst 0 4095 12 OR pos inst 39 7 24 OR pos inst 44 1 27)) out
         in accept_plain out)
       else if (fld inst 24 0xf < 0x6 \<or> (fld inst 24 0xf > 0xb
          \<or> ((fld inst 24 0xf) AND 0xe) = 0x8)) \<and> fld inst 24 0xf \<noteq> 0x0
       then (
         let out = set_cc (ucast (pos inst 24 15 0)) out;
             out = set_pc (ucast (pos inst 0 65535 0)) out;
             out = set_imm (ucast (pos inst 20 15 0 OR pos inst 16 15 4 OR pos inst 39 7 8 OR
                               pos inst 44 1 11)) out
         in accept_plain out)
       else if fld inst 24 0xf = 0x0
       then (
         let out = set_imm (ucast (pos inst 20 15 0 OR pos inst 16 15 4 OR pos inst 15 1 8 OR
                               pos inst 14 1 9 OR pos inst 13 1 10 OR pos inst 12 1 11 OR
                               pos inst 0 4095 12 OR pos inst 39 7 24 OR pos inst 44 1 27)) out
         in accept_plain out)
       else (False, out))
     else (False, out))"

lemma decode_at_10038_ok: "dec_in {} inst out \<Longrightarrow> dec_ok inst (decode_at_10038 inst out)"
  unfolding decode_at_10038_def
  by (rule dec_rules | assumption | (unfold format_simps, simp))+

definition decode_at_9936 :: "u64 \<Rightarrow> raw_decoded48 \<Rightarrow> bool \<times> raw_decoded48" where
  "decode_at_9936 inst out =
     (if (fld inst 42 0x3 \<noteq> 0x3 \<and> fld inst 44 0x1 = 0x1) \<and> fld inst 39 0x1 = 0x1
     then (
       let out = set_dc (ucast (pos inst 40 15 1)) out;
           out = set_ra (ucast (pos inst 34 31 0)) out
       in if ((fld inst 26 0x1) XOR (fld inst 27 0x1)) = 0x1 \<and> fld inst 25 0x1 = 0x1
       then (
         let out = set_cc (ucast (pos inst 24 15 0)) out;
             out = set_imm (ucast (pos inst 20 15 0 OR pos inst 16 15 4 OR pos inst 15 1 8 OR
                               pos inst 14 1 9 OR pos inst 13 1 10 OR pos inst 12 1 11 OR
                               pos inst 0 4095 12)) out
         in accept_plain out)
       else if (fld inst 24 0xf < 0x6 \<or> (fld inst 24 0xf > 0xb
          \<or> ((fld inst 24 0xf) AND 0xe) = 0x8)) \<and> fld inst 24 0xf \<noteq> 0x0
       then (
         let out = set_cc (ucast (pos inst 24 15 0)) out;
             out = set_pc (ucast (pos inst 0 65535 0)) out;
             out = set_imm (ucast (pos inst 20 15 0 OR pos inst 16 15 4)) out
         in accept_plain out)
       else if fld inst 24 0xf = 0x0
       then (
         let out = set_imm (ucast (pos inst 20 15 0 OR pos inst 16 15 4 OR pos inst 15 1 8 OR
                               pos inst 14 1 9 OR pos inst 13 1 10 OR pos inst 12 1 11 OR
                               pos inst 0 4095 12)) out
         in accept_plain out)
       else (False, out))
     else if (fld inst 42 0x3 \<noteq> 0x3 \<and> fld inst 44 0x1 = 0x1) \<and> fld inst 39 0x1 = 0x0
     then (
       let out = set_dc (ucast (pos inst 40 15 1)) out;
           out = set_ra (ucast (pos inst 34 31 0)) out
       in if ((fld inst 26 0x1) XOR (fld inst 27 0x1)) = 0x1 \<and> fld inst 25 0x1 = 0x1
       then (
         let out = set_cc (ucast (pos inst 24 15 0)) out;
             out = set_imm (ucast (pos inst 20 15 0 OR pos inst 16 15 4 OR pos inst 15 1 8 OR
                               pos inst 14 1 9 OR pos inst 13 1 10 OR pos inst 12 1 11 OR
                               pos inst 0 4095 12)) out
         in accept_plain out)
       else if (fld inst 24 0xf < 0x6 \<or> (fld inst 24 0xf > 0xb
          \<or> ((fld inst 24 0xf) AND 0xe) = 0x8)) \<and> fld inst 24 0xf \<noteq> 0x0
       then (
         let out = set_cc (ucast (pos inst 24 15 0)) out;
             out = set_pc (ucast (pos inst 0 65535 0)) out;
             out = set_imm (ucast (pos inst 20 15 0 OR pos inst 16 15 4)) out
         in accept_plain out)
       else if fld inst 24 0xf = 0x0
       then (
         let out = set_imm (ucast (pos inst 20 15 0 OR pos inst 16 15 4 OR pos inst 15 1 8 OR
                               pos inst 14 1 9 OR pos inst 13 1 10 OR pos inst 12 1 11 OR
                               pos inst 0 4095 12)) out
         in accept_plain out)
       else (False, out))
     else decode_at_10038 inst out)"

lemma decode_at_9936_ok: "dec_in {} inst out \<Longrightarrow> dec_ok inst (decode_at_9936 inst out)"
  unfolding decode_at_9936_def
  by (rule dec_rules decode_at_10038_ok | assumption | (unfold format_simps, simp))+

definition decode_at_10258 :: "u64 \<Rightarrow> raw_decoded48 \<Rightarrow> bool \<times> raw_decoded48" where
  "decode_at_10258 inst out =
     (if fld inst 42 0x3 \<noteq> 0x3 \<and> fld inst 44 0x1 = 0x0
     then (
       let out = set_rc (ucast (pos inst 39 31 0)) out;
           out = set_ra (ucast (pos inst 34 31 0)) out
       in if ((fld inst 26 0x1) XOR (fld inst 27 0x1)) = 0x1 \<and> fld inst 25 0x1 = 0x1
       then (
         let out = set_cc (ucast (pos inst 24 15 0)) out;
             out = set_imm (ucast (pos inst 20 15 0 OR pos inst 16 15 4 OR pos inst 15 1 8 OR
                               pos inst 14 1 9 OR pos inst 13 1 10 OR pos inst 12 1 11 OR
                               pos inst 0 4095 12)) out
         in accept_hot H_Or F_Rric out)
       else if (fld inst 24 0xf < 0x6 \<or> (fld inst 24 0xf > 0xb
          \<or> ((fld inst 24 0xf) AND 0xe) = 0x8)) \<and> fld inst 24 0xf \<noteq> 0x0
       then (
         let out = set_cc (ucast (pos inst 24 15 0)) out;
             out = set_pc (ucast (pos inst 0 65535 0)) out;
             out = set_imm (ucast (pos inst 20 15 0 OR pos inst 16 15 4)) out
         in accept_hot H_Or F_Rrici out)
       else if fld inst 24 0xf = 0x0
       then (
         let out = set_imm (ucast (pos inst 20 15 0 OR pos inst 16 15 4 OR pos inst 15 1 8 OR
                               pos inst 14 1 9 OR pos inst 13 1 10 OR pos inst 12 1 11 OR
                               pos inst 0 4095 12)) out
         in accept_hot H_Or F_Rrif out)
       else (False, out))
     else if fld inst 42 0x3 = 0x3
     then (
       let out = set_ra (ucast (pos inst 34 31 0)) out
       in if ((fld inst 26 0x1) XOR (fld inst 27 0x1)) = 0x1 \<and> fld inst 25 0x1 = 0x1
       then (
         let out = set_cc (ucast (pos inst 24 15 0)) out;
             out = set_imm (ucast (pos inst 20 15 0 OR pos inst 16 15 4 OR pos inst 15 1 8 OR
                               pos inst 14 1 9 OR pos inst 13 1 10 OR pos inst 12 1 11 OR
                               pos inst 0 4095 12 OR pos inst 39 7 24 OR pos inst 44 1 27)) out
         in accept_hot H_Or F_Zric out)
       else if (fld inst 24 0xf < 0x6 \<or> (fld inst 24 0xf > 0xb
          \<or> ((fld inst 24 0xf) AND 0xe) = 0x8)) \<and> fld inst 24 0xf \<noteq> 0x0
       then (
         let out = set_cc (ucast (pos inst 24 15 0)) out;
             out = set_pc (ucast (pos inst 0 65535 0)) out;
             out = set_imm (ucast (pos inst 20 15 0 OR pos inst 16 15 4 OR pos inst 39 7 8 OR
                               pos inst 44 1 11)) out
         in accept_hot H_Or F_Zrici out)
       else if fld inst 24 0xf = 0x0
       then (
         let out = set_imm (ucast (pos inst 20 15 0 OR pos inst 16 15 4 OR pos inst 15 1 8 OR
                               pos inst 14 1 9 OR pos inst 13 1 10 OR pos inst 12 1 11 OR
                               pos inst 0 4095 12 OR pos inst 39 7 24 OR pos inst 44 1 27)) out
         in accept_hot H_Or F_Zrif out)
       else (False, out))
     else (False, out))"

lemma decode_at_10258_ok: "dec_in {} inst out \<Longrightarrow> dec_ok inst (decode_at_10258 inst out)"
  unfolding decode_at_10258_def
  by (rule dec_rules | assumption | (unfold format_simps, simp))+

end
