(* ===== verification/Decode_6.thy ===== *)
theory Decode_6
  imports Decode_5
begin

text \<open>
  Part 6 of the decision tree of \<open>decode_raw_word_48\<close> (\<open>dpu/pipeline.cc\<close>). \<open>decode_at_N\<close> is the block
  of the function that starts at source line \<open>N\<close>; a block that is too long for one definition calls
  the definitions of its inner blocks, or of its remaining tests, at the place where the source has
  them. The lemma \<open>decode_at_N_ok\<close> states that the block, entered after the operands on the path to
  it were read, returns with an operand layout that its format announces.
\<close>

definition decode_at_10144 :: "u64 \<Rightarrow> raw_decoded48 \<Rightarrow> bool \<times> raw_decoded48" where
  "decode_at_10144 inst out =
     (if (fld inst 42 0x3 \<noteq> 0x3 \<and> fld inst 44 0x1 = 0x1) \<and> fld inst 39 0x1 = 0x1
     then (
       let out = set_dc (ucast (pos inst 40 15 1)) out;
           out = set_ra (ucast (pos inst 34 31 0)) out
       in if ((fld inst 26 0x1) XOR (fld inst 27 0x1)) = 0x1 \<and> fld inst 25 0x1 = 0x1
       then (
         let out = set_cc (ucast (pos inst 24 15 0)) out;
             out = set_imm (ucast (pos inst 20 15 0 OR pos inst 16 15 4 OR pos inst 15 1 8 OR
                               pos inst 14 1 9 OR pos inst 13 1 10 OR pos inst 12 1 11 OR
                               pos inst 0 4095 12)) out
         in accept_hot H_OrS F_Rric out)
       else if (fld inst 24 0xf < 0x6 \<or> (fld inst 24 0xf > 0xb
          \<or> ((fld inst 24 0xf) AND 0xe) = 0x8)) \<and> fld inst 24 0xf \<noteq> 0x0
       then (
         let out = set_cc (ucast (pos inst 24 15 0)) out;
             out = set_pc (ucast (pos inst 0 65535 0)) out;
             out = set_imm (ucast (pos inst 20 15 0 OR pos inst 16 15 4)) out
         in accept_hot H_OrS F_Rrici out)
       else if fld inst 24 0xf = 0x0
       then (
         let out = set_imm (ucast (pos inst 20 15 0 OR pos inst 16 15 4 OR pos inst 15 1 8 OR
                               pos inst 14 1 9 OR pos inst 13 1 10 OR pos inst 12 1 11 OR
                               pos inst 0 4095 12)) out
         in accept_hot H_OrS F_Rrif out)
       else (False, out))
     else if (fld inst 42 0x3 \<noteq> 0x3 \<and> fld inst 44 0x1 = 0x1) \<and> fld inst 39 0x1 = 0x0
     then (
       let out = set_dc (ucast (pos inst 40 15 1)) out;
           out = set_ra (ucast (pos inst 34 31 0)) out
       in if ((fld inst 26 0x1) XOR (fld inst 27 0x1)) = 0x1 \<and> fld inst 25 0x1 = 0x1
       then (
         let out = set_cc (ucast (pos inst 24 15 0)) out;
             out = set_imm (ucast (pos inst 20 15 0 OR pos inst 16 15 4 OR pos inst 15 1 8 OR
                               pos inst 14 1 9 OR pos inst 13 1 10 OR pos inst 12 1 11 OR
                               pos inst 0 4095 12)) out
         in accept_hot H_OrU F_Rric out)
       else if (fld inst 24 0xf < 0x6 \<or> (fld inst 24 0xf > 0xb
          \<or> ((fld inst 24 0xf) AND 0xe) = 0x8)) \<and> fld inst 24 0xf \<noteq> 0x0
       then (
         let out = set_cc (ucast (pos inst 24 15 0)) out;
             out = set_pc (ucast (pos inst 0 65535 0)) out;
             out = set_imm (ucast (pos inst 20 15 0 OR pos inst 16 15 4)) out
         in accept_hot H_OrU F_Rrici out)
       else if fld inst 24 0xf = 0x0
       then (
         let out = set_imm (ucast (pos inst 20 15 0 OR pos inst 16 15 4 OR pos inst 15 1 8 OR
                               pos inst 14 1 9 OR pos inst 13 1 10 OR pos inst 12 1 11 OR
                               pos inst 0 4095 12)) out
         in accept_hot H_OrU F_Rrif out)
       else (False, out))
     else decode_at_10258 inst out)"

lemma decode_at_10144_ok: "dec_in {} inst out \<Longrightarrow> dec_ok inst (decode_at_10144 inst out)"
  unfolding decode_at_10144_def
  by (rule dec_rules decode_at_10258_ok | assumption | (unfold format_simps, simp))+

definition decode_at_10478 :: "u64 \<Rightarrow> raw_decoded48 \<Rightarrow> bool \<times> raw_decoded48" where
  "decode_at_10478 inst out =
     (if fld inst 42 0x3 \<noteq> 0x3 \<and> fld inst 44 0x1 = 0x0
     then (
       let out = set_rc (ucast (pos inst 39 31 0)) out;
           out = set_ra (ucast (pos inst 34 31 0)) out
       in if ((fld inst 26 0x1) XOR (fld inst 27 0x1)) = 0x1 \<and> fld inst 25 0x1 = 0x1
       then (
         let out = set_cc (ucast (pos inst 24 15 0)) out;
             out = set_imm (ucast (pos inst 20 15 0 OR pos inst 16 15 4 OR pos inst 15 1 8 OR
                               pos inst 14 1 9 OR pos inst 13 1 10 OR pos inst 12 1 11 OR
                               pos inst 0 4095 12)) out
         in accept_plain out)
       else if (fld inst 24 0xf < 0x6 \<or> (fld inst 24 0xf > 0xb
          \<or> ((fld inst 24 0xf) AND 0xe) = 0x8)) \<and> fld inst 24 0xf \<noteq> 0x0
       then (
         let out = set_cc (ucast (pos inst 24 15 0)) out;
             out = set_pc (ucast (pos inst 0 65535 0)) out;
             out = set_imm (ucast (pos inst 20 15 0 OR pos inst 16 15 4)) out
         in accept_plain out)
       else if fld inst 24 0xf = 0x0
       then (
         let out = set_imm (ucast (pos inst 20 15 0 OR pos inst 16 15 4 OR pos inst 15 1 8 OR
                               pos inst 14 1 9 OR pos inst 13 1 10 OR pos inst 12 1 11 OR
                               pos inst 0 4095 12)) out
         in accept_plain out)
       else (False, out))
     else if fld inst 42 0x3 = 0x3
     then (
       let out = set_ra (ucast (pos inst 34 31 0)) out
       in if ((fld inst 26 0x1) XOR (fld inst 27 0x1)) = 0x1 \<and> fld inst 25 0x1 = 0x1
       then (
         let out = set_cc (ucast (pos inst 24 15 0)) out;
             out = set_imm (ucast (pos inst 20 15 0 OR pos inst 16 15 4 OR pos inst 15 1 8 OR
                               pos inst 14 1 9 OR pos inst 13 1 10 OR pos inst 12 1 11 OR
                               pos inst 0 4095 12 OR pos inst 39 7 24 OR pos inst 44 1 27)) out
         in accept_plain out)
       else if (fld inst 24 0xf < 0x6 \<or> (fld inst 24 0xf > 0xb
          \<or> ((fld inst 24 0xf) AND 0xe) = 0x8)) \<and> fld inst 24 0xf \<noteq> 0x0
       then (
         let out = set_cc (ucast (pos inst 24 15 0)) out;
             out = set_pc (ucast (pos inst 0 65535 0)) out;
             out = set_imm (ucast (pos inst 20 15 0 OR pos inst 16 15 4 OR pos inst 39 7 8 OR
                               pos inst 44 1 11)) out
         in accept_plain out)
       else if fld inst 24 0xf = 0x0
       then (
         let out = set_imm (ucast (pos inst 20 15 0 OR pos inst 16 15 4 OR pos inst 15 1 8 OR
                               pos inst 14 1 9 OR pos inst 13 1 10 OR pos inst 12 1 11 OR
                               pos inst 0 4095 12 OR pos inst 39 7 24 OR pos inst 44 1 27)) out
         in accept_plain out)
       else (False, out))
     else (False, out))"

lemma decode_at_10478_ok: "dec_in {} inst out \<Longrightarrow> dec_ok inst (decode_at_10478 inst out)"
  unfolding decode_at_10478_def
  by (rule dec_rules | assumption | (unfold format_simps, simp))+

definition decode_at_10376 :: "u64 \<Rightarrow> raw_decoded48 \<Rightarrow> bool \<times> raw_decoded48" where
  "decode_at_10376 inst out =
     (if (fld inst 42 0x3 \<noteq> 0x3 \<and> fld inst 44 0x1 = 0x1) \<and> fld inst 39 0x1 = 0x1
     then (
       let out = set_dc (ucast (pos inst 40 15 1)) out;
           out = set_ra (ucast (pos inst 34 31 0)) out
       in if ((fld inst 26 0x1) XOR (fld inst 27 0x1)) = 0x1 \<and> fld inst 25 0x1 = 0x1
       then (
         let out = set_cc (ucast (pos inst 24 15 0)) out;
             out = set_imm (ucast (pos inst 20 15 0 OR pos inst 16 15 4 OR pos inst 15 1 8 OR
                               pos inst 14 1 9 OR pos inst 13 1 10 OR pos inst 12 1 11 OR
                               pos inst 0 4095 12)) out
         in accept_plain out)
       else if (fld inst 24 0xf < 0x6 \<or> (fld inst 24 0xf > 0xb
          \<or> ((fld inst 24 0xf) AND 0xe) = 0x8)) \<and> fld inst 24 0xf \<noteq> 0x0
       then (
         let out = set_cc (ucast (pos inst 24 15 0)) out;
             out = set_pc (ucast (pos inst 0 65535 0)) out;
             out = set_imm (ucast (pos inst 20 15 0 OR pos inst 16 15 4)) out
         in accept_plain out)
       else if fld inst 24 0xf = 0x0
       then (
         let out = set_imm (ucast (pos inst 20 15 0 OR pos inst 16 15 4 OR pos inst 15 1 8 OR
                               pos inst 14 1 9 OR pos inst 13 1 10 OR pos inst 12 1 11 OR
                               pos inst 0 4095 12)) out
         in accept_plain out)
       else (False, out))
     else if (fld inst 42 0x3 \<noteq> 0x3 \<and> fld inst 44 0x1 = 0x1) \<and> fld inst 39 0x1 = 0x0
     then (
       let out = set_dc (ucast (pos inst 40 15 1)) out;
           out = set_ra (ucast (pos inst 34 31 0)) out
       in if ((fld inst 26 0x1) XOR (fld inst 27 0x1)) = 0x1 \<and> fld inst 25 0x1 = 0x1
       then (
         let out = set_cc (ucast (pos inst 24 15 0)) out;
             out = set_imm (ucast (pos inst 20 15 0 OR pos inst 16 15 4 OR pos inst 15 1 8 OR
                               pos inst 14 1 9 OR pos inst 13 1 10 OR pos inst 12 1 11 OR
                               pos inst 0 4095 12)) out
         in accept_plain out)
       else if (fld inst 24 0xf < 0x6 \<or> (fld inst 24 0xf > 0xb
          \<or> ((fld inst 24 0xf) AND 0xe) = 0x8)) \<and> fld inst 24 0xf \<noteq> 0x0
       then (
         let out = set_cc (ucast (pos inst 24 15 0)) out;
             out = set_pc (ucast (pos inst 0 65535 0)) out;
             out = set_imm (ucast (pos inst 20 15 0 OR pos inst 16 15 4)) out
         in accept_plain out)
       else if fld inst 24 0xf = 0x0
       then (
         let out = set_imm (ucast (pos inst 20 15 0 OR pos inst 16 15 4 OR pos inst 15 1 8 OR
                               pos inst 14 1 9 OR pos inst 13 1 10 OR pos inst 12 1 11 OR
                               pos inst 0 4095 12)) out
         in accept_plain out)
       else (False, out))
     else decode_at_10478 inst out)"

lemma decode_at_10376_ok: "dec_in {} inst out \<Longrightarrow> dec_ok inst (decode_at_10376 inst out)"
  unfolding decode_at_10376_def
  by (rule dec_rules decode_at_10478_ok | assumption | (unfold format_simps, simp))+

definition decode_at_10584 :: "u64 \<Rightarrow> raw_decoded48 \<Rightarrow> bool \<times> raw_decoded48" where
  "decode_at_10584 inst out =
     (let out = set_ra (ucast (pos inst 34 31 0)) out
     in if ((fld inst 20 0xf) AND 0xc) = 0x0
     then (
       if (fld inst 42 0x3 \<noteq> 0x3 \<and> fld inst 44 0x1 = 0x1)
          \<and> fld inst 39 0x1 = 0x1
       then (
         let out = set_dc (ucast (pos inst 40 15 1)) out
         in if fld inst 24 0xf = 0x0
         then accept_plain out
         else if ((fld inst 26 0x1) XOR (fld inst 27 0x1)) = 0x1 \<and> fld inst 25 0x1 = 0x1
         then (
           let out = set_cc (ucast (pos inst 24 15 0)) out
           in accept_plain out)
         else if (fld inst 24 0xf < 0x6 \<or> (fld inst 24 0xf > 0xb
            \<or> ((fld inst 24 0xf) AND 0xe) = 0x8)) \<and> fld inst 24 0xf \<noteq> 0x0
         then (
           let out = set_cc (ucast (pos inst 24 15 0)) out;
               out = set_pc (ucast (pos inst 0 65535 0)) out
           in accept_plain out)
         else (False, out))
       else if (fld inst 42 0x3 \<noteq> 0x3 \<and> fld inst 44 0x1 = 0x1)
          \<and> fld inst 39 0x1 = 0x0
       then (
         let out = set_dc (ucast (pos inst 40 15 1)) out
         in if fld inst 24 0xf = 0x0
         then accept_plain out
         else if ((fld inst 26 0x1) XOR (fld inst 27 0x1)) = 0x1 \<and> fld inst 25 0x1 = 0x1
         then (
           let out = set_cc (ucast (pos inst 24 15 0)) out
           in accept_plain out)
         else if (fld inst 24 0xf < 0x6 \<or> (fld inst 24 0xf > 0xb
            \<or> ((fld inst 24 0xf) AND 0xe) = 0x8)) \<and> fld inst 24 0xf \<noteq> 0x0
         then (
           let out = set_cc (ucast (pos inst 24 15 0)) out;
               out = set_pc (ucast (pos inst 0 65535 0)) out
           in accept_plain out)
         else (False, out))
       else if fld inst 42 0x3 \<noteq> 0x3 \<and> fld inst 44 0x1 = 0x0
       then (
         let out = set_rc (ucast (pos inst 39 31 0)) out
         in if fld inst 24 0xf = 0x0
         then accept_plain out
         else if ((fld inst 26 0x1) XOR (fld inst 27 0x1)) = 0x1 \<and> fld inst 25 0x1 = 0x1
         then (
           let out = set_cc (ucast (pos inst 24 15 0)) out
           in accept_plain out)
         else if (fld inst 24 0xf < 0x6 \<or> (fld inst 24 0xf > 0xb
            \<or> ((fld inst 24 0xf) AND 0xe) = 0x8)) \<and> fld inst 24 0xf \<noteq> 0x0
         then (
           let out = set_cc (ucast (pos inst 24 15 0)) out;
               out = set_pc (ucast (pos inst 0 65535 0)) out
           in accept_plain out)
         else (False, out))
       else if fld inst 42 0x3 = 0x3
       then (
         if fld inst 24 0xf = 0x0
         then accept_plain out
         else if ((fld inst 26 0x1) XOR (fld inst 27 0x1)) = 0x1 \<and> fld inst 25 0x1 = 0x1
         then (
           let out = set_cc (ucast (pos inst 24 15 0)) out
           in accept_plain out)
         else if (fld inst 24 0xf < 0x6 \<or> (fld inst 24 0xf > 0xb
            \<or> ((fld inst 24 0xf) AND 0xe) = 0x8)) \<and> fld inst 24 0xf \<noteq> 0x0
         then (
           let out = set_cc (ucast (pos inst 24 15 0)) out;
               out = set_pc (ucast (pos inst 0 65535 0)) out
           in accept_plain out)
         else (False, out))
       else (False, out))
     else (False, out))"

lemma decode_at_10584_ok: "dec_in {} inst out \<Longrightarrow> dec_ok inst (decode_at_10584 inst out)"
  unfolding decode_at_10584_def
  by (rule dec_rules | assumption | (unfold format_simps, simp))+

definition decode_at_10813 :: "u64 \<Rightarrow> raw_decoded48 \<Rightarrow> bool \<times> raw_decoded48" where
  "decode_at_10813 inst out =
     (if fld inst 42 0x3 \<noteq> 0x3 \<and> fld inst 44 0x1 = 0x0
     then (
       let out = set_rc (ucast (pos inst 39 31 0)) out;
           out = set_ra (ucast (pos inst 34 31 0)) out
       in if ((fld inst 26 0x1) XOR (fld inst 27 0x1)) = 0x1 \<and> fld inst 25 0x1 = 0x1
       then (
         let out = set_cc (ucast (pos inst 24 15 0)) out;
             out = set_imm (ucast (pos inst 20 15 0 OR pos inst 16 15 4 OR pos inst 15 1 8 OR
                               pos inst 14 1 9 OR pos inst 13 1 10 OR pos inst 12 1 11 OR
                               pos inst 0 4095 12)) out
         in accept_plain out)
       else if (fld inst 24 0xf < 0x6 \<or> (fld inst 24 0xf > 0xb
          \<or> ((fld inst 24 0xf) AND 0xe) = 0x8)) \<and> fld inst 24 0xf \<noteq> 0x0
       then (
         let out = set_cc (ucast (pos inst 24 15 0)) out;
             out = set_pc (ucast (pos inst 0 65535 0)) out;
             out = set_imm (ucast (pos inst 20 15 0 OR pos inst 16 15 4)) out
         in accept_plain out)
       else if fld inst 24 0xf = 0x0
       then (
         let out = set_imm (ucast (pos inst 20 15 0 OR pos inst 16 15 4 OR pos inst 15 1 8 OR
                               pos inst 14 1 9 OR pos inst 13 1 10 OR pos inst 12 1 11 OR
                               pos inst 0 4095 12)) out
         in accept_plain out)
       else (False, out))
     else if fld inst 42 0x3 = 0x3
     then (
       let out = set_ra (ucast (pos inst 34 31 0)) out
       in if ((fld inst 26 0x1) XOR (fld inst 27 0x1)) = 0x1 \<and> fld inst 25 0x1 = 0x1
       then (
         let out = set_cc (ucast (pos inst 24 15 0)) out;
             out = set_imm (ucast (pos inst 20 15 0 OR pos inst 16 15 4 OR pos inst 15 1 8 OR
                               pos inst 14 1 9 OR pos inst 13 1 10 OR pos inst 12 1 11 OR
                               pos inst 0 4095 12 OR pos inst 39 7 24 OR pos inst 44 1 27)) out
         in accept_plain out)
       else if (fld inst 24 0xf < 0x6 \<or> (fld inst 24 0xf > 0xb
          \<or> ((fld inst 24 0xf) AND 0xe) = 0x8)) \<and> fld inst 24 0xf \<noteq> 0x0
       then (
         let out = set_cc (ucast (pos inst 24 15 0)) out;
             out = set_pc (ucast (pos inst 0 65535 0)) out;
             out = set_imm (ucast (pos inst 20 15 0 OR pos inst 16 15 4 OR pos inst 39 7 8 OR
                               pos inst 44 1 11)) out
         in accept_plain out)
       else if fld inst 24 0xf = 0x0
       then (
         let out = set_imm (ucast (pos inst 20 15 0 OR pos inst 16 15 4 OR pos inst 15 1 8 OR
                               pos inst 14 1 9 OR pos inst 13 1 10 OR pos inst 12 1 11 OR
                               pos inst 0 4095 12 OR pos inst 39 7 24 OR pos inst 44 1 27)) out
         in accept_plain out)
       else (False, out))
     else (False, out))"

lemma decode_at_10813_ok: "dec_in {} inst out \<Longrightarrow> dec_ok inst (decode_at_10813 inst out)"
  unfolding decode_at_10813_def
  by (rule dec_rules | assumption | (unfold format_simps, simp))+

definition decode_at_10711 :: "u64 \<Rightarrow> raw_decoded48 \<Rightarrow> bool \<times> raw_decoded48" where
  "decode_at_10711 inst out =
     (if (fld inst 42 0x3 \<noteq> 0x3 \<and> fld inst 44 0x1 = 0x1) \<and> fld inst 39 0x1 = 0x1
     then (
       let out = set_dc (ucast (pos inst 40 15 1)) out;
           out = set_ra (ucast (pos inst 34 31 0)) out
       in if ((fld inst 26 0x1) XOR (fld inst 27 0x1)) = 0x1 \<and> fld inst 25 0x1 = 0x1
       then (
         let out = set_cc (ucast (pos inst 24 15 0)) out;
             out = set_imm (ucast (pos inst 20 15 0 OR pos inst 16 15 4 OR pos inst 15 1 8 OR
                               pos inst 14 1 9 OR pos inst 13 1 10 OR pos inst 12 1 11 OR
                               pos inst 0 4095 12)) out
         in accept_plain out)
       else if (fld inst 24 0xf < 0x6 \<or> (fld inst 24 0xf > 0xb
          \<or> ((fld inst 24 0xf) AND 0xe) = 0x8)) \<and> fld inst 24 0xf \<noteq> 0x0
       then (
         let out = set_cc (ucast (pos inst 24 15 0)) out;
             out = set_pc (ucast (pos inst 0 65535 0)) out;
             out = set_imm (ucast (pos inst 20 15 0 OR pos inst 16 15 4)) out
         in accept_plain out)
       else if fld inst 24 0xf = 0x0
       then (
         let out = set_imm (ucast (pos inst 20 15 0 OR pos inst 16 15 4 OR pos inst 15 1 8 OR
                               pos inst 14 1 9 OR pos inst 13 1 10 OR pos inst 12 1 11 OR
                               pos inst 0 4095 12)) out
         in accept_plain out)
       else (False, out))
     else if (fld inst 42 0x3 \<noteq> 0x3 \<and> fld inst 44 0x1 = 0x1) \<and> fld inst 39 0x1 = 0x0
     then (
       let out = set_dc (ucast (pos inst 40 15 1)) out;
           out = set_ra (ucast (pos inst 34 31 0)) out
       in if ((fld inst 26 0x1) XOR (fld inst 27 0x1)) = 0x1 \<and> fld inst 25 0x1 = 0x1
       then (
         let out = set_cc (ucast (pos inst 24 15 0)) out;
             out = set_imm (ucast (pos inst 20 15 0 OR pos inst 16 15 4 OR pos inst 15 1 8 OR
                               pos inst 14 1 9 OR pos inst 13 1 10 OR pos inst 12 1 11 OR
                               pos inst 0 4095 12)) out
         in accept_plain out)
       else if (fld inst 24 0xf < 0x6 \<or> (fld inst 24 0xf > 0xb
          \<or> ((fld inst 24 0xf) AND 0xe) = 0x8)) \<and> fld inst 24 0xf \<noteq> 0x0
       then (
         let out = set_cc (ucast (pos inst 24 15 0)) out;
             out = set_pc (ucast (pos inst 0 65535 0)) out;
             out = set_imm (ucast (pos inst 20 15 0 OR pos inst 16 15 4)) out
         in accept_plain out)
       else if fld inst 24 0xf = 0x0
       then (
         let out = set_imm (ucast (pos inst 20 15 0 OR pos inst 16 15 4 OR pos inst 15 1 8 OR
                               pos inst 14 1 9 OR pos inst 13 1 10 OR pos inst 12 1 11 OR
                               pos inst 0 4095 12)) out
         in accept_plain out)
       else (False, out))
     else decode_at_10813 inst out)"

lemma decode_at_10711_ok: "dec_in {} inst out \<Longrightarrow> dec_ok inst (decode_at_10711 inst out)"
  unfolding decode_at_10711_def
  by (rule dec_rules decode_at_10813_ok | assumption | (unfold format_simps, simp))+

definition decode_at_10710 :: "u64 \<Rightarrow> raw_decoded48 \<Rightarrow> bool \<times> raw_decoded48" where
  "decode_at_10710 inst out =
     (if ((fld inst 28 0xf) AND 0xf) = 0x8
     then decode_at_10711 inst out
     else (False, out))"

lemma decode_at_10710_ok: "dec_in {} inst out \<Longrightarrow> dec_ok inst (decode_at_10710 inst out)"
  unfolding decode_at_10710_def
  by (rule dec_rules decode_at_10711_ok | assumption | (unfold format_simps, simp))+

definition decode_at_10583 :: "u64 \<Rightarrow> raw_decoded48 \<Rightarrow> bool \<times> raw_decoded48" where
  "decode_at_10583 inst out =
     (if ((fld inst 28 0xf) AND 0xf) = 0x2
     then decode_at_10584 inst out
     else decode_at_10710 inst out)"

lemma decode_at_10583_ok: "dec_in {} inst out \<Longrightarrow> dec_ok inst (decode_at_10583 inst out)"
  unfolding decode_at_10583_def
   by (rule dec_rules decode_at_10584_ok decode_at_10710_ok | assumption | (unfold format_simps,
      simp))+

definition decode_at_10375 :: "u64 \<Rightarrow> raw_decoded48 \<Rightarrow> bool \<times> raw_decoded48" where
  "decode_at_10375 inst out =
     (if ((fld inst 28 0xf) AND 0xf) = 0xd
     then decode_at_10376 inst out
     else decode_at_10583 inst out)"

lemma decode_at_10375_ok: "dec_in {} inst out \<Longrightarrow> dec_ok inst (decode_at_10375 inst out)"
  unfolding decode_at_10375_def
   by (rule dec_rules decode_at_10376_ok decode_at_10583_ok | assumption | (unfold format_simps,
      simp))+

definition decode_at_10143 :: "u64 \<Rightarrow> raw_decoded48 \<Rightarrow> bool \<times> raw_decoded48" where
  "decode_at_10143 inst out =
     (if ((fld inst 28 0xf) AND 0xf) = 0xb
     then decode_at_10144 inst out
     else decode_at_10375 inst out)"

lemma decode_at_10143_ok: "dec_in {} inst out \<Longrightarrow> dec_ok inst (decode_at_10143 inst out)"
  unfolding decode_at_10143_def
   by (rule dec_rules decode_at_10144_ok decode_at_10375_ok | assumption | (unfold format_simps,
      simp))+

definition decode_at_9935 :: "u64 \<Rightarrow> raw_decoded48 \<Rightarrow> bool \<times> raw_decoded48" where
  "decode_at_9935 inst out =
     (if ((fld inst 28 0xf) AND 0xf) = 0x9
     then decode_at_9936 inst out
     else decode_at_10143 inst out)"

lemma decode_at_9935_ok: "dec_in {} inst out \<Longrightarrow> dec_ok inst (decode_at_9935 inst out)"
  unfolding decode_at_9935_def
   by (rule dec_rules decode_at_9936_ok decode_at_10143_ok | assumption | (unfold format_simps,
      simp))+

definition decode_at_9727 :: "u64 \<Rightarrow> raw_decoded48 \<Rightarrow> bool \<times> raw_decoded48" where
  "decode_at_9727 inst out =
     (if ((fld inst 28 0xf) AND 0xf) = 0xe
     then decode_at_9728 inst out
     else decode_at_9935 inst out)"

lemma decode_at_9727_ok: "dec_in {} inst out \<Longrightarrow> dec_ok inst (decode_at_9727 inst out)"
  unfolding decode_at_9727_def
   by (rule dec_rules decode_at_9728_ok decode_at_9935_ok | assumption | (unfold format_simps,
      simp))+

definition decode_at_9519 :: "u64 \<Rightarrow> raw_decoded48 \<Rightarrow> bool \<times> raw_decoded48" where
  "decode_at_9519 inst out =
     (if ((fld inst 28 0xf) AND 0xf) = 0xf
     then decode_at_9520 inst out
     else decode_at_9727 inst out)"

lemma decode_at_9519_ok: "dec_in {} inst out \<Longrightarrow> dec_ok inst (decode_at_9519 inst out)"
  unfolding decode_at_9519_def
   by (rule dec_rules decode_at_9520_ok decode_at_9727_ok | assumption | (unfold format_simps,
      simp))+

definition decode_at_9311 :: "u64 \<Rightarrow> raw_decoded48 \<Rightarrow> bool \<times> raw_decoded48" where
  "decode_at_9311 inst out =
     (if ((fld inst 28 0xf) AND 0xf) = 0x1
     then decode_at_9312 inst out
     else decode_at_9519 inst out)"

lemma decode_at_9311_ok: "dec_in {} inst out \<Longrightarrow> dec_ok inst (decode_at_9311 inst out)"
  unfolding decode_at_9311_def
   by (rule dec_rules decode_at_9312_ok decode_at_9519_ok | assumption | (unfold format_simps,
      simp))+

definition decode_at_8430 :: "u64 \<Rightarrow> raw_decoded48 \<Rightarrow> bool \<times> raw_decoded48" where
  "decode_at_8430 inst out =
     (if ((fld inst 28 0xf) AND 0xf) = 0x3
     then decode_at_8431 inst out
     else decode_at_9311 inst out)"

lemma decode_at_8430_ok: "dec_in {} inst out \<Longrightarrow> dec_ok inst (decode_at_8430 inst out)"
  unfolding decode_at_8430_def
   by (rule dec_rules decode_at_8431_ok decode_at_9311_ok | assumption | (unfold format_simps,
      simp))+

definition decode_at_8384 :: "u64 \<Rightarrow> raw_decoded48 \<Rightarrow> bool \<times> raw_decoded48" where
  "decode_at_8384 inst out =
     (if ((fld inst 28 0xf) AND 0xf) = 0x0
     then (
       if fld inst 42 0x3 \<noteq> 0x3 \<and> fld inst 44 0x1 = 0x0
       then (
         let out = set_rc (ucast (pos inst 39 31 0)) out;
             out = set_ra (ucast (pos inst 34 31 0)) out
         in if fld inst 24 0xf = 0x0
         then (
           let out = set_off (ucast (pos inst 20 15 0 OR pos inst 16 15 4 OR pos inst 15 1 8 OR
                                 pos inst 14 1 9 OR pos inst 13 1 10 OR pos inst 12 1 11 OR
                                 pos inst 0 4095 12)) out
           in accept_hot H_Call F_Rri out)
         else (False, out))
       else if fld inst 42 0x3 = 0x3
       then (
         let out = set_ra (ucast (pos inst 34 31 0)) out
         in if fld inst 24 0xf = 0x0
         then (
           let out = set_off (ucast (pos inst 20 15 0 OR pos inst 16 15 4 OR pos inst 15 1 8 OR
                                 pos inst 14 1 9 OR pos inst 13 1 10 OR pos inst 12 1 11 OR
                                 pos inst 0 4095 12 OR pos inst 39 7 24 OR pos inst 44 1 27)) out
           in accept_hot H_Call F_Zri out)
         else (False, out))
       else (False, out))
     else decode_at_8430 inst out)"

lemma decode_at_8384_ok: "dec_in {} inst out \<Longrightarrow> dec_ok inst (decode_at_8384 inst out)"
  unfolding decode_at_8384_def
  by (rule dec_rules decode_at_8430_ok | assumption | (unfold format_simps, simp))+

definition decode_at_7458 :: "u64 \<Rightarrow> raw_decoded48 \<Rightarrow> bool \<times> raw_decoded48" where
  "decode_at_7458 inst out =
     (if ((fld inst 28 0xf) AND 0xc) = 0x4
     then decode_at_7459 inst out
     else decode_at_8384 inst out)"

lemma decode_at_7458_ok: "dec_in {} inst out \<Longrightarrow> dec_ok inst (decode_at_7458 inst out)"
  unfolding decode_at_7458_def
   by (rule dec_rules decode_at_7459_ok decode_at_8384_ok | assumption | (unfold format_simps,
      simp))+

definition decode_at_7250 :: "u64 \<Rightarrow> raw_decoded48 \<Rightarrow> bool \<times> raw_decoded48" where
  "decode_at_7250 inst out =
     (if ((fld inst 28 0xf) AND 0xf) = 0xc
     then decode_at_7251 inst out
     else decode_at_7458 inst out)"

lemma decode_at_7250_ok: "dec_in {} inst out \<Longrightarrow> dec_ok inst (decode_at_7250 inst out)"
  unfolding decode_at_7250_def
   by (rule dec_rules decode_at_7251_ok decode_at_7458_ok | assumption | (unfold format_simps,
      simp))+

definition decode_at_7018 :: "u64 \<Rightarrow> raw_decoded48 \<Rightarrow> bool \<times> raw_decoded48" where
  "decode_at_7018 inst out =
     (if ((fld inst 28 0xf) AND 0xf) = 0xa
     then decode_at_7019 inst out
     else decode_at_7250 inst out)"

lemma decode_at_7018_ok: "dec_in {} inst out \<Longrightarrow> dec_ok inst (decode_at_7018 inst out)"
  unfolding decode_at_7018_def
   by (rule dec_rules decode_at_7019_ok decode_at_7250_ok | assumption | (unfold format_simps,
      simp))+

definition decode_at_11043 :: "u64 \<Rightarrow> raw_decoded48 \<Rightarrow> bool \<times> raw_decoded48" where
  "decode_at_11043 inst out =
     (if fld inst 42 0x3 = 0x3
     then (
       let out = set_ra (ucast (pos inst 34 31 0)) out
       in if fld inst 24 0xf = 0x0
       then accept_hot H_And F_Zrr out
       else if ((fld inst 26 0x1) XOR (fld inst 27 0x1)) = 0x1 \<and> fld inst 25 0x1 = 0x1
       then (
         let out = set_cc (ucast (pos inst 24 15 0)) out
         in accept_hot H_And F_Zrrc out)
       else if (fld inst 24 0xf < 0x6 \<or> (fld inst 24 0xf > 0xb
          \<or> ((fld inst 24 0xf) AND 0xe) = 0x8)) \<and> fld inst 24 0xf \<noteq> 0x0
       then (
         let out = set_cc (ucast (pos inst 24 15 0)) out;
             out = set_pc (ucast (pos inst 0 65535 0)) out
         in accept_hot H_And F_Zrrci out)
       else (False, out))
     else (False, out))"

lemma decode_at_11043_ok: "dec_in {RB} inst out \<Longrightarrow> dec_ok inst (decode_at_11043 inst out)"
  unfolding decode_at_11043_def
  by (rule dec_rules | assumption | (unfold format_simps, simp))+

definition decode_at_10927 :: "u64 \<Rightarrow> raw_decoded48 \<Rightarrow> bool \<times> raw_decoded48" where
  "decode_at_10927 inst out =
     (if (fld inst 42 0x3 \<noteq> 0x3 \<and> fld inst 44 0x1 = 0x1) \<and> fld inst 39 0x1 = 0x1
     then (
       let out = set_dc (ucast (pos inst 40 15 1)) out;
           out = set_ra (ucast (pos inst 34 31 0)) out
       in if fld inst 24 0xf = 0x0
       then accept_hot H_AndS F_Rrr out
       else if ((fld inst 26 0x1) XOR (fld inst 27 0x1)) = 0x1 \<and> fld inst 25 0x1 = 0x1
       then (
         let out = set_cc (ucast (pos inst 24 15 0)) out
         in accept_hot H_AndS F_Rrrc out)
       else if (fld inst 24 0xf < 0x6 \<or> (fld inst 24 0xf > 0xb
          \<or> ((fld inst 24 0xf) AND 0xe) = 0x8)) \<and> fld inst 24 0xf \<noteq> 0x0
       then (
         let out = set_cc (ucast (pos inst 24 15 0)) out;
             out = set_pc (ucast (pos inst 0 65535 0)) out
         in accept_hot H_AndS F_Rrrci out)
       else (False, out))
     else if (fld inst 42 0x3 \<noteq> 0x3 \<and> fld inst 44 0x1 = 0x1) \<and> fld inst 39 0x1 = 0x0
     then (
       let out = set_dc (ucast (pos inst 40 15 1)) out;
           out = set_ra (ucast (pos inst 34 31 0)) out
       in if fld inst 24 0xf = 0x0
       then accept_hot H_AndU F_Rrr out
       else if ((fld inst 26 0x1) XOR (fld inst 27 0x1)) = 0x1 \<and> fld inst 25 0x1 = 0x1
       then (
         let out = set_cc (ucast (pos inst 24 15 0)) out
         in accept_hot H_AndU F_Rrrc out)
       else if (fld inst 24 0xf < 0x6 \<or> (fld inst 24 0xf > 0xb
          \<or> ((fld inst 24 0xf) AND 0xe) = 0x8)) \<and> fld inst 24 0xf \<noteq> 0x0
       then (
         let out = set_cc (ucast (pos inst 24 15 0)) out;
             out = set_pc (ucast (pos inst 0 65535 0)) out
         in accept_hot H_AndU F_Rrrci out)
       else (False, out))
     else if fld inst 42 0x3 \<noteq> 0x3 \<and> fld inst 44 0x1 = 0x0
     then (
       let out = set_rc (ucast (pos inst 39 31 0)) out;
           out = set_ra (ucast (pos inst 34 31 0)) out
       in if fld inst 24 0xf = 0x0
       then accept_hot H_And F_Rrr out
       else if ((fld inst 26 0x1) XOR (fld inst 27 0x1)) = 0x1 \<and> fld inst 25 0x1 = 0x1
       then (
         let out = set_cc (ucast (pos inst 24 15 0)) out
         in accept_hot H_And F_Rrrc out)
       else if (fld inst 24 0xf < 0x6 \<or> (fld inst 24 0xf > 0xb
          \<or> ((fld inst 24 0xf) AND 0xe) = 0x8)) \<and> fld inst 24 0xf \<noteq> 0x0
       then (
         let out = set_cc (ucast (pos inst 24 15 0)) out;
             out = set_pc (ucast (pos inst 0 65535 0)) out
         in accept_hot H_And F_Rrrci out)
       else (False, out))
     else decode_at_11043 inst out)"

lemma decode_at_10927_ok: "dec_in {RB} inst out \<Longrightarrow> dec_ok inst (decode_at_10927 inst out)"
  unfolding decode_at_10927_def
  by (rule dec_rules decode_at_11043_ok | assumption | (unfold format_simps, simp))+

definition decode_at_11081 :: "u64 \<Rightarrow> raw_decoded48 \<Rightarrow> bool \<times> raw_decoded48" where
  "decode_at_11081 inst out =
     (if (fld inst 42 0x3 \<noteq> 0x3 \<and> fld inst 44 0x1 = 0x1) \<and> fld inst 39 0x1 = 0x1
     then (
       let out = set_dc (ucast (pos inst 40 15 1)) out;
           out = set_ra (ucast (pos inst 34 31 0)) out
       in if fld inst 24 0xf = 0x0
       then accept_plain out
       else if ((fld inst 26 0x1) XOR (fld inst 27 0x1)) = 0x1 \<and> fld inst 25 0x1 = 0x1
       then (
         let out = set_cc (ucast (pos inst 24 15 0)) out
         in accept_plain out)
       else if (fld inst 24 0xf < 0x6 \<or> (fld inst 24 0xf > 0xb
          \<or> ((fld inst 24 0xf) AND 0xe) = 0x8)) \<and> fld inst 24 0xf \<noteq> 0x0
       then (
         let out = set_cc (ucast (pos inst 24 15 0)) out;
             out = set_pc (ucast (pos inst 0 65535 0)) out
         in accept_plain out)
       else (False, out))
     else if (fld inst 42 0x3 \<noteq> 0x3 \<and> fld inst 44 0x1 = 0x1) \<and> fld inst 39 0x1 = 0x0
     then (
       let out = set_dc (ucast (pos inst 40 15 1)) out;
           out = set_ra (ucast (pos inst 34 31 0)) out
       in if fld inst 24 0xf = 0x0
       then accept_plain out
       else if ((fld inst 26 0x1) XOR (fld inst 27 0x1)) = 0x1 \<and> fld inst 25 0x1 = 0x1
       then (
         let out = set_cc (ucast (pos inst 24 15 0)) out
         in accept_plain out)
       else if (fld inst 24 0xf < 0x6 \<or> (fld inst 24 0xf > 0xb
          \<or> ((fld inst 24 0xf) AND 0xe) = 0x8)) \<and> fld inst 24 0xf \<noteq> 0x0
       then (
         let out = set_cc (ucast (pos inst 24 15 0)) out;
             out = set_pc (ucast (pos inst 0 65535 0)) out
         in accept_plain out)
       else (False, out))
     else if fld inst 42 0x3 \<noteq> 0x3 \<and> fld inst 44 0x1 = 0x0
     then (
       let out = set_rc (ucast (pos inst 39 31 0)) out;
           out = set_ra (ucast (pos inst 34 31 0)) out
       in if fld inst 24 0xf = 0x0
       then accept_plain out
       else if ((fld inst 26 0x1) XOR (fld inst 27 0x1)) = 0x1 \<and> fld inst 25 0x1 = 0x1
       then (
         let out = set_cc (ucast (pos inst 24 15 0)) out
         in accept_plain out)
       else if (fld inst 24 0xf < 0x6 \<or> (fld inst 24 0xf > 0xb
          \<or> ((fld inst 24 0xf) AND 0xe) = 0x8)) \<and> fld inst 24 0xf \<noteq> 0x0
       then (
         let out = set_cc (ucast (pos inst 24 15 0)) out;
             out = set_pc (ucast (pos inst 0 65535 0)) out
         in accept_plain out)
       else (False, out))
     else if fld inst 42 0x3 = 0x3
     then (
       let out = set_ra (ucast (pos inst 34 31 0)) out
       in if fld inst 24 0xf = 0x0
       then accept_plain out
       else if ((fld inst 26 0x1) XOR (fld inst 27 0x1)) = 0x1 \<and> fld inst 25 0x1 = 0x1
       then (
         let out = set_cc (ucast (pos inst 24 15 0)) out
         in accept_plain out)
       else if (fld inst 24 0xf < 0x6 \<or> (fld inst 24 0xf > 0xb
          \<or> ((fld inst 24 0xf) AND 0xe) = 0x8)) \<and> fld inst 24 0xf \<noteq> 0x0
       then (
         let out = set_cc (ucast (pos inst 24 15 0)) out;
             out = set_pc (ucast (pos inst 0 65535 0)) out
         in accept_plain out)
       else (False, out))
     else (False, out))"

lemma decode_at_11081_ok: "dec_in {RB} inst out \<Longrightarrow> dec_ok inst (decode_at_11081 inst out)"
  unfolding decode_at_11081_def
  by (rule dec_rules | assumption | (unfold format_simps, simp))+

definition decode_at_11239 :: "u64 \<Rightarrow> raw_decoded48 \<Rightarrow> bool \<times> raw_decoded48" where
  "decode_at_11239 inst out =
     (if (fld inst 42 0x3 \<noteq> 0x3 \<and> fld inst 44 0x1 = 0x1) \<and> fld inst 39 0x1 = 0x1
     then (
       let out = set_dc (ucast (pos inst 40 15 1)) out;
           out = set_ra (ucast (pos inst 34 31 0)) out
       in if fld inst 24 0xf = 0x0
       then accept_plain out
       else if ((fld inst 26 0x1) XOR (fld inst 27 0x1)) = 0x1 \<and> fld inst 25 0x1 = 0x1
       then (
         let out = set_cc (ucast (pos inst 24 15 0)) out
         in accept_plain out)
       else if (fld inst 24 0xf < 0x6 \<or> (fld inst 24 0xf > 0xb
          \<or> ((fld inst 24 0xf) AND 0xe) = 0x8)) \<and> fld inst 24 0xf \<noteq> 0x0
       then (
         let out = set_cc (ucast (pos inst 24 15 0)) out;
             out = set_pc (ucast (pos inst 0 65535 0)) out
         in accept_plain out)
       else (False, out))
     else if (fld inst 42 0x3 \<noteq> 0x3 \<and> fld inst 44 0x1 = 0x1) \<and> fld inst 39 0x1 = 0x0
     then (
       let out = set_dc (ucast (pos inst 40 15 1)) out;
           out = set_ra (ucast (pos inst 34 31 0)) out
       in if fld inst 24 0xf = 0x0
       then accept_plain out
       else if ((fld inst 26 0x1) XOR (fld inst 27 0x1)) = 0x1 \<and> fld inst 25 0x1 = 0x1
       then (
         let out = set_cc (ucast (pos inst 24 15 0)) out
         in accept_plain out)
       else if (fld inst 24 0xf < 0x6 \<or> (fld inst 24 0xf > 0xb
          \<or> ((fld inst 24 0xf) AND 0xe) = 0x8)) \<and> fld inst 24 0xf \<noteq> 0x0
       then (
         let out = set_cc (ucast (pos inst 24 15 0)) out;
             out = set_pc (ucast (pos inst 0 65535 0)) out
         in accept_plain out)
       else (False, out))
     else if fld inst 42 0x3 \<noteq> 0x3 \<and> fld inst 44 0x1 = 0x0
     then (
       let out = set_rc (ucast (pos inst 39 31 0)) out;
           out = set_ra (ucast (pos inst 34 31 0)) out
       in if fld inst 24 0xf = 0x0
       then accept_plain out
       else if ((fld inst 26 0x1) XOR (fld inst 27 0x1)) = 0x1 \<and> fld inst 25 0x1 = 0x1
       then (
         let out = set_cc (ucast (pos inst 24 15 0)) out
         in accept_plain out)
       else if (fld inst 24 0xf < 0x6 \<or> (fld inst 24 0xf > 0xb
          \<or> ((fld inst 24 0xf) AND 0xe) = 0x8)) \<and> fld inst 24 0xf \<noteq> 0x0
       then (
         let out = set_cc (ucast (pos inst 24 15 0)) out;
             out = set_pc (ucast (pos inst 0 65535 0)) out
         in accept_plain out)
       else (False, out))
     else if fld inst 42 0x3 = 0x3
     then (
       let out = set_ra (ucast (pos inst 34 31 0)) out
       in if fld inst 24 0xf = 0x0
       then accept_plain out
       else if ((fld inst 26 0x1) XOR (fld inst 27 0x1)) = 0x1 \<and> fld inst 25 0x1 = 0x1
       then (
         let out = set_cc (ucast (pos inst 24 15 0)) out
         in accept_plain out)
       else if (fld inst 24 0xf < 0x6 \<or> (fld inst 24 0xf > 0xb
          \<or> ((fld inst 24 0xf) AND 0xe) = 0x8)) \<and> fld inst 24 0xf \<noteq> 0x0
       then (
         let out = set_cc (ucast (pos inst 24 15 0)) out;
             out = set_pc (ucast (pos inst 0 65535 0)) out
         in accept_plain out)
       else (False, out))
     else (False, out))"

lemma decode_at_11239_ok: "dec_in {RB} inst out \<Longrightarrow> dec_ok inst (decode_at_11239 inst out)"
  unfolding decode_at_11239_def
  by (rule dec_rules | assumption | (unfold format_simps, simp))+

definition decode_at_11369 :: "u64 \<Rightarrow> raw_decoded48 \<Rightarrow> bool \<times> raw_decoded48" where
  "decode_at_11369 inst out =
     (if (fld inst 42 0x3 \<noteq> 0x3 \<and> fld inst 44 0x1 = 0x1) \<and> fld inst 39 0x1 = 0x1
     then (
       let out = set_dc (ucast (pos inst 40 15 1)) out;
           out = set_ra (ucast (pos inst 34 31 0)) out
       in if fld inst 24 0xf = 0x0
       then accept_plain out
       else if ((fld inst 26 0x1) XOR (fld inst 27 0x1)) = 0x1 \<and> fld inst 25 0x1 = 0x1
       then (
         let out = set_cc (ucast (pos inst 24 15 0)) out
         in accept_plain out)
       else if (fld inst 24 0xf < 0x6 \<or> (fld inst 24 0xf > 0xb
          \<or> ((fld inst 24 0xf) AND 0xe) = 0x8)) \<and> fld inst 24 0xf \<noteq> 0x0
       then (
         let out = set_cc (ucast (pos inst 24 15 0)) out;
             out = set_pc (ucast (pos inst 0 65535 0)) out
         in accept_plain out)
       else (False, out))
     else if (fld inst 42 0x3 \<noteq> 0x3 \<and> fld inst 44 0x1 = 0x1) \<and> fld inst 39 0x1 = 0x0
     then (
       let out = set_dc (ucast (pos inst 40 15 1)) out;
           out = set_ra (ucast (pos inst 34 31 0)) out
       in if fld inst 24 0xf = 0x0
       then accept_plain out
       else if ((fld inst 26 0x1) XOR (fld inst 27 0x1)) = 0x1 \<and> fld inst 25 0x1 = 0x1
       then (
         let out = set_cc (ucast (pos inst 24 15 0)) out
         in accept_plain out)
       else if (fld inst 24 0xf < 0x6 \<or> (fld inst 24 0xf > 0xb
          \<or> ((fld inst 24 0xf) AND 0xe) = 0x8)) \<and> fld inst 24 0xf \<noteq> 0x0
       then (
         let out = set_cc (ucast (pos inst 24 15 0)) out;
             out = set_pc (ucast (pos inst 0 65535 0)) out
         in accept_plain out)
       else (False, out))
     else if fld inst 42 0x3 \<noteq> 0x3 \<and> fld inst 44 0x1 = 0x0
     then (
       let out = set_rc (ucast (pos inst 39 31 0)) out;
           out = set_ra (ucast (pos inst 34 31 0)) out
       in if fld inst 24 0xf = 0x0
       then accept_plain out
       else if ((fld inst 26 0x1) XOR (fld inst 27 0x1)) = 0x1 \<and> fld inst 25 0x1 = 0x1
       then (
         let out = set_cc (ucast (pos inst 24 15 0)) out
         in accept_plain out)
       else if (fld inst 24 0xf < 0x6 \<or> (fld inst 24 0xf > 0xb
          \<or> ((fld inst 24 0xf) AND 0xe) = 0x8)) \<and> fld inst 24 0xf \<noteq> 0x0
       then (
         let out = set_cc (ucast (pos inst 24 15 0)) out;
             out = set_pc (ucast (pos inst 0 65535 0)) out
         in accept_plain out)
       else (False, out))
     else if fld inst 42 0x3 = 0x3
     then (
       let out = set_ra (ucast (pos inst 34 31 0)) out
       in if fld inst 24 0xf = 0x0
       then accept_plain out
       else if ((fld inst 26 0x1) XOR (fld inst 27 0x1)) = 0x1 \<and> fld inst 25 0x1 = 0x1
       then (
         let out = set_cc (ucast (pos inst 24 15 0)) out
         in accept_plain out)
       else if (fld inst 24 0xf < 0x6 \<or> (fld inst 24 0xf > 0xb
          \<or> ((fld inst 24 0xf) AND 0xe) = 0x8)) \<and> fld inst 24 0xf \<noteq> 0x0
       then (
         let out = set_cc (ucast (pos inst 24 15 0)) out;
             out = set_pc (ucast (pos inst 0 65535 0)) out
         in accept_plain out)
       else (False, out))
     else (False, out))"

lemma decode_at_11369_ok: "dec_in {RB} inst out \<Longrightarrow> dec_ok inst (decode_at_11369 inst out)"
  unfolding decode_at_11369_def
  by (rule dec_rules | assumption | (unfold format_simps, simp))+

definition decode_at_11499 :: "u64 \<Rightarrow> raw_decoded48 \<Rightarrow> bool \<times> raw_decoded48" where
  "decode_at_11499 inst out =
     (if (fld inst 42 0x3 \<noteq> 0x3 \<and> fld inst 44 0x1 = 0x1) \<and> fld inst 39 0x1 = 0x1
     then (
       let out = set_dc (ucast (pos inst 40 15 1)) out;
           out = set_ra (ucast (pos inst 34 31 0)) out
       in if fld inst 24 0xf = 0x0
       then accept_plain out
       else if ((fld inst 26 0x1) XOR (fld inst 27 0x1)) = 0x1 \<and> fld inst 25 0x1 = 0x1
       then (
         let out = set_cc (ucast (pos inst 24 15 0)) out
         in accept_plain out)
       else if (fld inst 24 0xf < 0x6 \<or> (fld inst 24 0xf > 0xb
          \<or> ((fld inst 24 0xf) AND 0xe) = 0x8)) \<and> fld inst 24 0xf \<noteq> 0x0
       then (
         let out = set_cc (ucast (pos inst 24 15 0)) out;
             out = set_pc (ucast (pos inst 0 65535 0)) out
         in accept_plain out)
       else (False, out))
     else if (fld inst 42 0x3 \<noteq> 0x3 \<and> fld inst 44 0x1 = 0x1) \<and> fld inst 39 0x1 = 0x0
     then (
       let out = set_dc (ucast (pos inst 40 15 1)) out;
           out = set_ra (ucast (pos inst 34 31 0)) out
       in if fld inst 24 0xf = 0x0
       then accept_plain out
       else if ((fld inst 26 0x1) XOR (fld inst 27 0x1)) = 0x1 \<and> fld inst 25 0x1 = 0x1
       then (
         let out = set_cc (ucast (pos inst 24 15 0)) out
         in accept_plain out)
       else if (fld inst 24 0xf < 0x6 \<or> (fld inst 24 0xf > 0xb
          \<or> ((fld inst 24 0xf) AND 0xe) = 0x8)) \<and> fld inst 24 0xf \<noteq> 0x0
       then (
         let out = set_cc (ucast (pos inst 24 15 0)) out;
             out = set_pc (ucast (pos inst 0 65535 0)) out
         in accept_plain out)
       else (False, out))
     else if fld inst 42 0x3 \<noteq> 0x3 \<and> fld inst 44 0x1 = 0x0
     then (
       let out = set_rc (ucast (pos inst 39 31 0)) out;
           out = set_ra (ucast (pos inst 34 31 0)) out
       in if fld inst 24 0xf = 0x0
       then accept_plain out
       else if ((fld inst 26 0x1) XOR (fld inst 27 0x1)) = 0x1 \<and> fld inst 25 0x1 = 0x1
       then (
         let out = set_cc (ucast (pos inst 24 15 0)) out
         in accept_plain out)
       else if (fld inst 24 0xf < 0x6 \<or> (fld inst 24 0xf > 0xb
          \<or> ((fld inst 24 0xf) AND 0xe) = 0x8)) \<and> fld inst 24 0xf \<noteq> 0x0
       then (
         let out = set_cc (ucast (pos inst 24 15 0)) out;
             out = set_pc (ucast (pos inst 0 65535 0)) out
         in accept_plain out)
       else (False, out))
     else if fld inst 42 0x3 = 0x3
     then (
       let out = set_ra (ucast (pos inst 34 31 0)) out
       in if fld inst 24 0xf = 0x0
       then accept_plain out
       else if ((fld inst 26 0x1) XOR (fld inst 27 0x1)) = 0x1 \<and> fld inst 25 0x1 = 0x1
       then (
         let out = set_cc (ucast (pos inst 24 15 0)) out
         in accept_plain out)
       else if (fld inst 24 0xf < 0x6 \<or> (fld inst 24 0xf > 0xb
          \<or> ((fld inst 24 0xf) AND 0xe) = 0x8)) \<and> fld inst 24 0xf \<noteq> 0x0
       then (
         let out = set_cc (ucast (pos inst 24 15 0)) out;
             out = set_pc (ucast (pos inst 0 65535 0)) out
         in accept_plain out)
       else (False, out))
     else (False, out))"

lemma decode_at_11499_ok: "dec_in {RB} inst out \<Longrightarrow> dec_ok inst (decode_at_11499 inst out)"
  unfolding decode_at_11499_def
  by (rule dec_rules | assumption | (unfold format_simps, simp))+

definition decode_at_11629 :: "u64 \<Rightarrow> raw_decoded48 \<Rightarrow> bool \<times> raw_decoded48" where
  "decode_at_11629 inst out =
     (if (fld inst 42 0x3 \<noteq> 0x3 \<and> fld inst 44 0x1 = 0x1) \<and> fld inst 39 0x1 = 0x1
     then (
       let out = set_dc (ucast (pos inst 40 15 1)) out;
           out = set_ra (ucast (pos inst 34 31 0)) out
       in if fld inst 24 0xf = 0x0
       then accept_plain out
       else if ((fld inst 26 0x1) XOR (fld inst 27 0x1)) = 0x1 \<and> fld inst 25 0x1 = 0x1
       then (
         let out = set_cc (ucast (pos inst 24 15 0)) out
         in accept_plain out)
       else if (fld inst 24 0xf < 0x6 \<or> (fld inst 24 0xf > 0xb
          \<or> ((fld inst 24 0xf) AND 0xe) = 0x8)) \<and> fld inst 24 0xf \<noteq> 0x0
       then (
         let out = set_cc (ucast (pos inst 24 15 0)) out;
             out = set_pc (ucast (pos inst 0 65535 0)) out
         in accept_plain out)
       else (False, out))
     else if (fld inst 42 0x3 \<noteq> 0x3 \<and> fld inst 44 0x1 = 0x1) \<and> fld inst 39 0x1 = 0x0
     then (
       let out = set_dc (ucast (pos inst 40 15 1)) out;
           out = set_ra (ucast (pos inst 34 31 0)) out
       in if fld inst 24 0xf = 0x0
       then accept_plain out
       else if ((fld inst 26 0x1) XOR (fld inst 27 0x1)) = 0x1 \<and> fld inst 25 0x1 = 0x1
       then (
         let out = set_cc (ucast (pos inst 24 15 0)) out
         in accept_plain out)
       else if (fld inst 24 0xf < 0x6 \<or> (fld inst 24 0xf > 0xb
          \<or> ((fld inst 24 0xf) AND 0xe) = 0x8)) \<and> fld inst 24 0xf \<noteq> 0x0
       then (
         let out = set_cc (ucast (pos inst 24 15 0)) out;
             out = set_pc (ucast (pos inst 0 65535 0)) out
         in accept_plain out)
       else (False, out))
     else if fld inst 42 0x3 \<noteq> 0x3 \<and> fld inst 44 0x1 = 0x0
     then (
       let out = set_rc (ucast (pos inst 39 31 0)) out;
           out = set_ra (ucast (pos inst 34 31 0)) out
       in if fld inst 24 0xf = 0x0
       then accept_plain out
       else if ((fld inst 26 0x1) XOR (fld inst 27 0x1)) = 0x1 \<and> fld inst 25 0x1 = 0x1
       then (
         let out = set_cc (ucast (pos inst 24 15 0)) out
         in accept_plain out)
       else if (fld inst 24 0xf < 0x6 \<or> (fld inst 24 0xf > 0xb
          \<or> ((fld inst 24 0xf) AND 0xe) = 0x8)) \<and> fld inst 24 0xf \<noteq> 0x0
       then (
         let out = set_cc (ucast (pos inst 24 15 0)) out;
             out = set_pc (ucast (pos inst 0 65535 0)) out
         in accept_plain out)
       else (False, out))
     else if fld inst 42 0x3 = 0x3
     then (
       let out = set_ra (ucast (pos inst 34 31 0)) out
       in if fld inst 24 0xf = 0x0
       then accept_plain out
       else if ((fld inst 26 0x1) XOR (fld inst 27 0x1)) = 0x1 \<and> fld inst 25 0x1 = 0x1
       then (
         let out = set_cc (ucast (pos inst 24 15 0)) out
         in accept_plain out)
       else if (fld inst 24 0xf < 0x6 \<or> (fld inst 24 0xf > 0xb
          \<or> ((fld inst 24 0xf) AND 0xe) = 0x8)) \<and> fld inst 24 0xf \<noteq> 0x0
       then (
         let out = set_cc (ucast (pos inst 24 15 0)) out;
             out = set_pc (ucast (pos inst 0 65535 0)) out
         in accept_plain out)
       else (False, out))
     else (False, out))"

lemma decode_at_11629_ok: "dec_in {RB} inst out \<Longrightarrow> dec_ok inst (decode_at_11629 inst out)"
  unfolding decode_at_11629_def
  by (rule dec_rules | assumption | (unfold format_simps, simp))+

end
