(* ===== verification/Decode_7.thy ===== *)
theory Decode_7
  imports Decode_6
begin

text \<open>
  Part 7 of the decision tree of \<open>decode_raw_word_48\<close> (\<open>dpu/pipeline.cc\<close>). \<open>decode_at_N\<close> is the block
  of the function that starts at source line \<open>N\<close>; a block that is too long for one definition calls
  the definitions of its inner blocks, or of its remaining tests, at the place where the source has
  them. The lemma \<open>decode_at_N_ok\<close> states that the block, entered after the operands on the path to
  it were read, returns with an operand layout that its format announces.
\<close>

definition decode_at_11878 :: "u64 \<Rightarrow> raw_decoded48 \<Rightarrow> bool \<times> raw_decoded48" where
  "decode_at_11878 inst out =
     (if fld inst 42 0x3 = 0x3
     then (
       let out = set_ra (ucast (pos inst 34 31 0)) out
       in if fld inst 24 0xf = 0x0
       then accept_hot H_Or F_Zrr out
       else if ((fld inst 26 0x1) XOR (fld inst 27 0x1)) = 0x1 \<and> fld inst 25 0x1 = 0x1
       then (
         let out = set_cc (ucast (pos inst 24 15 0)) out
         in accept_hot H_Or F_Zrrc out)
       else if (fld inst 24 0xf < 0x6 \<or> (fld inst 24 0xf > 0xb
          \<or> ((fld inst 24 0xf) AND 0xe) = 0x8)) \<and> fld inst 24 0xf \<noteq> 0x0
       then (
         let out = set_cc (ucast (pos inst 24 15 0)) out;
             out = set_pc (ucast (pos inst 0 65535 0)) out
         in accept_hot H_Or F_Zrrci out)
       else (False, out))
     else (False, out))"

lemma decode_at_11878_ok: "dec_in {RB, RB} inst out \<Longrightarrow> dec_ok inst (decode_at_11878 inst out)"
  unfolding decode_at_11878_def
  by (rule dec_rules | assumption | (unfold format_simps, simp))+

definition decode_at_11759 :: "u64 \<Rightarrow> raw_decoded48 \<Rightarrow> bool \<times> raw_decoded48" where
  "decode_at_11759 inst out =
     (let out = set_rb (ucast (pos inst 17 7 0 OR pos inst 32 3 3)) out
     in if (fld inst 42 0x3 \<noteq> 0x3 \<and> fld inst 44 0x1 = 0x1) \<and> fld inst 39 0x1 = 0x1
     then (
       let out = set_dc (ucast (pos inst 40 15 1)) out;
           out = set_ra (ucast (pos inst 34 31 0)) out
       in if fld inst 24 0xf = 0x0
       then accept_hot H_OrS F_Rrr out
       else if ((fld inst 26 0x1) XOR (fld inst 27 0x1)) = 0x1 \<and> fld inst 25 0x1 = 0x1
       then (
         let out = set_cc (ucast (pos inst 24 15 0)) out
         in accept_hot H_OrS F_Rrrc out)
       else if (fld inst 24 0xf < 0x6 \<or> (fld inst 24 0xf > 0xb
          \<or> ((fld inst 24 0xf) AND 0xe) = 0x8)) \<and> fld inst 24 0xf \<noteq> 0x0
       then (
         let out = set_cc (ucast (pos inst 24 15 0)) out;
             out = set_pc (ucast (pos inst 0 65535 0)) out
         in accept_hot H_OrS F_Rrrci out)
       else (False, out))
     else if (fld inst 42 0x3 \<noteq> 0x3 \<and> fld inst 44 0x1 = 0x1) \<and> fld inst 39 0x1 = 0x0
     then (
       let out = set_dc (ucast (pos inst 40 15 1)) out;
           out = set_ra (ucast (pos inst 34 31 0)) out
       in if fld inst 24 0xf = 0x0
       then accept_hot H_OrU F_Rrr out
       else if ((fld inst 26 0x1) XOR (fld inst 27 0x1)) = 0x1 \<and> fld inst 25 0x1 = 0x1
       then (
         let out = set_cc (ucast (pos inst 24 15 0)) out
         in accept_hot H_OrU F_Rrrc out)
       else if (fld inst 24 0xf < 0x6 \<or> (fld inst 24 0xf > 0xb
          \<or> ((fld inst 24 0xf) AND 0xe) = 0x8)) \<and> fld inst 24 0xf \<noteq> 0x0
       then (
         let out = set_cc (ucast (pos inst 24 15 0)) out;
             out = set_pc (ucast (pos inst 0 65535 0)) out
         in accept_hot H_OrU F_Rrrci out)
       else (False, out))
     else if fld inst 42 0x3 \<noteq> 0x3 \<and> fld inst 44 0x1 = 0x0
     then (
       let out = set_rc (ucast (pos inst 39 31 0)) out;
           out = set_ra (ucast (pos inst 34 31 0)) out
       in if fld inst 24 0xf = 0x0
       then accept_hot H_Or F_Rrr out
       else if ((fld inst 26 0x1) XOR (fld inst 27 0x1)) = 0x1 \<and> fld inst 25 0x1 = 0x1
       then (
         let out = set_cc (ucast (pos inst 24 15 0)) out
         in accept_hot H_Or F_Rrrc out)
       else if (fld inst 24 0xf < 0x6 \<or> (fld inst 24 0xf > 0xb
          \<or> ((fld inst 24 0xf) AND 0xe) = 0x8)) \<and> fld inst 24 0xf \<noteq> 0x0
       then (
         let out = set_cc (ucast (pos inst 24 15 0)) out;
             out = set_pc (ucast (pos inst 0 65535 0)) out
         in accept_hot H_Or F_Rrrci out)
       else (False, out))
     else decode_at_11878 inst out)"

lemma decode_at_11759_ok: "dec_in {RB} inst out \<Longrightarrow> dec_ok inst (decode_at_11759 inst out)"
  unfolding decode_at_11759_def
  by (rule dec_rules decode_at_11878_ok | assumption | (unfold format_simps, simp))+

definition decode_at_11916 :: "u64 \<Rightarrow> raw_decoded48 \<Rightarrow> bool \<times> raw_decoded48" where
  "decode_at_11916 inst out =
     (if (fld inst 42 0x3 \<noteq> 0x3 \<and> fld inst 44 0x1 = 0x1) \<and> fld inst 39 0x1 = 0x1
     then (
       let out = set_dc (ucast (pos inst 40 15 1)) out;
           out = set_ra (ucast (pos inst 34 31 0)) out
       in if fld inst 24 0xf = 0x0
       then accept_plain out
       else if ((fld inst 26 0x1) XOR (fld inst 27 0x1)) = 0x1 \<and> fld inst 25 0x1 = 0x1
       then (
         let out = set_cc (ucast (pos inst 24 15 0)) out
         in accept_plain out)
       else if (fld inst 24 0xf < 0x6 \<or> (fld inst 24 0xf > 0xb
          \<or> ((fld inst 24 0xf) AND 0xe) = 0x8)) \<and> fld inst 24 0xf \<noteq> 0x0
       then (
         let out = set_cc (ucast (pos inst 24 15 0)) out;
             out = set_pc (ucast (pos inst 0 65535 0)) out
         in accept_plain out)
       else (False, out))
     else if (fld inst 42 0x3 \<noteq> 0x3 \<and> fld inst 44 0x1 = 0x1) \<and> fld inst 39 0x1 = 0x0
     then (
       let out = set_dc (ucast (pos inst 40 15 1)) out;
           out = set_ra (ucast (pos inst 34 31 0)) out
       in if fld inst 24 0xf = 0x0
       then accept_plain out
       else if ((fld inst 26 0x1) XOR (fld inst 27 0x1)) = 0x1 \<and> fld inst 25 0x1 = 0x1
       then (
         let out = set_cc (ucast (pos inst 24 15 0)) out
         in accept_plain out)
       else if (fld inst 24 0xf < 0x6 \<or> (fld inst 24 0xf > 0xb
          \<or> ((fld inst 24 0xf) AND 0xe) = 0x8)) \<and> fld inst 24 0xf \<noteq> 0x0
       then (
         let out = set_cc (ucast (pos inst 24 15 0)) out;
             out = set_pc (ucast (pos inst 0 65535 0)) out
         in accept_plain out)
       else (False, out))
     else if fld inst 42 0x3 \<noteq> 0x3 \<and> fld inst 44 0x1 = 0x0
     then (
       let out = set_rc (ucast (pos inst 39 31 0)) out;
           out = set_ra (ucast (pos inst 34 31 0)) out
       in if fld inst 24 0xf = 0x0
       then accept_plain out
       else if ((fld inst 26 0x1) XOR (fld inst 27 0x1)) = 0x1 \<and> fld inst 25 0x1 = 0x1
       then (
         let out = set_cc (ucast (pos inst 24 15 0)) out
         in accept_plain out)
       else if (fld inst 24 0xf < 0x6 \<or> (fld inst 24 0xf > 0xb
          \<or> ((fld inst 24 0xf) AND 0xe) = 0x8)) \<and> fld inst 24 0xf \<noteq> 0x0
       then (
         let out = set_cc (ucast (pos inst 24 15 0)) out;
             out = set_pc (ucast (pos inst 0 65535 0)) out
         in accept_plain out)
       else (False, out))
     else if fld inst 42 0x3 = 0x3
     then (
       let out = set_ra (ucast (pos inst 34 31 0)) out
       in if fld inst 24 0xf = 0x0
       then accept_plain out
       else if ((fld inst 26 0x1) XOR (fld inst 27 0x1)) = 0x1 \<and> fld inst 25 0x1 = 0x1
       then (
         let out = set_cc (ucast (pos inst 24 15 0)) out
         in accept_plain out)
       else if (fld inst 24 0xf < 0x6 \<or> (fld inst 24 0xf > 0xb
          \<or> ((fld inst 24 0xf) AND 0xe) = 0x8)) \<and> fld inst 24 0xf \<noteq> 0x0
       then (
         let out = set_cc (ucast (pos inst 24 15 0)) out;
             out = set_pc (ucast (pos inst 0 65535 0)) out
         in accept_plain out)
       else (False, out))
     else (False, out))"

lemma decode_at_11916_ok: "dec_in {RB} inst out \<Longrightarrow> dec_ok inst (decode_at_11916 inst out)"
  unfolding decode_at_11916_def
  by (rule dec_rules | assumption | (unfold format_simps, simp))+

definition decode_at_12046 :: "u64 \<Rightarrow> raw_decoded48 \<Rightarrow> bool \<times> raw_decoded48" where
  "decode_at_12046 inst out =
     (if (fld inst 42 0x3 \<noteq> 0x3 \<and> fld inst 44 0x1 = 0x1) \<and> fld inst 39 0x1 = 0x1
     then (
       let out = set_dc (ucast (pos inst 40 15 1)) out;
           out = set_ra (ucast (pos inst 34 31 0)) out
       in if fld inst 24 0xf = 0x0
       then accept_plain out
       else if ((fld inst 26 0x1) XOR (fld inst 27 0x1)) = 0x1 \<and> fld inst 25 0x1 = 0x1
       then (
         let out = set_cc (ucast (pos inst 24 15 0)) out
         in accept_plain out)
       else if (fld inst 24 0xf < 0x6 \<or> (fld inst 24 0xf > 0xb
          \<or> ((fld inst 24 0xf) AND 0xe) = 0x8)) \<and> fld inst 24 0xf \<noteq> 0x0
       then (
         let out = set_cc (ucast (pos inst 24 15 0)) out;
             out = set_pc (ucast (pos inst 0 65535 0)) out
         in accept_plain out)
       else (False, out))
     else if (fld inst 42 0x3 \<noteq> 0x3 \<and> fld inst 44 0x1 = 0x1) \<and> fld inst 39 0x1 = 0x0
     then (
       let out = set_dc (ucast (pos inst 40 15 1)) out;
           out = set_ra (ucast (pos inst 34 31 0)) out
       in if fld inst 24 0xf = 0x0
       then accept_plain out
       else if ((fld inst 26 0x1) XOR (fld inst 27 0x1)) = 0x1 \<and> fld inst 25 0x1 = 0x1
       then (
         let out = set_cc (ucast (pos inst 24 15 0)) out
         in accept_plain out)
       else if (fld inst 24 0xf < 0x6 \<or> (fld inst 24 0xf > 0xb
          \<or> ((fld inst 24 0xf) AND 0xe) = 0x8)) \<and> fld inst 24 0xf \<noteq> 0x0
       then (
         let out = set_cc (ucast (pos inst 24 15 0)) out;
             out = set_pc (ucast (pos inst 0 65535 0)) out
         in accept_plain out)
       else (False, out))
     else if fld inst 42 0x3 \<noteq> 0x3 \<and> fld inst 44 0x1 = 0x0
     then (
       let out = set_rc (ucast (pos inst 39 31 0)) out;
           out = set_ra (ucast (pos inst 34 31 0)) out
       in if fld inst 24 0xf = 0x0
       then accept_plain out
       else if ((fld inst 26 0x1) XOR (fld inst 27 0x1)) = 0x1 \<and> fld inst 25 0x1 = 0x1
       then (
         let out = set_cc (ucast (pos inst 24 15 0)) out
         in accept_plain out)
       else if (fld inst 24 0xf < 0x6 \<or> (fld inst 24 0xf > 0xb
          \<or> ((fld inst 24 0xf) AND 0xe) = 0x8)) \<and> fld inst 24 0xf \<noteq> 0x0
       then (
         let out = set_cc (ucast (pos inst 24 15 0)) out;
             out = set_pc (ucast (pos inst 0 65535 0)) out
         in accept_plain out)
       else (False, out))
     else if fld inst 42 0x3 = 0x3
     then (
       let out = set_ra (ucast (pos inst 34 31 0)) out
       in if fld inst 24 0xf = 0x0
       then accept_plain out
       else if ((fld inst 26 0x1) XOR (fld inst 27 0x1)) = 0x1 \<and> fld inst 25 0x1 = 0x1
       then (
         let out = set_cc (ucast (pos inst 24 15 0)) out
         in accept_plain out)
       else if (fld inst 24 0xf < 0x6 \<or> (fld inst 24 0xf > 0xb
          \<or> ((fld inst 24 0xf) AND 0xe) = 0x8)) \<and> fld inst 24 0xf \<noteq> 0x0
       then (
         let out = set_cc (ucast (pos inst 24 15 0)) out;
             out = set_pc (ucast (pos inst 0 65535 0)) out
         in accept_plain out)
       else (False, out))
     else (False, out))"

lemma decode_at_12046_ok: "dec_in {RB} inst out \<Longrightarrow> dec_ok inst (decode_at_12046 inst out)"
  unfolding decode_at_12046_def
  by (rule dec_rules | assumption | (unfold format_simps, simp))+

definition decode_at_12045 :: "u64 \<Rightarrow> raw_decoded48 \<Rightarrow> bool \<times> raw_decoded48" where
  "decode_at_12045 inst out =
     (if ((fld inst 20 0xf) AND 0xf) = 0x8
     then decode_at_12046 inst out
     else (False, out))"

lemma decode_at_12045_ok: "dec_in {RB} inst out \<Longrightarrow> dec_ok inst (decode_at_12045 inst out)"
  unfolding decode_at_12045_def
  by (rule dec_rules decode_at_12046_ok | assumption | (unfold format_simps, simp))+

definition decode_at_11915 :: "u64 \<Rightarrow> raw_decoded48 \<Rightarrow> bool \<times> raw_decoded48" where
  "decode_at_11915 inst out =
     (if ((fld inst 20 0xf) AND 0xf) = 0xd
     then decode_at_11916 inst out
     else decode_at_12045 inst out)"

lemma decode_at_11915_ok: "dec_in {RB} inst out \<Longrightarrow> dec_ok inst (decode_at_11915 inst out)"
  unfolding decode_at_11915_def
   by (rule dec_rules decode_at_11916_ok decode_at_12045_ok | assumption | (unfold format_simps,
      simp))+

definition decode_at_11758 :: "u64 \<Rightarrow> raw_decoded48 \<Rightarrow> bool \<times> raw_decoded48" where
  "decode_at_11758 inst out =
     (if ((fld inst 20 0xf) AND 0xf) = 0xb
     then decode_at_11759 inst out
     else decode_at_11915 inst out)"

lemma decode_at_11758_ok: "dec_in {RB} inst out \<Longrightarrow> dec_ok inst (decode_at_11758 inst out)"
  unfolding decode_at_11758_def
   by (rule dec_rules decode_at_11759_ok decode_at_11915_ok | assumption | (unfold format_simps,
      simp))+

definition decode_at_11628 :: "u64 \<Rightarrow> raw_decoded48 \<Rightarrow> bool \<times> raw_decoded48" where
  "decode_at_11628 inst out =
     (if ((fld inst 20 0xf) AND 0xf) = 0x9
     then decode_at_11629 inst out
     else decode_at_11758 inst out)"

lemma decode_at_11628_ok: "dec_in {RB} inst out \<Longrightarrow> dec_ok inst (decode_at_11628 inst out)"
  unfolding decode_at_11628_def
   by (rule dec_rules decode_at_11629_ok decode_at_11758_ok | assumption | (unfold format_simps,
      simp))+

definition decode_at_11498 :: "u64 \<Rightarrow> raw_decoded48 \<Rightarrow> bool \<times> raw_decoded48" where
  "decode_at_11498 inst out =
     (if ((fld inst 20 0xf) AND 0xf) = 0xe
     then decode_at_11499 inst out
     else decode_at_11628 inst out)"

lemma decode_at_11498_ok: "dec_in {RB} inst out \<Longrightarrow> dec_ok inst (decode_at_11498 inst out)"
  unfolding decode_at_11498_def
   by (rule dec_rules decode_at_11499_ok decode_at_11628_ok | assumption | (unfold format_simps,
      simp))+

definition decode_at_11368 :: "u64 \<Rightarrow> raw_decoded48 \<Rightarrow> bool \<times> raw_decoded48" where
  "decode_at_11368 inst out =
     (if ((fld inst 20 0xf) AND 0xf) = 0xf
     then decode_at_11369 inst out
     else decode_at_11498 inst out)"

lemma decode_at_11368_ok: "dec_in {RB} inst out \<Longrightarrow> dec_ok inst (decode_at_11368 inst out)"
  unfolding decode_at_11368_def
   by (rule dec_rules decode_at_11369_ok decode_at_11498_ok | assumption | (unfold format_simps,
      simp))+

definition decode_at_11238 :: "u64 \<Rightarrow> raw_decoded48 \<Rightarrow> bool \<times> raw_decoded48" where
  "decode_at_11238 inst out =
     (if ((fld inst 20 0xf) AND 0xf) = 0x1
     then decode_at_11239 inst out
     else decode_at_11368 inst out)"

lemma decode_at_11238_ok: "dec_in {RB} inst out \<Longrightarrow> dec_ok inst (decode_at_11238 inst out)"
  unfolding decode_at_11238_def
   by (rule dec_rules decode_at_11239_ok decode_at_11368_ok | assumption | (unfold format_simps,
      simp))+

definition decode_at_11210 :: "u64 \<Rightarrow> raw_decoded48 \<Rightarrow> bool \<times> raw_decoded48" where
  "decode_at_11210 inst out =
     (if ((fld inst 20 0xf) AND 0xf) = 0x0
     then (
       if fld inst 42 0x3 \<noteq> 0x3 \<and> fld inst 44 0x1 = 0x0
       then (
         let out = set_rc (ucast (pos inst 39 31 0)) out;
             out = set_ra (ucast (pos inst 34 31 0)) out
         in if fld inst 24 0xf = 0x0
         then accept_hot H_Call F_Rrr out
         else (False, out))
       else if fld inst 42 0x3 = 0x3
       then (
         let out = set_ra (ucast (pos inst 34 31 0)) out
         in if fld inst 24 0xf = 0x0
         then accept_hot H_Call F_Zrr out
         else (False, out))
       else (False, out))
     else decode_at_11238 inst out)"

lemma decode_at_11210_ok: "dec_in {RB} inst out \<Longrightarrow> dec_ok inst (decode_at_11210 inst out)"
  unfolding decode_at_11210_def
  by (rule dec_rules decode_at_11238_ok | assumption | (unfold format_simps, simp))+

definition decode_at_11080 :: "u64 \<Rightarrow> raw_decoded48 \<Rightarrow> bool \<times> raw_decoded48" where
  "decode_at_11080 inst out =
     (if ((fld inst 20 0xf) AND 0xf) = 0xc
     then decode_at_11081 inst out
     else decode_at_11210 inst out)"

lemma decode_at_11080_ok: "dec_in {RB} inst out \<Longrightarrow> dec_ok inst (decode_at_11080 inst out)"
  unfolding decode_at_11080_def
   by (rule dec_rules decode_at_11081_ok decode_at_11210_ok | assumption | (unfold format_simps,
      simp))+

definition decode_at_10926 :: "u64 \<Rightarrow> raw_decoded48 \<Rightarrow> bool \<times> raw_decoded48" where
  "decode_at_10926 inst out =
     (if ((fld inst 20 0xf) AND 0xf) = 0xa
     then decode_at_10927 inst out
     else decode_at_11080 inst out)"

lemma decode_at_10926_ok: "dec_in {RB} inst out \<Longrightarrow> dec_ok inst (decode_at_10926 inst out)"
  unfolding decode_at_10926_def
   by (rule dec_rules decode_at_10927_ok decode_at_11080_ok | assumption | (unfold format_simps,
      simp))+

definition decode_at_12549 :: "u64 \<Rightarrow> raw_decoded48 \<Rightarrow> bool \<times> raw_decoded48" where
  "decode_at_12549 inst out =
     (if ((fld inst 20 0xf) AND 0xf) = 0xa
     then (
       if fld inst 24 0xf = 0x0 \<and> fld inst 29 0x1 = 0x0
       then accept_plain out
       else if ((fld inst 26 0x1) XOR (fld inst 27 0x1)) = 0x1 \<and> fld inst 25 0x1 = 0x1
       then (
         let out = set_cc (ucast (pos inst 24 15 0)) out
         in accept_plain out)
       else if ((fld inst 29 0x1 = 0x0 \<and> (fld inst 24 0xf < 0x6 \<or> (fld inst 24 0xf > 0xb
          \<or> ((fld inst 24 0xf) AND 0xe) = 0x8))) \<or> (fld inst 29 0x1 = 0x1
          \<and> (fld inst 24 0xf > 0xb \<or> ((fld inst 24 0xf) AND 0xe) = 0x8)))
          \<and> (fld inst 29 0x1 \<noteq> 0x0 \<or> fld inst 24 0xf \<noteq> 0x0)
       then (
         let out = set_cc (ucast (pos inst 24 15 0 OR pos inst 29 1 4)) out;
             out = set_pc (ucast (pos inst 0 65535 0)) out
         in accept_plain out)
       else (False, out))
     else (False, out))"

lemma decode_at_12549_ok: "dec_in {RA, DC, RB} inst out \<Longrightarrow> dec_ok inst (decode_at_12549 inst out)"
  unfolding decode_at_12549_def
  by (rule dec_rules | assumption | (unfold format_simps, simp))+

definition decode_at_12407 :: "u64 \<Rightarrow> raw_decoded48 \<Rightarrow> bool \<times> raw_decoded48" where
  "decode_at_12407 inst out =
     (if ((fld inst 20 0xf) AND 0xf) = 0xe
     then (
       if fld inst 24 0xf = 0x0 \<and> fld inst 29 0x1 = 0x0
       then accept_plain out
       else if ((fld inst 26 0x1) XOR (fld inst 27 0x1)) = 0x1 \<and> fld inst 25 0x1 = 0x1
       then (
         let out = set_cc (ucast (pos inst 24 15 0)) out
         in accept_plain out)
       else if ((fld inst 29 0x1 = 0x0 \<and> (fld inst 24 0xf < 0x6 \<or> (fld inst 24 0xf > 0xb
          \<or> ((fld inst 24 0xf) AND 0xe) = 0x8))) \<or> (fld inst 29 0x1 = 0x1
          \<and> (fld inst 24 0xf > 0xb \<or> ((fld inst 24 0xf) AND 0xe) = 0x8)))
          \<and> (fld inst 29 0x1 \<noteq> 0x0 \<or> fld inst 24 0xf \<noteq> 0x0)
       then (
         let out = set_cc (ucast (pos inst 24 15 0 OR pos inst 29 1 4)) out;
             out = set_pc (ucast (pos inst 0 65535 0)) out
         in accept_plain out)
       else (False, out))
     else if ((fld inst 20 0xf) AND 0xf) = 0xf
     then (
       if fld inst 24 0xf = 0x0 \<and> fld inst 29 0x1 = 0x0
       then accept_plain out
       else if ((fld inst 26 0x1) XOR (fld inst 27 0x1)) = 0x1 \<and> fld inst 25 0x1 = 0x1
       then (
         let out = set_cc (ucast (pos inst 24 15 0)) out
         in accept_plain out)
       else if ((fld inst 29 0x1 = 0x0 \<and> (fld inst 24 0xf < 0x6 \<or> (fld inst 24 0xf > 0xb
          \<or> ((fld inst 24 0xf) AND 0xe) = 0x8))) \<or> (fld inst 29 0x1 = 0x1
          \<and> (fld inst 24 0xf > 0xb \<or> ((fld inst 24 0xf) AND 0xe) = 0x8)))
          \<and> (fld inst 29 0x1 \<noteq> 0x0 \<or> fld inst 24 0xf \<noteq> 0x0)
       then (
         let out = set_cc (ucast (pos inst 24 15 0 OR pos inst 29 1 4)) out;
             out = set_pc (ucast (pos inst 0 65535 0)) out
         in accept_plain out)
       else (False, out))
     else if ((fld inst 20 0xf) AND 0xf) = 0xd
     then (
       if fld inst 24 0xf = 0x0 \<and> fld inst 29 0x1 = 0x0
       then accept_hot H_LsrxS F_Rrr out
       else if ((fld inst 26 0x1) XOR (fld inst 27 0x1)) = 0x1 \<and> fld inst 25 0x1 = 0x1
       then (
         let out = set_cc (ucast (pos inst 24 15 0)) out
         in accept_hot H_LsrxS F_Rrrc out)
       else if ((fld inst 29 0x1 = 0x0 \<and> (fld inst 24 0xf < 0x6 \<or> (fld inst 24 0xf > 0xb
          \<or> ((fld inst 24 0xf) AND 0xe) = 0x8))) \<or> (fld inst 29 0x1 = 0x1
          \<and> (fld inst 24 0xf > 0xb \<or> ((fld inst 24 0xf) AND 0xe) = 0x8)))
          \<and> (fld inst 29 0x1 \<noteq> 0x0 \<or> fld inst 24 0xf \<noteq> 0x0)
       then (
         let out = set_cc (ucast (pos inst 24 15 0 OR pos inst 29 1 4)) out;
             out = set_pc (ucast (pos inst 0 65535 0)) out
         in accept_hot H_LsrxS F_Rrrci out)
       else (False, out))
     else if ((fld inst 20 0xf) AND 0xf) = 0x2
     then (
       if fld inst 24 0xf = 0x0 \<and> fld inst 29 0x1 = 0x0
       then accept_plain out
       else if ((fld inst 26 0x1) XOR (fld inst 27 0x1)) = 0x1 \<and> fld inst 25 0x1 = 0x1
       then (
         let out = set_cc (ucast (pos inst 24 15 0)) out
         in accept_plain out)
       else if ((fld inst 29 0x1 = 0x0 \<and> (fld inst 24 0xf < 0x6 \<or> (fld inst 24 0xf > 0xb
          \<or> ((fld inst 24 0xf) AND 0xe) = 0x8))) \<or> (fld inst 29 0x1 = 0x1
          \<and> (fld inst 24 0xf > 0xb \<or> ((fld inst 24 0xf) AND 0xe) = 0x8)))
          \<and> (fld inst 29 0x1 \<noteq> 0x0 \<or> fld inst 24 0xf \<noteq> 0x0)
       then (
         let out = set_cc (ucast (pos inst 24 15 0 OR pos inst 29 1 4)) out;
             out = set_pc (ucast (pos inst 0 65535 0)) out
         in accept_plain out)
       else (False, out))
     else decode_at_12549 inst out)"

lemma decode_at_12407_ok: "dec_in {RA, DC, RB} inst out \<Longrightarrow> dec_ok inst (decode_at_12407 inst out)"
  unfolding decode_at_12407_def
  by (rule dec_rules decode_at_12549_ok | assumption | (unfold format_simps, simp))+

definition decode_at_12293 :: "u64 \<Rightarrow> raw_decoded48 \<Rightarrow> bool \<times> raw_decoded48" where
  "decode_at_12293 inst out =
     (if ((fld inst 20 0xf) AND 0xf) = 0x7
     then (
       if fld inst 24 0xf = 0x0 \<and> fld inst 29 0x1 = 0x0
       then accept_plain out
       else if ((fld inst 26 0x1) XOR (fld inst 27 0x1)) = 0x1 \<and> fld inst 25 0x1 = 0x1
       then (
         let out = set_cc (ucast (pos inst 24 15 0)) out
         in accept_plain out)
       else if ((fld inst 29 0x1 = 0x0 \<and> (fld inst 24 0xf < 0x6 \<or> (fld inst 24 0xf > 0xb
          \<or> ((fld inst 24 0xf) AND 0xe) = 0x8))) \<or> (fld inst 29 0x1 = 0x1
          \<and> (fld inst 24 0xf > 0xb \<or> ((fld inst 24 0xf) AND 0xe) = 0x8)))
          \<and> (fld inst 29 0x1 \<noteq> 0x0 \<or> fld inst 24 0xf \<noteq> 0x0)
       then (
         let out = set_cc (ucast (pos inst 24 15 0 OR pos inst 29 1 4)) out;
             out = set_pc (ucast (pos inst 0 65535 0)) out
         in accept_plain out)
       else (False, out))
     else if ((fld inst 20 0xf) AND 0xf) = 0x5
     then (
       if fld inst 24 0xf = 0x0 \<and> fld inst 29 0x1 = 0x0
       then accept_hot H_LslxS F_Rrr out
       else if ((fld inst 26 0x1) XOR (fld inst 27 0x1)) = 0x1 \<and> fld inst 25 0x1 = 0x1
       then (
         let out = set_cc (ucast (pos inst 24 15 0)) out
         in accept_hot H_LslxS F_Rrrc out)
       else if ((fld inst 29 0x1 = 0x0 \<and> (fld inst 24 0xf < 0x6 \<or> (fld inst 24 0xf > 0xb
          \<or> ((fld inst 24 0xf) AND 0xe) = 0x8))) \<or> (fld inst 29 0x1 = 0x1
          \<and> (fld inst 24 0xf > 0xb \<or> ((fld inst 24 0xf) AND 0xe) = 0x8)))
          \<and> (fld inst 29 0x1 \<noteq> 0x0 \<or> fld inst 24 0xf \<noteq> 0x0)
       then (
         let out = set_cc (ucast (pos inst 24 15 0 OR pos inst 29 1 4)) out;
             out = set_pc (ucast (pos inst 0 65535 0)) out
         in accept_hot H_LslxS F_Rrrci out)
       else (False, out))
     else if ((fld inst 20 0xf) AND 0xf) = 0xc
     then (
       if fld inst 24 0xf = 0x0 \<and> fld inst 29 0x1 = 0x0
       then accept_hot H_LsrS F_Rrr out
       else if ((fld inst 26 0x1) XOR (fld inst 27 0x1)) = 0x1 \<and> fld inst 25 0x1 = 0x1
       then (
         let out = set_cc (ucast (pos inst 24 15 0)) out
         in accept_hot H_LsrS F_Rrrc out)
       else if ((fld inst 29 0x1 = 0x0 \<and> (fld inst 24 0xf < 0x6 \<or> (fld inst 24 0xf > 0xb
          \<or> ((fld inst 24 0xf) AND 0xe) = 0x8))) \<or> (fld inst 29 0x1 = 0x1
          \<and> (fld inst 24 0xf > 0xb \<or> ((fld inst 24 0xf) AND 0xe) = 0x8)))
          \<and> (fld inst 29 0x1 \<noteq> 0x0 \<or> fld inst 24 0xf \<noteq> 0x0)
       then (
         let out = set_cc (ucast (pos inst 24 15 0 OR pos inst 29 1 4)) out;
             out = set_pc (ucast (pos inst 0 65535 0)) out
         in accept_hot H_LsrS F_Rrrci out)
       else (False, out))
     else decode_at_12407 inst out)"

lemma decode_at_12293_ok: "dec_in {RA, DC, RB} inst out \<Longrightarrow> dec_ok inst (decode_at_12293 inst out)"
  unfolding decode_at_12293_def
  by (rule dec_rules decode_at_12407_ok | assumption | (unfold format_simps, simp))+

definition decode_at_12181 :: "u64 \<Rightarrow> raw_decoded48 \<Rightarrow> bool \<times> raw_decoded48" where
  "decode_at_12181 inst out =
     (let out = set_dc (ucast (pos inst 40 15 1)) out;
         out = set_ra (ucast (pos inst 34 31 0)) out
     in if ((fld inst 20 0xf) AND 0xf) = 0x8
     then (
       if fld inst 24 0xf = 0x0 \<and> fld inst 29 0x1 = 0x0
       then accept_plain out
       else if ((fld inst 26 0x1) XOR (fld inst 27 0x1)) = 0x1 \<and> fld inst 25 0x1 = 0x1
       then (
         let out = set_cc (ucast (pos inst 24 15 0)) out
         in accept_plain out)
       else if ((fld inst 29 0x1 = 0x0 \<and> (fld inst 24 0xf < 0x6 \<or> (fld inst 24 0xf > 0xb
          \<or> ((fld inst 24 0xf) AND 0xe) = 0x8))) \<or> (fld inst 29 0x1 = 0x1
          \<and> (fld inst 24 0xf > 0xb \<or> ((fld inst 24 0xf) AND 0xe) = 0x8)))
          \<and> (fld inst 29 0x1 \<noteq> 0x0 \<or> fld inst 24 0xf \<noteq> 0x0)
       then (
         let out = set_cc (ucast (pos inst 24 15 0 OR pos inst 29 1 4)) out;
             out = set_pc (ucast (pos inst 0 65535 0)) out
         in accept_plain out)
       else (False, out))
     else if ((fld inst 20 0xf) AND 0xf) = 0x4
     then (
       if fld inst 24 0xf = 0x0 \<and> fld inst 29 0x1 = 0x0
       then accept_hot H_LslS F_Rrr out
       else if ((fld inst 26 0x1) XOR (fld inst 27 0x1)) = 0x1 \<and> fld inst 25 0x1 = 0x1
       then (
         let out = set_cc (ucast (pos inst 24 15 0)) out
         in accept_hot H_LslS F_Rrrc out)
       else if ((fld inst 29 0x1 = 0x0 \<and> (fld inst 24 0xf < 0x6 \<or> (fld inst 24 0xf > 0xb
          \<or> ((fld inst 24 0xf) AND 0xe) = 0x8))) \<or> (fld inst 29 0x1 = 0x1
          \<and> (fld inst 24 0xf > 0xb \<or> ((fld inst 24 0xf) AND 0xe) = 0x8)))
          \<and> (fld inst 29 0x1 \<noteq> 0x0 \<or> fld inst 24 0xf \<noteq> 0x0)
       then (
         let out = set_cc (ucast (pos inst 24 15 0 OR pos inst 29 1 4)) out;
             out = set_pc (ucast (pos inst 0 65535 0)) out
         in accept_hot H_LslS F_Rrrci out)
       else (False, out))
     else if ((fld inst 20 0xf) AND 0xf) = 0x6
     then (
       if fld inst 24 0xf = 0x0 \<and> fld inst 29 0x1 = 0x0
       then accept_plain out
       else if ((fld inst 26 0x1) XOR (fld inst 27 0x1)) = 0x1 \<and> fld inst 25 0x1 = 0x1
       then (
         let out = set_cc (ucast (pos inst 24 15 0)) out
         in accept_plain out)
       else if ((fld inst 29 0x1 = 0x0 \<and> (fld inst 24 0xf < 0x6 \<or> (fld inst 24 0xf > 0xb
          \<or> ((fld inst 24 0xf) AND 0xe) = 0x8))) \<or> (fld inst 29 0x1 = 0x1
          \<and> (fld inst 24 0xf > 0xb \<or> ((fld inst 24 0xf) AND 0xe) = 0x8)))
          \<and> (fld inst 29 0x1 \<noteq> 0x0 \<or> fld inst 24 0xf \<noteq> 0x0)
       then (
         let out = set_cc (ucast (pos inst 24 15 0 OR pos inst 29 1 4)) out;
             out = set_pc (ucast (pos inst 0 65535 0)) out
         in accept_plain out)
       else (False, out))
     else decode_at_12293 inst out)"

lemma decode_at_12181_ok: "dec_in {RB} inst out \<Longrightarrow> dec_ok inst (decode_at_12181 inst out)"
  unfolding decode_at_12181_def
  by (rule dec_rules decode_at_12293_ok | assumption | (unfold format_simps, simp))+

definition decode_at_12956 :: "u64 \<Rightarrow> raw_decoded48 \<Rightarrow> bool \<times> raw_decoded48" where
  "decode_at_12956 inst out =
     (if ((fld inst 20 0xf) AND 0xf) = 0xa
     then (
       if fld inst 24 0xf = 0x0 \<and> fld inst 29 0x1 = 0x0
       then accept_plain out
       else if ((fld inst 26 0x1) XOR (fld inst 27 0x1)) = 0x1 \<and> fld inst 25 0x1 = 0x1
       then (
         let out = set_cc (ucast (pos inst 24 15 0)) out
         in accept_plain out)
       else if ((fld inst 29 0x1 = 0x0 \<and> (fld inst 24 0xf < 0x6 \<or> (fld inst 24 0xf > 0xb
          \<or> ((fld inst 24 0xf) AND 0xe) = 0x8))) \<or> (fld inst 29 0x1 = 0x1
          \<and> (fld inst 24 0xf > 0xb \<or> ((fld inst 24 0xf) AND 0xe) = 0x8)))
          \<and> (fld inst 29 0x1 \<noteq> 0x0 \<or> fld inst 24 0xf \<noteq> 0x0)
       then (
         let out = set_cc (ucast (pos inst 24 15 0 OR pos inst 29 1 4)) out;
             out = set_pc (ucast (pos inst 0 65535 0)) out
         in accept_plain out)
       else (False, out))
     else (False, out))"

lemma decode_at_12956_ok: "dec_in {RA, DC, RB} inst out \<Longrightarrow> dec_ok inst (decode_at_12956 inst out)"
  unfolding decode_at_12956_def
  by (rule dec_rules | assumption | (unfold format_simps, simp))+

definition decode_at_12814 :: "u64 \<Rightarrow> raw_decoded48 \<Rightarrow> bool \<times> raw_decoded48" where
  "decode_at_12814 inst out =
     (if ((fld inst 20 0xf) AND 0xf) = 0xe
     then (
       if fld inst 24 0xf = 0x0 \<and> fld inst 29 0x1 = 0x0
       then accept_plain out
       else if ((fld inst 26 0x1) XOR (fld inst 27 0x1)) = 0x1 \<and> fld inst 25 0x1 = 0x1
       then (
         let out = set_cc (ucast (pos inst 24 15 0)) out
         in accept_plain out)
       else if ((fld inst 29 0x1 = 0x0 \<and> (fld inst 24 0xf < 0x6 \<or> (fld inst 24 0xf > 0xb
          \<or> ((fld inst 24 0xf) AND 0xe) = 0x8))) \<or> (fld inst 29 0x1 = 0x1
          \<and> (fld inst 24 0xf > 0xb \<or> ((fld inst 24 0xf) AND 0xe) = 0x8)))
          \<and> (fld inst 29 0x1 \<noteq> 0x0 \<or> fld inst 24 0xf \<noteq> 0x0)
       then (
         let out = set_cc (ucast (pos inst 24 15 0 OR pos inst 29 1 4)) out;
             out = set_pc (ucast (pos inst 0 65535 0)) out
         in accept_plain out)
       else (False, out))
     else if ((fld inst 20 0xf) AND 0xf) = 0xf
     then (
       if fld inst 24 0xf = 0x0 \<and> fld inst 29 0x1 = 0x0
       then accept_plain out
       else if ((fld inst 26 0x1) XOR (fld inst 27 0x1)) = 0x1 \<and> fld inst 25 0x1 = 0x1
       then (
         let out = set_cc (ucast (pos inst 24 15 0)) out
         in accept_plain out)
       else if ((fld inst 29 0x1 = 0x0 \<and> (fld inst 24 0xf < 0x6 \<or> (fld inst 24 0xf > 0xb
          \<or> ((fld inst 24 0xf) AND 0xe) = 0x8))) \<or> (fld inst 29 0x1 = 0x1
          \<and> (fld inst 24 0xf > 0xb \<or> ((fld inst 24 0xf) AND 0xe) = 0x8)))
          \<and> (fld inst 29 0x1 \<noteq> 0x0 \<or> fld inst 24 0xf \<noteq> 0x0)
       then (
         let out = set_cc (ucast (pos inst 24 15 0 OR pos inst 29 1 4)) out;
             out = set_pc (ucast (pos inst 0 65535 0)) out
         in accept_plain out)
       else (False, out))
     else if ((fld inst 20 0xf) AND 0xf) = 0xd
     then (
       if fld inst 24 0xf = 0x0 \<and> fld inst 29 0x1 = 0x0
       then accept_hot H_LsrxU F_Rrr out
       else if ((fld inst 26 0x1) XOR (fld inst 27 0x1)) = 0x1 \<and> fld inst 25 0x1 = 0x1
       then (
         let out = set_cc (ucast (pos inst 24 15 0)) out
         in accept_hot H_LsrxU F_Rrrc out)
       else if ((fld inst 29 0x1 = 0x0 \<and> (fld inst 24 0xf < 0x6 \<or> (fld inst 24 0xf > 0xb
          \<or> ((fld inst 24 0xf) AND 0xe) = 0x8))) \<or> (fld inst 29 0x1 = 0x1
          \<and> (fld inst 24 0xf > 0xb \<or> ((fld inst 24 0xf) AND 0xe) = 0x8)))
          \<and> (fld inst 29 0x1 \<noteq> 0x0 \<or> fld inst 24 0xf \<noteq> 0x0)
       then (
         let out = set_cc (ucast (pos inst 24 15 0 OR pos inst 29 1 4)) out;
             out = set_pc (ucast (pos inst 0 65535 0)) out
         in accept_hot H_LsrxU F_Rrrci out)
       else (False, out))
     else if ((fld inst 20 0xf) AND 0xf) = 0x2
     then (
       if fld inst 24 0xf = 0x0 \<and> fld inst 29 0x1 = 0x0
       then accept_plain out
       else if ((fld inst 26 0x1) XOR (fld inst 27 0x1)) = 0x1 \<and> fld inst 25 0x1 = 0x1
       then (
         let out = set_cc (ucast (pos inst 24 15 0)) out
         in accept_plain out)
       else if ((fld inst 29 0x1 = 0x0 \<and> (fld inst 24 0xf < 0x6 \<or> (fld inst 24 0xf > 0xb
          \<or> ((fld inst 24 0xf) AND 0xe) = 0x8))) \<or> (fld inst 29 0x1 = 0x1
          \<and> (fld inst 24 0xf > 0xb \<or> ((fld inst 24 0xf) AND 0xe) = 0x8)))
          \<and> (fld inst 29 0x1 \<noteq> 0x0 \<or> fld inst 24 0xf \<noteq> 0x0)
       then (
         let out = set_cc (ucast (pos inst 24 15 0 OR pos inst 29 1 4)) out;
             out = set_pc (ucast (pos inst 0 65535 0)) out
         in accept_plain out)
       else (False, out))
     else decode_at_12956 inst out)"

lemma decode_at_12814_ok: "dec_in {RA, DC, RB} inst out \<Longrightarrow> dec_ok inst (decode_at_12814 inst out)"
  unfolding decode_at_12814_def
  by (rule dec_rules decode_at_12956_ok | assumption | (unfold format_simps, simp))+

definition decode_at_12700 :: "u64 \<Rightarrow> raw_decoded48 \<Rightarrow> bool \<times> raw_decoded48" where
  "decode_at_12700 inst out =
     (if ((fld inst 20 0xf) AND 0xf) = 0x7
     then (
       if fld inst 24 0xf = 0x0 \<and> fld inst 29 0x1 = 0x0
       then accept_plain out
       else if ((fld inst 26 0x1) XOR (fld inst 27 0x1)) = 0x1 \<and> fld inst 25 0x1 = 0x1
       then (
         let out = set_cc (ucast (pos inst 24 15 0)) out
         in accept_plain out)
       else if ((fld inst 29 0x1 = 0x0 \<and> (fld inst 24 0xf < 0x6 \<or> (fld inst 24 0xf > 0xb
          \<or> ((fld inst 24 0xf) AND 0xe) = 0x8))) \<or> (fld inst 29 0x1 = 0x1
          \<and> (fld inst 24 0xf > 0xb \<or> ((fld inst 24 0xf) AND 0xe) = 0x8)))
          \<and> (fld inst 29 0x1 \<noteq> 0x0 \<or> fld inst 24 0xf \<noteq> 0x0)
       then (
         let out = set_cc (ucast (pos inst 24 15 0 OR pos inst 29 1 4)) out;
             out = set_pc (ucast (pos inst 0 65535 0)) out
         in accept_plain out)
       else (False, out))
     else if ((fld inst 20 0xf) AND 0xf) = 0x5
     then (
       if fld inst 24 0xf = 0x0 \<and> fld inst 29 0x1 = 0x0
       then accept_hot H_LslxU F_Rrr out
       else if ((fld inst 26 0x1) XOR (fld inst 27 0x1)) = 0x1 \<and> fld inst 25 0x1 = 0x1
       then (
         let out = set_cc (ucast (pos inst 24 15 0)) out
         in accept_hot H_LslxU F_Rrrc out)
       else if ((fld inst 29 0x1 = 0x0 \<and> (fld inst 24 0xf < 0x6 \<or> (fld inst 24 0xf > 0xb
          \<or> ((fld inst 24 0xf) AND 0xe) = 0x8))) \<or> (fld inst 29 0x1 = 0x1
          \<and> (fld inst 24 0xf > 0xb \<or> ((fld inst 24 0xf) AND 0xe) = 0x8)))
          \<and> (fld inst 29 0x1 \<noteq> 0x0 \<or> fld inst 24 0xf \<noteq> 0x0)
       then (
         let out = set_cc (ucast (pos inst 24 15 0 OR pos inst 29 1 4)) out;
             out = set_pc (ucast (pos inst 0 65535 0)) out
         in accept_hot H_LslxU F_Rrrci out)
       else (False, out))
     else if ((fld inst 20 0xf) AND 0xf) = 0xc
     then (
       if fld inst 24 0xf = 0x0 \<and> fld inst 29 0x1 = 0x0
       then accept_hot H_LsrU F_Rrr out
       else if ((fld inst 26 0x1) XOR (fld inst 27 0x1)) = 0x1 \<and> fld inst 25 0x1 = 0x1
       then (
         let out = set_cc (ucast (pos inst 24 15 0)) out
         in accept_hot H_LsrU F_Rrrc out)
       else if ((fld inst 29 0x1 = 0x0 \<and> (fld inst 24 0xf < 0x6 \<or> (fld inst 24 0xf > 0xb
          \<or> ((fld inst 24 0xf) AND 0xe) = 0x8))) \<or> (fld inst 29 0x1 = 0x1
          \<and> (fld inst 24 0xf > 0xb \<or> ((fld inst 24 0xf) AND 0xe) = 0x8)))
          \<and> (fld inst 29 0x1 \<noteq> 0x0 \<or> fld inst 24 0xf \<noteq> 0x0)
       then (
         let out = set_cc (ucast (pos inst 24 15 0 OR pos inst 29 1 4)) out;
             out = set_pc (ucast (pos inst 0 65535 0)) out
         in accept_hot H_LsrU F_Rrrci out)
       else (False, out))
     else decode_at_12814 inst out)"

lemma decode_at_12700_ok: "dec_in {RA, DC, RB} inst out \<Longrightarrow> dec_ok inst (decode_at_12700 inst out)"
  unfolding decode_at_12700_def
  by (rule dec_rules decode_at_12814_ok | assumption | (unfold format_simps, simp))+

definition decode_at_12588 :: "u64 \<Rightarrow> raw_decoded48 \<Rightarrow> bool \<times> raw_decoded48" where
  "decode_at_12588 inst out =
     (let out = set_dc (ucast (pos inst 40 15 1)) out;
         out = set_ra (ucast (pos inst 34 31 0)) out
     in if ((fld inst 20 0xf) AND 0xf) = 0x8
     then (
       if fld inst 24 0xf = 0x0 \<and> fld inst 29 0x1 = 0x0
       then accept_plain out
       else if ((fld inst 26 0x1) XOR (fld inst 27 0x1)) = 0x1 \<and> fld inst 25 0x1 = 0x1
       then (
         let out = set_cc (ucast (pos inst 24 15 0)) out
         in accept_plain out)
       else if ((fld inst 29 0x1 = 0x0 \<and> (fld inst 24 0xf < 0x6 \<or> (fld inst 24 0xf > 0xb
          \<or> ((fld inst 24 0xf) AND 0xe) = 0x8))) \<or> (fld inst 29 0x1 = 0x1
          \<and> (fld inst 24 0xf > 0xb \<or> ((fld inst 24 0xf) AND 0xe) = 0x8)))
          \<and> (fld inst 29 0x1 \<noteq> 0x0 \<or> fld inst 24 0xf \<noteq> 0x0)
       then (
         let out = set_cc (ucast (pos inst 24 15 0 OR pos inst 29 1 4)) out;
             out = set_pc (ucast (pos inst 0 65535 0)) out
         in accept_plain out)
       else (False, out))
     else if ((fld inst 20 0xf) AND 0xf) = 0x4
     then (
       if fld inst 24 0xf = 0x0 \<and> fld inst 29 0x1 = 0x0
       then accept_hot H_LslU F_Rrr out
       else if ((fld inst 26 0x1) XOR (fld inst 27 0x1)) = 0x1 \<and> fld inst 25 0x1 = 0x1
       then (
         let out = set_cc (ucast (pos inst 24 15 0)) out
         in accept_hot H_LslU F_Rrrc out)
       else if ((fld inst 29 0x1 = 0x0 \<and> (fld inst 24 0xf < 0x6 \<or> (fld inst 24 0xf > 0xb
          \<or> ((fld inst 24 0xf) AND 0xe) = 0x8))) \<or> (fld inst 29 0x1 = 0x1
          \<and> (fld inst 24 0xf > 0xb \<or> ((fld inst 24 0xf) AND 0xe) = 0x8)))
          \<and> (fld inst 29 0x1 \<noteq> 0x0 \<or> fld inst 24 0xf \<noteq> 0x0)
       then (
         let out = set_cc (ucast (pos inst 24 15 0 OR pos inst 29 1 4)) out;
             out = set_pc (ucast (pos inst 0 65535 0)) out
         in accept_hot H_LslU F_Rrrci out)
       else (False, out))
     else if ((fld inst 20 0xf) AND 0xf) = 0x6
     then (
       if fld inst 24 0xf = 0x0 \<and> fld inst 29 0x1 = 0x0
       then accept_plain out
       else if ((fld inst 26 0x1) XOR (fld inst 27 0x1)) = 0x1 \<and> fld inst 25 0x1 = 0x1
       then (
         let out = set_cc (ucast (pos inst 24 15 0)) out
         in accept_plain out)
       else if ((fld inst 29 0x1 = 0x0 \<and> (fld inst 24 0xf < 0x6 \<or> (fld inst 24 0xf > 0xb
          \<or> ((fld inst 24 0xf) AND 0xe) = 0x8))) \<or> (fld inst 29 0x1 = 0x1
          \<and> (fld inst 24 0xf > 0xb \<or> ((fld inst 24 0xf) AND 0xe) = 0x8)))
          \<and> (fld inst 29 0x1 \<noteq> 0x0 \<or> fld inst 24 0xf \<noteq> 0x0)
       then (
         let out = set_cc (ucast (pos inst 24 15 0 OR pos inst 29 1 4)) out;
             out = set_pc (ucast (pos inst 0 65535 0)) out
         in accept_plain out)
       else (False, out))
     else decode_at_12700 inst out)"

lemma decode_at_12588_ok: "dec_in {RB} inst out \<Longrightarrow> dec_ok inst (decode_at_12588 inst out)"
  unfolding decode_at_12588_def
  by (rule dec_rules decode_at_12700_ok | assumption | (unfold format_simps, simp))+

definition decode_at_13328 :: "u64 \<Rightarrow> raw_decoded48 \<Rightarrow> bool \<times> raw_decoded48" where
  "decode_at_13328 inst out =
     (if ((fld inst 20 0xf) AND 0xf) = 0x2
     then (
       if fld inst 24 0xf = 0x0 \<and> fld inst 29 0x1 = 0x0
       then accept_plain out
       else if ((fld inst 26 0x1) XOR (fld inst 27 0x1)) = 0x1 \<and> fld inst 25 0x1 = 0x1
       then (
         let out = set_cc (ucast (pos inst 24 15 0)) out
         in accept_plain out)
       else if ((fld inst 29 0x1 = 0x0 \<and> (fld inst 24 0xf < 0x6 \<or> (fld inst 24 0xf > 0xb
          \<or> ((fld inst 24 0xf) AND 0xe) = 0x8))) \<or> (fld inst 29 0x1 = 0x1
          \<and> (fld inst 24 0xf > 0xb \<or> ((fld inst 24 0xf) AND 0xe) = 0x8)))
          \<and> (fld inst 29 0x1 \<noteq> 0x0 \<or> fld inst 24 0xf \<noteq> 0x0)
       then (
         let out = set_cc (ucast (pos inst 24 15 0 OR pos inst 29 1 4)) out;
             out = set_pc (ucast (pos inst 0 65535 0)) out
         in accept_plain out)
       else (False, out))
     else if ((fld inst 20 0xf) AND 0xf) = 0xa
     then (
       if fld inst 24 0xf = 0x0 \<and> fld inst 29 0x1 = 0x0
       then accept_plain out
       else if ((fld inst 26 0x1) XOR (fld inst 27 0x1)) = 0x1 \<and> fld inst 25 0x1 = 0x1
       then (
         let out = set_cc (ucast (pos inst 24 15 0)) out
         in accept_plain out)
       else if ((fld inst 29 0x1 = 0x0 \<and> (fld inst 24 0xf < 0x6 \<or> (fld inst 24 0xf > 0xb
          \<or> ((fld inst 24 0xf) AND 0xe) = 0x8))) \<or> (fld inst 29 0x1 = 0x1
          \<and> (fld inst 24 0xf > 0xb \<or> ((fld inst 24 0xf) AND 0xe) = 0x8)))
          \<and> (fld inst 29 0x1 \<noteq> 0x0 \<or> fld inst 24 0xf \<noteq> 0x0)
       then (
         let out = set_cc (ucast (pos inst 24 15 0 OR pos inst 29 1 4)) out;
             out = set_pc (ucast (pos inst 0 65535 0)) out
         in accept_plain out)
       else (False, out))
     else (False, out))"

lemma decode_at_13328_ok: "dec_in {RA, RC, RB} inst out \<Longrightarrow> dec_ok inst (decode_at_13328 inst out)"
  unfolding decode_at_13328_def
  by (rule dec_rules | assumption | (unfold format_simps, simp))+

definition decode_at_13214 :: "u64 \<Rightarrow> raw_decoded48 \<Rightarrow> bool \<times> raw_decoded48" where
  "decode_at_13214 inst out =
     (if ((fld inst 20 0xf) AND 0xf) = 0xf
     then (
       if fld inst 24 0xf = 0x0 \<and> fld inst 29 0x1 = 0x0
       then accept_plain out
       else if ((fld inst 26 0x1) XOR (fld inst 27 0x1)) = 0x1 \<and> fld inst 25 0x1 = 0x1
       then (
         let out = set_cc (ucast (pos inst 24 15 0)) out
         in accept_plain out)
       else if ((fld inst 29 0x1 = 0x0 \<and> (fld inst 24 0xf < 0x6 \<or> (fld inst 24 0xf > 0xb
          \<or> ((fld inst 24 0xf) AND 0xe) = 0x8))) \<or> (fld inst 29 0x1 = 0x1
          \<and> (fld inst 24 0xf > 0xb \<or> ((fld inst 24 0xf) AND 0xe) = 0x8)))
          \<and> (fld inst 29 0x1 \<noteq> 0x0 \<or> fld inst 24 0xf \<noteq> 0x0)
       then (
         let out = set_cc (ucast (pos inst 24 15 0 OR pos inst 29 1 4)) out;
             out = set_pc (ucast (pos inst 0 65535 0)) out
         in accept_plain out)
       else (False, out))
     else if ((fld inst 20 0xf) AND 0xf) = 0xc
     then (
       if fld inst 24 0xf = 0x0 \<and> fld inst 29 0x1 = 0x0
       then accept_hot H_Lsr F_Rrr out
       else if ((fld inst 26 0x1) XOR (fld inst 27 0x1)) = 0x1 \<and> fld inst 25 0x1 = 0x1
       then (
         let out = set_cc (ucast (pos inst 24 15 0)) out
         in accept_hot H_Lsr F_Rrrc out)
       else if ((fld inst 29 0x1 = 0x0 \<and> (fld inst 24 0xf < 0x6 \<or> (fld inst 24 0xf > 0xb
          \<or> ((fld inst 24 0xf) AND 0xe) = 0x8))) \<or> (fld inst 29 0x1 = 0x1
          \<and> (fld inst 24 0xf > 0xb \<or> ((fld inst 24 0xf) AND 0xe) = 0x8)))
          \<and> (fld inst 29 0x1 \<noteq> 0x0 \<or> fld inst 24 0xf \<noteq> 0x0)
       then (
         let out = set_cc (ucast (pos inst 24 15 0 OR pos inst 29 1 4)) out;
             out = set_pc (ucast (pos inst 0 65535 0)) out
         in accept_hot H_Lsr F_Rrrci out)
       else (False, out))
     else if ((fld inst 20 0xf) AND 0xf) = 0xd
     then (
       if fld inst 24 0xf = 0x0 \<and> fld inst 29 0x1 = 0x0
       then accept_hot H_Lsrx F_Rrr out
       else if ((fld inst 26 0x1) XOR (fld inst 27 0x1)) = 0x1 \<and> fld inst 25 0x1 = 0x1
       then (
         let out = set_cc (ucast (pos inst 24 15 0)) out
         in accept_hot H_Lsrx F_Rrrc out)
       else if ((fld inst 29 0x1 = 0x0 \<and> (fld inst 24 0xf < 0x6 \<or> (fld inst 24 0xf > 0xb
          \<or> ((fld inst 24 0xf) AND 0xe) = 0x8))) \<or> (fld inst 29 0x1 = 0x1
          \<and> (fld inst 24 0xf > 0xb \<or> ((fld inst 24 0xf) AND 0xe) = 0x8)))
          \<and> (fld inst 29 0x1 \<noteq> 0x0 \<or> fld inst 24 0xf \<noteq> 0x0)
       then (
         let out = set_cc (ucast (pos inst 24 15 0 OR pos inst 29 1 4)) out;
             out = set_pc (ucast (pos inst 0 65535 0)) out
         in accept_hot H_Lsrx F_Rrrci out)
       else (False, out))
     else decode_at_13328 inst out)"

lemma decode_at_13214_ok: "dec_in {RA, RC, RB} inst out \<Longrightarrow> dec_ok inst (decode_at_13214 inst out)"
  unfolding decode_at_13214_def
  by (rule dec_rules decode_at_13328_ok | assumption | (unfold format_simps, simp))+

definition decode_at_13100 :: "u64 \<Rightarrow> raw_decoded48 \<Rightarrow> bool \<times> raw_decoded48" where
  "decode_at_13100 inst out =
     (if ((fld inst 20 0xf) AND 0xf) = 0x4
     then (
       if fld inst 24 0xf = 0x0 \<and> fld inst 29 0x1 = 0x0
       then accept_hot H_Lsl F_Rrr out
       else if ((fld inst 26 0x1) XOR (fld inst 27 0x1)) = 0x1 \<and> fld inst 25 0x1 = 0x1
       then (
         let out = set_cc (ucast (pos inst 24 15 0)) out
         in accept_hot H_Lsl F_Rrrc out)
       else if ((fld inst 29 0x1 = 0x0 \<and> (fld inst 24 0xf < 0x6 \<or> (fld inst 24 0xf > 0xb
          \<or> ((fld inst 24 0xf) AND 0xe) = 0x8))) \<or> (fld inst 29 0x1 = 0x1
          \<and> (fld inst 24 0xf > 0xb \<or> ((fld inst 24 0xf) AND 0xe) = 0x8)))
          \<and> (fld inst 29 0x1 \<noteq> 0x0 \<or> fld inst 24 0xf \<noteq> 0x0)
       then (
         let out = set_cc (ucast (pos inst 24 15 0 OR pos inst 29 1 4)) out;
             out = set_pc (ucast (pos inst 0 65535 0)) out
         in accept_hot H_Lsl F_Rrrci out)
       else (False, out))
     else if ((fld inst 20 0xf) AND 0xf) = 0x5
     then (
       if fld inst 24 0xf = 0x0 \<and> fld inst 29 0x1 = 0x0
       then accept_hot H_Lslx F_Rrr out
       else if ((fld inst 26 0x1) XOR (fld inst 27 0x1)) = 0x1 \<and> fld inst 25 0x1 = 0x1
       then (
         let out = set_cc (ucast (pos inst 24 15 0)) out
         in accept_hot H_Lslx F_Rrrc out)
       else if ((fld inst 29 0x1 = 0x0 \<and> (fld inst 24 0xf < 0x6 \<or> (fld inst 24 0xf > 0xb
          \<or> ((fld inst 24 0xf) AND 0xe) = 0x8))) \<or> (fld inst 29 0x1 = 0x1
          \<and> (fld inst 24 0xf > 0xb \<or> ((fld inst 24 0xf) AND 0xe) = 0x8)))
          \<and> (fld inst 29 0x1 \<noteq> 0x0 \<or> fld inst 24 0xf \<noteq> 0x0)
       then (
         let out = set_cc (ucast (pos inst 24 15 0 OR pos inst 29 1 4)) out;
             out = set_pc (ucast (pos inst 0 65535 0)) out
         in accept_hot H_Lslx F_Rrrci out)
       else (False, out))
     else if ((fld inst 20 0xf) AND 0xf) = 0xe
     then (
       if fld inst 24 0xf = 0x0 \<and> fld inst 29 0x1 = 0x0
       then accept_plain out
       else if ((fld inst 26 0x1) XOR (fld inst 27 0x1)) = 0x1 \<and> fld inst 25 0x1 = 0x1
       then (
         let out = set_cc (ucast (pos inst 24 15 0)) out
         in accept_plain out)
       else if ((fld inst 29 0x1 = 0x0 \<and> (fld inst 24 0xf < 0x6 \<or> (fld inst 24 0xf > 0xb
          \<or> ((fld inst 24 0xf) AND 0xe) = 0x8))) \<or> (fld inst 29 0x1 = 0x1
          \<and> (fld inst 24 0xf > 0xb \<or> ((fld inst 24 0xf) AND 0xe) = 0x8)))
          \<and> (fld inst 29 0x1 \<noteq> 0x0 \<or> fld inst 24 0xf \<noteq> 0x0)
       then (
         let out = set_cc (ucast (pos inst 24 15 0 OR pos inst 29 1 4)) out;
             out = set_pc (ucast (pos inst 0 65535 0)) out
         in accept_plain out)
       else (False, out))
     else decode_at_13214 inst out)"

lemma decode_at_13100_ok: "dec_in {RA, RC, RB} inst out \<Longrightarrow> dec_ok inst (decode_at_13100 inst out)"
  unfolding decode_at_13100_def
  by (rule dec_rules decode_at_13214_ok | assumption | (unfold format_simps, simp))+

definition decode_at_12994 :: "u64 \<Rightarrow> raw_decoded48 \<Rightarrow> bool \<times> raw_decoded48" where
  "decode_at_12994 inst out =
     (let out = set_rc (ucast (pos inst 39 31 0)) out;
         out = set_ra (ucast (pos inst 34 31 0)) out
     in if ((fld inst 20 0xf) AND 0xf) = 0x8
     then (
       if fld inst 24 0xf = 0x0 \<and> fld inst 29 0x1 = 0x0
       then accept_plain out
       else if ((fld inst 26 0x1) XOR (fld inst 27 0x1)) = 0x1 \<and> fld inst 25 0x1 = 0x1
       then (
         let out = set_cc (ucast (pos inst 24 15 0)) out
         in accept_plain out)
       else if ((fld inst 29 0x1 = 0x0 \<and> (fld inst 24 0xf < 0x6 \<or> (fld inst 24 0xf > 0xb
          \<or> ((fld inst 24 0xf) AND 0xe) = 0x8))) \<or> (fld inst 29 0x1 = 0x1
          \<and> (fld inst 24 0xf > 0xb \<or> ((fld inst 24 0xf) AND 0xe) = 0x8)))
          \<and> (fld inst 29 0x1 \<noteq> 0x0 \<or> fld inst 24 0xf \<noteq> 0x0)
       then (
         let out = set_cc (ucast (pos inst 24 15 0 OR pos inst 29 1 4)) out;
             out = set_pc (ucast (pos inst 0 65535 0)) out
         in accept_plain out)
       else (False, out))
     else if ((fld inst 20 0xf) AND 0xf) = 0x6
     then (
       if fld inst 24 0xf = 0x0 \<and> fld inst 29 0x1 = 0x0
       then accept_plain out
       else if ((fld inst 26 0x1) XOR (fld inst 27 0x1)) = 0x1 \<and> fld inst 25 0x1 = 0x1
       then (
         let out = set_cc (ucast (pos inst 24 15 0)) out
         in accept_plain out)
       else if ((fld inst 29 0x1 = 0x0 \<and> (fld inst 24 0xf < 0x6 \<or> (fld inst 24 0xf > 0xb
          \<or> ((fld inst 24 0xf) AND 0xe) = 0x8))) \<or> (fld inst 29 0x1 = 0x1
          \<and> (fld inst 24 0xf > 0xb \<or> ((fld inst 24 0xf) AND 0xe) = 0x8)))
          \<and> (fld inst 29 0x1 \<noteq> 0x0 \<or> fld inst 24 0xf \<noteq> 0x0)
       then (
         let out = set_cc (ucast (pos inst 24 15 0 OR pos inst 29 1 4)) out;
             out = set_pc (ucast (pos inst 0 65535 0)) out
         in accept_plain out)
       else (False, out))
     else if ((fld inst 20 0xf) AND 0xf) = 0x7
     then (
       if fld inst 24 0xf = 0x0 \<and> fld inst 29 0x1 = 0x0
       then accept_plain out
       else if ((fld inst 26 0x1) XOR (fld inst 27 0x1)) = 0x1 \<and> fld inst 25 0x1 = 0x1
       then (
         let out = set_cc (ucast (pos inst 24 15 0)) out
         in accept_plain out)
       else if ((fld inst 29 0x1 = 0x0 \<and> (fld inst 24 0xf < 0x6 \<or> (fld inst 24 0xf > 0xb
          \<or> ((fld inst 24 0xf) AND 0xe) = 0x8))) \<or> (fld inst 29 0x1 = 0x1
          \<and> (fld inst 24 0xf > 0xb \<or> ((fld inst 24 0xf) AND 0xe) = 0x8)))
          \<and> (fld inst 29 0x1 \<noteq> 0x0 \<or> fld inst 24 0xf \<noteq> 0x0)
       then (
         let out = set_cc (ucast (pos inst 24 15 0 OR pos inst 29 1 4)) out;
             out = set_pc (ucast (pos inst 0 65535 0)) out
         in accept_plain out)
       else (False, out))
     else decode_at_13100 inst out)"

lemma decode_at_12994_ok: "dec_in {RB} inst out \<Longrightarrow> dec_ok inst (decode_at_12994 inst out)"
  unfolding decode_at_12994_def
  by (rule dec_rules decode_at_13100_ok | assumption | (unfold format_simps, simp))+

end
