(* ===== verification/Decode_8.thy ===== *)
theory Decode_8
  imports Decode_7
begin

text \<open>
  Part 8 of the decision tree of \<open>decode_raw_word_48\<close> (\<open>dpu/pipeline.cc\<close>). \<open>decode_at_N\<close> is the block
  of the function that starts at source line \<open>N\<close>; a block that is too long for one definition calls
  the definitions of its inner blocks, or of its remaining tests, at the place where the source has
  them. The lemma \<open>decode_at_N_ok\<close> states that the block, entered after the operands on the path to
  it were read, returns with an operand layout that its format announces.
\<close>

definition decode_at_13765 :: "u64 \<Rightarrow> raw_decoded48 \<Rightarrow> bool \<times> raw_decoded48" where
  "decode_at_13765 inst out =
     (if ((fld inst 20 0xf) AND 0xf) = 0xa
     then (
       if fld inst 24 0xf = 0x0 \<and> fld inst 29 0x1 = 0x0
       then accept_plain out
       else if ((fld inst 26 0x1) XOR (fld inst 27 0x1)) = 0x1 \<and> fld inst 25 0x1 = 0x1
       then (
         let out = set_cc (ucast (pos inst 24 15 0)) out
         in accept_plain out)
       else if ((fld inst 29 0x1 = 0x0 \<and> (fld inst 24 0xf < 0x6 \<or> (fld inst 24 0xf > 0xb
          \<or> ((fld inst 24 0xf) AND 0xe) = 0x8))) \<or> (fld inst 29 0x1 = 0x1
          \<and> (fld inst 24 0xf > 0xb \<or> ((fld inst 24 0xf) AND 0xe) = 0x8)))
          \<and> (fld inst 29 0x1 \<noteq> 0x0 \<or> fld inst 24 0xf \<noteq> 0x0)
       then (
         let out = set_cc (ucast (pos inst 24 15 0 OR pos inst 29 1 4)) out;
             out = set_pc (ucast (pos inst 0 65535 0)) out
         in accept_plain out)
       else (False, out))
     else (False, out))"

lemma decode_at_13765_ok: "dec_in {RA, RB} inst out \<Longrightarrow> dec_ok inst (decode_at_13765 inst out)"
  unfolding decode_at_13765_def
  by (rule dec_rules | assumption | (unfold format_simps, simp))+

definition decode_at_13651 :: "u64 \<Rightarrow> raw_decoded48 \<Rightarrow> bool \<times> raw_decoded48" where
  "decode_at_13651 inst out =
     (if ((fld inst 20 0xf) AND 0xf) = 0xc
     then (
       if fld inst 24 0xf = 0x0 \<and> fld inst 29 0x1 = 0x0
       then accept_hot H_Lsr F_Zrr out
       else if ((fld inst 26 0x1) XOR (fld inst 27 0x1)) = 0x1 \<and> fld inst 25 0x1 = 0x1
       then (
         let out = set_cc (ucast (pos inst 24 15 0)) out
         in accept_hot H_Lsr F_Zrrc out)
       else if ((fld inst 29 0x1 = 0x0 \<and> (fld inst 24 0xf < 0x6 \<or> (fld inst 24 0xf > 0xb
          \<or> ((fld inst 24 0xf) AND 0xe) = 0x8))) \<or> (fld inst 29 0x1 = 0x1
          \<and> (fld inst 24 0xf > 0xb \<or> ((fld inst 24 0xf) AND 0xe) = 0x8)))
          \<and> (fld inst 29 0x1 \<noteq> 0x0 \<or> fld inst 24 0xf \<noteq> 0x0)
       then (
         let out = set_cc (ucast (pos inst 24 15 0 OR pos inst 29 1 4)) out;
             out = set_pc (ucast (pos inst 0 65535 0)) out
         in accept_hot H_Lsr F_Zrrci out)
       else (False, out))
     else if ((fld inst 20 0xf) AND 0xf) = 0xd
     then (
       if fld inst 24 0xf = 0x0 \<and> fld inst 29 0x1 = 0x0
       then accept_hot H_Lsrx F_Zrr out
       else if ((fld inst 26 0x1) XOR (fld inst 27 0x1)) = 0x1 \<and> fld inst 25 0x1 = 0x1
       then (
         let out = set_cc (ucast (pos inst 24 15 0)) out
         in accept_hot H_Lsrx F_Zrrc out)
       else if ((fld inst 29 0x1 = 0x0 \<and> (fld inst 24 0xf < 0x6 \<or> (fld inst 24 0xf > 0xb
          \<or> ((fld inst 24 0xf) AND 0xe) = 0x8))) \<or> (fld inst 29 0x1 = 0x1
          \<and> (fld inst 24 0xf > 0xb \<or> ((fld inst 24 0xf) AND 0xe) = 0x8)))
          \<and> (fld inst 29 0x1 \<noteq> 0x0 \<or> fld inst 24 0xf \<noteq> 0x0)
       then (
         let out = set_cc (ucast (pos inst 24 15 0 OR pos inst 29 1 4)) out;
             out = set_pc (ucast (pos inst 0 65535 0)) out
         in accept_hot H_Lsrx F_Zrrci out)
       else (False, out))
     else if ((fld inst 20 0xf) AND 0xf) = 0x2
     then (
       if fld inst 24 0xf = 0x0 \<and> fld inst 29 0x1 = 0x0
       then accept_plain out
       else if ((fld inst 26 0x1) XOR (fld inst 27 0x1)) = 0x1 \<and> fld inst 25 0x1 = 0x1
       then (
         let out = set_cc (ucast (pos inst 24 15 0)) out
         in accept_plain out)
       else if ((fld inst 29 0x1 = 0x0 \<and> (fld inst 24 0xf < 0x6 \<or> (fld inst 24 0xf > 0xb
          \<or> ((fld inst 24 0xf) AND 0xe) = 0x8))) \<or> (fld inst 29 0x1 = 0x1
          \<and> (fld inst 24 0xf > 0xb \<or> ((fld inst 24 0xf) AND 0xe) = 0x8)))
          \<and> (fld inst 29 0x1 \<noteq> 0x0 \<or> fld inst 24 0xf \<noteq> 0x0)
       then (
         let out = set_cc (ucast (pos inst 24 15 0 OR pos inst 29 1 4)) out;
             out = set_pc (ucast (pos inst 0 65535 0)) out
         in accept_plain out)
       else (False, out))
     else decode_at_13765 inst out)"

lemma decode_at_13651_ok: "dec_in {RA, RB} inst out \<Longrightarrow> dec_ok inst (decode_at_13651 inst out)"
  unfolding decode_at_13651_def
  by (rule dec_rules decode_at_13765_ok | assumption | (unfold format_simps, simp))+

definition decode_at_13543 :: "u64 \<Rightarrow> raw_decoded48 \<Rightarrow> bool \<times> raw_decoded48" where
  "decode_at_13543 inst out =
     (if ((fld inst 20 0xf) AND 0xf) = 0x5
     then (
       if fld inst 24 0xf = 0x0 \<and> fld inst 29 0x1 = 0x0
       then accept_hot H_Lslx F_Zrr out
       else if ((fld inst 26 0x1) XOR (fld inst 27 0x1)) = 0x1 \<and> fld inst 25 0x1 = 0x1
       then (
         let out = set_cc (ucast (pos inst 24 15 0)) out
         in accept_hot H_Lslx F_Zrrc out)
       else if ((fld inst 29 0x1 = 0x0 \<and> (fld inst 24 0xf < 0x6 \<or> (fld inst 24 0xf > 0xb
          \<or> ((fld inst 24 0xf) AND 0xe) = 0x8))) \<or> (fld inst 29 0x1 = 0x1
          \<and> (fld inst 24 0xf > 0xb \<or> ((fld inst 24 0xf) AND 0xe) = 0x8)))
          \<and> (fld inst 29 0x1 \<noteq> 0x0 \<or> fld inst 24 0xf \<noteq> 0x0)
       then (
         let out = set_cc (ucast (pos inst 24 15 0 OR pos inst 29 1 4)) out;
             out = set_pc (ucast (pos inst 0 65535 0)) out
         in accept_hot H_Lslx F_Zrrci out)
       else (False, out))
     else if ((fld inst 20 0xf) AND 0xf) = 0xe
     then (
       if fld inst 24 0xf = 0x0 \<and> fld inst 29 0x1 = 0x0
       then accept_plain out
       else if ((fld inst 26 0x1) XOR (fld inst 27 0x1)) = 0x1 \<and> fld inst 25 0x1 = 0x1
       then (
         let out = set_cc (ucast (pos inst 24 15 0)) out
         in accept_plain out)
       else if ((fld inst 29 0x1 = 0x0 \<and> (fld inst 24 0xf < 0x6 \<or> (fld inst 24 0xf > 0xb
          \<or> ((fld inst 24 0xf) AND 0xe) = 0x8))) \<or> (fld inst 29 0x1 = 0x1
          \<and> (fld inst 24 0xf > 0xb \<or> ((fld inst 24 0xf) AND 0xe) = 0x8)))
          \<and> (fld inst 29 0x1 \<noteq> 0x0 \<or> fld inst 24 0xf \<noteq> 0x0)
       then (
         let out = set_cc (ucast (pos inst 24 15 0 OR pos inst 29 1 4)) out;
             out = set_pc (ucast (pos inst 0 65535 0)) out
         in accept_plain out)
       else (False, out))
     else if ((fld inst 20 0xf) AND 0xf) = 0xf
     then (
       if fld inst 24 0xf = 0x0 \<and> fld inst 29 0x1 = 0x0
       then accept_plain out
       else if ((fld inst 26 0x1) XOR (fld inst 27 0x1)) = 0x1 \<and> fld inst 25 0x1 = 0x1
       then (
         let out = set_cc (ucast (pos inst 24 15 0)) out
         in accept_plain out)
       else if ((fld inst 29 0x1 = 0x0 \<and> (fld inst 24 0xf < 0x6 \<or> (fld inst 24 0xf > 0xb
          \<or> ((fld inst 24 0xf) AND 0xe) = 0x8))) \<or> (fld inst 29 0x1 = 0x1
          \<and> (fld inst 24 0xf > 0xb \<or> ((fld inst 24 0xf) AND 0xe) = 0x8)))
          \<and> (fld inst 29 0x1 \<noteq> 0x0 \<or> fld inst 24 0xf \<noteq> 0x0)
       then (
         let out = set_cc (ucast (pos inst 24 15 0 OR pos inst 29 1 4)) out;
             out = set_pc (ucast (pos inst 0 65535 0)) out
         in accept_plain out)
       else (False, out))
     else decode_at_13651 inst out)"

lemma decode_at_13543_ok: "dec_in {RA, RB} inst out \<Longrightarrow> dec_ok inst (decode_at_13543 inst out)"
  unfolding decode_at_13543_def
  by (rule dec_rules decode_at_13651_ok | assumption | (unfold format_simps, simp))+

definition decode_at_13399 :: "u64 \<Rightarrow> raw_decoded48 \<Rightarrow> bool \<times> raw_decoded48" where
  "decode_at_13399 inst out =
     (let out = set_ra (ucast (pos inst 34 31 0)) out
     in if ((fld inst 20 0xf) AND 0xf) = 0x8
     then (
       if fld inst 24 0xf = 0x0 \<and> fld inst 29 0x1 = 0x0
       then accept_plain out
       else if ((fld inst 26 0x1) XOR (fld inst 27 0x1)) = 0x1 \<and> fld inst 25 0x1 = 0x1
       then (
         let out = set_cc (ucast (pos inst 24 15 0)) out
         in accept_plain out)
       else if ((fld inst 29 0x1 = 0x0 \<and> (fld inst 24 0xf < 0x6 \<or> (fld inst 24 0xf > 0xb
          \<or> ((fld inst 24 0xf) AND 0xe) = 0x8))) \<or> (fld inst 29 0x1 = 0x1
          \<and> (fld inst 24 0xf > 0xb \<or> ((fld inst 24 0xf) AND 0xe) = 0x8)))
          \<and> (fld inst 29 0x1 \<noteq> 0x0 \<or> fld inst 24 0xf \<noteq> 0x0)
       then (
         let out = set_cc (ucast (pos inst 24 15 0 OR pos inst 29 1 4)) out;
             out = set_pc (ucast (pos inst 0 65535 0)) out
         in accept_plain out)
       else (False, out))
     else if ((fld inst 20 0xf) AND 0xf) = 0x6
     then (
       if fld inst 24 0xf = 0x0 \<and> fld inst 29 0x1 = 0x0
       then accept_plain out
       else if ((fld inst 26 0x1) XOR (fld inst 27 0x1)) = 0x1 \<and> fld inst 25 0x1 = 0x1
       then (
         let out = set_cc (ucast (pos inst 24 15 0)) out
         in accept_plain out)
       else if ((fld inst 29 0x1 = 0x0 \<and> (fld inst 24 0xf < 0x6 \<or> (fld inst 24 0xf > 0xb
          \<or> ((fld inst 24 0xf) AND 0xe) = 0x8))) \<or> (fld inst 29 0x1 = 0x1
          \<and> (fld inst 24 0xf > 0xb \<or> ((fld inst 24 0xf) AND 0xe) = 0x8)))
          \<and> (fld inst 29 0x1 \<noteq> 0x0 \<or> fld inst 24 0xf \<noteq> 0x0)
       then (
         let out = set_cc (ucast (pos inst 24 15 0 OR pos inst 29 1 4)) out;
             out = set_pc (ucast (pos inst 0 65535 0)) out
         in accept_plain out)
       else (False, out))
     else if ((fld inst 20 0xf) AND 0xf) = 0x7
     then (
       if fld inst 24 0xf = 0x0 \<and> fld inst 29 0x1 = 0x0
       then accept_plain out
       else if ((fld inst 26 0x1) XOR (fld inst 27 0x1)) = 0x1 \<and> fld inst 25 0x1 = 0x1
       then (
         let out = set_cc (ucast (pos inst 24 15 0)) out
         in accept_plain out)
       else if ((fld inst 29 0x1 = 0x0 \<and> (fld inst 24 0xf < 0x6 \<or> (fld inst 24 0xf > 0xb
          \<or> ((fld inst 24 0xf) AND 0xe) = 0x8))) \<or> (fld inst 29 0x1 = 0x1
          \<and> (fld inst 24 0xf > 0xb \<or> ((fld inst 24 0xf) AND 0xe) = 0x8)))
          \<and> (fld inst 29 0x1 \<noteq> 0x0 \<or> fld inst 24 0xf \<noteq> 0x0)
       then (
         let out = set_cc (ucast (pos inst 24 15 0 OR pos inst 29 1 4)) out;
             out = set_pc (ucast (pos inst 0 65535 0)) out
         in accept_plain out)
       else (False, out))
     else if ((fld inst 20 0xf) AND 0xf) = 0x4
     then (
       if fld inst 24 0xf = 0x0 \<and> fld inst 29 0x1 = 0x0
       then accept_hot H_Lsl F_Zrr out
       else if ((fld inst 26 0x1) XOR (fld inst 27 0x1)) = 0x1 \<and> fld inst 25 0x1 = 0x1
       then (
         let out = set_cc (ucast (pos inst 24 15 0)) out
         in accept_hot H_Lsl F_Zrrc out)
       else if ((fld inst 29 0x1 = 0x0 \<and> (fld inst 24 0xf < 0x6 \<or> (fld inst 24 0xf > 0xb
          \<or> ((fld inst 24 0xf) AND 0xe) = 0x8))) \<or> (fld inst 29 0x1 = 0x1
          \<and> (fld inst 24 0xf > 0xb \<or> ((fld inst 24 0xf) AND 0xe) = 0x8)))
          \<and> (fld inst 29 0x1 \<noteq> 0x0 \<or> fld inst 24 0xf \<noteq> 0x0)
       then (
         let out = set_cc (ucast (pos inst 24 15 0 OR pos inst 29 1 4)) out;
             out = set_pc (ucast (pos inst 0 65535 0)) out
         in accept_hot H_Lsl F_Zrrci out)
       else (False, out))
     else decode_at_13543 inst out)"

lemma decode_at_13399_ok: "dec_in {RB} inst out \<Longrightarrow> dec_ok inst (decode_at_13399 inst out)"
  unfolding decode_at_13399_def
  by (rule dec_rules decode_at_13543_ok | assumption | (unfold format_simps, simp))+

definition decode_at_13398 :: "u64 \<Rightarrow> raw_decoded48 \<Rightarrow> bool \<times> raw_decoded48" where
  "decode_at_13398 inst out =
     (if fld inst 42 0x3 = 0x3
     then decode_at_13399 inst out
     else (False, out))"

lemma decode_at_13398_ok: "dec_in {RB} inst out \<Longrightarrow> dec_ok inst (decode_at_13398 inst out)"
  unfolding decode_at_13398_def
  by (rule dec_rules decode_at_13399_ok | assumption | (unfold format_simps, simp))+

definition decode_at_12992 :: "u64 \<Rightarrow> raw_decoded48 \<Rightarrow> bool \<times> raw_decoded48" where
  "decode_at_12992 inst out =
     (if fld inst 42 0x3 \<noteq> 0x3 \<and> fld inst 44 0x1 = 0x0
     then decode_at_12994 inst out
     else decode_at_13398 inst out)"

lemma decode_at_12992_ok: "dec_in {RB} inst out \<Longrightarrow> dec_ok inst (decode_at_12992 inst out)"
  unfolding decode_at_12992_def
   by (rule dec_rules decode_at_12994_ok decode_at_13398_ok | assumption | (unfold format_simps,
      simp))+

definition decode_at_12585 :: "u64 \<Rightarrow> raw_decoded48 \<Rightarrow> bool \<times> raw_decoded48" where
  "decode_at_12585 inst out =
     (if (fld inst 42 0x3 \<noteq> 0x3 \<and> fld inst 44 0x1 = 0x1) \<and> fld inst 39 0x1 = 0x0
     then decode_at_12588 inst out
     else decode_at_12992 inst out)"

lemma decode_at_12585_ok: "dec_in {RB} inst out \<Longrightarrow> dec_ok inst (decode_at_12585 inst out)"
  unfolding decode_at_12585_def
   by (rule dec_rules decode_at_12588_ok decode_at_12992_ok | assumption | (unfold format_simps,
      simp))+

definition decode_at_12178 :: "u64 \<Rightarrow> raw_decoded48 \<Rightarrow> bool \<times> raw_decoded48" where
  "decode_at_12178 inst out =
     (if (fld inst 42 0x3 \<noteq> 0x3 \<and> fld inst 44 0x1 = 0x1) \<and> fld inst 39 0x1 = 0x1
     then decode_at_12181 inst out
     else decode_at_12585 inst out)"

lemma decode_at_12178_ok: "dec_in {RB} inst out \<Longrightarrow> dec_ok inst (decode_at_12178 inst out)"
  unfolding decode_at_12178_def
   by (rule dec_rules decode_at_12181_ok decode_at_12585_ok | assumption | (unfold format_simps,
      simp))+

definition decode_at_13804 :: "u64 \<Rightarrow> raw_decoded48 \<Rightarrow> bool \<times> raw_decoded48" where
  "decode_at_13804 inst out =
     (if (fld inst 42 0x3 \<noteq> 0x3 \<and> fld inst 44 0x1 = 0x1) \<and> fld inst 39 0x1 = 0x1
     then (
       let out = set_dc (ucast (pos inst 40 15 1)) out;
           out = set_ra (ucast (pos inst 34 31 0)) out
       in if fld inst 24 0xf = 0x0
       then accept_plain out
       else if ((fld inst 26 0x1) XOR (fld inst 27 0x1)) = 0x1 \<and> fld inst 25 0x1 = 0x1
       then (
         let out = set_cc (ucast (pos inst 24 15 0)) out
         in accept_plain out)
       else if (fld inst 24 0xf < 0x6 \<or> (fld inst 24 0xf > 0xb
          \<or> ((fld inst 24 0xf) AND 0xe) = 0x8)) \<and> fld inst 24 0xf \<noteq> 0x0
       then (
         let out = set_cc (ucast (pos inst 24 15 0)) out;
             out = set_pc (ucast (pos inst 0 65535 0)) out
         in accept_plain out)
       else (False, out))
     else if (fld inst 42 0x3 \<noteq> 0x3 \<and> fld inst 44 0x1 = 0x1) \<and> fld inst 39 0x1 = 0x0
     then (
       let out = set_dc (ucast (pos inst 40 15 1)) out;
           out = set_ra (ucast (pos inst 34 31 0)) out
       in if fld inst 24 0xf = 0x0
       then accept_plain out
       else if ((fld inst 26 0x1) XOR (fld inst 27 0x1)) = 0x1 \<and> fld inst 25 0x1 = 0x1
       then (
         let out = set_cc (ucast (pos inst 24 15 0)) out
         in accept_plain out)
       else if (fld inst 24 0xf < 0x6 \<or> (fld inst 24 0xf > 0xb
          \<or> ((fld inst 24 0xf) AND 0xe) = 0x8)) \<and> fld inst 24 0xf \<noteq> 0x0
       then (
         let out = set_cc (ucast (pos inst 24 15 0)) out;
             out = set_pc (ucast (pos inst 0 65535 0)) out
         in accept_plain out)
       else (False, out))
     else if fld inst 42 0x3 \<noteq> 0x3 \<and> fld inst 44 0x1 = 0x0
     then (
       let out = set_rc (ucast (pos inst 39 31 0)) out;
           out = set_ra (ucast (pos inst 34 31 0)) out
       in if fld inst 24 0xf = 0x0
       then accept_plain out
       else if ((fld inst 26 0x1) XOR (fld inst 27 0x1)) = 0x1 \<and> fld inst 25 0x1 = 0x1
       then (
         let out = set_cc (ucast (pos inst 24 15 0)) out
         in accept_plain out)
       else if (fld inst 24 0xf < 0x6 \<or> (fld inst 24 0xf > 0xb
          \<or> ((fld inst 24 0xf) AND 0xe) = 0x8)) \<and> fld inst 24 0xf \<noteq> 0x0
       then (
         let out = set_cc (ucast (pos inst 24 15 0)) out;
             out = set_pc (ucast (pos inst 0 65535 0)) out
         in accept_plain out)
       else (False, out))
     else if fld inst 42 0x3 = 0x3
     then (
       let out = set_ra (ucast (pos inst 34 31 0)) out
       in if fld inst 24 0xf = 0x0
       then accept_plain out
       else if ((fld inst 26 0x1) XOR (fld inst 27 0x1)) = 0x1 \<and> fld inst 25 0x1 = 0x1
       then (
         let out = set_cc (ucast (pos inst 24 15 0)) out
         in accept_plain out)
       else if (fld inst 24 0xf < 0x6 \<or> (fld inst 24 0xf > 0xb
          \<or> ((fld inst 24 0xf) AND 0xe) = 0x8)) \<and> fld inst 24 0xf \<noteq> 0x0
       then (
         let out = set_cc (ucast (pos inst 24 15 0)) out;
             out = set_pc (ucast (pos inst 0 65535 0)) out
         in accept_plain out)
       else (False, out))
     else (False, out))"

lemma decode_at_13804_ok: "dec_in {RB} inst out \<Longrightarrow> dec_ok inst (decode_at_13804 inst out)"
  unfolding decode_at_13804_def
  by (rule dec_rules | assumption | (unfold format_simps, simp))+

definition decode_at_13930 :: "u64 \<Rightarrow> raw_decoded48 \<Rightarrow> bool \<times> raw_decoded48" where
  "decode_at_13930 inst out =
     (let out = set_rb (ucast (pos inst 17 7 0 OR pos inst 32 3 3)) out
     in if (fld inst 42 0x3 \<noteq> 0x3 \<and> fld inst 44 0x1 = 0x1) \<and> fld inst 39 0x1 = 0x1
     then (
       let out = set_dc (ucast (pos inst 40 15 1)) out;
           out = set_ra (ucast (pos inst 34 31 0)) out
       in if fld inst 24 0xf = 0x0
       then (
         let out = set_shift (ucast (pos inst 20 15 0 OR pos inst 28 1 4)) out
         in accept_hot H_LslAddS F_Rrri out)
       else if (fld inst 24 0xf < 0x2 \<or> fld inst 24 0xf > 0xb)
          \<and> fld inst 24 0xf \<noteq> 0x0
       then (
         let out = set_cc (ucast (pos inst 24 15 0)) out;
             out = set_pc (ucast (pos inst 0 65535 0)) out;
             out = set_shift (ucast (pos inst 20 15 0 OR pos inst 28 1 4)) out
         in accept_hot H_LslAddS F_Rrrici out)
       else (False, out))
     else if (fld inst 42 0x3 \<noteq> 0x3 \<and> fld inst 44 0x1 = 0x1) \<and> fld inst 39 0x1 = 0x0
     then (
       let out = set_dc (ucast (pos inst 40 15 1)) out;
           out = set_ra (ucast (pos inst 34 31 0)) out
       in if fld inst 24 0xf = 0x0
       then (
         let out = set_shift (ucast (pos inst 20 15 0 OR pos inst 28 1 4)) out
         in accept_hot H_LslAddU F_Rrri out)
       else if (fld inst 24 0xf < 0x2 \<or> fld inst 24 0xf > 0xb)
          \<and> fld inst 24 0xf \<noteq> 0x0
       then (
         let out = set_cc (ucast (pos inst 24 15 0)) out;
             out = set_pc (ucast (pos inst 0 65535 0)) out;
             out = set_shift (ucast (pos inst 20 15 0 OR pos inst 28 1 4)) out
         in accept_hot H_LslAddU F_Rrrici out)
       else (False, out))
     else if fld inst 42 0x3 \<noteq> 0x3 \<and> fld inst 44 0x1 = 0x0
     then (
       let out = set_rc (ucast (pos inst 39 31 0)) out;
           out = set_ra (ucast (pos inst 34 31 0)) out
       in if fld inst 24 0xf = 0x0
       then (
         let out = set_shift (ucast (pos inst 20 15 0 OR pos inst 28 1 4)) out
         in accept_hot H_LslAdd F_Rrri out)
       else if (fld inst 24 0xf < 0x2 \<or> fld inst 24 0xf > 0xb)
          \<and> fld inst 24 0xf \<noteq> 0x0
       then (
         let out = set_cc (ucast (pos inst 24 15 0)) out;
             out = set_pc (ucast (pos inst 0 65535 0)) out;
             out = set_shift (ucast (pos inst 20 15 0 OR pos inst 28 1 4)) out
         in accept_hot H_LslAdd F_Rrrici out)
       else (False, out))
     else if fld inst 42 0x3 = 0x3
     then (
       let out = set_ra (ucast (pos inst 34 31 0)) out
       in if fld inst 24 0xf = 0x0
       then (
         let out = set_shift (ucast (pos inst 20 15 0 OR pos inst 28 1 4)) out
         in accept_hot H_LslAdd F_Zrri out)
       else if (fld inst 24 0xf < 0x2 \<or> fld inst 24 0xf > 0xb)
          \<and> fld inst 24 0xf \<noteq> 0x0
       then (
         let out = set_cc (ucast (pos inst 24 15 0)) out;
             out = set_pc (ucast (pos inst 0 65535 0)) out;
             out = set_shift (ucast (pos inst 20 15 0 OR pos inst 28 1 4)) out
         in accept_hot H_LslAdd F_Zrrici out)
       else (False, out))
     else (False, out))"

lemma decode_at_13930_ok: "dec_in {RB} inst out \<Longrightarrow> dec_ok inst (decode_at_13930 inst out)"
  unfolding decode_at_13930_def
  by (rule dec_rules | assumption | (unfold format_simps, simp))+

definition decode_at_14063 :: "u64 \<Rightarrow> raw_decoded48 \<Rightarrow> bool \<times> raw_decoded48" where
  "decode_at_14063 inst out =
     (let out = set_rb (ucast (pos inst 17 7 0 OR pos inst 32 3 3)) out
     in if (fld inst 42 0x3 \<noteq> 0x3 \<and> fld inst 44 0x1 = 0x1) \<and> fld inst 39 0x1 = 0x1
     then (
       let out = set_dc (ucast (pos inst 40 15 1)) out;
           out = set_ra (ucast (pos inst 34 31 0)) out
       in if fld inst 24 0xf = 0x0
       then (
         let out = set_shift (ucast (pos inst 20 15 0 OR pos inst 28 1 4)) out
         in accept_hot H_LslSubS F_Rrri out)
       else if (fld inst 24 0xf < 0x2 \<or> fld inst 24 0xf > 0xb)
          \<and> fld inst 24 0xf \<noteq> 0x0
       then (
         let out = set_cc (ucast (pos inst 24 15 0)) out;
             out = set_pc (ucast (pos inst 0 65535 0)) out;
             out = set_shift (ucast (pos inst 20 15 0 OR pos inst 28 1 4)) out
         in accept_hot H_LslSubS F_Rrrici out)
       else (False, out))
     else if (fld inst 42 0x3 \<noteq> 0x3 \<and> fld inst 44 0x1 = 0x1) \<and> fld inst 39 0x1 = 0x0
     then (
       let out = set_dc (ucast (pos inst 40 15 1)) out;
           out = set_ra (ucast (pos inst 34 31 0)) out
       in if fld inst 24 0xf = 0x0
       then (
         let out = set_shift (ucast (pos inst 20 15 0 OR pos inst 28 1 4)) out
         in accept_hot H_LslSubU F_Rrri out)
       else if (fld inst 24 0xf < 0x2 \<or> fld inst 24 0xf > 0xb)
          \<and> fld inst 24 0xf \<noteq> 0x0
       then (
         let out = set_cc (ucast (pos inst 24 15 0)) out;
             out = set_pc (ucast (pos inst 0 65535 0)) out;
             out = set_shift (ucast (pos inst 20 15 0 OR pos inst 28 1 4)) out
         in accept_hot H_LslSubU F_Rrrici out)
       else (False, out))
     else if fld inst 42 0x3 \<noteq> 0x3 \<and> fld inst 44 0x1 = 0x0
     then (
       let out = set_rc (ucast (pos inst 39 31 0)) out;
           out = set_ra (ucast (pos inst 34 31 0)) out
       in if fld inst 24 0xf = 0x0
       then (
         let out = set_shift (ucast (pos inst 20 15 0 OR pos inst 28 1 4)) out
         in accept_hot H_LslSub F_Rrri out)
       else if (fld inst 24 0xf < 0x2 \<or> fld inst 24 0xf > 0xb)
          \<and> fld inst 24 0xf \<noteq> 0x0
       then (
         let out = set_cc (ucast (pos inst 24 15 0)) out;
             out = set_pc (ucast (pos inst 0 65535 0)) out;
             out = set_shift (ucast (pos inst 20 15 0 OR pos inst 28 1 4)) out
         in accept_hot H_LslSub F_Rrrici out)
       else (False, out))
     else if fld inst 42 0x3 = 0x3
     then (
       let out = set_ra (ucast (pos inst 34 31 0)) out
       in if fld inst 24 0xf = 0x0
       then (
         let out = set_shift (ucast (pos inst 20 15 0 OR pos inst 28 1 4)) out
         in accept_hot H_LslSub F_Zrri out)
       else if (fld inst 24 0xf < 0x2 \<or> fld inst 24 0xf > 0xb)
          \<and> fld inst 24 0xf \<noteq> 0x0
       then (
         let out = set_cc (ucast (pos inst 24 15 0)) out;
             out = set_pc (ucast (pos inst 0 65535 0)) out;
             out = set_shift (ucast (pos inst 20 15 0 OR pos inst 28 1 4)) out
         in accept_hot H_LslSub F_Zrrici out)
       else (False, out))
     else (False, out))"

lemma decode_at_14063_ok: "dec_in {RB} inst out \<Longrightarrow> dec_ok inst (decode_at_14063 inst out)"
  unfolding decode_at_14063_def
  by (rule dec_rules | assumption | (unfold format_simps, simp))+

definition decode_at_14196 :: "u64 \<Rightarrow> raw_decoded48 \<Rightarrow> bool \<times> raw_decoded48" where
  "decode_at_14196 inst out =
     (let out = set_rb (ucast (pos inst 17 7 0 OR pos inst 32 3 3)) out
     in if (fld inst 42 0x3 \<noteq> 0x3 \<and> fld inst 44 0x1 = 0x1) \<and> fld inst 39 0x1 = 0x1
     then (
       let out = set_dc (ucast (pos inst 40 15 1)) out;
           out = set_ra (ucast (pos inst 34 31 0)) out
       in if fld inst 24 0xf = 0x0
       then (
         let out = set_shift (ucast (pos inst 20 15 0 OR pos inst 28 1 4)) out
         in accept_hot H_LsrAddS F_Rrri out)
       else if (fld inst 24 0xf < 0x2 \<or> fld inst 24 0xf > 0xb)
          \<and> fld inst 24 0xf \<noteq> 0x0
       then (
         let out = set_cc (ucast (pos inst 24 15 0)) out;
             out = set_pc (ucast (pos inst 0 65535 0)) out;
             out = set_shift (ucast (pos inst 20 15 0 OR pos inst 28 1 4)) out
         in accept_hot H_LsrAddS F_Rrrici out)
       else (False, out))
     else if (fld inst 42 0x3 \<noteq> 0x3 \<and> fld inst 44 0x1 = 0x1) \<and> fld inst 39 0x1 = 0x0
     then (
       let out = set_dc (ucast (pos inst 40 15 1)) out;
           out = set_ra (ucast (pos inst 34 31 0)) out
       in if fld inst 24 0xf = 0x0
       then (
         let out = set_shift (ucast (pos inst 20 15 0 OR pos inst 28 1 4)) out
         in accept_hot H_LsrAddU F_Rrri out)
       else if (fld inst 24 0xf < 0x2 \<or> fld inst 24 0xf > 0xb)
          \<and> fld inst 24 0xf \<noteq> 0x0
       then (
         let out = set_cc (ucast (pos inst 24 15 0)) out;
             out = set_pc (ucast (pos inst 0 65535 0)) out;
             out = set_shift (ucast (pos inst 20 15 0 OR pos inst 28 1 4)) out
         in accept_hot H_LsrAddU F_Rrrici out)
       else (False, out))
     else if fld inst 42 0x3 \<noteq> 0x3 \<and> fld inst 44 0x1 = 0x0
     then (
       let out = set_rc (ucast (pos inst 39 31 0)) out;
           out = set_ra (ucast (pos inst 34 31 0)) out
       in if fld inst 24 0xf = 0x0
       then (
         let out = set_shift (ucast (pos inst 20 15 0 OR pos inst 28 1 4)) out
         in accept_hot H_LsrAdd F_Rrri out)
       else if (fld inst 24 0xf < 0x2 \<or> fld inst 24 0xf > 0xb)
          \<and> fld inst 24 0xf \<noteq> 0x0
       then (
         let out = set_cc (ucast (pos inst 24 15 0)) out;
             out = set_pc (ucast (pos inst 0 65535 0)) out;
             out = set_shift (ucast (pos inst 20 15 0 OR pos inst 28 1 4)) out
         in accept_hot H_LsrAdd F_Rrrici out)
       else (False, out))
     else if fld inst 42 0x3 = 0x3
     then (
       let out = set_ra (ucast (pos inst 34 31 0)) out
       in if fld inst 24 0xf = 0x0
       then (
         let out = set_shift (ucast (pos inst 20 15 0 OR pos inst 28 1 4)) out
         in accept_hot H_LsrAdd F_Zrri out)
       else if (fld inst 24 0xf < 0x2 \<or> fld inst 24 0xf > 0xb)
          \<and> fld inst 24 0xf \<noteq> 0x0
       then (
         let out = set_cc (ucast (pos inst 24 15 0)) out;
             out = set_pc (ucast (pos inst 0 65535 0)) out;
             out = set_shift (ucast (pos inst 20 15 0 OR pos inst 28 1 4)) out
         in accept_hot H_LsrAdd F_Zrrici out)
       else (False, out))
     else (False, out))"

lemma decode_at_14196_ok: "dec_in {RB} inst out \<Longrightarrow> dec_ok inst (decode_at_14196 inst out)"
  unfolding decode_at_14196_def
  by (rule dec_rules | assumption | (unfold format_simps, simp))+

definition decode_at_14328 :: "u64 \<Rightarrow> raw_decoded48 \<Rightarrow> bool \<times> raw_decoded48" where
  "decode_at_14328 inst out =
     (if ((fld inst 28 0xf) AND 0xe) = 0x0
     then (
       if (fld inst 42 0x3 \<noteq> 0x3 \<and> fld inst 44 0x1 = 0x1)
          \<and> fld inst 39 0x1 = 0x1
       then (
         let out = set_dc (ucast (pos inst 40 15 1)) out;
             out = set_ra (ucast (pos inst 34 31 0)) out
         in if fld inst 24 0xf = 0x0
         then (
           let out = set_shift (ucast (pos inst 20 15 0 OR pos inst 28 1 4)) out
           in accept_plain out)
         else if (fld inst 24 0xf < 0x2 \<or> fld inst 24 0xf > 0xb)
            \<and> fld inst 24 0xf \<noteq> 0x0
         then (
           let out = set_cc (ucast (pos inst 24 15 0)) out;
               out = set_pc (ucast (pos inst 0 65535 0)) out;
               out = set_shift (ucast (pos inst 20 15 0 OR pos inst 28 1 4)) out
           in accept_plain out)
         else (False, out))
       else if (fld inst 42 0x3 \<noteq> 0x3 \<and> fld inst 44 0x1 = 0x1)
          \<and> fld inst 39 0x1 = 0x0
       then (
         let out = set_dc (ucast (pos inst 40 15 1)) out;
             out = set_ra (ucast (pos inst 34 31 0)) out
         in if fld inst 24 0xf = 0x0
         then (
           let out = set_shift (ucast (pos inst 20 15 0 OR pos inst 28 1 4)) out
           in accept_plain out)
         else if (fld inst 24 0xf < 0x2 \<or> fld inst 24 0xf > 0xb)
            \<and> fld inst 24 0xf \<noteq> 0x0
         then (
           let out = set_cc (ucast (pos inst 24 15 0)) out;
               out = set_pc (ucast (pos inst 0 65535 0)) out;
               out = set_shift (ucast (pos inst 20 15 0 OR pos inst 28 1 4)) out
           in accept_plain out)
         else (False, out))
       else if fld inst 42 0x3 \<noteq> 0x3 \<and> fld inst 44 0x1 = 0x0
       then (
         let out = set_rc (ucast (pos inst 39 31 0)) out;
             out = set_ra (ucast (pos inst 34 31 0)) out
         in if fld inst 24 0xf = 0x0
         then (
           let out = set_shift (ucast (pos inst 20 15 0 OR pos inst 28 1 4)) out
           in accept_plain out)
         else if (fld inst 24 0xf < 0x2 \<or> fld inst 24 0xf > 0xb)
            \<and> fld inst 24 0xf \<noteq> 0x0
         then (
           let out = set_cc (ucast (pos inst 24 15 0)) out;
               out = set_pc (ucast (pos inst 0 65535 0)) out;
               out = set_shift (ucast (pos inst 20 15 0 OR pos inst 28 1 4)) out
           in accept_plain out)
         else (False, out))
       else if fld inst 42 0x3 = 0x3
       then (
         let out = set_ra (ucast (pos inst 34 31 0)) out
         in if fld inst 24 0xf = 0x0
         then (
           let out = set_shift (ucast (pos inst 20 15 0 OR pos inst 28 1 4)) out
           in accept_plain out)
         else if (fld inst 24 0xf < 0x2 \<or> fld inst 24 0xf > 0xb)
            \<and> fld inst 24 0xf \<noteq> 0x0
         then (
           let out = set_cc (ucast (pos inst 24 15 0)) out;
               out = set_pc (ucast (pos inst 0 65535 0)) out;
               out = set_shift (ucast (pos inst 20 15 0 OR pos inst 28 1 4)) out
           in accept_plain out)
         else (False, out))
       else (False, out))
     else (False, out))"

lemma decode_at_14328_ok: "dec_in {RB} inst out \<Longrightarrow> dec_ok inst (decode_at_14328 inst out)"
  unfolding decode_at_14328_def
  by (rule dec_rules | assumption | (unfold format_simps, simp))+

definition decode_at_14195 :: "u64 \<Rightarrow> raw_decoded48 \<Rightarrow> bool \<times> raw_decoded48" where
  "decode_at_14195 inst out =
     (if ((fld inst 28 0xf) AND 0xe) = 0x2
     then decode_at_14196 inst out
     else decode_at_14328 inst out)"

lemma decode_at_14195_ok: "dec_in {RB} inst out \<Longrightarrow> dec_ok inst (decode_at_14195 inst out)"
  unfolding decode_at_14195_def
   by (rule dec_rules decode_at_14196_ok decode_at_14328_ok | assumption | (unfold format_simps,
      simp))+

definition decode_at_14062 :: "u64 \<Rightarrow> raw_decoded48 \<Rightarrow> bool \<times> raw_decoded48" where
  "decode_at_14062 inst out =
     (if ((fld inst 28 0xf) AND 0xe) = 0x6
     then decode_at_14063 inst out
     else decode_at_14195 inst out)"

lemma decode_at_14062_ok: "dec_in {RB} inst out \<Longrightarrow> dec_ok inst (decode_at_14062 inst out)"
  unfolding decode_at_14062_def
   by (rule dec_rules decode_at_14063_ok decode_at_14195_ok | assumption | (unfold format_simps,
      simp))+

definition decode_at_13929 :: "u64 \<Rightarrow> raw_decoded48 \<Rightarrow> bool \<times> raw_decoded48" where
  "decode_at_13929 inst out =
     (if ((fld inst 28 0xf) AND 0xe) = 0x4
     then decode_at_13930 inst out
     else decode_at_14062 inst out)"

lemma decode_at_13929_ok: "dec_in {RB} inst out \<Longrightarrow> dec_ok inst (decode_at_13929 inst out)"
  unfolding decode_at_13929_def
   by (rule dec_rules decode_at_13930_ok decode_at_14062_ok | assumption | (unfold format_simps,
      simp))+

definition decode_at_13803 :: "u64 \<Rightarrow> raw_decoded48 \<Rightarrow> bool \<times> raw_decoded48" where
  "decode_at_13803 inst out =
     (if ((fld inst 28 0xf) AND 0xc) = 0x8
     then decode_at_13804 inst out
     else decode_at_13929 inst out)"

lemma decode_at_13803_ok: "dec_in {RB} inst out \<Longrightarrow> dec_ok inst (decode_at_13803 inst out)"
  unfolding decode_at_13803_def
   by (rule dec_rules decode_at_13804_ok decode_at_13929_ok | assumption | (unfold format_simps,
      simp))+

definition decode_at_12177 :: "u64 \<Rightarrow> raw_decoded48 \<Rightarrow> bool \<times> raw_decoded48" where
  "decode_at_12177 inst out =
     (if ((fld inst 28 0xf) AND 0xd) = 0xd
     then decode_at_12178 inst out
     else decode_at_13803 inst out)"

lemma decode_at_12177_ok: "dec_in {RB} inst out \<Longrightarrow> dec_ok inst (decode_at_12177 inst out)"
  unfolding decode_at_12177_def
   by (rule dec_rules decode_at_12178_ok decode_at_13803_ok | assumption | (unfold format_simps,
      simp))+

definition decode_at_10922 :: "u64 \<Rightarrow> raw_decoded48 \<Rightarrow> bool \<times> raw_decoded48" where
  "decode_at_10922 inst out =
     (let out = set_rb (ucast (pos inst 17 7 0 OR pos inst 32 3 3)) out
     in if ((fld inst 28 0xf) AND 0xf) = 0xc
     then decode_at_10926 inst out
     else decode_at_12177 inst out)"

lemma decode_at_10922_ok: "dec_in {} inst out \<Longrightarrow> dec_ok inst (decode_at_10922 inst out)"
  unfolding decode_at_10922_def
   by (rule dec_rules decode_at_10926_ok decode_at_12177_ok | assumption | (unfold format_simps,
      simp))+

definition decode_at_14444 :: "u64 \<Rightarrow> raw_decoded48 \<Rightarrow> bool \<times> raw_decoded48" where
  "decode_at_14444 inst out =
     (if fld inst 32 0x3 \<noteq> 0x3 \<and> fld inst 16 0x1 = 0x1
     then (
       let out = set_db (ucast (pos inst 17 7 0 OR pos inst 32 3 3)) out
       in if ((fld inst 28 0xf) AND 0xe) = 0x6
       then (
         if fld inst 42 0x3 \<noteq> 0x3
         then (
           let out = set_dc (ucast (pos inst 39 31 0)) out
           in if fld inst 24 0xf < 0x2 \<or> fld inst 24 0xf > 0xb
           then (
             let out = set_cc (ucast (pos inst 24 15 0)) out;
                 out = set_ra (ucast (pos inst 34 31 0)) out;
                 out = set_pc (ucast (pos inst 0 65535 0)) out;
                 out = set_shift (ucast (pos inst 20 15 0 OR pos inst 28 1 4)) out
             in accept_hot H_DivStep F_Rrrici out)
           else (False, out))
         else (False, out))
       else if ((fld inst 28 0xf) AND 0xf) = 0x2
       then (
         if fld inst 42 0x3 \<noteq> 0x3
         then (
           let out = set_dc (ucast (pos inst 39 31 0)) out
           in if fld inst 34 0x1f = 0x18
           then (
             let out = set_ra (ucast (pos inst 34 31 0)) out
             in if fld inst 24 0xf < 0x6 \<or> fld inst 24 0xf > 0xb
             then (
               let out = set_cc (ucast (pos inst 24 15 0)) out;
                   out = set_pc (ucast (pos inst 0 65535 0)) out
               in accept_hot H_Movd F_Rrci out)
             else (False, out))
           else (False, out))
         else (False, out))
       else if ((fld inst 28 0xf) AND 0xe) = 0x4
       then (
         if fld inst 42 0x3 \<noteq> 0x3
         then (
           let out = set_dc (ucast (pos inst 39 31 0)) out
           in if fld inst 34 0x1f \<noteq> 0x18
           then (
             let out = set_ra (ucast (pos inst 34 31 0)) out
             in if fld inst 24 0xf < 0x6 \<or> fld inst 24 0xf > 0xb
             then (
               let out = set_cc (ucast (pos inst 24 15 0)) out;
                   out = set_pc (ucast (pos inst 0 65535 0)) out;
                   out = set_shift (ucast (pos inst 20 15 0 OR pos inst 28 1 4)) out
               in accept_hot H_MulStep F_Rrrici out)
             else (False, out))
           else (False, out))
         else (False, out))
       else if ((fld inst 28 0xf) AND 0xf) = 0xa
       then (
         if fld inst 42 0x3 \<noteq> 0x3
         then (
           let out = set_dc (ucast (pos inst 39 31 0)) out
           in if fld inst 34 0x1f = 0x18
           then (
             let out = set_ra (ucast (pos inst 34 31 0)) out
             in if fld inst 24 0xf < 0x6 \<or> fld inst 24 0xf > 0xb
             then (
               let out = set_cc (ucast (pos inst 24 15 0)) out;
                   out = set_pc (ucast (pos inst 0 65535 0)) out
               in accept_hot H_Swapd F_Rrci out)
             else (False, out))
           else (False, out))
         else (False, out))
       else (False, out))
     else (False, out))"

lemma decode_at_14444_ok: "dec_in {} inst out \<Longrightarrow> dec_ok inst (decode_at_14444 inst out)"
  unfolding decode_at_14444_def
  by (rule dec_rules | assumption | (unfold format_simps, simp))+

definition decode_at_10920 :: "u64 \<Rightarrow> raw_decoded48 \<Rightarrow> bool \<times> raw_decoded48" where
  "decode_at_10920 inst out =
     (if fld inst 32 0x3 \<noteq> 0x3 \<and> fld inst 16 0x1 = 0x0
     then decode_at_10922 inst out
     else decode_at_14444 inst out)"

lemma decode_at_10920_ok: "dec_in {} inst out \<Longrightarrow> dec_ok inst (decode_at_10920 inst out)"
  unfolding decode_at_10920_def
   by (rule dec_rules decode_at_10922_ok decode_at_14444_ok | assumption | (unfold format_simps,
      simp))+

definition decode_at_7017 :: "u64 \<Rightarrow> raw_decoded48 \<Rightarrow> bool \<times> raw_decoded48" where
  "decode_at_7017 inst out =
     (if fld inst 32 0x3 = 0x3
     then decode_at_7018 inst out
     else decode_at_10920 inst out)"

lemma decode_at_7017_ok: "dec_in {} inst out \<Longrightarrow> dec_ok inst (decode_at_7017 inst out)"
  unfolding decode_at_7017_def
   by (rule dec_rules decode_at_7018_ok decode_at_10920_ok | assumption | (unfold format_simps,
      simp))+

definition decode_at_7016 :: "u64 \<Rightarrow> raw_decoded48 \<Rightarrow> bool \<times> raw_decoded48" where
  "decode_at_7016 inst out =
     (if fld inst 45 0x7 = 0x4
     then decode_at_7017 inst out
     else (False, out))"

lemma decode_at_7016_ok: "dec_in {} inst out \<Longrightarrow> dec_ok inst (decode_at_7016 inst out)"
  unfolding decode_at_7016_def
  by (rule dec_rules decode_at_7017_ok | assumption | (unfold format_simps, simp))+

definition decode_at_6912 :: "u64 \<Rightarrow> raw_decoded48 \<Rightarrow> bool \<times> raw_decoded48" where
  "decode_at_6912 inst out =
     (if fld inst 45 0x7 = 0x1 \<and> fld inst 42 0x3 \<noteq> 0x3
     then (
       if fld inst 32 0x3 \<noteq> 0x3 \<and> fld inst 16 0x1 = 0x0
       then (
         let out = set_rb (ucast (pos inst 17 7 0 OR pos inst 32 3 3)) out
         in if fld inst 42 0x3 \<noteq> 0x3 \<and> fld inst 39 0x1 = 0x1
         then (
           let out = set_dc (ucast (pos inst 40 15 1)) out
           in if fld inst 37 0x3 = 0x3
           then (
             let out = set_imm (ucast (pos inst 20 15 0 OR pos inst 34 7 4 OR pos inst 44 1 7 OR
                                   pos inst 15 1 8 OR pos inst 14 1 9 OR pos inst 13 1 10 OR
                                   pos inst 12 1 11 OR pos inst 0 4095 12 OR pos inst 24 255 24)) out
             in accept_hot H_AndS F_Rri out)
           else (False, out))
         else if fld inst 42 0x3 \<noteq> 0x3 \<and> fld inst 39 0x1 = 0x0
         then (
           let out = set_dc (ucast (pos inst 40 15 1)) out
           in if fld inst 37 0x3 = 0x3
           then (
             let out = set_imm (ucast (pos inst 20 15 0 OR pos inst 34 7 4 OR pos inst 44 1 7 OR
                                   pos inst 15 1 8 OR pos inst 14 1 9 OR pos inst 13 1 10 OR
                                   pos inst 12 1 11 OR pos inst 0 4095 12 OR pos inst 24 255 24)) out
             in accept_hot H_AndU F_Rri out)
           else (False, out))
         else (False, out))
       else if fld inst 32 0x3 = 0x3
       then (
         if fld inst 44 0xf = 0x2 \<and> fld inst 42 0x3 \<noteq> 0x3
         then (
           if fld inst 42 0x3 \<noteq> 0x3
           then (
             let out = set_rc (ucast (pos inst 39 31 0)) out;
                 out = set_ra (ucast (pos inst 34 31 0)) out;
                 out = set_imm (ucast (pos inst 20 15 0 OR pos inst 16 15 4 OR pos inst 15 1 8 OR
                                   pos inst 14 1 9 OR pos inst 13 1 10 OR pos inst 12 1 11 OR
                                   pos inst 0 4095 12 OR pos inst 24 255 24)) out
             in accept_hot H_Sub F_Rir out)
           else (False, out))
         else if fld inst 44 0xf = 0x3 \<and> fld inst 42 0x3 \<noteq> 0x3
         then (
           if fld inst 42 0x3 \<noteq> 0x3
           then (
             let out = set_rc (ucast (pos inst 39 31 0)) out;
                 out = set_ra (ucast (pos inst 34 31 0)) out;
                 out = set_imm (ucast (pos inst 20 15 0 OR pos inst 16 15 4 OR pos inst 15 1 8 OR
                                   pos inst 14 1 9 OR pos inst 13 1 10 OR pos inst 12 1 11 OR
                                   pos inst 0 4095 12 OR pos inst 24 255 24)) out
             in accept_hot H_Subc F_Rir out)
           else (False, out))
         else (False, out))
       else (False, out))
     else decode_at_7016 inst out)"

lemma decode_at_6912_ok: "dec_in {} inst out \<Longrightarrow> dec_ok inst (decode_at_6912 inst out)"
  unfolding decode_at_6912_def
  by (rule dec_rules decode_at_7016_ok | assumption | (unfold format_simps, simp))+

definition decode_at_6766 :: "u64 \<Rightarrow> raw_decoded48 \<Rightarrow> bool \<times> raw_decoded48" where
  "decode_at_6766 inst out =
     (if fld inst 45 0x7 = 0x2 \<and> fld inst 42 0x3 \<noteq> 0x3
     then decode_at_6768 inst out
     else decode_at_6912 inst out)"

lemma decode_at_6766_ok: "dec_in {} inst out \<Longrightarrow> dec_ok inst (decode_at_6766 inst out)"
  unfolding decode_at_6766_def
   by (rule dec_rules decode_at_6768_ok decode_at_6912_ok | assumption | (unfold format_simps,
      simp))+

definition decode_at_6681 :: "u64 \<Rightarrow> raw_decoded48 \<Rightarrow> bool \<times> raw_decoded48" where
  "decode_at_6681 inst out =
     (if fld inst 44 0xf = 0x6 \<and> fld inst 42 0x3 \<noteq> 0x3
     then (
       if fld inst 32 0x3 \<noteq> 0x3 \<and> fld inst 16 0x1 = 0x0
       then (
         let out = set_rb (ucast (pos inst 17 7 0 OR pos inst 32 3 3)) out
         in if fld inst 37 0x3 = 0x3
         then (
           let out = set_imm (ucast (pos inst 20 15 0 OR pos inst 34 7 4 OR pos inst 39 1 7 OR
                                 pos inst 15 1 8 OR pos inst 14 1 9 OR pos inst 13 1 10 OR
                                 pos inst 12 1 11 OR pos inst 0 4095 12 OR pos inst 24 255 24)) out
           in if ((fld inst 39 0x1f) AND 0x1e) = 0x0
           then accept_hot H_Add F_Zri out
           else if ((fld inst 39 0x1f) AND 0x1e) = 0x2
           then accept_hot H_Addc F_Zri out
           else if ((fld inst 39 0x1f) AND 0x1e) = 0xa
           then accept_hot H_And F_Zri out
           else if ((fld inst 39 0x1f) AND 0x1e) = 0xc
           then accept_hot H_Or F_Zri out
           else if ((fld inst 39 0x1f) AND 0x1e) = 0x4
           then accept_hot H_Sub F_Zir out
           else if ((fld inst 39 0x1f) AND 0x1e) = 0x6
           then accept_hot H_Subc F_Zir out
           else if ((fld inst 39 0x1f) AND 0x1e) = 0x8
           then accept_plain out
           else (False, out))
         else (False, out))
       else if fld inst 32 0x3 = 0x3
       then (
         let out = set_ra (ucast (pos inst 34 31 0)) out;
             out = set_imm (ucast (pos inst 20 15 0 OR pos inst 16 15 4 OR pos inst 15 1 8 OR
                               pos inst 14 1 9 OR pos inst 13 1 10 OR pos inst 12 1 11 OR
                               pos inst 0 4095 12 OR pos inst 24 255 24)) out
         in if fld inst 42 0x3 \<noteq> 0x3
         then (
           let out = set_rc (ucast (pos inst 39 31 0)) out
           in accept_hot H_Or F_Rri out)
         else (False, out))
       else (False, out))
     else decode_at_6766 inst out)"

lemma decode_at_6681_ok: "dec_in {} inst out \<Longrightarrow> dec_ok inst (decode_at_6681 inst out)"
  unfolding decode_at_6681_def
  by (rule dec_rules decode_at_6766_ok | assumption | (unfold format_simps, simp))+

definition decode_at_2593 :: "u64 \<Rightarrow> raw_decoded48 \<Rightarrow> bool \<times> raw_decoded48" where
  "decode_at_2593 inst out =
     (if (fld inst 47 0x1 = 0x0 \<and> fld inst 44 0x7 \<noteq> 0x7) \<and> fld inst 42 0x3 = 0x3
     then decode_at_2596 inst out
     else decode_at_6681 inst out)"

lemma decode_at_2593_ok: "dec_in {} inst out \<Longrightarrow> dec_ok inst (decode_at_2593 inst out)"
  unfolding decode_at_2593_def
   by (rule dec_rules decode_at_2596_ok decode_at_6681_ok | assumption | (unfold format_simps,
      simp))+

definition decode_at_2493 :: "u64 \<Rightarrow> raw_decoded48 \<Rightarrow> bool \<times> raw_decoded48" where
  "decode_at_2493 inst out =
     (if fld inst 45 0x7 = 0x0 \<and> fld inst 42 0x3 \<noteq> 0x3
     then (
       if fld inst 32 0x3 \<noteq> 0x3 \<and> fld inst 16 0x1 = 0x0
       then (
         let out = set_rb (ucast (pos inst 17 7 0 OR pos inst 32 3 3)) out
         in if fld inst 42 0x3 \<noteq> 0x3 \<and> fld inst 39 0x1 = 0x1
         then (
           let out = set_dc (ucast (pos inst 40 15 1)) out
           in if fld inst 37 0x3 = 0x3
           then (
             let out = set_imm (ucast (pos inst 20 15 0 OR pos inst 34 7 4 OR pos inst 44 1 7 OR
                                   pos inst 15 1 8 OR pos inst 14 1 9 OR pos inst 13 1 10 OR
                                   pos inst 12 1 11 OR pos inst 0 4095 12 OR pos inst 24 255 24)) out
             in accept_plain out)
           else (False, out))
         else if fld inst 42 0x3 \<noteq> 0x3 \<and> fld inst 39 0x1 = 0x0
         then (
           let out = set_dc (ucast (pos inst 40 15 1)) out
           in if fld inst 37 0x3 = 0x3
           then (
             let out = set_imm (ucast (pos inst 20 15 0 OR pos inst 34 7 4 OR pos inst 44 1 7 OR
                                   pos inst 15 1 8 OR pos inst 14 1 9 OR pos inst 13 1 10 OR
                                   pos inst 12 1 11 OR pos inst 0 4095 12 OR pos inst 24 255 24)) out
             in accept_plain out)
           else (False, out))
         else (False, out))
       else if fld inst 32 0x3 = 0x3
       then (
         if fld inst 44 0xf = 0x0 \<and> fld inst 42 0x3 \<noteq> 0x3
         then (
           if fld inst 42 0x3 \<noteq> 0x3
           then (
             let out = set_rc (ucast (pos inst 39 31 0)) out;
                 out = set_ra (ucast (pos inst 34 31 0)) out;
                 out = set_imm (ucast (pos inst 20 15 0 OR pos inst 16 15 4 OR pos inst 15 1 8 OR
                                   pos inst 14 1 9 OR pos inst 13 1 10 OR pos inst 12 1 11 OR
                                   pos inst 0 4095 12 OR pos inst 24 255 24)) out
             in accept_hot H_Add F_Rri out)
           else (False, out))
         else if fld inst 44 0xf = 0x1 \<and> fld inst 42 0x3 \<noteq> 0x3
         then (
           if fld inst 42 0x3 \<noteq> 0x3
           then (
             let out = set_rc (ucast (pos inst 39 31 0)) out;
                 out = set_ra (ucast (pos inst 34 31 0)) out;
                 out = set_imm (ucast (pos inst 20 15 0 OR pos inst 16 15 4 OR pos inst 15 1 8 OR
                                   pos inst 14 1 9 OR pos inst 13 1 10 OR pos inst 12 1 11 OR
                                   pos inst 0 4095 12 OR pos inst 24 255 24)) out
             in accept_hot H_Addc F_Rri out)
           else (False, out))
         else (False, out))
       else (False, out))
     else decode_at_2593 inst out)"

lemma decode_at_2493_ok: "dec_in {} inst out \<Longrightarrow> dec_ok inst (decode_at_2493 inst out)"
  unfolding decode_at_2493_def
  by (rule dec_rules decode_at_2593_ok | assumption | (unfold format_simps, simp))+

definition decode_at_1704 :: "u64 \<Rightarrow> raw_decoded48 \<Rightarrow> bool \<times> raw_decoded48" where
  "decode_at_1704 inst out =
     (if fld inst 44 0xf = 0x7
     then decode_at_1705 inst out
     else decode_at_2493 inst out)"

lemma decode_at_1704_ok: "dec_in {} inst out \<Longrightarrow> dec_ok inst (decode_at_1704 inst out)"
  unfolding decode_at_1704_def
   by (rule dec_rules decode_at_1705_ok decode_at_2493_ok | assumption | (unfold format_simps,
      simp))+

end
