(* ===== verification/Decoder.thy ===== *)
theory Decoder
  imports Decode_8
begin

text \<open>
  The decoder \<open>decode_raw_word_48\<close> as a whole (\<open>dpu/pipeline.cc\<close>), assembled from the blocks of
  \<open>Decode_1\<close> to \<open>Decode_8\<close>, the decoding step of \<open>execute_once\<close> (decode, then derive the execution
  metadata) and what the executor relies on: register indices and condition codes in range, formats
  that carry the operands they announce, and metadata that is set only for accepted words.
\<close>

definition decode_raw_word_48 :: "u64 \<Rightarrow> bool \<times> raw_decoded48" where
  "decode_raw_word_48 instruction = decode_at_1704 instruction raw_decoded48_init"

text \<open>What \<open>execute_once\<close> stores in its decode cache for a word.\<close>

definition decode_word :: "u64 \<Rightarrow> raw_decoded48" where
  "decode_word instruction =
     (let (accepted, decoded) = decode_raw_word_48 instruction
      in if accepted then populate_hot_metadata_48 decoded else decoded)"

lemma decode_ok: "dec_ok inst (decode_raw_word_48 inst)"
  unfolding decode_raw_word_48_def by (rule decode_at_1704_ok) (rule dec_init)

section \<open>Operand ranges\<close>

lemma within_pos: "within (pos inst n m s) (push_bit s m)"
  by (auto simp: within_def pos_def fld_def bit_eq_iff bit_and_iff bit_push_bit_iff)

lemma within_ucast: "within v m \<Longrightarrow> within (ucast v :: u32) (ucast m)" for v m :: u64
  by (auto simp: within_def bit_eq_iff bit_and_iff bit_ucast_iff)

lemma pos_le:
  "(ucast (pos inst n m s) :: u32) \<le> ucast (push_bit s m)"
  "(ucast (pos inst n m s OR pos inst n' m' s') :: u32) \<le> ucast (push_bit s m OR push_bit s' m')"
  by (intro within_le within_ucast within_or within_pos)+

definition operands_bounded :: "raw_decoded48 \<Rightarrow> bool" where
  "operands_bounded d \<longleftrightarrow>
     rd_ra d \<le> 31 \<and> rd_rb d \<le> 31 \<and> rd_rc d \<le> 31 \<and> rd_dc d \<le> 31 \<and> rd_db d \<le> 31 \<and>
     rd_pc d \<le> 65535 \<and> rd_shift d \<le> 31 \<and> rd_immDma d \<le> 255 \<and> rd_endian d \<le> 1 \<and> rd_cc d \<le> 63"

lemma member_le: "x \<in> set xs \<Longrightarrow> list_all (\<lambda>y. y \<le> m) xs \<Longrightarrow> x \<le> m" for x :: u32
  by (auto simp: list_all_iff)

lemma operand_places_le:
  "(ucast (pos inst 34 31 0) :: u32) \<le> 31" "(ucast (pos inst 17 7 0 OR pos inst 32 3 3) :: u32) \<le> 31"
  "(ucast (pos inst 39 31 0) :: u32) \<le> 31" "(ucast (pos inst 39 7 0 OR pos inst 44 3 3) :: u32) \<le> 31"
  "(ucast (pos inst 40 15 1) :: u32) \<le> 31" "(ucast (pos inst 40 3 1 OR pos inst 44 3 3) :: u32) \<le> 31"
  "(ucast (pos inst 0 65535 0) :: u32) \<le> 65535"
  "(ucast (pos inst 20 15 0 OR pos inst 28 1 4) :: u32) \<le> 31"
  "(ucast (pos inst 24 255 0) :: u32) \<le> 255" "(ucast (pos inst 27 1 0) :: u32) \<le> 1"
  subgoal using pos_le(1) [of inst 34 31 0] by simp
  subgoal using pos_le(2) [of inst 17 7 0 32 3 3] by simp
  subgoal using pos_le(1) [of inst 39 31 0] by simp
  subgoal using pos_le(2) [of inst 39 7 0 44 3 3] by simp
  subgoal using order_trans [OF pos_le(1) [of inst 40 15 1]] by simp
  subgoal using order_trans [OF pos_le(2) [of inst 40 3 1 44 3 3]] by simp
  subgoal using pos_le(1) [of inst 0 65535 0] by simp
  subgoal using pos_le(2) [of inst 20 15 0 28 1 4] by simp
  subgoal using pos_le(1) [of inst 24 255 0] by simp
  subgoal using pos_le(1) [of inst 27 1 0] by simp
  done

lemma condition_places_le:
  "(ucast (pos inst 24 3 0) :: u32) \<le> 63" "(ucast (pos inst 24 15 0) :: u32) \<le> 63"
  "(ucast (pos inst 24 31 0) :: u32) \<le> 63"
  "(ucast (pos inst 24 15 0 OR pos inst 29 1 4) :: u32) \<le> 63"
  "(ucast (pos inst 24 31 0 OR pos inst 30 1 5) :: u32) \<le> 63"
  subgoal using order_trans [OF pos_le(1) [of inst 24 3 0]] by simp
  subgoal using order_trans [OF pos_le(1) [of inst 24 15 0]] by simp
  subgoal using order_trans [OF pos_le(1) [of inst 24 31 0]] by simp
  subgoal using order_trans [OF pos_le(2) [of inst 24 15 0 29 1 4]] by simp
  subgoal using pos_le(2) [of inst 24 31 0 30 1 5] by simp
  done

lemmas places_le = operand_places_le condition_places_le word_zero_le

lemma if_le: "(b \<Longrightarrow> x \<le> m) \<Longrightarrow> 0 \<le> m \<Longrightarrow> (if b then x else 0) \<le> m" for x :: u32
  by simp

lemma placed_bounded:
  assumes "operands_placed inst d"
  shows "operands_bounded d"
  unfolding operands_bounded_def
  using assms unfolding operands_placed_def
  by (elim conjE, intro conjI)
    ((erule member_le, (simp only: list.pred_inject simp_thms, intro conjI TrueI; rule places_le))
     | (erule ssubst, rule if_le; rule places_le))+

section \<open>Metadata\<close>

text \<open>Deriving the metadata changes nothing else, needs to be done once only, and marks nothing but
  accepted words with an operation as executable by the hot path.\<close>

lemma reset_if:
  "reset_hot_metadata_48 (if c then a else b) =
     (if c then reset_hot_metadata_48 a else reset_hot_metadata_48 b)"
  by simp

lemma reset_update:
  "reset_hot_metadata_48 (d\<lparr>rd_off_uses_sign_extend24 := v_off_uses_sign_extend24\<rparr>) = reset_hot_metadata_48 d"
  "reset_hot_metadata_48 (d\<lparr>rd_cc_kind := v_cc_kind\<rparr>) = reset_hot_metadata_48 d"
  "reset_hot_metadata_48 (d\<lparr>rd_cc_subword_bits := v_cc_subword_bits\<rparr>) = reset_hot_metadata_48 d"
  "reset_hot_metadata_48 (d\<lparr>rd_cc_map_kind := v_cc_map_kind\<rparr>) = reset_hot_metadata_48 d"
  "reset_hot_metadata_48 (d\<lparr>rd_writeback_mode := v_writeback_mode\<rparr>) = reset_hot_metadata_48 d"
  "reset_hot_metadata_48 (d\<lparr>rd_mul_byte_pair_mode := v_mul_byte_pair_mode\<rparr>) = reset_hot_metadata_48 d"
  "reset_hot_metadata_48 (d\<lparr>rd_store_source_mode := v_store_source_mode\<rparr>) = reset_hot_metadata_48 d"
  "reset_hot_metadata_48 (d\<lparr>rd_hot_supported := v_hot_supported\<rparr>) = reset_hot_metadata_48 d"
  "reset_hot_metadata_48 (d\<lparr>rd_imm_is_signed8 := v_imm_is_signed8\<rparr>) = reset_hot_metadata_48 d"
  "reset_hot_metadata_48 (d\<lparr>rd_imm_passthrough := v_imm_passthrough\<rparr>) = reset_hot_metadata_48 d"
  "reset_hot_metadata_48 (d\<lparr>rd_suppress_scalar_write := v_suppress_scalar_write\<rparr>) = reset_hot_metadata_48 d"
  "reset_hot_metadata_48 (d\<lparr>rd_acquire_is_release := v_acquire_is_release\<rparr>) = reset_hot_metadata_48 d"
  "reset_hot_metadata_48 (d\<lparr>rd_dma_to_mram := v_dma_to_mram\<rparr>) = reset_hot_metadata_48 d"
  "reset_hot_metadata_48 (d\<lparr>rd_movd_is_swap := v_movd_is_swap\<rparr>) = reset_hot_metadata_48 d"
  "reset_hot_metadata_48 (d\<lparr>rd_clz_invert_input := v_clz_invert_input\<rparr>) = reset_hot_metadata_48 d"
  "reset_hot_metadata_48 (d\<lparr>rd_time_cfg_uses_ra := v_time_cfg_uses_ra\<rparr>) = reset_hot_metadata_48 d"
  "reset_hot_metadata_48 (d\<lparr>rd_sub_lhs_is_imm := v_sub_lhs_is_imm\<rparr>) = reset_hot_metadata_48 d"
  "reset_hot_metadata_48 (d\<lparr>rd_sub_rhs_is_reg := v_sub_rhs_is_reg\<rparr>) = reset_hot_metadata_48 d"
  "reset_hot_metadata_48 (d\<lparr>rd_sub_is_rrrc := v_sub_is_rrrc\<rparr>) = reset_hot_metadata_48 d"
  "reset_hot_metadata_48 (d\<lparr>rd_sub_is_zrrc := v_sub_is_zrrc\<rparr>) = reset_hot_metadata_48 d"
  "reset_hot_metadata_48 (d\<lparr>rd_subc_lhs_is_imm := v_subc_lhs_is_imm\<rparr>) = reset_hot_metadata_48 d"
  "reset_hot_metadata_48 (d\<lparr>rd_subc_rhs_is_reg := v_subc_rhs_is_reg\<rparr>) = reset_hot_metadata_48 d"
  "reset_hot_metadata_48 (d\<lparr>rd_subc_is_rrrc := v_subc_is_rrrc\<rparr>) = reset_hot_metadata_48 d"
  "reset_hot_metadata_48 (d\<lparr>rd_subc_is_zrrc := v_subc_is_zrrc\<rparr>) = reset_hot_metadata_48 d"
  by (simp_all add: reset_hot_metadata_48_def)

lemma reset_populate_parts:
  "reset_hot_metadata_48 (populate_memory_ops op fmt d) = reset_hot_metadata_48 d"
  "reset_hot_metadata_48 (populate_shift_ops op fmt d) = reset_hot_metadata_48 d"
  "reset_hot_metadata_48 (populate_alu_ops op fmt d) = reset_hot_metadata_48 d"
proof -
  show 1: "reset_hot_metadata_48 (populate_memory_ops op fmt d) = reset_hot_metadata_48 d" for op fmt d
    unfolding populate_memory_ops_def reset_if reset_update by (simp only: if_cancel)
  show 2: "reset_hot_metadata_48 (populate_shift_ops op fmt d) = reset_hot_metadata_48 d" for op fmt d
    unfolding populate_shift_ops_def reset_if reset_update 1 by (simp only: if_cancel)
  show "reset_hot_metadata_48 (populate_alu_ops op fmt d) = reset_hot_metadata_48 d"
    unfolding populate_alu_ops_def reset_if reset_update 2 by (simp only: if_cancel)
qed

lemma reset_reset: "reset_hot_metadata_48 (reset_hot_metadata_48 d) = reset_hot_metadata_48 d"
  by (simp add: reset_hot_metadata_48_def)

lemma reset_populate:
  "reset_hot_metadata_48 (populate_hot_metadata_48 d) = reset_hot_metadata_48 d"
  unfolding populate_hot_metadata_48_def Let_def split_beta reset_if reset_reset reset_populate_parts reset_update
  by (simp only: if_cancel)

lemma reset_frame [simp]:
  "rd_valid (reset_hot_metadata_48 d) = rd_valid d"
  "rd_hot_op (reset_hot_metadata_48 d) = rd_hot_op d"
  "rd_hot_fmt (reset_hot_metadata_48 d) = rd_hot_fmt d"
  "operands_of (reset_hot_metadata_48 d) = operands_of d"
  "operands_placed inst (reset_hot_metadata_48 d) = operands_placed inst d"
proof -
  have "has_operand (reset_hot_metadata_48 d) x = has_operand d x" for x
    by (cases x) (simp_all add: reset_hot_metadata_48_def)
  then show "operands_of (reset_hot_metadata_48 d) = operands_of d" by (simp add: operands_of_def)
qed (simp_all add: reset_hot_metadata_48_def operands_placed_def)

lemma populate_frame [simp]:
  "rd_valid (populate_hot_metadata_48 d) = rd_valid d"
  "rd_hot_op (populate_hot_metadata_48 d) = rd_hot_op d"
  "rd_hot_fmt (populate_hot_metadata_48 d) = rd_hot_fmt d"
  "operands_of (populate_hot_metadata_48 d) = operands_of d"
  "operands_placed inst (populate_hot_metadata_48 d) = operands_placed inst d"
  by (metis reset_populate reset_frame)+

lemma populate_idem: "populate_hot_metadata_48 (populate_hot_metadata_48 d) = populate_hot_metadata_48 d"
proof -
  have "populate_hot_metadata_48 d = populate_hot_metadata_48 (reset_hot_metadata_48 d)" for d
    by (simp add: populate_hot_metadata_48_def reset_reset Let_def)
  then show ?thesis by (metis reset_populate)
qed

lemma populate_supported:
  "rd_hot_supported (populate_hot_metadata_48 d) \<Longrightarrow> rd_valid d \<and> rd_hot_op d \<noteq> H_None"
proof (rule ccontr)
  assume "\<not> (rd_valid d \<and> rd_hot_op d \<noteq> H_None)"
  then have "populate_hot_metadata_48 d = reset_hot_metadata_48 d"
    by (auto simp: populate_hot_metadata_48_def Let_def)
  moreover assume "rd_hot_supported (populate_hot_metadata_48 d)"
  ultimately show False by (simp add: reset_hot_metadata_48_def)
qed

section \<open>The decoded word\<close>

lemma decode_valid: "rd_valid (snd (decode_raw_word_48 inst)) = fst (decode_raw_word_48 inst)"
  using decode_ok [of inst] by (auto simp: dec_ok_def word_ok_def)

lemma decode_word_frame:
  "rd_valid (decode_word inst) = fst (decode_raw_word_48 inst)"
  "rd_hot_op (decode_word inst) = rd_hot_op (snd (decode_raw_word_48 inst))"
  "rd_hot_fmt (decode_word inst) = rd_hot_fmt (snd (decode_raw_word_48 inst))"
  "operands_of (decode_word inst) = operands_of (snd (decode_raw_word_48 inst))"
  "operands_placed inst (decode_word inst) = operands_placed inst (snd (decode_raw_word_48 inst))"
  by (simp_all add: decode_word_def split_beta decode_valid)

lemma decode_word_ok: "word_ok inst (rd_valid (decode_word inst)) (decode_word inst)"
  using decode_ok [of inst] by (simp add: dec_ok_def word_ok_def decode_word_frame)

lemma decode_word_supported:
  assumes "rd_hot_supported (decode_word inst)"
  shows "rd_valid (decode_word inst)" and "rd_hot_op (decode_word inst) \<noteq> H_None"
    and "format_fits (operands_of (decode_word inst)) (rd_hot_fmt (decode_word inst))"
proof -
  have "fst (decode_raw_word_48 inst)"
    using assms decode_ok [of inst] by (auto simp: decode_word_def split_beta dec_ok_def split: if_splits)
  with assms have "rd_hot_supported (populate_hot_metadata_48 (snd (decode_raw_word_48 inst)))"
    by (simp add: decode_word_def split_beta)
  from populate_supported [OF this] show op: "rd_hot_op (decode_word inst) \<noteq> H_None"
    by (simp add: decode_word_frame)
  then show "rd_valid (decode_word inst)"
    "format_fits (operands_of (decode_word inst)) (rd_hot_fmt (decode_word inst))"
    using decode_word_ok [of inst] by (simp_all add: word_ok_def)
qed

lemma decode_word_bounded: "operands_bounded (decode_word inst)"
  using decode_word_ok [of inst] by (auto simp: word_ok_def intro: placed_bounded)

end
