(* ===== verification/Memory.thy ===== *)
theory Memory
  imports Prelude
begin

text \<open>
  The three memories of a DPU (\<open>contrib/hostpimsim-upmem/dpu/{iram,wram,mram}.cc\<close>) and the sizes of
  \<open>internal.hh\<close>. A memory is a record around its byte array; every operation keeps the bounds test
  of the source. The locale \<open>ram_port\<close> states what a client of any of these memories relies on;
  it is interpreted once per memory and access width.
\<close>

section \<open>Sizes\<close>

definition kNumTasklets :: nat where "kNumTasklets = 24"
definition kIRAMSizeBytes :: nat where "kIRAMSizeBytes = 24 * 1024"
definition kWRAMSizeBytes :: nat where "kWRAMSizeBytes = 64 * 1024"
definition kMramSizeBytes :: nat where "kMramSizeBytes = 64 * 1024 * 1024"
definition kNumGPRegPerTasklet :: nat where "kNumGPRegPerTasklet = 24"

lemmas sizes [simp] =
  kNumTasklets_def kIRAMSizeBytes_def kWRAMSizeBytes_def kMramSizeBytes_def kNumGPRegPerTasklet_def

section \<open>IRAM\<close>

record iram =
  iram_inst :: "u8 list"

definition iram_init :: iram where
  "iram_init = \<lparr>iram_inst = replicate kIRAMSizeBytes 0\<rparr>"

definition kIramSlotBytes :: nat where "kIramSlotBytes = 8"
definition kIramWriteWordBytes :: nat where "kIramWriteWordBytes = 6"
definition kIramInst48Mask :: u64 where "kIramInst48Mask = 0x0000FFFFFFFFFFFF"

lemmas iram_consts [simp] = kIramSlotBytes_def kIramWriteWordBytes_def

definition slot_in_bounds :: "u16 \<Rightarrow> bool" where
  "slot_in_bounds iram_slot =
     (if unat iram_slot \<ge> kIRAMSizeBytes div kIramSlotBytes then False
      else unat iram_slot * kIramSlotBytes + kIramWriteWordBytes \<le> kIRAMSizeBytes)"

definition iram_read_word :: "iram \<Rightarrow> u16 \<Rightarrow> u64" where
  "iram_read_word m iram_slot =
     (if \<not> slot_in_bounds iram_slot then 0
      else let off = unat iram_slot * kIramSlotBytes;
               value = le_word (slice_get off 8 (iram_inst m))
           in value AND kIramInst48Mask)"

definition iram_write_word :: "iram \<Rightarrow> u16 \<Rightarrow> u64 \<Rightarrow> iram" where
  "iram_write_word m iram_slot inst48 =
     (if \<not> slot_in_bounds iram_slot then m
      else let off = unat iram_slot * kIramSlotBytes;
               value = inst48 AND kIramInst48Mask
           in m\<lparr>iram_inst := slice_put off (le_bytes 8 value) (iram_inst m)\<rparr>)"

definition wf_iram :: "iram \<Rightarrow> bool" where
  "wf_iram m \<longleftrightarrow> length (iram_inst m) = kIRAMSizeBytes"

section \<open>WRAM\<close>

record wram =
  wram_data :: "u8 list"

definition wram_init :: wram where
  "wram_init = \<lparr>wram_data = replicate kWRAMSizeBytes 0\<rparr>"

definition bswap16 :: "u16 \<Rightarrow> u16" where
  "bswap16 value = drop_bit 8 value OR push_bit 8 value"

definition bswap32 :: "u32 \<Rightarrow> u32" where
  "bswap32 value =
     push_bit 24 (value AND 0x000000FF) OR push_bit 8 (value AND 0x0000FF00) OR
     drop_bit 8 (value AND 0x00FF0000) OR drop_bit 24 (value AND 0xFF000000)"

definition bswap64 :: "u64 \<Rightarrow> u64" where
  "bswap64 value =
     (let value = push_bit 32 (value AND 0x00000000FFFFFFFF) OR
                  drop_bit 32 (value AND 0xFFFFFFFF00000000);
          value = push_bit 16 (value AND 0x0000FFFF0000FFFF) OR
                  drop_bit 16 (value AND 0xFFFF0000FFFF0000);
          value = push_bit 8 (value AND 0x00FF00FF00FF00FF) OR
                  drop_bit 8 (value AND 0xFF00FF00FF00FF00)
      in value)"

definition rel_in_bounds :: "u32 \<Rightarrow> nat \<Rightarrow> bool" where
  "rel_in_bounds offset sz =
     (let off = unat offset in off \<le> kWRAMSizeBytes \<and> sz \<le> kWRAMSizeBytes - off)"

definition word_in_bounds :: "u32 \<Rightarrow> bool" where
  "word_in_bounds word_offset =
     (let off = unat word_offset * 4 in off + 4 \<le> kWRAMSizeBytes)"

definition wram_load_u8 :: "wram \<Rightarrow> u32 \<Rightarrow> u8" where
  "wram_load_u8 m offset =
     (if \<not> rel_in_bounds offset 1 then 0 else wram_data m ! unat offset)"

definition wram_load_u16 :: "wram \<Rightarrow> u32 \<Rightarrow> bool \<Rightarrow> u32" where
  "wram_load_u16 m offset big_endian =
     (if \<not> rel_in_bounds offset 2 then 0
      else let value = le_word (slice_get (unat offset) 2 (wram_data m)) :: u16;
               value = (if big_endian then bswap16 value else value)
           in ucast value)"

definition wram_load_u32 :: "wram \<Rightarrow> u32 \<Rightarrow> bool \<Rightarrow> u32" where
  "wram_load_u32 m offset big_endian =
     (if \<not> rel_in_bounds offset 4 then 0
      else let value = le_word (slice_get (unat offset) 4 (wram_data m))
           in if big_endian then bswap32 value else value)"

definition wram_load_u64 :: "wram \<Rightarrow> u32 \<Rightarrow> bool \<Rightarrow> u64" where
  "wram_load_u64 m offset big_endian =
     (if \<not> rel_in_bounds offset 8 then 0
      else let value = le_word (slice_get (unat offset) 8 (wram_data m))
           in if big_endian then bswap64 value else value)"

definition wram_store_u8 :: "wram \<Rightarrow> u32 \<Rightarrow> u8 \<Rightarrow> wram" where
  "wram_store_u8 m offset value =
     (if \<not> rel_in_bounds offset 1 then m
      else m\<lparr>wram_data := (wram_data m)[unat offset := value]\<rparr>)"

definition wram_store_u16 :: "wram \<Rightarrow> u32 \<Rightarrow> u16 \<Rightarrow> bool \<Rightarrow> wram" where
  "wram_store_u16 m offset value big_endian =
     (if \<not> rel_in_bounds offset 2 then m
      else let value = (if big_endian then bswap16 value else value)
           in m\<lparr>wram_data := slice_put (unat offset) (le_bytes 2 value) (wram_data m)\<rparr>)"

definition wram_store_u32 :: "wram \<Rightarrow> u32 \<Rightarrow> u32 \<Rightarrow> bool \<Rightarrow> wram" where
  "wram_store_u32 m offset value big_endian =
     (if \<not> rel_in_bounds offset 4 then m
      else let value = (if big_endian then bswap32 value else value)
           in m\<lparr>wram_data := slice_put (unat offset) (le_bytes 4 value) (wram_data m)\<rparr>)"

definition wram_store_u64 :: "wram \<Rightarrow> u32 \<Rightarrow> u64 \<Rightarrow> bool \<Rightarrow> wram" where
  "wram_store_u64 m offset value big_endian =
     (if \<not> rel_in_bounds offset 8 then m
      else let value = (if big_endian then bswap64 value else value)
           in m\<lparr>wram_data := slice_put (unat offset) (le_bytes 8 value) (wram_data m)\<rparr>)"

definition wram_read_word :: "wram \<Rightarrow> u32 \<Rightarrow> u32" where
  "wram_read_word m word_offset =
     (if \<not> word_in_bounds word_offset then 0
      else let byte_addr = word_offset * 4 in wram_load_u32 m byte_addr False)"

definition wram_write_word :: "wram \<Rightarrow> u32 \<Rightarrow> u32 \<Rightarrow> wram" where
  "wram_write_word m word_offset value =
     (if \<not> word_in_bounds word_offset then m
      else let byte_addr = word_offset * 4 in wram_store_u32 m byte_addr value False)"

definition wf_wram :: "wram \<Rightarrow> bool" where
  "wf_wram m \<longleftrightarrow> length (wram_data m) = kWRAMSizeBytes"

section \<open>MRAM\<close>

text \<open>
  \<open>mram_addr\<close> is \<open>None\<close> for the null pointer and otherwise the bytes of the mapping the pointer
  refers to; \<open>mram_size\<close> is the size the object records for it. The anonymous mapping of
  \<open>allocate\<close> succeeds or fails as the operating system decides: \<open>mmap_ok\<close> is that decision.
\<close>

record mram =
  mram_addr :: "u8 list option"
  mram_size :: nat
  mram_owns_mapping :: bool

definition mram_init :: mram where
  "mram_init = \<lparr>mram_addr = None, mram_size = 0, mram_owns_mapping = False\<rparr>"

definition mram_release_owned_mapping :: "mram \<Rightarrow> mram" where
  "mram_release_owned_mapping m = m\<lparr>mram_addr := None, mram_size := 0, mram_owns_mapping := False\<rparr>"

definition mram_allocate :: "bool \<Rightarrow> mram \<Rightarrow> bool \<times> mram" where
  "mram_allocate mmap_ok m =
     (if mram_addr m \<noteq> None \<and> mram_size m \<noteq> 0 then (True, m)
      else if \<not> mmap_ok then (False, m)
      else (True, m\<lparr>mram_addr := Some (replicate kMramSizeBytes 0),
                    mram_size := kMramSizeBytes, mram_owns_mapping := True\<rparr>))"

definition mram_bind :: "u8 list option \<Rightarrow> nat \<Rightarrow> mram \<Rightarrow> mram" where
  "mram_bind addr_in size_in m =
     (mram_release_owned_mapping m)\<lparr>mram_addr := addr_in, mram_size := size_in\<rparr>"

definition mram_byte_in_bounds :: "u32 \<Rightarrow> nat \<Rightarrow> bool" where
  "mram_byte_in_bounds byte_offset sz =
     (if sz = 0 then False
      else let logical_size = kMramSizeBytes; off = unat byte_offset
           in if off > logical_size then False else sz \<le> logical_size - off)"

definition mram_translate_aperture_offset :: "mram \<Rightarrow> u32 \<Rightarrow> nat option" where
  "mram_translate_aperture_offset m logical_byte_offset =
     (if \<not> mram_byte_in_bounds logical_byte_offset 1 \<or> mram_addr m = None then None
      else let aperture_offset = unat logical_byte_offset
           in if aperture_offset \<ge> mram_size m then None else Some aperture_offset)"

definition mram_load_u8 :: "mram \<Rightarrow> u32 \<Rightarrow> u8" where
  "mram_load_u8 m byte_offset =
     (case mram_translate_aperture_offset m byte_offset of
        None \<Rightarrow> 0
      | Some o' \<Rightarrow> the (mram_addr m) ! o')"

definition mram_store_u8 :: "mram \<Rightarrow> u32 \<Rightarrow> u8 \<Rightarrow> mram" where
  "mram_store_u8 m byte_offset value =
     (case mram_translate_aperture_offset m byte_offset of
        None \<Rightarrow> m
      | Some o' \<Rightarrow> m\<lparr>mram_addr := Some ((the (mram_addr m))[o' := value])\<rparr>)"

text \<open>
  \<open>src\<close> is the host buffer of \<open>host_copy_to_mram\<close>: \<open>None\<close> is the null pointer, otherwise the bytes
  the pointer refers to. \<open>host_copy_from_mram\<close> returns the bytes it writes to its destination.
\<close>

definition mram_host_copy_to :: "mram \<Rightarrow> u32 \<Rightarrow> u8 list option \<Rightarrow> nat \<Rightarrow> bool \<times> mram" where
  "mram_host_copy_to m offset_in_mram src sz =
     (case (src, mram_addr m) of
        (Some s, Some xs) \<Rightarrow>
          if sz = 0 then (True, m)
          else if \<not> mram_byte_in_bounds offset_in_mram sz then (False, m)
          else (True, m\<lparr>mram_addr := Some (slice_put (unat offset_in_mram) (take sz s) xs)\<rparr>)
      | _ \<Rightarrow> (False, m))"

definition mram_host_copy_from :: "mram \<Rightarrow> u32 \<Rightarrow> nat \<Rightarrow> (u8 list) option" where
  "mram_host_copy_from m offset_in_mram sz =
     (case mram_addr m of
        None \<Rightarrow> None
      | Some xs \<Rightarrow>
          if sz = 0 then Some []
          else if \<not> mram_byte_in_bounds offset_in_mram sz then None
          else Some (slice_get (unat offset_in_mram) sz xs))"

text \<open>
  A mapping made by \<open>allocate\<close> has exactly \<open>kMramSizeBytes\<close> bytes; before that the object is
  unbound. (\<open>bind\<close> can attach a buffer of any size; nothing in the repository calls it.)
\<close>

definition wf_mram :: "mram \<Rightarrow> bool" where
  "wf_mram m \<longleftrightarrow>
     (case mram_addr m of
        None \<Rightarrow> mram_size m = 0
      | Some xs \<Rightarrow> length xs = kMramSizeBytes \<and> mram_size m = kMramSizeBytes)"

definition mram_bound :: "mram \<Rightarrow> bool" where
  "mram_bound m \<longleftrightarrow> mram_addr m \<noteq> None \<and> mram_size m \<noteq> 0"

section \<open>The interface of a memory port\<close>

text \<open>
  A port reads and writes one value at an address. \<open>foot\<close> is the set of byte positions an address
  stands for, \<open>norm\<close> is what a read returns of a value written (all of it for WRAM, the low 48 bits
  for IRAM), \<open>dflt\<close> what a read outside the memory returns.
\<close>

locale ram_port =
  fixes invar :: "'m \<Rightarrow> bool"
    and ok :: "'m \<Rightarrow> 'a \<Rightarrow> bool"
    and foot :: "'a \<Rightarrow> nat set"
    and load :: "'m \<Rightarrow> 'a \<Rightarrow> 'w"
    and store :: "'m \<Rightarrow> 'a \<Rightarrow> 'v \<Rightarrow> 'm"
    and norm :: "'v \<Rightarrow> 'w"
    and dflt :: 'w
  assumes invar_store: "invar m \<Longrightarrow> invar (store m a v)"
    and ok_store: "ok (store m a v) b = ok m b"
    and load_store_same: "invar m \<Longrightarrow> ok m a \<Longrightarrow> load (store m a v) a = norm v"
    and load_store_other: "invar m \<Longrightarrow> foot a \<inter> foot b = {} \<Longrightarrow> load (store m a v) b = load m b"
    and store_outside: "\<not> ok m a \<Longrightarrow> store m a v = m"
    and load_outside: "\<not> ok m a \<Longrightarrow> load m a = dflt"
begin

text \<open>A host that programs a memory issues a sequence of stores.\<close>

definition stores :: "('a \<times> 'v) list \<Rightarrow> 'm \<Rightarrow> 'm" where
  "stores ps m = fold (\<lambda>(a, v) m. store m a v) ps m"

lemma stores_simps [simp]:
  "stores [] m = m"
  "stores ((a, v) # ps) m = stores ps (store m a v)"
  "stores (ps @ qs) m = stores qs (stores ps m)"
  by (simp_all add: stores_def)

lemma invar_stores: "invar m \<Longrightarrow> invar (stores ps m)"
  by (induction ps arbitrary: m) (auto simp: invar_store)

lemma ok_stores: "ok (stores ps m) b = ok m b"
  by (induction ps arbitrary: m) (simp_all add: ok_store split_paired_all)

lemma load_stores_other:
  "invar m \<Longrightarrow> \<forall>p \<in> set ps. foot (fst p) \<inter> foot b = {} \<Longrightarrow> load (stores ps m) b = load m b"
  by (induction ps arbitrary: m) (auto simp: invar_store load_store_other)

lemma load_stores_last:
  assumes "invar m" and "ok m a" and "\<forall>p \<in> set qs. foot (fst p) \<inter> foot a = {}"
  shows "load (stores (ps @ (a, v) # qs) m) a = norm v"
proof -
  let ?m = "stores ps m"
  have "load (stores qs (store ?m a v)) a = load (store ?m a v) a"
    using assms by (simp add: load_stores_other invar_store invar_stores)
  also have "\<dots> = norm v"
    using assms by (simp add: load_store_same invar_stores ok_stores)
  finally show ?thesis by simp
qed

lemma load_stores_image:
  assumes "invar m" and "(a, v) \<in> set ps" and "ok m a"
    and disj: "\<forall>i < length ps. \<forall>j < length ps. i \<noteq> j \<longrightarrow> foot (fst (ps ! i)) \<inter> foot (fst (ps ! j)) = {}"
  shows "load (stores ps m) a = norm v"
proof -
  obtain i where i: "i < length ps" "ps ! i = (a, v)"
    using assms(2) by (auto simp: in_set_conv_nth)
  let ?qs = "drop (Suc i) ps"
  have ps: "ps = take i ps @ (a, v) # ?qs"
    using i by (metis id_take_nth_drop)
  have "foot (fst p) \<inter> foot a = {}" if p: "p \<in> set ?qs" for p
  proof -
    obtain k where "k < length ?qs" "?qs ! k = p" using p by (metis in_set_conv_nth)
    then have "Suc i + k < length ps" "ps ! (Suc i + k) = p" by (auto simp: less_diff_conv)
    then show ?thesis using disj i by (metis fst_conv less_add_Suc1 nat_neq_iff)
  qed
  then have "load (stores (take i ps @ (a, v) # ?qs) m) a = norm v"
    using assms by (intro load_stores_last) auto
  then show ?thesis using ps by simp
qed

end

section \<open>IRAM is a port of 48-bit words\<close>

definition slot_foot :: "u16 \<Rightarrow> nat set" where
  "slot_foot s = {unat s * 8 ..< unat s * 8 + 8}"

lemma wf_iram_init [wf_intros]: "wf_iram iram_init"
  by (simp add: wf_iram_def iram_init_def)

lemma slot_in_bounds_iff: "slot_in_bounds s \<longleftrightarrow> unat s < 3072"
  by (auto simp: slot_in_bounds_def)

lemma wf_iram_write_word [wf_intros]: "wf_iram m \<Longrightarrow> wf_iram (iram_write_word m s v)"
  by (auto simp: wf_iram_def iram_write_word_def slot_in_bounds_iff Let_def)

lemma iram_read_write_same:
  assumes "wf_iram m" and "slot_in_bounds s"
  shows "iram_read_word (iram_write_word m s v) s = v AND kIramInst48Mask"
  using assms
  by (simp add: iram_read_word_def iram_write_word_def wf_iram_def slot_in_bounds_iff Let_def
      ram_simps le_word_le_bytes and.assoc)

lemma slot_foot_disjoint: "slot_foot s \<inter> slot_foot t = {} \<longleftrightarrow> s \<noteq> t"
proof
  assume "slot_foot s \<inter> slot_foot t = {}" then show "s \<noteq> t" by (auto simp: slot_foot_def)
next
  assume "s \<noteq> t"
  then have "unat s \<noteq> unat t" by (simp add: word_unat_eq_iff)
  then show "slot_foot s \<inter> slot_foot t = {}" by (auto simp: slot_foot_def)
qed

lemma iram_read_write_other:
  assumes "wf_iram m" and "s \<noteq> t"
  shows "iram_read_word (iram_write_word m s v) t = iram_read_word m t"
proof -
  have "unat s \<noteq> unat t" using assms(2) by (simp add: word_unat_eq_iff)
  then have "unat t * 8 + 8 \<le> unat s * 8 \<or> unat s * 8 + 8 \<le> unat t * 8" by linarith
  with assms(1) show ?thesis
    by (auto simp: iram_read_word_def iram_write_word_def wf_iram_def slot_in_bounds_iff Let_def
        slice_get_put_disjoint)
qed

interpretation iram_port: ram_port wf_iram "\<lambda>_. slot_in_bounds" slot_foot
  iram_read_word iram_write_word "\<lambda>v. v AND kIramInst48Mask" 0
proof unfold_locales
  show "iram_read_word (iram_write_word m a v) b = iram_read_word m b"
    if "wf_iram m" "slot_foot a \<inter> slot_foot b = {}" for m a v b
    using that by (simp add: slot_foot_disjoint iram_read_write_other)
qed (auto simp: wf_intros iram_read_write_same, simp_all add: iram_write_word_def iram_read_word_def)

section \<open>WRAM is a port at each width and byte order\<close>

lemma wf_wram_init [wf_intros]: "wf_wram wram_init"
  by (simp add: wf_wram_def wram_init_def)

lemma rel_in_bounds_iff: "rel_in_bounds a n \<longleftrightarrow> unat a + n \<le> 65536"
  by (auto simp: rel_in_bounds_def Let_def)

lemma bswap16_bswap16 [simp]: "bswap16 (bswap16 v) = v"
  by (rule word_eq_by_bits, simp only: bitwise_unfold, simp add: bswap16_def bit_simps)

lemma bswap32_bswap32 [simp]: "bswap32 (bswap32 v) = v"
  by (rule word_eq_by_bits, simp only: bitwise_unfold, simp add: bswap32_def bit_simps)

text \<open>Each of the three statements of \<open>bswap64\<close> exchanges neighbouring groups of \<open>n\<close> bits.\<close>

definition swap_idx :: "nat \<Rightarrow> nat \<Rightarrow> nat" where
  "swap_idx n i = (if even (i div n) then i + n else i - n)"

lemma bit_swap_stage:
  fixes x :: u64
  assumes "i < 64"
  shows "bit (push_bit 32 (x AND 0x00000000FFFFFFFF) OR drop_bit 32 (x AND 0xFFFFFFFF00000000)) i =
      bit x (swap_idx 32 i)" (is ?t32)
    and "bit (push_bit 16 (x AND 0x0000FFFF0000FFFF) OR drop_bit 16 (x AND 0xFFFF0000FFFF0000)) i =
      bit x (swap_idx 16 i)" (is ?t16)
    and "bit (push_bit 8 (x AND 0x00FF00FF00FF00FF) OR drop_bit 8 (x AND 0xFF00FF00FF00FF00)) i =
      bit x (swap_idx 8 i)" (is ?t8)
proof -
  have "list_all (\<lambda>i. bit (push_bit 32 (x AND 0x00000000FFFFFFFF) OR
      drop_bit 32 (x AND 0xFFFFFFFF00000000)) i = bit x (swap_idx 32 i)) [0..<64]"
    by (simp only: bitwise_unfold, simp add: swap_idx_def bit_simps)
  with assms show ?t32 by (simp add: list_all_iff)
  have "list_all (\<lambda>i. bit (push_bit 16 (x AND 0x0000FFFF0000FFFF) OR
      drop_bit 16 (x AND 0xFFFF0000FFFF0000)) i = bit x (swap_idx 16 i)) [0..<64]"
    by (simp only: bitwise_unfold, simp add: swap_idx_def bit_simps)
  with assms show ?t16 by (simp add: list_all_iff)
  have "list_all (\<lambda>i. bit (push_bit 8 (x AND 0x00FF00FF00FF00FF) OR
      drop_bit 8 (x AND 0xFF00FF00FF00FF00)) i = bit x (swap_idx 8 i)) [0..<64]"
    by (simp only: bitwise_unfold, simp add: swap_idx_def bit_simps)
  with assms show ?t8 by (simp add: list_all_iff)
qed

lemma swap_idx_byte:
  assumes "i < 64"
  shows "swap_idx 8 i < 64" "swap_idx 16 (swap_idx 8 i) < 64"
    "swap_idx 32 (swap_idx 16 (swap_idx 8 i)) = 8 * (7 - i div 8) + i mod 8"
proof -
  have "list_all (\<lambda>i. swap_idx 8 i < 64 \<and> swap_idx 16 (swap_idx 8 i) < 64 \<and>
      swap_idx 32 (swap_idx 16 (swap_idx 8 i)) = 8 * (7 - i div 8) + i mod 8) [0..<64]"
    by code_simp
  with assms show "swap_idx 8 i < 64" "swap_idx 16 (swap_idx 8 i) < 64"
    "swap_idx 32 (swap_idx 16 (swap_idx 8 i)) = 8 * (7 - i div 8) + i mod 8"
    by (simp_all add: list_all_iff)
qed

lemma bit_bswap64:
  "i < 64 \<Longrightarrow> bit (bswap64 v) i = bit v (8 * (7 - i div 8) + i mod 8)"
  unfolding bswap64_def Let_def by (simp only: bit_swap_stage swap_idx_byte)

lemma bswap64_bswap64 [simp]: "bswap64 (bswap64 v) = v"
proof (rule bit_word_eqI)
  fix i assume "i < LENGTH(64)"
  then have "i < 64" by simp
  then have "8 * (7 - i div 8) + i mod 8 < 64"
    and "8 * (7 - (8 * (7 - i div 8) + i mod 8) div 8) + (8 * (7 - i div 8) + i mod 8) mod 8 = i"
    by auto
  with \<open>i < 64\<close> show "bit (bswap64 (bswap64 v)) i = bit v i"
    by (simp only: bit_bswap64)
qed

lemma wf_wram_store [wf_intros]:
  assumes "wf_wram m"
  shows "wf_wram (wram_store_u8 m a b)" "wf_wram (wram_store_u16 m a h e)"
    "wf_wram (wram_store_u32 m a w e)" "wf_wram (wram_store_u64 m a d e)"
    "wf_wram (wram_write_word m a w)"
  using assms
  by (auto simp: wf_wram_def wram_store_u8_def wram_store_u16_def wram_store_u32_def
      wram_store_u64_def wram_write_word_def rel_in_bounds_iff Let_def)

definition byte_foot :: "nat \<Rightarrow> u32 \<Rightarrow> nat set" where
  "byte_foot n a = {unat a ..< unat a + n}"

lemma byte_foot_disjoint:
  "0 < n \<Longrightarrow> 0 < k \<Longrightarrow>
   byte_foot n a \<inter> byte_foot k b = {} \<longleftrightarrow> unat b + k \<le> unat a \<or> unat a + n \<le> unat b"
  by (auto simp: byte_foot_def disjoint_iff not_le not_less)

lemmas wram_port_defs =
  wf_wram_def rel_in_bounds_iff Let_def
  wram_load_u8_def wram_load_u16_def wram_load_u32_def wram_load_u64_def
  wram_store_u8_def wram_store_u16_def wram_store_u32_def wram_store_u64_def

interpretation wram_u8: ram_port wf_wram "\<lambda>_ a. rel_in_bounds a 1" "byte_foot 1"
  wram_load_u8 wram_store_u8 id 0
  by unfold_locales (auto simp: wram_port_defs byte_foot_disjoint nth_list_update)

interpretation wram_u16: ram_port wf_wram "\<lambda>_ a. rel_in_bounds a 2" "byte_foot 2"
  "\<lambda>m a. wram_load_u16 m a be" "\<lambda>m a v. wram_store_u16 m a v be" "ucast" 0 for be
  by unfold_locales
    (auto simp: wram_port_defs byte_foot_disjoint ram_simps le_word_le_bytes slice_get_put_disjoint)

interpretation wram_u32: ram_port wf_wram "\<lambda>_ a. rel_in_bounds a 4" "byte_foot 4"
  "\<lambda>m a. wram_load_u32 m a be" "\<lambda>m a v. wram_store_u32 m a v be" id 0 for be
  by unfold_locales
    (auto simp: wram_port_defs byte_foot_disjoint ram_simps le_word_le_bytes slice_get_put_disjoint)

interpretation wram_u64: ram_port wf_wram "\<lambda>_ a. rel_in_bounds a 8" "byte_foot 8"
  "\<lambda>m a. wram_load_u64 m a be" "\<lambda>m a v. wram_store_u64 m a v be" id 0 for be
  by unfold_locales
    (auto simp: wram_port_defs byte_foot_disjoint ram_simps le_word_le_bytes slice_get_put_disjoint)

text \<open>Bytes outside the footprint of a store keep their value, whatever the width.\<close>

lemma wram_store_frame:
  assumes "wf_wram m" and "i < kWRAMSizeBytes"
  shows "i \<notin> byte_foot 1 a \<Longrightarrow> wram_data (wram_store_u8 m a b) ! i = wram_data m ! i"
    and "i \<notin> byte_foot 2 a \<Longrightarrow> wram_data (wram_store_u16 m a h e) ! i = wram_data m ! i"
    and "i \<notin> byte_foot 4 a \<Longrightarrow> wram_data (wram_store_u32 m a w e) ! i = wram_data m ! i"
    and "i \<notin> byte_foot 8 a \<Longrightarrow> wram_data (wram_store_u64 m a d e) ! i = wram_data m ! i"
  using assms by (auto simp: wram_port_defs byte_foot_def nth_slice_put nth_list_update)

lemma wram_word_byte_addr:
  "word_in_bounds a \<Longrightarrow> unat (a * 4) = unat a * 4"
  by (subst unat_word_ariths) (simp add: word_in_bounds_def Let_def)

lemma word_in_bounds_iff: "word_in_bounds a \<longleftrightarrow> unat a < 16384"
  by (auto simp: word_in_bounds_def Let_def)

lemma word_in_bounds_rel: "word_in_bounds a \<Longrightarrow> rel_in_bounds (a * 4) 4"
  by (simp add: rel_in_bounds_iff wram_word_byte_addr word_in_bounds_iff)

definition word_foot :: "u32 \<Rightarrow> nat set" where
  "word_foot a = {unat a * 4 ..< unat a * 4 + 4}"

lemma wram_word_frame:
  assumes "wf_wram m" and "word_foot a \<inter> word_foot b = {}"
  shows "wram_read_word (wram_write_word m a v) b = wram_read_word m b"
proof (cases "word_in_bounds a \<and> word_in_bounds b")
  case True
  with assms(2) have "byte_foot 4 (a * 4) \<inter> byte_foot 4 (b * 4) = {}"
    by (simp add: word_foot_def byte_foot_def wram_word_byte_addr)
  with True assms(1) show ?thesis
    by (simp add: wram_read_word_def wram_write_word_def Let_def wram_u32.load_store_other)
qed (auto simp: wram_read_word_def wram_write_word_def)

interpretation wram_word: ram_port wf_wram "\<lambda>_. word_in_bounds" word_foot
  wram_read_word wram_write_word id 0
proof unfold_locales
  show "wram_read_word (wram_write_word m a v) a = id v" if "wf_wram m" "word_in_bounds a" for m a v
    using that by (simp add: wram_read_word_def wram_write_word_def Let_def word_in_bounds_rel
        wram_u32.load_store_same)
qed (auto simp: wf_intros wram_word_frame, simp_all add: wram_write_word_def wram_read_word_def)

section \<open>MRAM\<close>

lemma wf_mram_init [wf_intros]: "wf_mram mram_init"
  by (simp add: wf_mram_def mram_init_def)

lemma wf_mram_allocate [wf_intros]: "wf_mram m \<Longrightarrow> wf_mram (snd (mram_allocate ok m))"
  by (auto simp: wf_mram_def mram_allocate_def split: option.splits)

lemma mram_allocate_bound: "fst (mram_allocate ok m) \<Longrightarrow> mram_bound (snd (mram_allocate ok m))"
  by (auto simp: mram_allocate_def mram_bound_def split: if_splits)

lemma wf_mram_release [wf_intros]: "wf_mram (mram_release_owned_mapping m)"
  by (simp add: wf_mram_def mram_release_owned_mapping_def)

lemma mram_byte_in_bounds_iff: "mram_byte_in_bounds a n \<longleftrightarrow> n \<noteq> 0 \<and> unat a + n \<le> 67108864"
  by (auto simp: mram_byte_in_bounds_def Let_def)

lemma wf_mram_boundD:
  "wf_mram m \<Longrightarrow> mram_bound m \<Longrightarrow>
   \<exists>xs. mram_addr m = Some xs \<and> length xs = kMramSizeBytes \<and> mram_size m = kMramSizeBytes"
  by (auto simp: wf_mram_def mram_bound_def split: option.splits)

lemma mram_translate_iff:
  "wf_mram m \<Longrightarrow> mram_translate_aperture_offset m a =
     (if mram_bound m \<and> unat a < kMramSizeBytes then Some (unat a) else None)"
  by (auto simp: mram_translate_aperture_offset_def mram_byte_in_bounds_iff wf_mram_def mram_bound_def
      Let_def split: option.splits)

lemma mram_store_u8_eq:
  "wf_mram m \<Longrightarrow> mram_store_u8 m a v =
     (if mram_bound m \<and> unat a < kMramSizeBytes
      then m\<lparr>mram_addr := Some ((the (mram_addr m))[unat a := v])\<rparr> else m)"
  by (simp add: mram_store_u8_def mram_translate_iff)

lemma mram_load_u8_eq:
  "wf_mram m \<Longrightarrow> mram_load_u8 m a =
     (if mram_bound m \<and> unat a < kMramSizeBytes then the (mram_addr m) ! unat a else 0)"
  by (simp add: mram_load_u8_def mram_translate_iff)

lemma wf_mram_store_u8 [wf_intros]: "wf_mram m \<Longrightarrow> wf_mram (mram_store_u8 m a v)"
  by (auto simp: mram_store_u8_def mram_translate_iff wf_mram_def mram_bound_def split: option.splits)

lemma mram_bound_store_u8 [simp]: "mram_bound (mram_store_u8 m a v) = mram_bound m"
  by (auto simp: mram_store_u8_def mram_bound_def mram_translate_aperture_offset_def Let_def
      split: option.splits if_splits)

lemma wf_mram_host_copy_to [wf_intros]:
  assumes "wf_mram m" and "case src of None \<Rightarrow> True | Some s \<Rightarrow> n \<le> length s"
  shows "wf_mram (snd (mram_host_copy_to m a src n))"
  using assms by (auto simp: mram_host_copy_to_def wf_mram_def mram_byte_in_bounds_iff min_def
      split: option.splits)

interpretation mram_u8: ram_port wf_mram "\<lambda>m a. mram_translate_aperture_offset m a \<noteq> None"
  "byte_foot 1" mram_load_u8 mram_store_u8 id 0
proof unfold_locales
  show "(mram_translate_aperture_offset (mram_store_u8 m a v) b \<noteq> None) =
      (mram_translate_aperture_offset m b \<noteq> None)" for m a v b
    by (auto simp: mram_store_u8_def mram_translate_aperture_offset_def Let_def
        split: option.splits if_splits)
  show "mram_load_u8 (mram_store_u8 m a v) a = id v"
    if "wf_mram m" "mram_translate_aperture_offset m a \<noteq> None" for m a v
    using that wf_mram_store_u8 [OF that(1), of a v]
    by (auto simp: mram_load_u8_eq mram_translate_iff split: if_splits dest: wf_mram_boundD)
      (auto simp: mram_store_u8_eq dest: wf_mram_boundD)
  show "mram_load_u8 (mram_store_u8 m a v) b = mram_load_u8 m b"
    if "wf_mram m" "byte_foot 1 a \<inter> byte_foot 1 b = {}" for m a v b
    using that wf_mram_store_u8 [OF that(1), of a v]
    by (auto simp: mram_load_u8_eq byte_foot_disjoint)
      (auto simp: mram_store_u8_eq nth_list_update)
qed (auto simp: wf_intros, auto simp: mram_store_u8_def mram_load_u8_def)

lemma mram_host_copy_to_from:
  assumes "wf_mram m" and "length s = n" and "fst (mram_host_copy_to m a (Some s) n)"
  shows "mram_host_copy_from (snd (mram_host_copy_to m a (Some s) n)) a n = Some s"
  using assms
  by (auto simp: mram_host_copy_to_def mram_host_copy_from_def wf_mram_def mram_byte_in_bounds_iff
      ram_simps split: option.splits if_splits)

end
