(* ===== verification/Dma.thy ===== *)
theory Dma
  imports Memory
begin

text \<open>
  The DMA engine (\<open>contrib/hostpimsim-upmem/dpu/dma.cc\<close>): the three clamped copies between MRAM and
  the on-chip memories, and the two status registers the control interface reads and writes.
\<close>

record dma_engine =
  dma_mux_status :: u8
  dma_ctrl_reg :: u8

definition dma_init :: dma_engine where
  "dma_init = \<lparr>dma_mux_status = 0, dma_ctrl_reg = 0\<rparr>"

definition set_dma_mux_status :: "u8 \<Rightarrow> dma_engine \<Rightarrow> dma_engine" where
  "set_dma_mux_status v e = e\<lparr>dma_mux_status := v\<rparr>"

definition set_dma_ctrl_reg :: "u8 \<Rightarrow> dma_engine \<Rightarrow> dma_engine" where
  "set_dma_ctrl_reg v e = e\<lparr>dma_ctrl_reg := v\<rparr>"

definition dma_is_opcode :: "u8 \<Rightarrow> bool" where
  "dma_is_opcode opcode \<longleftrightarrow> opcode = 0x50 \<or> opcode = 0x51 \<or> opcode = 0x52"

text \<open>The 48-bit word that the loop of \<open>dma_to_iram_from_mram\<close> assembles from six MRAM bytes.\<close>

definition dma_iram_word :: "mram \<Rightarrow> u32 \<Rightarrow> u64" where
  "dma_iram_word m src_off =
     push_bit 0 (ucast (mram_load_u8 m (src_off + 0))) OR
     push_bit 8 (ucast (mram_load_u8 m (src_off + 1))) OR
     push_bit 16 (ucast (mram_load_u8 m (src_off + 2))) OR
     push_bit 24 (ucast (mram_load_u8 m (src_off + 3))) OR
     push_bit 32 (ucast (mram_load_u8 m (src_off + 4))) OR
     push_bit 40 (ucast (mram_load_u8 m (src_off + 5)))"

function dma_iram_loop ::
  "mram \<Rightarrow> u32 \<Rightarrow> u16 \<Rightarrow> nat \<Rightarrow> nat \<Rightarrow> nat \<Rightarrow> iram \<Rightarrow> nat \<times> iram" where
  "dma_iram_loop m mram_offset iram_slot slots slot copied_slots iram =
     (if slot < slots then
        let dst_slot = of_nat (unat iram_slot + slot) :: u16
        in if \<not> slot_in_bounds dst_slot then (copied_slots, iram)
           else
             let src_off = of_nat (unat mram_offset + slot * 6) :: u32;
                 iram = iram_write_word iram dst_slot (dma_iram_word m src_off)
             in dma_iram_loop m mram_offset iram_slot slots (slot + 1) (copied_slots + 1) iram
      else (copied_slots, iram))"
  by pat_completeness auto
termination
  by (relation "measure (\<lambda>(_, _, _, slots, slot, _, _). slots - slot)") auto

declare dma_iram_loop.simps [simp del]

definition dma_to_iram_from_mram :: "iram \<Rightarrow> mram \<Rightarrow> nat \<Rightarrow> u32 \<Rightarrow> u16 \<Rightarrow> bool \<times> iram" where
  "dma_to_iram_from_mram iram m bytes mram_offset iram_slot =
     (let msize = mram_size m in
      if mram_addr m = None \<or> msize = 0 \<or> bytes = 0 then (False, iram)
      else
        let iram_size = kIRAMSizeBytes; iram_off = unat iram_slot * 6 in
        if unat mram_offset \<ge> msize \<or> iram_off \<ge> iram_size then (False, iram)
        else
          let copy_bytes = min bytes (min (msize - unat mram_offset) (iram_size - iram_off)) in
          if copy_bytes < 6 then (False, iram)
          else
            let slots = copy_bytes div 6;
                (copied_slots, iram) = dma_iram_loop m mram_offset iram_slot slots 0 0 iram
            in (copied_slots > 0, iram))"

definition dma_to_wram_from_mram :: "wram \<Rightarrow> mram \<Rightarrow> nat \<Rightarrow> u32 \<Rightarrow> u32 \<Rightarrow> bool \<times> wram" where
  "dma_to_wram_from_mram w m bytes wram_offset mram_offset =
     (let msize = mram_size m in
      if mram_addr m = None \<or> msize = 0 \<or> bytes = 0 then (False, w)
      else
        let wsize = kWRAMSizeBytes in
        if unat mram_offset \<ge> msize \<or> unat wram_offset \<ge> wsize then (False, w)
        else
          let copy_bytes = min bytes (min (msize - unat mram_offset) (wsize - unat wram_offset)) in
          if copy_bytes = 0 then (False, w)
          else
            (True,
             case mram_host_copy_from m mram_offset copy_bytes of
               None \<Rightarrow> w
             | Some bs \<Rightarrow> w\<lparr>wram_data := slice_put (unat wram_offset) bs (wram_data w)\<rparr>))"

definition dma_to_mram_from_wram :: "mram \<Rightarrow> wram \<Rightarrow> nat \<Rightarrow> u32 \<Rightarrow> u32 \<Rightarrow> bool \<times> mram" where
  "dma_to_mram_from_wram m w bytes mram_offset wram_offset =
     (let msize = mram_size m in
      if mram_addr m = None \<or> msize = 0 \<or> bytes = 0 then (False, m)
      else
        let wsize = kWRAMSizeBytes in
        if unat mram_offset \<ge> msize \<or> unat wram_offset \<ge> wsize then (False, m)
        else
          let copy_bytes = min bytes (min (msize - unat mram_offset) (wsize - unat wram_offset)) in
          if copy_bytes = 0 then (False, m)
          else
            (True, snd (mram_host_copy_to m mram_offset
                     (Some (drop (unat wram_offset) (wram_data w))) copy_bytes)))"

section \<open>The number of bytes a transfer moves\<close>

definition dma_len :: "nat \<Rightarrow> u32 \<Rightarrow> u32 \<Rightarrow> nat" where
  "dma_len bytes wram_offset mram_offset =
     min bytes (min (kMramSizeBytes - unat mram_offset) (kWRAMSizeBytes - unat wram_offset))"

definition dma_active :: "mram \<Rightarrow> nat \<Rightarrow> u32 \<Rightarrow> u32 \<Rightarrow> bool" where
  "dma_active m bytes wram_offset mram_offset \<longleftrightarrow>
     mram_bound m \<and> bytes \<noteq> 0 \<and> unat mram_offset < kMramSizeBytes \<and> unat wram_offset < kWRAMSizeBytes"

lemma dma_len_bounds:
  assumes "dma_active m bytes wo mo"
  shows "0 < dma_len bytes wo mo" "unat wo + dma_len bytes wo mo \<le> kWRAMSizeBytes"
    "unat mo + dma_len bytes wo mo \<le> kMramSizeBytes"
  using assms by (auto simp: dma_len_def dma_active_def)

lemma dma_to_wram_eq:
  assumes "wf_mram m"
  shows "dma_to_wram_from_mram w m bytes wo mo =
    (if dma_active m bytes wo mo
     then (True, w\<lparr>wram_data := slice_put (unat wo)
            (slice_get (unat mo) (dma_len bytes wo mo) (the (mram_addr m))) (wram_data w)\<rparr>)
     else (False, w))"
proof (cases "dma_active m bytes wo mo")
  case True
  then obtain xs where "mram_addr m = Some xs" "length xs = kMramSizeBytes" "mram_size m = kMramSizeBytes"
    using assms by (auto simp: dma_active_def dest: wf_mram_boundD)
  note mem = this
  have len: "min bytes (min (mram_size m - unat mo) (kWRAMSizeBytes - unat wo)) = dma_len bytes wo mo"
    by (simp only: dma_len_def mem)
  show ?thesis
    unfolding dma_to_wram_from_mram_def Let_def len
    using True mem dma_len_bounds [OF True]
    by (auto simp: mram_host_copy_from_def mram_byte_in_bounds_iff dma_active_def)
next
  case False
  with assms show ?thesis
    by (auto simp: dma_to_wram_from_mram_def Let_def dma_active_def mram_bound_def wf_mram_def
        split: option.splits)
qed

lemma dma_to_mram_eq:
  assumes "wf_mram m" and "wf_wram w"
  shows "dma_to_mram_from_wram m w bytes mo wo =
    (if dma_active m bytes wo mo
     then (True, m\<lparr>mram_addr := Some (slice_put (unat mo)
            (slice_get (unat wo) (dma_len bytes wo mo) (wram_data w)) (the (mram_addr m)))\<rparr>)
     else (False, m))"
proof (cases "dma_active m bytes wo mo")
  case True
  then obtain xs where "mram_addr m = Some xs" "length xs = kMramSizeBytes" "mram_size m = kMramSizeBytes"
    using assms by (auto simp: dma_active_def dest: wf_mram_boundD)
  note mem = this
  have len: "min bytes (min (mram_size m - unat mo) (kWRAMSizeBytes - unat wo)) = dma_len bytes wo mo"
    by (simp only: dma_len_def mem)
  show ?thesis
    unfolding dma_to_mram_from_wram_def Let_def len
    using True mem dma_len_bounds [OF True]
    by (auto simp: mram_host_copy_to_def mram_byte_in_bounds_iff dma_active_def slice_get_def)
next
  case False
  with assms show ?thesis
    by (auto simp: dma_to_mram_from_wram_def Let_def dma_active_def mram_bound_def wf_mram_def
        split: option.splits)
qed

lemma wf_wram_dma [wf_intros]:
  assumes "wf_mram m" and "wf_wram w"
  shows "wf_wram (snd (dma_to_wram_from_mram w m bytes wo mo))"
proof (cases "dma_active m bytes wo mo")
  case True
  then have "\<exists>xs. mram_addr m = Some xs \<and> length xs = kMramSizeBytes"
    using assms wf_mram_boundD [of m] by (auto simp: dma_active_def)
  then show ?thesis
    using assms True dma_len_bounds [OF True] by (auto simp: dma_to_wram_eq wf_wram_def)
qed (simp add: assms dma_to_wram_eq)

lemma wf_mram_dma [wf_intros]:
  assumes "wf_mram m" and "wf_wram w"
  shows "wf_mram (snd (dma_to_mram_from_wram m w bytes mo wo))"
proof (cases "dma_active m bytes wo mo")
  case True
  then obtain xs where "mram_addr m = Some xs" "length xs = kMramSizeBytes" "mram_size m = kMramSizeBytes"
    using assms by (auto simp: dma_active_def dest: wf_mram_boundD)
  then show ?thesis
    using assms True dma_len_bounds [OF True] by (simp add: dma_to_mram_eq wf_mram_def wf_wram_def)
qed (simp add: assms dma_to_mram_eq)

lemma mram_bound_dma [simp]:
  "wf_mram m \<Longrightarrow> wf_wram w \<Longrightarrow>
   mram_bound (snd (dma_to_mram_from_wram m w bytes mo wo)) = mram_bound m"
  by (auto simp: dma_to_mram_eq mram_bound_def dma_active_def)

end
