(* ===== verification/Pipeline_State.thy ===== *)
theory Pipeline_State
  imports Decoder Dma
begin

text \<open>
  The state of \<open>class Pipeline\<close> (\<open>dpu/dpu.hh\<close>) and the small functions of \<open>dpu/pipeline.cc\<close> that the
  instructions are built from: sign extensions, rotates, bit counts, the performance counter, the
  lambdas of \<open>execute_once\<close> that read and write the registers and flags of the tasklet \<open>t\<close>, and the
  evaluation of condition codes.

  \<open>exec\<close> is what an instruction may change: the pipeline, the WRAM, the MRAM and the two locals
  \<open>next_pc\<close> and \<open>keep_running\<close>. The IRAM is only read. \<open>good t x0 x\<close> relates the state \<open>x0\<close> before an
  instruction of the tasklet \<open>t\<close> with a state \<open>x\<close> reached by it; every primitive keeps it, and the
  rules \<open>good_rules\<close> extend this to the instructions, which are built from the primitives.
\<close>

section \<open>Arithmetic helpers\<close>

definition sign_extend16 :: "u16 \<Rightarrow> u32" where
  "sign_extend16 v = scast v"

definition sign_extend24 :: "u32 \<Rightarrow> u32" where
  "sign_extend24 v =
     (let masked = v AND 0x00FFFFFF
      in if masked AND 0x00800000 \<noteq> 0 then masked OR 0xFF000000 else masked)"

definition atomic_bit_index :: "u32 \<Rightarrow> u8" where
  "atomic_bit_index v = ucast (v AND 0xFF)"

definition rotl32 :: "u32 \<Rightarrow> u32 \<Rightarrow> u32" where
  "rotl32 v shift =
     (let s = shift AND 31
      in if s = 0 then v else push_bit (unat s) v OR drop_bit (unat (32 - s)) v)"

definition rotr32 :: "u32 \<Rightarrow> u32 \<Rightarrow> u32" where
  "rotr32 v shift =
     (let s = shift AND 31
      in if s = 0 then v else drop_bit (unat s) v OR push_bit (unat (32 - s)) v)"

text \<open>The compiler builtins \<open>__builtin_clz\<close> (for a non-zero argument) and \<open>__builtin_popcount\<close>.\<close>

definition builtin_clz :: "u32 \<Rightarrow> u32" where
  "builtin_clz v = of_nat (length (takeWhile Not (map (bit v) (rev [0..<32]))))"

definition builtin_popcount :: "u32 \<Rightarrow> u32" where
  "builtin_popcount v = of_nat (length (filter (bit v) [0..<32]))"

definition count_leading_ones_u32 :: "u32 \<Rightarrow> u32" where
  "count_leading_ones_u32 v = (if v = 0xFFFFFFFF then 32 else builtin_clz (NOT v))"

definition count_leading_sign_u32 :: "u32 \<Rightarrow> u32" where
  "count_leading_sign_u32 v =
     (if v = 0 \<or> v = 0xFFFFFFFF then 31
      else
        let leading = (if v AND 0x80000000 \<noteq> 0 then builtin_clz (NOT v) else builtin_clz v)
        in if leading = 0 then 0 else leading - 1)"

definition saturating_add_s32 :: "u32 \<Rightarrow> u32 \<Rightarrow> u32" where
  "saturating_add_s32 lhs rhs =
     (let a = sint lhs; b = sint rhs; sum = a + b;
          min_v = - (2 ^ 31); max_v = 2 ^ 31 - 1
      in if sum < min_v then word_of_int min_v
         else if sum > max_v then word_of_int max_v
         else word_of_int sum)"

definition low_u32 :: "u64 \<Rightarrow> u32" where
  "low_u32 v = ucast (v AND 0xFFFFFFFF)"

definition pl_byte :: "u64 \<Rightarrow> nat \<Rightarrow> u8" where
  "pl_byte v shift = ucast (drop_bit shift v AND 0xFF)"

definition dreg_slot :: "int \<Rightarrow> u8" where
  "dreg_slot reg_num = (if reg_num < 0 then 0 else word_of_int (reg_num div 2))"

text \<open>The lambda \<open>addr_add\<close>: a signed 64-bit sum, truncated to 32 bits.\<close>

definition addr_add :: "u32 \<Rightarrow> u32 \<Rightarrow> u32" where
  "addr_add base off = word_of_int (sint base + sint off)"

section \<open>The pipeline\<close>

record pipeline =
  pl_gp_regs :: "u32 list list"
  pl_pc_regs :: "u64 list"
  pl_zf_regs :: "u8 list"
  pl_cf_regs :: "u8 list"
  pl_perf_counter_raw :: u32
  pl_perf_counter_mode :: u8
  pl_run_bits :: u64
  pl_sleep_bits :: u64
  pl_replay_bits :: u64
  pl_atomic_bits :: "u8 list"

definition pipeline_init :: pipeline where
  "pipeline_init = \<lparr>
     pl_gp_regs = replicate kNumTasklets (replicate kNumGPRegPerTasklet 0),
     pl_pc_regs = replicate kNumTasklets 0,
     pl_zf_regs = replicate kNumTasklets 0,
     pl_cf_regs = replicate kNumTasklets 0,
     pl_perf_counter_raw = 0, pl_perf_counter_mode = 0,
     pl_run_bits = 0, pl_sleep_bits = 0, pl_replay_bits = 0,
     pl_atomic_bits = replicate 256 0\<rparr>"

definition kPerfModeSame :: u8 where "kPerfModeSame = 0"
definition kPerfModeCycles :: u8 where "kPerfModeCycles = 1"
definition kPerfModeInstructions :: u8 where "kPerfModeInstructions = 2"
definition kPerfModeNothing :: u8 where "kPerfModeNothing = 3"

lemmas perf_modes [simp] =
  kPerfModeSame_def kPerfModeCycles_def kPerfModeInstructions_def kPerfModeNothing_def

definition perf_counter_read32 :: "pipeline \<Rightarrow> u32" where
  "perf_counter_read32 p = drop_bit 4 (pl_perf_counter_raw p)"

definition perf_counter_config :: "u32 \<Rightarrow> pipeline \<Rightarrow> u32 \<times> pipeline" where
  "perf_counter_config config_bits p =
     (let old = perf_counter_read32 p;
          packed = ucast (config_bits AND 0x7) :: u8;
          should_reset = (packed AND 0x1 \<noteq> 0);
          mode_bits = drop_bit 1 packed AND 0x3;
          p = (if mode_bits = kPerfModeSame then p else p\<lparr>pl_perf_counter_mode := mode_bits\<rparr>);
          p = (if should_reset
               then p\<lparr>pl_perf_counter_raw :=
                        (if pl_perf_counter_mode p = kPerfModeNothing then 0 else NOT 0)\<rparr>
               else p)
      in (old, p))"

definition perf_counter_retire_step :: "bool \<Rightarrow> pipeline \<Rightarrow> pipeline" where
  "perf_counter_retire_step is_replay_step p =
     (if pl_perf_counter_mode p = kPerfModeCycles
      then p\<lparr>pl_perf_counter_raw := pl_perf_counter_raw p + 1\<rparr>
      else if pl_perf_counter_mode p = kPerfModeInstructions \<and> \<not> is_replay_step
      then p\<lparr>pl_perf_counter_raw := pl_perf_counter_raw p + 1\<rparr>
      else p)"

section \<open>The state of an instruction\<close>

record exec =
  ex_pl :: pipeline
  ex_wram :: wram
  ex_mram :: mram
  ex_next_pc :: u64
  ex_keep_running :: bool

definition upd_pl :: "(pipeline \<Rightarrow> pipeline) \<Rightarrow> exec \<Rightarrow> exec" where
  "upd_pl f x = x\<lparr>ex_pl := f (ex_pl x)\<rparr>"

text \<open>\<open>tasklet_count\<close>: \<open>nr_tasklet_\<close> is \<open>kNumTasklets\<close> and never changes.\<close>

definition tasklet_count :: nat where "tasklet_count = min kNumTasklets kNumTasklets"

definition cur_pc :: "nat \<Rightarrow> exec \<Rightarrow> u64" where
  "cur_pc t x = pl_pc_regs (ex_pl x) ! t"

definition read_reg :: "nat \<Rightarrow> u8 \<Rightarrow> exec \<Rightarrow> u32" where
  "read_reg t idx x =
     (if idx < 24 then pl_gp_regs (ex_pl x) ! t ! unat idx
      else if idx = 24 then 0
      else if idx = 25 then 1
      else if idx = 26 then 0xFFFFFFFF
      else if idx = 27 then 0x80000000
      else if idx = 28 then of_nat t
      else if idx = 29 then of_nat (t * 2)
      else if idx = 30 then of_nat (t * 4)
      else if idx = 31 then of_nat (t * 8)
      else 0)"

definition write_reg :: "nat \<Rightarrow> u8 \<Rightarrow> u32 \<Rightarrow> exec \<Rightarrow> exec" where
  "write_reg t idx v x =
     (if idx < 24
      then upd_pl (\<lambda>p. p\<lparr>pl_gp_regs := (pl_gp_regs p)[t := (pl_gp_regs p ! t)[unat idx := v]]\<rparr>) x
      else x)"

definition read_dreg :: "nat \<Rightarrow> u8 \<Rightarrow> exec \<Rightarrow> u64" where
  "read_dreg t reg_idx x =
     (let slot = dreg_slot (uint reg_idx) in
      if slot \<ge> 12 then 0
      else let hi = slot * 2; lo = hi + 1
           in push_bit 32 (ucast (read_reg t hi x)) OR ucast (read_reg t lo x))"

definition write_dreg :: "nat \<Rightarrow> u8 \<Rightarrow> u64 \<Rightarrow> exec \<Rightarrow> exec" where
  "write_dreg t reg_idx v x =
     (let slot = dreg_slot (uint reg_idx) in
      if slot \<ge> 12 then x
      else let hi = slot * 2; lo = hi + 1;
               x = write_reg t hi (ucast (drop_bit 32 v AND 0xFFFFFFFF)) x
           in write_reg t lo (ucast (v AND 0xFFFFFFFF)) x)"

definition set_zf :: "nat \<Rightarrow> u32 \<Rightarrow> exec \<Rightarrow> exec" where
  "set_zf t v = upd_pl (\<lambda>p. p\<lparr>pl_zf_regs := (pl_zf_regs p)[t := (if v = 0 then 1 else 0)]\<rparr>)"

definition set_cf :: "nat \<Rightarrow> bool \<Rightarrow> exec \<Rightarrow> exec" where
  "set_cf t b = upd_pl (\<lambda>p. p\<lparr>pl_cf_regs := (pl_cf_regs p)[t := (if b then 1 else 0)]\<rparr>)"

definition zf_set :: "nat \<Rightarrow> exec \<Rightarrow> bool" where
  "zf_set t x \<longleftrightarrow> pl_zf_regs (ex_pl x) ! t \<noteq> 0"

definition cf_set :: "nat \<Rightarrow> exec \<Rightarrow> bool" where
  "cf_set t x \<longleftrightarrow> pl_cf_regs (ex_pl x) ! t \<noteq> 0"

definition jump :: "u64 \<Rightarrow> exec \<Rightarrow> exec" where
  "jump pc x = x\<lparr>ex_next_pc := pc\<rparr>"

definition halt :: "exec \<Rightarrow> exec" where
  "halt x = x\<lparr>ex_keep_running := False\<rparr>"

section \<open>Condition codes\<close>

definition eval_cc_kind_simple :: "cc_kind \<Rightarrow> bool \<Rightarrow> bool \<Rightarrow> u32 \<Rightarrow> bool" where
  "eval_cc_kind_simple k z c v =
     (case k of
        CC_True \<Rightarrow> True
      | CC_Zero \<Rightarrow> v = 0
      | CC_NonZero \<Rightarrow> v \<noteq> 0
      | CC_Carry \<Rightarrow> c
      | CC_NoCarry \<Rightarrow> \<not> c
      | CC_LessEqualUnsigned \<Rightarrow> c \<or> v = 0
      | CC_GreaterUnsigned \<Rightarrow> \<not> c \<and> v \<noteq> 0
      | CC_LessSigned \<Rightarrow> sint v < 0
      | CC_LessEqualSigned \<Rightarrow> sint v \<le> 0
      | CC_GreaterSigned \<Rightarrow> sint v > 0
      | CC_GreaterEqualSigned \<Rightarrow> sint v \<ge> 0
      | CC_XZero \<Rightarrow> z \<and> v = 0
      | CC_XNonZero \<Rightarrow> \<not> (z \<and> v = 0)
      | CC_Max \<Rightarrow> v = 32
      | CC_NotMax \<Rightarrow> v \<noteq> 32
      | CC_Even \<Rightarrow> v AND 1 = 0
      | CC_Odd \<Rightarrow> v AND 1 \<noteq> 0
      | _ \<Rightarrow> False)"

definition eval_add_subword_no_carry :: "u8 \<Rightarrow> u32 \<Rightarrow> u32 \<Rightarrow> bool" where
  "eval_add_subword_no_carry bits lhs rhs =
     (if bits < 5 \<or> bits > 31 then False
      else
        let limit = push_bit (unat bits) 1 :: u64;
            mask = limit - 1;
            partial_sum = (ucast lhs AND mask) + (ucast rhs AND mask)
        in partial_sum < limit)"

definition eval_subc_cc_simple :: "cc_kind \<Rightarrow> bool \<Rightarrow> bool \<Rightarrow> u32 \<Rightarrow> bool \<Rightarrow> bool \<Rightarrow> bool" where
  "eval_subc_cc_simple k z c v old_zf overflow =
     (if k = CC_XZero then v = 0 \<and> old_zf
      else if k = CC_XNonZero then \<not> (v = 0 \<and> old_zf)
      else if k = CC_XLessEqualUnsigned then c \<or> old_zf
      else if k = CC_XGreaterUnsigned then c \<and> \<not> old_zf
      else
        let signed_less = (sint v < 0 \<or> overflow);
            equal64 = (old_zf \<and> v = 0)
        in if k = CC_XLessEqualSigned then signed_less \<or> equal64
           else if k = CC_XGreaterSigned then \<not> signed_less \<and> \<not> equal64
           else eval_cc_kind_simple k z c v)"

definition take_cond_branch :: "nat \<Rightarrow> raw_decoded48 \<Rightarrow> u32 \<Rightarrow> exec \<Rightarrow> exec" where
  "take_cond_branch t d v x =
     (if rd_has_cc d \<and> rd_has_pc d \<and> eval_cc_kind_simple (rd_cc_kind d) (zf_set t x) (cf_set t x) v
      then jump (ucast (rd_pc d) * 8) x
      else x)"

section \<open>Well-formedness\<close>

definition wf_pipeline :: "pipeline \<Rightarrow> bool" where
  "wf_pipeline p \<longleftrightarrow>
     length (pl_gp_regs p) = kNumTasklets \<and>
     list_all (\<lambda>rs. length rs = kNumGPRegPerTasklet) (pl_gp_regs p) \<and>
     length (pl_pc_regs p) = kNumTasklets \<and>
     length (pl_zf_regs p) = kNumTasklets \<and> list_all (\<lambda>v. v \<le> 1) (pl_zf_regs p) \<and>
     length (pl_cf_regs p) = kNumTasklets \<and> list_all (\<lambda>v. v \<le> 1) (pl_cf_regs p) \<and>
     length (pl_atomic_bits p) = 256 \<and>
     pl_perf_counter_mode p \<le> 3 \<and>
     within (pl_run_bits p) (mask kNumTasklets) \<and>
     pl_sleep_bits p = 0 \<and> pl_replay_bits p = 0"

lemma wf_pipeline_init [wf_intros]: "wf_pipeline pipeline_init"
  by (simp add: wf_pipeline_def pipeline_init_def within_def list_all_length)

definition wf_exec :: "exec \<Rightarrow> bool" where
  "wf_exec x \<longleftrightarrow> wf_pipeline (ex_pl x) \<and> wf_wram (ex_wram x) \<and> wf_mram (ex_mram x)"

text \<open>The registers of the tasklet \<open>u\<close>.\<close>

definition tasklet_regs :: "nat \<Rightarrow> pipeline \<Rightarrow> u32 list \<times> u64 \<times> u8 \<times> u8" where
  "tasklet_regs u p = (pl_gp_regs p ! u, pl_pc_regs p ! u, pl_zf_regs p ! u, pl_cf_regs p ! u)"

definition isolated :: "nat \<Rightarrow> pipeline \<Rightarrow> pipeline \<Rightarrow> bool" where
  "isolated t p q \<longleftrightarrow>
     (\<forall>u < kNumTasklets. u \<noteq> t \<and> bit (pl_run_bits p) u \<longrightarrow>
        tasklet_regs u q = tasklet_regs u p \<and> bit (pl_run_bits q) u)"

definition good :: "nat \<Rightarrow> exec \<Rightarrow> exec \<Rightarrow> bool" where
  "good t x0 x \<longleftrightarrow>
     wf_exec x \<and> isolated t (ex_pl x0) (ex_pl x) \<and> mram_bound (ex_mram x) = mram_bound (ex_mram x0) \<and>
     pl_pc_regs (ex_pl x) ! t = pl_pc_regs (ex_pl x0) ! t \<and> bit (pl_run_bits (ex_pl x)) t"

lemma isolated_refl [simp]: "isolated t p p"
  by (simp add: isolated_def)

lemma isolated_trans: "isolated t p q \<Longrightarrow> isolated t q r \<Longrightarrow> isolated t p r"
  by (simp add: isolated_def)

lemma good_refl: "wf_exec x \<Longrightarrow> bit (pl_run_bits (ex_pl x)) t \<Longrightarrow> good t x x"
  by (simp add: good_def)

lemma list_all_update: "list_all P xs \<Longrightarrow> P y \<Longrightarrow> list_all P (xs[i := y])"
  by (auto simp: list_all_iff dest!: set_update_subset_insert [THEN subsetD])

section \<open>The primitives keep the state good\<close>

lemma good_upd_pl:
  assumes "good t x0 x"
    and "wf_pipeline (ex_pl x) \<Longrightarrow> wf_pipeline (f (ex_pl x))"
    and "isolated t (ex_pl x) (f (ex_pl x))"
    and "pl_pc_regs (f (ex_pl x)) ! t = pl_pc_regs (ex_pl x) ! t"
    and "bit (pl_run_bits (f (ex_pl x))) t = bit (pl_run_bits (ex_pl x)) t"
  shows "good t x0 (upd_pl f x)"
  using assms by (auto simp: good_def wf_exec_def upd_pl_def intro: isolated_trans)

lemma wf_pipeline_gp:
  "wf_pipeline p \<Longrightarrow> length rs = kNumGPRegPerTasklet \<Longrightarrow> wf_pipeline (p\<lparr>pl_gp_regs := (pl_gp_regs p)[t := rs]\<rparr>)"
  by (simp add: wf_pipeline_def list_all_update)

lemma wf_pipeline_gp_length:
  "wf_pipeline p \<Longrightarrow> t < kNumTasklets \<Longrightarrow> length (pl_gp_regs p ! t) = kNumGPRegPerTasklet"
  by (simp add: wf_pipeline_def list_all_length)

lemma wf_pipeline_write:
  assumes "wf_pipeline p"
  shows "wf_pipeline (p\<lparr>pl_gp_regs := (pl_gp_regs p)[t := (pl_gp_regs p ! t)[i := v]]\<rparr>)"
proof (cases "t < kNumTasklets")
  case True
  then show ?thesis using assms by (intro wf_pipeline_gp) (simp_all add: wf_pipeline_gp_length)
next
  case False
  then have "(pl_gp_regs p)[t := (pl_gp_regs p ! t)[i := v]] = pl_gp_regs p"
    using assms by (intro list_update_beyond) (simp add: wf_pipeline_def)
  then show ?thesis using assms by simp
qed

lemma good_write_reg: "good t x0 x \<Longrightarrow> good t x0 (write_reg t i v x)"
  unfolding write_reg_def
  by (auto intro!: good_upd_pl wf_pipeline_write simp: isolated_def tasklet_regs_def)

lemma good_write_dreg: "good t x0 x \<Longrightarrow> good t x0 (write_dreg t i v x)"
  by (simp add: write_dreg_def Let_def good_write_reg)

lemma good_set_zf: "good t x0 x \<Longrightarrow> good t x0 (set_zf t v x)"
  unfolding set_zf_def
  by (rule good_upd_pl) (auto simp: wf_pipeline_def list_all_update isolated_def tasklet_regs_def)

lemma good_set_cf: "good t x0 x \<Longrightarrow> good t x0 (set_cf t b x)"
  unfolding set_cf_def
  by (rule good_upd_pl) (auto simp: wf_pipeline_def list_all_update isolated_def tasklet_regs_def)

lemma good_jump: "good t x0 x \<Longrightarrow> good t x0 (jump a x)"
  by (simp add: good_def jump_def wf_exec_def)

lemma good_halt: "good t x0 x \<Longrightarrow> good t x0 (halt x)"
  by (simp add: good_def halt_def wf_exec_def)

lemma good_take_cond_branch: "good t x0 x \<Longrightarrow> good t x0 (take_cond_branch t d v x)"
  by (simp add: take_cond_branch_def good_jump)

lemma good_if: "good t x0 a \<Longrightarrow> good t x0 b \<Longrightarrow> good t x0 (if c then a else b)"
  by simp

lemma good_let: "good t x0 (f a) \<Longrightarrow> good t x0 (Let a f)"
  by simp

definition perf_config :: "u32 \<Rightarrow> exec \<Rightarrow> u32 \<times> exec" where
  "perf_config v x = (let (old, p) = perf_counter_config v (ex_pl x) in (old, x\<lparr>ex_pl := p\<rparr>))"

lemma wf_perf_counter_config [wf_intros]:
  assumes "wf_pipeline p"
  shows "wf_pipeline (snd (perf_counter_config v p))"
proof -
  have "(w :: u8) AND 3 \<le> 3" for w by (rule word_and_le1)
  then show ?thesis
    using assms by (auto simp: perf_counter_config_def Let_def wf_pipeline_def)
qed

lemma perf_counter_config_frame [simp]:
  "pl_gp_regs (snd (perf_counter_config v p)) = pl_gp_regs p"
  "pl_pc_regs (snd (perf_counter_config v p)) = pl_pc_regs p"
  "pl_zf_regs (snd (perf_counter_config v p)) = pl_zf_regs p"
  "pl_cf_regs (snd (perf_counter_config v p)) = pl_cf_regs p"
  "pl_run_bits (snd (perf_counter_config v p)) = pl_run_bits p"
  by (simp_all add: perf_counter_config_def Let_def)

lemma good_perf_config: "good t x0 x \<Longrightarrow> good t x0 (snd (perf_config v x))"
proof -
  let ?f = "\<lambda>p. snd (perf_counter_config v p)"
  have "snd (perf_config v x) = upd_pl ?f x"
    by (simp add: perf_config_def upd_pl_def split_beta)
  moreover assume "good t x0 x"
  then have "good t x0 (upd_pl ?f x)"
    by (rule good_upd_pl)
      (simp_all add: wf_perf_counter_config isolated_def tasklet_regs_def)
  ultimately show ?thesis by simp
qed

lemma wf_retire [wf_intros]: "wf_pipeline p \<Longrightarrow> wf_pipeline (perf_counter_retire_step b p)"
  by (simp add: perf_counter_retire_step_def wf_pipeline_def)

definition upd_wram :: "(wram \<Rightarrow> wram) \<Rightarrow> exec \<Rightarrow> exec" where
  "upd_wram f x = x\<lparr>ex_wram := f (ex_wram x)\<rparr>"

lemma good_upd_wram:
  "good t x0 x \<Longrightarrow> (wf_wram (ex_wram x) \<Longrightarrow> wf_wram (f (ex_wram x))) \<Longrightarrow> good t x0 (upd_wram f x)"
  by (simp add: good_def wf_exec_def upd_wram_def)

definition dma_load :: "nat \<Rightarrow> u32 \<Rightarrow> u32 \<Rightarrow> exec \<Rightarrow> exec" where
  "dma_load bytes wram_offset mram_offset x =
     x\<lparr>ex_wram := snd (dma_to_wram_from_mram (ex_wram x) (ex_mram x) bytes wram_offset mram_offset)\<rparr>"

definition dma_store :: "nat \<Rightarrow> u32 \<Rightarrow> u32 \<Rightarrow> exec \<Rightarrow> exec" where
  "dma_store bytes mram_offset wram_offset x =
     x\<lparr>ex_mram := snd (dma_to_mram_from_wram (ex_mram x) (ex_wram x) bytes mram_offset wram_offset)\<rparr>"

lemma good_dma:
  "good t x0 x \<Longrightarrow> good t x0 (dma_load n wo mo x)"
  "good t x0 x \<Longrightarrow> good t x0 (dma_store n mo wo x)"
  by (auto simp: good_def wf_exec_def dma_load_def dma_store_def wf_intros)

text \<open>\<open>set_atomic\<close> writes a byte of the lock array; \<open>wake\<close> sets a run bit and clears the sleep and replay
  bits; \<open>reset_tasklet\<close> clears the registers of a tasklet.\<close>

definition set_atomic :: "u8 \<Rightarrow> u8 \<Rightarrow> exec \<Rightarrow> exec" where
  "set_atomic byte_idx v = upd_pl (\<lambda>p. p\<lparr>pl_atomic_bits := (pl_atomic_bits p)[unat byte_idx := v]\<rparr>)"

definition wake :: "u64 \<Rightarrow> pipeline \<Rightarrow> pipeline" where
  "wake b p = p\<lparr>pl_run_bits := pl_run_bits p OR b, pl_sleep_bits := pl_sleep_bits p AND NOT b,
                pl_replay_bits := pl_replay_bits p AND NOT b\<rparr>"

definition reset_tasklet :: "nat \<Rightarrow> pipeline \<Rightarrow> pipeline" where
  "reset_tasklet i p = p\<lparr>
     pl_gp_regs := (pl_gp_regs p)[i := replicate kNumGPRegPerTasklet 0],
     pl_pc_regs := (pl_pc_regs p)[i := 0],
     pl_zf_regs := (pl_zf_regs p)[i := 0],
     pl_cf_regs := (pl_cf_regs p)[i := 0]\<rparr>"

lemma good_set_atomic: "good t x0 x \<Longrightarrow> good t x0 (set_atomic i v x)"
  unfolding set_atomic_def
  by (rule good_upd_pl) (auto simp: wf_pipeline_def isolated_def tasklet_regs_def)

lemma wf_wake [wf_intros]:
  assumes "wf_pipeline p" and "i < kNumTasklets"
  shows "wf_pipeline (wake (2 ^ i) p)"
proof -
  have "within (pl_run_bits p OR 2 ^ i) (mask kNumTasklets)"
    using assms by (auto simp: wf_pipeline_def within_mask_iff mask_bits)
  then show ?thesis using assms(1) by (simp add: wf_pipeline_def wake_def)
qed

lemma wf_reset_tasklet [wf_intros]: "wf_pipeline p \<Longrightarrow> wf_pipeline (reset_tasklet i p)"
  by (simp add: reset_tasklet_def wf_pipeline_def list_all_update)

lemma good_wake:
  "good t x0 x \<Longrightarrow> i < kNumTasklets \<Longrightarrow> good t x0 (upd_pl (wake (2 ^ i)) x)"
  by (rule good_upd_pl)
    (simp_all add: wf_wake, auto simp: isolated_def tasklet_regs_def wake_def mask_bits good_def)

lemma wf_run_bit [wf_intros]:
  assumes "wf_pipeline p" and "i < kNumTasklets"
  shows "wf_pipeline (p\<lparr>pl_run_bits := pl_run_bits p OR 2 ^ i\<rparr>)"
  using wf_wake [OF assms] assms(1) by (simp add: wake_def wf_pipeline_def)

lemma good_boot:
  assumes "good t x0 x" and "i < kNumTasklets" and "\<not> bit (pl_run_bits (ex_pl x)) i"
  shows "good t x0 (upd_pl (\<lambda>p. reset_tasklet i (wake (2 ^ i) p)) x)" (is ?wake)
    and "good t x0 (upd_pl (\<lambda>p. reset_tasklet i p\<lparr>pl_run_bits := pl_run_bits p OR 2 ^ i\<rparr>) x)" (is ?run)
proof -
  let ?w = "\<lambda>p. reset_tasklet i (wake (2 ^ i) p)"
    and ?r = "\<lambda>p. reset_tasklet i p\<lparr>pl_run_bits := pl_run_bits p OR 2 ^ i\<rparr>"
  have i: "i \<noteq> t" using assms by (auto simp: good_def)
  have frame: "isolated t (ex_pl x) (?w (ex_pl x))" "isolated t (ex_pl x) (?r (ex_pl x))"
    using assms(3)
    by (auto simp: isolated_def tasklet_regs_def wake_def reset_tasklet_def mask_bits
        intro!: nth_list_update_neq)
  have wf: "wf_pipeline (?w p)" "wf_pipeline (?r p)" if "wf_pipeline p" for p
    using wf_run_bit [OF wf_reset_tasklet [OF that] assms(2)] wf_reset_tasklet [OF wf_wake [OF that assms(2)]]
    by (simp_all add: reset_tasklet_def)
  show ?wake
    using assms(1) wf(1) frame(1) by (rule good_upd_pl) (use i in \<open>auto simp: reset_tasklet_def wake_def mask_bits\<close>)
  show ?run
    using assms(1) wf(2) frame(2) by (rule good_upd_pl) (use i in \<open>auto simp: reset_tasklet_def mask_bits\<close>)
qed

lemmas good_prims =
  good_write_reg good_write_dreg good_set_zf good_set_cf good_jump good_halt good_take_cond_branch
  good_perf_config good_dma good_set_atomic

lemmas good_rules = good_let good_if good_prims

end
