(* ===== verification/Exec_Hot.thy ===== *)
theory Exec_Hot
  imports Pipeline_State
begin

text \<open>
  The first half of \<open>Pipeline::execute_once\<close> (\<open>dpu/pipeline.cc\<close>): the switch over \<open>decoded.hot_op\<close> that
  executes the instructions whose decoding sets \<open>hot_supported\<close>. One definition per case of the
  switch; \<open>execute_hot\<close> is the switch and returns \<open>None\<close> when it leaves \<open>handled\<close> false.
\<close>

section \<open>Operands\<close>

definition dra :: "raw_decoded48 \<Rightarrow> u8" where
  "dra d = (if rd_has_ra d then ucast (rd_ra d AND 0x1F) else 24)"

definition drb :: "raw_decoded48 \<Rightarrow> u8" where
  "drb d = (if rd_has_rb d then ucast (rd_rb d AND 0x1F) else 24)"

definition drc :: "raw_decoded48 \<Rightarrow> u8" where
  "drc d = (if rd_has_rc d then ucast (rd_rc d AND 0x1F) else 24)"

definition ddc :: "raw_decoded48 \<Rightarrow> u8" where
  "ddc d = (if rd_has_dc d then ucast (rd_dc d AND 0x1F) else 0)"

definition ddb :: "raw_decoded48 \<Rightarrow> u8" where
  "ddb d = (if rd_has_db d then ucast (rd_db d AND 0x1F) else 0)"

definition vra :: "nat \<Rightarrow> raw_decoded48 \<Rightarrow> exec \<Rightarrow> u32" where
  "vra t d x = read_reg t (dra d) x"

definition vrb :: "nat \<Rightarrow> raw_decoded48 \<Rightarrow> exec \<Rightarrow> u32" where
  "vrb t d x = read_reg t (drb d) x"

definition voff :: "raw_decoded48 \<Rightarrow> u32" where
  "voff d = (if rd_off_uses_sign_extend24 d then sign_extend24 (rd_off d) else rd_off d)"

definition big_endian :: "raw_decoded48 \<Rightarrow> bool" where
  "big_endian d \<longleftrightarrow> rd_has_endian d \<and> rd_endian d \<noteq> 0"

text \<open>\<open>rhs = decoded.has_rb ? vrb : vimm\<close>\<close>

definition rhs_operand :: "nat \<Rightarrow> raw_decoded48 \<Rightarrow> exec \<Rightarrow> u32" where
  "rhs_operand t d x = (if rd_has_rb d then vrb t d x else rd_imm d)"

definition branch_target :: "raw_decoded48 \<Rightarrow> u64" where
  "branch_target d = ucast (rd_pc d) * 8"

definition write_ext_dreg32 :: "nat \<Rightarrow> raw_decoded48 \<Rightarrow> u32 \<Rightarrow> exec \<Rightarrow> exec" where
  "write_ext_dreg32 t d v x =
     (if \<not> rd_has_dc d then x
      else if rd_writeback_mode d = WB_DregSign32 then write_dreg t (ddc d) (scast v) x
      else if rd_writeback_mode d = WB_DregZero32 then write_dreg t (ddc d) (ucast v) x
      else x)"

text \<open>\<open>if (decoded.has_rc) write_reg(drc, x)\<close>, and the choice between the scalar and the double
  destination that the logical and the shift-and-add instructions share.\<close>

definition write_rc :: "nat \<Rightarrow> raw_decoded48 \<Rightarrow> u32 \<Rightarrow> exec \<Rightarrow> exec" where
  "write_rc t d v x = (if rd_has_rc d then write_reg t (drc d) v x else x)"

definition write_result :: "nat \<Rightarrow> raw_decoded48 \<Rightarrow> u32 \<Rightarrow> exec \<Rightarrow> exec" where
  "write_result t d v x =
     (if rd_writeback_mode d \<noteq> WB_None then write_ext_dreg32 t d v x
      else if \<not> rd_suppress_scalar_write d \<and> rd_has_rc d then write_reg t (drc d) v x
      else x)"

section \<open>Logic and arithmetic\<close>

definition hot_or :: "nat \<Rightarrow> raw_decoded48 \<Rightarrow> exec \<Rightarrow> exec" where
  "hot_or t d x =
     (let v = vra t d x OR rhs_operand t d x;
          x = write_result t d v x;
          x = set_zf t v x
      in take_cond_branch t d v x)"

definition hot_add :: "nat \<Rightarrow> raw_decoded48 \<Rightarrow> exec \<Rightarrow> exec" where
  "hot_add t d x =
     (let a = vra t d x;
          rhs = (if rd_imm_is_signed8 d then scast (ucast (rd_imm d AND 0xFF) :: u8)
                 else rhs_operand t d x);
          sum = ucast a + ucast rhs :: u64;
          v = ucast sum :: u32;
          x = write_rc t d v x;
          x = set_zf t v x;
          x = set_cf t (drop_bit 32 sum \<noteq> 0) x;
          add_cond = (rd_has_cc d \<and> rd_has_pc d \<and> rd_cc_kind d = CC_SubwordNoCarry \<and>
                      eval_add_subword_no_carry (rd_cc_subword_bits d) a rhs)
      in if rd_has_cc d \<and> rd_has_pc d \<and> add_cond then jump (branch_target d) x
         else take_cond_branch t d v x)"

definition hot_addc :: "nat \<Rightarrow> raw_decoded48 \<Rightarrow> exec \<Rightarrow> exec" where
  "hot_addc t d x =
     (let a = vra t d x;
          rhs = rhs_operand t d x;
          carry_in = (if cf_set t x then 1 else 0) :: u32;
          sum = ucast a + ucast rhs + ucast carry_in :: u64;
          v = ucast sum :: u32;
          x = write_rc t d v x;
          x = set_zf t v x;
          x = set_cf t (drop_bit 32 sum \<noteq> 0) x
      in take_cond_branch t d v x)"

definition hot_and :: "nat \<Rightarrow> raw_decoded48 \<Rightarrow> exec \<Rightarrow> exec" where
  "hot_and t d x =
     (let v = (if rd_imm_passthrough d then rd_imm d else vra t d x AND rhs_operand t d x);
          x = (if rd_writeback_mode d \<noteq> WB_None then write_ext_dreg32 t d v x else write_rc t d v x);
          x = set_zf t v x
      in take_cond_branch t d v x)"

definition hot_sub :: "nat \<Rightarrow> raw_decoded48 \<Rightarrow> exec \<Rightarrow> exec" where
  "hot_sub t d x =
     (let lhs = (if rd_sub_lhs_is_imm d then rd_imm d else vra t d x);
          rhs = (if rd_sub_rhs_is_reg d then vrb t d x
                 else if rd_sub_lhs_is_imm d then vra t d x else rd_imm d);
          v = lhs - rhs;
          x = set_zf t v x;
          x = set_cf t (lhs < rhs) x;
          x = (if rd_sub_is_rrrc d
               then let cond = eval_cc_kind_simple (rd_cc_kind d) (zf_set t x) (cf_set t x) v
                    in write_rc t d (if cond then 1 else 0) x
               else write_rc t d v x)
      in if rd_has_cc d \<and> rd_has_pc d \<and> \<not> rd_sub_is_rrrc d \<and> \<not> rd_sub_is_zrrc d
         then take_cond_branch t d v x else x)"

definition hot_subc :: "nat \<Rightarrow> raw_decoded48 \<Rightarrow> exec \<Rightarrow> exec" where
  "hot_subc t d x =
     (let lhs = (if rd_subc_lhs_is_imm d then rd_imm d else vra t d x);
          rhs_base = (if rd_subc_rhs_is_reg d then vrb t d x
                      else if rd_subc_lhs_is_imm d then vra t d x else rd_imm d);
          old_zf = zf_set t x;
          borrow = (if cf_set t x then 1 else 0) :: u32;
          rhs = rhs_base + borrow;
          rhs_wrap = (rhs < rhs_base);
          v = lhs - rhs;
          s1 = (drop_bit 31 lhs AND 1 \<noteq> 0);
          s2 = (drop_bit 31 rhs_base AND 1 \<noteq> 0);
          sr = (drop_bit 31 v AND 1 \<noteq> 0);
          overflow = ((s1 \<and> \<not> s2 \<and> \<not> sr) \<or> (\<not> s1 \<and> s2 \<and> sr));
          x = set_zf t v x;
          x = set_cf t (lhs < rhs \<or> rhs_wrap) x;
          x = (if rd_subc_is_rrrc d
               then let cond = eval_subc_cc_simple (rd_cc_kind d) (zf_set t x) (cf_set t x) v old_zf overflow
                    in write_rc t d (if cond then 1 else 0) x
               else write_rc t d v x)
      in if rd_has_cc d \<and> rd_has_pc d \<and> \<not> rd_subc_is_rrrc d \<and> \<not> rd_subc_is_zrrc d \<and>
            eval_subc_cc_simple (rd_cc_kind d) (zf_set t x) (cf_set t x) v old_zf overflow
         then jump (branch_target d) x else x)"

definition hot_mul_step :: "nat \<Rightarrow> raw_decoded48 \<Rightarrow> exec \<Rightarrow> exec" where
  "hot_mul_step t d x =
     (let a = vra t d x; sh = rd_shift d AND 31 in
      if rd_hot_fmt d = F_Rrrici then
        let db_even_reg = (if rd_has_db d then ddb d else ddc d);
            db_odd_reg = db_even_reg + 1;
            dc_even_reg = ddc d;
            dc_odd_reg = dc_even_reg + 1;
            db_even = read_reg t db_even_reg x;
            db_odd = read_reg t db_odd_reg x;
            new_even = drop_bit 1 db_even;
            new_odd = (if db_even AND 1 \<noteq> 0 then db_odd + push_bit (unat sh) a
                       else read_reg t dc_odd_reg x);
            x = write_reg t dc_even_reg new_even x;
            x = write_reg t dc_odd_reg new_odd x;
            x = set_zf t new_even x;
            x = set_cf t False x
        in take_cond_branch t d new_even x
      else
        let src_even = ddb d AND 0x1E;
            src_odd = src_even + 1;
            dst_even = ddc d AND 0x1E;
            dst_odd = dst_even + 1;
            dbe = read_reg t src_even x;
            dbo = read_reg t src_odd x;
            v = drop_bit 1 dbe;
            y = (if dbe AND 1 \<noteq> 0 then dbo + push_bit (unat sh) a else dbo);
            x = write_reg t dst_even v x;
            x = write_reg t dst_odd y x
        in set_zf t v x)"

definition hot_div_step :: "nat \<Rightarrow> raw_decoded48 \<Rightarrow> exec \<Rightarrow> exec" where
  "hot_div_step t d x =
     (let db_even_reg = (if rd_has_db d then ddb d else ddc d);
          db_odd_reg = db_even_reg + 1;
          dc_even_reg = ddc d;
          dc_odd_reg = dc_even_reg + 1;
          db_even = read_reg t db_even_reg x;
          db_odd = read_reg t db_odd_reg x;
          sh = rd_shift d AND 31;
          shifted = push_bit (unat sh) (vra t d x);
          trial = db_odd - shifted;
          (new_even, new_odd) =
            (if db_odd \<ge> shifted then (push_bit 1 db_even OR 1, trial)
             else (push_bit 1 db_even, read_reg t dc_odd_reg x));
          x = write_reg t dc_even_reg new_even x;
          x = write_reg t dc_odd_reg new_odd x;
          x = set_zf t trial x;
          x = set_cf t False x
      in take_cond_branch t d trial x)"

section \<open>Locks and tasklets\<close>

definition hot_acquire :: "nat \<Rightarrow> raw_decoded48 \<Rightarrow> exec \<Rightarrow> exec" where
  "hot_acquire t d x =
     (let addr = vra t d x + rd_imm d;
          index = atomic_bit_index addr;
          byte_idx = index div 8;
          bit_idx = index mod 8;
          msk = push_bit (unat bit_idx) 1 :: u8;
          old = pl_atomic_bits (ex_pl x) ! unat byte_idx;
          (result, x) =
            (if \<not> rd_acquire_is_release d
             then (if old AND msk = 0 then 0 else 1, set_atomic byte_idx (old OR msk) x)
             else (if old AND msk \<noteq> 0 then 0 else 1, set_atomic byte_idx (old AND NOT msk) x));
          x = write_rc t d result x;
          x = set_zf t result x
      in take_cond_branch t d result x)"

text \<open>The thread index that \<open>Resume\<close> and \<open>Boot\<close> compute from their address.\<close>

definition thread_index :: "u32 \<Rightarrow> u8" where
  "thread_index addr = ucast ((drop_bit 8 addr AND 0xFF) XOR (addr AND 0xFF))"

definition hot_resume :: "nat \<Rightarrow> raw_decoded48 \<Rightarrow> exec \<Rightarrow> exec" where
  "hot_resume t d x =
     (let index = thread_index (vra t d x + rd_imm d);
          b = push_bit (unat index) 1 :: u64;
          is_sleeping = (pl_sleep_bits (ex_pl x) AND b \<noteq> 0);
          is_stopped = (pl_run_bits (ex_pl x) AND b = 0);
          woken = (unat index < tasklet_count \<and> (is_sleeping \<or> is_stopped));
          x = (if woken then upd_pl (wake b) x else x);
          result = (if woken then 0 else 1);
          x = write_rc t d result x;
          x = set_zf t result x
      in take_cond_branch t d result x)"

definition hot_boot :: "nat \<Rightarrow> raw_decoded48 \<Rightarrow> exec \<Rightarrow> exec" where
  "hot_boot t d x =
     (let index = thread_index (vra t d x + rd_imm d);
          b = push_bit (unat index) 1 :: u64;
          is_running = (pl_run_bits (ex_pl x) AND b \<noteq> 0);
          is_sleeping = (pl_sleep_bits (ex_pl x) AND b \<noteq> 0);
          booted = (unat index < tasklet_count \<and> \<not> is_running \<and> \<not> is_sleeping);
          x = (if booted then upd_pl (\<lambda>p. reset_tasklet (unat index) (wake b p)) x else x);
          result = (if booted then 0 else 1);
          x = write_rc t d result x;
          x = set_zf t result x
      in take_cond_branch t d result x)"

definition hot_call :: "nat \<Rightarrow> raw_decoded48 \<Rightarrow> exec \<Rightarrow> exec" where
  "hot_call t d x =
     (let target = sint (vra t d x) + sint (voff d);
          x = write_rc t d (ucast (cur_pc t x div 8 + 1)) x
      in jump (ucast (word_of_int target :: u32) * 8) x)"

definition dma_bytes :: "u32 \<Rightarrow> u32 \<Rightarrow> u32" where
  "dma_bytes imm a = push_bit 3 (1 + ((imm + (drop_bit 24 a AND 0xFF)) AND 0xFF))"

definition hot_dma :: "nat \<Rightarrow> raw_decoded48 \<Rightarrow> exec \<Rightarrow> exec" where
  "hot_dma t d x =
     (let w = vra t d x AND 0xFFFFF8;
          m = vrb t d x AND 0xFFFFFFF8;
          n = dma_bytes (rd_immDma d) (vra t d x)
      in if \<not> rd_dma_to_mram d then dma_load (unat n) w m x else dma_store (unat n) m w x)"

section \<open>Shifts, moves and bit counts\<close>

definition shift_value :: "hot_op \<Rightarrow> u32 \<Rightarrow> u32 \<Rightarrow> u32" where
  "shift_value op a sh =
     (if op = H_Lsl \<or> op = H_LslS \<or> op = H_LslU then push_bit (unat sh) a
      else if op = H_Lslx \<or> op = H_LslxS \<or> op = H_LslxU
      then (if sh = 0 then 0 else drop_bit (unat (32 - sh)) a)
      else if op = H_Lsrx \<or> op = H_LsrxS \<or> op = H_LsrxU
      then (if sh = 0 then 0 else push_bit (unat (32 - sh)) a)
      else drop_bit (unat sh) a)"

definition hot_shift :: "nat \<Rightarrow> raw_decoded48 \<Rightarrow> exec \<Rightarrow> exec" where
  "hot_shift t d x =
     (let op = rd_hot_op d;
          sh = (if rd_has_rb d then vrb t d x AND 31 else rd_shift d AND 31);
          v = shift_value op (vra t d x) sh;
          write_bool = (rd_has_cc d \<and> \<not> rd_has_pc d \<and> (rd_has_rc d \<or> rd_has_dc d));
          cond = (write_bool \<and> eval_cc_kind_simple (rd_cc_kind d) (v = 0) (cf_set t x) v);
          sign_extend = (op = H_LslS \<or> op = H_LslxS \<or> op = H_LsrS \<or> op = H_LsrxS);
          ext = (if sign_extend then scast v else ucast v) :: u64;
          x = (if rd_has_dc d
               then (if write_bool then write_dreg t (ddc d) (if cond then 1 else 0) x
                     else write_dreg t (ddc d) ext x)
               else if rd_has_rc d
               then write_reg t (drc d) (if write_bool then (if cond then 1 else 0) else v) x
               else x);
          x = set_zf t v x
      in if rd_has_cc d \<and> rd_has_pc d then take_cond_branch t d v x else x)"

definition hot_movd :: "nat \<Rightarrow> raw_decoded48 \<Rightarrow> exec \<Rightarrow> exec" where
  "hot_movd t d x =
     (let rhs = read_dreg t (ddb d) x;
          lhs = read_dreg t (ddc d) x;
          x = write_dreg t (ddc d) rhs x;
          x = (if rd_movd_is_swap d then write_dreg t (ddb d) lhs x else x);
          cc_value = (if rhs = 0 then 0 else 1);
          x = set_zf t cc_value x
      in take_cond_branch t d cc_value x)"

definition hot_clz :: "nat \<Rightarrow> raw_decoded48 \<Rightarrow> exec \<Rightarrow> exec" where
  "hot_clz t d x =
     (let a = vra t d x;
          src = (if rd_clz_invert_input d then NOT a else a);
          v = (if src = 0 then 32 else builtin_clz src);
          x = write_rc t d v x;
          x = set_zf t v x
      in take_cond_branch t d v x)"

definition hot_mul_bytes :: "nat \<Rightarrow> raw_decoded48 \<Rightarrow> exec \<Rightarrow> exec" where
  "hot_mul_bytes t d x =
     (let a = vra t d x; b = vrb t d x;
          a_low = ucast (a AND 0xFF) :: u8; a_high = ucast (drop_bit 8 a AND 0xFF) :: u8;
          b_low = ucast (b AND 0xFF) :: u8; b_high = ucast (drop_bit 8 b AND 0xFF) :: u8;
          v = (case rd_mul_byte_pair_mode d of
                 MB_UlUl \<Rightarrow> ucast a_low * ucast b_low
               | MB_UlUh \<Rightarrow> ucast a_low * ucast b_high
               | MB_UhUl \<Rightarrow> ucast a_high * ucast b_low
               | MB_UhUh \<Rightarrow> ucast a_high * ucast b_high
               | MB_None \<Rightarrow> 0) :: u32;
          x = write_rc t d v x
      in set_zf t v x)"

definition hot_lsl_add :: "nat \<Rightarrow> raw_decoded48 \<Rightarrow> exec \<Rightarrow> exec" where
  "hot_lsl_add t d x =
     (let sh = rd_shift d AND 31;
          shifted = push_bit (unat sh) (vra t d x);
          v = vrb t d x + shifted;
          x = write_result t d v x;
          x = set_zf t shifted x
      in take_cond_branch t d v x)"

definition hot_lsl_sub :: "nat \<Rightarrow> raw_decoded48 \<Rightarrow> exec \<Rightarrow> exec" where
  "hot_lsl_sub t d x =
     (let sh = rd_shift d AND 31;
          b = vrb t d x;
          shifted = push_bit (unat sh) (vra t d x);
          v = b - shifted;
          x = write_result t d v x;
          x = set_zf t shifted x;
          x = set_cf t (b < shifted) x
      in take_cond_branch t d v x)"

definition hot_lsr_add :: "nat \<Rightarrow> raw_decoded48 \<Rightarrow> exec \<Rightarrow> exec" where
  "hot_lsr_add t d x =
     (let sh = rd_shift d AND 31;
          shifted = drop_bit (unat sh) (vra t d x);
          v = vrb t d x + shifted;
          x = write_result t d v x;
          x = set_zf t shifted x
      in take_cond_branch t d v x)"

section \<open>Loads, stores and the timer\<close>

definition eff_addr :: "nat \<Rightarrow> raw_decoded48 \<Rightarrow> exec \<Rightarrow> u32" where
  "eff_addr t d x = addr_add (vra t d x) (voff d)"

definition hot_lbu :: "nat \<Rightarrow> raw_decoded48 \<Rightarrow> exec \<Rightarrow> exec" where
  "hot_lbu t d x =
     (let v = ucast (wram_load_u8 (ex_wram x) (eff_addr t d x));
          x = write_rc t d v x
      in set_zf t v x)"

definition hot_lbs :: "nat \<Rightarrow> raw_decoded48 \<Rightarrow> exec \<Rightarrow> exec" where
  "hot_lbs t d x =
     (let v = scast (wram_load_u8 (ex_wram x) (eff_addr t d x));
          x = write_rc t d v x
      in set_zf t v x)"

definition hot_lw :: "nat \<Rightarrow> raw_decoded48 \<Rightarrow> exec \<Rightarrow> exec" where
  "hot_lw t d x =
     (let raw32 = wram_load_u32 (ex_wram x) (eff_addr t d x) (big_endian d);
          x = write_rc t d raw32 x;
          x = write_ext_dreg32 t d raw32 x
      in set_zf t raw32 x)"

definition hot_ld :: "nat \<Rightarrow> raw_decoded48 \<Rightarrow> exec \<Rightarrow> exec" where
  "hot_ld t d x =
     (let v = wram_load_u64 (ex_wram x) (eff_addr t d x) (big_endian d);
          x = (if rd_has_dc d then write_dreg t (ddc d) v x else x)
      in set_zf t (ucast ((v OR drop_bit 32 v) AND 0xFFFFFFFF)) x)"

definition store_source :: "nat \<Rightarrow> raw_decoded48 \<Rightarrow> exec \<Rightarrow> u32" where
  "store_source t d x = (if rd_store_source_mode d = SS_Imm32 then rd_imm d else vrb t d x)"

definition hot_sw :: "nat \<Rightarrow> raw_decoded48 \<Rightarrow> exec \<Rightarrow> exec" where
  "hot_sw t d x =
     upd_wram (\<lambda>w. wram_store_u32 w (eff_addr t d x) (store_source t d x) (big_endian d)) x"

definition hot_sb :: "nat \<Rightarrow> raw_decoded48 \<Rightarrow> exec \<Rightarrow> exec" where
  "hot_sb t d x =
     upd_wram (\<lambda>w. wram_store_u8 w (eff_addr t d x) (ucast (store_source t d x AND 0xFF))) x"

definition hot_sh :: "nat \<Rightarrow> raw_decoded48 \<Rightarrow> exec \<Rightarrow> exec" where
  "hot_sh t d x =
     upd_wram (\<lambda>w. wram_store_u16 w (eff_addr t d x) (ucast (store_source t d x AND 0xFFFF)) False) x"

definition hot_sd :: "nat \<Rightarrow> raw_decoded48 \<Rightarrow> exec \<Rightarrow> exec" where
  "hot_sd t d x =
     (let v = (if rd_store_source_mode d = SS_Imm32 then ucast (rd_imm d) else read_dreg t (ddb d) x)
      in upd_wram (\<lambda>w. wram_store_u64 w (eff_addr t d x) v (big_endian d)) x)"

definition hot_time :: "nat \<Rightarrow> raw_decoded48 \<Rightarrow> exec \<Rightarrow> exec" where
  "hot_time t d x = write_rc t d (perf_counter_read32 (ex_pl x)) x"

definition hot_time_cfg :: "nat \<Rightarrow> raw_decoded48 \<Rightarrow> exec \<Rightarrow> exec" where
  "hot_time_cfg t d x =
     (let cfg_value = (if rd_time_cfg_uses_ra d then vra t d x else vrb t d x)
      in write_rc t d (fst (perf_config cfg_value x)) (snd (perf_config cfg_value x)))"

section \<open>The switch\<close>

definition execute_hot_memory :: "nat \<Rightarrow> raw_decoded48 \<Rightarrow> exec \<Rightarrow> exec option" where
  "execute_hot_memory t d x =
     (let op = rd_hot_op d in
      if op = H_Lbu then Some (hot_lbu t d x)
      else if op = H_Lbs then Some (hot_lbs t d x)
      else if op \<in> {H_Lw, H_LwS} then Some (hot_lw t d x)
      else if op = H_Ld then Some (hot_ld t d x)
      else if op = H_Sw then Some (hot_sw t d x)
      else if op = H_Sb then Some (hot_sb t d x)
      else if op = H_Sh then Some (hot_sh t d x)
      else if op = H_Sd then Some (hot_sd t d x)
      else if op = H_Time then Some (hot_time t d x)
      else if op = H_TimeCfg then Some (hot_time_cfg t d x)
      else if op = H_Stop then Some (halt (take_cond_branch t d 1 x))
      else if op = H_Nop then Some x
      else if op = H_Fault then Some (halt x)
      else None)"

definition execute_hot :: "nat \<Rightarrow> raw_decoded48 \<Rightarrow> exec \<Rightarrow> exec option" where
  "execute_hot t d x =
     (let op = rd_hot_op d in
      if \<not> rd_hot_supported d then None
      else if op \<in> {H_Or, H_OrS, H_OrU} then Some (hot_or t d x)
      else if op = H_Add then Some (hot_add t d x)
      else if op = H_Addc then Some (hot_addc t d x)
      else if op \<in> {H_And, H_AndS, H_AndU} then Some (hot_and t d x)
      else if op = H_Sub then Some (hot_sub t d x)
      else if op = H_Subc then Some (hot_subc t d x)
      else if op = H_MulStep then Some (hot_mul_step t d x)
      else if op = H_DivStep then Some (hot_div_step t d x)
      else if op \<in> {H_Acquire, H_Release} then Some (hot_acquire t d x)
      else if op = H_Resume then Some (hot_resume t d x)
      else if op = H_Boot then Some (hot_boot t d x)
      else if op = H_Call then Some (hot_call t d x)
      else if op \<in> {H_Ldma, H_Sdma} then Some (hot_dma t d x)
      else if op \<in> {H_Lsl, H_LslS, H_LslU, H_Lslx, H_LslxS, H_LslxU,
                    H_Lsr, H_LsrS, H_LsrU, H_Lsrx, H_LsrxS, H_LsrxU} then Some (hot_shift t d x)
      else if op \<in> {H_Movd, H_Swapd} then Some (hot_movd t d x)
      else if op \<in> {H_Clz, H_Clo} then Some (hot_clz t d x)
      else if op \<in> {H_MulUlUl, H_MulUlUh, H_MulUhUl, H_MulUhUh} then Some (hot_mul_bytes t d x)
      else if op \<in> {H_LslAdd, H_LslAddS, H_LslAddU} then Some (hot_lsl_add t d x)
      else if op \<in> {H_LslSub, H_LslSubS, H_LslSubU} then Some (hot_lsl_sub t d x)
      else if op \<in> {H_LsrAdd, H_LsrAddS, H_LsrAddU} then Some (hot_lsr_add t d x)
      else execute_hot_memory t d x)"

section \<open>Every case keeps the state good\<close>

lemma good_writes:
  "good t x0 x \<Longrightarrow> good t x0 (write_ext_dreg32 t d v x)"
  "good t x0 x \<Longrightarrow> good t x0 (write_rc t d v x)"
  "good t x0 x \<Longrightarrow> good t x0 (write_result t d v x)"
  by (simp_all add: write_ext_dreg32_def write_rc_def write_result_def good_prims)

lemma good_hot_alu:
  assumes "good t x0 x"
  shows "good t x0 (hot_or t d x)" "good t x0 (hot_add t d x)" "good t x0 (hot_addc t d x)"
    "good t x0 (hot_and t d x)" "good t x0 (hot_sub t d x)" "good t x0 (hot_subc t d x)"
    "good t x0 (hot_mul_step t d x)" "good t x0 (hot_div_step t d x)"
  unfolding hot_or_def hot_add_def hot_addc_def hot_and_def hot_sub_def hot_subc_def
    hot_mul_step_def hot_div_step_def split_beta
  by (rule good_rules good_writes assms)+

lemma good_hot_shift:
  assumes "good t x0 x"
  shows "good t x0 (hot_call t d x)" "good t x0 (hot_dma t d x)" "good t x0 (hot_shift t d x)"
    "good t x0 (hot_movd t d x)" "good t x0 (hot_clz t d x)" "good t x0 (hot_mul_bytes t d x)"
    "good t x0 (hot_lsl_add t d x)" "good t x0 (hot_lsl_sub t d x)" "good t x0 (hot_lsr_add t d x)"
  unfolding hot_call_def hot_dma_def hot_shift_def hot_movd_def hot_clz_def hot_mul_bytes_def
    hot_lsl_add_def hot_lsl_sub_def hot_lsr_add_def
  by (rule good_rules good_writes assms)+

lemma good_hot_memory:
  assumes "good t x0 x"
  shows "good t x0 (hot_lbu t d x)" "good t x0 (hot_lbs t d x)" "good t x0 (hot_lw t d x)"
    "good t x0 (hot_ld t d x)" "good t x0 (hot_sw t d x)" "good t x0 (hot_sb t d x)"
    "good t x0 (hot_sh t d x)" "good t x0 (hot_sd t d x)" "good t x0 (hot_time t d x)"
    "good t x0 (hot_time_cfg t d x)"
  unfolding hot_lbu_def hot_lbs_def hot_lw_def hot_ld_def hot_sw_def hot_sb_def hot_sh_def
    hot_sd_def hot_time_def hot_time_cfg_def
  by (rule good_rules good_writes good_upd_wram assms wf_wram_store | assumption)+

lemma good_hot_tasklets:
  assumes "good t x0 x"
  shows "good t x0 (hot_acquire t d x)" "good t x0 (hot_resume t d x)" "good t x0 (hot_boot t d x)"
  unfolding hot_acquire_def hot_resume_def hot_boot_def Let_def split_beta
  by (auto simp: assms tasklet_count_def mask_bits
      intro!: good_prims good_writes good_wake good_boot)

lemmas good_hot = good_hot_alu good_hot_shift good_hot_memory good_hot_tasklets

lemma good_execute_hot:
  assumes "good t x0 x" and "execute_hot t d x = Some y"
  shows "good t x0 y"
proof -
  note memory = good_hot_memory [OF assms(1)] and tasklets = good_hot_tasklets [OF assms(1)]
    and alu = good_hot_alu [OF assms(1)] and shifts = good_hot_shift [OF assms(1)]
  have "execute_hot_memory t d x = Some y \<Longrightarrow> good t x0 y"
    using assms(1) unfolding execute_hot_memory_def Let_def
    by (auto split: if_splits simp: memory good_halt good_take_cond_branch)
  then show ?thesis
    using assms(2) unfolding execute_hot_def Let_def
    by (auto split: if_splits simp: tasklets alu shifts)
qed

end
