(* ===== verification/Exec_Legacy.thy ===== *)
theory Exec_Legacy
  imports Exec_Hot
begin

text \<open>
  The second half of \<open>Pipeline::execute_once\<close> (\<open>dpu/pipeline.cc\<close>): the compact fixed-field decoding
  (opcode, three register fields and the immediates) and the switch over the opcode byte, which is
  reached when the hot path did not handle the instruction. The switch is cut into definitions at
  the boundaries of its cases; each passes the opcodes it does not know to the next, and the last
  one treats what remains as a no-operation.
\<close>

section \<open>Opcodes and fixed fields\<close>

definition OP_ACQUIRE :: u8 where "OP_ACQUIRE = 0x00"
definition OP_RELEASE :: u8 where "OP_RELEASE = 0x01"
definition OP_ADD :: u8 where "OP_ADD = 0x02"
definition OP_ADDC :: u8 where "OP_ADDC = 0x03"
definition OP_AND :: u8 where "OP_AND = 0x04"
definition OP_ANDN :: u8 where "OP_ANDN = 0x05"
definition OP_ASR :: u8 where "OP_ASR = 0x06"
definition OP_CAO :: u8 where "OP_CAO = 0x07"
definition OP_CLO :: u8 where "OP_CLO = 0x08"
definition OP_CLS :: u8 where "OP_CLS = 0x09"
definition OP_CLZ :: u8 where "OP_CLZ = 0x0A"
definition OP_CMPB4 :: u8 where "OP_CMPB4 = 0x0B"
definition OP_DIV_STEP :: u8 where "OP_DIV_STEP = 0x0C"
definition OP_EXTSB :: u8 where "OP_EXTSB = 0x0D"
definition OP_EXTSH :: u8 where "OP_EXTSH = 0x0E"
definition OP_EXTUB :: u8 where "OP_EXTUB = 0x0F"
definition OP_EXTUH :: u8 where "OP_EXTUH = 0x10"
definition OP_LSL :: u8 where "OP_LSL = 0x11"
definition OP_LSL_ADD :: u8 where "OP_LSL_ADD = 0x12"
definition OP_LSL_SUB :: u8 where "OP_LSL_SUB = 0x13"
definition OP_LSL1 :: u8 where "OP_LSL1 = 0x14"
definition OP_LSL1X :: u8 where "OP_LSL1X = 0x15"
definition OP_LSLX :: u8 where "OP_LSLX = 0x16"
definition OP_LSR :: u8 where "OP_LSR = 0x17"
definition OP_LSR_ADD :: u8 where "OP_LSR_ADD = 0x18"
definition OP_LSR1 :: u8 where "OP_LSR1 = 0x19"
definition OP_LSR1X :: u8 where "OP_LSR1X = 0x1A"
definition OP_LSRX :: u8 where "OP_LSRX = 0x1B"
definition OP_MUL_SH_SH :: u8 where "OP_MUL_SH_SH = 0x1C"
definition OP_MUL_SH_SL :: u8 where "OP_MUL_SH_SL = 0x1D"
definition OP_MUL_SH_UH :: u8 where "OP_MUL_SH_UH = 0x1E"
definition OP_MUL_SH_UL :: u8 where "OP_MUL_SH_UL = 0x1F"
definition OP_MUL_SL_SH :: u8 where "OP_MUL_SL_SH = 0x20"
definition OP_MUL_SL_SL :: u8 where "OP_MUL_SL_SL = 0x21"
definition OP_MUL_SL_UH :: u8 where "OP_MUL_SL_UH = 0x22"
definition OP_MUL_SL_UL :: u8 where "OP_MUL_SL_UL = 0x23"
definition OP_MUL_STEP :: u8 where "OP_MUL_STEP = 0x24"
definition OP_MUL_UH_UH :: u8 where "OP_MUL_UH_UH = 0x25"
definition OP_MUL_UH_UL :: u8 where "OP_MUL_UH_UL = 0x26"
definition OP_MUL_UL_UH :: u8 where "OP_MUL_UL_UH = 0x27"
definition OP_MUL_UL_UL :: u8 where "OP_MUL_UL_UL = 0x28"
definition OP_NAND :: u8 where "OP_NAND = 0x29"
definition OP_NOR :: u8 where "OP_NOR = 0x2A"
definition OP_NXOR :: u8 where "OP_NXOR = 0x2B"
definition OP_OR :: u8 where "OP_OR = 0x2C"
definition OP_ORN :: u8 where "OP_ORN = 0x2D"
definition OP_ROL :: u8 where "OP_ROL = 0x2E"
definition OP_ROL_ADD :: u8 where "OP_ROL_ADD = 0x2F"
definition OP_ROR :: u8 where "OP_ROR = 0x30"
definition OP_RSUB :: u8 where "OP_RSUB = 0x31"
definition OP_RSUBC :: u8 where "OP_RSUBC = 0x32"
definition OP_SUB :: u8 where "OP_SUB = 0x33"
definition OP_SUBC :: u8 where "OP_SUBC = 0x34"
definition OP_XOR :: u8 where "OP_XOR = 0x35"
definition OP_BOOT :: u8 where "OP_BOOT = 0x36"
definition OP_RESUME :: u8 where "OP_RESUME = 0x37"
definition OP_STOP :: u8 where "OP_STOP = 0x38"
definition OP_CALL :: u8 where "OP_CALL = 0x39"
definition OP_FAULT :: u8 where "OP_FAULT = 0x3A"
definition OP_NOP :: u8 where "OP_NOP = 0x3B"
definition OP_SATS :: u8 where "OP_SATS = 0x3C"
definition OP_MOVD :: u8 where "OP_MOVD = 0x3D"
definition OP_SWAPD :: u8 where "OP_SWAPD = 0x3E"
definition OP_HASH :: u8 where "OP_HASH = 0x3F"
definition OP_TIME :: u8 where "OP_TIME = 0x40"
definition OP_TIME_CFG :: u8 where "OP_TIME_CFG = 0x41"
definition OP_LBS :: u8 where "OP_LBS = 0x42"
definition OP_LBU :: u8 where "OP_LBU = 0x43"
definition OP_LD :: u8 where "OP_LD = 0x44"
definition OP_LHS :: u8 where "OP_LHS = 0x45"
definition OP_LHU :: u8 where "OP_LHU = 0x46"
definition OP_LW :: u8 where "OP_LW = 0x47"
definition OP_SB :: u8 where "OP_SB = 0x48"
definition OP_SB_ID :: u8 where "OP_SB_ID = 0x49"
definition OP_SD :: u8 where "OP_SD = 0x4A"
definition OP_SD_ID :: u8 where "OP_SD_ID = 0x4B"
definition OP_SH :: u8 where "OP_SH = 0x4C"
definition OP_SH_ID :: u8 where "OP_SH_ID = 0x4D"
definition OP_SW :: u8 where "OP_SW = 0x4E"
definition OP_SW_ID :: u8 where "OP_SW_ID = 0x4F"
definition OP_LDMA :: u8 where "OP_LDMA = 0x50"
definition OP_LDMAI :: u8 where "OP_LDMAI = 0x51"
definition OP_SDMA :: u8 where "OP_SDMA = 0x52"

record fixed_fields =
  ff_opcode :: u8
  ff_rc :: u8
  ff_ra :: u8
  ff_rb :: u8
  ff_imm8 :: u8
  ff_imm16s :: u32
  ff_imm24s :: u32

definition fixed_decode :: "u64 \<Rightarrow> fixed_fields" where
  "fixed_decode inst48 = \<lparr>
     ff_opcode = pl_byte inst48 40,
     ff_rc = pl_byte inst48 32 AND 0x1F,
     ff_ra = pl_byte inst48 24 AND 0x1F,
     ff_rb = pl_byte inst48 16 AND 0x1F,
     ff_imm8 = pl_byte inst48 8,
     ff_imm16s = sign_extend16 (ucast (inst48 AND 0xFFFF)),
     ff_imm24s = sign_extend24 (ucast (inst48 AND 0xFFFFFF))\<rparr>"

definition ra_val :: "nat \<Rightarrow> fixed_fields \<Rightarrow> exec \<Rightarrow> u32" where
  "ra_val t f x = read_reg t (ff_ra f) x"

definition rb_val :: "nat \<Rightarrow> fixed_fields \<Rightarrow> exec \<Rightarrow> u32" where
  "rb_val t f x = read_reg t (ff_rb f) x"

text \<open>\<open>op_b = (rb == 24u) ? imm_u32 : rb_val\<close>\<close>

definition op_b :: "nat \<Rightarrow> fixed_fields \<Rightarrow> exec \<Rightarrow> u32" where
  "op_b t f x = (if ff_rb f = 24 then ff_imm16s f else rb_val t f x)"

definition leg_addr :: "nat \<Rightarrow> fixed_fields \<Rightarrow> exec \<Rightarrow> u32" where
  "leg_addr t f x = addr_add (ra_val t f x) (ff_imm16s f)"

text \<open>\<open>write_reg(rc, result); set_zf(result);\<close>\<close>

definition put_result :: "nat \<Rightarrow> fixed_fields \<Rightarrow> u32 \<Rightarrow> exec \<Rightarrow> exec" where
  "put_result t f r x = set_zf t r (write_reg t (ff_rc f) r x)"

section \<open>Cases that change more than a register\<close>

definition leg_acquire :: "nat \<Rightarrow> fixed_fields \<Rightarrow> exec \<Rightarrow> exec" where
  "leg_acquire t f x =
     (let addr = ra_val t f x + ff_imm16s f;
          index = atomic_bit_index addr;
          byte_idx = index div 8;
          bit_idx = index mod 8;
          msk = push_bit (unat bit_idx) 1 :: u8;
          old = pl_atomic_bits (ex_pl x) ! unat byte_idx;
          was_free = (old AND msk = 0);
          x = set_atomic byte_idx (old OR msk) x
      in put_result t f (if was_free then 0 else 1) x)"

definition leg_release :: "nat \<Rightarrow> fixed_fields \<Rightarrow> exec \<Rightarrow> exec" where
  "leg_release t f x =
     (let addr = ra_val t f x + ff_imm16s f;
          index = atomic_bit_index addr;
          byte_idx = index div 8;
          bit_idx = index mod 8;
          msk = push_bit (unat bit_idx) 1 :: u8;
          old = pl_atomic_bits (ex_pl x) ! unat byte_idx;
          was_held = (old AND msk \<noteq> 0);
          x = set_atomic byte_idx (old AND NOT msk) x
      in put_result t f (if was_held then 0 else 1) x)"

definition leg_boot :: "nat \<Rightarrow> fixed_fields \<Rightarrow> exec \<Rightarrow> exec" where
  "leg_boot t f x =
     (let tid = thread_index (ra_val t f x + ff_imm16s f);
          other_bit = push_bit (unat tid) 1 :: u64;
          booted = (unat tid < tasklet_count \<and> pl_run_bits (ex_pl x) AND other_bit = 0 \<and>
                    pl_sleep_bits (ex_pl x) AND other_bit = 0);
          x = (if booted
               then upd_pl (\<lambda>p. reset_tasklet (unat tid) p\<lparr>pl_run_bits := pl_run_bits p OR other_bit\<rparr>) x
               else x)
      in put_result t f (if booted then 0 else 1) x)"

text \<open>\<open>static_cast<int32_t>(ra_val) + imm16s\<close> is an addition of 32-bit signed integers; where it would
  overflow the C++ program has no defined behaviour, and the model wraps.\<close>

definition leg_resume :: "nat \<Rightarrow> fixed_fields \<Rightarrow> exec \<Rightarrow> exec" where
  "leg_resume t f x =
     (let tid = sint (ra_val t f x + ff_imm16s f);
          other_bit = push_bit (nat tid) 1 :: u64;
          is_sleeping = (pl_sleep_bits (ex_pl x) AND other_bit \<noteq> 0);
          is_stopped = (pl_run_bits (ex_pl x) AND other_bit = 0);
          woken = (tid \<ge> 0 \<and> nat tid < tasklet_count \<and> (is_sleeping \<or> is_stopped));
          x = (if woken then upd_pl (wake other_bit) x else x)
      in put_result t f (if woken then 0 else 1) x)"

definition leg_call :: "nat \<Rightarrow> fixed_fields \<Rightarrow> exec \<Rightarrow> exec" where
  "leg_call t f x =
     (let target_slots =
            (if ff_rb f \<noteq> 24 then sint (ra_val t f x) + sint (rb_val t f x)
             else sint (ra_val t f x) + sint (ff_imm24s f));
          x = write_reg t (ff_rc f) (ucast (cur_pc t x div 8 + 1)) x
      in if target_slots < 0 then halt x
         else jump (ucast (word_of_int target_slots :: u32) * 8) x)"

definition leg_time_cfg :: "nat \<Rightarrow> fixed_fields \<Rightarrow> exec \<Rightarrow> exec" where
  "leg_time_cfg t f x =
     (let v = op_b t f x AND 0x7
      in put_result t f (fst (perf_config v x)) (snd (perf_config v x)))"

definition leg_store :: "nat \<Rightarrow> fixed_fields \<Rightarrow> exec \<Rightarrow> exec" where
  "leg_store t f x =
     (let op = ff_opcode f;
          addr = leg_addr t f x
      in if op = OP_SB \<or> op = OP_SB_ID then
           let addr = (if op = OP_SB_ID then addr + of_nat t else addr);
               v = ucast (op_b t f x AND 0xFF)
           in upd_wram (\<lambda>w. wram_store_u8 w addr v) x
         else if op = OP_SD \<or> op = OP_SD_ID then
           let addr = (if op = OP_SD_ID then addr + of_nat (t * 8) else addr);
               v = (if ff_rb f = 24 then scast (ff_imm16s f) else read_dreg t (ff_rb f) x)
           in upd_wram (\<lambda>w. wram_store_u64 w addr v False) x
         else if op = OP_SH \<or> op = OP_SH_ID then
           let addr = (if op = OP_SH_ID then addr + of_nat (t * 2) else addr);
               v = ucast (op_b t f x AND 0xFFFF)
           in upd_wram (\<lambda>w. wram_store_u16 w addr v False) x
         else
           let addr = (if op = OP_SW_ID then addr + of_nat (t * 4) else addr);
               v = op_b t f x
           in upd_wram (\<lambda>w. wram_store_u32 w addr v False) x)"

definition leg_dma :: "nat \<Rightarrow> fixed_fields \<Rightarrow> exec \<Rightarrow> exec" where
  "leg_dma t f x =
     (let wram_addr = ra_val t f x AND 0xFFFFF8;
          mram_addr = rb_val t f x AND 0xFFFFFFF8;
          chunks = 1 + ((ucast (ff_imm8 f) + (drop_bit 24 (ra_val t f x) AND 0xFF)) AND 0xFF) :: u32;
          n = unat (push_bit 3 chunks)
      in if ff_opcode f = OP_SDMA then dma_store n mram_addr wram_addr x
         else dma_load n wram_addr mram_addr x)"

section \<open>The switch\<close>

definition leg_memory :: "nat \<Rightarrow> fixed_fields \<Rightarrow> exec \<Rightarrow> exec" where
  "leg_memory t f x =
     (let op = ff_opcode f in
      if op = OP_HASH then
        let a = ra_val t f x
        in put_result t f (a XOR (op_b t f x + 0x9E3779B9 + push_bit 6 a + drop_bit 2 a)) x
      else if op = OP_TIME then put_result t f (perf_counter_read32 (ex_pl x)) x
      else if op = OP_TIME_CFG then leg_time_cfg t f x
      else if op = OP_LBS then put_result t f (scast (wram_load_u8 (ex_wram x) (leg_addr t f x))) x
      else if op = OP_LBU then put_result t f (ucast (wram_load_u8 (ex_wram x) (leg_addr t f x))) x
      else if op = OP_LD then
        let v = wram_load_u64 (ex_wram x) (leg_addr t f x) False
        in set_zf t (if v = 0 then 0 else 1) (write_dreg t (ff_rc f) v x)
      else if op = OP_LHS then
        put_result t f (scast (ucast (wram_load_u16 (ex_wram x) (leg_addr t f x) False) :: u16)) x
      else if op = OP_LHU then put_result t f (wram_load_u16 (ex_wram x) (leg_addr t f x) False) x
      else if op = OP_LW then put_result t f (wram_load_u32 (ex_wram x) (leg_addr t f x) False) x
      else if op \<in> {OP_SB, OP_SB_ID, OP_SD, OP_SD_ID, OP_SH, OP_SH_ID, OP_SW, OP_SW_ID}
      then leg_store t f x
      else if op \<in> {OP_LDMA, OP_LDMAI, OP_SDMA} then leg_dma t f x
      else x)"

definition leg_control :: "nat \<Rightarrow> fixed_fields \<Rightarrow> exec \<Rightarrow> exec" where
  "leg_control t f x =
     (let op = ff_opcode f in
      if op = OP_BOOT then leg_boot t f x
      else if op = OP_RESUME then leg_resume t f x
      else if op = OP_STOP then halt x
      else if op = OP_CALL then leg_call t f x
      else if op = OP_FAULT then halt x
      else if op = OP_NOP then x
      else if op = OP_SATS then put_result t f (saturating_add_s32 (ra_val t f x) (op_b t f x)) x
      else if op = OP_MOVD then
        let v = read_dreg t (ff_ra f) x
        in set_zf t (if v = 0 then 0 else 1) (write_dreg t (ff_rc f) v x)
      else if op = OP_SWAPD then
        let lhs = read_dreg t (ff_rc f) x;
            rhs = read_dreg t (ff_ra f) x;
            x = write_dreg t (ff_rc f) rhs x;
            x = write_dreg t (ff_ra f) lhs x
        in set_zf t (if rhs = 0 then 0 else 1) x
      else leg_memory t f x)"

definition leg_sub :: "nat \<Rightarrow> fixed_fields \<Rightarrow> exec \<Rightarrow> exec" where
  "leg_sub t f x =
     (let op = ff_opcode f; a = ra_val t f x; b = op_b t f x;
          borrow = (if cf_set t x then 1 else 0) :: u32 in
      if op = OP_RSUB then set_cf t (b < a) (put_result t f (b - a) x)
      else if op = OP_RSUBC then
        let rhs = a + borrow in set_cf t (b < rhs) (put_result t f (b - rhs) x)
      else if op = OP_SUB then set_cf t (a < b) (put_result t f (a - b) x)
      else if op = OP_SUBC then
        let rhs = b + borrow in set_cf t (a < rhs) (put_result t f (a - rhs) x)
      else if op = OP_XOR then put_result t f (a XOR b) x
      else leg_control t f x)"

definition leg_logic :: "nat \<Rightarrow> fixed_fields \<Rightarrow> exec \<Rightarrow> exec" where
  "leg_logic t f x =
     (let op = ff_opcode f; a = ra_val t f x; b = op_b t f x; sh = ucast (ff_imm8 f AND 31) :: u32 in
      if op = OP_MUL_STEP then
        let prod = ucast a * ucast b :: u64
        in set_cf t (drop_bit 32 prod \<noteq> 0) (put_result t f (ucast prod) x)
      else if op = OP_NAND then put_result t f (NOT (a AND b)) x
      else if op = OP_NOR then put_result t f (NOT (a OR b)) x
      else if op = OP_NXOR then put_result t f (NOT (a XOR b)) x
      else if op = OP_OR then put_result t f (a OR b) x
      else if op = OP_ORN then put_result t f (a OR NOT b) x
      else if op = OP_ROL then put_result t f (rotl32 a (b AND 31)) x
      else if op = OP_ROL_ADD then put_result t f (rb_val t f x + rotl32 a sh) x
      else if op = OP_ROR then put_result t f (rotr32 a (b AND 31)) x
      else leg_sub t f x)"

text \<open>The byte products; the operands are widened as signed or unsigned bytes.\<close>

definition mul_bytes_value :: "u8 \<Rightarrow> u32 \<Rightarrow> u32 \<Rightarrow> u32" where
  "mul_bytes_value op a b =
     (let al = ucast (a AND 0xFF) :: u8; ah = ucast (drop_bit 8 a AND 0xFF) :: u8;
          bl = ucast (b AND 0xFF) :: u8; bh = ucast (drop_bit 8 b AND 0xFF) :: u8 in
      if op = OP_MUL_SH_SH then scast ah * scast bh
      else if op = OP_MUL_SH_SL then scast ah * scast bl
      else if op = OP_MUL_SH_UH then scast ah * ucast bh
      else if op = OP_MUL_SH_UL then scast ah * ucast bl
      else if op = OP_MUL_SL_SH then scast al * scast bh
      else if op = OP_MUL_SL_SL then scast al * scast bl
      else if op = OP_MUL_SL_UH then scast al * ucast bh
      else if op = OP_MUL_SL_UL then scast al * ucast bl
      else if op = OP_MUL_UH_UH then ucast ah * ucast bh
      else if op = OP_MUL_UH_UL then ucast ah * ucast bl
      else if op = OP_MUL_UL_UH then ucast al * ucast bh
      else ucast al * ucast bl)"

definition leg_mul :: "nat \<Rightarrow> fixed_fields \<Rightarrow> exec \<Rightarrow> exec" where
  "leg_mul t f x =
     (let op = ff_opcode f in
      if op \<in> {OP_MUL_SH_SH, OP_MUL_SH_SL, OP_MUL_SH_UH, OP_MUL_SH_UL, OP_MUL_SL_SH, OP_MUL_SL_SL,
               OP_MUL_SL_UH, OP_MUL_SL_UL, OP_MUL_UH_UH, OP_MUL_UH_UL, OP_MUL_UL_UH, OP_MUL_UL_UL}
      then put_result t f (mul_bytes_value op (ra_val t f x) (op_b t f x)) x
      else leg_logic t f x)"

definition leg_shift :: "nat \<Rightarrow> fixed_fields \<Rightarrow> exec \<Rightarrow> exec" where
  "leg_shift t f x =
     (let op = ff_opcode f; a = ra_val t f x; b = op_b t f x;
          sh = ucast (ff_imm8 f AND 31) :: u32;
          old_cf = (if cf_set t x then 1 else 0) :: u32 in
      if op = OP_LSL then put_result t f (push_bit (unat (b AND 31)) a) x
      else if op = OP_LSL_ADD then put_result t f (rb_val t f x + push_bit (unat sh) a) x
      else if op = OP_LSL_SUB then
        let shifted = push_bit (unat sh) a; rb = rb_val t f x
        in set_cf t (rb < shifted) (put_result t f (rb - shifted) x)
      else if op = OP_LSL1 then
        set_cf t (a AND 0x80000000 \<noteq> 0) (put_result t f (push_bit 1 a) x)
      else if op = OP_LSL1X then
        set_cf t (a AND 0x80000000 \<noteq> 0) (put_result t f (push_bit 1 a OR old_cf) x)
      else if op = OP_LSLX then
        put_result t f (if sh = 0 then 0 else drop_bit (unat (32 - sh)) a) x
      else if op = OP_LSR then put_result t f (drop_bit (unat (b AND 31)) a) x
      else if op = OP_LSR_ADD then put_result t f (rb_val t f x + drop_bit (unat sh) a) x
      else if op = OP_LSR1 then set_cf t (a AND 1 \<noteq> 0) (put_result t f (drop_bit 1 a) x)
      else if op = OP_LSR1X then
        set_cf t (a AND 1 \<noteq> 0) (put_result t f (drop_bit 1 a OR push_bit 31 old_cf) x)
      else if op = OP_LSRX then
        put_result t f (if sh = 0 then 0 else push_bit (unat (32 - sh)) a) x
      else leg_mul t f x)"

text \<open>\<open>OP_CMPB4\<close>: the loop over the four bytes counts the equal ones.\<close>

definition cmpb4_value :: "u32 \<Rightarrow> u32 \<Rightarrow> u32" where
  "cmpb4_value a b =
     foldl (\<lambda>matches i. if (ucast (drop_bit (8 * i) a AND 0xFF) :: u8) = ucast (drop_bit (8 * i) b AND 0xFF)
                        then matches + 1 else matches) 0 [0..<4]"

definition leg_count :: "nat \<Rightarrow> fixed_fields \<Rightarrow> exec \<Rightarrow> exec" where
  "leg_count t f x =
     (let op = ff_opcode f; a = ra_val t f x; b = op_b t f x in
      if op = OP_CAO then put_result t f (builtin_popcount a) x
      else if op = OP_CLO then put_result t f (count_leading_ones_u32 a) x
      else if op = OP_CLS then put_result t f (count_leading_sign_u32 a) x
      else if op = OP_CLZ then put_result t f (if a = 0 then 32 else builtin_clz a) x
      else if op = OP_CMPB4 then put_result t f (cmpb4_value a b) x
      else if op = OP_DIV_STEP then
        set_cf t (b = 0) (put_result t f (if b = 0 then 0 else a div b) x)
      else if op = OP_EXTSB then put_result t f (scast (ucast (a AND 0xFF) :: u8)) x
      else if op = OP_EXTSH then put_result t f (scast (ucast (a AND 0xFFFF) :: u16)) x
      else if op = OP_EXTUB then put_result t f (a AND 0xFF) x
      else if op = OP_EXTUH then put_result t f (a AND 0xFFFF) x
      else leg_shift t f x)"

definition legacy_switch :: "nat \<Rightarrow> fixed_fields \<Rightarrow> exec \<Rightarrow> exec" where
  "legacy_switch t f x =
     (let op = ff_opcode f; a = ra_val t f x; b = op_b t f x in
      if op = OP_ACQUIRE then leg_acquire t f x
      else if op = OP_RELEASE then leg_release t f x
      else if op = OP_ADD then
        let sum = ucast a + ucast b :: u64
        in set_cf t (drop_bit 32 sum \<noteq> 0) (put_result t f (ucast sum) x)
      else if op = OP_ADDC then
        let sum = ucast a + ucast b + (if cf_set t x then 1 else 0) :: u64
        in set_cf t (drop_bit 32 sum \<noteq> 0) (put_result t f (ucast sum) x)
      else if op = OP_AND then put_result t f (a AND b) x
      else if op = OP_ANDN then put_result t f (a AND NOT b) x
      else if op = OP_ASR then put_result t f (signed_drop_bit (unat (b AND 31)) a) x
      else leg_count t f x)"

section \<open>Every case keeps the state good\<close>

lemma good_put_result: "good t x0 x \<Longrightarrow> good t x0 (put_result t f r x)"
  by (simp add: put_result_def good_prims)

lemma good_leg_tasklets:
  assumes "good t x0 x"
  shows "good t x0 (leg_acquire t f x)" "good t x0 (leg_release t f x)" "good t x0 (leg_boot t f x)"
    "good t x0 (leg_resume t f x)"
  unfolding leg_acquire_def leg_release_def leg_boot_def leg_resume_def Let_def
  by (auto simp: assms tasklet_count_def mask_bits
      intro!: good_prims good_put_result good_wake good_boot)

lemma good_leg_memory: "good t x0 x \<Longrightarrow> good t x0 (leg_memory t f x)"
  unfolding leg_memory_def leg_time_cfg_def leg_store_def leg_dma_def
  by (rule good_rules good_put_result good_upd_wram wf_wram_store | assumption)+

lemma good_leg_control: "good t x0 x \<Longrightarrow> good t x0 (leg_control t f x)"
  unfolding leg_control_def leg_call_def
  by (rule good_rules good_put_result good_leg_memory good_leg_tasklets | assumption)+

lemma good_leg_sub: "good t x0 x \<Longrightarrow> good t x0 (leg_sub t f x)"
  unfolding leg_sub_def by (rule good_rules good_put_result good_leg_control | assumption)+

lemma good_leg_logic: "good t x0 x \<Longrightarrow> good t x0 (leg_logic t f x)"
  unfolding leg_logic_def by (rule good_rules good_put_result good_leg_sub | assumption)+

lemma good_leg_mul: "good t x0 x \<Longrightarrow> good t x0 (leg_mul t f x)"
  unfolding leg_mul_def by (rule good_rules good_put_result good_leg_logic | assumption)+

lemma good_leg_shift: "good t x0 x \<Longrightarrow> good t x0 (leg_shift t f x)"
  unfolding leg_shift_def by (rule good_rules good_put_result good_leg_mul | assumption)+

lemma good_leg_count: "good t x0 x \<Longrightarrow> good t x0 (leg_count t f x)"
  unfolding leg_count_def by (rule good_rules good_put_result good_leg_shift | assumption)+

lemma good_legacy_switch: "good t x0 x \<Longrightarrow> good t x0 (legacy_switch t f x)"
  unfolding legacy_switch_def
  by (rule good_rules good_put_result good_leg_count good_leg_tasklets | assumption)+

end
