(* ===== verification/Exec_Props.thy ===== *)
theory Exec_Props
  imports Exec_Legacy
begin

text \<open>
  Functional correctness of instruction sequences, over the definitions of \<open>Exec_Hot\<close>: the carry
  chains compute 64-bit sums and differences, the step instructions compute products and quotients,
  the lock instructions give mutual exclusion. The first section has the read-after-write equations
  of the register file that these proofs simplify with.
\<close>

section \<open>Registers and flags\<close>

definition live :: "nat \<Rightarrow> exec \<Rightarrow> bool" where
  "live t x \<longleftrightarrow> t < kNumTasklets \<and> wf_pipeline (ex_pl x)"

lemma live_upd: "live t x \<Longrightarrow> (wf_pipeline (ex_pl x) \<Longrightarrow> wf_pipeline (f (ex_pl x))) \<Longrightarrow> live t (upd_pl f x)"
  by (simp add: live_def upd_pl_def)

lemma live_prims [simp]:
  assumes "live t x"
  shows "live t (write_reg u i v x)" "live t (set_zf u w x)" "live t (set_cf u b x)" "live t (jump a x)"
    "live t (take_cond_branch u d v x)"
proof -
  show "live t (write_reg u i v x)"
    using assms by (auto simp: write_reg_def intro!: live_upd wf_pipeline_write)
  show "live t (set_zf u w x)" "live t (set_cf u b x)" "live t (jump a x)" "live t (take_cond_branch u d v x)"
    using assms
    by (auto simp: live_def set_zf_def set_cf_def jump_def take_cond_branch_def upd_pl_def wf_pipeline_def
        list_all_update)
qed

lemma read_write_same [simp]:
  "live t x \<Longrightarrow> i < 24 \<Longrightarrow> read_reg t i (write_reg t i v x) = v"
  by (simp add: live_def read_reg_def write_reg_def upd_pl_def wf_pipeline_def list_all_length word_less_nat_alt)

lemma read_write_other [simp]:
  "i \<noteq> j \<Longrightarrow> read_reg t i (write_reg t j v x) = read_reg t i x"
proof -
  assume "i \<noteq> j"
  then have "unat i \<noteq> unat j" by (simp add: word_unat_eq_iff)
  then have "(rss :: u32 list list)[t := (rss ! t)[unat j := v]] ! t ! unat i = rss ! t ! unat i" for rss
    by (cases "t < length rss") (simp_all add: list_update_beyond)
  then show ?thesis by (simp add: read_reg_def write_reg_def upd_pl_def)
qed

lemma read_flags [simp]:
  "read_reg t i (set_zf u v x) = read_reg t i x"
  "read_reg t i (set_cf u b x) = read_reg t i x"
  "read_reg t i (jump a x) = read_reg t i x"
  "read_reg t i (take_cond_branch u d v x) = read_reg t i x"
  by (simp_all add: read_reg_def set_zf_def set_cf_def jump_def take_cond_branch_def upd_pl_def)

lemma cf_prims [simp]:
  "live t x \<Longrightarrow> cf_set t (set_cf t b x) = b"
  "cf_set t (set_zf u v x) = cf_set t x"
  "cf_set t (write_reg u i w x) = cf_set t x"
  "cf_set t (jump a x) = cf_set t x"
  "cf_set t (take_cond_branch u d v x) = cf_set t x"
  by (simp_all add: cf_set_def set_cf_def set_zf_def write_reg_def jump_def take_cond_branch_def upd_pl_def
      live_def wf_pipeline_def)

lemma zf_prims [simp]:
  "live t x \<Longrightarrow> zf_set t (set_zf t v x) \<longleftrightarrow> v = 0"
  "zf_set t (set_cf u b x) = zf_set t x"
  "zf_set t (write_reg u i w x) = zf_set t x"
  "zf_set t (jump a x) = zf_set t x"
  "zf_set t (take_cond_branch u d v x) = zf_set t x"
  by (simp_all add: zf_set_def set_cf_def set_zf_def write_reg_def jump_def take_cond_branch_def upd_pl_def
      live_def wf_pipeline_def)

section \<open>Carry chains\<close>

text \<open>The 64-bit value of a register pair, as \<open>read_dreg\<close> forms it.\<close>

definition join64 :: "u32 \<Rightarrow> u32 \<Rightarrow> u64" where
  "join64 hi lo = push_bit 32 (ucast hi) OR ucast lo"

lemma unat_ucast_up [simp]: "unat (ucast (a :: u32) :: u64) = unat a"
  using unsigned_less [of a, where ?'a = nat] by (simp add: unsigned_ucast_eq take_bit_nat_eq_self)

lemma unat_less: "unat (a :: u32) < 4294967296"
  using unsigned_less [of a, where ?'a = nat] by simp

lemma unat_join64: "unat (join64 hi lo) = unat hi * 4294967296 + unat lo"
proof -
  let ?h = "push_bit 32 (ucast hi) :: u64" and ?l = "ucast lo :: u64"
  have "?h AND ?l = 0"
    by (rule bit_word_eqI) (auto simp: bit_and_iff bit_push_bit_iff bit_ucast_iff dest: bit_imp_le_length)
  then have "join64 hi lo = ?h + ?l" by (simp add: join64_def disjunctive_add_eq_or)
  moreover have "unat ?h = unat hi * 4294967296"
    using unat_less [of hi] by (simp add: push_bit_eq_mult unat_word_ariths)
  ultimately show ?thesis
    using unat_less [of hi] unat_less [of lo] by (simp add: unat_word_ariths mod_less)
qed

lemma unat_sum64:
  fixes a b :: u32
  shows "unat (ucast a + ucast b + (if c then 1 else 0) :: u64) = unat a + unat b + of_bool c"
  using unat_less [of a] unat_less [of b] by (simp add: unat_word_ariths)

lemma sum64_parts:
  assumes "unat s = n" and "n < 2 * 4294967296"
  shows "unat (ucast s :: u32) = n mod 4294967296" "drop_bit 32 (s :: u64) \<noteq> 0 \<longleftrightarrow> 4294967296 \<le> n"
proof -
  show "unat (ucast s :: u32) = n mod 4294967296"
    using assms(1) by (simp add: unsigned_ucast_eq take_bit_eq_mod)
  have "drop_bit 32 s \<noteq> 0 \<longleftrightarrow> unat (drop_bit 32 s) \<noteq> 0" by (simp add: unat_eq_0)
  also have "unat (drop_bit 32 s) = n div 4294967296"
    using assms(1) by (simp add: drop_bit_eq_div unat_div)
  finally show "drop_bit 32 s \<noteq> 0 \<longleftrightarrow> 4294967296 \<le> n" by auto
qed

text \<open>One link of a chain: the value and the carry or borrow it leaves.\<close>

lemma hot_add_value:
  assumes "live t x" and "\<not> rd_imm_is_signed8 d" and "rd_has_rc d" and "drc d < 24"
  shows "unat (read_reg t (drc d) (hot_add t d x)) = (unat (vra t d x) + unat (rhs_operand t d x)) mod 4294967296"
    and "cf_set t (hot_add t d x) \<longleftrightarrow> 4294967296 \<le> unat (vra t d x) + unat (rhs_operand t d x)"
    and "j \<noteq> drc d \<Longrightarrow> read_reg t j (hot_add t d x) = read_reg t j x"
    and "live t (hot_add t d x)"
proof -
  let ?s = "ucast (vra t d x) + ucast (rhs_operand t d x) :: u64"
  have s: "unat ?s = unat (vra t d x) + unat (rhs_operand t d x)"
    using unat_sum64 [of "vra t d x" "rhs_operand t d x" False] by simp
  have "unat ?s < 2 * 4294967296"
    using unat_less [of "vra t d x"] unat_less [of "rhs_operand t d x"] unfolding s by linarith
  note parts = sum64_parts [OF s this [unfolded s]]
  show "unat (read_reg t (drc d) (hot_add t d x)) = (unat (vra t d x) + unat (rhs_operand t d x)) mod 4294967296"
    "cf_set t (hot_add t d x) \<longleftrightarrow> 4294967296 \<le> unat (vra t d x) + unat (rhs_operand t d x)"
    "j \<noteq> drc d \<Longrightarrow> read_reg t j (hot_add t d x) = read_reg t j x" "live t (hot_add t d x)"
    using assms parts by (simp_all add: hot_add_def Let_def write_rc_def)
qed

lemma hot_addc_value:
  assumes "live t x" and "rd_has_rc d" and "drc d < 24"
  shows "unat (read_reg t (drc d) (hot_addc t d x)) =
      (unat (vra t d x) + unat (rhs_operand t d x) + of_bool (cf_set t x)) mod 4294967296"
    and "cf_set t (hot_addc t d x) \<longleftrightarrow>
      4294967296 \<le> unat (vra t d x) + unat (rhs_operand t d x) + of_bool (cf_set t x)"
    and "j \<noteq> drc d \<Longrightarrow> read_reg t j (hot_addc t d x) = read_reg t j x"
proof -
  let ?s = "ucast (vra t d x) + ucast (rhs_operand t d x) + (if cf_set t x then 1 else 0) :: u64"
  note s = unat_sum64 [of "vra t d x" "rhs_operand t d x" "cf_set t x"]
  have "unat ?s < 2 * 4294967296"
    using unat_less [of "vra t d x"] unat_less [of "rhs_operand t d x"] unfolding s by simp
  note parts = sum64_parts [OF s this [unfolded s]]
  have e: "ucast (if b then 1 else 0 :: u32) = (if b then 1 else 0 :: u64)" for b by simp
  show "unat (read_reg t (drc d) (hot_addc t d x)) =
      (unat (vra t d x) + unat (rhs_operand t d x) + of_bool (cf_set t x)) mod 4294967296"
    "cf_set t (hot_addc t d x) \<longleftrightarrow>
      4294967296 \<le> unat (vra t d x) + unat (rhs_operand t d x) + of_bool (cf_set t x)"
    "j \<noteq> drc d \<Longrightarrow> read_reg t j (hot_addc t d x) = read_reg t j x"
    using assms parts unfolding hot_addc_def Let_def write_rc_def e by simp_all
qed

text \<open>An \<open>ADD\<close> of the low words followed by an \<open>ADDC\<close> of the high words.\<close>

lemma split_carry: "s < 2 * n \<Longrightarrow> s = of_bool (n \<le> s) * n + s mod n" for s n :: nat
proof (cases "n \<le> s")
  case True
  assume "s < 2 * n"
  with True have "s mod n = s - n" by (metis le_mod_geq less_diff_conv2 mod_less mult_2)
  with True show ?thesis by simp
qed simp

lemma carry_chain:
  fixes al ah bl bh n :: nat
  assumes "al < n" "ah < n" "bl < n" "bh < n"
    and "lo = (al + bl) mod n" and "c = of_bool (n \<le> al + bl)" and "hi = (ah + bh + c) mod n"
  shows "hi * n + lo = (ah * n + al + (bh * n + bl)) mod (n * n)" (is ?sum)
    and "n \<le> ah + bh + c \<longleftrightarrow> n * n \<le> ah * n + al + (bh * n + bl)" (is ?carry)
proof -
  let ?t = "ah * n + al + (bh * n + bl)" and ?c' = "of_bool (n \<le> ah + bh + c) :: nat"
  have "al + bl = c * n + lo" using split_carry [of "al + bl" n] assms by simp
  moreover have "ah + bh + c < 2 * n" using assms by simp
  from split_carry [OF this] have "ah + bh + c = ?c' * n + hi" using assms by simp
  ultimately have "?t = ?c' * (n * n) + (hi * n + lo)"
    by (metis (no_types, lifting) add.assoc add.commute add_mult_distrib mult.assoc)
  moreover have "hi * n + lo < n * n"
  proof -
    have "hi < n" "lo < n" using assms by simp_all
    then have "hi * n + lo < (hi + 1) * n" by simp
    also have "\<dots> \<le> n * n" using \<open>hi < n\<close> by (intro mult_le_mono1) simp
    finally show ?thesis .
  qed
  ultimately show ?sum ?carry by (auto simp: of_bool_def)
qed

lemma add_addc_chain:
  assumes "live t x"
    and lo: "\<not> rd_imm_is_signed8 d1" "rd_has_rc d1" "drc d1 < 24"
    and hi: "rd_has_rc d2" "drc d2 < 24"
    and "drc d1 \<noteq> drc d2" "dra d2 \<noteq> drc d1" "drb d2 \<noteq> drc d1"
    and y: "y = hot_addc t d2 (hot_add t d1 x)"
    and a: "a = join64 (vra t d2 x) (vra t d1 x)"
    and b: "b = join64 (rhs_operand t d2 x) (rhs_operand t d1 x)"
  shows "join64 (read_reg t (drc d2) y) (read_reg t (drc d1) y) = a + b"
    and "cf_set t y \<longleftrightarrow> 2 ^ 64 \<le> unat a + unat b"
proof -
  let ?x1 = "hot_add t d1 x"
  note v1 = hot_add_value [OF assms(1) lo]
  have keep: "vra t d2 ?x1 = vra t d2 x" "rhs_operand t d2 ?x1 = rhs_operand t d2 x"
    using assms v1(3) by (simp_all add: vra_def vrb_def rhs_operand_def)
  note v2 = hot_addc_value [OF v1(4) hi, unfolded keep v1(2)]
  have low: "read_reg t (drc d1) y = read_reg t (drc d1) ?x1" using v2(3) assms by simp
  note chain = carry_chain [OF unat_less unat_less unat_less unat_less v1(1) refl v2(1)]
  have "unat (join64 (read_reg t (drc d2) y) (read_reg t (drc d1) y)) = (unat a + unat b) mod (4294967296 * 4294967296)"
    unfolding unat_join64 low unfolding a b y unat_join64 using chain(1) by simp
  then show "join64 (read_reg t (drc d2) y) (read_reg t (drc d1) y) = a + b"
    by (simp add: word_unat_eq_iff unat_word_ariths)
  show "cf_set t y \<longleftrightarrow> 2 ^ 64 \<le> unat a + unat b"
    unfolding y v2(2) a b unat_join64 using chain(2) by simp
qed

section \<open>Borrow chains\<close>

lemma hot_sub_value:
  assumes "live t x" and "\<not> rd_sub_lhs_is_imm d" "rd_sub_rhs_is_reg d" "\<not> rd_sub_is_rrrc d" "rd_has_rc d" "drc d < 24"
  shows "read_reg t (drc d) (hot_sub t d x) = vra t d x - vrb t d x"
    and "cf_set t (hot_sub t d x) \<longleftrightarrow> vra t d x < vrb t d x"
    and "j \<noteq> drc d \<Longrightarrow> read_reg t j (hot_sub t d x) = read_reg t j x"
    and "live t (hot_sub t d x)"
  using assms by (simp_all add: hot_sub_def Let_def write_rc_def)

lemma borrow_test:
  fixes a b :: u32
  shows "a < b + (if c then 1 else 0) \<or> b + (if c then 1 else 0) < b \<longleftrightarrow> unat a < unat b + of_bool c"
proof (cases "c \<and> unat b = 4294967295")
  case True
  then have "b = 0xFFFFFFFF" by (simp add: word_unat_eq_iff)
  then show ?thesis using True unat_less [of a] by simp
next
  case False
  then have "unat (b + (if c then 1 else 0)) = unat b + of_bool c"
    using unat_less [of b] by (auto simp: unat_word_ariths)
  then show ?thesis by (simp add: word_less_nat_alt)
qed

lemma hot_subc_value:
  assumes "live t x" and "\<not> rd_subc_lhs_is_imm d" "rd_subc_rhs_is_reg d" "\<not> rd_subc_is_rrrc d" "rd_has_rc d" "drc d < 24"
  shows "read_reg t (drc d) (hot_subc t d x) = vra t d x - (vrb t d x + (if cf_set t x then 1 else 0))"
    and "cf_set t (hot_subc t d x) \<longleftrightarrow> unat (vra t d x) < unat (vrb t d x) + of_bool (cf_set t x)"
    and "j \<noteq> drc d \<Longrightarrow> read_reg t j (hot_subc t d x) = read_reg t j x"
proof -
  show "read_reg t (drc d) (hot_subc t d x) = vra t d x - (vrb t d x + (if cf_set t x then 1 else 0))"
    "j \<noteq> drc d \<Longrightarrow> read_reg t j (hot_subc t d x) = read_reg t j x"
    using assms unfolding hot_subc_def Let_def write_rc_def by simp_all
  show "cf_set t (hot_subc t d x) \<longleftrightarrow> unat (vra t d x) < unat (vrb t d x) + of_bool (cf_set t x)"
    using assms unfolding hot_subc_def Let_def write_rc_def borrow_test [symmetric] by simp
qed

text \<open>A \<open>SUB\<close> of the low words followed by a \<open>SUBC\<close> of the high words.\<close>

lemma two_power_32: "(2 :: nat) ^ LENGTH(32) = 4294967296"
  by simp

lemma unat_add_carry:
  "unat (a + b + (if c then 1 else 0)) = (unat a + unat b + of_bool c) mod 4294967296" for a b :: u32
  by (simp add: unat_word_ariths mod_simps)

lemma join64_diff:
  fixes al ah bl bh :: u32
  shows "join64 (ah - (bh + (if al < bl then 1 else 0))) (al - bl) = join64 ah al - join64 bh bl"
    and "unat ah < unat bh + of_bool (al < bl) \<longleftrightarrow> join64 ah al < join64 bh bl"
proof -
  let ?n = "4294967296 :: nat" and ?l = "al - bl" and ?c = "of_bool (al < bl) :: nat"
  let ?h = "ah - (bh + (if al < bl then 1 else 0))"
  have "al = ?l + bl" by simp
  then have lo: "unat al = (unat ?l + unat bl) mod ?n" by (metis unat_word_ariths(1) two_power_32)
  have c: "?c = of_bool (?n \<le> unat ?l + unat bl)"
  proof -
    have "unat ?l + unat bl < 2 * ?n" using unat_less [of ?l] unat_less [of bl] by linarith
    from split_carry [OF this] have "unat ?l + unat bl = of_bool (?n \<le> unat ?l + unat bl) * ?n + unat al"
      using lo by simp
    then show ?thesis
      using unat_less [of ?l] unat_less [of al] by (auto simp: word_less_nat_alt of_bool_def split: if_splits)
  qed
  have "ah = ?h + bh + (if al < bl then 1 else 0)" by simp
  then have hi: "unat ah = (unat ?h + unat bh + ?c) mod ?n" by (metis unat_add_carry)
  have "unat (join64 ah al) = (unat (join64 ?h ?l) + unat (join64 bh bl)) mod (?n * ?n)"
    unfolding unat_join64
    by (rule carry_chain(1) [OF unat_less unat_less unat_less unat_less lo c hi])
  then have "join64 ah al = join64 ?h ?l + join64 bh bl"
    by (simp add: word_unat_eq_iff unat_word_ariths)
  then show "join64 ?h ?l = join64 ah al - join64 bh bl" by simp
  show "unat ah < unat bh + of_bool (al < bl) \<longleftrightarrow> join64 ah al < join64 bh bl"
    using unat_less [of al] unat_less [of bl] by (auto simp: word_less_nat_alt unat_join64)
qed

lemma sub_subc_chain:
  assumes "live t x"
    and lo: "\<not> rd_sub_lhs_is_imm d1" "rd_sub_rhs_is_reg d1" "\<not> rd_sub_is_rrrc d1" "rd_has_rc d1" "drc d1 < 24"
    and hi: "\<not> rd_subc_lhs_is_imm d2" "rd_subc_rhs_is_reg d2" "\<not> rd_subc_is_rrrc d2" "rd_has_rc d2" "drc d2 < 24"
    and "drc d1 \<noteq> drc d2" "dra d2 \<noteq> drc d1" "drb d2 \<noteq> drc d1"
    and y: "y = hot_subc t d2 (hot_sub t d1 x)"
  shows "join64 (read_reg t (drc d2) y) (read_reg t (drc d1) y) =
      join64 (vra t d2 x) (vra t d1 x) - join64 (vrb t d2 x) (vrb t d1 x)"
    and "cf_set t y \<longleftrightarrow> join64 (vra t d2 x) (vra t d1 x) < join64 (vrb t d2 x) (vrb t d1 x)"
proof -
  let ?x1 = "hot_sub t d1 x"
  note v1 = hot_sub_value [OF assms(1) lo]
  have keep: "vra t d2 ?x1 = vra t d2 x" "vrb t d2 ?x1 = vrb t d2 x"
    using assms v1(3) by (simp_all add: vra_def vrb_def)
  note v2 = hot_subc_value [OF v1(4) hi, unfolded keep v1(2)]
  have low: "read_reg t (drc d1) y = read_reg t (drc d1) ?x1" using v2(3) assms by simp
  show "join64 (read_reg t (drc d2) y) (read_reg t (drc d1) y) =
      join64 (vra t d2 x) (vra t d1 x) - join64 (vrb t d2 x) (vrb t d1 x)"
    unfolding low unfolding y v1(1) v2(1) by (rule join64_diff)
  show "cf_set t y \<longleftrightarrow> join64 (vra t d2 x) (vra t d1 x) < join64 (vrb t d2 x) (vrb t d1 x)"
    unfolding y v2(2) by (rule join64_diff)
qed

section \<open>Multiplication by steps\<close>

text \<open>
  \<open>MUL_STEP\<close> on the pair \<open>(e, e + 1)\<close> with shift \<open>k\<close>: if the even register is odd, add the shifted
  multiplicand to the odd register; then halve the even register.
\<close>

definition step_pair :: "raw_decoded48 \<Rightarrow> bool" where
  "step_pair d \<longleftrightarrow> rd_has_dc d \<and> rd_has_db d \<and> ddb d = ddc d \<and> ddc d < 23 \<and> rd_hot_fmt d = F_Rrrici \<and>
     dra d \<noteq> ddc d \<and> dra d \<noteq> ddc d + 1"

definition with_shift :: "raw_decoded48 \<Rightarrow> nat \<Rightarrow> raw_decoded48" where
  "with_shift d k = d\<lparr>rd_shift := of_nat k\<rparr>"

lemma with_shift_simps [simp]:
  "dra (with_shift d k) = dra d" "ddb (with_shift d k) = ddb d" "ddc (with_shift d k) = ddc d"
  "rd_has_db (with_shift d k) = rd_has_db d" "rd_has_dc (with_shift d k) = rd_has_dc d"
  "rd_hot_fmt (with_shift d k) = rd_hot_fmt d" "rd_shift (with_shift d k) = of_nat k"
  by (simp_all add: with_shift_def dra_def ddb_def ddc_def)

lemma shift_and_31: "k < 32 \<Longrightarrow> unat ((of_nat k :: u32) AND 31) = k"
proof -
  assume "k < 32"
  have "(of_nat k :: u32) AND 31 = take_bit 5 (of_nat k)" by (simp add: take_bit_eq_mask mask_numeral)
  also have "\<dots> = of_nat k"
    using \<open>k < 32\<close> by (simp add: take_bit_of_nat take_bit_nat_eq_self)
  finally show ?thesis using \<open>k < 32\<close> by (simp add: unat_of_nat)
qed

lemma pair_regs:
  assumes "ddc d < 23"
  shows "ddc d < 24" "ddc d + 1 < 24" "ddc d + 1 \<noteq> ddc d" "ddc d \<noteq> ddc d + 1"
proof -
  have "unat (ddc d) < 23" using assms by (simp add: word_less_nat_alt)
  then have "unat (ddc d + 1) = unat (ddc d) + 1" by (simp add: unat_word_ariths)
  with \<open>unat (ddc d) < 23\<close> show "ddc d < 24" "ddc d + 1 < 24" "ddc d + 1 \<noteq> ddc d" "ddc d \<noteq> ddc d + 1"
    by (simp_all add: word_less_nat_alt)
qed

lemma mul_step_value:
  fixes d defines "e \<equiv> ddc d"
  assumes "live t x" and "step_pair d" and "k < 32" and y: "y = hot_mul_step t (with_shift d k) x"
  shows "read_reg t e y = drop_bit 1 (read_reg t e x)"
    and "read_reg t (e + 1) y =
      read_reg t (e + 1) x + (if bit (read_reg t e x) 0 then push_bit k (read_reg t (dra d) x) else 0)"
    and "read_reg t (dra d) y = read_reg t (dra d) x"
    and "live t y"
proof -
  have odd: "w AND 1 \<noteq> 0 \<longleftrightarrow> bit w 0" for w :: u32
    using and_bit_eq_0_iff [of w 0] by simp
  show "read_reg t e y = drop_bit 1 (read_reg t e x)"
    "read_reg t (e + 1) y =
      read_reg t (e + 1) x + (if bit (read_reg t e x) 0 then push_bit k (read_reg t (dra d) x) else 0)"
    "read_reg t (dra d) y = read_reg t (dra d) x" "live t y"
    using assms(3) pair_regs [of d] assms(2,4)
    unfolding y hot_mul_step_def Let_def e_def step_pair_def
    by (simp_all add: odd shift_and_31 vra_def)
qed

definition mul_steps :: "nat \<Rightarrow> raw_decoded48 \<Rightarrow> nat \<Rightarrow> exec \<Rightarrow> exec" where
  "mul_steps t d n x = fold (\<lambda>k. hot_mul_step t (with_shift d k)) [0..<n] x"

lemma take_bit_Suc_word:
  "take_bit (Suc n) w = take_bit n w + (if bit w n then 2 ^ n else 0)" for w :: u32
proof -
  let ?b = "if bit w n then 2 ^ n else 0 :: u32"
  have "take_bit n w AND ?b = 0"
    by (rule bit_word_eqI) (auto simp: bit_and_iff bit_take_bit_iff)
  moreover have "take_bit (Suc n) w = take_bit n w OR ?b"
    by (rule bit_word_eqI) (auto simp: bit_or_iff bit_take_bit_iff less_Suc_eq)
  ultimately show ?thesis by (simp add: disjunctive_add_eq_or)
qed

lemma mul_steps_value:
  assumes "live t x" and "step_pair d" and "n \<le> 32"
  shows "read_reg t (ddc d) (mul_steps t d n x) = drop_bit n (read_reg t (ddc d) x) \<and>
    read_reg t (ddc d + 1) (mul_steps t d n x) =
      read_reg t (ddc d + 1) x + take_bit n (read_reg t (ddc d) x) * read_reg t (dra d) x \<and>
    read_reg t (dra d) (mul_steps t d n x) = read_reg t (dra d) x \<and> live t (mul_steps t d n x)"
  using assms(3)
proof (induction n)
  case 0
  then show ?case using assms(1) by (simp add: mul_steps_def)
next
  case (Suc n)
  let ?y = "mul_steps t d n x" and ?a = "read_reg t (dra d) x" and ?e = "read_reg t (ddc d) x"
  have IH: "read_reg t (ddc d) ?y = drop_bit n ?e"
    "read_reg t (ddc d + 1) ?y = read_reg t (ddc d + 1) x + take_bit n ?e * ?a"
    "read_reg t (dra d) ?y = ?a" "live t ?y"
    using Suc by auto
  have step: "mul_steps t d (Suc n) x = hot_mul_step t (with_shift d n) ?y"
    by (simp add: mul_steps_def)
  have "n < 32" using Suc.prems by simp
  note v = mul_step_value [OF IH(4) assms(2) this step]
  have "bit (drop_bit n ?e) 0 = bit ?e n" by (simp add: bit_drop_bit_eq)
  with v IH show ?case
    by (simp add: take_bit_Suc_word push_bit_eq_mult algebra_simps drop_bit_drop_bit)
qed

section \<open>Division by steps\<close>

lemma div_step_value:
  fixes d defines "e \<equiv> ddc d"
  assumes "live t x" and "step_pair d" and "k < 32" and y: "y = hot_div_step t (with_shift d k) x"
    and s: "s = push_bit k (read_reg t (dra d) x)"
  shows "read_reg t e y = push_bit 1 (read_reg t e x) OR (if s \<le> read_reg t (e + 1) x then 1 else 0)"
    and "read_reg t (e + 1) y = read_reg t (e + 1) x - (if s \<le> read_reg t (e + 1) x then s else 0)"
    and "read_reg t (dra d) y = read_reg t (dra d) x"
    and "live t y"
  using assms(3) pair_regs [of d] assms(2,4)
  unfolding y s hot_div_step_def Let_def e_def step_pair_def split_beta
  by (simp_all add: shift_and_31 vra_def)

definition div_steps :: "nat \<Rightarrow> raw_decoded48 \<Rightarrow> nat \<Rightarrow> exec \<Rightarrow> exec" where
  "div_steps t d n x = fold (\<lambda>k. hot_div_step t (with_shift d k)) (rev [0..<n]) x"

lemma unat_shifted:
  assumes "unat (a :: u32) * 2 ^ k < 2 ^ 32"
  shows "unat (push_bit k a) = unat a * 2 ^ k"
proof -
  have "unat (push_bit k a) = take_bit LENGTH(32) (push_bit k (unat a))" by (rule unsigned_push_bit_eq)
  then show ?thesis using assms by (simp add: push_bit_eq_mult take_bit_nat_eq_self)
qed

lemma small_quotient:
  fixes r S :: nat
  assumes "r < 2 * S"
  shows "r div S = of_bool (S \<le> r)" "r mod S = r - (if S \<le> r then S else 0)"
  using assms split_carry [OF assms] by (auto simp: div_if le_mod_geq)

lemma double_plus_bit: "push_bit 1 w OR (if b then 1 else 0) = 2 * w + (if b then 1 else 0)" for w :: u32
proof -
  have "push_bit 1 w AND (if b then 1 else 0) = 0"
    by (rule bit_word_eqI) (unfold bit_and_iff bit_push_bit_iff, auto simp: bit_1_iff)
  from disjunctive_add_eq_or [OF this] show ?thesis
    by (simp only: push_bit_eq_mult power_one_right mult.commute [of w])
qed

lemma div_steps_value:
  assumes "live t x" and "step_pair d" and "n \<le> 32"
    and "V = unat (read_reg t (dra d) x)" and "0 < V" and "n = 0 \<or> V * 2 ^ (n - 1) < 2 ^ 32"
    and "unat (read_reg t (ddc d + 1) x) < V * 2 ^ n"
  shows "read_reg t (ddc d) (div_steps t d n x) =
      read_reg t (ddc d) x * 2 ^ n + of_nat (unat (read_reg t (ddc d + 1) x) div V) \<and>
    unat (read_reg t (ddc d + 1) (div_steps t d n x)) = unat (read_reg t (ddc d + 1) x) mod V"
  using assms(1,3,4,6,7)
proof (induction n arbitrary: x)
  case 0
  then show ?case by (simp add: div_steps_def)
next
  case (Suc n)
  let ?a = "read_reg t (dra d) x" and ?o = "read_reg t (ddc d + 1) x"
  let ?s = "push_bit n ?a" and ?y = "hot_div_step t (with_shift d n) x"
  have "n < 32" using Suc.prems by simp
  note v = div_step_value [OF Suc.prems(1) assms(2) this refl refl]
  have s: "unat ?s = V * 2 ^ n"
    using Suc.prems by (subst unat_shifted) simp_all
  define b where "b = unat ?o div (V * 2 ^ n)"
  have o: "unat ?o < 2 * (V * 2 ^ n)" using Suc.prems(5) by simp
  have b: "b = of_bool (?s \<le> ?o)"
    unfolding b_def using small_quotient(1) [OF o] by (simp add: word_le_nat_alt s)
  have r: "unat (read_reg t (ddc d + 1) ?y) = unat ?o mod (V * 2 ^ n)"
    unfolding v(2) using small_quotient(2) [OF o] by (simp add: word_le_nat_alt s unat_sub)
  have o_eq: "unat ?o = V * (b * 2 ^ n) + unat ?o mod (V * 2 ^ n)"
    unfolding b_def using mult_div_mod_eq [of "V * 2 ^ n" "unat ?o"] by (simp add: ac_simps)
  have split: "unat ?o div V = b * 2 ^ n + unat ?o mod (V * 2 ^ n) div V"
    "unat ?o mod V = unat ?o mod (V * 2 ^ n) mod V"
    using assms(5) by (subst o_eq, simp)+
  have "unat (read_reg t (ddc d + 1) ?y) < V * 2 ^ n" using r assms(5) by simp
  moreover have "n = 0 \<or> V * 2 ^ (n - 1) < 2 ^ 32"
    using Suc.prems(4) by (cases n) auto
  ultimately have IH: "read_reg t (ddc d) (div_steps t d n ?y) =
      read_reg t (ddc d) ?y * 2 ^ n + of_nat (unat (read_reg t (ddc d + 1) ?y) div V)"
    "unat (read_reg t (ddc d + 1) (div_steps t d n ?y)) = unat (read_reg t (ddc d + 1) ?y) mod V"
    using Suc.IH [OF v(4)] Suc.prems v(3) by simp_all
  have step: "div_steps t d (Suc n) x = div_steps t d n ?y" by (simp add: div_steps_def)
  have "read_reg t (ddc d) ?y = 2 * read_reg t (ddc d) x + of_nat b"
    unfolding v(1) double_plus_bit b by simp
  then show ?case
    unfolding step IH r split by (simp add: algebra_simps)
qed

section \<open>Locks\<close>

text \<open>The 256 lock bits are kept in the first 32 bytes of the array.\<close>

definition lock_held :: "u8 \<Rightarrow> exec \<Rightarrow> bool" where
  "lock_held l x \<longleftrightarrow> bit (pl_atomic_bits (ex_pl x) ! unat (l div 8)) (unat (l mod 8))"

definition lock_of :: "nat \<Rightarrow> raw_decoded48 \<Rightarrow> exec \<Rightarrow> u8" where
  "lock_of t d x = atomic_bit_index (vra t d x + rd_imm d)"

lemma lock_held_prims [simp]:
  "lock_held l (write_reg t i v x) = lock_held l x"
  "lock_held l (set_zf t v x) = lock_held l x"
  "lock_held l (take_cond_branch t d v x) = lock_held l x"
  by (simp_all add: lock_held_def write_reg_def set_zf_def take_cond_branch_def jump_def upd_pl_def)

lemma live_set_atomic [simp]: "live t x \<Longrightarrow> live t (set_atomic i v x)"
  by (simp add: live_def set_atomic_def upd_pl_def wf_pipeline_def)

lemma lock_index:
  fixes l m :: u8
  shows "unat (l div 8) < 32" "unat (l mod 8) < 8"
    and "unat (l div 8) = unat (m div 8) \<Longrightarrow> unat (l mod 8) = unat (m mod 8) \<Longrightarrow> l = m"
proof -
  have l: "unat l < 256" using unsigned_less [of l, where ?'a = nat] by simp
  then show "unat (l div 8) < 32" "unat (l mod 8) < 8" by (simp_all add: unat_div unat_mod less_mult_imp_div_less)
  show "unat (l div 8) = unat (m div 8) \<Longrightarrow> unat (l mod 8) = unat (m mod 8) \<Longrightarrow> l = m"
    by (simp add: unat_div unat_mod word_unat_eq_iff) (metis mult_div_mod_eq)
qed

lemma lock_held_set_atomic:
  assumes "live t x" and "v = pl_atomic_bits (ex_pl x) ! unat (l div 8)"
  shows "lock_held m (set_atomic (l div 8) (v OR 2 ^ unat (l mod 8)) x) \<longleftrightarrow> m = l \<or> lock_held m x"
    and "lock_held m (set_atomic (l div 8) (v AND NOT (2 ^ unat (l mod 8))) x) \<longleftrightarrow> m \<noteq> l \<and> lock_held m x"
proof -
  have len: "unat (l div 8) < length (pl_atomic_bits (ex_pl x))"
    using assms(1) lock_index(1) [of l] by (simp add: live_def wf_pipeline_def)
  show "lock_held m (set_atomic (l div 8) (v OR 2 ^ unat (l mod 8)) x) \<longleftrightarrow> m = l \<or> lock_held m x"
    "lock_held m (set_atomic (l div 8) (v AND NOT (2 ^ unat (l mod 8))) x) \<longleftrightarrow> m \<noteq> l \<and> lock_held m x"
    using len assms(2) lock_index(2) [of l] lock_index(3) [of m l]
    by (auto simp: lock_held_def set_atomic_def upd_pl_def nth_list_update mask_bits)
qed

lemma hot_acquire_lock:
  assumes "live t x" and "\<not> rd_acquire_is_release d" and "y = hot_acquire t d x"
  shows "zf_set t y \<longleftrightarrow> \<not> lock_held (lock_of t d x) x"
    and "lock_held m y \<longleftrightarrow> m = lock_of t d x \<or> lock_held m x" and "live t y"
  using assms lock_held_set_atomic [OF assms(1) refl, where l = "lock_of t d x"]
  by (auto simp: hot_acquire_def Let_def write_rc_def lock_of_def lock_held_def [of "atomic_bit_index _"] mask_bits)

lemma hot_release_lock:
  assumes "live t x" and "rd_acquire_is_release d" and "y = hot_acquire t d x"
  shows "zf_set t y \<longleftrightarrow> lock_held (lock_of t d x) x"
    and "lock_held m y \<longleftrightarrow> m \<noteq> lock_of t d x \<and> lock_held m x" and "live t y"
  using assms lock_held_set_atomic [OF assms(1) refl, where l = "lock_of t d x"]
  by (auto simp: hot_acquire_def Let_def write_rc_def lock_of_def lock_held_def [of "atomic_bit_index _"] mask_bits)

section \<open>Arithmetic helpers\<close>

lemma sint_range: "- (2 ^ 31) \<le> sint a \<and> sint a < 2 ^ 31" for a :: u32
  using sint_ge [of a] sint_lt [of a] by simp

lemma sint_word_of_int_small: "- (2 ^ 31) \<le> i \<Longrightarrow> i < 2 ^ 31 \<Longrightarrow> sint (word_of_int i :: u32) = i"
  by (simp add: signed_take_bit_int_eq_self sint_sbintrunc' flip: signed_of_int)

lemma saturating_add_sint:
  "sint (saturating_add_s32 a b) = max (- (2 ^ 31)) (min (2 ^ 31 - 1) (sint a + sint b))"
proof -
  let ?s = "sint a + sint b"
  have mid: "sint (a + b) = ?s" if "- (2 ^ 31) \<le> ?s" and "?s < 2 ^ 31"
    using sint_word_of_int_small [of ?s] that by simp
  show ?thesis
    using mid by (auto simp: saturating_add_s32_def Let_def max_def min_def)
qed

lemma rot_amount: "s AND 31 \<noteq> 0 \<Longrightarrow> 0 < unat (s AND 31) \<and> unat (s AND 31) < 32 \<and> unat (32 - (s AND 31)) = 32 - unat (s AND 31)"
  for s :: u32
proof -
  assume nz: "s AND 31 \<noteq> 0"
  have "s AND 31 \<le> 31" by (rule word_and_le1)
  then have "unat (s AND 31) \<le> 31" by (simp add: word_le_nat_alt)
  with nz show ?thesis by (auto simp: unat_sub word_le_nat_alt unat_gt_0)
qed

lemma bit_rotl32:
  assumes "i < 32"
  shows "bit (rotl32 v s) i = bit v ((i + 32 - unat (s AND 31)) mod 32)"
proof (cases "s AND 31 = 0")
  case True
  with assms show ?thesis by (simp add: rotl32_def)
next
  case False
  from rot_amount [OF this] obtain k where k: "unat (s AND 31) = k" "unat (32 - (s AND 31)) = 32 - k" "0 < k" "k < 32"
    by blast
  have "bit (push_bit k v OR drop_bit (32 - k) v) i = bit v ((i + 32 - k) mod 32)"
  proof (cases "k \<le> i")
    case True
    then have "(i + 32 - k) mod 32 = i - k" using assms by (simp add: le_mod_geq)
    moreover have "\<not> bit v (32 - k + i)" using True k by (auto dest: bit_imp_le_length)
    ultimately show ?thesis using True assms by (simp add: bit_or_iff bit_push_bit_iff bit_drop_bit_eq)
  next
    case False
    then have "(i + 32 - k) mod 32 = 32 - k + i" using k by simp
    then show ?thesis using False by (simp add: bit_or_iff bit_push_bit_iff bit_drop_bit_eq)
  qed
  then show ?thesis using False k by (simp add: rotl32_def Let_def)
qed

lemma bit_rotr32:
  assumes "i < 32"
  shows "bit (rotr32 v s) i = bit v ((i + unat (s AND 31)) mod 32)"
proof (cases "s AND 31 = 0")
  case True
  with assms show ?thesis by (simp add: rotr32_def)
next
  case False
  from rot_amount [OF this] obtain k where k: "unat (s AND 31) = k" "unat (32 - (s AND 31)) = 32 - k" "0 < k" "k < 32"
    by blast
  have "bit (drop_bit k v OR push_bit (32 - k) v) i = bit v ((i + k) mod 32)"
  proof (cases "i + k < 32")
    case True
    then have "\<not> 32 - k \<le> i" by simp
    with True show ?thesis by (simp add: bit_or_iff bit_push_bit_iff bit_drop_bit_eq add.commute)
  next
    case False
    then have "(i + k) mod 32 = i - (32 - k)" using assms k by (simp add: le_mod_geq)
    moreover have "\<not> bit v (k + i)" using False by (auto dest: bit_imp_le_length)
    moreover have "32 - k \<le> i" using False by simp
    ultimately show ?thesis using assms by (simp add: bit_or_iff bit_push_bit_iff bit_drop_bit_eq)
  qed
  then show ?thesis using False k by (simp add: rotr32_def Let_def)
qed

lemma rotr32_rotl32: "rotr32 (rotl32 v s) s = v"
proof (rule bit_word_eqI)
  fix i assume "i < LENGTH(32)"
  then have i: "i < 32" by simp
  let ?k = "unat (s AND 31)"
  have "s AND 31 \<le> 31" by (rule word_and_le1)
  then have k: "?k \<le> 31" by (simp add: word_le_nat_alt)
  have "((i + ?k) mod 32 + 32 - ?k) mod 32 = i"
    using i k by (cases "i + ?k < 32") (simp_all add: le_mod_geq)
  then show "bit (rotr32 (rotl32 v s) s) i = bit v i"
    using i by (simp add: bit_rotr32 bit_rotl32)
qed

section \<open>The legacy subtraction with borrow\<close>

text \<open>\<open>OP_SUBC\<close> of the legacy switch tests \<open>a < b + borrow\<close> on 32 bits, so the borrow is lost when the
  sum wraps, where the hot path adds the test \<open>rhs_wrap\<close>.\<close>

lemma legacy_subc_borrow:
  assumes "live t x" and "ff_opcode f = OP_SUBC" and "op_b t f x = 0xFFFFFFFF" and "cf_set t x"
  shows "\<not> cf_set t (leg_sub t f x)"
proof -
  have "(4294967296 :: u32) = 0" by simp
  then have "\<not> a < (4294967296 :: u32)" for a by (simp only:) simp
  with assms show ?thesis
    by (simp add: leg_sub_def Let_def put_result_def OP_SUBC_def OP_RSUB_def OP_RSUBC_def OP_SUB_def)
qed

end
