(* ===== verification/Pipeline.thy ===== *)
theory Pipeline
  imports Exec_Legacy
begin

text \<open>
  \<open>Pipeline::execute_once\<close> (\<open>dpu/pipeline.cc\<close>) as a whole: the checks before the fetch, the fetch, the
  per-thread decode cache, the hot path, the legacy switch and the two ways to retire an
  instruction.

  A line of the cache remembers the IRAM object (its address, \<open>0\<close> for the null pointer), the slot and
  the word it decoded. \<open>cache_ok\<close> says that every line in use holds the decoding of its word. The
  cache is then invisible: \<open>execute_once\<close> computes what \<open>execute_ref\<close>, which always decodes, computes.
\<close>

section \<open>The decode cache\<close>

definition kDecodedInstCacheLineCount :: nat where "kDecodedInstCacheLineCount = 4096"

record cache_entry =
  ce_iram :: u64
  ce_iram_slot :: u16
  ce_inst48 :: u64
  ce_decoded :: raw_decoded48

definition cache_entry_init :: cache_entry where
  "cache_entry_init = \<lparr>ce_iram = 0, ce_iram_slot = 0, ce_inst48 = 0, ce_decoded = raw_decoded48_init\<rparr>"

type_synonym decode_cache = "cache_entry list"

definition decode_cache_init :: decode_cache where
  "decode_cache_init = replicate kDecodedInstCacheLineCount cache_entry_init"

definition cache_idx :: "u64 \<Rightarrow> u16 \<Rightarrow> nat" where
  "cache_idx addr slot = unat ((drop_bit 3 addr XOR ucast slot) AND 0xFFF)"

definition decode_cached ::
  "u64 \<Rightarrow> u16 \<Rightarrow> u64 \<Rightarrow> decode_cache \<Rightarrow> bool \<times> raw_decoded48 \<times> decode_cache" where
  "decode_cached addr slot inst48 cache =
     (let i = cache_idx addr slot; e = cache ! i in
      if ce_iram e = addr \<and> ce_iram_slot e = slot \<and> ce_inst48 e = inst48
      then (rd_valid (ce_decoded e), ce_decoded e, cache)
      else
        let (decoded_ok, decoded) = decode_raw_word_48 inst48;
            decoded = (if decoded_ok then populate_hot_metadata_48 decoded else decoded)
        in (decoded_ok, decoded,
            cache[i := \<lparr>ce_iram = addr, ce_iram_slot = slot, ce_inst48 = inst48, ce_decoded = decoded\<rparr>]))"

section \<open>One instruction\<close>

type_synonym core = "pipeline \<times> wram \<times> mram"

definition start_exec :: "nat \<Rightarrow> core \<Rightarrow> exec" where
  "start_exec t c = (case c of (p, w, m) \<Rightarrow>
     \<lparr>ex_pl = p, ex_wram = w, ex_mram = m, ex_next_pc = pl_pc_regs p ! t + 8, ex_keep_running = True\<rparr>)"

definition core_of :: "exec \<Rightarrow> core" where
  "core_of x = (ex_pl x, ex_wram x, ex_mram x)"

text \<open>The slot and the word that the tasklet executes next, if the program counter is in the IRAM and
  the word is not zero.\<close>

definition fetch :: "iram \<Rightarrow> u64 \<Rightarrow> (u16 \<times> u64) option" where
  "fetch ir pc =
     (let iram_slot64 = pc div 8 in
      if iram_slot64 > 65535 then None
      else
        let iram_slot = ucast iram_slot64 :: u16 in
        if \<not> slot_in_bounds iram_slot then None
        else
          let inst48 = iram_read_word ir iram_slot
          in if inst48 = 0 then None else Some (iram_slot, inst48))"

definition set_pc_reg :: "nat \<Rightarrow> u64 \<Rightarrow> pipeline \<Rightarrow> pipeline" where
  "set_pc_reg t a p = p\<lparr>pl_pc_regs := (pl_pc_regs p)[t := a]\<rparr>"

definition stop_tasklet :: "u64 \<Rightarrow> pipeline \<Rightarrow> pipeline" where
  "stop_tasklet b p = p\<lparr>pl_run_bits := pl_run_bits p AND NOT b, pl_sleep_bits := pl_sleep_bits p AND NOT b,
                        pl_replay_bits := pl_replay_bits p AND NOT b\<rparr>"

definition retire_hot :: "nat \<Rightarrow> exec \<Rightarrow> bool \<times> exec" where
  "retire_hot t x =
     (let x = upd_pl (set_pc_reg t (ex_next_pc x)) x;
          x = (if \<not> ex_keep_running x then upd_pl (stop_tasklet (push_bit t 1)) x else x);
          x = upd_pl (perf_counter_retire_step False) x
      in (ex_keep_running x, x))"

definition retire_legacy :: "nat \<Rightarrow> exec \<Rightarrow> bool \<times> exec" where
  "retire_legacy t x =
     (let x = upd_pl (set_pc_reg t (ex_next_pc x)) x;
          is_replay_step = (pl_replay_bits (ex_pl x) AND push_bit t 1 \<noteq> 0);
          x = upd_pl (\<lambda>p. p\<lparr>pl_replay_bits := pl_replay_bits p AND NOT (push_bit t 1)\<rparr>) x;
          x = upd_pl (perf_counter_retire_step is_replay_step) x
      in if \<not> ex_keep_running x then (False, x)
         else
           let next_slot64 = pl_pc_regs (ex_pl x) ! t div 8
           in if next_slot64 > 65535 then (False, x) else (slot_in_bounds (ucast next_slot64), x))"

definition execute_decoded :: "nat \<Rightarrow> u64 \<Rightarrow> bool \<Rightarrow> raw_decoded48 \<Rightarrow> exec \<Rightarrow> bool \<times> exec" where
  "execute_decoded t inst48 decoded_ok decoded x =
     (case (if decoded_ok \<and> rd_valid decoded then execute_hot t decoded x else None) of
        Some y \<Rightarrow> retire_hot t y
      | None \<Rightarrow> retire_legacy t (legacy_switch t (fixed_decode inst48) x))"

text \<open>The checks on the tasklet: in range, running and not sleeping.\<close>

definition runnable :: "int \<Rightarrow> pipeline \<Rightarrow> bool" where
  "runnable tasklet_idx p \<longleftrightarrow>
     \<not> (tasklet_idx < 0 \<or> nat tasklet_idx \<ge> tasklet_count) \<and>
     \<not> (pl_run_bits p AND push_bit (nat tasklet_idx) 1 = 0 \<or>
        pl_sleep_bits p AND push_bit (nat tasklet_idx) 1 \<noteq> 0)"

definition execute_once ::
  "u64 \<Rightarrow> iram \<Rightarrow> int \<Rightarrow> decode_cache \<Rightarrow> core \<Rightarrow> bool \<times> decode_cache \<times> core" where
  "execute_once addr ir tasklet_idx cache c =
     (if \<not> runnable tasklet_idx (fst c) then (False, cache, c)
      else
        let t = nat tasklet_idx in
        case fetch ir (pl_pc_regs (fst c) ! t) of
          None \<Rightarrow> (False, cache, c)
        | Some (slot, inst48) \<Rightarrow>
            let (decoded_ok, decoded, cache) = decode_cached addr slot inst48 cache;
                (keep_running, x) = execute_decoded t inst48 decoded_ok decoded (start_exec t c)
            in (keep_running, cache, core_of x))"

text \<open>The same without a cache.\<close>

definition execute_ref :: "iram \<Rightarrow> int \<Rightarrow> core \<Rightarrow> bool \<times> core" where
  "execute_ref ir tasklet_idx c =
     (if \<not> runnable tasklet_idx (fst c) then (False, c)
      else
        let t = nat tasklet_idx in
        case fetch ir (pl_pc_regs (fst c) ! t) of
          None \<Rightarrow> (False, c)
        | Some (slot, inst48) \<Rightarrow>
            let d = decode_word inst48;
                (keep_running, x) = execute_decoded t inst48 (rd_valid d) d (start_exec t c)
            in (keep_running, core_of x))"

section \<open>The cache is invisible\<close>

definition cache_ok :: "decode_cache \<Rightarrow> bool" where
  "cache_ok cache \<longleftrightarrow> length cache = kDecodedInstCacheLineCount \<and>
     list_all (\<lambda>e. ce_iram e \<noteq> 0 \<longrightarrow> ce_decoded e = decode_word (ce_inst48 e)) cache"

lemma cache_ok_init: "cache_ok decode_cache_init"
  by (simp add: cache_ok_def decode_cache_init_def cache_entry_init_def list_all_iff)

lemma cache_idx_less: "cache_idx addr slot < kDecodedInstCacheLineCount"
proof -
  have "(drop_bit 3 addr XOR ucast slot) AND 0xFFF \<le> (0xFFF :: u64)" by (rule word_and_le1)
  then show ?thesis by (simp add: cache_idx_def kDecodedInstCacheLineCount_def word_le_nat_alt)
qed

lemma decode_cached_eq:
  assumes "cache_ok cache" and "addr \<noteq> 0"
  obtains cache' where
    "decode_cached addr slot inst cache = (rd_valid (decode_word inst), decode_word inst, cache')"
    and "cache_ok cache'"
proof -
  let ?i = "cache_idx addr slot" and ?d = "decode_word inst"
  let ?e = "\<lparr>ce_iram = addr, ce_iram_slot = slot, ce_inst48 = inst, ce_decoded = ?d\<rparr>"
  show thesis
  proof (cases "ce_iram (cache ! ?i) = addr \<and> ce_iram_slot (cache ! ?i) = slot \<and> ce_inst48 (cache ! ?i) = inst")
    case True
    then have "ce_decoded (cache ! ?i) = ?d"
      using assms cache_idx_less [of addr slot] by (auto simp: cache_ok_def list_all_length)
    with True assms(1) show thesis
      by (intro that [of cache]) (simp_all add: decode_cached_def Let_def)
  next
    case False
    have "decode_cached addr slot inst cache = (rd_valid ?d, ?d, cache[?i := ?e])"
      unfolding decode_cached_def Let_def if_not_P [OF False]
      by (simp add: decode_word_frame split_beta) (simp add: decode_word_def split_beta)
    moreover have "cache_ok (cache[?i := ?e])"
      using assms(1) by (simp add: cache_ok_def list_all_update)
    ultimately show thesis by (rule that)
  qed
qed

lemma execute_once_ref:
  assumes "cache_ok cache" and "addr \<noteq> 0"
  shows "\<exists>cache'. execute_once addr ir i cache c =
           (fst (execute_ref ir i c), cache', snd (execute_ref ir i c)) \<and> cache_ok cache'"
proof (cases "runnable i (fst c) \<and> fetch ir (pl_pc_regs (fst c) ! nat i) \<noteq> None")
  case True
  then obtain slot inst where f: "fetch ir (pl_pc_regs (fst c) ! nat i) = Some (slot, inst)" by auto
  obtain cache' where "decode_cached addr slot inst cache = (rd_valid (decode_word inst), decode_word inst, cache')"
    and "cache_ok cache'"
    using assms by (rule decode_cached_eq)
  with True f show ?thesis
    by (auto simp: execute_once_def execute_ref_def Let_def split_beta)
next
  case False
  then have "\<not> runnable i (fst c) \<or> fetch ir (pl_pc_regs (fst c) ! nat i) = None" by blast
  with assms show ?thesis by (auto simp: execute_once_def execute_ref_def)
qed

section \<open>Well-formedness and isolation\<close>

definition wf_core :: "core \<Rightarrow> bool" where
  "wf_core c \<longleftrightarrow> (case c of (p, w, m) \<Rightarrow> wf_pipeline p \<and> wf_wram w \<and> wf_mram m)"

lemma runnable_iff:
  assumes "wf_pipeline p"
  shows "runnable i p \<longleftrightarrow> 0 \<le> i \<and> nat i < kNumTasklets \<and> bit (pl_run_bits p) (nat i)"
  using assms by (auto simp: runnable_def tasklet_count_def wf_pipeline_def mask_bits)

lemma wf_set_pc_reg [wf_intros]: "wf_pipeline p \<Longrightarrow> wf_pipeline (set_pc_reg t a p)"
  by (simp add: wf_pipeline_def set_pc_reg_def)

lemma wf_stop_tasklet [wf_intros]: "wf_pipeline p \<Longrightarrow> wf_pipeline (stop_tasklet (2 ^ t) p)"
  by (auto simp: wf_pipeline_def stop_tasklet_def within_mask_iff mask_bits)

lemma retire_step_frame [simp]:
  "pl_gp_regs (perf_counter_retire_step b p) = pl_gp_regs p"
  "pl_pc_regs (perf_counter_retire_step b p) = pl_pc_regs p"
  "pl_zf_regs (perf_counter_retire_step b p) = pl_zf_regs p"
  "pl_cf_regs (perf_counter_retire_step b p) = pl_cf_regs p"
  "pl_run_bits (perf_counter_retire_step b p) = pl_run_bits p"
  "pl_sleep_bits (perf_counter_retire_step b p) = pl_sleep_bits p"
  "pl_atomic_bits (perf_counter_retire_step b p) = pl_atomic_bits p"
  by (simp_all add: perf_counter_retire_step_def)

text \<open>What retiring keeps of \<open>good\<close>: everything but the program counter and the run bit of \<open>t\<close>.\<close>

definition retired :: "nat \<Rightarrow> exec \<Rightarrow> exec \<Rightarrow> bool" where
  "retired t x0 x \<longleftrightarrow>
     wf_exec x \<and> isolated t (ex_pl x0) (ex_pl x) \<and> mram_bound (ex_mram x) = mram_bound (ex_mram x0)"

lemma retired_upd_pl:
  assumes "retired t x0 x" and "wf_pipeline (ex_pl x) \<Longrightarrow> wf_pipeline (f (ex_pl x))"
    and "isolated t (ex_pl x) (f (ex_pl x))"
  shows "retired t x0 (upd_pl f x)"
  using assms by (auto simp: retired_def wf_exec_def upd_pl_def intro: isolated_trans)

lemma retire_steps:
  assumes "retired t x0 x"
  shows "retired t x0 (upd_pl (set_pc_reg t a) x)" "retired t x0 (upd_pl (stop_tasklet (2 ^ t)) x)"
    "retired t x0 (upd_pl (perf_counter_retire_step b) x)"
    "retired t x0 (upd_pl (\<lambda>p. p\<lparr>pl_replay_bits := pl_replay_bits p AND NOT (2 ^ t)\<rparr>) x)"
  subgoal by (rule retired_upd_pl [OF assms]) (simp_all add: wf_intros,
      simp add: isolated_def tasklet_regs_def set_pc_reg_def)
  subgoal by (rule retired_upd_pl [OF assms]) (simp_all add: wf_intros,
      simp add: isolated_def tasklet_regs_def stop_tasklet_def mask_bits)
  subgoal by (rule retired_upd_pl [OF assms]) (simp_all add: wf_intros,
      simp add: isolated_def tasklet_regs_def)
  subgoal by (rule retired_upd_pl [OF assms])
      (simp_all add: wf_pipeline_def isolated_def tasklet_regs_def)
  done

lemma good_retired: "good t x0 x \<Longrightarrow> retired t x0 x"
  by (simp add: good_def retired_def)

lemma retired_hot: "good t x0 x \<Longrightarrow> retired t x0 (snd (retire_hot t x))"
  by (simp add: retire_hot_def Let_def retire_steps good_retired)

lemma retired_legacy: "good t x0 x \<Longrightarrow> retired t x0 (snd (retire_legacy t x))"
  by (simp add: retire_legacy_def Let_def retire_steps good_retired)

lemma retired_execute_decoded:
  assumes "good t x0 x"
  shows "retired t x0 (snd (execute_decoded t inst ok d x))"
  unfolding execute_decoded_def
  using assms
  by (auto split: option.split if_splits
      intro: retired_hot retired_legacy good_execute_hot good_legacy_switch)

lemma good_start:
  assumes "wf_core c" and "bit (pl_run_bits (fst c)) t"
  shows "good t (start_exec t c) (start_exec t c)"
  using assms by (intro good_refl) (auto simp: start_exec_def wf_core_def wf_exec_def split: prod.splits)

lemma execute_ref_inv:
  assumes "wf_core c"
  shows "wf_core (snd (execute_ref ir i c))"
    and "isolated (nat i) (fst c) (fst (snd (execute_ref ir i c)))"
    and "mram_bound (snd (snd (snd (execute_ref ir i c)))) = mram_bound (snd (snd c))"
proof -
  let ?t = "nat i"
  have "snd (execute_ref ir i c) = c \<or>
    (\<exists>x. snd (execute_ref ir i c) = core_of x \<and> retired ?t (start_exec ?t c) x)"
  proof (cases "runnable i (fst c)")
    case True
    then have "bit (pl_run_bits (fst c)) ?t" using assms by (auto simp: wf_core_def runnable_iff)
    from retired_execute_decoded [OF good_start [OF assms this]] show ?thesis
      by (auto simp: execute_ref_def Let_def True split_beta split: option.split)
  qed (simp add: execute_ref_def)
  then show "wf_core (snd (execute_ref ir i c))"
    "isolated ?t (fst c) (fst (snd (execute_ref ir i c)))"
    "mram_bound (snd (snd (snd (execute_ref ir i c)))) = mram_bound (snd (snd c))"
    using assms
    by (auto simp: retired_def wf_core_def wf_exec_def core_of_def start_exec_def split: prod.splits)
qed

end
