(* ===== verification/Frames.thy ===== *)
theory Frames
  imports Memory
begin

text \<open>
  The byte shuffle of command frames and the thread commands (\<open>internal.hh\<close>, \<open>internal.cc\<close>): the
  frame of every thread command is computed once and a received frame is looked up by a linear
  search over that table.

  The locale \<open>code_table\<close> is the contract of such a search: when the codes of a list of keys are
  different, the first key whose code is the given one is the key that was encoded.
\<close>

section \<open>Decoding by linear search\<close>

locale code_table =
  fixes keys :: "'k list" and code :: "'k \<Rightarrow> 'c"
  assumes code_inj: "inj_on code (set keys)"
begin

lemma search_code: "k \<in> set keys \<Longrightarrow> find (\<lambda>k'. code k' = code k) keys = Some k"
proof -
  have "inj_on code (set ks) \<Longrightarrow> k \<in> set ks \<Longrightarrow> find (\<lambda>k'. code k' = code k) ks = Some k" for ks
    by (induction ks) (auto simp: inj_on_def)
  then show "k \<in> set keys \<Longrightarrow> ?thesis" using code_inj by blast
qed

lemma search_sound: "find (\<lambda>k'. code k' = c) keys = Some k \<Longrightarrow> k \<in> set keys \<and> code k = c"
  by (auto simp: find_Some_iff)

lemma search_iff: "find (\<lambda>k'. code k' = c) keys = Some k \<longleftrightarrow> k \<in> set keys \<and> code k = c"
  using search_sound search_code by blast

lemma search_fails: "find (\<lambda>k'. code k' = c) keys = None \<longleftrightarrow> c \<notin> code ` set keys"
  by (auto simp: find_None_iff)

end

section \<open>Frames\<close>

definition encode_frame_from_x :: "u64 \<Rightarrow> u8 \<Rightarrow> u64" where
  "encode_frame_from_x x tag =
     0x3300000000000000 OR
     push_bit 0 (drop_bit (2 * 8) x AND 0xFF) OR
     push_bit 8 (drop_bit (5 * 8) x AND 0xFF) OR
     push_bit 16 (drop_bit (4 * 8) x AND 0xFF) OR
     push_bit 24 (drop_bit (0 * 8) x AND 0xFF) OR
     push_bit 32 (drop_bit (1 * 8) x AND 0xFF) OR
     push_bit 40 (drop_bit (3 * 8) x AND 0xFF) OR
     push_bit 48 (ucast tag)"

datatype thread_cmd_kind = Boot | Resume | ClearRun | ReadRun

definition thread_frame_command :: "u64 \<Rightarrow> u8 \<Rightarrow> u64" where
  "thread_frame_command base thread_id =
     (let x = base;
          x = x OR push_bit 34 (24 AND 31);
          x = x OR push_bit 20 (ucast (thread_id AND 0xF));
          x = x OR push_bit 16 (ucast (drop_bit 4 thread_id AND 0xF))
      in encode_frame_from_x x 0x98)"

definition kBootBase :: u64 where "kBootBase = 0x7d8320000000"
definition kResumeBase :: u64 where "kResumeBase = 0x7d0320000000"
definition kClearBase :: u64 where "kClearBase = 0x7c8320000000"
definition kReadBase :: u64 where "kReadBase = 0x7c0330000000"

definition thread_cmd_cache :: "u64 list list" where
  "thread_cmd_cache =
     map (\<lambda>base. map (\<lambda>tid. thread_frame_command base (of_nat tid)) [0..<kNumTasklets])
       [kBootBase, kResumeBase, kClearBase, kReadBase]"

text \<open>The order in which the two nested loops visit the table.\<close>

definition thread_cmd_keys :: "(nat \<times> nat) list" where
  "thread_cmd_keys = [(k, t). k \<leftarrow> [0..<length thread_cmd_cache], t \<leftarrow> [0..<kNumTasklets]]"

definition thread_cmd_code :: "nat \<times> nat \<Rightarrow> u64" where
  "thread_cmd_code kt = thread_cmd_cache ! fst kt ! snd kt"

definition kind_of_nat :: "nat \<Rightarrow> thread_cmd_kind" where
  "kind_of_nat k = (if k = 0 then Boot else if k = 1 then Resume else if k = 2 then ClearRun else ReadRun)"

definition decode_thread_command :: "u64 \<Rightarrow> (thread_cmd_kind \<times> u8) option" where
  "decode_thread_command cmd =
     map_option (\<lambda>(k, t). (kind_of_nat k, of_nat t))
       (find (\<lambda>kt. thread_cmd_code kt = cmd) thread_cmd_keys)"

section \<open>The byte shuffle\<close>

text \<open>The inverse of the shuffle.\<close>

definition x_of_frame :: "u64 \<Rightarrow> u64" where
  "x_of_frame f =
     (drop_bit 24 f AND 0xFF) OR push_bit 8 (drop_bit 32 f AND 0xFF) OR
     push_bit 16 (f AND 0xFF) OR push_bit 24 (drop_bit 40 f AND 0xFF) OR
     push_bit 32 (drop_bit 16 f AND 0xFF) OR push_bit 40 (drop_bit 8 f AND 0xFF)"

lemma bit_byte_mask: "bit ((w :: 'a::len word) AND 0xFF) i \<longleftrightarrow> bit w i \<and> i < 8"
proof -
  have "w AND mask 8 = w AND 0xFF" by (simp add: mask_numeral)
  moreover have "bit (w AND mask 8) i \<longleftrightarrow> bit w i \<and> i < 8"
    by (auto simp: bit_and_iff bit_mask_iff simp del: mask_numeral dest: bit_imp_le_length)
  ultimately show ?thesis by simp
qed

definition byte_at :: "nat \<Rightarrow> u64 \<Rightarrow> u64" where "byte_at n w = drop_bit n w AND 0xFF"

lemma bit_byte_at: "bit (byte_at n w) i \<longleftrightarrow> i < 8 \<and> bit w (n + i)"
  unfolding byte_at_def bit_byte_mask bit_drop_bit_eq by auto

lemma byte_at_or [simp]: "byte_at n (a OR b) = byte_at n a OR byte_at n b"
  by (rule bit_word_eqI) (auto simp: bit_byte_at bit_or_iff)

lemma byte_at_same [simp]: "n \<le> 56 \<Longrightarrow> byte_at n (push_bit n (byte_at k w)) = byte_at k w"
  by (rule bit_word_eqI) (auto simp: bit_byte_at bit_push_bit_iff)

lemma byte_at_other [simp]: "n + 8 \<le> m \<or> m + 8 \<le> n \<Longrightarrow> byte_at n (push_bit m (byte_at k w)) = 0"
  by (rule bit_word_eqI) (auto simp: bit_byte_at bit_push_bit_iff)

lemma byte_at_ucast: "(ucast (b :: u8) :: u64) = byte_at 0 (ucast b)"
  by (rule bit_word_eqI) (auto simp: bit_byte_at bit_ucast_iff dest: bit_imp_le_length)

lemma frame_as_bytes:
  "encode_frame_from_x x tag =
     push_bit 56 (byte_at 0 0x33) OR push_bit 0 (byte_at 16 x) OR push_bit 8 (byte_at 40 x) OR
     push_bit 16 (byte_at 32 x) OR push_bit 24 (byte_at 0 x) OR push_bit 32 (byte_at 8 x) OR
     push_bit 40 (byte_at 24 x) OR push_bit 48 (byte_at 0 (ucast tag))"
proof -
  have "(0x3300000000000000 :: u64) = push_bit 56 (byte_at 0 0x33)" by (simp add: byte_at_def)
  moreover have "push_bit 48 (ucast tag :: u64) = push_bit 48 (byte_at 0 (ucast tag))"
    by (simp only: byte_at_ucast [symmetric])
  ultimately show ?thesis
    unfolding encode_frame_from_x_def by (simp only: byte_at_def mult_0 mult_numeral_1 numeral_times_numeral num.case
      semiring_norm)
qed

lemma frame_byte:
  "byte_at 0 (encode_frame_from_x x tag) = byte_at 16 x"
  "byte_at 8 (encode_frame_from_x x tag) = byte_at 40 x"
  "byte_at 16 (encode_frame_from_x x tag) = byte_at 32 x"
  "byte_at 24 (encode_frame_from_x x tag) = byte_at 0 x"
  "byte_at 32 (encode_frame_from_x x tag) = byte_at 8 x"
  "byte_at 40 (encode_frame_from_x x tag) = byte_at 24 x"
  "byte_at 48 (encode_frame_from_x x tag) = byte_at 0 (ucast tag)"
  "byte_at 56 (encode_frame_from_x x tag) = byte_at 0 0x33"
  unfolding frame_as_bytes by (simp_all del: push_bit_0_id)

lemma bytes_48:
  "byte_at 0 x OR push_bit 8 (byte_at 8 x) OR push_bit 16 (byte_at 16 x) OR push_bit 24 (byte_at 24 x) OR
   push_bit 32 (byte_at 32 x) OR push_bit 40 (byte_at 40 x) = x AND mask 48"
proof (rule bit_word_eqI)
  fix i assume "i < LENGTH(64)"
  then have i: "i < 64" by simp
  have "bit (push_bit k (byte_at k x)) i \<longleftrightarrow> bit x i \<and> k \<le> i \<and> i < k + 8" for k
    using i by (auto simp: bit_push_bit_iff bit_byte_at)
  from this [of 0] this show "bit (byte_at 0 x OR push_bit 8 (byte_at 8 x) OR push_bit 16 (byte_at 16 x) OR push_bit 24 (byte_at 24 x) OR
   push_bit 32 (byte_at 32 x) OR push_bit 40 (byte_at 40 x)) i = bit (x AND mask 48) i"
    using i unfolding bit_or_iff bit_and_iff bit_mask_iff possible_bit_def
    by simp arith
qed

lemma x_of_encode_frame: "x_of_frame (encode_frame_from_x x tag) = x AND mask 48"
proof -
  have "x_of_frame f = byte_at 24 f OR push_bit 8 (byte_at 32 f) OR push_bit 16 (byte_at 0 f) OR
    push_bit 24 (byte_at 40 f) OR push_bit 32 (byte_at 16 f) OR push_bit 40 (byte_at 8 f)" for f
    by (simp only: x_of_frame_def byte_at_def drop_bit_0 id_apply)
  then show ?thesis by (simp only: frame_byte bytes_48)
qed

lemma frame_inj:
  "encode_frame_from_x x tag = encode_frame_from_x y tag' \<Longrightarrow> x AND mask 48 = y AND mask 48"
  by (metis x_of_encode_frame)


section \<open>Thread commands\<close>

definition thread_x :: "u64 \<Rightarrow> u8 \<Rightarrow> u64" where
  "thread_x base tid =
     base OR push_bit 34 24 OR push_bit 20 (ucast (tid AND 0xF)) OR push_bit 16 (ucast (drop_bit 4 tid AND 0xF))"

lemma thread_frame_x: "thread_frame_command base tid = encode_frame_from_x (thread_x base tid) 0x98"
  by (simp add: thread_frame_command_def thread_x_def Let_def or.assoc)

definition bases :: "u64 list" where "bases = [kBootBase, kResumeBase, kClearBase, kReadBase]"

lemma bit_nibble: "bit (v AND 0xF) i \<longleftrightarrow> bit v i \<and> i < 4" for v :: u8
proof -
  have "v AND mask 4 = v AND 0xF" by (simp add: mask_numeral)
  moreover have "bit (v AND mask 4) i \<longleftrightarrow> bit v i \<and> i < 4"
    by (auto simp: bit_and_iff bit_mask_iff dest: bit_imp_le_length)
  ultimately show ?thesis by simp
qed

lemma base_low: "base \<in> set bases \<Longrightarrow> i < 28 \<Longrightarrow> \<not> bit base i"
proof -
  assume "base \<in> set bases" "i < 28"
  moreover have "base = push_bit 28 (drop_bit 28 base)" if "base \<in> set bases"
    using that by (auto simp: bases_def kBootBase_def kResumeBase_def kClearBase_def kReadBase_def)
  ultimately show ?thesis by (metis bit_push_bit_iff leD)
qed

lemma bit_thread_x:
  assumes "base \<in> set bases" and "j < 4"
  shows "bit (thread_x base tid) (20 + j) = bit tid j" "bit (thread_x base tid) (16 + j) = bit tid (4 + j)"
proof -
  have "\<not> bit (push_bit 34 24 :: u64) k" if "k < 34" for k
    using that by (subst bit_push_bit_iff) simp
  then show "bit (thread_x base tid) (20 + j) = bit tid j" "bit (thread_x base tid) (16 + j) = bit tid (4 + j)"
    using assms base_low [OF assms(1), of "20 + j"] base_low [OF assms(1), of "16 + j"]
    unfolding thread_x_def bit_or_iff
    by (auto simp: bit_push_bit_iff bit_ucast_iff bit_nibble bit_drop_bit_eq possible_bit_def)
qed

lemma bit_thread_x_base:
  assumes "i = 39 \<or> i = 40"
  shows "bit (thread_x base tid) i = bit base i"
  using assms unfolding thread_x_def bit_or_iff
  by (auto simp: bit_push_bit_iff bit_ucast_iff bit_nibble possible_bit_def)

lemma mask_eq_bit:
  "x AND mask n = y AND mask n \<Longrightarrow> i < n \<Longrightarrow> bit x i = bit y i" for x y :: "'a::len word"
proof -
  assume "x AND mask n = y AND mask n" and "i < n"
  then have "bit (x AND mask n) i = bit (y AND mask n) i" by simp
  then show "bit x i = bit y i"
    using \<open>i < n\<close> by (auto simp: bit_and_iff bit_mask_iff dest: bit_imp_le_length)
qed

lemma thread_frame_inj:
  assumes "base \<in> set bases" "base' \<in> set bases"
    and "thread_frame_command base t = thread_frame_command base' t'"
  shows "base = base' \<and> t = t'"
proof
  have "thread_x base t AND mask 48 = thread_x base' t' AND mask 48"
    using assms(3) unfolding thread_frame_x by (rule frame_inj)
  then have eq: "bit (thread_x base t) i = bit (thread_x base' t') i" if "i < 48" for i
    using that by (rule mask_eq_bit)
  have "bit base 39 = bit base' 39" "bit base 40 = bit base' 40"
    using eq [of 39] eq [of 40] by (simp_all add: bit_thread_x_base)
  then show "base = base'"
    using assms(1,2)
    by (auto simp: bases_def kBootBase_def kResumeBase_def kClearBase_def kReadBase_def)
  show "t = t'"
  proof (rule bit_word_eqI)
    fix i assume i: "i < LENGTH(8)"
    show "bit t i = bit t' i"
    proof (cases "i < 4")
      case True
      then show ?thesis
        using eq [of "20 + i"] by (simp add: bit_thread_x(1) assms)
    next
      case False
      with i have "i = 4 + (i - 4)" "i - 4 < 4" by auto
      then show ?thesis
        using eq [of "16 + (i - 4)"] bit_thread_x(2) [OF assms(1), of "i - 4"] bit_thread_x(2) [OF assms(2), of "i - 4"] by simp
    qed
  qed
qed

lemma thread_cmd_cache_length: "length thread_cmd_cache = 4"
  by (simp add: thread_cmd_cache_def)

lemma thread_cmd_cache_map:
  "thread_cmd_cache = map (\<lambda>base. map (\<lambda>tid. thread_frame_command base (of_nat tid)) [0..<kNumTasklets]) bases"
  by (simp add: thread_cmd_cache_def bases_def)

lemma bases_nth:
  "length bases = 4" "k < 4 \<Longrightarrow> bases ! k \<in> set bases"
  "k < 4 \<Longrightarrow> k' < 4 \<Longrightarrow> bases ! k = bases ! k' \<longleftrightarrow> k = k'"
proof -
  show len: "length bases = 4" by (simp add: bases_def)
  then show "k < 4 \<Longrightarrow> bases ! k \<in> set bases" by simp
  have "distinct bases"
    by (simp add: bases_def kBootBase_def kResumeBase_def kClearBase_def kReadBase_def)
  with len show "k < 4 \<Longrightarrow> k' < 4 \<Longrightarrow> bases ! k = bases ! k' \<longleftrightarrow> k = k'"
    by (simp add: nth_eq_iff_index_eq)
qed

lemma thread_cmd_code_eq:
  "k < 4 \<Longrightarrow> t < kNumTasklets \<Longrightarrow> thread_cmd_code (k, t) = thread_frame_command (bases ! k) (of_nat t)"
  by (simp add: thread_cmd_code_def thread_cmd_cache_map bases_nth(1))

lemma set_thread_cmd_keys: "set thread_cmd_keys = {0..<4} \<times> {0..<kNumTasklets}"
  by (auto simp: thread_cmd_keys_def thread_cmd_cache_length)

interpretation thread_table: code_table thread_cmd_keys thread_cmd_code
proof (unfold_locales, rule inj_onI, clarify)
  fix k t k' t'
  assume "(k, t) \<in> set thread_cmd_keys" "(k', t') \<in> set thread_cmd_keys"
    and eq: "thread_cmd_code (k, t) = thread_cmd_code (k', t')"
  then have b: "k < 4" "t < 24" "k' < 4" "t' < 24" by (auto simp: set_thread_cmd_keys)
  with eq have "bases ! k = bases ! k' \<and> (of_nat t :: u8) = of_nat t'"
    by (intro thread_frame_inj bases_nth) (simp_all add: thread_cmd_code_eq)
  with b show "k = k' \<and> t = t'"
    by (auto simp: bases_nth word_of_nat_eq_iff take_bit_nat_eq_self)
qed

lemma decode_thread_frame:
  assumes "k < 4" and "t < kNumTasklets"
  shows "decode_thread_command (thread_frame_command (bases ! k) (of_nat t)) = Some (kind_of_nat k, of_nat t)"
  using thread_table.search_code [of "(k, t)"] assms
  by (simp add: decode_thread_command_def set_thread_cmd_keys thread_cmd_code_eq)

lemma decode_thread_sound:
  assumes "decode_thread_command cmd = Some (kd, tid)"
  obtains k t where "k < 4" and "t < kNumTasklets" and "kd = kind_of_nat k" and "tid = of_nat t"
    and "cmd = thread_frame_command (bases ! k) (of_nat t)"
proof -
  obtain k t where "find (\<lambda>kt. thread_cmd_code kt = cmd) thread_cmd_keys = Some (k, t)"
    and kt: "kd = kind_of_nat k" "tid = of_nat t"
    using assms by (auto simp: decode_thread_command_def)
  then have "(k, t) \<in> set thread_cmd_keys" "thread_cmd_code (k, t) = cmd"
    by (auto dest: thread_table.search_sound)
  then have "k < 4" "t < kNumTasklets" "cmd = thread_frame_command (bases ! k) (of_nat t)"
    by (auto simp: set_thread_cmd_keys thread_cmd_code_eq)
  with kt show thesis by (intro that)
qed

end
