(* ===== verification/Dpu_Control.thy ===== *)
theory Dpu_Control
  imports Pipeline Frames
begin

text \<open>
  One DPU: \<open>class UPMEMDPU\<close> (\<open>dpu/dpu.hh\<close>) and \<open>UPMEMDPU::control\<close> (\<open>dpu/dpu.cc\<close>), which executes one
  command of the control interface. The run-state read lets the running tasklets take turns for at
  most \<open>kProgressBudget\<close> rounds; every other command is a thread command or is refused.

  The decode cache belongs to the worker thread that runs \<open>control\<close> and is passed along; \<open>addr\<close> is the
  address of the \<open>IRAM\<close> member, which identifies it in the cache. \<open>control_ref\<close> is the same DPU without
  a cache, and the state machine of the DPU (\<open>dpu_step\<close>, \<open>dpu_reachable\<close>) is stated over it.
\<close>

section \<open>State\<close>

record upmem_dpu =
  dp_dma_engine :: dma_engine
  dp_iram :: iram
  dp_mram :: mram
  dp_pipeline :: pipeline
  dp_wram :: wram
  dp_last_control_result :: u32
  dp_last_control_generation :: u64

definition upmem_dpu_init :: upmem_dpu where
  "upmem_dpu_init = \<lparr>dp_dma_engine = dma_init, dp_iram = iram_init, dp_mram = mram_init,
     dp_pipeline = pipeline_init, dp_wram = wram_init,
     dp_last_control_result = 0, dp_last_control_generation = 0\<rparr>"

definition clear_last_control_result :: "upmem_dpu \<Rightarrow> upmem_dpu" where
  "clear_last_control_result d = d\<lparr>dp_last_control_result := 0xFFFFFFFF\<rparr>"

definition set_last_control_result :: "u32 \<Rightarrow> upmem_dpu \<Rightarrow> upmem_dpu" where
  "set_last_control_result v d =
     d\<lparr>dp_last_control_result := v, dp_last_control_generation := dp_last_control_generation d + 1\<rparr>"

definition upd_pipeline :: "(pipeline \<Rightarrow> pipeline) \<Rightarrow> upmem_dpu \<Rightarrow> upmem_dpu" where
  "upd_pipeline f d = d\<lparr>dp_pipeline := f (dp_pipeline d)\<rparr>"

definition dpu_core :: "upmem_dpu \<Rightarrow> core" where
  "dpu_core d = (dp_pipeline d, dp_wram d, dp_mram d)"

definition put_core :: "core \<Rightarrow> upmem_dpu \<Rightarrow> upmem_dpu" where
  "put_core c d = (case c of (p, w, m) \<Rightarrow> d\<lparr>dp_pipeline := p, dp_wram := w, dp_mram := m\<rparr>)"

section \<open>The run-state read\<close>

definition is_run_state_read_command :: "u64 \<Rightarrow> bool" where
  "is_run_state_read_command ci_cmd =
     (let opcode = ucast (drop_bit 56 ci_cmd AND 0xFF) :: u8;
          tag = ucast (drop_bit 48 ci_cmd AND 0xFF) :: u8;
          b0 = ucast (drop_bit 0 ci_cmd AND 0xFF) :: u8;
          b1 = ucast (drop_bit 8 ci_cmd AND 0xFF) :: u8
      in opcode = 0x33 \<and> tag = 0 \<and> b0 = 0x84 \<and> b1 = 0x02)"

definition kProgressBudget :: nat where "kProgressBudget = 8388608"

text \<open>The body of the inner loop: one tasklet takes its turn.\<close>

definition tasklet_turn :: "u64 \<Rightarrow> iram \<Rightarrow> nat \<Rightarrow> decode_cache \<times> core \<Rightarrow> decode_cache \<times> core" where
  "tasklet_turn addr ir tid s =
     (let (cache, c) = s;
          tasklet_bit = push_bit tid 1;
          run_bits_now = pl_run_bits (fst c);
          sleep_bits_now = pl_sleep_bits (fst c)
      in if run_bits_now AND tasklet_bit = 0 \<or> sleep_bits_now AND tasklet_bit \<noteq> 0 then s
         else
           let (keep_running, cache, c) = execute_once addr ir (int tid) cache c
           in if keep_running then (cache, c)
              else (cache, apfst (stop_tasklet tasklet_bit) c))"

definition turn_all :: "u64 \<Rightarrow> iram \<Rightarrow> decode_cache \<times> core \<Rightarrow> decode_cache \<times> core" where
  "turn_all addr ir s = fold (tasklet_turn addr ir) [0..<tasklet_count] s"

primrec progress :: "nat \<Rightarrow> u64 \<Rightarrow> iram \<Rightarrow> decode_cache \<times> core \<Rightarrow> decode_cache \<times> core" where
  "progress 0 addr ir s = s"
| "progress (Suc budget) addr ir s =
     (if pl_run_bits (fst (snd s)) = 0 then s else progress budget addr ir (turn_all addr ir s))"

definition run_state_read :: "u64 \<Rightarrow> decode_cache \<times> upmem_dpu \<Rightarrow> decode_cache \<times> upmem_dpu" where
  "run_state_read addr s =
     (let (cache, d) = s in
      if mram_addr (dp_mram d) = None \<or> mram_size (dp_mram d) = 0
      then (cache, set_last_control_result 0
              (upd_pipeline (\<lambda>p. p\<lparr>pl_run_bits := 0, pl_sleep_bits := 0, pl_replay_bits := 0\<rparr>) d))
      else
        let (cache, c) =
              (if tasklet_count > 0 then progress kProgressBudget addr (dp_iram d) (cache, dpu_core d)
               else (cache, dpu_core d));
            run_bits = pl_run_bits (fst c)
        in (cache, set_last_control_result (if run_bits \<noteq> 0 then 1 else 0) (put_core c d)))"

section \<open>Thread commands\<close>

definition boot_thread :: "u64 \<Rightarrow> u8 \<Rightarrow> pipeline \<Rightarrow> pipeline" where
  "boot_thread b thread_id p =
     (let p = wake b p in
      if unat thread_id < kNumTasklets
      then let p = reset_tasklet (unat thread_id) p
           in (if thread_id = 0 then p\<lparr>pl_atomic_bits := replicate 256 0\<rparr> else p)
      else p)"

definition thread_command :: "thread_cmd_kind \<Rightarrow> u8 \<Rightarrow> upmem_dpu \<Rightarrow> upmem_dpu" where
  "thread_command kind thread_id d =
     (let p = dp_pipeline d;
          b = (if thread_id < 64 then push_bit (unat thread_id) 1 else 0) :: u64;
          was_running = (pl_run_bits p AND b \<noteq> 0);
          p = (case kind of
                 Boot \<Rightarrow> boot_thread b thread_id p
               | Resume \<Rightarrow> p\<lparr>pl_run_bits := pl_run_bits p OR b, pl_sleep_bits := pl_sleep_bits p AND NOT b\<rparr>
               | ClearRun \<Rightarrow> stop_tasklet b p
               | ReadRun \<Rightarrow> p)
      in set_last_control_result (if was_running then 1 else 0) (d\<lparr>dp_pipeline := p\<rparr>))"

definition control :: "u64 \<Rightarrow> u64 \<Rightarrow> decode_cache \<times> upmem_dpu \<Rightarrow> decode_cache \<times> upmem_dpu" where
  "control addr ci_cmd s =
     (if is_run_state_read_command ci_cmd then run_state_read addr s
      else case decode_thread_command ci_cmd of
             None \<Rightarrow> apsnd (set_last_control_result 0) s
           | Some (kind, thread_id) \<Rightarrow> apsnd (thread_command kind thread_id) s)"

section \<open>The same without a cache\<close>

definition turn_ref :: "iram \<Rightarrow> nat \<Rightarrow> core \<Rightarrow> core" where
  "turn_ref ir tid c =
     (if pl_run_bits (fst c) AND push_bit tid 1 = 0 \<or> pl_sleep_bits (fst c) AND push_bit tid 1 \<noteq> 0 then c
      else if fst (execute_ref ir (int tid) c) then snd (execute_ref ir (int tid) c)
      else apfst (stop_tasklet (push_bit tid 1)) (snd (execute_ref ir (int tid) c)))"

definition round_ref :: "iram \<Rightarrow> core \<Rightarrow> core" where
  "round_ref ir c = fold (turn_ref ir) [0..<kNumTasklets] c"

primrec progress_ref :: "nat \<Rightarrow> iram \<Rightarrow> core \<Rightarrow> core" where
  "progress_ref 0 ir c = c"
| "progress_ref (Suc n) ir c = (if pl_run_bits (fst c) = 0 then c else progress_ref n ir (round_ref ir c))"

definition control_ref :: "u64 \<Rightarrow> upmem_dpu \<Rightarrow> upmem_dpu" where
  "control_ref ci_cmd d =
     (if is_run_state_read_command ci_cmd then
        (if mram_addr (dp_mram d) = None \<or> mram_size (dp_mram d) = 0
         then set_last_control_result 0
                (upd_pipeline (\<lambda>p. p\<lparr>pl_run_bits := 0, pl_sleep_bits := 0, pl_replay_bits := 0\<rparr>) d)
         else let c = progress_ref kProgressBudget (dp_iram d) (dpu_core d)
              in set_last_control_result (if pl_run_bits (fst c) \<noteq> 0 then 1 else 0) (put_core c d))
      else case decode_thread_command ci_cmd of
             None \<Rightarrow> set_last_control_result 0 d
           | Some (kind, thread_id) \<Rightarrow> thread_command kind thread_id d)"

lemma tasklet_turn_ref:
  assumes "cache_ok (fst s)" and "addr \<noteq> 0"
  shows "snd (tasklet_turn addr ir tid s) = turn_ref ir tid (snd s)"
    and "cache_ok (fst (tasklet_turn addr ir tid s))"
proof -
  obtain cache' where "execute_once addr ir (int tid) (fst s) (snd s) =
      (fst (execute_ref ir (int tid) (snd s)), cache', snd (execute_ref ir (int tid) (snd s)))"
    and "cache_ok cache'"
    using execute_once_ref [OF assms] by blast
  with assms show "snd (tasklet_turn addr ir tid s) = turn_ref ir tid (snd s)"
    "cache_ok (fst (tasklet_turn addr ir tid s))"
    by (auto simp: tasklet_turn_def turn_ref_def Let_def split_beta)
qed

lemma fold_turn_ref:
  assumes "addr \<noteq> 0"
  shows "cache_ok (fst s) \<Longrightarrow>
    snd (fold (tasklet_turn addr ir) ts s) = fold (turn_ref ir) ts (snd s) \<and>
    cache_ok (fst (fold (tasklet_turn addr ir) ts s))"
  by (induction ts arbitrary: s) (simp_all add: tasklet_turn_ref assms)

lemma progress_ref:
  assumes "addr \<noteq> 0"
  shows "cache_ok (fst s) \<Longrightarrow>
    snd (progress n addr ir s) = progress_ref n ir (snd s) \<and> cache_ok (fst (progress n addr ir s))"
proof (induction n arbitrary: s)
  case (Suc n)
  then show ?case
    using fold_turn_ref [OF assms, of s ir "[0..<kNumTasklets]"]
    by (simp add: turn_all_def round_ref_def tasklet_count_def)
qed simp

lemma control_refines:
  assumes "cache_ok (fst s)" and "addr \<noteq> 0"
  shows "snd (control addr cmd s) = control_ref cmd (snd s)" and "cache_ok (fst (control addr cmd s))"
  using progress_ref [OF assms(2), of "(fst s, dpu_core (snd s))" kProgressBudget "dp_iram (snd s)"] assms(1)
  by (auto simp: control_def control_ref_def run_state_read_def tasklet_count_def Let_def split_beta
      split: option.split)

section \<open>Well-formed DPUs\<close>

definition wf_dpu :: "upmem_dpu \<Rightarrow> bool" where
  "wf_dpu d \<longleftrightarrow> wf_iram (dp_iram d) \<and> wf_core (dpu_core d)"

lemma wf_dpu_init [wf_intros]: "wf_dpu upmem_dpu_init"
  by (simp add: wf_dpu_def upmem_dpu_init_def dpu_core_def wf_core_def wf_intros)

lemma wf_turn_ref [wf_intros]: "wf_core c \<Longrightarrow> wf_core (turn_ref ir tid c)"
proof -
  assume c: "wf_core c"
  have "wf_core (apfst (stop_tasklet (2 ^ tid)) c')" if "wf_core c'" for c'
    using that by (cases c') (simp add: wf_core_def wf_intros)
  then show ?thesis using c execute_ref_inv(1) [OF c] by (simp add: turn_ref_def)
qed

lemma wf_round_ref [wf_intros]: "wf_core c \<Longrightarrow> wf_core (round_ref ir c)"
proof -
  have "wf_core c \<Longrightarrow> wf_core (fold (turn_ref ir) ts c)" for ts
    by (induction ts arbitrary: c) (simp_all add: wf_turn_ref)
  then show "wf_core c \<Longrightarrow> ?thesis" by (simp add: round_ref_def)
qed

lemma wf_progress_ref [wf_intros]: "wf_core c \<Longrightarrow> wf_core (progress_ref n ir c)"
  by (induction n arbitrary: c) (simp_all add: wf_round_ref)

lemma wf_set_result [simp]: "wf_dpu (set_last_control_result v d) = wf_dpu d"
  by (simp add: set_last_control_result_def wf_dpu_def dpu_core_def)

lemma wf_put_core: "wf_dpu d \<Longrightarrow> wf_core c \<Longrightarrow> wf_dpu (put_core c d)"
  by (cases c) (simp add: wf_dpu_def put_core_def dpu_core_def)

lemma wf_boot_thread [wf_intros]:
  assumes "wf_pipeline p" and "unat tid < kNumTasklets"
  shows "wf_pipeline (boot_thread (2 ^ unat tid) tid p)"
proof -
  have "wf_pipeline (reset_tasklet (unat tid) (wake (2 ^ unat tid) p))"
    using assms by (intro wf_intros)
  moreover have "wf_pipeline (q\<lparr>pl_atomic_bits := replicate 256 0\<rparr>)" if "wf_pipeline q" for q
    using that by (simp add: wf_pipeline_def)
  ultimately show ?thesis
    using assms(2) by (cases "tid = 0") (simp_all add: boot_thread_def Let_def)
qed

lemma tasklet_small: "unat (tid :: u8) < kNumTasklets \<Longrightarrow> tid < 64"
  by (simp add: word_less_nat_alt)

lemma wf_thread_command [wf_intros]:
  assumes "wf_dpu d" and "unat tid < kNumTasklets"
  shows "wf_dpu (thread_command kd tid d)"
proof -
  have wf: "wf_pipeline (dp_pipeline d)" using assms(1) by (simp add: wf_dpu_def dpu_core_def wf_core_def)
  have "wf_pipeline (dp_pipeline d\<lparr>pl_run_bits := pl_run_bits (dp_pipeline d) OR 2 ^ unat tid,
      pl_sleep_bits := pl_sleep_bits (dp_pipeline d) AND NOT (2 ^ unat tid)\<rparr>)"
    using wf_run_bit [OF wf assms(2)] by (simp add: wf_pipeline_def)
  with wf assms tasklet_small [OF assms(2)] show ?thesis
    by (cases kd) (simp_all add: thread_command_def Let_def wf_dpu_def dpu_core_def wf_core_def
        wf_intros set_last_control_result_def)
qed

lemma decoded_tasklet: "decode_thread_command cmd = Some (kd, tid) \<Longrightarrow> unat tid < kNumTasklets"
  by (erule decode_thread_sound) (simp add: unat_of_nat)

lemma wf_control_ref [wf_intros]:
  assumes "wf_dpu d"
  shows "wf_dpu (control_ref cmd d)"
proof -
  have "wf_dpu (upd_pipeline (\<lambda>p. p\<lparr>pl_run_bits := 0, pl_sleep_bits := 0, pl_replay_bits := 0\<rparr>) d)"
    using assms by (simp add: wf_dpu_def dpu_core_def wf_core_def upd_pipeline_def wf_pipeline_def within_def)
  moreover have "wf_core (progress_ref n (dp_iram d) (dpu_core d))" for n
    using assms by (intro wf_progress_ref) (simp add: wf_dpu_def)
  ultimately show ?thesis
    using assms
    by (auto simp: control_ref_def Let_def wf_put_core split: option.split
        intro: wf_thread_command decoded_tasklet)
qed

section \<open>The DPU as a state machine\<close>

text \<open>What the control interface and the host copies do to a DPU.\<close>

inductive dpu_step :: "upmem_dpu \<Rightarrow> upmem_dpu \<Rightarrow> bool" where
  step_control: "dpu_step d (control_ref cmd d)"
| step_clear_result: "dpu_step d (clear_last_control_result d)"
| step_iram_write: "dpu_step d (d\<lparr>dp_iram := iram_write_word (dp_iram d) slot v\<rparr>)"
| step_wram_write: "dpu_step d (d\<lparr>dp_wram := wram_write_word (dp_wram d) a v\<rparr>)"
| step_dma_mux: "dpu_step d (d\<lparr>dp_dma_engine := e\<rparr>)"
| step_mram_allocate: "dpu_step d (d\<lparr>dp_mram := snd (mram_allocate ok (dp_mram d))\<rparr>)"
| step_host_copy: "n \<le> length bs \<Longrightarrow> dpu_step d (d\<lparr>dp_mram := snd (mram_host_copy_to (dp_mram d) off (Some bs) n)\<rparr>)"

inductive dpu_reachable :: "upmem_dpu \<Rightarrow> bool" where
  reach_init: "dpu_reachable upmem_dpu_init"
| reach_step: "dpu_reachable d \<Longrightarrow> dpu_step d d' \<Longrightarrow> dpu_reachable d'"

lemma wf_dpu_step: "dpu_step d d' \<Longrightarrow> wf_dpu d \<Longrightarrow> wf_dpu d'"
  by (induction rule: dpu_step.induct)
    (auto simp: wf_control_ref, auto simp: wf_dpu_def dpu_core_def wf_core_def clear_last_control_result_def wf_intros)

lemma wf_dpu_reachable: "dpu_reachable d \<Longrightarrow> wf_dpu d"
  by (induction rule: dpu_reachable.induct) (auto intro: wf_dpu_init wf_dpu_step)

section \<open>The progress loop\<close>

lemma progress_ref_iterate:
  "\<exists>k \<le> n. progress_ref n ir c = (round_ref ir ^^ k) c \<and>
     (pl_run_bits (fst (progress_ref n ir c)) = 0 \<or> k = n) \<and>
     (\<forall>j < k. pl_run_bits (fst ((round_ref ir ^^ j) c)) \<noteq> 0)"
proof (induction n arbitrary: c)
  case (Suc n)
  show ?case
  proof (cases "pl_run_bits (fst c) = 0")
    case True
    then show ?thesis by (intro exI [of _ 0]) simp
  next
    case False
    from Suc.IH [of "round_ref ir c"] obtain k where
      "k \<le> n" "progress_ref n ir (round_ref ir c) = (round_ref ir ^^ k) (round_ref ir c)"
      "pl_run_bits (fst (progress_ref n ir (round_ref ir c))) = 0 \<or> k = n"
      "\<forall>j < k. pl_run_bits (fst ((round_ref ir ^^ j) (round_ref ir c))) \<noteq> 0" by blast
    with False show ?thesis
      by (intro exI [of _ "Suc k"])
        (auto simp: funpow_Suc_right less_Suc_eq_0_disj simp del: funpow.simps(2))
  qed
qed simp

lemma round_idle: "pl_run_bits (fst c) = 0 \<Longrightarrow> round_ref ir c = c"
proof -
  have "pl_run_bits (fst c) = 0 \<Longrightarrow> fold (turn_ref ir) ts c = c" for ts
    by (induction ts) (simp_all add: turn_ref_def)
  then show "pl_run_bits (fst c) = 0 \<Longrightarrow> ?thesis" by (simp add: round_ref_def)
qed

end
