(* ===== verification/Ci_Frames.thy ===== *)
theory Ci_Frames
  imports Frames
begin

text \<open>
  The command and result words of the control interface (\<open>class CI\<close>, \<open>ci/ci.hh\<close>): how a host encodes
  the WRAM address of a read or a write, how the simulator finds the address again by trying every
  address, the fixed patterns of IRAM and DMA frames, and the envelopes of results.
\<close>

section \<open>WRAM addresses\<close>

definition wram_read_word_frame_for_addr :: "u32 \<Rightarrow> u64" where
  "wram_read_word_frame_for_addr address =
     (let x = 0x700344000000;
          a2 = push_bit 2 (ucast address) :: u64;
          x = x OR push_bit 34 (24 AND 31);
          x = x OR push_bit 20 (drop_bit 0 a2 AND 0xF);
          x = x OR push_bit 16 (drop_bit 4 a2 AND 0xF);
          x = x OR push_bit 15 (drop_bit 8 a2 AND 0x1);
          x = x OR push_bit 14 (drop_bit 9 a2 AND 0x1);
          x = x OR push_bit 13 (drop_bit 10 a2 AND 0x1);
          x = x OR push_bit 12 (drop_bit 11 a2 AND 0x1);
          x = x OR push_bit 0 (drop_bit 12 a2 AND 0xFFF)
      in encode_frame_from_x x 0x99)"

definition wram_write_addr_x :: "u32 \<Rightarrow> u64" where
  "wram_write_addr_x address =
     (let x = 0x7c0044000000;
          a2 = push_bit 2 (ucast address) :: u64;
          x = x OR push_bit 34 (24 AND 31);
          x = x OR push_bit 20 (drop_bit 0 a2 AND 0xF);
          x = x OR push_bit 39 (drop_bit 4 a2 AND 0x7);
          x = x OR push_bit 24 (drop_bit 7 a2 AND 0x1);
          x = x OR push_bit 15 (drop_bit 8 a2 AND 0x1);
          x = x OR push_bit 14 (drop_bit 9 a2 AND 0x1);
          x = x OR push_bit 13 (drop_bit 10 a2 AND 0x1);
          x = x OR push_bit 12 (drop_bit 11 a2 AND 0x1);
          x = x OR push_bit 0 (drop_bit 12 a2 AND 0xFFF)
      in x)"

definition wram_write_word_structure_for_addr :: "u32 \<Rightarrow> u64" where
  "wram_write_word_structure_for_addr address =
     (let x = wram_write_addr_x address
      in 0x1100000000000000 OR push_bit 0 0xFF OR push_bit 8 0x03 OR
         push_bit 16 (drop_bit (0 * 8) x AND 0xFF) OR
         push_bit 24 (drop_bit (1 * 8) x AND 0xFF) OR
         push_bit 32 (drop_bit (3 * 8) x AND 0xFF) OR push_bit 40 0x99)"

definition wram_write_word_frame_upper_for_addr :: "u32 \<Rightarrow> u64" where
  "wram_write_word_frame_upper_for_addr address =
     (let x = wram_write_addr_x address
      in 0x3300000000000000 OR push_bit 32 (drop_bit (2 * 8) x AND 0xFF) OR
         push_bit 40 (drop_bit (5 * 8) x AND 0xFF) OR push_bit 48 (drop_bit (4 * 8) x AND 0xFF))"

definition kWramWords :: nat where "kWramWords = kWRAMSizeBytes div 4"

definition decode_wram_write_word_structure :: "u64 \<Rightarrow> u16 option" where
  "decode_wram_write_word_structure cmd =
     map_option of_nat
       (find (\<lambda>candidate. wram_write_word_structure_for_addr (of_nat candidate) = cmd) [0..<kWramWords])"

definition decode_wram_write_word_frame_low5 :: "u64 \<Rightarrow> u8 option" where
  "decode_wram_write_word_frame_low5 cmd =
     (let key = cmd AND 0xFFFFFFFF00000000
      in map_option of_nat
           (find (\<lambda>candidate. wram_write_word_frame_upper_for_addr (of_nat candidate) = key) [0..<32]))"

definition decode_wram_read_word_frame :: "u64 \<Rightarrow> u32 option" where
  "decode_wram_read_word_frame cmd =
     map_option of_nat
       (find (\<lambda>candidate. wram_read_word_frame_for_addr (of_nat candidate) = cmd) [0..<kWramWords])"

section \<open>Other words\<close>

definition ci_b :: "u64 \<Rightarrow> nat \<Rightarrow> u8" where
  "ci_b x shift = ucast (drop_bit shift x AND 0xFF)"

definition decode_iram_write_structure :: "u64 \<Rightarrow> u16 option" where
  "decode_iram_write_structure cmd =
     (let op = ci_b cmd 56 in
      if op \<noteq> 0x11 then None
      else
        let b0 = ci_b cmd 0; b1 = ci_b cmd 8; b2 = ci_b cmd 16; b3 = ci_b cmd 24;
            b4 = ci_b cmd 32; b5 = ci_b cmd 40
        in if b0 \<noteq> 0xFF \<or> b1 \<noteq> 0x00 \<or> b3 \<noteq> 0x47 \<or> b4 \<noteq> 0x02 \<or> b5 \<noteq> 0x00 then None
           else Some (ucast b2))"

definition decode_dma_ctrl_write_frame :: "u64 \<Rightarrow> (u8 \<times> u8) option" where
  "decode_dma_ctrl_write_frame word =
     (let b0 = ci_b word 0; b1 = ci_b word 8; b2 = ci_b word 16; b3 = ci_b word 24 in
      if b0 AND 0xF0 \<noteq> 0x60 \<or> b1 AND 0xF0 \<noteq> 0x60 \<or> b2 AND 0xF0 \<noteq> 0x60 \<or> b3 AND 0xF0 \<noteq> 0x60 then None
      else Some (push_bit 4 (b0 AND 0x0F) OR (b1 AND 0x0F), push_bit 4 (b2 AND 0x0F) OR (b3 AND 0x0F)))"

definition ready_result :: "bool \<Rightarrow> u32 \<Rightarrow> u64" where
  "ready_result expected_color_set payload =
     (let color = (if expected_color_set then 0xFF else 0x00) :: u8
      in 0x000000FF00000000 OR push_bit 48 (ucast color) OR ucast payload)"

definition nop_style_result :: "bool \<Rightarrow> u32 \<Rightarrow> u64" where
  "nop_style_result expected_color_set payload =
     (let color = (if expected_color_set then 0xFF else 0x00) :: u8
      in 0xFF0000FF00000000 OR push_bit 48 (ucast color) OR ucast (payload AND 0xFF))"

definition is_software_reset_cmd :: "u64 \<Rightarrow> bool" where
  "is_software_reset_cmd word \<longleftrightarrow> word AND 0xFFFF00000000FF00 = 0x01FF00000000FF00"

definition kChipNumDpus :: nat where "kChipNumDpus = 8"
definition kRankNumBanks :: nat where "kRankNumBanks = 8"
definition kCiNumGroupSlots :: nat where "kCiNumGroupSlots = 8"

lemmas chip_sizes [simp] = kChipNumDpus_def kRankNumBanks_def kCiNumGroupSlots_def

text \<open>\<open>first_selected_dpu\<close>: the loop returns the lowest selected index, or \<open>kChipNumDpus\<close>.\<close>

definition first_selected_dpu :: "u8 \<Rightarrow> nat" where
  "first_selected_dpu m =
     (case find (\<lambda>dpu. m AND push_bit dpu 1 \<noteq> 0) [0..<kChipNumDpus] of None \<Rightarrow> kChipNumDpus | Some d \<Rightarrow> d)"

section \<open>Where the address bits are\<close>

text \<open>A field is \<open>((a >> q) & mask) << p\<close>; the words above are unions of fields and constants.\<close>

lemma field_masks:
  "(0xF :: u64) = mask 4" "(1 :: u64) = mask 1" "(7 :: u64) = mask 3" "(0xFFF :: u64) = mask 12"
  by (simp_all add: mask_numeral)

lemma bit_field:
  "bit (push_bit p (drop_bit q a AND mask n)) i \<longleftrightarrow> p \<le> i \<and> i < p + n \<and> i < 64 \<and> bit a (q + (i - p))"
  for a :: u64
  unfolding bit_push_bit_iff bit_and_iff bit_mask_iff bit_drop_bit_eq by (auto simp: possible_bit_def)

definition wram_read_x :: "u32 \<Rightarrow> u64" where
  "wram_read_x address =
     (let a2 = push_bit 2 (ucast address)
      in 0x700344000000 OR push_bit 34 24 OR push_bit 20 (drop_bit 0 a2 AND mask 4) OR
         push_bit 16 (drop_bit 4 a2 AND mask 4) OR push_bit 15 (drop_bit 8 a2 AND mask 1) OR
         push_bit 14 (drop_bit 9 a2 AND mask 1) OR push_bit 13 (drop_bit 10 a2 AND mask 1) OR
         push_bit 12 (drop_bit 11 a2 AND mask 1) OR push_bit 0 (drop_bit 12 a2 AND mask 12))"

lemma wram_read_frame_x: "wram_read_word_frame_for_addr a = encode_frame_from_x (wram_read_x a) 0x99"
  by (simp add: wram_read_word_frame_for_addr_def wram_read_x_def Let_def or.assoc mask_numeral)

lemma wram_write_addr_fields:
  "wram_write_addr_x address =
     (let a2 = push_bit 2 (ucast address)
      in 0x7c0044000000 OR push_bit 34 24 OR push_bit 20 (drop_bit 0 a2 AND mask 4) OR
         push_bit 39 (drop_bit 4 a2 AND mask 3) OR push_bit 24 (drop_bit 7 a2 AND mask 1) OR
         push_bit 15 (drop_bit 8 a2 AND mask 1) OR push_bit 14 (drop_bit 9 a2 AND mask 1) OR
         push_bit 13 (drop_bit 10 a2 AND mask 1) OR push_bit 12 (drop_bit 11 a2 AND mask 1) OR
         push_bit 0 (drop_bit 12 a2 AND mask 12))"
  by (simp add: wram_write_addr_x_def Let_def or.assoc mask_numeral)

lemma wram_read_x_bits:
  "bit (wram_read_x a) 22 = bit a 0" "bit (wram_read_x a) 23 = bit a 1"
  "bit (wram_read_x a) 16 = bit a 2" "bit (wram_read_x a) 17 = bit a 3"
  "bit (wram_read_x a) 18 = bit a 4" "bit (wram_read_x a) 19 = bit a 5"
  "bit (wram_read_x a) 15 = bit a 6" "bit (wram_read_x a) 14 = bit a 7"
  "bit (wram_read_x a) 13 = bit a 8" "bit (wram_read_x a) 12 = bit a 9"
  "bit (wram_read_x a) 0 = bit a 10" "bit (wram_read_x a) (Suc 0) = bit a 11"
  "bit (wram_read_x a) 2 = bit a 12" "bit (wram_read_x a) 3 = bit a 13"
  unfolding wram_read_x_def Let_def bit_or_iff bit_field
  by (simp_all add: bit_push_bit_iff bit_ucast_iff)

lemma wram_write_x_bits:
  "bit (wram_write_addr_x a) 22 = bit a 0" "bit (wram_write_addr_x a) 23 = bit a 1"
  "bit (wram_write_addr_x a) 39 = bit a 2" "bit (wram_write_addr_x a) 40 = bit a 3"
  "bit (wram_write_addr_x a) 41 = bit a 4" "bit (wram_write_addr_x a) 24 = bit a 5"
  "bit (wram_write_addr_x a) 15 = bit a 6" "bit (wram_write_addr_x a) 14 = bit a 7"
  "bit (wram_write_addr_x a) 13 = bit a 8" "bit (wram_write_addr_x a) 12 = bit a 9"
  "bit (wram_write_addr_x a) 0 = bit a 10" "bit (wram_write_addr_x a) (Suc 0) = bit a 11"
  "bit (wram_write_addr_x a) 2 = bit a 12" "bit (wram_write_addr_x a) 3 = bit a 13"
  unfolding wram_write_addr_fields Let_def bit_or_iff bit_field
  by (simp_all add: bit_push_bit_iff bit_ucast_iff)

lemma small_word_eqI:
  assumes "m < 2 ^ k" "n < 2 ^ k" "k \<le> 32"
    and "list_all (\<lambda>i. bit (of_nat m :: u32) i = bit (of_nat n :: u32) i) [0..<k]"
  shows "m = n"
proof -
  have "bit m i = bit n i" for i
  proof (cases "i < k")
    case True
    then show ?thesis using assms(3,4) by (auto simp: list_all_iff bit_simps)
  next
    case False
    then show ?thesis
      using assms(1,2) by (metis bit_take_bit_iff take_bit_nat_eq_self)
  qed
  then show ?thesis by (simp add: bit_eq_iff)
qed

lemma upto_14: "[0..<14] = [0, 1, 2, 3, 4, 5, 6, 7, 8, 9, 10, 11, 12, 13::nat]"
  by code_simp

interpretation wram_read_table: code_table "[0..<kWramWords]" "\<lambda>c. wram_read_word_frame_for_addr (of_nat c)"
proof (unfold_locales, rule inj_onI)
  fix m n
  assume "m \<in> set [0..<kWramWords]" "n \<in> set [0..<kWramWords]"
    and eq: "wram_read_word_frame_for_addr (of_nat m) = wram_read_word_frame_for_addr (of_nat n)"
  then have less: "m < 2 ^ 14" "n < 2 ^ 14" by (simp_all add: kWramWords_def)
  have "wram_read_x (of_nat m) AND mask 48 = wram_read_x (of_nat n) AND mask 48"
    using eq unfolding wram_read_frame_x by (rule frame_inj)
  from mask_eq_bit [OF this] have *: "bit (wram_read_x (of_nat m)) i = bit (wram_read_x (of_nat n)) i"
    if "i < 48" for i using that .
  show "m = n"
    using * [of 22] * [of 23] * [of 16] * [of 17] * [of 18] * [of 19] * [of 15] * [of 14] * [of 13]
      * [of 12] * [of 0] * [of 1] * [of 2] * [of 3]
    by (intro small_word_eqI [OF less]) (simp_all add: upto_14 wram_read_x_bits)
qed

lemma decode_wram_read_frame:
  assumes "word_in_bounds a"
  shows "decode_wram_read_word_frame (wram_read_word_frame_for_addr a) = Some a"
proof -
  have "unat a \<in> set [0..<kWramWords]" using assms by (simp add: word_in_bounds_iff kWramWords_def)
  from wram_read_table.search_code [OF this] show ?thesis
    by (simp add: decode_wram_read_word_frame_def)
qed

section \<open>Writes: a structure and a frame\<close>

text \<open>The structure carries the address bits from 5 on, the frame the low five.\<close>

lemma structure_as_bytes:
  "wram_write_word_structure_for_addr a =
     push_bit 56 (byte_at 0 0x11) OR push_bit 0 (byte_at 0 0xFF) OR push_bit 8 (byte_at 0 0x03) OR
     push_bit 16 (byte_at 0 (wram_write_addr_x a)) OR push_bit 24 (byte_at 8 (wram_write_addr_x a)) OR
     push_bit 32 (byte_at 24 (wram_write_addr_x a)) OR push_bit 40 (byte_at 0 0x99)"
proof -
  have "(0x1100000000000000 :: u64) = push_bit 56 (byte_at 0 0x11)" "(0xFF :: u64) = byte_at 0 0xFF"
    "(3 :: u64) = byte_at 0 3" "(0x99 :: u64) = byte_at 0 0x99"
    by (simp_all add: byte_at_def)
  then show ?thesis
    unfolding wram_write_word_structure_for_addr_def Let_def by (simp add: byte_at_def)
qed

lemma upper_as_bytes:
  "wram_write_word_frame_upper_for_addr a =
     push_bit 56 (byte_at 0 0x33) OR push_bit 32 (byte_at 16 (wram_write_addr_x a)) OR
     push_bit 40 (byte_at 40 (wram_write_addr_x a)) OR push_bit 48 (byte_at 32 (wram_write_addr_x a))"
proof -
  have "(0x3300000000000000 :: u64) = push_bit 56 (byte_at 0 0x33)" by (simp add: byte_at_def)
  then show ?thesis
    unfolding wram_write_word_frame_upper_for_addr_def Let_def by (simp add: byte_at_def)
qed

lemma structure_bytes_iff:
  "wram_write_word_structure_for_addr a = wram_write_word_structure_for_addr b \<longleftrightarrow>
     byte_at 0 (wram_write_addr_x a) = byte_at 0 (wram_write_addr_x b) \<and>
     byte_at 8 (wram_write_addr_x a) = byte_at 8 (wram_write_addr_x b) \<and>
     byte_at 24 (wram_write_addr_x a) = byte_at 24 (wram_write_addr_x b)" (is "?l \<longleftrightarrow> ?r")
proof
  have "byte_at 16 (wram_write_word_structure_for_addr a) = byte_at 0 (wram_write_addr_x a)"
    "byte_at 24 (wram_write_word_structure_for_addr a) = byte_at 8 (wram_write_addr_x a)"
    "byte_at 32 (wram_write_word_structure_for_addr a) = byte_at 24 (wram_write_addr_x a)" for a
    unfolding structure_as_bytes by (simp_all del: push_bit_0_id)
  then show "?l \<Longrightarrow> ?r" by metis
  show "?r \<Longrightarrow> ?l" by (simp add: structure_as_bytes)
qed

lemma upper_bytes_iff:
  "wram_write_word_frame_upper_for_addr a = wram_write_word_frame_upper_for_addr b \<longleftrightarrow>
     byte_at 16 (wram_write_addr_x a) = byte_at 16 (wram_write_addr_x b) \<and>
     byte_at 32 (wram_write_addr_x a) = byte_at 32 (wram_write_addr_x b) \<and>
     byte_at 40 (wram_write_addr_x a) = byte_at 40 (wram_write_addr_x b)" (is "?l \<longleftrightarrow> ?r")
proof
  have "byte_at 32 (wram_write_word_frame_upper_for_addr a) = byte_at 16 (wram_write_addr_x a)"
    "byte_at 48 (wram_write_word_frame_upper_for_addr a) = byte_at 32 (wram_write_addr_x a)"
    "byte_at 40 (wram_write_word_frame_upper_for_addr a) = byte_at 40 (wram_write_addr_x a)" for a
    unfolding upper_as_bytes by (simp_all del: push_bit_0_id)
  then show "?l \<Longrightarrow> ?r" by metis
  show "?r \<Longrightarrow> ?l" by (simp add: upper_as_bytes)
qed

lemma byte_at_eq_iff: "byte_at n x = byte_at n y \<longleftrightarrow> (\<forall>i < 8. bit x (n + i) = bit y (n + i))"
proof
  show "byte_at n x = byte_at n y \<Longrightarrow> \<forall>i < 8. bit x (n + i) = bit y (n + i)" by (metis bit_byte_at)
  show "\<forall>i < 8. bit x (n + i) = bit y (n + i) \<Longrightarrow> byte_at n x = byte_at n y"
    by (rule bit_word_eqI) (auto simp: bit_byte_at)
qed

lemma all_less_8: "(\<forall>i < 8. P i) \<longleftrightarrow> P 0 \<and> P 1 \<and> P 2 \<and> P 3 \<and> P 4 \<and> P 5 \<and> P 6 \<and> P (7::nat)"
proof -
  have "{..<8::nat} = {0, 1, 2, 3, 4, 5, 6, 7}" by code_simp
  then show ?thesis by (metis (full_types) insert_iff empty_iff lessThan_iff)
qed

lemma bit_small: "a < 16384 \<Longrightarrow> 14 \<le> i \<Longrightarrow> \<not> bit (a :: nat) i"
  using bit_take_bit_iff [of 14 a i] by (simp add: take_bit_nat_eq_self)

lemma bit_of_small: "bit (of_nat a :: u32) i \<longleftrightarrow> i < 32 \<and> bit a i"
  by (simp add: bit_simps)

text \<open>Numbers below \<open>2 ^ 14\<close> agree from bit 5 on, or below bit 5, when the bits 5 to 13, or 0 to 4, do.\<close>

lemma pow32: "(2 :: nat) ^ 5 = 32"
  by simp

lemma high_bits_iff:
  fixes a b :: nat
  assumes "a < 16384" "b < 16384"
  shows "a div 32 = b div 32 \<longleftrightarrow> list_all (\<lambda>i. bit a i = bit b i) [5, 6, 7, 8, 9, 10, 11, 12, 13]"
proof -
  have d: "bit (n div 32) i = bit n (5 + i)" for n i :: nat
    using drop_bit_eq_div [of 5 n] bit_drop_bit_eq [of 5 n] by (metis comp_apply pow32)
  have "a div 32 = b div 32 \<longleftrightarrow> (\<forall>i. bit a (5 + i) = bit b (5 + i))"
    using bit_eqI [of "a div 32" "b div 32"] d by metis
  also have "\<dots> \<longleftrightarrow> (\<forall>j. 5 \<le> j \<longrightarrow> bit a j = bit b j)"
    by (metis le_add1 le_iff_add)
  also have "\<dots> \<longleftrightarrow> (\<forall>j \<in> set [5..<14]. bit a j = bit b j)"
  proof (rule iffI; intro ballI allI impI)
    fix j :: nat
    assume eq: "\<forall>j \<in> set [5..<14]. bit a j = bit b j" and "5 \<le> j"
    show "bit a j = bit b j"
    proof (cases "j < 14")
      case True
      with \<open>5 \<le> j\<close> have "j \<in> set [5..<14]" by (simp only: set_upt atLeastLessThan_iff)
      with eq show ?thesis by blast
    qed (use bit_small [OF assms(1)] bit_small [OF assms(2)] in \<open>simp add: not_less\<close>)
  qed auto
  also have "[5..<14] = [5, 6, 7, 8, 9, 10, 11, 12, 13::nat]" by code_simp
  finally show ?thesis by (simp only: list_all_iff)
qed

lemma low_bits_iff:
  fixes a b :: nat
  shows "a mod 32 = b mod 32 \<longleftrightarrow> list_all (\<lambda>i. bit a i = bit b i) [0, 1, 2, 3, 4]"
proof -
  have d: "bit (n mod 32) i \<longleftrightarrow> i < 5 \<and> bit n i" for n i :: nat
    using take_bit_eq_mod [of 5 n] bit_take_bit_iff [of 5 n i] pow32 by metis
  have "a mod 32 = b mod 32 \<longleftrightarrow> (\<forall>j < 5. bit a j = bit b j)"
    using bit_eqI [of "a mod 32" "b mod 32"] d by metis
  also have "\<dots> \<longleftrightarrow> (\<forall>j \<in> set [0..<5]. bit a j = bit b j)" by auto
  also have "[0..<5] = [0, 1, 2, 3, 4::nat]" by code_simp
  finally show ?thesis by (simp only: list_all_iff)
qed

lemma structure_eq_iff:
  assumes "a < 16384" "b < 16384"
  shows "wram_write_word_structure_for_addr (of_nat a) = wram_write_word_structure_for_addr (of_nat b) \<longleftrightarrow>
    a div 32 = b div 32"
  unfolding structure_bytes_iff byte_at_eq_iff all_less_8 high_bits_iff [OF assms]
  unfolding wram_write_addr_fields Let_def bit_or_iff bit_field
  using bit_small [OF assms(1)] bit_small [OF assms(2)]
  by (simp add: bit_push_bit_iff bit_ucast_iff bit_of_small) blast

lemma upper_eq_iff:
  "wram_write_word_frame_upper_for_addr (of_nat a) = wram_write_word_frame_upper_for_addr (of_nat b) \<longleftrightarrow>
    a mod 32 = b mod 32"
  unfolding upper_bytes_iff byte_at_eq_iff all_less_8 low_bits_iff
  unfolding wram_write_addr_fields Let_def bit_or_iff bit_field
  by (simp add: bit_push_bit_iff bit_ucast_iff bit_of_small)

text \<open>The search for a structure returns the first of the 32 addresses that share it.\<close>

lemma find_upt_Some:
  assumes "m < n" and "P m" and "\<And>j. j < m \<Longrightarrow> \<not> P j"
  shows "find P [0..<n] = Some m"
  using assms by (auto simp: find_Some_iff intro!: exI [of _ m])

lemma decode_wram_write_structure:
  assumes "a < kWramWords"
  shows "decode_wram_write_word_structure (wram_write_word_structure_for_addr (of_nat a)) =
    Some (of_nat (32 * (a div 32)))"
proof -
  let ?P = "\<lambda>c. wram_write_word_structure_for_addr (of_nat c) = wram_write_word_structure_for_addr (of_nat a)"
  have P: "?P c \<longleftrightarrow> c div 32 = a div 32" if "c < kWramWords" for c
    using that assms by (intro structure_eq_iff) (simp_all add: kWramWords_def)
  have m: "32 * (a div 32) \<le> a" by simp
  have "find ?P [0..<kWramWords] = Some (32 * (a div 32))"
  proof (rule find_upt_Some)
    show "32 * (a div 32) < kWramWords" using assms m by linarith
    from P [OF this] show "?P (32 * (a div 32))" by (rule iffD2) simp
    fix j assume j: "j < 32 * (a div 32)"
    then have "j div 32 \<noteq> a div 32"
      by (metis less_mult_imp_div_less mult.commute nat_neq_iff)
    then show "\<not> ?P j" using P j m assms by simp
  qed
  then show ?thesis by (simp add: decode_wram_write_word_structure_def)
qed

interpretation wram_low5_table: code_table "[0..<32]" "\<lambda>c. wram_write_word_frame_upper_for_addr (of_nat c)"
  by unfold_locales (auto simp: inj_on_def upper_eq_iff)

lemma upper_key:
  "(wram_write_word_frame_upper_for_addr a OR ucast (data :: u32)) AND 0xFFFFFFFF00000000 =
     wram_write_word_frame_upper_for_addr a"
proof (rule bit_word_eqI)
  fix i
  have mask: "(0xFFFFFFFF00000000 :: u64) = push_bit 32 (mask 32)" by (simp add: mask_numeral)
  have "bit (wram_write_word_frame_upper_for_addr a) i \<Longrightarrow> 32 \<le> i"
    unfolding upper_as_bytes bit_or_iff bit_push_bit_iff by auto
  moreover have "bit (ucast data :: u64) i \<Longrightarrow> i < 32"
    by (auto simp: bit_ucast_iff dest: bit_imp_le_length)
  moreover assume "i < LENGTH(64)"
  ultimately show "bit ((wram_write_word_frame_upper_for_addr a OR ucast data) AND 0xFFFFFFFF00000000) i =
      bit (wram_write_word_frame_upper_for_addr a) i"
    unfolding mask bit_and_iff bit_or_iff bit_push_bit_iff bit_mask_iff by auto
qed

lemma decode_wram_write_low5:
  "decode_wram_write_word_frame_low5 (wram_write_word_frame_upper_for_addr (of_nat a) OR ucast (data :: u32)) =
     Some (of_nat (a mod 32))"
proof -
  have "wram_write_word_frame_upper_for_addr (of_nat a) = wram_write_word_frame_upper_for_addr (of_nat (a mod 32))"
    by (simp add: upper_eq_iff)
  then show ?thesis
    using wram_low5_table.search_code [of "a mod 32"]
    by (simp add: decode_wram_write_word_frame_low5_def upper_key)
qed

end
