(* ===== verification/Ci_State.thy ===== *)
theory Ci_State
  imports Ci_Frames
begin

text \<open>
  The protocol state of one control interface: \<open>class CIState\<close> and \<open>class CI\<close> (\<open>ci/ci.hh\<close>, \<open>ci/ci.cc\<close>).
  Every operation of the source runs under the object's lock, or is one atomic access, and is one
  function here. The arrays of the source are lists of their fixed lengths. Region pointers are the
  offsets under which the device holds the regions.
\<close>

section \<open>State\<close>

record dispatch_pending =
  dq_expected_set :: bool
  dq_dispatch_generation_before :: u64
  dq_active :: bool

text \<open>\<open>ControlPending\<close> and \<open>RunStatePending\<close> have the same members.\<close>

record control_pending =
  cq_expected_set :: bool
  cq_dispatch_generation_before :: u64
  cq_selected_mask :: u8
  cq_execution_mask :: u8
  cq_payload :: u8
  cq_control_generations :: "u64 list"
  cq_active :: bool

definition no_dispatch_pending :: dispatch_pending where
  "no_dispatch_pending = \<lparr>dq_expected_set = False, dq_dispatch_generation_before = 0, dq_active = False\<rparr>"

definition no_control_pending :: control_pending where
  "no_control_pending = \<lparr>cq_expected_set = False, cq_dispatch_generation_before = 0, cq_selected_mask = 0,
     cq_execution_mask = 0, cq_payload = 0, cq_control_generations = replicate kChipNumDpus 0,
     cq_active = False\<rparr>"

record ci_state =
  cs_committed :: u64
  cs_updated :: u64
  cs_pc_mode :: u8
  cs_stack_up_mask :: u8
  cs_selected_mask :: u8
  cs_enabled_mask :: u8
  cs_group_mask :: "u8 list"
  cs_dma_ctrl_read_register :: u8
  cs_structure :: u64
  cs_iram_write_structure_valid :: bool
  cs_iram_write_addr_hi :: u16
  cs_wram_write_structure_valid :: bool
  cs_wram_write_addr :: u16
  cs_dispatched_payload :: u32
  cs_dispatched_needs_mask_fuzz :: bool
  cs_dispatched_generation :: u64
  cs_dispatch_pending :: dispatch_pending
  cs_control_pending :: control_pending
  cs_run_state_pending :: control_pending

definition ci_state_init :: ci_state where
  "ci_state_init = \<lparr>cs_committed = 0, cs_updated = 0, cs_pc_mode = 0x04, cs_stack_up_mask = 0,
     cs_selected_mask = 0, cs_enabled_mask = 0xFF, cs_group_mask = replicate kCiNumGroupSlots 0,
     cs_dma_ctrl_read_register = 0, cs_structure = 0, cs_iram_write_structure_valid = False,
     cs_iram_write_addr_hi = 0, cs_wram_write_structure_valid = False, cs_wram_write_addr = 0,
     cs_dispatched_payload = 0, cs_dispatched_needs_mask_fuzz = False, cs_dispatched_generation = 0,
     cs_dispatch_pending = no_dispatch_pending, cs_control_pending = no_control_pending,
     cs_run_state_pending = no_control_pending\<rparr>"

section \<open>Operations\<close>

definition reset_protocol_state :: "ci_state \<Rightarrow> ci_state" where
  "reset_protocol_state s = s\<lparr>cs_pc_mode := 0x04, cs_stack_up_mask := 0, cs_selected_mask := 0xFF,
     cs_group_mask := (replicate kCiNumGroupSlots 0)[0 := 0xFF], cs_dma_ctrl_read_register := 0,
     cs_structure := 0, cs_iram_write_structure_valid := False, cs_iram_write_addr_hi := 0,
     cs_wram_write_structure_valid := False, cs_wram_write_addr := 0, cs_dispatched_payload := 0,
     cs_dispatched_needs_mask_fuzz := False, cs_dispatch_pending := no_dispatch_pending,
     cs_control_pending := no_control_pending, cs_run_state_pending := no_control_pending\<rparr>"

definition set_committed :: "u64 \<Rightarrow> ci_state \<Rightarrow> ci_state" where
  "set_committed word s = s\<lparr>cs_committed := word\<rparr>"

definition store_updated :: "u64 \<Rightarrow> ci_state \<Rightarrow> ci_state" where
  "store_updated word s = s\<lparr>cs_updated := word\<rparr>"

definition set_selected_mask :: "u8 \<Rightarrow> ci_state \<Rightarrow> ci_state" where
  "set_selected_mask m s = s\<lparr>cs_selected_mask := m\<rparr>"

definition set_enabled_mask :: "u8 \<Rightarrow> ci_state \<Rightarrow> ci_state" where
  "set_enabled_mask m s = s\<lparr>cs_enabled_mask := m\<rparr>"

definition get_group_mask :: "ci_state \<Rightarrow> nat \<Rightarrow> u8" where
  "get_group_mask s group_slot_nr =
     (if group_slot_nr \<ge> length (cs_group_mask s) then 0 else cs_group_mask s ! group_slot_nr)"

definition set_group_mask :: "nat \<Rightarrow> u8 \<Rightarrow> ci_state \<Rightarrow> ci_state" where
  "set_group_mask group_slot_nr m s =
     (if group_slot_nr \<ge> length (cs_group_mask s) then s
      else s\<lparr>cs_group_mask := (cs_group_mask s)[group_slot_nr := m]\<rparr>)"

definition set_pc_mode :: "u8 \<Rightarrow> ci_state \<Rightarrow> ci_state" where
  "set_pc_mode mode s = s\<lparr>cs_pc_mode := mode\<rparr>"

definition exchange_stack_up_mask :: "u8 \<Rightarrow> ci_state \<Rightarrow> u8 \<times> ci_state" where
  "exchange_stack_up_mask value s = (cs_stack_up_mask s, s\<lparr>cs_stack_up_mask := value\<rparr>)"

definition set_dma_ctrl_read_register :: "u8 \<Rightarrow> ci_state \<Rightarrow> ci_state" where
  "set_dma_ctrl_read_register value s = s\<lparr>cs_dma_ctrl_read_register := value\<rparr>"

definition set_structure :: "u64 \<Rightarrow> ci_state \<Rightarrow> ci_state" where
  "set_structure value s = s\<lparr>cs_structure := value\<rparr>"

definition set_iram_write_structure_valid :: "bool \<Rightarrow> ci_state \<Rightarrow> ci_state" where
  "set_iram_write_structure_valid valid s = s\<lparr>cs_iram_write_structure_valid := valid\<rparr>"

definition set_iram_write_addr_hi :: "u16 \<Rightarrow> ci_state \<Rightarrow> ci_state" where
  "set_iram_write_addr_hi addr_hi s = s\<lparr>cs_iram_write_addr_hi := addr_hi\<rparr>"

definition set_wram_write_structure_valid :: "bool \<Rightarrow> ci_state \<Rightarrow> ci_state" where
  "set_wram_write_structure_valid valid s = s\<lparr>cs_wram_write_structure_valid := valid\<rparr>"

definition set_wram_write_addr :: "u16 \<Rightarrow> ci_state \<Rightarrow> ci_state" where
  "set_wram_write_addr addr s = s\<lparr>cs_wram_write_addr := addr\<rparr>"

definition set_dispatched_result :: "u32 \<Rightarrow> bool \<Rightarrow> ci_state \<Rightarrow> ci_state" where
  "set_dispatched_result payload needs_mask_fuzz s =
     s\<lparr>cs_dispatched_payload := payload, cs_dispatched_needs_mask_fuzz := needs_mask_fuzz,
       cs_dispatched_generation := cs_dispatched_generation s + 1\<rparr>"

text \<open>The getters return the members together with the flag \<open>active\<close>; \<open>None\<close> is the answer false, in
  which case no caller uses the members.\<close>

definition set_dispatch_pending :: "bool \<Rightarrow> u64 \<Rightarrow> ci_state \<Rightarrow> ci_state" where
  "set_dispatch_pending expected_set before s =
     s\<lparr>cs_dispatch_pending := \<lparr>dq_expected_set = expected_set, dq_dispatch_generation_before = before,
                               dq_active = True\<rparr>\<rparr>"

definition get_dispatch_pending :: "ci_state \<Rightarrow> dispatch_pending option" where
  "get_dispatch_pending s = (if dq_active (cs_dispatch_pending s) then Some (cs_dispatch_pending s) else None)"

definition clear_dispatch_pending :: "ci_state \<Rightarrow> ci_state" where
  "clear_dispatch_pending s = s\<lparr>cs_dispatch_pending := no_dispatch_pending\<rparr>"

definition set_control_pending :: "bool \<Rightarrow> u64 \<Rightarrow> u8 \<Rightarrow> u8 \<Rightarrow> u64 list \<Rightarrow> u8 \<Rightarrow> ci_state \<Rightarrow> ci_state" where
  "set_control_pending expected_set before selected_mask execution_mask control_generations payload s =
     s\<lparr>cs_control_pending := \<lparr>cq_expected_set = expected_set, cq_dispatch_generation_before = before,
         cq_selected_mask = selected_mask, cq_execution_mask = execution_mask, cq_payload = payload,
         cq_control_generations = control_generations, cq_active = True\<rparr>\<rparr>"

definition get_control_pending :: "ci_state \<Rightarrow> control_pending option" where
  "get_control_pending s = (if cq_active (cs_control_pending s) then Some (cs_control_pending s) else None)"

definition clear_control_pending :: "ci_state \<Rightarrow> ci_state" where
  "clear_control_pending s = s\<lparr>cs_control_pending := no_control_pending\<rparr>"

definition set_run_state_pending :: "bool \<Rightarrow> u64 \<Rightarrow> u8 \<Rightarrow> u8 \<Rightarrow> u64 list \<Rightarrow> u8 \<Rightarrow> ci_state \<Rightarrow> ci_state" where
  "set_run_state_pending expected_set before selected_mask execution_mask control_generations payload s =
     s\<lparr>cs_run_state_pending := \<lparr>cq_expected_set = expected_set, cq_dispatch_generation_before = before,
         cq_selected_mask = selected_mask, cq_execution_mask = execution_mask, cq_payload = payload,
         cq_control_generations = control_generations, cq_active = True\<rparr>\<rparr>"

definition get_run_state_pending :: "ci_state \<Rightarrow> control_pending option" where
  "get_run_state_pending s = (if cq_active (cs_run_state_pending s) then Some (cs_run_state_pending s) else None)"

definition clear_run_state_pending :: "ci_state \<Rightarrow> ci_state" where
  "clear_run_state_pending s = s\<lparr>cs_run_state_pending := no_control_pending\<rparr>"

definition get_pending_generation :: "control_pending \<Rightarrow> nat \<Rightarrow> u64" where
  "get_pending_generation q dpu_idx =
     (if dpu_idx \<ge> kChipNumDpus then 0 else cq_control_generations q ! dpu_idx)"

section \<open>The control interface\<close>

record ci =
  ci_st :: ci_state
  ci_region_write :: "nat option"
  ci_region_read :: "nat option"

definition ci_init :: ci where
  "ci_init = \<lparr>ci_st = ci_state_init, ci_region_write = None, ci_region_read = None\<rparr>"

definition upd_ci_state :: "(ci_state \<Rightarrow> ci_state) \<Rightarrow> ci \<Rightarrow> ci" where
  "upd_ci_state f c = c\<lparr>ci_st := f (ci_st c)\<rparr>"

section \<open>Well-formed states\<close>

definition wf_ci_state :: "ci_state \<Rightarrow> bool" where
  "wf_ci_state s \<longleftrightarrow> length (cs_group_mask s) = kCiNumGroupSlots \<and>
     length (cq_control_generations (cs_control_pending s)) = kChipNumDpus \<and>
     length (cq_control_generations (cs_run_state_pending s)) = kChipNumDpus"

lemma wf_ci_state_init [wf_intros]: "wf_ci_state ci_state_init"
  by (simp add: wf_ci_state_def ci_state_init_def no_control_pending_def)

lemmas ci_state_setters =
  reset_protocol_state_def set_committed_def store_updated_def set_selected_mask_def set_enabled_mask_def
  set_group_mask_def set_pc_mode_def exchange_stack_up_mask_def set_dma_ctrl_read_register_def
  set_structure_def set_iram_write_structure_valid_def set_iram_write_addr_hi_def
  set_wram_write_structure_valid_def set_wram_write_addr_def set_dispatched_result_def
  set_dispatch_pending_def clear_dispatch_pending_def clear_control_pending_def clear_run_state_pending_def
  set_control_pending_def set_run_state_pending_def

lemma wf_ci_state_ops [wf_intros]:
  assumes "wf_ci_state s"
  shows "wf_ci_state (reset_protocol_state s)" and "wf_ci_state (set_committed w s)"
    and "wf_ci_state (store_updated w s)" and "wf_ci_state (set_selected_mask m s)"
    and "wf_ci_state (set_enabled_mask m s)" and "wf_ci_state (set_group_mask g m s)"
    and "wf_ci_state (set_pc_mode m s)" and "wf_ci_state (snd (exchange_stack_up_mask m s))"
    and "wf_ci_state (set_dma_ctrl_read_register m s)" and "wf_ci_state (set_structure w s)"
    and "wf_ci_state (set_iram_write_structure_valid b s)" and "wf_ci_state (set_iram_write_addr_hi a s)"
    and "wf_ci_state (set_wram_write_structure_valid b s)" and "wf_ci_state (set_wram_write_addr a s)"
    and "wf_ci_state (set_dispatched_result p b s)" and "wf_ci_state (set_dispatch_pending b w s)"
    and "wf_ci_state (clear_dispatch_pending s)" and "wf_ci_state (clear_control_pending s)"
    and "wf_ci_state (clear_run_state_pending s)"
    and "length gs = kChipNumDpus \<Longrightarrow> wf_ci_state (set_control_pending b w m e gs q s)"
    and "length gs = kChipNumDpus \<Longrightarrow> wf_ci_state (set_run_state_pending b w m e gs q s)"
  using assms by (simp_all add: wf_ci_state_def ci_state_setters no_control_pending_def)

lemma get_set_group_mask [simp]:
  "wf_ci_state s \<Longrightarrow> g < kCiNumGroupSlots \<Longrightarrow>
   get_group_mask (set_group_mask g m s) g' = (if g' = g then m else get_group_mask s g')"
  by (simp add: wf_ci_state_def get_group_mask_def set_group_mask_def)

lemma get_set_pending [simp]:
  "get_run_state_pending (set_run_state_pending b w m e gs p s) =
     Some \<lparr>cq_expected_set = b, cq_dispatch_generation_before = w, cq_selected_mask = m, cq_execution_mask = e,
           cq_payload = p, cq_control_generations = gs, cq_active = True\<rparr>"
  "get_run_state_pending (clear_run_state_pending s) = None"
  "get_control_pending (set_control_pending b w m e gs p s) =
     Some \<lparr>cq_expected_set = b, cq_dispatch_generation_before = w, cq_selected_mask = m, cq_execution_mask = e,
           cq_payload = p, cq_control_generations = gs, cq_active = True\<rparr>"
  "get_control_pending (clear_control_pending s) = None"
  "get_dispatch_pending (set_dispatch_pending b w s) =
     Some \<lparr>dq_expected_set = b, dq_dispatch_generation_before = w, dq_active = True\<rparr>"
  "get_dispatch_pending (clear_dispatch_pending s) = None"
  by (simp_all add: get_run_state_pending_def get_control_pending_def get_dispatch_pending_def ci_state_setters
      no_control_pending_def no_dispatch_pending_def)

end
