(* ===== verification/Device.thy ===== *)
theory Device
  imports Prelude "HOL-Library.AList"
begin

text \<open>
  The device object of the core library (\<open>src/internal.hh\<close>, \<open>include/hostpimsim.h\<close>) and the management
  of its regions (\<open>src/hostpimsim.cc\<close>). A device is a block of memory with a map from offsets to
  regions, flags that block changes of this map, and the state of the handler pool.

  Region pointers are the offsets under which the device's map holds the regions; \<open>None\<close> is the null
  pointer. Sizes and offsets are natural numbers: every sum of them in the source follows a bounds test
  against the size of the device or of a region. A handler is its function together with its
  \<open>user_data\<close>, a value of the type parameter \<open>'h\<close>. What the operating system and the allocator decide
  (the page size, whether an object can be allocated) are arguments.
\<close>

section \<open>Data\<close>

datatype pim_region_type = PIM_REGION_RAM | PIM_REGION_CTRL_MMIO | PIM_REGION_CTRL_RW

datatype pim_error =
    PIM_SUCCESS | PIM_ERR_INVALID_ARG | PIM_ERR_NO_MEMORY | PIM_ERR_SHM_OPEN | PIM_ERR_NOT_FOUND
  | PIM_ERR_ALREADY_EXISTS | PIM_ERR_OUT_OF_BOUNDS | PIM_ERR_SIGNAL | PIM_ERR_BUSY
  | PIM_ERR_NOT_SUPPORTED | PIM_ERR_WOULD_DEADLOCK | PIM_ERR_MMAP | PIM_ERR_MSYNC | PIM_ERR_MPROTECT
  | PIM_ERR_MLOCK | PIM_ERR_MUNLOCK

record 'h dpu_handler_entry =
  he_handler :: 'h
  he_last_value :: u64
  he_write_seq :: u32
  he_register_size :: nat
  he_depth :: nat

record 'h pim_region =
  rg_offset :: nat
  rg_size :: nat
  rg_page_size :: u64
  rg_type :: pim_region_type
  rg_handlers :: "(nat \<times> 'h dpu_handler_entry) list"
  rg_nested_handlers :: "((nat \<times> nat) \<times> 'h dpu_handler_entry) list"
  rg_handler_table_mutating :: bool
  rg_active_dispatch_ops :: u32
  rg_futex_cnt_commited :: u32
  rg_futex_cnt_finished :: u32

record 'h pool_task =
  tk_region :: "nat option"
  tk_offset :: nat
  tk_depth :: nat
  tk_value :: u64
  tk_handler :: 'h

text \<open>\<open>dv_handler_pool\<close> and \<open>dv_monitor_threads\<close> are the numbers of threads in the two vectors;
  \<open>dv_in_flight\<close> holds the tasks that workers have taken from the queue and not finished.\<close>

record 'h pim_device =
  dv_size :: nat
  dv_mem :: "nat \<Rightarrow> u8"
  dv_teardown_in_progress :: bool
  dv_backing_ownership :: bool
  dv_regions :: "(nat \<times> 'h pim_region) list"
  dv_monitor_threads :: nat
  dv_monitor_running :: bool
  dv_sleep_duration_us :: u32
  dv_active_poll_cnt_limit :: u32
  dv_num_monitors :: u32
  dv_wakeup_spin_divisor :: u32
  dv_handler_pool :: nat
  dv_max_active_dpus :: u32
  dv_task_queue :: "'h pool_task list"
  dv_in_flight :: "'h pool_task list"
  dv_pool_running :: bool
  dv_futex_cnt_commited :: u32
  dv_futex_cnt_finished :: u32
  dv_sigsegv_enabled :: bool
  dv_sigsegv_transition_in_progress :: bool

definition kDefaultSleepDurationUs :: u32 where "kDefaultSleepDurationUs = 100"
definition kDefaultPollLimit :: u32 where "kDefaultPollLimit = 20000"
definition kDefaultWakeupSpinDivisor :: u32 where "kDefaultWakeupSpinDivisor = 4"

text \<open>A new object, as \<open>pim_device_setup_common\<close> leaves it; \<open>init\<close> asks for zeroed memory.\<close>

definition pim_device_setup_common :: "(nat \<Rightarrow> u8) \<Rightarrow> nat \<Rightarrow> bool \<Rightarrow> bool \<Rightarrow> bool \<Rightarrow> 'h pim_device option" where
  "pim_device_setup_common mem sz init backing_ownership alloc_ok =
     (let mem = (if init then (\<lambda>i. if i < sz then 0 else mem i) else mem) in
      if \<not> alloc_ok then None
      else Some \<lparr>dv_size = sz, dv_mem = mem, dv_teardown_in_progress = False,
        dv_backing_ownership = backing_ownership, dv_regions = [], dv_monitor_threads = 0,
        dv_monitor_running = False, dv_sleep_duration_us = kDefaultSleepDurationUs,
        dv_active_poll_cnt_limit = kDefaultPollLimit, dv_num_monitors = 0,
        dv_wakeup_spin_divisor = kDefaultWakeupSpinDivisor, dv_handler_pool = 0, dv_max_active_dpus = 0,
        dv_task_queue = [], dv_in_flight = [], dv_pool_running = False, dv_futex_cnt_commited = 0,
        dv_futex_cnt_finished = 0, dv_sigsegv_enabled = False,
        dv_sigsegv_transition_in_progress = False\<rparr>)"

text \<open>\<open>ptr\<close> is \<open>None\<close> for the null pointer, otherwise the bytes it points to.\<close>

definition pim_device_init :: "(nat \<Rightarrow> u8) option \<Rightarrow> nat \<Rightarrow> bool \<Rightarrow> 'h pim_device option" where
  "pim_device_init ptr sz alloc_ok =
     (case ptr of
        None \<Rightarrow> None
      | Some mem \<Rightarrow> if sz = 0 then None else pim_device_setup_common mem sz False False alloc_ok)"

section \<open>Bounds, alignment and register values\<close>

definition check_bounds :: "'h pim_region \<Rightarrow> nat \<Rightarrow> nat \<Rightarrow> bool" where
  "check_bounds region offset access_size \<longleftrightarrow>
     offset \<le> rg_size region \<and> access_size \<le> rg_size region - offset"

definition is_aligned :: "nat \<Rightarrow> nat \<Rightarrow> bool" where
  "is_aligned offset alignment \<longleftrightarrow> alignment = 0 \<or> offset mod alignment = 0"

definition pim_is_supported_register_size :: "nat \<Rightarrow> bool" where
  "pim_is_supported_register_size n \<longleftrightarrow> n = 1 \<or> n = 2 \<or> n = 4 \<or> n = 8"

definition pim_register_value_mask :: "nat \<Rightarrow> u64" where
  "pim_register_value_mask n =
     (if \<not> pim_is_supported_register_size n then 0
      else if n = 8 then 0xFFFFFFFFFFFFFFFF
      else push_bit (n * 8) 1 - 1)"

definition mem_get :: "(nat \<Rightarrow> u8) \<Rightarrow> nat \<Rightarrow> nat \<Rightarrow> u8 list" where
  "mem_get mem a n = map (\<lambda>i. mem (a + i)) [0..<n]"

definition mem_put :: "nat \<Rightarrow> u8 list \<Rightarrow> (nat \<Rightarrow> u8) \<Rightarrow> nat \<Rightarrow> u8" where
  "mem_put a bs mem = (\<lambda>i. if a \<le> i \<and> i < a + length bs then bs ! (i - a) else mem i)"

text \<open>The loop of \<open>pim_load_register_u64\<close>: byte \<open>i\<close> is shifted by \<open>8 i\<close> and joined.\<close>

definition pim_load_register_u64 :: "(nat \<Rightarrow> u8) \<Rightarrow> nat \<Rightarrow> nat \<Rightarrow> u64 option" where
  "pim_load_register_u64 mem a n =
     (if \<not> pim_is_supported_register_size n then None
      else Some (foldl (\<lambda>loaded i. loaded OR push_bit (i * 8) (ucast (mem (a + i)))) 0 [0..<n]))"

section \<open>Regions\<close>

definition is_topology_mutation_blocked :: "'h pim_device \<Rightarrow> bool" where
  "is_topology_mutation_blocked dev \<longleftrightarrow>
     dv_teardown_in_progress dev \<or> dv_monitor_running dev \<or> dv_sigsegv_enabled dev \<or>
     dv_sigsegv_transition_in_progress dev"

definition pim_device_get_region :: "'h pim_device \<Rightarrow> nat \<Rightarrow> 'h pim_region option" where
  "pim_device_get_region dev offset = map_of (dv_regions dev) offset"

text \<open>\<open>std::map::lower_bound\<close> splits the entries, which the map keeps in the order of their offsets.\<close>

definition below :: "nat \<Rightarrow> (nat \<times> 'a) list \<Rightarrow> (nat \<times> 'a) list" where
  "below offset rs = takeWhile (\<lambda>e. fst e < offset) rs"

definition from_lower_bound :: "nat \<Rightarrow> (nat \<times> 'a) list \<Rightarrow> (nat \<times> 'a) list" where
  "from_lower_bound offset rs = dropWhile (\<lambda>e. fst e < offset) rs"

definition overlaps_neighbour :: "nat \<Rightarrow> nat \<Rightarrow> (nat \<times> 'h pim_region) list \<Rightarrow> bool" where
  "overlaps_neighbour offset sz rs \<longleftrightarrow>
     (case from_lower_bound offset rs of
        [] \<Rightarrow> False
      | e # _ \<Rightarrow> offset + sz > rg_offset (snd e)) \<or>
     (case rev (below offset rs) of
        [] \<Rightarrow> False
      | e # _ \<Rightarrow> rg_offset (snd e) + rg_size (snd e) > offset)"

definition new_region :: "nat \<Rightarrow> nat \<Rightarrow> u64 \<Rightarrow> pim_region_type \<Rightarrow> 'h pim_region" where
  "new_region offset sz page_size type =
     \<lparr>rg_offset = offset, rg_size = sz, rg_page_size = page_size, rg_type = type, rg_handlers = [],
      rg_nested_handlers = [], rg_handler_table_mutating = False, rg_active_dispatch_ops = 0,
      rg_futex_cnt_commited = 0, rg_futex_cnt_finished = 0\<rparr>"

text \<open>\<open>page_size\<close> is what \<open>sysconf\<close> returned, converted to \<open>size_t\<close>.\<close>

definition pim_region_create ::
  "u64 \<Rightarrow> bool \<Rightarrow> nat \<Rightarrow> nat \<Rightarrow> pim_region_type \<Rightarrow> 'h pim_device \<Rightarrow> nat option \<times> 'h pim_device" where
  "pim_region_create page_size alloc_ok offset sz type dev =
     (if sz = 0 then (None, dev)
      else if is_topology_mutation_blocked dev then (None, dev)
      else if offset > dv_size dev \<or> sz > dv_size dev - offset then (None, dev)
      else if page_size = 0xFFFFFFFF then (None, dev)
      else if overlaps_neighbour offset sz (dv_regions dev) then (None, dev)
      else if \<not> alloc_ok then (None, dev)
      else if map_of (dv_regions dev) offset \<noteq> None then (None, dev)
      else (Some offset,
            dev\<lparr>dv_regions := below offset (dv_regions dev) @
                  (offset, new_region offset sz page_size type) # from_lower_bound offset (dv_regions dev)\<rparr>))"

definition pim_region_free :: "nat option \<Rightarrow> 'h pim_device \<Rightarrow> pim_error \<times> 'h pim_device" where
  "pim_region_free region dev =
     (case region of
        None \<Rightarrow> (PIM_ERR_INVALID_ARG, dev)
      | Some off \<Rightarrow>
          if is_topology_mutation_blocked dev then (PIM_ERR_BUSY, dev)
          else case map_of (dv_regions dev) off of
                 None \<Rightarrow> (PIM_ERR_NOT_FOUND, dev)
               | Some _ \<Rightarrow> (PIM_SUCCESS, dev\<lparr>dv_regions := AList.delete off (dv_regions dev)\<rparr>))"

definition pim_device_get_ram_size :: "'h pim_device \<Rightarrow> nat" where
  "pim_device_get_ram_size dev =
     foldl (\<lambda>total e. if rg_type (snd e) = PIM_REGION_RAM then total + rg_size (snd e) else total) 0
       (dv_regions dev)"

definition pim_device_get_next_region :: "'h pim_device \<Rightarrow> nat option \<Rightarrow> nat option" where
  "pim_device_get_next_region dev region =
     (case region of
        None \<Rightarrow> (case dv_regions dev of [] \<Rightarrow> None | e # _ \<Rightarrow> Some (fst e))
      | Some off \<Rightarrow>
          (case dropWhile (\<lambda>e. fst e \<noteq> off) (dv_regions dev) of
             [] \<Rightarrow> None
           | [_] \<Rightarrow> None
           | _ # e # _ \<Rightarrow> Some (fst e)))"

definition pim_device_begin_teardown :: "'h pim_device \<Rightarrow> pim_error \<times> 'h pim_device" where
  "pim_device_begin_teardown dev =
     (if dv_teardown_in_progress dev then (PIM_ERR_BUSY, dev)
      else (PIM_SUCCESS, dev\<lparr>dv_teardown_in_progress := True\<rparr>))"

section \<open>Well-formed region maps\<close>

text \<open>The regions lie in the device, are not empty and are pairwise disjoint in the order of the map.\<close>

definition before :: "nat \<times> 'h pim_region \<Rightarrow> nat \<times> 'h pim_region \<Rightarrow> bool" where
  "before d e \<longleftrightarrow> fst d + rg_size (snd d) \<le> fst e"

definition region_ok :: "nat \<Rightarrow> nat \<times> 'h pim_region \<Rightarrow> bool" where
  "region_ok sz e \<longleftrightarrow> rg_offset (snd e) = fst e \<and> 0 < rg_size (snd e) \<and> fst e + rg_size (snd e) \<le> sz"

definition wf_regions :: "'h pim_device \<Rightarrow> bool" where
  "wf_regions dev \<longleftrightarrow> sorted_wrt before (dv_regions dev) \<and> list_all (region_ok (dv_size dev)) (dv_regions dev)"

definition disjoint_from :: "nat \<Rightarrow> nat \<Rightarrow> nat \<times> 'h pim_region \<Rightarrow> bool" where
  "disjoint_from offset sz e \<longleftrightarrow> offset + sz \<le> fst e \<or> fst e + rg_size (snd e) \<le> offset"

text \<open>Comparing the new range with its two neighbours only is comparing it with every region.\<close>

lemma below_from_lower_bound: "below offset rs @ from_lower_bound offset rs = rs"
  by (simp add: below_def from_lower_bound_def)

lemma in_below: "e \<in> set (below offset rs) \<Longrightarrow> fst e < offset"
  unfolding below_def by (rule set_takeWhileD [THEN conjunct2])

lemma in_from_lower_bound:
  assumes "sorted_wrt before rs" and "e \<in> set (from_lower_bound offset rs)"
  shows "offset \<le> fst e"
  using assms
proof (induction rs)
  case (Cons d rs)
  then show ?case by (auto simp: from_lower_bound_def before_def split: if_splits)
qed (simp add: from_lower_bound_def)

lemma overlaps_neighbour_iff:
  assumes "sorted_wrt before rs" and "list_all (region_ok n) rs" and "0 < sz"
  shows "overlaps_neighbour offset sz rs \<longleftrightarrow> \<not> list_all (disjoint_from offset sz) rs"
proof -
  let ?lo = "below offset rs" and ?hi = "from_lower_bound offset rs"
  have rs: "rs = ?lo @ ?hi" by (simp add: below_from_lower_bound)
  have ok: "region_ok n e" if "e \<in> set rs" for e using assms(2) that by (simp add: list_all_iff)
  have mem: "set ?lo \<subseteq> set rs" "set ?hi \<subseteq> set rs" by (metis rs set_append Un_upper1, metis rs set_append Un_upper2)
  have sorted: "sorted_wrt before ?lo" "sorted_wrt before ?hi"
    using assms(1) rs by (metis sorted_wrt_append)+
  have hi: "(case ?hi of [] \<Rightarrow> False | e # _ \<Rightarrow> offset + sz > rg_offset (snd e)) \<longleftrightarrow>
      \<not> list_all (disjoint_from offset sz) ?hi"
  proof (cases ?hi)
    case (Cons e es)
    have "disjoint_from offset sz d" if "offset + sz \<le> fst e" "d \<in> set es" for d
      using sorted(2) that unfolding Cons disjoint_from_def by (auto simp: before_def)
    moreover have "offset \<le> fst e" using in_from_lower_bound [OF assms(1), of e offset] Cons by simp
    moreover have "rg_offset (snd e) = fst e" "0 < rg_size (snd e)"
      using ok [of e] mem(2) Cons by (auto simp: region_ok_def)
    ultimately show ?thesis
      unfolding Cons by (cases "offset + sz \<le> fst e") (simp_all add: list_all_iff disjoint_from_def [of _ _ e])
  qed simp
  have lo: "(case rev ?lo of [] \<Rightarrow> False | e # _ \<Rightarrow> rg_offset (snd e) + rg_size (snd e) > offset) \<longleftrightarrow>
      \<not> list_all (disjoint_from offset sz) ?lo"
  proof (cases ?lo rule: rev_cases)
    case (snoc es e)
    have e: "fst e < offset" "rg_offset (snd e) = fst e"
      using in_below [of e offset rs] ok [of e] mem(1) snoc by (auto simp: region_ok_def)
    have "disjoint_from offset sz d" if "fst e + rg_size (snd e) \<le> offset" "d \<in> set es" for d
    proof -
      have "fst d + rg_size (snd d) \<le> fst e"
        using sorted(1) that(2) unfolding snoc by (auto simp: sorted_wrt_append before_def)
      with that(1) show ?thesis by (simp add: disjoint_from_def)
    qed
    with e show ?thesis
      unfolding snoc
      by (cases "fst e + rg_size (snd e) \<le> offset") (simp_all add: list_all_iff disjoint_from_def [of _ _ e])
  qed simp
  show ?thesis
    unfolding overlaps_neighbour_def hi lo by (metis rs list_all_append)
qed

lemma wf_regions_init [wf_intros]: "pim_device_init ptr sz ok = Some dev \<Longrightarrow> wf_regions dev"
  by (auto simp: pim_device_init_def pim_device_setup_common_def wf_regions_def Let_def
      split: option.splits if_splits)

lemma region_create_iff:
  assumes "wf_regions dev"
  shows "fst (pim_region_create ps ok offset sz type dev) \<noteq> None \<longleftrightarrow>
    0 < sz \<and> offset + sz \<le> dv_size dev \<and> \<not> is_topology_mutation_blocked dev \<and> ps \<noteq> 0xFFFFFFFF \<and> ok \<and>
    list_all (disjoint_from offset sz) (dv_regions dev)"
proof (cases "0 < sz \<and> list_all (disjoint_from offset sz) (dv_regions dev)")
  case True
  have "map_of (dv_regions dev) offset = None"
  proof (rule ccontr)
    assume "map_of (dv_regions dev) offset \<noteq> None"
    then obtain r where "(offset, r) \<in> set (dv_regions dev)" by (auto dest: map_of_SomeD)
    then have "disjoint_from offset sz (offset, r)" "region_ok (dv_size dev) (offset, r)"
      using True assms by (auto simp: wf_regions_def list_all_iff)
    with True show False by (simp add: disjoint_from_def region_ok_def)
  qed
  with True assms show ?thesis
    by (auto simp: pim_region_create_def overlaps_neighbour_iff wf_regions_def)
next
  case False
  with assms show ?thesis by (auto simp: pim_region_create_def overlaps_neighbour_iff wf_regions_def)
qed

lemma wf_regions_create [wf_intros]:
  assumes "wf_regions dev"
  shows "wf_regions (snd (pim_region_create ps ok offset sz type dev))"
proof (cases "fst (pim_region_create ps ok offset sz type dev) = None")
  case True
  then have "snd (pim_region_create ps ok offset sz type dev) = dev"
    by (auto simp: pim_region_create_def split: if_splits)
  with assms show ?thesis by simp
next
  case False
  let ?rs = "dv_regions dev" and ?e = "(offset, new_region offset sz ps type) :: nat \<times> 'a pim_region"
  let ?lo = "below offset ?rs" and ?hi = "from_lower_bound offset ?rs"
  have d: "0 < sz" "offset + sz \<le> dv_size dev" "list_all (disjoint_from offset sz) ?rs"
    using False region_create_iff [OF assms, of ps ok offset sz type] by auto
  have rs: "?rs = ?lo @ ?hi" by (simp add: below_from_lower_bound)
  have sorted: "sorted_wrt before (?lo @ ?hi)" and all: "list_all (region_ok (dv_size dev)) (?lo @ ?hi)"
    using assms by (simp_all add: wf_regions_def below_from_lower_bound)
  have dis: "disjoint_from offset sz x" if "x \<in> set ?lo \<union> set ?hi" for x
    using d(3) that by (subst (asm) rs) (auto simp: list_all_iff)
  have "before x ?e" if "x \<in> set ?lo" for x
    using dis [of x] in_below [OF that] that by (auto simp: before_def disjoint_from_def)
  moreover have "before ?e x" if "x \<in> set ?hi" for x
  proof -
    have "region_ok (dv_size dev) x" using all that by (simp add: list_all_iff)
    moreover have "offset \<le> fst x" using in_from_lower_bound [OF _ that] assms by (simp add: wf_regions_def)
    ultimately show ?thesis
      using dis [of x] that by (auto simp: before_def disjoint_from_def new_region_def region_ok_def)
  qed
  ultimately have "sorted_wrt before (?lo @ ?e # ?hi)"
    using sorted by (auto simp: sorted_wrt_append)
  moreover have "region_ok (dv_size dev) ?e" using d by (simp add: region_ok_def new_region_def)
  moreover have "snd (pim_region_create ps ok offset sz type dev) = dev\<lparr>dv_regions := ?lo @ ?e # ?hi\<rparr>"
    using False by (auto simp: pim_region_create_def split: if_splits)
  ultimately show ?thesis using all by (simp add: wf_regions_def)
qed

lemma wf_regions_free [wf_intros]: "wf_regions dev \<Longrightarrow> wf_regions (snd (pim_region_free r dev))"
  by (auto simp: pim_region_free_def wf_regions_def sorted_wrt_filter list_all_iff AList.delete_eq
      split: option.split)

lemma get_region_created:
  assumes "pim_region_create ps ok offset sz type dev = (Some r, dev')"
  shows "r = offset" and "pim_device_get_region dev' offset = Some (new_region offset sz ps type)"
proof -
  show "r = offset" using assms by (auto simp: pim_region_create_def split: if_splits)
  have "map_of (below offset (dv_regions dev)) offset = None"
    by (auto simp: map_of_eq_None_iff dest: in_below)
  then show "pim_device_get_region dev' offset = Some (new_region offset sz ps type)"
    using assms by (auto simp: pim_region_create_def pim_device_get_region_def map_add_def split: if_splits)
qed

lemma get_region_create_other:
  assumes "k \<noteq> offset"
  shows "pim_device_get_region (snd (pim_region_create ps ok offset sz type dev)) k = pim_device_get_region dev k"
proof -
  have "map_of (dv_regions dev) k = map_of (below offset (dv_regions dev) @ from_lower_bound offset (dv_regions dev)) k"
    by (simp add: below_from_lower_bound)
  then show ?thesis
    using assms by (auto simp: pim_region_create_def pim_device_get_region_def map_add_def split: option.splits)
qed

end
