(* ===== verification/Pool.thy ===== *)
theory Pool
  imports Device "HOL-Library.Multiset"
begin

text \<open>
  The pool of worker threads that runs handlers (\<open>src/pool.cc\<close>, \<open>pool_submit\<close> of \<open>src/internal.hh\<close>
  and the barriers of \<open>src/hostpimsim.cc\<close>).

  Each critical section of the source is one function on the device; \<open>pool_step\<close> interleaves them
  freely, which is what any number of threads can do, since each section runs under \<open>pool_mutex\<close> or is
  one atomic operation. Finishing a task is one atomic increment for the device and one for the region;
  they are one step here, since no reader compares one with the other. The wake-ups (condition variable and futex) only delay a thread and have no
  state. A handler is run by the parameter \<open>run\<close>, which maps a task and the system before it to the
  system after it; the system is the device and the state \<open>'s\<close> of the code that registered the
  handlers.

  The counters of submitted and of finished tasks are 32-bit words that wrap. \<open>pool_inv\<close> relates their
  difference to the tasks that are queued or being run.
\<close>

type_synonym ('h, 's) sys = "'h pim_device \<times> 's"
type_synonym ('h, 's) runner = "'h pool_task \<Rightarrow> ('h, 's) sys \<Rightarrow> ('h, 's) sys"

section \<open>Submitting and running a task\<close>

definition upd_region :: "nat \<Rightarrow> ('h pim_region \<Rightarrow> 'h pim_region) \<Rightarrow> 'h pim_device \<Rightarrow> 'h pim_device" where
  "upd_region off f dev =
     dev\<lparr>dv_regions := map (\<lambda>e. if fst e = off then (fst e, f (snd e)) else e) (dv_regions dev)\<rparr>"

definition upd_task_region ::
  "'h pool_task \<Rightarrow> ('h pim_region \<Rightarrow> 'h pim_region) \<Rightarrow> 'h pim_device \<Rightarrow> 'h pim_device" where
  "upd_task_region t f dev = (case tk_region t of None \<Rightarrow> dev | Some off \<Rightarrow> upd_region off f dev)"

text \<open>\<open>push_ok\<close>: the queue could be extended.\<close>

definition pool_submit :: "bool \<Rightarrow> 'h pool_task \<Rightarrow> 'h pim_device \<Rightarrow> bool \<times> 'h pim_device" where
  "pool_submit push_ok t dev =
     (if \<not> dv_pool_running dev then (False, dev)
      else if \<not> push_ok then (False, dev)
      else
        let dev = dev\<lparr>dv_task_queue := dv_task_queue dev @ [t]\<rparr>;
            dev = dev\<lparr>dv_futex_cnt_commited := dv_futex_cnt_commited dev + 1\<rparr>
        in (True, upd_task_region t (\<lambda>r. r\<lparr>rg_futex_cnt_commited := rg_futex_cnt_commited r + 1\<rparr>) dev))"

text \<open>\<open>pool_worker_func\<close>: a worker takes the first task, runs its handler and counts it as finished.\<close>

definition pool_take :: "'h pim_device \<Rightarrow> 'h pim_device" where
  "pool_take dev =
     (case dv_task_queue dev of
        [] \<Rightarrow> dev
      | t # ts \<Rightarrow> dev\<lparr>dv_task_queue := ts, dv_in_flight := dv_in_flight dev @ [t]\<rparr>)"

definition pool_finish :: "'h pool_task \<Rightarrow> 'h pim_device \<Rightarrow> 'h pim_device" where
  "pool_finish t dev =
     (let dev = dev\<lparr>dv_in_flight := remove1 t (dv_in_flight dev),
                    dv_futex_cnt_finished := dv_futex_cnt_finished dev + 1\<rparr>
      in upd_task_region t (\<lambda>r. r\<lparr>rg_futex_cnt_finished := rg_futex_cnt_finished r + 1\<rparr>) dev)"

definition run_task :: "('h, 's) runner \<Rightarrow> 'h pool_task \<Rightarrow> ('h, 's) sys \<Rightarrow> ('h, 's) sys" where
  "run_task run t sys = apfst (pool_finish t) (run t sys)"

text \<open>The workers leave when the pool has stopped and the queue is empty. \<open>pool_drain\<close> is what they do
  until then when they take their turns in the order of the queue.\<close>

definition pool_drain :: "('h, 's) runner \<Rightarrow> ('h, 's) sys \<Rightarrow> ('h, 's) sys" where
  "pool_drain run sys =
     (let ts = dv_in_flight (fst sys) @ dv_task_queue (fst sys)
      in fold (run_task run) ts (apfst (\<lambda>dev. dev\<lparr>dv_in_flight := ts, dv_task_queue := []\<rparr>) sys))"

section \<open>Starting, stopping and resizing\<close>

definition pool_get_hardware_concurrency_limit :: "u32 \<Rightarrow> u32" where
  "pool_get_hardware_concurrency_limit hw = (if hw = 0 then 1 else hw)"

definition pool_start_failure_error :: "'h pim_device \<Rightarrow> pim_error" where
  "pool_start_failure_error dev = (if dv_teardown_in_progress dev then PIM_ERR_BUSY else PIM_ERR_NO_MEMORY)"

text \<open>\<open>spawn_ok\<close>: all threads could be created. When they could not, the threads that were created
  are joined, after they have emptied the queue.\<close>

definition pool_start_locked ::
  "('h, 's) runner \<Rightarrow> u32 \<Rightarrow> bool \<Rightarrow> u32 \<Rightarrow> ('h, 's) sys \<Rightarrow> bool \<times> ('h, 's) sys" where
  "pool_start_locked run hw spawn_ok limit_concurrency sys =
     (let dev = fst sys in
      if dv_teardown_in_progress dev then (False, sys)
      else if dv_pool_running dev then (True, sys)
      else
        let concurrency = (if limit_concurrency = 0 then pool_get_hardware_concurrency_limit hw
                           else limit_concurrency)
        in if spawn_ok
           then (True, apfst (\<lambda>dev. dev\<lparr>dv_max_active_dpus := concurrency, dv_pool_running := True,
                    dv_handler_pool := dv_handler_pool dev + unat concurrency\<rparr>) sys)
           else (False, apfst (\<lambda>dev. dev\<lparr>dv_handler_pool := 0, dv_max_active_dpus := 0\<rparr>)
                    (pool_drain run (apfst (\<lambda>dev. dev\<lparr>dv_pool_running := False\<rparr>) sys))))"

definition pool_stop_locked :: "('h, 's) runner \<Rightarrow> ('h, 's) sys \<Rightarrow> ('h, 's) sys" where
  "pool_stop_locked run sys =
     (let was_running = dv_pool_running (fst sys);
          sys = apfst (\<lambda>dev. dev\<lparr>dv_pool_running := False\<rparr>) sys
      in if \<not> was_running \<and> dv_handler_pool (fst sys) = 0
         then apfst (\<lambda>dev. dev\<lparr>dv_max_active_dpus := 0\<rparr>) sys
         else apfst (\<lambda>dev. dev\<lparr>dv_handler_pool := 0, dv_max_active_dpus := 0\<rparr>) (pool_drain run sys))"

definition pim_pool_start ::
  "('h, 's) runner \<Rightarrow> u32 \<Rightarrow> bool \<Rightarrow> u32 \<Rightarrow> ('h, 's) sys \<Rightarrow> pim_error \<times> ('h, 's) sys" where
  "pim_pool_start run hw spawn_ok limit_concurrency sys =
     (let (started, sys) = pool_start_locked run hw spawn_ok limit_concurrency sys
      in if \<not> started then (pool_start_failure_error (fst sys), sys) else (PIM_SUCCESS, sys))"

text \<open>\<open>in_worker\<close>: the caller is a thread of the pool.\<close>

definition pim_pool_stop :: "('h, 's) runner \<Rightarrow> bool \<Rightarrow> ('h, 's) sys \<Rightarrow> pim_error \<times> ('h, 's) sys" where
  "pim_pool_stop run in_worker sys =
     (if in_worker then (PIM_ERR_BUSY, sys) else (PIM_SUCCESS, pool_stop_locked run sys))"

text \<open>\<open>spawned\<close>: how many of the additional threads could be created.\<close>

definition pim_set_max_active_dpus ::
  "('h, 's) runner \<Rightarrow> u32 \<Rightarrow> nat \<Rightarrow> bool \<Rightarrow> u32 \<Rightarrow> ('h, 's) sys \<Rightarrow> pim_error \<times> ('h, 's) sys" where
  "pim_set_max_active_dpus run hw spawned in_worker concurrency sys =
     (let dev = fst sys; current_size = dv_handler_pool dev in
      if in_worker then (PIM_ERR_BUSY, sys)
      else if dv_teardown_in_progress dev then (PIM_ERR_BUSY, sys)
      else if \<not> dv_pool_running dev
      then (PIM_SUCCESS, apfst (\<lambda>dev. dev\<lparr>dv_max_active_dpus := concurrency\<rparr>) sys)
      else if concurrency = of_nat current_size
      then (PIM_SUCCESS, apfst (\<lambda>dev. dev\<lparr>dv_max_active_dpus := concurrency\<rparr>) sys)
      else if unat concurrency > current_size
      then (if unat concurrency - current_size \<le> spawned
            then (PIM_SUCCESS, apfst (\<lambda>dev. dev\<lparr>dv_handler_pool := unat concurrency,
                                                 dv_max_active_dpus := concurrency\<rparr>) sys)
            else (pool_start_failure_error dev,
                  apfst (\<lambda>dev. dev\<lparr>dv_handler_pool := current_size + spawned,
                                   dv_max_active_dpus := of_nat (current_size + spawned)\<rparr>) sys))
      else
        let sys = pool_stop_locked run sys
        in if concurrency > 0
           then let (started, sys) = pool_start_locked run hw (unat concurrency \<le> spawned) concurrency sys
                in if \<not> started then (pool_start_failure_error (fst sys), sys) else (PIM_SUCCESS, sys)
           else (PIM_SUCCESS, sys))"

definition pim_get_max_active_dpus :: "'h pim_device option \<Rightarrow> u32" where
  "pim_get_max_active_dpus dev = (case dev of None \<Rightarrow> 0 | Some dev \<Rightarrow> dv_max_active_dpus dev)"

text \<open>\<open>pim_wait_pool_barrier\<close> returns when the two counters are equal; these are its exit conditions.\<close>

definition device_barrier_open :: "'h pim_device \<Rightarrow> bool" where
  "device_barrier_open dev \<longleftrightarrow> dv_futex_cnt_finished dev = dv_futex_cnt_commited dev"

definition region_barrier_open :: "'h pim_region \<Rightarrow> bool" where
  "region_barrier_open r \<longleftrightarrow> rg_futex_cnt_finished r = rg_futex_cnt_commited r"

section \<open>The counters count the outstanding tasks\<close>

definition outstanding :: "'h pim_device \<Rightarrow> 'h pool_task list" where
  "outstanding dev = dv_in_flight dev @ dv_task_queue dev"

definition outstanding_of :: "nat \<Rightarrow> 'h pim_device \<Rightarrow> 'h pool_task list" where
  "outstanding_of off dev = filter (\<lambda>t. tk_region t = Some off) (outstanding dev)"

definition pool_inv :: "'h pim_device \<Rightarrow> bool" where
  "pool_inv dev \<longleftrightarrow>
     dv_futex_cnt_commited dev = dv_futex_cnt_finished dev + of_nat (length (outstanding dev)) \<and>
     list_all (\<lambda>e. rg_futex_cnt_commited (snd e) =
        rg_futex_cnt_finished (snd e) + of_nat (length (outstanding_of (fst e) dev))) (dv_regions dev)"

lemma of_nat_eq_0: "n < 2 ^ 32 \<Longrightarrow> (of_nat n :: u32) = 0 \<longleftrightarrow> n = 0"
  using word_of_nat_eq_0_iff [where ?'a = 32] by (auto dest: nat_dvd_not_less)

lemma barrier_exact:
  assumes "pool_inv dev" and "length (outstanding dev) < 2 ^ 32"
  shows "device_barrier_open dev \<longleftrightarrow> outstanding dev = []"
  using assms of_nat_eq_0 [of "length (outstanding dev)"] by (auto simp: pool_inv_def device_barrier_open_def)

lemma region_barrier_exact:
  assumes "pool_inv dev" and "length (outstanding dev) < 2 ^ 32" and "(off, r) \<in> set (dv_regions dev)"
  shows "region_barrier_open r \<longleftrightarrow> outstanding_of off dev = []"
proof -
  have "length (outstanding_of off dev) \<le> length (outstanding dev)" by (simp add: outstanding_of_def)
  then have "(of_nat (length (outstanding_of off dev)) :: u32) = 0 \<longleftrightarrow> outstanding_of off dev = []"
    using assms(2) of_nat_eq_0 [of "length (outstanding_of off dev)"] by simp
  with assms(1,3) show ?thesis by (auto simp: pool_inv_def region_barrier_open_def list_all_iff)
qed

lemma pool_inv_submit:
  assumes "pool_inv dev"
  shows "pool_inv (snd (pool_submit ok t dev))"
  using assms
  by (auto simp: pool_inv_def pool_submit_def upd_task_region_def upd_region_def outstanding_def
      outstanding_of_def list_all_iff Let_def split: option.split)

lemma outstanding_take: "mset (outstanding (pool_take dev)) = mset (outstanding dev)"
  by (simp add: outstanding_def pool_take_def split: list.split)

lemma length_filter_mset: "mset xs = mset ys \<Longrightarrow> length (filter P xs) = length (filter P ys)"
  by (metis mset_filter size_mset)

lemma pool_inv_mset:
  assumes "pool_inv dev" and "mset (outstanding dev') = mset (outstanding dev)"
    and "dv_futex_cnt_commited dev' = dv_futex_cnt_commited dev"
    and "dv_futex_cnt_finished dev' = dv_futex_cnt_finished dev" and "dv_regions dev' = dv_regions dev"
  shows "pool_inv dev'"
  using assms length_filter_mset [OF assms(2)] mset_eq_length [OF assms(2)]
  by (simp add: pool_inv_def outstanding_of_def)

lemma pool_inv_take: "pool_inv dev \<Longrightarrow> pool_inv (pool_take dev)"
  by (rule pool_inv_mset [OF _ outstanding_take]) (auto simp: pool_take_def split: list.split)

lemma length_filter_remove1:
  "t \<in> set xs \<Longrightarrow> length (filter P xs) = of_bool (P t) + length (filter P (remove1 t xs))"
  by (induction xs) auto

lemma pool_inv_finish:
  assumes "pool_inv dev" and "t \<in> set (dv_in_flight dev)"
  shows "pool_inv (pool_finish t dev)"
proof -
  have len: "length (dv_in_flight dev) = Suc (length (remove1 t (dv_in_flight dev)))"
    using length_filter_remove1 [OF assms(2), of "\<lambda>_. True"] by simp
  have "length (filter P (dv_in_flight dev)) = of_bool (P t) + length (filter P (remove1 t (dv_in_flight dev)))" for P
    using assms(2) by (rule length_filter_remove1)
  then show ?thesis
    using assms(1) len
    by (auto simp: pool_inv_def pool_finish_def upd_task_region_def upd_region_def outstanding_def
        outstanding_of_def list_all_iff Let_def split: option.split)
qed

section \<open>Interleavings\<close>

text \<open>Without a running pool nothing is outstanding: tasks are only accepted while it runs, and the workers
  empty the queue before they leave.\<close>

definition pool_wf :: "'h pim_device \<Rightarrow> bool" where
  "pool_wf dev \<longleftrightarrow> pool_inv dev \<and> (dv_pool_running dev \<or> outstanding dev = [])"

inductive pool_step :: "('h, 's) runner \<Rightarrow> ('h, 's) sys \<Rightarrow> ('h, 's) sys \<Rightarrow> bool" for run where
  step_submit: "pool_step run (dev, s) (snd (pool_submit ok t dev), s)"
| step_take: "length (dv_in_flight dev) < dv_handler_pool dev \<Longrightarrow> pool_step run (dev, s) (pool_take dev, s)"
| step_run: "t \<in> set (dv_in_flight dev) \<Longrightarrow> pool_step run (dev, s) (run_task run t (dev, s))"
| step_start: "pool_step run sys (snd (pim_pool_start run hw ok n sys))"
| step_stop: "pool_step run sys (snd (pim_pool_stop run in_worker sys))"
| step_resize: "pool_step run sys (snd (pim_set_max_active_dpus run hw k in_worker n sys))"

inductive_cases pool_stepE: "pool_step run sys sys'"

text \<open>What the pool relies on: a handler keeps the counters in step, does not touch the list of tasks in
  flight, and submits nothing once the pool has stopped.\<close>

locale pool_handlers =
  fixes run :: "('h, 's) runner"
  assumes run_inv: "pool_inv (fst sys) \<Longrightarrow> pool_inv (fst (run t sys))"
    and run_in_flight: "dv_in_flight (fst (run t sys)) = dv_in_flight (fst sys)"
    and run_running: "dv_pool_running (fst (run t sys)) = dv_pool_running (fst sys)"
    and run_stopped: "\<not> dv_pool_running (fst sys) \<Longrightarrow> dv_task_queue (fst (run t sys)) = dv_task_queue (fst sys)"
begin

lemma finish_frame [simp]:
  "dv_task_queue (pool_finish t dev) = dv_task_queue dev"
  "dv_in_flight (pool_finish t dev) = remove1 t (dv_in_flight dev)"
  "dv_pool_running (pool_finish t dev) = dv_pool_running dev"
  by (simp_all add: pool_finish_def upd_task_region_def upd_region_def Let_def split: option.split)

lemma pool_inv_run_task:
  "pool_inv (fst sys) \<Longrightarrow> t \<in> set (dv_in_flight (fst sys)) \<Longrightarrow> pool_inv (fst (run_task run t sys))"
  by (simp add: run_task_def pool_inv_finish run_inv run_in_flight)

lemma fold_run_task:
  assumes "pool_inv (fst sys)" and "\<not> dv_pool_running (fst sys)" and "dv_task_queue (fst sys) = []"
    and "dv_in_flight (fst sys) = ts"
  shows "pool_inv (fst (fold (run_task run) ts sys)) \<and> outstanding (fst (fold (run_task run) ts sys)) = [] \<and>
         \<not> dv_pool_running (fst (fold (run_task run) ts sys))"
  using assms
proof (induction ts arbitrary: sys)
  case Nil
  then show ?case by (simp add: outstanding_def)
next
  case (Cons t ts)
  have "pool_inv (fst (run_task run t sys))" using Cons.prems by (intro pool_inv_run_task) simp_all
  moreover have "\<not> dv_pool_running (fst (run_task run t sys))" "dv_task_queue (fst (run_task run t sys)) = []"
    "dv_in_flight (fst (run_task run t sys)) = ts"
    using Cons.prems by (simp_all add: run_task_def run_in_flight run_running run_stopped)
  ultimately show ?case using Cons.IH by simp
qed

lemma pool_drain_inv:
  assumes "pool_inv (fst sys)" and "\<not> dv_pool_running (fst sys)"
  shows "pool_inv (fst (pool_drain run sys)) \<and> outstanding (fst (pool_drain run sys)) = [] \<and>
         \<not> dv_pool_running (fst (pool_drain run sys))"
proof -
  let ?ts = "dv_in_flight (fst sys) @ dv_task_queue (fst sys)"
  let ?dev = "fst sys\<lparr>dv_in_flight := ?ts, dv_task_queue := []\<rparr>"
  have "pool_inv ?dev" using assms(1) by (rule pool_inv_mset) (simp_all add: outstanding_def)
  then show ?thesis
    using fold_run_task [of "apfst (\<lambda>dev. dev\<lparr>dv_in_flight := ?ts, dv_task_queue := []\<rparr>) sys" ?ts] assms(2)
    by (simp add: pool_drain_def Let_def)
qed

lemma pool_inv_flags:
  "pool_inv (dev\<lparr>dv_pool_running := b\<rparr>) = pool_inv dev"
  "pool_inv (dev\<lparr>dv_handler_pool := k\<rparr>) = pool_inv dev"
  "pool_inv (dev\<lparr>dv_max_active_dpus := n\<rparr>) = pool_inv dev"
  "outstanding (dev\<lparr>dv_pool_running := b\<rparr>) = outstanding dev"
  "outstanding (dev\<lparr>dv_handler_pool := k\<rparr>) = outstanding dev"
  "outstanding (dev\<lparr>dv_max_active_dpus := n\<rparr>) = outstanding dev"
  by (simp_all add: pool_inv_def outstanding_def outstanding_of_def)

lemma pool_stop_locked_inv:
  assumes "pool_wf (fst sys)"
  shows "pool_wf (fst (pool_stop_locked run sys))" and "outstanding (fst (pool_stop_locked run sys)) = []"
    and "\<not> dv_pool_running (fst (pool_stop_locked run sys))"
    and "dv_handler_pool (fst (pool_stop_locked run sys)) = 0"
proof -
  let ?sys = "apfst (\<lambda>dev. dev\<lparr>dv_pool_running := False\<rparr>) sys"
  have "pool_inv (fst ?sys)" "\<not> dv_pool_running (fst ?sys)"
    using assms by (simp_all add: pool_wf_def pool_inv_flags)
  from pool_drain_inv [OF this] assms
  show "pool_wf (fst (pool_stop_locked run sys))" "outstanding (fst (pool_stop_locked run sys)) = []"
    "\<not> dv_pool_running (fst (pool_stop_locked run sys))" "dv_handler_pool (fst (pool_stop_locked run sys)) = 0"
    by (auto simp: pool_stop_locked_def Let_def pool_wf_def pool_inv_flags)
qed

lemma pool_start_locked_inv:
  assumes "pool_wf (fst sys)"
  shows "pool_wf (fst (snd (pool_start_locked run hw ok n sys)))"
proof -
  let ?sys = "apfst (\<lambda>dev. dev\<lparr>dv_pool_running := False\<rparr>) sys"
  have "pool_inv (fst ?sys)" "\<not> dv_pool_running (fst ?sys)"
    using assms by (simp_all add: pool_wf_def pool_inv_flags)
  from pool_drain_inv [OF this] assms show ?thesis
    by (auto simp: pool_start_locked_def Let_def pool_wf_def pool_inv_flags)
qed

lemma pool_wf_step: "pool_step run sys sys' \<Longrightarrow> pool_wf (fst sys) \<Longrightarrow> pool_wf (fst sys')"
proof (induction rule: pool_step.induct)
  case (step_submit dev s ok t)
  then show ?case
    using pool_inv_submit [of dev ok t] by (auto simp: pool_wf_def pool_submit_def Let_def upd_task_region_def
        upd_region_def split: option.splits)
next
  case (step_take dev s)
  then have "outstanding (pool_take dev) = outstanding dev"
    by (simp add: outstanding_def pool_take_def split: list.split)
  with step_take show ?case
    using pool_inv_take [of dev] by (auto simp: pool_wf_def pool_take_def split: list.splits)
next
  case (step_run t dev s)
  then have "dv_pool_running dev" by (auto simp: pool_wf_def outstanding_def)
  with step_run show ?case
    using pool_inv_run_task [of "(dev, s)" t] by (simp add: pool_wf_def) (simp add: run_task_def run_running)
next
  case (step_start sys hw ok n)
  then show ?case
    using pool_start_locked_inv [of sys hw ok n] by (simp add: pim_pool_start_def split_beta)
next
  case (step_stop sys in_worker)
  then show ?case using pool_stop_locked_inv(1) [of sys] by (simp add: pim_pool_stop_def)
next
  case (step_resize sys hw k in_worker n)
  then show ?case
    using pool_stop_locked_inv(1) [of sys] pool_start_locked_inv [of "pool_stop_locked run sys" hw "unat n \<le> k" n]
    by (auto simp: pim_set_max_active_dpus_def Let_def split_beta pool_wf_def pool_inv_flags)
qed

lemma pool_wf_steps: "(pool_step run)\<^sup>*\<^sup>* sys sys' \<Longrightarrow> pool_wf (fst sys) \<Longrightarrow> pool_wf (fst sys')"
  by (induction rule: rtranclp_induct) (auto intro: pool_wf_step)

end

end
