(* ===== verification/Mmio.thy ===== *)
theory Mmio
  imports Pool
begin

text \<open>
  Handlers of memory-mapped registers and typed accesses to them (\<open>src/hostpimsim.cc\<close>): the tables of
  handlers of a region, the dispatch of a handler to the pool or on the calling thread, reads and
  writes of 1, 2, 4 or 8 bytes with the cached value the monitor compares with, block copies and the
  page range of \<open>mprotect\<close>.

  A region argument is the offset under which the device holds it, \<open>None\<close> for the null pointer. A
  pointer to a region that has been freed is outside the contract of the functions; they answer it
  with \<open>PIM_ERR_INVALID_ARG\<close> here. The memory of a device is never null, so the tests of
  \<open>region->ptr\<close> hold. The section in which a table changes is atomic here; the protocol that makes it
  so is the subject of \<open>Dispatch_Guard\<close>.
\<close>

section \<open>Targets\<close>

definition find_region :: "nat option \<Rightarrow> 'h pim_device \<Rightarrow> 'h pim_region option" where
  "find_region region dev = Option.bind region (map_of (dv_regions dev))"

definition validate_mmio_handler_target :: "'h pim_device \<Rightarrow> nat option \<Rightarrow> pim_error" where
  "validate_mmio_handler_target dev region =
     (case find_region region dev of
        None \<Rightarrow> PIM_ERR_INVALID_ARG
      | Some r \<Rightarrow> if rg_type r \<noteq> PIM_REGION_CTRL_MMIO then PIM_ERR_INVALID_ARG else PIM_SUCCESS)"

definition validate_handler_table_mutation_state_locked :: "'h pim_device \<Rightarrow> pim_error" where
  "validate_handler_table_mutation_state_locked dev =
     (if dv_teardown_in_progress dev \<or> dv_monitor_running dev \<or> dv_sigsegv_transition_in_progress dev \<or>
         dv_sigsegv_enabled dev
      then PIM_ERR_BUSY else PIM_SUCCESS)"

section \<open>Registering handlers\<close>

definition overlap :: "nat \<Rightarrow> nat \<Rightarrow> nat \<Rightarrow> nat \<Rightarrow> bool" where
  "overlap new_start new_size existing_start existing_size \<longleftrightarrow>
     new_start < existing_start + existing_size \<and> existing_start < new_start + new_size"

definition overlaps_handler :: "nat \<Rightarrow> nat \<Rightarrow> nat \<Rightarrow> 'h pim_region \<Rightarrow> bool" where
  "overlaps_handler offset depth register_size r \<longleftrightarrow>
     (if depth = 0
      then list_ex (\<lambda>(k, e). overlap offset register_size k (he_register_size e)) (rg_handlers r)
      else list_ex (\<lambda>(k, e). snd k = depth \<and> overlap offset register_size (fst k) (he_register_size e))
             (rg_nested_handlers r))"

definition insert_handler :: "nat \<Rightarrow> nat \<Rightarrow> 'h dpu_handler_entry \<Rightarrow> 'h pim_region \<Rightarrow> 'h pim_region" where
  "insert_handler offset depth entry r =
     (if depth = 0 then r\<lparr>rg_handlers := AList.update offset entry (rg_handlers r)\<rparr>
      else r\<lparr>rg_nested_handlers := AList.update (offset, depth) entry (rg_nested_handlers r)\<rparr>)"

text \<open>\<open>handler\<close> is \<open>None\<close> for the null function; \<open>alloc_ok\<close>: the table could be extended.\<close>

definition pim_register_dpu_handler ::
  "bool \<Rightarrow> nat option \<Rightarrow> nat \<Rightarrow> nat \<Rightarrow> nat \<Rightarrow> 'h option \<Rightarrow> 'h pim_device \<Rightarrow> pim_error \<times> 'h pim_device" where
  "pim_register_dpu_handler alloc_ok region offset depth register_size handler dev =
     (case (region, find_region region dev, handler) of
        (Some off, Some r, Some h) \<Rightarrow>
          if validate_mmio_handler_target dev region \<noteq> PIM_SUCCESS then (PIM_ERR_INVALID_ARG, dev)
          else if validate_handler_table_mutation_state_locked dev \<noteq> PIM_SUCCESS
          then (validate_handler_table_mutation_state_locked dev, dev)
          else if \<not> pim_is_supported_register_size register_size then (PIM_ERR_INVALID_ARG, dev)
          else if \<not> is_aligned offset register_size then (PIM_ERR_INVALID_ARG, dev)
          else if offset > rg_size r \<or> register_size > rg_size r - offset then (PIM_ERR_INVALID_ARG, dev)
          else if rg_active_dispatch_ops r \<noteq> 0 then (PIM_ERR_BUSY, dev)
          else if overlaps_handler offset depth register_size r then (PIM_ERR_ALREADY_EXISTS, dev)
          else
            (case pim_load_register_u64 (dv_mem dev) (rg_offset r + offset) register_size of
               None \<Rightarrow> (PIM_ERR_INVALID_ARG, dev)
             | Some initial_value \<Rightarrow>
                 if \<not> alloc_ok then (PIM_ERR_NO_MEMORY, dev)
                 else (PIM_SUCCESS, upd_region off
                   (insert_handler offset depth
                     \<lparr>he_handler = h, he_last_value = initial_value, he_write_seq = 0,
                      he_register_size = register_size, he_depth = depth\<rparr>) dev))
      | _ \<Rightarrow> (PIM_ERR_INVALID_ARG, dev))"

definition pim_unregister_dpu_handler ::
  "nat option \<Rightarrow> nat \<Rightarrow> nat \<Rightarrow> 'h pim_device \<Rightarrow> pim_error \<times> 'h pim_device" where
  "pim_unregister_dpu_handler region offset depth dev =
     (case (region, find_region region dev) of
        (Some off, Some r) \<Rightarrow>
          if validate_mmio_handler_target dev region \<noteq> PIM_SUCCESS
          then (validate_mmio_handler_target dev region, dev)
          else if validate_handler_table_mutation_state_locked dev \<noteq> PIM_SUCCESS
          then (validate_handler_table_mutation_state_locked dev, dev)
          else if rg_active_dispatch_ops r \<noteq> 0 then (PIM_ERR_BUSY, dev)
          else if depth = 0
          then (case map_of (rg_handlers r) offset of
                  None \<Rightarrow> (PIM_ERR_NOT_FOUND, dev)
                | Some _ \<Rightarrow> (PIM_SUCCESS, upd_region off
                    (\<lambda>r. r\<lparr>rg_handlers := AList.delete offset (rg_handlers r)\<rparr>) dev))
          else (case map_of (rg_nested_handlers r) (offset, depth) of
                  None \<Rightarrow> (PIM_ERR_NOT_FOUND, dev)
                | Some _ \<Rightarrow> (PIM_SUCCESS, upd_region off
                    (\<lambda>r. r\<lparr>rg_nested_handlers := AList.delete (offset, depth) (rg_nested_handlers r)\<rparr>) dev))
      | _ \<Rightarrow> (PIM_ERR_INVALID_ARG, dev))"

section \<open>Dispatching a handler\<close>

text \<open>\<open>region_dispatch_guard\<close>: its constructor and its destructor.\<close>

definition dispatch_enter :: "nat \<Rightarrow> 'h pim_device \<Rightarrow> 'h pim_device" where
  "dispatch_enter off = upd_region off (\<lambda>r. r\<lparr>rg_active_dispatch_ops := rg_active_dispatch_ops r + 1\<rparr>)"

definition dispatch_leave :: "nat \<Rightarrow> 'h pim_device \<Rightarrow> 'h pim_device" where
  "dispatch_leave off = upd_region off (\<lambda>r. r\<lparr>rg_active_dispatch_ops := rg_active_dispatch_ops r - 1\<rparr>)"

definition store_last_value :: "u64 \<Rightarrow> 'h dpu_handler_entry \<Rightarrow> 'h dpu_handler_entry" where
  "store_last_value value e = e\<lparr>he_last_value := value AND pim_register_value_mask (he_register_size e)\<rparr>"

definition upd_entry ::
  "nat \<Rightarrow> ('h dpu_handler_entry \<Rightarrow> 'h dpu_handler_entry) \<Rightarrow> 'h pim_region \<Rightarrow> 'h pim_region" where
  "upd_entry offset f r = r\<lparr>rg_handlers := AList.map_entry offset f (rg_handlers r)\<rparr>"

definition upd_nested_entry ::
  "nat \<times> nat \<Rightarrow> ('h dpu_handler_entry \<Rightarrow> 'h dpu_handler_entry) \<Rightarrow> 'h pim_region \<Rightarrow> 'h pim_region" where
  "upd_nested_entry key f r = r\<lparr>rg_nested_handlers := AList.map_entry key f (rg_nested_handlers r)\<rparr>"

definition resolve_mmio_handler ::
  "nat \<Rightarrow> nat \<Rightarrow> u64 \<Rightarrow> bool \<Rightarrow> 'h pim_device \<Rightarrow> 'h option \<times> 'h pim_device" where
  "resolve_mmio_handler off offset value update_last_value dev =
     (case map_of (dv_regions dev) off of
        None \<Rightarrow> (None, dev)
      | Some r \<Rightarrow>
          if rg_type r \<noteq> PIM_REGION_CTRL_MMIO then (None, dev)
          else case map_of (rg_handlers r) offset of
                 None \<Rightarrow> (None, dev)
               | Some entry \<Rightarrow>
                   (Some (he_handler entry),
                    if update_last_value then upd_region off (upd_entry offset (store_last_value value)) dev
                    else dev))"

definition resolve_mmio_nested_handler ::
  "nat \<Rightarrow> nat \<Rightarrow> nat \<Rightarrow> u64 \<Rightarrow> bool \<Rightarrow> 'h pim_device \<Rightarrow> 'h option \<times> 'h pim_device" where
  "resolve_mmio_nested_handler off offset depth value update_last_value dev =
     (case map_of (dv_regions dev) off of
        None \<Rightarrow> (None, dev)
      | Some r \<Rightarrow>
          if rg_type r \<noteq> PIM_REGION_CTRL_MMIO \<or> depth = 0 then (None, dev)
          else case map_of (rg_nested_handlers r) (offset, depth) of
                 None \<Rightarrow> (None, dev)
               | Some entry \<Rightarrow>
                   (Some (he_handler entry),
                    if update_last_value
                    then upd_region off (upd_nested_entry (offset, depth) (store_last_value value)) dev
                    else dev))"

definition dispatch_resolved_dpu_handler ::
  "('h, 's) runner \<Rightarrow> bool \<Rightarrow> 'h pool_task \<Rightarrow> ('h, 's) sys \<Rightarrow> ('h, 's) sys" where
  "dispatch_resolved_dpu_handler run push_ok t sys =
     (if dv_pool_running (fst sys)
      then let (submitted, dev) = pool_submit push_ok t (fst sys)
           in if \<not> submitted then run t (dev, snd sys) else (dev, snd sys)
      else run t sys)"

definition pim_invoke_dpu_handler_internal ::
  "('h, 's) runner \<Rightarrow> bool \<Rightarrow> nat option \<Rightarrow> nat \<Rightarrow> u64 \<Rightarrow> bool \<Rightarrow> nat \<Rightarrow> ('h, 's) sys \<Rightarrow> pim_error \<times> ('h, 's) sys" where
  "pim_invoke_dpu_handler_internal run push_ok region offset value update_last_value depth sys =
     (case region of
        None \<Rightarrow> (PIM_ERR_INVALID_ARG, sys)
      | Some off \<Rightarrow>
          if validate_mmio_handler_target (fst sys) region \<noteq> PIM_SUCCESS
          then (validate_mmio_handler_target (fst sys) region, sys)
          else
            let (resolved, dev) =
                  (if depth = 0
                   then resolve_mmio_handler off offset value update_last_value (dispatch_enter off (fst sys))
                   else resolve_mmio_nested_handler off offset depth value update_last_value
                          (dispatch_enter off (fst sys)))
            in case resolved of
                 None \<Rightarrow> (PIM_ERR_NOT_FOUND, (dispatch_leave off dev, snd sys))
               | Some h \<Rightarrow>
                   (PIM_SUCCESS, apfst (dispatch_leave off)
                      (dispatch_resolved_dpu_handler run push_ok
                         \<lparr>tk_region = Some off, tk_offset = offset, tk_depth = depth, tk_value = value,
                          tk_handler = h\<rparr> (dev, snd sys))))"

definition pim_invoke_dpu_handler ::
  "('h, 's) runner \<Rightarrow> bool \<Rightarrow> nat option \<Rightarrow> nat \<Rightarrow> nat \<Rightarrow> u64 \<Rightarrow> ('h, 's) sys \<Rightarrow> pim_error \<times> ('h, 's) sys" where
  "pim_invoke_dpu_handler run push_ok region offset depth value sys =
     pim_invoke_dpu_handler_internal run push_ok region offset value True depth sys"

text \<open>
  A region barrier returns once the tasks of its region are finished; they are run here, in the order
  of the queue. Tasks of other regions may be finished too by then; they are left in the queue. A
  worker of the pool that calls the barrier gets an error.
\<close>

definition region_drain :: "('h, 's) runner \<Rightarrow> nat \<Rightarrow> ('h, 's) sys \<Rightarrow> ('h, 's) sys" where
  "region_drain run off sys =
     (let mine = outstanding_of off (fst sys);
          rest = filter (\<lambda>t. tk_region t \<noteq> Some off)
      in fold (run_task run) mine
           (apfst (\<lambda>dev. dev\<lparr>dv_in_flight := mine @ rest (dv_in_flight dev),
                             dv_task_queue := rest (dv_task_queue dev)\<rparr>) sys))"

definition pim_region_barrier ::
  "('h, 's) runner \<Rightarrow> bool \<Rightarrow> nat option \<Rightarrow> ('h, 's) sys \<Rightarrow> pim_error \<times> ('h, 's) sys" where
  "pim_region_barrier run in_worker region sys =
     (case region of
        None \<Rightarrow> (PIM_ERR_INVALID_ARG, sys)
      | Some off \<Rightarrow>
          if find_region region (fst sys) = None then (PIM_ERR_INVALID_ARG, sys)
          else if in_worker then (PIM_ERR_WOULD_DEADLOCK, sys)
          else (PIM_SUCCESS, region_drain run off sys))"

definition pim_device_barrier ::
  "('h, 's) runner \<Rightarrow> bool \<Rightarrow> ('h, 's) sys \<Rightarrow> pim_error \<times> ('h, 's) sys" where
  "pim_device_barrier run in_worker sys =
     (if in_worker then (PIM_ERR_WOULD_DEADLOCK, sys) else (PIM_SUCCESS, pool_drain run sys))"

section \<open>Typed accesses\<close>

text \<open>The typed pointer is the address in the memory of the device; \<open>n\<close> is \<open>sizeof(T)\<close>.\<close>

definition get_typed_region_ptr :: "nat \<Rightarrow> nat option \<Rightarrow> nat \<Rightarrow> 'h pim_device \<Rightarrow> pim_error + nat" where
  "get_typed_region_ptr n region offset dev =
     (case find_region region dev of
        None \<Rightarrow> Inl PIM_ERR_INVALID_ARG
      | Some r \<Rightarrow>
          if \<not> is_aligned offset n then Inl PIM_ERR_INVALID_ARG
          else if \<not> check_bounds r offset n then Inl PIM_ERR_INVALID_ARG
          else Inr (rg_offset r + offset))"

definition get_region_byte_ptr :: "nat option \<Rightarrow> nat \<Rightarrow> nat \<Rightarrow> 'h pim_device \<Rightarrow> pim_error + nat" where
  "get_region_byte_ptr region offset sz dev =
     (case find_region region dev of
        None \<Rightarrow> Inl PIM_ERR_INVALID_ARG
      | Some r \<Rightarrow> if \<not> check_bounds r offset sz then Inl PIM_ERR_INVALID_ARG else Inr (rg_offset r + offset))"

definition mark_write :: "'h dpu_handler_entry \<Rightarrow> 'h dpu_handler_entry" where
  "mark_write e = e\<lparr>he_write_seq := he_write_seq e + 1\<rparr>"

definition put_mem :: "nat \<Rightarrow> u8 list \<Rightarrow> 'h pim_device \<Rightarrow> 'h pim_device" where
  "put_mem a bs dev = dev\<lparr>dv_mem := mem_put a bs (dv_mem dev)\<rparr>"

text \<open>The write itself, with the update of the cached value, shared by the two templates: \<open>value\<close> is
  already cut to \<open>n\<close> bytes. When the SIGSEGV monitor is on, the store faults and the signal handler
  takes over; only the store is modelled then.\<close>

definition write_register :: "nat \<Rightarrow> nat \<Rightarrow> nat \<Rightarrow> u64 \<Rightarrow> nat \<Rightarrow> 'h pim_device \<Rightarrow> 'h pim_device" where
  "write_register n off offset value target dev =
     (let sigsegv_active = dv_sigsegv_enabled dev;
          mmio = (case map_of (dv_regions dev) off of
                    None \<Rightarrow> False | Some r \<Rightarrow> rg_type r = PIM_REGION_CTRL_MMIO);
          on_entry = (\<lambda>f dev. if mmio \<and> \<not> sigsegv_active then upd_region off (upd_entry offset f) dev else dev);
          dev = on_entry mark_write dev;
          dev = put_mem target (le_bytes n value) dev
      in on_entry (mark_write \<circ> store_last_value value) dev)"

definition write_and_invoke_handler ::
  "('h, 's) runner \<Rightarrow> nat \<Rightarrow> nat \<Rightarrow> nat \<Rightarrow> u64 \<Rightarrow> nat \<Rightarrow> ('h, 's) sys \<Rightarrow> ('h, 's) sys" where
  "write_and_invoke_handler run n off offset value target sys =
     (let dev = dispatch_enter off (fst sys);
          sigsegv_active = dv_sigsegv_enabled dev;
          handler = (case map_of (dv_regions dev) off of
                       None \<Rightarrow> None
                     | Some r \<Rightarrow> if rg_type r = PIM_REGION_CTRL_MMIO
                                 then map_option he_handler (map_of (rg_handlers r) offset) else None);
          dev = write_register n off offset value target dev
      in apfst (dispatch_leave off)
           (case handler of
              None \<Rightarrow> (dev, snd sys)
            | Some h \<Rightarrow>
                if sigsegv_active then (dev, snd sys)
                else run \<lparr>tk_region = Some off, tk_offset = offset, tk_depth = 0, tk_value = value,
                          tk_handler = h\<rparr> (dev, snd sys)))"

definition write_raw_atomic :: "nat \<Rightarrow> nat \<Rightarrow> nat \<Rightarrow> u64 \<Rightarrow> nat \<Rightarrow> 'h pim_device \<Rightarrow> 'h pim_device" where
  "write_raw_atomic n off offset value target dev =
     dispatch_leave off (write_register n off offset value target (dispatch_enter off dev))"

definition write_typed_value ::
  "bool \<Rightarrow> ('h, 's) runner \<Rightarrow> nat \<Rightarrow> nat option \<Rightarrow> nat \<Rightarrow> u64 \<Rightarrow> ('h, 's) sys \<Rightarrow> pim_error \<times> ('h, 's) sys" where
  "write_typed_value raw_write run n region offset value sys =
     (case get_typed_region_ptr n region offset (fst sys) of
        Inl err \<Rightarrow> (err, sys)
      | Inr target \<Rightarrow>
          (PIM_SUCCESS,
           if raw_write then apfst (write_raw_atomic n (the region) offset value target) sys
           else write_and_invoke_handler run n (the region) offset value target sys))"

definition read_typed_value :: "nat \<Rightarrow> nat option \<Rightarrow> nat \<Rightarrow> 'h pim_device \<Rightarrow> pim_error + u64" where
  "read_typed_value n region offset dev =
     (case get_typed_region_ptr n region offset dev of
        Inl err \<Rightarrow> Inl err
      | Inr source \<Rightarrow> Inr (le_word (mem_get (dv_mem dev) source n)))"

definition pim_is_supported_access_size :: "nat \<Rightarrow> bool" where
  "pim_is_supported_access_size n \<longleftrightarrow> n = 1 \<or> n = 2 \<or> n = 4 \<or> n = 8"

text \<open>The casts to \<open>uint8_t\<close>, \<open>uint16_t\<close>, \<open>uint32_t\<close> keep the low \<open>8 n\<close> bits.\<close>

definition write_sized_value ::
  "bool \<Rightarrow> ('h, 's) runner \<Rightarrow> nat option \<Rightarrow> nat \<Rightarrow> nat \<Rightarrow> u64 \<Rightarrow> ('h, 's) sys \<Rightarrow> pim_error \<times> ('h, 's) sys" where
  "write_sized_value raw_write run region offset n value sys =
     (if \<not> pim_is_supported_access_size n then (PIM_ERR_INVALID_ARG, sys)
      else write_typed_value raw_write run n region offset (take_bit (8 * n) value) sys)"

definition read_sized_value :: "nat option \<Rightarrow> nat \<Rightarrow> nat \<Rightarrow> 'h pim_device \<Rightarrow> pim_error + u64" where
  "read_sized_value region offset n dev =
     (if \<not> pim_is_supported_access_size n then Inl PIM_ERR_INVALID_ARG else read_typed_value n region offset dev)"

definition pim_write ::
  "('h, 's) runner \<Rightarrow> nat option \<Rightarrow> nat \<Rightarrow> nat \<Rightarrow> u64 \<Rightarrow> ('h, 's) sys \<Rightarrow> pim_error \<times> ('h, 's) sys" where
  "pim_write run region offset n value sys = write_sized_value False run region offset n value sys"

definition pim_write_sync ::
  "('h, 's) runner \<Rightarrow> bool \<Rightarrow> nat option \<Rightarrow> nat \<Rightarrow> nat \<Rightarrow> u64 \<Rightarrow> ('h, 's) sys \<Rightarrow> pim_error \<times> ('h, 's) sys" where
  "pim_write_sync run in_worker region offset n value sys =
     (let (err, sys) = write_sized_value False run region offset n value sys
      in if err \<noteq> PIM_SUCCESS then (err, sys) else pim_region_barrier run in_worker region sys)"

definition pim_write_raw ::
  "('h, 's) runner \<Rightarrow> nat option \<Rightarrow> nat \<Rightarrow> nat \<Rightarrow> u64 \<Rightarrow> ('h, 's) sys \<Rightarrow> pim_error \<times> ('h, 's) sys" where
  "pim_write_raw run region offset n value sys = write_sized_value True run region offset n value sys"

definition pim_read :: "nat option \<Rightarrow> nat \<Rightarrow> nat \<Rightarrow> 'h pim_device \<Rightarrow> pim_error + u64" where
  "pim_read region offset n dev = read_sized_value region offset n dev"

section \<open>Block accesses\<close>

definition pim_memcpy_to ::
  "nat option \<Rightarrow> nat \<Rightarrow> u8 list option \<Rightarrow> nat \<Rightarrow> 'h pim_device \<Rightarrow> pim_error \<times> 'h pim_device" where
  "pim_memcpy_to region offset data sz dev =
     (case data of
        None \<Rightarrow> (PIM_ERR_INVALID_ARG, dev)
      | Some bytes \<Rightarrow>
          (case get_region_byte_ptr region offset sz dev of
             Inl err \<Rightarrow> (err, dev)
           | Inr target \<Rightarrow> (PIM_SUCCESS, put_mem target (take sz bytes) dev)))"

definition pim_memcpy_from :: "nat option \<Rightarrow> nat \<Rightarrow> nat \<Rightarrow> 'h pim_device \<Rightarrow> pim_error + u8 list" where
  "pim_memcpy_from region offset sz dev =
     (case get_region_byte_ptr region offset sz dev of
        Inl err \<Rightarrow> Inl err
      | Inr source \<Rightarrow> Inr (mem_get (dv_mem dev) source sz))"

definition pim_region_memset ::
  "nat option \<Rightarrow> u32 \<Rightarrow> nat \<Rightarrow> 'h pim_device \<Rightarrow> pim_error \<times> 'h pim_device" where
  "pim_region_memset region value sz dev =
     (case get_region_byte_ptr region 0 sz dev of
        Inl err \<Rightarrow> (err, dev)
      | Inr target \<Rightarrow> (PIM_SUCCESS, put_mem target (replicate sz (ucast value)) dev))"

text \<open>\<open>addr\<close> is the address of the region in the process. The arithmetic is that of 64-bit words.\<close>

definition pim_region_page_aligned_range :: "u64 \<Rightarrow> u64 \<Rightarrow> u64 \<Rightarrow> (u64 \<times> u64) option" where
  "pim_region_page_aligned_range addr region_size page_size =
     (if region_size = 0 \<or> page_size = 0 then None
      else if page_size AND (page_size - 1) \<noteq> 0 then None
      else if region_size > 0xFFFFFFFFFFFFFFFF - addr then None
      else
        let e = addr + region_size;
            m = NOT (page_size - 1);
            aligned_start = addr AND m
        in if e > 0xFFFFFFFFFFFFFFFF - (page_size - 1) then None
           else
             let aligned_end = (e + page_size - 1) AND m
             in if aligned_end < aligned_start then None
                else let range_u = aligned_end - aligned_start
                     in if range_u = 0 then None else Some (aligned_start, range_u))"

datatype pim_access_mode = PIM_ACCESS_MODE_NONE | PIM_ACCESS_MODE_RO | PIM_ACCESS_MODE_WO | PIM_ACCESS_MODE_RW

definition pim_region_access_mode_to_prot :: "pim_access_mode \<Rightarrow> int" where
  "pim_region_access_mode_to_prot access =
     (case access of
        PIM_ACCESS_MODE_NONE \<Rightarrow> 0
      | PIM_ACCESS_MODE_RO \<Rightarrow> 1
      | PIM_ACCESS_MODE_WO \<Rightarrow> 2
      | PIM_ACCESS_MODE_RW \<Rightarrow> 3)"

text \<open>\<open>base\<close> is the address of the device's memory; \<open>mprotect\<close> is the system call.\<close>

definition pim_region_mprotect ::
  "(u64 \<Rightarrow> u64 \<Rightarrow> int \<Rightarrow> bool) \<Rightarrow> u64 \<Rightarrow> nat option \<Rightarrow> pim_access_mode \<Rightarrow> 'h pim_device \<Rightarrow> pim_error" where
  "pim_region_mprotect mprotect base region access dev =
     (case find_region region dev of
        None \<Rightarrow> PIM_ERR_INVALID_ARG
      | Some r \<Rightarrow>
          (case pim_region_page_aligned_range (base + of_nat (rg_offset r)) (of_nat (rg_size r)) (rg_page_size r) of
             None \<Rightarrow> PIM_ERR_INVALID_ARG
           | Some (start, sz) \<Rightarrow>
               if mprotect start sz (pim_region_access_mode_to_prot access) then PIM_SUCCESS else PIM_ERR_MPROTECT))"

end
