(* ===== verification/Chip.thy ===== *)
theory Chip
  imports Dpu_Control Ci_State Mmio
begin

text \<open>
  One chip: a control interface and eight DPUs (\<open>class UPMEMPIMChip\<close> of \<open>upmem.hh\<close>, \<open>upmem.cc\<close>), with the
  two handlers it registers with the core library and \<open>propagate_ci\<close>, which executes one command word.

  The chips of a rank are a list; a handler is its function and the index of the chip its
  \<open>user_data\<close> points to. \<open>run_dpu\<close> runs such a handler, as the pool or the dispatching thread does; it is
  the runner that interprets the interface of the pool. A DPU executes a command by \<open>control_ref\<close>, which
  is what \<open>UPMEMDPU::control\<close> computes whatever the decode cache of the thread holds (\<open>control_refines\<close>).
\<close>

record chip =
  ch_ci :: ci
  ch_dpus :: "upmem_dpu list"

definition chip_init :: chip where
  "chip_init = \<lparr>ch_ci = ci_init, ch_dpus = replicate kChipNumDpus upmem_dpu_init\<rparr>"

datatype upmem_handler = MmioHandler nat | DpuHandler nat

type_synonym upmem_sys = "(upmem_handler, chip list) sys"

definition upd_dpu :: "nat \<Rightarrow> (upmem_dpu \<Rightarrow> upmem_dpu) \<Rightarrow> chip \<Rightarrow> chip" where
  "upd_dpu i f ch = ch\<lparr>ch_dpus := (ch_dpus ch)[i := f (ch_dpus ch ! i)]\<rparr>"

definition upd_state :: "(ci_state \<Rightarrow> ci_state) \<Rightarrow> chip \<Rightarrow> chip" where
  "upd_state f ch = ch\<lparr>ch_ci := upd_ci_state f (ch_ci ch)\<rparr>"

definition chip_state :: "chip \<Rightarrow> ci_state" where
  "chip_state ch = ci_st (ch_ci ch)"

definition upd_chip :: "nat \<Rightarrow> (chip \<Rightarrow> chip) \<Rightarrow> upmem_sys \<Rightarrow> upmem_sys" where
  "upd_chip c f sys = (fst sys, (snd sys)[c := f (snd sys ! c)])"

definition selects :: "u8 \<Rightarrow> nat \<Rightarrow> bool" where
  "selects m i \<longleftrightarrow> m AND push_bit i 1 \<noteq> 0"

definition get_bound_mask :: "chip \<Rightarrow> u8 \<Rightarrow> u8" where
  "get_bound_mask ch selected_mask =
     fold (\<lambda>i bound_mask.
         if \<not> selects selected_mask i then bound_mask
         else if mram_addr (dp_mram (ch_dpus ch ! i)) \<noteq> None \<and> mram_size (dp_mram (ch_dpus ch ! i)) \<noteq> 0
         then bound_mask OR push_bit i 1 else bound_mask)
       [0..<kChipNumDpus] 0"

definition is_thread_command_word :: "u64 \<Rightarrow> u8 \<Rightarrow> bool" where
  "is_thread_command_word ci_word selected_mask =
     (if selected_mask = 0 then False
      else if first_selected_dpu selected_mask \<ge> kChipNumDpus then False
      else decode_thread_command ci_word \<noteq> None)"

section \<open>Handlers\<close>

definition dpu_handler :: "nat \<Rightarrow> u64 \<Rightarrow> chip \<Rightarrow> chip" where
  "dpu_handler depth value ch =
     (if depth = 0 \<or> depth > kChipNumDpus then ch else upd_dpu (depth - 1) (control_ref value) ch)"

text \<open>Only \<open>dpu_handler\<close> is registered at the depths from which the pool is fed, so a pool task never holds
  the root handler.\<close>

definition run_dpu :: "(upmem_handler, chip list) runner" where
  "run_dpu t sys =
     (case tk_handler t of
        DpuHandler c \<Rightarrow> upd_chip c (dpu_handler (tk_depth t) (tk_value t)) sys
      | MmioHandler c \<Rightarrow> sys)"

section \<open>Executing a command word\<close>

definition publish :: "nat \<Rightarrow> u32 \<Rightarrow> bool \<Rightarrow> upmem_sys \<Rightarrow> upmem_sys" where
  "publish c payload needs_mask_fuzz = upd_chip c (upd_state (set_dispatched_result payload needs_mask_fuzz))"

text \<open>\<open>invoke_selected_handlers\<close>, the body of its loop first. \<open>push_ok\<close> says for each DPU whether the pool
  could queue its task.\<close>

definition invoke_one ::
  "(nat \<Rightarrow> bool) \<Rightarrow> nat \<Rightarrow> nat option \<Rightarrow> u64 \<Rightarrow> u8 \<Rightarrow> bool \<Rightarrow> bool \<Rightarrow> nat \<Rightarrow> u8 \<times> upmem_sys \<Rightarrow> u8 \<times> upmem_sys" where
  "invoke_one push_ok c region ci_word selected_mask skip_unbound direct_control i acc =
     (let (invoked_mask, sys) = acc;
          chip_dpu = ch_dpus (snd sys ! c) ! i
      in if \<not> selects selected_mask i then acc
         else if skip_unbound \<and> (mram_addr (dp_mram chip_dpu) = None \<or> mram_size (dp_mram chip_dpu) = 0) then acc
         else
           let sys = upd_chip c (upd_dpu i clear_last_control_result) sys
           in if direct_control
              then (invoked_mask OR push_bit i 1, upd_chip c (upd_dpu i (control_ref ci_word)) sys)
              else
                let (invoke_err, sys) = pim_invoke_dpu_handler run_dpu (push_ok i) region 0 (i + 1) ci_word sys
                in if invoke_err \<noteq> PIM_SUCCESS then (invoked_mask, sys)
                   else (invoked_mask OR push_bit i 1, sys))"

definition invoke_selected_handlers ::
  "(nat \<Rightarrow> bool) \<Rightarrow> nat \<Rightarrow> nat option \<Rightarrow> u64 \<Rightarrow> u8 \<Rightarrow> bool \<Rightarrow> bool \<Rightarrow> upmem_sys \<Rightarrow> u8 \<times> upmem_sys" where
  "invoke_selected_handlers push_ok c region ci_word selected_mask skip_unbound direct_control sys =
     fold (invoke_one push_ok c region ci_word selected_mask skip_unbound direct_control)
       [0..<kChipNumDpus] (0, sys)"

definition publish_invoked :: "nat \<Rightarrow> u8 \<times> upmem_sys \<Rightarrow> upmem_sys" where
  "publish_invoked c r = publish c (ucast (fst r)) False (snd r)"

text \<open>Opcode \<open>0x11\<close> latches a structure.\<close>

definition latch_structure :: "u64 \<Rightarrow> ci_state \<Rightarrow> ci_state" where
  "latch_structure ci_word s =
     (let s = set_structure ci_word s;
          s = (case decode_iram_write_structure ci_word of
                 Some iram_addr_hi \<Rightarrow> set_iram_write_addr_hi iram_addr_hi (set_iram_write_structure_valid True s)
               | None \<Rightarrow> set_iram_write_addr_hi 0 (set_iram_write_structure_valid False s))
      in case decode_wram_write_word_structure ci_word of
           Some wram_addr \<Rightarrow> set_wram_write_addr wram_addr (set_wram_write_structure_valid True s)
         | None \<Rightarrow> set_wram_write_addr 0 (set_wram_write_structure_valid False s))"

definition for_selected :: "u8 \<Rightarrow> (upmem_dpu \<Rightarrow> upmem_dpu) \<Rightarrow> chip \<Rightarrow> chip" where
  "for_selected selected_mask f ch =
     fold (\<lambda>i ch. if \<not> selects selected_mask i then ch else upd_dpu i f ch) [0..<kChipNumDpus] ch"

definition iram_write_addr :: "u64 \<Rightarrow> ci_state \<Rightarrow> u16" where
  "iram_write_addr ci_word s = push_bit 8 (cs_iram_write_addr_hi s) OR ucast (ci_b ci_word 48)"

definition iram_write_inst48 :: "u64 \<Rightarrow> u64" where
  "iram_write_inst48 ci_word =
     push_bit 0 (ucast (ci_b ci_word 0)) OR push_bit 8 (ucast (ci_b ci_word 8)) OR
     push_bit 16 (ucast (ci_b ci_word 16)) OR push_bit 24 (ucast (ci_b ci_word 24)) OR
     push_bit 32 (ucast (ci_b ci_word 32)) OR push_bit 40 (ucast (ci_b ci_word 40))"

definition wram_write_addr :: "u64 \<Rightarrow> ci_state \<Rightarrow> u16" where
  "wram_write_addr ci_word s =
     (case decode_wram_write_word_frame_low5 ci_word of
        Some low5 \<Rightarrow> (cs_wram_write_addr s AND NOT 0x1F) OR ucast low5
      | None \<Rightarrow> cs_wram_write_addr s)"

definition write_iram_frame :: "u64 \<Rightarrow> u8 \<Rightarrow> chip \<Rightarrow> chip" where
  "write_iram_frame ci_word selected_mask ch =
     for_selected selected_mask
       (\<lambda>d. d\<lparr>dp_iram := iram_write_word (dp_iram d) (iram_write_addr ci_word (chip_state ch))
                            (iram_write_inst48 ci_word)\<rparr>) ch"

definition write_wram_frame :: "u64 \<Rightarrow> u8 \<Rightarrow> chip \<Rightarrow> chip" where
  "write_wram_frame ci_word selected_mask ch =
     for_selected selected_mask
       (\<lambda>d. d\<lparr>dp_wram := wram_write_word (dp_wram d) (ucast (wram_write_addr ci_word (chip_state ch)))
                            (ucast (ci_word AND 0xFFFFFFFF))\<rparr>) ch"

text \<open>The value that the frame \<open>0x10 0x02\<close> reads.\<close>

definition dma_ctrl_value :: "u8 \<Rightarrow> chip \<Rightarrow> u32" where
  "dma_ctrl_value selected_mask ch =
     (let selected = first_selected_dpu selected_mask in
      if selected_mask = 0 \<or> selected \<ge> kChipNumDpus then 0
      else let e = dp_dma_engine (ch_dpus ch ! selected)
           in if cs_dma_ctrl_read_register (chip_state ch) = 0x02 then ucast (dma_mux_status e)
              else ucast (dma_ctrl_reg e))"

definition write_dma_ctrl :: "u8 \<Rightarrow> u8 \<Rightarrow> chip \<Rightarrow> chip" where
  "write_dma_ctrl address data ch =
     (let ch = (if address = 0xFF then upd_state (set_dma_ctrl_read_register data) ch else ch)
      in fold (\<lambda>i. upd_dpu i (\<lambda>d.
             let e = set_dma_ctrl_reg data (dp_dma_engine d);
                 e = (if address = 0x80 \<or> address = 0x82 \<or> address = 0x84
                      then set_dma_mux_status (if data = 0 then 0x00 else 0x03) e else e)
             in d\<lparr>dp_dma_engine := e\<rparr>))
           [0..<kChipNumDpus] ch)"

text \<open>Frames with tag \<open>0x00\<close>; \<open>None\<close> when the source falls through to the tests that follow.\<close>

definition select_frame :: "nat \<Rightarrow> u8 \<Rightarrow> upmem_sys \<Rightarrow> upmem_sys" where
  "select_frame c m sys =
     publish c (ucast m) False (upd_chip c (upd_state (set_selected_mask m)) sys)"

definition tag00_frame ::
  "(nat \<Rightarrow> bool) \<Rightarrow> nat \<Rightarrow> nat option \<Rightarrow> u64 \<Rightarrow> u8 \<Rightarrow> u8 \<Rightarrow> upmem_sys \<Rightarrow> upmem_sys option" where
  "tag00_frame push_ok c region ci_word selected_mask control_execution_mask sys =
     (let b0 = ci_b ci_word 0; b1 = ci_b ci_word 8; ch = snd sys ! c; s = chip_state ch in
      if b0 = 0x08 \<and> b1 = 0xFF then Some (select_frame c 0xFF sys)
      else if b0 = 0x0A then Some (select_frame c (push_bit (unat (b1 AND 0x7)) 1) sys)
      else if b0 = 0x09 then Some (select_frame c (get_group_mask s (unat (b1 AND 0x7))) sys)
      else if b0 = 0x0C
      then Some (publish c (ucast (cs_selected_mask s)) False
                   (upd_chip c (upd_state (set_group_mask (unat (b1 AND 0x7)) (cs_selected_mask s))) sys))
      else if b0 = 0x16 \<and> b1 = 0x02 then Some (publish c (ucast (cs_pc_mode s)) False sys)
      else if b0 = 0x10 \<and> b1 = 0x02 then Some (publish c (dma_ctrl_value selected_mask ch) False sys)
      else if b0 = 0x84 \<and> b1 = 0x02
      then Some (publish_invoked c
                   (invoke_selected_handlers push_ok c region ci_word control_execution_mask False False sys))
      else if b0 = 0xF2 \<and> b1 = 0x02
      then Some (publish c (ucast (cs_stack_up_mask s)) False
                   (upd_chip c (upd_state (snd \<circ> exchange_stack_up_mask 0xFF)) sys))
      else if b0 = 0xF0 \<and> b1 = 0x02
      then Some (publish c (ucast (cs_stack_up_mask s)) False
                   (upd_chip c (upd_state (snd \<circ> exchange_stack_up_mask 0x00)) sys))
      else if b1 = 0x02
      then (if b0 \<in> {0x80, 0x82, 0xB0, 0xB4, 0xF4} then Some (publish c 0 False sys)
            else Some (publish c (ucast (cs_selected_mask s)) False sys))
      else None)"

text \<open>The frames that follow: programming of the DMA controller (\<open>0xA7\<close>), the program counter mode
  (\<open>0xA4\<close>), \<open>0xA6\<close>, thread commands, and reads of a WRAM word (\<open>0x99\<close>).\<close>

definition other_frame ::
  "(nat \<Rightarrow> bool) \<Rightarrow> nat \<Rightarrow> nat option \<Rightarrow> u64 \<Rightarrow> u8 \<Rightarrow> u8 \<Rightarrow> upmem_sys \<Rightarrow> upmem_sys" where
  "other_frame push_ok c region ci_word selected_mask control_execution_mask sys =
     (let tag = ci_b ci_word 48; ch = snd sys ! c;
          fuzz = publish c (ucast selected_mask) True sys;
          high_zero = (ci_b ci_word 8 = 0 \<and> ci_b ci_word 16 = 0 \<and> ci_b ci_word 24 = 0 \<and>
                       ci_b ci_word 32 = 0 \<and> ci_b ci_word 40 = 0)
      in if tag = 0xA7
         then (case decode_dma_ctrl_write_frame ci_word of
                 Some (address, data) \<Rightarrow> publish c 0xFF False (upd_chip c (write_dma_ctrl address data) sys)
               | None \<Rightarrow> fuzz)
         else if tag = 0xA4
         then (if high_zero then publish c 0xFF False (upd_chip c (upd_state (set_pc_mode (ci_b ci_word 0))) sys)
               else fuzz)
         else if tag = 0xA6
         then (if ci_b ci_word 0 = 0 \<and> high_zero then publish c 0xFF False sys else fuzz)
         else if is_thread_command_word ci_word selected_mask
         then publish_invoked c (invoke_selected_handlers push_ok c region ci_word control_execution_mask True True sys)
         else if tag = 0x99
         then (case decode_wram_read_word_frame ci_word of
                 Some word_addr \<Rightarrow>
                   let selected = first_selected_dpu selected_mask in
                   if selected \<ge> kChipNumDpus \<or> selected_mask = 0 then publish c 0 False sys
                   else publish c (wram_read_word (dp_wram (ch_dpus ch ! selected)) word_addr) False sys
               | None \<Rightarrow> fuzz)
         else fuzz)"

definition execution_mask :: "chip \<Rightarrow> u8" where
  "execution_mask ch =
     (let selected_mask = cs_selected_mask (chip_state ch); m = get_bound_mask ch selected_mask
      in if m = 0 then selected_mask else m)"

definition frame_command ::
  "(nat \<Rightarrow> bool) \<Rightarrow> nat \<Rightarrow> nat option \<Rightarrow> u64 \<Rightarrow> upmem_sys \<Rightarrow> upmem_sys" where
  "frame_command push_ok c region ci_word sys =
     (let ch = snd sys ! c; s = chip_state ch; selected_mask = cs_selected_mask s;
          control_execution_mask = execution_mask ch
      in if cs_iram_write_structure_valid s
         then publish c (ucast selected_mask) True (upd_chip c (write_iram_frame ci_word selected_mask) sys)
         else if cs_wram_write_structure_valid s
         then publish c (ucast selected_mask) True (upd_chip c (write_wram_frame ci_word selected_mask) sys)
         else
           case (if ci_b ci_word 48 = 0x00
                 then tag00_frame push_ok c region ci_word selected_mask control_execution_mask sys else None) of
             Some sys \<Rightarrow> sys
           | None \<Rightarrow> other_frame push_ok c region ci_word selected_mask control_execution_mask sys)"

definition kCiIdentity :: u64 where "kCiIdentity = 0x01FF000000000000"
definition kCiByteOrder :: u64 where "kCiByteOrder = 0x7777777777777777"

definition propagate_ci :: "(nat \<Rightarrow> bool) \<Rightarrow> nat \<Rightarrow> u64 \<Rightarrow> upmem_sys \<Rightarrow> upmem_sys" where
  "propagate_ci push_ok c ci_word sys =
     (let sys = upd_chip c (upd_state (set_committed ci_word)) sys;
          region = ci_region_write (ch_ci (snd sys ! c));
          opcode = ci_b ci_word 56
      in if region = None then sys
         else if ci_word = kCiIdentity then publish c 1 False sys
         else if is_software_reset_cmd ci_word
         then publish c 0 False (upd_chip c (upd_state reset_protocol_state) sys)
         else if ci_word = kCiByteOrder then publish c 0x0F8FCFEF False sys
         else if opcode = 0x11
         then publish c 0xFF False (upd_chip c (upd_state (latch_structure ci_word)) sys)
         else if opcode \<noteq> 0x33 then publish c 0 False sys
         else frame_command push_ok c region ci_word sys)"

definition mmio_handler :: "(nat \<Rightarrow> bool) \<Rightarrow> u64 \<Rightarrow> nat \<Rightarrow> upmem_sys \<Rightarrow> upmem_sys" where
  "mmio_handler push_ok value c sys = propagate_ci push_ok c value sys"

text \<open>The runner for the thread that writes a register: it runs the root handler itself.\<close>

definition run_root :: "(nat \<Rightarrow> bool) \<Rightarrow> (upmem_handler, chip list) runner" where
  "run_root push_ok t sys =
     (case tk_handler t of
        MmioHandler c \<Rightarrow> mmio_handler push_ok (tk_value t) c sys
      | DpuHandler c \<Rightarrow> run_dpu t sys)"

text \<open>The interface of the pool holds for the DPU handlers: they touch the chips only.\<close>

interpretation dpu_pool: pool_handlers run_dpu
  by unfold_locales (auto simp: run_dpu_def upd_chip_def split: upmem_handler.split)

end
