(* ===== verification/Chip_Props.thy ===== *)
theory Chip_Props
  imports Chip
begin

text \<open>
  What the command words do to a chip: a thread command runs on the selected DPUs with an MRAM, a WRAM word
  is written by a structure and a frame and read back by a frame, an IRAM image is written frame by frame.
\<close>

section \<open>Chips of a rank\<close>

lemma selects_iff: "selects m i \<longleftrightarrow> bit m i"
  by (simp add: selects_def mask_bits)

lemma upd_chip_same [simp]: "c < length (snd sys) \<Longrightarrow> snd (upd_chip c f sys) ! c = f (snd sys ! c)"
  by (simp add: upd_chip_def)

lemma upd_chip_other [simp]: "c' \<noteq> c \<Longrightarrow> snd (upd_chip c f sys) ! c' = snd sys ! c'"
  by (simp add: upd_chip_def)

lemma upd_chip_frame [simp]: "fst (upd_chip c f sys) = fst sys" "length (snd (upd_chip c f sys)) = length (snd sys)"
  by (simp_all add: upd_chip_def)

lemma upd_chip_upd_chip [simp]: "c < length (snd sys) \<Longrightarrow> upd_chip c f (upd_chip c g sys) = upd_chip c (f \<circ> g) sys"
  by (simp add: upd_chip_def)

lemma upd_state_parts [simp]:
  "ch_dpus (upd_state f ch) = ch_dpus ch" "chip_state (upd_state f ch) = f (chip_state ch)"
  "ci_region_write (ch_ci (upd_state f ch)) = ci_region_write (ch_ci ch)"
  "ci_region_read (ch_ci (upd_state f ch)) = ci_region_read (ch_ci ch)"
  by (simp_all add: upd_state_def chip_state_def upd_ci_state_def)

lemma upd_dpu_parts [simp]: "chip_state (upd_dpu i f ch) = chip_state ch" "ch_ci (upd_dpu i f ch) = ch_ci ch"
  by (simp_all add: upd_dpu_def chip_state_def)

lemma fold_upd_dpu:
  assumes "n \<le> length (ch_dpus ch)"
  shows "ch_ci (fold (\<lambda>i ch. if \<not> P i then ch else upd_dpu i f ch) [0..<n] ch) = ch_ci ch \<and>
    ch_dpus (fold (\<lambda>i ch. if \<not> P i then ch else upd_dpu i f ch) [0..<n] ch) =
      map (\<lambda>i. if i < n \<and> P i then f (ch_dpus ch ! i) else ch_dpus ch ! i) [0..<length (ch_dpus ch)]"
  using assms
proof (induction n)
  case 0
  then show ?case by (simp add: map_nth)
next
  case (Suc n)
  then show ?case by (auto simp: upd_dpu_def intro!: nth_equalityI simp: nth_list_update less_Suc_eq)
qed

lemma for_selected_parts:
  assumes "length (ch_dpus ch) = kChipNumDpus"
  shows "ch_ci (for_selected m f ch) = ch_ci ch" and "length (ch_dpus (for_selected m f ch)) = kChipNumDpus"
    and "i < kChipNumDpus \<Longrightarrow> ch_dpus (for_selected m f ch) ! i = (if bit m i then f (ch_dpus ch ! i) else ch_dpus ch ! i)"
  using fold_upd_dpu [of kChipNumDpus ch "selects m" f] assms by (simp_all add: for_selected_def selects_iff)

section \<open>Opcodes\<close>

lemma ci_b_byte_at: "ci_b w n = ucast (byte_at n w)"
  by (simp add: ci_b_def byte_at_def)

lemma opcode_cases:
  assumes "ci_b w 56 = op" and "op \<noteq> 0x01" and "op \<noteq> 0x77"
  shows "w \<noteq> kCiIdentity" and "\<not> is_software_reset_cmd w" and "w \<noteq> kCiByteOrder"
proof -
  show "w \<noteq> kCiIdentity" "w \<noteq> kCiByteOrder" using assms by (auto simp: kCiIdentity_def kCiByteOrder_def ci_b_def)
  have "ci_b (w AND 0xFFFF00000000FF00) 56 = ci_b w 56"
  proof (rule bit_word_eqI)
    fix i assume "i < LENGTH(8)"
    then have "i = 0 \<or> i = 1 \<or> i = 2 \<or> i = 3 \<or> i = 4 \<or> i = 5 \<or> i = 6 \<or> i = 7" by auto
    then show "bit (ci_b (w AND 0xFFFF00000000FF00) 56) i = bit (ci_b w 56) i"
      by (auto simp: ci_b_byte_at bit_ucast_iff bit_byte_at bit_and_iff)
  qed
  moreover have "ci_b 0x01FF00000000FF00 56 = 0x01" by (simp add: ci_b_def)
  ultimately show "\<not> is_software_reset_cmd w" using assms by (metis is_software_reset_cmd_def)
qed

lemma propagate_frame:
  assumes "c < length (snd sys)" and "ci_region_write (ch_ci (snd sys ! c)) \<noteq> None" and "ci_b w 56 = 0x33"
  shows "propagate_ci push_ok c w sys =
    frame_command push_ok c (ci_region_write (ch_ci (snd sys ! c))) w (upd_chip c (upd_state (set_committed w)) sys)"
  using assms opcode_cases [OF assms(3)] by (auto simp: propagate_ci_def Let_def)

lemma propagate_structure:
  assumes "c < length (snd sys)" and "ci_region_write (ch_ci (snd sys ! c)) \<noteq> None" and "ci_b w 56 = 0x11"
  shows "propagate_ci push_ok c w sys = publish c 0xFF False
    (upd_chip c (upd_state (latch_structure w)) (upd_chip c (upd_state (set_committed w)) sys))"
  using assms opcode_cases [OF assms(3)] by (auto simp: propagate_ci_def Let_def)

section \<open>Writing and reading WRAM words\<close>

lemma wram_structure_bytes:
  "ci_b (wram_write_word_structure_for_addr a) 56 = 0x11" "ci_b (wram_write_word_structure_for_addr a) 8 = 0x03"
  unfolding ci_b_byte_at structure_as_bytes by (simp_all del: push_bit_0_id) (simp_all add: byte_at_def)

lemma wram_frame_opcode: "ci_b (wram_write_word_frame_upper_for_addr a OR ucast (data :: u32)) 56 = 0x33"
proof -
  have "byte_at 56 (ucast data :: u64) = 0"
    by (rule bit_word_eqI) (auto simp: bit_byte_at bit_ucast_iff dest: bit_imp_le_length)
  then show ?thesis
    unfolding ci_b_byte_at upper_as_bytes by (simp del: push_bit_0_id) (simp add: byte_at_def)
qed

lemma wram_frame_data: "ucast ((wram_write_word_frame_upper_for_addr a OR ucast (data :: u32)) AND 0xFFFFFFFF) = data"
proof (rule bit_word_eqI)
  fix i assume "i < LENGTH(32)"
  then have i: "i < 32" by simp
  have m: "(0xFFFFFFFF :: u64) = mask 32" by (simp add: mask_numeral)
  have "\<not> bit (wram_write_word_frame_upper_for_addr a) i"
    using i unfolding upper_as_bytes bit_or_iff bit_push_bit_iff by auto
  then show "bit (ucast ((wram_write_word_frame_upper_for_addr a OR ucast data) AND 0xFFFFFFFF) :: u32) i = bit data i"
    using i unfolding m bit_ucast_iff bit_and_iff bit_or_iff bit_mask_iff by auto
qed

lemma wram_structure_not_iram: "decode_iram_write_structure (wram_write_word_structure_for_addr a) = None"
  using wram_structure_bytes [of a] by (auto simp: decode_iram_write_structure_def ci_b_def Let_def)

lemma latch_wram_structure:
  assumes "a < kWramWords"
  shows "latch_structure (wram_write_word_structure_for_addr (of_nat a)) s =
    s\<lparr>cs_structure := wram_write_word_structure_for_addr (of_nat a), cs_iram_write_structure_valid := False,
      cs_iram_write_addr_hi := 0, cs_wram_write_structure_valid := True, cs_wram_write_addr := of_nat (32 * (a div 32))\<rparr>"
  using assms by (simp add: latch_structure_def Let_def wram_structure_not_iram decode_wram_write_structure ci_state_setters)

lemma bit_word_nat: "bit (of_nat n :: 'a::len word) i \<longleftrightarrow> i < LENGTH('a) \<and> bit n i"
  by (simp add: bit_simps)

lemma join_address:
  assumes "a < 16384"
  shows "((of_nat (32 * (a div 32)) :: u16) AND NOT 0x1F) OR ucast (of_nat (a mod 32) :: u8) = of_nat a"
proof (rule bit_word_eqI)
  fix i assume "i < LENGTH(16)"
  then have i: "i < 16" by simp
  have m: "(0x1F :: u16) = mask 5" by (simp add: mask_numeral)
  have "bit (32 * (a div 32)) i \<longleftrightarrow> 5 \<le> i \<and> bit a i"
  proof -
    have "32 * (a div 32) = push_bit 5 (drop_bit 5 a)" by (simp add: push_bit_eq_mult drop_bit_eq_div)
    then show ?thesis by (auto simp: bit_push_bit_iff_nat bit_drop_bit_eq)
  qed
  moreover have "bit (a mod 32) i \<longleftrightarrow> i < 5 \<and> bit a i"
  proof -
    have "a mod 32 = take_bit 5 a" by (simp add: take_bit_eq_mod)
    then show ?thesis by (simp add: bit_take_bit_iff)
  qed
  ultimately show "bit (((of_nat (32 * (a div 32)) :: u16) AND NOT 0x1F) OR ucast (of_nat (a mod 32) :: u8)) i =
      bit (of_nat a :: u16) i"
    using i unfolding m
    by (auto simp: bit_or_iff bit_and_iff bit_not_iff bit_mask_iff bit_ucast_iff bit_word_nat simp del: of_nat_mult)
qed

lemma publish_parts [simp]:
  assumes "c < length (snd sys)"
  shows "snd (publish c v b sys) ! c = upd_state (set_dispatched_result v b) (snd sys ! c)"
    and "length (snd (publish c v b sys)) = length (snd sys)"
  using assms by (simp_all add: publish_def)

lemma frame_wram_write:
  assumes "c < length (snd sys)" and "\<not> cs_iram_write_structure_valid (chip_state (snd sys ! c))"
    and "cs_wram_write_structure_valid (chip_state (snd sys ! c))"
  shows "frame_command push_ok c region w sys =
    publish c (ucast (cs_selected_mask (chip_state (snd sys ! c)))) True
      (upd_chip c (write_wram_frame w (cs_selected_mask (chip_state (snd sys ! c)))) sys)"
  using assms by (simp add: frame_command_def Let_def)

definition write_wram_by_ci :: "(nat \<Rightarrow> bool) \<Rightarrow> nat \<Rightarrow> nat \<Rightarrow> u32 \<Rightarrow> upmem_sys \<Rightarrow> upmem_sys" where
  "write_wram_by_ci push_ok c a data sys =
     propagate_ci push_ok c (wram_write_word_frame_upper_for_addr (of_nat a) OR ucast data)
       (propagate_ci push_ok c (wram_write_word_structure_for_addr (of_nat a)) sys)"

lemma write_wram_by_ci_effect:
  assumes "c < length (snd sys)" and "ci_region_write (ch_ci (snd sys ! c)) \<noteq> None"
    and "length (ch_dpus (snd sys ! c)) = kChipNumDpus" and "a < kWramWords"
  shows "\<And>i. i < kChipNumDpus \<Longrightarrow> ch_dpus (snd (write_wram_by_ci push_ok c a data sys) ! c) ! i =
      (let d = ch_dpus (snd sys ! c) ! i in
       if bit (cs_selected_mask (chip_state (snd sys ! c))) i
       then d\<lparr>dp_wram := wram_write_word (dp_wram d) (of_nat a) data\<rparr> else d)"
    and "cs_dispatched_payload (chip_state (snd (write_wram_by_ci push_ok c a data sys) ! c)) =
      ucast (cs_selected_mask (chip_state (snd sys ! c)))"
    and "\<And>c'. c' \<noteq> c \<Longrightarrow> snd (write_wram_by_ci push_ok c a data sys) ! c' = snd sys ! c'"
    and "fst (write_wram_by_ci push_ok c a data sys) = fst sys"
proof -
  let ?s = "wram_write_word_structure_for_addr (of_nat a)"
    and ?f = "wram_write_word_frame_upper_for_addr (of_nat a) OR ucast data"
  let ?m = "cs_selected_mask (chip_state (snd sys ! c))"
  define sys1 where "sys1 = propagate_ci push_ok c ?s sys"
  have sys1: "sys1 = upd_chip c (upd_state (set_dispatched_result 0xFF False \<circ> latch_structure ?s \<circ> set_committed ?s)) sys"
    using assms(1,2) unfolding sys1_def
    by (subst propagate_structure)
       (simp_all add: wram_structure_bytes publish_def upd_chip_def upd_state_def upd_ci_state_def comp_def)
  define sys2 where "sys2 = upd_chip c (upd_state (set_committed ?f)) sys1"
  have st2: "chip_state (snd sys2 ! c) = (chip_state (snd sys1 ! c))\<lparr>cs_committed := ?f\<rparr>"
    using assms(1) by (simp add: sys2_def sys1 set_committed_def)
  have st: "\<not> cs_iram_write_structure_valid (chip_state (snd sys2 ! c))" "cs_wram_write_structure_valid (chip_state (snd sys2 ! c))"
    "cs_wram_write_addr (chip_state (snd sys2 ! c)) = of_nat (32 * (a div 32))" "cs_selected_mask (chip_state (snd sys2 ! c)) = ?m"
    using assms(1,4) by (simp_all add: st2 sys1 latch_wram_structure set_dispatched_result_def set_committed_def)
  have c2: "c < length (snd sys2)" "ch_dpus (snd sys2 ! c) = ch_dpus (snd sys ! c)"
    using assms(1) by (simp_all add: sys2_def sys1)
  have final: "write_wram_by_ci push_ok c a data sys =
      publish c (ucast ?m) True (upd_chip c (write_wram_frame ?f ?m) sys2)"
    unfolding write_wram_by_ci_def sys1_def [symmetric]
    using assms(1,2) st c2(1)
    by (subst propagate_frame) (simp_all add: sys1 wram_frame_opcode frame_wram_write sys2_def [unfolded sys1, symmetric])
  have addr: "wram_write_addr ?f (chip_state (snd sys2 ! c)) = of_nat a"
    using join_address [of a] assms(4) st(3)
    by (simp add: wram_write_addr_def decode_wram_write_low5 kWramWords_def del: of_nat_mult)
  have ucast: "(ucast (of_nat a :: u16) :: u32) = of_nat a"
    using assms(4) by (simp add: kWramWords_def unsigned_of_nat take_bit_nat_eq_self)
  note parts = for_selected_parts [of "snd sys2 ! c", folded c2(2)]
  show "ch_dpus (snd (write_wram_by_ci push_ok c a data sys) ! c) ! i =
      (let d = ch_dpus (snd sys ! c) ! i in
       if bit ?m i then d\<lparr>dp_wram := wram_write_word (dp_wram d) (of_nat a) data\<rparr> else d)" if "i < kChipNumDpus" for i
    using that c2 assms(3) unfolding final
    by (simp add: write_wram_frame_def addr ucast wram_frame_data for_selected_parts(3) Let_def)
  show "cs_dispatched_payload (chip_state (snd (write_wram_by_ci push_ok c a data sys) ! c)) = ucast ?m"
    using c2 unfolding final by (simp add: set_dispatched_result_def)
  show "snd (write_wram_by_ci push_ok c a data sys) ! c' = snd sys ! c'" if "c' \<noteq> c" for c'
    using that unfolding final sys2_def sys1 by (simp add: publish_def)
  show "fst (write_wram_by_ci push_ok c a data sys) = fst sys"
    unfolding final sys2_def sys1 by (simp add: publish_def)
qed

section \<open>Thread commands\<close>

lemma control_after_clear: "control_ref w (clear_last_control_result d) = control_ref w d"
proof -
  have "set_last_control_result v (clear_last_control_result d') = set_last_control_result v d'" for v d'
    by (simp add: set_last_control_result_def clear_last_control_result_def)
  moreover have "put_core c (clear_last_control_result d) = clear_last_control_result (put_core c d)"
    "upd_pipeline f (clear_last_control_result d) = clear_last_control_result (upd_pipeline f d)" for c f
    by (simp_all add: put_core_def clear_last_control_result_def upd_pipeline_def split_beta)
  moreover have "dpu_core (clear_last_control_result d) = dpu_core d" "dp_iram (clear_last_control_result d) = dp_iram d"
    "dp_mram (clear_last_control_result d) = dp_mram d"
    by (simp_all add: dpu_core_def clear_last_control_result_def)
  moreover have "thread_command k t (clear_last_control_result d) = thread_command k t d" for k t
    by (simp add: thread_command_def clear_last_control_result_def set_last_control_result_def Let_def)
  ultimately show ?thesis by (simp add: control_ref_def Let_def split: option.split)
qed

definition mram_ready :: "upmem_dpu \<Rightarrow> bool" where
  "mram_ready d \<longleftrightarrow> mram_addr (dp_mram d) \<noteq> None \<and> mram_size (dp_mram d) \<noteq> 0"

lemma bit_get_bound_mask:
  assumes "i < kChipNumDpus"
  shows "bit (get_bound_mask ch m) i \<longleftrightarrow> bit m i \<and> mram_ready (ch_dpus ch ! i)"
proof -
  have "bit (fold (\<lambda>i bound_mask. if \<not> selects m i then bound_mask
         else if mram_addr (dp_mram (ch_dpus ch ! i)) \<noteq> None \<and> mram_size (dp_mram (ch_dpus ch ! i)) \<noteq> 0
         then bound_mask OR push_bit i 1 else bound_mask) [0..<n] (0 :: u8)) i \<longleftrightarrow>
      i < n \<and> bit m i \<and> mram_ready (ch_dpus ch ! i)" if "n \<le> 8" for n
    using that by (induction n) (auto simp: selects_iff mram_ready_def mask_bits less_Suc_eq)
  from this [of kChipNumDpus] assms show ?thesis by (simp add: get_bound_mask_def)
qed

lemma invoke_direct:
  assumes "c < length (snd sys)" and "length (ch_dpus (snd sys ! c)) = kChipNumDpus" and "n \<le> kChipNumDpus"
    and "fold (invoke_one push_ok c region w m True True) [0..<n] (0, sys) = (M, sys')"
  shows "\<forall>i < 8. bit M i \<longleftrightarrow> i < n \<and> bit m i \<and> mram_ready (ch_dpus (snd sys ! c) ! i)"
    and "\<exists>ds. sys' = upd_chip c (\<lambda>ch. ch\<lparr>ch_dpus := ds\<rparr>) sys \<and> length ds = kChipNumDpus \<and>
      (\<forall>i < 8. ds ! i = (let d = ch_dpus (snd sys ! c) ! i in
        if i < n \<and> bit m i \<and> mram_ready d then control_ref w d else d))"
proof -
  let ?d = "\<lambda>i. ch_dpus (snd sys ! c) ! i"
  have "\<exists>M ds. fold (invoke_one push_ok c region w m True True) [0..<n] (0, sys) =
      (M, upd_chip c (\<lambda>ch. ch\<lparr>ch_dpus := ds\<rparr>) sys) \<and>
      (\<forall>i < 8. bit M i \<longleftrightarrow> i < n \<and> bit m i \<and> mram_ready (?d i)) \<and> length ds = 8 \<and>
      (\<forall>i < 8. ds ! i = (if i < n \<and> bit m i \<and> mram_ready (?d i) then control_ref w (?d i) else ?d i))"
    using assms(3)
  proof (induction n)
    case 0
    have "upd_chip c (\<lambda>ch. ch\<lparr>ch_dpus := ch_dpus (snd sys ! c)\<rparr>) sys = sys"
      using assms(1) by (simp add: upd_chip_def)
    then show ?case using assms(2) by (intro exI [of _ 0] exI [of _ "ch_dpus (snd sys ! c)"]) simp
  next
    case (Suc n)
    then obtain M ds where IH: "fold (invoke_one push_ok c region w m True True) [0..<n] (0, sys) =
        (M, upd_chip c (\<lambda>ch. ch\<lparr>ch_dpus := ds\<rparr>) sys)" "\<forall>i < 8. bit M i \<longleftrightarrow> i < n \<and> bit m i \<and> mram_ready (?d i)"
      "length ds = 8" "\<forall>i < 8. ds ! i = (if i < n \<and> bit m i \<and> mram_ready (?d i) then control_ref w (?d i) else ?d i)"
      by auto
    have n: "n < 8" using Suc.prems by simp
    then have dn: "ds ! n = ?d n" using IH(4) by simp
    let ?run = "bit m n \<and> mram_ready (?d n)"
    have step: "invoke_one push_ok c region w m True True n (M, upd_chip c (\<lambda>ch. ch\<lparr>ch_dpus := ds\<rparr>) sys) =
        (if ?run then M OR push_bit n 1 else M,
         upd_chip c (\<lambda>ch. ch\<lparr>ch_dpus := (if ?run then ds[n := control_ref w (?d n)] else ds)\<rparr>) sys)"
      using assms(1) dn IH(3) n
      by (auto simp: invoke_one_def selects_iff mram_ready_def Let_def upd_dpu_def control_after_clear comp_def
          intro!: arg_cong [where f = "\<lambda>f. upd_chip c f sys"])
    have "\<forall>i < 8. bit (if ?run then M OR push_bit n 1 else M) i \<longleftrightarrow> i < Suc n \<and> bit m i \<and> mram_ready (?d i)"
      using IH(2) n by (auto simp: mask_bits less_Suc_eq)
    moreover have "\<forall>i < 8. (if ?run then ds[n := control_ref w (?d n)] else ds) ! i =
        (if i < Suc n \<and> bit m i \<and> mram_ready (?d i) then control_ref w (?d i) else ?d i)"
      using IH(3,4) n by (auto simp: nth_list_update less_Suc_eq)
    ultimately show ?case
      using IH(1,3) step by (intro exI [of _ "if ?run then M OR push_bit n 1 else M"]
          exI [of _ "if ?run then ds[n := control_ref w (?d n)] else ds"]) simp
  qed
  with assms(4) show "\<forall>i < 8. bit M i \<longleftrightarrow> i < n \<and> bit m i \<and> mram_ready (?d i)"
    and "\<exists>ds. sys' = upd_chip c (\<lambda>ch. ch\<lparr>ch_dpus := ds\<rparr>) sys \<and> length ds = kChipNumDpus \<and>
      (\<forall>i < 8. ds ! i = (let d = ?d i in if i < n \<and> bit m i \<and> mram_ready d then control_ref w d else d))"
    by (auto simp: Let_def)
qed

lemma frame_tag: "ci_b (encode_frame_from_x x tag) 56 = 0x33" "ci_b (encode_frame_from_x x tag) 48 = tag"
proof -
  have "ucast (byte_at 0 (ucast tag)) = tag"
    by (rule bit_word_eqI) (auto simp: bit_ucast_iff bit_byte_at)
  then show "ci_b (encode_frame_from_x x tag) 56 = 0x33" "ci_b (encode_frame_from_x x tag) 48 = tag"
    unfolding ci_b_byte_at frame_as_bytes by (simp_all del: push_bit_0_id) (simp add: byte_at_def)
qed

lemma thread_frame_tag:
  assumes "decode_thread_command w = Some kt"
  shows "ci_b w 56 = 0x33" and "ci_b w 48 = 0x98"
proof -
  obtain kd tid where kt: "kt = (kd, tid)" by fastforce
  obtain k t where "w = thread_frame_command (bases ! k) (of_nat t)"
    using assms unfolding kt by (rule decode_thread_sound)
  then show "ci_b w 56 = 0x33" "ci_b w 48 = 0x98" by (simp_all add: thread_frame_x frame_tag)
qed

lemma first_selected_less: "m \<noteq> 0 \<Longrightarrow> first_selected_dpu m < kChipNumDpus"
proof -
  assume "m \<noteq> 0"
  then obtain i where "bit m i" by (metis bit_eqI bit_0_eq bot_apply bot_bool_def)
  moreover from this have "i < 8" using bit_imp_le_length [of m i] by simp
  ultimately have "find (\<lambda>dpu. m AND push_bit dpu 1 \<noteq> 0) [0..<kChipNumDpus] \<noteq> None"
    by (auto simp: find_None_iff mask_bits)
  then show ?thesis by (auto simp: first_selected_dpu_def find_Some_iff split: option.split)
qed

lemma control_thread_command:
  assumes "decode_thread_command w = Some (k, t)"
  shows "control_ref w d = thread_command k t d"
proof -
  have "\<not> is_run_state_read_command w"
    using thread_frame_tag(2) [OF assms] by (auto simp: is_run_state_read_command_def ci_b_def Let_def)
  with assms show ?thesis by (simp add: control_ref_def)
qed

lemma thread_frame_command_path:
  assumes "c < length (snd sys)" and "decode_thread_command w = Some kt"
    and "\<not> cs_iram_write_structure_valid (chip_state (snd sys ! c))"
    and "\<not> cs_wram_write_structure_valid (chip_state (snd sys ! c))" and "cs_selected_mask (chip_state (snd sys ! c)) \<noteq> 0"
  shows "frame_command push_ok c region w sys =
    publish_invoked c (invoke_selected_handlers push_ok c region w (execution_mask (snd sys ! c)) True True sys)"
  using assms thread_frame_tag [OF assms(2)] first_selected_less [OF assms(5)]
  by (simp add: frame_command_def other_frame_def is_thread_command_word_def Let_def)

lemma execution_mask_ready:
  "i < kChipNumDpus \<Longrightarrow> bit (execution_mask ch) i \<and> mram_ready (ch_dpus ch ! i) \<longleftrightarrow>
     bit (cs_selected_mask (chip_state ch)) i \<and> mram_ready (ch_dpus ch ! i)"
  using bit_get_bound_mask [of i ch "cs_selected_mask (chip_state ch)"] by (auto simp: execution_mask_def Let_def)

lemma propagate_thread_command:
  assumes "c < length (snd sys)" and "length (ch_dpus (snd sys ! c)) = kChipNumDpus"
    and "ci_region_write (ch_ci (snd sys ! c)) \<noteq> None" and "decode_thread_command w = Some (k, t)"
    and "\<not> cs_iram_write_structure_valid (chip_state (snd sys ! c))"
    and "\<not> cs_wram_write_structure_valid (chip_state (snd sys ! c))" and "cs_selected_mask (chip_state (snd sys ! c)) \<noteq> 0"
  shows "\<And>i. i < kChipNumDpus \<Longrightarrow> ch_dpus (snd (propagate_ci push_ok c w sys) ! c) ! i =
      (let d = ch_dpus (snd sys ! c) ! i in
       if bit (cs_selected_mask (chip_state (snd sys ! c))) i \<and> mram_ready d then thread_command k t d else d)"
    and "\<And>i. i < kChipNumDpus \<Longrightarrow> bit (cs_dispatched_payload (chip_state (snd (propagate_ci push_ok c w sys) ! c))) i \<longleftrightarrow>
      bit (cs_selected_mask (chip_state (snd sys ! c))) i \<and> mram_ready (ch_dpus (snd sys ! c) ! i)"
    and "\<And>c'. c' \<noteq> c \<Longrightarrow> snd (propagate_ci push_ok c w sys) ! c' = snd sys ! c'"
    and "fst (propagate_ci push_ok c w sys) = fst sys"
proof -
  define sys1 where "sys1 = upd_chip c (upd_state (set_committed w)) sys"
  have s1: "c < length (snd sys1)" "ch_dpus (snd sys1 ! c) = ch_dpus (snd sys ! c)" "fst sys1 = fst sys"
    "chip_state (snd sys1 ! c) = (chip_state (snd sys ! c))\<lparr>cs_committed := w\<rparr>"
    using assms(1) by (simp_all add: sys1_def set_committed_def)
  let ?region = "ci_region_write (ch_ci (snd sys ! c))"
  obtain M sys2 where inv: "invoke_selected_handlers push_ok c ?region w (execution_mask (snd sys1 ! c)) True True sys1 = (M, sys2)"
    by (metis surj_pair)
  have eq: "propagate_ci push_ok c w sys = publish c (ucast M) False sys2"
    using propagate_frame [OF assms(1,3) thread_frame_tag(1) [OF assms(4)]] inv assms(5-7) s1(4)
      thread_frame_command_path [OF s1(1) assms(4), of push_ok ?region]
    by (simp add: sys1_def [symmetric] publish_invoked_def)
  have len: "length (ch_dpus (snd sys1 ! c)) = kChipNumDpus" using assms(2) s1(2) by simp
  note d = invoke_direct [OF s1(1) len le_refl inv [unfolded invoke_selected_handlers_def]]
  obtain ds where sys2: "sys2 = upd_chip c (\<lambda>ch. ch\<lparr>ch_dpus := ds\<rparr>) sys1"
    and ds: "\<forall>i < 8. ds ! i = (let d = ch_dpus (snd sys1 ! c) ! i in
      if i < kChipNumDpus \<and> bit (execution_mask (snd sys1 ! c)) i \<and> mram_ready d then control_ref w d else d)"
    using d(2) by blast
  have sel: "bit (execution_mask (snd sys1 ! c)) i \<and> mram_ready (ch_dpus (snd sys ! c) ! i) \<longleftrightarrow>
      bit (cs_selected_mask (chip_state (snd sys ! c))) i \<and> mram_ready (ch_dpus (snd sys ! c) ! i)" if "i < kChipNumDpus" for i
    using execution_mask_ready [OF that, of "snd sys1 ! c"] s1(2,4) by simp
  show "ch_dpus (snd (propagate_ci push_ok c w sys) ! c) ! i = (let d = ch_dpus (snd sys ! c) ! i in
      if bit (cs_selected_mask (chip_state (snd sys ! c))) i \<and> mram_ready d then thread_command k t d else d)"
    if "i < kChipNumDpus" for i
    using that s1(1,2) ds sel [OF that] control_thread_command [OF assms(4)] by (simp add: eq sys2 Let_def)
  show "bit (cs_dispatched_payload (chip_state (snd (propagate_ci push_ok c w sys) ! c))) i \<longleftrightarrow>
      bit (cs_selected_mask (chip_state (snd sys ! c))) i \<and> mram_ready (ch_dpus (snd sys ! c) ! i)" if "i < kChipNumDpus" for i
    using that s1(1,2) d(1) sel [OF that] by (simp add: eq sys2 set_dispatched_result_def bit_ucast_iff)
  show "snd (propagate_ci push_ok c w sys) ! c' = snd sys ! c'" if "c' \<noteq> c" for c'
    using that by (simp add: eq sys2 sys1_def publish_def)
  show "fst (propagate_ci push_ok c w sys) = fst sys" by (simp add: eq sys2 sys1_def publish_def)
qed

end
