(* ===== verification/Mmio_Props.thy ===== *)
theory Mmio_Props
  imports Mmio
begin

text \<open>
  Facts on registers and handler tables: what a read returns after a write, when the cached value of a
  register agrees with its bytes, and the invariant of the handler tables.
\<close>

section \<open>Bytes and registers\<close>

lemma mem_get_put_same [simp]: "n = length bs \<Longrightarrow> mem_get (mem_put a bs mem) a n = bs"
  by (intro nth_equalityI) (simp_all add: mem_get_def mem_put_def)

lemma mem_get_put_disjoint:
  "b + n \<le> a \<or> a + length bs \<le> b \<Longrightarrow> mem_get (mem_put a bs mem) b n = mem_get mem b n"
  by (auto simp: mem_get_def mem_put_def)

lemma bit_load_loop:
  "bit (foldl (\<lambda>loaded i. loaded OR push_bit (i * 8) (ucast (f i :: u8))) (0 :: u64) [0..<n]) k \<longleftrightarrow>
     k < 64 \<and> k < 8 * n \<and> bit (f (k div 8)) (k mod 8)"
proof (induction n)
  case (Suc n)
  show ?case
  proof (cases "k < 8 * n \<or> 8 * n + 8 \<le> k")
    case True
    then show ?thesis
      using Suc by (auto simp: bit_or_iff bit_push_bit_iff bit_ucast_iff dest: bit_imp_le_length)
  next
    case False
    then obtain j where j: "k = 8 * n + j" "j < 8" by (metis add_diff_inverse_nat nat_add_left_cancel_less not_le)
    then have "k div 8 = n" "k mod 8 = j" by simp_all
    with j Suc show ?thesis
      by (auto simp: bit_or_iff bit_push_bit_iff bit_ucast_iff algebra_simps)
  qed
qed simp

lemma pim_load_register_u64_eq:
  "pim_load_register_u64 mem a n =
     (if pim_is_supported_register_size n then Some (le_word (mem_get mem a n)) else None)"
proof -
  have "foldl (\<lambda>loaded i. loaded OR push_bit (i * 8) (ucast (mem (a + i)))) 0 [0..<n] =
      (le_word (mem_get mem a n) :: u64)"
    by (rule bit_eqI) (auto simp: bit_load_loop bit_le_word mem_get_def)
  then show ?thesis by (simp add: pim_load_register_u64_def)
qed

lemma le_word_le_bytes_take:
  "le_word (le_bytes n (w :: u64)) = take_bit (8 * n) w"
proof (rule bit_word_eqI)
  fix i assume "i < LENGTH(64)"
  moreover have "8 * (i div 8) + i mod 8 = i" by simp
  moreover have "i < 8 * n \<longleftrightarrow> i div 8 < n" by auto
  ultimately show "bit (le_word (le_bytes n w) :: u64) i = bit (take_bit (8 * n) w) i"
    by (auto simp: bit_le_word bit_take_bit_iff bit_ucast_iff bit_drop_bit_eq)
qed

lemma register_value_mask:
  "pim_is_supported_register_size n \<Longrightarrow> v AND pim_register_value_mask n = take_bit (8 * n) v"
  by (auto simp: pim_is_supported_register_size_def pim_register_value_mask_def take_bit_eq_mask
      mask_eq_exp_minus_1)

section \<open>Regions and their updates\<close>

lemma map_of_upd: "map_of (map (\<lambda>e. if fst e = k then (fst e, f (snd e)) else e) xs) k' =
    (if k' = k then map_option f (map_of xs k) else map_of xs k')"
  by (induction xs) auto

lemma map_of_upd_region [simp]:
  "map_of (dv_regions (upd_region off f dev)) k =
     (if k = off then map_option f (map_of (dv_regions dev) off) else map_of (dv_regions dev) k)"
  by (simp add: upd_region_def map_of_upd)

lemma find_region_upd [simp]:
  "find_region region (upd_region off f dev) =
     (if region = Some off then map_option f (find_region region dev) else find_region region dev)"
  by (cases region) (simp_all add: find_region_def upd_region_def map_of_upd)

lemma upd_region_frame [simp]:
  "dv_mem (upd_region off f dev) = dv_mem dev"
  "dv_size (upd_region off f dev) = dv_size dev"
  "dv_pool_running (upd_region off f dev) = dv_pool_running dev"
  "dv_task_queue (upd_region off f dev) = dv_task_queue dev"
  "dv_in_flight (upd_region off f dev) = dv_in_flight dev"
  "dv_sigsegv_enabled (upd_region off f dev) = dv_sigsegv_enabled dev"
  "dv_handler_pool (upd_region off f dev) = dv_handler_pool dev"
  "dv_max_active_dpus (upd_region off f dev) = dv_max_active_dpus dev"
  "dv_teardown_in_progress (upd_region off f dev) = dv_teardown_in_progress dev"
  "dv_monitor_running (upd_region off f dev) = dv_monitor_running dev"
  "dv_sigsegv_transition_in_progress (upd_region off f dev) = dv_sigsegv_transition_in_progress dev"
  by (simp_all add: upd_region_def)

lemma put_mem_frame [simp]:
  "dv_mem (put_mem a bs dev) = mem_put a bs (dv_mem dev)"
  "dv_regions (put_mem a bs dev) = dv_regions dev"
  "find_region region (put_mem a bs dev) = find_region region dev"
  "dv_sigsegv_enabled (put_mem a bs dev) = dv_sigsegv_enabled dev"
  by (simp_all add: put_mem_def find_region_def)

text \<open>What a write may change of a region: its cached values and the dispatch counter.\<close>

definition same_shape :: "'h pim_region option \<Rightarrow> 'h pim_region option \<Rightarrow> bool" where
  "same_shape r r' \<longleftrightarrow>
     map_option (\<lambda>r. (rg_offset r, rg_size r, rg_type r)) r = map_option (\<lambda>r. (rg_offset r, rg_size r, rg_type r)) r'"

lemma find_region_write_raw:
  "same_shape (find_region region (write_raw_atomic n off offset v a dev)) (find_region region dev)"
  by (auto simp: same_shape_def write_raw_atomic_def write_register_def dispatch_enter_def dispatch_leave_def
      upd_entry_def Let_def option.map_comp comp_def)

lemma dv_mem_write_raw: "dv_mem (write_raw_atomic n off offset v a dev) = mem_put a (le_bytes n v) (dv_mem dev)"
  by (simp add: write_raw_atomic_def write_register_def dispatch_enter_def dispatch_leave_def Let_def)

lemma get_typed_region_ptr_shape:
  "same_shape (find_region region dev) (find_region region dev') \<Longrightarrow>
   get_typed_region_ptr n region offset dev = get_typed_region_ptr n region offset dev'"
  by (cases "find_region region dev"; cases "find_region region dev'")
     (auto simp: same_shape_def get_typed_region_ptr_def check_bounds_def)

lemma get_typed_write_raw [simp]:
  "get_typed_region_ptr n region offset (write_raw_atomic m off o' v a dev) = get_typed_region_ptr n region offset dev"
  by (rule get_typed_region_ptr_shape [OF find_region_write_raw])

lemma get_typed_region_ptr_error: "get_typed_region_ptr n region offset dev = Inl e \<Longrightarrow> e = PIM_ERR_INVALID_ARG"
  by (auto simp: get_typed_region_ptr_def split: option.splits if_splits)

lemma write_raw_SuccessE:
  assumes "pim_write_raw run region offset n v sys = (PIM_SUCCESS, sys')"
  obtains a where "pim_is_supported_access_size n" "get_typed_region_ptr n region offset (fst sys) = Inr a"
    "sys' = apfst (write_raw_atomic n (the region) offset (take_bit (8 * n) v) a) sys"
  using assms
  by (auto simp: pim_write_raw_def write_sized_value_def write_typed_value_def
      split: if_splits sum.splits dest: get_typed_region_ptr_error)

lemma pim_read_write_raw:
  assumes "pim_write_raw run region offset n v sys = (PIM_SUCCESS, sys')"
  shows "pim_read region offset n (fst sys') = Inr (take_bit (8 * n) v)"
  using assms
  by (elim write_raw_SuccessE)
     (simp add: pim_read_def read_sized_value_def read_typed_value_def dv_mem_write_raw le_word_le_bytes_take)

lemma pim_read_write_raw_other:
  assumes "pim_write_raw run (Some off) offset n v sys = (PIM_SUCCESS, sys')"
    and "offset + n \<le> offset' \<or> offset' + m \<le> offset"
  shows "pim_read (Some off) offset' m (fst sys') = pim_read (Some off) offset' m (fst sys)"
proof (cases "get_typed_region_ptr m (Some off) offset' (fst sys)")
  case (Inl err)
  with assms(1) show ?thesis
    by (elim write_raw_SuccessE) (simp add: pim_read_def read_sized_value_def read_typed_value_def)
next
  case (Inr b)
  obtain a where a: "get_typed_region_ptr n (Some off) offset (fst sys) = Inr a"
    and sys': "sys' = apfst (write_raw_atomic n off offset (take_bit (8 * n) v) a) sys"
    using assms(1) by (elim write_raw_SuccessE) simp
  have "b + m \<le> a \<or> a + n \<le> b"
    using a Inr assms(2) by (auto simp: get_typed_region_ptr_def split: option.splits if_splits)
  then show ?thesis
    using Inr by (simp add: sys' pim_read_def read_sized_value_def read_typed_value_def dv_mem_write_raw
        mem_get_put_disjoint)
qed

section \<open>Handler tables\<close>

definition lookup_handler :: "'h pim_region \<Rightarrow> nat \<Rightarrow> nat \<Rightarrow> 'h option" where
  "lookup_handler r offset depth =
     map_option he_handler (if depth = 0 then map_of (rg_handlers r) offset
                            else map_of (rg_nested_handlers r) (offset, depth))"

text \<open>Both tables of a region as one, keyed by offset and depth.\<close>

definition handler_table :: "'h pim_region \<Rightarrow> ((nat \<times> nat) \<times> 'h dpu_handler_entry) list" where
  "handler_table r = map (\<lambda>(k, e). ((k, 0), e)) (rg_handlers r) @ rg_nested_handlers r"

definition entry_ok :: "nat \<Rightarrow> (nat \<times> nat) \<times> 'h dpu_handler_entry \<Rightarrow> bool" where
  "entry_ok sz e \<longleftrightarrow> pim_is_supported_register_size (he_register_size (snd e)) \<and>
     is_aligned (fst (fst e)) (he_register_size (snd e)) \<and> fst (fst e) + he_register_size (snd e) \<le> sz \<and>
     he_depth (snd e) = snd (fst e)"

definition entries_apart :: "(nat \<times> nat) \<times> 'h dpu_handler_entry \<Rightarrow> (nat \<times> nat) \<times> 'h dpu_handler_entry \<Rightarrow> bool" where
  "entries_apart d e \<longleftrightarrow> fst d = fst e \<or> snd (fst d) \<noteq> snd (fst e) \<or>
     \<not> overlap (fst (fst d)) (he_register_size (snd d)) (fst (fst e)) (he_register_size (snd e))"

definition wf_handlers :: "'h pim_region \<Rightarrow> bool" where
  "wf_handlers r \<longleftrightarrow> distinct (map fst (rg_handlers r)) \<and> distinct (map fst (rg_nested_handlers r)) \<and>
     (\<forall>e \<in> set (rg_nested_handlers r). snd (fst e) \<noteq> 0) \<and>
     (\<forall>e \<in> set (handler_table r). entry_ok (rg_size r) e) \<and>
     (\<forall>d \<in> set (handler_table r). \<forall>e \<in> set (handler_table r). entries_apart d e)"

lemma wf_handlers_new_region [wf_intros]: "wf_handlers (new_region offset sz ps type)"
  by (simp add: wf_handlers_def new_region_def handler_table_def)

lemma set_update: "set (AList.update k v xs) \<subseteq> insert (k, v) (set xs)"
  by (induction xs) auto

lemma overlap_sym: "overlap a m b n \<longleftrightarrow> overlap b n a m"
  by (auto simp: overlap_def)

lemma in_handler_table:
  "((o', d), e) \<in> set (handler_table r) \<longleftrightarrow>
     d = 0 \<and> (o', e) \<in> set (rg_handlers r) \<or> ((o', d), e) \<in> set (rg_nested_handlers r)"
  by (auto simp: handler_table_def)

lemma overlaps_handler_table:
  assumes "\<forall>e \<in> set (rg_nested_handlers r). snd (fst e) \<noteq> 0"
  shows "overlaps_handler offset depth n r \<longleftrightarrow>
    (\<exists>e \<in> set (handler_table r). snd (fst e) = depth \<and> overlap offset n (fst (fst e)) (he_register_size (snd e)))"
proof (cases "depth = 0")
  case True
  then show ?thesis using assms by (force simp: overlaps_handler_def handler_table_def list_ex_iff)
next
  case False
  then show ?thesis by (force simp: overlaps_handler_def handler_table_def list_ex_iff)
qed

lemma wf_handlers_insert:
  assumes "wf_handlers r" and "\<not> overlaps_handler offset depth (he_register_size e) r"
    and "entry_ok (rg_size r) ((offset, depth), e)"
  shows "wf_handlers (insert_handler offset depth e r)"
proof -
  let ?x = "((offset, depth), e)" and ?r = "insert_handler offset depth e r"
  have sub: "set (handler_table ?r) \<subseteq> insert ?x (set (handler_table r))"
    using set_update [of offset e "rg_handlers r"] set_update [of "(offset, depth)" e "rg_nested_handlers r"]
    by (auto simp: insert_handler_def handler_table_def)
  have apart: "entries_apart ?x d \<and> entries_apart d ?x" if "d \<in> set (handler_table r)" for d
    using that assms(1,2) overlaps_handler_table [of r offset depth "he_register_size e"]
    by (auto simp: entries_apart_def wf_handlers_def overlap_sym)
  have "\<forall>d \<in> set (handler_table ?r). entry_ok (rg_size ?r) d"
    using sub assms(1,3) by (auto simp: wf_handlers_def insert_handler_def)
  moreover have "\<forall>d \<in> set (handler_table ?r). \<forall>d' \<in> set (handler_table ?r). entries_apart d d'"
  proof (intro ballI)
    fix d d' assume "d \<in> set (handler_table ?r)" "d' \<in> set (handler_table ?r)"
    then have "d = ?x \<or> d \<in> set (handler_table r)" "d' = ?x \<or> d' \<in> set (handler_table r)" using sub by auto
    then show "entries_apart d d'"
      using apart [of d] apart [of d'] assms(1) by (auto simp: wf_handlers_def) (simp add: entries_apart_def)
  qed
  moreover have "distinct (map fst (rg_handlers ?r))" "distinct (map fst (rg_nested_handlers ?r))"
    using assms(1) by (auto simp: insert_handler_def wf_handlers_def distinct_update)
  moreover have "\<forall>d \<in> set (rg_nested_handlers ?r). snd (fst d) \<noteq> 0"
  proof (cases "depth = 0")
    case True
    then show ?thesis using assms(1) by (simp add: insert_handler_def wf_handlers_def)
  next
    case False
    then have "\<forall>d \<in> insert ?x (set (rg_nested_handlers r)). snd (fst d) \<noteq> 0"
      using assms(1) by (simp add: wf_handlers_def)
    with False set_update [of "(offset, depth)" e "rg_nested_handlers r"] show ?thesis
      unfolding insert_handler_def by (auto simp del: neq0_conv)
  qed
  ultimately show ?thesis unfolding wf_handlers_def by blast
qed

lemma register_SomeE:
  assumes "pim_register_dpu_handler ok region offset depth n h dev = (PIM_SUCCESS, dev')"
  obtains off r h' where "region = Some off" "find_region region dev = Some r" "h = Some h'"
    "rg_type r = PIM_REGION_CTRL_MMIO" "pim_is_supported_register_size n" "is_aligned offset n"
    "offset + n \<le> rg_size r" "rg_active_dispatch_ops r = 0" "\<not> overlaps_handler offset depth n r"
    "dev' = upd_region off (insert_handler offset depth
       \<lparr>he_handler = h', he_last_value = le_word (mem_get (dv_mem dev) (rg_offset r + offset) n),
        he_write_seq = 0, he_register_size = n, he_depth = depth\<rparr>) dev"
proof -
  obtain off where region: "region = Some off" using assms by (auto simp: pim_register_dpu_handler_def split: option.splits)
  obtain r where r: "find_region region dev = Some r"
    using assms region by (auto simp: pim_register_dpu_handler_def split: option.splits)
  obtain h' where h: "h = Some h'" using assms region r by (auto simp: pim_register_dpu_handler_def split: option.splits)
  show ?thesis
    using assms that [OF region r h]
    unfolding region r h pim_register_dpu_handler_def validate_mmio_handler_target_def
      validate_handler_table_mutation_state_locked_def pim_load_register_u64_eq
    by (auto simp: r [unfolded region] split: if_splits)
qed

definition wf_device_handlers :: "'h pim_device \<Rightarrow> bool" where
  "wf_device_handlers dev \<longleftrightarrow> (\<forall>e \<in> set (dv_regions dev). wf_handlers (snd e))"

lemma wf_register:
  assumes "wf_device_handlers dev" and "distinct (map fst (dv_regions dev))"
  shows "wf_device_handlers (snd (pim_register_dpu_handler ok region offset depth n h dev))"
proof (cases "fst (pim_register_dpu_handler ok region offset depth n h dev) = PIM_SUCCESS")
  case True
  then obtain dev' where dev': "pim_register_dpu_handler ok region offset depth n h dev = (PIM_SUCCESS, dev')"
    by (metis prod.collapse)
  from register_SomeE [OF this] show ?thesis
  proof cases
    case (1 off r h')
    have "map_of (dv_regions dev) off = Some r" using 1 by (simp add: find_region_def)
    then have same: "snd e = r" if "e \<in> set (dv_regions dev)" "fst e = off" for e
      using that assms(2) by (metis map_of_is_SomeI prod.collapse option.inject)
    show ?thesis
      unfolding dev' wf_device_handlers_def
    proof
      fix e assume "e \<in> set (dv_regions (snd (PIM_SUCCESS, dev')))"
      then have "e \<in> (\<lambda>d. if fst d = off then (fst d, insert_handler offset depth
           \<lparr>he_handler = h', he_last_value = le_word (mem_get (dv_mem dev) (rg_offset r + offset) n),
            he_write_seq = 0, he_register_size = n, he_depth = depth\<rparr> (snd d)) else d) ` set (dv_regions dev)"
        using 1 by (simp add: upd_region_def)
      then show "wf_handlers (snd e)"
      proof (rule imageE)
        fix d assume d: "d \<in> set (dv_regions dev)" and e: "e = (if fst d = off then (fst d, insert_handler offset depth
           \<lparr>he_handler = h', he_last_value = le_word (mem_get (dv_mem dev) (rg_offset r + offset) n),
            he_write_seq = 0, he_register_size = n, he_depth = depth\<rparr> (snd d)) else d)"
        show "wf_handlers (snd e)"
          using assms(1) d same [OF d] 1 unfolding e
          by (auto simp: wf_device_handlers_def entry_ok_def intro!: wf_handlers_insert)
      qed
    qed
  qed
next
  case False
  then have "snd (pim_register_dpu_handler ok region offset depth n h dev) = dev"
    by (auto simp: pim_register_dpu_handler_def split: option.splits if_splits)
  with assms(1) show ?thesis by simp
qed

lemma wf_handlers_mono:
  assumes "wf_handlers r" and "set (handler_table r') \<subseteq> set (handler_table r)" and "rg_size r' = rg_size r"
    and "set (rg_nested_handlers r') \<subseteq> set (rg_nested_handlers r)"
    and "distinct (map fst (rg_handlers r'))" and "distinct (map fst (rg_nested_handlers r'))"
  shows "wf_handlers r'"
  using assms unfolding wf_handlers_def by (metis (no_types, opaque_lifting) subset_iff)

lemma set_delete: "set (AList.delete k xs) \<subseteq> set xs"
  by (auto simp: AList.delete_eq)

lemma wf_handlers_delete:
  assumes "wf_handlers r"
  shows "wf_handlers (r\<lparr>rg_handlers := AList.delete k (rg_handlers r)\<rparr>)"
    and "wf_handlers (r\<lparr>rg_nested_handlers := AList.delete k' (rg_nested_handlers r)\<rparr>)"
proof -
  have d: "distinct (map fst (rg_handlers r))" "distinct (map fst (rg_nested_handlers r))"
    using assms by (simp_all add: wf_handlers_def)
  show "wf_handlers (r\<lparr>rg_handlers := AList.delete k (rg_handlers r)\<rparr>)"
    by (rule wf_handlers_mono [OF assms])
       (use d set_delete [of k "rg_handlers r"] in \<open>auto simp: handler_table_def distinct_delete\<close>)
  show "wf_handlers (r\<lparr>rg_nested_handlers := AList.delete k' (rg_nested_handlers r)\<rparr>)"
    by (rule wf_handlers_mono [OF assms])
       (use d set_delete [of k' "rg_nested_handlers r"] in \<open>auto simp: handler_table_def distinct_delete\<close>)
qed

lemma wf_unregister:
  assumes "wf_device_handlers dev"
  shows "wf_device_handlers (snd (pim_unregister_dpu_handler region offset depth dev))"
  using assms
  by (auto simp: pim_unregister_dpu_handler_def wf_device_handlers_def upd_region_def wf_handlers_delete
      split: option.split)

lemma lookup_insert:
  "lookup_handler (insert_handler offset depth e r) o' d' =
     (if o' = offset \<and> d' = depth then Some (he_handler e) else lookup_handler r o' d')"
  by (auto simp: lookup_handler_def insert_handler_def update_conv)

text \<open>A write of the whole register leaves the cached value equal to the bytes in memory, so that the monitor
  sees no change; a narrower write does so only when the other bytes are zero.\<close>

definition cached_entry :: "nat option \<Rightarrow> nat \<Rightarrow> 'h pim_device \<Rightarrow> 'h dpu_handler_entry option" where
  "cached_entry region offset dev = Option.bind (find_region region dev) (\<lambda>r. map_of (rg_handlers r) offset)"

lemma map_of_map_entry: "map_of (AList.map_entry k f xs) k = map_option f (map_of xs k)"
  by (induction xs) auto

lemma cached_entry_upd [simp]:
  "cached_entry (Some off) offset (upd_region off (upd_entry offset f) dev) =
     map_option f (cached_entry (Some off) offset dev)"
  by (cases "find_region (Some off) dev") (simp_all add: cached_entry_def upd_entry_def map_of_map_entry)

lemma cached_entry_frame [simp]:
  "cached_entry (Some off) offset (put_mem a bs dev) = cached_entry (Some off) offset dev"
  "cached_entry (Some off) offset (dispatch_enter off dev) = cached_entry (Some off) offset dev"
  "cached_entry (Some off) offset (dispatch_leave off dev) = cached_entry (Some off) offset dev"
  by (cases "find_region (Some off) dev"; simp add: cached_entry_def dispatch_enter_def dispatch_leave_def)+

lemma cached_entry_write_raw:
  assumes "validate_mmio_handler_target dev (Some off) = PIM_SUCCESS" and "\<not> dv_sigsegv_enabled dev"
  shows "cached_entry (Some off) offset (write_raw_atomic n off offset v a dev) =
    map_option (mark_write \<circ> store_last_value v \<circ> mark_write) (cached_entry (Some off) offset dev)"
proof -
  obtain r where "map_of (dv_regions dev) off = Some r" "rg_type r = PIM_REGION_CTRL_MMIO"
    using assms(1) by (auto simp: validate_mmio_handler_target_def find_region_def split: option.splits if_splits)
  then have "(case map_of (dv_regions (dispatch_enter off dev)) off of
      None \<Rightarrow> False | Some r \<Rightarrow> rg_type r = PIM_REGION_CTRL_MMIO)"
    by (simp add: dispatch_enter_def)
  moreover have "dv_sigsegv_enabled (dispatch_enter off dev) = dv_sigsegv_enabled dev"
    by (simp add: dispatch_enter_def)
  ultimately show ?thesis
    using assms(2) by (simp add: write_raw_atomic_def write_register_def Let_def option.map_comp comp_def)
qed

lemma cached_value_after_write:
  assumes "pim_write_raw run (Some off) offset n v sys = (PIM_SUCCESS, sys')"
    and "validate_mmio_handler_target (fst sys) (Some off) = PIM_SUCCESS" and "\<not> dv_sigsegv_enabled (fst sys)"
    and "cached_entry (Some off) offset (fst sys) = Some e" and "pim_is_supported_register_size (he_register_size e)"
    and "n \<le> he_register_size e"
  shows "\<exists>e'. cached_entry (Some off) offset (fst sys') = Some e' \<and> he_last_value e' = take_bit (8 * n) v \<and>
    he_write_seq e' = he_write_seq e + 2 \<and> he_register_size e' = he_register_size e \<and> he_handler e' = he_handler e"
  using assms(1)
proof (rule write_raw_SuccessE)
  fix a assume "sys' = apfst (write_raw_atomic n (the (Some off)) offset (take_bit (8 * n) v) a) sys"
  moreover have "take_bit (8 * he_register_size e) (take_bit (8 * n) v) = take_bit (8 * n) v"
    using assms(6) by (simp add: min_def)
  ultimately show ?thesis
    using cached_entry_write_raw [OF assms(2,3), of offset n "take_bit (8 * n) v" a] assms(4,5)
    by (simp add: mark_write_def store_last_value_def register_value_mask)
qed

lemma register_lookup:
  assumes "pim_register_dpu_handler ok (Some off) offset depth n (Some h) dev = (err, dev')"
    and "find_region (Some off) dev = Some r"
  shows "\<exists>r'. find_region (Some off) dev' = Some r' \<and>
    (\<forall>o' d'. lookup_handler r' o' d' =
       (if err = PIM_SUCCESS \<and> o' = offset \<and> d' = depth then Some h else lookup_handler r o' d'))"
proof (cases "err = PIM_SUCCESS")
  case True
  show ?thesis
    by (rule register_SomeE [OF assms(1) [unfolded True]]) (use True assms(2) in \<open>auto simp: lookup_insert\<close>)
next
  case False
  then have "dev' = dev"
    using assms by (auto simp: pim_register_dpu_handler_def split: if_splits option.splits)
  with False assms(2) show ?thesis by simp
qed

lemma lookup_delete:
  "lookup_handler (r\<lparr>rg_handlers := AList.delete offset (rg_handlers r)\<rparr>) o' d' =
     (if o' = offset \<and> d' = 0 then None else lookup_handler r o' d')"
  "k \<noteq> 0 \<Longrightarrow> lookup_handler (r\<lparr>rg_nested_handlers := AList.delete (offset, k) (rg_nested_handlers r)\<rparr>) o' d' =
     (if o' = offset \<and> d' = k then None else lookup_handler r o' d')"
  by (auto simp: lookup_handler_def delete_conv)

lemma unregister_lookup:
  assumes "pim_unregister_dpu_handler (Some off) offset depth dev = (err, dev')"
    and "find_region (Some off) dev = Some r"
  shows "\<exists>r'. find_region (Some off) dev' = Some r' \<and>
    (\<forall>o' d'. lookup_handler r' o' d' =
       (if err = PIM_SUCCESS \<and> o' = offset \<and> d' = depth then None else lookup_handler r o' d'))"
  using assms
  by (auto simp: pim_unregister_dpu_handler_def lookup_delete split: if_splits option.splits)

section \<open>Narrow writes\<close>

lemma le_word_append:
  "le_word (xs @ ys) = (le_word xs OR push_bit (8 * length xs) (le_word ys) :: u64)"
proof (induction xs)
  case (Cons x xs)
  then show ?case by (simp add: push_bit_or or.assoc push_bit_push_bit)
qed simp

lemma le_word_zero_iff: "length ys \<le> 8 \<Longrightarrow> (le_word ys :: u64) = 0 \<longleftrightarrow> (\<forall>y \<in> set ys. y = 0)"
proof
  assume "length ys \<le> 8" "(le_word ys :: u64) = 0"
  then have "ys = le_bytes (length ys) (0 :: u64)" using le_bytes_le_word [of ys "length ys", where ?'a = 64] by simp
  then show "\<forall>y \<in> set ys. y = 0" by (metis (no_types, lifting) le_bytes_def imageE set_map drop_bit_of_0 unsigned_0)
next
  assume "\<forall>y \<in> set ys. y = 0"
  then show "(le_word ys :: u64) = 0" by (induction ys) simp_all
qed

lemma mem_get_put_prefix:
  assumes "n \<le> R" and "length bs = n"
  shows "mem_get (mem_put a bs mem) a R = bs @ mem_get mem (a + n) (R - n)"
  using assms by (intro nth_equalityI) (auto simp: mem_get_def mem_put_def nth_append)

lemma register_after_narrow_write:
  assumes "n \<le> R" and "R \<le> 8"
  shows "le_word (mem_get (mem_put a (le_bytes n (take_bit (8 * n) v)) mem) a R) = (take_bit (8 * n) v :: u64) \<longleftrightarrow>
    (\<forall>i. n \<le> i \<and> i < R \<longrightarrow> mem (a + i) = 0)"
proof -
  let ?ys = "mem_get mem (a + n) (R - n)"
  have "le_word (mem_get (mem_put a (le_bytes n (take_bit (8 * n) v)) mem) a R) =
      take_bit (8 * n) v OR push_bit (8 * n) (le_word ?ys)"
    using assms(1) by (simp add: mem_get_put_prefix le_word_append le_word_le_bytes_take)
  moreover have "take_bit (8 * n) v OR push_bit (8 * n) (le_word ?ys) = take_bit (8 * n) v \<longleftrightarrow> (le_word ?ys :: u64) = 0"
  proof
    assume eq: "take_bit (8 * n) v OR push_bit (8 * n) (le_word ?ys) = take_bit (8 * n) v"
    show "(le_word ?ys :: u64) = 0"
    proof (rule bit_eqI)
      fix i
      have "bit (take_bit (8 * n) v OR push_bit (8 * n) (le_word ?ys)) (8 * n + i) = bit (take_bit (8 * n) v) (8 * n + i)"
        by (simp only: eq)
      then have "\<not> (8 * n + i < 64 \<and> bit (le_word ?ys :: u64) i)"
        by (auto simp: bit_or_iff bit_push_bit_iff bit_take_bit_iff)
      moreover have "i < 8 * (R - n)" if "bit (le_word ?ys :: u64) i" using that by (simp add: bit_le_word mem_get_def)
      ultimately show "bit (le_word ?ys :: u64) i = bit 0 i" using assms by auto
    qed
  qed simp
  moreover have "(\<forall>y \<in> set ?ys. y = 0) \<longleftrightarrow> (\<forall>i. n \<le> i \<and> i < R \<longrightarrow> mem (a + i) = 0)"
  proof -
    have "set ?ys = (\<lambda>i. mem (a + (n + i))) ` {0..<R - n}" by (simp add: mem_get_def add.assoc)
    also have "\<dots> = (\<lambda>i. mem (a + i)) ` ((+) n ` {0..<R - n})" by (simp only: image_image)
    also have "(+) n ` {0..<R - n} = {n..<R}" using assms(1) by simp
    finally have "set ?ys = (\<lambda>i. mem (a + i)) ` {n..<R}" .
    then show ?thesis by auto
  qed
  moreover have "length ?ys \<le> 8" using assms by (simp add: mem_get_def)
  ultimately show ?thesis using le_word_zero_iff [of ?ys] by simp
qed

section \<open>Page ranges\<close>

lemma unat_less_64: "unat (x :: u64) < 18446744073709551616"
  using unsigned_less [of x, where ?'a = nat] by simp

lemma unat_from_max: "unat (0xFFFFFFFFFFFFFFFF - x :: u64) = 18446744073709551615 - unat x"
  using unat_less_64 [of x] by (subst unat_sub) (simp_all add: word_le_nat_alt)

lemma power_of_two_test:
  fixes p :: u64
  assumes "p \<noteq> 0" and "p AND (p - 1) = 0"
  shows "\<exists>k < 64. p = 2 ^ k \<and> unat p = 2 ^ k"
proof -
  have pos: "1 \<le> unat p" using assms(1) by (simp add: Suc_le_eq unat_gt_0)
  obtain k where k: "2 ^ k \<le> unat p" "unat p < 2 ^ Suc k"
    using ex_power_ivl1 [of 2 "unat p"] pos by auto
  have "(2::nat) ^ k < 2 ^ 64" using k(1) unat_less_64 [of p] by simp
  then have "k < 64" by (simp only: power_strict_increasing_iff)
  have "unat p = 2 ^ k"
  proof (rule ccontr)
    assume "unat p \<noteq> 2 ^ k"
    then have *: "2 ^ k \<le> unat p - 1" "unat p - 1 < 2 ^ Suc k" using k by auto
    have "unat p div 2 ^ k = 1" "(unat p - 1) div 2 ^ k = 1"
      using k * by (auto intro!: div_nat_eqI)
    then have "bit (unat p) k" "bit (unat p - 1) k" by (simp_all add: bit_iff_odd)
    moreover have "unat (p - 1) = unat p - 1" using assms(1) by (simp add: unat_minus_one)
    ultimately have "bit p k" "bit (p - 1) k" by (metis bit_unsigned_iff)+
    then show False using assms(2) by (metis bit_and_iff bit_0_eq bot_apply bot_bool_def)
  qed
  moreover have "p = of_nat (unat p)" by simp
  ultimately have "p = 2 ^ k" by (simp only: of_nat_power of_nat_numeral)
  with \<open>k < 64\<close> \<open>unat p = 2 ^ k\<close> show ?thesis by blast
qed

lemma unat_and_not_mask: "unat (x AND NOT (2 ^ k - 1)) = 2 ^ k * (unat (x :: u64) div 2 ^ k)"
proof -
  have "unat (x AND NOT (2 ^ k - 1)) = push_bit k (drop_bit k (unat x))"
    by (rule bit_eqI)
       (auto simp: bit_unsigned_iff bit_and_iff bit_not_iff bit_push_bit_iff_nat bit_drop_bit_eq
          mask_eq_exp_minus_1 [symmetric] bit_mask_iff dest: bit_imp_le_length simp del: push_bit_of_Suc_0)
  then show ?thesis by (simp add: push_bit_eq_mult drop_bit_eq_div)
qed

lemma page_range:
  assumes "pim_region_page_aligned_range addr sz ps = Some (start, len)"
  shows "\<exists>k < 64. ps = 2 ^ k" and "unat ps dvd unat start" and "unat ps dvd unat len"
    and "unat start \<le> unat addr" and "unat addr < unat start + unat ps"
    and "unat addr + unat sz \<le> unat start + unat len" and "unat start + unat len < unat addr + unat sz + unat ps"
    and "unat start + unat len \<le> 2 ^ 64 - 1"
proof -
  let ?e = "addr + sz" and ?m = "NOT (ps - 1)"
  have c: "sz \<noteq> 0" "ps \<noteq> 0" "ps AND (ps - 1) = 0" "sz \<le> 0xFFFFFFFFFFFFFFFF - addr"
    "?e \<le> 0xFFFFFFFFFFFFFFFF - (ps - 1)" "start = addr AND ?m" "len = ((?e + ps - 1) AND ?m) - start"
    "start \<le> (?e + ps - 1) AND ?m"
    using assms by (auto simp: pim_region_page_aligned_range_def Let_def not_less split: if_splits)
  obtain k where k: "k < 64" "ps = 2 ^ k" and ps: "unat ps = 2 ^ k" using power_of_two_test [OF c(2,3)] by blast
  then show "\<exists>k < 64. ps = 2 ^ k" by blast
  have e: "unat ?e = unat addr + unat sz"
    using c(4) unat_less_64 [of addr] by (simp add: word_le_nat_alt unat_from_max unat_plus_if_size word_size)
  have e': "unat (?e + ps - 1) = unat addr + unat sz + 2 ^ k - 1"
  proof -
    have m: "unat (ps - 1) = 2 ^ k - 1" using c(2) ps by (simp add: unat_minus_one)
    have "unat ?e \<le> unat (0xFFFFFFFFFFFFFFFF - (ps - 1))" using c(5) unfolding word_le_nat_alt .
    then have "unat ?e + unat (ps - 1) < 18446744073709551616"
      unfolding unat_from_max using unat_less_64 [of "ps - 1"] by linarith
    then have "unat (?e + (ps - 1)) = unat ?e + unat (ps - 1)"
      by (simp add: unat_plus_if_size word_size)
    moreover have "?e + (ps - 1) = ?e + ps - 1" by (rule add_diff_eq)
    ultimately show ?thesis using m e by (metis Nat.add_diff_assoc one_le_numeral one_le_power)
  qed
  have start: "unat start = 2 ^ k * (unat addr div 2 ^ k)"
    unfolding c(6) k(2) by (rule unat_and_not_mask)
  have last: "unat ((?e + ps - 1) AND ?m) = 2 ^ k * ((unat addr + unat sz + 2 ^ k - 1) div 2 ^ k)"
    using unat_and_not_mask [of "?e + ps - 1" k] e' by (simp add: k(2))
  have sum: "unat start + unat len = unat ((?e + ps - 1) AND ?m)"
    using c(7,8) by (simp add: unat_sub word_le_nat_alt)
  show "unat ps dvd unat start" by (simp add: start ps)
  show "unat ps dvd unat len"
    using sum start last ps by (metis dvd_add_right_iff dvd_triv_left)
  show "unat start \<le> unat addr" by (simp add: start)
  show "unat addr < unat start + unat ps"
    unfolding start ps using dividend_less_times_div [of "2 ^ k" "unat addr"] by simp
  have two_pos: "0 < (2::nat) ^ k" by simp
  show "unat addr + unat sz \<le> unat start + unat len" "unat start + unat len < unat addr + unat sz + unat ps"
    unfolding sum last ps
    using dividend_less_times_div [OF two_pos, of "unat addr + unat sz + 2 ^ k - 1"] two_pos
      times_div_less_eq_dividend [of "2 ^ k" "unat addr + unat sz + 2 ^ k - 1"] by linarith+
  show "unat start + unat len \<le> 2 ^ 64 - 1"
    unfolding sum using unat_less_64 [of "(?e + ps - 1) AND ?m"] by simp
qed

end
