(* ===== verification/Rank.thy ===== *)
theory Rank
  imports Chip Mmio_Props
begin

text \<open>
  A rank of eight chips (\<open>class UPMEMPIMRank\<close> of \<open>upmem.cc\<close>): the resources a rank creates when they are
  first used, and the transfers between host buffers and the MRAM of its 64 DPUs.

  The state of a rank is its device and its chips; the device pointer is null only while the rank is
  being destroyed. What the operating system, the allocator and the environment of the process decide is
  collected in \<open>host_env\<close>; each decision may depend on the object it is about. A host buffer is its
  contents, \<open>None\<close> for the null pointer; destination buffers do not overlap.
\<close>

record host_env =
  os_page_size :: u64
  os_backing :: u64
  os_region_alloc_ok :: "nat \<Rightarrow> bool"
  os_table_alloc_ok :: "nat \<Rightarrow> bool"
  os_mprotect :: "u64 \<Rightarrow> u64 \<Rightarrow> int \<Rightarrow> bool"
  os_mram_mmap_ok :: "nat \<Rightarrow> bool"
  os_push_ok :: "nat \<Rightarrow> bool"
  os_hardware_concurrency :: u32
  os_spawn_ok :: bool
  os_pool_threads :: "string option"

definition kRankNumDpus :: nat where "kRankNumDpus = kRankNumBanks * kChipNumDpus"
definition kCtrlCiWordSize :: nat where "kCtrlCiWordSize = 8"
definition kCtrlMmioBase :: nat where "kCtrlMmioBase = 0x20000"
definition kCtrlRwBase :: nat where "kCtrlRwBase = 0x28000"
definition kRankApertureSizeBytes :: nat where
  "kRankApertureSizeBytes = kMramSizeBytes * kChipNumDpus * kRankNumBanks * 2"
definition kCiColorStateBase :: nat where "kCiColorStateBase = kRankApertureSizeBytes - kRankNumBanks"
definition kSparseTransferRequestMinBytes :: nat where "kSparseTransferRequestMinBytes = 64"
definition kSparseTransferRequestMinBanks :: nat where "kSparseTransferRequestMinBanks = 2"
definition kDefaultPoolThreads :: u32 where "kDefaultPoolThreads = 16"

lemmas rank_sizes [simp] = kRankNumDpus_def kCtrlCiWordSize_def kCtrlMmioBase_def kCtrlRwBase_def
  kRankApertureSizeBytes_def kCiColorStateBase_def kSparseTransferRequestMinBytes_def
  kSparseTransferRequestMinBanks_def

text \<open>A loop whose body may return early with an error.\<close>

primrec for_each :: "('a \<Rightarrow> 's \<Rightarrow> ('e + unit) \<times> 's) \<Rightarrow> 'a list \<Rightarrow> 's \<Rightarrow> ('e + unit) \<times> 's" where
  "for_each f [] s = (Inr (), s)"
| "for_each f (x # xs) s =
     (case f x s of (Inl e, s') \<Rightarrow> (Inl e, s') | (Inr _, s') \<Rightarrow> for_each f xs s')"

section \<open>Resources created on first use\<close>

definition initialize_ci_state_defaults :: "ci_state \<Rightarrow> ci_state" where
  "initialize_ci_state_defaults s =
     (let s = reset_protocol_state s;
          s = set_selected_mask 0xFF s;
          s = set_group_mask 0 0xFF s;
          s = fold (\<lambda>g. set_group_mask g 0) [1..<kCiNumGroupSlots] s;
          s = set_committed 0 s
      in store_updated 0 s)"

definition protect_region_rw :: "host_env \<Rightarrow> nat option \<Rightarrow> 'h pim_device \<Rightarrow> bool" where
  "protect_region_rw env region dev \<longleftrightarrow>
     region \<noteq> None \<and>
     pim_region_mprotect (os_mprotect env) (os_backing env) region PIM_ACCESS_MODE_RW dev = PIM_SUCCESS"

definition get_or_create_region ::
  "host_env \<Rightarrow> nat \<Rightarrow> nat \<Rightarrow> pim_region_type \<Rightarrow> 'h pim_device \<Rightarrow> nat option \<times> 'h pim_device" where
  "get_or_create_region env offset sz type dev =
     (if pim_device_get_region dev offset \<noteq> None then (Some offset, dev)
      else pim_region_create (os_page_size env) (os_region_alloc_ok env offset) offset sz type dev)"

definition register_worker ::
  "host_env \<Rightarrow> nat option \<Rightarrow> nat \<Rightarrow> nat \<Rightarrow> upmem_handler pim_device \<Rightarrow> (unit + unit) \<times> upmem_handler pim_device" where
  "register_worker env region ci_idx dpu_local dev =
     (let (worker_err, dev) = pim_register_dpu_handler (os_table_alloc_ok env (dpu_local + 1)) region 0
            (dpu_local + 1) kCtrlCiWordSize (Some (DpuHandler ci_idx)) dev
      in if worker_err = PIM_ERR_ALREADY_EXISTS then (Inr (), dev)
         else if worker_err \<noteq> PIM_SUCCESS then (Inl (), dev) else (Inr (), dev))"

definition set_read_region :: "nat option \<Rightarrow> chip \<Rightarrow> chip" where
  "set_read_region region ch = ch\<lparr>ch_ci := (ch_ci ch)\<lparr>ci_region_read := region\<rparr>\<rparr>"

definition set_write_region :: "nat option \<Rightarrow> chip \<Rightarrow> chip" where
  "set_write_region region ch = ch\<lparr>ch_ci := (ch_ci ch)\<lparr>ci_region_write := region\<rparr>\<rparr>"

definition try_lazy_populate_ci_bank :: "host_env \<Rightarrow> nat \<Rightarrow> upmem_sys \<Rightarrow> bool \<times> upmem_sys" where
  "try_lazy_populate_ci_bank env ci_idx sys =
     (if ci_idx \<ge> kRankNumBanks then (False, sys)
      else if ci_region_write (ch_ci (snd sys ! ci_idx)) \<noteq> None \<and> ci_region_read (ch_ci (snd sys ! ci_idx)) \<noteq> None
      then (True, sys)
      else
        let (mmio_region, dev) = get_or_create_region env (kCtrlMmioBase + ci_idx * kCtrlCiWordSize)
              kCtrlCiWordSize PIM_REGION_CTRL_MMIO (fst sys)
        in if \<not> protect_region_rw env mmio_region dev then (False, (dev, snd sys))
        else
          let (rw_region, dev) = get_or_create_region env (kCtrlRwBase + ci_idx * kCtrlCiWordSize)
                kCtrlCiWordSize PIM_REGION_CTRL_RW dev
          in if \<not> protect_region_rw env rw_region dev then (False, (dev, snd sys))
          else
            let sys = upd_chip ci_idx (set_read_region rw_region) (dev, snd sys);
                (reg_err, dev) = pim_register_dpu_handler (os_table_alloc_ok env 0) mmio_region 0 0
                  kCtrlCiWordSize (Some (MmioHandler ci_idx)) (fst sys)
            in if reg_err \<noteq> PIM_SUCCESS \<and> reg_err \<noteq> PIM_ERR_ALREADY_EXISTS then (False, (dev, snd sys))
            else
              let (registered, dev) = for_each (register_worker env mmio_region ci_idx) [0..<kChipNumDpus] dev
              in if registered = Inl () then (False, (dev, snd sys))
              else (True, upd_chip ci_idx (upd_state initialize_ci_state_defaults \<circ> set_write_region mmio_region)
                            (dev, snd sys)))"

text \<open>The address of the colour bytes in the device's memory, or null.\<close>

definition rank_ci_color_state :: "upmem_sys \<Rightarrow> nat option" where
  "rank_ci_color_state sys =
     (case pim_device_get_region (fst sys) kCiColorStateBase of
        None \<Rightarrow> None
      | Some r \<Rightarrow> if rg_size r < kRankNumBanks then None else Some (rg_offset r))"

definition try_lazy_populate_ci_color :: "host_env \<Rightarrow> upmem_sys \<Rightarrow> bool \<times> upmem_sys" where
  "try_lazy_populate_ci_color env sys =
     (let created = (pim_device_get_region (fst sys) kCiColorStateBase = None);
          (color_region, dev) =
            (if created
             then pim_region_create (os_page_size env) (os_region_alloc_ok env kCiColorStateBase)
                    kCiColorStateBase kRankNumBanks PIM_REGION_RAM (fst sys)
             else (Some kCiColorStateBase, fst sys))
      in if \<not> protect_region_rw env color_region dev then (False, (dev, snd sys))
         else
           let dev = (if created
                      then put_mem (rg_offset (the (find_region color_region dev))) (replicate kRankNumBanks 0) dev
                      else dev)
           in (True, (dev, snd sys)))"

subsection \<open>The size of the pool\<close>

text \<open>\<open>strtoul\<close> with base 10: white space, a sign, digits. It returns the value, which saturates and is
  negated modulo \<open>2 ^ 64\<close>, and the rest of the string; without digits the rest is the whole string.\<close>

definition is_space :: "char \<Rightarrow> bool" where
  "is_space ch \<longleftrightarrow> of_char ch \<in> {9, 10, 11, 12, 13, 32 :: nat}"

definition is_digit :: "char \<Rightarrow> bool" where
  "is_digit ch \<longleftrightarrow> 48 \<le> (of_char ch :: nat) \<and> (of_char ch :: nat) \<le> 57"

definition digits_value :: "string \<Rightarrow> nat" where
  "digits_value ds = foldl (\<lambda>n ch. 10 * n + (of_char ch - 48)) 0 ds"

definition strtoul :: "string \<Rightarrow> u64 \<times> string" where
  "strtoul s =
     (let t = dropWhile is_space s;
          (negative, t) = (case t of
              CHR ''-'' # u \<Rightarrow> (True, u)
            | CHR ''+'' # u \<Rightarrow> (False, u)
            | _ \<Rightarrow> (False, t));
          ds = takeWhile is_digit t;
          n = digits_value ds
      in if ds = [] then (0, s)
         else if n > 18446744073709551615 then (0xFFFFFFFFFFFFFFFF, dropWhile is_digit t)
         else (if negative then - of_nat n else of_nat n, dropWhile is_digit t))"

definition configured_pool_threads :: "host_env \<Rightarrow> u32" where
  "configured_pool_threads env =
     (let target_threads = pool_get_hardware_concurrency_limit (os_hardware_concurrency env);
          target_threads = (if target_threads = 0 \<or> target_threads > kDefaultPoolThreads
                            then kDefaultPoolThreads else target_threads)
      in case os_pool_threads env of
           None \<Rightarrow> target_threads
         | Some value \<Rightarrow>
             (if value \<noteq> []
              then let (parsed, rest) = strtoul value
                   in if rest \<noteq> value \<and> rest = [] \<and> parsed \<le> of_nat kRankNumDpus then ucast parsed
                      else target_threads
              else target_threads))"

definition lazy_populate_thread :: "host_env \<Rightarrow> upmem_sys \<Rightarrow> bool \<times> upmem_sys" where
  "lazy_populate_thread env sys =
     (if pim_get_max_active_dpus (Some (fst sys)) = 0
      then
        let target_threads = configured_pool_threads env
        in if target_threads = 0 then (True, sys)
           else
             let (err, sys) = pim_pool_start run_dpu (os_hardware_concurrency env) (os_spawn_ok env) target_threads sys
             in if err \<noteq> PIM_SUCCESS then (False, sys)
                else if pim_get_max_active_dpus (Some (fst sys)) = 0 then (False, sys) else (True, sys)
      else (True, sys))"

subsection \<open>DPUs\<close>

definition decode_dpu_global_idx :: "nat \<Rightarrow> (nat \<times> nat) option" where
  "decode_dpu_global_idx dpu_global_idx =
     (if dpu_global_idx \<ge> kRankNumDpus then None
      else let ci_idx = dpu_global_idx mod kRankNumBanks; dpu_local_idx = dpu_global_idx div kRankNumBanks
           in if dpu_local_idx < kChipNumDpus then Some (ci_idx, dpu_local_idx) else None)"

definition dpu_by_global :: "upmem_sys \<Rightarrow> nat \<Rightarrow> upmem_dpu" where
  "dpu_by_global sys dpu_global_idx =
     ch_dpus (snd sys ! (dpu_global_idx mod kRankNumBanks)) ! (dpu_global_idx div kRankNumBanks)"

definition upd_dpu_by_global :: "nat \<Rightarrow> (upmem_dpu \<Rightarrow> upmem_dpu) \<Rightarrow> upmem_sys \<Rightarrow> upmem_sys" where
  "upd_dpu_by_global dpu_global_idx f =
     upd_chip (dpu_global_idx mod kRankNumBanks) (upd_dpu (dpu_global_idx div kRankNumBanks) f)"

definition try_lazy_populate_dpu :: "host_env \<Rightarrow> nat \<Rightarrow> upmem_sys \<Rightarrow> bool \<times> upmem_sys" where
  "try_lazy_populate_dpu env dpu_global_idx sys =
     (if dpu_global_idx \<ge> kRankNumDpus then (False, sys)
      else
        let (ok, sys) = try_lazy_populate_ci_bank env (dpu_global_idx mod kRankNumBanks) sys
        in if \<not> ok then (False, sys)
        else
          let (ok, sys) = try_lazy_populate_ci_color env sys
          in if \<not> ok then (False, sys)
          else
            let m = dp_mram (dpu_by_global sys dpu_global_idx)
            in if mram_addr m \<noteq> None \<and> mram_size m > 0 then (True, sys)
               else
                 let (ok, m) = mram_allocate (os_mram_mmap_ok env dpu_global_idx) m;
                     sys = upd_dpu_by_global dpu_global_idx (\<lambda>d. d\<lparr>dp_mram := m\<rparr>) sys
                 in if \<not> ok then (False, sys) else lazy_populate_thread env sys)"

section \<open>Transfers\<close>

record dpu_transfer_mram =
  tm_ptr :: "u8 list option list"
  tm_offset_in_mram :: u32
  tm_size :: u32

text \<open>\<open>rq_active_bank_indices\<close> are the first \<open>active_bank_count\<close> entries of the array.\<close>

record mram_bank_transfer_request =
  rq_dpu_local_idx :: nat
  rq_active_bank_mask :: u8
  rq_active_bank_indices :: "nat list"

definition no_request :: mram_bank_transfer_request where
  "no_request = \<lparr>rq_dpu_local_idx = 0, rq_active_bank_mask = 0, rq_active_bank_indices = []\<rparr>"

definition build_active_bank_indices :: "u8 \<Rightarrow> nat list" where
  "build_active_bank_indices active_bank_mask =
     filter (\<lambda>bank_idx. active_bank_mask AND push_bit bank_idx 1 \<noteq> 0) [0..<kRankNumBanks]"

definition global_idx :: "nat \<Rightarrow> nat \<Rightarrow> nat" where
  "global_idx dpu_local_idx bank_idx = dpu_local_idx * kRankNumBanks + bank_idx"

definition resolve_bank_mram ::
  "host_env \<Rightarrow> nat \<Rightarrow> u32 \<Rightarrow> nat \<Rightarrow> nat \<Rightarrow> upmem_sys \<Rightarrow> (errno + unit) \<times> upmem_sys" where
  "resolve_bank_mram env dpu_local_idx offset_in_mram sz bank_idx sys =
     (if bank_idx \<ge> kRankNumBanks then (Inl EFAULT, sys)
      else
        let (ok, sys) = try_lazy_populate_dpu env (global_idx dpu_local_idx bank_idx) sys
        in if \<not> ok then (Inl ENOMEM, sys)
           else if mram_addr (dp_mram (dpu_by_global sys (global_idx dpu_local_idx bank_idx))) = None \<or>
                   \<not> mram_byte_in_bounds offset_in_mram sz
           then (Inl EFAULT, sys) else (Inr (), sys))"

definition resolve_bank_group_mrams ::
  "host_env \<Rightarrow> nat \<Rightarrow> nat list \<Rightarrow> u32 \<Rightarrow> nat \<Rightarrow> upmem_sys \<Rightarrow> (errno + unit) \<times> upmem_sys" where
  "resolve_bank_group_mrams env dpu_local_idx active_bank_indices offset_in_mram sz sys =
     (if active_bank_indices = [] \<or> dpu_local_idx \<ge> kChipNumDpus then (Inl EFAULT, sys)
      else for_each (resolve_bank_mram env dpu_local_idx offset_in_mram sz) active_bank_indices sys)"

definition poke_mram :: "u32 \<Rightarrow> u8 list \<Rightarrow> upmem_dpu \<Rightarrow> upmem_dpu" where
  "poke_mram offset_in_mram bytes d =
     d\<lparr>dp_mram := (dp_mram d)\<lparr>mram_addr :=
        map_option (slice_put (unat offset_in_mram) bytes) (mram_addr (dp_mram d))\<rparr>\<rparr>"

definition copy_to_bank ::
  "nat \<Rightarrow> u32 \<Rightarrow> u8 list option list \<Rightarrow> nat \<Rightarrow> nat \<Rightarrow> upmem_sys \<Rightarrow> (errno + unit) \<times> upmem_sys" where
  "copy_to_bank dpu_local_idx offset_in_mram src_by_bank sz bank_idx sys =
     (case src_by_bank ! bank_idx of
        None \<Rightarrow> (Inl EFAULT, sys)
      | Some src \<Rightarrow>
          (Inr (), upd_dpu_by_global (global_idx dpu_local_idx bank_idx) (poke_mram offset_in_mram (take sz src)) sys))"

definition host_copy_to_mram_bank_group ::
  "host_env \<Rightarrow> nat \<Rightarrow> u8 \<Rightarrow> u32 \<Rightarrow> u8 list option list \<Rightarrow> nat \<Rightarrow> upmem_sys \<Rightarrow> (errno + unit) \<times> upmem_sys" where
  "host_copy_to_mram_bank_group env dpu_local_idx active_bank_mask offset_in_mram src_by_bank sz sys =
     (if active_bank_mask = 0 then (Inl EFAULT, sys)
      else if sz = 0 then (Inr (), sys)
      else
        let active_bank_indices = build_active_bank_indices active_bank_mask
        in case resolve_bank_group_mrams env dpu_local_idx active_bank_indices offset_in_mram sz sys of
             (Inl e, sys) \<Rightarrow> (Inl e, sys)
           | (Inr _, sys) \<Rightarrow>
               for_each (copy_to_bank dpu_local_idx offset_in_mram src_by_bank sz) active_bank_indices sys)"

text \<open>The reads return, with the rank, the contents of the destination buffers.\<close>

definition peek_mram :: "u32 \<Rightarrow> nat \<Rightarrow> upmem_dpu \<Rightarrow> u8 list" where
  "peek_mram offset_in_mram sz d = slice_get (unat offset_in_mram) sz (the (mram_addr (dp_mram d)))"

definition copy_from_bank ::
  "nat \<Rightarrow> u32 \<Rightarrow> nat \<Rightarrow> upmem_sys \<Rightarrow> nat \<Rightarrow> u8 list option list \<Rightarrow> (errno + unit) \<times> u8 list option list" where
  "copy_from_bank dpu_local_idx offset_in_mram sz sys bank_idx ptrs =
     (case ptrs ! global_idx dpu_local_idx bank_idx of
        None \<Rightarrow> (Inl EFAULT, ptrs)
      | Some dst \<Rightarrow>
          (Inr (), ptrs[global_idx dpu_local_idx bank_idx :=
             Some (slice_put 0 (peek_mram offset_in_mram sz (dpu_by_global sys (global_idx dpu_local_idx bank_idx))) dst)]))"

definition host_copy_from_mram_bank_group ::
  "host_env \<Rightarrow> nat \<Rightarrow> u8 \<Rightarrow> u32 \<Rightarrow> nat \<Rightarrow> upmem_sys \<times> u8 list option list \<Rightarrow>
   (errno + unit) \<times> upmem_sys \<times> u8 list option list" where
  "host_copy_from_mram_bank_group env dpu_local_idx active_bank_mask offset_in_mram sz st =
     (if active_bank_mask = 0 then (Inl EFAULT, st)
      else if sz = 0 then (Inr (), st)
      else
        let active_bank_indices = build_active_bank_indices active_bank_mask
        in case resolve_bank_group_mrams env dpu_local_idx active_bank_indices offset_in_mram sz (fst st) of
             (Inl e, sys) \<Rightarrow> (Inl e, (sys, snd st))
           | (Inr _, sys) \<Rightarrow>
               (let (r, ptrs) = for_each (copy_from_bank dpu_local_idx offset_in_mram sz sys)
                                  active_bank_indices (snd st)
                in (r, (sys, ptrs))))"

text \<open>The loop that gathers the buffers of the active banks; it stops with an error at a null pointer.\<close>

definition gather_buffers ::
  "mram_bank_transfer_request \<Rightarrow> u8 list option list \<Rightarrow> (errno + unit) \<times> u8 list option list" where
  "gather_buffers request ptrs =
     for_each (\<lambda>bank_idx bufs.
         let p = ptrs ! global_idx (rq_dpu_local_idx request) bank_idx; bufs = bufs[bank_idx := p]
         in if p = None then (Inl EFAULT, bufs) else (Inr (), bufs))
       (rq_active_bank_indices request) (replicate kRankNumBanks None)"

definition host_copy_to_mram_sparse ::
  "host_env \<Rightarrow> dpu_transfer_mram \<Rightarrow> mram_bank_transfer_request \<Rightarrow> upmem_sys \<Rightarrow> (errno + unit) \<times> upmem_sys" where
  "host_copy_to_mram_sparse env transfer request sys =
     (case gather_buffers request (tm_ptr transfer) of
        (Inl e, _) \<Rightarrow> (Inl e, sys)
      | (Inr _, src_by_bank) \<Rightarrow>
          host_copy_to_mram_bank_group env (rq_dpu_local_idx request) (rq_active_bank_mask request)
            (tm_offset_in_mram transfer) src_by_bank (unat (tm_size transfer)) sys)"

definition host_copy_from_mram_sparse ::
  "host_env \<Rightarrow> dpu_transfer_mram \<Rightarrow> mram_bank_transfer_request \<Rightarrow> upmem_sys \<times> u8 list option list \<Rightarrow>
   (errno + unit) \<times> upmem_sys \<times> u8 list option list" where
  "host_copy_from_mram_sparse env transfer request st =
     (case gather_buffers request (snd st) of
        (Inl e, _) \<Rightarrow> (Inl e, st)
      | (Inr _, _) \<Rightarrow>
          host_copy_from_mram_bank_group env (rq_dpu_local_idx request) (rq_active_bank_mask request)
            (tm_offset_in_mram transfer) (unat (tm_size transfer)) st)"

definition transfer_in_bounds :: "nat \<Rightarrow> dpu_transfer_mram \<Rightarrow> bool" where
  "transfer_in_bounds mram_bytes tm =
     (let off = unat (tm_offset_in_mram tm); sz = unat (tm_size tm)
      in if off > mram_bytes then False else if sz > mram_bytes - off then False else True)"

text \<open>\<open>make_sparse_bank_transfers\<close>: the step for one DPU, then the loop. \<open>None\<close> is the early return of false;
  the flag is \<open>have_multi_bank_request\<close>.\<close>

definition add_transfer ::
  "u8 list option list \<Rightarrow> nat \<Rightarrow> (mram_bank_transfer_request list \<times> bool) option \<Rightarrow>
   (mram_bank_transfer_request list \<times> bool) option" where
  "add_transfer ptrs dpu_global_idx acc =
     (case acc of
        None \<Rightarrow> None
      | Some (requests, have_multi) \<Rightarrow>
          if ptrs ! dpu_global_idx = None then acc
          else
            case decode_dpu_global_idx dpu_global_idx of
              None \<Rightarrow> None
            | Some (bank_idx, dpu_local_idx) \<Rightarrow>
                let request = requests ! dpu_local_idx; bank_bit = push_bit bank_idx 1
                in if rq_active_bank_mask request AND bank_bit \<noteq> 0 \<or>
                      length (rq_active_bank_indices request) \<ge> kRankNumBanks then None
                   else
                     let request = request\<lparr>rq_dpu_local_idx := dpu_local_idx,
                           rq_active_bank_indices := rq_active_bank_indices request @ [bank_idx],
                           rq_active_bank_mask := rq_active_bank_mask request OR bank_bit\<rparr>
                     in Some (requests[dpu_local_idx := request],
                              have_multi \<or>
                              length (rq_active_bank_indices request) \<ge> kSparseTransferRequestMinBanks))"

definition make_sparse_bank_transfers ::
  "u8 list option list \<Rightarrow> nat \<Rightarrow> mram_bank_transfer_request list option" where
  "make_sparse_bank_transfers ptrs sz =
     (if sz < kSparseTransferRequestMinBytes then None
      else case fold (add_transfer ptrs) [0..<kRankNumDpus] (Some (replicate kChipNumDpus no_request, False)) of
             None \<Rightarrow> None
           | Some (requests, have_multi) \<Rightarrow> if have_multi then Some requests else None)"

text \<open>The requests that the two loops handle as groups; \<open>copied_by_sparse_request\<close> is true exactly for the
  DPUs of these requests.\<close>

definition sparse_requests :: "u8 list option list \<Rightarrow> nat \<Rightarrow> mram_bank_transfer_request list" where
  "sparse_requests ptrs sz =
     (case make_sparse_bank_transfers ptrs sz of
        None \<Rightarrow> []
      | Some requests \<Rightarrow>
          filter (\<lambda>request. \<not> length (rq_active_bank_indices request) < kSparseTransferRequestMinBanks) requests)"

definition request_dpus :: "mram_bank_transfer_request \<Rightarrow> nat list" where
  "request_dpus request = map (global_idx (rq_dpu_local_idx request)) (rq_active_bank_indices request)"

definition copied_by_sparse_request :: "u8 list option list \<Rightarrow> nat \<Rightarrow> nat \<Rightarrow> bool" where
  "copied_by_sparse_request ptrs sz dpu_global_idx \<longleftrightarrow>
     list_ex (\<lambda>request. dpu_global_idx \<in> set (request_dpus request)) (sparse_requests ptrs sz)"

definition copy_to_single ::
  "host_env \<Rightarrow> dpu_transfer_mram \<Rightarrow> nat \<Rightarrow> upmem_sys \<Rightarrow> (errno + unit) \<times> upmem_sys" where
  "copy_to_single env tm dpu_global_idx sys =
     (if tm_ptr tm ! dpu_global_idx = None \<or>
         copied_by_sparse_request (tm_ptr tm) (unat (tm_size tm)) dpu_global_idx
      then (Inr (), sys)
      else
        let (ok, sys) = try_lazy_populate_dpu env dpu_global_idx sys
        in if \<not> ok then (Inl ENOMEM, sys)
           else
             let (ok, m) = mram_host_copy_to (dp_mram (dpu_by_global sys dpu_global_idx)) (tm_offset_in_mram tm)
                             (tm_ptr tm ! dpu_global_idx) (unat (tm_size tm));
                 sys = upd_dpu_by_global dpu_global_idx (\<lambda>d. d\<lparr>dp_mram := m\<rparr>) sys
             in if \<not> ok then (Inl EFAULT, sys) else (Inr (), sys))"

definition host_copy_to_rank ::
  "host_env \<Rightarrow> dpu_transfer_mram \<Rightarrow> upmem_sys \<Rightarrow> (errno + unit) \<times> upmem_sys" where
  "host_copy_to_rank env tm sys =
     (if \<not> transfer_in_bounds kMramSizeBytes tm then (Inl EINVAL, sys)
      else if unat (tm_size tm) = 0 then (Inr (), sys)
      else
        case for_each (host_copy_to_mram_sparse env tm) (sparse_requests (tm_ptr tm) (unat (tm_size tm))) sys of
          (Inl e, sys) \<Rightarrow> (Inl e, sys)
        | (Inr _, sys) \<Rightarrow> for_each (copy_to_single env tm) [0..<kRankNumDpus] sys)"

definition copy_from_single ::
  "host_env \<Rightarrow> dpu_transfer_mram \<Rightarrow> nat \<Rightarrow> upmem_sys \<times> u8 list option list \<Rightarrow>
   (errno + unit) \<times> upmem_sys \<times> u8 list option list" where
  "copy_from_single env tm dpu_global_idx st =
     (case tm_ptr tm ! dpu_global_idx of
        None \<Rightarrow> (Inr (), st)
      | Some _ \<Rightarrow>
          if copied_by_sparse_request (tm_ptr tm) (unat (tm_size tm)) dpu_global_idx then (Inr (), st)
          else
            let (ok, sys) = try_lazy_populate_dpu env dpu_global_idx (fst st)
            in if \<not> ok then (Inl ENOMEM, (sys, snd st))
               else
                 case mram_host_copy_from (dp_mram (dpu_by_global sys dpu_global_idx)) (tm_offset_in_mram tm)
                        (unat (tm_size tm)) of
                   None \<Rightarrow> (Inl EFAULT, (sys, snd st))
                 | Some bytes \<Rightarrow>
                     (Inr (), (sys, (snd st)[dpu_global_idx :=
                        map_option (slice_put 0 bytes) (snd st ! dpu_global_idx)])))"

definition host_copy_from_rank ::
  "host_env \<Rightarrow> dpu_transfer_mram \<Rightarrow> upmem_sys \<Rightarrow> (errno + unit) \<times> upmem_sys \<times> u8 list option list" where
  "host_copy_from_rank env tm sys =
     (if \<not> transfer_in_bounds kMramSizeBytes tm then (Inl EINVAL, (sys, tm_ptr tm))
      else if unat (tm_size tm) = 0 then (Inr (), (sys, tm_ptr tm))
      else
        case for_each (host_copy_from_mram_sparse env tm) (sparse_requests (tm_ptr tm) (unat (tm_size tm)))
               (sys, tm_ptr tm) of
          (Inl e, st) \<Rightarrow> (Inl e, st)
        | (Inr _, st) \<Rightarrow> for_each (copy_from_single env tm) [0..<kRankNumDpus] st)"

section \<open>Creating and destroying a rank\<close>

text \<open>\<open>backing\<close> is the anonymous mapping, \<open>None\<close> when \<open>mmap\<close> failed; \<open>rank_ok\<close> and \<open>dev_ok\<close> are the results of
  the two allocations.\<close>

definition upmem_create_rank :: "bool \<Rightarrow> (nat \<Rightarrow> u8) option \<Rightarrow> bool \<Rightarrow> errno + upmem_sys" where
  "upmem_create_rank rank_ok backing dev_ok =
     (if \<not> rank_ok then Inl ENOMEM
      else case backing of
             None \<Rightarrow> Inl ENOMEM
           | Some mem \<Rightarrow>
               (case pim_device_init (Some mem) kRankApertureSizeBytes dev_ok of
                  None \<Rightarrow> Inl ENOMEM
                | Some device \<Rightarrow> Inr (device, replicate kRankNumBanks chip_init)))"

text \<open>The ioctls; the argument is \<open>None\<close> for the null pointer.\<close>

definition upmem_ioctl_write_to_rank ::
  "host_env \<Rightarrow> dpu_transfer_mram option \<Rightarrow> upmem_sys option \<Rightarrow> (errno + unit) \<times> upmem_sys option" where
  "upmem_ioctl_write_to_rank env arg rank =
     (case (rank, arg) of
        (Some sys, Some tm) \<Rightarrow> apsnd Some (host_copy_to_rank env tm sys)
      | _ \<Rightarrow> (Inl EINVAL, rank))"

definition upmem_ioctl_read_from_rank ::
  "host_env \<Rightarrow> dpu_transfer_mram option \<Rightarrow> upmem_sys option \<Rightarrow>
   (errno + unit) \<times> (upmem_sys \<times> u8 list option list) option" where
  "upmem_ioctl_read_from_rank env arg rank =
     (case (rank, arg) of
        (Some sys, Some tm) \<Rightarrow> apsnd Some (host_copy_from_rank env tm sys)
      | _ \<Rightarrow> (Inl EINVAL, None))"

end
