(* ===== verification/Memory_Props.thy ===== *)
theory Memory_Props
  imports Dma
begin

text \<open>
  What a program sees of the memories: the bytes that a store of each width and byte order leaves, the
  bytes that a DMA transfer moves and those it keeps, and the round trips of DMA and host copies.
\<close>

section \<open>Byte order\<close>

lemma le_bytes_bswap16: "le_bytes 2 (bswap16 v) = rev (le_bytes 2 v)"
proof -
  have "ucast (bswap16 v) = (ucast (drop_bit 8 v) :: u8)" "ucast (drop_bit 8 (bswap16 v)) = (ucast v :: u8)"
    by (rule bit_word_eqI; auto simp: bswap16_def bit_simps dest: bit_imp_le_length)+
  moreover have "le_bytes 2 w = [ucast w, ucast (drop_bit 8 w)]" for w :: u16
    by (simp add: le_bytes_def numeral_2_eq_2)
  ultimately show ?thesis by simp
qed

lemma bit_bswap32: "i < 32 \<Longrightarrow> bit (bswap32 v) i = bit v (8 * (3 - i div 8) + i mod 8)"
proof -
  have "list_all (\<lambda>i. bit (bswap32 v) i = bit v (8 * (3 - i div 8) + i mod 8)) [0..<32]"
    by (simp only: bitwise_unfold, simp add: bswap32_def bit_simps flip: numeral_2_eq_2)
  then show "i < 32 \<Longrightarrow> ?thesis" by (simp add: list_all_iff)
qed

lemma rev_bytes_eqI:
  fixes v w :: "'a::len word"
  assumes "LENGTH('a) = 8 * n"
    and "\<And>i. i < 8 * n \<Longrightarrow> bit w i = bit v (8 * (n - 1 - i div 8) + i mod 8)"
  shows "le_bytes n w = rev (le_bytes n v)"
proof (rule nth_equalityI)
  show "length (le_bytes n w) = length (rev (le_bytes n v))" by simp
  fix i assume "i < length (le_bytes n w)"
  then have i: "i < n" by simp
  show "le_bytes n w ! i = rev (le_bytes n v) ! i"
  proof (rule bit_word_eqI)
    fix k assume "k < LENGTH(8)"
    then have k: "k < 8" by simp
    have "8 * i + k < 8 * n" using i k by linarith
    moreover have "(8 * i + k) div 8 = i" "(8 * i + k) mod 8 = k" using k by auto
    moreover have "8 * (n - 1 - i) + k < LENGTH('a)" using assms(1) i k by (simp add: diff_mult_distrib2)
    ultimately show "bit (le_bytes n w ! i) k = bit (rev (le_bytes n v) ! i) k"
      using i k assms by (simp add: rev_nth bit_ucast_iff bit_drop_bit_eq add.commute)
  qed
qed

lemma le_bytes_bswap32: "le_bytes 4 (bswap32 v) = rev (le_bytes 4 v)"
  by (rule rev_bytes_eqI) (simp_all add: bit_bswap32)

lemma le_bytes_bswap64: "le_bytes 8 (bswap64 v) = rev (le_bytes 8 v)"
  by (rule rev_bytes_eqI) (simp_all add: bit_bswap64)

lemma wram_store_bytes:
  assumes "wf_wram m"
  shows "rel_in_bounds a 2 \<Longrightarrow> slice_get (unat a) 2 (wram_data (wram_store_u16 m a h be)) =
      (if be then rev (le_bytes 2 h) else le_bytes 2 h)"
    and "rel_in_bounds a 4 \<Longrightarrow> slice_get (unat a) 4 (wram_data (wram_store_u32 m a w be)) =
      (if be then rev (le_bytes 4 w) else le_bytes 4 w)"
    and "rel_in_bounds a 8 \<Longrightarrow> slice_get (unat a) 8 (wram_data (wram_store_u64 m a d be)) =
      (if be then rev (le_bytes 8 d) else le_bytes 8 d)"
  using assms
  by (simp_all add: wram_port_defs ram_simps le_bytes_bswap16 le_bytes_bswap32 le_bytes_bswap64)

section \<open>DMA\<close>

lemma dma_to_wram_bytes:
  assumes "wf_mram m" "wf_wram w" "dma_active m bytes wo mo" "i < kWRAMSizeBytes"
  shows "wram_data (snd (dma_to_wram_from_mram w m bytes wo mo)) ! i =
    (if unat wo \<le> i \<and> i < unat wo + dma_len bytes wo mo
     then the (mram_addr m) ! (unat mo + (i - unat wo)) else wram_data w ! i)"
proof -
  obtain xs where "mram_addr m = Some xs" "length xs = kMramSizeBytes"
    using assms by (auto simp: dma_active_def dest: wf_mram_boundD)
  then show ?thesis
    using assms dma_len_bounds [OF assms(3)] by (auto simp: dma_to_wram_eq wf_wram_def nth_slice_put)
qed

lemma dma_round_trip:
  assumes "wf_mram m" "wf_wram w" "wf_wram w'" "dma_active m bytes wo mo"
    and m': "m' = snd (dma_to_mram_from_wram m w bytes mo wo)"
  shows "slice_get (unat wo) (dma_len bytes wo mo) (wram_data (snd (dma_to_wram_from_mram w' m' bytes wo mo))) =
    slice_get (unat wo) (dma_len bytes wo mo) (wram_data w)"
proof -
  obtain xs where xs: "mram_addr m = Some xs" "length xs = kMramSizeBytes"
    using assms by (auto simp: dma_active_def dest: wf_mram_boundD)
  have "wf_mram m'" "dma_active m' bytes wo mo"
    using assms by (simp_all add: wf_mram_dma dma_active_def)
  then show ?thesis
    using assms xs dma_len_bounds [OF assms(4)]
    by (simp add: dma_to_wram_eq dma_to_mram_eq wf_wram_def ram_simps)
qed

section \<open>Host copies\<close>

lemma mram_host_copy_to_ok:
  assumes "wf_mram m"
  shows "fst (mram_host_copy_to m a (Some s) n) \<longleftrightarrow> mram_bound m \<and> unat a + n \<le> kMramSizeBytes \<or> mram_bound m \<and> n = 0"
  using assms by (auto simp: mram_host_copy_to_def mram_byte_in_bounds_iff wf_mram_def mram_bound_def
      split: option.splits)

lemma mram_host_copy_to_bytes:
  assumes "wf_mram m" "mram_bound m" "n \<noteq> 0" "unat a + n \<le> kMramSizeBytes" "n \<le> length s" "i < kMramSizeBytes"
  shows "the (mram_addr (snd (mram_host_copy_to m a (Some s) n))) ! i =
    (if unat a \<le> i \<and> i < unat a + n then s ! (i - unat a) else the (mram_addr m) ! i)"
  using assms by (auto simp: mram_host_copy_to_def mram_byte_in_bounds_iff wf_mram_def mram_bound_def
      nth_slice_put min_def split: option.splits)

end
