(* ===== verification/Rank_Props.thy ===== *)
theory Rank_Props
  imports Rank Memory_Props
begin

text \<open>
  What the transfers of a rank do to the MRAM of each DPU. The grouped copies of
  \<open>make_sparse_bank_transfers\<close> are an optimisation: a transfer that returns 0 has written (read) the MRAM of
  every DPU with a buffer, and of no other, exactly as one copy per DPU would.
\<close>

section \<open>Shapes\<close>

definition dpus_of :: "upmem_sys \<Rightarrow> upmem_dpu list list" where
  "dpus_of sys = map ch_dpus (snd sys)"

definition shape_ok :: "upmem_sys \<Rightarrow> bool" where
  "shape_ok sys \<longleftrightarrow> length (dpus_of sys) = kRankNumBanks \<and> (\<forall>ds \<in> set (dpus_of sys). length ds = kChipNumDpus)"

definition mram_at :: "upmem_sys \<Rightarrow> nat \<Rightarrow> mram" where
  "mram_at sys g = dp_mram (dpu_by_global sys g)"

lemma upd_chip_dpus: "(\<And>ch. ch_dpus (f ch) = ch_dpus ch) \<Longrightarrow> dpus_of (upd_chip c f sys) = dpus_of sys"
  by (cases "c < length (snd sys)") (simp_all add: dpus_of_def upd_chip_def map_update list_update_same_conv list_update_beyond)

lemma dpus_of_pair [simp]: "dpus_of (dev, snd sys) = dpus_of sys" "dpus_of (fst sys, cs) = map ch_dpus cs"
  by (simp_all add: dpus_of_def)

lemma dpu_by_global_eq:
  assumes "shape_ok sys" and "g < kRankNumDpus"
  shows "dpu_by_global sys g = dpus_of sys ! (g mod 8) ! (g div 8)"
  using assms by (simp add: dpu_by_global_def dpus_of_def shape_ok_def)

lemma dpus_of_upd:
  assumes "shape_ok sys" and "g < kRankNumDpus"
  shows "dpus_of (upd_dpu_by_global g f sys) =
    (dpus_of sys)[g mod 8 := (dpus_of sys ! (g mod 8))[g div 8 := f (dpu_by_global sys g)]]"
  using assms
  by (simp add: upd_dpu_by_global_def upd_chip_def upd_dpu_def dpus_of_def shape_ok_def map_update dpu_by_global_def)

lemma shape_ok_nth: "shape_ok sys \<Longrightarrow> g < kRankNumDpus \<Longrightarrow> length (dpus_of sys ! (g mod 8)) = 8"
  by (simp add: shape_ok_def)

lemma shape_ok_upd [simp]:
  "shape_ok sys \<Longrightarrow> g < kRankNumDpus \<Longrightarrow> shape_ok (upd_dpu_by_global g f sys)"
  using dpus_of_upd [of sys g f] shape_ok_nth [of sys g]
  by (auto simp: shape_ok_def dest!: set_update_subset_insert [THEN subsetD])

lemma nth_nth_update:
  assumes "i < length xss" and "j < length (xss ! i)"
  shows "xss[i := (xss ! i)[j := y]] ! i' ! j' = (if i' = i \<and> j' = j then y else xss ! i' ! j')"
  using assms by (cases "i' = i"; cases "j' = j") simp_all

lemma dpu_by_global_upd:
  assumes "shape_ok sys" and "g < kRankNumDpus" and "h < kRankNumDpus"
  shows "dpu_by_global (upd_dpu_by_global g f sys) h = (if h = g then f (dpu_by_global sys g) else dpu_by_global sys h)"
proof -
  have "g mod 8 < length (dpus_of sys)" "g div 8 < length (dpus_of sys ! (g mod 8))"
    using assms shape_ok_nth [of sys g] by (auto simp: shape_ok_def)
  note upd = nth_nth_update [OF this, of "f (dpu_by_global sys g)" "h mod 8" "h div 8"]
  have "h mod 8 = g mod 8 \<and> h div 8 = g div 8 \<longleftrightarrow> h = g" by (metis mult_div_mod_eq)
  then show ?thesis
    using upd assms dpus_of_upd [OF assms(1,2), of f]
    by (simp only: dpu_by_global_eq [OF assms(1,3)] dpu_by_global_eq [OF shape_ok_upd [OF assms(1,2)] assms(3)])
qed

section \<open>Resources created on first use\<close>

lemma ci_bank_dpus: "dpus_of (snd (try_lazy_populate_ci_bank env c sys)) = dpus_of sys"
  by (simp add: try_lazy_populate_ci_bank_def Let_def split_beta upd_chip_dpus set_read_region_def set_write_region_def
      upd_state_def)

lemma ci_color_dpus: "dpus_of (snd (try_lazy_populate_ci_color env sys)) = dpus_of sys"
  by (simp add: try_lazy_populate_ci_color_def Let_def split_beta)

lemma thread_dpus: "lazy_populate_thread env sys = (True, sys') \<Longrightarrow> dpus_of sys' = dpus_of sys"
  by (auto simp: lazy_populate_thread_def pim_pool_start_def pool_start_locked_def pool_start_failure_error_def
      Let_def split_beta dpus_of_def split: if_splits)

text \<open>The MRAM a DPU has once it is populated.\<close>

definition populated :: "mram \<Rightarrow> mram" where
  "populated m = snd (mram_allocate True m)"

lemma populated_bound [simp]: "mram_addr m \<noteq> None \<Longrightarrow> mram_size m \<noteq> 0 \<Longrightarrow> populated m = m"
  by (simp add: populated_def mram_allocate_def)

lemma populated_populated [simp]: "populated (populated m) = populated m"
  by (simp add: populated_def mram_allocate_def)

lemma wf_populated [wf_intros]: "wf_mram m \<Longrightarrow> wf_mram (populated m)"
  by (simp add: populated_def wf_intros)

lemma populated_addr: "wf_mram m \<Longrightarrow> \<exists>xs. mram_addr (populated m) = Some xs \<and> length xs = kMramSizeBytes"
  by (auto simp: populated_def mram_allocate_def wf_mram_def split: option.splits)

lemma populate_dpu:
  assumes "try_lazy_populate_dpu env g sys = (True, sys')" and "shape_ok sys"
  shows "g < kRankNumDpus" and "shape_ok sys'"
    and "\<And>h. h < kRankNumDpus \<Longrightarrow> mram_at sys' h = (if h = g then populated (mram_at sys g) else mram_at sys h)"
proof -
  show g: "g < kRankNumDpus" using assms(1) by (auto simp: try_lazy_populate_dpu_def split: if_splits)
  define sys1 where "sys1 = snd (try_lazy_populate_ci_bank env (g mod 8) sys)"
  define sys2 where "sys2 = snd (try_lazy_populate_ci_color env sys1)"
  have d2: "dpus_of sys2 = dpus_of sys" by (simp add: sys1_def sys2_def ci_bank_dpus ci_color_dpus)
  then have s2: "shape_ok sys2" using assms(2) by (simp add: shape_ok_def)
  have at2: "dpu_by_global sys2 h = dpu_by_global sys h" if "h < kRankNumDpus" for h
    using that assms(2) s2 d2 by (simp add: dpu_by_global_eq)
  have cases: "sys' = sys2 \<and> mram_addr (mram_at sys g) \<noteq> None \<and> mram_size (mram_at sys g) > 0 \<or>
     dpus_of sys' = dpus_of (upd_dpu_by_global g (\<lambda>d. d\<lparr>dp_mram := populated (mram_at sys g)\<rparr>) sys2)"
  proof (cases "mram_addr (mram_at sys g) \<noteq> None \<and> mram_size (mram_at sys g) > 0")
    case True
    with assms(1) g at2 [OF g] show ?thesis
      by (simp add: try_lazy_populate_dpu_def Let_def split_beta sys1_def [symmetric] sys2_def [symmetric]
          mram_at_def split: if_splits)
  next
    case False
    with assms(1) g at2 [OF g] have "lazy_populate_thread env
        (upd_dpu_by_global g (\<lambda>d. d\<lparr>dp_mram := populated (mram_at sys g)\<rparr>) sys2) = (True, sys')"
      by (auto simp: try_lazy_populate_dpu_def Let_def split_beta sys1_def [symmetric] sys2_def [symmetric]
          mram_at_def populated_def mram_allocate_def split: if_splits)
    then show ?thesis by (intro disjI2) (rule thread_dpus)
  qed
  then show s': "shape_ok sys'" using s2 g shape_ok_upd [OF s2 g] by (auto simp: shape_ok_def)
  fix h assume h: "h < kRankNumDpus"
  show "mram_at sys' h = (if h = g then populated (mram_at sys g) else mram_at sys h)"
    using cases
  proof
    assume "sys' = sys2 \<and> mram_addr (mram_at sys g) \<noteq> None \<and> mram_size (mram_at sys g) > 0"
    then show ?thesis using at2 [OF h] by (auto simp: mram_at_def)
  next
    let ?f = "\<lambda>d. d\<lparr>dp_mram := populated (mram_at sys g)\<rparr>"
    assume "dpus_of sys' = dpus_of (upd_dpu_by_global g ?f sys2)"
    then have "dpu_by_global sys' h = dpu_by_global (upd_dpu_by_global g ?f sys2) h"
      using s' shape_ok_upd [OF s2 g] h by (simp add: dpu_by_global_eq)
    then show ?thesis using dpu_by_global_upd [OF s2 g h, of ?f] at2 [OF h] by (simp add: mram_at_def)
  qed
qed

section \<open>Grouping the transfers\<close>

text \<open>The banks of local index \<open>l\<close> whose buffers are given, among the first \<open>n\<close> DPUs.\<close>

definition active_banks :: "u8 list option list \<Rightarrow> nat \<Rightarrow> nat \<Rightarrow> nat list" where
  "active_banks ptrs l n = filter (\<lambda>b. ptrs ! (l * 8 + b) \<noteq> None) [0..<min 8 (n - l * 8)]"

lemma active_banks_Suc:
  "active_banks ptrs l (Suc n) =
     (if l = n div 8 \<and> ptrs ! n \<noteq> None then active_banks ptrs l n @ [n mod 8] else active_banks ptrs l n)"
proof -
  consider (less) "l < n div 8" | (eq) "l = n div 8" | (greater) "n div 8 < l" by linarith
  then show ?thesis
  proof cases
    case less
    then have "l * 8 + 8 \<le> n" by linarith
    with less show ?thesis by (simp add: active_banks_def)
  next
    case eq
    then have "n - l * 8 = n mod 8" "Suc n - l * 8 = Suc (n mod 8)" "l * 8 + n mod 8 = n"
      by (simp_all add: minus_div_mult_eq_mod Suc_diff_le)
    moreover have "min 8 (n mod 8) = n mod 8" "min 8 (Suc (n mod 8)) = Suc (n mod 8)"
      using mod_less_divisor [of 8 n] by linarith+
    ultimately have "active_banks ptrs l n = filter (\<lambda>b. ptrs ! (l * 8 + b) \<noteq> None) [0..<n mod 8]"
      "active_banks ptrs l (Suc n) = filter (\<lambda>b. ptrs ! (l * 8 + b) \<noteq> None) ([0..<n mod 8] @ [n mod 8])"
      "l * 8 + n mod 8 = n"
      unfolding active_banks_def by (simp_all only: upt_Suc_append zero_le)
    then show ?thesis using eq by simp
  next
    case greater
    then have "Suc n \<le> l * 8" by linarith
    with greater show ?thesis by (simp add: active_banks_def)
  qed
qed

definition request_ok :: "u8 list option list \<Rightarrow> nat \<Rightarrow> nat \<Rightarrow> mram_bank_transfer_request \<Rightarrow> bool" where
  "request_ok ptrs n l rq \<longleftrightarrow> rq_active_bank_indices rq = active_banks ptrs l n \<and>
     (\<forall>b < 8. bit (rq_active_bank_mask rq) b \<longleftrightarrow> b \<in> set (active_banks ptrs l n)) \<and>
     (active_banks ptrs l n \<noteq> [] \<longrightarrow> rq_dpu_local_idx rq = l)"

lemma active_banks_small: "b \<in> set (active_banks ptrs l n) \<Longrightarrow> b < 8 \<and> l * 8 + b < n"
  by (auto simp: active_banks_def)

lemma length_active_banks: "length (active_banks ptrs l n) \<le> n - l * 8"
  using length_filter_le [of "\<lambda>b. ptrs ! (l * 8 + b) \<noteq> None" "[0..<min 8 (n - l * 8)]"]
  by (simp add: active_banks_def)

lemma add_transfer_step:
  assumes "n < kRankNumDpus" and "length rs = 8" and "\<forall>l < 8. request_ok ptrs n l (rs ! l)"
  obtains rs' multi' where "add_transfer ptrs n (Some (rs, multi)) = Some (rs', multi')" and "length rs' = 8"
    and "\<forall>l < 8. request_ok ptrs (Suc n) l (rs' ! l)"
proof (cases "ptrs ! n = None")
  case True
  then have "\<forall>l < 8. request_ok ptrs (Suc n) l (rs ! l)"
    using assms(3) by (simp add: request_ok_def active_banks_Suc)
  with True assms(2) show ?thesis using that by (simp add: add_transfer_def)
next
  case False
  let ?l = "n div 8" and ?b = "n mod 8" and ?r = "rs ! (n div 8)"
  let ?r' = "?r\<lparr>rq_dpu_local_idx := ?l, rq_active_bank_indices := rq_active_bank_indices ?r @ [?b],
               rq_active_bank_mask := rq_active_bank_mask ?r OR push_bit ?b 1\<rparr>"
  have l: "?l < 8" "?b < 8" using assms(1) by auto
  have r: "request_ok ptrs n ?l ?r" using assms(3) l by blast
  have "?b \<notin> set (active_banks ptrs ?l n)" using active_banks_small [of ?b ptrs ?l n] by auto
  then have nb: "\<not> bit (rq_active_bank_mask ?r) ?b" using r l by (simp add: request_ok_def)
  have "length (rq_active_bank_indices ?r) \<le> ?b"
    using r length_active_banks [of ptrs ?l n] by (simp add: request_ok_def minus_div_mult_eq_mod)
  then have len: "length (rq_active_bank_indices ?r) < 8" using l by linarith
  have step: "add_transfer ptrs n (Some (rs, multi)) =
      Some (rs[?l := ?r'], multi \<or> length (rq_active_bank_indices ?r') \<ge> kSparseTransferRequestMinBanks)"
    using False assms(1) l nb len
    by (auto simp add: add_transfer_def decode_dpu_global_idx_def Let_def mask_bits)
  have "request_ok ptrs (Suc n) ?l ?r'"
    using r False l by (auto simp: request_ok_def active_banks_Suc bit_or_iff)
  moreover have "request_ok ptrs (Suc n) l (rs ! l)" if "l < 8" "l \<noteq> ?l" for l
    using assms(3) that by (simp add: request_ok_def active_banks_Suc)
  ultimately have "\<forall>l < 8. request_ok ptrs (Suc n) l (rs[?l := ?r'] ! l)"
    using assms(2) l by (metis nth_list_update_eq nth_list_update_neq)
  with step assms(2) show ?thesis using that by simp
qed

lemma fold_add_transfer:
  assumes "n \<le> kRankNumDpus"
  shows "\<exists>rs multi. fold (add_transfer ptrs) [0..<n] (Some (replicate kChipNumDpus no_request, False)) = Some (rs, multi) \<and>
    length rs = 8 \<and> (\<forall>l < 8. request_ok ptrs n l (rs ! l))"
  using assms
proof (induction n)
  case 0
  then show ?case by (intro exI conjI) (auto simp: request_ok_def active_banks_def no_request_def)
next
  case (Suc n)
  then obtain rs multi where "fold (add_transfer ptrs) [0..<n] (Some (replicate kChipNumDpus no_request, False)) = Some (rs, multi)"
    "length rs = 8" "\<forall>l < 8. request_ok ptrs n l (rs ! l)" by auto
  moreover obtain rs' multi' where "add_transfer ptrs n (Some (rs, multi)) = Some (rs', multi')" "length rs' = 8"
    "\<forall>l < 8. request_ok ptrs (Suc n) l (rs' ! l)"
    using add_transfer_step [OF _ calculation(2,3), of multi] Suc.prems by auto
  ultimately show ?case by simp
qed

lemma sparse_requests_ok:
  assumes "rq \<in> set (sparse_requests ptrs sz)"
  obtains l where "l < 8" and "rq_dpu_local_idx rq = l" and "rq_active_bank_indices rq = active_banks ptrs l 64"
    and "build_active_bank_indices (rq_active_bank_mask rq) = active_banks ptrs l 64"
    and "active_banks ptrs l 64 \<noteq> []" and "rq_active_bank_mask rq \<noteq> 0"
proof -
  obtain rs multi where rs: "fold (add_transfer ptrs) [0..<kRankNumDpus] (Some (replicate kChipNumDpus no_request, False)) = Some (rs, multi)"
    "length rs = 8" "\<forall>l < 8. request_ok ptrs kRankNumDpus l (rs ! l)"
    using fold_add_transfer [of kRankNumDpus ptrs] by auto
  then have "rq \<in> set rs" and two: "2 \<le> length (rq_active_bank_indices rq)"
    using assms by (auto simp: sparse_requests_def make_sparse_bank_transfers_def split: if_splits)
  then obtain l where l: "l < 8" "rq = rs ! l" using rs(2) by (metis in_set_conv_nth)
  with rs(3) have ok: "request_ok ptrs 64 l rq" by simp
  with two have ne: "active_banks ptrs l 64 \<noteq> []" by (auto simp: request_ok_def)
  have eight: "min 8 (64 - l * 8) = 8" using l(1) by simp
  have mask: "bit (rq_active_bank_mask rq) b \<longleftrightarrow> ptrs ! (l * 8 + b) \<noteq> None" if "b < 8" for b
    using ok that eight by (simp add: request_ok_def active_banks_def)
  have build: "build_active_bank_indices (rq_active_bank_mask rq) = active_banks ptrs l 64"
    unfolding build_active_bank_indices_def active_banks_def eight
    by (rule filter_cong) (simp_all add: mask_bits mask)
  obtain b where "b \<in> set (active_banks ptrs l 64)" using ne by (cases "active_banks ptrs l 64") auto
  then have "bit (rq_active_bank_mask rq) b" using mask active_banks_small [of b ptrs l 64] by (auto simp: active_banks_def)
  then have "rq_active_bank_mask rq \<noteq> 0" by auto
  with that [OF l(1)] ok ne build show ?thesis by (auto simp: request_ok_def)
qed

lemma distinct_keys_filter:
  assumes "\<And>l. l < length rs \<Longrightarrow> P (rs ! l) \<Longrightarrow> key (rs ! l) = l"
  shows "distinct (map key (filter P rs))"
proof -
  have "map key (filter P rs) = map key (filter P (map ((!) rs) [0..<length rs]))" by (simp add: map_nth)
  also have "\<dots> = map (key \<circ> (!) rs) (filter (P \<circ> (!) rs) [0..<length rs])" by (simp add: filter_map)
  also have "\<dots> = filter (P \<circ> (!) rs) [0..<length rs]"
    using assms by (intro map_idI) auto
  finally show ?thesis by simp
qed

lemma distinct_sparse_requests: "distinct (map rq_dpu_local_idx (sparse_requests ptrs sz))"
proof -
  obtain rs multi where rs: "fold (add_transfer ptrs) [0..<kRankNumDpus] (Some (replicate kChipNumDpus no_request, False)) = Some (rs, multi)"
    "length rs = 8" "\<forall>l < 8. request_ok ptrs kRankNumDpus l (rs ! l)"
    using fold_add_transfer [of kRankNumDpus ptrs] by auto
  have "distinct (map rq_dpu_local_idx (filter (\<lambda>rq. \<not> length (rq_active_bank_indices rq) < kSparseTransferRequestMinBanks) rs))"
    using rs(2,3) by (intro distinct_keys_filter) (auto simp: request_ok_def)
  then show ?thesis using rs(1) by (simp add: sparse_requests_def make_sparse_bank_transfers_def)
qed

section \<open>Loops that touch one object at a time\<close>

text \<open>A loop whose iteration \<open>x\<close> changes the objects \<open>K x\<close> by \<open>upd\<close> and no others; different iterations
  touch different objects.\<close>

lemma for_each_objects:
  fixes key :: "'a \<Rightarrow> nat"
  assumes "for_each f xs s = (Inr (), s')" and "I s" and "distinct (map key xs)"
    and "\<And>x s s'. x \<in> set xs \<Longrightarrow> I s \<Longrightarrow> f x s = (Inr (), s') \<Longrightarrow>
      I s' \<and> (\<forall>h < N. obs s' h = (if h \<in> K x then upd h (obs s h) else obs s h))"
    and "\<And>x y. x \<in> set xs \<Longrightarrow> y \<in> set xs \<Longrightarrow> key x \<noteq> key y \<Longrightarrow> K x \<inter> K y = {}"
  shows "I s' \<and> (\<forall>h < (N :: nat). obs s' h = (if h \<in> \<Union> (K ` set xs) then upd h (obs s h) else obs s h))"
  using assms
proof (induction xs arbitrary: s)
  case (Cons x xs)
  obtain s1 where s1: "f x s = (Inr (), s1)" "for_each f xs s1 = (Inr (), s')"
    using Cons.prems(1) by (auto split: prod.splits sum.splits)
  have step: "I s1" "\<forall>h < N. obs s1 h = (if h \<in> K x then upd h (obs s h) else obs s h)"
    using Cons.prems(4) [OF _ Cons.prems(2) s1(1)] by auto
  have "I s' \<and> (\<forall>h < N. obs s' h = (if h \<in> \<Union> (K ` set xs) then upd h (obs s1 h) else obs s1 h))"
    using Cons.prems(3-5) by (intro Cons.IH [OF s1(2) step(1)]) auto
  moreover have "K x \<inter> \<Union> (K ` set xs) = {}"
    using Cons.prems(3,5) by (fastforce simp: image_iff)
  ultimately show ?case using step(2) by (auto simp: disjoint_iff)
qed simp

lemmas for_each_mram = for_each_objects [where I = shape_ok and obs = mram_at and N = kRankNumDpus]

section \<open>Transfers to a rank\<close>

lemma global_idx_less: "l < 8 \<Longrightarrow> b < 8 \<Longrightarrow> global_idx l b < kRankNumDpus"
  by (simp add: global_idx_def)

lemma global_idx_inj: "b < 8 \<Longrightarrow> b' < 8 \<Longrightarrow> global_idx l b = global_idx l' b' \<longleftrightarrow> l = l' \<and> b = b'"
  by (auto simp: global_idx_def) presburger+

lemma distinct_active_banks [simp]: "distinct (active_banks ptrs l n)"
  by (simp add: active_banks_def)

definition mram_write :: "u32 \<Rightarrow> u8 list \<Rightarrow> mram \<Rightarrow> mram" where
  "mram_write off bytes m = m\<lparr>mram_addr := map_option (slice_put (unat off) bytes) (mram_addr m)\<rparr>"

lemma resolve_bank:
  assumes "resolve_bank_mram env l off sz b sys = (Inr (), sys')" and "shape_ok sys"
  shows "shape_ok sys' \<and> (\<forall>h < kRankNumDpus.
    mram_at sys' h = (if h \<in> {global_idx l b} then populated (mram_at sys h) else mram_at sys h))"
proof -
  have "try_lazy_populate_dpu env (global_idx l b) sys = (True, sys')"
    using assms(1) by (auto simp: resolve_bank_mram_def split: prod.splits if_splits)
  from populate_dpu [OF this assms(2)] show ?thesis by simp
qed

lemma copy_to_bank_effect:
  assumes "copy_to_bank l off src sz b sys = (Inr (), sys')" and "shape_ok sys" and "l < 8" and "b < 8"
    and "src ! b = ptrs ! global_idx l b"
  shows "shape_ok sys' \<and> (\<forall>h < kRankNumDpus. mram_at sys' h =
    (if h \<in> {global_idx l b} then mram_write off (take sz (the (ptrs ! h))) (mram_at sys h) else mram_at sys h))"
  using assms global_idx_less [OF assms(3,4)]
  by (auto simp: copy_to_bank_def mram_at_def dpu_by_global_upd poke_mram_def mram_write_def split: option.splits)

lemma for_each_gather:
  assumes "for_each (\<lambda>b bufs. let p = f b; bufs = bufs[b := p]
      in if p = None then (Inl EFAULT, bufs) else (Inr (), bufs)) bs bufs = (Inr (), bufs')"
    and "\<forall>b \<in> set bs. b < length bufs"
  shows "length bufs' = length bufs \<and> (\<forall>b < length bufs. bufs' ! b = (if b \<in> set bs then f b else bufs ! b))"
  using assms
proof (induction bs arbitrary: bufs)
  case (Cons b bs)
  then have "f b \<noteq> None" by (auto simp: Let_def split: if_splits)
  with Cons.prems show ?case
    using Cons.IH [of "bufs[b := f b]"] by (auto simp: Let_def nth_list_update split: if_splits)
qed simp

definition written :: "dpu_transfer_mram \<Rightarrow> nat \<Rightarrow> mram \<Rightarrow> mram" where
  "written tm h m = mram_write (tm_offset_in_mram tm) (take (unat (tm_size tm)) (the (tm_ptr tm ! h))) (populated m)"

lemma populated_loop:
  assumes "for_each (resolve_bank_mram env l off sz) (active_banks ptrs l 64) sys = (Inr (), sys')" and "shape_ok sys"
  shows "shape_ok sys' \<and> (\<forall>h < kRankNumDpus. mram_at sys' h =
    (if h \<in> \<Union> ((\<lambda>b. {global_idx l b}) ` set (active_banks ptrs l 64)) then populated (mram_at sys h) else mram_at sys h))"
  by (rule for_each_mram [where key = id, OF assms]) (auto simp: resolve_bank global_idx_def)

lemma copy_loop:
  assumes "for_each (copy_to_bank l off src sz) (active_banks ptrs l 64) sys = (Inr (), sys')" and "shape_ok sys"
    and "l < 8" and "\<forall>b \<in> set (active_banks ptrs l 64). src ! b = ptrs ! global_idx l b"
  shows "shape_ok sys' \<and> (\<forall>h < kRankNumDpus. mram_at sys' h =
    (if h \<in> \<Union> ((\<lambda>b. {global_idx l b}) ` set (active_banks ptrs l 64))
     then mram_write off (take sz (the (ptrs ! h))) (mram_at sys h) else mram_at sys h))"
proof (rule for_each_mram [where key = id, OF assms(1,2)])
  fix b s s' assume b: "b \<in> set (active_banks ptrs l 64)" "shape_ok s" "copy_to_bank l off src sz b s = (Inr (), s')"
  show "shape_ok s' \<and> (\<forall>h < kRankNumDpus. mram_at s' h = (if h \<in> {global_idx l b}
      then mram_write off (take sz (the (ptrs ! h))) (mram_at s h) else mram_at s h))"
    using b assms(3,4) active_banks_small [of b ptrs l 64] by (intro copy_to_bank_effect [OF b(3,2)]) auto
qed (auto simp: global_idx_def)

lemma sparse_request_effect:
  assumes "rq \<in> set (sparse_requests (tm_ptr tm) sz)" and "shape_ok sys"
    and "host_copy_to_mram_sparse env tm rq sys = (Inr (), sys')" and "0 < unat (tm_size tm)"
  shows "shape_ok sys' \<and> (\<forall>h < kRankNumDpus. mram_at sys' h =
    (if h \<in> set (request_dpus rq) then written tm h (mram_at sys h) else mram_at sys h))"
proof -
  let ?ptrs = "tm_ptr tm" and ?off = "tm_offset_in_mram tm" and ?sz = "unat (tm_size tm)"
  obtain l where l: "l < 8" "rq_dpu_local_idx rq = l" "rq_active_bank_indices rq = active_banks ?ptrs l 64"
    "build_active_bank_indices (rq_active_bank_mask rq) = active_banks ?ptrs l 64"
    "active_banks ?ptrs l 64 \<noteq> []" "rq_active_bank_mask rq \<noteq> 0"
    using assms(1) by (rule sparse_requests_ok)
  let ?bs = "active_banks ?ptrs l 64"
  obtain src where src: "gather_buffers rq ?ptrs = (Inr (), src)"
    and grp: "host_copy_to_mram_bank_group env l (rq_active_bank_mask rq) ?off src ?sz sys = (Inr (), sys')"
    using assms(3) l(2) by (auto simp: host_copy_to_mram_sparse_def split: prod.splits sum.splits)
  have srcb: "\<forall>b \<in> set ?bs. src ! b = ?ptrs ! global_idx l b"
    using for_each_gather [OF src [unfolded gather_buffers_def l(2,3)]] active_banks_small [of _ ?ptrs l 64] by auto
  obtain sys1 where "for_each (resolve_bank_mram env l ?off ?sz) ?bs sys = (Inr (), sys1)"
    and "for_each (copy_to_bank l ?off src ?sz) ?bs sys1 = (Inr (), sys')"
    using grp l(4-6) assms(4)
    by (auto simp: host_copy_to_mram_bank_group_def resolve_bank_group_mrams_def Let_def
        split: prod.splits sum.splits if_splits)
  then show ?thesis
    using populated_loop [of env l ?off ?sz ?ptrs sys sys1] copy_loop [of l ?off src ?sz ?ptrs sys1 sys'] srcb l(1) assms(2)
    by (auto simp: request_dpus_def l(2,3) written_def)
qed

lemma mram_host_copy_to_write:
  "mram_host_copy_to m off (Some src) sz = (True, m') \<Longrightarrow> 0 < sz \<Longrightarrow> m' = mram_write off (take sz src) m"
  by (auto simp: mram_host_copy_to_def mram_write_def split: option.splits if_splits)

definition single_dpus :: "dpu_transfer_mram \<Rightarrow> nat \<Rightarrow> nat set" where
  "single_dpus tm g =
     (if tm_ptr tm ! g = None \<or> copied_by_sparse_request (tm_ptr tm) (unat (tm_size tm)) g then {} else {g})"

lemma copy_to_single_effect:
  assumes "copy_to_single env tm g sys = (Inr (), sys')" and "shape_ok sys" and "g < kRankNumDpus"
    and "0 < unat (tm_size tm)"
  shows "shape_ok sys' \<and> (\<forall>h < kRankNumDpus. mram_at sys' h =
    (if h \<in> single_dpus tm g then written tm h (mram_at sys h) else mram_at sys h))"
proof (cases "tm_ptr tm ! g = None \<or> copied_by_sparse_request (tm_ptr tm) (unat (tm_size tm)) g")
  case True
  then show ?thesis using assms(1,2) by (auto simp: copy_to_single_def single_dpus_def)
next
  case False
  then obtain src where src: "tm_ptr tm ! g = Some src" by auto
  obtain sys1 m where pop: "try_lazy_populate_dpu env g sys = (True, sys1)"
    and m: "mram_host_copy_to (mram_at sys1 g) (tm_offset_in_mram tm) (Some src) (unat (tm_size tm)) = (True, m)"
    and sys': "sys' = upd_dpu_by_global g (\<lambda>d. d\<lparr>dp_mram := m\<rparr>) sys1"
    using assms(1) False src by (auto simp: copy_to_single_def mram_at_def Let_def split: prod.splits if_splits)
  note pop = populate_dpu [OF pop assms(2)]
  have "m = written tm g (mram_at sys g)"
    using mram_host_copy_to_write [OF m assms(4)] pop(3) [OF assms(3)] src by (simp add: written_def)
  then show ?thesis
    using False pop(2,3) assms(3) by (auto simp: sys' single_dpus_def mram_at_def dpu_by_global_upd)
qed

lemma request_dpus_active:
  assumes "rq \<in> set (sparse_requests ptrs sz)" and "h \<in> set (request_dpus rq)"
  shows "ptrs ! h \<noteq> None" and "h < kRankNumDpus" and "h div 8 = rq_dpu_local_idx rq"
proof -
  obtain l where l: "l < 8" "rq_dpu_local_idx rq = l" "rq_active_bank_indices rq = active_banks ptrs l 64"
    using assms(1) by (rule sparse_requests_ok)
  then obtain b where b: "b < 8" "ptrs ! (l * 8 + b) \<noteq> None" "h = l * 8 + b"
    using assms(2) by (auto simp: request_dpus_def global_idx_def active_banks_def)
  with l show "ptrs ! h \<noteq> None" "h < kRankNumDpus" "h div 8 = rq_dpu_local_idx rq" by auto
qed

lemma touched_dpus:
  assumes "h < kRankNumDpus"
  shows "h \<in> \<Union> ((set \<circ> request_dpus) ` set (sparse_requests (tm_ptr tm) (unat (tm_size tm)))) \<longleftrightarrow>
      copied_by_sparse_request (tm_ptr tm) (unat (tm_size tm)) h"
    and "h \<in> \<Union> (single_dpus tm ` set [0..<kRankNumDpus]) \<longleftrightarrow>
      tm_ptr tm ! h \<noteq> None \<and> \<not> copied_by_sparse_request (tm_ptr tm) (unat (tm_size tm)) h"
  using assms by (auto simp: copied_by_sparse_request_def list_ex_iff single_dpus_def split: if_splits)

lemma copied_not_null:
  "copied_by_sparse_request ptrs sz h \<Longrightarrow> ptrs ! h \<noteq> None"
  using request_dpus_active(1) by (fastforce simp: copied_by_sparse_request_def list_ex_iff)

lemma request_dpus_apart:
  assumes "x \<in> set (sparse_requests ptrs sz)" and "y \<in> set (sparse_requests ptrs sz)"
    and "rq_dpu_local_idx x \<noteq> rq_dpu_local_idx y"
  shows "(set \<circ> request_dpus) x \<inter> (set \<circ> request_dpus) y = {}"
  using request_dpus_active(3) [OF assms(1)] request_dpus_active(3) [OF assms(2)] assms(3) by fastforce

text \<open>A successful transfer writes exactly the DPUs that have a buffer.\<close>

lemma host_copy_to_rank_effect:
  assumes "host_copy_to_rank env tm sys = (Inr (), sys')" and "shape_ok sys"
  shows "shape_ok sys'"
    and "h < kRankNumDpus \<Longrightarrow> mram_at sys' h =
      (if tm_ptr tm ! h \<noteq> None \<and> tm_size tm \<noteq> 0 then written tm h (mram_at sys h) else mram_at sys h)"
proof -
  let ?sz = "unat (tm_size tm)" and ?rqs = "sparse_requests (tm_ptr tm) (unat (tm_size tm))"
  have "shape_ok sys' \<and> (\<forall>h < kRankNumDpus. mram_at sys' h =
      (if tm_ptr tm ! h \<noteq> None \<and> tm_size tm \<noteq> 0 then written tm h (mram_at sys h) else mram_at sys h))"
  proof (cases "?sz = 0")
    case True
    then have "tm_size tm = 0" by (simp add: unat_eq_zero)
    with True assms show ?thesis by (auto simp: host_copy_to_rank_def split: if_splits)
  next
    case False
    then obtain sys1 where loops: "for_each (host_copy_to_mram_sparse env tm) ?rqs sys = (Inr (), sys1)"
      "for_each (copy_to_single env tm) [0..<kRankNumDpus] sys1 = (Inr (), sys')"
      using assms(1) by (auto simp: host_copy_to_rank_def split: if_splits prod.splits sum.splits)
    have sparse: "shape_ok sys1 \<and> (\<forall>h < kRankNumDpus. mram_at sys1 h =
        (if h \<in> \<Union> ((set \<circ> request_dpus) ` set ?rqs) then written tm h (mram_at sys h) else mram_at sys h))"
      using False
      by (intro for_each_mram [where key = rq_dpu_local_idx, OF loops(1) assms(2)])
         (auto intro: distinct_sparse_requests request_dpus_apart [THEN equalityD1, THEN subsetD]
           dest: sparse_request_effect simp del: Int_iff)
    have "shape_ok sys' \<and> (\<forall>h < kRankNumDpus. mram_at sys' h =
        (if h \<in> \<Union> (single_dpus tm ` set [0..<kRankNumDpus]) then written tm h (mram_at sys1 h) else mram_at sys1 h))"
      using False sparse
      by (intro for_each_mram [where key = id, OF loops(2)])
         (auto dest: copy_to_single_effect simp: single_dpus_def split: if_splits)
    moreover have "tm_size tm \<noteq> 0" using False by (auto simp: unat_eq_zero)
    ultimately show ?thesis
      using sparse touched_dpus [of _ tm] by (auto dest: copied_not_null)
  qed
  then show "shape_ok sys'" "h < kRankNumDpus \<Longrightarrow> mram_at sys' h =
      (if tm_ptr tm ! h \<noteq> None \<and> tm_size tm \<noteq> 0 then written tm h (mram_at sys h) else mram_at sys h)"
    by blast+
qed

section \<open>Transfers from a rank\<close>

text \<open>What a read shows of one DPU: its MRAM and the contents of its buffer.\<close>

definition rank_ok :: "upmem_sys \<times> u8 list option list \<Rightarrow> bool" where
  "rank_ok st \<longleftrightarrow> shape_ok (fst st) \<and> length (snd st) = kRankNumDpus"

definition rank_at :: "upmem_sys \<times> u8 list option list \<Rightarrow> nat \<Rightarrow> mram \<times> u8 list option" where
  "rank_at st h = (mram_at (fst st) h, snd st ! h)"

definition fetched :: "u32 \<Rightarrow> nat \<Rightarrow> mram \<times> u8 list option \<Rightarrow> mram \<times> u8 list option" where
  "fetched off sz mp =
     (populated (fst mp),
      map_option (slice_put 0 (slice_get (unat off) sz (the (mram_addr (populated (fst mp)))))) (snd mp))"

lemmas for_each_rank = for_each_objects [where I = rank_ok and obs = rank_at and N = kRankNumDpus]

lemma copy_from_loop:
  assumes "for_each (copy_from_bank l off sz sys) (active_banks ptrs l 64) bufs = (Inr (), bufs')"
    and "l < 8" and "length bufs = kRankNumDpus"
  shows "length bufs' = kRankNumDpus \<and> (\<forall>h < kRankNumDpus. bufs' ! h =
    (if h \<in> \<Union> ((\<lambda>b. {global_idx l b}) ` set (active_banks ptrs l 64))
     then map_option (slice_put 0 (slice_get (unat off) sz (the (mram_addr (mram_at sys h))))) (bufs ! h) else bufs ! h))"
proof (rule for_each_objects [where key = id and I = "\<lambda>bufs. length bufs = kRankNumDpus" and obs = "(!)", OF assms(1,3)])
  fix b s s' assume b: "b \<in> set (active_banks ptrs l 64)" "length s = kRankNumDpus" "copy_from_bank l off sz sys b s = (Inr (), s')"
  show "length s' = kRankNumDpus \<and> (\<forall>h < kRankNumDpus. s' ! h = (if h \<in> {global_idx l b}
      then map_option (slice_put 0 (slice_get (unat off) sz (the (mram_addr (mram_at sys h))))) (s ! h) else s ! h))"
    using b by (auto simp: copy_from_bank_def peek_mram_def mram_at_def nth_list_update split: option.splits)
qed (auto simp: global_idx_def)

lemma sparse_read_effect:
  assumes "rq \<in> set (sparse_requests ptrs sz')" and "rank_ok st"
    and "host_copy_from_mram_sparse env tm rq st = (Inr (), st')" and "0 < unat (tm_size tm)"
  shows "rank_ok st' \<and> (\<forall>h < kRankNumDpus. rank_at st' h = (if h \<in> set (request_dpus rq)
    then fetched (tm_offset_in_mram tm) (unat (tm_size tm)) (rank_at st h) else rank_at st h))"
proof -
  let ?off = "tm_offset_in_mram tm" and ?sz = "unat (tm_size tm)"
  obtain l where l: "l < 8" "rq_dpu_local_idx rq = l" "rq_active_bank_indices rq = active_banks ptrs l 64"
    "build_active_bank_indices (rq_active_bank_mask rq) = active_banks ptrs l 64"
    "active_banks ptrs l 64 \<noteq> []" "rq_active_bank_mask rq \<noteq> 0"
    using assms(1) by (rule sparse_requests_ok)
  let ?bs = "active_banks ptrs l 64"
  have grp: "host_copy_from_mram_bank_group env l (rq_active_bank_mask rq) ?off ?sz st = (Inr (), st')"
    using assms(3) l(2) by (auto simp: host_copy_from_mram_sparse_def split: prod.splits sum.splits)
  obtain sys1 bufs1 where "for_each (resolve_bank_mram env l ?off ?sz) ?bs (fst st) = (Inr (), sys1)"
    and "for_each (copy_from_bank l ?off ?sz sys1) ?bs (snd st) = (Inr (), bufs1)" and "st' = (sys1, bufs1)"
    using grp l(4-6) assms(4)
    by (auto simp: host_copy_from_mram_bank_group_def resolve_bank_group_mrams_def Let_def
        split: prod.splits sum.splits if_splits)
  then show ?thesis
    using populated_loop [of env l ?off ?sz ptrs "fst st" sys1] copy_from_loop [of l ?off ?sz sys1 ptrs "snd st" bufs1] l(1)
      assms(2)
    by (auto simp: request_dpus_def l(2,3) rank_ok_def rank_at_def fetched_def)
qed

lemma copy_from_single_effect:
  assumes "copy_from_single env tm g st = (Inr (), st')" and "rank_ok st" and "g < kRankNumDpus"
    and "0 < unat (tm_size tm)"
  shows "rank_ok st' \<and> (\<forall>h < kRankNumDpus. rank_at st' h = (if h \<in> single_dpus tm g
    then fetched (tm_offset_in_mram tm) (unat (tm_size tm)) (rank_at st h) else rank_at st h))"
proof (cases "tm_ptr tm ! g = None \<or> copied_by_sparse_request (tm_ptr tm) (unat (tm_size tm)) g")
  case True
  then show ?thesis using assms(1,2) by (auto simp: copy_from_single_def single_dpus_def split: option.splits)
next
  case False
  then obtain p where p: "tm_ptr tm ! g = Some p" "\<not> copied_by_sparse_request (tm_ptr tm) (unat (tm_size tm)) g" by auto
  obtain ok sys1 where e: "try_lazy_populate_dpu env g (fst st) = (ok, sys1)" by (metis surj_pair)
  have ok using assms(1) by (rule_tac ccontr) (simp add: copy_from_single_def p e)
  with e have pop: "try_lazy_populate_dpu env g (fst st) = (True, sys1)" by simp
  obtain bytes where bytes: "mram_host_copy_from (mram_at sys1 g) (tm_offset_in_mram tm) (unat (tm_size tm)) = Some bytes"
    and st': "st' = (sys1, (snd st)[g := map_option (slice_put 0 bytes) (snd st ! g)])"
    using assms(1)
    by (cases "mram_host_copy_from (mram_at sys1 g) (tm_offset_in_mram tm) (unat (tm_size tm))")
       (simp_all add: copy_from_single_def p pop mram_at_def)
  have "shape_ok (fst st)" "length (snd st) = kRankNumDpus" using assms(2) by (simp_all add: rank_ok_def)
  note pop = populate_dpu [OF pop this(1)] and len = this(2)
  have "bytes = slice_get (unat (tm_offset_in_mram tm)) (unat (tm_size tm)) (the (mram_addr (populated (mram_at (fst st) g))))"
    using bytes assms(4) pop(3) [OF assms(3)]
    by (auto simp: mram_host_copy_from_def split: option.splits if_splits)
  then show ?thesis
    using False pop(2,3) assms(3) len by (auto simp: st' single_dpus_def rank_ok_def rank_at_def fetched_def nth_list_update)
qed

lemma host_copy_from_rank_effect:
  assumes "host_copy_from_rank env tm sys = (Inr (), st')" and "rank_ok (sys, tm_ptr tm)" and "tm_size tm \<noteq> 0"
  shows "rank_ok st'"
    and "h < kRankNumDpus \<Longrightarrow> rank_at st' h = (if tm_ptr tm ! h \<noteq> None
      then fetched (tm_offset_in_mram tm) (unat (tm_size tm)) (mram_at sys h, tm_ptr tm ! h)
      else (mram_at sys h, tm_ptr tm ! h))"
proof -
  let ?off = "tm_offset_in_mram tm" and ?sz = "unat (tm_size tm)" and ?rqs = "sparse_requests (tm_ptr tm) (unat (tm_size tm))"
  let ?st = "(sys, tm_ptr tm)"
  have pos: "0 < ?sz" using assms(3) by (simp add: unat_gt_0)
  then obtain st1 where loops: "for_each (host_copy_from_mram_sparse env tm) ?rqs ?st = (Inr (), st1)"
    "for_each (copy_from_single env tm) [0..<kRankNumDpus] st1 = (Inr (), st')"
    using assms(1) by (auto simp: host_copy_from_rank_def split: if_splits prod.splits sum.splits)
  have sparse: "rank_ok st1 \<and> (\<forall>h < kRankNumDpus. rank_at st1 h =
      (if h \<in> \<Union> ((set \<circ> request_dpus) ` set ?rqs) then fetched ?off ?sz (rank_at ?st h) else rank_at ?st h))"
    using pos
    by (intro for_each_rank [where key = rq_dpu_local_idx, OF loops(1) assms(2)])
       (auto intro: distinct_sparse_requests request_dpus_apart [THEN equalityD1, THEN subsetD]
         dest: sparse_read_effect simp del: Int_iff)
  have "rank_ok st' \<and> (\<forall>h < kRankNumDpus. rank_at st' h =
      (if h \<in> \<Union> (single_dpus tm ` set [0..<kRankNumDpus]) then fetched ?off ?sz (rank_at st1 h) else rank_at st1 h))"
    using pos sparse
    by (intro for_each_rank [where key = id, OF loops(2)])
       (auto dest: copy_from_single_effect simp: single_dpus_def split: if_splits)
  then have "rank_ok st' \<and> (\<forall>h < kRankNumDpus. rank_at st' h = (if tm_ptr tm ! h \<noteq> None
      then fetched ?off ?sz (rank_at ?st h) else rank_at ?st h))"
    using sparse touched_dpus [of _ tm] by (auto dest: copied_not_null)
  then show "rank_ok st'" "h < kRankNumDpus \<Longrightarrow> rank_at st' h = (if tm_ptr tm ! h \<noteq> None
      then fetched ?off ?sz (mram_at sys h, tm_ptr tm ! h) else (mram_at sys h, tm_ptr tm ! h))"
    by (auto simp: rank_at_def)
qed

text \<open>Reading back what was written.\<close>

lemma fetched_written:
  assumes "wf_mram m" and "length src \<ge> unat (tm_size tm)" and "tm_ptr tm ! h = Some src"
    and "unat (tm_offset_in_mram tm) + unat (tm_size tm) \<le> kMramSizeBytes"
  shows "fetched (tm_offset_in_mram tm) (unat (tm_size tm)) (written tm h m, Some dst) =
    (written tm h m, Some (slice_put 0 (take (unat (tm_size tm)) src) dst))"
proof -
  obtain xs where xs: "mram_addr (populated m) = Some xs" "length xs = kMramSizeBytes"
    using populated_addr [OF assms(1)] by blast
  have size: "mram_size (written tm h m) \<noteq> 0"
    using wf_populated [OF assms(1)] xs by (simp add: written_def mram_write_def wf_mram_def)
  have addr: "mram_addr (written tm h m) = Some (slice_put (unat (tm_offset_in_mram tm)) (take (unat (tm_size tm)) src) xs)"
    using xs assms(3) by (simp add: written_def mram_write_def)
  show ?thesis
    using xs assms(2,4) size addr by (simp add: fetched_def slice_get_put_same min_def)
qed

end
