(* ===== verification/Rank_Live.thy ===== *)
theory Rank_Live
  imports Rank_Props
begin

text \<open>
  On a cooperative host nothing a rank creates on first use can fail: the control words, the colour bytes and
  their handlers fit into the layout of the aperture, whatever was created before. So a transfer that stays
  inside the MRAM always succeeds.
\<close>

section \<open>The cooperative host\<close>

definition cooperative :: "host_env \<Rightarrow> bool" where
  "cooperative env \<longleftrightarrow>
     (\<exists>k < 32. os_page_size env = 2 ^ k \<and> unat (os_page_size env) = 2 ^ k) \<and>
     unat (os_backing env) + kRankApertureSizeBytes + unat (os_page_size env) < 2 ^ 64 \<and>
     (\<forall>off. os_region_alloc_ok env off) \<and> (\<forall>d. os_table_alloc_ok env d) \<and>
     (\<forall>a n p. os_mprotect env a n p) \<and> (\<forall>g. os_mram_mmap_ok env g) \<and> os_spawn_ok env"

lemma page_range_exists:
  assumes "ps = 2 ^ k" and "unat ps = 2 ^ k" and "sz \<noteq> 0" and "unat addr + unat sz + unat ps < 2 ^ 64"
  shows "\<exists>r. pim_region_page_aligned_range addr sz ps = Some r"
proof -
  let ?e = "addr + sz"
  have sum: "unat ?e = unat addr + unat sz" using assms(4) by (simp add: unat_plus_if_size word_size)
  have ps0: "ps \<noteq> 0" using assms(2) by auto
  have m: "unat (ps - 1) = 2 ^ k - 1" using ps0 assms(2) by (simp add: unat_minus_one)
  have c1: "\<not> sz > 0xFFFFFFFFFFFFFFFF - addr"
    using assms(4) by (simp add: word_less_nat_alt unat_from_max)
  have c2: "\<not> ?e > 0xFFFFFFFFFFFFFFFF - (ps - 1)"
    using assms(2,4) sum m unfolding word_less_nat_alt unat_from_max by simp
  have e': "unat (?e + ps - 1) = unat addr + unat sz + 2 ^ k - 1"
  proof -
    have "unat (?e + (ps - 1)) = unat ?e + unat (ps - 1)"
      using assms(2,4) sum m by (simp add: unat_plus_if_size word_size)
    moreover have "?e + (ps - 1) = ?e + ps - 1" by (rule add_diff_eq)
    ultimately show ?thesis using m sum by (metis Nat.add_diff_assoc one_le_numeral one_le_power)
  qed
  have start: "unat (addr AND NOT (ps - 1)) \<le> unat addr"
    unfolding assms(1) unat_and_not_mask by simp
  have two: "0 < (2 :: nat) ^ k" by simp
  have "unat ((?e + ps - 1) AND NOT (ps - 1)) = 2 ^ k * ((unat addr + unat sz + 2 ^ k - 1) div 2 ^ k)"
    using unat_and_not_mask [of "?e + ps - 1" k] e' by (metis assms(1))
  then have last: "unat addr + unat sz \<le> unat ((?e + ps - 1) AND NOT (ps - 1))"
    using two dividend_less_times_div [OF two, of "unat addr + unat sz + 2 ^ k - 1"] by linarith
  have pos: "0 < unat sz" using assms(3) by (simp add: unat_gt_0)
  have pw: "ps AND (ps - 1) = 0"
    unfolding assms(1) by (rule bit_eqI) (auto simp: bit_and_iff mask_eq_exp_minus_1 [symmetric] bit_mask_iff)
  have "\<not> (?e + ps - 1) AND NOT (ps - 1) < addr AND NOT (ps - 1)"
    "((?e + ps - 1) AND NOT (ps - 1)) - (addr AND NOT (ps - 1)) \<noteq> 0"
    using start last pos by (auto simp: word_less_nat_alt)
  then show ?thesis
    using c1 c2 pw ps0 assms(3) by (simp add: pim_region_page_aligned_range_def Let_def)
qed

section \<open>The layout of the aperture\<close>

definition plan_type :: "nat \<Rightarrow> pim_region_type" where
  "plan_type k = (if k = kCiColorStateBase then PIM_REGION_RAM
                  else if k < kCtrlRwBase then PIM_REGION_CTRL_MMIO else PIM_REGION_CTRL_RW)"

definition planned :: "host_env \<Rightarrow> nat \<times> 'h pim_region \<Rightarrow> bool" where
  "planned env e \<longleftrightarrow> 8 dvd fst e \<and> rg_size (snd e) = 8 \<and> rg_type (snd e) = plan_type (fst e) \<and>
     rg_page_size (snd e) = os_page_size env \<and> rg_active_dispatch_ops (snd e) = 0"

definition rank_dev_ok :: "host_env \<Rightarrow> 'h pim_device \<Rightarrow> bool" where
  "rank_dev_ok env dev \<longleftrightarrow> dv_size dev = kRankApertureSizeBytes \<and> \<not> is_topology_mutation_blocked dev \<and>
     wf_regions dev \<and> (\<forall>e \<in> set (dv_regions dev). planned env e) \<and>
     (dv_pool_running dev \<longrightarrow> dv_max_active_dpus dev \<noteq> 0)"

lemma planned_find:
  assumes "rank_dev_ok env dev" and "find_region (Some off) dev = Some r"
  shows "planned env (off, r)" and "rg_offset r = off" and "off + 8 \<le> kRankApertureSizeBytes"
proof -
  have "(off, r) \<in> set (dv_regions dev)" using assms(2) by (auto simp: find_region_def dest: map_of_SomeD)
  moreover from this have "region_ok (dv_size dev) (off, r)" using assms(1) by (auto simp: rank_dev_ok_def wf_regions_def list_all_iff)
  ultimately show "planned env (off, r)" "rg_offset r = off" "off + 8 \<le> kRankApertureSizeBytes"
    using assms(1) by (auto simp: rank_dev_ok_def region_ok_def planned_def)
qed

lemma page_size_not_error: "cooperative env \<Longrightarrow> os_page_size env \<noteq> 0xFFFFFFFF"
proof
  assume "cooperative env" and ps: "os_page_size env = 0xFFFFFFFF"
  then obtain k where "k < 32" "unat (os_page_size env) = 2 ^ k" by (auto simp: cooperative_def)
  with ps have eq: "(2 :: nat) ^ k = 4294967295" by simp
  then have "k \<noteq> 0" by (intro notI) simp
  then have "even ((2 :: nat) ^ k)" by simp
  with eq show False by simp
qed

lemma planned_disjoint:
  assumes "rank_dev_ok env dev" and "8 dvd off" and "find_region (Some off) dev = None"
  shows "list_all (disjoint_from off 8) (dv_regions dev)"
proof -
  have "disjoint_from off 8 e" if "e \<in> set (dv_regions dev)" for e
  proof -
    have "fst e \<noteq> off" using assms(3) that by (force simp: find_region_def map_of_eq_None_iff)
    moreover have "8 dvd fst e" "rg_size (snd e) = 8" using assms(1) that by (auto simp: rank_dev_ok_def planned_def)
    ultimately show ?thesis using assms(2) by (auto simp: disjoint_from_def elim!: dvdE)
  qed
  then show ?thesis by (simp add: list_all_iff)
qed

lemma create_planned:
  assumes "cooperative env" and "rank_dev_ok env dev" and "8 dvd off" and "off + 8 \<le> kRankApertureSizeBytes"
    and "find_region (Some off) dev = None"
  obtains dev' where "pim_region_create (os_page_size env) (os_region_alloc_ok env off) off 8 (plan_type off) dev = (Some off, dev')"
    and "rank_dev_ok env dev'" and "find_region (Some off) dev' \<noteq> None" and "dv_max_active_dpus dev' = dv_max_active_dpus dev"
proof -
  let ?c = "pim_region_create (os_page_size env) (os_region_alloc_ok env off) off 8 (plan_type off) dev"
  have wf: "wf_regions dev" using assms(2) by (simp add: rank_dev_ok_def)
  have ne: "fst ?c \<noteq> None"
    unfolding region_create_iff [OF wf]
    using assms planned_disjoint [OF assms(2,3,5)] page_size_not_error [OF assms(1)]
    by (simp add: rank_dev_ok_def cooperative_def)
  then obtain dev' where c: "?c = (Some off, dev')"
    using get_region_created(1) by (metis option.exhaust prod.collapse)
  have dev': "dev' = dev\<lparr>dv_regions := below off (dv_regions dev) @
      (off, new_region off 8 (os_page_size env) (plan_type off)) # from_lower_bound off (dv_regions dev)\<rparr>"
    using c by (auto simp: pim_region_create_def split: if_splits)
  have "set (dv_regions dev') = insert (off, new_region off 8 (os_page_size env) (plan_type off)) (set (dv_regions dev))"
  proof -
    have "set (dv_regions dev) = set (below off (dv_regions dev)) \<union> set (from_lower_bound off (dv_regions dev))"
      by (metis below_from_lower_bound set_append)
    then show ?thesis unfolding dev' by auto
  qed
  then have "rank_dev_ok env dev'"
    using assms(2,3) wf_regions_create [OF wf, of "os_page_size env" "os_region_alloc_ok env off" off 8 "plan_type off"] c dev'
    by (auto simp: rank_dev_ok_def planned_def new_region_def is_topology_mutation_blocked_def)
  moreover have "find_region (Some off) dev' \<noteq> None"
    using get_region_created(2) [OF c] by (simp add: pim_device_get_region_def find_region_def)
  ultimately show ?thesis using that [OF c] dev' by simp
qed

lemma get_or_create_planned:
  assumes "cooperative env" and "rank_dev_ok env dev" and "8 dvd off" and "off + 8 \<le> kRankApertureSizeBytes"
  obtains dev' where "get_or_create_region env off 8 (plan_type off) dev = (Some off, dev')"
    and "rank_dev_ok env dev'" and "find_region (Some off) dev' \<noteq> None" and "dv_max_active_dpus dev' = dv_max_active_dpus dev"
    and "\<And>k. find_region (Some k) dev \<noteq> None \<Longrightarrow> find_region (Some k) dev' \<noteq> None"
proof (cases "find_region (Some off) dev = None")
  case True
  obtain dev' where "pim_region_create (os_page_size env) (os_region_alloc_ok env off) off 8 (plan_type off) dev = (Some off, dev')"
    "rank_dev_ok env dev'" "find_region (Some off) dev' \<noteq> None" "dv_max_active_dpus dev' = dv_max_active_dpus dev"
    using create_planned [OF assms True] by blast
  moreover have "find_region (Some k) dev' \<noteq> None" if "find_region (Some k) dev \<noteq> None" for k
    using that calculation(1,3) get_region_create_other [of k off "os_page_size env" "os_region_alloc_ok env off" 8 "plan_type off" dev]
    by (cases "k = off") (auto simp: pim_device_get_region_def find_region_def)
  ultimately show ?thesis
    using that True by (simp add: get_or_create_region_def pim_device_get_region_def find_region_def)
next
  case False
  with that assms(2) show ?thesis by (simp add: get_or_create_region_def pim_device_get_region_def find_region_def)
qed

lemma protect_planned:
  assumes "cooperative env" and "rank_dev_ok env dev" and "find_region (Some off) dev \<noteq> None"
  shows "protect_region_rw env (Some off) dev"
proof -
  obtain r where r: "find_region (Some off) dev = Some r" using assms(3) by blast
  note p = planned_find [OF assms(2) r]
  obtain k where k: "os_page_size env = 2 ^ k" "unat (os_page_size env) = 2 ^ k"
    and room: "unat (os_backing env) + kRankApertureSizeBytes + unat (os_page_size env) < 2 ^ 64"
    using assms(1) by (auto simp: cooperative_def)
  have off: "unat (of_nat off :: u64) = off" using p(3) by (simp add: unat_of_nat)
  have addr: "unat (os_backing env + of_nat off) = unat (os_backing env) + off"
    using room p(3) off by (simp add: unat_plus_if_size word_size)
  have "\<exists>x. pim_region_page_aligned_range (os_backing env + of_nat off) 8 (os_page_size env) = Some x"
    by (rule page_range_exists [OF k]) (use addr room p(3) in \<open>simp_all\<close>)
  then show ?thesis
    using assms(1) p(1,2) r by (auto simp: protect_region_rw_def pim_region_mprotect_def planned_def cooperative_def)
qed

section \<open>Creating the resources\<close>

definition same_place :: "('h pim_region \<Rightarrow> 'h pim_region) \<Rightarrow> bool" where
  "same_place f \<longleftrightarrow> (\<forall>r. rg_offset (f r) = rg_offset r \<and> rg_size (f r) = rg_size r \<and> rg_type (f r) = rg_type r \<and>
     rg_page_size (f r) = rg_page_size r \<and> rg_active_dispatch_ops (f r) = rg_active_dispatch_ops r)"

lemma rank_dev_ok_upd_region:
  assumes "rank_dev_ok env dev" and "same_place f"
  shows "rank_dev_ok env (upd_region off f dev)"
proof -
  define g where "g = (\<lambda>e. if fst e = off then (fst e, f (snd e)) else e)"
  have g: "before (g d) (g e) \<longleftrightarrow> before d e" "region_ok n (g e) \<longleftrightarrow> region_ok n e" "planned env (g e) \<longleftrightarrow> planned env e" for d e n
    using assms(2) by (simp_all add: g_def before_def region_ok_def planned_def same_place_def)
  have "upd_region off f dev = dev\<lparr>dv_regions := map g (dv_regions dev)\<rparr>" by (simp add: upd_region_def g_def)
  then show ?thesis
    using assms(1)
    by (auto simp: rank_dev_ok_def wf_regions_def sorted_wrt_map list_all_iff is_topology_mutation_blocked_def g)
qed

lemma same_place_insert [simp]: "same_place (insert_handler offset depth e)"
  by (simp add: same_place_def insert_handler_def)

lemma register_planned:
  assumes "rank_dev_ok env dev" and "find_region (Some off) dev = Some r" and "plan_type off = PIM_REGION_CTRL_MMIO"
  obtains err dev' where "pim_register_dpu_handler True (Some off) 0 d 8 (Some h) dev = (err, dev')"
    and "err = PIM_SUCCESS \<or> err = PIM_ERR_ALREADY_EXISTS" and "rank_dev_ok env dev'"
    and "dv_max_active_dpus dev' = dv_max_active_dpus dev"
    and "\<And>k. find_region (Some k) dev \<noteq> None \<Longrightarrow> find_region (Some k) dev' \<noteq> None"
proof -
  note p = planned_find [OF assms(1,2)]
  have v: "validate_mmio_handler_target dev (Some off) = PIM_SUCCESS"
    "validate_handler_table_mutation_state_locked dev = PIM_SUCCESS"
    using assms p(1)
    by (auto simp: validate_mmio_handler_target_def validate_handler_table_mutation_state_locked_def planned_def
        rank_dev_ok_def is_topology_mutation_blocked_def)
  let ?e = "\<lparr>he_handler = h, he_last_value = le_word (mem_get (dv_mem dev) (rg_offset r) 8), he_write_seq = 0,
      he_register_size = 8, he_depth = d\<rparr>"
  have eq: "pim_register_dpu_handler True (Some off) 0 d 8 (Some h) dev =
      (if overlaps_handler 0 d 8 r then (PIM_ERR_ALREADY_EXISTS, dev)
       else (PIM_SUCCESS, upd_region off (insert_handler 0 d ?e) dev))"
    using assms(2) p(1) v
    by (simp add: pim_register_dpu_handler_def planned_def pim_is_supported_register_size_def is_aligned_def
        pim_load_register_u64_eq)
  show ?thesis
  proof (cases "overlaps_handler 0 d 8 r")
    case True
    then show ?thesis using that [OF eq [unfolded if_P [OF True]]] assms(1) by simp
  next
    case False
    have "find_region (Some k) (upd_region off f dev) \<noteq> None" if "find_region (Some k) dev \<noteq> None" for k f
      using that by auto
    then show ?thesis
      using that [OF eq [unfolded if_not_P [OF False]]] rank_dev_ok_upd_region [OF assms(1), of "insert_handler 0 d ?e" off]
      by simp
  qed
qed

lemma for_each_succeeds:
  assumes "I s" and "\<And>x s. x \<in> set xs \<Longrightarrow> I s \<Longrightarrow> \<exists>s'. f x s = (Inr (), s') \<and> I s'"
  shows "\<exists>s'. for_each f xs s = (Inr (), s') \<and> I s'"
  using assms
proof (induction xs arbitrary: s)
  case (Cons x xs)
  obtain s1 where s1: "f x s = (Inr (), s1)" "I s1" using Cons.prems(2) [of x s] Cons.prems(1) by auto
  have "\<exists>s'. for_each f xs s1 = (Inr (), s') \<and> I s'"
    using Cons.prems(2) by (intro Cons.IH [OF s1(2)]) auto
  with s1 show ?case by simp
qed simp

definition rank_live :: "host_env \<Rightarrow> upmem_sys \<Rightarrow> bool" where
  "rank_live env sys \<longleftrightarrow> rank_dev_ok env (fst sys) \<and> shape_ok sys"

lemma fst_upd_dpu_by_global [simp]: "fst (upd_dpu_by_global g f sys) = fst sys"
  by (simp add: upd_dpu_by_global_def upd_chip_def)

lemma rank_live_upd: "rank_live env sys \<Longrightarrow> g < kRankNumDpus \<Longrightarrow> rank_live env (upd_dpu_by_global g f sys)"
  by (simp add: rank_live_def)

lemma ci_bank_succeeds:
  assumes "cooperative env" and "rank_live env sys" and "c < kRankNumBanks"
  shows "\<exists>sys'. try_lazy_populate_ci_bank env c sys = (True, sys') \<and> rank_live env sys' \<and> dpus_of sys' = dpus_of sys"
proof (cases "ci_region_write (ch_ci (snd sys ! c)) \<noteq> None \<and> ci_region_read (ch_ci (snd sys ! c)) \<noteq> None")
  case True
  with assms show ?thesis by (simp add: try_lazy_populate_ci_bank_def)
next
  case False
  let ?m = "0x20000 + c * 8" and ?w = "0x28000 + c * 8"
  have pt: "plan_type ?m = PIM_REGION_CTRL_MMIO" "plan_type ?w = PIM_REGION_CTRL_RW"
    using assms(3) by (simp_all add: plan_type_def)
  have "8 dvd ?m" "8 dvd ?w" by presburger+
  moreover have "?m + 8 \<le> kRankApertureSizeBytes" "?w + 8 \<le> kRankApertureSizeBytes" using assms(3) by simp_all
  moreover have "rank_dev_ok env (fst sys)" using assms(2) by (simp add: rank_live_def)
  ultimately obtain dev1 where 1: "get_or_create_region env ?m 8 PIM_REGION_CTRL_MMIO (fst sys) = (Some ?m, dev1)"
    "rank_dev_ok env dev1" "find_region (Some ?m) dev1 \<noteq> None"
    and w: "8 dvd ?w" "?w + 8 \<le> kRankApertureSizeBytes"
    using get_or_create_planned [OF assms(1), of "fst sys" ?m] unfolding pt by metis
  obtain dev2 where 2: "get_or_create_region env ?w 8 PIM_REGION_CTRL_RW dev1 = (Some ?w, dev2)"
    "rank_dev_ok env dev2" "find_region (Some ?w) dev2 \<noteq> None" "find_region (Some ?m) dev2 \<noteq> None"
    using get_or_create_planned [OF assms(1) 1(2) w] 1(3) unfolding pt by metis
  obtain r where r: "find_region (Some ?m) dev2 = Some r" using 2(4) by blast
  obtain err dev3 where 3: "pim_register_dpu_handler True (Some ?m) 0 0 8 (Some (MmioHandler c)) dev2 = (err, dev3)"
    "err = PIM_SUCCESS \<or> err = PIM_ERR_ALREADY_EXISTS" "rank_dev_ok env dev3" "find_region (Some ?m) dev3 \<noteq> None"
    using register_planned [OF 2(2) r pt(1), of 0 "MmioHandler c"] 2(4) by metis
  have "\<exists>dev4. for_each (register_worker env (Some ?m) c) [0..<kChipNumDpus] dev3 = (Inr (), dev4) \<and>
      (rank_dev_ok env dev4 \<and> find_region (Some ?m) dev4 \<noteq> None)"
  proof (rule for_each_succeeds)
    show "rank_dev_ok env dev3 \<and> find_region (Some ?m) dev3 \<noteq> None" using 3(3,4) by simp
    fix i and dev :: "upmem_handler pim_device"
    assume dev: "rank_dev_ok env dev \<and> find_region (Some ?m) dev \<noteq> None"
    then obtain r where "find_region (Some ?m) dev = Some r" by blast
    with dev obtain err dev' where "pim_register_dpu_handler True (Some ?m) 0 (i + 1) 8 (Some (DpuHandler c)) dev = (err, dev')"
      "err = PIM_SUCCESS \<or> err = PIM_ERR_ALREADY_EXISTS" "rank_dev_ok env dev'" "find_region (Some ?m) dev' \<noteq> None"
      using register_planned [OF _ _ pt(1), of env dev r "i + 1" "DpuHandler c"] by metis
    then show "\<exists>dev'. register_worker env (Some ?m) c i dev = (Inr (), dev') \<and>
        (rank_dev_ok env dev' \<and> find_region (Some ?m) dev' \<noteq> None)"
      using assms(1) by (auto simp: register_worker_def cooperative_def)
  qed
  then obtain dev4 where 4: "for_each (register_worker env (Some ?m) c) [0..<kChipNumDpus] dev3 = (Inr (), dev4)"
    "rank_dev_ok env dev4" by blast
  have "try_lazy_populate_ci_bank env c sys = (True, upd_chip c (upd_state initialize_ci_state_defaults \<circ> set_write_region (Some ?m))
      (dev4, snd (upd_chip c (set_read_region (Some ?w)) (dev2, snd sys))))"
    using False assms(1,3) 1(1) 2(1) 3(1,2) 4(1) protect_planned [OF assms(1) 1(2,3)] protect_planned [OF assms(1) 2(2,3)]
    by (auto simp: try_lazy_populate_ci_bank_def upd_chip_def cooperative_def)
  moreover have "dpus_of (snd (try_lazy_populate_ci_bank env c sys)) = dpus_of sys" by (rule ci_bank_dpus)
  ultimately show ?thesis
    using assms(2) 4(2) by (auto simp: rank_live_def shape_ok_def upd_chip_def)
qed

lemma ci_color_succeeds:
  assumes "cooperative env" and "rank_live env sys"
  shows "\<exists>sys'. try_lazy_populate_ci_color env sys = (True, sys') \<and> rank_live env sys' \<and> dpus_of sys' = dpus_of sys"
proof -
  have pt: "plan_type kCiColorStateBase = PIM_REGION_RAM" by (simp add: plan_type_def)
  have dev: "rank_dev_ok env (fst sys)" using assms(2) by (simp add: rank_live_def)
  have "8 dvd kCiColorStateBase" "kCiColorStateBase + 8 \<le> kRankApertureSizeBytes" by simp_all
  then obtain dev' where g: "get_or_create_region env kCiColorStateBase 8 PIM_REGION_RAM (fst sys) = (Some kCiColorStateBase, dev')"
    "rank_dev_ok env dev'" "find_region (Some kCiColorStateBase) dev' \<noteq> None"
    using get_or_create_planned [OF assms(1) dev, of kCiColorStateBase] unfolding pt by metis
  have put: "rank_dev_ok env (put_mem a bs dev')" for a bs
    using g(2) by (auto simp: rank_dev_ok_def wf_regions_def put_mem_def is_topology_mutation_blocked_def)
  have "\<exists>sys'. try_lazy_populate_ci_color env sys = (True, sys') \<and> rank_dev_ok env (fst sys') \<and> snd sys' = snd sys"
    using g(1,2) put protect_planned [OF assms(1) g(2,3)]
    by (auto simp: try_lazy_populate_ci_color_def get_or_create_region_def simp del: rank_sizes split: if_splits)
  then show ?thesis using assms(2) by (auto simp: rank_live_def shape_ok_def dpus_of_def)
qed

lemma thread_succeeds:
  assumes "cooperative env" and "rank_live env sys"
  shows "\<exists>sys'. lazy_populate_thread env sys = (True, sys') \<and> rank_live env sys' \<and> dpus_of sys' = dpus_of sys"
proof -
  have "\<not> dv_teardown_in_progress (fst sys)"
    using assms(2) by (simp add: rank_live_def rank_dev_ok_def is_topology_mutation_blocked_def)
  moreover have "rank_dev_ok env (dev\<lparr>dv_max_active_dpus := n, dv_pool_running := b, dv_handler_pool := k\<rparr>)"
    if "rank_dev_ok env dev" "n \<noteq> 0" for dev :: "upmem_handler pim_device" and n b k
    using that by (auto simp: rank_dev_ok_def wf_regions_def is_topology_mutation_blocked_def)
  moreover have "dv_max_active_dpus (fst sys) = 0 \<Longrightarrow> \<not> dv_pool_running (fst sys)"
    using assms(2) by (auto simp: rank_live_def rank_dev_ok_def)
  ultimately show ?thesis
    using assms
    by (cases sys) (auto simp: lazy_populate_thread_def pim_pool_start_def pim_get_max_active_dpus_def pool_start_locked_def
        rank_live_def shape_ok_def dpus_of_def cooperative_def Let_def split_beta)
qed

lemma dpu_succeeds:
  assumes "cooperative env" and "rank_live env sys" and "g < kRankNumDpus"
  shows "\<exists>sys'. try_lazy_populate_dpu env g sys = (True, sys') \<and> rank_live env sys'"
proof -
  have "g mod 8 < kRankNumBanks" by simp
  then obtain sys1 where 1: "try_lazy_populate_ci_bank env (g mod 8) sys = (True, sys1)" "rank_live env sys1"
    using ci_bank_succeeds [OF assms(1,2)] by blast
  obtain sys2 where 2: "try_lazy_populate_ci_color env sys1 = (True, sys2)" "rank_live env sys2"
    using ci_color_succeeds [OF assms(1) 1(2)] by blast
  let ?m = "dp_mram (dpu_by_global sys2 g)"
  show ?thesis
  proof (cases "mram_addr ?m \<noteq> None \<and> mram_size ?m > 0")
    case True
    with 1 2 assms(3) show ?thesis by (simp add: try_lazy_populate_dpu_def)
  next
    case False
    define sys3 where "sys3 = upd_dpu_by_global g (\<lambda>d. d\<lparr>dp_mram := populated ?m\<rparr>) sys2"
    have "rank_live env sys3"
      using 2(2) assms(3) unfolding sys3_def by (rule rank_live_upd)
    then obtain sys' where 4: "lazy_populate_thread env sys3 = (True, sys')" "rank_live env sys'"
      using thread_succeeds [OF assms(1)] by blast
    have "mram_allocate (os_mram_mmap_ok env g) ?m = (True, populated ?m)"
      using False assms(1) by (auto simp: mram_allocate_def populated_def cooperative_def)
    with 1(1) 2(1) False 4 assms(3) show ?thesis
      by (auto simp: try_lazy_populate_dpu_def sys3_def simp del: split_paired_Ex)
  qed
qed

section \<open>Transfers succeed\<close>

lemma resolve_succeeds:
  assumes "cooperative env" and "rank_live env sys" and "l < 8" and "b < 8" and "mram_byte_in_bounds off sz"
  shows "\<exists>sys'. resolve_bank_mram env l off sz b sys = (Inr (), sys') \<and> rank_live env sys' \<and>
    (\<forall>h < kRankNumDpus. mram_at sys' h = (if h \<in> {global_idx l b} then populated (mram_at sys h) else mram_at sys h))"
proof -
  have g: "global_idx l b < kRankNumDpus" using assms(3,4) by (rule global_idx_less)
  obtain sys' where s: "try_lazy_populate_dpu env (global_idx l b) sys = (True, sys')" "rank_live env sys'"
    using dpu_succeeds [OF assms(1,2) g] by blast
  have eff: "mram_at sys' h = (if h = global_idx l b then populated (mram_at sys h) else mram_at sys h)" if "h < kRankNumDpus" for h
    using populate_dpu(3) [OF s(1)] assms(2) that by (auto simp: rank_live_def)
  have "mram_addr (mram_at sys' (global_idx l b)) \<noteq> None"
    using eff [OF g] by (simp add: populated_def mram_allocate_def)
  with s eff assms(4,5) show ?thesis by (auto simp: resolve_bank_mram_def mram_at_def simp del: split_paired_Ex)
qed

lemma transfer_bounds:
  "transfer_in_bounds kMramSizeBytes tm \<Longrightarrow> 0 < unat (tm_size tm) \<Longrightarrow>
   mram_byte_in_bounds (tm_offset_in_mram tm) (unat (tm_size tm))"
  by (auto simp: transfer_in_bounds_def mram_byte_in_bounds_iff Let_def split: if_splits)

lemma gather_succeeds:
  assumes "\<forall>b \<in> set bs. f b \<noteq> None"
  shows "\<exists>bufs'. for_each (\<lambda>b bufs. let p = f b; bufs = bufs[b := p]
      in if p = None then (Inl EFAULT, bufs) else (Inr (), bufs)) bs bufs = (Inr (), bufs')"
  using assms by (induction bs arbitrary: bufs) (auto simp: Let_def)

lemma copy_to_bank_live:
  assumes "rank_live env sys" and "l < 8" and "b < 8" and "src ! b \<noteq> None"
  shows "\<exists>sys'. copy_to_bank l off src sz b sys = (Inr (), sys') \<and> rank_live env sys'"
  using assms global_idx_less [OF assms(2,3)]
  by (auto simp: copy_to_bank_def rank_live_upd simp del: split_paired_Ex)

lemma sparse_write_succeeds:
  assumes "cooperative env" and "rank_live env sys" and "rq \<in> set (sparse_requests (tm_ptr tm) sz)"
    and "transfer_in_bounds kMramSizeBytes tm" and "0 < unat (tm_size tm)"
  shows "\<exists>sys'. host_copy_to_mram_sparse env tm rq sys = (Inr (), sys') \<and> rank_live env sys'"
proof -
  let ?ptrs = "tm_ptr tm" and ?off = "tm_offset_in_mram tm" and ?sz = "unat (tm_size tm)"
  obtain l where l: "l < 8" "rq_dpu_local_idx rq = l" "rq_active_bank_indices rq = active_banks ?ptrs l 64"
    "build_active_bank_indices (rq_active_bank_mask rq) = active_banks ?ptrs l 64"
    "active_banks ?ptrs l 64 \<noteq> []" "rq_active_bank_mask rq \<noteq> 0"
    using assms(3) by (rule sparse_requests_ok)
  let ?bs = "active_banks ?ptrs l 64"
  have bs: "b < 8 \<and> ?ptrs ! global_idx l b \<noteq> None" if "b \<in> set ?bs" for b
    using that by (auto simp: active_banks_def global_idx_def)
  obtain src where src: "gather_buffers rq ?ptrs = (Inr (), src)"
    using gather_succeeds [of ?bs "\<lambda>b. ?ptrs ! global_idx l b" "replicate kRankNumBanks None"] bs
    unfolding gather_buffers_def l(2,3) by blast
  have srcb: "src ! b \<noteq> None" if "b \<in> set ?bs" for b
    using for_each_gather [OF src [unfolded gather_buffers_def l(2,3)]] bs that by auto
  have "\<exists>sys1. for_each (resolve_bank_mram env l ?off ?sz) ?bs sys = (Inr (), sys1) \<and> rank_live env sys1"
    using resolve_succeeds [OF assms(1) _ l(1)] bs transfer_bounds [OF assms(4,5)] assms(2)
    by (intro for_each_succeeds) blast+
  then obtain sys1 where 1: "for_each (resolve_bank_mram env l ?off ?sz) ?bs sys = (Inr (), sys1)" "rank_live env sys1" by blast
  have "\<exists>sys2. for_each (copy_to_bank l ?off src ?sz) ?bs sys1 = (Inr (), sys2) \<and> rank_live env sys2"
    using 1(2) bs srcb l(1) by (intro for_each_succeeds copy_to_bank_live) auto
  with 1 src l assms(5) show ?thesis
    by (auto simp: host_copy_to_mram_sparse_def host_copy_to_mram_bank_group_def resolve_bank_group_mrams_def Let_def)
qed

lemma single_write_succeeds:
  assumes "cooperative env" and "rank_live env sys" and "g < kRankNumDpus"
    and "transfer_in_bounds kMramSizeBytes tm" and "0 < unat (tm_size tm)"
  shows "\<exists>sys'. copy_to_single env tm g sys = (Inr (), sys') \<and> rank_live env sys'"
proof (cases "tm_ptr tm ! g = None \<or> copied_by_sparse_request (tm_ptr tm) (unat (tm_size tm)) g")
  case True
  then show ?thesis using assms(2) by (auto simp: copy_to_single_def)
next
  case False
  then obtain src where src: "tm_ptr tm ! g = Some src" by auto
  obtain sys1 where 1: "try_lazy_populate_dpu env g sys = (True, sys1)" "rank_live env sys1"
    using dpu_succeeds [OF assms(1-3)] by blast
  have "mram_addr (mram_at sys1 g) \<noteq> None"
    using populate_dpu(3) [OF 1(1) _ assms(3)] assms(2) by (simp add: rank_live_def populated_def mram_allocate_def)
  then have "fst (mram_host_copy_to (dp_mram (dpu_by_global sys1 g)) (tm_offset_in_mram tm) (Some src) (unat (tm_size tm)))"
    using transfer_bounds [OF assms(4,5)] by (auto simp: mram_host_copy_to_def mram_at_def)
  then show ?thesis
    using 1 False src assms(3)
    by (auto simp: copy_to_single_def Let_def split_beta rank_live_upd simp del: split_paired_Ex)
qed

lemma host_copy_to_rank_succeeds:
  assumes "cooperative env" and "rank_live env sys" and "transfer_in_bounds kMramSizeBytes tm"
  shows "\<exists>sys'. host_copy_to_rank env tm sys = (Inr (), sys') \<and> rank_live env sys'"
proof (cases "unat (tm_size tm) = 0")
  case True
  with assms show ?thesis by (simp add: host_copy_to_rank_def)
next
  case False
  let ?rqs = "sparse_requests (tm_ptr tm) (unat (tm_size tm))"
  have "\<exists>sys1. for_each (host_copy_to_mram_sparse env tm) ?rqs sys = (Inr (), sys1) \<and> rank_live env sys1"
    using False assms by (intro for_each_succeeds sparse_write_succeeds) auto
  then obtain sys1 where 1: "for_each (host_copy_to_mram_sparse env tm) ?rqs sys = (Inr (), sys1)" "rank_live env sys1" by blast
  have "\<exists>sys2. for_each (copy_to_single env tm) [0..<kRankNumDpus] sys1 = (Inr (), sys2) \<and> rank_live env sys2"
    using False assms(1,3) 1(2) by (intro for_each_succeeds single_write_succeeds) auto
  with 1 False assms(3) show ?thesis by (auto simp: host_copy_to_rank_def)
qed

text \<open>A read also leaves every buffer where it was.\<close>

definition read_live :: "host_env \<Rightarrow> dpu_transfer_mram \<Rightarrow> upmem_sys \<times> u8 list option list \<Rightarrow> bool" where
  "read_live env tm st \<longleftrightarrow> rank_live env (fst st) \<and> length (snd st) = kRankNumDpus \<and>
     (\<forall>h < kRankNumDpus. snd st ! h = None \<longleftrightarrow> tm_ptr tm ! h = None)"

lemma read_live_update:
  "read_live env tm st \<Longrightarrow> tm_ptr tm ! g \<noteq> None \<Longrightarrow> rank_live env sys \<Longrightarrow> read_live env tm (sys, (snd st)[g := Some bs])"
  by (cases "g < kRankNumDpus") (auto simp: read_live_def nth_list_update)

lemma copy_from_bank_live:
  assumes "read_live env tm (sys, ptrs)" and "l < 8" and "b < 8" and "tm_ptr tm ! global_idx l b \<noteq> None"
  shows "\<exists>ptrs'. copy_from_bank l off sz sys b ptrs = (Inr (), ptrs') \<and> read_live env tm (sys, ptrs')"
proof -
  have "ptrs ! global_idx l b \<noteq> None"
    using assms(1,4) global_idx_less [OF assms(2,3)] by (simp add: read_live_def)
  then show ?thesis
    using read_live_update [OF assms(1,4), of sys] assms(1) by (auto simp: copy_from_bank_def read_live_def)
qed

lemma sparse_read_succeeds:
  assumes "cooperative env" and "read_live env tm st" and "rq \<in> set (sparse_requests (tm_ptr tm) sz)"
    and "transfer_in_bounds kMramSizeBytes tm" and "0 < unat (tm_size tm)"
  shows "\<exists>st'. host_copy_from_mram_sparse env tm rq st = (Inr (), st') \<and> read_live env tm st'"
proof -
  let ?off = "tm_offset_in_mram tm" and ?sz = "unat (tm_size tm)"
  obtain l where l: "l < 8" "rq_dpu_local_idx rq = l" "rq_active_bank_indices rq = active_banks (tm_ptr tm) l 64"
    "build_active_bank_indices (rq_active_bank_mask rq) = active_banks (tm_ptr tm) l 64"
    "active_banks (tm_ptr tm) l 64 \<noteq> []" "rq_active_bank_mask rq \<noteq> 0"
    using assms(3) by (rule sparse_requests_ok)
  let ?bs = "active_banks (tm_ptr tm) l 64"
  have bs: "b < 8 \<and> tm_ptr tm ! global_idx l b \<noteq> None" if "b \<in> set ?bs" for b
    using that by (auto simp: active_banks_def global_idx_def)
  have "\<forall>b \<in> set ?bs. snd st ! global_idx l b \<noteq> None"
    using bs assms(2) global_idx_less [OF l(1)] by (auto simp: read_live_def)
  then obtain src where src: "gather_buffers rq (snd st) = (Inr (), src)"
    using gather_succeeds [of ?bs "\<lambda>b. snd st ! global_idx l b" "replicate kRankNumBanks None"]
    unfolding gather_buffers_def l(2,3) by blast
  have "\<exists>sys1. for_each (resolve_bank_mram env l ?off ?sz) ?bs (fst st) = (Inr (), sys1) \<and> rank_live env sys1"
    using resolve_succeeds [OF assms(1) _ l(1)] bs transfer_bounds [OF assms(4,5)] assms(2) [unfolded read_live_def]
    by (intro for_each_succeeds) blast+
  then obtain sys1 where 1: "for_each (resolve_bank_mram env l ?off ?sz) ?bs (fst st) = (Inr (), sys1)" "rank_live env sys1" by blast
  have "\<exists>ptrs. for_each (copy_from_bank l ?off ?sz sys1) ?bs (snd st) = (Inr (), ptrs) \<and> read_live env tm (sys1, ptrs)"
    using 1(2) bs l(1) assms(2) by (intro for_each_succeeds copy_from_bank_live) (auto simp: read_live_def)
  with 1 src l assms(5) show ?thesis
    by (auto simp: host_copy_from_mram_sparse_def host_copy_from_mram_bank_group_def resolve_bank_group_mrams_def Let_def
        simp del: split_paired_Ex)
qed

lemma single_read_succeeds:
  assumes "cooperative env" and "read_live env tm st" and "g < kRankNumDpus"
    and "transfer_in_bounds kMramSizeBytes tm" and "0 < unat (tm_size tm)"
  shows "\<exists>st'. copy_from_single env tm g st = (Inr (), st') \<and> read_live env tm st'"
proof (cases "tm_ptr tm ! g = None \<or> copied_by_sparse_request (tm_ptr tm) (unat (tm_size tm)) g")
  case True
  then show ?thesis using assms(2) by (auto simp: copy_from_single_def simp del: split_paired_Ex split: option.split)
next
  case False
  then obtain dst where dst: "tm_ptr tm ! g \<noteq> None" "snd st ! g = Some dst" using assms(2,3) by (auto simp: read_live_def)
  have live: "rank_live env (fst st)" using assms(2) by (simp add: read_live_def)
  obtain sys1 where 1: "try_lazy_populate_dpu env g (fst st) = (True, sys1)" "rank_live env sys1"
    using dpu_succeeds [OF assms(1) live assms(3)] by blast
  have "mram_addr (mram_at sys1 g) \<noteq> None"
    using populate_dpu(3) [OF 1(1) _ assms(3)] live by (simp add: rank_live_def populated_def mram_allocate_def)
  then obtain bytes where "mram_host_copy_from (dp_mram (dpu_by_global sys1 g)) (tm_offset_in_mram tm) (unat (tm_size tm)) = Some bytes"
    using transfer_bounds [OF assms(4,5)] assms(5) by (auto simp: mram_host_copy_from_def mram_at_def)
  then show ?thesis
    using 1 False dst read_live_update [OF assms(2) dst(1) 1(2)]
    by (auto simp: copy_from_single_def simp del: split_paired_Ex)
qed

lemma host_copy_from_rank_succeeds:
  assumes "cooperative env" and "rank_live env sys" and "transfer_in_bounds kMramSizeBytes tm"
    and "length (tm_ptr tm) = kRankNumDpus"
  shows "\<exists>st'. host_copy_from_rank env tm sys = (Inr (), st') \<and> read_live env tm st'"
proof -
  have start: "read_live env tm (sys, tm_ptr tm)" using assms(2,4) by (simp add: read_live_def)
  show ?thesis
  proof (cases "unat (tm_size tm) = 0")
    case True
    with assms(3) start show ?thesis by (auto simp: host_copy_from_rank_def)
  next
    case False
    let ?rqs = "sparse_requests (tm_ptr tm) (unat (tm_size tm))"
    have "\<exists>st1. for_each (host_copy_from_mram_sparse env tm) ?rqs (sys, tm_ptr tm) = (Inr (), st1) \<and> read_live env tm st1"
      using False assms start by (intro for_each_succeeds sparse_read_succeeds) auto
    then obtain st1 where 1: "for_each (host_copy_from_mram_sparse env tm) ?rqs (sys, tm_ptr tm) = (Inr (), st1)"
      "read_live env tm st1" by blast
    have "\<exists>st2. for_each (copy_from_single env tm) [0..<kRankNumDpus] st1 = (Inr (), st2) \<and> read_live env tm st2"
      using False assms(1,3) 1(2) by (intro for_each_succeeds single_read_succeeds) auto
    with 1 False assms(3) show ?thesis by (auto simp: host_copy_from_rank_def)
  qed
qed

end
