(* ===== verification/Dispatch_Guard.thy ===== *)
theory Dispatch_Guard
  imports Prelude
begin

text \<open>
  The protocol by which readers of a region's handler table and the functions that change the table
  keep out of each other's way without a common lock (\<open>region_dispatch_guard\<close>,
  \<open>pim_register_dpu_handler\<close> and \<open>pim_unregister_dpu_handler\<close> of \<open>src/hostpimsim.cc\<close>).

  A step is one access to one of the two atomic variables. Any number of readers take part and one
  mutator, since mutators hold \<open>region->mutex\<close>. The mutator's store of \<open>handler_table_mutating\<close> is a
  release store and its load of \<open>active_dispatch_ops\<close> an acquire load; neither orders the store before
  the load, so the store may still sit in the store buffer of the mutator's processor when the load is
  done. \<open>gs_buffer\<close> is that buffer. With \<open>fenced\<close> the buffer is drained before the load, which is what
  sequentially consistent accesses would ask for.
\<close>

datatype reader =
    R_Idle \<comment> \<open>outside, or waiting in the inner loop\<close>
  | R_Ready \<comment> \<open>has seen \<open>handler_table_mutating\<close> false\<close>
  | R_Counted \<comment> \<open>has incremented \<open>active_dispatch_ops\<close>\<close>
  | R_Armed \<comment> \<open>the guard is active: the table is being read\<close>
  | R_Backoff \<comment> \<open>has seen the flag set and is about to decrement\<close>

datatype mutator =
    M_Idle
  | M_Flagged \<comment> \<open>has stored true\<close>
  | M_Mutating \<comment> \<open>has loaded zero: the table is being changed\<close>

record guard_state =
  gs_mutating :: bool
  gs_buffer :: "bool list"
  gs_active_dispatch_ops :: u32
  gs_readers :: "reader list"
  gs_mutator :: mutator

definition guard_init :: "nat \<Rightarrow> guard_state" where
  "guard_init n = \<lparr>gs_mutating = False, gs_buffer = [], gs_active_dispatch_ops = 0,
     gs_readers = replicate n R_Idle, gs_mutator = M_Idle\<rparr>"

definition set_reader :: "nat \<Rightarrow> reader \<Rightarrow> guard_state \<Rightarrow> guard_state" where
  "set_reader i r s = s\<lparr>gs_readers := (gs_readers s)[i := r]\<rparr>"

definition count_up :: "guard_state \<Rightarrow> guard_state" where
  "count_up s = s\<lparr>gs_active_dispatch_ops := gs_active_dispatch_ops s + 1\<rparr>"

definition count_down :: "guard_state \<Rightarrow> guard_state" where
  "count_down s = s\<lparr>gs_active_dispatch_ops := gs_active_dispatch_ops s - 1\<rparr>"

text \<open>One access of reader \<open>i\<close> (the constructor's loop, then the destructor).\<close>

definition reader_access :: "nat \<Rightarrow> guard_state \<Rightarrow> guard_state" where
  "reader_access i s =
     (case gs_readers s ! i of
        R_Idle \<Rightarrow> if gs_mutating s then s else set_reader i R_Ready s
      | R_Ready \<Rightarrow> set_reader i R_Counted (count_up s)
      | R_Counted \<Rightarrow> set_reader i (if gs_mutating s then R_Backoff else R_Armed) s
      | R_Armed \<Rightarrow> set_reader i R_Idle (count_down s)
      | R_Backoff \<Rightarrow> set_reader i R_Idle (count_down s))"

text \<open>One access of the mutator. After the load it either leaves with \<open>PIM_ERR_BUSY\<close> or changes the table;
  both end with the store of false.\<close>

definition mutator_store :: "bool \<Rightarrow> guard_state \<Rightarrow> guard_state" where
  "mutator_store b s = s\<lparr>gs_buffer := gs_buffer s @ [b]\<rparr>"

definition mutator_access :: "guard_state \<Rightarrow> guard_state" where
  "mutator_access s =
     (case gs_mutator s of
        M_Idle \<Rightarrow> (mutator_store True s)\<lparr>gs_mutator := M_Flagged\<rparr>
      | M_Flagged \<Rightarrow>
          if gs_active_dispatch_ops s \<noteq> 0 then (mutator_store False s)\<lparr>gs_mutator := M_Idle\<rparr>
          else s\<lparr>gs_mutator := M_Mutating\<rparr>
      | M_Mutating \<Rightarrow> (mutator_store False s)\<lparr>gs_mutator := M_Idle\<rparr>)"

definition flush :: "guard_state \<Rightarrow> guard_state" where
  "flush s = (case gs_buffer s of [] \<Rightarrow> s | b # bs \<Rightarrow> s\<lparr>gs_mutating := b, gs_buffer := bs\<rparr>)"

inductive guard_step :: "bool \<Rightarrow> guard_state \<Rightarrow> guard_state \<Rightarrow> bool" for fenced where
  reader: "i < length (gs_readers s) \<Longrightarrow> guard_step fenced s (reader_access i s)"
| mutator: "fenced \<and> gs_mutator s = M_Flagged \<longrightarrow> gs_buffer s = [] \<Longrightarrow> guard_step fenced s (mutator_access s)"
| flush: "guard_step fenced s (flush s)"

inductive_cases guard_stepE: "guard_step fenced s s'"

text \<open>Extending a run by one step.\<close>

lemma guard_run:
  "(guard_step fenced)\<^sup>*\<^sup>* s\<^sub>0 s \<Longrightarrow> i < length (gs_readers s) \<Longrightarrow> (guard_step fenced)\<^sup>*\<^sup>* s\<^sub>0 (reader_access i s)"
  "(guard_step fenced)\<^sup>*\<^sup>* s\<^sub>0 s \<Longrightarrow> fenced \<and> gs_mutator s = M_Flagged \<longrightarrow> gs_buffer s = [] \<Longrightarrow>
     (guard_step fenced)\<^sup>*\<^sup>* s\<^sub>0 (mutator_access s)"
  "(guard_step fenced)\<^sup>*\<^sup>* s\<^sub>0 s \<Longrightarrow> (guard_step fenced)\<^sup>*\<^sup>* s\<^sub>0 (flush s)"
  by (auto intro: rtranclp.rtrancl_into_rtrancl guard_step.intros)

text \<open>Nobody reads the table while it changes.\<close>

definition guard_safe :: "guard_state \<Rightarrow> bool" where
  "guard_safe s \<longleftrightarrow> gs_mutator s = M_Mutating \<longrightarrow> R_Armed \<notin> set (gs_readers s)"

section \<open>With a fence the protocol is safe\<close>

definition holds_count :: "reader \<Rightarrow> bool" where
  "holds_count r \<longleftrightarrow> r = R_Counted \<or> r = R_Armed \<or> r = R_Backoff"

definition guard_inv :: "guard_state \<Rightarrow> bool" where
  "guard_inv s \<longleftrightarrow>
     gs_active_dispatch_ops s = of_nat (length (filter holds_count (gs_readers s))) \<and>
     length (gs_readers s) < 2 ^ 32 \<and>
     (gs_mutator s = M_Mutating \<longrightarrow> gs_mutating s \<and> gs_buffer s = [] \<and> R_Armed \<notin> set (gs_readers s)) \<and>
     (gs_mutator s = M_Flagged \<longrightarrow> last (gs_mutating s # gs_buffer s))"

lemma guard_inv_reader:
  assumes "guard_inv s" and "i < length (gs_readers s)"
  shows "guard_inv (reader_access i s)"
  using assms length_filter_update_word [OF assms(2), of holds_count]
  by (auto simp: guard_inv_def reader_access_def set_reader_def count_up_def count_down_def holds_count_def
      split: reader.split dest!: set_list_update_subset)

lemma no_reader_counted:
  assumes "length rs < 2 ^ 32" and "(of_nat (length (filter holds_count rs)) :: u32) = 0"
  shows "R_Armed \<notin> set rs"
  using none_counted [OF assms] by (auto simp: filter_empty_conv holds_count_def)

lemma guard_inv_mutator:
  assumes "guard_inv s" and "gs_mutator s = M_Flagged \<longrightarrow> gs_buffer s = []"
  shows "guard_inv (mutator_access s)"
  using assms no_reader_counted [of "gs_readers s"]
  by (auto simp: guard_inv_def mutator_access_def mutator_store_def split: mutator.split)

lemma guard_inv_flush: "guard_inv s \<Longrightarrow> guard_inv (flush s)"
  by (auto simp: guard_inv_def flush_def split: list.split if_splits)

lemma guard_inv_step: "guard_step True s s' \<Longrightarrow> guard_inv s \<Longrightarrow> guard_inv s'"
  by (erule guard_stepE) (auto intro: guard_inv_reader guard_inv_mutator guard_inv_flush)

lemma guard_inv_init: "n < 2 ^ 32 \<Longrightarrow> guard_inv (guard_init n)"
  by (simp add: guard_inv_def guard_init_def holds_count_def)

lemma guard_inv_reachable:
  "(guard_step True)\<^sup>*\<^sup>* (guard_init n) s \<Longrightarrow> n < 2 ^ 32 \<Longrightarrow> guard_inv s"
  by (induction rule: rtranclp_induct) (auto intro: guard_inv_step guard_inv_init)

lemma guard_inv_safe: "guard_inv s \<Longrightarrow> guard_safe s"
  by (simp add: guard_inv_def guard_safe_def)

end
