(* ===== verification/Seqlock.thy ===== *)
theory Seqlock
  imports Prelude
begin

text \<open>
  The sequence counter that keeps the monitor and a writer of a register apart: \<open>write_raw_atomic\<close> with
  \<open>mmio_handler_mark_write_begin\<close> and \<open>mmio_handler_mark_write_end\<close> of \<open>src/hostpimsim.cc\<close>, and
  \<open>monitor_refresh_entry_snapshot_volatile\<close> of \<open>src/monitor.cc\<close>.

  A step is one access to the register, its cached value or its counter. The writer stores the register in one
  access, the reader loads it byte by byte. \<open>sq_marks\<close> counts the increments of \<open>sq_seq\<close> without wrapping; it is
  not a variable of the program.
\<close>

datatype seq_writer =
    W_Idle
  | W_Begun u64 \<comment> \<open>has marked the beginning\<close>
  | W_Stored u64 \<comment> \<open>has stored the register\<close>
  | W_Cached \<comment> \<open>has stored the cached value\<close>

datatype seq_reader =
    Q_Idle
  | Q_Load u32 "u8 list" \<comment> \<open>\<open>seq_before\<close> and the bytes loaded so far\<close>
  | Q_Swap "u8 list" \<comment> \<open>has checked the counter again\<close>
  | Q_Done bool u64 \<comment> \<open>\<open>changed\<close> and \<open>sampled_value\<close>\<close>

record seq_state =
  sq_bytes :: "u8 list"
  sq_last_value :: u64
  sq_seq :: u32
  sq_writer :: seq_writer
  sq_reader :: seq_reader
  sq_marks :: nat

definition seq_init :: "u8 list \<Rightarrow> seq_state" where
  "seq_init bs = \<lparr>sq_bytes = bs, sq_last_value = le_word bs, sq_seq = 0, sq_writer = W_Idle, sq_reader = Q_Idle,
     sq_marks = 0\<rparr>"

definition mark :: "seq_state \<Rightarrow> seq_state" where
  "mark s = s\<lparr>sq_seq := sq_seq s + 1, sq_marks := sq_marks s + 1\<rparr>"

text \<open>One access of the writer; \<open>v\<close> is the value of a write that begins.\<close>

definition writer_access :: "u64 \<Rightarrow> seq_state \<Rightarrow> seq_state" where
  "writer_access v s =
     (case sq_writer s of
        W_Idle \<Rightarrow> (mark s)\<lparr>sq_writer := W_Begun (take_bit (8 * length (sq_bytes s)) v)\<rparr>
      | W_Begun w \<Rightarrow> s\<lparr>sq_bytes := le_bytes (length (sq_bytes s)) w, sq_writer := W_Stored w\<rparr>
      | W_Stored w \<Rightarrow> s\<lparr>sq_last_value := w, sq_writer := W_Cached\<rparr>
      | W_Cached \<Rightarrow> (mark s)\<lparr>sq_writer := W_Idle\<rparr>)"

text \<open>One access of the monitor. A rejected sample takes it back to the start.\<close>

definition monitor_access :: "seq_state \<Rightarrow> seq_state" where
  "monitor_access s =
     (case sq_reader s of
        Q_Idle \<Rightarrow> if sq_seq s AND 1 \<noteq> 0 then s else s\<lparr>sq_reader := Q_Load (sq_seq s) []\<rparr>
      | Q_Load seq_before acc \<Rightarrow>
          if length acc < length (sq_bytes s)
          then s\<lparr>sq_reader := Q_Load seq_before (acc @ [sq_bytes s ! length acc])\<rparr>
          else if seq_before \<noteq> sq_seq s \<or> sq_seq s AND 1 \<noteq> 0 then s\<lparr>sq_reader := Q_Idle\<rparr>
          else s\<lparr>sq_reader := Q_Swap acc\<rparr>
      | Q_Swap acc \<Rightarrow>
          s\<lparr>sq_last_value := le_word acc, sq_reader := Q_Done (sq_last_value s \<noteq> le_word acc) (le_word acc)\<rparr>
      | Q_Done _ _ \<Rightarrow> s\<lparr>sq_reader := Q_Idle\<rparr>)"

inductive seq_step :: "seq_state \<Rightarrow> seq_state \<Rightarrow> bool" where
  writer: "seq_step s (writer_access v s)"
| monitor: "seq_step s (monitor_access s)"

inductive_cases seq_stepE: "seq_step s s'"

section \<open>A sample is never torn\<close>

text \<open>\<open>m\<close> is the number of marks when the monitor read the counter. While no mark has been made since, the
  bytes loaded are those of the register; the register changes only after an odd mark.\<close>

definition seq_inv :: "seq_state \<Rightarrow> bool" where
  "seq_inv s \<longleftrightarrow>
     sq_seq s = of_nat (sq_marks s) \<and>
     (even (sq_marks s) \<longleftrightarrow> sq_writer s = W_Idle) \<and>
     (\<forall>b acc. sq_reader s = Q_Load b acc \<longrightarrow>
        (\<exists>m \<le> sq_marks s. even m \<and> b = of_nat m \<and> length acc \<le> length (sq_bytes s) \<and>
           (m = sq_marks s \<longrightarrow> acc = take (length acc) (sq_bytes s))))"

lemma seq_inv_init: "seq_inv (seq_init bs)"
  by (simp add: seq_inv_def seq_init_def)

lemma even_of_nat_u32: "even (of_nat n :: u32) \<longleftrightarrow> even n"
  by (simp add: even_of_nat_iff)

lemma and_one_u32: "w AND 1 = 0 \<longleftrightarrow> even w" for w :: u32
  by (simp add: and_one_eq even_iff_mod_2_eq_zero)

lemma seq_inv_writer:
  assumes "seq_inv s"
  shows "seq_inv (writer_access v s)"
proof -
  let ?s = "writer_access v s"
  have seq: "sq_seq s = of_nat (sq_marks s)" "even (sq_marks s) \<longleftrightarrow> sq_writer s = W_Idle"
    using assms by (simp_all add: seq_inv_def)
  have same: "sq_reader ?s = sq_reader s" "length (sq_bytes ?s) = length (sq_bytes s)" "sq_marks s \<le> sq_marks ?s"
    by (auto simp: writer_access_def mark_def split: seq_writer.split)
  have frozen: "sq_bytes ?s = sq_bytes s" if "even (sq_marks s)"
    using that seq(2) by (simp add: writer_access_def mark_def)
  have "sq_seq ?s = of_nat (sq_marks ?s)" "even (sq_marks ?s) \<longleftrightarrow> sq_writer ?s = W_Idle"
    using seq by (auto simp: writer_access_def mark_def split: seq_writer.split)
  moreover have "\<exists>m \<le> sq_marks ?s. even m \<and> b = of_nat m \<and> length acc \<le> length (sq_bytes ?s) \<and>
      (m = sq_marks ?s \<longrightarrow> acc = take (length acc) (sq_bytes ?s))" if "sq_reader ?s = Q_Load b acc" for b acc
  proof -
    have "sq_reader s = Q_Load b acc" using that same(1) by simp
    then obtain m where m: "m \<le> sq_marks s" "even m" "b = of_nat m" "length acc \<le> length (sq_bytes s)"
      "m = sq_marks s \<longrightarrow> acc = take (length acc) (sq_bytes s)"
      using assms unfolding seq_inv_def by blast
    moreover have "sq_bytes ?s = sq_bytes s \<and> m = sq_marks s" if "m = sq_marks ?s"
      using that m(1,2) same(3) frozen by auto
    ultimately show ?thesis using same(2,3) by (intro exI [of _ m]) auto
  qed
  ultimately show ?thesis by (simp add: seq_inv_def)
qed

lemma seq_inv_monitor: "seq_inv s \<Longrightarrow> seq_inv (monitor_access s)"
  unfolding seq_inv_def monitor_access_def
  by (cases "sq_reader s") (auto simp: and_one_u32 even_of_nat_u32 take_Suc_conv_app_nth)

lemma seq_inv_reachable: "seq_step\<^sup>*\<^sup>* (seq_init bs) s \<Longrightarrow> seq_inv s"
  by (induction rule: rtranclp_induct) (auto elim!: seq_stepE intro: seq_inv_writer seq_inv_monitor seq_inv_init)

lemma of_nat_u32_eq:
  assumes "(of_nat m :: u32) = of_nat n" and "m \<le> n" and "n < 2 ^ 32"
  shows "m = n"
  using assms word_of_nat_eq_iff [of m n, where ?'a = 32] by (simp add: take_bit_nat_eq_self)

lemma sample_not_torn:
  assumes "seq_inv s" and "sq_reader s \<noteq> Q_Swap acc" and "sq_reader (monitor_access s) = Q_Swap acc" and "sq_marks s < 2 ^ 32"
  shows "acc = sq_bytes s" and "sq_writer s = W_Idle"
proof -
  obtain b where b: "sq_reader s = Q_Load b acc" "\<not> length acc < length (sq_bytes s)" "b = sq_seq s" "even (sq_seq s)"
    using assms(2,3) by (auto simp: monitor_access_def and_one_u32 split: seq_reader.splits if_splits)
  then obtain m where m: "m \<le> sq_marks s" "b = of_nat m" "length acc \<le> length (sq_bytes s)"
    "m = sq_marks s \<longrightarrow> acc = take (length acc) (sq_bytes s)"
    using assms(1) by (auto simp: seq_inv_def)
  have seq: "sq_seq s = of_nat (sq_marks s)" "even (sq_marks s) \<longleftrightarrow> sq_writer s = W_Idle"
    using assms(1) by (simp_all add: seq_inv_def)
  have "m = sq_marks s" using of_nat_u32_eq [OF _ m(1) assms(4)] m(2) b(3) seq(1) by metis
  then show "acc = sq_bytes s" using m(3,4) b(2) by simp
  show "sq_writer s = W_Idle" using b(4) seq by (simp add: even_of_nat_u32)
qed

end
