(* ===== verification/Monitor.thy ===== *)
theory Monitor
  imports Mmio_Props
begin

text \<open>
  The polling monitor (\<open>src/monitor.cc\<close>): threads that sample the registers with a handler, compare them with
  the values cached last, and invoke the handlers of those that changed.

  One scan is a function on the system. The regions of a thread are given by their offsets. What happens between the
  accesses of a scan is the subject of \<open>Seqlock\<close>; here a scan runs undisturbed, so that the counter read before and
  after the sample is the same. A thread that runs out of memory for its list of pending handlers stops the
  monitor of the device; that path is left out.
\<close>

definition kDefaultNumMonitors :: u32 where "kDefaultNumMonitors = 1"

section \<open>One scan\<close>

text \<open>\<open>addr\<close> is the address of the register. The result is \<open>changed\<close>, the sampled value and the entry.\<close>

definition monitor_refresh_entry_snapshot ::
  "(nat \<Rightarrow> u8) \<Rightarrow> nat \<Rightarrow> 'h dpu_handler_entry \<Rightarrow> bool \<times> u64 \<times> 'h dpu_handler_entry" where
  "monitor_refresh_entry_snapshot mem addr entry =
     (if he_write_seq entry AND 1 \<noteq> 0 then (False, 0, entry)
      else case pim_load_register_u64 mem addr (he_register_size entry) of
             None \<Rightarrow> (False, 0, entry)
           | Some loaded \<Rightarrow> (he_last_value entry \<noteq> loaded, loaded, entry\<lparr>he_last_value := loaded\<rparr>))"

text \<open>A pending handler is a region, an offset and a value.\<close>

definition refresh_handlers ::
  "(nat \<Rightarrow> u8) \<Rightarrow> nat \<Rightarrow> nat \<Rightarrow> (nat \<times> 'h dpu_handler_entry) list \<Rightarrow>
   (nat \<times> nat \<times> u64) list \<times> (nat \<times> 'h dpu_handler_entry) list" where
  "refresh_handlers mem off base hs =
     (let res = map (\<lambda>(offset, entry). (offset, monitor_refresh_entry_snapshot mem (base + offset) entry)) hs
      in (map (\<lambda>(offset, changed, v, entry). (off, offset, v)) (filter (\<lambda>(offset, changed, v, entry). changed) res),
          map (\<lambda>(offset, changed, v, entry). (offset, entry)) res))"

definition scan_region :: "nat \<Rightarrow> 'h pim_device \<Rightarrow> (nat \<times> nat \<times> u64) list \<times> 'h pim_device" where
  "scan_region off dev =
     (case map_of (dv_regions dev) off of
        None \<Rightarrow> ([], dev)
      | Some region \<Rightarrow>
          if rg_handler_table_mutating region then ([], dispatch_leave off (dispatch_enter off dev))
          else let (pending, hs) = refresh_handlers (dv_mem dev) off (rg_offset region) (rg_handlers region)
               in (pending, dispatch_leave off (upd_region off (\<lambda>r. r\<lparr>rg_handlers := hs\<rparr>) (dispatch_enter off dev))))"

text \<open>The scan phase over the regions of the thread, then the dispatch phase.\<close>

definition scan_regions :: "nat list \<Rightarrow> 'h pim_device \<Rightarrow> (nat \<times> nat \<times> u64) list \<times> 'h pim_device" where
  "scan_regions my_regions dev =
     fold (\<lambda>off (pending, dev).
         if \<not> dv_monitor_running dev then (pending, dev)
         else let (ps, dev) = scan_region off dev in (pending @ ps, dev))
       my_regions ([], dev)"

definition dispatch_pending_handlers ::
  "('h, 's) runner \<Rightarrow> bool \<Rightarrow> (nat \<times> nat \<times> u64) list \<Rightarrow> ('h, 's) sys \<Rightarrow> ('h, 's) sys" where
  "dispatch_pending_handlers run push_ok pending =
     fold (\<lambda>(off, offset, v) sys. snd (pim_invoke_dpu_handler_internal run push_ok (Some off) offset v False 0 sys)) pending"

definition monitor_scan ::
  "('h, 's) runner \<Rightarrow> bool \<Rightarrow> nat list \<Rightarrow> ('h, 's) sys \<Rightarrow> bool \<times> ('h, 's) sys" where
  "monitor_scan run push_ok my_regions sys =
     (let (pending, dev) = scan_regions my_regions (fst sys)
      in (pending \<noteq> [], dispatch_pending_handlers run push_ok pending (dev, snd sys)))"

section \<open>The thread\<close>

text \<open>The regions are dealt out in the order of their offsets.\<close>

definition mmio_offsets :: "'h pim_device \<Rightarrow> nat list" where
  "mmio_offsets dev = map fst (filter (\<lambda>e. rg_type (snd e) = PIM_REGION_CTRL_MMIO) (dv_regions dev))"

definition monitor_regions :: "u32 \<Rightarrow> u32 \<Rightarrow> 'h pim_device \<Rightarrow> nat list" where
  "monitor_regions thread_id total_threads dev =
     map snd (filter (\<lambda>(region_idx, off). region_idx mod unat total_threads = unat thread_id)
       (enumerate 0 (mmio_offsets dev)))"

record spin_state =
  sp_spin_limit :: u32
  sp_current_spin_limit :: u32
  sp_spin_counter :: int

datatype wait = Hot | Pause | Sleep_us u32

definition spin_init :: "'h pim_device \<Rightarrow> spin_state" where
  "spin_init dev = \<lparr>sp_spin_limit = dv_active_poll_cnt_limit dev, sp_current_spin_limit = dv_active_poll_cnt_limit dev,
     sp_spin_counter = sint (dv_active_poll_cnt_limit dev)\<rparr>"

definition monitor_wait :: "bool \<Rightarrow> 'h pim_device \<Rightarrow> spin_state \<Rightarrow> wait \<times> spin_state" where
  "monitor_wait work_found dev st =
     (if work_found then (Hot, spin_init dev)
      else if sp_spin_counter st > 0 then (Pause, st\<lparr>sp_spin_counter := sp_spin_counter st - 1\<rparr>)
      else
        let spin_limit = dv_active_poll_cnt_limit dev;
            current = (if sp_current_spin_limit st > spin_limit then spin_limit else sp_current_spin_limit st);
            current = current div dv_wakeup_spin_divisor dev
        in (Sleep_us (dv_sleep_duration_us dev),
            \<lparr>sp_spin_limit = spin_limit, sp_current_spin_limit = current, sp_spin_counter = sint current\<rparr>))"

text \<open>One turn of the polling loop.\<close>

definition monitor_turn ::
  "('h, 's) runner \<Rightarrow> bool \<Rightarrow> nat list \<Rightarrow> spin_state \<Rightarrow> ('h, 's) sys \<Rightarrow> wait \<times> spin_state \<times> ('h, 's) sys" where
  "monitor_turn run push_ok my_regions st sys =
     (let (work_found, sys) = monitor_scan run push_ok my_regions sys;
          (w, st) = monitor_wait work_found (fst sys) st
      in (w, st, sys))"

section \<open>Starting and stopping\<close>

definition pim_set_sleep_duration_us :: "u32 \<Rightarrow> 'h pim_device \<Rightarrow> 'h pim_device" where
  "pim_set_sleep_duration_us sleep_us dev =
     dev\<lparr>dv_sleep_duration_us := (if sleep_us > 0 then sleep_us else kDefaultSleepDurationUs)\<rparr>"

definition pim_set_poll_limit :: "u32 \<Rightarrow> 'h pim_device \<Rightarrow> 'h pim_device" where
  "pim_set_poll_limit poll_limit dev =
     dev\<lparr>dv_active_poll_cnt_limit := (if poll_limit > 0 then poll_limit else kDefaultPollLimit)\<rparr>"

definition pim_set_wakeup_spin_divisor :: "u32 \<Rightarrow> 'h pim_device \<Rightarrow> 'h pim_device" where
  "pim_set_wakeup_spin_divisor divisor dev =
     dev\<lparr>dv_wakeup_spin_divisor := (if divisor > 0 then divisor else kDefaultWakeupSpinDivisor)\<rparr>"

definition rebaseline :: "'h pim_device \<Rightarrow> 'h pim_device" where
  "rebaseline dev = fold (\<lambda>off dev. snd (scan_region off dev)) (mmio_offsets dev) dev"

definition actual_monitors :: "u32 \<Rightarrow> 'h pim_device \<Rightarrow> u32" where
  "actual_monitors num_monitors dev =
     (let total_mmio_regions = length (mmio_offsets dev);
          actual = (if num_monitors > 0 then num_monitors else kDefaultNumMonitors)
      in if total_mmio_regions > 0 \<and> unat actual > total_mmio_regions then of_nat total_mmio_regions else actual)"

text \<open>\<open>spawn_ok\<close>: all threads could be created.\<close>

definition pim_start_monitor ::
  "bool \<Rightarrow> u32 \<Rightarrow> u32 \<Rightarrow> u32 \<Rightarrow> u32 \<Rightarrow> 'h pim_device \<Rightarrow> pim_error \<times> 'h pim_device" where
  "pim_start_monitor spawn_ok num_monitors sleep_us poll_limit divisor dev =
     (if dv_teardown_in_progress dev \<or> dv_sigsegv_transition_in_progress dev then (PIM_ERR_BUSY, dev)
      else if dv_monitor_running dev then (PIM_ERR_ALREADY_EXISTS, dev)
      else
        let dev = (if dv_sigsegv_enabled dev then rebaseline dev else dev);
            dev = pim_set_wakeup_spin_divisor divisor (pim_set_poll_limit poll_limit (pim_set_sleep_duration_us sleep_us dev));
            actual = actual_monitors num_monitors dev;
            dev = dev\<lparr>dv_num_monitors := actual, dv_monitor_running := True\<rparr>
        in if spawn_ok
           then (PIM_SUCCESS, dev\<lparr>dv_monitor_threads := dv_monitor_threads dev + unat actual\<rparr>)
           else (PIM_ERR_NO_MEMORY, dev\<lparr>dv_monitor_running := False, dv_monitor_threads := 0, dv_num_monitors := 0\<rparr>))"

text \<open>\<open>in_monitor\<close>: the caller is a monitor thread.\<close>

definition pim_stop_monitor :: "bool \<Rightarrow> 'h pim_device \<Rightarrow> pim_error \<times> 'h pim_device" where
  "pim_stop_monitor in_monitor dev =
     (if in_monitor then (PIM_ERR_BUSY, dev)
      else (PIM_SUCCESS, dev\<lparr>dv_monitor_running := False, dv_monitor_threads := 0, dv_num_monitors := 0\<rparr>))"

definition pim_is_monitor_running :: "'h pim_device option \<Rightarrow> bool" where
  "pim_is_monitor_running dev = (case dev of None \<Rightarrow> False | Some dev \<Rightarrow> dv_monitor_running dev)"

definition monitor_load_u32_or_zero :: "('h pim_device \<Rightarrow> u32) \<Rightarrow> 'h pim_device option \<Rightarrow> u32" where
  "monitor_load_u32_or_zero member dev = (case dev of None \<Rightarrow> 0 | Some dev \<Rightarrow> member dev)"

end
