(* ===== verification/Monitor_Props.thy ===== *)
theory Monitor_Props
  imports Monitor
begin

text \<open>
  What the monitor guarantees: the regions are dealt out to the threads without gaps and without overlap, a scan
  reports exactly the registers that differ from their cached value and leaves none that does, and an idle monitor
  backs off until it no longer spins.
\<close>

section \<open>The regions of the threads\<close>

lemma in_monitor_regions:
  "off \<in> set (monitor_regions tid n dev) \<longleftrightarrow>
     (\<exists>i < length (mmio_offsets dev). mmio_offsets dev ! i = off \<and> i mod unat n = unat tid)"
  by (force simp: monitor_regions_def in_set_enumerate_eq image_iff)

lemma distinct_mmio_offsets: "distinct (map fst (dv_regions dev)) \<Longrightarrow> distinct (mmio_offsets dev)"
  unfolding mmio_offsets_def by (rule distinct_map_filter)

lemma distinct_monitor_regions: "distinct (map fst (dv_regions dev)) \<Longrightarrow> distinct (monitor_regions tid n dev)"
  unfolding monitor_regions_def using distinct_mmio_offsets [of dev] by (intro distinct_map_filter) simp

lemma monitor_regions_once:
  assumes "n \<noteq> 0" and "distinct (map fst (dv_regions dev))" and "off \<in> set (mmio_offsets dev)"
  shows "\<exists>!tid. tid < n \<and> off \<in> set (monitor_regions tid n dev)"
proof -
  obtain i where i: "i < length (mmio_offsets dev)" "mmio_offsets dev ! i = off"
    using assms(3) by (auto simp: in_set_conv_nth)
  have dist: "distinct (mmio_offsets dev)" using assms(2) by (rule distinct_mmio_offsets)
  have n: "0 < unat n" using assms(1) by (simp add: unat_gt_0)
  let ?t = "of_nat (i mod unat n) :: u32"
  have "i mod unat n < unat n" using n by simp
  moreover from this have "i mod unat n < 2 ^ 32" using unsigned_less [of n, where ?'a = nat] by simp
  ultimately have t: "unat ?t = i mod unat n" "?t < n"
    by (simp_all add: unsigned_of_nat take_bit_nat_eq_self word_less_nat_alt)
  show ?thesis
  proof (rule ex1I [of _ ?t])
    show "?t < n \<and> off \<in> set (monitor_regions ?t n dev)" using i t by (auto simp: in_monitor_regions)
    fix tid assume "tid < n \<and> off \<in> set (monitor_regions tid n dev)"
    then obtain j where j: "j < length (mmio_offsets dev)" "mmio_offsets dev ! j = off" "j mod unat n = unat tid"
      by (auto simp: in_monitor_regions)
    with i dist have "j = i" by (metis nth_eq_iff_index_eq)
    with j(3) show "tid = ?t" by simp
  qed
qed

section \<open>A scan\<close>

lemma upd_region_twice: "upd_region off f (upd_region off g dev) = upd_region off (\<lambda>r. f (g r)) dev"
  by (simp add: upd_region_def comp_def if_distrib cong: if_cong)

lemma scan_region_eq:
  "scan_region off dev =
     (case map_of (dv_regions dev) off of
        None \<Rightarrow> ([], dev)
      | Some r \<Rightarrow>
          if rg_handler_table_mutating r then ([], dev)
          else (fst (refresh_handlers (dv_mem dev) off (rg_offset r) (rg_handlers r)),
                upd_region off (\<lambda>x. x\<lparr>rg_handlers := snd (refresh_handlers (dv_mem dev) off (rg_offset r) (rg_handlers r))\<rparr>) dev))"
proof -
  have "map (\<lambda>e. if fst e = off then (fst e, snd e) else e) xs = xs" for xs :: "(nat \<times> 'a pim_region) list"
    by (induction xs) auto
  then have "upd_region off (\<lambda>r. r) dev = dev" by (simp add: upd_region_def)
  then have "dispatch_leave off (dispatch_enter off dev) = dev"
    by (simp add: dispatch_leave_def dispatch_enter_def upd_region_twice)
  moreover have "dispatch_leave off (upd_region off (\<lambda>x. x\<lparr>rg_handlers := hs\<rparr>) (dispatch_enter off dev)) =
      upd_region off (\<lambda>x. x\<lparr>rg_handlers := hs\<rparr>) dev" for hs
    by (simp add: dispatch_leave_def dispatch_enter_def upd_region_twice)
  ultimately show ?thesis
    by (auto simp: scan_region_def split_beta Let_def split: option.split)
qed

lemma scan_region_frame [simp]:
  "dv_mem (snd (scan_region off dev)) = dv_mem dev"
  "dv_monitor_running (snd (scan_region off dev)) = dv_monitor_running dev"
  by (auto simp: scan_region_eq upd_region_def split: option.split)

lemma map_of_scan_region_other: "k \<noteq> off \<Longrightarrow> map_of (dv_regions (snd (scan_region off dev))) k = map_of (dv_regions dev) k"
  by (auto simp: scan_region_eq split: option.split)

lemma scan_region_other:
  assumes "k \<noteq> off"
  shows "fst (scan_region k (snd (scan_region off dev))) = fst (scan_region k dev)"
  by (subst (1 2) scan_region_eq) (use map_of_scan_region_other [OF assms, of dev] in \<open>auto split: option.split\<close>)

lemma refresh_twice:
  "fst (refresh_handlers mem off base (snd (refresh_handlers mem off base hs))) = []"
proof -
  have "\<not> fst (monitor_refresh_entry_snapshot mem a (snd (snd (monitor_refresh_entry_snapshot mem a e))))" for a e
    by (auto simp: monitor_refresh_entry_snapshot_def split: option.split)
  then show ?thesis by (auto simp: refresh_handlers_def Let_def filter_empty_conv split_beta)
qed

lemma scan_region_again: "fst (scan_region off (snd (scan_region off dev))) = []"
proof (cases "map_of (dv_regions dev) off")
  case (Some r)
  then show ?thesis by (subst scan_region_eq) (auto simp: scan_region_eq refresh_twice)
qed (simp add: scan_region_eq)

lemma scan_quiet:
  "fst (scan_region k dev) = [] \<Longrightarrow> fst (scan_region k (snd (scan_region off dev))) = []"
  by (cases "k = off") (simp_all add: scan_region_again scan_region_other)

lemma scan_regions_snoc:
  assumes "dv_monitor_running dev"
  shows "scan_regions (xs @ [x]) dev =
    (fst (scan_regions xs dev) @ fst (scan_region x (snd (scan_regions xs dev))), snd (scan_region x (snd (scan_regions xs dev))))"
    and "dv_monitor_running (snd (scan_regions xs dev))" and "dv_mem (snd (scan_regions xs dev)) = dv_mem dev"
proof -
  have step: "scan_regions (xs @ [x]) dev = (case scan_regions xs dev of (pending, dev) \<Rightarrow>
      if \<not> dv_monitor_running dev then (pending, dev) else let (ps, dev) = scan_region x dev in (pending @ ps, dev))" for xs x
    by (simp add: scan_regions_def split_beta)
  show run: "dv_monitor_running (snd (scan_regions xs dev))" for xs
    by (induction xs rule: rev_induct) (use assms in \<open>simp_all add: step split_beta Let_def\<close>, simp add: scan_regions_def)
  then show "scan_regions (xs @ [x]) dev =
    (fst (scan_regions xs dev) @ fst (scan_region x (snd (scan_regions xs dev))), snd (scan_region x (snd (scan_regions xs dev))))"
    by (simp add: step split_beta Let_def)
  show "dv_mem (snd (scan_regions xs dev)) = dv_mem dev"
    by (induction xs rule: rev_induct) (use run in \<open>simp_all add: step split_beta Let_def\<close>, simp add: scan_regions_def)
qed

lemma scan_regions_pending:
  assumes "dv_monitor_running dev" and "distinct my"
  shows "fst (scan_regions my dev) = concat (map (\<lambda>off. fst (scan_region off dev)) my)"
    and "\<And>k. k \<in> set my \<or> fst (scan_region k dev) = [] \<Longrightarrow> fst (scan_region k (snd (scan_regions my dev))) = []"
proof -
  have "fst (scan_regions my dev) = concat (map (\<lambda>off. fst (scan_region off dev)) my) \<and>
      (\<forall>k. k \<notin> set my \<longrightarrow> fst (scan_region k (snd (scan_regions my dev))) = fst (scan_region k dev)) \<and>
      (\<forall>k. k \<in> set my \<or> fst (scan_region k dev) = [] \<longrightarrow> fst (scan_region k (snd (scan_regions my dev))) = [])"
    using assms(2)
  proof (induction my rule: rev_induct)
    case Nil
    then show ?case by (simp add: scan_regions_def)
  next
    case (snoc x xs)
    then show ?case
      by (auto simp: scan_regions_snoc(1) [OF assms(1)] scan_region_other scan_region_again intro: scan_quiet)
  qed
  then show "fst (scan_regions my dev) = concat (map (\<lambda>off. fst (scan_region off dev)) my)"
    "\<And>k. k \<in> set my \<or> fst (scan_region k dev) = [] \<Longrightarrow> fst (scan_region k (snd (scan_regions my dev))) = []"
    by auto
qed

lemma in_scan_region:
  "(o', offset, v) \<in> set (fst (scan_region off dev)) \<longleftrightarrow>
     o' = off \<and> (\<exists>r e. map_of (dv_regions dev) off = Some r \<and> \<not> rg_handler_table_mutating r \<and>
       (offset, e) \<in> set (rg_handlers r) \<and> even (he_write_seq e) \<and>
       pim_load_register_u64 (dv_mem dev) (rg_offset r + offset) (he_register_size e) = Some v \<and> he_last_value e \<noteq> v)"
proof -
  have "fst (monitor_refresh_entry_snapshot mem a e) \<and> fst (snd (monitor_refresh_entry_snapshot mem a e)) = v \<longleftrightarrow>
      even (he_write_seq e) \<and> pim_load_register_u64 mem a (he_register_size e) = Some v \<and> he_last_value e \<noteq> v"
    for mem a and e :: "'a dpu_handler_entry"
    by (auto simp: monitor_refresh_entry_snapshot_def even_iff_mod_2_eq_zero and_one_eq split: option.split)
  note refresh = this
  have "(o', offset, v) \<in> set (fst (refresh_handlers mem off base hs)) \<longleftrightarrow>
      o' = off \<and> (\<exists>e. (offset, e) \<in> set hs \<and> even (he_write_seq e) \<and>
        pim_load_register_u64 mem (base + offset) (he_register_size e) = Some v \<and> he_last_value e \<noteq> v)" for mem base
    and hs :: "(nat \<times> 'a dpu_handler_entry) list"
    unfolding refresh [symmetric] by (induction hs) (auto simp: refresh_handlers_def Let_def split_beta)
  then show ?thesis by (auto simp: scan_region_eq split: option.split)
qed

section \<open>Backing off\<close>

definition idle :: "'h pim_device \<Rightarrow> spin_state \<Rightarrow> spin_state" where
  "idle dev st = snd (monitor_wait False dev st)"

definition cold :: "spin_state \<Rightarrow> bool" where
  "cold st \<longleftrightarrow> sp_current_spin_limit st = 0 \<and> sp_spin_counter st \<le> 0"

lemma cold_stays: "cold st \<Longrightarrow> cold ((idle dev ^^ n) st)"
  by (induction n) (auto simp: cold_def idle_def monitor_wait_def Let_def)

lemma cold_sleeps: "cold st \<Longrightarrow> fst (monitor_wait False dev st) = Sleep_us (dv_sleep_duration_us dev)"
  by (auto simp: cold_def monitor_wait_def Let_def)

lemma idle_progress:
  assumes "2 \<le> dv_wakeup_spin_divisor dev" and "\<not> cold st"
  shows "(idle dev st, st) \<in> measures [\<lambda>st. unat (sp_current_spin_limit st), \<lambda>st. nat (sp_spin_counter st)]"
proof (cases "sp_spin_counter st > 0")
  case True
  then show ?thesis by (simp add: idle_def monitor_wait_def)
next
  case False
  let ?c = "sp_current_spin_limit st"
  have "?c \<noteq> 0" using False assms(2) by (auto simp: cold_def)
  then have c: "0 < unat ?c" by (simp add: unat_gt_0)
  let ?m = "if ?c > dv_active_poll_cnt_limit dev then dv_active_poll_cnt_limit dev else ?c"
  have d: "2 \<le> unat (dv_wakeup_spin_divisor dev)" using assms(1) by (simp add: word_le_nat_alt)
  have "unat ?m \<le> unat ?c" by (simp add: word_less_nat_alt)
  then have "unat ?m div unat (dv_wakeup_spin_divisor dev) \<le> unat ?c div 2"
    using d by (meson div_le_mono div_le_mono2 le_trans zero_less_numeral)
  also have "\<dots> < unat ?c" using c by simp
  finally show ?thesis using False by (simp add: idle_def monitor_wait_def Let_def unat_div)
qed

lemma idle_gets_cold:
  assumes "2 \<le> dv_wakeup_spin_divisor dev"
  shows "\<exists>n. cold ((idle dev ^^ n) st)"
proof (induction st rule: wf_induct_rule [OF wf_measures [of "[\<lambda>st. unat (sp_current_spin_limit st), \<lambda>st. nat (sp_spin_counter st)]"]])
  case (1 st)
  show ?case
  proof (cases "cold st")
    case True
    then show ?thesis by (intro exI [of _ 0]) simp
  next
    case False
    from 1 [OF idle_progress [OF assms False]] obtain n where "cold ((idle dev ^^ n) (idle dev st))" by blast
    then have "cold ((idle dev ^^ Suc n) st)" by (simp add: funpow_swap1)
    then show ?thesis ..
  qed
qed

lemma idle_backs_off:
  assumes "2 \<le> dv_wakeup_spin_divisor dev"
  shows "\<exists>n. \<forall>m \<ge> n. fst (monitor_wait False dev ((idle dev ^^ m) st)) = Sleep_us (dv_sleep_duration_us dev)"
proof -
  obtain n where n: "cold ((idle dev ^^ n) st)" using idle_gets_cold [OF assms] by blast
  have "cold ((idle dev ^^ m) st)" if "n \<le> m" for m
  proof -
    have "(idle dev ^^ m) st = (idle dev ^^ (m - n)) ((idle dev ^^ n) st)"
      using funpow_add [of "m - n" n "idle dev"] that by simp
    with cold_stays [OF n] show ?thesis by simp
  qed
  then show ?thesis using cold_sleeps by blast
qed

end
