(* ===== verification/Device_Correct.thy ===== *)
theory Device_Correct
  imports Chip_Props Dispatch_Guard Seqlock Monitor_Props
begin

text \<open>
  The properties of the core library: regions, registers and handlers, the pool that runs handlers, the monitor that
  polls registers, and the protocols between their threads.
\<close>

section \<open>Regions, registers and handlers\<close>

text \<open>A device of 4096 bytes with one region of registers at offset 64, and the same device with the memory
  filled with ones and a handler for the first register.\<close>

definition small_device :: "upmem_handler pim_device" where
  "small_device = the (pim_device_init (Some (\<lambda>_. 1)) 4096 True)"

definition mmio_device :: "upmem_handler pim_device" where
  "mmio_device = snd (pim_region_create 4096 True 64 64 PIM_REGION_CTRL_MMIO small_device)"

definition watched_device :: "upmem_handler pim_device" where
  "watched_device = snd (pim_register_dpu_handler True (Some 64) 0 0 8 (Some (MmioHandler 0)) mmio_device)"

lemma small_device_eval:
  "wf_regions small_device" "dv_size small_device = 4096" "dv_regions small_device = []" "dv_mem small_device = (\<lambda>_. 1)"
  "\<not> is_topology_mutation_blocked small_device"
  by (simp_all add: small_device_def pim_device_init_def pim_device_setup_common_def wf_regions_def
      is_topology_mutation_blocked_def)

lemma mmio_device_eval:
  "mmio_device = small_device\<lparr>dv_regions := [(64, new_region 64 64 4096 PIM_REGION_CTRL_MMIO)]\<rparr>"
  by (simp add: mmio_device_def pim_region_create_def small_device_eval below_def from_lower_bound_def overlaps_neighbour_def)

lemma register_watched:
  "fst (pim_register_dpu_handler True (Some 64) 0 0 8 (Some (MmioHandler 0)) mmio_device) = PIM_SUCCESS"
  by (simp add: pim_register_dpu_handler_def mmio_device_eval find_region_def new_region_def validate_mmio_handler_target_def
      validate_handler_table_mutation_state_locked_def pim_is_supported_register_size_def is_aligned_def overlaps_handler_def
      pim_load_register_u64_eq small_device_def pim_device_init_def pim_device_setup_common_def)

lemma watched_parts:
  "\<exists>r e. find_region (Some 64) watched_device = Some r \<and> rg_type r = PIM_REGION_CTRL_MMIO \<and> rg_offset r = 64 \<and>
     rg_size r = 64 \<and> map_of (rg_handlers r) 0 = Some e \<and> he_register_size e = 8 \<and>
     he_last_value e = 0x0101010101010101 \<and> he_write_seq e = 0 \<and> \<not> rg_handler_table_mutating r \<and>
     \<not> dv_sigsegv_enabled watched_device \<and> dv_mem watched_device = (\<lambda>_. 1) \<and> map fst (dv_regions watched_device) = [64]"
proof -
  have reg: "pim_register_dpu_handler True (Some 64) 0 0 8 (Some (MmioHandler 0)) mmio_device = (PIM_SUCCESS, watched_device)"
    using register_watched by (simp add: watched_device_def prod_eq_iff)
  have dev: "find_region (Some 64) mmio_device = Some (new_region 64 64 4096 PIM_REGION_CTRL_MMIO)"
    "\<not> dv_sigsegv_enabled mmio_device" "dv_mem mmio_device = (\<lambda>_. 1)"
    by (simp_all add: mmio_device_eval find_region_def small_device_def pim_device_init_def pim_device_setup_common_def)
  obtain h where eq: "watched_device = upd_region 64 (insert_handler 0 0
      \<lparr>he_handler = h, he_last_value = le_word (mem_get (\<lambda>_. 1) 64 8), he_write_seq = 0, he_register_size = 8, he_depth = 0\<rparr>) mmio_device"
    by (rule register_SomeE [OF reg]) (use dev in \<open>auto simp: new_region_def\<close>)
  have "le_word (mem_get (\<lambda>_. 1) 64 8) = (0x0101010101010101 :: u64)" by code_simp
  moreover have "map fst (dv_regions watched_device) = [64]" by (simp add: eq upd_region_def mmio_device_eval)
  ultimately show ?thesis unfolding eq using dev by (simp add: insert_handler_def new_region_def)
qed

lemma watched_write:
  assumes "offset \<in> {0, 8}"
  shows "\<exists>sys'. pim_write_raw run (Some 64) offset 4 v (watched_device, s) = (PIM_SUCCESS, sys')"
  using watched_parts assms
  by (auto simp: pim_write_raw_def write_sized_value_def pim_is_supported_access_size_def write_typed_value_def
      get_typed_region_ptr_def check_bounds_def is_aligned_def)

text \<open>A region is created exactly when it is not empty, lies inside the device, overlaps no region that
  exists, and neither the device's state nor the allocation forbids it, although the code looks at the two
  neighbours only. The new region is then found at its offset, every other region stays as it was, the list of
  regions remains sorted and free of overlap, and a refused creation changes nothing.\<close>

theorem region_create_exact:
  assumes "wf_regions dev" and "pim_region_create page_size alloc_ok offset sz type dev = (r, dev')"
  shows "(r \<noteq> None \<longleftrightarrow> 0 < sz \<and> offset + sz \<le> dv_size dev \<and> \<not> is_topology_mutation_blocked dev \<and>
      page_size \<noteq> 0xFFFFFFFF \<and> alloc_ok \<and>
      (\<forall>(k, x) \<in> set (dv_regions dev). offset + sz \<le> k \<or> k + rg_size x \<le> offset)) \<and>
    (r \<noteq> None \<longrightarrow> r = Some offset \<and> pim_device_get_region dev' offset = Some (new_region offset sz page_size type)) \<and>
    (r = None \<longrightarrow> dev' = dev) \<and>
    (\<forall>k. k \<noteq> offset \<longrightarrow> pim_device_get_region dev' k = pim_device_get_region dev k) \<and> wf_regions dev'"
proof -
  have "r \<noteq> None \<longleftrightarrow> 0 < sz \<and> offset + sz \<le> dv_size dev \<and> \<not> is_topology_mutation_blocked dev \<and>
      page_size \<noteq> 0xFFFFFFFF \<and> alloc_ok \<and>
      (\<forall>(k, x) \<in> set (dv_regions dev). offset + sz \<le> k \<or> k + rg_size x \<le> offset)"
    using region_create_iff [OF assms(1), of page_size alloc_ok offset sz type] assms(2)
    by (auto simp: list_all_iff disjoint_from_def split_beta)
  moreover have "r = Some offset \<and> pim_device_get_region dev' offset = Some (new_region offset sz page_size type)" if "r \<noteq> None"
    using that get_region_created [of page_size alloc_ok offset sz type dev _ dev'] assms(2) by auto
  moreover have "dev' = dev" if "r = None"
    using that assms(2) by (auto simp: pim_region_create_def split: if_splits)
  moreover have "pim_device_get_region dev' k = pim_device_get_region dev k" if "k \<noteq> offset" for k
    using get_region_create_other [OF that, of page_size alloc_ok sz type dev] assms(2) by simp
  moreover have "wf_regions dev'"
    using wf_regions_create [OF assms(1), of page_size alloc_ok offset sz type] assms(2) by simp
  ultimately show ?thesis by blast
qed

theorem region_create_exact_witness:
  "pim_device_get_region mmio_device 64 = Some (new_region 64 64 4096 PIM_REGION_CTRL_MMIO) \<and> wf_regions mmio_device"
proof -
  obtain r where "pim_region_create 4096 True 64 64 PIM_REGION_CTRL_MMIO small_device = (r, mmio_device)"
    by (metis mmio_device_def prod.collapse)
  from region_create_exact [OF small_device_eval(1) this] show ?thesis
    by (auto simp: small_device_eval)
qed

text \<open>Registering and unregistering a handler keep the handler tables of the device well-formed: within one
  depth no two registers overlap, each lies inside its region, is aligned and has a supported size. After a
  successful registration the handler is found, after a successful removal it is not, and every other handler
  of the region is found as before.\<close>

theorem handler_tables_kept:
  assumes "wf_device_handlers dev" and "distinct (map fst (dv_regions dev))" and "find_region (Some off) dev = Some r"
    and "pim_register_dpu_handler table_ok (Some off) offset depth n (Some h) dev = (e1, dev1)"
    and "pim_unregister_dpu_handler (Some off) offset depth dev = (e2, dev2)"
  shows "wf_device_handlers dev1 \<and> wf_device_handlers dev2 \<and>
    (\<exists>r1. find_region (Some off) dev1 = Some r1 \<and>
       (\<forall>o' d'. lookup_handler r1 o' d' =
          (if e1 = PIM_SUCCESS \<and> o' = offset \<and> d' = depth then Some h else lookup_handler r o' d'))) \<and>
    (\<exists>r2. find_region (Some off) dev2 = Some r2 \<and>
       (\<forall>o' d'. lookup_handler r2 o' d' =
          (if e2 = PIM_SUCCESS \<and> o' = offset \<and> d' = depth then None else lookup_handler r o' d')))"
  using wf_register [OF assms(1,2), of table_ok "Some off" offset depth n "Some h"]
    wf_unregister [OF assms(1), of "Some off" offset depth]
    register_lookup [OF assms(4,3)] unregister_lookup [OF assms(5,3)] assms(4,5) by simp

theorem handler_tables_kept_witness:
  "\<exists>r1. find_region (Some 64) watched_device = Some r1 \<and> lookup_handler r1 0 0 = Some (MmioHandler 0)"
proof -
  have f: "find_region (Some 64) mmio_device = Some (new_region 64 64 4096 PIM_REGION_CTRL_MMIO)"
    by (simp add: mmio_device_eval find_region_def)
  have r: "pim_register_dpu_handler True (Some 64) 0 0 8 (Some (MmioHandler 0)) mmio_device = (PIM_SUCCESS, watched_device)"
    using register_watched by (simp add: watched_device_def prod_eq_iff)
  have wf: "wf_device_handlers mmio_device" "distinct (map fst (dv_regions mmio_device))"
    by (simp_all add: mmio_device_eval wf_device_handlers_def wf_intros)
  obtain e2 dev2 where u: "pim_unregister_dpu_handler (Some 64) 0 0 mmio_device = (e2, dev2)" by fastforce
  show ?thesis using handler_tables_kept [OF wf f r u] by auto
qed

text \<open>A register that was written raw reads back as the value cut to the width of the access, and no other
  register of the region that does not overlap it reads differently.\<close>

theorem register_write_read:
  assumes "pim_write_raw run (Some off) offset n v sys = (PIM_SUCCESS, sys')"
  shows "pim_read (Some off) offset n (fst sys') = Inr (take_bit (8 * n) v) \<and>
    (\<forall>offset' m. offset + n \<le> offset' \<or> offset' + m \<le> offset \<longrightarrow>
       pim_read (Some off) offset' m (fst sys') = pim_read (Some off) offset' m (fst sys))"
  using pim_read_write_raw [OF assms] pim_read_write_raw_other [OF assms] by blast

theorem register_write_read_witness:
  "pim_read (Some 64) 8 4 (fst (snd (pim_write_raw run_dpu (Some 64) 8 4 0x1122334455667788 (watched_device, [])))) =
     Inr 0x55667788"
proof -
  obtain sys' where s: "pim_write_raw run_dpu (Some 64) 8 4 0x1122334455667788 (watched_device, []) = (PIM_SUCCESS, sys')"
    using watched_write [of 8 run_dpu "0x1122334455667788" "[]"] by auto
  from register_write_read [OF this] s show ?thesis by (simp add: take_bit_eq_mask mask_eq_exp_minus_1)
qed

text \<open>A raw write narrower than the register leaves in the cache the value it wrote, not the value of the
  register: the two agree exactly when the bytes of the register that were not written are zero. When they are
  not, the next poll sees a change that no external write made.\<close>

theorem narrow_write_cache:
  assumes "pim_write_raw run (Some off) offset n v sys = (PIM_SUCCESS, sys')"
    and "find_region (Some off) (fst sys) = Some r" and "rg_type r = PIM_REGION_CTRL_MMIO" and "\<not> dv_sigsegv_enabled (fst sys)"
    and "map_of (rg_handlers r) offset = Some e" and "pim_is_supported_register_size (he_register_size e)"
    and "n \<le> he_register_size e"
  shows "\<exists>r' e'. find_region (Some off) (fst sys') = Some r' \<and> map_of (rg_handlers r') offset = Some e' \<and>
    he_last_value e' = take_bit (8 * n) v \<and> even (he_write_seq e' - he_write_seq e) \<and>
    (pim_load_register_u64 (dv_mem (fst sys')) (rg_offset r + offset) (he_register_size e) = Some (he_last_value e') \<longleftrightarrow>
       (\<forall>i. n \<le> i \<and> i < he_register_size e \<longrightarrow> dv_mem (fst sys) (rg_offset r + offset + i) = 0))"
proof -
  have v: "validate_mmio_handler_target (fst sys) (Some off) = PIM_SUCCESS"
    using assms(2,3) by (simp add: validate_mmio_handler_target_def)
  have "cached_entry (Some off) offset (fst sys) = Some e" using assms(2,5) by (simp add: cached_entry_def)
  from cached_value_after_write [OF assms(1) v assms(4) this assms(6,7)]
  obtain e' where e': "cached_entry (Some off) offset (fst sys') = Some e'" "he_last_value e' = take_bit (8 * n) v"
    "he_write_seq e' = he_write_seq e + 2" by blast
  then obtain r' where r': "find_region (Some off) (fst sys') = Some r'" "map_of (rg_handlers r') offset = Some e'"
    by (auto simp: cached_entry_def bind_eq_Some_conv)
  have R: "he_register_size e \<le> 8" using assms(6) by (auto simp: pim_is_supported_register_size_def)
  have "dv_mem (fst sys') = mem_put (rg_offset r + offset) (le_bytes n (take_bit (8 * n) v)) (dv_mem (fst sys))"
    using assms(1,2)
    by (elim write_raw_SuccessE) (auto simp: dv_mem_write_raw get_typed_region_ptr_def split: if_splits)
  then have "pim_load_register_u64 (dv_mem (fst sys')) (rg_offset r + offset) (he_register_size e) = Some (take_bit (8 * n) v) \<longleftrightarrow>
      (\<forall>i. n \<le> i \<and> i < he_register_size e \<longrightarrow> dv_mem (fst sys) (rg_offset r + offset + i) = 0)"
    using register_after_narrow_write [OF assms(7) R] assms(6) by (simp add: pim_load_register_u64_eq)
  with e' r' show ?thesis by auto
qed

theorem narrow_write_cache_witness:
  "\<exists>sys' r' e'. pim_write_raw run_dpu (Some 64) 0 4 7 (watched_device, []) = (PIM_SUCCESS, sys') \<and>
     find_region (Some 64) (fst sys') = Some r' \<and> map_of (rg_handlers r') 0 = Some e' \<and> he_last_value e' = 7 \<and>
     pim_load_register_u64 (dv_mem (fst sys')) 64 8 \<noteq> Some (he_last_value e')"
proof -
  obtain sys' where s: "pim_write_raw run_dpu (Some 64) 0 4 7 (watched_device, []) = (PIM_SUCCESS, sys')"
    using watched_write [of 0 run_dpu 7 "[]"] by auto
  obtain r e where r: "find_region (Some 64) watched_device = Some r" "rg_type r = PIM_REGION_CTRL_MMIO" "rg_offset r = 64"
    "map_of (rg_handlers r) 0 = Some e" "he_register_size e = 8" "\<not> dv_sigsegv_enabled watched_device" "dv_mem watched_device = (\<lambda>_. 1)"
    using watched_parts by blast
  have sup: "pim_is_supported_register_size 8" by (simp add: pim_is_supported_register_size_def)
  from narrow_write_cache [OF s, of r e] r sup obtain r' e' where
    "find_region (Some 64) (fst sys') = Some r'" "map_of (rg_handlers r') 0 = Some e'" "he_last_value e' = take_bit 32 7"
    "pim_load_register_u64 (dv_mem (fst sys')) 64 8 \<noteq> Some (he_last_value e')"
    by (fastforce intro: exI [of _ 4])
  with s show ?thesis by (intro exI [of _ sys'] exI [of _ r'] exI [of _ e']) (auto simp: take_bit_eq_mask mask_eq_exp_minus_1)
qed

text \<open>The range of pages that \<open>pim_region_mprotect\<close> passes on covers the region, starts and ends on a page
  boundary, reaches less than a page beyond the region on either side, and does not wrap around the address
  space; the page size it accepts is a power of two.\<close>

theorem page_range_covers:
  assumes "pim_region_page_aligned_range addr sz page_size = Some (start, len)"
  shows "(\<exists>k < 64. page_size = 2 ^ k) \<and> unat page_size dvd unat start \<and> unat page_size dvd unat len \<and>
    unat start \<le> unat addr \<and> unat addr < unat start + unat page_size \<and>
    unat addr + unat sz \<le> unat start + unat len \<and> unat start + unat len < unat addr + unat sz + unat page_size \<and>
    unat start + unat len \<le> 2 ^ 64 - 1"
  using page_range [OF assms] by blast

theorem page_range_covers_witness:
  "pim_region_page_aligned_range 5000 8 4096 = Some (4096, 4096) \<and> unat (4096 :: u64) dvd unat (4096 :: u64)"
proof -
  have "pim_region_page_aligned_range 5000 8 4096 = Some (4096, 4096)" by code_simp
  with page_range_covers [OF this] show ?thesis by blast
qed

section \<open>Concurrency\<close>











text \<open>As the code has it, with a release store followed by an acquire load, the store may still be in the
  store buffer when the load is done, and a reader can be inside the guard while the table is being changed.\<close>

theorem unfenced_guard_unsafe:
  "\<exists>s. (guard_step False)\<^sup>*\<^sup>* (guard_init 1) s \<and> gs_mutator s = M_Mutating \<and> R_Armed \<in> set (gs_readers s)"
proof -
  let ?s = "reader_access 0 (reader_access 0 (reader_access 0 (mutator_access (mutator_access (guard_init 1)))))"
  have "(guard_step False)\<^sup>*\<^sup>* (guard_init 1) ?s"
    by (intro guard_run rtranclp.rtrancl_refl) (simp_all add: guard_init_def mutator_access_def mutator_store_def reader_access_def set_reader_def count_up_def)
  moreover have "gs_mutator ?s = M_Mutating \<and> R_Armed \<in> set (gs_readers ?s)" by code_simp
  ultimately show ?thesis by blast
qed

section \<open>The monitor\<close>

text \<open>C19. A scan of a thread of the monitor reports a register exactly when its region belongs to that thread, its handler
  table is not being changed, no write to it is in progress and its value differs from the value cached last. Every
  region of registers belongs to exactly one thread, and a second scan of a region just scanned reports nothing.\<close>

theorem monitor_scan_exact:
  assumes "dv_monitor_running dev" and "distinct (map fst (dv_regions dev))" and "n \<noteq> 0"
  shows "((off, offset, v) \<in> set (fst (scan_regions (monitor_regions tid n dev) dev)) \<longleftrightarrow>
      off \<in> set (monitor_regions tid n dev) \<and>
      (\<exists>r e. map_of (dv_regions dev) off = Some r \<and> \<not> rg_handler_table_mutating r \<and>
         (offset, e) \<in> set (rg_handlers r) \<and> even (he_write_seq e) \<and>
         pim_load_register_u64 (dv_mem dev) (rg_offset r + offset) (he_register_size e) = Some v \<and> he_last_value e \<noteq> v)) \<and>
    (off \<in> set (mmio_offsets dev) \<longrightarrow> (\<exists>!t. t < n \<and> off \<in> set (monitor_regions t n dev))) \<and>
    (off \<in> set (monitor_regions tid n dev) \<longrightarrow>
       fst (scan_region off (snd (scan_regions (monitor_regions tid n dev) dev))) = [])"
proof -
  let ?my = "monitor_regions tid n dev"
  have my: "distinct ?my" using assms(2) by (rule distinct_monitor_regions)
  note scan = scan_regions_pending [OF assms(1) my]
  have "(off, offset, v) \<in> set (fst (scan_regions ?my dev)) \<longleftrightarrow>
      off \<in> set ?my \<and> (off, offset, v) \<in> set (fst (scan_region off dev))"
    unfolding scan(1) by (auto simp: in_scan_region)
  then show ?thesis
    using in_scan_region [of off offset v off dev] scan(2) [of off] monitor_regions_once [OF assms(3,2), of off] by blast
qed

text \<open>The register of \<open>watched_device\<close> after a store that the library has not seen.\<close>

definition stored_device :: "upmem_handler pim_device" where
  "stored_device = watched_device\<lparr>dv_mem := \<lambda>_. 0, dv_monitor_running := True\<rparr>"

theorem monitor_scan_exact_witness:
  "(64, 0, 0) \<in> set (fst (scan_regions (monitor_regions 0 1 stored_device) stored_device))"
proof -
  obtain r e where r: "find_region (Some 64) watched_device = Some r" "rg_type r = PIM_REGION_CTRL_MMIO" "rg_offset r = 64"
    "map_of (rg_handlers r) 0 = Some e" "he_register_size e = 8" "he_last_value e = 0x0101010101010101" "he_write_seq e = 0"
    "\<not> rg_handler_table_mutating r"
    using watched_parts by blast
  then have reg: "map_of (dv_regions stored_device) 64 = Some r" "(0, e) \<in> set (rg_handlers r)"
    by (auto simp: stored_device_def find_region_def dest: map_of_SomeD)
  have one: "map fst (dv_regions stored_device) = [64]" using watched_parts by (auto simp: stored_device_def)
  have "64 \<in> set (mmio_offsets stored_device)"
    using map_of_SomeD [OF reg(1)] r(2) by (force simp: mmio_offsets_def)
  moreover have "monitor_regions 0 1 stored_device = mmio_offsets stored_device"
    by (simp add: monitor_regions_def filter_True case_prod_beta)
  moreover have "pim_load_register_u64 (dv_mem stored_device) 64 8 = Some 0" by (simp add: stored_device_def) code_simp
  ultimately show ?thesis
    using monitor_scan_exact [of stored_device 1 64 0 0 0] one r reg by (auto simp: stored_device_def)
qed



lemma seq_run:
  "seq_step\<^sup>*\<^sup>* s t \<Longrightarrow> seq_step\<^sup>*\<^sup>* s (monitor_access t)" "seq_step\<^sup>*\<^sup>* s t \<Longrightarrow> seq_step\<^sup>*\<^sup>* s ((writer_access v ^^ n) t)"
proof -
  show "seq_step\<^sup>*\<^sup>* s t \<Longrightarrow> seq_step\<^sup>*\<^sup>* s (monitor_access t)" by (meson seq_step.monitor rtranclp.rtrancl_into_rtrancl)
  show "seq_step\<^sup>*\<^sup>* s t \<Longrightarrow> seq_step\<^sup>*\<^sup>* s ((writer_access v ^^ n) t)"
    by (induction n) (auto intro: seq_step.writer rtranclp.rtrancl_into_rtrancl)
qed


text \<open>The sample is accepted before the cached value is exchanged. A write that falls in between is undone in the
  cache: the monitor reports a change to a value that the register no longer has, and the cached value differs
  from the register although nobody is writing.\<close>

theorem late_exchange_reports_stale:
  "\<exists>s. seq_step\<^sup>*\<^sup>* (seq_init [0]) s \<and> sq_reader s = Q_Done True 0 \<and> sq_writer s = W_Idle \<and>
       sq_bytes s = [1] \<and> sq_last_value s = 0"
proof -
  let ?s = "monitor_access ((writer_access 1 ^^ 4) (monitor_access (monitor_access (monitor_access (seq_init [0])))))"
  have "seq_step\<^sup>*\<^sup>* (seq_init [0]) ?s" by (intro seq_run rtranclp.rtrancl_refl)
  moreover have "sq_reader ?s = Q_Done True 0 \<and> sq_writer ?s = W_Idle \<and> sq_bytes ?s = [1] \<and> sq_last_value ?s = 0" by code_simp
  ultimately show ?thesis by blast
qed

end
