(* ===== verification/Rank_Commands.thy ===== *)
theory Rank_Commands
  imports Rank
begin

text \<open>
  The ioctls by which the host drives the control interfaces of a rank (\<open>upmem.cc\<close>):
  \<open>commit_commands\<close> sends one command word to each chip and prepares the answer, \<open>update_commands\<close>
  collects the answers, \<open>slice_info\<close> sets the masks of enabled DPUs.

  Both ioctls poll the generation counters of DPUs for a bounded number of spins. A DPU's counter changes
  when a command is executed, which happens on this thread or in a task of the chip's region; the tasks
  of a region run at its barrier here, so that polling sees the same value each time and the loops
  reduce to their tests. \<open>all_ready\<close> is true exactly when no bit of \<open>unfinished_mask\<close> is set.
\<close>

section \<open>Helpers\<close>

definition is_run_state_read_word :: "u64 \<Rightarrow> bool" where
  "is_run_state_read_word ci_word \<longleftrightarrow>
     ci_b ci_word 56 = 0x33 \<and> ci_b ci_word 48 = 0x00 \<and> ci_b ci_word 0 = 0x84 \<and> ci_b ci_word 8 = 0x02"

definition has_single_selected_dpu :: "u8 \<Rightarrow> bool" where
  "has_single_selected_dpu selected_mask \<longleftrightarrow> selected_mask \<noteq> 0 \<and> selected_mask AND (selected_mask - 1) = 0"

definition has_active_run_selected :: "upmem_sys \<Rightarrow> nat \<Rightarrow> u8 \<Rightarrow> bool" where
  "has_active_run_selected sys bank_idx selected_mask \<longleftrightarrow>
     selected_mask \<noteq> 0 \<and>
     list_ex (\<lambda>i. selects selected_mask i \<and> pl_run_bits (dp_pipeline (ch_dpus (snd sys ! bank_idx) ! i)) \<noteq> 0)
       [0..<kChipNumDpus]"

definition run_state_pending_nop :: "bool \<Rightarrow> u64" where
  "run_state_pending_nop expected_set = nop_style_result (\<not> expected_set) 0"

definition write_ci_rw :: "nat \<Rightarrow> u64 \<Rightarrow> upmem_sys \<Rightarrow> (errno + unit) \<times> upmem_sys" where
  "write_ci_rw bank_idx word sys =
     (case ci_region_read (ch_ci (snd sys ! bank_idx)) of
        None \<Rightarrow> (Inl ENODEV, sys)
      | Some off \<Rightarrow>
          (case find_region (Some off) (fst sys) of
             None \<Rightarrow> (Inl EFAULT, sys)
           | Some rw_region \<Rightarrow>
               if rg_size rw_region < 8 then (Inl EFAULT, sys)
               else (Inr (), upd_chip bank_idx (upd_state (store_updated word))
                       (apfst (put_mem (rg_offset rw_region) (le_bytes 8 word)) sys))))"

definition CI_EMPTY_CMD :: u64 where "CI_EMPTY_CMD = 0x0000000000000000"
definition CI_BYTE_ORDER_CMD :: u64 where "CI_BYTE_ORDER_CMD = 0x7777777777777777"
definition CI_BYTE_ORDER_UPDATED :: u64 where "CI_BYTE_ORDER_UPDATED = 0x000103FF0F8FCFEF"

section \<open>Committing commands\<close>

text \<open>\<open>cx_pending\<close> holds the entries of the arrays \<open>pending_indices\<close> and \<open>pending_generations\<close>; the
  arrays \<open>pending_dpus\<close> and \<open>pending_bits\<close> follow from the index.\<close>

record commit_bank_context =
  cx_active :: bool
  cx_ci_word :: u64
  cx_dispatch_generation_before :: u64
  cx_selected_mask :: u8
  cx_control_execution_mask :: u8
  cx_is_run_state_command :: bool
  cx_wrote_run_state_sync :: bool
  cx_is_thread_command :: bool
  cx_wait_for_control_results :: bool
  cx_defer_run_state :: bool
  cx_retry_pending_run_state :: bool
  cx_pending_expected_set :: bool
  cx_run_state_pending_mask :: u8
  cx_run_state_pending_generations :: "u64 list"
  cx_pending :: "(nat \<times> u64) list"

definition idle_context :: commit_bank_context where
  "idle_context = \<lparr>cx_active = False, cx_ci_word = CI_EMPTY_CMD, cx_dispatch_generation_before = 0,
     cx_selected_mask = 0, cx_control_execution_mask = 0, cx_is_run_state_command = False,
     cx_wrote_run_state_sync = False, cx_is_thread_command = False, cx_wait_for_control_results = False,
     cx_defer_run_state = False, cx_retry_pending_run_state = False, cx_pending_expected_set = False,
     cx_run_state_pending_mask = 0, cx_run_state_pending_generations = replicate kChipNumDpus 0,
     cx_pending = []\<rparr>"

text \<open>The classification of a run-state read: retried, deferred, or waited for.\<close>

definition classify_run_state :: "upmem_sys \<Rightarrow> nat \<Rightarrow> commit_bank_context \<Rightarrow> commit_bank_context" where
  "classify_run_state sys bank_idx ctx =
     (let ch = snd sys ! bank_idx;
          ctx = (case get_run_state_pending (chip_state ch) of
                   Some q \<Rightarrow>
                     ctx\<lparr>cx_pending_expected_set := cq_expected_set q, cx_retry_pending_run_state := True,
                         cx_defer_run_state := True,
                         cx_run_state_pending_mask :=
                           (if cq_execution_mask q \<noteq> 0 then cq_execution_mask q
                            else if cq_selected_mask q \<noteq> 0
                            then (let m = get_bound_mask ch (cq_selected_mask q)
                                  in if m = 0 then cq_selected_mask q else m)
                            else cx_control_execution_mask ctx)\<rparr>
                 | None \<Rightarrow>
                     if has_single_selected_dpu (cx_control_execution_mask ctx) \<and>
                        has_active_run_selected sys bank_idx (cx_control_execution_mask ctx)
                     then ctx\<lparr>cx_defer_run_state := True,
                              cx_run_state_pending_mask := cx_control_execution_mask ctx\<rparr>
                     else ctx\<lparr>cx_wait_for_control_results := True\<rparr>)
      in if cx_defer_run_state ctx
         then ctx\<lparr>cx_run_state_pending_generations :=
                map (\<lambda>i. if selects (cx_run_state_pending_mask ctx) i
                         then dp_last_control_generation (ch_dpus ch ! i) else 0) [0..<kChipNumDpus]\<rparr>
         else ctx)"

definition monitored_dpus :: "chip \<Rightarrow> commit_bank_context \<Rightarrow> (nat \<times> u64) list" where
  "monitored_dpus ch ctx =
     (let skip_unbound = cx_is_thread_command ctx;
          monitored_selected_mask = (if cx_is_thread_command ctx \<or> cx_is_run_state_command ctx
                                     then cx_control_execution_mask ctx else cx_selected_mask ctx)
      in map (\<lambda>i. (i, dp_last_control_generation (ch_dpus ch ! i)))
           (filter (\<lambda>i. selects monitored_selected_mask i \<and>
                \<not> (skip_unbound \<and> (mram_addr (dp_mram (ch_dpus ch ! i)) = None \<or>
                                   mram_size (dp_mram (ch_dpus ch ! i)) = 0)))
              [0..<kChipNumDpus]))"

text \<open>The last part of the first loop's body: the command is executed.\<close>

definition commit_dispatch ::
  "host_env \<Rightarrow> nat \<Rightarrow> commit_bank_context \<Rightarrow> upmem_sys \<Rightarrow> (errno + commit_bank_context) \<times> upmem_sys" where
  "commit_dispatch env bank_idx ctx sys =
     (let mmio_region = ci_region_write (ch_ci (snd sys ! bank_idx)) in
      if mmio_region = None then (Inl ENODEV, sys)
      else
        let sys = propagate_ci (os_push_ok env) bank_idx (cx_ci_word ctx) sys
        in if cx_wrote_run_state_sync ctx
           then let (barrier_err, sys) = pim_region_barrier run_dpu False mmio_region sys
                in if barrier_err \<noteq> PIM_SUCCESS then (Inl EFAULT, sys) else (Inr ctx, sys)
           else (Inr ctx, sys))"

definition commit_classify ::
  "nat \<Rightarrow> nat \<Rightarrow> commit_bank_context \<Rightarrow> upmem_sys \<Rightarrow> commit_bank_context \<times> upmem_sys" where
  "commit_classify run_state_submit_count bank_idx ctx sys =
     (let ch = snd sys ! bank_idx;
          (ctx, sys) =
            (if cx_is_run_state_command ctx then (classify_run_state sys bank_idx ctx, sys)
             else (ctx, upd_chip bank_idx (upd_state clear_run_state_pending) sys));
          ctx = (if \<not> cx_is_run_state_command ctx \<and> ci_b (cx_ci_word ctx) 56 = 0x33 \<and> ci_b (cx_ci_word ctx) 48 = 0x98
                 then ctx\<lparr>cx_is_thread_command := is_thread_command_word (cx_ci_word ctx) (cx_selected_mask ctx)\<rparr>
                 else ctx);
          ctx = (if cx_is_thread_command ctx then ctx\<lparr>cx_wait_for_control_results := True\<rparr> else ctx);
          ctx = (if cx_wait_for_control_results ctx then ctx\<lparr>cx_pending := monitored_dpus ch ctx\<rparr> else ctx);
          ctx = ctx\<lparr>cx_wrote_run_state_sync := (cx_is_run_state_command ctx \<and> run_state_submit_count \<le> 1)\<rparr>
      in (ctx, sys))"

text \<open>The first loop's body. The answer \<open>Inr ctx\<close> is the context the bank is left with.\<close>

definition commit_begin ::
  "host_env \<Rightarrow> u64 list \<Rightarrow> nat \<Rightarrow> nat \<Rightarrow> upmem_sys \<Rightarrow> (errno + commit_bank_context) \<times> upmem_sys" where
  "commit_begin env input run_state_submit_count bank_idx sys =
     (let (ok, sys) = try_lazy_populate_dpu env bank_idx sys in
      if \<not> ok then (Inl ENOMEM, sys)
      else if rank_ci_color_state sys = None then (Inl ENODEV, sys)
      else
        let ci_word = input ! bank_idx;
            sys = upd_chip bank_idx (upd_state (set_committed ci_word)) sys;
            ch = snd sys ! bank_idx; s = chip_state ch;
            ctx = idle_context\<lparr>cx_active := True, cx_ci_word := ci_word,
                    cx_dispatch_generation_before := cs_dispatched_generation s,
                    cx_selected_mask := cs_selected_mask s, cx_control_execution_mask := execution_mask ch,
                    cx_is_run_state_command := is_run_state_read_word ci_word\<rparr>;
            answer_pending = (\<lambda>expected_set.
              case write_ci_rw bank_idx (run_state_pending_nop expected_set) sys of
                (Inl e, sys) \<Rightarrow> (Inl e, sys)
              | (Inr _, sys) \<Rightarrow> (Inr (ctx\<lparr>cx_active := False\<rparr>), sys));
            go_on = (\<lambda>sys. case commit_classify run_state_submit_count bank_idx ctx sys of
                             (ctx, sys) \<Rightarrow> commit_dispatch env bank_idx ctx sys)
        in if cx_is_run_state_command ctx then go_on sys
           else case get_control_pending s of
                  Some q \<Rightarrow> answer_pending (cq_expected_set q)
                | None \<Rightarrow>
                    (case get_dispatch_pending s of
                       Some q \<Rightarrow>
                         if cs_dispatched_generation s = dq_dispatch_generation_before q
                         then answer_pending (dq_expected_set q)
                         else go_on (upd_chip bank_idx (upd_state clear_dispatch_pending) sys)
                     | None \<Rightarrow> go_on sys))"

text \<open>The second loop's body, by the branch it takes. \<open>clear_all\<close> clears the three pending records.\<close>

definition clear_all :: "ci_state \<Rightarrow> ci_state" where
  "clear_all = clear_control_pending \<circ> clear_dispatch_pending \<circ> clear_run_state_pending"

definition or_bits :: "nat list \<Rightarrow> u8" where
  "or_bits is = fold (\<lambda>i m. m OR push_bit i 1) is 0"

definition commit_wait ::
  "bool \<Rightarrow> commit_bank_context \<Rightarrow> chip \<Rightarrow> u64 \<times> (ci_state \<Rightarrow> ci_state)" where
  "commit_wait expected_set ctx ch =
     (let ready = (\<lambda>p. dp_last_control_generation (ch_dpus ch ! fst p) \<noteq> snd p);
          monitored_mask = or_bits (map fst (cx_pending ctx));
          unfinished_mask = or_bits (map fst (filter (\<lambda>p. \<not> ready p) (cx_pending ctx)));
          payload = or_bits (map fst (filter (\<lambda>p. ready p \<and> dp_last_control_result (ch_dpus ch ! fst p) \<noteq> 0)
                                        (cx_pending ctx)));
          generations = fold (\<lambda>p gs. if \<not> ready p then gs[fst p := snd p] else gs) (cx_pending ctx)
                          (replicate kChipNumDpus 0)
      in if list_all ready (cx_pending ctx) \<or> monitored_mask = 0
         then (ready_result expected_set (ucast payload), clear_all)
         else (run_state_pending_nop expected_set,
               clear_dispatch_pending \<circ>
               (if cx_is_thread_command ctx
                then clear_run_state_pending \<circ>
                     set_control_pending expected_set (cx_dispatch_generation_before ctx) (cx_selected_mask ctx)
                       unfinished_mask generations payload
                else clear_control_pending \<circ>
                     set_run_state_pending expected_set (cx_dispatch_generation_before ctx) (cx_selected_mask ctx)
                       unfinished_mask generations payload)))"

definition commit_plain ::
  "bool \<Rightarrow> commit_bank_context \<Rightarrow> ci_state \<Rightarrow> u64 \<times> (ci_state \<Rightarrow> ci_state)" where
  "commit_plain expected_set ctx s =
     (if cs_dispatched_generation s = cx_dispatch_generation_before ctx
      then (run_state_pending_nop expected_set,
            clear_run_state_pending \<circ> set_dispatch_pending expected_set (cx_dispatch_generation_before ctx))
      else (if cs_dispatched_needs_mask_fuzz s then nop_style_result expected_set (cs_dispatched_payload s)
            else ready_result expected_set (cs_dispatched_payload s),
            clear_run_state_pending \<circ> clear_control_pending \<circ> clear_dispatch_pending))"

text \<open>The word the bank answers with, whether the colour advances, and the change of the pending records.\<close>

definition commit_answer ::
  "bool \<Rightarrow> commit_bank_context \<Rightarrow> chip \<Rightarrow> u64 \<times> bool \<times> (ci_state \<Rightarrow> ci_state)" where
  "commit_answer expected_set ctx ch =
     (if cx_ci_word ctx = CI_EMPTY_CMD then (CI_EMPTY_CMD, False, clear_all)
      else if cx_ci_word ctx = CI_BYTE_ORDER_CMD then (CI_BYTE_ORDER_UPDATED, True, clear_all)
      else if cx_defer_run_state ctx
      then (let pending_expected = (if cx_retry_pending_run_state ctx then cx_pending_expected_set ctx else expected_set)
            in (run_state_pending_nop pending_expected, \<not> cx_retry_pending_run_state ctx,
                clear_control_pending \<circ> clear_dispatch_pending \<circ>
                set_run_state_pending pending_expected (cx_dispatch_generation_before ctx) (cx_selected_mask ctx)
                  (cx_run_state_pending_mask ctx) (cx_run_state_pending_generations ctx) 0))
      else if cx_wait_for_control_results ctx
      then (case commit_wait expected_set ctx ch of (w, f) \<Rightarrow> (w, True, f))
      else (case commit_plain expected_set ctx (chip_state ch) of (w, f) \<Rightarrow> (w, True, f)))"

definition next_color :: "u64 \<Rightarrow> u8 \<Rightarrow> u8" where
  "next_color ci_word color = (if is_software_reset_cmd ci_word then 0 else (color XOR 1) AND 1)"

definition commit_end ::
  "nat \<Rightarrow> nat \<Rightarrow> commit_bank_context \<Rightarrow> upmem_sys \<Rightarrow> (errno + unit) \<times> upmem_sys" where
  "commit_end ci_color_state bank_idx ctx sys =
     (if \<not> cx_active ctx then (Inr (), sys)
      else
        let (barrier_err, sys) =
              (if cx_is_run_state_command ctx \<and> \<not> cx_wrote_run_state_sync ctx
               then (case ci_region_write (ch_ci (snd sys ! bank_idx)) of
                       None \<Rightarrow> (Some ENODEV, sys)
                     | Some off \<Rightarrow>
                         (case pim_region_barrier run_dpu False (Some off) sys of
                            (err, sys) \<Rightarrow> (if err \<noteq> PIM_SUCCESS then Some EFAULT else None, sys)))
               else (None, sys))
        in case barrier_err of
             Some e \<Rightarrow> (Inl e, sys)
           | None \<Rightarrow>
               let color = dv_mem (fst sys) (ci_color_state + bank_idx);
                   (updated_word, advance_color, f) = commit_answer (color AND 1 \<noteq> 0) ctx (snd sys ! bank_idx);
                   sys = upd_chip bank_idx (upd_state f) sys;
                   sys = (if advance_color
                          then apfst (put_mem (ci_color_state + bank_idx) [next_color (cx_ci_word ctx) color]) sys
                          else sys)
               in write_ci_rw bank_idx updated_word sys)"

primrec collect :: "('a \<Rightarrow> 's \<Rightarrow> ('e + 'b) \<times> 's) \<Rightarrow> 'a list \<Rightarrow> 's \<Rightarrow> ('e + 'b list) \<times> 's" where
  "collect f [] s = (Inr [], s)"
| "collect f (x # xs) s =
     (case f x s of
        (Inl e, s') \<Rightarrow> (Inl e, s')
      | (Inr y, s') \<Rightarrow>
          (case collect f xs s' of (Inl e, s'') \<Rightarrow> (Inl e, s'') | (Inr ys, s'') \<Rightarrow> (Inr (y # ys), s'')))"

text \<open>The colour bytes are looked up once, in the first iteration; they stay where they are.\<close>

definition commit_commands :: "host_env \<Rightarrow> u64 list \<Rightarrow> upmem_sys \<Rightarrow> (errno + unit) \<times> upmem_sys" where
  "commit_commands env input sys =
     (let run_state_submit_count = length (filter (\<lambda>i. is_run_state_read_word (input ! i)) [0..<kRankNumBanks]) in
      case collect (commit_begin env input run_state_submit_count) [0..<kRankNumBanks] sys of
        (Inl e, sys) \<Rightarrow> (Inl e, sys)
      | (Inr bank_ctx, sys) \<Rightarrow>
          (case rank_ci_color_state sys of
             None \<Rightarrow> (Inl ENODEV, sys)
           | Some ci_color_state \<Rightarrow>
               for_each (\<lambda>bank_idx. commit_end ci_color_state bank_idx (bank_ctx ! bank_idx)) [0..<kRankNumBanks] sys))"

definition upmem_ioctl_commit_commands ::
  "host_env \<Rightarrow> u64 list option \<Rightarrow> upmem_sys option \<Rightarrow> (errno + unit) \<times> upmem_sys option" where
  "upmem_ioctl_commit_commands env arg rank =
     (case (rank, arg) of
        (Some sys, Some input) \<Rightarrow> apsnd Some (commit_commands env input sys)
      | _ \<Rightarrow> (Inl EINVAL, rank))"

section \<open>Collecting the answers\<close>

text \<open>One pass over the DPUs of \<open>observed_mask\<close>: the payload so far and the DPUs that have not finished.\<close>

definition observe :: "control_pending \<Rightarrow> chip \<Rightarrow> nat \<Rightarrow> u8 \<times> u8 \<Rightarrow> u8 \<times> u8" where
  "observe q ch i acc =
     (let (payload, unfinished_mask) = acc; d = ch_dpus ch ! i in
      if \<not> selects (cq_execution_mask q) i then acc
      else if dp_last_control_generation d = get_pending_generation q i
      then (payload, unfinished_mask OR push_bit i 1)
      else (if dp_last_control_result d \<noteq> 0 then payload OR push_bit i 1 else payload, unfinished_mask))"

definition refresh :: "control_pending \<Rightarrow> chip \<Rightarrow> u8 \<Rightarrow> nat \<Rightarrow> u8 \<times> u8 \<times> u64 list \<Rightarrow> u8 \<times> u8 \<times> u64 list" where
  "refresh q ch unfinished_mask i acc =
     (let (payload, refreshed_unfinished_mask, refreshed_generations) = acc; d = ch_dpus ch ! i;
          now = dp_last_control_generation d
      in if \<not> selects unfinished_mask i then acc
         else if now \<noteq> get_pending_generation q i
         then (if dp_last_control_result d \<noteq> 0 then payload OR push_bit i 1 else payload,
               refreshed_unfinished_mask AND NOT (push_bit i 1), refreshed_generations)
         else (payload, refreshed_unfinished_mask, refreshed_generations[i := now]))"

text \<open>The common shape of the two branches for pending results: \<open>done\<close> clears the records that the branch
  clears, \<open>again\<close> stores the refreshed record.\<close>

definition answer_ready ::
  "nat \<Rightarrow> u64 \<Rightarrow> (ci_state \<Rightarrow> ci_state) \<Rightarrow> upmem_sys \<Rightarrow> (errno + u64) \<times> upmem_sys" where
  "answer_ready bank_idx ready_word done sys =
     (case write_ci_rw bank_idx ready_word (upd_chip bank_idx (upd_state done) sys) of
        (Inl e, sys) \<Rightarrow> (Inl e, sys)
      | (Inr _, sys) \<Rightarrow> (Inr ready_word, sys))"

definition update_pending ::
  "nat \<Rightarrow> control_pending \<Rightarrow> (ci_state \<Rightarrow> ci_state) \<Rightarrow>
   (bool \<Rightarrow> u64 \<Rightarrow> u8 \<Rightarrow> u8 \<Rightarrow> u64 list \<Rightarrow> u8 \<Rightarrow> ci_state \<Rightarrow> ci_state) \<Rightarrow> upmem_sys \<Rightarrow> (errno + u64) \<times> upmem_sys" where
  "update_pending bank_idx q done again sys =
     (let ch = snd sys ! bank_idx;
          pending_nop = run_state_pending_nop (cq_expected_set q);
          dispatch_now = cs_dispatched_generation (chip_state ch)
      in if dispatch_now = cq_dispatch_generation_before q then (Inr pending_nop, sys)
         else
           let (payload, unfinished_mask) = fold (observe q ch) [0..<kChipNumDpus] (cq_payload q, 0)
           in if unfinished_mask \<noteq> 0
              then
                let (payload, refreshed_unfinished_mask, refreshed_generations) =
                      fold (refresh q ch unfinished_mask) [0..<kChipNumDpus]
                        (payload, unfinished_mask, replicate kChipNumDpus 0)
                in if refreshed_unfinished_mask = 0
                   then answer_ready bank_idx (ready_result (cq_expected_set q) (ucast payload)) done sys
                   else (Inr pending_nop,
                         upd_chip bank_idx (upd_state (again (cq_expected_set q)
                           (if dispatch_now = 0 then 0 else dispatch_now - 1) (cq_selected_mask q)
                           refreshed_unfinished_mask refreshed_generations payload)) sys)
              else answer_ready bank_idx (ready_result (cq_expected_set q) (ucast payload)) done sys)"

definition update_bank :: "nat \<Rightarrow> upmem_sys \<Rightarrow> (errno + u64) \<times> upmem_sys" where
  "update_bank bank_idx sys =
     (let s = chip_state (snd sys ! bank_idx) in
      case get_run_state_pending s of
        Some q \<Rightarrow> update_pending bank_idx q clear_all set_run_state_pending sys
      | None \<Rightarrow>
          (case get_control_pending s of
             Some q \<Rightarrow> update_pending bank_idx q (clear_dispatch_pending \<circ> clear_control_pending) set_control_pending sys
           | None \<Rightarrow>
               (case get_dispatch_pending s of
                  Some q \<Rightarrow>
                    if cs_dispatched_generation s = dq_dispatch_generation_before q
                    then (Inr (run_state_pending_nop (dq_expected_set q)), sys)
                    else answer_ready bank_idx
                           (if cs_dispatched_needs_mask_fuzz s
                            then nop_style_result (dq_expected_set q) (cs_dispatched_payload s)
                            else ready_result (dq_expected_set q) (cs_dispatched_payload s))
                           clear_dispatch_pending sys
                | None \<Rightarrow> (Inr (cs_updated s), sys))))"

definition update_commands :: "upmem_sys \<Rightarrow> (errno + u64 list) \<times> upmem_sys" where
  "update_commands sys = collect update_bank [0..<kRankNumBanks] sys"

definition upmem_ioctl_update_commands ::
  "upmem_sys option \<Rightarrow> bool \<Rightarrow> (errno + u64 list) \<times> upmem_sys option" where
  "upmem_ioctl_update_commands rank arg_null =
     (case rank of
        None \<Rightarrow> (Inl EINVAL, rank)
      | Some sys \<Rightarrow> if arg_null then (Inl EINVAL, rank) else apsnd Some (update_commands sys))"

section \<open>Slice information\<close>

text \<open>The members of \<open>dpu_configuration_slice_info_abi\<close> that the ioctl reads.\<close>

record slice_info_abi =
  si_enabled_dpus :: u32
  si_all_dpus_are_enabled :: u8

definition kAllDpusMask :: u8 where "kAllDpusMask = ucast ((push_bit kChipNumDpus 1 :: u32) - 1)"

definition slice_enabled_mask :: "slice_info_abi \<Rightarrow> u8" where
  "slice_enabled_mask si =
     (if si_all_dpus_are_enabled si \<noteq> 0 then kAllDpusMask
      else ucast (si_enabled_dpus si AND ucast kAllDpusMask))"

definition enable_dpus :: "u8 \<Rightarrow> ci_state \<Rightarrow> ci_state" where
  "enable_dpus enabled_mask s =
     (let s = set_enabled_mask enabled_mask s;
          s = set_selected_mask enabled_mask s;
          s = set_group_mask 0 enabled_mask s
      in fold (\<lambda>g s. set_group_mask g (get_group_mask s g AND enabled_mask) s) [1..<kCiNumGroupSlots] s)"

definition slice_info :: "slice_info_abi list \<Rightarrow> upmem_sys \<Rightarrow> upmem_sys" where
  "slice_info infos sys =
     fold (\<lambda>bank_idx. upd_chip bank_idx (upd_state (enable_dpus (slice_enabled_mask (infos ! bank_idx)))))
       [0..<kRankNumBanks] sys"

definition upmem_ioctl_slice_info ::
  "slice_info_abi list option \<Rightarrow> upmem_sys option \<Rightarrow> (errno + unit) \<times> upmem_sys option" where
  "upmem_ioctl_slice_info arg rank =
     (case (rank, arg) of
        (Some sys, Some infos) \<Rightarrow> (Inr (), Some (slice_info infos sys))
      | _ \<Rightarrow> (Inl EINVAL, rank))"

end
