(* ===== verification/Vpath.thy ===== *)
theory Vpath
  imports Prelude
begin

text \<open>
  Names and paths of the virtual files: the helpers of \<open>src/vfile/vfile.hh\<close>, the matcher for globs of
  \<open>src/vfile/vdev.cc\<close>, and the functions that normalise and check the names of devices, modules and sysfs nodes.
\<close>

abbreviation slash :: char where "slash \<equiv> CHR ''/''"
abbreviation star :: char where "star \<equiv> CHR ''*''"
abbreviation quest :: char where "quest \<equiv> CHR ''?''"

section \<open>Normal paths\<close>

definition push_segment :: "string list \<Rightarrow> string \<Rightarrow> string list" where
  "push_segment stack segment =
     (if segment = ''.'' then stack
      else if segment = ''..'' then butlast stack
      else stack @ [segment])"

text \<open>The loop over the input from position \<open>i\<close>; the argument is the rest of the input.\<close>

function path_loop :: "string list \<Rightarrow> string \<Rightarrow> string list" where
  "path_loop stack s =
     (let s = dropWhile (\<lambda>c. c = slash) s
      in if s = [] then stack
         else path_loop (push_segment stack (takeWhile (\<lambda>c. c \<noteq> slash) s)) (dropWhile (\<lambda>c. c \<noteq> slash) s))"
  by auto

termination
proof (relation "measure (\<lambda>(stack, s). length s)", goal_cases)
  case (2 stack s x)
  then have "hd x \<noteq> slash" using hd_dropWhile [of "\<lambda>c. c = slash" s] by simp
  then have "length (dropWhile (\<lambda>c. c \<noteq> slash) x) < length x"
    using 2(2) by (cases x) (simp_all add: le_imp_less_Suc length_dropWhile_le)
  also have "length x \<le> length s" using 2 by (simp add: length_dropWhile_le)
  finally show ?case by simp
qed simp

declare path_loop.simps [simp del]

fun join_segments :: "string list \<Rightarrow> string" where
  "join_segments [] = ''''"
| "join_segments [x] = x"
| "join_segments (x # y # xs) = x @ slash # join_segments (y # xs)"

definition vfile_normalize_absolute_path :: "string \<Rightarrow> string option" where
  "vfile_normalize_absolute_path input =
     (if input = [] \<or> hd input \<noteq> slash then None
      else Some (slash # join_segments (path_loop [] input)))"

section \<open>Names\<close>

fun vfile_strip_trailing_slashes_preserve_root :: "string \<Rightarrow> string" where
  "vfile_strip_trailing_slashes_preserve_root path =
     (if length path > 1 \<and> last path = slash
      then vfile_strip_trailing_slashes_preserve_root (butlast path) else path)"

declare vfile_strip_trailing_slashes_preserve_root.simps [simp del]

definition vfile_strip_known_prefix :: "string \<Rightarrow> string \<Rightarrow> string" where
  "vfile_strip_known_prefix value prefix =
     (if take (length prefix) value = prefix then drop (length prefix) value else value)"

definition vfile_contains_glob_wildcards :: "string \<Rightarrow> bool" where
  "vfile_contains_glob_wildcards path \<longleftrightarrow> star \<in> set path \<or> quest \<in> set path"

definition erase_front_slash :: "string \<Rightarrow> string" where
  "erase_front_slash s = (if s \<noteq> [] \<and> hd s = slash then tl s else s)"

definition vdev_normalize_name_glob :: "string \<Rightarrow> string" where
  "vdev_normalize_name_glob value =
     erase_front_slash (vfile_strip_known_prefix (vfile_strip_trailing_slashes_preserve_root value) ''/dev/'')"

definition vdev_normalize_name :: "string \<Rightarrow> string" where
  "vdev_normalize_name name = vfile_strip_known_prefix (vfile_strip_trailing_slashes_preserve_root name) ''/dev/''"

definition valid_instance_name :: "string \<Rightarrow> bool" where
  "valid_instance_name name \<longleftrightarrow> name \<noteq> [] \<and> slash \<notin> set name \<and> \<not> vfile_contains_glob_wildcards name"

definition normalize_component :: "string \<Rightarrow> string" where
  "normalize_component value = erase_front_slash (vfile_strip_trailing_slashes_preserve_root value)"

definition vmodule_normalize_instance_name :: "string \<Rightarrow> string" where
  "vmodule_normalize_instance_name name = normalize_component (vfile_strip_known_prefix name ''/sys/module/'')"

definition vmodule_normalize_bus_name :: "string \<Rightarrow> string" where
  "vmodule_normalize_bus_name name = normalize_component (vfile_strip_known_prefix name ''/sys/bus/'')"

text \<open>What follows the last occurrence of a string.\<close>

fun after_last :: "string \<Rightarrow> string \<Rightarrow> string option" where
  "after_last pat [] = (if pat = [] then Some [] else None)"
| "after_last pat (c # s) =
     (case after_last pat s of
        Some r \<Rightarrow> Some r
      | None \<Rightarrow> if take (length pat) (c # s) = pat then Some (drop (length pat) (c # s)) else None)"

definition vmodule_normalize_driver_name :: "string \<Rightarrow> string" where
  "vmodule_normalize_driver_name name =
     normalize_component (case after_last ''/drivers/'' name of None \<Rightarrow> name | Some r \<Rightarrow> r)"

definition vsysfs_normalize_class_component :: "string \<Rightarrow> string" where
  "vsysfs_normalize_class_component value = normalize_component (vfile_strip_known_prefix value ''/sys/class/'')"

definition vsysfs_normalize_devices_component :: "string \<Rightarrow> string" where
  "vsysfs_normalize_devices_component value = normalize_component (vfile_strip_known_prefix value ''/sys/devices/'')"

definition vsysfs_root_component_valid :: "string \<Rightarrow> bool" where
  "vsysfs_root_component_valid value \<longleftrightarrow> value \<noteq> [] \<and> star \<notin> set value \<and> quest \<notin> set value"

section \<open>Cursors and revisions\<close>

datatype seek_error = SeekEinval

text \<open>\<open>whence\<close> is 0 for \<open>SEEK_SET\<close> and 1 for \<open>SEEK_CUR\<close>; \<open>offset\<close> is signed.\<close>

definition vfile_seek_cursor_locked :: "u64 \<Rightarrow> int \<Rightarrow> int \<Rightarrow> seek_error + u64" where
  "vfile_seek_cursor_locked cursor offset whence =
     (if whence \<noteq> 0 \<and> whence \<noteq> 1 then Inl SeekEinval
      else if whence = 1 \<and> uint cursor > 2 ^ 63 - 1 then Inl SeekEinval
      else
        let base = (if whence = 0 then 0 else uint cursor); delta = offset
        in if delta > 0 \<and> base > 2 ^ 63 - 1 - delta then Inl SeekEinval
           else if delta < 0 \<and> base < - (2 ^ 63) - delta then Inl SeekEinval
           else if base + delta < 0 then Inl SeekEinval
           else Inr (word_of_int (base + delta)))"

definition vfile_bump_nonzero_revision :: "u64 \<Rightarrow> u64" where
  "vfile_bump_nonzero_revision revision = (if revision + 1 = 0 then 1 else revision + 1)"

section \<open>Globs\<close>

text \<open>The loop of \<open>vdev_glob_match\<close>. The strings are what the pointers \<open>p\<close> and \<open>s\<close> point to, the last argument
  what \<open>star_pattern\<close> and \<open>star_str\<close> point to.\<close>

partial_function (option) glob_loop :: "string \<Rightarrow> string \<Rightarrow> (string \<times> string) option \<Rightarrow> bool option" where
  "glob_loop p s back =
     (if s = [] then Some (dropWhile (\<lambda>c. c = star) p = [])
      else if p \<noteq> [] \<and> hd p = star
      then (let p = dropWhile (\<lambda>c. c = star) p in if p = [] then Some True else glob_loop p s (Some (p, s)))
      else if p \<noteq> [] \<and> (hd p = quest \<or> hd p = hd s) then glob_loop (tl p) (tl s) back
      else case back of
             None \<Rightarrow> Some False
           | Some b \<Rightarrow> glob_loop (fst b) (tl (snd b)) (Some (fst b, tl (snd b))))"

definition vdev_glob_match :: "string \<Rightarrow> string \<Rightarrow> bool option" where
  "vdev_glob_match pattern str = glob_loop pattern str None"

end
