(* ===== verification/Omap.thy ===== *)
theory Omap
  imports Prelude "HOL-Library.List_Lexorder" "HOL-Library.Char_ord" "HOL-Library.Product_Lexorder"
begin

text \<open>
  \<open>std::map\<close> as the list of its pairs in the order of the keys. Strings are ordered as \<open>std::string\<close> orders them,
  by their characters as unsigned bytes. An \<open>std::unordered_map\<close> whose order the program never looks at has the
  same representation. The locale \<open>table\<close> is what the clients of a map rely on.
\<close>

fun om_insert :: "'k::linorder \<Rightarrow> 'v \<Rightarrow> ('k \<times> 'v) list \<Rightarrow> ('k \<times> 'v) list" where
  "om_insert k v [] = [(k, v)]"
| "om_insert k v (p # m) =
     (if k < fst p then (k, v) # p # m else if k = fst p then (k, v) # m else p # om_insert k v m)"

definition om_emplace :: "'k::linorder \<Rightarrow> 'v \<Rightarrow> ('k \<times> 'v) list \<Rightarrow> ('k \<times> 'v) list" where
  "om_emplace k v m = (if map_of m k = None then om_insert k v m else m)"

definition om_erase :: "'k \<Rightarrow> ('k \<times> 'v) list \<Rightarrow> ('k \<times> 'v) list" where
  "om_erase k m = filter (\<lambda>p. fst p \<noteq> k) m"

definition om_ok :: "('k::linorder \<times> 'v) list \<Rightarrow> bool" where
  "om_ok m \<longleftrightarrow> sorted_wrt (<) (map fst m)"

lemma om_find_insert [simp]: "map_of (om_insert k v m) = (map_of m)(k \<mapsto> v)"
  by (induction m) auto

lemma om_find_emplace [simp]:
  "map_of (om_emplace k v m) = (if map_of m k = None then (map_of m)(k \<mapsto> v) else map_of m)"
  by (simp add: om_emplace_def)

lemma om_find_erase [simp]: "map_of (om_erase k m) = (map_of m)(k := None)"
  by (induction m) (auto simp: om_erase_def)

lemma om_keys_insert [simp]: "fst ` set (om_insert k v m) = insert k (fst ` set m)"
  by (induction m) auto

lemma om_keys_erase [simp]: "fst ` set (om_erase k m) = fst ` set m - {k}"
  by (auto simp: om_erase_def)

lemma om_ok_Nil [simp]: "om_ok []"
  by (simp add: om_ok_def)

lemma om_ok_Cons [simp]: "om_ok (p # m) \<longleftrightarrow> (\<forall>x \<in> fst ` set m. fst p < x) \<and> om_ok m"
  by (auto simp: om_ok_def)

lemma om_ok_insert [simp]: "om_ok m \<Longrightarrow> om_ok (om_insert k v m)"
  by (induction m) force+

lemma om_ok_emplace [simp]: "om_ok m \<Longrightarrow> om_ok (om_emplace k v m)"
  by (simp add: om_emplace_def)

lemma om_ok_erase [simp]: "om_ok m \<Longrightarrow> om_ok (om_erase k m)"
  by (induction m) (auto simp: om_erase_def)

lemma om_ok_distinct: "om_ok m \<Longrightarrow> distinct (map fst m)"
  by (induction m) auto

text \<open>A sorted list is determined by the finite map it stands for.\<close>

lemma om_ext:
  assumes "om_ok m" and "om_ok m'" and "map_of m = map_of m'"
  shows "m = m'"
proof -
  have "map fst m = map fst m'"
    using assms by (intro strict_sorted_equal) (auto simp: om_ok_def strict_sorted_iff simp flip: dom_map_of_conv_image_fst)
  moreover have "v = v'" if "(k, v) \<in> set m" "(k, v') \<in> set m'" for k v v'
    using that assms(3) map_of_is_SomeI [OF om_ok_distinct [OF assms(1)] that(1)]
      map_of_is_SomeI [OF om_ok_distinct [OF assms(2)] that(2)] by simp
  ultimately show ?thesis
    by (auto intro!: nth_equalityI prod_eqI dest: map_eq_imp_length_eq simp: list_eq_iff_nth_eq) (metis nth_mem prod.collapse)+
qed

locale table =
  fixes find :: "'t \<Rightarrow> 'k \<Rightarrow> 'v option" and put :: "'k \<Rightarrow> 'v \<Rightarrow> 't \<Rightarrow> 't" and del :: "'k \<Rightarrow> 't \<Rightarrow> 't" and ok :: "'t \<Rightarrow> bool"
  assumes find_put: "find (put k v t) = (find t)(k \<mapsto> v)"
    and find_del: "find (del k t) = (find t)(k := None)"
    and ok_put: "ok t \<Longrightarrow> ok (put k v t)"
    and ok_del: "ok t \<Longrightarrow> ok (del k t)"
    and ext: "ok t \<Longrightarrow> ok u \<Longrightarrow> find t = find u \<Longrightarrow> t = u"
begin

text \<open>Writing back what was there undoes a write.\<close>

definition restore :: "'k \<Rightarrow> 'v option \<Rightarrow> 't \<Rightarrow> 't" where
  "restore k old t = (case old of None \<Rightarrow> del k t | Some v \<Rightarrow> put k v t)"

lemma restore_put:
  assumes "ok t"
  shows "restore k (find t k) (put k v t) = t"
proof (rule ext)
  show "ok (restore k (find t k) (put k v t))"
    using assms by (auto simp: restore_def ok_put ok_del split: option.split)
  show "find (restore k (find t k) (put k v t)) = find t"
    by (auto simp: restore_def find_put find_del split: option.split)
qed (rule assms)

lemma restore_id: "ok t \<Longrightarrow> restore k (find t k) t = t"
  by (rule ext) (auto simp: restore_def find_put find_del ok_put ok_del fun_upd_idem split: option.split)

end

interpretation om: table map_of om_insert om_erase om_ok
  by unfold_locales (auto intro: om_ext)

end
