(* ===== verification/Vfs.thy ===== *)
theory Vfs
  imports Vpath Omap Device
begin

text \<open>
  The registries of the virtual files: \<open>src/vfile/vmodule.cc\<close>, \<open>src/vfile/vdev.cc\<close> and the state of
  \<open>src/vfile/vsysfs.cc\<close> and \<open>src/vfile/vfile_cache.cc\<close> that they share.

  A pointer to a root, a device, a sysfs node or a module is a handle, and \<open>None\<close> is the null pointer; the
  objects live in one store per type. Handles are never used twice. A weak pointer is a handle too: the roots are
  owned by their lists alone, so that locking a weak pointer to a root succeeds when the list holds the root. The
  arguments \<open>alloc\<close> say whether an allocation succeeds. Every operation runs under its locks, so that one call is
  one step.
\<close>

section \<open>Data\<close>

type_synonym handle = nat

text \<open>\<open>pim_access_mode_t\<close> is an integer, since a caller may pass one that is no enumerator.\<close>

abbreviation PIM_ACCESS_MODE_NONE :: int where "PIM_ACCESS_MODE_NONE \<equiv> 0"
abbreviation PIM_ACCESS_MODE_RO :: int where "PIM_ACCESS_MODE_RO \<equiv> 1"
abbreviation PIM_ACCESS_MODE_WO :: int where "PIM_ACCESS_MODE_WO \<equiv> 2"
abbreviation PIM_ACCESS_MODE_RW :: int where "PIM_ACCESS_MODE_RW \<equiv> 3"

record pim_vdev_root =
  vr_name_glob :: string
  vr_instances :: "handle list"
  vr_open_fn :: "nat option"
  vr_ioctl_fn :: "nat option"
  vr_mmap_fn :: "nat option"
  vr_close_fn :: "nat option"

record pim_vdev =
  vd_root :: handle
  vd_name :: string
  vd_path :: string
  vd_major :: u32
  vd_minor :: u32
  vd_device_by_fd :: "int \<Rightarrow> nat option"
  vd_user_data :: "nat option"
  vd_open_fn :: "nat option"
  vd_ioctl_fn :: "nat option"
  vd_mmap_fn :: "nat option"
  vd_close_fn :: "nat option"

record pim_vsysfs_root =
  sr_vdev_root :: handle
  sr_class_name :: string
  sr_kobject_name :: string
  sr_instance_name_glob :: string
  sr_class_glob :: string
  sr_devices_glob :: string
  sr_default_attrs :: "(string \<times> string) list"
  sr_default_attr_access :: "(string \<times> int) list"
  sr_instances :: "handle list"

record pim_vsysfs =
  vs_root :: handle
  vs_vdev :: "handle option"
  vs_class_name :: string
  vs_device_name :: string
  vs_class_dir :: string
  vs_devices_dir :: string
  vs_attrs :: "(string \<times> string) list"
  vs_attr_access :: "(string \<times> int) list"
  vs_attrs_revision :: u64
  vs_attached_device :: "nat option"

record pim_vmodule =
  vm_name :: string
  vm_dir :: string
  vm_attrs :: "(string \<times> string) list"
  vm_registered_drivers :: "((string \<times> string) \<times> unit) list"
  vm_attr_access :: "(string \<times> int) list"
  vm_attrs_revision :: u64

text \<open>The types of directory entries.\<close>

datatype dtype = DT_UNKNOWN | DT_CHR | DT_DIR | DT_REG | DT_LNK

datatype attr_owner = VSYSFS handle | VMODULE handle

text \<open>The snapshot of the namespace.\<close>

record vfile_virtual_fs_snapshot =
  sn_dirs :: "(string \<times> (string \<times> dtype) list) list"
  sn_vfile_nodes :: "(string \<times> handle) list"
  sn_vsysfs_dirs :: "(string \<times> handle) list"
  sn_vmodule_dirs :: "(string \<times> handle) list"
  sn_attr_bindings :: "(string \<times> (attr_owner \<times> string)) list"

record vfs =
  fs_next :: handle
  fs_vdev_root :: "handle \<Rightarrow> pim_vdev_root"
  fs_vdev :: "handle \<Rightarrow> pim_vdev"
  fs_vsysfs_root :: "handle \<Rightarrow> pim_vsysfs_root"
  fs_vsysfs :: "handle \<Rightarrow> pim_vsysfs"
  fs_vmodule :: "handle \<Rightarrow> pim_vmodule"
  g_vdev_root_list :: "handle list"
  g_vdev_list :: "handle list"
  g_vdev_acquire_map :: "(handle \<times> u64) list"
  g_vsysfs_root_list :: "handle list"
  g_vsysfs_list :: "handle list"
  g_device_vsysfs_map :: "(nat \<times> handle list) list"
  g_vmodule_list :: "handle list"
  g_virtual_fs_generation :: u64
  g_virtual_fs_cached_generation :: u64
  g_virtual_fs_cache_valid :: bool
  g_virtual_fs_cached_snapshot :: "vfile_virtual_fs_snapshot option"

definition vfs_init :: vfs where
  "vfs_init =
     \<lparr>fs_next = 0,
      fs_vdev_root = (\<lambda>_. \<lparr>vr_name_glob = '''', vr_instances = [], vr_open_fn = None, vr_ioctl_fn = None,
                         vr_mmap_fn = None, vr_close_fn = None\<rparr>),
      fs_vdev = (\<lambda>_. \<lparr>vd_root = 0, vd_name = '''', vd_path = '''', vd_major = 1, vd_minor = 3,
                    vd_device_by_fd = Map.empty, vd_user_data = None, vd_open_fn = None, vd_ioctl_fn = None,
                    vd_mmap_fn = None, vd_close_fn = None\<rparr>),
      fs_vsysfs_root = (\<lambda>_. \<lparr>sr_vdev_root = 0, sr_class_name = '''', sr_kobject_name = '''', sr_instance_name_glob = '''',
                           sr_class_glob = '''', sr_devices_glob = '''', sr_default_attrs = [],
                           sr_default_attr_access = [], sr_instances = []\<rparr>),
      fs_vsysfs = (\<lambda>_. \<lparr>vs_root = 0, vs_vdev = None, vs_class_name = '''', vs_device_name = '''', vs_class_dir = '''',
                      vs_devices_dir = '''', vs_attrs = [], vs_attr_access = [], vs_attrs_revision = 1,
                      vs_attached_device = None\<rparr>),
      fs_vmodule = (\<lambda>_. \<lparr>vm_name = '''', vm_dir = '''', vm_attrs = [], vm_registered_drivers = [], vm_attr_access = [],
                       vm_attrs_revision = 1\<rparr>),
      g_vdev_root_list = [], g_vdev_list = [], g_vdev_acquire_map = [], g_vsysfs_root_list = [], g_vsysfs_list = [],
      g_device_vsysfs_map = [], g_vmodule_list = [], g_virtual_fs_generation = 1,
      g_virtual_fs_cached_generation = 0, g_virtual_fs_cache_valid = False, g_virtual_fs_cached_snapshot = None\<rparr>"

definition vfile_notify_virtual_fs_changed :: "vfs \<Rightarrow> vfs" where
  "vfile_notify_virtual_fs_changed st =
     (let g = g_virtual_fs_generation st + 1
      in st\<lparr>g_virtual_fs_generation := (if g = 0 then 1 else g), g_virtual_fs_cache_valid := False\<rparr>)"

definition vfile_get_virtual_fs_generation :: "vfs \<Rightarrow> u64" where
  "vfile_get_virtual_fs_generation st = g_virtual_fs_generation st"

definition vfile_find_shared :: "handle list \<Rightarrow> handle option \<Rightarrow> handle option" where
  "vfile_find_shared list raw =
     (case raw of None \<Rightarrow> None | Some h \<Rightarrow> if h \<in> set list then Some h else None)"

definition attr_access_valid :: "int \<Rightarrow> bool" where
  "attr_access_valid access \<longleftrightarrow>
     access = PIM_ACCESS_MODE_NONE \<or> access = PIM_ACCESS_MODE_RO \<or> access = PIM_ACCESS_MODE_RW \<or> access = PIM_ACCESS_MODE_WO"

definition unregister_object :: "handle list \<Rightarrow> handle option \<Rightarrow> handle list" where
  "unregister_object list raw = (case raw of None \<Rightarrow> list | Some h \<Rightarrow> filter (\<lambda>e. e \<noteq> h) list)"

section \<open>Modules\<close>

definition vfile_copy_vmodule_list_for_snapshot :: "vfs \<Rightarrow> handle list" where
  "vfile_copy_vmodule_list_for_snapshot st = g_vmodule_list st"

definition vfile_clear_vmodule_state :: "vfs \<Rightarrow> vfs" where
  "vfile_clear_vmodule_state st = st\<lparr>g_vmodule_list := []\<rparr>"

definition set_vmodule :: "handle \<Rightarrow> pim_vmodule \<Rightarrow> vfs \<Rightarrow> vfs" where
  "set_vmodule h m st = st\<lparr>fs_vmodule := (fs_vmodule st)(h := m)\<rparr>"

definition pim_vmodule_create :: "bool \<Rightarrow> string option \<Rightarrow> vfs \<Rightarrow> handle option \<times> vfs" where
  "pim_vmodule_create alloc module_name st =
     (case module_name of
        None \<Rightarrow> (None, st)
      | Some module_name \<Rightarrow>
          let normalized_name = vmodule_normalize_instance_name module_name
          in if \<not> alloc \<or> \<not> valid_instance_name normalized_name then (None, st)
             else
               let dir = ''/sys/module/'' @ normalized_name
               in if \<exists>existing \<in> set (g_vmodule_list st). vm_dir (fs_vmodule st existing) = dir then (None, st)
                  else
                    let h = fs_next st;
                        vmodule = \<lparr>vm_name = normalized_name, vm_dir = dir, vm_attrs = [], vm_registered_drivers = [],
                                   vm_attr_access = [], vm_attrs_revision = 1\<rparr>
                    in (Some h, vfile_notify_virtual_fs_changed
                          (set_vmodule h vmodule (st\<lparr>fs_next := h + 1, g_vmodule_list := g_vmodule_list st @ [h]\<rparr>))))"

definition pim_vmodule_destroy :: "handle option \<Rightarrow> vfs \<Rightarrow> vfs" where
  "pim_vmodule_destroy vmodule st =
     vfile_notify_virtual_fs_changed (st\<lparr>g_vmodule_list := unregister_object (g_vmodule_list st) vmodule\<rparr>)"

definition pim_vmodule_get_name :: "handle option \<Rightarrow> vfs \<Rightarrow> string option" where
  "pim_vmodule_get_name vmodule st = map_option (\<lambda>h. vm_name (fs_vmodule st h)) vmodule"

definition pim_vmodule_get_dir :: "handle option \<Rightarrow> vfs \<Rightarrow> string option" where
  "pim_vmodule_get_dir vmodule st = map_option (\<lambda>h. vm_dir (fs_vmodule st h)) vmodule"

definition pim_vmodule_register_driver ::
  "bool \<Rightarrow> handle option \<Rightarrow> string option \<Rightarrow> string option \<Rightarrow> vfs \<Rightarrow> pim_error \<times> vfs" where
  "pim_vmodule_register_driver alloc vmodule bus_name driver_name st =
     (case (vmodule, bus_name, driver_name) of
        (Some h, Some bus_name, Some driver_name) \<Rightarrow>
          let normalized_bus = vmodule_normalize_bus_name bus_name;
              normalized_driver = vmodule_normalize_driver_name driver_name
          in if \<not> valid_instance_name normalized_bus \<or> \<not> valid_instance_name normalized_driver
             then (PIM_ERR_INVALID_ARG, st)
             else if \<not> alloc then (PIM_ERR_NO_MEMORY, st)
             else
               let m = fs_vmodule st h; registration = (normalized_bus, normalized_driver);
                   inserted = (map_of (vm_registered_drivers m) registration = None);
                   st = set_vmodule h (m\<lparr>vm_registered_drivers := om_emplace registration () (vm_registered_drivers m)\<rparr>) st
               in (PIM_SUCCESS, if inserted then vfile_notify_virtual_fs_changed st else st)
      | _ \<Rightarrow> (PIM_ERR_INVALID_ARG, st))"

definition access_of :: "(string \<times> int) list \<Rightarrow> string \<Rightarrow> int" where
  "access_of m name = (case map_of m name of None \<Rightarrow> PIM_ACCESS_MODE_RW | Some a \<Rightarrow> a)"

definition pim_vmodule_create_attr ::
  "bool \<Rightarrow> handle option \<Rightarrow> string option \<Rightarrow> string option \<Rightarrow> int \<Rightarrow> vfs \<Rightarrow> pim_error \<times> vfs" where
  "pim_vmodule_create_attr alloc vmodule name value access st =
     (case (vmodule, name, value) of
        (Some h, Some name, Some value) \<Rightarrow>
          if \<not> attr_access_valid access then (PIM_ERR_INVALID_ARG, st)
          else if \<not> alloc then (PIM_ERR_NO_MEMORY, st)
          else
            let m = fs_vmodule st h; had_attr = (map_of (vm_attrs m) name \<noteq> None);
                access_changed = (had_attr \<and> access_of (vm_attr_access m) name \<noteq> access);
                st = set_vmodule h (m\<lparr>vm_attrs := om_insert name value (vm_attrs m),
                                       vm_attr_access := om_insert name access (vm_attr_access m),
                                       vm_attrs_revision := vfile_bump_nonzero_revision (vm_attrs_revision m)\<rparr>) st
            in (PIM_SUCCESS, if \<not> had_attr \<or> access_changed then vfile_notify_virtual_fs_changed st else st)
      | _ \<Rightarrow> (PIM_ERR_INVALID_ARG, st))"

definition pim_vmodule_remove_attr :: "handle option \<Rightarrow> string option \<Rightarrow> vfs \<Rightarrow> pim_error \<times> vfs" where
  "pim_vmodule_remove_attr vmodule name st =
     (case (vmodule, name) of
        (Some h, Some name) \<Rightarrow>
          let m = fs_vmodule st h
          in if map_of (vm_attrs m) name = None then (PIM_ERR_NOT_FOUND, st)
             else (PIM_SUCCESS, vfile_notify_virtual_fs_changed
                    (set_vmodule h (m\<lparr>vm_attrs := om_erase name (vm_attrs m),
                                       vm_attr_access := om_erase name (vm_attr_access m),
                                       vm_attrs_revision := vfile_bump_nonzero_revision (vm_attrs_revision m)\<rparr>) st))
      | _ \<Rightarrow> (PIM_ERR_INVALID_ARG, st))"

definition pim_vmodule_find_attr :: "handle option \<Rightarrow> string option \<Rightarrow> vfs \<Rightarrow> string option" where
  "pim_vmodule_find_attr vmodule name st =
     (case (vmodule, name) of
        (Some h, Some name) \<Rightarrow> map_of (vm_attrs (fs_vmodule st h)) name
      | _ \<Rightarrow> None)"

section \<open>Device roots\<close>

definition vfile_lookup_vdev_root_shared :: "handle option \<Rightarrow> vfs \<Rightarrow> handle option" where
  "vfile_lookup_vdev_root_shared root st = vfile_find_shared (g_vdev_root_list st) root"

definition vfile_lookup_vdev_shared :: "handle option \<Rightarrow> vfs \<Rightarrow> handle option" where
  "vfile_lookup_vdev_shared vdev st = vfile_find_shared (g_vdev_list st) vdev"

definition vfile_copy_vdev_list_for_snapshot :: "vfs \<Rightarrow> handle list" where
  "vfile_copy_vdev_list_for_snapshot st = g_vdev_list st"

definition vfile_clear_vdev_state :: "vfs \<Rightarrow> vfs" where
  "vfile_clear_vdev_state st = st\<lparr>g_vdev_acquire_map := [], g_vdev_list := [], g_vdev_root_list := []\<rparr>"

definition set_vdev_root :: "handle \<Rightarrow> pim_vdev_root \<Rightarrow> vfs \<Rightarrow> vfs" where
  "set_vdev_root h r st = st\<lparr>fs_vdev_root := (fs_vdev_root st)(h := r)\<rparr>"

definition set_vdev :: "handle \<Rightarrow> pim_vdev \<Rightarrow> vfs \<Rightarrow> vfs" where
  "set_vdev h v st = st\<lparr>fs_vdev := (fs_vdev st)(h := v)\<rparr>"

definition pim_vdev_root_create :: "bool \<Rightarrow> string option \<Rightarrow> vfs \<Rightarrow> handle option \<times> vfs" where
  "pim_vdev_root_create alloc name_glob st =
     (case name_glob of
        None \<Rightarrow> (None, st)
      | Some name_glob \<Rightarrow>
          let glob = vdev_normalize_name_glob name_glob
          in if \<not> alloc \<or> glob = [] then (None, st)
             else
               let h = fs_next st;
                   root = \<lparr>vr_name_glob = glob, vr_instances = [], vr_open_fn = None, vr_ioctl_fn = None,
                           vr_mmap_fn = None, vr_close_fn = None\<rparr>
               in (Some h, set_vdev_root h root (st\<lparr>fs_next := h + 1, g_vdev_root_list := g_vdev_root_list st @ [h]\<rparr>)))"

definition pim_vdev_root_destroy :: "handle option \<Rightarrow> vfs \<Rightarrow> vfs" where
  "pim_vdev_root_destroy root st = st\<lparr>g_vdev_root_list := unregister_object (g_vdev_root_list st) root\<rparr>"

definition pim_vdev_root_get_name_glob :: "handle option \<Rightarrow> vfs \<Rightarrow> string option" where
  "pim_vdev_root_get_name_glob root st = map_option (\<lambda>h. vr_name_glob (fs_vdev_root st h)) root"

text \<open>\<open>set_root\<close> and \<open>set_instance\<close> stand for the two member pointers. The instances of a root in its list are all
  alive, so that the loop erases none of them; when the copy of the list cannot be allocated only the root changes.\<close>

definition vdev_set_root_callback ::
  "bool \<Rightarrow> handle option \<Rightarrow> (pim_vdev_root \<Rightarrow> pim_vdev_root) \<Rightarrow> (pim_vdev \<Rightarrow> pim_vdev) \<Rightarrow> vfs \<Rightarrow> vfs" where
  "vdev_set_root_callback alloc root set_root set_instance st =
     (case vfile_lookup_vdev_root_shared root st of
        None \<Rightarrow> st
      | Some r \<Rightarrow>
          let instances = vr_instances (fs_vdev_root st r);
              st = set_vdev_root r (set_root (fs_vdev_root st r)) st
          in if \<not> alloc then st
             else fold (\<lambda>h st. set_vdev h (set_instance (fs_vdev st h)) st) instances st)"

definition pim_vdev_root_set_open_cb :: "bool \<Rightarrow> handle option \<Rightarrow> nat option \<Rightarrow> vfs \<Rightarrow> vfs" where
  "pim_vdev_root_set_open_cb alloc root fn = vdev_set_root_callback alloc root (vr_open_fn_update (\<lambda>_. fn)) (vd_open_fn_update (\<lambda>_. fn))"

definition pim_vdev_root_set_ioctl_cb :: "bool \<Rightarrow> handle option \<Rightarrow> nat option \<Rightarrow> vfs \<Rightarrow> vfs" where
  "pim_vdev_root_set_ioctl_cb alloc root fn = vdev_set_root_callback alloc root (vr_ioctl_fn_update (\<lambda>_. fn)) (vd_ioctl_fn_update (\<lambda>_. fn))"

definition pim_vdev_root_set_mmap_cb :: "bool \<Rightarrow> handle option \<Rightarrow> nat option \<Rightarrow> vfs \<Rightarrow> vfs" where
  "pim_vdev_root_set_mmap_cb alloc root fn = vdev_set_root_callback alloc root (vr_mmap_fn_update (\<lambda>_. fn)) (vd_mmap_fn_update (\<lambda>_. fn))"

definition pim_vdev_root_set_close_cb :: "bool \<Rightarrow> handle option \<Rightarrow> nat option \<Rightarrow> vfs \<Rightarrow> vfs" where
  "pim_vdev_root_set_close_cb alloc root fn = vdev_set_root_callback alloc root (vr_close_fn_update (\<lambda>_. fn)) (vd_close_fn_update (\<lambda>_. fn))"

end
