(* ===== verification/Vdev.thy ===== *)
theory Vdev
  imports Vfs
begin

text \<open>
  Virtual devices, \<open>src/vfile/vdev.cc\<close>: the allocation of device numbers, the instances below a root and the
  references that keep an instance alive.
\<close>

section \<open>Device numbers\<close>

definition vdev_make_devnum_key :: "u32 \<Rightarrow> u32 \<Rightarrow> u64" where
  "vdev_make_devnum_key major minor = push_bit 32 (ucast major) OR ucast minor"

definition vdev_increment_devnum_pair :: "u32 \<times> u32 \<Rightarrow> (u32 \<times> u32) option" where
  "vdev_increment_devnum_pair mm =
     (let kMax = - 1
      in if snd mm = kMax then (if fst mm = kMax then None else Some (fst mm + 1, 0))
         else Some (fst mm, snd mm + 1))"

definition is_used :: "u64 list \<Rightarrow> u32 \<Rightarrow> u32 \<Rightarrow> bool" where
  "is_used used_devnums candidate_major candidate_minor \<longleftrightarrow>
     vdev_make_devnum_key candidate_major candidate_minor \<in> set used_devnums"

text \<open>The largest pair in use.\<close>

definition max_devnum :: "(u32 \<times> u32) list \<Rightarrow> (u32 \<times> u32) option" where
  "max_devnum = foldl (\<lambda>acc (major, minor).
       case acc of
         None \<Rightarrow> Some (major, minor)
       | Some (max_major, max_minor) \<Rightarrow>
           if major > max_major \<or> (major = max_major \<and> minor > max_minor) then Some (major, minor) else acc) None"

lemma unat_succ32: "x \<noteq> - 1 \<Longrightarrow> unat (x + 1) = unat x + 1" for x :: u32
  by (metis Suc_eq_plus1 add.commute add_eq_0_iff unatSuc)

lemma unat_lt32: "unat (x :: u32) < 4294967296"
  using unsigned_less [of x] by simp

function minor_loop :: "u64 list \<Rightarrow> u32 \<Rightarrow> u32 \<Rightarrow> u32 option" where
  "minor_loop used major minor =
     (if is_used used major minor then (if minor = - 1 then None else minor_loop used major (minor + 1))
      else Some minor)"
  by auto
termination
proof (relation "measure (\<lambda>(used, major, minor). 2 ^ 32 - unat minor)", goal_cases)
  case (2 used major minor)
  then show ?case using unat_lt32 [of minor] by (simp add: unat_succ32)
qed simp

function major_loop :: "u64 list \<Rightarrow> u32 \<Rightarrow> u32 \<Rightarrow> u32 option" where
  "major_loop used major minor =
     (if is_used used major minor then (if major = - 1 then None else major_loop used (major + 1) minor)
      else Some major)"
  by auto
termination
proof (relation "measure (\<lambda>(used, major, minor). 2 ^ 32 - unat major)", goal_cases)
  case (2 used major minor)
  then show ?case using unat_lt32 [of major] by (simp add: unat_succ32)
qed simp

definition pair_rank :: "u32 \<times> u32 \<Rightarrow> nat" where
  "pair_rank mm = unat (fst mm) * 2 ^ 32 + unat (snd mm)"

lemma pair_rank_bound: "pair_rank mm < 2 ^ 64"
  using unat_lt32 [of "fst mm"] unat_lt32 [of "snd mm"] by (simp add: pair_rank_def)

lemma pair_rank_increment: "vdev_increment_devnum_pair mm = Some mm' \<Longrightarrow> pair_rank mm' = pair_rank mm + 1"
proof -
  have "unat (- 1 :: u32) = 4294967295" by (simp add: unsigned_minus_1_eq_mask mask_eq_exp_minus_1)
  moreover assume "vdev_increment_devnum_pair mm = Some mm'"
  ultimately show ?thesis
    by (auto simp: vdev_increment_devnum_pair_def pair_rank_def unat_succ32 Let_def split: if_splits)
qed

function pair_loop :: "u64 list \<Rightarrow> u32 \<times> u32 \<Rightarrow> (u32 \<times> u32) option" where
  "pair_loop used mm =
     (if is_used used (fst mm) (snd mm)
      then (case vdev_increment_devnum_pair mm of None \<Rightarrow> None | Some mm' \<Rightarrow> pair_loop used mm')
      else Some mm)"
  by auto
termination
proof (relation "measure (\<lambda>(used, mm). 2 ^ 64 - pair_rank mm)", goal_cases)
  case (2 used mm mm')
  then show ?case using pair_rank_increment [of mm mm'] pair_rank_bound [of mm'] by simp
qed simp

declare minor_loop.simps [simp del] major_loop.simps [simp del] pair_loop.simps [simp del]

text \<open>The choice of the numbers of a new device, \<open>None\<close> when there is none left.\<close>

definition resolve_devnum :: "(u32 \<times> u32) list \<Rightarrow> int \<Rightarrow> int \<Rightarrow> (u32 \<times> u32) option" where
  "resolve_devnum in_use major minor =
     (let used_devnums = map (\<lambda>(a, b). vdev_make_devnum_key a b) in_use;
          resolved_major = (if major \<ge> 0 then word_of_int major else 0);
          resolved_minor = (if minor \<ge> 0 then word_of_int minor else 0)
      in if major \<ge> 0 \<and> minor = - 1
         then map_option (\<lambda>m. (resolved_major, m)) (minor_loop used_devnums resolved_major 0)
         else if major = - 1 \<and> minor \<ge> 0
         then map_option (\<lambda>m. (m, resolved_minor)) (major_loop used_devnums 0 resolved_minor)
         else if major = - 1 \<and> minor = - 1
         then (case max_devnum in_use of
                 None \<Rightarrow> pair_loop used_devnums (resolved_major, resolved_minor)
               | Some mm \<Rightarrow> (case vdev_increment_devnum_pair mm of
                               None \<Rightarrow> None
                             | Some mm' \<Rightarrow> pair_loop used_devnums mm'))
         else Some (resolved_major, resolved_minor))"

section \<open>Instances\<close>

text \<open>\<open>alloc\<close> is for the object and its entry in the list, \<open>link\<close> for the entry in the root.\<close>

definition pim_vdev_create ::
  "bool \<Rightarrow> bool \<Rightarrow> handle option \<Rightarrow> string option \<Rightarrow> int \<Rightarrow> int \<Rightarrow> vfs \<Rightarrow> handle option \<times> vfs" where
  "pim_vdev_create alloc link root name major minor st =
     (case (root, name) of
        (Some root, Some name) \<Rightarrow>
          if major < - 1 \<or> minor < - 1 then (None, st)
          else (case vfile_lookup_vdev_root_shared (Some root) st of
              None \<Rightarrow> (None, st)
            | Some r \<Rightarrow>
                let normalized_name = vdev_normalize_name name
                in if \<not> alloc \<or> \<not> valid_instance_name normalized_name then (None, st)
                   else
                     let path = ''/dev/'' @ normalized_name
                     in if \<exists>existing \<in> set (g_vdev_list st). vd_path (fs_vdev st existing) = path then (None, st)
                        else (case resolve_devnum (map (\<lambda>h. (vd_major (fs_vdev st h), vd_minor (fs_vdev st h))) (g_vdev_list st)) major minor of
                            None \<Rightarrow> (None, st)
                          | Some (resolved_major, resolved_minor) \<Rightarrow>
                              let h = fs_next st; rt = fs_vdev_root st r;
                                  instance = \<lparr>vd_root = r, vd_name = normalized_name, vd_path = path,
                                    vd_major = resolved_major, vd_minor = resolved_minor,
                                    vd_device_by_fd = Map.empty, vd_user_data = None,
                                    vd_open_fn = None, vd_ioctl_fn = None, vd_mmap_fn = None, vd_close_fn = None\<rparr>;
                                  st = set_vdev h instance (st\<lparr>fs_next := h + 1, g_vdev_list := g_vdev_list st @ [h]\<rparr>)
                              in if \<not> link then (None, st\<lparr>g_vdev_list := unregister_object (g_vdev_list st) (Some h)\<rparr>)
                                 else (Some h, vfile_notify_virtual_fs_changed
                                   (set_vdev_root r (rt\<lparr>vr_instances := vr_instances rt @ [h]\<rparr>)
                                     (set_vdev h (instance\<lparr>vd_open_fn := vr_open_fn rt, vd_ioctl_fn := vr_ioctl_fn rt,
                                                           vd_mmap_fn := vr_mmap_fn rt, vd_close_fn := vr_close_fn rt\<rparr>) st)))))
      | _ \<Rightarrow> (None, st))"

definition vdev_unlink_from_root :: "handle \<Rightarrow> vfs \<Rightarrow> vfs" where
  "vdev_unlink_from_root h st =
     (let r = vd_root (fs_vdev st h)
      in if r \<in> set (g_vdev_root_list st)
         then set_vdev_root r ((fs_vdev_root st r)\<lparr>vr_instances := filter (\<lambda>e. e \<noteq> h) (vr_instances (fs_vdev_root st r))\<rparr>) st
         else st)"

definition pim_vdev_destroy :: "handle option \<Rightarrow> vfs \<Rightarrow> vfs" where
  "pim_vdev_destroy vdev st =
     (case vdev of
        None \<Rightarrow> st
      | Some h \<Rightarrow>
          let st = vdev_unlink_from_root h st
          in vfile_notify_virtual_fs_changed (st\<lparr>g_vdev_list := unregister_object (g_vdev_list st) vdev\<rparr>))"

definition pim_vdev_get_name :: "handle option \<Rightarrow> vfs \<Rightarrow> string option" where
  "pim_vdev_get_name vdev st = map_option (\<lambda>h. vd_name (fs_vdev st h)) vdev"

definition pim_vdev_get_path :: "handle option \<Rightarrow> vfs \<Rightarrow> string option" where
  "pim_vdev_get_path vdev st = map_option (\<lambda>h. vd_path (fs_vdev st h)) vdev"

definition pim_vdev_get_major :: "handle option \<Rightarrow> vfs \<Rightarrow> int" where
  "pim_vdev_get_major vdev st =
     (case vdev of None \<Rightarrow> - 1 | Some h \<Rightarrow> if vd_major (fs_vdev st h) > 0x7FFFFFFF then - 1 else uint (vd_major (fs_vdev st h)))"

definition pim_vdev_get_minor :: "handle option \<Rightarrow> vfs \<Rightarrow> int" where
  "pim_vdev_get_minor vdev st =
     (case vdev of None \<Rightarrow> - 1 | Some h \<Rightarrow> if vd_minor (fs_vdev st h) > 0x7FFFFFFF then - 1 else uint (vd_minor (fs_vdev st h)))"

definition pim_vdev_get_root :: "handle option \<Rightarrow> vfs \<Rightarrow> handle option" where
  "pim_vdev_get_root vdev st =
     (case vdev of
        None \<Rightarrow> None
      | Some h \<Rightarrow> let r = vd_root (fs_vdev st h) in if r \<in> set (g_vdev_root_list st) then Some r else None)"

definition pim_vdev_set_user_data :: "handle option \<Rightarrow> nat option \<Rightarrow> vfs \<Rightarrow> vfs" where
  "pim_vdev_set_user_data vdev user_data st =
     (case vdev of None \<Rightarrow> st | Some h \<Rightarrow> set_vdev h ((fs_vdev st h)\<lparr>vd_user_data := user_data\<rparr>) st)"

definition pim_vdev_get_user_data :: "handle option \<Rightarrow> vfs \<Rightarrow> nat option" where
  "pim_vdev_get_user_data vdev st = (case vdev of None \<Rightarrow> None | Some h \<Rightarrow> vd_user_data (fs_vdev st h))"

section \<open>References\<close>

text \<open>The second critical section of \<open>pim_vdev_lock\<close> finds the map as the first left it when no other thread runs in
  between, so that the entry it makes is new.\<close>

definition pim_vdev_lock :: "bool \<Rightarrow> handle option \<Rightarrow> vfs \<Rightarrow> pim_error \<times> vfs" where
  "pim_vdev_lock alloc vdev st =
     (case vdev of
        None \<Rightarrow> (PIM_ERR_INVALID_ARG, st)
      | Some h \<Rightarrow>
          (case map_of (g_vdev_acquire_map st) h of
             Some refcount \<Rightarrow>
               if refcount = - 1 then (PIM_ERR_BUSY, st)
               else (PIM_SUCCESS, st\<lparr>g_vdev_acquire_map := om_insert h (refcount + 1) (g_vdev_acquire_map st)\<rparr>)
           | None \<Rightarrow>
               (case vfile_find_shared (g_vdev_list st) vdev of
                  None \<Rightarrow> (PIM_ERR_NOT_FOUND, st)
                | Some _ \<Rightarrow>
                    if \<not> alloc then (PIM_ERR_NO_MEMORY, st)
                    else (PIM_SUCCESS, st\<lparr>g_vdev_acquire_map := om_insert h 1 (g_vdev_acquire_map st)\<rparr>))))"

definition pim_vdev_unlock :: "handle option \<Rightarrow> vfs \<Rightarrow> pim_error \<times> vfs" where
  "pim_vdev_unlock vdev st =
     (case vdev of
        None \<Rightarrow> (PIM_ERR_INVALID_ARG, st)
      | Some h \<Rightarrow>
          (case map_of (g_vdev_acquire_map st) h of
             None \<Rightarrow> (PIM_ERR_NOT_FOUND, st)
           | Some refcount \<Rightarrow>
               if refcount = 0 then (PIM_ERR_NOT_FOUND, st)
               else if refcount - 1 = 0 then (PIM_SUCCESS, st\<lparr>g_vdev_acquire_map := om_erase h (g_vdev_acquire_map st)\<rparr>)
               else (PIM_SUCCESS, st\<lparr>g_vdev_acquire_map := om_insert h (refcount - 1) (g_vdev_acquire_map st)\<rparr>)))"

end
