(* ===== verification/Vsysfs.thy ===== *)
theory Vsysfs
  imports Vdev
begin

text \<open>
  The virtual sysfs, \<open>src/vfile/vsysfs.cc\<close>: roots with their default attributes, instances with theirs, the nodes of
  parent devices, and the table of the instances attached to a device; then the operations of \<open>src/vfile/vdev.cc\<close>
  that map descriptors to devices, which keep that table up to date.

  The first device in the iteration order of \<open>device_by_fd\<close> (an unordered map) is the one at \<open>pick\<close>.
\<close>

definition set_vsysfs :: "handle \<Rightarrow> pim_vsysfs \<Rightarrow> vfs \<Rightarrow> vfs" where
  "set_vsysfs h v st = st\<lparr>fs_vsysfs := (fs_vsysfs st)(h := v)\<rparr>"

definition set_vsysfs_root :: "handle \<Rightarrow> pim_vsysfs_root \<Rightarrow> vfs \<Rightarrow> vfs" where
  "set_vsysfs_root h r st = st\<lparr>fs_vsysfs_root := (fs_vsysfs_root st)(h := r)\<rparr>"

definition vsysfs_bump_attr_revision :: "pim_vsysfs \<Rightarrow> pim_vsysfs" where
  "vsysfs_bump_attr_revision v = v\<lparr>vs_attrs_revision := vfile_bump_nonzero_revision (vs_attrs_revision v)\<rparr>"

abbreviation newline :: string where "newline \<equiv> [CHR 0x0A]"

text \<open>\<open>std::to_string\<close> of an unsigned number.\<close>

fun decimal :: "nat \<Rightarrow> string" where
  "decimal n = (if n < 10 then [char_of (48 + n)] else decimal (n div 10) @ [char_of (48 + n mod 10)])"

declare decimal.simps [simp del]

section \<open>Roots\<close>

definition vsysfs_lookup_root_shared :: "handle option \<Rightarrow> vfs \<Rightarrow> handle option" where
  "vsysfs_lookup_root_shared root st = vfile_find_shared (g_vsysfs_root_list st) root"

definition vfile_copy_vsysfs_list_for_snapshot :: "vfs \<Rightarrow> handle list" where
  "vfile_copy_vsysfs_list_for_snapshot st = g_vsysfs_list st"

definition vfile_clear_vsysfs_state :: "vfs \<Rightarrow> vfs" where
  "vfile_clear_vsysfs_state st = st\<lparr>g_device_vsysfs_map := [], g_vsysfs_list := [], g_vsysfs_root_list := []\<rparr>"

definition pim_vsysfs_root_create ::
  "bool \<Rightarrow> handle option \<Rightarrow> string option \<Rightarrow> string option \<Rightarrow> string option \<Rightarrow> vfs \<Rightarrow> handle option \<times> vfs" where
  "pim_vsysfs_root_create alloc vdev_root class_name kobject_name instance_name_glob st =
     (case (class_name, kobject_name, instance_name_glob, vfile_lookup_vdev_root_shared vdev_root st) of
        (Some class_name, Some kobject_name, Some instance_name_glob, Some r) \<Rightarrow>
          let vdev_name_glob = vr_name_glob (fs_vdev_root st r);
              cls = vsysfs_normalize_class_component class_name;
              kobj = vsysfs_normalize_devices_component kobject_name;
              inst = normalize_component instance_name_glob
          in if \<not> alloc \<or> \<not> vsysfs_root_component_valid cls \<or> \<not> vsysfs_root_component_valid kobj \<or> inst = [] \<or> vdev_name_glob = []
             then (None, st)
             else
               let h = fs_next st;
                   root = \<lparr>sr_vdev_root = r, sr_class_name = cls, sr_kobject_name = kobj, sr_instance_name_glob = inst,
                           sr_class_glob = cls @ ''/'' @ vdev_name_glob, sr_devices_glob = kobj @ ''/'' @ inst,
                           sr_default_attrs = [], sr_default_attr_access = [], sr_instances = []\<rparr>
               in (Some h, set_vsysfs_root h root (st\<lparr>fs_next := h + 1, g_vsysfs_root_list := g_vsysfs_root_list st @ [h]\<rparr>))
      | _ \<Rightarrow> (None, st))"

definition pim_vsysfs_root_destroy :: "handle option \<Rightarrow> vfs \<Rightarrow> vfs" where
  "pim_vsysfs_root_destroy root st = st\<lparr>g_vsysfs_root_list := unregister_object (g_vsysfs_root_list st) root\<rparr>"

definition pim_vsysfs_root_get_class_glob :: "handle option \<Rightarrow> vfs \<Rightarrow> string option" where
  "pim_vsysfs_root_get_class_glob root st = map_option (\<lambda>h. sr_class_glob (fs_vsysfs_root st h)) root"

definition pim_vsysfs_root_get_devices_glob :: "handle option \<Rightarrow> vfs \<Rightarrow> string option" where
  "pim_vsysfs_root_get_devices_glob root st = map_option (\<lambda>h. sr_devices_glob (fs_vsysfs_root st h)) root"

section \<open>Default attributes\<close>

text \<open>What is remembered of an attribute before it is overwritten: its value, if there was one, and its access.\<close>

type_synonym prev_state = "string option \<times> int"

definition put_attr :: "string \<Rightarrow> string \<Rightarrow> int \<Rightarrow> pim_vsysfs \<Rightarrow> pim_vsysfs" where
  "put_attr name value access v =
     v\<lparr>vs_attrs := om_insert name value (vs_attrs v), vs_attr_access := om_insert name access (vs_attr_access v)\<rparr>"

definition drop_attr :: "string \<Rightarrow> pim_vsysfs \<Rightarrow> pim_vsysfs" where
  "drop_attr name v = v\<lparr>vs_attrs := om_erase name (vs_attrs v), vs_attr_access := om_erase name (vs_attr_access v)\<rparr>"

definition vsysfs_prev :: "string \<Rightarrow> pim_vsysfs \<Rightarrow> prev_state" where
  "vsysfs_prev name v = (map_of (vs_attrs v) name, access_of (vs_attr_access v) name)"

definition rollback_vsysfs :: "string \<Rightarrow> prev_state \<Rightarrow> pim_vsysfs \<Rightarrow> pim_vsysfs" where
  "rollback_vsysfs name prev v =
     vsysfs_bump_attr_revision
       (case fst prev of None \<Rightarrow> drop_attr name v | Some old_value \<Rightarrow> put_attr name old_value (snd prev) v)"

text \<open>The caller holds the mutex of the instance \<open>held\<close>. The loop locks the mutex of every instance it restores; it
  never gets past an instance whose mutex its own thread holds, which is \<open>None\<close>.\<close>

fun rollback_instances :: "handle \<Rightarrow> string \<Rightarrow> (handle \<times> prev_state) list \<Rightarrow> vfs \<Rightarrow> vfs option" where
  "rollback_instances held name [] st = Some st"
| "rollback_instances held name ((h, prev) # prev_states) st =
     (if h = held then None
      else rollback_instances held name prev_states (set_vsysfs h (rollback_vsysfs name prev (fs_vsysfs st h)) st))"

definition rollback_root :: "string \<Rightarrow> prev_state \<Rightarrow> handle \<Rightarrow> vfs \<Rightarrow> vfs" where
  "rollback_root name prev r st =
     (let root = fs_vsysfs_root st r
      in set_vsysfs_root r
           (case fst prev of
              None \<Rightarrow> root\<lparr>sr_default_attrs := om_erase name (sr_default_attrs root),
                          sr_default_attr_access := om_erase name (sr_default_attr_access root)\<rparr>
            | Some old_value \<Rightarrow> root\<lparr>sr_default_attrs := om_insert name old_value (sr_default_attrs root),
                                    sr_default_attr_access := om_insert name (snd prev) (sr_default_attr_access root)\<rparr>) st)"

text \<open>Where memory runs out: nowhere, before the first change, between the two tables of the root, or at the instance
  of a given index, before or after its value is stored.\<close>

datatype alloc_outcome = Alloc_Ok | Alloc_Fails_Before | Alloc_Fails_Root | Alloc_Fails_Instance nat bool

definition apply_default :: "string \<Rightarrow> string \<Rightarrow> int \<Rightarrow> handle \<Rightarrow> vfs \<Rightarrow> vfs" where
  "apply_default name value access h st = set_vsysfs h (put_attr name value access (fs_vsysfs st h)) st"

definition apply_default_partly :: "string \<Rightarrow> string \<Rightarrow> bool \<Rightarrow> handle \<Rightarrow> vfs \<Rightarrow> vfs" where
  "apply_default_partly name value stored h st =
     (let v = fs_vsysfs st h
      in if stored then set_vsysfs h (v\<lparr>vs_attrs := om_insert name value (vs_attrs v)\<rparr>) st else st)"

definition write_default_everywhere :: "string \<Rightarrow> string \<Rightarrow> int \<Rightarrow> handle \<Rightarrow> vfs \<Rightarrow> vfs" where
  "write_default_everywhere name value access r st =
     (let rt = fs_vsysfs_root st r;
          instances = sr_instances rt;
          prev_states = map (\<lambda>h. (h, vsysfs_prev name (fs_vsysfs st h))) instances;
          st = set_vsysfs_root r (rt\<lparr>sr_default_attrs := om_insert name value (sr_default_attrs rt),
                                     sr_default_attr_access := om_insert name access (sr_default_attr_access rt)\<rparr>) st;
          st = fold (apply_default name value access) instances st;
          st = fold (\<lambda>h st. set_vsysfs h (vsysfs_bump_attr_revision (fs_vsysfs st h)) st) instances st
      in if \<exists>p \<in> set prev_states. fst (snd p) = None then vfile_notify_virtual_fs_changed st else st)"

text \<open>\<open>None\<close>: the call does not return.\<close>

definition pim_vsysfs_root_write_default_attr ::
  "alloc_outcome \<Rightarrow> handle option \<Rightarrow> string option \<Rightarrow> string option \<Rightarrow> int \<Rightarrow> vfs \<Rightarrow> (pim_error \<times> vfs) option" where
  "pim_vsysfs_root_write_default_attr alloc root name value access st =
     (case (root, name, value) of
        (Some _, Some name, Some value) \<Rightarrow>
          if \<not> attr_access_valid access then Some (PIM_ERR_INVALID_ARG, st)
          else (case vsysfs_lookup_root_shared root st of
              None \<Rightarrow> Some (PIM_ERR_INVALID_ARG, st)
            | Some r \<Rightarrow>
                let rt = fs_vsysfs_root st r;
                    root_prev = (map_of (sr_default_attrs rt) name, access_of (sr_default_attr_access rt) name);
                    instances = sr_instances rt;
                    prev_states = map (\<lambda>h. (h, vsysfs_prev name (fs_vsysfs st h))) instances;
                    rt_value = rt\<lparr>sr_default_attrs := om_insert name value (sr_default_attrs rt)\<rparr>;
                    rt_both = rt_value\<lparr>sr_default_attr_access := om_insert name access (sr_default_attr_access rt)\<rparr>
                in (case alloc of
                      Alloc_Fails_Before \<Rightarrow> Some (PIM_ERR_NO_MEMORY, st)
                    | Alloc_Fails_Root \<Rightarrow> Some (PIM_ERR_NO_MEMORY, rollback_root name root_prev r (set_vsysfs_root r rt_value st))
                    | Alloc_Fails_Instance i stored \<Rightarrow>
                        if i < length instances
                        then
                          let st = set_vsysfs_root r rt_both st;
                              st = fold (apply_default name value access) (take i instances) st;
                              st = apply_default_partly name value stored (instances ! i) st
                          in map_option (\<lambda>st. (PIM_ERR_NO_MEMORY, rollback_root name root_prev r st))
                               (rollback_instances (instances ! i) name (take (i + 1) prev_states) st)
                        else Some (PIM_SUCCESS, write_default_everywhere name value access r st)
                    | Alloc_Ok \<Rightarrow> Some (PIM_SUCCESS, write_default_everywhere name value access r st)))
      | _ \<Rightarrow> Some (PIM_ERR_INVALID_ARG, st))"

definition pim_vsysfs_root_find_default_attr :: "handle option \<Rightarrow> string option \<Rightarrow> vfs \<Rightarrow> string option" where
  "pim_vsysfs_root_find_default_attr root name st =
     (case (name, vsysfs_lookup_root_shared root st) of
        (Some name, Some r) \<Rightarrow> map_of (sr_default_attrs (fs_vsysfs_root st r)) name
      | _ \<Rightarrow> None)"

definition remove_attr_if_there :: "string \<Rightarrow> handle \<Rightarrow> vfs \<times> bool \<Rightarrow> vfs \<times> bool" where
  "remove_attr_if_there name h acc =
     (let v = fs_vsysfs (fst acc) h
      in if map_of (vs_attrs v) name = None then acc
         else (set_vsysfs h (vsysfs_bump_attr_revision (drop_attr name v)) (fst acc), True))"

definition pim_vsysfs_root_remove_default_attr :: "bool \<Rightarrow> handle option \<Rightarrow> string option \<Rightarrow> vfs \<Rightarrow> pim_error \<times> vfs" where
  "pim_vsysfs_root_remove_default_attr alloc root name st =
     (case (name, vsysfs_lookup_root_shared root st) of
        (Some name, Some r) \<Rightarrow>
          let rt = fs_vsysfs_root st r
          in if map_of (sr_default_attrs rt) name = None then (PIM_ERR_NOT_FOUND, st)
             else if \<not> alloc then (PIM_ERR_NO_MEMORY, st)
             else
               let st = set_vsysfs_root r (rt\<lparr>sr_default_attrs := om_erase name (sr_default_attrs rt),
                                              sr_default_attr_access := om_erase name (sr_default_attr_access rt)\<rparr>) st;
                   (st, any_removed) = fold (remove_attr_if_there name) (sr_instances rt) (st, False)
               in (PIM_SUCCESS, if any_removed then vfile_notify_virtual_fs_changed st else st)
      | _ \<Rightarrow> (PIM_ERR_INVALID_ARG, st))"

section \<open>Parent devices\<close>

definition upsert_attr :: "string \<Rightarrow> string \<Rightarrow> pim_vsysfs \<times> bool \<Rightarrow> pim_vsysfs \<times> bool" where
  "upsert_attr name value acc =
     (let v = fst acc
      in if map_of (vs_attrs v) name = None
         then (v\<lparr>vs_attrs := om_emplace name value (vs_attrs v),
                 vs_attr_access := om_emplace name PIM_ACCESS_MODE_RO (vs_attr_access v)\<rparr>, True)
         else acc)"

definition upsert_dirs :: "string \<Rightarrow> string \<Rightarrow> pim_vsysfs \<Rightarrow> pim_vsysfs \<times> bool" where
  "upsert_dirs class_dir devices_dir v =
     (let set_class = (vs_class_dir v = [] \<and> class_dir \<noteq> []); set_devices = (vs_devices_dir v = [] \<and> devices_dir \<noteq> [])
      in (v\<lparr>vs_class_dir := (if set_class then class_dir else vs_class_dir v),
            vs_devices_dir := (if set_devices then devices_dir else vs_devices_dir v)\<rparr>, set_class \<or> set_devices))"

definition vsysfs_upsert_parent_device_attrs_locked ::
  "handle \<Rightarrow> string \<Rightarrow> string \<Rightarrow> string \<Rightarrow> string \<Rightarrow> string \<Rightarrow> vfs \<Rightarrow> bool \<times> vfs" where
  "vsysfs_upsert_parent_device_attrs_locked target class_dir devices_dir subsystem_value device_value uevent_value st =
     (let acc = upsert_attr ''uevent'' uevent_value
                  (upsert_attr ''device'' device_value
                    (upsert_attr ''subsystem'' subsystem_value (upsert_dirs class_dir devices_dir (fs_vsysfs st target))));
          changed = snd acc
      in (changed, set_vsysfs target (if changed then vsysfs_bump_attr_revision (fst acc) else fst acc) st))"

definition new_parent_node :: "handle \<Rightarrow> string \<Rightarrow> string \<Rightarrow> string \<Rightarrow> string \<Rightarrow> string \<Rightarrow> pim_vsysfs" where
  "new_parent_node root instance_name class_dir parent_devices_dir subsystem_value uevent_value =
     \<lparr>vs_root = root, vs_vdev = None, vs_class_name = instance_name, vs_device_name = instance_name,
      vs_class_dir = class_dir, vs_devices_dir = parent_devices_dir,
      vs_attrs = om_emplace ''uevent'' uevent_value
        (om_emplace ''device'' parent_devices_dir (om_emplace ''subsystem'' subsystem_value [])),
      vs_attr_access = om_emplace ''uevent'' PIM_ACCESS_MODE_RO
        (om_emplace ''device'' PIM_ACCESS_MODE_RO (om_emplace ''subsystem'' PIM_ACCESS_MODE_RO [])),
      vs_attrs_revision = 1, vs_attached_device = None\<rparr>"

definition vsysfs_ensure_parent_device_node :: "bool \<Rightarrow> handle \<Rightarrow> string \<Rightarrow> string \<Rightarrow> vfs \<Rightarrow> bool \<times> vfs" where
  "vsysfs_ensure_parent_device_node alloc root parent_devices_dir instance_name st =
     (if parent_devices_dir = [] \<or> instance_name = [] \<or> \<not> alloc then (False, st)
      else
        let kobject_name = sr_kobject_name (fs_vsysfs_root st root);
            subsystem_value = ''/sys/bus/'' @ kobject_name;
            class_dir = subsystem_value @ ''/devices/'' @ instance_name;
            uevent_value = ''DEVPATH=/devices/'' @ kobject_name @ ''/'' @ instance_name @ newline @ ''SUBSYSTEM='' @ kobject_name @
              newline @ ''DEVNAME='' @ instance_name @ newline
        in (case List.find (\<lambda>c. vs_devices_dir (fs_vsysfs st c) = parent_devices_dir) (g_vsysfs_list st) of
              Some existing \<Rightarrow>
                vsysfs_upsert_parent_device_attrs_locked existing class_dir parent_devices_dir subsystem_value parent_devices_dir uevent_value st
            | None \<Rightarrow>
                let h = fs_next st
                in (True, set_vsysfs h (new_parent_node root instance_name class_dir parent_devices_dir subsystem_value uevent_value)
                            (st\<lparr>fs_next := h + 1, g_vsysfs_list := g_vsysfs_list st @ [h]\<rparr>))))"

section \<open>Instances\<close>

definition ensure_attr :: "string \<Rightarrow> string \<Rightarrow> int \<Rightarrow> pim_vsysfs \<Rightarrow> pim_vsysfs" where
  "ensure_attr key value access v =
     (if map_of (vs_attrs v) key \<noteq> None then v
      else v\<lparr>vs_attrs := om_emplace key value (vs_attrs v), vs_attr_access := om_insert key access (vs_attr_access v)\<rparr>)"

definition fill_access :: "(string \<times> string) list \<Rightarrow> (string \<times> int) list \<Rightarrow> (string \<times> int) list" where
  "fill_access attrs access = fold (\<lambda>kv m. if map_of m (fst kv) = None then om_insert (fst kv) PIM_ACCESS_MODE_RW m else m) attrs access"

definition derived_attrs :: "pim_vsysfs_root \<Rightarrow> string \<Rightarrow> u32 \<Rightarrow> u32 \<Rightarrow> pim_vsysfs \<Rightarrow> pim_vsysfs" where
  "derived_attrs root cls vdev_major vdev_minor v =
     (let v = v\<lparr>vs_attrs := sr_default_attrs root,
                vs_attr_access := fill_access (sr_default_attrs root) (sr_default_attr_access root)\<rparr>;
          v = ensure_attr ''dev'' (decimal (unat vdev_major) @ '':'' @ decimal (unat vdev_minor)) PIM_ACCESS_MODE_RO v;
          v = ensure_attr ''subsystem'' (''/sys/class/'' @ sr_class_name root) PIM_ACCESS_MODE_RO v;
          devpath = vfile_strip_known_prefix (vs_devices_dir v) ''/sys'';
          devpath = (if devpath = [] \<or> hd devpath \<noteq> slash then slash # devpath else devpath)
      in ensure_attr ''uevent'' (''DEVPATH='' @ devpath @ newline @ ''SUBSYSTEM='' @ sr_class_name root @ newline @ ''DEVNAME='' @ cls @
           newline @ ''MAJOR='' @ decimal (unat vdev_major) @ newline @ ''MINOR='' @ decimal (unat vdev_minor)) PIM_ACCESS_MODE_RO v)"

definition items_of :: "nat \<Rightarrow> vfs \<Rightarrow> handle list" where
  "items_of dev st = (case map_of (g_device_vsysfs_map st) dev of None \<Rightarrow> [] | Some items \<Rightarrow> items)"

definition vsysfs_pick_mapped_device_from_vdev_locked ::
  "((int \<Rightarrow> nat option) \<Rightarrow> int option) \<Rightarrow> pim_vdev \<Rightarrow> nat option" where
  "vsysfs_pick_mapped_device_from_vdev_locked pick vdev =
     (case pick (vd_device_by_fd vdev) of None \<Rightarrow> None | Some fd \<Rightarrow> vd_device_by_fd vdev fd)"

text \<open>The entries of the table are registered instances, so that none of them has expired.\<close>

definition vsysfs_add_to_device_map_locked :: "nat \<Rightarrow> handle \<Rightarrow> vfs \<Rightarrow> vfs" where
  "vsysfs_add_to_device_map_locked dev h st =
     st\<lparr>g_device_vsysfs_map := om_insert dev (if h \<in> set (items_of dev st) then items_of dev st else items_of dev st @ [h])
          (g_device_vsysfs_map st)\<rparr>"

definition vsysfs_remove_from_device_map_locked :: "nat \<Rightarrow> handle \<Rightarrow> vfs \<Rightarrow> vfs" where
  "vsysfs_remove_from_device_map_locked dev h st =
     (case map_of (g_device_vsysfs_map st) dev of
        None \<Rightarrow> st
      | Some items \<Rightarrow>
          let items = filter (\<lambda>e. e \<noteq> h) items
          in st\<lparr>g_device_vsysfs_map := (if items = [] then om_erase dev (g_device_vsysfs_map st)
                                        else om_insert dev items (g_device_vsysfs_map st))\<rparr>)"

definition auto_attach :: "((int \<Rightarrow> nat option) \<Rightarrow> int option) \<Rightarrow> handle \<Rightarrow> handle \<Rightarrow> vfs \<Rightarrow> vfs" where
  "auto_attach pick vdev h st =
     (case vsysfs_pick_mapped_device_from_vdev_locked pick (fs_vdev st vdev) of
        None \<Rightarrow> st
      | Some mapped_dev \<Rightarrow>
          set_vsysfs h ((fs_vsysfs st h)\<lparr>vs_attached_device := Some mapped_dev\<rparr>) (vsysfs_add_to_device_map_locked mapped_dev h st))"

definition pim_vsysfs_create ::
  "bool \<Rightarrow> bool \<Rightarrow> bool \<Rightarrow> ((int \<Rightarrow> nat option) \<Rightarrow> int option) \<Rightarrow>
   handle option \<Rightarrow> handle option \<Rightarrow> string option \<Rightarrow> vfs \<Rightarrow> handle option \<times> vfs" where
  "pim_vsysfs_create alloc link alloc_parent pick root vdev instance_name st =
     (case (vsysfs_lookup_root_shared root st, vfile_lookup_vdev_shared vdev st, instance_name) of
        (Some r, Some d, Some instance_name) \<Rightarrow>
          let rt = fs_vsysfs_root st r; dv = fs_vdev st d
          in if sr_vdev_root rt \<notin> set (g_vdev_root_list st) \<or> vd_root dv \<notin> set (g_vdev_root_list st) \<or> sr_vdev_root rt \<noteq> vd_root dv
             then (None, st)
             else
               let cls = vd_name dv; inst = normalize_component instance_name
               in if \<not> alloc \<or> \<not> valid_instance_name cls \<or> \<not> valid_instance_name inst then (None, st)
                  else
                    let class_dir = ''/sys/class/'' @ sr_class_name rt @ ''/'' @ cls;
                        devices_parent_dir = ''/sys/devices/'' @ sr_kobject_name rt @ ''/'' @ inst;
                        has_parent_child_layout = (inst \<noteq> cls);
                        devices_dir = (if has_parent_child_layout then devices_parent_dir @ ''/'' @ cls else devices_parent_dir)
                    in if \<exists>e \<in> set (g_vsysfs_list st). vs_class_dir (fs_vsysfs st e) = class_dir \<or> vs_devices_dir (fs_vsysfs st e) = devices_dir
                       then (None, st)
                       else
                         let h = fs_next st;
                             v = \<lparr>vs_root = r, vs_vdev = Some d, vs_class_name = cls, vs_device_name = inst, vs_class_dir = class_dir,
                                  vs_devices_dir = devices_dir, vs_attrs = [], vs_attr_access = [], vs_attrs_revision = 1,
                                  vs_attached_device = None\<rparr>;
                             st = set_vsysfs h v (st\<lparr>fs_next := h + 1, g_vsysfs_list := g_vsysfs_list st @ [h]\<rparr>)
                         in if \<not> link then (None, st\<lparr>g_vsysfs_list := unregister_object (g_vsysfs_list st) (Some h)\<rparr>)
                            else
                              let st = set_vsysfs h (derived_attrs rt cls (vd_major dv) (vd_minor dv) v) st;
                                  st = set_vsysfs_root r (rt\<lparr>sr_instances := sr_instances rt @ [h]\<rparr>) st;
                                  st = auto_attach pick d h st;
                                  st = (if has_parent_child_layout
                                        then snd (vsysfs_ensure_parent_device_node alloc_parent r devices_parent_dir inst st) else st)
                              in (Some h, vfile_notify_virtual_fs_changed st)
      | _ \<Rightarrow> (None, st))"

definition vsysfs_unlink_from_root :: "handle \<Rightarrow> vfs \<Rightarrow> vfs" where
  "vsysfs_unlink_from_root h st =
     (let r = vs_root (fs_vsysfs st h)
      in if r \<in> set (g_vsysfs_root_list st)
         then set_vsysfs_root r ((fs_vsysfs_root st r)\<lparr>sr_instances := filter (\<lambda>e. e \<noteq> h) (sr_instances (fs_vsysfs_root st r))\<rparr>) st
         else st)"

definition prune_device_map :: "handle \<Rightarrow> (nat \<times> handle list) list \<Rightarrow> (nat \<times> handle list) list" where
  "prune_device_map h m = filter (\<lambda>p. snd p \<noteq> []) (map (\<lambda>p. (fst p, filter (\<lambda>e. e \<noteq> h) (snd p))) m)"

definition pim_vsysfs_destroy :: "handle option \<Rightarrow> vfs \<Rightarrow> vfs" where
  "pim_vsysfs_destroy vsysfs st =
     (case vsysfs of
        None \<Rightarrow> st
      | Some h \<Rightarrow>
          let st = vsysfs_unlink_from_root h st;
              st = st\<lparr>g_device_vsysfs_map := prune_device_map h (g_device_vsysfs_map st)\<rparr>
          in vfile_notify_virtual_fs_changed (st\<lparr>g_vsysfs_list := unregister_object (g_vsysfs_list st) vsysfs\<rparr>))"

definition pim_vsysfs_get_class_name :: "handle option \<Rightarrow> vfs \<Rightarrow> string option" where
  "pim_vsysfs_get_class_name vsysfs st = map_option (\<lambda>h. vs_class_name (fs_vsysfs st h)) vsysfs"

definition pim_vsysfs_get_device_name :: "handle option \<Rightarrow> vfs \<Rightarrow> string option" where
  "pim_vsysfs_get_device_name vsysfs st = map_option (\<lambda>h. vs_device_name (fs_vsysfs st h)) vsysfs"

definition pim_vsysfs_get_class_dir :: "handle option \<Rightarrow> vfs \<Rightarrow> string option" where
  "pim_vsysfs_get_class_dir vsysfs st = map_option (\<lambda>h. vs_class_dir (fs_vsysfs st h)) vsysfs"

definition pim_vsysfs_get_devices_dir :: "handle option \<Rightarrow> vfs \<Rightarrow> string option" where
  "pim_vsysfs_get_devices_dir vsysfs st = map_option (\<lambda>h. vs_devices_dir (fs_vsysfs st h)) vsysfs"

text \<open>When the allocation fails the two tables are put back.\<close>

definition pim_vsysfs_write_attr ::
  "bool \<Rightarrow> handle option \<Rightarrow> string option \<Rightarrow> string option \<Rightarrow> int \<Rightarrow> vfs \<Rightarrow> pim_error \<times> vfs" where
  "pim_vsysfs_write_attr alloc vsysfs name value access st =
     (case (vsysfs, name, value) of
        (Some h, Some name, Some value) \<Rightarrow>
          if \<not> attr_access_valid access then (PIM_ERR_INVALID_ARG, st)
          else if \<not> alloc then (PIM_ERR_NO_MEMORY, st)
          else
            let v = fs_vsysfs st h; had_attr = (map_of (vs_attrs v) name \<noteq> None);
                access_changed = (had_attr \<and> access_of (vs_attr_access v) name \<noteq> access);
                st = set_vsysfs h (vsysfs_bump_attr_revision (put_attr name value access v)) st
            in (PIM_SUCCESS, if \<not> had_attr \<or> access_changed then vfile_notify_virtual_fs_changed st else st)
      | _ \<Rightarrow> (PIM_ERR_INVALID_ARG, st))"

definition pim_vsysfs_remove_attr :: "handle option \<Rightarrow> string option \<Rightarrow> vfs \<Rightarrow> pim_error \<times> vfs" where
  "pim_vsysfs_remove_attr vsysfs name st =
     (case (vsysfs, name) of
        (Some h, Some name) \<Rightarrow>
          let v = fs_vsysfs st h
          in if map_of (vs_attrs v) name = None then (PIM_ERR_NOT_FOUND, st)
             else (PIM_SUCCESS, vfile_notify_virtual_fs_changed (set_vsysfs h (vsysfs_bump_attr_revision (drop_attr name v)) st))
      | _ \<Rightarrow> (PIM_ERR_INVALID_ARG, st))"

definition pim_vsysfs_find_attr :: "handle option \<Rightarrow> string option \<Rightarrow> vfs \<Rightarrow> string option" where
  "pim_vsysfs_find_attr vsysfs name st =
     (case (vsysfs, name) of
        (Some h, Some name) \<Rightarrow> map_of (vs_attrs (fs_vsysfs st h)) name
      | _ \<Rightarrow> None)"

section \<open>Devices behind descriptors\<close>

definition attach_linked :: "nat option \<Rightarrow> handle \<Rightarrow> vfs \<Rightarrow> vfs" where
  "attach_linked mapped_dev h st =
     (let v = fs_vsysfs st h; old_dev = vs_attached_device v;
          st = set_vsysfs h (v\<lparr>vs_attached_device := mapped_dev\<rparr>) st;
          st = (case old_dev of
                  None \<Rightarrow> st
                | Some old \<Rightarrow> if old_dev \<noteq> mapped_dev then vsysfs_remove_from_device_map_locked old h st else st)
      in (case mapped_dev of None \<Rightarrow> st | Some dev \<Rightarrow> vsysfs_add_to_device_map_locked dev h st))"

definition vfile_on_vdev_device_mapping_changed :: "((int \<Rightarrow> nat option) \<Rightarrow> int option) \<Rightarrow> handle option \<Rightarrow> vfs \<Rightarrow> vfs" where
  "vfile_on_vdev_device_mapping_changed pick vdev st =
     (case vfile_lookup_vdev_shared vdev st of
        None \<Rightarrow> st
      | Some d \<Rightarrow>
          let linked_instances = filter (\<lambda>h. vs_vdev (fs_vsysfs st h) = Some d) (g_vsysfs_list st)
          in if linked_instances = [] then st
             else fold (attach_linked (vsysfs_pick_mapped_device_from_vdev_locked pick (fs_vdev st d))) linked_instances st)"

definition pim_vdev_get_vsysfs :: "handle option \<Rightarrow> vfs \<Rightarrow> handle option" where
  "pim_vdev_get_vsysfs vdev st =
     (case vfile_lookup_vdev_shared vdev st of
        None \<Rightarrow> None
      | Some d \<Rightarrow> List.find (\<lambda>h. vs_vdev (fs_vsysfs st h) = Some d) (g_vsysfs_list st))"

definition pim_vdev_register_device ::
  "((int \<Rightarrow> nat option) \<Rightarrow> int option) \<Rightarrow> bool \<Rightarrow> handle option \<Rightarrow> int \<Rightarrow> nat option \<Rightarrow> vfs \<Rightarrow> pim_error \<times> vfs" where
  "pim_vdev_register_device pick alloc vdev fd dev st =
     (case (vdev, dev) of
        (Some d, Some dev) \<Rightarrow>
          if fd < 0 then (PIM_ERR_INVALID_ARG, st)
          else if \<not> alloc then (PIM_ERR_NO_MEMORY, st)
          else
            let v = fs_vdev st d
            in (PIM_SUCCESS, vfile_on_vdev_device_mapping_changed pick vdev
                  (set_vdev d (v\<lparr>vd_device_by_fd := (vd_device_by_fd v)(fd \<mapsto> dev)\<rparr>) st))
      | _ \<Rightarrow> (PIM_ERR_INVALID_ARG, st))"

definition pim_vdev_unregister_device ::
  "((int \<Rightarrow> nat option) \<Rightarrow> int option) \<Rightarrow> handle option \<Rightarrow> int \<Rightarrow> vfs \<Rightarrow> pim_error \<times> vfs" where
  "pim_vdev_unregister_device pick vdev fd st =
     (case vdev of
        None \<Rightarrow> (PIM_ERR_INVALID_ARG, st)
      | Some d \<Rightarrow>
          if fd < 0 then (PIM_ERR_INVALID_ARG, st)
          else
            let v = fs_vdev st d
            in if vd_device_by_fd v fd = None then (PIM_ERR_NOT_FOUND, st)
               else (PIM_SUCCESS, vfile_on_vdev_device_mapping_changed pick vdev
                      (set_vdev d (v\<lparr>vd_device_by_fd := (vd_device_by_fd v)(fd := None)\<rparr>) st)))"

definition pim_vdev_find_device :: "handle option \<Rightarrow> int \<Rightarrow> vfs \<Rightarrow> nat option" where
  "pim_vdev_find_device vdev fd st =
     (case vdev of None \<Rightarrow> None | Some d \<Rightarrow> if fd < 0 then None else vd_device_by_fd (fs_vdev st d) fd)"

end
