(* ===== verification/Vcache.thy ===== *)
theory Vcache
  imports Vsysfs
begin

text \<open>
  The snapshot of the virtual namespace and its cache, \<open>src/vfile/vfile_cache.cc\<close>.

  \<open>vfile_build_virtual_fs_snapshot\<close> runs in two critical sections with the construction of a snapshot between
  them: \<open>snapshot_begin\<close> and \<open>snapshot_publish\<close> are the two sections, and the function is their composition
  when no other thread runs in between.
\<close>

section \<open>Building a snapshot\<close>

definition vfile_snapshot_ensure_dir :: "string \<Rightarrow> vfile_virtual_fs_snapshot \<Rightarrow> vfile_virtual_fs_snapshot" where
  "vfile_snapshot_ensure_dir dir_path sn = sn\<lparr>sn_dirs := om_emplace dir_path [] (sn_dirs sn)\<rparr>"

definition children_of :: "string \<Rightarrow> vfile_virtual_fs_snapshot \<Rightarrow> (string \<times> dtype) list" where
  "children_of dir sn = (case map_of (sn_dirs sn) dir of None \<Rightarrow> [] | Some c \<Rightarrow> c)"

definition vfile_snapshot_add_child ::
  "string \<Rightarrow> string \<Rightarrow> dtype \<Rightarrow> vfile_virtual_fs_snapshot \<Rightarrow> vfile_virtual_fs_snapshot" where
  "vfile_snapshot_add_child parent name dtype sn =
     (if name = [] then sn
      else
        let children = children_of parent sn
        in sn\<lparr>sn_dirs := om_insert parent
             (case map_of children name of
                None \<Rightarrow> om_insert name dtype children
              | Some t \<Rightarrow> if t = DT_UNKNOWN then om_insert name dtype children else children) (sn_dirs sn)\<rparr>)"

definition child_path :: "string \<Rightarrow> string \<Rightarrow> string" where
  "child_path current name = (if current = ''/'' then ''/'' @ name else current @ ''/'' @ name)"

text \<open>The loop over the normal path; the argument is what follows \<open>start\<close>.\<close>

function add_path_loop ::
  "dtype \<Rightarrow> string \<Rightarrow> string \<Rightarrow> vfile_virtual_fs_snapshot \<Rightarrow> vfile_virtual_fs_snapshot" where
  "add_path_loop leaf_type current rest sn =
     (if rest = [] then sn
      else
        let name = takeWhile (\<lambda>c. c \<noteq> slash) rest; tail = dropWhile (\<lambda>c. c \<noteq> slash) rest; is_last = (tail = []);
            sn = vfile_snapshot_add_child current name (if is_last then leaf_type else DT_DIR) sn;
            child = child_path current name
        in if is_last then (if leaf_type = DT_DIR then vfile_snapshot_ensure_dir child sn else sn)
           else add_path_loop leaf_type child (tl tail) (vfile_snapshot_ensure_dir child sn))"
  by auto
termination
proof (relation "measure (\<lambda>(leaf, current, rest, sn). length rest)", goal_cases)
  case (2 leaf current rest sn name tail)
  then have "length tail \<le> length rest" "tail \<noteq> []" by (simp_all add: length_dropWhile_le)
  then show ?case by (cases tail) simp_all
qed simp

declare add_path_loop.simps [simp del]

definition vfile_snapshot_add_path ::
  "string \<Rightarrow> dtype \<Rightarrow> vfile_virtual_fs_snapshot \<Rightarrow> vfile_virtual_fs_snapshot" where
  "vfile_snapshot_add_path abs_path leaf_type sn =
     (case vfile_normalize_absolute_path abs_path of
        None \<Rightarrow> sn
      | Some normalized \<Rightarrow>
          if normalized = ''/'' then vfile_snapshot_ensure_dir ''/'' sn
          else add_path_loop leaf_type ''/'' (drop 1 normalized) (vfile_snapshot_ensure_dir ''/'' sn))"

definition builder_init :: vfile_virtual_fs_snapshot where
  "builder_init = vfile_snapshot_ensure_dir ''/''
     \<lparr>sn_dirs = [], sn_vfile_nodes = [], sn_vsysfs_dirs = [], sn_vmodule_dirs = [], sn_attr_bindings = []\<rparr>"

definition add_vdev_node :: "handle \<Rightarrow> string \<Rightarrow> vfile_virtual_fs_snapshot \<Rightarrow> vfile_virtual_fs_snapshot" where
  "add_vdev_node vdev path sn =
     (let sn = vfile_snapshot_add_path path DT_CHR sn in sn\<lparr>sn_vfile_nodes := om_insert path vdev (sn_vfile_nodes sn)\<rparr>)"

definition add_vdev :: "vfs \<Rightarrow> handle \<Rightarrow> vfile_virtual_fs_snapshot \<Rightarrow> vfile_virtual_fs_snapshot" where
  "add_vdev st vdev sn = (let path = vd_path (fs_vdev st vdev) in if path = [] then sn else add_vdev_node vdev path sn)"

definition bind_attr ::
  "attr_owner \<Rightarrow> string \<Rightarrow> string \<Rightarrow> vfile_virtual_fs_snapshot \<Rightarrow> vfile_virtual_fs_snapshot" where
  "bind_attr owner attr_path attr_name sn =
     (let sn = vfile_snapshot_add_path attr_path DT_REG sn
      in sn\<lparr>sn_attr_bindings := om_emplace attr_path (owner, attr_name) (sn_attr_bindings sn)\<rparr>)"

definition bind_attrs_for_dir ::
  "attr_owner \<Rightarrow> string \<Rightarrow> string list \<Rightarrow> vfile_virtual_fs_snapshot \<Rightarrow> vfile_virtual_fs_snapshot" where
  "bind_attrs_for_dir owner dir attrs sn =
     fold (\<lambda>attr_name. bind_attr owner (dir @ ''/'' @ attr_name) attr_name) attrs sn"

text \<open>A sysfs node whose root is gone counts as one with distinct globs.\<close>

definition vsysfs_leaf_type :: "vfs \<Rightarrow> handle \<Rightarrow> string \<Rightarrow> dtype" where
  "vsysfs_leaf_type st vsysfs sample_dir =
     (let v = fs_vsysfs st vsysfs; root = fs_vsysfs_root st (vs_root v);
          root_uses_distinct_globs = (vs_root v \<in> set (g_vsysfs_root_list st) \<longrightarrow> sr_class_glob root \<noteq> sr_devices_glob root)
      in if vs_class_dir v \<noteq> [] \<and> vs_devices_dir v \<noteq> [] \<and> root_uses_distinct_globs \<and> sample_dir = vs_class_dir v \<and>
            vs_class_dir v \<noteq> vs_devices_dir v
         then DT_LNK else DT_DIR)"

definition add_vsysfs_dir ::
  "vfs \<Rightarrow> handle \<Rightarrow> string list \<Rightarrow> string \<Rightarrow> vfile_virtual_fs_snapshot \<Rightarrow> vfile_virtual_fs_snapshot" where
  "add_vsysfs_dir st vsysfs attrs sample_dir sn =
     (let sn = vfile_snapshot_add_path sample_dir (vsysfs_leaf_type st vsysfs sample_dir) sn
      in bind_attrs_for_dir (VSYSFS vsysfs) sample_dir attrs
           (sn\<lparr>sn_vsysfs_dirs := om_insert sample_dir vsysfs (sn_vsysfs_dirs sn)\<rparr>))"

definition vfile_snapshot_prepare_vsysfs_seed :: "pim_vsysfs \<Rightarrow> string list \<times> string list" where
  "vfile_snapshot_prepare_vsysfs_seed v =
     (map fst (vs_attrs v),
      (if vs_class_dir v \<noteq> [] then [vs_class_dir v] else []) @
      (if vs_devices_dir v \<noteq> [] \<and> vs_devices_dir v \<noteq> vs_class_dir v then [vs_devices_dir v] else []))"

definition add_vsysfs :: "vfs \<Rightarrow> handle \<Rightarrow> vfile_virtual_fs_snapshot \<Rightarrow> vfile_virtual_fs_snapshot" where
  "add_vsysfs st vsysfs sn =
     (let (attrs, concrete_dirs) = vfile_snapshot_prepare_vsysfs_seed (fs_vsysfs st vsysfs)
      in fold (add_vsysfs_dir st vsysfs attrs) concrete_dirs sn)"

definition add_bus_driver_dir :: "string \<times> string \<Rightarrow> vfile_virtual_fs_snapshot \<Rightarrow> vfile_virtual_fs_snapshot" where
  "add_bus_driver_dir bd sn =
     (if fst bd = [] \<or> snd bd = [] then sn
      else vfile_snapshot_add_path (''/sys/bus/'' @ fst bd @ ''/drivers/'' @ snd bd) DT_DIR sn)"

definition add_vmodule_dir ::
  "handle \<Rightarrow> string \<Rightarrow> string list \<Rightarrow> vfile_virtual_fs_snapshot \<Rightarrow> vfile_virtual_fs_snapshot" where
  "add_vmodule_dir vmodule dir_path attrs sn =
     (let sn = vfile_snapshot_add_path dir_path DT_DIR sn
      in bind_attrs_for_dir (VMODULE vmodule) dir_path attrs
           (sn\<lparr>sn_vmodule_dirs := om_insert dir_path vmodule (sn_vmodule_dirs sn)\<rparr>))"

definition vfile_snapshot_prepare_vmodule_seed :: "pim_vmodule \<Rightarrow> string list \<times> (string \<times> string) list \<times> string" where
  "vfile_snapshot_prepare_vmodule_seed m = (map fst (vm_attrs m), map fst (vm_registered_drivers m), vm_dir m)"

definition add_vmodule :: "vfs \<Rightarrow> handle \<Rightarrow> vfile_virtual_fs_snapshot \<Rightarrow> vfile_virtual_fs_snapshot" where
  "add_vmodule st vmodule sn =
     (let (attrs, registered_drivers, dir) = vfile_snapshot_prepare_vmodule_seed (fs_vmodule st vmodule)
      in if dir = [] then sn
         else fold add_bus_driver_dir registered_drivers (add_vmodule_dir vmodule dir attrs sn))"

definition vfile_build_virtual_fs_snapshot_uncached :: "vfs \<Rightarrow> vfile_virtual_fs_snapshot" where
  "vfile_build_virtual_fs_snapshot_uncached st =
     fold (add_vmodule st) (vfile_copy_vmodule_list_for_snapshot st)
       (fold (add_vsysfs st) (vfile_copy_vsysfs_list_for_snapshot st)
         (fold (add_vdev st) (vfile_copy_vdev_list_for_snapshot st) builder_init))"

section \<open>The cache\<close>

definition vfile_get_cached_virtual_fs_snapshot_locked :: "u64 \<Rightarrow> vfs \<Rightarrow> vfile_virtual_fs_snapshot option" where
  "vfile_get_cached_virtual_fs_snapshot_locked generation st =
     (if g_virtual_fs_cache_valid st \<and> g_virtual_fs_cached_generation st = generation
      then g_virtual_fs_cached_snapshot st else None)"

definition snapshot_begin :: "vfs \<Rightarrow> u64 \<times> vfile_virtual_fs_snapshot option" where
  "snapshot_begin st =
     (g_virtual_fs_generation st, vfile_get_cached_virtual_fs_snapshot_locked (g_virtual_fs_generation st) st)"

definition snapshot_publish ::
  "u64 \<Rightarrow> vfile_virtual_fs_snapshot \<Rightarrow> vfs \<Rightarrow> vfile_virtual_fs_snapshot \<times> vfs" where
  "snapshot_publish generation snapshot st =
     (if generation = g_virtual_fs_generation st
      then (snapshot, st\<lparr>g_virtual_fs_cached_snapshot := Some snapshot, g_virtual_fs_cached_generation := generation,
                         g_virtual_fs_cache_valid := True\<rparr>)
      else (case vfile_get_cached_virtual_fs_snapshot_locked (g_virtual_fs_generation st) st of
              Some cached \<Rightarrow> (cached, st)
            | None \<Rightarrow> (snapshot, st)))"

definition vfile_build_virtual_fs_snapshot :: "vfs \<Rightarrow> vfile_virtual_fs_snapshot \<times> vfs" where
  "vfile_build_virtual_fs_snapshot st =
     (case snapshot_begin st of
        (generation, Some cached) \<Rightarrow> (cached, st)
      | (generation, None) \<Rightarrow> snapshot_publish generation (vfile_build_virtual_fs_snapshot_uncached st) st)"

definition pim_vfile_clear_registries :: "vfs \<Rightarrow> vfs" where
  "pim_vfile_clear_registries st =
     vfile_notify_virtual_fs_changed (vfile_clear_vdev_state (vfile_clear_vsysfs_state (vfile_clear_vmodule_state st)))"

section \<open>Resolving a path\<close>

datatype vfile_virtual_path_kind = VDEV_NODE | VSYSFS_ATTR | VMODULE_ATTR | VDIR

record vfile_virtual_path_info =
  pi_kind :: vfile_virtual_path_kind
  pi_vdev :: "handle option"
  pi_vsysfs :: "handle option"
  pi_vmodule :: "handle option"
  pi_attr_name :: string
  pi_attr_size :: nat
  pi_attr_access :: int
  pi_path :: string

definition path_info :: "vfile_virtual_path_kind \<Rightarrow> string \<Rightarrow> vfile_virtual_path_info" where
  "path_info kind path =
     \<lparr>pi_kind = kind, pi_vdev = None, pi_vsysfs = None, pi_vmodule = None, pi_attr_name = '''', pi_attr_size = 0,
      pi_attr_access = PIM_ACCESS_MODE_RW, pi_path = path\<rparr>"

definition attr_properties :: "(string \<times> string) list \<Rightarrow> (string \<times> int) list \<Rightarrow> string \<Rightarrow> (nat \<times> int) option" where
  "attr_properties attrs access attr_name = map_option (\<lambda>value. (length value, access_of access attr_name)) (map_of attrs attr_name)"

definition vfile_bind_vsysfs_attr_node :: "vfs \<Rightarrow> string \<Rightarrow> handle \<Rightarrow> string \<Rightarrow> vfile_virtual_path_info option" where
  "vfile_bind_vsysfs_attr_node st path vsysfs attr_name =
     map_option (\<lambda>(attr_size, attr_access).
         (path_info VSYSFS_ATTR path)\<lparr>pi_vsysfs := Some vsysfs, pi_attr_name := attr_name, pi_attr_size := attr_size,
                                       pi_attr_access := attr_access\<rparr>)
       (attr_properties (vs_attrs (fs_vsysfs st vsysfs)) (vs_attr_access (fs_vsysfs st vsysfs)) attr_name)"

definition vfile_bind_vmodule_attr_node :: "vfs \<Rightarrow> string \<Rightarrow> handle \<Rightarrow> string \<Rightarrow> vfile_virtual_path_info option" where
  "vfile_bind_vmodule_attr_node st path vmodule attr_name =
     map_option (\<lambda>(attr_size, attr_access).
         (path_info VMODULE_ATTR path)\<lparr>pi_vmodule := Some vmodule, pi_attr_name := attr_name, pi_attr_size := attr_size,
                                        pi_attr_access := attr_access\<rparr>)
       (attr_properties (vm_attrs (fs_vmodule st vmodule)) (vm_attr_access (fs_vmodule st vmodule)) attr_name)"

definition vfile_try_resolve_attr_node ::
  "vfs \<Rightarrow> string \<Rightarrow> vfile_virtual_fs_snapshot \<Rightarrow> vfile_virtual_path_info option" where
  "vfile_try_resolve_attr_node st path snapshot =
     (case map_of (sn_attr_bindings snapshot) path of
        None \<Rightarrow> None
      | Some (VSYSFS h, attr_name) \<Rightarrow> vfile_bind_vsysfs_attr_node st path h attr_name
      | Some (VMODULE h, attr_name) \<Rightarrow> vfile_bind_vmodule_attr_node st path h attr_name)"

definition vfile_try_resolve_vdev_node :: "string \<Rightarrow> vfile_virtual_fs_snapshot \<Rightarrow> vfile_virtual_path_info option" where
  "vfile_try_resolve_vdev_node path snapshot =
     map_option (\<lambda>h. (path_info VDEV_NODE path)\<lparr>pi_vdev := Some h\<rparr>) (map_of (sn_vfile_nodes snapshot) path)"

definition vfile_try_resolve_non_dir_node ::
  "vfs \<Rightarrow> string \<Rightarrow> vfile_virtual_fs_snapshot \<Rightarrow> vfile_virtual_path_info option" where
  "vfile_try_resolve_non_dir_node st path snapshot =
     (case vfile_try_resolve_attr_node st path snapshot of
        Some node \<Rightarrow> Some node
      | None \<Rightarrow> vfile_try_resolve_vdev_node path snapshot)"

definition vfile_try_resolve_dir_node :: "string \<Rightarrow> vfile_virtual_fs_snapshot \<Rightarrow> vfile_virtual_path_info option" where
  "vfile_try_resolve_dir_node path snapshot =
     (case map_of (sn_dirs snapshot) path of
        None \<Rightarrow> None
      | Some _ \<Rightarrow> Some ((path_info VDIR path)\<lparr>pi_vsysfs := map_of (sn_vsysfs_dirs snapshot) path,
                                              pi_vmodule := map_of (sn_vmodule_dirs snapshot) path\<rparr>))"

text \<open>The node, or the value of \<open>resolve_errno\<close> (\<open>None\<close> for 0: the path is not virtual).\<close>

definition vfile_resolve_virtual_node :: "string \<Rightarrow> vfs \<Rightarrow> (errno option + vfile_virtual_path_info) \<times> vfs" where
  "vfile_resolve_virtual_node abs_path st =
     (let (snapshot, st) = vfile_build_virtual_fs_snapshot st
      in (case vfile_normalize_absolute_path abs_path of
            None \<Rightarrow> (Inl (Some EINVAL), st)
          | Some normalized \<Rightarrow>
              (case vfile_try_resolve_non_dir_node st normalized snapshot of
                 Some node \<Rightarrow> (Inr node, st)
               | None \<Rightarrow> (case vfile_try_resolve_dir_node normalized snapshot of
                            Some node \<Rightarrow> (Inr node, st)
                          | None \<Rightarrow> (Inl None, st)))))"

section \<open>Directory entries\<close>

record vdev_dirent_row =
  dr_name :: string
  dr_dtype :: dtype
  dr_ino :: u64

definition make_row :: "(string \<Rightarrow> u64) \<Rightarrow> string \<Rightarrow> string \<times> dtype \<Rightarrow> vdev_dirent_row" where
  "make_row hash dir e = \<lparr>dr_name = fst e, dr_dtype = snd e, dr_ino = hash (dir @ ''/'' @ fst e)\<rparr>"

text \<open>\<open>hash\<close> is \<open>std::hash\<close> of a string.\<close>

definition vfile_collect_dirents :: "(string \<Rightarrow> u64) \<Rightarrow> string \<Rightarrow> vfs \<Rightarrow> vdev_dirent_row list option \<times> vfs" where
  "vfile_collect_dirents hash abs_dir_path st =
     (case vfile_normalize_absolute_path abs_dir_path of
        None \<Rightarrow> (None, st)
      | Some dir \<Rightarrow>
          let (snapshot, st) = vfile_build_virtual_fs_snapshot st
          in (case map_of (sn_dirs snapshot) dir of
                None \<Rightarrow> (None, st)
              | Some entries \<Rightarrow>
                  (Some (map (make_row hash dir) ([(''.'', DT_DIR), (''..'', DT_DIR)] @ entries)), st)))"

end
