(* ===== verification/Vpath_Props.thy ===== *)
theory Vpath_Props
  imports Vpath
begin

text \<open>
  Normal paths have one spelling for each node, and the matcher for globs returns on every input with the answer
  of the plain recursive definition.
\<close>

section \<open>Normal paths\<close>

text \<open>The components of a path, by splitting at each slash.\<close>

fun split_on :: "string \<Rightarrow> string list" where
  "split_on [] = [[]]"
| "split_on (c # s) = (if c = slash then [] # split_on s else (c # hd (split_on s)) # tl (split_on s))"

definition components :: "string \<Rightarrow> string list" where
  "components s = filter (\<lambda>x. x \<noteq> []) (split_on s)"

definition segment_ok :: "string \<Rightarrow> bool" where
  "segment_ok x \<longleftrightarrow> x \<noteq> [] \<and> slash \<notin> set x \<and> x \<noteq> ''.'' \<and> x \<noteq> ''..''"

lemma split_on_not_empty [simp]: "split_on s \<noteq> []"
  by (cases s) simp_all

lemma split_on_segment: "slash \<notin> set u \<Longrightarrow> split_on (u @ slash # v) = u # split_on v"
  by (induction u) auto

lemma split_on_last: "slash \<notin> set u \<Longrightarrow> split_on u = [u]"
  by (induction u) auto

lemma components_drop: "components (dropWhile (\<lambda>c. c = slash) s) = components s"
  by (induction s) (auto simp: components_def)

lemma components_nil [simp]: "components [] = []"
  by (simp add: components_def)

lemma take_drop_segment:
  "dropWhile (\<lambda>c. c \<noteq> slash) s = [] \<or> dropWhile (\<lambda>c. c \<noteq> slash) s = slash # tl (dropWhile (\<lambda>c. c \<noteq> slash) s)"
  using hd_dropWhile [of "\<lambda>c. c \<noteq> slash" s] by (cases "dropWhile (\<lambda>c. c \<noteq> slash) s") auto

lemma components_first:
  assumes "s \<noteq> []" and "hd s \<noteq> slash"
  shows "components s = takeWhile (\<lambda>c. c \<noteq> slash) s # components (dropWhile (\<lambda>c. c \<noteq> slash) s)"
proof -
  let ?u = "takeWhile (\<lambda>c. c \<noteq> slash) s" and ?v = "dropWhile (\<lambda>c. c \<noteq> slash) s"
  have u: "slash \<notin> set ?u" by (auto dest: set_takeWhileD)
  have ne: "?u \<noteq> []" using assms by (cases s) simp_all
  have s: "s = ?u @ ?v" by simp
  show ?thesis
  proof (cases "?v = []")
    case True
    with s have "s = ?u" by (metis append_Nil2)
    then have "split_on s = [?u]" using split_on_last [OF u] by metis
    then show ?thesis using ne unfolding components_def True by simp
  next
    case False
    then have v: "?v = slash # tl ?v" using take_drop_segment [of s] by blast
    have "split_on s = ?u # split_on (tl ?v)" using split_on_segment [OF u, of "tl ?v"] s v by metis
    moreover have "components ?v = components (tl ?v)" by (subst v) (simp add: components_def)
    ultimately show ?thesis using ne by (simp add: components_def)
  qed
qed

lemma path_loop_components: "path_loop stack s = foldl push_segment stack (components s)"
proof (induction stack s rule: path_loop.induct)
  case (1 stack s)
  let ?x = "dropWhile (\<lambda>c. c = slash) s"
  show ?case
  proof (cases "?x = []")
    case True
    then have "components s = []" using components_drop [of s] by (metis components_nil)
    then show ?thesis using True by (subst path_loop.simps) (simp add: Let_def)
  next
    case False
    then have "hd ?x \<noteq> slash" using hd_dropWhile [of "\<lambda>c. c = slash" s] by simp
    then show ?thesis
      using False 1 [OF refl False] components_first [OF False] components_drop [of s]
      by (subst path_loop.simps) (simp add: Let_def del: dropWhile_eq_Nil_conv)
  qed
qed

lemma components_ok: "x \<in> set (components s) \<Longrightarrow> x \<noteq> [] \<and> slash \<notin> set x"
proof -
  have "slash \<notin> set x" if "x \<in> set (split_on s)" for x
    using that
  proof (induction s arbitrary: x)
    case (Cons c s)
    have "hd (split_on s) \<in> set (split_on s)" by simp
    moreover have "set (tl (split_on s)) \<subseteq> set (split_on s)" by (auto dest: list.set_sel(2) [rotated])
    ultimately have "slash \<notin> set (hd (split_on s))" "\<forall>y \<in> set (tl (split_on s)). slash \<notin> set y" "\<forall>y \<in> set (split_on s). slash \<notin> set y"
      using Cons.IH by blast+
    with Cons show ?case by (auto split: if_splits)
  qed simp
  then show "x \<in> set (components s) \<Longrightarrow> x \<noteq> [] \<and> slash \<notin> set x" by (auto simp: components_def)
qed

lemma push_segment_ok:
  "\<forall>x \<in> set stack. segment_ok x \<Longrightarrow> x \<noteq> [] \<and> slash \<notin> set x \<Longrightarrow> \<forall>y \<in> set (push_segment stack x). segment_ok y"
  by (auto simp: push_segment_def segment_ok_def dest: in_set_butlastD)

lemma push_segments_ok:
  assumes "\<forall>x \<in> set stack. segment_ok x" and "\<forall>x \<in> set xs. x \<noteq> [] \<and> slash \<notin> set x"
  shows "\<forall>x \<in> set (foldl push_segment stack xs). segment_ok x"
  using assms
proof (induction xs arbitrary: stack)
  case (Cons x xs)
  have "\<forall>y \<in> set (push_segment stack x). segment_ok y" using Cons.prems by (intro push_segment_ok) simp_all
  then show ?case using Cons.IH Cons.prems(2) by simp
qed simp

lemma components_join:
  assumes "\<forall>x \<in> set xs. segment_ok x"
  shows "components (join_segments xs) = xs"
  using assms
proof (induction xs rule: join_segments.induct)
  case (3 x y xs)
  then have "slash \<notin> set x" "x \<noteq> []" by (auto simp: segment_ok_def)
  with 3 show ?case by (simp add: components_def split_on_segment)
qed (auto simp: components_def split_on_last segment_ok_def)

lemma push_segments_id:
  assumes "\<forall>x \<in> set xs. segment_ok x"
  shows "foldl push_segment stack xs = stack @ xs"
  using assms by (induction xs arbitrary: stack) (auto simp: push_segment_def segment_ok_def)

definition resolved :: "string \<Rightarrow> string list" where
  "resolved s = foldl push_segment [] (components s)"

lemma resolved_ok: "\<forall>x \<in> set (resolved s). segment_ok x"
  unfolding resolved_def by (rule push_segments_ok) (auto dest: components_ok)

lemma normalize_path:
  "vfile_normalize_absolute_path s = (if s \<noteq> [] \<and> hd s = slash then Some (slash # join_segments (resolved s)) else None)"
  by (simp add: vfile_normalize_absolute_path_def path_loop_components resolved_def)

lemma resolved_normal: "\<forall>x \<in> set xs. segment_ok x \<Longrightarrow> resolved (slash # join_segments xs) = xs"
proof -
  assume xs: "\<forall>x \<in> set xs. segment_ok x"
  have "components (slash # join_segments xs) = components (join_segments xs)" by (simp add: components_def)
  then show ?thesis using components_join [OF xs] push_segments_id [OF xs, of "[]"] by (simp add: resolved_def)
qed

lemma normalize_idempotent:
  "vfile_normalize_absolute_path s = Some p \<Longrightarrow> vfile_normalize_absolute_path p = Some p"
  using resolved_normal [OF resolved_ok] by (auto simp: normalize_path split: if_splits)

section \<open>Globs\<close>

fun glob :: "string \<Rightarrow> string \<Rightarrow> bool" where
  "glob [] s = (s = [])"
| "glob (c # p) s =
     (if c = star then (\<exists>k \<le> length s. glob p (drop k s))
      else s \<noteq> [] \<and> (c = quest \<or> c = hd s) \<and> glob p (tl s))"

lemma glob_star: "glob (star # p) s \<longleftrightarrow> (\<exists>k \<le> length s. glob p (drop k s))"
  by simp

declare glob.simps [simp del]
lemmas glob_simps = glob.simps(1) glob.simps(2)

lemma glob_star_drop: "glob (star # p) (drop k s) \<Longrightarrow> glob (star # p) s"
proof -
  assume "glob (star # p) (drop k s)"
  then obtain j where j: "j \<le> length (drop k s)" "glob p (drop j (drop k s))" by (auto simp: glob_simps)
  show ?thesis
  proof (cases "k \<le> length s")
    case True
    then show ?thesis using j by (intro glob_star [THEN iffD2] exI [of _ "j + k"]) auto
  next
    case False
    then show ?thesis using j by (intro glob_star [THEN iffD2] exI [of _ "length s"]) auto
  qed
qed

lemma glob_stars: "glob (star # p) s \<longleftrightarrow> glob (star # dropWhile (\<lambda>c. c = star) p) s"
proof (induction p)
  case (Cons c p)
  show ?case
  proof (cases "c = star")
    case True
    have "glob (star # star # p) s \<longleftrightarrow> glob (star # p) s"
    proof
      assume "glob (star # star # p) s"
      then obtain k where "glob (star # p) (drop k s)" by (auto simp: glob_simps(2) [of _ "star # p"])
      then show "glob (star # p) s" by (rule glob_star_drop)
    next
      assume "glob (star # p) s"
      then show "glob (star # star # p) s" by (subst glob_star) (auto intro: exI [of _ 0])
    qed
    with Cons True show ?thesis by simp
  qed simp
qed simp

text \<open>A prefix of the pattern without stars consumes as many characters as it has.\<close>

lemma glob_append:
  assumes "star \<notin> set u"
  shows "glob (u @ p) s \<longleftrightarrow> length u \<le> length s \<and> glob u (take (length u) s) \<and> glob p (drop (length u) s)"
  using assms
proof (induction u arbitrary: s)
  case (Cons c u)
  then show ?case by (cases s) (auto simp: glob_simps)
qed (simp add: glob_simps)

text \<open>The state of the loop stands for a match of the rest or of a later position after the last star.\<close>

definition back_ok :: "string \<Rightarrow> string \<Rightarrow> (string \<times> string) option \<Rightarrow> bool" where
  "back_ok p s bt \<longleftrightarrow> (case bt of None \<Rightarrow> True | Some (sp, ss) \<Rightarrow>
     sp \<noteq> [] \<and> hd sp \<noteq> star \<and> (\<exists>u v. sp = u @ p \<and> ss = v @ s \<and> length u = length v \<and> star \<notin> set u \<and> glob u v))"

definition later :: "(string \<times> string) option \<Rightarrow> bool" where
  "later bt \<longleftrightarrow> (case bt of None \<Rightarrow> False | Some (sp, ss) \<Rightarrow> \<exists>k. 1 \<le> k \<and> k \<le> length ss \<and> glob sp (drop k ss))"

definition glob_measure :: "string \<Rightarrow> string \<Rightarrow> (string \<times> string) option \<Rightarrow> nat \<times> nat \<times> nat" where
  "glob_measure p s bt =
     (case bt of None \<Rightarrow> (Suc (length p), length s, length s) | Some (sp, ss) \<Rightarrow> (length sp, length ss, length s))"

lemma glob_empty: "glob p [] \<longleftrightarrow> dropWhile (\<lambda>c. c = star) p = []"
  by (induction p) (auto simp: glob_simps)

lemma glob_only_stars: "dropWhile (\<lambda>c. c = star) p = [] \<Longrightarrow> glob (star # p) s"
  using glob_stars [of p s] glob_star [of "[]" s] by (auto simp: glob_simps(1) simp del: dropWhile_eq_Nil_conv)

lemma back_ok_start: "sp \<noteq> [] \<Longrightarrow> hd sp \<noteq> star \<Longrightarrow> back_ok sp ss (Some (sp, ss))"
  by (auto simp: back_ok_def glob_simps)

lemma later_start: "glob sp ss \<or> later (Some (sp, ss)) \<longleftrightarrow> glob (star # sp) ss"
proof
  assume "glob sp ss \<or> later (Some (sp, ss))"
  then show "glob (star # sp) ss" by (auto simp: glob_star later_def intro: exI [of _ 0])
next
  assume "glob (star # sp) ss"
  then obtain k where "k \<le> length ss" "glob sp (drop k ss)" by (auto simp: glob_star)
  then show "glob sp ss \<or> later (Some (sp, ss))" by (cases k) (auto simp: later_def intro!: exI [of _ k])
qed

lemma later_tail: "ss \<noteq> [] \<Longrightarrow> later (Some (sp, ss)) \<longleftrightarrow> glob (star # sp) (tl ss)"
proof
  assume "ss \<noteq> []" "later (Some (sp, ss))"
  then obtain k where "k < length ss" "glob sp (drop k (tl ss))"
    by (auto simp: later_def Suc_le_eq dest!: gr0_implies_Suc simp: drop_Suc)
  then have "k \<le> length (tl ss)" "glob sp (drop k (tl ss))" by simp_all
  then show "glob (star # sp) (tl ss)" by (auto simp: glob_star)
next
  assume "ss \<noteq> []" "glob (star # sp) (tl ss)"
  then obtain k where "k \<le> length ss - 1" "glob sp (drop (Suc k) ss)" by (auto simp: glob_star drop_Suc)
  moreover from this \<open>ss \<noteq> []\<close> have "Suc k \<le> length ss" by (cases ss) simp_all
  ultimately show "later (Some (sp, ss))" by (auto simp: later_def intro!: exI [of _ "Suc k"])
qed

text \<open>An older alternative can only match where the rest of the pattern matches later in the string.\<close>

lemma later_shift:
  assumes "back_ok p s bt" and "later bt"
  obtains k where "1 \<le> k" "k \<le> length s" "glob p (drop k s)"
proof -
  obtain sp ss u v where b: "bt = Some (sp, ss)" and e: "sp = u @ p" "ss = v @ s" "length u = length v" "star \<notin> set u"
    using assms by (auto simp: back_ok_def later_def split: option.splits)
  from assms(2) obtain k where k: "1 \<le> k" "k \<le> length ss" "glob sp (drop k ss)" by (auto simp: b later_def)
  from k(3) have "length u \<le> length (drop k ss)" "glob p (drop (length u) (drop k ss))"
    unfolding e(1) glob_append [OF e(4)] by simp_all
  moreover have "drop (length u) (drop k ss) = drop k s" using e by (simp only: drop_drop) (simp add: add.commute)
  ultimately have "k \<le> length s" "glob p (drop k s)" using e k by simp_all
  with k(1) show thesis by (rule that)
qed

lemma back_ok_advance:
  assumes "back_ok p s bt" and "p \<noteq> []" and "s \<noteq> []" and "hd p \<noteq> star" and "hd p = quest \<or> hd p = hd s"
  shows "back_ok (tl p) (tl s) bt"
proof (cases bt)
  case (Some b)
  obtain sp ss where b: "b = (sp, ss)" by (cases b)
  from assms(1) obtain u v where e: "sp \<noteq> []" "hd sp \<noteq> star" "sp = u @ p" "ss = v @ s" "length u = length v" "star \<notin> set u" "glob u v"
    by (auto simp: back_ok_def Some b)
  have "glob (u @ [hd p]) (v @ [hd s])" using assms e by (auto simp: glob_append glob_simps)
  moreover have "sp = (u @ [hd p]) @ tl p" "ss = (v @ [hd s]) @ tl s" using e assms by simp_all
  moreover have "length (u @ [hd p]) = length (v @ [hd s])" "star \<notin> set (u @ [hd p])" using e assms(4) by simp_all
  ultimately show ?thesis using e(1,2) unfolding back_ok_def Some b option.case prod.case by blast
qed (simp add: back_ok_def)

lemma glob_loop_total:
  "back_ok p s bt \<Longrightarrow> glob_loop p s bt = Some (glob p s \<or> later bt)"
proof (induction "glob_measure p s bt" arbitrary: p s bt rule: wf_induct [OF wf_lex_prod [OF wf_less_than wf_lex_prod [OF wf_less_than wf_less_than]]])
  case 1
  let ?R = "less_than <*lex*> less_than <*lex*> less_than"
  have IH: "glob_loop p' s' bt' = Some (glob p' s' \<or> later bt')"
    if "(glob_measure p' s' bt', glob_measure p s bt) \<in> ?R" "back_ok p' s' bt'" for p' s' bt'
    using 1(1) that by blast
  note ok = 1(2)
  let ?q = "dropWhile (\<lambda>c. c = star) p"
  consider (finished) "s = []"
    | (star) "s \<noteq> []" "p \<noteq> []" "hd p = star"
    | (advance) "s \<noteq> []" "p \<noteq> []" "hd p \<noteq> star" "hd p = quest \<or> hd p = hd s"
    | (fail) "s \<noteq> []" "p = [] \<or> hd p \<noteq> star \<and> hd p \<noteq> quest \<and> hd p \<noteq> hd s" by blast
  then show ?case
  proof cases
    case finished
    have "\<not> later bt" using later_shift [OF ok] finished by fastforce
    then show ?thesis using finished by (subst glob_loop.simps) (simp add: glob_empty)
  next
    case star
    obtain r where p: "p = CHR ''*'' # r" using star by (cases p) simp_all
    have eq: "glob p s \<or> later bt \<longleftrightarrow> glob (CHR ''*'' # ?q) s"
      using later_shift [OF ok] glob_star_drop [of r _ s] glob_stars [of r s] unfolding p by fastforce
    show ?thesis
    proof (cases "?q = []")
      case True
      then show ?thesis unfolding eq using star glob_only_stars [of "?q" s] by (subst glob_loop.simps) (simp add: Let_def)
    next
      case False
      have "hd ?q \<noteq> CHR ''*''" using hd_dropWhile [OF False] .
      moreover have "(glob_measure ?q s (Some (?q, s)), glob_measure p s bt) \<in> ?R"
        using ok length_dropWhile_le [of "\<lambda>c. c = CHR ''*''" r]
        by (auto simp: glob_measure_def back_ok_def p split: option.splits)
      ultimately show ?thesis
        using IH [OF _ back_ok_start [OF False]] later_start [of ?q s] star False unfolding eq
        by (subst glob_loop.simps) (simp add: Let_def del: dropWhile_eq_Nil_conv)
    qed
  next
    case advance
    have "(glob_measure (tl p) (tl s) bt, glob_measure p s bt) \<in> ?R"
      using advance by (auto simp: glob_measure_def split: option.splits)
    then have "glob_loop (tl p) (tl s) bt = Some (glob (tl p) (tl s) \<or> later bt)"
      using IH back_ok_advance [OF ok] advance by blast
    moreover have "glob p s = glob (tl p) (tl s)" using advance by (cases p) (auto simp: glob_simps)
    ultimately show ?thesis using advance by (subst glob_loop.simps) simp
  next
    case fail
    have no: "\<not> glob p s" using fail by (cases p) (auto simp: glob_simps)
    show ?thesis
    proof (cases bt)
      case None
      then show ?thesis using fail no by (subst glob_loop.simps) (auto simp: later_def)
    next
      case (Some b)
      obtain sp ss where b: "b = (sp, ss)" by (cases b)
      have sp: "sp \<noteq> []" "hd sp \<noteq> CHR ''*''" "ss \<noteq> []" using ok fail by (auto simp: back_ok_def Some b)
      have "(glob_measure sp (tl ss) (Some (sp, tl ss)), glob_measure p s bt) \<in> ?R"
        using sp by (simp add: glob_measure_def Some b)
      then have "glob_loop sp (tl ss) (Some (sp, tl ss)) = Some (glob (CHR ''*'' # sp) (tl ss))"
        using IH [OF _ back_ok_start [OF sp(1,2)]] later_start [of sp "tl ss"] by simp
      moreover have "glob (CHR ''*'' # sp) (tl ss) \<longleftrightarrow> later bt"
        using sp(3) later_tail [of ss sp] by (simp add: Some b)
      ultimately show ?thesis using fail no by (subst glob_loop.simps) (auto simp: Some b)
    qed
  qed
qed

lemma glob_match_total: "vdev_glob_match p s = Some (glob p s)"
  using glob_loop_total [of p s None] by (simp add: vdev_glob_match_def back_ok_def later_def)

end
