(* ===== verification/Vfs_Props.thy ===== *)
theory Vfs_Props
  imports Vcache Vpath_Props
begin

text \<open>
  The invariants of the registries and of the cache of snapshots: handles are fresh, tables are ordered and have an
  access mode for each attribute, and a snapshot that the cache would hand out is the one that building it afresh
  gives; and the lemmas on the parts of the operations that the proofs over all of them use.
\<close>

section \<open>What a snapshot shows\<close>

definition link_shown :: "vfs \<Rightarrow> handle \<Rightarrow> bool" where
  "link_shown st h \<longleftrightarrow>
     (vs_root (fs_vsysfs st h) \<in> set (g_vsysfs_root_list st) \<longrightarrow>
      sr_class_glob (fs_vsysfs_root st (vs_root (fs_vsysfs st h))) \<noteq> sr_devices_glob (fs_vsysfs_root st (vs_root (fs_vsysfs st h))))"

definition vsysfs_view :: "vfs \<Rightarrow> handle \<Rightarrow> string \<times> string \<times> string list \<times> bool" where
  "vsysfs_view st h =
     (vs_class_dir (fs_vsysfs st h), vs_devices_dir (fs_vsysfs st h), map fst (vs_attrs (fs_vsysfs st h)), link_shown st h)"

definition vmodule_view :: "vfs \<Rightarrow> handle \<Rightarrow> string \<times> string list \<times> (string \<times> string) list" where
  "vmodule_view st h =
     (vm_dir (fs_vmodule st h), map fst (vm_attrs (fs_vmodule st h)), map fst (vm_registered_drivers (fs_vmodule st h)))"

definition same_view :: "vfs \<Rightarrow> vfs \<Rightarrow> bool" where
  "same_view st st' \<longleftrightarrow>
     g_vdev_list st' = g_vdev_list st \<and> g_vsysfs_list st' = g_vsysfs_list st \<and> g_vmodule_list st' = g_vmodule_list st \<and>
     (\<forall>h \<in> set (g_vdev_list st). vd_path (fs_vdev st' h) = vd_path (fs_vdev st h)) \<and>
     (\<forall>h \<in> set (g_vsysfs_list st). vsysfs_view st' h = vsysfs_view st h) \<and>
     (\<forall>h \<in> set (g_vmodule_list st). vmodule_view st' h = vmodule_view st h)"

definition same_cache :: "vfs \<Rightarrow> vfs \<Rightarrow> bool" where
  "same_cache st st' \<longleftrightarrow>
     g_virtual_fs_generation st' = g_virtual_fs_generation st \<and>
     g_virtual_fs_cached_generation st' = g_virtual_fs_cached_generation st \<and>
     g_virtual_fs_cache_valid st' = g_virtual_fs_cache_valid st \<and>
     g_virtual_fs_cached_snapshot st' = g_virtual_fs_cached_snapshot st"

lemma add_vsysfs_view: "vsysfs_view st' h = vsysfs_view st h \<Longrightarrow> add_vsysfs st' h = add_vsysfs st h"
proof -
  assume v: "vsysfs_view st' h = vsysfs_view st h"
  have "vsysfs_leaf_type st' h = vsysfs_leaf_type st h"
    using v by (intro ext) (simp add: vsysfs_leaf_type_def vsysfs_view_def link_shown_def Let_def)
  then have "add_vsysfs_dir st' h = add_vsysfs_dir st h" by (intro ext) (simp add: add_vsysfs_dir_def)
  then show ?thesis
    using v by (intro ext) (simp add: add_vsysfs_def vfile_snapshot_prepare_vsysfs_seed_def vsysfs_view_def)
qed

lemma add_vmodule_view: "vmodule_view st' h = vmodule_view st h \<Longrightarrow> add_vmodule st' h = add_vmodule st h"
  by (intro ext) (simp add: add_vmodule_def vfile_snapshot_prepare_vmodule_seed_def vmodule_view_def)

lemma snapshot_same_view:
  assumes "same_view st st'"
  shows "vfile_build_virtual_fs_snapshot_uncached st' = vfile_build_virtual_fs_snapshot_uncached st"
proof -
  have "fold (add_vdev st') (g_vdev_list st) = fold (add_vdev st) (g_vdev_list st)"
    using assms by (intro fold_cong ext) (simp_all add: same_view_def add_vdev_def)
  moreover have "fold (add_vsysfs st') (g_vsysfs_list st) = fold (add_vsysfs st) (g_vsysfs_list st)"
    by (intro ext, rule fold_cong [OF refl refl], rule add_vsysfs_view) (use assms in \<open>simp add: same_view_def\<close>)
  moreover have "fold (add_vmodule st') (g_vmodule_list st) = fold (add_vmodule st) (g_vmodule_list st)"
    by (intro ext, rule fold_cong [OF refl refl], rule add_vmodule_view) (use assms in \<open>simp add: same_view_def\<close>)
  ultimately show ?thesis
    using assms
    by (simp add: vfile_build_virtual_fs_snapshot_uncached_def vfile_copy_vmodule_list_for_snapshot_def
        vfile_copy_vsysfs_list_for_snapshot_def vfile_copy_vdev_list_for_snapshot_def same_view_def)
qed

section \<open>Coherence of the cache\<close>

definition coherent :: "vfs \<Rightarrow> bool" where
  "coherent st \<longleftrightarrow> g_virtual_fs_generation st \<noteq> 0 \<and>
     (\<forall>sn. vfile_get_cached_virtual_fs_snapshot_locked (g_virtual_fs_generation st) st = Some sn \<longrightarrow>
           sn = vfile_build_virtual_fs_snapshot_uncached st)"

lemma coherent_notify [simp, intro]: "coherent (vfile_notify_virtual_fs_changed st)"
  by (simp add: coherent_def vfile_get_cached_virtual_fs_snapshot_locked_def vfile_notify_virtual_fs_changed_def Let_def)

lemma coherent_same: "coherent st \<Longrightarrow> same_view st st' \<Longrightarrow> same_cache st st' \<Longrightarrow> coherent st'"
  using snapshot_same_view [of st st']
  by (simp add: coherent_def vfile_get_cached_virtual_fs_snapshot_locked_def same_cache_def)

lemma same_view_refl [simp, intro]: "same_view st st"
  by (simp add: same_view_def)

lemma same_cache_refl [simp, intro]: "same_cache st st"
  by (simp add: same_cache_def)

lemma build_coherent:
  assumes "coherent st" and "vfile_build_virtual_fs_snapshot st = (sn, st')"
  shows "sn = vfile_build_virtual_fs_snapshot_uncached st \<and> coherent st' \<and> same_view st st'"
proof (cases "vfile_get_cached_virtual_fs_snapshot_locked (g_virtual_fs_generation st) st")
  case None
  then have e: "sn = vfile_build_virtual_fs_snapshot_uncached st"
    "st' = st\<lparr>g_virtual_fs_cached_snapshot := Some sn, g_virtual_fs_cached_generation := g_virtual_fs_generation st,
              g_virtual_fs_cache_valid := True\<rparr>"
    using assms(2) by (auto simp: vfile_build_virtual_fs_snapshot_def snapshot_begin_def snapshot_publish_def)
  have v: "same_view st st'" by (simp add: e same_view_def vsysfs_view_def vmodule_view_def link_shown_def)
  then have "coherent st'"
    using snapshot_same_view [OF v] e assms(1)
    by (simp add: coherent_def vfile_get_cached_virtual_fs_snapshot_locked_def)
  with e v show ?thesis by simp
next
  case (Some c)
  then show ?thesis
    using assms by (auto simp: vfile_build_virtual_fs_snapshot_def snapshot_begin_def coherent_def)
qed

section \<open>Well-formed registries\<close>

definition attrs_ok :: "(string \<times> string) list \<Rightarrow> (string \<times> int) list \<Rightarrow> bool" where
  "attrs_ok attrs access \<longleftrightarrow> om_ok attrs \<and> om_ok access \<and> dom (map_of attrs) = dom (map_of access)"

definition vsysfs_ok :: "pim_vsysfs \<Rightarrow> bool" where
  "vsysfs_ok v \<longleftrightarrow> attrs_ok (vs_attrs v) (vs_attr_access v)"

definition vsysfs_root_ok :: "pim_vsysfs_root \<Rightarrow> bool" where
  "vsysfs_root_ok r \<longleftrightarrow> attrs_ok (sr_default_attrs r) (sr_default_attr_access r)"

definition vmodule_ok :: "pim_vmodule \<Rightarrow> bool" where
  "vmodule_ok m \<longleftrightarrow> attrs_ok (vm_attrs m) (vm_attr_access m) \<and> om_ok (vm_registered_drivers m)"

definition stores_ok :: "vfs \<Rightarrow> bool" where
  "stores_ok st \<longleftrightarrow> (\<forall>h. vsysfs_ok (fs_vsysfs st h)) \<and> (\<forall>h. vsysfs_root_ok (fs_vsysfs_root st h)) \<and> (\<forall>h. vmodule_ok (fs_vmodule st h))"

definition handles_ok :: "vfs \<Rightarrow> bool" where
  "handles_ok st \<longleftrightarrow>
     (\<forall>h \<in> set (g_vdev_list st) \<union> set (g_vsysfs_list st) \<union> set (g_vmodule_list st) \<union> set (g_vdev_root_list st) \<union>
           set (g_vsysfs_root_list st) \<union> vs_root ` fs_vsysfs st ` set (g_vsysfs_list st). h < fs_next st)"

lemma attrs_ok_insert [simp]: "attrs_ok m a \<Longrightarrow> attrs_ok (om_insert k v m) (om_insert k x a)"
  by (auto simp: attrs_ok_def)

lemma attrs_ok_erase [simp]: "attrs_ok m a \<Longrightarrow> attrs_ok (om_erase k m) (om_erase k a)"
  by (auto simp: attrs_ok_def)

lemma attrs_ok_emplace: "attrs_ok m a \<Longrightarrow> attrs_ok (om_emplace k v m) (om_emplace k x a)"
  by (auto simp: attrs_ok_def om_emplace_def)

lemma attrs_ok_Nil [simp]: "attrs_ok [] []"
  by (simp add: attrs_ok_def)

lemma om_names_insert: "om_ok m \<Longrightarrow> k \<in> fst ` set m \<Longrightarrow> map fst (om_insert k v m) = map fst m"
proof (induction m)
  case (Cons p m)
  have "\<not> k < fst p" if "k \<in> fst ` set m" using Cons.prems(1) that by (auto dest: less_asym)
  then show ?case using Cons by auto
qed simp

lemma om_names_emplace: "map_of m k \<noteq> None \<Longrightarrow> om_emplace k v m = m"
  by (auto simp: om_emplace_def)

lemma fold_preserves: "P s \<Longrightarrow> (\<And>x s. x \<in> set xs \<Longrightarrow> P s \<Longrightarrow> P (f x s)) \<Longrightarrow> P (fold f xs s)"
  by (induction xs arbitrary: s) auto

section \<open>The tables stay in order\<close>

named_theorems store_simps

lemma stores_ok_simps [store_simps]:
  "stores_ok (vfile_notify_virtual_fs_changed st) = stores_ok st"
  "stores_ok (set_vdev h d st) = stores_ok st"
  "stores_ok (set_vdev_root h r st) = stores_ok st"
  "stores_ok (st\<lparr>fs_next := n\<rparr>) = stores_ok st"
  "stores_ok (st\<lparr>g_vdev_list := l\<rparr>) = stores_ok st"
  "stores_ok (st\<lparr>g_vdev_root_list := l\<rparr>) = stores_ok st"
  "stores_ok (st\<lparr>g_vsysfs_list := l\<rparr>) = stores_ok st"
  "stores_ok (st\<lparr>g_vsysfs_root_list := l\<rparr>) = stores_ok st"
  "stores_ok (st\<lparr>g_vmodule_list := l\<rparr>) = stores_ok st"
  "stores_ok (st\<lparr>g_device_vsysfs_map := m\<rparr>) = stores_ok st"
  "stores_ok (st\<lparr>g_vdev_acquire_map := a\<rparr>) = stores_ok st"
  by (simp_all add: stores_ok_def vfile_notify_virtual_fs_changed_def Let_def set_vdev_def set_vdev_root_def)

lemma stores_ok_set:
  "stores_ok st \<Longrightarrow> vsysfs_ok v \<Longrightarrow> stores_ok (set_vsysfs h v st)"
  "stores_ok st \<Longrightarrow> vsysfs_root_ok r \<Longrightarrow> stores_ok (set_vsysfs_root h r st)"
  "stores_ok st \<Longrightarrow> vmodule_ok m \<Longrightarrow> stores_ok (set_vmodule h m st)"
  by (simp_all add: stores_ok_def set_vsysfs_def set_vsysfs_root_def set_vmodule_def)

lemma stores_okD: "stores_ok st \<Longrightarrow> vsysfs_ok (fs_vsysfs st h)" "stores_ok st \<Longrightarrow> vsysfs_root_ok (fs_vsysfs_root st h)"
  "stores_ok st \<Longrightarrow> vmodule_ok (fs_vmodule st h)"
  by (simp_all add: stores_ok_def)

lemma vsysfs_ok_steps [simp]:
  "vsysfs_ok v \<Longrightarrow> vsysfs_ok (put_attr name value access v)"
  "vsysfs_ok v \<Longrightarrow> vsysfs_ok (drop_attr name v)"
  "vsysfs_ok (vsysfs_bump_attr_revision v) = vsysfs_ok v"
  "vsysfs_ok v \<Longrightarrow> vsysfs_ok (ensure_attr name value access v)"
  "vsysfs_ok (v\<lparr>vs_attached_device := d\<rparr>) = vsysfs_ok v"
  by (simp_all add: vsysfs_ok_def put_attr_def drop_attr_def vsysfs_bump_attr_revision_def ensure_attr_def om_emplace_def)

lemma vsysfs_ok_upsert: "vsysfs_ok (fst acc) \<Longrightarrow> vsysfs_ok (fst (upsert_attr name value acc))"
  by (auto simp: upsert_attr_def vsysfs_ok_def attrs_ok_def Let_def om_emplace_def split: if_splits)

lemma vsysfs_ok_upsert_dirs: "vsysfs_ok (fst (upsert_dirs c d v)) = vsysfs_ok v"
  by (simp add: upsert_dirs_def vsysfs_ok_def Let_def)

lemma vsysfs_ok_new_parent: "vsysfs_ok (new_parent_node r i c p s u)"
  by (simp add: new_parent_node_def vsysfs_ok_def attrs_ok_emplace del: om_find_emplace)

lemma fill_access_ok:
  "om_ok access \<Longrightarrow> om_ok (fill_access attrs access) \<and>
     dom (map_of (fill_access attrs access)) = dom (map_of access) \<union> fst ` set attrs"
proof (induction attrs arbitrary: access)
  case (Cons kv attrs)
  let ?a = "if map_of access (fst kv) = None then om_insert (fst kv) PIM_ACCESS_MODE_RW access else access"
  have "om_ok ?a" "dom (map_of ?a) = insert (fst kv) (dom (map_of access))" using Cons.prems by auto
  moreover have "fill_access (kv # attrs) access = fill_access attrs ?a" by (simp add: fill_access_def)
  ultimately show ?case using Cons.IH [of ?a] by simp
qed (simp add: fill_access_def)

lemma vsysfs_ok_derived: "vsysfs_root_ok r \<Longrightarrow> vsysfs_ok (derived_attrs r cls ma mi v)"
proof -
  assume r: "vsysfs_root_ok r"
  then have "dom (map_of (sr_default_attr_access r)) = fst ` set (sr_default_attrs r)"
    by (simp add: vsysfs_root_ok_def attrs_ok_def dom_map_of_conv_image_fst)
  then have "attrs_ok (sr_default_attrs r) (fill_access (sr_default_attrs r) (sr_default_attr_access r))"
    using r fill_access_ok [of "sr_default_attr_access r" "sr_default_attrs r"]
    by (simp add: vsysfs_root_ok_def attrs_ok_def dom_map_of_conv_image_fst)
  then have "vsysfs_ok (v\<lparr>vs_attrs := sr_default_attrs r, vs_attr_access := fill_access (sr_default_attrs r) (sr_default_attr_access r)\<rparr>)"
    by (simp add: vsysfs_ok_def)
  then show ?thesis by (simp add: derived_attrs_def Let_def)
qed

lemma build_stores: "fs_vsysfs (snd (vfile_build_virtual_fs_snapshot st)) = fs_vsysfs st"
  "fs_vsysfs_root (snd (vfile_build_virtual_fs_snapshot st)) = fs_vsysfs_root st"
  "fs_vmodule (snd (vfile_build_virtual_fs_snapshot st)) = fs_vmodule st"
  "fs_vdev (snd (vfile_build_virtual_fs_snapshot st)) = fs_vdev st"
  "fs_next (snd (vfile_build_virtual_fs_snapshot st)) = fs_next st"
  "g_vsysfs_root_list (snd (vfile_build_virtual_fs_snapshot st)) = g_vsysfs_root_list st"
  "g_vdev_root_list (snd (vfile_build_virtual_fs_snapshot st)) = g_vdev_root_list st"
  by (simp_all add: vfile_build_virtual_fs_snapshot_def snapshot_begin_def snapshot_publish_def split: option.split)

lemma queries_state:
  "snd (vfile_resolve_virtual_node p st) = snd (vfile_build_virtual_fs_snapshot st)"
  "snd (vfile_collect_dirents hash p st) =
     (if vfile_normalize_absolute_path p = None then st else snd (vfile_build_virtual_fs_snapshot st))"
  by (auto simp: vfile_resolve_virtual_node_def vfile_collect_dirents_def split: prod.split option.split)

lemma stores_ok_build: "stores_ok (snd (vfile_build_virtual_fs_snapshot st)) = stores_ok st"
  by (simp add: stores_ok_def build_stores)

lemma stores_ok_callback: "stores_ok st \<Longrightarrow> stores_ok (vdev_set_root_callback a r f g st)"
  by (auto simp: vdev_set_root_callback_def Let_def store_simps split: option.split intro!: fold_preserves [of stores_ok])

lemma stores_ok_attach: "stores_ok st \<Longrightarrow> stores_ok (attach_linked d h st)"
  by (auto simp: attach_linked_def Let_def vsysfs_remove_from_device_map_locked_def vsysfs_add_to_device_map_locked_def store_simps
      split: option.split intro!: stores_ok_set intro: stores_okD)

lemma stores_ok_mapping: "stores_ok st \<Longrightarrow> stores_ok (vfile_on_vdev_device_mapping_changed pick d st)"
  by (auto simp: vfile_on_vdev_device_mapping_changed_def Let_def split: option.split intro!: fold_preserves [of stores_ok] stores_ok_attach)

lemma stores_ok_parent: "stores_ok st \<Longrightarrow> stores_ok (snd (vsysfs_ensure_parent_device_node a r p i st))"
  by (auto simp: vsysfs_ensure_parent_device_node_def vsysfs_upsert_parent_device_attrs_locked_def Let_def store_simps
      vsysfs_ok_new_parent vsysfs_ok_upsert vsysfs_ok_upsert_dirs stores_okD split: option.split intro!: stores_ok_set)

lemma stores_ok_auto_attach: "stores_ok st \<Longrightarrow> stores_ok (auto_attach pick d h st)"
  by (auto simp: auto_attach_def vsysfs_add_to_device_map_locked_def store_simps split: option.split
      intro!: stores_ok_set intro: stores_okD)

lemma stores_ok_apply_default: "stores_ok st \<Longrightarrow> stores_ok (fold (apply_default name value access) hs st)"
  by (auto simp: apply_default_def stores_okD intro!: fold_preserves [of stores_ok] stores_ok_set)

lemma stores_ok_remove_there: "stores_ok (fst acc) \<Longrightarrow> stores_ok (fst (remove_attr_if_there name h acc))"
  by (auto simp: remove_attr_if_there_def Let_def stores_okD intro!: stores_ok_set)

end
