(* ===== verification/Vsysfs_Atomic.thy ===== *)
theory Vsysfs_Atomic
  imports Vfs_Props
begin

text \<open>
  \<open>pim_vsysfs_root_write_default_attr\<close> changes a root and all its instances. When it returns an error nothing has changed.
  When memory runs out at an instance it does not return: the roll-back locks the mutex of that instance, which the
  loop that calls it still holds.
\<close>

section \<open>A default attribute is written everywhere or nowhere\<close>

lemma rollback_blocks: "held \<in> fst ` set prev_states \<Longrightarrow> rollback_instances held name prev_states st = None"
  by (induction held name prev_states st rule: rollback_instances.induct) auto

lemma root_restored:
  assumes "vsysfs_root_ok (fs_vsysfs_root st r)"
  defines "rt \<equiv> fs_vsysfs_root st r"
  shows "rollback_root name (map_of (sr_default_attrs rt) name, access_of (sr_default_attr_access rt) name) r
           (set_vsysfs_root r (rt\<lparr>sr_default_attrs := om_insert name val (sr_default_attrs rt)\<rparr>) st) = st"
proof -
  have ok: "om_ok (sr_default_attrs rt)" "om_ok (sr_default_attr_access rt)"
    and dom: "dom (map_of (sr_default_attrs rt)) = dom (map_of (sr_default_attr_access rt))"
    using assms(1) by (simp_all add: vsysfs_root_ok_def attrs_ok_def rt_def)
  have a: "om.restore name (map_of (sr_default_attrs rt) name) (om_insert name val (sr_default_attrs rt)) = sr_default_attrs rt"
    by (rule om.restore_put [OF ok(1)])
  have b: "om.restore name (map_of (sr_default_attr_access rt) name) (sr_default_attr_access rt) = sr_default_attr_access rt"
    by (rule om.restore_id [OF ok(2)])
  have n: "map_of (sr_default_attrs rt) name = None \<longleftrightarrow> map_of (sr_default_attr_access rt) name = None"
    using dom by (metis domIff)
  show ?thesis
    using a b n unfolding rt_def
    by (auto simp: rollback_root_def set_vsysfs_root_def om.restore_def access_of_def Let_def split: option.splits)
qed

lemma write_default_cases:
  assumes "stores_ok st" and "pim_vsysfs_root_write_default_attr alloc root name value access st = Some (err, st')"
  obtains (failed) "err \<noteq> PIM_SUCCESS" "st' = st"
    | (written) n v r where "err = PIM_SUCCESS" "name = Some n" "value = Some v" "vsysfs_lookup_root_shared root st = Some r"
        "attr_access_valid access" "st' = write_default_everywhere n v access r st"
proof -
  have "fst ((map (\<lambda>h. (h, vsysfs_prev n (fs_vsysfs st h))) hs) ! i) \<in> fst ` set (take (Suc i) (map (\<lambda>h. (h, vsysfs_prev n (fs_vsysfs st h))) hs))"
    if "i < length hs" for n hs i
    using that by (auto simp: take_Suc_conv_app_nth)
  then have blocks: "rollback_instances (hs ! i) n (take (Suc i) (map (\<lambda>h. (h, vsysfs_prev n (fs_vsysfs st h))) hs)) s = None"
    if "i < length hs" for n hs i s
    using that by (intro rollback_blocks) fastforce
  have "err \<noteq> PIM_SUCCESS \<and> st' = st \<or> (\<exists>n v r. err = PIM_SUCCESS \<and> name = Some n \<and> value = Some v \<and>
      vsysfs_lookup_root_shared root st = Some r \<and> attr_access_valid access \<and> st' = write_default_everywhere n v access r st)"
    using assms(2) root_restored [OF stores_okD(2) [OF assms(1)]]
    by (auto simp: pim_vsysfs_root_write_default_attr_def Let_def blocks split: option.splits if_splits alloc_outcome.splits)
  then show ?thesis using failed written by blast
qed

text \<open>The failure that blocks.\<close>

lemma write_default_blocks:
  assumes "vsysfs_lookup_root_shared root st = Some r" and "attr_access_valid access" and "i < length (sr_instances (fs_vsysfs_root st r))"
  shows "pim_vsysfs_root_write_default_attr (Alloc_Fails_Instance i stored) root (Some n) (Some v) access st = None"
proof -
  let ?ps = "map (\<lambda>h. (h, vsysfs_prev n (fs_vsysfs st h))) (sr_instances (fs_vsysfs_root st r))"
  obtain root' where root: "root = Some root'" using assms(1) by (cases root) (auto simp: vsysfs_lookup_root_shared_def vfile_find_shared_def)
  have "sr_instances (fs_vsysfs_root st r) ! i \<in> fst ` set (take (Suc i) ?ps)"
    using assms(3) by (force simp: take_Suc_conv_app_nth)
  then show ?thesis
    using assms root by (simp add: pim_vsysfs_root_write_default_attr_def Let_def rollback_blocks)
qed

text \<open>The state after a call that has returned.\<close>

definition returned :: "vfs \<Rightarrow> (pim_error \<times> vfs) option \<Rightarrow> vfs" where
  "returned st res = (case res of None \<Rightarrow> st | Some (err, st') \<Rightarrow> st')"

lemma returned_write_default:
  assumes "stores_ok st" and "P st"
    and "\<And>n v r. name = Some n \<Longrightarrow> value = Some v \<Longrightarrow> vsysfs_lookup_root_shared root st = Some r \<Longrightarrow> P (write_default_everywhere n v access r st)"
  shows "P (returned st (pim_vsysfs_root_write_default_attr alloc root name value access st))"
proof (cases "pim_vsysfs_root_write_default_attr alloc root name value access st")
  case (Some res)
  then obtain err st' where r: "pim_vsysfs_root_write_default_attr alloc root name value access st = Some (err, st')" by (cases res) simp
  show ?thesis
    by (rule write_default_cases [OF assms(1) r]) (use assms(2,3) r in \<open>auto simp: returned_def\<close>)
qed (simp add: returned_def assms(2))

end
