(* ===== verification/Vfs_Ops.thy ===== *)
theory Vfs_Ops
  imports Vsysfs_Atomic
begin

text \<open>
  The operations of the interface to the virtual files as the constructors of one datatype, and that all of them keep
  the tables of attributes in order.
\<close>

section \<open>Sequences of calls\<close>

datatype vfs_op =
    Vmodule_Create bool "string option" | Vmodule_Destroy "handle option"
  | Vmodule_Register_Driver bool "handle option" "string option" "string option"
  | Vmodule_Create_Attr bool "handle option" "string option" "string option" int
  | Vmodule_Remove_Attr "handle option" "string option"
  | Vdev_Root_Create bool "string option" | Vdev_Root_Destroy "handle option"
  | Vdev_Root_Set_Open_Cb bool "handle option" "nat option" | Vdev_Root_Set_Ioctl_Cb bool "handle option" "nat option"
  | Vdev_Root_Set_Mmap_Cb bool "handle option" "nat option" | Vdev_Root_Set_Close_Cb bool "handle option" "nat option"
  | Vdev_Create bool bool "handle option" "string option" int int | Vdev_Destroy "handle option"
  | Vdev_Set_User_Data "handle option" "nat option" | Vdev_Lock bool "handle option" | Vdev_Unlock "handle option"
  | Vdev_Register_Device bool "handle option" int "nat option" | Vdev_Unregister_Device "handle option" int
  | Vsysfs_Root_Create bool "handle option" "string option" "string option" "string option" | Vsysfs_Root_Destroy "handle option"
  | Vsysfs_Root_Write_Default_Attr alloc_outcome "handle option" "string option" "string option" int
  | Vsysfs_Root_Remove_Default_Attr bool "handle option" "string option"
  | Vsysfs_Create bool bool bool "handle option" "handle option" "string option" | Vsysfs_Destroy "handle option"
  | Vsysfs_Write_Attr bool "handle option" "string option" "string option" int | Vsysfs_Remove_Attr "handle option" "string option"
  | Vfile_Clear | Vfile_Resolve string | Vfile_Collect string

type_synonym first_fd = "(int \<Rightarrow> nat option) \<Rightarrow> int option"

fun vfs_apply :: "first_fd \<Rightarrow> (string \<Rightarrow> u64) \<Rightarrow> vfs_op \<Rightarrow> vfs \<Rightarrow> vfs" where
  "vfs_apply pick hash (Vmodule_Create a n) st = snd (pim_vmodule_create a n st)"
| "vfs_apply pick hash (Vmodule_Destroy h) st = pim_vmodule_destroy h st"
| "vfs_apply pick hash (Vmodule_Register_Driver a h b d) st = snd (pim_vmodule_register_driver a h b d st)"
| "vfs_apply pick hash (Vmodule_Create_Attr a h n v x) st = snd (pim_vmodule_create_attr a h n v x st)"
| "vfs_apply pick hash (Vmodule_Remove_Attr h n) st = snd (pim_vmodule_remove_attr h n st)"
| "vfs_apply pick hash (Vdev_Root_Create a n) st = snd (pim_vdev_root_create a n st)"
| "vfs_apply pick hash (Vdev_Root_Destroy h) st = pim_vdev_root_destroy h st"
| "vfs_apply pick hash (Vdev_Root_Set_Open_Cb a h f) st = pim_vdev_root_set_open_cb a h f st"
| "vfs_apply pick hash (Vdev_Root_Set_Ioctl_Cb a h f) st = pim_vdev_root_set_ioctl_cb a h f st"
| "vfs_apply pick hash (Vdev_Root_Set_Mmap_Cb a h f) st = pim_vdev_root_set_mmap_cb a h f st"
| "vfs_apply pick hash (Vdev_Root_Set_Close_Cb a h f) st = pim_vdev_root_set_close_cb a h f st"
| "vfs_apply pick hash (Vdev_Create a l r n ma mi) st = snd (pim_vdev_create a l r n ma mi st)"
| "vfs_apply pick hash (Vdev_Destroy h) st = pim_vdev_destroy h st"
| "vfs_apply pick hash (Vdev_Set_User_Data h u) st = pim_vdev_set_user_data h u st"
| "vfs_apply pick hash (Vdev_Lock a h) st = snd (pim_vdev_lock a h st)"
| "vfs_apply pick hash (Vdev_Unlock h) st = snd (pim_vdev_unlock h st)"
| "vfs_apply pick hash (Vdev_Register_Device a h fd d) st = snd (pim_vdev_register_device pick a h fd d st)"
| "vfs_apply pick hash (Vdev_Unregister_Device h fd) st = snd (pim_vdev_unregister_device pick h fd st)"
| "vfs_apply pick hash (Vsysfs_Root_Create a r c k i) st = snd (pim_vsysfs_root_create a r c k i st)"
| "vfs_apply pick hash (Vsysfs_Root_Destroy h) st = pim_vsysfs_root_destroy h st"
| "vfs_apply pick hash (Vsysfs_Root_Write_Default_Attr a h n v x) st = returned st (pim_vsysfs_root_write_default_attr a h n v x st)"
| "vfs_apply pick hash (Vsysfs_Root_Remove_Default_Attr a h n) st = snd (pim_vsysfs_root_remove_default_attr a h n st)"
| "vfs_apply pick hash (Vsysfs_Create a l p r d i) st = snd (pim_vsysfs_create a l p pick r d i st)"
| "vfs_apply pick hash (Vsysfs_Destroy h) st = pim_vsysfs_destroy h st"
| "vfs_apply pick hash (Vsysfs_Write_Attr a h n v x) st = snd (pim_vsysfs_write_attr a h n v x st)"
| "vfs_apply pick hash (Vsysfs_Remove_Attr h n) st = snd (pim_vsysfs_remove_attr h n st)"
| "vfs_apply pick hash Vfile_Clear st = pim_vfile_clear_registries st"
| "vfs_apply pick hash (Vfile_Resolve p) st = snd (vfile_resolve_virtual_node p st)"
| "vfs_apply pick hash (Vfile_Collect p) st = snd (vfile_collect_dirents hash p st)"

section \<open>Tables\<close>

lemma stores_ok_write_default:
  assumes "stores_ok st"
  shows "stores_ok (returned st (pim_vsysfs_root_write_default_attr alloc root name value access st))"
proof (rule returned_write_default [where P = stores_ok, OF assms assms])
  fix n v r
  have rok: "vsysfs_root_ok (fs_vsysfs_root st r)" by (rule stores_okD [OF assms])
  then show "stores_ok (write_default_everywhere n v access r st)"
    using assms
    by (auto simp: write_default_everywhere_def Let_def store_simps vsysfs_root_ok_def [symmetric]
        intro!: fold_preserves [of stores_ok] stores_ok_set stores_ok_apply_default stores_okD)
      (use rok in \<open>auto simp: vsysfs_root_ok_def\<close>)
qed

lemma stores_ok_remove_default:
  assumes "stores_ok st"
  shows "stores_ok (snd (pim_vsysfs_root_remove_default_attr alloc root name st))"
proof -
  have rok: "vsysfs_root_ok (fs_vsysfs_root st r)" for r by (rule stores_okD [OF assms])
  have "stores_ok (fst (fold (remove_attr_if_there n) hs (s, b)))" if "stores_ok s" for n hs s b
    using that by (intro fold_preserves [of "\<lambda>acc. stores_ok (fst acc)"]) (simp_all add: stores_ok_remove_there)
  from this [OF stores_ok_set(2) [OF assms]] show ?thesis
    using assms rok
    by (simp add: pim_vsysfs_root_remove_default_attr_def Let_def case_prod_unfold store_simps vsysfs_root_ok_def split: option.split)
qed

lemma stores_ok_vmodule:
  assumes "stores_ok st"
  shows "stores_ok (snd (pim_vmodule_create a n st))" "stores_ok (snd (pim_vmodule_register_driver a h b d st))"
    "stores_ok (snd (pim_vmodule_create_attr a h n v x st))" "stores_ok (snd (pim_vmodule_remove_attr h n st))"
proof -
  have mok: "attrs_ok (vm_attrs (fs_vmodule st h)) (vm_attr_access (fs_vmodule st h))" "om_ok (vm_registered_drivers (fs_vmodule st h))" for h
    using stores_okD(3) [OF assms, of h] by (simp_all add: vmodule_ok_def)
  show "stores_ok (snd (pim_vmodule_create a n st))"
    using assms by (auto simp: pim_vmodule_create_def Let_def store_simps vmodule_ok_def split: option.split intro!: stores_ok_set)
  show "stores_ok (snd (pim_vmodule_register_driver a h b d st))" "stores_ok (snd (pim_vmodule_create_attr a h n v x st))"
    "stores_ok (snd (pim_vmodule_remove_attr h n st))"
    using assms mok
    by (auto simp: pim_vmodule_register_driver_def pim_vmodule_create_attr_def pim_vmodule_remove_attr_def Let_def store_simps vmodule_ok_def
        split: option.split intro!: stores_ok_set)
qed

lemma stores_ok_vsysfs:
  assumes "stores_ok st"
  shows "stores_ok (snd (pim_vsysfs_root_create a r c k i st))" "stores_ok (snd (pim_vsysfs_write_attr a h n v x st))"
    "stores_ok (snd (pim_vsysfs_remove_attr h n st))" "stores_ok (pim_vsysfs_destroy h st)"
    "stores_ok (snd (pim_vsysfs_create a l p pick r d i st))"
proof -
  have ok: "vsysfs_ok (fs_vsysfs st h)" "vsysfs_root_ok (fs_vsysfs_root st h)" for h by (rule stores_okD [OF assms])+
  have rok: "vsysfs_root_ok ((fs_vsysfs_root st r)\<lparr>sr_instances := x\<rparr>)" for r x
    using ok(2) [of r] by (simp add: vsysfs_root_ok_def)
  show "stores_ok (snd (pim_vsysfs_root_create a r c k i st))"
    using assms by (auto simp: pim_vsysfs_root_create_def Let_def store_simps vsysfs_root_ok_def split: option.split intro!: stores_ok_set)
  show "stores_ok (snd (pim_vsysfs_write_attr a h n v x st))" "stores_ok (snd (pim_vsysfs_remove_attr h n st))"
    using assms ok by (auto simp: pim_vsysfs_write_attr_def pim_vsysfs_remove_attr_def Let_def store_simps split: option.split intro!: stores_ok_set)
  show "stores_ok (pim_vsysfs_destroy h st)"
    using assms rok by (auto simp: pim_vsysfs_destroy_def vsysfs_unlink_from_root_def Let_def store_simps split: option.split intro!: stores_ok_set)
  have empty: "vsysfs_ok v" if "vs_attrs v = []" "vs_attr_access v = []" for v using that by (simp add: vsysfs_ok_def)
  show "stores_ok (snd (pim_vsysfs_create a l p pick r d i st))"
    using assms rok ok
    by (auto simp: pim_vsysfs_create_def Let_def store_simps vsysfs_ok_derived empty split: option.split
        intro!: stores_ok_set stores_ok_parent stores_ok_auto_attach)
qed

lemma stores_ok_vdev:
  assumes "stores_ok st"
  shows "stores_ok (snd (pim_vdev_create a l r n ma mi st))" "stores_ok (pim_vdev_destroy h st)"
    "stores_ok (snd (pim_vdev_register_device pick b h fd dv st))" "stores_ok (snd (pim_vdev_unregister_device pick h fd st))"
  using assms
  by (auto simp: pim_vdev_create_def pim_vdev_destroy_def vdev_unlink_from_root_def pim_vdev_register_device_def
      pim_vdev_unregister_device_def Let_def store_simps split: option.split intro!: stores_ok_mapping)

lemma stores_ok_apply: "stores_ok st \<Longrightarrow> stores_ok (vfs_apply pick hash op st)"
  using stores_ok_build [of st]
  by (cases op)
    (auto simp: stores_ok_vmodule stores_ok_vsysfs stores_ok_vdev stores_ok_write_default stores_ok_remove_default stores_ok_callback
      pim_vmodule_destroy_def pim_vdev_root_create_def pim_vdev_root_destroy_def pim_vdev_set_user_data_def pim_vdev_lock_def pim_vdev_unlock_def
      pim_vdev_root_set_open_cb_def pim_vdev_root_set_ioctl_cb_def pim_vdev_root_set_mmap_cb_def pim_vdev_root_set_close_cb_def
      pim_vsysfs_root_destroy_def pim_vfile_clear_registries_def vfile_clear_vdev_state_def vfile_clear_vsysfs_state_def
      vfile_clear_vmodule_state_def queries_state Let_def store_simps split: option.split)

end
