(* ===== verification/Callbacks.thy ===== *)
theory Callbacks
  imports Rank_Commands Vfs_Ops
begin

text \<open>
  The callbacks by which a rank appears as a device (\<open>contrib/hostpimsim-upmem/cb.cc\<close>) and the tree of devices and
  attributes the library sets up when it is loaded (\<open>preload.cc\<close>).

  A pointer to a rank is a number and \<open>up_ranks\<close> the memory it points to: \<open>None\<close> when the rank has been deleted. An
  operation on a deleted rank has the value \<open>None\<close>, so that a proof that it is not \<open>None\<close> is one that the code uses no
  freed memory. The device of a rank has the number of the rank.
\<close>

section \<open>State\<close>

datatype upmem_fd_type = FD_RANK | FD_DAX

record upmem_vdev_user_data =
  ud_type :: upmem_fd_type
  ud_opened :: bool
  ud_rank :: "nat option"

record upmem =
  up_fs :: vfs
  up_ud :: "nat \<Rightarrow> upmem_vdev_user_data"
  up_ranks :: "nat \<Rightarrow> upmem_sys option"
  up_next :: nat \<comment> \<open>the next address that is given out\<close>
  up_closed :: "int list" \<comment> \<open>the descriptors closed by the open callback\<close>

text \<open>What the operating system and the library answer while a device is opened: whether a reference can be counted, the
  descriptor (negative: none, with \<open>errno\<close>), the three allocations of a rank, the entry of the map of devices, and
  the choice of a descriptor when several have a device.\<close>

record open_host =
  oh_hold :: bool
  oh_fd :: int
  oh_errno :: errno
  oh_rank :: bool
  oh_backing :: "(nat \<Rightarrow> u8) option"
  oh_device :: bool
  oh_register :: bool
  oh_pick :: first_fd

definition upd_vfs :: "(vfs \<Rightarrow> vfs) \<Rightarrow> upmem \<Rightarrow> upmem" where
  "upd_vfs f st = st\<lparr>up_fs := f (up_fs st)\<rparr>"

definition upd_ud :: "nat \<Rightarrow> (upmem_vdev_user_data \<Rightarrow> upmem_vdev_user_data) \<Rightarrow> upmem \<Rightarrow> upmem" where
  "upd_ud u f st = st\<lparr>up_ud := (up_ud st)(u := f (up_ud st u))\<rparr>"

definition put_rank :: "nat \<Rightarrow> upmem_sys option \<Rightarrow> upmem \<Rightarrow> upmem" where
  "put_rank r rank st = st\<lparr>up_ranks := (up_ranks st)(r := rank)\<rparr>"

definition hold_vdev :: "bool \<Rightarrow> handle \<Rightarrow> upmem \<Rightarrow> upmem" where
  "hold_vdev alloc vdev = upd_vfs (\<lambda>fs. snd (pim_vdev_lock alloc (Some vdev) fs))"

definition release_vdev :: "handle \<Rightarrow> upmem \<Rightarrow> upmem" where
  "release_vdev vdev = upd_vfs (\<lambda>fs. snd (pim_vdev_unlock (Some vdev) fs))"

text \<open>Waiting for the tasks of the device, deleting device and rank and unmapping the memory. The result of deleting the device
  is ignored.\<close>

definition upmem_destroy_rank :: "nat option \<Rightarrow> upmem \<Rightarrow> upmem option" where
  "upmem_destroy_rank rank st =
     (case rank of
        None \<Rightarrow> Some st
      | Some r \<Rightarrow> if up_ranks st r = None then None else Some (put_rank r None st))"

section \<open>Opening\<close>

text \<open>The test at the beginning, and what follows it. \<open>pim_vdev_lock\<close> counts a reference and excludes no other thread, so
  that another one can run in between.\<close>

definition open_admitted :: "handle \<Rightarrow> upmem \<Rightarrow> nat option" where
  "open_admitted vdev st =
     (case pim_vdev_get_user_data (Some vdev) (up_fs st) of
        None \<Rightarrow> None
      | Some u \<Rightarrow> if ud_opened (up_ud st u) then None else Some u)"

definition open_rank :: "open_host \<Rightarrow> handle \<Rightarrow> nat \<Rightarrow> upmem \<Rightarrow> ((errno + unit) \<times> upmem) option" where
  "open_rank h vdev u st =
     (case upmem_create_rank (oh_rank h) (oh_backing h) (oh_device h) of
        Inl e \<Rightarrow> Some (Inl e, st\<lparr>up_closed := up_closed st @ [oh_fd h]\<rparr>)
      | Inr sys \<Rightarrow>
          let r = up_next st;
              st = upd_ud u (\<lambda>d. d\<lparr>ud_rank := Some r\<rparr>) (put_rank r (Some sys) (st\<lparr>up_next := r + 1\<rparr>))
          in case pim_vdev_register_device (oh_pick h) (oh_register h) (Some vdev) (oh_fd h) (Some r) (up_fs st) of
               (e, fs) \<Rightarrow>
                 if e \<noteq> PIM_SUCCESS
                 then map_option (\<lambda>st. (Inl EBUSY, st\<lparr>up_closed := up_closed st @ [oh_fd h]\<rparr>))
                        (upmem_destroy_rank (Some r) (st\<lparr>up_fs := fs\<rparr>))
                 else Some (Inr (), st\<lparr>up_fs := fs\<rparr>))"

definition open_session :: "open_host \<Rightarrow> handle \<Rightarrow> nat \<Rightarrow> upmem \<Rightarrow> ((errno + int) \<times> upmem) option" where
  "open_session h vdev u st =
     (if oh_fd h < 0 then Some (Inl (oh_errno h), st)
      else
        case (if ud_type (up_ud st u) = FD_RANK then open_rank h vdev u st else Some (Inr (), st)) of
          None \<Rightarrow> None
        | Some (Inl e, st) \<Rightarrow> Some (Inl e, st)
        | Some (Inr _, st) \<Rightarrow> Some (Inr (oh_fd h), upd_ud u (\<lambda>d. d\<lparr>ud_opened := True\<rparr>) st))"

definition vdev_open_cb :: "open_host \<Rightarrow> handle option \<Rightarrow> upmem \<Rightarrow> ((errno + int) \<times> upmem) option" where
  "vdev_open_cb h vdev st =
     (case vdev of
        None \<Rightarrow> Some (Inl EINVAL, st)
      | Some d \<Rightarrow>
          let st = hold_vdev (oh_hold h) d st
          in map_option (apsnd (release_vdev d))
               (case open_admitted d st of
                  None \<Rightarrow> Some (Inl EINVAL, st)
                | Some u \<Rightarrow> open_session h d u st))"

section \<open>Control requests\<close>

definition DPU_RANK_IOCTL_WRITE_TO_RANK :: u64 where "DPU_RANK_IOCTL_WRITE_TO_RANK = 0x40086400"
definition DPU_RANK_IOCTL_READ_FROM_RANK :: u64 where "DPU_RANK_IOCTL_READ_FROM_RANK = 0x40086401"
definition DPU_RANK_IOCTL_COMMIT_COMMANDS :: u64 where "DPU_RANK_IOCTL_COMMIT_COMMANDS = 0x40086402"
definition DPU_RANK_IOCTL_UPDATE_COMMANDS :: u64 where "DPU_RANK_IOCTL_UPDATE_COMMANDS = 0x80086403"
definition DPU_RANK_IOCTL_DEBUG_MODE :: u64 where "DPU_RANK_IOCTL_DEBUG_MODE = 0x40086404"
definition DPU_RANK_IOCTL_SLICE_INFO :: u64 where "DPU_RANK_IOCTL_SLICE_INFO = 0x40086405"

text \<open>The memory of the program at the address \<open>arg\<close>, read as the structure the request calls for, and what a request
  writes there.\<close>

record user_memory =
  um_transfer :: "u64 \<Rightarrow> dpu_transfer_mram"
  um_words :: "u64 \<Rightarrow> u64 list"
  um_slices :: "u64 \<Rightarrow> slice_info_abi list"

datatype ioctl_reply = IR_None | IR_Buffers "u8 list option list" | IR_Words "u64 list"

definition at_address :: "(u64 \<Rightarrow> 'a) \<Rightarrow> u64 \<Rightarrow> 'a option" where
  "at_address read arg = (if arg = 0 then None else Some (read arg))"

definition upmem_ioctl_debug_mode :: "u64 \<Rightarrow> upmem_sys option \<Rightarrow> (errno + unit) \<times> upmem_sys option" where
  "upmem_ioctl_debug_mode arg rank = (Inr (), rank)"

definition quiet_reply :: "(errno + unit) \<times> upmem_sys option \<Rightarrow> (errno + ioctl_reply) \<times> upmem_sys option" where
  "quiet_reply = apfst (map_sum id (\<lambda>_. IR_None))"

definition read_reply ::
  "upmem_sys \<Rightarrow> (errno + unit) \<times> (upmem_sys \<times> u8 list option list) option \<Rightarrow> (errno + ioctl_reply) \<times> upmem_sys option" where
  "read_reply sys reply =
     (case reply of
        (ret, None) \<Rightarrow> (map_sum id (\<lambda>_. IR_None) ret, Some sys)
      | (ret, Some (sys, bufs)) \<Rightarrow> (map_sum id (\<lambda>_. IR_Buffers bufs) ret, Some sys))"

definition rank_ioctl :: "host_env \<Rightarrow> user_memory \<Rightarrow> u64 \<Rightarrow> u64 \<Rightarrow> upmem_sys \<Rightarrow> (errno + ioctl_reply) \<times> upmem_sys option" where
  "rank_ioctl env um cmd arg sys =
     (if cmd = DPU_RANK_IOCTL_WRITE_TO_RANK
      then quiet_reply (upmem_ioctl_write_to_rank env (at_address (um_transfer um) arg) (Some sys))
      else if cmd = DPU_RANK_IOCTL_READ_FROM_RANK
      then read_reply sys (upmem_ioctl_read_from_rank env (at_address (um_transfer um) arg) (Some sys))
      else if cmd = DPU_RANK_IOCTL_COMMIT_COMMANDS
      then quiet_reply (upmem_ioctl_commit_commands env (at_address (um_words um) arg) (Some sys))
      else if cmd = DPU_RANK_IOCTL_UPDATE_COMMANDS
      then apfst (map_sum id IR_Words) (upmem_ioctl_update_commands (Some sys) (arg = 0))
      else if cmd = DPU_RANK_IOCTL_DEBUG_MODE then quiet_reply (upmem_ioctl_debug_mode arg (Some sys))
      else if cmd = DPU_RANK_IOCTL_SLICE_INFO then quiet_reply (upmem_ioctl_slice_info (at_address (um_slices um) arg) (Some sys))
      else (Inl ENOTTY, Some sys))"

definition rank_ioctl_cb ::
  "bool \<Rightarrow> host_env \<Rightarrow> user_memory \<Rightarrow> handle option \<Rightarrow> int \<Rightarrow> u64 \<Rightarrow> u64 \<Rightarrow> upmem \<Rightarrow> ((errno + ioctl_reply) \<times> upmem) option" where
  "rank_ioctl_cb hold env um vdev fd cmd arg st =
     (case vdev of
        None \<Rightarrow> Some (Inl EINVAL, st)
      | Some d \<Rightarrow>
          if fd < 0 then Some (Inl EINVAL, st)
          else
            let st = hold_vdev hold d st
            in case Option.bind (pim_vdev_get_user_data vdev (up_fs st)) (\<lambda>u. ud_rank (up_ud st u)) of
                 None \<Rightarrow> Some (Inl ENODEV, release_vdev d st)
               | Some r \<Rightarrow>
                   (case up_ranks st r of
                      None \<Rightarrow> None
                    | Some sys \<Rightarrow>
                        let (ret, rank) = rank_ioctl env um cmd arg sys
                        in Some (ret, release_vdev d (put_rank r rank st))))"

definition dax_ioctl_cb :: "upmem \<Rightarrow> (errno + ioctl_reply) \<times> upmem" where
  "dax_ioctl_cb st = (Inl ENOTTY, st)"

definition rank_mmap_cb :: "upmem \<Rightarrow> (errno + u64) \<times> upmem" where
  "rank_mmap_cb st = (Inl ENODEV, st)"

definition dax_mmap_cb :: "upmem \<Rightarrow> (errno + u64) \<times> upmem" where
  "dax_mmap_cb st = (Inl EINVAL, st)"

section \<open>Closing\<close>

definition close_rank :: "nat option \<Rightarrow> upmem \<Rightarrow> upmem option" where
  "close_rank ud st =
     (case ud of
        None \<Rightarrow> Some st
      | Some u \<Rightarrow>
          if ud_rank (up_ud st u) = None then Some st
          else map_option (upd_ud u (\<lambda>d. d\<lparr>ud_rank := None\<rparr>)) (upmem_destroy_rank (ud_rank (up_ud st u)) st))"

definition vdev_close_cb :: "bool \<Rightarrow> first_fd \<Rightarrow> handle option \<Rightarrow> int \<Rightarrow> upmem \<Rightarrow> ((errno + int) \<times> upmem) option" where
  "vdev_close_cb hold pick vdev fd st =
     (case vdev of
        None \<Rightarrow> Some (Inl EINVAL, st)
      | Some d \<Rightarrow>
          if fd < 0 then Some (Inl EINVAL, st)
          else
            let st = hold_vdev hold d st; ud = pim_vdev_get_user_data vdev (up_fs st)
            in map_option
                 (\<lambda>st. (Inr 0, release_vdev d (case ud of None \<Rightarrow> st | Some u \<Rightarrow> upd_ud u (\<lambda>d. d\<lparr>ud_opened := False\<rparr>) st)))
                 (if pim_vdev_find_device vdev fd (up_fs st) = None then Some st
                  else map_option (upd_vfs (\<lambda>fs. snd (pim_vdev_unregister_device pick vdev fd fs))) (close_rank ud st)))"

section \<open>The tree of the driver\<close>

text \<open>The numbers by which the tables of devices name the callbacks.\<close>

definition cb_open :: nat where "cb_open = 1"
definition cb_rank_ioctl :: nat where "cb_rank_ioctl = 2"
definition cb_rank_mmap :: nat where "cb_rank_mmap = 3"
definition cb_dax_ioctl :: nat where "cb_dax_ioctl = 4"
definition cb_dax_mmap :: nat where "cb_dax_mmap = 5"
definition cb_close :: nat where "cb_close = 6"

definition set_callbacks :: "handle option \<Rightarrow> nat \<Rightarrow> nat \<Rightarrow> vfs \<Rightarrow> vfs" where
  "set_callbacks root ioctl mmap fs =
     pim_vdev_root_set_close_cb True root (Some cb_close) (pim_vdev_root_set_mmap_cb True root (Some mmap)
       (pim_vdev_root_set_ioctl_cb True root (Some ioctl) (pim_vdev_root_set_open_cb True root (Some cb_open) fs)))"

definition new_user_data :: "upmem_fd_type \<Rightarrow> handle option \<Rightarrow> upmem \<Rightarrow> upmem" where
  "new_user_data t vdev st =
     (let u = up_next st
      in upd_vfs (pim_vdev_set_user_data vdev (Some u))
           (upd_ud u (\<lambda>_. \<lparr>ud_type = t, ud_opened = False, ud_rank = None\<rparr>) (st\<lparr>up_next := u + 1\<rparr>)))"

definition byte_order_word :: string where "byte_order_word = ''0x000103FF0F8FCFEF''"

definition rank_attrs :: "(string \<times> string \<times> int) list" where
  "rank_attrs =
     map (\<lambda>(n, v). (n, v, PIM_ACCESS_MODE_RW))
       [(''rank_id'', ''0''), (''rank_index'', ''0''), (''channel_id'', ''0''), (''backend_id'', ''0''), (''dpu_chip_id'', ''8''),
        (''nb_ci'', ''8''), (''nb_dpus_per_ci'', ''8''), (''ci_mask'', ''255''), (''mram_size'', ''67108864''), (''clock_division'', ''1''),
        (''fck_frequency'', ''400''), (''numa_node'', ''0''),
        (''byte_order'', concat (map (\<lambda>i. (if i = 0 then '''' else '' '') @ byte_order_word) [0..<8])),
        (''mode'', ''2''), (''capabilities'', ''7''), (''region_size'', ''8589934592'')] @
     [(''device'', ''/sys/devices/platform/dpu_region_mem.0'', PIM_ACCESS_MODE_RO)]"

definition dax_attrs :: "(string \<times> string \<times> int) list" where
  "dax_attrs =
     map (\<lambda>(n, v). (n, v, PIM_ACCESS_MODE_RW)) [(''rank_index'', ''0''), (''size'', ''8589934592''), (''numa'', ''0''), (''numa_node'', ''0'')] @
     [(''device'', ''/sys/devices/platform/dpu_region_mem.0'', PIM_ACCESS_MODE_RO)]"

definition write_attrs :: "handle option \<Rightarrow> (string \<times> string \<times> int) list \<Rightarrow> vfs \<Rightarrow> vfs" where
  "write_attrs vsysfs = fold (\<lambda>(n, v, x) fs. snd (pim_vsysfs_write_attr True vsysfs (Some n) (Some v) x fs))"

text \<open>The function, in pieces that take the handles made so far and the state. All allocations are taken to succeed.\<close>

fun make_module :: "handle option \<times> vfs \<Rightarrow> vfs" where
  "make_module (dpu_vmodule, fs) =
     snd (pim_vmodule_register_driver True dpu_vmodule (Some ''platform'') (Some ''dpu_region_mem'')
       (snd (pim_vmodule_create_attr True dpu_vmodule (Some ''version'') (Some ''7.1'') PIM_ACCESS_MODE_RO fs)))"

fun make_dax_root :: "handle option \<times> vfs \<Rightarrow> (handle option \<times> handle option) \<times> vfs" where
  "make_dax_root (rank_root, fs) = apfst (Pair rank_root) (pim_vdev_root_create True (Some ''dax*.*'') fs)"

fun make_callbacks :: "(handle option \<times> handle option) \<times> vfs \<Rightarrow> (handle option \<times> handle option) \<times> vfs" where
  "make_callbacks ((rank_root, dax_root), fs) =
     ((rank_root, dax_root), set_callbacks dax_root cb_dax_ioctl cb_dax_mmap (set_callbacks rank_root cb_rank_ioctl cb_rank_mmap fs))"

fun make_rank_vdev ::
  "upmem \<Rightarrow> (handle option \<times> handle option) \<times> vfs \<Rightarrow> (handle option \<times> handle option \<times> handle option) \<times> upmem" where
  "make_rank_vdev st ((rank_root, dax_root), fs) =
     (case pim_vdev_create True True rank_root (Some ''dpu_rank0'') (- 1) (- 1) fs of
        (rank_vdev0, fs) \<Rightarrow> ((rank_root, dax_root, rank_vdev0), new_user_data FD_RANK rank_vdev0 (st\<lparr>up_fs := fs\<rparr>)))"

fun make_dax_vdev ::
  "(handle option \<times> handle option \<times> handle option) \<times> upmem \<Rightarrow> (handle option \<times> handle option \<times> handle option \<times> handle option) \<times> upmem" where
  "make_dax_vdev ((rank_root, dax_root, rank_vdev0), st) =
     (case pim_vdev_create True True dax_root (Some ''dax0.0'') (pim_vdev_get_major rank_vdev0 (up_fs st)) (- 1) (up_fs st) of
        (dax_vdev0, fs) \<Rightarrow> ((rank_root, dax_root, rank_vdev0, dax_vdev0), new_user_data FD_DAX dax_vdev0 (st\<lparr>up_fs := fs\<rparr>)))"

definition setup_devices :: "upmem \<Rightarrow> (handle option \<times> handle option \<times> handle option \<times> handle option) \<times> upmem" where
  "setup_devices st =
     make_dax_vdev (make_rank_vdev st (make_callbacks (make_dax_root
       (pim_vdev_root_create True (Some ''dpu_rank*'') (make_module (pim_vmodule_create True (Some ''dpu'') (up_fs st)))))))"

fun make_dax_vsysfs_root :: "handle option \<Rightarrow> handle option \<times> vfs \<Rightarrow> (handle option \<times> handle option) \<times> vfs" where
  "make_dax_vsysfs_root dax_root (rank_vsysfs_root, fs) =
     apfst (Pair rank_vsysfs_root) (pim_vsysfs_root_create True dax_root (Some ''dpu_dax'') (Some ''platform'') (Some ''dpu_region_mem.*'') fs)"

fun make_rank_vsysfs ::
  "first_fd \<Rightarrow> handle option \<Rightarrow> (handle option \<times> handle option) \<times> vfs \<Rightarrow> (handle option \<times> handle option) \<times> vfs" where
  "make_rank_vsysfs pick rank_vdev0 ((rank_vsysfs_root, dax_vsysfs_root), fs) =
     apfst (Pair dax_vsysfs_root) (pim_vsysfs_create True True True pick rank_vsysfs_root rank_vdev0 (Some ''dpu_region_mem.0'') fs)"

fun make_dax_vsysfs ::
  "first_fd \<Rightarrow> handle option \<Rightarrow> (handle option \<times> handle option) \<times> vfs \<Rightarrow> (handle option \<times> handle option) \<times> vfs" where
  "make_dax_vsysfs pick dax_vdev0 ((dax_vsysfs_root, rank_vsysfs0), fs) =
     apfst (Pair rank_vsysfs0) (pim_vsysfs_create True True True pick dax_vsysfs_root dax_vdev0 (Some ''dpu_region_mem.0'') fs)"

fun make_attrs :: "(handle option \<times> handle option) \<times> vfs \<Rightarrow> vfs" where
  "make_attrs ((rank_vsysfs0, dax_vsysfs0), fs) = write_attrs dax_vsysfs0 dax_attrs (write_attrs rank_vsysfs0 rank_attrs fs)"

fun setup_nodes :: "first_fd \<Rightarrow> (handle option \<times> handle option \<times> handle option \<times> handle option) \<times> upmem \<Rightarrow> upmem" where
  "setup_nodes pick ((rank_root, dax_root, rank_vdev0, dax_vdev0), st) =
     st\<lparr>up_fs := make_attrs (make_dax_vsysfs pick dax_vdev0 (make_rank_vsysfs pick rank_vdev0 (make_dax_vsysfs_root dax_root
       (pim_vsysfs_root_create True rank_root (Some ''dpu_rank'') (Some ''platform'') (Some ''dpu_region_mem.*'') (up_fs st)))))\<rparr>"

definition setup_vfile_tree :: "first_fd \<Rightarrow> upmem \<Rightarrow> upmem" where
  "setup_vfile_tree pick st = setup_nodes pick (setup_devices st)"

text \<open>The result says whether the dispatcher of system calls is installed.\<close>

definition hostpimsim_upmem_init :: "bool \<Rightarrow> bool \<Rightarrow> first_fd \<Rightarrow> upmem \<Rightarrow> bool \<times> upmem" where
  "hostpimsim_upmem_init allowed setenv_ok pick st =
     (if \<not> allowed \<or> \<not> setenv_ok then (False, st) else (True, setup_vfile_tree pick st))"

end
