(* ===== verification/Callbacks_Correct.thy ===== *)
theory Callbacks_Correct
  imports Callbacks
begin

text \<open>
  The callbacks in the order the sessions call them: a device is opened, used and closed with the descriptor that opening
  it returned. Ranks are created and deleted with the sessions, and none is used after it has been deleted. Two
  threads that open the same device at the same time break this.
\<close>

section \<open>What the callbacks read and change\<close>

lemma mapping_keeps [simp]:
  "fs_vdev (vfile_on_vdev_device_mapping_changed pick d fs) = fs_vdev fs"
  "g_vdev_list (vfile_on_vdev_device_mapping_changed pick d fs) = g_vdev_list fs"
proof -
  have "fs_vdev (attach_linked m h s) = fs_vdev s \<and> g_vdev_list (attach_linked m h s) = g_vdev_list s" for m h s
    by (simp add: attach_linked_def Let_def vsysfs_remove_from_device_map_locked_def vsysfs_add_to_device_map_locked_def set_vsysfs_def
        split: option.split)
  then have "fs_vdev (fold (attach_linked m) hs fs) = fs_vdev fs \<and> g_vdev_list (fold (attach_linked m) hs fs) = g_vdev_list fs" for m hs
    by (intro fold_preserves [of "\<lambda>s. fs_vdev s = fs_vdev fs \<and> g_vdev_list s = g_vdev_list fs"]) simp_all
  then show "fs_vdev (vfile_on_vdev_device_mapping_changed pick d fs) = fs_vdev fs"
    "g_vdev_list (vfile_on_vdev_device_mapping_changed pick d fs) = g_vdev_list fs"
    by (simp_all add: vfile_on_vdev_device_mapping_changed_def Let_def split: option.split)
qed

lemma hold_keeps [simp]:
  "fs_vdev (snd (pim_vdev_lock a v fs)) = fs_vdev fs" "g_vdev_list (snd (pim_vdev_lock a v fs)) = g_vdev_list fs"
  "fs_vdev (snd (pim_vdev_unlock v fs)) = fs_vdev fs" "g_vdev_list (snd (pim_vdev_unlock v fs)) = g_vdev_list fs"
  by (simp_all add: pim_vdev_lock_def pim_vdev_unlock_def split: option.split)

definition user_data :: "upmem \<Rightarrow> handle \<Rightarrow> nat option" where
  "user_data st d = (if d \<in> set (g_vdev_list (up_fs st)) then vd_user_data (fs_vdev (up_fs st) d) else None)"

lemma driver_simps [simp]:
  "up_ud (upd_vfs f st) = up_ud st" "up_ranks (upd_vfs f st) = up_ranks st" "up_next (upd_vfs f st) = up_next st"
  "up_fs (upd_vfs f st) = f (up_fs st)" "up_fs (upd_ud u g st) = up_fs st" "up_ranks (upd_ud u g st) = up_ranks st"
  "up_next (upd_ud u g st) = up_next st" "up_ud (upd_ud u g st) = (up_ud st)(u := g (up_ud st u))"
  "up_fs (put_rank r x st) = up_fs st" "up_ud (put_rank r x st) = up_ud st" "up_next (put_rank r x st) = up_next st"
  "up_ranks (put_rank r x st) = (up_ranks st)(r := x)"
  by (simp_all add: upd_vfs_def upd_ud_def put_rank_def)

text \<open>What matters of the state: all of it except for the references counted, the links from attributes to devices and
  the descriptors closed.\<close>

definition driver_view :: "upmem \<Rightarrow> (nat \<Rightarrow> upmem_vdev_user_data) \<times> (nat \<Rightarrow> upmem_sys option) \<times> nat \<times> (handle \<Rightarrow> pim_vdev) \<times> handle list" where
  "driver_view st = (up_ud st, up_ranks st, up_next st, fs_vdev (up_fs st), g_vdev_list (up_fs st))"

lemma view_hold [simp]: "driver_view (hold_vdev a d st) = driver_view st" "driver_view (release_vdev d st) = driver_view st"
  by (simp_all add: driver_view_def hold_vdev_def release_vdev_def)

lemma hold_simps [simp]:
  "up_ud (hold_vdev a d st) = up_ud st" "up_ranks (hold_vdev a d st) = up_ranks st" "up_next (hold_vdev a d st) = up_next st"
  "fs_vdev (up_fs (hold_vdev a d st)) = fs_vdev (up_fs st)" "g_vdev_list (up_fs (hold_vdev a d st)) = g_vdev_list (up_fs st)"
  "up_ud (release_vdev d st) = up_ud st" "up_ranks (release_vdev d st) = up_ranks st" "up_next (release_vdev d st) = up_next st"
  "fs_vdev (up_fs (release_vdev d st)) = fs_vdev (up_fs st)" "g_vdev_list (up_fs (release_vdev d st)) = g_vdev_list (up_fs st)"
  by (simp_all add: hold_vdev_def release_vdev_def)

lemma user_data_eq: "d \<in> set (g_vdev_list (up_fs st)) \<Longrightarrow> pim_vdev_get_user_data (Some d) (up_fs st) = user_data st d"
  by (simp add: user_data_def pim_vdev_get_user_data_def)

lemma requests_keep [simp]:
  "snd (upmem_ioctl_write_to_rank env a (Some sys)) \<noteq> None" "snd (upmem_ioctl_commit_commands env b (Some sys)) \<noteq> None"
  "snd (upmem_ioctl_update_commands (Some sys) c) \<noteq> None" "snd (upmem_ioctl_debug_mode d (Some sys)) \<noteq> None"
  "snd (upmem_ioctl_slice_info e (Some sys)) \<noteq> None" "snd (quiet_reply x) = snd x"
  by (simp_all add: upmem_ioctl_write_to_rank_def upmem_ioctl_commit_commands_def upmem_ioctl_update_commands_def upmem_ioctl_debug_mode_def
      upmem_ioctl_slice_info_def quiet_reply_def split: option.split)

lemma rank_ioctl_keeps: "snd (rank_ioctl env um cmd arg sys) \<noteq> None"
proof -
  have "snd (read_reply sys x) \<noteq> None" for x by (auto simp: read_reply_def split: prod.split option.split)
  then show ?thesis by (simp add: rank_ioctl_def del: not_None_eq)
qed

section \<open>Sessions\<close>

text \<open>\<open>S\<close> has the descriptor of every device that is open.\<close>

inductive cb_step :: "(handle \<rightharpoonup> int) \<times> upmem \<Rightarrow> (handle \<rightharpoonup> int) \<times> upmem \<Rightarrow> bool" where
  opened: "d \<in> set (g_vdev_list (up_fs st)) \<Longrightarrow> vdev_open_cb h (Some d) st = Some (Inr fd, st') \<Longrightarrow> cb_step (S, st) (S(d \<mapsto> fd), st')"
| refused: "d \<in> set (g_vdev_list (up_fs st)) \<Longrightarrow> vdev_open_cb h (Some d) st = Some (Inl e, st') \<Longrightarrow> cb_step (S, st) (S, st')"
| request: "S d = Some fd \<Longrightarrow> rank_ioctl_cb hold env um (Some d) fd cmd arg st = Some (ret, st') \<Longrightarrow> cb_step (S, st) (S, st')"
| closed: "S d = Some fd \<Longrightarrow> vdev_close_cb hold pick (Some d) fd st = Some (ret, st') \<Longrightarrow> cb_step (S, st) (S(d := None), st')"

inductive_cases cb_stepE: "cb_step (S, st) s'"

text \<open>\<open>owns\<close>: the session of \<open>d\<close> is one of a rank, with the rank \<open>r\<close>.\<close>

definition owns :: "(handle \<rightharpoonup> int) \<Rightarrow> upmem \<Rightarrow> handle \<Rightarrow> nat \<Rightarrow> bool" where
  "owns S st d r \<longleftrightarrow>
     S d \<noteq> None \<and> (\<exists>u. user_data st d = Some u \<and> ud_type (up_ud st u) = FD_RANK \<and> ud_rank (up_ud st u) = Some r)"

text \<open>No device is open and no two have the same user data.\<close>

definition driver_idle :: "upmem \<Rightarrow> bool" where
  "driver_idle st \<longleftrightarrow>
     (\<forall>d \<in> set (g_vdev_list (up_fs st)). \<forall>d' \<in> set (g_vdev_list (up_fs st)).
        user_data st d \<noteq> None \<and> user_data st d = user_data st d' \<longrightarrow> d = d') \<and>
     (\<forall>d \<in> set (g_vdev_list (up_fs st)). case user_data st d of
        None \<Rightarrow> True | Some u \<Rightarrow> \<not> ud_opened (up_ud st u) \<and> ud_rank (up_ud st u) = None) \<and>
     up_ranks st = (\<lambda>_. None)"

definition sessions_ok :: "(handle \<rightharpoonup> int) \<Rightarrow> upmem \<Rightarrow> bool" where
  "sessions_ok S st \<longleftrightarrow>
     (\<forall>d d' u. user_data st d = Some u \<and> user_data st d' = Some u \<longrightarrow> d = d') \<and>
     (\<forall>d u. user_data st d = Some u \<longrightarrow> (ud_opened (up_ud st u) \<longleftrightarrow> S d \<noteq> None)) \<and>
     (\<forall>d u. user_data st d = Some u \<and> ud_type (up_ud st u) = FD_DAX \<longrightarrow> ud_rank (up_ud st u) = None) \<and>
     (\<forall>d fd. S d = Some fd \<longrightarrow> 0 \<le> fd \<and> (\<exists>u. user_data st d = Some u \<and>
        (ud_type (up_ud st u) = FD_RANK \<longrightarrow>
           ud_rank (up_ud st u) \<noteq> None \<and> vd_device_by_fd (fs_vdev (up_fs st) d) fd = ud_rank (up_ud st u)))) \<and>
     (\<forall>r. up_ranks st r \<noteq> None \<longleftrightarrow> (\<exists>d. owns S st d r)) \<and>
     (\<forall>d d' r. owns S st d r \<and> owns S st d' r \<longrightarrow> d = d') \<and>
     (\<forall>r. up_ranks st r \<noteq> None \<longrightarrow> r < up_next st)"

lemma view_cong:
  assumes "driver_view st = driver_view st'"
  shows "sessions_ok S st = sessions_ok S st'" and "user_data st = user_data st'"
proof -
  show u: "user_data st = user_data st'" using assms by (auto simp: driver_view_def user_data_def fun_eq_iff)
  then have "owns S st = owns S st'" using assms by (auto simp: owns_def driver_view_def fun_eq_iff)
  with u assms show "sessions_ok S st = sessions_ok S st'" by (simp add: sessions_ok_def driver_view_def)
qed

lemma idle_ok: "driver_idle st \<Longrightarrow> sessions_ok Map.empty st"
  by (auto simp: driver_idle_def sessions_ok_def owns_def user_data_def split: if_splits option.splits)

lemma sessions_okD:
  assumes "sessions_ok S st"
  shows "user_data st d = Some u \<Longrightarrow> user_data st d' = Some u \<Longrightarrow> d = d'"
    and "user_data st d = Some u \<Longrightarrow> ud_opened (up_ud st u) \<longleftrightarrow> S d \<noteq> None"
    and "user_data st d = Some u \<Longrightarrow> ud_type (up_ud st u) = FD_DAX \<Longrightarrow> ud_rank (up_ud st u) = None"
    and "S d = Some fd \<Longrightarrow> 0 \<le> fd"
    and "S d = Some fd \<Longrightarrow> \<exists>u. user_data st d = Some u"
    and "S d = Some fd \<Longrightarrow> user_data st d = Some u \<Longrightarrow> ud_type (up_ud st u) = FD_RANK \<Longrightarrow>
      \<exists>r. ud_rank (up_ud st u) = Some r \<and> vd_device_by_fd (fs_vdev (up_fs st) d) fd = Some r"
    and "up_ranks st r \<noteq> None \<longleftrightarrow> (\<exists>d. owns S st d r)"
    and "owns S st d r \<Longrightarrow> owns S st d' r \<Longrightarrow> d = d'"
    and "up_ranks st r \<noteq> None \<Longrightarrow> r < up_next st"
proof -
  note ok = assms [unfolded sessions_ok_def]
  show "user_data st d = Some u \<Longrightarrow> user_data st d' = Some u \<Longrightarrow> d = d'" using ok by blast
  show "user_data st d = Some u \<Longrightarrow> ud_opened (up_ud st u) \<longleftrightarrow> S d \<noteq> None" using ok by blast
  show "user_data st d = Some u \<Longrightarrow> ud_type (up_ud st u) = FD_DAX \<Longrightarrow> ud_rank (up_ud st u) = None" using ok by blast
  show "S d = Some fd \<Longrightarrow> 0 \<le> fd" using ok by blast
  show "S d = Some fd \<Longrightarrow> \<exists>u. user_data st d = Some u" using ok by blast
  show "S d = Some fd \<Longrightarrow> user_data st d = Some u \<Longrightarrow> ud_type (up_ud st u) = FD_RANK \<Longrightarrow>
      \<exists>r. ud_rank (up_ud st u) = Some r \<and> vd_device_by_fd (fs_vdev (up_fs st) d) fd = Some r"
    using ok by (metis not_Some_eq option.inject)
  show "up_ranks st r \<noteq> None \<longleftrightarrow> (\<exists>d. owns S st d r)" using ok by blast
  show "owns S st d r \<Longrightarrow> owns S st d' r \<Longrightarrow> d = d'" using ok by blast
  show "up_ranks st r \<noteq> None \<Longrightarrow> r < up_next st" using ok by blast
qed

text \<open>The changes that callbacks make: to the user data of one device, its entry in the map of devices, and one rank.\<close>

lemma sessions_ok_change:
  assumes "sessions_ok S st" and "user_data st d = Some u"
    and "user_data st' = user_data st" and "up_ud st' = (up_ud st)(u := x)" and "ud_type x = ud_type (up_ud st u)"
    and "ud_opened x \<longleftrightarrow> s \<noteq> None" and "\<And>fd. s = Some fd \<Longrightarrow> 0 \<le> fd" and "ud_type x = FD_DAX \<Longrightarrow> ud_rank x = None"
    and "\<And>d'. d' \<noteq> d \<Longrightarrow> fs_vdev (up_fs st') d' = fs_vdev (up_fs st) d'" and "up_next st \<le> up_next st'"
    and "\<And>fd. s = Some fd \<Longrightarrow> ud_type x = FD_RANK \<Longrightarrow> ud_rank x \<noteq> None \<and> vd_device_by_fd (fs_vdev (up_fs st') d) fd = ud_rank x"
    and "\<And>r. up_ranks st' r \<noteq> None \<longleftrightarrow> (if owns S st d r \<or> s \<noteq> None \<and> ud_type x = FD_RANK \<and> ud_rank x = Some r
           then s \<noteq> None \<and> ud_type x = FD_RANK \<and> ud_rank x = Some r else up_ranks st r \<noteq> None)"
    and "\<And>r. s \<noteq> None \<Longrightarrow> ud_type x = FD_RANK \<Longrightarrow> ud_rank x = Some r \<Longrightarrow> r < up_next st' \<and> (owns S st d r \<or> up_ranks st r = None)"
  shows "sessions_ok (S(d := s)) st'"
proof -
  note ok = sessions_okD [OF assms(1)]
  have ne: "u' \<noteq> u" if "user_data st d' = Some u'" "d' \<noteq> d" for d' u' using that ok(1) assms(2) by blast
  have o: "owns (S(d := s)) st' d' r \<longleftrightarrow>
      (if d' = d then s \<noteq> None \<and> ud_type x = FD_RANK \<and> ud_rank x = Some r else owns S st d' r)" for d' r
    using ne assms(2-5) by (auto simp: owns_def)
  have "up_ranks st' r \<noteq> None \<longleftrightarrow> (\<exists>d'. owns (S(d := s)) st' d' r)" for r
    using assms(12) [of r] assms(13) [of r] ok(7) [of r] ok(8) [of _ r d] o by (smt (verit))
  moreover have "d1 = d2" if "owns (S(d := s)) st' d1 r" "owns (S(d := s)) st' d2 r" for d1 d2 r
    using that assms(13) [of r] ok(7) [of r] ok(8) o by (smt (verit))
  moreover have "r < up_next st'" if "up_ranks st' r \<noteq> None" for r
    using that assms(10,12,13) ok(9) [of r] by (smt (verit) order_less_le_trans)
  moreover have "ud_opened (up_ud st' u') \<longleftrightarrow> (S(d := s)) d' \<noteq> None" if "user_data st' d' = Some u'" for d' u'
    using that assms(2-4,6) ne [of d' u'] ok(2) [of d' u'] by (cases "d' = d") auto
  moreover have "ud_rank (up_ud st' u') = None" if "user_data st' d' = Some u'" "ud_type (up_ud st' u') = FD_DAX" for d' u'
    using that assms(2-5,8) ne [of d' u'] ok(3) [of d' u'] by (cases "d' = d") auto
  moreover have "0 \<le> fd \<and> (\<exists>u. user_data st' d' = Some u \<and> (ud_type (up_ud st' u) = FD_RANK \<longrightarrow>
      ud_rank (up_ud st' u) \<noteq> None \<and> vd_device_by_fd (fs_vdev (up_fs st') d') fd = ud_rank (up_ud st' u)))" if "(S(d := s)) d' = Some fd" for d' fd
  proof (cases "d' = d")
    case True
    then show ?thesis using that assms(2-4,7,11) by auto
  next
    case False
    then show ?thesis using that assms(3,4,9) ne [of d'] ok(4-6) [of d' fd] by fastforce
  qed
  moreover have "d1 = d2" if "user_data st' d1 = Some u'" "user_data st' d2 = Some u'" for d1 d2 u' using that assms(3) ok(1) by simp
  ultimately show ?thesis unfolding sessions_ok_def by (intro conjI allI impI) (blast | metis)+
qed

lemma sessions_ok_same:
  assumes "sessions_ok S st" and "driver_view st' = driver_view st"
  shows "sessions_ok S st'"
  using assms view_cong(1) by blast

lemma register_exact:
  assumes "0 \<le> fd"
  shows "fst (pim_vdev_register_device pick alloc (Some d) fd (Some r) fs) = (if alloc then PIM_SUCCESS else PIM_ERR_NO_MEMORY)"
    and "\<not> alloc \<Longrightarrow> snd (pim_vdev_register_device pick alloc (Some d) fd (Some r) fs) = fs"
    and "alloc \<Longrightarrow> fs_vdev (snd (pim_vdev_register_device pick alloc (Some d) fd (Some r) fs)) =
      (fs_vdev fs)(d := (fs_vdev fs d)\<lparr>vd_device_by_fd := (vd_device_by_fd (fs_vdev fs d))(fd \<mapsto> r)\<rparr>)"
    and "g_vdev_list (snd (pim_vdev_register_device pick alloc (Some d) fd (Some r) fs)) = g_vdev_list fs"
  using assms by (simp_all add: pim_vdev_register_device_def Let_def set_vdev_def)

lemma user_data_devices:
  "g_vdev_list (up_fs st') = g_vdev_list (up_fs st) \<Longrightarrow>
   fs_vdev (up_fs st') = (fs_vdev (up_fs st))(d := (fs_vdev (up_fs st) d)\<lparr>vd_device_by_fd := m\<rparr>) \<Longrightarrow> user_data st' = user_data st"
  by (auto simp: user_data_def fun_eq_iff)

lemma sessions_ok_not_owned: "S d = None \<Longrightarrow> \<not> owns S st d r"
  by (simp add: owns_def)

lemma open_rank_succeeds:
  assumes "upmem_create_rank (oh_rank h) (oh_backing h) (oh_device h) = Inr sys" and "oh_register h" and "0 \<le> oh_fd h"
  obtains st' where "open_rank h d u st = Some (Inr (), st')"
    "up_ud st' = (up_ud st)(u := (up_ud st u)\<lparr>ud_rank := Some (up_next st)\<rparr>)"
    "up_ranks st' = (up_ranks st)(up_next st := Some sys)" "up_next st' = up_next st + 1" "g_vdev_list (up_fs st') = g_vdev_list (up_fs st)"
    "fs_vdev (up_fs st') = (fs_vdev (up_fs st))(d := (fs_vdev (up_fs st) d)
       \<lparr>vd_device_by_fd := (vd_device_by_fd (fs_vdev (up_fs st) d))(oh_fd h \<mapsto> up_next st)\<rparr>)"
  using assms by (simp add: open_rank_def Let_def case_prod_unfold register_exact)

text \<open>Opening a device that is not open.\<close>

lemma open_rank_ok:
  assumes "sessions_ok S st" and "user_data st d = Some u" and "S d = None" and "ud_type (up_ud st u) = FD_RANK" and "0 \<le> oh_fd h"
  shows "\<exists>ret st'. open_rank h d u st = Some (ret, st') \<and>
    (case ret of Inl e \<Rightarrow> sessions_ok S st' | Inr _ \<Rightarrow> sessions_ok (S(d \<mapsto> oh_fd h)) (upd_ud u (\<lambda>x. x\<lparr>ud_opened := True\<rparr>) st'))"
proof (cases "upmem_create_rank (oh_rank h) (oh_backing h) (oh_device h)")
  case (Inl e)
  then show ?thesis using sessions_ok_same [OF assms(1)] by (simp add: open_rank_def driver_view_def)
next
  case (Inr sys)
  note no = sessions_ok_not_owned [of S d st, OF assms(3)] and ok = sessions_okD [OF assms(1)]
  have fresh: "up_ranks st (up_next st) = None" using ok(9) [of "up_next st"] by (metis less_irrefl)
  have closed: "\<not> ud_opened (up_ud st u)" using ok(2) [OF assms(2)] assms(3) by simp
  show ?thesis
  proof (cases "oh_register h")
    case False
    let ?x = "(up_ud st u)\<lparr>ud_rank := Some (up_next st)\<rparr>"
    obtain st' where st': "open_rank h d u st = Some (Inl EBUSY, st')" "up_ud st' = (up_ud st)(u := ?x)"
      "up_ranks st' = up_ranks st" "up_next st' = up_next st + 1" "up_fs st' = up_fs st"
      using False Inr assms(5) fresh
      by (simp add: open_rank_def Let_def case_prod_unfold register_exact upmem_destroy_rank_def fun_upd_idem)
    have "sessions_ok (S(d := None)) st'"
      by (rule sessions_ok_change [where x = ?x, OF assms(1,2)]) (use st' no closed assms(4) in \<open>auto simp: user_data_def\<close>)
    then show ?thesis using st'(1) assms(3) by (simp add: fun_upd_idem)
  next
    case True
    let ?x = "(up_ud st u)\<lparr>ud_rank := Some (up_next st), ud_opened := True\<rparr>" and ?v = "fs_vdev (up_fs st) d"
    from open_rank_succeeds [OF Inr True assms(5)] obtain st' where st': "open_rank h d u st = Some (Inr (), st')"
      "up_ud st' = (up_ud st)(u := (up_ud st u)\<lparr>ud_rank := Some (up_next st)\<rparr>)"
      "up_ranks st' = (up_ranks st)(up_next st := Some sys)" "up_next st' = up_next st + 1" "g_vdev_list (up_fs st') = g_vdev_list (up_fs st)"
      "fs_vdev (up_fs st') = (fs_vdev (up_fs st))(d := ?v\<lparr>vd_device_by_fd := (vd_device_by_fd ?v)(oh_fd h \<mapsto> up_next st)\<rparr>)" .
    let ?st = "upd_ud u (\<lambda>x. x\<lparr>ud_opened := True\<rparr>) st'"
    have "user_data ?st = user_data st" using st'(5,6) by (intro user_data_devices) simp_all
    then have "sessions_ok (S(d \<mapsto> oh_fd h)) ?st"
      by (intro sessions_ok_change [where x = ?x, OF assms(1,2)]) (use st' no fresh assms(4,5) in auto)
    then show ?thesis using st'(1) by simp
  qed
qed

lemma cb_open_ok:
  assumes "sessions_ok S st" and "d \<in> set (g_vdev_list (up_fs st))"
  shows "\<exists>ret st'. vdev_open_cb h (Some d) st = Some (ret, st') \<and>
    (case ret of Inl e \<Rightarrow> sessions_ok S st' | Inr fd \<Rightarrow> S d = None \<and> sessions_ok (S(d \<mapsto> fd)) st')"
proof -
  let ?st = "hold_vdev (oh_hold h) d st"
  have ok: "sessions_ok S ?st" by (rule sessions_ok_same [OF assms(1)]) simp
  have ud: "pim_vdev_get_user_data (Some d) (up_fs ?st) = user_data ?st d" using assms(2) by (intro user_data_eq) simp
  show ?thesis
  proof (cases "open_admitted d ?st")
    case None
    then show ?thesis using sessions_ok_same [OF ok] by (simp add: vdev_open_cb_def Let_def)
  next
    case (Some u)
    then have u: "user_data ?st d = Some u" "\<not> ud_opened (up_ud ?st u)"
      by (auto simp: open_admitted_def ud split: option.splits if_splits)
    then have "S d = None" using sessions_okD(2) [OF ok u(1)] by simp
    have "\<exists>ret st'. open_session h d u ?st = Some (ret, st') \<and>
        (case ret of Inl e \<Rightarrow> sessions_ok S st' | Inr fd \<Rightarrow> sessions_ok (S(d \<mapsto> fd)) st')"
    proof (cases "oh_fd h < 0")
      case True
      then show ?thesis using ok by (simp add: open_session_def)
    next
      case False
      then have fd: "0 \<le> oh_fd h" by simp
      show ?thesis
      proof (cases "ud_type (up_ud ?st u)")
        case FD_RANK
        from open_rank_ok [OF ok u(1) \<open>S d = None\<close> this fd] obtain ret st' where "open_rank h d u ?st = Some (ret, st')"
          "case ret of Inl e \<Rightarrow> sessions_ok S st' | Inr _ \<Rightarrow> sessions_ok (S(d \<mapsto> oh_fd h)) (upd_ud u (\<lambda>x. x\<lparr>ud_opened := True\<rparr>) st')"
          by blast
        then show ?thesis using FD_RANK fd by (cases ret) (simp_all add: open_session_def)
      next
        case FD_DAX
        let ?x = "(up_ud ?st u)\<lparr>ud_opened := True\<rparr>"
        have "sessions_ok (S(d \<mapsto> oh_fd h)) (upd_ud u (\<lambda>d. d\<lparr>ud_opened := True\<rparr>) ?st)"
          by (rule sessions_ok_change [where x = ?x, OF ok u(1)])
            (use FD_DAX fd sessions_okD(3) [OF ok u(1)] sessions_ok_not_owned [of S d, OF \<open>S d = None\<close>] in \<open>auto simp: user_data_def\<close>)
        then show ?thesis using FD_DAX fd by (simp add: open_session_def)
      qed
    qed
    then show ?thesis using Some \<open>S d = None\<close> sessions_ok_same
      by (fastforce simp: vdev_open_cb_def Let_def split: sum.splits)
  qed
qed

lemma user_data_get: "user_data st d = Some u \<Longrightarrow> pim_vdev_get_user_data (Some d) (up_fs (hold_vdev a d st)) = Some u"
  by (auto simp: user_data_def pim_vdev_get_user_data_def split: if_splits)

lemma request_ok:
  assumes "sessions_ok S st" and "S d = Some fd"
  shows "\<exists>ret st'. rank_ioctl_cb hold env um (Some d) fd cmd arg st = Some (ret, st') \<and> sessions_ok S st'"
proof -
  note ok = sessions_okD [OF assms(1)]
  obtain u where u: "user_data st d = Some u" using ok(5) [OF assms(2)] by blast
  have ge: "0 \<le> fd" using ok(4) [OF assms(2)] .
  let ?st = "hold_vdev hold d st"
  show ?thesis
  proof (cases "ud_rank (up_ud st u)")
    case None
    then show ?thesis using ge user_data_get [OF u] sessions_ok_same [OF assms(1)]
      by (simp add: rank_ioctl_cb_def Let_def)
  next
    case (Some r)
    then have rank: "ud_type (up_ud st u) = FD_RANK" using ok(3) [OF u] by (cases "ud_type (up_ud st u)") auto
    then have own: "owns S st d r' \<longleftrightarrow> r' = r" for r' using u Some assms(2) by (auto simp: owns_def)
    then have "up_ranks st r \<noteq> None" using ok(7) [of r] by blast
    then obtain sys where sys: "up_ranks st r = Some sys" by blast
    obtain ret sys' where io: "rank_ioctl env um cmd arg sys = (ret, Some sys')"
      using rank_ioctl_keeps [of env um cmd arg sys] by (metis option.exhaust prod.collapse)
    let ?st' = "release_vdev d (put_rank r (Some sys') ?st)"
    have "sessions_ok (S(d := S d)) ?st'"
      by (rule sessions_ok_change [where x = "up_ud st u", OF assms(1) u])
        (use own sys rank Some assms(2) ok(2) [OF u] ok(3) [OF u] ok(4) ok(6) [OF assms(2) u rank] ok(9) [of r] in \<open>auto simp: user_data_def\<close>)
    then show ?thesis using ge Some user_data_get [OF u] sys io by (simp add: rank_ioctl_cb_def Let_def)
  qed
qed

lemma unregister_exact:
  assumes "0 \<le> fd"
  shows "fs_vdev (snd (pim_vdev_unregister_device pick (Some d) fd fs)) =
      (fs_vdev fs)(d := (fs_vdev fs d)\<lparr>vd_device_by_fd := (vd_device_by_fd (fs_vdev fs d))(fd := None)\<rparr>)"
    and "g_vdev_list (snd (pim_vdev_unregister_device pick (Some d) fd fs)) = g_vdev_list fs"
  using assms by (simp_all add: pim_vdev_unregister_device_def Let_def set_vdev_def fun_upd_idem)

lemma close_registered:
  assumes "user_data st d = Some u" and "0 \<le> fd" and "vd_device_by_fd (fs_vdev (up_fs st) d) fd \<noteq> None"
    and "\<And>r. ud_rank (up_ud st u) = Some r \<Longrightarrow> up_ranks st r \<noteq> None"
  obtains st' where "vdev_close_cb hold pick (Some d) fd st = Some (Inr 0, st')"
    "up_ud st' = (up_ud st)(u := (up_ud st u)\<lparr>ud_rank := None, ud_opened := False\<rparr>)"
    "up_ranks st' = (\<lambda>r. if ud_rank (up_ud st u) = Some r then None else up_ranks st r)" "up_next st' = up_next st"
    "g_vdev_list (up_fs st') = g_vdev_list (up_fs st)"
    "fs_vdev (up_fs st') = (fs_vdev (up_fs st))(d := (fs_vdev (up_fs st) d)\<lparr>vd_device_by_fd := (vd_device_by_fd (fs_vdev (up_fs st) d))(fd := None)\<rparr>)"
proof (cases "ud_rank (up_ud st u)")
  case None
  then have "(up_ud st u)\<lparr>ud_rank := None, ud_opened := False\<rparr> = (up_ud st u)\<lparr>ud_opened := False\<rparr>" by simp
  with None that show ?thesis using assms(2,3) user_data_get [OF assms(1)]
    by (simp add: vdev_close_cb_def Let_def pim_vdev_find_device_def close_rank_def unregister_exact)
next
  case (Some r)
  with that assms(4) [OF Some] show ?thesis using assms(2,3) user_data_get [OF assms(1)]
    by (simp add: vdev_close_cb_def Let_def pim_vdev_find_device_def close_rank_def upmem_destroy_rank_def unregister_exact fun_upd_def eq_commute cong: if_cong)
qed

lemma cb_close_ok:
  assumes "sessions_ok S st" and "S d = Some fd"
  shows "\<exists>ret st'. vdev_close_cb hold pick (Some d) fd st = Some (ret, st') \<and> sessions_ok (S(d := None)) st'"
proof -
  note ok = sessions_okD [OF assms(1)]
  obtain u where u: "user_data st d = Some u" using ok(5) [OF assms(2)] by blast
  have ge: "0 \<le> fd" using ok(4) [OF assms(2)] .
  let ?st = "hold_vdev hold d st" and ?x = "(up_ud st u)\<lparr>ud_opened := False, ud_rank := None\<rparr>" and ?v = "fs_vdev (up_fs st) d"
  have "\<exists>st' m. vdev_close_cb hold pick (Some d) fd st = Some (Inr 0, st') \<and> up_ud st' = (up_ud st)(u := ?x) \<and>
    g_vdev_list (up_fs st') = g_vdev_list (up_fs st) \<and> fs_vdev (up_fs st') = (fs_vdev (up_fs st))(d := ?v\<lparr>vd_device_by_fd := m\<rparr>) \<and>
    up_next st' = up_next st \<and> (\<forall>r. up_ranks st' r \<noteq> None \<longleftrightarrow> up_ranks st r \<noteq> None \<and> \<not> owns S st d r)"
  proof (cases "ud_type (up_ud st u)")
    case FD_RANK
    obtain r where r: "ud_rank (up_ud st u) = Some r" "vd_device_by_fd ?v fd = Some r" using ok(6) [OF assms(2) u FD_RANK] by blast
    have own: "owns S st d r' \<longleftrightarrow> r' = r" for r' using u FD_RANK r(1) assms(2) by (auto simp: owns_def)
    then have "up_ranks st r \<noteq> None" using ok(7) [of r] by blast
    then show ?thesis using ge r user_data_get [OF u] own
      by (auto simp: vdev_close_cb_def Let_def pim_vdev_find_device_def close_rank_def upmem_destroy_rank_def unregister_exact)
  next
    case FD_DAX
    then have "ud_rank (up_ud st u) = None" by (rule ok(3) [OF u])
    then have x: "?x = (up_ud st u)\<lparr>ud_opened := False\<rparr>" by simp
    have "\<not> owns S st d r" for r using u FD_DAX by (auto simp: owns_def)
    then show ?thesis unfolding x using ge user_data_get [OF u] \<open>ud_rank (up_ud st u) = None\<close>
      by (cases "vd_device_by_fd ?v fd")
        (auto simp: vdev_close_cb_def Let_def pim_vdev_find_device_def close_rank_def unregister_exact fun_upd_idem intro: exI [of _ "vd_device_by_fd ?v"])
  qed
  then obtain st' m where st': "vdev_close_cb hold pick (Some d) fd st = Some (Inr 0, st')" "up_ud st' = (up_ud st)(u := ?x)"
    "g_vdev_list (up_fs st') = g_vdev_list (up_fs st)" "fs_vdev (up_fs st') = (fs_vdev (up_fs st))(d := ?v\<lparr>vd_device_by_fd := m\<rparr>)"
    "up_next st' = up_next st" "\<And>r. up_ranks st' r \<noteq> None \<longleftrightarrow> up_ranks st r \<noteq> None \<and> \<not> owns S st d r" by blast
  have "sessions_ok (S(d := None)) st'"
    by (rule sessions_ok_change [where x = ?x, OF assms(1) u user_data_devices [OF st'(3,4)] st'(2)]) (use st'(4-6) in auto)
  then show ?thesis using st'(1) by blast
qed

lemma reachable_ok:
  assumes "cb_step\<^sup>*\<^sup>* (S, st) (S', st')" and "sessions_ok S st"
  shows "sessions_ok S' st'"
  using assms
proof (induction rule: rtranclp_induct2)
  case (step S1 st1 S2 st2)
  from step.hyps(2) show ?case
  proof cases
    case (opened d h fd)
    from cb_open_ok [OF step.IH [OF step.prems] opened(2), of h] opened(3) have "sessions_ok (S1(d \<mapsto> fd)) st2" by simp
    then show ?thesis unfolding opened(1) .
  next
    case (refused d h e)
    then show ?thesis using cb_open_ok [OF step.IH [OF step.prems], of d h] by auto
  next
    case (request d fd hold env um cmd arg ret)
    then show ?thesis using request_ok [OF step.IH [OF step.prems] request(2), of hold env um cmd arg] by auto
  next
    case (closed d fd hold pick ret)
    from cb_close_ok [OF step.IH [OF step.prems] closed(2), of hold pick] closed(3) have "sessions_ok (S1(d := None)) st2" by simp
    then show ?thesis unfolding closed(1) .
  qed
qed

section \<open>Sessions in sequence\<close>

text \<open>C26. Whatever sequence of opening, control requests and closing, with any failure of the operating system in between: the ranks
  that exist are those of the sessions that are open, one each, so that none is left behind; no call uses a rank that
  has been deleted; and a device that is open cannot be opened again.\<close>

theorem rank_sessions_exact:
  assumes "driver_idle st0" and "cb_step\<^sup>*\<^sup>* (Map.empty, st0) (S, st)"
  shows "(\<forall>r. up_ranks st r \<noteq> None \<longleftrightarrow> (\<exists>d. owns S st d r)) \<and>
    (\<forall>d d' r. owns S st d r \<and> owns S st d' r \<longrightarrow> d = d') \<and>
    (\<forall>d fd. S d = Some fd \<longrightarrow>
      (\<exists>st'. vdev_open_cb h (Some d) st = Some (Inl EINVAL, st') \<and> driver_view st' = driver_view st) \<and>
      rank_ioctl_cb hold env um (Some d) fd cmd arg st \<noteq> None \<and>
      vdev_close_cb hold pick (Some d) fd st \<noteq> None) \<and>
    (\<forall>d \<in> set (g_vdev_list (up_fs st)). vdev_open_cb h (Some d) st \<noteq> None)"
proof -
  have ok: "sessions_ok S st" using reachable_ok [OF assms(2) idle_ok [OF assms(1)]] .
  have "\<exists>st'. vdev_open_cb h (Some d) st = Some (Inl EINVAL, st') \<and> driver_view st' = driver_view st" if s: "S d = Some fd" for d fd
  proof -
    obtain u where u: "user_data st d = Some u" using sessions_okD(5) [OF ok s] by blast
    have "ud_opened (up_ud st u)" using sessions_okD(2) [OF ok u] s by simp
    then show ?thesis using user_data_get [OF u] by (simp add: vdev_open_cb_def Let_def open_admitted_def)
  qed
  moreover have "rank_ioctl_cb hold env um (Some d) fd cmd arg st \<noteq> None" if "S d = Some fd" for d fd
    using request_ok [OF ok that, of hold env um cmd arg] by force
  moreover have "vdev_close_cb hold pick (Some d) fd st \<noteq> None" if "S d = Some fd" for d fd
    using cb_close_ok [OF ok that, of hold pick] by force
  moreover have "vdev_open_cb h (Some d) st \<noteq> None" if "d \<in> set (g_vdev_list (up_fs st))" for d
    using cb_open_ok [OF ok that, of h] by force
  ultimately show ?thesis using sessions_okD(7,8) [OF ok] by blast
qed

text \<open>The devices of the plug-in, and a host that refuses nothing.\<close>

definition upmem_start :: upmem where
  "upmem_start =
     \<lparr>up_fs = vfs_init, up_ud = (\<lambda>_. \<lparr>ud_type = FD_DAX, ud_opened = False, ud_rank = None\<rparr>), up_ranks = (\<lambda>_. None), up_next = 0,
      up_closed = []\<rparr>"

definition upmem_ready :: upmem where
  "upmem_ready = snd (setup_devices upmem_start)"

definition willing_host :: "int \<Rightarrow> open_host" where
  "willing_host fd = \<lparr>oh_hold = True, oh_fd = fd, oh_errno = EMFILE, oh_rank = True, oh_backing = Some (\<lambda>_. 0), oh_device = True,
     oh_register = True, oh_pick = (\<lambda>_. None)\<rparr>"

lemma upmem_ready_devices:
  "map (\<lambda>d. (d, user_data upmem_ready d, up_ud upmem_ready (the (user_data upmem_ready d)))) (g_vdev_list (up_fs upmem_ready)) =
     [(3, Some 0, \<lparr>ud_type = FD_RANK, ud_opened = False, ud_rank = None\<rparr>), (4, Some 1, \<lparr>ud_type = FD_DAX, ud_opened = False, ud_rank = None\<rparr>)]"
  by code_simp

lemma upmem_ready_ranks: "up_ranks upmem_ready = (\<lambda>_. None)"
proof -
  have n: "up_ranks (new_user_data t v s) = up_ranks s" for t v s by (simp add: new_user_data_def Let_def)
  have "up_ranks (snd (make_dax_vdev x)) = up_ranks (snd x)" for x
    by (cases x rule: make_dax_vdev.cases) (simp add: n split: prod.split)
  moreover have "up_ranks (snd (make_rank_vdev s y)) = up_ranks s" for s y
    by (cases "(s, y)" rule: make_rank_vdev.cases) (simp add: n split: prod.split)
  ultimately show ?thesis by (simp add: upmem_ready_def setup_devices_def upmem_start_def)
qed

lemma upmem_ready_idle: "driver_idle upmem_ready"
  using upmem_ready_devices by (auto simp: driver_idle_def upmem_ready_ranks)

lemma open_willing:
  assumes "0 \<le> a" and "ud_type (up_ud st u) = FD_RANK"
  obtains st' sys where "open_session (willing_host a) d u st = Some (Inr a, st')"
    "up_ud st' = (up_ud st)(u := (up_ud st u)\<lparr>ud_rank := Some (up_next st), ud_opened := True\<rparr>)"
    "up_ranks st' = (up_ranks st)(up_next st := Some sys)" "up_next st' = up_next st + 1" "g_vdev_list (up_fs st') = g_vdev_list (up_fs st)"
    "fs_vdev (up_fs st') = (fs_vdev (up_fs st))(d := (fs_vdev (up_fs st) d)
       \<lparr>vd_device_by_fd := (vd_device_by_fd (fs_vdev (up_fs st) d))(a \<mapsto> up_next st)\<rparr>)"
proof -
  let ?h = "willing_host a"
  have h: "oh_fd ?h = a" "oh_register ?h" by (simp_all add: willing_host_def)
  obtain sys where sys: "upmem_create_rank (oh_rank ?h) (oh_backing ?h) (oh_device ?h) = Inr sys"
    by (simp add: willing_host_def upmem_create_rank_def pim_device_init_def pim_device_setup_common_def kRankApertureSizeBytes_def)
  from open_rank_succeeds [OF sys h(2), of d u st, unfolded h(1), OF assms(1)] obtain st' where
    "open_rank ?h d u st = Some (Inr (), st')" "up_ud st' = (up_ud st)(u := (up_ud st u)\<lparr>ud_rank := Some (up_next st)\<rparr>)"
    "up_ranks st' = (up_ranks st)(up_next st := Some sys)" "up_next st' = up_next st + 1" "g_vdev_list (up_fs st') = g_vdev_list (up_fs st)"
    "fs_vdev (up_fs st') = (fs_vdev (up_fs st))(d := (fs_vdev (up_fs st) d)
       \<lparr>vd_device_by_fd := (vd_device_by_fd (fs_vdev (up_fs st) d))(a \<mapsto> up_next st)\<rparr>)" .
  then show ?thesis using assms h(1)
    by (intro that [of "upd_ud u (\<lambda>x. x\<lparr>ud_opened := True\<rparr>) st'" sys]) (simp_all add: open_session_def)
qed

theorem rank_sessions_exact_witness:
  "\<exists>st st'. vdev_open_cb (willing_host 5) (Some 3) upmem_ready = Some (Inr 5, st) \<and>
     vdev_open_cb (willing_host 6) (Some 3) st = Some (Inl EINVAL, st') \<and> driver_view st' = driver_view st"
proof -
  have ud: "user_data upmem_ready 3 = Some 0" "up_ud upmem_ready 0 = \<lparr>ud_type = FD_RANK, ud_opened = False, ud_rank = None\<rparr>"
    "3 \<in> set (g_vdev_list (up_fs upmem_ready))"
    using upmem_ready_devices by auto
  have "\<exists>st. vdev_open_cb (willing_host 5) (Some 3) upmem_ready = Some (Inr 5, st)"
  proof -
    have "open_admitted 3 (hold_vdev True 3 upmem_ready) = Some 0" using ud(2) user_data_get [OF ud(1), of True] by (simp add: open_admitted_def)
    moreover obtain st where "open_session (willing_host 5) 3 0 (hold_vdev True 3 upmem_ready) = Some (Inr 5, st)"
      by (rule open_willing [of 5 "hold_vdev True 3 upmem_ready" 0 3]) (simp_all add: ud(2))
    ultimately show ?thesis by (simp add: vdev_open_cb_def Let_def willing_host_def)
  qed
  then obtain st where st: "vdev_open_cb (willing_host 5) (Some 3) upmem_ready = Some (Inr 5, st)" by blast
  have "cb_step (Map.empty, upmem_ready) ([3 \<mapsto> 5], st)" by (rule cb_step.opened [OF ud(3) st])
  then have "cb_step\<^sup>*\<^sup>* (Map.empty, upmem_ready) ([3 \<mapsto> 5], st)" by blast
  from rank_sessions_exact [OF upmem_ready_idle this, of "willing_host 6"] st show ?thesis by auto
qed

section \<open>Opening in parallel\<close>

text \<open>Two threads that open the same rank: \<open>pim_vdev_lock\<close> counts a reference and keeps nobody out, so both can find the device not
  open before one of them marks it. Both succeed, each with a rank of its own, but only the second rank is
  remembered. Closing the first session then deletes the rank of the second, whose requests fail from then on, and
  the rank of the first session is never deleted.\<close>

theorem rank_opened_twice:
  assumes "sessions_ok S st" and "user_data st d = Some u" and "S d = None" and "ud_type (up_ud st u) = FD_RANK"
    and "0 \<le> a" and "0 \<le> b" and "a \<noteq> b"
  shows "\<exists>st1 st2 st3 st4. open_admitted d st = Some u \<and>
    open_session (willing_host a) d u st = Some (Inr a, st1) \<and> open_session (willing_host b) d u st1 = Some (Inr b, st2) \<and>
    vdev_close_cb True pick (Some d) a st2 = Some (Inr 0, st3) \<and>
    up_ranks st2 (up_next st) \<noteq> None \<and> up_ranks st2 (up_next st + 1) \<noteq> None \<and> up_ranks st3 (up_next st + 1) = None \<and>
    (\<exists>st'. rank_ioctl_cb True env um (Some d) b cmd arg st3 = Some (Inl ENODEV, st')) \<and>
    vdev_close_cb True pick (Some d) b st3 = Some (Inr 0, st4) \<and> up_ranks st4 (up_next st) \<noteq> None \<and>
    ud_rank (up_ud st4 u) = None \<and> \<not> ud_opened (up_ud st4 u)"
proof -
  obtain st1 s1 where 1: "open_session (willing_host a) d u st = Some (Inr a, st1)"
    "up_ud st1 = (up_ud st)(u := (up_ud st u)\<lparr>ud_rank := Some (up_next st), ud_opened := True\<rparr>)"
    "up_ranks st1 = (up_ranks st)(up_next st := Some s1)" "up_next st1 = up_next st + 1" "g_vdev_list (up_fs st1) = g_vdev_list (up_fs st)"
    "fs_vdev (up_fs st1) = (fs_vdev (up_fs st))(d := (fs_vdev (up_fs st) d)
       \<lparr>vd_device_by_fd := (vd_device_by_fd (fs_vdev (up_fs st) d))(a \<mapsto> up_next st)\<rparr>)"
    by (rule open_willing [OF assms(5,4)])
  have "ud_type (up_ud st1 u) = FD_RANK" using 1(2) assms(4) by simp
  then obtain st2 s2 where 2: "open_session (willing_host b) d u st1 = Some (Inr b, st2)"
    "up_ud st2 = (up_ud st1)(u := (up_ud st1 u)\<lparr>ud_rank := Some (up_next st1), ud_opened := True\<rparr>)"
    "up_ranks st2 = (up_ranks st1)(up_next st1 := Some s2)" "g_vdev_list (up_fs st2) = g_vdev_list (up_fs st1)"
    "fs_vdev (up_fs st2) = (fs_vdev (up_fs st1))(d := (fs_vdev (up_fs st1) d)
       \<lparr>vd_device_by_fd := (vd_device_by_fd (fs_vdev (up_fs st1) d))(b \<mapsto> up_next st1)\<rparr>)"
    by (rule open_willing [OF assms(6)])
  have u2: "user_data st2 d = Some u" using user_data_devices [OF 2(4,5)] user_data_devices [OF 1(5,6)] assms(2) by simp
  obtain st3 where 3: "vdev_close_cb True pick (Some d) a st2 = Some (Inr 0, st3)"
    "up_ud st3 = (up_ud st2)(u := (up_ud st2 u)\<lparr>ud_rank := None, ud_opened := False\<rparr>)"
    "up_ranks st3 = (\<lambda>r. if ud_rank (up_ud st2 u) = Some r then None else up_ranks st2 r)" "g_vdev_list (up_fs st3) = g_vdev_list (up_fs st2)"
    "fs_vdev (up_fs st3) = (fs_vdev (up_fs st2))(d := (fs_vdev (up_fs st2) d)\<lparr>vd_device_by_fd := (vd_device_by_fd (fs_vdev (up_fs st2) d))(a := None)\<rparr>)"
    by (rule close_registered [OF u2 assms(5), of True pick]) (use 1(6) 2(2,3,5) in auto)
  have u3: "user_data st3 d = Some u" using user_data_devices [OF 3(4,5)] u2 by simp
  obtain st4 where 4: "vdev_close_cb True pick (Some d) b st3 = Some (Inr 0, st4)"
    "up_ud st4 = (up_ud st3)(u := (up_ud st3 u)\<lparr>ud_rank := None, ud_opened := False\<rparr>)"
    "up_ranks st4 = (\<lambda>r. if ud_rank (up_ud st3 u) = Some r then None else up_ranks st3 r)"
    by (rule close_registered [OF u3 assms(6), of True pick]) (use 2(5) 3(2,5) assms(7) in auto)
  have "\<exists>st'. rank_ioctl_cb True env um (Some d) b cmd arg st3 = Some (Inl ENODEV, st')"
    using user_data_get [OF u3] 3(2) assms(6) by (simp add: rank_ioctl_cb_def Let_def)
  moreover have "open_admitted d st = Some u"
    using assms(2) sessions_okD(2) [OF assms(1,2)] assms(3)
    by (auto simp: open_admitted_def user_data_def pim_vdev_get_user_data_def split: if_splits)
  ultimately show ?thesis using 1 2 3(1-3) 4 by (intro exI [of _ st1] exI [of _ st2] exI [of _ st3] exI [of _ st4]) simp
qed

end
