(* ===== verification/Sigsegv_Decode.thy ===== *)
theory Sigsegv_Decode
  imports Prelude
begin

text \<open>
  The instruction decoders of the signal handler (\<open>src/sigsegv.cc\<close>). A store to a protected region faults; the
  handler reads the faulting instruction and finds out the size and the value of the store and the length of the
  instruction, by which execution is moved on.

  The x86 decoder reads the bytes from the instruction pointer on; \<open>Overrun\<close> stands for a read behind the last mapped
  byte. Registers are numbered as in the encoding. The AArch64 decoder reads one 32-bit word.
\<close>

unbundle bit_operations_syntax

section \<open>The x86 decoder\<close>

datatype decode_result = Decoded nat u64 nat | Miss | Overrun

type_synonym x86_regs = "nat \<Rightarrow> u64"

definition read_x86_reg_value :: "x86_regs \<Rightarrow> nat \<Rightarrow> nat \<Rightarrow> u64" where
  "read_x86_reg_value regs reg write_size =
     (let val = regs reg
      in if write_size = 1 then val AND 0xFF
         else if write_size = 2 then val AND 0xFFFF
         else if write_size = 4 then val AND 0xFFFFFFFF
         else val)"

definition x86_modrm_len :: "u8 \<Rightarrow> bool \<Rightarrow> nat" where
  "x86_modrm_len modrm rex_b =
     (let md = drop_bit 6 modrm AND 3;
          rm = (modrm AND 7) OR (if rex_b then 8 else 0);
          len = 1;
          len = (if md = 0 \<and> rm AND 7 = 5 then len + 4 else if md = 1 then len + 1 else if md = 2 then len + 4 else len)
      in if rm AND 7 = 4 then len + 1 else len)"

record x86_prefixes =
  px_rex_w :: bool
  px_rex_r :: bool
  px_rex_b :: bool
  px_has_66 :: bool

definition no_prefixes :: x86_prefixes where
  "no_prefixes = \<lparr>px_rex_w = False, px_rex_r = False, px_rex_b = False, px_has_66 = False\<rparr>"

definition skipped_prefix :: "u8 \<Rightarrow> bool" where
  "skipped_prefix b \<longleftrightarrow> b \<in> {0x67, 0xF2, 0xF3, 0x2E, 0x36, 0x3E, 0x26, 0x64, 0x65}"

fun parse_prefixes :: "x86_prefixes \<Rightarrow> u8 list \<Rightarrow> x86_prefixes \<times> u8 list" where
  "parse_prefixes px [] = (px, [])"
| "parse_prefixes px (b # p) =
     (if b = 0x66 then parse_prefixes (px\<lparr>px_has_66 := True\<rparr>) p
      else if skipped_prefix b then parse_prefixes px p
      else if b AND 0xF0 = 0x40
      then parse_prefixes (px\<lparr>px_rex_w := (b AND 8 \<noteq> 0), px_rex_r := (b AND 4 \<noteq> 0), px_rex_b := (b AND 1 \<noteq> 0)\<rparr>) p
      else (px, b # p))"

definition modrm_reg :: "x86_prefixes \<Rightarrow> u8 \<Rightarrow> nat" where
  "modrm_reg px modrm = unat ((drop_bit 3 modrm AND 7) OR (if px_rex_r px then 8 else 0))"

text \<open>A store of a register, and of an immediate operand of \<open>imm_size\<close> bytes; \<open>p\<close> are the bytes from the ModRM byte on.\<close>

definition decode_reg_store :: "x86_regs \<Rightarrow> x86_prefixes \<Rightarrow> nat \<Rightarrow> u8 list \<Rightarrow> u8 list \<Rightarrow> decode_result" where
  "decode_reg_store regs px write_size rip p =
     (case p of
        [] \<Rightarrow> Overrun
      | modrm # p \<Rightarrow>
          Decoded write_size (read_x86_reg_value regs (modrm_reg px modrm) write_size)
            (length rip - length p + x86_modrm_len modrm (px_rex_b px) - 1))"

definition decode_imm_store :: "x86_prefixes \<Rightarrow> nat \<Rightarrow> nat \<Rightarrow> (u8 list \<Rightarrow> u64) \<Rightarrow> u8 list \<Rightarrow> u8 list \<Rightarrow> decode_result" where
  "decode_imm_store px write_size imm_size imm_value rip p =
     (case p of
        [] \<Rightarrow> Overrun
      | modrm # p \<Rightarrow>
          if drop_bit 3 modrm AND 7 \<noteq> 0 then Miss
          else
            let imm_ptr = length rip - length p + x86_modrm_len modrm (px_rex_b px) - 1
            in if imm_ptr + imm_size > length rip then Overrun
               else Decoded write_size (imm_value (take imm_size (drop imm_ptr rip))) (imm_ptr + imm_size))"

definition le_value :: "u8 list \<Rightarrow> u64" where
  "le_value bs = foldr (\<lambda>b v. ucast b + 256 * v) bs 0"

definition decode_x86_write :: "u8 list \<Rightarrow> x86_regs \<Rightarrow> decode_result" where
  "decode_x86_write rip regs =
     (let (px, p) = parse_prefixes no_prefixes rip;
          opsize = (if px_rex_w px then 8 else if px_has_66 px then 2 else 4 :: nat)
      in case p of
           [] \<Rightarrow> Overrun
         | opcode # p \<Rightarrow>
             if opcode = 0x0F
             then (case p of
                     [] \<Rightarrow> Overrun
                   | opcode2 # p \<Rightarrow> if opcode2 = 0xC3 then decode_reg_store regs px opsize rip p else Miss)
             else if opcode = 0x88 then decode_reg_store regs px 1 rip p
             else if opcode = 0x89 then decode_reg_store regs px opsize rip p
             else if opcode = 0xC6 then decode_imm_store px 1 1 le_value rip p
             else if opcode = 0xC7
             then decode_imm_store px opsize (if opsize = 2 then 2 else 4)
                    (\<lambda>imm. if opsize = 8 then scast (ucast (le_value imm) :: u32) else le_value imm) rip p
             else Miss)"

section \<open>The AArch64 decoder\<close>

definition arm64_store_value :: "u32 \<Rightarrow> u64 \<Rightarrow> decode_result" where
  "arm64_store_value opc xreg =
     (if opc = 0 then Decoded 1 (xreg AND 0xFF) 4
      else if opc = 1 then Decoded 2 (xreg AND 0xFFFF) 4
      else if opc = 2 then Decoded 4 (xreg AND 0xFFFFFFFF) 4
      else Decoded 8 xreg 4)"

definition decode_arm64_write :: "u32 \<Rightarrow> (nat \<Rightarrow> u64) \<Rightarrow> decode_result" where
  "decode_arm64_write insn regs =
     (let opc = drop_bit 30 insn AND 3;
          op1 = drop_bit 22 insn AND 0x3FF
      in if op1 AND 0x3F9 = 0x1C1 then arm64_store_value opc (regs (unat (insn AND 0x1F)))
         else if op1 AND 0x3F8 = 0x1C0 \<and> drop_bit 10 insn AND 3 = 0 then arm64_store_value opc (regs (unat (insn AND 0x1F)))
         else Miss)"

text \<open>The two encodings that the comments of the decoder name: \<open>STR\<close> with an unsigned offset and \<open>STUR\<close>, of \<open>2 ^ sz\<close> bytes.\<close>

definition arm64_str :: "2 word \<Rightarrow> 12 word \<Rightarrow> 5 word \<Rightarrow> 5 word \<Rightarrow> u32" where
  "arm64_str sz imm12 rn rt =
     push_bit 30 (ucast sz) OR push_bit 22 0xE4 OR push_bit 10 (ucast imm12) OR push_bit 5 (ucast rn) OR ucast rt"

definition arm64_stur :: "2 word \<Rightarrow> 9 word \<Rightarrow> 5 word \<Rightarrow> 5 word \<Rightarrow> u32" where
  "arm64_stur sz imm9 rn rt =
     push_bit 30 (ucast sz) OR push_bit 22 0xE0 OR push_bit 12 (ucast imm9) OR push_bit 5 (ucast rn) OR ucast rt"

end
