(* ===== verification/Sigsegv_Decode_Props.thy ===== *)
theory Sigsegv_Decode_Props
  imports Sigsegv_Decode
begin

text \<open>
  The decoders against the encodings of the architecture manuals: the x86 decoder finds size, value and length of every
  store it supports, with two exceptions; the AArch64 decoder recognises none of the stores its comments name.
\<close>

section \<open>AArch64\<close>

lemma arm64_bit27:
  assumes "bit insn 27"
  shows "decode_arm64_write insn regs = Miss"
proof -
  define op1 where "op1 = drop_bit 22 insn AND 0x3FF"
  have "bit op1 5" using assms by (simp add: op1_def bit_and_iff bit_drop_bit_eq)
  then have "bit (op1 AND 0x3F9) 5" "bit (op1 AND 0x3F8) 5" by (simp_all add: bit_and_iff)
  moreover have "\<not> bit (0x1C1 :: u32) 5" "\<not> bit (0x1C0 :: u32) 5" by simp_all
  ultimately have "op1 AND 0x3F9 \<noteq> 0x1C1" "op1 AND 0x3F8 \<noteq> 0x1C0" by metis+
  then show ?thesis unfolding decode_arm64_write_def Let_def by (fold op1_def) simp
qed

lemma arm64_encodings_bit27: "bit (arm64_str sz imm12 rn rt) 27" "bit (arm64_stur sz imm9 rn rt) 27"
  unfolding arm64_str_def arm64_stur_def bit_or_iff by simp_all

section \<open>The memory operands of x86\<close>

text \<open>A ModRM byte with what follows it, after table 2-2 of the manual: the fields \<open>rm\<close>, \<open>scale\<close>, \<open>index\<close> and \<open>base\<close> with
  the displacement.\<close>

datatype x86_mem =
    M_Base nat
  | M_Rip "u8 list"
  | M_Base_Disp8 nat u8
  | M_Base_Disp32 nat "u8 list"
  | M_Sib nat nat nat
  | M_Sib_Disp8 nat nat nat u8
  | M_Sib_Disp32 nat nat nat "u8 list"
  | M_Sib_No_Base nat nat "u8 list"

definition modrm_fields :: "nat \<Rightarrow> nat \<Rightarrow> nat \<Rightarrow> u8" where
  "modrm_fields a b c = of_nat (a * 64 + b * 8 + c)"

fun mem_ok :: "x86_mem \<Rightarrow> bool" where
  "mem_ok (M_Base rm) \<longleftrightarrow> rm < 8 \<and> rm \<noteq> 4 \<and> rm \<noteq> 5"
| "mem_ok (M_Rip d) \<longleftrightarrow> length d = 4"
| "mem_ok (M_Base_Disp8 rm d) \<longleftrightarrow> rm < 8 \<and> rm \<noteq> 4"
| "mem_ok (M_Base_Disp32 rm d) \<longleftrightarrow> rm < 8 \<and> rm \<noteq> 4 \<and> length d = 4"
| "mem_ok (M_Sib s i b) \<longleftrightarrow> s < 4 \<and> i < 8 \<and> b < 8 \<and> b \<noteq> 5"
| "mem_ok (M_Sib_Disp8 s i b d) \<longleftrightarrow> s < 4 \<and> i < 8 \<and> b < 8"
| "mem_ok (M_Sib_Disp32 s i b d) \<longleftrightarrow> s < 4 \<and> i < 8 \<and> b < 8 \<and> length d = 4"
| "mem_ok (M_Sib_No_Base s i d) \<longleftrightarrow> s < 4 \<and> i < 8 \<and> length d = 4"

fun encode_mem :: "nat \<Rightarrow> x86_mem \<Rightarrow> u8 list" where
  "encode_mem r (M_Base rm) = [modrm_fields 0 r rm]"
| "encode_mem r (M_Rip d) = modrm_fields 0 r 5 # d"
| "encode_mem r (M_Base_Disp8 rm d) = [modrm_fields 1 r rm, d]"
| "encode_mem r (M_Base_Disp32 rm d) = modrm_fields 2 r rm # d"
| "encode_mem r (M_Sib s i b) = [modrm_fields 0 r 4, modrm_fields s i b]"
| "encode_mem r (M_Sib_Disp8 s i b d) = [modrm_fields 1 r 4, modrm_fields s i b, d]"
| "encode_mem r (M_Sib_Disp32 s i b d) = modrm_fields 2 r 4 # modrm_fields s i b # d"
| "encode_mem r (M_Sib_No_Base s i d) = modrm_fields 0 r 4 # modrm_fields s i 5 # d"

fun no_base :: "x86_mem \<Rightarrow> bool" where
  "no_base (M_Sib_No_Base s i d) \<longleftrightarrow> True"
| "no_base _ \<longleftrightarrow> False"

lemma fields_mod: "a < 4 \<Longrightarrow> b < 8 \<Longrightarrow> c < 8 \<Longrightarrow> drop_bit 6 (modrm_fields a b c) AND 3 = of_nat a"
  and fields_reg: "a < 4 \<Longrightarrow> b < 8 \<Longrightarrow> c < 8 \<Longrightarrow> drop_bit 3 (modrm_fields a b c) AND 7 = of_nat b"
  and fields_rm: "a < 4 \<Longrightarrow> b < 8 \<Longrightarrow> c < 8 \<Longrightarrow> modrm_fields a b c AND 7 = of_nat c"
proof -
  assume *: "a < 4" "b < 8" "c < 8"
  have u: "unat (modrm_fields a b c) = a * 64 + b * 8 + c"
    unfolding modrm_fields_def unat_of_nat using * by simp
  have m3: "x AND 3 = take_bit 2 x" and m7: "x AND 7 = take_bit 3 x" for x :: u8
    by (simp_all add: take_bit_eq_mask mask_eq_exp_minus_1)
  have "unat (drop_bit 6 (modrm_fields a b c) AND 3) = unat (of_nat a :: u8)"
    using * by (simp add: m3 unsigned_take_bit_eq unat_drop_bit_eq u take_bit_eq_mod drop_bit_eq_div unat_of_nat unat_div unat_mod)
  then show "drop_bit 6 (modrm_fields a b c) AND 3 = of_nat a" by (simp only: word_unat_eq_iff)
  have "(a * 64 + b * 8 + c) div 8 = a * 8 + b" using * by simp
  then have "unat (drop_bit 3 (modrm_fields a b c) AND 7) = unat (of_nat b :: u8)"
    using * by (simp add: m7 unsigned_take_bit_eq unat_drop_bit_eq u take_bit_eq_mod drop_bit_eq_div unat_of_nat unat_div unat_mod)
  then show "drop_bit 3 (modrm_fields a b c) AND 7 = of_nat b" by (simp only: word_unat_eq_iff)
  have "a * 64 + b * 8 + c = 8 * (a * 8 + b) + c" by simp
  then have "(a * 64 + b * 8 + c) mod 8 = c" using * by (metis mod_mult_self4 mod_less)
  then have "unat (modrm_fields a b c AND 7) = unat (of_nat c :: u8)"
    using * by (simp add: m7 unsigned_take_bit_eq u take_bit_eq_mod unat_of_nat unat_mod)
  then show "modrm_fields a b c AND 7 = of_nat c" by (simp only: word_unat_eq_iff)
qed

lemma less_8: "r < 8 \<Longrightarrow> r \<in> {0, 1, 2, 3, 4, 5, 6, 7 :: nat}"
  by auto

lemma small_neq: "rm < 8 \<Longrightarrow> (of_nat rm :: u8) = 4 \<longleftrightarrow> rm = 4" "rm < 8 \<Longrightarrow> (of_nat rm :: u8) = 5 \<longleftrightarrow> rm = 5"
  by (drule less_8, auto)+

lemma rm_rex: "rm < 8 \<Longrightarrow> (of_nat rm OR (if b then 8 else 0)) AND 7 = (of_nat rm :: u8)"
  by (drule less_8) auto

lemma modrm_len_fields:
  assumes "a < 4" and "r < 8" and "rm < 8"
  shows "x86_modrm_len (modrm_fields a r rm) b =
    (1 + (if a = 0 \<and> rm = 5 then 4 else if a = 1 then 1 else if a = 2 then 4 else 0) + (if rm = 4 then 1 else 0))"
proof -
  have "a \<in> {0, 1, 2, 3}" using assms(1) by auto
  then show ?thesis
    using assms by (auto simp: x86_modrm_len_def Let_def fields_mod fields_rm rm_rex small_neq)
qed

lemma modrm_len_encode:
  assumes "mem_ok m" and "r < 8"
  shows "x86_modrm_len (hd (encode_mem r m)) b + (if no_base m then 4 else 0) = length (encode_mem r m)"
  using assms by (cases m) (simp_all add: modrm_len_fields)

lemma modrm_reg_encode:
  assumes "mem_ok m" and "r < 8"
  shows "modrm_reg px (hd (encode_mem r m)) = r + (if px_rex_r px then 8 else 0)"
    and "drop_bit 3 (hd (encode_mem r m)) AND 7 = of_nat r"
proof -
  show reg: "drop_bit 3 (hd (encode_mem r m)) AND 7 = of_nat r"
    using assms by (cases m) (simp_all add: fields_reg)
  show "modrm_reg px (hd (encode_mem r m)) = r + (if px_rex_r px then 8 else 0)"
    unfolding modrm_reg_def reg using less_8 [OF assms(2)] by auto
qed

lemma encode_mem_Cons: "\<exists>d. encode_mem r m = hd (encode_mem r m) # d"
  by (cases m) auto

section \<open>Stores\<close>

text \<open>\<open>f_rex\<close> holds the bits W, R, X and B.\<close>

record x86_form =
  f_66 :: bool
  f_rex :: "(bool \<times> bool \<times> bool \<times> bool) option"

datatype x86_store = S_Reg8 nat | S_Reg nat | S_Movnti nat | S_Imm8 u8 | S_Imm "u8 list"

fun rex_byte :: "bool \<times> bool \<times> bool \<times> bool \<Rightarrow> u8" where
  "rex_byte (w, r, x, b) = 0x40 + (if w then 8 else 0) + (if r then 4 else 0) + (if x then 2 else 0) + (if b then 1 else 0)"

definition rex_w :: "x86_form \<Rightarrow> bool" where "rex_w f \<longleftrightarrow> (case f_rex f of None \<Rightarrow> False | Some (w, r, x, b) \<Rightarrow> w)"
definition rex_r :: "x86_form \<Rightarrow> bool" where "rex_r f \<longleftrightarrow> (case f_rex f of None \<Rightarrow> False | Some (w, r, x, b) \<Rightarrow> r)"

definition operand_size :: "x86_form \<Rightarrow> nat" where
  "operand_size f = (if rex_w f then 8 else if f_66 f then 2 else 4)"

fun store_ok :: "x86_form \<Rightarrow> x86_store \<Rightarrow> bool" where
  "store_ok f (S_Reg8 r) \<longleftrightarrow> r < 8"
| "store_ok f (S_Reg r) \<longleftrightarrow> r < 8"
| "store_ok f (S_Movnti r) \<longleftrightarrow> r < 8"
| "store_ok f (S_Imm8 b) \<longleftrightarrow> True"
| "store_ok f (S_Imm d) \<longleftrightarrow> length d = (if operand_size f = 2 then 2 else 4)"

fun encode_operands :: "x86_store \<Rightarrow> x86_mem \<Rightarrow> u8 list" where
  "encode_operands (S_Reg8 r) m = 0x88 # encode_mem r m"
| "encode_operands (S_Reg r) m = 0x89 # encode_mem r m"
| "encode_operands (S_Movnti r) m = 0x0F # 0xC3 # encode_mem r m"
| "encode_operands (S_Imm8 b) m = 0xC6 # encode_mem 0 m @ [b]"
| "encode_operands (S_Imm d) m = 0xC7 # encode_mem 0 m @ d"

definition encode_prefixes :: "x86_form \<Rightarrow> u8 list" where
  "encode_prefixes f = (if f_66 f then [0x66] else []) @ (case f_rex f of None \<Rightarrow> [] | Some x \<Rightarrow> [rex_byte x])"

definition encode_store :: "x86_form \<Rightarrow> x86_store \<Rightarrow> x86_mem \<Rightarrow> u8 list" where
  "encode_store f s m = encode_prefixes f @ encode_operands s m"

text \<open>Without a REX prefix the byte registers 4 to 7 are the second bytes of registers 0 to 3.\<close>

definition second_byte :: "x86_form \<Rightarrow> x86_store \<Rightarrow> bool" where
  "second_byte f s \<longleftrightarrow> (case s of S_Reg8 r \<Rightarrow> f_rex f = None \<and> r \<ge> 4 | _ \<Rightarrow> False)"

definition store_size :: "x86_form \<Rightarrow> x86_store \<Rightarrow> nat" where
  "store_size f s = (case s of S_Reg8 _ \<Rightarrow> 1 | S_Imm8 _ \<Rightarrow> 1 | _ \<Rightarrow> operand_size f)"

definition store_value :: "x86_form \<Rightarrow> x86_regs \<Rightarrow> x86_store \<Rightarrow> u64" where
  "store_value f regs s =
     (case s of
        S_Reg8 r \<Rightarrow> if second_byte f s then take_bit 8 (drop_bit 8 (regs (r - 4)))
                    else take_bit 8 (regs (r + (if rex_r f then 8 else 0)))
      | S_Reg r \<Rightarrow> take_bit (8 * operand_size f) (regs (r + (if rex_r f then 8 else 0)))
      | S_Movnti r \<Rightarrow> take_bit (8 * operand_size f) (regs (r + (if rex_r f then 8 else 0)))
      | S_Imm8 b \<Rightarrow> ucast b
      | S_Imm d \<Rightarrow> if rex_w f then scast (ucast (le_value d) :: u32) else le_value d)"

lemma parse_encoded:
  assumes "b \<in> {0x88, 0x89, 0x0F, 0xC6, 0xC7}"
  shows "\<exists>px. parse_prefixes no_prefixes (encode_prefixes f @ b # p) = (px, b # p) \<and>
    px_rex_w px = rex_w f \<and> px_rex_r px = rex_r f \<and> px_has_66 px = f_66 f"
proof -
  have stop: "parse_prefixes px (b # p) = (px, b # p)" for px using assms by (auto simp: skipped_prefix_def)
  have p66: "parse_prefixes px (0x66 # xs) = parse_prefixes (px\<lparr>px_has_66 := True\<rparr>) xs" for px xs by simp
  show ?thesis
  proof (cases "f_rex f")
    case None
    then show ?thesis using p66 stop by (auto simp: encode_prefixes_def rex_w_def rex_r_def no_prefixes_def simp del: parse_prefixes.simps)
  next
    case (Some x)
    obtain w r xx bb where x: "x = (w, r, xx, bb)" by (cases x)
    have "parse_prefixes px (rex_byte x # b # p) = parse_prefixes (px\<lparr>px_rex_w := w, px_rex_r := r, px_rex_b := bb\<rparr>) (b # p)" for px
      unfolding x parse_prefixes.simps(2) [of _ "rex_byte _"]
      by (cases w; cases r; cases xx; cases bb) (simp_all add: skipped_prefix_def del: parse_prefixes.simps)
    then show ?thesis
      using Some p66 stop by (auto simp: encode_prefixes_def rex_w_def rex_r_def no_prefixes_def x simp del: parse_prefixes.simps rex_byte.simps)
  qed
qed

lemma read_value: "n \<in> {1, 2, 4, 8} \<Longrightarrow> read_x86_reg_value regs r n = take_bit (8 * n) (regs r)"
  by (cases "n = 8") (auto simp: read_x86_reg_value_def take_bit_word_eq_self, simp_all add: take_bit_eq_mask mask_eq_exp_minus_1)

lemma reg_store_encoded:
  assumes "mem_ok m" and "r < 8" and "n \<in> {1, 2, 4, 8}"
  shows "decode_reg_store regs px n (ps @ encode_mem r m @ rest) (encode_mem r m @ rest) =
    Decoded n (take_bit (8 * n) (regs (r + (if px_rex_r px then 8 else 0))))
      (length ps + length (encode_mem r m) - (if no_base m then 4 else 0))"
proof -
  obtain modrm d where e: "encode_mem r m = modrm # d" using encode_mem_Cons [of r m] by metis
  have len: "x86_modrm_len modrm (px_rex_b px) + (if no_base m then 4 else 0) = Suc (length d)"
    using modrm_len_encode [OF assms(1,2), of "px_rex_b px"] by (simp add: e)
  have "modrm_reg px modrm = r + (if px_rex_r px then 8 else 0)"
    using modrm_reg_encode(1) [OF assms(1,2), of px] by (simp add: e)
  then show ?thesis
    using len read_value [OF assms(3)] by (simp add: e decode_reg_store_def split: if_splits)
qed

lemma imm_store_encoded:
  assumes "mem_ok m" and "\<not> no_base m" and "length imm = k"
  shows "decode_imm_store px n k f (ps @ encode_mem 0 m @ imm @ rest) (encode_mem 0 m @ imm @ rest) =
    Decoded n (f imm) (length ps + length (encode_mem 0 m) + k)"
proof -
  obtain modrm d where e: "encode_mem 0 m = modrm # d" using encode_mem_Cons [of 0 m] by metis
  have len: "x86_modrm_len modrm (px_rex_b px) = Suc (length d)"
    using modrm_len_encode [OF assms(1), of 0 "px_rex_b px"] assms(2) by (simp add: e)
  have "drop_bit 3 modrm AND 7 = 0"
    using modrm_reg_encode(2) [OF assms(1), of 0] by (simp add: e)
  then show ?thesis
    using len assms(3) by (simp add: e decode_imm_store_def Let_def)
qed

lemma opcode_parsed:
  "\<exists>b p. encode_operands s m = b # p \<and> b \<in> {0x88, 0x89, 0x0F, 0xC6, 0xC7}"
  by (cases s) auto

lemma operand_size_range: "operand_size f \<in> {1, 2, 4, 8}"
  by (simp add: operand_size_def)

text \<open>The register stores, and all stores whose operand has a base register.\<close>

lemma decode_encoded:
  assumes "mem_ok m" and "store_ok f s"
  shows "\<not> no_base m \<Longrightarrow> \<not> second_byte f s \<Longrightarrow>
      decode_x86_write (encode_store f s m @ rest) regs = Decoded (store_size f s) (store_value f regs s) (length (encode_store f s m))"
    and "r < 8 \<Longrightarrow> decode_x86_write (encode_store f (S_Reg r) m @ rest) regs =
      Decoded (operand_size f) (store_value f regs (S_Reg r)) (length (encode_store f (S_Reg r) m) - (if no_base m then 4 else 0))"
    and "r < 8 \<Longrightarrow> f_rex f = None \<Longrightarrow> \<not> no_base m \<Longrightarrow> decode_x86_write (encode_store f (S_Reg8 r) m @ rest) regs =
      Decoded 1 (take_bit 8 (regs r)) (length (encode_store f (S_Reg8 r) m))"
proof -
  have parsed: "\<exists>px. parse_prefixes no_prefixes (encode_store f s m @ rest) = (px, encode_operands s m @ rest) \<and>
      px_rex_w px = rex_w f \<and> px_rex_r px = rex_r f \<and> px_has_66 px = f_66 f" for s
    using opcode_parsed [of s m] parse_encoded [of _ f] by (fastforce simp: encode_store_def)
  have regs: "decode_reg_store regs px n (encode_prefixes f @ ops @ encode_mem r m @ rest) (encode_mem r m @ rest) =
      Decoded n (take_bit (8 * n) (regs (r + (if px_rex_r px then 8 else 0))))
        (length (encode_prefixes f @ ops) + length (encode_mem r m) - (if no_base m then 4 else 0))"
    if "r < 8" "n \<in> {1, 2, 4, 8}" for px n ops r
    using reg_store_encoded [OF assms(1) that, of regs px "encode_prefixes f @ ops" rest] by simp
  have imms: "decode_imm_store px n k g (encode_prefixes f @ ops @ encode_mem 0 m @ imm @ rest) (encode_mem 0 m @ imm @ rest) =
      Decoded n (g imm) (length (encode_prefixes f @ ops) + length (encode_mem 0 m) + k)"
    if "\<not> no_base m" "length imm = k" for px n k g ops imm
    using imm_store_encoded [OF assms(1) that, of px n g "encode_prefixes f @ ops" rest] by simp
  note ops1 = regs [of _ _ _ "[_]", simplified] imms [of _ _ _ _ _ "[_]", simplified] and ops2 = regs [of _ _ _ "[_, _]", simplified]
  show "decode_x86_write (encode_store f (S_Reg r) m @ rest) regs =
      Decoded (operand_size f) (store_value f regs (S_Reg r)) (length (encode_store f (S_Reg r) m) - (if no_base m then 4 else 0))" if "r < 8"
    using parsed [of "S_Reg r"] ops1(1) [OF that, of _ _ "0x89"] operand_size_range [of f] that
    by (auto simp: decode_x86_write_def encode_store_def operand_size_def store_value_def Let_def split: if_splits)
  show "decode_x86_write (encode_store f (S_Reg8 r) m @ rest) regs = Decoded 1 (take_bit 8 (regs r)) (length (encode_store f (S_Reg8 r) m))"
    if "r < 8" "f_rex f = None" "\<not> no_base m"
    using parsed [of "S_Reg8 r"] ops1(1) [OF that(1), of _ _ "0x88"] that
    by (auto simp: decode_x86_write_def encode_store_def rex_r_def Let_def)
  show "decode_x86_write (encode_store f s m @ rest) regs = Decoded (store_size f s) (store_value f regs s) (length (encode_store f s m))"
    if base: "\<not> no_base m" and "\<not> second_byte f s"
  proof -
    obtain px where px: "parse_prefixes no_prefixes (encode_store f s m @ rest) = (px, encode_operands s m @ rest)"
      "px_rex_w px = rex_w f" "px_rex_r px = rex_r f" "px_has_66 px = f_66 f" using parsed [of s] by blast
    show ?thesis
    proof (cases s)
      case (S_Reg8 r)
      then show ?thesis
        using px ops1(1) [of r _ _ "0x88"] assms(2) that
        by (auto simp: decode_x86_write_def encode_store_def store_size_def store_value_def Let_def)
    next
      case (S_Reg r)
      then show ?thesis
        using px ops1(1) [of r _ _ "0x89"] assms(2) base
        by (auto simp: decode_x86_write_def encode_store_def operand_size_def store_size_def store_value_def Let_def)
    next
      case (S_Movnti r)
      then show ?thesis
        using px ops2 [of r _ _ "0x0F" "0xC3"] assms(2) base
        by (auto simp: decode_x86_write_def encode_store_def operand_size_def store_size_def store_value_def Let_def)
    next
      case (S_Imm8 b)
      then show ?thesis
        using px ops1(2) [of "[b]" 1 _ _ _ "0xC6"] base
        by (simp add: decode_x86_write_def encode_store_def store_size_def store_value_def le_value_def Let_def)
    next
      case (S_Imm d)
      then show ?thesis
        using px ops1(2) [of d "length d" _ _ _ "0xC7"] assms(2) base
        by (auto simp: decode_x86_write_def encode_store_def operand_size_def store_size_def store_value_def Let_def)
    qed
  qed
qed

end
