(* ===== verification/Sigsegv.thy ===== *)
theory Sigsegv
  imports Mmio Sigsegv_Decode
begin

text \<open>
  Monitoring by page protection (\<open>src/sigsegv.cc\<close>): the list of monitored devices, arming and disarming of the pages of
  CTRL_MMIO regions, and the handler of one fault. A device is given by its number in \<open>sg_devices\<close>; a region pointer is the
  offset of the region, as in \<open>Device\<close>.

  The model is that of one thread at a time; \<open>Sigsegv_Race\<close> has the word that a handler and a callback thread share.
  Arguments give what the system decides: whether an object can be allocated, a thread created, pages protected.
  \<open>sg_writable\<close> is the protection of each address.
\<close>

section \<open>State\<close>

definition kSigsegvFutexWait :: u32 where "kSigsegvFutexWait = 0"
definition kSigsegvFutexWork :: u32 where "kSigsegvFutexWork = 1"
definition kSigsegvFutexExit :: u32 where "kSigsegvFutexExit = - 1"

record sigsegv_callback_ctx =
  cb_region :: nat
  cb_futex_word :: u32
  cb_offset :: nat
  cb_value :: u64

record 'h sig_device = "'h pim_device" +
  sd_base :: u64
  sd_callbacks :: "sigsegv_callback_ctx list"

record 'h sigsegv =
  sg_device_list :: "nat option list" \<comment> \<open>the devices of the nodes from the head on, \<open>None\<close> for a tombstone\<close>
  sg_devices :: "nat \<Rightarrow> 'h sig_device"
  sg_writable :: "nat \<Rightarrow> bool"
  sg_chain_handler :: bool
  sg_installed :: bool

definition upd_device :: "nat \<Rightarrow> ('h sig_device \<Rightarrow> 'h sig_device) \<Rightarrow> 'h sigsegv \<Rightarrow> 'h sigsegv" where
  "upd_device d f s = s\<lparr>sg_devices := (sg_devices s)(d := f (sg_devices s d))\<rparr>"

section \<open>Pages\<close>

definition compute_page_aligned_range :: "u64 \<Rightarrow> u64 \<Rightarrow> u64 \<Rightarrow> (u64 \<times> u64) option" where
  "compute_page_aligned_range addr span page_size =
     (if span = 0 \<or> page_size = 0 \<or> page_size AND (page_size - 1) \<noteq> 0 then None
      else if addr > - 1 - span then None
      else
        let e = addr + span; aligned_start = addr AND NOT (page_size - 1)
        in if e > - 1 - (page_size - 1) then None
           else
             let aligned_end = (e + page_size - 1) AND NOT (page_size - 1)
             in if aligned_end < aligned_start then None else Some (aligned_start, aligned_end - aligned_start))"

definition in_range :: "u64 \<times> u64 \<Rightarrow> nat \<Rightarrow> bool" where
  "in_range r a \<longleftrightarrow> unat (fst r) \<le> a \<and> a < unat (fst r) + unat (snd r)"

text \<open>A call of \<open>mprotect\<close> that the kernel accepts.\<close>

definition protect :: "bool \<Rightarrow> u64 \<times> u64 \<Rightarrow> 'h sigsegv \<Rightarrow> 'h sigsegv" where
  "protect writable r s = s\<lparr>sg_writable := (\<lambda>a. if in_range r a then writable else sg_writable s a)\<rparr>"

section \<open>The handler of a fault\<close>

definition region_start :: "'h sig_device \<Rightarrow> 'h pim_region \<Rightarrow> u64" where
  "region_start d r = sd_base d + of_nat (rg_offset r)"

definition region_hit :: "'h sig_device \<Rightarrow> u64 \<Rightarrow> 'h pim_region \<Rightarrow> bool" where
  "region_hit d fault_addr r \<longleftrightarrow> region_start d r \<le> fault_addr \<and> fault_addr < region_start d r + of_nat (rg_size r)"

fun find_ctrl_loop :: "('h pim_region \<Rightarrow> bool) \<Rightarrow> nat option \<Rightarrow> (nat \<times> 'h pim_region) list \<Rightarrow> nat option" where
  "find_ctrl_loop hit ctrl_rw_match [] = ctrl_rw_match"
| "find_ctrl_loop hit ctrl_rw_match ((k, r) # rs) =
     (if \<not> hit r then find_ctrl_loop hit ctrl_rw_match rs
      else if rg_type r = PIM_REGION_CTRL_MMIO then Some k
      else if rg_type r = PIM_REGION_CTRL_RW \<and> ctrl_rw_match = None then find_ctrl_loop hit (Some k) rs
      else find_ctrl_loop hit ctrl_rw_match rs)"

definition find_ctrl_region_for_fault :: "'h sig_device \<Rightarrow> u64 \<Rightarrow> nat option" where
  "find_ctrl_region_for_fault d fault_addr = find_ctrl_loop (region_hit d fault_addr) None (dv_regions d)"

fun scan_nodes :: "'h sigsegv \<Rightarrow> u64 \<Rightarrow> nat option list \<Rightarrow> (nat \<times> nat) option" where
  "scan_nodes s fault_addr [] = None"
| "scan_nodes s fault_addr (None # nodes) = scan_nodes s fault_addr nodes"
| "scan_nodes s fault_addr (Some d # nodes) =
     (if \<not> dv_sigsegv_enabled (sg_devices s d) then scan_nodes s fault_addr nodes
      else case find_ctrl_region_for_fault (sg_devices s d) fault_addr of
             None \<Rightarrow> scan_nodes s fault_addr nodes
           | Some k \<Rightarrow> Some (d, k))"

definition find_handler_offset :: "'h pim_region \<Rightarrow> nat \<Rightarrow> nat option" where
  "find_handler_offset r offset_in_region =
     map_option fst (List.find (\<lambda>(off, e). off \<le> offset_in_region \<and> offset_in_region < off + he_register_size e) (rg_handlers r))"

fun notify_callback :: "nat \<Rightarrow> nat \<Rightarrow> u64 \<Rightarrow> sigsegv_callback_ctx list \<Rightarrow> sigsegv_callback_ctx list" where
  "notify_callback k handler_offset write_value [] = []"
| "notify_callback k handler_offset write_value (c # cs) =
     (if cb_region c \<noteq> k then c # notify_callback k handler_offset write_value cs
      else c\<lparr>cb_offset := handler_offset, cb_value := write_value, cb_futex_word := kSigsegvFutexWork\<rparr> # cs)"

text \<open>The outcome: the fault is forwarded, execution goes on behind the instruction of the given length, or the handler faults
  itself.\<close>

datatype fault_result = Forward_Fault | Resume_After nat | Handler_Faults

definition replay_write :: "nat \<Rightarrow> nat \<Rightarrow> nat \<Rightarrow> u64 \<Rightarrow> u64 \<times> u64 \<Rightarrow> 'h sigsegv \<Rightarrow> 'h sigsegv" where
  "replay_write d pos write_size write_value pages s =
     protect False pages
       (upd_device d (\<lambda>dv. dv\<lparr>dv_mem := mem_put pos (take write_size (le_bytes 8 write_value)) (dv_mem dv)\<rparr>) (protect True pages s))"

definition pim_sigsegv_handler_func :: "(u64 \<times> u64 \<Rightarrow> bool) \<Rightarrow> decode_result \<Rightarrow> u64 \<Rightarrow> 'h sigsegv \<Rightarrow> fault_result \<times> 'h sigsegv" where
  "pim_sigsegv_handler_func mprotect decoded fault_addr s =
     (case scan_nodes s fault_addr (sg_device_list s) of
        None \<Rightarrow> (Forward_Fault, s)
      | Some (d, k) \<Rightarrow>
          (case decoded of
             Overrun \<Rightarrow> (Handler_Faults, s)
           | Miss \<Rightarrow> (Forward_Fault, s)
           | Decoded write_size write_value insn_len \<Rightarrow>
               let dv = sg_devices s d; r = the (map_of (dv_regions dv) k);
                   offset_in_region = unat (fault_addr - region_start dv r)
               in if rg_type r = PIM_REGION_CTRL_RW \<and> write_size > 0
                  then (if rg_page_size r = 0 then (Forward_Fault, s)
                        else case compute_page_aligned_range (region_start dv r + of_nat offset_in_region) (of_nat write_size) (rg_page_size r) of
                               None \<Rightarrow> (Forward_Fault, s)
                             | Some pages \<Rightarrow>
                                 if mprotect pages
                                 then (Resume_After insn_len, replay_write d (rg_offset r + offset_in_region) write_size write_value pages s)
                                 else (Forward_Fault, s))
                  else
                    (Resume_After insn_len,
                     case (if rg_type r = PIM_REGION_CTRL_MMIO then find_handler_offset r offset_in_region else None) of
                       None \<Rightarrow> s
                     | Some handler_offset \<Rightarrow>
                         upd_device d (\<lambda>dv. dv\<lparr>sd_callbacks := notify_callback k handler_offset write_value (sd_callbacks dv)\<rparr>) s)))"

text \<open>What becomes of a forwarded fault: a previous handler that takes it, or the default action, which ends the process.\<close>

datatype chained = Handled | Old_Sigaction | Old_Handler | Default_Action

definition sigsegv_handler :: "fault_result \<Rightarrow> bool \<Rightarrow> bool \<Rightarrow> 'h sigsegv \<Rightarrow> chained" where
  "sigsegv_handler result old_siginfo old_is_function s =
     (if result \<noteq> Forward_Fault then Handled
      else if \<not> sg_chain_handler s then Default_Action
      else if old_siginfo then Old_Sigaction
      else if old_is_function then Old_Handler
      else Default_Action)"

section \<open>Installing the handler\<close>

text \<open>The arguments are the results of the two calls of \<open>sigaction\<close>.\<close>

definition sigsegv_query_install_state :: "bool \<Rightarrow> 'h sigsegv \<Rightarrow> pim_error + bool" where
  "sigsegv_query_install_state query_ok s = (if query_ok then Inr (sg_installed s) else Inl PIM_ERR_SIGNAL)"

definition pim_g_enable_sigsegv_handler :: "bool \<Rightarrow> bool \<Rightarrow> bool \<Rightarrow> 'h sigsegv \<Rightarrow> pim_error \<times> 'h sigsegv" where
  "pim_g_enable_sigsegv_handler query_ok install_ok enable_chain s =
     (let s = s\<lparr>sg_chain_handler := enable_chain\<rparr>
      in case sigsegv_query_install_state query_ok s of
           Inl err \<Rightarrow> (err, s)
         | Inr True \<Rightarrow> (PIM_SUCCESS, s)
         | Inr False \<Rightarrow> if install_ok then (PIM_SUCCESS, s\<lparr>sg_installed := True\<rparr>) else (PIM_ERR_SIGNAL, s))"

definition pim_g_disable_sigsegv_handler :: "bool \<Rightarrow> 'h sigsegv \<Rightarrow> pim_error \<times> 'h sigsegv" where
  "pim_g_disable_sigsegv_handler query_ok s =
     (if \<exists>n \<in> set (sg_device_list s). n \<noteq> None then (PIM_ERR_BUSY, s)
      else case sigsegv_query_install_state query_ok s of
             Inl err \<Rightarrow> (err, s)
           | Inr False \<Rightarrow> (PIM_SUCCESS, s)
           | Inr True \<Rightarrow> (PIM_SUCCESS, s\<lparr>sg_installed := False\<rparr>))"

definition pim_g_set_sigsegv_chain_handler :: "bool \<Rightarrow> 'h sigsegv \<Rightarrow> 'h sigsegv" where
  "pim_g_set_sigsegv_chain_handler chain s = s\<lparr>sg_chain_handler := chain\<rparr>"

section \<open>Arming and disarming a device\<close>

definition sigsegv_collect_mmio_regions :: "'h sig_device \<Rightarrow> (nat \<times> 'h pim_region) list" where
  "sigsegv_collect_mmio_regions d = filter (\<lambda>e. rg_type (snd e) = PIM_REGION_CTRL_MMIO) (dv_regions d)"

definition region_range :: "'h sig_device \<Rightarrow> 'h pim_region \<Rightarrow> (u64 \<times> u64) option" where
  "region_range d r =
     (if rg_page_size r = 0 then None
      else compute_page_aligned_range (region_start d r) (of_nat (rg_size r)) (rg_page_size r))"

fun tombstone :: "nat \<Rightarrow> nat option list \<Rightarrow> nat option list" where
  "tombstone d [] = []"
| "tombstone d (n # ns) = (if n = Some d then None # ns else n # tombstone d ns)"

fun reuse_tombstone :: "nat \<Rightarrow> nat option list \<Rightarrow> nat option list option" where
  "reuse_tombstone d [] = None"
| "reuse_tombstone d (n # ns) = (if n = None then Some (Some d # ns) else map_option (\<lambda>ns. n # ns) (reuse_tombstone d ns))"

text \<open>The loop that protects the regions: the ranges protected, and whether all of them could be.\<close>

fun arm_loop :: "(bool \<Rightarrow> u64 \<times> u64 \<Rightarrow> bool) \<Rightarrow> (u64 \<times> u64) option list \<Rightarrow> (u64 \<times> u64) list \<Rightarrow> 'h sigsegv \<Rightarrow>
    bool \<times> (u64 \<times> u64) list \<times> 'h sigsegv" where
  "arm_loop mprotect [] armed s = (True, armed, s)"
| "arm_loop mprotect (None # rs) armed s = (False, armed, s)"
| "arm_loop mprotect (Some r # rs) armed s =
     (if mprotect False r then arm_loop mprotect rs (armed @ [r]) (protect False r s) else (False, armed, s))"

definition revert_protection :: "(bool \<Rightarrow> u64 \<times> u64 \<Rightarrow> bool) \<Rightarrow> bool \<Rightarrow> (u64 \<times> u64) list \<Rightarrow> 'h sigsegv \<Rightarrow> 'h sigsegv" where
  "revert_protection mprotect writable rs s = fold (\<lambda>r s. if mprotect writable r then protect writable r s else s) rs s"

definition cleanup_after_failure ::
  "(bool \<Rightarrow> u64 \<times> u64 \<Rightarrow> bool) \<Rightarrow> (u64 \<times> u64) list \<Rightarrow> bool \<Rightarrow> nat \<Rightarrow> 'h sigsegv \<Rightarrow> 'h sigsegv" where
  "cleanup_after_failure mprotect ranges listed d s =
     (let s = revert_protection mprotect True ranges s;
          s = (if listed then s\<lparr>sg_device_list := tombstone d (sg_device_list s)\<rparr> else s)
      in upd_device d (\<lambda>dv. dv\<lparr>sd_callbacks := [], dv_sigsegv_enabled := False\<rparr>) s)"

definition callback_for :: "nat \<Rightarrow> sigsegv_callback_ctx" where
  "callback_for k = \<lparr>cb_region = k, cb_futex_word = kSigsegvFutexWait, cb_offset = 0, cb_value = 0\<rparr>"

definition sigsegv_validate_device_transition_locked :: "nat option \<Rightarrow> 'h sigsegv \<Rightarrow> pim_error" where
  "sigsegv_validate_device_transition_locked d s =
     (case d of
        None \<Rightarrow> PIM_ERR_INVALID_ARG
      | Some d \<Rightarrow> if dv_sigsegv_transition_in_progress (sg_devices s d) then PIM_ERR_BUSY else PIM_SUCCESS)"

text \<open>\<open>collect_ok\<close>: the list of regions could be allocated; \<open>spawn_ok\<close>: all contexts and threads could be created;
  \<open>node_ok\<close>: a new node could be allocated.\<close>

definition pim_device_enable_sigsegv ::
  "bool \<Rightarrow> bool \<Rightarrow> bool \<Rightarrow> (bool \<Rightarrow> u64 \<times> u64 \<Rightarrow> bool) \<Rightarrow> nat option \<Rightarrow> 'h sigsegv \<Rightarrow> pim_error \<times> 'h sigsegv" where
  "pim_device_enable_sigsegv collect_ok spawn_ok node_ok mprotect dev s =
     (if sigsegv_validate_device_transition_locked dev s \<noteq> PIM_SUCCESS then (sigsegv_validate_device_transition_locked dev s, s)
      else
        let d = the dev; dv = sg_devices s d
        in if dv_teardown_in_progress dv then (PIM_ERR_BUSY, s)
           else if dv_sigsegv_enabled dv then (PIM_ERR_ALREADY_EXISTS, s)
           else if \<not> collect_ok then (PIM_ERR_NO_MEMORY, s)
           else
             let regions = sigsegv_collect_mmio_regions dv
             in if \<not> spawn_ok \<and> regions \<noteq> [] then (PIM_ERR_NO_MEMORY, cleanup_after_failure mprotect [] False d s)
                else
                  let s = upd_device d (\<lambda>dv. dv\<lparr>sd_callbacks := sd_callbacks dv @ map (callback_for \<circ> fst) regions\<rparr>) s
                  in if regions = [] then (PIM_ERR_NOT_FOUND, s)
                     else
                       (case (case reuse_tombstone d (sg_device_list s) of
                                Some nodes \<Rightarrow> Some nodes
                              | None \<Rightarrow> if node_ok then Some (Some d # sg_device_list s) else None) of
                          None \<Rightarrow> (PIM_ERR_NO_MEMORY, cleanup_after_failure mprotect [] False d s)
                        | Some nodes \<Rightarrow>
                            (case arm_loop mprotect (map (region_range dv \<circ> snd) regions) [] (s\<lparr>sg_device_list := nodes\<rparr>) of
                               (True, _, s) \<Rightarrow> (PIM_SUCCESS, upd_device d (\<lambda>dv. dv\<lparr>dv_sigsegv_enabled := True\<rparr>) s)
                             | (False, ranges, s) \<Rightarrow> (PIM_ERR_MPROTECT, cleanup_after_failure mprotect ranges True d s))))"

text \<open>Disarming stops at the first region whose pages cannot be made writable and protects the earlier ones again; a range
  that cannot be computed ends it without that.\<close>

fun disarm_loop :: "(bool \<Rightarrow> u64 \<times> u64 \<Rightarrow> bool) \<Rightarrow> (u64 \<times> u64) option list \<Rightarrow> (u64 \<times> u64) list \<Rightarrow> 'h sigsegv \<Rightarrow> bool \<times> 'h sigsegv" where
  "disarm_loop mprotect [] armed s = (True, s)"
| "disarm_loop mprotect (None # rs) armed s = (False, s)"
| "disarm_loop mprotect (Some r # rs) armed s =
     (if mprotect True r then disarm_loop mprotect rs (armed @ [r]) (protect True r s)
      else (False, revert_protection mprotect False armed s))"

definition sigsegv_disarm_mmio_regions_locked ::
  "bool \<Rightarrow> (bool \<Rightarrow> u64 \<times> u64 \<Rightarrow> bool) \<Rightarrow> nat \<Rightarrow> 'h sigsegv \<Rightarrow> pim_error \<times> 'h sigsegv" where
  "sigsegv_disarm_mmio_regions_locked collect_ok mprotect d s =
     (if \<not> collect_ok then (PIM_ERR_NO_MEMORY, s)
      else
        let dv = sg_devices s d
        in case disarm_loop mprotect (map (region_range dv \<circ> snd) (sigsegv_collect_mmio_regions dv)) [] s of
             (False, s) \<Rightarrow> (PIM_ERR_MPROTECT, s)
           | (True, s) \<Rightarrow> (PIM_SUCCESS, upd_device d (\<lambda>dv. dv\<lparr>dv_sigsegv_enabled := False\<rparr>) s))"

text \<open>\<open>self_callback\<close>: the caller is a callback thread of the device. The callback threads are joined at the end.\<close>

definition pim_device_disable_sigsegv ::
  "bool \<Rightarrow> (bool \<Rightarrow> u64 \<times> u64 \<Rightarrow> bool) \<Rightarrow> bool \<Rightarrow> nat option \<Rightarrow> 'h sigsegv \<Rightarrow> pim_error \<times> 'h sigsegv" where
  "pim_device_disable_sigsegv collect_ok mprotect self_callback dev s =
     (if sigsegv_validate_device_transition_locked dev s \<noteq> PIM_SUCCESS then (sigsegv_validate_device_transition_locked dev s, s)
      else if self_callback then (PIM_ERR_BUSY, s)
      else
        let d = the dev
        in if \<not> dv_sigsegv_enabled (sg_devices s d) then (PIM_SUCCESS, s)
           else
             let s = upd_device d (\<lambda>dv. dv\<lparr>dv_sigsegv_transition_in_progress := True\<rparr>) s
             in case sigsegv_disarm_mmio_regions_locked collect_ok mprotect d s of
                  (err, s) \<Rightarrow>
                    if err \<noteq> PIM_SUCCESS then (err, upd_device d (\<lambda>dv. dv\<lparr>dv_sigsegv_transition_in_progress := False\<rparr>) s)
                    else (PIM_SUCCESS,
                          upd_device d (\<lambda>dv. dv\<lparr>sd_callbacks := [], dv_sigsegv_transition_in_progress := False\<rparr>)
                            (s\<lparr>sg_device_list := tombstone d (sg_device_list s)\<rparr>)))"

definition pim_is_sigsegv_enabled :: "nat option \<Rightarrow> 'h sigsegv \<Rightarrow> bool" where
  "pim_is_sigsegv_enabled dev s = (case dev of None \<Rightarrow> False | Some d \<Rightarrow> dv_sigsegv_enabled (sg_devices s d))"

end
