(* ===== verification/Sigsegv_Props.thy ===== *)
theory Sigsegv_Props
  imports Sigsegv "HOL-Library.Sublist"
begin

text \<open>
  What a fault does, and that arming a device happens completely or not at all.
\<close>

section \<open>Finding the region of a fault\<close>

definition watched :: "'h sigsegv \<Rightarrow> u64 \<Rightarrow> nat \<Rightarrow> nat \<Rightarrow> 'h pim_region \<Rightarrow> bool" where
  "watched s a d k r \<longleftrightarrow> Some d \<in> set (sg_device_list s) \<and> dv_sigsegv_enabled (sg_devices s d) \<and>
     map_of (dv_regions (sg_devices s d)) k = Some r \<and> rg_type r \<noteq> PIM_REGION_RAM \<and> region_hit (sg_devices s d) a r"

definition regions_distinct :: "'h sigsegv \<Rightarrow> bool" where
  "regions_distinct s \<longleftrightarrow> (\<forall>d. distinct (map fst (dv_regions (sg_devices s d))))"

lemma find_ctrl_loop_sound:
  "find_ctrl_loop hit m rs = Some k \<Longrightarrow> m = Some k \<or> (\<exists>r. (k, r) \<in> set rs \<and> hit r \<and> rg_type r \<noteq> PIM_REGION_RAM)"
  by (induction hit m rs rule: find_ctrl_loop.induct) (auto split: if_splits)

lemma find_ctrl_loop_complete:
  "(k, r) \<in> set rs \<Longrightarrow> hit r \<Longrightarrow> rg_type r \<noteq> PIM_REGION_RAM \<Longrightarrow> find_ctrl_loop hit m rs \<noteq> None"
proof (induction hit m rs rule: find_ctrl_loop.induct)
  case (2 hit m k' r' rs)
  have keep: "find_ctrl_loop hit (Some x) rs \<noteq> None" for x rs
    by (induction hit "Some x" rs arbitrary: x rule: find_ctrl_loop.induct) auto
  show ?case
    using 2 keep by (cases "rg_type r'"; cases m) (auto split: if_splits)
qed simp

lemma scan_sound:
  "scan_nodes s a nodes = Some (d, k) \<Longrightarrow>
     Some d \<in> set nodes \<and> dv_sigsegv_enabled (sg_devices s d) \<and> find_ctrl_region_for_fault (sg_devices s d) a = Some k"
  by (induction s a nodes rule: scan_nodes.induct) (auto split: if_splits option.splits)

lemma scan_complete:
  "Some d \<in> set nodes \<Longrightarrow> dv_sigsegv_enabled (sg_devices s d) \<Longrightarrow> find_ctrl_region_for_fault (sg_devices s d) a = Some k \<Longrightarrow>
     scan_nodes s a nodes \<noteq> None"
  by (induction s a nodes rule: scan_nodes.induct) (auto split: option.splits)

lemma scan_watched:
  assumes "regions_distinct s"
  shows "scan_nodes s a (sg_device_list s) = Some (d, k) \<Longrightarrow> \<exists>r. watched s a d k r"
    and "watched s a d k r \<Longrightarrow> scan_nodes s a (sg_device_list s) \<noteq> None"
proof -
  have dist: "distinct (map fst (dv_regions (sg_devices s d)))" for d using assms by (simp add: regions_distinct_def)
  show "\<exists>r. watched s a d k r" if "scan_nodes s a (sg_device_list s) = Some (d, k)"
  proof -
    have f: "Some d \<in> set (sg_device_list s)" "dv_sigsegv_enabled (sg_devices s d)" "find_ctrl_region_for_fault (sg_devices s d) a = Some k"
      using scan_sound [OF that] by auto
    obtain r where "(k, r) \<in> set (dv_regions (sg_devices s d))" "region_hit (sg_devices s d) a r" "rg_type r \<noteq> PIM_REGION_RAM"
      using find_ctrl_loop_sound [OF f(3) [unfolded find_ctrl_region_for_fault_def]] by auto
    then show ?thesis using f dist [of d] by (auto simp: watched_def)
  qed
  show "scan_nodes s a (sg_device_list s) \<noteq> None" if w: "watched s a d k r"
  proof -
    have "(k, r) \<in> set (dv_regions (sg_devices s d))" using w by (auto simp: watched_def dest: map_of_SomeD)
    then obtain k' where "find_ctrl_region_for_fault (sg_devices s d) a = Some k'"
      using w find_ctrl_loop_complete unfolding find_ctrl_region_for_fault_def watched_def by (metis option.exhaust)
    then show ?thesis using w by (intro scan_complete) (auto simp: watched_def)
  qed
qed

text \<open>One control region at an address.\<close>

definition sole_region :: "'h sigsegv \<Rightarrow> u64 \<Rightarrow> bool" where
  "sole_region s a \<longleftrightarrow> (\<forall>d k r d' k' r'. watched s a d k r \<and> watched s a d' k' r' \<longrightarrow> d' = d \<and> k' = k)"

lemma scan_exact:
  assumes "regions_distinct s" and "sole_region s a" and "watched s a d k r"
  shows "scan_nodes s a (sg_device_list s) = Some (d, k)" and "the (map_of (dv_regions (sg_devices s d)) k) = r"
proof -
  obtain d' k' where sc: "scan_nodes s a (sg_device_list s) = Some (d', k')" using scan_watched(2) [OF assms(1,3)] by auto
  obtain r' where "watched s a d' k' r'" using scan_watched(1) [OF assms(1) sc] by blast
  then show "scan_nodes s a (sg_device_list s) = Some (d, k)" using sc assms(2,3) by (metis sole_region_def)
  show "the (map_of (dv_regions (sg_devices s d)) k) = r" using assms(3) by (simp add: watched_def)
qed

lemma fault_forwarded:
  assumes "regions_distinct s" and "\<nexists>d k r. watched s a d k r"
  shows "pim_sigsegv_handler_func mprotect dec a s = (Forward_Fault, s)"
proof -
  have "scan_nodes s a (sg_device_list s) = None" using scan_watched(1) [OF assms(1)] assms(2) by (metis option.exhaust prod.exhaust)
  then show ?thesis by (simp add: pim_sigsegv_handler_func_def)
qed

lemma fault_mmio:
  assumes "regions_distinct s" and "sole_region s a" and "watched s a d k r" and "rg_type r = PIM_REGION_CTRL_MMIO"
  shows "pim_sigsegv_handler_func mprotect (Decoded n v len) a s =
     (Resume_After len, case find_handler_offset r (unat (a - region_start (sg_devices s d) r)) of
        None \<Rightarrow> s
      | Some h \<Rightarrow> upd_device d (\<lambda>dv. dv\<lparr>sd_callbacks := notify_callback k h v (sd_callbacks dv)\<rparr>) s)"
  using scan_exact [OF assms(1-3)] assms(4) by (simp add: pim_sigsegv_handler_func_def Let_def)

lemma fault_rw:
  assumes "regions_distinct s" and "sole_region s a" and "watched s a d k r" and "rg_type r = PIM_REGION_CTRL_RW" and "n > 0"
    and "rg_page_size r \<noteq> 0" and "compute_page_aligned_range a (of_nat n) (rg_page_size r) = Some pages"
  shows "pim_sigsegv_handler_func mprotect (Decoded n v len) a s =
     (if mprotect pages then (Resume_After len, replay_write d (rg_offset r + unat (a - region_start (sg_devices s d) r)) n v pages s)
      else (Forward_Fault, s))"
  using scan_exact [OF assms(1-3)] assms(4-) by (simp add: pim_sigsegv_handler_func_def Let_def)

section \<open>Arming\<close>

lemma protect_simps [simp]:
  "sg_devices (protect w r s) = sg_devices s" "sg_device_list (protect w r s) = sg_device_list s"
  "sg_chain_handler (protect w r s) = sg_chain_handler s" "sg_installed (protect w r s) = sg_installed s"
  "sg_writable (protect w r s) = (\<lambda>a. if in_range r a then w else sg_writable s a)"
  by (simp_all add: protect_def)

definition covered :: "(u64 \<times> u64) list \<Rightarrow> nat \<Rightarrow> bool" where
  "covered rs a \<longleftrightarrow> (\<exists>r \<in> set rs. in_range r a)"

definition set_writable :: "bool \<Rightarrow> (u64 \<times> u64) list \<Rightarrow> 'h sigsegv \<Rightarrow> 'h sigsegv" where
  "set_writable w rs s = s\<lparr>sg_writable := (\<lambda>a. if covered rs a then w else sg_writable s a)\<rparr>"

lemma protect_set: "protect w r (set_writable w rs s) = set_writable w (rs @ [r]) s"
  by (cases s) (auto simp: protect_def set_writable_def covered_def fun_eq_iff)

lemma set_writable_Nil [simp]: "set_writable w [] s = s"
  by (simp add: set_writable_def covered_def)

lemma revert_all: "\<forall>r \<in> set rs. mprotect w r \<Longrightarrow> revert_protection mprotect w rs s = set_writable w rs s"
proof (induction rs rule: rev_induct)
  case (snoc r rs)
  then have "revert_protection mprotect w (rs @ [r]) s = protect w r (revert_protection mprotect w rs s)" by (simp add: revert_protection_def)
  then show ?case using snoc by (simp add: protect_set)
qed (simp add: revert_protection_def)

text \<open>The loops arm and disarm an initial part of the ranges.\<close>

definition accepted :: "(bool \<Rightarrow> u64 \<times> u64 \<Rightarrow> bool) \<Rightarrow> bool \<Rightarrow> (u64 \<times> u64) option list \<Rightarrow> (u64 \<times> u64) list" where
  "accepted mprotect w rs = map the (takeWhile (\<lambda>x. x \<noteq> None \<and> mprotect w (the x)) rs)"

lemma accepted_simps [simp]:
  "accepted mprotect w [] = []" "accepted mprotect w (None # rs) = []"
  "accepted mprotect w (Some r # rs) = (if mprotect w r then r # accepted mprotect w rs else [])"
  by (simp_all add: accepted_def)

lemma accepted_all:
  "length (accepted mprotect w rs) = length rs \<longleftrightarrow> (\<forall>x \<in> set rs. \<exists>r. x = Some r \<and> mprotect w r)"
proof (induction rs)
  case (Cons x rs)
  then show ?case by (cases x) auto
qed simp

lemma accepted_eq: "\<forall>x \<in> set rs. \<exists>r. x = Some r \<and> mprotect w r \<Longrightarrow> accepted mprotect w rs = map the rs"
  by (induction rs) auto

lemma accepted_sub: "r \<in> set (accepted mprotect w rs) \<Longrightarrow> Some r \<in> set rs"
  by (auto simp: accepted_def dest!: set_takeWhileD)

lemma arm_loop_exact:
  "arm_loop mprotect rs armed (set_writable False armed s) =
     (length (accepted mprotect False rs) = length rs, armed @ accepted mprotect False rs,
      set_writable False (armed @ accepted mprotect False rs) s)"
proof (induction rs arbitrary: armed)
  case (Cons x rs)
  then show ?case by (cases x) (simp_all add: protect_set)
qed simp

lemma disarm_loop_exact:
  "disarm_loop mprotect rs armed (set_writable True armed s) =
     (let rs' = accepted mprotect True rs; s' = set_writable True (armed @ rs') s
      in if length rs' = length rs then (True, s')
         else if rs ! length rs' = None then (False, s')
         else (False, revert_protection mprotect False (armed @ rs') s'))"
proof (induction rs arbitrary: armed)
  case (Cons x rs)
  then show ?case by (cases x) (simp_all add: protect_set Let_def)
qed simp

definition live_nodes :: "nat option list \<Rightarrow> nat option list" where
  "live_nodes nodes = filter (\<lambda>n. n \<noteq> None) nodes"

definition mmio_ranges :: "'h sig_device \<Rightarrow> (u64 \<times> u64) option list" where
  "mmio_ranges dv = map (region_range dv \<circ> snd) (sigsegv_collect_mmio_regions dv)"

text \<open>A device that can be armed, all of whose pages are writable; and the state with that device armed.\<close>

definition can_arm :: "nat \<Rightarrow> 'h sigsegv \<Rightarrow> bool" where
  "can_arm d s \<longleftrightarrow> \<not> dv_sigsegv_transition_in_progress (sg_devices s d) \<and> \<not> dv_teardown_in_progress (sg_devices s d) \<and>
     \<not> dv_sigsegv_enabled (sg_devices s d) \<and> sd_callbacks (sg_devices s d) = [] \<and> Some d \<notin> set (sg_device_list s) \<and>
     (\<forall>r a. Some r \<in> set (mmio_ranges (sg_devices s d)) \<and> in_range r a \<longrightarrow> sg_writable s a)"

definition armed_state :: "nat \<Rightarrow> nat option list \<Rightarrow> 'h sigsegv \<Rightarrow> 'h sigsegv" where
  "armed_state d nodes s =
     (let dv = sg_devices s d
      in set_writable False (map the (mmio_ranges dv))
           (upd_device d (\<lambda>dv. dv\<lparr>sd_callbacks := map (callback_for \<circ> fst) (sigsegv_collect_mmio_regions dv), dv_sigsegv_enabled := True\<rparr>)
              (s\<lparr>sg_device_list := nodes\<rparr>)))"

lemma reuse_tombstone_exact:
  assumes "reuse_tombstone d nodes = Some nodes'" and "Some d \<notin> set nodes"
  shows "set (live_nodes nodes') = insert (Some d) (set (live_nodes nodes))" and "tombstone d nodes' = nodes"
proof -
  have "\<exists>xs ys. nodes = xs @ None # ys \<and> nodes' = xs @ Some d # ys"
    using assms(1)
  proof (induction d nodes arbitrary: nodes' rule: reuse_tombstone.induct)
    case (2 d n ns)
    show ?case
    proof (cases n)
      case None
      then show ?thesis using 2(2) by (intro exI [of _ "[]"] exI [of _ ns]) auto
    next
      case (Some y)
      then obtain ns' where ns': "reuse_tombstone d ns = Some ns'" "nodes' = n # ns'" using 2(2) by auto
      then obtain xs ys where "ns = xs @ None # ys" "ns' = xs @ Some d # ys" using 2(1) Some by blast
      then show ?thesis using ns'(2) by (intro exI [of _ "n # xs"] exI [of _ ys]) simp
    qed
  qed simp
  then obtain xs ys where e: "nodes = xs @ None # ys" "nodes' = xs @ Some d # ys" by blast
  then show "set (live_nodes nodes') = insert (Some d) (set (live_nodes nodes))" by (auto simp: live_nodes_def)
  have "tombstone d (xs @ Some d # ys) = xs @ None # ys" if "Some d \<notin> set xs" using that by (induction xs) auto
  then show "tombstone d nodes' = nodes" using e assms(2) by simp
qed

lemma reuse_tombstone_None: "reuse_tombstone d nodes = None \<longleftrightarrow> None \<notin> set nodes"
  by (induction d nodes rule: reuse_tombstone.induct) auto

lemma set_writable_back:
  assumes "\<And>a. covered rs a \<Longrightarrow> sg_writable s a" and "covered rs' = covered rs"
  shows "set_writable True rs' (set_writable False rs s) = s"
  using assms by (cases s) (auto simp: set_writable_def fun_eq_iff)

lemma upd_device_simps [simp]:
  "sg_devices (upd_device d f s) = (sg_devices s)(d := f (sg_devices s d))"
  "sg_device_list (upd_device d f s) = sg_device_list s" "sg_writable (upd_device d f s) = sg_writable s"
  "upd_device d f (upd_device d g s) = upd_device d (f \<circ> g) s"
  by (simp_all add: upd_device_def)

lemma set_writable_simps [simp]:
  "sg_devices (set_writable w rs s) = sg_devices s" "sg_device_list (set_writable w rs s) = sg_device_list s"
  "upd_device d f (set_writable w rs s) = set_writable w rs (upd_device d f s)"
  "(set_writable w rs s)\<lparr>sg_device_list := nodes\<rparr> = set_writable w rs (s\<lparr>sg_device_list := nodes\<rparr>)"
  "(upd_device d f s)\<lparr>sg_device_list := nodes\<rparr> = upd_device d f (s\<lparr>sg_device_list := nodes\<rparr>)"
  by (simp_all add: set_writable_def upd_device_def)

lemma upd_device_id: "f (sg_devices s d) = sg_devices s d \<Longrightarrow> upd_device d f s = s"
  by (simp add: upd_device_def fun_upd_idem)

text \<open>Arming a device: done completely, or undone.\<close>

definition arm_ok :: "bool \<Rightarrow> bool \<Rightarrow> bool \<Rightarrow> (bool \<Rightarrow> u64 \<times> u64 \<Rightarrow> bool) \<Rightarrow> nat \<Rightarrow> 'h sigsegv \<Rightarrow> bool" where
  "arm_ok collect_ok spawn_ok node_ok mprotect d s \<longleftrightarrow>
     collect_ok \<and> spawn_ok \<and> mmio_ranges (sg_devices s d) \<noteq> [] \<and> (None \<in> set (sg_device_list s) \<or> node_ok) \<and>
     (\<forall>x \<in> set (mmio_ranges (sg_devices s d)). \<exists>r. x = Some r \<and> mprotect False r)"

definition listed :: "nat \<Rightarrow> nat option list \<Rightarrow> nat option list" where
  "listed d nodes = (case reuse_tombstone d nodes of Some ns \<Rightarrow> ns | None \<Rightarrow> Some d # nodes)"

lemma listed_exact:
  assumes "Some d \<notin> set nodes"
  shows "set (live_nodes (listed d nodes)) = insert (Some d) (set (live_nodes nodes))" and "live_nodes (tombstone d (listed d nodes)) = live_nodes nodes"
  using reuse_tombstone_exact [OF _ assms] by (auto simp: listed_def live_nodes_def split: option.split)

lemma enable_all_or_nothing:
  assumes ready: "can_arm d s" and rw: "\<And>r. Some r \<in> set (mmio_ranges (sg_devices s d)) \<Longrightarrow> mprotect True r"
  shows "arm_ok c sp n mprotect d s \<Longrightarrow>
      pim_device_enable_sigsegv c sp n mprotect (Some d) s = (PIM_SUCCESS, armed_state d (listed d (sg_device_list s)) s)"
    and "\<not> arm_ok c sp n mprotect d s \<Longrightarrow>
      \<exists>err nodes'. pim_device_enable_sigsegv c sp n mprotect (Some d) s = (err, s\<lparr>sg_device_list := nodes'\<rparr>) \<and>
        err \<noteq> PIM_SUCCESS \<and> live_nodes nodes' = live_nodes (sg_device_list s)"
proof -
  let ?dv = "sg_devices s d" let ?rs = "mmio_ranges ?dv"
  let ?new = "\<lambda>dv. dv\<lparr>sd_callbacks := sd_callbacks dv @ map (callback_for \<circ> fst) (sigsegv_collect_mmio_regions ?dv)\<rparr>"
  have dev: "\<not> dv_sigsegv_transition_in_progress ?dv" "\<not> dv_teardown_in_progress ?dv" "\<not> dv_sigsegv_enabled ?dv" "sd_callbacks ?dv = []"
    "Some d \<notin> set (sg_device_list s)" using ready by (simp_all add: can_arm_def)
  have same: "upd_device d (\<lambda>dv. dv\<lparr>sd_callbacks := [], dv_sigsegv_enabled := False\<rparr>) s = s"
    "upd_device d ((\<lambda>dv. dv\<lparr>sd_callbacks := [], dv_sigsegv_enabled := False\<rparr>) \<circ> ?new) s = s"
    using dev by (auto intro!: upd_device_id)
  have same': "upd_device d ((\<lambda>dv. dv\<lparr>sd_callbacks := [], dv_sigsegv_enabled := False\<rparr>) \<circ> ?new) (s\<lparr>sg_device_list := ns\<rparr>) = s\<lparr>sg_device_list := ns\<rparr>" for ns
    using dev by (auto intro!: upd_device_id)
  have regs: "?rs = [] \<longleftrightarrow> sigsegv_collect_mmio_regions ?dv = []" by (simp add: mmio_ranges_def)
  have arm: "arm_loop mprotect (map (region_range ?dv \<circ> snd) (sigsegv_collect_mmio_regions ?dv)) [] t =
      (length (accepted mprotect False ?rs) = length ?rs, accepted mprotect False ?rs, set_writable False (accepted mprotect False ?rs) t)"
    for t :: "'h sigsegv"
    using arm_loop_exact [of mprotect ?rs "[]" t] by (simp add: mmio_ranges_def)
  have enable: "pim_device_enable_sigsegv c sp n mprotect (Some d) s =
    (if \<not> c then (PIM_ERR_NO_MEMORY, s)
     else if \<not> sp \<and> ?rs \<noteq> [] then (PIM_ERR_NO_MEMORY, cleanup_after_failure mprotect [] False d s)
     else if ?rs = [] then (PIM_ERR_NOT_FOUND, upd_device d ?new s)
     else if None \<notin> set (sg_device_list s) \<and> \<not> n then (PIM_ERR_NO_MEMORY, cleanup_after_failure mprotect [] False d (upd_device d ?new s))
     else
       let t = set_writable False (accepted mprotect False ?rs) ((upd_device d ?new s)\<lparr>sg_device_list := listed d (sg_device_list s)\<rparr>)
       in if length (accepted mprotect False ?rs) = length ?rs then (PIM_SUCCESS, upd_device d (\<lambda>dv. dv\<lparr>dv_sigsegv_enabled := True\<rparr>) t)
          else (PIM_ERR_MPROTECT, cleanup_after_failure mprotect (accepted mprotect False ?rs) True d t))"
    using dev(1-3) regs reuse_tombstone_None [of d "sg_device_list s"]
    by (cases "reuse_tombstone d (sg_device_list s)")
      (simp_all add: pim_device_enable_sigsegv_def sigsegv_validate_device_transition_locked_def listed_def arm Let_def)
  show "pim_device_enable_sigsegv c sp n mprotect (Some d) s = (PIM_SUCCESS, armed_state d (listed d (sg_device_list s)) s)"
    if "arm_ok c sp n mprotect d s"
  proof -
    have *: "c" "sp" "?rs \<noteq> []" "None \<in> set (sg_device_list s) \<or> n" "\<forall>x \<in> set ?rs. \<exists>r. x = Some r \<and> mprotect False r"
      using that by (auto simp: arm_ok_def)
    then show ?thesis
      using accepted_eq [of ?rs mprotect False] * dev(4) unfolding enable by (simp add: armed_state_def Let_def upd_device_def set_writable_def)
  qed
  show "\<exists>err nodes'. pim_device_enable_sigsegv c sp n mprotect (Some d) s = (err, s\<lparr>sg_device_list := nodes'\<rparr>) \<and>
      err \<noteq> PIM_SUCCESS \<and> live_nodes nodes' = live_nodes (sg_device_list s)" if "\<not> arm_ok c sp n mprotect d s"
  proof (cases "c \<and> sp \<and> ?rs \<noteq> [] \<and> (None \<in> set (sg_device_list s) \<or> n)")
    case True
    let ?acc = "accepted mprotect False ?rs"
    have short: "length ?acc \<noteq> length ?rs" using True that by (simp add: arm_ok_def accepted_all)
    have "\<forall>r \<in> set ?acc. mprotect True r" using accepted_sub rw by blast
    then have revert: "revert_protection mprotect True ?acc t = set_writable True ?acc t" for t :: "'h sigsegv" by (rule revert_all)
    have "sg_writable t a" if "covered ?acc a" "sg_writable t = sg_writable s" for a and t :: "'h sigsegv"
      using that ready accepted_sub unfolding can_arm_def covered_def by metis
    then have undone: "set_writable True ?acc (set_writable False ?acc t) = t" if "sg_writable t = sg_writable s" for t :: "'h sigsegv"
      using that by (intro set_writable_back) auto
    have "cleanup_after_failure mprotect ?acc True d
        (set_writable False ?acc ((upd_device d ?new s)\<lparr>sg_device_list := listed d (sg_device_list s)\<rparr>)) =
      s\<lparr>sg_device_list := tombstone d (listed d (sg_device_list s))\<rparr>"
      using same' by (simp add: cleanup_after_failure_def revert undone Let_def)
    then show ?thesis
      using True short listed_exact(2) [OF dev(5)] unfolding enable by (auto simp: Let_def)
  next
    case False
    have nop: "upd_device d ?new s = s" if "?rs = []" using that dev(4) regs by (auto intro!: upd_device_id)
    have "cleanup_after_failure mprotect [] False d s = s" "cleanup_after_failure mprotect [] False d (upd_device d ?new s) = s"
      using same by (simp_all add: cleanup_after_failure_def revert_protection_def)
    then have "\<exists>err. pim_device_enable_sigsegv c sp n mprotect (Some d) s = (err, s) \<and> err \<noteq> PIM_SUCCESS"
      using False nop unfolding enable by auto
    then show ?thesis by (metis (no_types, lifting) sigsegv.surjective sigsegv.update_convs(1))
  qed
qed

text \<open>Disarming an armed device.\<close>

lemma disable_armed:
  assumes ready: "can_arm d s" and "arm_ok c sp n mprotect d s" and rw: "\<And>r. Some r \<in> set (mmio_ranges (sg_devices s d)) \<Longrightarrow> mprotect' True r"
  shows "\<exists>nodes'. pim_device_disable_sigsegv True mprotect' False (Some d) (armed_state d (listed d (sg_device_list s)) s) =
      (PIM_SUCCESS, s\<lparr>sg_device_list := nodes'\<rparr>) \<and> live_nodes nodes' = live_nodes (sg_device_list s)"
proof -
  let ?dv = "sg_devices s d" let ?rs = "mmio_ranges ?dv"
  let ?t = "armed_state d (listed d (sg_device_list s)) s"
  have ranges: "\<forall>x \<in> set ?rs. \<exists>r. x = Some r \<and> mprotect' True r" using assms(2) rw by (auto simp: arm_ok_def)
  have dev: "\<not> dv_sigsegv_transition_in_progress ?dv" "\<not> dv_sigsegv_enabled ?dv" "sd_callbacks ?dv = []" "Some d \<notin> set (sg_device_list s)"
    using ready by (simp_all add: can_arm_def)
  define u where "u = upd_device d (\<lambda>dv. dv\<lparr>dv_sigsegv_transition_in_progress := True\<rparr>) ?t"
  have u: "sg_devices u d = ?dv\<lparr>sd_callbacks := map (callback_for \<circ> fst) (sigsegv_collect_mmio_regions ?dv), dv_sigsegv_enabled := True,
      dv_sigsegv_transition_in_progress := True\<rparr>"
    by (simp add: u_def armed_state_def Let_def)
  have mmio: "map (region_range (sg_devices u d) \<circ> snd) (sigsegv_collect_mmio_regions (sg_devices u d)) =
      map (region_range ?dv \<circ> snd) (sigsegv_collect_mmio_regions ?dv)"
    unfolding u by (simp add: region_range_def region_start_def sigsegv_collect_mmio_regions_def)
  have disarm: "disarm_loop mprotect' (map (region_range ?dv \<circ> snd) (sigsegv_collect_mmio_regions ?dv)) [] u =
      (True, set_writable True (map the ?rs) u)" for u :: "'h sigsegv"
    using disarm_loop_exact [of mprotect' ?rs "[]" u] accepted_eq [of ?rs mprotect' True] ranges by (simp add: mmio_ranges_def Let_def)
  have "sg_writable u a" if "covered (map the ?rs) a" "sg_writable u = sg_writable s" for a and u :: "'h sigsegv"
    using that ready ranges unfolding can_arm_def covered_def by fastforce
  then have undone: "set_writable True (map the ?rs) (set_writable False (map the ?rs) u) = u" if "sg_writable u = sg_writable s" for u :: "'h sigsegv"
    using that by (intro set_writable_back) auto
  have off: "sigsegv_disarm_mmio_regions_locked True mprotect' d u =
      (PIM_SUCCESS, upd_device d (\<lambda>dv. dv\<lparr>dv_sigsegv_enabled := False\<rparr>) (set_writable True (map the ?rs) u))"
    unfolding sigsegv_disarm_mmio_regions_locked_def Let_def mmio disarm by simp
  have "pim_device_disable_sigsegv True mprotect' False (Some d) ?t =
    (PIM_SUCCESS, s\<lparr>sg_device_list := tombstone d (listed d (sg_device_list s))\<rparr>)"
  proof -
    have e: "\<not> dv_sigsegv_transition_in_progress (sg_devices ?t d)" "dv_sigsegv_enabled (sg_devices ?t d)"
      using dev(1) by (simp_all add: armed_state_def Let_def)
    have "upd_device d f (s\<lparr>sg_device_list := ns\<rparr>) = s\<lparr>sg_device_list := ns\<rparr>" if "f ?dv = ?dv" for f ns
      using that by (auto intro!: upd_device_id)
    then have "set_writable True (map the ?rs) (upd_device d
        ((\<lambda>dv. dv\<lparr>sd_callbacks := [], dv_sigsegv_transition_in_progress := False\<rparr>) \<circ> (\<lambda>dv. dv\<lparr>dv_sigsegv_enabled := False\<rparr>))
        (u\<lparr>sg_device_list := tombstone d (sg_device_list u)\<rparr>)) = s\<lparr>sg_device_list := tombstone d (listed d (sg_device_list s))\<rparr>"
      using dev by (simp add: u_def armed_state_def Let_def undone)
    then show ?thesis
      unfolding pim_device_disable_sigsegv_def Let_def option.sel u_def [symmetric] off
      using e by (simp add: sigsegv_validate_device_transition_locked_def)
  qed
  then show ?thesis using listed_exact(2) [OF dev(4)] by auto
qed

end
