(* ===== verification/Sigsegv_Race.thy ===== *)
theory Sigsegv_Race
  imports Sigsegv
begin

text \<open>
  The word and the two cells that signal handlers, the callback thread of a region and the thread that disables the device
  share (\<open>src/sigsegv.cc\<close>): handlers store an offset, a value and \<open>kSigsegvFutexWork\<close>; the callback thread reads the word,
  copies both cells, stores \<open>kSigsegvFutexWait\<close> and calls the handler function; the disabling thread waits until no handler
  is under way, stores \<open>kSigsegvFutexExit\<close> and joins the callback thread. A step is one access of one thread.
\<close>

section \<open>Steps\<close>

datatype cb_thread =
    C_Wait \<comment> \<open>in the waiting loop\<close>
  | C_Signal \<comment> \<open>has left the loop\<close>
  | C_Work \<comment> \<open>has read a word other than \<open>kSigsegvFutexExit\<close>\<close>
  | C_Offset nat \<comment> \<open>has copied the offset\<close>
  | C_Value nat u64 \<comment> \<open>has copied both\<close>
  | C_Dispatch nat u64 \<comment> \<open>has reset the word\<close>
  | C_Exited

datatype sig_thread = H_Idle | H_Begun nat u64 | H_Offset nat u64 | H_Value nat u64

datatype disabler = D_Run | D_Quiescent | D_Exit | D_Joined

record futex_race =
  fx_word :: u32
  fx_offset :: nat
  fx_value :: u64
  fx_thread :: cb_thread
  fx_handlers :: "sig_thread list"
  fx_disabler :: disabler
  fx_written :: "(nat \<times> u64) list"
  fx_dispatched :: "(nat \<times> u64) list"

definition futex_init :: "nat \<Rightarrow> futex_race" where
  "futex_init n = \<lparr>fx_word = kSigsegvFutexWait, fx_offset = 0, fx_value = 0, fx_thread = C_Wait, fx_handlers = replicate n H_Idle,
     fx_disabler = D_Run, fx_written = [], fx_dispatched = []\<rparr>"

definition callback_access :: "futex_race \<Rightarrow> futex_race" where
  "callback_access s =
     (case fx_thread s of
        C_Wait \<Rightarrow> if fx_word s = kSigsegvFutexWait then s else s\<lparr>fx_thread := C_Signal\<rparr>
      | C_Signal \<Rightarrow> if fx_word s = kSigsegvFutexExit then s\<lparr>fx_thread := C_Exited\<rparr> else s\<lparr>fx_thread := C_Work\<rparr>
      | C_Work \<Rightarrow> s\<lparr>fx_thread := C_Offset (fx_offset s)\<rparr>
      | C_Offset off \<Rightarrow> s\<lparr>fx_thread := C_Value off (fx_value s)\<rparr>
      | C_Value off v \<Rightarrow> s\<lparr>fx_thread := C_Dispatch off v, fx_word := kSigsegvFutexWait\<rparr>
      | C_Dispatch off v \<Rightarrow> s\<lparr>fx_thread := C_Wait, fx_dispatched := fx_dispatched s @ [(off, v)]\<rparr>
      | C_Exited \<Rightarrow> s)"

definition put_handler :: "nat \<Rightarrow> sig_thread \<Rightarrow> futex_race \<Rightarrow> futex_race" where
  "put_handler i h s = s\<lparr>fx_handlers := (fx_handlers s)[i := h]\<rparr>"

text \<open>Once the device is a tombstone and no handler is under way, no further handler gets to the callback context.\<close>

definition handler_access :: "nat \<times> u64 \<Rightarrow> nat \<Rightarrow> futex_race \<Rightarrow> futex_race" where
  "handler_access w i s =
     (case fx_handlers s ! i of
        H_Idle \<Rightarrow> if fx_disabler s = D_Run then put_handler i (H_Begun (fst w) (snd w)) s else s
      | H_Begun off v \<Rightarrow> put_handler i (H_Offset off v) (s\<lparr>fx_offset := off\<rparr>)
      | H_Offset off v \<Rightarrow> put_handler i (H_Value off v) (s\<lparr>fx_value := v\<rparr>)
      | H_Value off v \<Rightarrow> put_handler i H_Idle (s\<lparr>fx_word := kSigsegvFutexWork, fx_written := fx_written s @ [(off, v)]\<rparr>))"

definition disabler_access :: "futex_race \<Rightarrow> futex_race" where
  "disabler_access s =
     (case fx_disabler s of
        D_Run \<Rightarrow> if \<forall>h \<in> set (fx_handlers s). h = H_Idle then s\<lparr>fx_disabler := D_Quiescent\<rparr> else s
      | D_Quiescent \<Rightarrow> s\<lparr>fx_disabler := D_Exit, fx_word := kSigsegvFutexExit\<rparr>
      | D_Exit \<Rightarrow> if fx_thread s = C_Exited then s\<lparr>fx_disabler := D_Joined\<rparr> else s
      | D_Joined \<Rightarrow> s)"

datatype actor = A_Callback | A_Handler nat nat u64 | A_Disabler

definition actor_step :: "actor \<Rightarrow> futex_race \<Rightarrow> futex_race" where
  "actor_step a s =
     (case a of
        A_Callback \<Rightarrow> callback_access s
      | A_Handler i off v \<Rightarrow> handler_access (off, v) i s
      | A_Disabler \<Rightarrow> disabler_access s)"

fun actor_ok :: "actor \<Rightarrow> futex_race \<Rightarrow> bool" where
  "actor_ok (A_Handler i off v) s \<longleftrightarrow> i < length (fx_handlers s)"
| "actor_ok _ s \<longleftrightarrow> True"

inductive futex_step :: "futex_race \<Rightarrow> futex_race \<Rightarrow> bool" where
  act: "actor_ok a s \<Longrightarrow> futex_step s (actor_step a s)"

inductive_cases futex_stepE: "futex_step s s'"

definition futex_run :: "actor list \<Rightarrow> futex_race \<Rightarrow> futex_race" where
  "futex_run sched s = fold actor_step sched s"

section \<open>Leaving the thread\<close>

text \<open>The callback thread has read the word and not yet reset it.\<close>

definition copying :: "cb_thread \<Rightarrow> bool" where
  "copying t \<longleftrightarrow> (case t of C_Work \<Rightarrow> True | C_Offset _ \<Rightarrow> True | C_Value _ _ \<Rightarrow> True | _ \<Rightarrow> False)"

definition quiet :: "futex_race \<Rightarrow> bool" where
  "quiet s \<longleftrightarrow> fx_disabler s = D_Run \<or> (\<forall>h \<in> set (fx_handlers s). h = H_Idle)"

lemma access_simps [simp]:
  "fx_handlers (callback_access s) = fx_handlers s" "fx_disabler (callback_access s) = fx_disabler s"
  "fx_disabler (handler_access w i s) = fx_disabler s" "fx_thread (handler_access w i s) = fx_thread s"
  "fx_handlers (disabler_access s) = fx_handlers s" "fx_thread (disabler_access s) = fx_thread s"
  by (simp_all add: callback_access_def handler_access_def disabler_access_def put_handler_def
      split: cb_thread.split sig_thread.split disabler.split)

lemma handler_stopped:
  assumes "\<forall>h \<in> set (fx_handlers s). h = H_Idle" and "fx_disabler s \<noteq> D_Run" and "i < length (fx_handlers s)"
  shows "handler_access w i s = s"
proof -
  have "fx_handlers s ! i = H_Idle" using assms(1,3) by simp
  then show ?thesis using assms(2) by (simp add: handler_access_def)
qed

lemma quiet_step:
  assumes "quiet s" and "actor_ok a s"
  shows "quiet (actor_step a s)"
proof (cases a)
  case (A_Handler i off v)
  then show ?thesis
    using assms handler_stopped [of s i] by (cases "fx_disabler s = D_Run") (simp_all add: quiet_def actor_step_def)
next
  case A_Disabler
  then show ?thesis using assms by (auto simp: quiet_def actor_step_def disabler_access_def split: disabler.split)
qed (use assms in \<open>simp add: quiet_def actor_step_def\<close>)

lemma quiet_reachable: "futex_step\<^sup>*\<^sup>* (futex_init n) s \<Longrightarrow> quiet s"
proof (induction rule: rtranclp_induct)
  case base
  show ?case by (simp add: quiet_def futex_init_def)
next
  case (step y z)
  then show ?case by (auto elim!: futex_stepE intro: quiet_step)
qed

definition exit_lost :: "futex_race \<Rightarrow> bool" where
  "exit_lost s \<longleftrightarrow> fx_disabler s = D_Exit \<and> (\<forall>h \<in> set (fx_handlers s). h = H_Idle) \<and>
     (copying (fx_thread s) \<or> (fx_word s = kSigsegvFutexWait \<and> (fx_thread s = C_Wait \<or> (\<exists>off v. fx_thread s = C_Dispatch off v))))"

lemma exit_lost_step:
  assumes "exit_lost s" and "actor_ok a s"
  shows "exit_lost (actor_step a s)"
proof (cases a)
  case A_Callback
  then show ?thesis
    using assms(1) by (cases "fx_thread s") (auto simp: exit_lost_def copying_def actor_step_def callback_access_def)
next
  case (A_Handler i off v)
  then show ?thesis using assms handler_stopped [of s i "(off, v)"] by (simp add: exit_lost_def actor_step_def)
next
  case A_Disabler
  then show ?thesis using assms(1) by (auto simp: exit_lost_def copying_def actor_step_def disabler_access_def)
qed

lemma exit_lost_forever: "futex_step\<^sup>*\<^sup>* s s' \<Longrightarrow> exit_lost s \<Longrightarrow> exit_lost s'"
proof (induction rule: rtranclp_induct)
  case (step y z)
  then show ?case by (auto elim!: futex_stepE intro: exit_lost_step)
qed simp

lemma exit_while_copying:
  assumes "futex_step\<^sup>*\<^sup>* (futex_init n) s" and "fx_disabler s = D_Quiescent" and "copying (fx_thread s)"
    and "futex_step\<^sup>*\<^sup>* (disabler_access s) u"
  shows "fx_disabler u = D_Exit"
proof -
  have "exit_lost (disabler_access s)"
    using quiet_reachable [OF assms(1)] assms(2,3) by (auto simp: exit_lost_def quiet_def disabler_access_def)
  then show ?thesis using exit_lost_forever [OF assms(4)] by (simp add: exit_lost_def)
qed

lemma exit_otherwise:
  assumes "fx_disabler s = D_Quiescent" and "\<not> copying (fx_thread s)"
  shows "fx_thread ((callback_access ^^ 3) (disabler_access s)) = C_Exited"
  using assms
  by (cases "fx_thread s")
    (auto simp: copying_def disabler_access_def callback_access_def numeral_3_eq_3 kSigsegvFutexExit_def kSigsegvFutexWait_def)

section \<open>Runs\<close>

lemma length_step [simp]: "length (fx_handlers (actor_step a s)) = length (fx_handlers s)"
  by (auto simp: actor_step_def handler_access_def put_handler_def split: actor.split sig_thread.split)

lemma futex_run_reachable:
  assumes "\<And>i off v. A_Handler i off v \<in> set sched \<Longrightarrow> i < length (fx_handlers s)"
  shows "futex_step\<^sup>*\<^sup>* s (futex_run sched s)"
  using assms
proof (induction sched arbitrary: s)
  case (Cons a sched)
  then have "actor_ok a s" by (cases a) auto
  then have "futex_step s (actor_step a s)" by (rule futex_step.act)
  moreover have "futex_step\<^sup>*\<^sup>* (actor_step a s) (futex_run sched (actor_step a s))"
  proof (rule Cons.IH)
    show "i < length (fx_handlers (actor_step a s))" if "A_Handler i off v \<in> set sched" for i off v
      using that Cons.prems [of i off v] by simp
  qed
  ultimately show ?case by (simp add: futex_run_def converse_rtranclp_into_rtranclp)
qed (simp add: futex_run_def)

end
