(* ===== verification/Sigsegv_Correct.thy ===== *)
theory Sigsegv_Correct
  imports Sigsegv_Decode_Props Sigsegv_Props Sigsegv_Race
begin

text \<open>
  The properties of monitoring by page protection: the decoders, the handler of a fault, arming and disarming, and the
  word that handlers and callback threads share.
\<close>

section \<open>Decoding\<close>




text \<open>Two kinds of stores are decoded wrongly by the x86 decoder, and all on AArch64 are missed. An operand without base register
  (a SIB byte with base 5 in mode 0) has a displacement of four bytes that the length leaves out, so that execution is
  moved into the middle of the instruction. A byte store of AH, CH, DH or BH is taken for one of the low byte of RSP, RBP,
  RSI or RDI. The patterns of the AArch64 decoder match none of the \<open>STR\<close> and \<open>STUR\<close> encodings its comments name.\<close>

theorem store_decoding_defects:
  assumes "mem_ok m" and "mem_ok m'" and "no_base m" and "\<not> no_base m'" and "r < 8" and "second_byte g (S_Reg8 r)"
  shows "decode_x86_write (encode_store f (S_Reg r) m @ rest) regs =
      Decoded (operand_size f) (store_value f regs (S_Reg r)) (length (encode_store f (S_Reg r) m) - 4) \<and>
    decode_x86_write (encode_store g (S_Reg8 r) m' @ rest) regs = Decoded 1 (take_bit 8 (regs r)) (length (encode_store g (S_Reg8 r) m')) \<and>
    store_value g regs (S_Reg8 r) = take_bit 8 (drop_bit 8 (regs (r - 4))) \<and>
    decode_arm64_write (arm64_str sz imm12 rn rt) regs = Miss \<and> decode_arm64_write (arm64_stur sz imm9 rn rt) regs = Miss"
proof -
  have "f_rex g = None" using assms(6) by (simp add: second_byte_def)
  then show ?thesis
    using decode_encoded(2) [OF assms(1), of f "S_Reg r" r] decode_encoded(3) [OF assms(2), of g "S_Reg8 r" r] assms
      arm64_bit27 [OF arm64_encodings_bit27(1)] arm64_bit27 [OF arm64_encodings_bit27(2)]
    by (simp add: store_value_def)
qed

text \<open>The operand without base register of \<open>mov dword [0x12345678 + rax * 4], ecx\<close>, and \<open>mov [rbx], ah\<close>.\<close>

definition plain_form :: x86_form where
  "plain_form = \<lparr>f_66 = False, f_rex = None\<rparr>"

definition example_regs :: x86_regs where
  "example_regs r = (if r = 0 then 0xAB00 else if r = 4 then 0xCD else 0)"

theorem store_decoding_defects_witness:
  "decode_x86_write [0x89, 0x24, 0x85, 0x78, 0x56, 0x34, 0x12] example_regs = Decoded 4 0xCD 3 \<and>
   decode_x86_write [0x88, 0x23] example_regs = Decoded 1 0xCD 2 \<and> store_value plain_form example_regs (S_Reg8 4) = 0xAB \<and>
   decode_arm64_write 0xF9000020 example_regs = Miss"
proof -
  have "encode_store plain_form (S_Reg 4) (M_Sib_No_Base 2 0 [0x78, 0x56, 0x34, 0x12]) = [0x89, 0x24, 0x85, 0x78, 0x56, 0x34, 0x12]"
    "encode_store plain_form (S_Reg8 4) (M_Base 3) = [0x88, 0x23]" "arm64_str 3 0 1 0 = 0xF9000020"
    by (simp_all add: encode_store_def encode_prefixes_def plain_form_def modrm_fields_def arm64_str_def)
  moreover have "operand_size plain_form = 4" "store_value plain_form example_regs (S_Reg 4) = 0xCD" "second_byte plain_form (S_Reg8 4)"
    "take_bit 8 (example_regs 4) = 0xCD" "take_bit 8 (drop_bit 8 (example_regs (4 - 4))) = 0xAB"
    by (simp_all add: operand_size_def rex_w_def rex_r_def plain_form_def store_value_def second_byte_def example_regs_def)
  ultimately show ?thesis
    using store_decoding_defects [of "M_Sib_No_Base 2 0 [0x78, 0x56, 0x34, 0x12]" "M_Base 3" 4 plain_form plain_form "[]" example_regs 3 0 1 0]
    by simp
qed

section \<open>A fault\<close>





section \<open>Arming\<close>




section \<open>The callback thread\<close>

text \<open>C38. When the thread that disables a device stores the exit word, and no handler is under way, the callback thread leaves within
  three of its steps exactly if it is not between reading the word and resetting it. If it is, its reset overwrites the
  exit word, and in no continuation does the join of the callback thread return.\<close>

theorem callback_exit_exact:
  assumes "futex_step\<^sup>*\<^sup>* (futex_init n) s" and "fx_disabler s = D_Quiescent"
  shows "(\<not> copying (fx_thread s) \<longrightarrow> fx_thread ((callback_access ^^ 3) (disabler_access s)) = C_Exited) \<and>
    (copying (fx_thread s) \<longrightarrow> (\<forall>u. futex_step\<^sup>*\<^sup>* (disabler_access s) u \<longrightarrow> fx_disabler u = D_Exit))"
  using exit_while_copying [OF assms] exit_otherwise [OF assms(2)] by blast

definition copying_run :: "actor list" where
  "copying_run = replicate 4 (A_Handler 0 0 7) @ replicate 2 A_Callback @ [A_Disabler]"

theorem callback_exit_exact_witness:
  "copying (fx_thread (futex_run copying_run (futex_init 1))) \<and> fx_disabler (futex_run copying_run (futex_init 1)) = D_Quiescent \<and>
   (\<nexists>u. futex_step\<^sup>*\<^sup>* (disabler_access (futex_run copying_run (futex_init 1))) u \<and> fx_disabler u \<noteq> D_Exit)"
proof -
  have r: "futex_step\<^sup>*\<^sup>* (futex_init 1) (futex_run copying_run (futex_init 1))"
    by (rule futex_run_reachable) (auto simp: copying_run_def futex_init_def)
  have "copying (fx_thread (futex_run copying_run (futex_init 1)))" "fx_disabler (futex_run copying_run (futex_init 1)) = D_Quiescent"
    by code_simp+
  with callback_exit_exact [OF r] show ?thesis by blast
qed

text \<open>Two stores that follow each other can be lost or mixed: in one run of a single host thread the handler function is called for the
  first store only, everything is at rest afterwards and the last store has not been seen; in another it is called
  with the offset of the first store and the value of the second.\<close>

definition lost_run :: "actor list" where
  "lost_run = replicate 4 (A_Handler 0 0 7) @ replicate 4 A_Callback @ replicate 4 (A_Handler 0 8 9) @ replicate 3 A_Callback"

definition mixed_run :: "actor list" where
  "mixed_run = replicate 4 (A_Handler 0 0 7) @ replicate 3 A_Callback @ replicate 4 (A_Handler 0 8 9) @ replicate 3 A_Callback"

theorem stores_lost_or_mixed:
  "futex_step\<^sup>*\<^sup>* (futex_init 1) (futex_run lost_run (futex_init 1)) \<and>
   fx_written (futex_run lost_run (futex_init 1)) = [(0, 7), (8, 9)] \<and> fx_dispatched (futex_run lost_run (futex_init 1)) = [(0, 7)] \<and>
   fx_thread (futex_run lost_run (futex_init 1)) = C_Wait \<and> fx_word (futex_run lost_run (futex_init 1)) = kSigsegvFutexWait \<and>
   futex_step\<^sup>*\<^sup>* (futex_init 1) (futex_run mixed_run (futex_init 1)) \<and>
   fx_written (futex_run mixed_run (futex_init 1)) = [(0, 7), (8, 9)] \<and> fx_dispatched (futex_run mixed_run (futex_init 1)) = [(0, 9)]"
proof -
  have "futex_step\<^sup>*\<^sup>* (futex_init 1) (futex_run sched (futex_init 1))" if "sched \<in> {lost_run, mixed_run}" for sched
    by (rule futex_run_reachable) (use that in \<open>auto simp: lost_run_def mixed_run_def futex_init_def\<close>)
  moreover have "fx_written (futex_run lost_run (futex_init 1)) = [(0, 7), (8, 9)]" "fx_dispatched (futex_run lost_run (futex_init 1)) = [(0, 7)]"
    "fx_thread (futex_run lost_run (futex_init 1)) = C_Wait" "fx_word (futex_run lost_run (futex_init 1)) = kSigsegvFutexWait"
    "fx_written (futex_run mixed_run (futex_init 1)) = [(0, 7), (8, 9)]" "fx_dispatched (futex_run mixed_run (futex_init 1)) = [(0, 9)]"
    by code_simp+
  ultimately show ?thesis by blast
qed

end
