(* ===== verification/Vdev_Props.thy ===== *)
theory Vdev_Props
  imports Vdev
begin

text \<open>
  Device numbers that are assigned automatically are not in use, and the choice is the least one in its column or the
  one after the largest; references to a device nest.
\<close>

lemma devnum_key_inj: "vdev_make_devnum_key a b = vdev_make_devnum_key c d \<longleftrightarrow> a = c \<and> b = d"
proof
  assume e: "vdev_make_devnum_key a b = vdev_make_devnum_key c d"
  have lo: "ucast (vdev_make_devnum_key x y) = y" "ucast (drop_bit 32 (vdev_make_devnum_key x y)) = x" for x y :: u32
    by (rule bit_word_eqI, auto simp: vdev_make_devnum_key_def bit_ucast_iff bit_or_iff bit_push_bit_iff bit_drop_bit_eq dest: bit_imp_le_length)+
  show "a = c \<and> b = d" using lo e by metis
qed simp

lemma is_used_iff: "is_used (map (\<lambda>(a, b). vdev_make_devnum_key a b) in_use) a b \<longleftrightarrow> (a, b) \<in> set in_use"
  by (force simp: is_used_def devnum_key_inj)

lemma unat_mono_less: "x < y \<longleftrightarrow> unat x < unat y" for x y :: u32
  by (simp add: word_less_nat_alt)

lemma minor_loop_exact:
  "minor_loop used a b = Some m \<Longrightarrow> b \<le> m \<and> \<not> is_used used a m \<and> (\<forall>k. b \<le> k \<and> k < m \<longrightarrow> is_used used a k)"
  "minor_loop used a b = None \<Longrightarrow> \<forall>k \<ge> b. is_used used a k"
proof (induction used a b rule: minor_loop.induct)
  case (1 used a b)
  have le: "b + 1 \<le> k \<longleftrightarrow> b < k" if "b \<noteq> - 1" for k
    using that unat_succ32 [of b] by (auto simp: word_le_nat_alt word_less_nat_alt)
  have top: "k = - 1" if "b = - 1" "b \<le> k" for k using that by (simp add: word_order.extremum_unique)
  {
    case 1
    then show ?case
      using \<open>\<lbrakk>_; _\<rbrakk> \<Longrightarrow> minor_loop used a (b + 1) = Some m \<Longrightarrow> _\<close> le
      by (subst (asm) minor_loop.simps) (fastforce split: if_splits simp: order_le_less)
  next
    case 2
    then show ?case
      using \<open>\<lbrakk>_; _\<rbrakk> \<Longrightarrow> minor_loop used a (b + 1) = None \<Longrightarrow> _\<close> le top
      by (subst (asm) minor_loop.simps) (fastforce split: if_splits simp: order_le_less)
  }
qed

lemma major_loop_exact:
  "major_loop used a b = Some m \<Longrightarrow> a \<le> m \<and> \<not> is_used used m b \<and> (\<forall>k. a \<le> k \<and> k < m \<longrightarrow> is_used used k b)"
  "major_loop used a b = None \<Longrightarrow> \<forall>k \<ge> a. is_used used k b"
proof (induction used a b rule: major_loop.induct)
  case (1 used a b)
  have le: "a + 1 \<le> k \<longleftrightarrow> a < k" if "a \<noteq> - 1" for k
    using that unat_succ32 [of a] by (auto simp: word_le_nat_alt word_less_nat_alt)
  have top: "k = - 1" if "a = - 1" "a \<le> k" for k using that by (simp add: word_order.extremum_unique)
  {
    case 1
    then show ?case
      using \<open>\<lbrakk>_; _\<rbrakk> \<Longrightarrow> major_loop used (a + 1) b = Some m \<Longrightarrow> _\<close> le
      by (subst (asm) major_loop.simps) (fastforce split: if_splits simp: order_le_less)
  next
    case 2
    then show ?case
      using \<open>\<lbrakk>_; _\<rbrakk> \<Longrightarrow> major_loop used (a + 1) b = None \<Longrightarrow> _\<close> le top
      by (subst (asm) major_loop.simps) (fastforce split: if_splits simp: order_le_less)
  }
qed

lemma pair_rank_le: "(b, c) = mm \<Longrightarrow> pair_rank mm \<le> pair_rank (b', c') \<longleftrightarrow> b < b' \<or> (b = b' \<and> c \<le> c')"
  using unat_lt32 [of c] unat_lt32 [of c']
  by (auto simp: pair_rank_def word_less_nat_alt word_le_nat_alt word_unat_eq_iff)

lemma max_devnum_greatest:
  "case max_devnum in_use of None \<Rightarrow> in_use = [] | Some mm \<Rightarrow> mm \<in> set in_use \<and> (\<forall>p \<in> set in_use. pair_rank p \<le> pair_rank mm)"
proof (induction in_use rule: rev_induct)
  case (snoc x xs)
  obtain a b where x: "x = (a, b)" by (cases x)
  show ?case
  proof (cases "max_devnum xs")
    case None
    then show ?thesis using snoc by (simp add: max_devnum_def x)
  next
    case (Some mm)
    obtain c d where mm: "mm = (c, d)" by (cases mm)
    have "max_devnum (xs @ [x]) = Some (if a > c \<or> (a = c \<and> b > d) then x else mm)"
      using Some by (simp add: max_devnum_def x mm)
    moreover have "pair_rank mm \<le> pair_rank x" if "a > c \<or> (a = c \<and> b > d)"
      using that pair_rank_le [OF refl, of c d a b] by (auto simp: x mm)
    moreover have "pair_rank x \<le> pair_rank mm" if "\<not> (a > c \<or> (a = c \<and> b > d))"
      using that pair_rank_le [OF refl, of a b c d] by (auto simp: x mm not_less)
    ultimately show ?thesis using snoc Some by (auto intro: order_trans)
  qed
qed (simp add: max_devnum_def)

text \<open>With both numbers automatic the pair after the largest is free at once.\<close>

lemma resolve_devnum_both:
  "resolve_devnum in_use (- 1) (- 1) =
     (case max_devnum in_use of None \<Rightarrow> Some (0, 0) | Some mm \<Rightarrow> vdev_increment_devnum_pair mm)"
proof (cases "max_devnum in_use")
  case None
  then have "in_use = []" using max_devnum_greatest [of in_use] by simp
  then show ?thesis using None by (simp add: resolve_devnum_def pair_loop.simps is_used_def)
next
  case (Some mm)
  then have g: "\<forall>p \<in> set in_use. pair_rank p \<le> pair_rank mm" using max_devnum_greatest [of in_use] by simp
  have "pair_loop (map (\<lambda>(a, b). vdev_make_devnum_key a b) in_use) mm' = Some mm'" if "vdev_increment_devnum_pair mm = Some mm'" for mm'
  proof -
    have "(fst mm', snd mm') \<notin> set in_use" using g pair_rank_increment [OF that] by force
    then show ?thesis by (subst pair_loop.simps) (simp add: is_used_iff)
  qed
  then show ?thesis using Some by (simp add: resolve_devnum_def Let_def split: option.split)
qed

lemma resolve_devnum_free:
  assumes "resolve_devnum in_use major minor = Some (a, b)" and "major \<ge> - 1" and "minor \<ge> - 1" and "major = - 1 \<or> minor = - 1"
  shows "(a, b) \<notin> set in_use"
proof -
  consider "major \<ge> 0" "minor = - 1" | "major = - 1" "minor \<ge> 0" | "major = - 1" "minor = - 1" using assms(2-4) by linarith
  then show ?thesis
  proof cases
    case 1
    then show ?thesis
      using assms(1) minor_loop_exact(1) [of "map (\<lambda>(a, b). vdev_make_devnum_key a b) in_use" "word_of_int major" 0]
      by (auto simp: resolve_devnum_def Let_def is_used_iff)
  next
    case 2
    then show ?thesis
      using assms(1) major_loop_exact(1) [of "map (\<lambda>(a, b). vdev_make_devnum_key a b) in_use" 0 "word_of_int minor"]
      by (auto simp: resolve_devnum_def Let_def is_used_iff)
  next
    case 3
    have "pair_rank (a, b) > pair_rank p" if "p \<in> set in_use" for p
      using assms(1) that max_devnum_greatest [of in_use] pair_rank_increment
      unfolding 3 resolve_devnum_both by (fastforce split: option.splits)
    then show ?thesis by blast
  qed
qed

lemma vdev_create_some:
  assumes "pim_vdev_create alloc link root name major minor st = (Some h, st')"
  shows "h = fs_next st \<and> g_vdev_list st' = g_vdev_list st @ [h] \<and> - 1 \<le> major \<and> - 1 \<le> minor \<and>
         resolve_devnum (map (\<lambda>h. (vd_major (fs_vdev st h), vd_minor (fs_vdev st h))) (g_vdev_list st)) major minor =
           Some (vd_major (fs_vdev st' h), vd_minor (fs_vdev st' h)) \<and>
         (\<exists>n. name = Some n \<and> vd_path (fs_vdev st' h) = ''/dev/'' @ vdev_normalize_name n)"
  using assms
  by (auto simp: pim_vdev_create_def Let_def set_vdev_def set_vdev_root_def vfile_notify_virtual_fs_changed_def
      split: option.splits if_splits)

section \<open>References\<close>

text \<open>\<open>pim_vdev_unlock\<close> undoes \<open>pim_vdev_lock\<close>, so that a device stays alive until the last reference goes.\<close>

definition refs :: "handle \<Rightarrow> vfs \<Rightarrow> nat" where
  "refs h st = (case map_of (g_vdev_acquire_map st) h of None \<Rightarrow> 0 | Some c \<Rightarrow> unat c)"

lemma lock_unlock:
  assumes "pim_vdev_lock alloc (Some h) st = (PIM_SUCCESS, st')" and "om_ok (g_vdev_acquire_map st)"
    and "\<forall>c. map_of (g_vdev_acquire_map st) h = Some c \<longrightarrow> c \<noteq> 0"
  shows "refs h st' = refs h st + 1 \<and> pim_vdev_unlock (Some h) st' = (PIM_SUCCESS, st)"
proof (cases "map_of (g_vdev_acquire_map st) h")
  case None
  then have e: "st' = st\<lparr>g_vdev_acquire_map := om_insert h 1 (g_vdev_acquire_map st)\<rparr>"
    using assms(1) by (auto simp: pim_vdev_lock_def split: option.splits if_splits)
  have "om_erase h (om_insert h 1 (g_vdev_acquire_map st)) = g_vdev_acquire_map st"
    using om.restore_put [OF assms(2), of h 1] None by (simp add: om.restore_def)
  then show ?thesis using None by (simp add: e refs_def pim_vdev_unlock_def)
next
  case (Some c)
  then have c: "c \<noteq> - 1" "c \<noteq> 0" "st' = st\<lparr>g_vdev_acquire_map := om_insert h (c + 1) (g_vdev_acquire_map st)\<rparr>"
    using assms(1,3) by (auto simp: pim_vdev_lock_def split: if_splits)
  have "c + 1 \<noteq> 0" using c(1) by (metis add_eq_0_iff2)
  then have "unat (c + 1) = unat c + 1" by (metis Suc_eq_plus1 add.commute unatSuc)
  moreover have "om_insert h c (om_insert h (c + 1) (g_vdev_acquire_map st)) = g_vdev_acquire_map st"
    using om.restore_put [OF assms(2), of h "c + 1"] Some by (simp add: om.restore_def)
  ultimately show ?thesis using Some c \<open>c + 1 \<noteq> 0\<close> by (simp add: refs_def pim_vdev_unlock_def)
qed

end
