(* ===== verification/Vfs_Inv.thy ===== *)
theory Vfs_Inv
  imports Vfs_Ops
begin

text \<open>
  After every sequence of calls that return, the registries are well-formed and the cache is coherent. The one call that breaks
  coherence is the destruction of a sysfs root with equal globs that still has instances: it changes the type of their
  class directories and does not announce it.
\<close>

section \<open>Handles\<close>

lemma handles_ok_simps [store_simps]:
  "handles_ok (vfile_notify_virtual_fs_changed st) = handles_ok st"
  "handles_ok (set_vdev h d st) = handles_ok st"
  "handles_ok (set_vdev_root h r st) = handles_ok st"
  "handles_ok (set_vmodule h m st) = handles_ok st"
  "handles_ok (set_vsysfs_root h sr st) = handles_ok st"
  "handles_ok (st\<lparr>g_device_vsysfs_map := dm\<rparr>) = handles_ok st"
  "handles_ok (st\<lparr>g_vdev_acquire_map := a\<rparr>) = handles_ok st"
  by (simp_all add: handles_ok_def vfile_notify_virtual_fs_changed_def Let_def set_vdev_def set_vdev_root_def set_vmodule_def set_vsysfs_root_def)

lemma unregister_subset: "set (unregister_object l h) \<subseteq> set l"
  by (auto simp: unregister_object_def split: option.split)

lemma handles_ok_unregister [store_simps]:
  "handles_ok st \<Longrightarrow> handles_ok (st\<lparr>g_vdev_list := unregister_object (g_vdev_list st) h\<rparr>)"
  "handles_ok st \<Longrightarrow> handles_ok (st\<lparr>g_vdev_root_list := unregister_object (g_vdev_root_list st) h\<rparr>)"
  "handles_ok st \<Longrightarrow> handles_ok (st\<lparr>g_vsysfs_list := unregister_object (g_vsysfs_list st) h\<rparr>)"
  "handles_ok st \<Longrightarrow> handles_ok (st\<lparr>g_vsysfs_root_list := unregister_object (g_vsysfs_root_list st) h\<rparr>)"
  "handles_ok st \<Longrightarrow> handles_ok (st\<lparr>g_vmodule_list := unregister_object (g_vmodule_list st) h\<rparr>)"
  "handles_ok st \<Longrightarrow> handles_ok (st\<lparr>g_device_vsysfs_map := dm, g_vsysfs_list := unregister_object (g_vsysfs_list st) h\<rparr>)"
  using unregister_subset by (fastforce simp: handles_ok_def)+

lemma handles_ok_register [store_simps]:
  "handles_ok st \<Longrightarrow> handles_ok (st\<lparr>fs_next := Suc (fs_next st), g_vdev_list := g_vdev_list st @ [fs_next st]\<rparr>)"
  "handles_ok st \<Longrightarrow> handles_ok (st\<lparr>fs_next := Suc (fs_next st), g_vdev_root_list := g_vdev_root_list st @ [fs_next st]\<rparr>)"
  "handles_ok st \<Longrightarrow> handles_ok (st\<lparr>fs_next := Suc (fs_next st), g_vsysfs_root_list := g_vsysfs_root_list st @ [fs_next st]\<rparr>)"
  "handles_ok st \<Longrightarrow> handles_ok (st\<lparr>fs_next := Suc (fs_next st), g_vmodule_list := g_vmodule_list st @ [fs_next st]\<rparr>)"
  by (auto simp: handles_ok_def less_Suc_eq)

lemma handles_ok_new_vsysfs:
  "handles_ok st \<Longrightarrow> vs_root v < fs_next st \<Longrightarrow>
   handles_ok (set_vsysfs (fs_next st) v (st\<lparr>fs_next := Suc (fs_next st), g_vsysfs_list := g_vsysfs_list st @ [fs_next st]\<rparr>))"
  by (auto simp: handles_ok_def set_vsysfs_def less_Suc_eq)

lemma handles_ok_set_vsysfs: "handles_ok st \<Longrightarrow> vs_root v = vs_root (fs_vsysfs st h) \<Longrightarrow> handles_ok (set_vsysfs h v st)"
  by (auto simp: handles_ok_def set_vsysfs_def)

lemma vs_root_steps [simp]:
  "vs_root (put_attr name value access v) = vs_root v" "vs_root (drop_attr name v) = vs_root v"
  "vs_root (vsysfs_bump_attr_revision v) = vs_root v" "vs_root (ensure_attr name value access v) = vs_root v"
  "vs_root (fst (upsert_attr name value acc)) = vs_root (fst acc)" "vs_root (fst (upsert_dirs c d v)) = vs_root v"
  "vs_root (derived_attrs rt cls ma mi v) = vs_root v" "vs_root (new_parent_node r i c p s u) = r"
  by (simp_all add: put_attr_def drop_attr_def vsysfs_bump_attr_revision_def ensure_attr_def upsert_attr_def upsert_dirs_def Let_def
      derived_attrs_def new_parent_node_def)

text \<open>What the parts of the operations leave alone: the store of sysfs nodes but for a few fields, and the lists.\<close>

definition same_frame :: "vfs \<Rightarrow> vfs \<Rightarrow> bool" where
  "same_frame st st' \<longleftrightarrow>
     fs_next st' = fs_next st \<and> g_vdev_list st' = g_vdev_list st \<and> g_vsysfs_list st' = g_vsysfs_list st \<and>
     g_vmodule_list st' = g_vmodule_list st \<and> g_vdev_root_list st' = g_vdev_root_list st \<and>
     g_vsysfs_root_list st' = g_vsysfs_root_list st \<and> (\<forall>h. vs_root (fs_vsysfs st' h) = vs_root (fs_vsysfs st h))"

lemma same_frame_refl [simp, intro]: "same_frame st st"
  by (simp add: same_frame_def)

lemma same_frame_steps [simp]:
  "same_frame st (vfile_notify_virtual_fs_changed st') = same_frame st st'"
  "same_frame st (set_vdev h d st') = same_frame st st'"
  "same_frame st (set_vdev_root h r st') = same_frame st st'"
  "same_frame st (set_vmodule h m st') = same_frame st st'"
  "same_frame st (set_vsysfs_root h sr st') = same_frame st st'"
  "same_frame st (st'\<lparr>g_device_vsysfs_map := dm\<rparr>) = same_frame st st'"
  "same_frame st (st'\<lparr>g_vdev_acquire_map := a\<rparr>) = same_frame st st'"
  by (simp_all add: same_frame_def vfile_notify_virtual_fs_changed_def Let_def set_vdev_def set_vdev_root_def set_vmodule_def set_vsysfs_root_def)

lemma same_frame_set_vsysfs: "same_frame st st' \<Longrightarrow> vs_root v = vs_root (fs_vsysfs st' h) \<Longrightarrow> same_frame st (set_vsysfs h v st')"
  by (simp add: same_frame_def set_vsysfs_def)

lemma handles_ok_frame: "same_frame st st' \<Longrightarrow> handles_ok st \<Longrightarrow> handles_ok st'"
  by (simp add: handles_ok_def same_frame_def image_image)

lemma same_frame_callback: "same_frame st (vdev_set_root_callback a r f g st)"
  by (auto simp: vdev_set_root_callback_def Let_def split: option.split intro!: fold_preserves [of "same_frame st"])

lemma same_frame_attach: "same_frame st st' \<Longrightarrow> same_frame st (attach_linked d h st')"
  by (auto simp: attach_linked_def Let_def vsysfs_remove_from_device_map_locked_def vsysfs_add_to_device_map_locked_def
      split: option.split intro!: same_frame_set_vsysfs)

lemma same_frame_mapping: "same_frame st st' \<Longrightarrow> same_frame st (vfile_on_vdev_device_mapping_changed pick d st')"
  by (auto simp: vfile_on_vdev_device_mapping_changed_def Let_def split: option.split
      intro!: fold_preserves [of "same_frame st"] same_frame_attach)

lemma same_frame_auto_attach: "same_frame st st' \<Longrightarrow> same_frame st (auto_attach pick d h st')"
  by (auto simp: auto_attach_def vsysfs_add_to_device_map_locked_def split: option.split intro!: same_frame_set_vsysfs)

lemma same_frame_apply_default: "same_frame st st' \<Longrightarrow> same_frame st (fold (apply_default n v x) hs st')"
  by (auto simp: apply_default_def intro!: fold_preserves [of "same_frame st"] same_frame_set_vsysfs)

lemma same_frame_remove: "same_frame st (fst acc) \<Longrightarrow> same_frame st (fst (remove_attr_if_there n h acc))"
  by (auto simp: remove_attr_if_there_def Let_def intro!: same_frame_set_vsysfs)

lemma same_frame_write_default:
  assumes "stores_ok st"
  shows "same_frame st (returned st (pim_vsysfs_root_write_default_attr alloc root name value access st))"
  by (rule returned_write_default [OF assms])
    (auto simp: write_default_everywhere_def Let_def
      intro!: fold_preserves [of "same_frame st"] same_frame_set_vsysfs same_frame_apply_default)

lemma same_frame_remove_default: "same_frame st (snd (pim_vsysfs_root_remove_default_attr alloc root name st))"
proof -
  have "same_frame st (fst (fold (remove_attr_if_there n) hs (s, b)))" if "same_frame st s" for n hs s b
    using that by (intro fold_preserves [of "\<lambda>acc. same_frame st (fst acc)"]) (simp_all add: same_frame_remove)
  then show ?thesis
    by (simp add: pim_vsysfs_root_remove_default_attr_def Let_def case_prod_unfold split: option.split)
qed

lemma build_frame: "same_frame st (snd (vfile_build_virtual_fs_snapshot st))"
  by (simp add: same_frame_def vfile_build_virtual_fs_snapshot_def snapshot_begin_def snapshot_publish_def split: option.split)

lemma frame_ops:
  "same_frame st (snd (pim_vmodule_register_driver a h b d st))" "same_frame st (snd (pim_vmodule_create_attr a h n v x st))"
  "same_frame st (snd (pim_vmodule_remove_attr h n st))" "same_frame st (pim_vdev_set_user_data h u st)"
  "same_frame st (snd (pim_vdev_lock a h st))" "same_frame st (snd (pim_vdev_unlock h st))"
  "same_frame st (snd (pim_vdev_register_device pick a h fd dv st))" "same_frame st (snd (pim_vdev_unregister_device pick h fd st))"
  "same_frame st (snd (pim_vsysfs_write_attr a h n v x st))" "same_frame st (snd (pim_vsysfs_remove_attr h n st))"
  by (auto simp: pim_vmodule_register_driver_def pim_vmodule_create_attr_def pim_vmodule_remove_attr_def pim_vdev_set_user_data_def
      pim_vdev_lock_def pim_vdev_unlock_def pim_vdev_register_device_def pim_vdev_unregister_device_def pim_vsysfs_write_attr_def
      pim_vsysfs_remove_attr_def Let_def split: option.split intro!: same_frame_mapping same_frame_set_vsysfs)

lemma handles_ok_root_lt: "handles_ok st \<Longrightarrow> r \<in> set (g_vsysfs_root_list st) \<Longrightarrow> r < fs_next st"
  by (auto simp: handles_ok_def)

lemma handles_ok_parent:
  assumes "handles_ok st" and "r < fs_next st"
  shows "handles_ok (snd (vsysfs_ensure_parent_device_node a r p i st))"
  using assms
  by (simp add: vsysfs_ensure_parent_device_node_def vsysfs_upsert_parent_device_attrs_locked_def Let_def
      handles_ok_new_vsysfs handles_ok_set_vsysfs split: option.split)

lemma lookup_root_in: "vsysfs_lookup_root_shared root st = Some r \<Longrightarrow> r \<in> set (g_vsysfs_root_list st)"
  by (auto simp: vsysfs_lookup_root_shared_def vfile_find_shared_def split: option.splits if_splits)

lemma same_frame_next: "same_frame st st' \<Longrightarrow> fs_next st' = fs_next st"
  by (simp add: same_frame_def)

lemma handles_ok_vsysfs_create:
  assumes "handles_ok st"
  shows "handles_ok (snd (pim_vsysfs_create a l p pick root d i st))"
proof (cases "vsysfs_lookup_root_shared root st")
  case (Some r)
  have r: "r < fs_next st" by (rule handles_ok_root_lt [OF assms lookup_root_in [OF Some]])
  have new: "handles_ok (set_vsysfs (fs_next st) v (st\<lparr>fs_next := Suc (fs_next st), g_vsysfs_list := g_vsysfs_list st @ [fs_next st]\<rparr>))"
    if "vs_root v = r" for v
    using handles_ok_new_vsysfs [OF assms] r that by simp
  have rest: "handles_ok (auto_attach pick e h (set_vsysfs_root x y (set_vsysfs h w s)))" "fs_next (auto_attach pick e h (set_vsysfs_root x y (set_vsysfs h w s))) = fs_next s"
    if "handles_ok s" "vs_root w = vs_root (fs_vsysfs s h)" for e h x y w s
  proof -
    have "same_frame s (auto_attach pick e h (set_vsysfs_root x y (set_vsysfs h w s)))"
      by (intro same_frame_auto_attach) (simp add: same_frame_set_vsysfs that(2))
    then show "handles_ok (auto_attach pick e h (set_vsysfs_root x y (set_vsysfs h w s)))"
      "fs_next (auto_attach pick e h (set_vsysfs_root x y (set_vsysfs h w s))) = fs_next s"
      using that(1) by (simp_all add: handles_ok_frame same_frame_next)
  qed
  have nx: "fs_next (set_vsysfs h v s) = fs_next s" "fs_vsysfs (set_vsysfs h v s) h = v" for h v s by (simp_all add: set_vsysfs_def)
  show ?thesis
    using assms r
    by (simp add: pim_vsysfs_create_def Some Let_def store_simps new rest nx split: option.split)
      (auto simp: nx rest new intro!: handles_ok_parent rest new)
qed (simp add: pim_vsysfs_create_def assms)

lemma unlink_handles: "handles_ok (vsysfs_unlink_from_root h st) = handles_ok st"
  by (simp add: vsysfs_unlink_from_root_def Let_def store_simps)

lemma handles_ok_cleared: "handles_ok (pim_vfile_clear_registries st)"
  by (simp add: pim_vfile_clear_registries_def vfile_clear_vdev_state_def vfile_clear_vsysfs_state_def vfile_clear_vmodule_state_def
      store_simps) (simp add: handles_ok_def)

lemma handles_ok_apply: "stores_ok st \<Longrightarrow> handles_ok st \<Longrightarrow> handles_ok (vfs_apply pick hash op st)"
  by (cases op)
    (auto simp: pim_vmodule_create_def pim_vmodule_destroy_def pim_vdev_root_create_def pim_vdev_root_destroy_def
    pim_vdev_root_set_open_cb_def pim_vdev_root_set_ioctl_cb_def pim_vdev_root_set_mmap_cb_def pim_vdev_root_set_close_cb_def
    pim_vdev_create_def pim_vdev_destroy_def vdev_unlink_from_root_def pim_vsysfs_root_create_def pim_vsysfs_destroy_def unlink_handles pim_vsysfs_root_destroy_def
    handles_ok_cleared queries_state handles_ok_vsysfs_create Let_def store_simps
    split: option.split
    intro: handles_ok_frame [OF frame_ops(1)] handles_ok_frame [OF frame_ops(2)] handles_ok_frame [OF frame_ops(3)]
      handles_ok_frame [OF frame_ops(4)] handles_ok_frame [OF frame_ops(5)] handles_ok_frame [OF frame_ops(6)]
      handles_ok_frame [OF frame_ops(7)] handles_ok_frame [OF frame_ops(8)] handles_ok_frame [OF frame_ops(9)]
      handles_ok_frame [OF frame_ops(10)] handles_ok_frame [OF same_frame_write_default] handles_ok_frame [OF same_frame_remove_default]
      handles_ok_frame [OF same_frame_callback] handles_ok_frame [OF build_frame])

section \<open>Coherence\<close>

text \<open>\<open>quiet st st'\<close>: nothing that a snapshot shows has changed, and the cache has not been touched.\<close>

definition quiet :: "vfs \<Rightarrow> vfs \<Rightarrow> bool" where
  "quiet st st' \<longleftrightarrow> same_view st st' \<and> same_cache st st'"

lemma quiet_refl [simp, intro]: "quiet st st"
  by (simp add: quiet_def)

lemma coherent_quiet: "coherent st \<Longrightarrow> quiet st st' \<Longrightarrow> coherent st'"
  using coherent_same by (simp add: quiet_def)

lemmas view_defs = quiet_def same_view_def same_cache_def vsysfs_view_def vmodule_view_def link_shown_def

lemma quiet_steps [simp]:
  "quiet st (set_vdev_root h r st') = quiet st st'"
  "quiet st (st'\<lparr>g_device_vsysfs_map := dm\<rparr>) = quiet st st'"
  "quiet st (st'\<lparr>g_vdev_acquire_map := a\<rparr>) = quiet st st'"
  "quiet st (st'\<lparr>g_vdev_root_list := l\<rparr>) = quiet st st'"
  "quiet st (st'\<lparr>fs_next := n\<rparr>) = quiet st st'"
  by (simp_all add: view_defs set_vdev_root_def)

lemma quiet_set:
  "quiet st st' \<Longrightarrow> vd_path d = vd_path (fs_vdev st' h) \<Longrightarrow> quiet st (set_vdev h d st')"
  "quiet st st' \<Longrightarrow> vs_class_dir v = vs_class_dir (fs_vsysfs st' h) \<Longrightarrow> vs_devices_dir v = vs_devices_dir (fs_vsysfs st' h) \<Longrightarrow>
     map fst (vs_attrs v) = map fst (vs_attrs (fs_vsysfs st' h)) \<Longrightarrow> vs_root v = vs_root (fs_vsysfs st' h) \<Longrightarrow> quiet st (set_vsysfs h v st')"
  "quiet st st' \<Longrightarrow> vm_dir m = vm_dir (fs_vmodule st' h) \<Longrightarrow> map fst (vm_attrs m) = map fst (vm_attrs (fs_vmodule st' h)) \<Longrightarrow>
     map fst (vm_registered_drivers m) = map fst (vm_registered_drivers (fs_vmodule st' h)) \<Longrightarrow> quiet st (set_vmodule h m st')"
  "quiet st st' \<Longrightarrow> sr_class_glob r = sr_class_glob (fs_vsysfs_root st' h) \<Longrightarrow> sr_devices_glob r = sr_devices_glob (fs_vsysfs_root st' h) \<Longrightarrow>
     quiet st (set_vsysfs_root h r st')"
  by (auto simp: view_defs set_vdev_def set_vsysfs_def set_vmodule_def set_vsysfs_root_def)

lemma quiet_callback:
  "(\<And>d. vd_path (g d) = vd_path d) \<Longrightarrow> quiet st (vdev_set_root_callback a r f g st)"
  by (auto simp: vdev_set_root_callback_def Let_def split: option.split intro!: fold_preserves [of "quiet st"] quiet_set)

lemma quiet_attach: "quiet st st' \<Longrightarrow> quiet st (attach_linked d h st')"
  by (auto simp: attach_linked_def Let_def vsysfs_remove_from_device_map_locked_def vsysfs_add_to_device_map_locked_def
      split: option.split intro!: quiet_set)

lemma quiet_mapping: "quiet st st' \<Longrightarrow> quiet st (vfile_on_vdev_device_mapping_changed pick d st')"
  by (auto simp: vfile_on_vdev_device_mapping_changed_def Let_def split: option.split intro!: fold_preserves [of "quiet st"] quiet_attach)

text \<open>A new object that is not in a list yet shows nothing.\<close>

lemma quiet_fresh:
  assumes "handles_ok st"
  shows "quiet st (st\<lparr>fs_vdev := (fs_vdev st)(fs_next st := d)\<rparr>)"
    "quiet st (st\<lparr>fs_vsysfs := (fs_vsysfs st)(fs_next st := v)\<rparr>)"
    "quiet st (set_vsysfs_root (fs_next st) r (st\<lparr>g_vsysfs_root_list := g_vsysfs_root_list st @ [fs_next st]\<rparr>))"
proof -
  have "\<forall>h \<in> set (g_vsysfs_list st). vs_root (fs_vsysfs st h) \<noteq> fs_next st"
  proof
    fix h assume "h \<in> set (g_vsysfs_list st)"
    then have "vs_root (fs_vsysfs st h) \<in> vs_root ` fs_vsysfs st ` set (g_vsysfs_list st)" by simp
    then have "vs_root (fs_vsysfs st h) < fs_next st" using assms by (simp only: handles_ok_def Un_iff simp_thms)
    then show "vs_root (fs_vsysfs st h) \<noteq> fs_next st" by simp
  qed
  moreover have "fs_next st \<notin> set (g_vdev_list st)" "fs_next st \<notin> set (g_vsysfs_list st)"
    using assms by (auto simp: handles_ok_def)
  ultimately show "quiet st (st\<lparr>fs_vdev := (fs_vdev st)(fs_next st := d)\<rparr>)" "quiet st (st\<lparr>fs_vsysfs := (fs_vsysfs st)(fs_next st := v)\<rparr>)"
    "quiet st (set_vsysfs_root (fs_next st) r (st\<lparr>g_vsysfs_root_list := g_vsysfs_root_list st @ [fs_next st]\<rparr>))"
    by (auto simp: view_defs set_vsysfs_root_def)
qed

lemma attr_names_put:
  "om_ok (vs_attrs v) \<Longrightarrow> name \<in> fst ` set (vs_attrs v) \<Longrightarrow> map fst (vs_attrs (put_attr name value access v)) = map fst (vs_attrs v)"
  "vs_class_dir (put_attr name value access v) = vs_class_dir v" "vs_devices_dir (put_attr name value access v) = vs_devices_dir v"
  by (simp_all add: put_attr_def om_names_insert)

lemma coherent_write_everywhere:
  assumes "coherent st" and "stores_ok st"
  shows "coherent (write_default_everywhere n v access r st)"
proof -
  let ?hs = "sr_instances (fs_vsysfs_root st r)"
  show ?thesis
  proof (cases "\<exists>h \<in> set ?hs. map_of (vs_attrs (fs_vsysfs st h)) n = None")
    case True
    then show ?thesis by (auto simp: write_default_everywhere_def Let_def vsysfs_prev_def) force?
  next
    case no: False
    let ?P = "\<lambda>s. quiet st s \<and> stores_ok s \<and> (\<forall>h \<in> set ?hs. map_of (vs_attrs (fs_vsysfs s h)) n \<noteq> None)"
    have rok: "vsysfs_root_ok (fs_vsysfs_root st r)" by (rule stores_okD [OF assms(2)])
    let ?s0 = "set_vsysfs_root r ((fs_vsysfs_root st r)\<lparr>sr_default_attrs := om_insert n v (sr_default_attrs (fs_vsysfs_root st r)),
                 sr_default_attr_access := om_insert n access (sr_default_attr_access (fs_vsysfs_root st r))\<rparr>) st"
    have "fs_vsysfs ?s0 = fs_vsysfs st" by (simp add: set_vsysfs_root_def)
    then have 0: "?P ?s0"
      using no rok assms(2) by (auto simp: vsysfs_root_ok_def intro!: quiet_set stores_ok_set)
    have step: "?P (apply_default n v access h s)" if "h \<in> set ?hs" "?P s" for h s
    proof -
      have "om_ok (vs_attrs (fs_vsysfs s h))" "n \<in> fst ` set (vs_attrs (fs_vsysfs s h))" "vsysfs_ok (fs_vsysfs s h)"
        using that stores_okD(1) [of s h] by (auto simp: vsysfs_ok_def attrs_ok_def map_of_eq_None_iff)
      then have "quiet st (apply_default n v access h s)" "stores_ok (apply_default n v access h s)"
        using that(2) unfolding apply_default_def
        by (simp_all add: quiet_set(2) stores_ok_set(1) attr_names_put)
      then show ?thesis using that(2) by (auto simp: apply_default_def set_vsysfs_def put_attr_def)
    qed
    have "?P (fold (apply_default n v access) ?hs ?s0)" by (rule fold_preserves [of ?P]) (use 0 step in blast)+
    then have "quiet st (fold (\<lambda>h st. set_vsysfs h (vsysfs_bump_attr_revision (fs_vsysfs st h)) st) ?hs (fold (apply_default n v access) ?hs ?s0))"
      by (rule fold_preserves [OF conjunct1]) (simp add: quiet_set(2) vsysfs_bump_attr_revision_def)
    then show ?thesis
      using no assms(1) coherent_quiet by (auto simp: write_default_everywhere_def Let_def vsysfs_prev_def)
  qed
qed

lemma coherent_write_default:
  assumes "coherent st" and "stores_ok st"
  shows "coherent (returned st (pim_vsysfs_root_write_default_attr alloc root name value access st))"
  by (rule returned_write_default) (use assms coherent_write_everywhere in blast)+

text \<open>Removing a default attribute announces a change as soon as one instance has lost it.\<close>

lemma remove_there_quiet:
  "(snd acc \<or> quiet st (fst acc)) \<Longrightarrow>
   snd (remove_attr_if_there n h acc) \<or> quiet st (fst (remove_attr_if_there n h acc))"
  by (auto simp: remove_attr_if_there_def Let_def)

lemma coherent_remove_default:
  assumes "coherent st"
  shows "coherent (snd (pim_vsysfs_root_remove_default_attr alloc root name st))"
proof -
  have "snd (fold (remove_attr_if_there n) hs (s, b)) \<or> quiet st (fst (fold (remove_attr_if_there n) hs (s, b)))"
    if "quiet st s" for n hs s b
    using that by (intro fold_preserves [of "\<lambda>acc. snd acc \<or> quiet st (fst acc)"]) (simp_all add: remove_there_quiet)
  from this [OF quiet_set(4) [OF quiet_refl]]
  have "coherent (fst (fold (remove_attr_if_there n) hs (set_vsysfs_root r rt st, b)))"
    if "sr_class_glob rt = sr_class_glob (fs_vsysfs_root st r)" "sr_devices_glob rt = sr_devices_glob (fs_vsysfs_root st r)"
      "\<not> snd (fold (remove_attr_if_there n) hs (set_vsysfs_root r rt st, b))" for n hs r rt b
    using that coherent_quiet [OF assms] by blast
  then show ?thesis
    using assms by (simp add: pim_vsysfs_root_remove_default_attr_def Let_def case_prod_unfold split: option.split)
qed

lemma map_of_key: "map_of m k = Some y \<Longrightarrow> k \<in> fst ` set m"
  by (metis map_of_SomeD fst_conv image_eqI)

lemma coherent_values:
  assumes "coherent st" and "stores_ok st"
  shows "coherent (snd (pim_vmodule_register_driver a h b d st))" "coherent (snd (pim_vmodule_create_attr a h n v x st))"
    "coherent (snd (pim_vsysfs_write_attr a h n v x st))"
proof -
  have mok: "om_ok (vm_attrs (fs_vmodule st h))" "om_ok (vs_attrs (fs_vsysfs st h))" for h
    using stores_okD [OF assms(2), of h] by (simp_all add: vmodule_ok_def vsysfs_ok_def attrs_ok_def)
  show "coherent (snd (pim_vmodule_register_driver a h b d st))"
    using assms(1)
    by (auto simp: pim_vmodule_register_driver_def Let_def om_names_emplace split: option.split intro!: coherent_quiet [OF assms(1)] quiet_set(3))
  show "coherent (snd (pim_vmodule_create_attr a h n v x st))"
    using assms(1) mok(1)
    by (auto simp: pim_vmodule_create_attr_def Let_def split: option.split
        intro!: coherent_quiet [OF assms(1)] quiet_set(3) om_names_insert map_of_key)
  show "coherent (snd (pim_vsysfs_write_attr a h n v x st))"
    using assms(1) mok(2)
    by (auto simp: pim_vsysfs_write_attr_def Let_def split: option.split intro!: coherent_quiet [OF assms(1)] quiet_set(2))
      (auto simp: vsysfs_bump_attr_revision_def attr_names_put map_of_key)
qed

text \<open>The exceptions: a root whose two globs are equal must not go while it has instances, and a call that never
  returns is not a step.\<close>

fun op_ok :: "vfs \<Rightarrow> vfs_op \<Rightarrow> bool" where
  "op_ok st (Vsysfs_Root_Destroy (Some r)) \<longleftrightarrow>
     sr_class_glob (fs_vsysfs_root st r) \<noteq> sr_devices_glob (fs_vsysfs_root st r) \<or>
     (\<forall>h \<in> set (g_vsysfs_list st). vs_root (fs_vsysfs st h) \<noteq> r)"
| "op_ok st (Vsysfs_Root_Write_Default_Attr a h n v x) \<longleftrightarrow> pim_vsysfs_root_write_default_attr a h n v x st \<noteq> None"
| "op_ok st op \<longleftrightarrow> True"

lemma coherent_root_destroy:
  assumes "coherent st" and "op_ok st (Vsysfs_Root_Destroy r)"
  shows "coherent (pim_vsysfs_root_destroy r st)"
proof (rule coherent_quiet [OF assms(1)])
  show "quiet st (pim_vsysfs_root_destroy r st)"
    using assms(2) by (cases r) (auto simp: pim_vsysfs_root_destroy_def unregister_object_def view_defs)
qed

lemma unregister_new: "h \<notin> set l \<Longrightarrow> unregister_object (l @ [h]) (Some h) = l"
  by (auto simp: unregister_object_def filter_id_conv)

lemma coherent_vdev_create:
  assumes "coherent st" and "handles_ok st"
  shows "coherent (snd (pim_vdev_create a l r n ma mi st))"
proof -
  have "fs_next st \<notin> set (g_vdev_list st)" using assms(2) by (auto simp: handles_ok_def)
  then have "coherent (set_vdev (fs_next st) d (st\<lparr>fs_next := Suc (fs_next st), g_vdev_list := g_vdev_list st @ [fs_next st]\<rparr>)
      \<lparr>g_vdev_list := unregister_object (g_vdev_list (set_vdev (fs_next st) d (st\<lparr>fs_next := Suc (fs_next st),
          g_vdev_list := g_vdev_list st @ [fs_next st]\<rparr>))) (Some (fs_next st))\<rparr>)" for d
    by (intro coherent_quiet [OF assms(1)]) (auto simp: view_defs set_vdev_def unregister_new)
  then show ?thesis using assms(1) by (auto simp: pim_vdev_create_def Let_def split: option.split)
qed

lemma coherent_vsysfs_create:
  assumes "coherent st" and "handles_ok st"
  shows "coherent (snd (pim_vsysfs_create a l p pick r d i st))"
proof -
  have "fs_next st \<notin> set (g_vsysfs_list st)" using assms(2) by (auto simp: handles_ok_def)
  then have "coherent (set_vsysfs (fs_next st) v (st\<lparr>fs_next := Suc (fs_next st), g_vsysfs_list := g_vsysfs_list st @ [fs_next st]\<rparr>)
      \<lparr>g_vsysfs_list := unregister_object (g_vsysfs_list (set_vsysfs (fs_next st) v (st\<lparr>fs_next := Suc (fs_next st),
          g_vsysfs_list := g_vsysfs_list st @ [fs_next st]\<rparr>))) (Some (fs_next st))\<rparr>)" for v
    by (intro coherent_quiet [OF assms(1)]) (auto simp: view_defs set_vsysfs_def unregister_new)
  then show ?thesis using assms(1) by (auto simp: pim_vsysfs_create_def Let_def split: option.split)
qed

lemma coherent_vsysfs_root_create:
  assumes "coherent st" and "handles_ok st"
  shows "coherent (snd (pim_vsysfs_root_create a r c k i st))"
proof -
  have "quiet st (set_vsysfs_root (fs_next st) rt (st\<lparr>fs_next := Suc (fs_next st), g_vsysfs_root_list := g_vsysfs_root_list st @ [fs_next st]\<rparr>))" for rt
    using quiet_fresh(3) [OF assms(2), of rt] by (simp add: view_defs set_vsysfs_root_def)
  then show ?thesis
    using assms(1) coherent_quiet [OF assms(1)] by (auto simp: pim_vsysfs_root_create_def Let_def split: option.split)
qed

lemma coherent_build: "coherent st \<Longrightarrow> coherent (snd (vfile_build_virtual_fs_snapshot st))"
  using build_coherent [of st] by (metis prod.collapse)

lemma coherent_quiet_ops:
  assumes "coherent st"
  shows "coherent (snd (pim_vdev_root_create a n st))" "coherent (pim_vdev_root_destroy h st)"
    "coherent (pim_vdev_root_set_open_cb a h f st)" "coherent (pim_vdev_root_set_ioctl_cb a h f st)"
    "coherent (pim_vdev_root_set_mmap_cb a h f st)" "coherent (pim_vdev_root_set_close_cb a h f st)"
    "coherent (pim_vdev_set_user_data h f st)" "coherent (snd (pim_vdev_lock a h st))" "coherent (snd (pim_vdev_unlock h st))"
    "coherent (snd (pim_vdev_register_device pick a h fd f st))" "coherent (snd (pim_vdev_unregister_device pick h fd st))"
  by (auto intro!: coherent_quiet [OF assms] quiet_callback quiet_mapping quiet_set(1)
      simp: pim_vdev_root_create_def pim_vdev_root_destroy_def pim_vdev_root_set_open_cb_def pim_vdev_root_set_ioctl_cb_def
        pim_vdev_root_set_mmap_cb_def pim_vdev_root_set_close_cb_def pim_vdev_set_user_data_def pim_vdev_lock_def pim_vdev_unlock_def
        pim_vdev_register_device_def pim_vdev_unregister_device_def Let_def assms split: option.split)

lemma coherent_apply:
  assumes "coherent st" and "stores_ok st" and "handles_ok st" and "op_ok st op"
  shows "coherent (vfs_apply pick hash op st)"
  using assms
  by (cases op)
    (auto simp: coherent_values coherent_write_default coherent_remove_default coherent_root_destroy coherent_vdev_create
      coherent_vsysfs_create coherent_vsysfs_root_create coherent_build coherent_quiet_ops queries_state pim_vmodule_create_def
      pim_vmodule_destroy_def pim_vmodule_remove_attr_def pim_vdev_destroy_def pim_vsysfs_destroy_def pim_vsysfs_remove_attr_def
      pim_vfile_clear_registries_def Let_def split: option.split)

section \<open>Every sequence of calls\<close>

inductive vfs_reachable :: "first_fd \<Rightarrow> (string \<Rightarrow> u64) \<Rightarrow> vfs \<Rightarrow> bool" for pick hash where
  vfs_start: "vfs_reachable pick hash vfs_init"
| vfs_call: "vfs_reachable pick hash st \<Longrightarrow> op_ok st op \<Longrightarrow> vfs_reachable pick hash (vfs_apply pick hash op st)"

lemma vfs_init_ok: "stores_ok vfs_init" "handles_ok vfs_init" "coherent vfs_init"
  by (simp_all add: vfs_init_def stores_ok_def handles_ok_def coherent_def vsysfs_ok_def vsysfs_root_ok_def vmodule_ok_def
      vfile_get_cached_virtual_fs_snapshot_locked_def)

lemma vfs_reachable_ok: "vfs_reachable pick hash st \<Longrightarrow> stores_ok st \<and> handles_ok st \<and> coherent st"
  by (induction rule: vfs_reachable.induct) (simp_all add: vfs_init_ok stores_ok_apply handles_ok_apply coherent_apply)

end
