(* ===== verification/Vfs_Resolve.thy ===== *)
theory Vfs_Resolve
  imports Vfs_Inv
begin

text \<open>
  What a path resolves to after any sequence of calls: the registered devices have different names and paths, a path
  resolves to a device exactly when it is that device's path, and the listing of \<open>/dev\<close> shows the device.
\<close>

section \<open>Names\<close>

definition under_sys :: "string \<Rightarrow> bool" where
  "under_sys d \<longleftrightarrow> take 5 d = ''/sys/''"

definition vdev_named :: "vfs \<Rightarrow> handle \<Rightarrow> bool" where
  "vdev_named st h \<longleftrightarrow> vd_path (fs_vdev st h) = ''/dev/'' @ vd_name (fs_vdev st h) \<and> valid_instance_name (vd_name (fs_vdev st h))"

definition names_ok :: "vfs \<Rightarrow> bool" where
  "names_ok st \<longleftrightarrow>
     distinct (map (\<lambda>h. vd_path (fs_vdev st h)) (g_vdev_list st)) \<and> (\<forall>h \<in> set (g_vdev_list st). vdev_named st h) \<and>
     (\<forall>h \<in> set (g_vsysfs_list st). under_sys (vs_class_dir (fs_vsysfs st h)) \<and> under_sys (vs_devices_dir (fs_vsysfs st h))) \<and>
     (\<forall>h \<in> set (g_vmodule_list st). under_sys (vm_dir (fs_vmodule st h)))"

text \<open>The operations that make no new object keep the names of all objects and at most shorten the lists.\<close>

definition kept :: "vfs \<Rightarrow> vfs \<Rightarrow> bool" where
  "kept st st' \<longleftrightarrow>
     (\<forall>h. vd_path (fs_vdev st' h) = vd_path (fs_vdev st h) \<and> vd_name (fs_vdev st' h) = vd_name (fs_vdev st h)) \<and>
     (\<forall>h. vs_class_dir (fs_vsysfs st' h) = vs_class_dir (fs_vsysfs st h) \<and> vs_devices_dir (fs_vsysfs st' h) = vs_devices_dir (fs_vsysfs st h)) \<and>
     (\<forall>h. vm_dir (fs_vmodule st' h) = vm_dir (fs_vmodule st h)) \<and>
     (\<exists>P. g_vdev_list st' = filter P (g_vdev_list st)) \<and> set (g_vsysfs_list st') \<subseteq> set (g_vsysfs_list st) \<and>
     set (g_vmodule_list st') \<subseteq> set (g_vmodule_list st)"

lemma kept_refl [simp, intro]: "kept st st"
  by (auto simp: kept_def intro: exI [of _ "\<lambda>_. True"])

lemma names_ok_kept: "names_ok st \<Longrightarrow> kept st st' \<Longrightarrow> names_ok st'"
  by (auto simp: names_ok_def kept_def vdev_named_def distinct_map_filter)

lemma kept_steps [simp]:
  "kept st (vfile_notify_virtual_fs_changed st') = kept st st'"
  "kept st (set_vdev_root h r st') = kept st st'"
  "kept st (set_vsysfs_root h sr st') = kept st st'"
  "kept st (st'\<lparr>g_device_vsysfs_map := dm\<rparr>) = kept st st'"
  "kept st (st'\<lparr>g_vdev_acquire_map := a\<rparr>) = kept st st'"
  "kept st (st'\<lparr>g_vdev_root_list := l\<rparr>) = kept st st'"
  "kept st (st'\<lparr>g_vsysfs_root_list := l\<rparr>) = kept st st'"
  "kept st (st'\<lparr>fs_next := n\<rparr>) = kept st st'"
  by (simp_all add: kept_def vfile_notify_virtual_fs_changed_def Let_def set_vdev_root_def set_vsysfs_root_def)

lemma kept_set:
  "kept st st' \<Longrightarrow> vd_path d = vd_path (fs_vdev st' h) \<Longrightarrow> vd_name d = vd_name (fs_vdev st' h) \<Longrightarrow> kept st (set_vdev h d st')"
  "kept st st' \<Longrightarrow> vs_class_dir v = vs_class_dir (fs_vsysfs st' h) \<Longrightarrow> vs_devices_dir v = vs_devices_dir (fs_vsysfs st' h) \<Longrightarrow>
     kept st (set_vsysfs h v st')"
  "kept st st' \<Longrightarrow> vm_dir m = vm_dir (fs_vmodule st' h) \<Longrightarrow> kept st (set_vmodule h m st')"
  by (auto simp: kept_def set_vdev_def set_vsysfs_def set_vmodule_def)

lemma kept_unregister:
  "kept st st' \<Longrightarrow> kept st (st'\<lparr>g_vdev_list := unregister_object (g_vdev_list st') h\<rparr>)"
  "kept st st' \<Longrightarrow> kept st (st'\<lparr>g_vsysfs_list := unregister_object (g_vsysfs_list st') h\<rparr>)"
  "kept st st' \<Longrightarrow> kept st (st'\<lparr>g_vmodule_list := unregister_object (g_vmodule_list st') h\<rparr>)"
  "kept st st' \<Longrightarrow> kept st (st'\<lparr>g_device_vsysfs_map := dm, g_vsysfs_list := unregister_object (g_vsysfs_list st') h\<rparr>)"
  by (auto simp: kept_def unregister_object_def split: option.split)

lemma dirs_steps [simp]:
  "vs_class_dir (drop_attr n v) = vs_class_dir v" "vs_devices_dir (drop_attr n v) = vs_devices_dir v"
  "vs_class_dir (put_attr n x a v) = vs_class_dir v" "vs_devices_dir (put_attr n x a v) = vs_devices_dir v"
  "vs_class_dir (vsysfs_bump_attr_revision v) = vs_class_dir v" "vs_devices_dir (vsysfs_bump_attr_revision v) = vs_devices_dir v"
  "vs_class_dir (ensure_attr n x a v) = vs_class_dir v" "vs_devices_dir (ensure_attr n x a v) = vs_devices_dir v"
  "vs_class_dir (fst (upsert_attr n x acc)) = vs_class_dir (fst acc)" "vs_devices_dir (fst (upsert_attr n x acc)) = vs_devices_dir (fst acc)"
  "vs_class_dir (derived_attrs rt cls ma mi v) = vs_class_dir v" "vs_devices_dir (derived_attrs rt cls ma mi v) = vs_devices_dir v"
  by (simp_all add: drop_attr_def put_attr_def vsysfs_bump_attr_revision_def ensure_attr_def upsert_attr_def derived_attrs_def Let_def)

lemma kept_callback:
  "(\<And>d. vd_path (g d) = vd_path d \<and> vd_name (g d) = vd_name d) \<Longrightarrow> kept st (vdev_set_root_callback a r f g st)"
  by (auto simp: vdev_set_root_callback_def Let_def split: option.split intro!: fold_preserves [of "kept st"] kept_set)

lemma kept_attach: "kept st st' \<Longrightarrow> kept st (attach_linked d h st')"
  by (auto simp: attach_linked_def Let_def vsysfs_remove_from_device_map_locked_def vsysfs_add_to_device_map_locked_def
      split: option.split intro!: kept_set)

lemma kept_mapping: "kept st st' \<Longrightarrow> kept st (vfile_on_vdev_device_mapping_changed pick d st')"
  by (auto simp: vfile_on_vdev_device_mapping_changed_def Let_def split: option.split intro!: fold_preserves [of "kept st"] kept_attach)

lemma kept_auto_attach: "kept st st' \<Longrightarrow> kept st (auto_attach pick d h st')"
  by (auto simp: auto_attach_def vsysfs_add_to_device_map_locked_def split: option.split intro!: kept_set)

lemma kept_defaults:
  "stores_ok st \<Longrightarrow> kept st (returned st (pim_vsysfs_root_write_default_attr alloc root name value access st))"
  "kept st (snd (pim_vsysfs_root_remove_default_attr alloc' root name st))"
proof -
  have a: "kept st s \<Longrightarrow> kept st (fold (apply_default n v x) hs s)" for n v x hs s
    by (auto simp: apply_default_def intro!: fold_preserves [of "kept st"] kept_set)
  have e: "kept st s \<Longrightarrow> kept st (fold (\<lambda>h st. set_vsysfs h (vsysfs_bump_attr_revision (fs_vsysfs st h)) st) hs s)" for hs s
    by (auto intro!: fold_preserves [of "kept st"] kept_set)
  show "stores_ok st \<Longrightarrow> kept st (returned st (pim_vsysfs_root_write_default_attr alloc root name value access st))"
    by (rule returned_write_default) (simp_all add: write_default_everywhere_def Let_def a e)
  have f: "kept st (fst acc) \<Longrightarrow> kept st (fst (remove_attr_if_there n h acc))" for n h acc
    by (auto simp: remove_attr_if_there_def Let_def intro!: kept_set)
  have "kept st s \<Longrightarrow> kept st (fst (fold (remove_attr_if_there n) hs (s, x)))" for n hs s x
    by (intro fold_preserves [of "\<lambda>acc. kept st (fst acc)"]) (simp_all add: f)
  then show "kept st (snd (pim_vsysfs_root_remove_default_attr alloc' root name st))"
    by (simp add: pim_vsysfs_root_remove_default_attr_def Let_def case_prod_unfold split: option.split)
qed

lemma kept_build: "kept st (snd (vfile_build_virtual_fs_snapshot st))"
  by (auto simp: kept_def vfile_build_virtual_fs_snapshot_def snapshot_begin_def snapshot_publish_def split: option.split intro: exI [of _ "\<lambda>_. True"])

lemma kept_ops:
  "kept st (pim_vmodule_destroy h st)" "kept st (snd (pim_vmodule_register_driver a h b d st))" "kept st (snd (pim_vmodule_create_attr a h n v x st))"
  "kept st (snd (pim_vmodule_remove_attr h n st))" "kept st (snd (pim_vdev_root_create a n st))" "kept st (pim_vdev_root_destroy h st)"
  "kept st (pim_vdev_destroy h st)" "kept st (pim_vdev_set_user_data h u st)" "kept st (snd (pim_vdev_lock a h st))" "kept st (snd (pim_vdev_unlock h st))"
  "kept st (snd (pim_vdev_register_device pick a h fd dv st))" "kept st (snd (pim_vdev_unregister_device pick h fd st))"
  "kept st (snd (pim_vsysfs_root_create a r c k i st))" "kept st (pim_vsysfs_root_destroy h st)" "kept st (pim_vsysfs_destroy h st)"
  "kept st (snd (pim_vsysfs_write_attr a h n v x st))" "kept st (snd (pim_vsysfs_remove_attr h n st))"
  by (auto simp: pim_vmodule_destroy_def pim_vmodule_register_driver_def pim_vmodule_create_attr_def pim_vmodule_remove_attr_def pim_vdev_root_create_def
      pim_vdev_root_destroy_def pim_vdev_destroy_def vdev_unlink_from_root_def pim_vdev_set_user_data_def pim_vdev_lock_def pim_vdev_unlock_def
      pim_vdev_register_device_def pim_vdev_unregister_device_def pim_vsysfs_root_create_def pim_vsysfs_root_destroy_def pim_vsysfs_destroy_def
      vsysfs_unlink_from_root_def pim_vsysfs_write_attr_def pim_vsysfs_remove_attr_def Let_def split: option.split
      intro!: kept_set kept_unregister kept_mapping)

text \<open>New objects.\<close>

lemma under_sys_simps [simp]:
  "under_sys (CHR ''/'' # CHR ''s'' # CHR ''y'' # CHR ''s'' # CHR ''/'' # s)"
  by (simp add: under_sys_def)

lemma under_sys_not_Nil: "under_sys d \<Longrightarrow> d \<noteq> []"
  by (auto simp: under_sys_def)

lemma names_ok_vmodule_create:
  assumes "names_ok st" and "handles_ok st"
  shows "names_ok (snd (pim_vmodule_create a n st))"
proof -
  have "fs_next st \<notin> set (g_vmodule_list st)" using assms(2) by (auto simp: handles_ok_def)
  then show ?thesis
    using assms(1)
    by (auto simp: pim_vmodule_create_def names_ok_def vdev_named_def Let_def vfile_notify_virtual_fs_changed_def set_vmodule_def split: option.split)
qed

lemma names_ok_vdev_create:
  assumes "names_ok st" and "handles_ok st"
  shows "names_ok (snd (pim_vdev_create a l r n ma mi st))"
proof -
  have new: "fs_next st \<notin> set (g_vdev_list st)" using assms(2) by (auto simp: handles_ok_def)
  have reg: "names_ok (vfile_notify_virtual_fs_changed (set_vdev_root x y (set_vdev (fs_next st) d' (set_vdev (fs_next st) d
       (st\<lparr>fs_next := Suc (fs_next st), g_vdev_list := g_vdev_list st @ [fs_next st]\<rparr>)))))"
    if "\<forall>h \<in> set (g_vdev_list st). vd_path (fs_vdev st h) \<noteq> vd_path d'" "vd_path d' = ''/dev/'' @ vd_name d'" "valid_instance_name (vd_name d')" for x y d d'
  proof -
    have "map (\<lambda>h. vd_path (if h = fs_next st then d' else fs_vdev st h)) (g_vdev_list st) = map (\<lambda>h. vd_path (fs_vdev st h)) (g_vdev_list st)"
      using new by (intro map_cong) auto
    then have "distinct (map (\<lambda>h. vd_path (if h = fs_next st then d' else fs_vdev st h)) (g_vdev_list st))"
      using assms(1) unfolding names_ok_def by metis
    then show ?thesis
      using assms(1) new that
      by (auto simp: names_ok_def vdev_named_def vfile_notify_virtual_fs_changed_def Let_def set_vdev_root_def set_vdev_def split: if_splits)
  qed
  have undo: "names_ok (set_vdev (fs_next st) d (st\<lparr>fs_next := Suc (fs_next st), g_vdev_list := g_vdev_list st @ [fs_next st]\<rparr>)
      \<lparr>g_vdev_list := unregister_object (g_vdev_list (set_vdev (fs_next st) d (st\<lparr>fs_next := Suc (fs_next st),
          g_vdev_list := g_vdev_list st @ [fs_next st]\<rparr>))) (Some (fs_next st))\<rparr>)" for d
  proof -
    have "map (\<lambda>h. vd_path (if h = fs_next st then d else fs_vdev st h)) (g_vdev_list st) = map (\<lambda>h. vd_path (fs_vdev st h)) (g_vdev_list st)"
      using new by (intro map_cong) auto
    then have "distinct (map (\<lambda>h. vd_path (if h = fs_next st then d else fs_vdev st h)) (g_vdev_list st))"
      using assms(1) unfolding names_ok_def by metis
    then show ?thesis using assms(1) new by (auto simp: names_ok_def vdev_named_def set_vdev_def unregister_new)
  qed
  show ?thesis
    using assms(1) by (auto simp: pim_vdev_create_def Let_def split: option.split intro!: reg undo)
qed

lemma names_ok_parent:
  assumes "names_ok st" and "fs_next st \<notin> set (g_vsysfs_list st)" and "under_sys p"
  shows "names_ok (snd (vsysfs_ensure_parent_device_node a r p i st))"
proof (cases "List.find (\<lambda>c. vs_devices_dir (fs_vsysfs st c) = p) (g_vsysfs_list st)")
  case (Some e)
  then have "e \<in> set (g_vsysfs_list st)" by (metis find_Some_iff nth_mem)
  then have "vs_class_dir (fs_vsysfs st e) \<noteq> []" "vs_devices_dir (fs_vsysfs st e) \<noteq> []"
    using assms(1) under_sys_not_Nil by (auto simp: names_ok_def)
  then have "upsert_dirs c p (fs_vsysfs st e) = (fs_vsysfs st e, False)" for c by (simp add: upsert_dirs_def Let_def)
  then show ?thesis
    using assms(1) Some
    by (auto simp: vsysfs_ensure_parent_device_node_def vsysfs_upsert_parent_device_attrs_locked_def Let_def intro!: names_ok_kept [OF assms(1)] kept_set)
next
  case None
  then show ?thesis
    using assms
    by (auto simp: vsysfs_ensure_parent_device_node_def Let_def names_ok_def vdev_named_def set_vsysfs_def new_parent_node_def)
qed

lemma names_ok_vsysfs_create:
  assumes "names_ok st" and "handles_ok st"
  shows "names_ok (snd (pim_vsysfs_create a l p pick r d i st))"
proof -
  let ?n = "fs_next st"
  have "\<forall>h \<in> set (g_vsysfs_list st). h < ?n" using assms(2) by (simp add: handles_ok_def)
  then have fresh: "?n \<notin> set (g_vsysfs_list st)" "Suc ?n \<notin> set (g_vsysfs_list st)" by fastforce+
  have new: "names_ok (set_vsysfs ?n v (st\<lparr>fs_next := Suc ?n, g_vsysfs_list := g_vsysfs_list st @ [?n]\<rparr>))"
    if "under_sys (vs_class_dir v)" "under_sys (vs_devices_dir v)" for v
    using assms(1) fresh that by (auto simp: names_ok_def vdev_named_def set_vsysfs_def)
  have undo: "names_ok (set_vsysfs ?n v (st\<lparr>fs_next := Suc ?n, g_vsysfs_list := g_vsysfs_list st @ [?n]\<rparr>)
      \<lparr>g_vsysfs_list := unregister_object (g_vsysfs_list (set_vsysfs ?n v (st\<lparr>fs_next := Suc ?n,
          g_vsysfs_list := g_vsysfs_list st @ [?n]\<rparr>))) (Some ?n)\<rparr>)" for v
    using assms(1) fresh by (auto simp: names_ok_def vdev_named_def set_vsysfs_def unregister_new)
  have mid: "names_ok (auto_attach pick e ?n (set_vsysfs_root x y (set_vsysfs ?n w s))) \<and>
      fs_next (auto_attach pick e ?n (set_vsysfs_root x y (set_vsysfs ?n w s))) \<notin>
        set (g_vsysfs_list (auto_attach pick e ?n (set_vsysfs_root x y (set_vsysfs ?n w s))))"
    if "under_sys (vs_class_dir v)" "under_sys (vs_devices_dir v)" "vs_class_dir w = vs_class_dir v" "vs_devices_dir w = vs_devices_dir v"
      "vs_root w = vs_root v" "s = set_vsysfs ?n v (st\<lparr>fs_next := Suc ?n, g_vsysfs_list := g_vsysfs_list st @ [?n]\<rparr>)" for e x y v w s
  proof -
    let ?s = "auto_attach pick e ?n (set_vsysfs_root x y (set_vsysfs ?n w s))"
    have at: "fs_vsysfs s ?n = v" by (simp add: set_vsysfs_def that(6))
    have "kept s ?s" by (intro kept_auto_attach) (simp add: kept_set(2) at that(3,4))
    then have "names_ok ?s" using names_ok_kept new [OF that(1,2)] that(6) by blast
    moreover have "same_frame s ?s" by (intro same_frame_auto_attach) (simp add: same_frame_set_vsysfs at that(5))
    then have "fs_next ?s \<notin> set (g_vsysfs_list ?s)" using fresh by (auto simp: same_frame_def set_vsysfs_def that(6))
    ultimately show ?thesis ..
  qed
  have parent: "names_ok (snd (vsysfs_ensure_parent_device_node p r pd i (auto_attach pick e ?n (set_vsysfs_root x y (set_vsysfs ?n w
      (set_vsysfs ?n v (st\<lparr>fs_next := Suc ?n, g_vsysfs_list := g_vsysfs_list st @ [?n]\<rparr>)))))))"
    if "under_sys pd" "under_sys (vs_class_dir v)" "under_sys (vs_devices_dir v)" "vs_class_dir w = vs_class_dir v" "vs_devices_dir w = vs_devices_dir v"
      "vs_root w = vs_root v" for r pd i e x y v w
    using mid [OF that(2-6) refl] names_ok_parent that(1) by blast
  have plain: "names_ok (auto_attach pick e ?n (set_vsysfs_root x y (set_vsysfs ?n w
      (set_vsysfs ?n v (st\<lparr>fs_next := Suc ?n, g_vsysfs_list := g_vsysfs_list st @ [?n]\<rparr>)))))"
    if "under_sys (vs_class_dir v)" "under_sys (vs_devices_dir v)" "vs_class_dir w = vs_class_dir v" "vs_devices_dir w = vs_devices_dir v"
      "vs_root w = vs_root v" for e x y v w
    using mid [OF that refl] by blast
  have notify: "names_ok (vfile_notify_virtual_fs_changed s)" if "names_ok s" for s
    using names_ok_kept [OF that] by simp
  show ?thesis
    using assms(1)
    by (auto simp: pim_vsysfs_create_def Let_def split: option.split
        intro!: undo notify parent plain)
qed

lemma names_ok_cleared: "names_ok (pim_vfile_clear_registries st)"
  by (simp add: pim_vfile_clear_registries_def vfile_clear_vdev_state_def vfile_clear_vsysfs_state_def vfile_clear_vmodule_state_def
      names_ok_def vfile_notify_virtual_fs_changed_def Let_def)

lemma names_ok_callbacks:
  assumes "names_ok st"
  shows "names_ok (pim_vdev_root_set_open_cb a h f st)" "names_ok (pim_vdev_root_set_ioctl_cb a h f st)"
    "names_ok (pim_vdev_root_set_mmap_cb a h f st)" "names_ok (pim_vdev_root_set_close_cb a h f st)"
  by (auto simp: pim_vdev_root_set_open_cb_def pim_vdev_root_set_ioctl_cb_def pim_vdev_root_set_mmap_cb_def pim_vdev_root_set_close_cb_def
      intro!: names_ok_kept [OF assms] kept_callback)

lemma names_ok_apply: "names_ok st \<Longrightarrow> handles_ok st \<Longrightarrow> stores_ok st \<Longrightarrow> names_ok (vfs_apply pick hash op st)"
  by (cases op)
    (simp_all add: names_ok_vmodule_create names_ok_vdev_create names_ok_vsysfs_create names_ok_cleared names_ok_callbacks
      kept_ops [THEN names_ok_kept [rotated]] kept_defaults [THEN names_ok_kept [rotated]] kept_build [THEN names_ok_kept [rotated]] queries_state)

lemma vfs_reachable_names: "vfs_reachable pick hash st \<Longrightarrow> names_ok st"
proof (induction rule: vfs_reachable.induct)
  case vfs_start
  show ?case by (simp add: names_ok_def vfs_init_def)
next
  case (vfs_call st op)
  then show ?case using names_ok_apply vfs_reachable_ok by blast
qed

section \<open>What the snapshot holds\<close>

lemma add_path_nodes [simp]:
  "sn_vfile_nodes (vfile_snapshot_add_path p t sn) = sn_vfile_nodes sn"
  "sn_attr_bindings (vfile_snapshot_add_path p t sn) = sn_attr_bindings sn"
proof -
  have e: "sn_vfile_nodes (vfile_snapshot_ensure_dir d sn) = sn_vfile_nodes sn" "sn_attr_bindings (vfile_snapshot_ensure_dir d sn) = sn_attr_bindings sn"
    "sn_vfile_nodes (vfile_snapshot_add_child d n t sn) = sn_vfile_nodes sn" "sn_attr_bindings (vfile_snapshot_add_child d n t sn) = sn_attr_bindings sn"
    for d n t sn by (simp_all add: vfile_snapshot_ensure_dir_def vfile_snapshot_add_child_def Let_def)
  have "sn_vfile_nodes (add_path_loop t d r sn) = sn_vfile_nodes sn \<and> sn_attr_bindings (add_path_loop t d r sn) = sn_attr_bindings sn" for t d r sn
  proof (induction t d r sn rule: add_path_loop.induct)
    case (1 t d r sn)
    then show ?case by (subst (1 2) add_path_loop.simps) (auto simp: Let_def e)
  qed
  then show "sn_vfile_nodes (vfile_snapshot_add_path p t sn) = sn_vfile_nodes sn"
    "sn_attr_bindings (vfile_snapshot_add_path p t sn) = sn_attr_bindings sn"
    by (simp_all add: vfile_snapshot_add_path_def e split: option.split)
qed

definition bindings_ok :: "vfile_virtual_fs_snapshot \<Rightarrow> bool" where
  "bindings_ok sn \<longleftrightarrow> (\<forall>p \<in> dom (map_of (sn_attr_bindings sn)). under_sys p)"

lemma under_sys_append: "under_sys d \<Longrightarrow> under_sys (d @ s)"
proof -
  assume d: "under_sys d"
  then have "length (take 5 d) = 5" by (simp add: under_sys_def)
  then show ?thesis using d by (simp add: under_sys_def)
qed

lemma bind_attrs_keeps:
  "sn_vfile_nodes (bind_attrs_for_dir ow d attrs sn) = sn_vfile_nodes sn"
  "under_sys d \<Longrightarrow> bindings_ok sn \<Longrightarrow> bindings_ok (bind_attrs_for_dir ow d attrs sn)"
proof -
  show "sn_vfile_nodes (bind_attrs_for_dir ow d attrs sn) = sn_vfile_nodes sn"
    unfolding bind_attrs_for_dir_def
    by (rule fold_preserves [of "\<lambda>s. sn_vfile_nodes s = sn_vfile_nodes sn"]) (simp_all add: bind_attr_def Let_def)
  show "under_sys d \<Longrightarrow> bindings_ok sn \<Longrightarrow> bindings_ok (bind_attrs_for_dir ow d attrs sn)"
    unfolding bind_attrs_for_dir_def
    by (rule fold_preserves [of bindings_ok]) (auto simp: bind_attr_def Let_def bindings_ok_def under_sys_append split: if_splits)
qed

lemma add_dir_keeps:
  "sn_vfile_nodes (add_vsysfs_dir st h attrs d sn) = sn_vfile_nodes sn"
  "under_sys d \<Longrightarrow> bindings_ok sn \<Longrightarrow> bindings_ok (add_vsysfs_dir st h attrs d sn)"
  "sn_vfile_nodes (add_vmodule_dir h d attrs sn) = sn_vfile_nodes sn"
  "under_sys d \<Longrightarrow> bindings_ok sn \<Longrightarrow> bindings_ok (add_vmodule_dir h d attrs sn)"
  by (auto simp: add_vsysfs_dir_def add_vmodule_dir_def Let_def bind_attrs_keeps intro!: bind_attrs_keeps(2)) (simp_all add: bindings_ok_def)

lemma drivers_keep:
  "sn_vfile_nodes (fold add_bus_driver_dir ds sn) = sn_vfile_nodes sn" "bindings_ok sn \<Longrightarrow> bindings_ok (fold add_bus_driver_dir ds sn)"
  by (rule fold_preserves [of "\<lambda>s. sn_vfile_nodes s = sn_vfile_nodes sn"], simp, simp add: add_bus_driver_dir_def)
    (rule fold_preserves [of bindings_ok], simp, simp add: add_bus_driver_dir_def bindings_ok_def)

lemma snapshot_bindings:
  assumes "names_ok st"
  shows "bindings_ok (vfile_build_virtual_fs_snapshot_uncached st)"
    "sn_vfile_nodes (vfile_build_virtual_fs_snapshot_uncached st) = sn_vfile_nodes (fold (add_vdev st) (g_vdev_list st) builder_init)"
proof -
  have 0: "bindings_ok (fold (add_vdev st) (g_vdev_list st) builder_init)"
    by (rule fold_preserves [of bindings_ok])
      (auto simp: bindings_ok_def builder_init_def vfile_snapshot_ensure_dir_def add_vdev_def add_vdev_node_def Let_def)
  have 1: "bindings_ok (add_vsysfs st h sn) \<and> sn_vfile_nodes (add_vsysfs st h sn) = N"
    if "h \<in> set (g_vsysfs_list st)" "bindings_ok sn \<and> sn_vfile_nodes sn = N" for h sn N
    using that assms by (auto simp: add_vsysfs_def vfile_snapshot_prepare_vsysfs_seed_def add_dir_keeps names_ok_def)
  have 2: "bindings_ok (add_vmodule st h sn) \<and> sn_vfile_nodes (add_vmodule st h sn) = N"
    if "h \<in> set (g_vmodule_list st)" "bindings_ok sn \<and> sn_vfile_nodes sn = N" for h sn N
    using that assms by (auto simp: add_vmodule_def vfile_snapshot_prepare_vmodule_seed_def add_dir_keeps drivers_keep names_ok_def)
  let ?N = "sn_vfile_nodes (fold (add_vdev st) (g_vdev_list st) builder_init)"
  have "bindings_ok (fold (add_vmodule st) (g_vmodule_list st) (fold (add_vsysfs st) (g_vsysfs_list st) (fold (add_vdev st) (g_vdev_list st) builder_init))) \<and>
    sn_vfile_nodes (fold (add_vmodule st) (g_vmodule_list st) (fold (add_vsysfs st) (g_vsysfs_list st) (fold (add_vdev st) (g_vdev_list st) builder_init))) = ?N"
    by (rule fold_preserves [of "\<lambda>s. bindings_ok s \<and> sn_vfile_nodes s = ?N"], rule fold_preserves [of "\<lambda>s. bindings_ok s \<and> sn_vfile_nodes s = ?N"])
      (use 0 1 2 in blast)+
  then show "bindings_ok (vfile_build_virtual_fs_snapshot_uncached st)"
    "sn_vfile_nodes (vfile_build_virtual_fs_snapshot_uncached st) = ?N"
    by (simp_all add: vfile_build_virtual_fs_snapshot_uncached_def vfile_copy_vmodule_list_for_snapshot_def
        vfile_copy_vsysfs_list_for_snapshot_def vfile_copy_vdev_list_for_snapshot_def)
qed

lemma vdev_nodes:
  assumes "distinct (map (\<lambda>h. vd_path (fs_vdev st h)) hs)" and "\<forall>h \<in> set hs. vd_path (fs_vdev st h) \<noteq> []"
  shows "map_of (sn_vfile_nodes (fold (add_vdev st) hs sn)) p =
         (case List.find (\<lambda>h. vd_path (fs_vdev st h) = p) hs of Some h \<Rightarrow> Some h | None \<Rightarrow> map_of (sn_vfile_nodes sn) p)"
  using assms
proof (induction hs arbitrary: sn)
  case (Cons h hs)
  have "List.find (\<lambda>x. vd_path (fs_vdev st x) = p) hs = None" if "vd_path (fs_vdev st h) = p"
    using that Cons.prems(1) by (auto simp: find_None_iff) (metis image_eqI)
  then show ?case
    using Cons by (auto simp: add_vdev_def add_vdev_node_def Let_def split: option.split)
qed simp

section \<open>Resolution of devices\<close>

lemma resolve_vdev:
  assumes "coherent st" and "names_ok st" and "vfile_normalize_absolute_path p = Some n"
  shows "(h \<in> set (g_vdev_list st) \<and> vd_path (fs_vdev st h) = n) \<longleftrightarrow>
         (\<exists>node. fst (vfile_resolve_virtual_node p st) = Inr node \<and> pi_kind node = VDEV_NODE \<and> pi_vdev node = Some h)"
proof -
  obtain sn st' where b: "vfile_build_virtual_fs_snapshot st = (sn, st')" by (cases "vfile_build_virtual_fs_snapshot st")
  have sn: "sn = vfile_build_virtual_fs_snapshot_uncached st" using build_coherent [OF assms(1) b] by simp
  have ne: "\<forall>h \<in> set (g_vdev_list st). vd_path (fs_vdev st h) \<noteq> []" and di: "distinct (map (\<lambda>h. vd_path (fs_vdev st h)) (g_vdev_list st))"
    and dev: "\<forall>h \<in> set (g_vdev_list st). \<not> under_sys (vd_path (fs_vdev st h))"
    using assms(2) by (auto simp: names_ok_def vdev_named_def under_sys_def)
  have node: "map_of (sn_vfile_nodes sn) n = List.find (\<lambda>h. vd_path (fs_vdev st h) = n) (g_vdev_list st)"
    unfolding sn snapshot_bindings(2) [OF assms(2)] vdev_nodes [OF di ne]
    by (simp add: builder_init_def vfile_snapshot_ensure_dir_def split: option.split)
  have find: "map_of (sn_vfile_nodes sn) n = Some h \<longleftrightarrow> h \<in> set (g_vdev_list st) \<and> vd_path (fs_vdev st h) = n" for h
  proof
    assume "map_of (sn_vfile_nodes sn) n = Some h"
    then show "h \<in> set (g_vdev_list st) \<and> vd_path (fs_vdev st h) = n" unfolding node find_Some_iff by (metis nth_mem)
  next
    assume h: "h \<in> set (g_vdev_list st) \<and> vd_path (fs_vdev st h) = n"
    then obtain k where k: "List.find (\<lambda>h. vd_path (fs_vdev st h) = n) (g_vdev_list st) = Some k"
      by (metis (mono_tags, lifting) find_None_iff option.exhaust)
    then have "k \<in> set (g_vdev_list st)" "vd_path (fs_vdev st k) = n" by (auto simp: find_Some_iff)
    then have "k = h" using di h by (auto simp: distinct_map inj_on_def)
    then show "map_of (sn_vfile_nodes sn) n = Some h" using k node by simp
  qed
  have sys: "map_of (sn_attr_bindings sn) n = None" if "map_of (sn_vfile_nodes sn) n = Some h" for h
    using that find dev snapshot_bindings(1) [OF assms(2)] unfolding bindings_ok_def sn [symmetric] by (metis domIff)
  have kinds: "pi_kind node \<noteq> VDEV_NODE" if "vfile_try_resolve_attr_node st' n sn = Some node" for node
    using that
    by (auto simp: vfile_try_resolve_attr_node_def vfile_bind_vsysfs_attr_node_def vfile_bind_vmodule_attr_node_def path_info_def
        split: option.splits attr_owner.splits prod.splits)
  have dirs: "pi_kind node \<noteq> VDEV_NODE" if "vfile_try_resolve_dir_node n sn = Some node" for node
    using that by (auto simp: vfile_try_resolve_dir_node_def path_info_def split: option.splits)
  show ?thesis
  proof (cases "map_of (sn_vfile_nodes sn) n")
    case None
    then show ?thesis
      using find [of h] kinds dirs
      by (auto simp: vfile_resolve_virtual_node_def b assms(3) vfile_try_resolve_non_dir_node_def vfile_try_resolve_vdev_node_def split: option.split)
  next
    case (Some k)
    then show ?thesis
      using find [of h] sys [OF Some]
      by (auto simp: vfile_resolve_virtual_node_def b assms(3) vfile_try_resolve_non_dir_node_def vfile_try_resolve_attr_node_def
          vfile_try_resolve_vdev_node_def path_info_def)
  qed
qed

end
