(* ===== verification/Vcache_Race.thy ===== *)
theory Vcache_Race
  imports Vfs_Props
begin

text \<open>
  The cache of snapshots under concurrency. A thread that builds a snapshot reads the generation in one critical
  section, copies the lists and reads the objects one by one under their own locks, and publishes in a second critical
  section; other threads change the registries in between, each change followed by a call of
  \<open>vfile_notify_virtual_fs_changed\<close>. Once every change has been announced the cache is coherent again, whatever the
  interleaving: a snapshot that mixes old and new data is never handed out by the cache.
\<close>

section \<open>Threads\<close>

datatype work = W_Vdev_List | W_Vdev handle | W_Vsysfs_List | W_Vsysfs handle | W_Vmodule_List | W_Vmodule handle

fun work_step :: "vfs \<Rightarrow> work \<Rightarrow> vfile_virtual_fs_snapshot \<Rightarrow> work list \<times> vfile_virtual_fs_snapshot" where
  "work_step st W_Vdev_List sn = (map W_Vdev (vfile_copy_vdev_list_for_snapshot st), sn)"
| "work_step st (W_Vdev h) sn = ([], add_vdev st h sn)"
| "work_step st W_Vsysfs_List sn = (map W_Vsysfs (vfile_copy_vsysfs_list_for_snapshot st), sn)"
| "work_step st (W_Vsysfs h) sn = ([], add_vsysfs st h sn)"
| "work_step st W_Vmodule_List sn = (map W_Vmodule (vfile_copy_vmodule_list_for_snapshot st), sn)"
| "work_step st (W_Vmodule h) sn = ([], add_vmodule st h sn)"

datatype builder =
    B_Idle | B_Building u64 "work list" vfile_virtual_fs_snapshot | B_Returned vfile_virtual_fs_snapshot

text \<open>\<open>rs_pending\<close> is the number of changes not announced yet, \<open>rs_notified\<close> the number of announcements so far.\<close>

record race_state =
  rs_fs :: vfs
  rs_builders :: "builder list"
  rs_pending :: nat
  rs_notified :: nat

definition race_begin :: "vfs \<Rightarrow> builder" where
  "race_begin st =
     (case snapshot_begin st of
        (generation, Some cached) \<Rightarrow> B_Returned cached
      | (generation, None) \<Rightarrow> B_Building generation [W_Vdev_List, W_Vsysfs_List, W_Vmodule_List] builder_init)"

inductive race_step :: "race_state \<Rightarrow> race_state \<Rightarrow> bool" where
  change: "same_cache (rs_fs s) st' \<Longrightarrow> race_step s (s\<lparr>rs_fs := st', rs_pending := Suc (rs_pending s)\<rparr>)"
| announce: "rs_pending s = Suc n \<Longrightarrow>
    race_step s (s\<lparr>rs_fs := vfile_notify_virtual_fs_changed (rs_fs s), rs_pending := n, rs_notified := Suc (rs_notified s)\<rparr>)"
| begins: "i < length (rs_builders s) \<Longrightarrow> rs_builders s ! i = B_Idle \<Longrightarrow>
    race_step s (s\<lparr>rs_builders := (rs_builders s)[i := race_begin (rs_fs s)]\<rparr>)"
| works: "i < length (rs_builders s) \<Longrightarrow> rs_builders s ! i = B_Building g (w # ws) sn \<Longrightarrow> work_step (rs_fs s) w sn = (new, sn') \<Longrightarrow>
    race_step s (s\<lparr>rs_builders := (rs_builders s)[i := B_Building g (new @ ws) sn']\<rparr>)"
| publishes: "i < length (rs_builders s) \<Longrightarrow> rs_builders s ! i = B_Building g [] sn \<Longrightarrow> snapshot_publish g sn (rs_fs s) = (sn', st') \<Longrightarrow>
    race_step s (s\<lparr>rs_fs := st', rs_builders := (rs_builders s)[i := B_Returned sn']\<rparr>)"
| returns: "i < length (rs_builders s) \<Longrightarrow> rs_builders s ! i = B_Returned sn \<Longrightarrow>
    race_step s (s\<lparr>rs_builders := (rs_builders s)[i := B_Idle]\<rparr>)"

definition race_init :: "nat \<Rightarrow> race_state" where
  "race_init n = \<lparr>rs_fs = vfs_init, rs_builders = replicate n B_Idle, rs_pending = 0, rs_notified = 0\<rparr>"

section \<open>The invariant\<close>

text \<open>What a builder would end with if it did the rest of its work now.\<close>

fun outcome :: "vfs \<Rightarrow> work \<Rightarrow> vfile_virtual_fs_snapshot \<Rightarrow> vfile_virtual_fs_snapshot" where
  "outcome st W_Vdev_List = fold (add_vdev st) (g_vdev_list st)"
| "outcome st (W_Vdev h) = add_vdev st h"
| "outcome st W_Vsysfs_List = fold (add_vsysfs st) (g_vsysfs_list st)"
| "outcome st (W_Vsysfs h) = add_vsysfs st h"
| "outcome st W_Vmodule_List = fold (add_vmodule st) (g_vmodule_list st)"
| "outcome st (W_Vmodule h) = add_vmodule st h"

lemma outcome_step: "work_step st w sn = (new, sn') \<Longrightarrow> fold (outcome st) new sn' = outcome st w sn"
  by (cases w)
    (auto simp: fold_map o_def vfile_copy_vdev_list_for_snapshot_def vfile_copy_vsysfs_list_for_snapshot_def vfile_copy_vmodule_list_for_snapshot_def)

lemma outcome_start:
  "fold (outcome st) [W_Vdev_List, W_Vsysfs_List, W_Vmodule_List] builder_init = vfile_build_virtual_fs_snapshot_uncached st"
  by (simp add: vfile_build_virtual_fs_snapshot_uncached_def vfile_copy_vdev_list_for_snapshot_def
      vfile_copy_vsysfs_list_for_snapshot_def vfile_copy_vmodule_list_for_snapshot_def)

definition builder_ok :: "race_state \<Rightarrow> builder \<Rightarrow> bool" where
  "builder_ok s b \<longleftrightarrow>
     (case b of
        B_Building g ws sn \<Rightarrow>
          (\<exists>n \<le> rs_notified s. g = of_nat (Suc n)) \<and>
          (g = g_virtual_fs_generation (rs_fs s) \<and> rs_pending s = 0 \<longrightarrow>
             fold (outcome (rs_fs s)) ws sn = vfile_build_virtual_fs_snapshot_uncached (rs_fs s))
      | _ \<Rightarrow> True)"

definition race_inv :: "race_state \<Rightarrow> bool" where
  "race_inv s \<longleftrightarrow>
     g_virtual_fs_generation (rs_fs s) = of_nat (Suc (rs_notified s)) \<and> (rs_pending s = 0 \<longrightarrow> coherent (rs_fs s)) \<and>
     (\<forall>b \<in> set (rs_builders s). builder_ok s b)"

lemma of_nat_Suc_inj: "Suc m < 2 ^ 64 \<Longrightarrow> Suc n < 2 ^ 64 \<Longrightarrow> (of_nat (Suc m) :: u64) = of_nat (Suc n) \<Longrightarrow> m = n"
proof -
  assume a: "Suc m < 2 ^ 64" "Suc n < 2 ^ 64" "(of_nat (Suc m) :: u64) = of_nat (Suc n)"
  have "unat (of_nat (Suc m) :: u64) = Suc m" "unat (of_nat (Suc n) :: u64) = Suc n" using a(1,2) by (simp_all add: unat_of_nat del: of_nat_Suc)
  with a(3) show ?thesis by simp
qed

lemma of_nat_Suc_not_0: "Suc n < 2 ^ 64 \<Longrightarrow> (of_nat (Suc n) :: u64) \<noteq> 0"
proof
  assume "Suc n < 2 ^ 64" "(of_nat (Suc n) :: u64) = 0"
  moreover from this(1) have "unat (of_nat (Suc n) :: u64) = Suc n" by (simp only: unat_of_nat) simp
  ultimately show False by simp
qed

lemma publish_same_view: "snapshot_publish g sn st = (sn', st') \<Longrightarrow> same_view st st' \<and> g_virtual_fs_generation st' = g_virtual_fs_generation st"
  by (auto simp: snapshot_publish_def same_view_def vsysfs_view_def vmodule_view_def link_shown_def split: if_splits option.splits)

lemma publish_coherent:
  assumes "coherent st" and "snapshot_publish g sn st = (sn', st')"
    and "g = g_virtual_fs_generation st \<Longrightarrow> sn = vfile_build_virtual_fs_snapshot_uncached st"
  shows "coherent st'"
proof (cases "g = g_virtual_fs_generation st")
  case True
  then have "st' = st\<lparr>g_virtual_fs_cached_snapshot := Some sn, g_virtual_fs_cached_generation := g, g_virtual_fs_cache_valid := True\<rparr>"
    using assms(2) by (auto simp: snapshot_publish_def)
  then show ?thesis
    using True assms(1) assms(3) [OF True] snapshot_same_view [of st st'] publish_same_view [OF assms(2)]
    by (simp add: coherent_def vfile_get_cached_virtual_fs_snapshot_locked_def)
next
  case False
  then show ?thesis using assms(1,2) by (auto simp: snapshot_publish_def split: option.splits)
qed

lemma outcome_cached:
  "outcome (st\<lparr>g_virtual_fs_cached_snapshot := a, g_virtual_fs_cached_generation := b, g_virtual_fs_cache_valid := c\<rparr>) = outcome st"
  (is "outcome ?st = outcome st")
proof -
  have "add_vdev ?st = add_vdev st" "add_vmodule ?st = add_vmodule st" by (intro ext, simp add: add_vdev_def add_vmodule_def)+
  moreover have "add_vsysfs ?st h = add_vsysfs st h" for h by (rule add_vsysfs_view) (simp add: vsysfs_view_def link_shown_def)
  then have "add_vsysfs ?st = add_vsysfs st" by (rule ext)
  ultimately have "outcome ?st w = outcome st w" for w by (cases w) simp_all
  then show ?thesis by (rule ext)
qed

lemma publish_outcome: "snapshot_publish g sn st = (sn', st') \<Longrightarrow> outcome st' = outcome st"
  by (auto simp: snapshot_publish_def outcome_cached split: if_splits option.splits)

lemma builders_update:
  "\<forall>b \<in> set bs. P b \<Longrightarrow> P b' \<Longrightarrow> \<forall>b \<in> set (bs[i := b']). P b"
  using set_update_subset_insert [of bs i b'] by blast

lemma race_inv_step:
  assumes "race_step s s'" and "race_inv s" and "Suc (rs_notified s') < 2 ^ 64"
  shows "race_inv s'"
  using assms
proof (cases rule: race_step.cases)
  case (change st')
  then show ?thesis
    using assms(2) by (auto simp: race_inv_def builder_ok_def same_cache_def split: builder.splits)
next
  case (announce n)
  have g: "g_virtual_fs_generation (rs_fs s) = of_nat (Suc (rs_notified s))" using assms(2) by (simp add: race_inv_def)
  have lt: "Suc (Suc (rs_notified s)) < 2 ^ 64" using assms(3) announce(1) by simp
  have g': "g_virtual_fs_generation (vfile_notify_virtual_fs_changed (rs_fs s)) = of_nat (Suc (Suc (rs_notified s)))"
    using of_nat_Suc_not_0 [OF lt] g by (simp add: vfile_notify_virtual_fs_changed_def Let_def add.commute)
  have "builder_ok s' b" if "b \<in> set (rs_builders s)" for b
  proof (cases b)
    case (B_Building h ws sn)
    have "builder_ok s b" using assms(2) that by (simp add: race_inv_def)
    then obtain m where m: "m \<le> rs_notified s" "h = of_nat (Suc m)" by (auto simp: builder_ok_def B_Building)
    then have "h \<noteq> of_nat (Suc (Suc (rs_notified s)))" using of_nat_Suc_inj [of m "Suc (rs_notified s)"] lt by auto
    then show ?thesis using m g' announce(1) by (auto simp: builder_ok_def B_Building intro!: exI [of _ m])
  qed (simp_all add: builder_ok_def)
  then show ?thesis using g' announce(1) by (simp add: race_inv_def)
next
  case (begins i)
  have "builder_ok s (race_begin (rs_fs s))"
    using assms(2) outcome_start [of "rs_fs s"]
    by (auto simp: race_begin_def snapshot_begin_def builder_ok_def race_inv_def split: option.split)
  then show ?thesis
    using assms(2) begins(1) builders_update [of "rs_builders s" "builder_ok s" "race_begin (rs_fs s)" i]
    by (auto simp: race_inv_def builder_ok_def split: builder.splits)
next
  case (works i g w ws sn new sn')
  have "builder_ok s (B_Building g (w # ws) sn)" using assms(2) works(2,3) nth_mem by (fastforce simp: race_inv_def)
  then have "builder_ok s (B_Building g (new @ ws) sn')"
    using outcome_step [OF works(4)] by (simp add: builder_ok_def)
  then show ?thesis
    using assms(2) works(1) builders_update [of "rs_builders s" "builder_ok s" "B_Building g (new @ ws) sn'" i]
    by (auto simp: race_inv_def builder_ok_def split: builder.splits)
next
  case (publishes i g sn sn' st')
  have ok: "builder_ok s (B_Building g [] sn)" using assms(2) publishes(2,3) nth_mem by (fastforce simp: race_inv_def)
  note view = publish_same_view [OF publishes(4)]
  have "coherent st'" if "rs_pending s = 0"
  proof (rule publish_coherent [OF _ publishes(4)])
    show "coherent (rs_fs s)" using assms(2) that by (simp add: race_inv_def)
    show "sn = vfile_build_virtual_fs_snapshot_uncached (rs_fs s)" if "g = g_virtual_fs_generation (rs_fs s)"
      using ok that \<open>rs_pending s = 0\<close> by (simp add: builder_ok_def)
  qed
  moreover have "builder_ok s' b" if "builder_ok s b" for b
    using that view snapshot_same_view [of "rs_fs s" st'] publish_outcome [OF publishes(4)] publishes(1)
    by (auto simp: builder_ok_def split: builder.splits)
  moreover have "builder_ok s' (B_Returned sn')" by (simp add: builder_ok_def)
  ultimately show ?thesis
    using assms(2) publishes(1) view builders_update [of "rs_builders s" "builder_ok s'" "B_Returned sn'" i]
    by (auto simp: race_inv_def)
next
  case (returns i sn)
  have "builder_ok s B_Idle" by (simp add: builder_ok_def)
  then show ?thesis
    using assms(2) returns(1) builders_update [of "rs_builders s" "builder_ok s" B_Idle i]
    by (auto simp: race_inv_def builder_ok_def split: builder.splits)
qed

lemma race_notified_mono: "race_step s s' \<Longrightarrow> rs_notified s \<le> rs_notified s'"
  by (cases rule: race_step.cases) auto

lemma race_inv_reachable:
  assumes "race_step\<^sup>*\<^sup>* (race_init n) s" and "Suc (rs_notified s) < 2 ^ 64"
  shows "race_inv s"
  using assms
proof (induction rule: rtranclp_induct)
  case base
  show ?case
    by (simp add: race_inv_def race_init_def vfs_init_def coherent_def vfile_get_cached_virtual_fs_snapshot_locked_def builder_ok_def)
next
  case (step s s')
  then show ?case using race_inv_step race_notified_mono by (meson Suc_le_mono le_less_trans)
qed

end
