(* ===== verification/Vdir.thy ===== *)
theory Vdir
  imports Vcache
begin

text \<open>
  Descriptors of virtual directories, \<open>src/vfile/vdir.cc\<close>: the cursor, the rows cached for a descriptor, and the
  records that \<open>getdents\<close> and \<open>getdents64\<close> write into the caller's buffer, byte by byte. A call returns an error
  number or the bytes it has written, whose number is the value of the C function.
\<close>

section \<open>Entries\<close>

datatype fd_type = FD_VDEV | FD_VSYSFS | FD_VMODULE | FD_PROC_FDINFO | FD_VDIR

record vfile_fd_entry =
  fe_type :: fd_type
  fe_vdev :: "handle option"
  fe_vsysfs :: "handle option"
  fe_vmodule :: "handle option"
  fe_owner_fd :: int
  fe_flags :: u32
  fe_sysfs_attr_name :: string
  fe_sysfs_read_offset :: u64
  fe_sysfs_cached_value :: string
  fe_sysfs_cached_attr_revision :: u64
  fe_sysfs_cached_attr_access :: int
  fe_virtual_path :: string
  fe_dir_read_offset :: u64
  fe_dir_cached_rows :: "vdev_dirent_row list"
  fe_dir_cached_generation :: u64
  fe_active_ops :: u32
  fe_closing :: bool

definition new_fd_entry :: "fd_type \<Rightarrow> u32 \<Rightarrow> vfile_fd_entry" where
  "new_fd_entry type flags =
     \<lparr>fe_type = type, fe_vdev = None, fe_vsysfs = None, fe_vmodule = None, fe_owner_fd = - 1, fe_flags = flags,
      fe_sysfs_attr_name = '''', fe_sysfs_read_offset = 0, fe_sysfs_cached_value = '''', fe_sysfs_cached_attr_revision = 0,
      fe_sysfs_cached_attr_access = PIM_ACCESS_MODE_RW, fe_virtual_path = '''', fe_dir_read_offset = 0,
      fe_dir_cached_rows = [], fe_dir_cached_generation = 0, fe_active_ops = 0, fe_closing = False\<rparr>"

definition kO_PATH :: u32 where
  "kO_PATH = 0x200000"

definition vdir_fd_opened_with_path_only :: "u32 \<Rightarrow> bool" where
  "vdir_fd_opened_with_path_only flags \<longleftrightarrow> flags AND kO_PATH \<noteq> 0"

definition vdir_make_fd_entry :: "string \<Rightarrow> u32 \<Rightarrow> vfile_fd_entry" where
  "vdir_make_fd_entry path flags =
     (new_fd_entry FD_VDIR flags)\<lparr>fe_virtual_path := path, fe_dir_read_offset := 0, fe_dir_cached_rows := [],
                                   fe_dir_cached_generation := 0\<rparr>"

definition vdir_seek_entry_cursor :: "vfile_fd_entry option \<Rightarrow> int \<Rightarrow> int \<Rightarrow> (errno + u64) \<times> vfile_fd_entry option" where
  "vdir_seek_entry_cursor entry offset whence =
     (case entry of
        None \<Rightarrow> (Inl EBADF, entry)
      | Some e \<Rightarrow>
          if fe_type e \<noteq> FD_VDIR then (Inl EBADF, entry)
          else if vdir_fd_opened_with_path_only (fe_flags e) then (Inl EBADF, entry)
          else (case vfile_seek_cursor_locked (fe_dir_read_offset e) offset whence of
                  Inl _ \<Rightarrow> (Inl EINVAL, entry)
                | Inr cursor \<Rightarrow> (Inr cursor, Some (e\<lparr>fe_dir_read_offset := cursor\<rparr>))))"

section \<open>Records\<close>

text \<open>0 stands for a length that does not fit.\<close>

definition vdir_dirent_aligned_reclen :: "u64 \<Rightarrow> u64 \<Rightarrow> u64 \<Rightarrow> u64 \<Rightarrow> u64" where
  "vdir_dirent_aligned_reclen base name_len suffix_len align =
     (if align = 0 \<or> align AND (align - 1) \<noteq> 0 then 0
      else if name_len > - 1 - base then 0
      else if suffix_len > - 1 - (base + name_len) then 0
      else
        let raw_reclen = base + name_len + suffix_len; align_mask = align - 1
        in if raw_reclen > - 1 - align_mask then 0
           else
             let reclen = (raw_reclen + align_mask) AND NOT align_mask
             in if reclen = 0 \<or> reclen > 0xFFFF then 0 else reclen)"

definition name_bytes :: "string \<Rightarrow> u8 list" where
  "name_bytes s = map of_char s"

fun dtype_byte :: "dtype \<Rightarrow> u8" where
  "dtype_byte DT_UNKNOWN = 0"
| "dtype_byte DT_CHR = 2"
| "dtype_byte DT_DIR = 4"
| "dtype_byte DT_REG = 8"
| "dtype_byte DT_LNK = 10"

text \<open>Both layouts begin with \<open>d_ino\<close>, \<open>d_off\<close> and \<open>d_reclen\<close>; \<open>name_off\<close> is the offset of \<open>d_name\<close>.\<close>

definition vdir_fill_dirent_common :: "nat \<Rightarrow> nat \<Rightarrow> vdev_dirent_row \<Rightarrow> nat \<Rightarrow> u8 list" where
  "vdir_fill_dirent_common name_off reclen row index =
     (let dent = replicate reclen 0;
          dent = slice_put 0 (le_bytes 8 (dr_ino row)) dent;
          dent = slice_put 8 (le_bytes 8 (of_nat (index + 1) :: u64)) dent;
          dent = slice_put 16 (le_bytes 2 (of_nat reclen :: u16)) dent
      in slice_put name_off (name_bytes (dr_name row) @ [0]) dent)"

definition fill_dirent64 :: "u64 \<Rightarrow> vdev_dirent_row \<Rightarrow> nat \<Rightarrow> u8 list" where
  "fill_dirent64 reclen row index =
     slice_put 18 [dtype_byte (dr_dtype row)] (vdir_fill_dirent_common 19 (unat reclen) row index)"

definition fill_dirent :: "u64 \<Rightarrow> vdev_dirent_row \<Rightarrow> nat \<Rightarrow> u8 list" where
  "fill_dirent reclen row index =
     slice_put (unat reclen - 1) [dtype_byte (dr_dtype row)] (vdir_fill_dirent_common 18 (unat reclen) row index)"

definition reclen64 :: "vdev_dirent_row \<Rightarrow> u64" where
  "reclen64 row = vdir_dirent_aligned_reclen 19 (of_nat (length (dr_name row))) 1 8"

definition reclen_legacy :: "vdev_dirent_row \<Rightarrow> u64" where
  "reclen_legacy row = vdir_dirent_aligned_reclen 18 (of_nat (length (dr_name row))) 2 8"

section \<open>Reading a directory\<close>

fun emit_loop ::
  "(vdev_dirent_row \<Rightarrow> u64) \<Rightarrow> (u64 \<Rightarrow> vdev_dirent_row \<Rightarrow> nat \<Rightarrow> u8 list) \<Rightarrow> u64 \<Rightarrow> nat \<Rightarrow> u64 \<Rightarrow> u8 list \<Rightarrow>
   vdev_dirent_row list \<Rightarrow> errno + nat \<times> u8 list" where
  "emit_loop calc fill count i used out [] = Inr (i, out)"
| "emit_loop calc fill count i used out (row # rows) =
     (let reclen = calc row
      in if reclen = 0 \<or> reclen > count - used then (if used = 0 then Inl EINVAL else Inr (i, out))
         else emit_loop calc fill count (i + 1) (used + reclen) (out @ fill reclen row i) rows)"

definition vdir_emit_cached_dirents_locked ::
  "(vdev_dirent_row \<Rightarrow> u64) \<Rightarrow> (u64 \<Rightarrow> vdev_dirent_row \<Rightarrow> nat \<Rightarrow> u8 list) \<Rightarrow> u64 \<Rightarrow> vfile_fd_entry \<Rightarrow>
   (errno + u8 list) \<times> vfile_fd_entry" where
  "vdir_emit_cached_dirents_locked calc fill count entry =
     (let rows = fe_dir_cached_rows entry; cursor = unat (fe_dir_read_offset entry)
      in if cursor \<ge> length rows then (Inr [], entry)
         else (case emit_loop calc fill count cursor 0 [] (drop cursor rows) of
                 Inl e \<Rightarrow> (Inl e, entry)
               | Inr (cursor, out) \<Rightarrow> (Inr out, entry\<lparr>fe_dir_read_offset := of_nat cursor\<rparr>)))"

definition vdir_refresh_cache_if_needed ::
  "(string \<Rightarrow> u64) \<Rightarrow> u64 \<Rightarrow> vfile_fd_entry \<times> vfs \<Rightarrow> errno option \<times> vfile_fd_entry \<times> vfs" where
  "vdir_refresh_cache_if_needed hash generation es =
     (case es of (entry, st) \<Rightarrow>
        if fe_dir_cached_generation entry = generation \<and> fe_dir_cached_rows entry \<noteq> [] then (None, entry, st)
        else (case vfile_collect_dirents hash (fe_virtual_path entry) st of
                (None, st) \<Rightarrow> (Some ENOENT, entry\<lparr>fe_dir_cached_rows := [], fe_dir_cached_generation := 0\<rparr>, st)
              | (Some rows, st) \<Rightarrow> (None, entry\<lparr>fe_dir_cached_rows := rows, fe_dir_cached_generation := generation\<rparr>, st)))"

text \<open>The result is \<open>None\<close> when the caller is to try again.\<close>

definition vdir_getdents_try_once ::
  "(string \<Rightarrow> u64) \<Rightarrow> (vdev_dirent_row \<Rightarrow> u64) \<Rightarrow> (u64 \<Rightarrow> vdev_dirent_row \<Rightarrow> nat \<Rightarrow> u8 list) \<Rightarrow> u64 \<Rightarrow> u64 \<Rightarrow>
   vfile_fd_entry \<times> vfs \<Rightarrow> (errno + u8 list) option \<times> vfile_fd_entry \<times> vfs" where
  "vdir_getdents_try_once hash calc fill count generation es =
     (case vdir_refresh_cache_if_needed hash generation es of
        (Some e, entry, st) \<Rightarrow> (Some (Inl e), entry, st)
      | (None, entry, st) \<Rightarrow>
          if fe_dir_cached_generation entry \<noteq> generation \<or> fe_dir_cached_rows entry = [] then (None, entry, st)
          else (case vdir_emit_cached_dirents_locked calc fill count entry of (r, entry) \<Rightarrow> (Some r, entry, st)))"

definition vdir_dispatch_getdents_common ::
  "(string \<Rightarrow> u64) \<Rightarrow> (vdev_dirent_row \<Rightarrow> u64) \<Rightarrow> (u64 \<Rightarrow> vdev_dirent_row \<Rightarrow> nat \<Rightarrow> u8 list) \<Rightarrow> bool \<Rightarrow> u64 \<Rightarrow>
   vfile_fd_entry \<times> vfs \<Rightarrow> (errno + u8 list) \<times> vfile_fd_entry \<times> vfs" where
  "vdir_dispatch_getdents_common hash calc fill dirp count es =
     (if fe_type (fst es) \<noteq> FD_VDIR then (Inl ENOTDIR, es)
      else if vdir_fd_opened_with_path_only (fe_flags (fst es)) then (Inl EBADF, es)
      else if \<not> dirp then (Inl EFAULT, es)
      else
        let generation = vfile_get_virtual_fs_generation (snd es)
        in (case vdir_getdents_try_once hash calc fill count generation es of
              (Some ret, es) \<Rightarrow> (ret, es)
            | (None, es) \<Rightarrow>
                let next_generation = vfile_get_virtual_fs_generation (snd es)
                in if next_generation = generation then (Inr [], es)
                   else (case vdir_getdents_try_once hash calc fill count next_generation es of
                           (Some ret, es) \<Rightarrow> (ret, es)
                         | (None, es) \<Rightarrow> (Inr [], es))))"

definition vdir_getdents64_from_entry ::
  "(string \<Rightarrow> u64) \<Rightarrow> bool \<Rightarrow> u64 \<Rightarrow> vfile_fd_entry \<times> vfs \<Rightarrow> (errno + u8 list) \<times> vfile_fd_entry \<times> vfs" where
  "vdir_getdents64_from_entry hash = vdir_dispatch_getdents_common hash reclen64 fill_dirent64"

definition vdir_getdents_from_entry ::
  "(string \<Rightarrow> u64) \<Rightarrow> bool \<Rightarrow> u64 \<Rightarrow> vfile_fd_entry \<times> vfs \<Rightarrow> (errno + u8 list) \<times> vfile_fd_entry \<times> vfs" where
  "vdir_getdents_from_entry hash = vdir_dispatch_getdents_common hash reclen_legacy fill_dirent"

end
