(* ===== verification/Vdir_Props.thy ===== *)
theory Vdir_Props
  imports Vdir Vfs_Inv
begin

text \<open>
  Reading a virtual directory: the records of \<open>getdents64\<close> parse back to the rows they were made from, each call
  resumes where the last one stopped, and a loop of calls sees the two dot entries and the children of the directory,
  each once.
\<close>

section \<open>Lengths\<close>

lemma unat_and_not_7: "unat (x AND NOT 7 :: u64) = unat x div 8 * 8"
proof -
  have "x AND NOT (mask 3) = push_bit 3 (drop_bit 3 x)"
    by (rule bit_word_eqI) (auto simp: bit_and_iff bit_not_iff bit_push_bit_iff bit_drop_bit_eq bit_mask_iff possible_bit_def)
  moreover have "(mask 3 :: u64) = 7" by (simp add: mask_eq_exp_minus_1)
  moreover have "unat (drop_bit 3 x) = unat x div 8" by (simp add: drop_bit_eq_div unat_div)
  moreover have "unat x < 18446744073709551616" using unsigned_less [of x] by simp
  then have "unat x div 8 * 8 < 2 ^ 64" by simp
  ultimately show ?thesis by (simp add: push_bit_eq_mult unat_word_ariths)
qed

definition short_name :: "string \<Rightarrow> bool" where
  "short_name s \<longleftrightarrow> length s \<le> 255"

lemma reclen64_value:
  assumes "short_name (dr_name row)"
  shows "unat (reclen64 row) = (length (dr_name row) + 27) div 8 * 8" and "reclen64 row \<noteq> 0"
proof -
  define n where "n = length (dr_name row)"
  have n: "n \<le> 255" using assms by (simp add: short_name_def n_def)
  have u: "unat (of_nat n :: u64) = n" using n by (simp add: unat_of_nat)
  have a: "unat (19 + of_nat n + 1 + 7 :: u64) = n + 27" "unat (19 + of_nat n + 1 :: u64) = n + 20" "unat (19 + of_nat n :: u64) = n + 19"
    using n u by (simp_all add: unat_word_ariths)
  have m: "unat (- 1 - 19 :: u64) = 18446744073709551596" "unat (- 1 - 7 :: u64) = 18446744073709551608" by simp_all
  have g1: "\<not> of_nat n > (- 1 - 19 :: u64)" "\<not> 19 + of_nat n + 1 > (- 1 - 7 :: u64)" using n u a m by (simp_all add: word_less_nat_alt)
  have "unat (- 1 - (19 + of_nat n) :: u64) = 18446744073709551615 - (n + 19)"
    using a n by (subst unat_sub) (simp_all add: word_le_nat_alt unsigned_minus_1_eq_mask mask_eq_exp_minus_1)
  then have g2: "\<not> 1 > (- 1 - (19 + of_nat n) :: u64)" using n by (simp add: word_less_nat_alt)
  have r: "unat ((19 + of_nat n + 1 + 7) AND NOT 7 :: u64) = (n + 27) div 8 * 8" by (simp only: unat_and_not_7 a)
  have e: "reclen64 row = (19 + of_nat n + 1 + 7) AND NOT 7"
  proof -
    have c: "(8 :: u64) \<noteq> 0" "(8 :: u64) AND (8 - 1) = 0" "(8 :: u64) - 1 = 7" by simp_all
    have "unat ((19 + of_nat n + 1 + 7) AND NOT 7 :: u64) \<noteq> unat (0 :: u64)" unfolding r by simp
    then have "(19 + of_nat n + 1 + 7) AND NOT 7 \<noteq> (0 :: u64)" by metis
    moreover have "\<not> (19 + of_nat n + 1 + 7) AND NOT 7 > (0xFFFF :: u64)" unfolding word_less_nat_alt r using n by simp
    ultimately show ?thesis
      unfolding reclen64_def vdir_dirent_aligned_reclen_def Let_def n_def [symmetric] c(3)
      using c(1,2) g1 g2 by (simp only: c(3) if_False simp_thms)
  qed
  show "unat (reclen64 row) = (length (dr_name row) + 27) div 8 * 8" using e r by (simp add: n_def)
  moreover have "(n + 27) div 8 * 8 \<noteq> 0" by simp
  ultimately show "reclen64 row \<noteq> 0" by (metis n_def unsigned_0)
qed

section \<open>Records and rows\<close>

text \<open>What a program such as \<open>readdir\<close> takes from a buffer of \<open>linux_dirent64\<close> records: name, type, inode and offset.\<close>

function parse_dirents64 :: "u8 list \<Rightarrow> (string \<times> u8 \<times> u64 \<times> u64) list" where
  "parse_dirents64 bs =
     (let reclen = unat (le_word (slice_get 16 2 bs) :: u16)
      in if length bs < 19 \<or> reclen < 19 then []
         else (map (\<lambda>b. char_of (unat b)) (takeWhile (\<lambda>b. b \<noteq> 0) (drop 19 (take reclen bs))), bs ! 18,
               le_word (slice_get 0 8 bs), le_word (slice_get 8 8 bs)) # parse_dirents64 (drop reclen bs))"
  by auto
termination by (relation "measure length") auto

declare parse_dirents64.simps [simp del]

definition row_seen :: "nat \<Rightarrow> vdev_dirent_row \<Rightarrow> string \<times> u8 \<times> u64 \<times> u64" where
  "row_seen i row = (dr_name row, dtype_byte (dr_dtype row), dr_ino row, of_nat (i + 1))"

definition good_row :: "vdev_dirent_row \<Rightarrow> bool" where
  "good_row row \<longleftrightarrow> short_name (dr_name row) \<and> CHR 0x00 \<notin> set (dr_name row)"

lemma unat_char_byte [simp]: "unat (of_char c :: u8) = of_char c"
proof -
  have "(of_char c :: u8) = of_nat (of_char c)" by (simp add: of_nat_of_char)
  then show ?thesis using nat_of_char_less_256 [of c] by (simp add: unat_of_nat)
qed

lemma name_bytes_round:
  "CHR 0x00 \<notin> set s \<Longrightarrow> takeWhile (\<lambda>b. b \<noteq> 0) (name_bytes s @ 0 # r) = name_bytes s"
  "map (\<lambda>b. char_of (unat b)) (name_bytes s) = s"
proof -
  have nz: "(of_char c :: u8) \<noteq> 0" if "c \<noteq> CHR 0x00" for c
  proof
    assume "(of_char c :: u8) = 0"
    then have "(of_char c :: nat) = 0" using unat_char_byte [of c] by simp
    moreover have "(of_char (CHR 0x00) :: nat) = 0" by simp
    ultimately have "(of_char c :: nat) = of_char (CHR 0x00)" by simp
    with that show False by (simp only: of_char_eq_iff)
  qed
  show "takeWhile (\<lambda>b. b \<noteq> 0) (name_bytes s @ 0 # r) = name_bytes s" if s: "CHR 0x00 \<notin> set s"
  proof -
    have "b \<noteq> 0" if "b \<in> set (name_bytes s)" for b
    proof -
      obtain c where "c \<in> set s" "b = of_char c" using \<open>b \<in> _\<close> by (auto simp: name_bytes_def)
      then show ?thesis using nz [of c] s by metis
    qed
    then have "takeWhile (\<lambda>b. b \<noteq> 0) (name_bytes s @ 0 # r) = name_bytes s @ takeWhile (\<lambda>b. b \<noteq> 0) (0 # r)"
      by (rule takeWhile_append2)
    then show ?thesis by simp
  qed
  show "map (\<lambda>b. char_of (unat b)) (name_bytes s) = s" by (simp add: name_bytes_def o_def)
qed

lemma length_name_bytes [simp]: "length (name_bytes s) = length s"
  by (simp add: name_bytes_def)

lemma fill_dirent64_fields:
  fixes i :: nat
  assumes "good_row row"
  defines "r \<equiv> fill_dirent64 (reclen64 row) row i"
  shows "length r = unat (reclen64 row)" and "slice_get 16 2 r = le_bytes 2 (of_nat (unat (reclen64 row)) :: u16)"
    and "r ! 18 = dtype_byte (dr_dtype row)" and "slice_get 0 8 r = le_bytes 8 (dr_ino row)"
    and "slice_get 8 8 r = le_bytes 8 (of_nat (i + 1) :: u64)"
    and "\<exists>z. drop 19 r = name_bytes (dr_name row) @ 0 # z"
proof -
  define n where "n = unat (reclen64 row)"
  have n: "n \<ge> length (dr_name row) + 20"
    using reclen64_value(1) [of row] assms(1) by (simp add: n_def good_row_def)
  have r: "r = slice_put 18 [dtype_byte (dr_dtype row)] (slice_put 19 (name_bytes (dr_name row) @ [0]) (slice_put 16 (le_bytes 2 (of_nat n :: u16))
      (slice_put 8 (le_bytes 8 (of_nat (i + 1) :: u64)) (slice_put 0 (le_bytes 8 (dr_ino row)) (replicate n 0)))))"
    by (simp add: r_def fill_dirent64_def vdir_fill_dirent_common_def Let_def n_def)
  show "length r = unat (reclen64 row)" using n by (simp add: r flip: n_def)
  show "slice_get 16 2 r = le_bytes 2 (of_nat (unat (reclen64 row)) :: u16)"
    using n by (simp add: r slice_get_put_disjoint slice_get_put_same flip: n_def)
  show "r ! 18 = dtype_byte (dr_dtype row)" using n by (simp add: r nth_slice_put)
  show "slice_get 0 8 r = le_bytes 8 (dr_ino row)" using n by (simp add: r slice_get_put_disjoint slice_get_put_same)
  show "slice_get 8 8 r = le_bytes 8 (of_nat (i + 1) :: u64)"
    using n by (simp add: r slice_get_put_disjoint slice_get_put_same)
  show "\<exists>z. drop 19 r = name_bytes (dr_name row) @ 0 # z"
    using n by (simp add: r slice_put_def)
qed

lemma unat_of_nat16: "k < 65536 \<Longrightarrow> unat (of_nat k :: u16) = k"
  by (simp add: unat_of_nat)

lemma parse_record:
  assumes "good_row row"
  shows "parse_dirents64 (fill_dirent64 (reclen64 row) row i @ rest) = row_seen i row # parse_dirents64 rest"
proof -
  let ?r = "fill_dirent64 (reclen64 row) row i"
  note f = fill_dirent64_fields [OF assms, of i]
  have n: "length ?r \<ge> 20" "length ?r < 65536"
    using f(1) reclen64_value(1) [of row] assms by (auto simp: good_row_def short_name_def)
  have g: "slice_get a b (?r @ rest) = slice_get a b ?r" if "a + b \<le> length ?r" for a b
    using that by (simp add: slice_get_def)
  have len: "unat (le_word (slice_get 16 2 (?r @ rest)) :: u16) = length ?r"
  proof -
    have "le_word (slice_get 16 2 (?r @ rest)) = (of_nat (length ?r) :: u16)"
      using n g [of 16 2] f(2) unfolding f(1) [symmetric] by (simp add: le_word_le_bytes del: of_nat_unat)
    then show ?thesis using unat_of_nat16 [OF n(2)] by simp
  qed
  obtain z where z: "drop 19 ?r = name_bytes (dr_name row) @ 0 # z" using f(6) by blast
  have name: "map (\<lambda>b. char_of (unat b)) (takeWhile (\<lambda>b. b \<noteq> 0) (drop 19 ?r)) = dr_name row"
    using assms by (simp add: z name_bytes_round good_row_def)
  have type: "(?r @ rest) ! 18 = dtype_byte (dr_dtype row)" using f(3) n by (simp add: nth_append)
  have ino: "le_word (slice_get 0 8 (?r @ rest)) = dr_ino row" "le_word (slice_get 8 8 (?r @ rest)) = (of_nat (i + 1) :: u64)"
    using n g f(4,5) by (simp_all add: le_word_le_bytes)
  show ?thesis
    using n by (subst parse_dirents64.simps) (simp add: Let_def len name type ino row_seen_def)
qed

section \<open>One call\<close>

fun records64 :: "nat \<Rightarrow> vdev_dirent_row list \<Rightarrow> u8 list" where
  "records64 i [] = []"
| "records64 i (row # rows) = fill_dirent64 (reclen64 row) row i @ records64 (i + 1) rows"

fun rows_seen :: "nat \<Rightarrow> vdev_dirent_row list \<Rightarrow> (string \<times> u8 \<times> u64 \<times> u64) list" where
  "rows_seen i [] = []"
| "rows_seen i (row # rows) = row_seen i row # rows_seen (i + 1) rows"

lemma parse_Nil [simp]: "parse_dirents64 [] = []"
  by (subst parse_dirents64.simps) (simp add: Let_def)

lemma parse_records: "\<forall>row \<in> set rows. good_row row \<Longrightarrow> parse_dirents64 (records64 i rows) = rows_seen i rows"
  by (induction rows arbitrary: i) (simp_all add: parse_record)

lemma rows_seen_append: "rows_seen i (xs @ ys) = rows_seen i xs @ rows_seen (i + length xs) ys"
  by (induction xs arbitrary: i) simp_all

text \<open>A call writes the longest run of records that fits, and at least one when the buffer holds the first.\<close>

lemma emit_shape:
  assumes "\<forall>row \<in> set rows. reclen64 row \<noteq> 0 \<and> reclen64 row \<le> count" and "used \<le> count"
  shows "\<exists>k \<le> length rows. emit_loop reclen64 fill_dirent64 count i used out rows = Inr (i + k, out @ records64 i (take k rows)) \<and>
           (used = 0 \<and> rows \<noteq> [] \<longrightarrow> 1 \<le> k)"
  using assms
proof (induction rows arbitrary: i used out)
  case (Cons row rows)
  show ?case
  proof (cases "reclen64 row > count - used")
    case True
    then have "used \<noteq> 0" using Cons.prems(1) by auto
    then show ?thesis using True by (auto intro!: exI [of _ 0])
  next
    case False
    then have "unat (reclen64 row) \<le> unat count - unat used"
      using unat_sub [OF Cons.prems(2)] by (simp add: word_le_nat_alt not_less)
    moreover have "unat used \<le> unat count" using Cons.prems(2) by (simp add: word_le_nat_alt)
    moreover have "unat count < 18446744073709551616" using unsigned_less [of count] by simp
    ultimately have "unat (used + reclen64 row) = unat used + unat (reclen64 row)" "unat used + unat (reclen64 row) \<le> unat count"
      by (simp_all add: unat_word_ariths)
    then have le: "used + reclen64 row \<le> count" by (simp add: word_le_nat_alt)
    have "\<forall>row \<in> set rows. reclen64 row \<noteq> 0 \<and> reclen64 row \<le> count" using Cons.prems(1) by simp
    from Cons.IH [OF this le, of "i + 1" "out @ fill_dirent64 (reclen64 row) row i"] obtain k where k: "k \<le> length rows"
      "emit_loop reclen64 fill_dirent64 count (i + 1) (used + reclen64 row) (out @ fill_dirent64 (reclen64 row) row i) rows =
        Inr (i + 1 + k, (out @ fill_dirent64 (reclen64 row) row i) @ records64 (i + 1) (take k rows))"
      by blast
    have "emit_loop reclen64 fill_dirent64 count i used out (row # rows) = Inr (i + Suc k, out @ records64 i (take (Suc k) (row # rows)))"
      using False Cons.prems(1) k(2) by (simp add: Let_def)
    then show ?thesis using k(1) by (intro exI [of _ "Suc k"]) simp
  qed
qed simp

section \<open>The whole directory\<close>

text \<open>A loop that calls \<open>getdents64\<close> until it returns nothing; \<open>None\<close> stands for an error or too few calls.\<close>

fun drain :: "nat \<Rightarrow> (string \<Rightarrow> u64) \<Rightarrow> u64 \<Rightarrow> vfile_fd_entry \<times> vfs \<Rightarrow> (string \<times> u8 \<times> u64 \<times> u64) list option" where
  "drain 0 hash count es = None"
| "drain (Suc n) hash count es =
     (case vdir_getdents64_from_entry hash True count es of
        (Inl _, _) \<Rightarrow> None
      | (Inr out, es) \<Rightarrow> if out = [] then Some [] else map_option ((@) (parse_dirents64 out)) (drain n hash count es))"

text \<open>An open directory whose rows are up to date and whose cursor is at row \<open>i\<close>.\<close>

definition dir_at :: "vdev_dirent_row list \<Rightarrow> nat \<Rightarrow> vfile_fd_entry \<times> vfs \<Rightarrow> bool" where
  "dir_at rows i es \<longleftrightarrow>
     fe_type (fst es) = FD_VDIR \<and> \<not> vdir_fd_opened_with_path_only (fe_flags (fst es)) \<and> fe_dir_cached_rows (fst es) = rows \<and>
     rows \<noteq> [] \<and> fe_dir_cached_generation (fst es) = g_virtual_fs_generation (snd es) \<and>
     fe_dir_read_offset (fst es) = of_nat i \<and> i \<le> length rows"

definition buffer_ok :: "u64 \<Rightarrow> vdev_dirent_row list \<Rightarrow> bool" where
  "buffer_ok count rows \<longleftrightarrow> (\<forall>row \<in> set rows. good_row row \<and> reclen64 row \<le> count) \<and> length rows < 2 ^ 64"

lemma getdents_cached:
  assumes "dir_at rows i es"
  shows "vdir_getdents64_from_entry hash True count es =
     (case vdir_emit_cached_dirents_locked reclen64 fill_dirent64 count (fst es) of (r, entry) \<Rightarrow> (r, entry, snd es))"
  using assms
  by (cases es)
    (auto simp: dir_at_def vdir_getdents64_from_entry_def vdir_dispatch_getdents_common_def vdir_getdents_try_once_def
      vdir_refresh_cache_if_needed_def vfile_get_virtual_fs_generation_def Let_def split: prod.split)

lemma getdents_step:
  assumes "dir_at rows i es" and "buffer_ok count rows" and "i < length rows"
  shows "\<exists>k es'. 1 \<le> k \<and> i + k \<le> length rows \<and> dir_at rows (i + k) es' \<and>
     vdir_getdents64_from_entry hash True count es = (Inr (records64 i (take k (drop i rows))), es')"
proof -
  obtain entry st where es: "es = (entry, st)" by (cases es)
  have rows: "fe_dir_cached_rows entry = rows" "unat (fe_dir_read_offset entry) = i"
    using assms by (auto simp: dir_at_def es buffer_ok_def unat_of_nat)
  have "\<forall>row \<in> set (drop i rows). reclen64 row \<noteq> 0 \<and> reclen64 row \<le> count"
    using assms(2) reclen64_value(2) by (auto simp: buffer_ok_def good_row_def dest: in_set_dropD)
  from emit_shape [OF this, of 0 i "[]"] obtain k where k: "k \<le> length (drop i rows)" "1 \<le> k"
    "emit_loop reclen64 fill_dirent64 count i 0 [] (drop i rows) = Inr (i + k, records64 i (take k (drop i rows)))"
    using assms(3) by auto
  let ?e = "entry\<lparr>fe_dir_read_offset := of_nat (i + k)\<rparr>"
  have "vdir_emit_cached_dirents_locked reclen64 fill_dirent64 count entry = (Inr (records64 i (take k (drop i rows))), ?e)"
    using assms(3) k(3) by (simp add: vdir_emit_cached_dirents_locked_def rows Let_def)
  then have "vdir_getdents64_from_entry hash True count es = (Inr (records64 i (take k (drop i rows))), ?e, st)"
    using getdents_cached [OF assms(1), of hash count] by (simp add: es)
  moreover have "dir_at rows (i + k) (?e, st)" using assms(1) k(1) by (auto simp: dir_at_def es)
  ultimately show ?thesis using k by (intro exI [of _ k] exI [of _ "(?e, st)"]) auto
qed

lemma records_not_Nil: "rows \<noteq> [] \<Longrightarrow> \<forall>row \<in> set rows. good_row row \<Longrightarrow> records64 i rows \<noteq> []"
proof (cases rows)
  case (Cons row rest)
  assume "rows \<noteq> []" "\<forall>row \<in> set rows. good_row row"
  then have g: "good_row row" using Cons by simp
  then have "short_name (dr_name row)" by (simp add: good_row_def)
  then have "length (fill_dirent64 (reclen64 row) row i) \<noteq> 0" unfolding fill_dirent64_fields(1) [OF g] using reclen64_value(1) by simp
  then show ?thesis using Cons by auto
qed simp

lemma drain_from:
  assumes "dir_at rows i es" and "buffer_ok count rows" and "length rows - i < n"
  shows "drain n hash count es = Some (rows_seen i (drop i rows))"
  using assms
proof (induction n arbitrary: i es)
  case (Suc n)
  show ?case
  proof (cases "i < length rows")
    case True
    obtain k es' where k: "1 \<le> k" "i + k \<le> length rows" "dir_at rows (i + k) es'"
      "vdir_getdents64_from_entry hash True count es = (Inr (records64 i (take k (drop i rows))), es')"
      using getdents_step [OF Suc.prems(1,2) True] by blast
    have good: "\<forall>row \<in> set (take k (drop i rows)). good_row row"
      using Suc.prems(2) by (auto simp: buffer_ok_def dest: in_set_takeD in_set_dropD)
    have "records64 i (take k (drop i rows)) \<noteq> []" using records_not_Nil [OF _ good] k(1) True by simp
    moreover have "drain n hash count es' = Some (rows_seen (i + k) (drop (i + k) rows))"
      using Suc.IH [OF k(3) Suc.prems(2)] Suc.prems(3) k by simp
    moreover have "rows_seen i (drop i rows) = rows_seen i (take k (drop i rows)) @ rows_seen (i + k) (drop (i + k) rows)"
      using rows_seen_append [of i "take k (drop i rows)" "drop k (drop i rows)"] k(2)
      unfolding append_take_drop_id by (simp add: add.commute)
    ultimately show ?thesis by (simp add: k(4) parse_records [OF good])
  next
    case False
    then have "i = length rows" using Suc.prems(1) by (simp add: dir_at_def)
    moreover have "unat (fe_dir_read_offset (fst es)) = i" using Suc.prems \<open>i = _\<close> by (auto simp: dir_at_def buffer_ok_def unat_of_nat)
    ultimately show ?thesis
      using Suc.prems(1) by (simp add: getdents_cached [OF Suc.prems(1)] vdir_emit_cached_dirents_locked_def Let_def) (simp add: dir_at_def)
  qed
qed simp

text \<open>The first call on a new descriptor fetches the rows.\<close>

definition dir_rows :: "(string \<Rightarrow> u64) \<Rightarrow> string \<Rightarrow> (string \<times> dtype) list \<Rightarrow> vdev_dirent_row list" where
  "dir_rows hash dir children = map (make_row hash dir) ([(''.'', DT_DIR), (''..'', DT_DIR)] @ children)"

lemma first_call:
  assumes "coherent st" and "vfile_normalize_absolute_path path = Some dir"
    and "map_of (sn_dirs (vfile_build_virtual_fs_snapshot_uncached st)) dir = Some children"
    and "\<not> vdir_fd_opened_with_path_only flags"
  shows "\<exists>es. dir_at (dir_rows hash dir children) 0 es \<and>
     vdir_getdents64_from_entry hash True count (vdir_make_fd_entry path flags, st) = vdir_getdents64_from_entry hash True count es"
proof -
  have g0: "g_virtual_fs_generation st \<noteq> 0" using assms(1) by (simp add: coherent_def)
  obtain sn st' where b: "vfile_build_virtual_fs_snapshot st = (sn, st')" by (cases "vfile_build_virtual_fs_snapshot st")
  have sn: "sn = vfile_build_virtual_fs_snapshot_uncached st" using build_coherent [OF assms(1) b] by simp
  have gen: "g_virtual_fs_generation st' = g_virtual_fs_generation st"
    using b by (auto simp: vfile_build_virtual_fs_snapshot_def snapshot_begin_def snapshot_publish_def split: option.splits)
  have rows: "vfile_collect_dirents hash path st = (Some (dir_rows hash dir children), st')"
    using assms(2,3) by (simp add: vfile_collect_dirents_def b sn dir_rows_def)
  let ?e = "(vdir_make_fd_entry path flags)\<lparr>fe_dir_cached_rows := dir_rows hash dir children, fe_dir_cached_generation := g_virtual_fs_generation st\<rparr>"
  have at: "dir_at (dir_rows hash dir children) 0 (?e, st')"
    using assms(4) by (simp add: dir_at_def vdir_make_fd_entry_def new_fd_entry_def gen dir_rows_def)
  have "vdir_getdents64_from_entry hash True count (vdir_make_fd_entry path flags, st) =
    (case vdir_emit_cached_dirents_locked reclen64 fill_dirent64 count ?e of (r, entry) \<Rightarrow> (r, entry, st'))"
    using assms(4) g0 rows
    by (auto simp: vdir_getdents64_from_entry_def vdir_dispatch_getdents_common_def vdir_getdents_try_once_def vdir_refresh_cache_if_needed_def
        vfile_get_virtual_fs_generation_def vdir_make_fd_entry_def new_fd_entry_def dir_rows_def Let_def split: prod.split)
  then show ?thesis using at getdents_cached [OF at, of hash count] by (intro exI [of _ "(?e, st')"]) simp
qed

lemma drain_all:
  assumes "coherent st" and "vfile_normalize_absolute_path path = Some dir"
    and "map_of (sn_dirs (vfile_build_virtual_fs_snapshot_uncached st)) dir = Some children"
    and "\<not> vdir_fd_opened_with_path_only flags"
    and "buffer_ok count (dir_rows hash dir children)" and "length children + 2 < n"
  shows "drain n hash count (vdir_make_fd_entry path flags, st) = Some (rows_seen 0 (dir_rows hash dir children))"
proof -
  obtain es where es: "dir_at (dir_rows hash dir children) 0 es"
    "vdir_getdents64_from_entry hash True count (vdir_make_fd_entry path flags, st) = vdir_getdents64_from_entry hash True count es"
    using first_call [OF assms(1-4), where hash = hash and count = count] by blast
  have "drain n hash count (vdir_make_fd_entry path flags, st) = drain n hash count es" using es(2) assms(6) by (cases n) simp_all
  also have "\<dots> = Some (rows_seen 0 (dir_rows hash dir children))"
    using drain_from [OF es(1) assms(5), of n hash] assms(6) by (simp add: dir_rows_def)
  finally show ?thesis .
qed

end
