(* ===== verification/Vfile_Correct.thy ===== *)
theory Vfile_Correct
  imports Vpath_Props Vdev_Props Vfs_Resolve Vcache_Race Vdir_Props
begin

text \<open>
  The properties of the virtual files: names, the registries and the cache of snapshots, the resolution of paths, the
  reading of directories and the numbers of devices. The examples run a small system: a root for devices, one device, a
  sysfs root and a sysfs node.
\<close>

section \<open>Examples\<close>

definition no_fd :: first_fd where "no_fd m = None"

definition no_hash :: "string \<Rightarrow> u64" where "no_hash s = of_nat (length s)"

definition run_ops :: "vfs_op list \<Rightarrow> vfs" where
  "run_ops ops = fold (vfs_apply no_fd no_hash) ops vfs_init"

fun keeps_roots :: "vfs_op \<Rightarrow> bool" where
  "keeps_roots (Vsysfs_Root_Destroy r) \<longleftrightarrow> False"
| "keeps_roots (Vsysfs_Root_Write_Default_Attr a h n v x) \<longleftrightarrow> False"
| "keeps_roots op \<longleftrightarrow> True"

lemma run_ops_reachable: "list_all keeps_roots ops \<Longrightarrow> vfs_reachable no_fd no_hash (run_ops ops)"
proof (induction ops rule: rev_induct)
  case Nil
  show ?case by (simp add: run_ops_def vfs_start)
next
  case (snoc op ops)
  moreover have "op_ok st op" if "keeps_roots op" for st using that by (cases op) simp_all
  ultimately show ?case by (simp add: run_ops_def vfs_call)
qed

definition device_ops :: "vfs_op list" where
  "device_ops = [Vdev_Root_Create True (Some ''dpu_rank*''), Vdev_Create True True (Some 0) (Some ''/dev/dpu_rank0'') (- 1) (- 1)]"

definition sysfs_ops :: "vfs_op list" where
  "sysfs_ops = device_ops @
     [Vsysfs_Root_Create True (Some 0) (Some ''dpu_rank'') (Some ''platform'') (Some ''dpu_rank*''), Vsysfs_Create True True True (Some 2) (Some 1) (Some ''dpu_rank0'')]"

lemma example_reachable:
  "vfs_reachable no_fd no_hash (run_ops device_ops)" "vfs_reachable no_fd no_hash (run_ops sysfs_ops)"
  "vfs_reachable no_fd no_hash (run_ops (device_ops @ [Vfile_Resolve ''/dev'', Vdev_Destroy (Some 1)]))"
  by (rule run_ops_reachable, simp add: device_ops_def sysfs_ops_def)+

lemma example_values:
  "g_vdev_list (run_ops device_ops) = [1]" "vd_path (fs_vdev (run_ops device_ops) 1) = ''/dev/dpu_rank0''"
  "vfile_normalize_absolute_path ''/dev/x/..'' = Some ''/dev''"
  "map_of (sn_dirs (vfile_build_virtual_fs_snapshot_uncached (run_ops device_ops))) ''/dev'' = Some [(''dpu_rank0'', DT_CHR)]"
  "g_virtual_fs_generation (run_ops (device_ops @ [Vfile_Resolve ''/dev'', Vdev_Destroy (Some 1)])) = 3"
  "sr_instances (fs_vsysfs_root (run_ops sysfs_ops) 2) = [3]"
  by code_simp+

definition devnums_in_use :: "vfs \<Rightarrow> (u32 \<times> u32) list" where
  "devnums_in_use st = map (\<lambda>h. (vd_major (fs_vdev st h), vd_minor (fs_vdev st h))) (g_vdev_list st)"

section \<open>Names\<close>

text \<open>Path normalisation accepts exactly the absolute paths. Its result is the slash-separated list of the
  components with empty ones and dots dropped and each double dot taking back the component before it; every component of the
  result is proper, normalising again changes nothing, and two paths have the same normal form exactly when
  their component lists resolve to the same list.\<close>

theorem path_normal_form:
  "(vfile_normalize_absolute_path s = None \<longleftrightarrow> s = [] \<or> hd s \<noteq> slash) \<and>
   (\<forall>p. vfile_normalize_absolute_path s = Some p \<longrightarrow>
      p = slash # join_segments (resolved s) \<and> (\<forall>x \<in> set (resolved s). segment_ok x) \<and>
      vfile_normalize_absolute_path p = Some p \<and>
      (\<forall>t q. vfile_normalize_absolute_path t = Some q \<longrightarrow> (p = q \<longleftrightarrow> resolved s = resolved t)))"
proof (intro conjI allI impI)
  show "vfile_normalize_absolute_path s = None \<longleftrightarrow> s = [] \<or> hd s \<noteq> slash" by (simp add: normalize_path)
  fix p assume p: "vfile_normalize_absolute_path s = Some p"
  then show "p = slash # join_segments (resolved s)" by (auto simp: normalize_path split: if_splits)
  show "\<forall>x \<in> set (resolved s). segment_ok x" by (rule resolved_ok)
  show "vfile_normalize_absolute_path p = Some p" by (rule normalize_idempotent [OF p])
  fix t q assume "vfile_normalize_absolute_path t = Some q"
  with p have "p = slash # join_segments (resolved s)" "q = slash # join_segments (resolved t)"
    by (auto simp: normalize_path split: if_splits)
  then show "p = q \<longleftrightarrow> resolved s = resolved t" using resolved_normal [OF resolved_ok] by metis
qed

theorem path_normal_form_witness:
  "vfile_normalize_absolute_path ''/dev/x/..'' = Some ''/dev'' \<and> vfile_normalize_absolute_path ''/dev'' = Some ''/dev'' \<and>
   resolved ''/dev/x/..'' = resolved ''/dev''"
  using path_normal_form [of "''/dev/x/..''"] example_values(3) by blast

text \<open>C40. The matcher for globs, a loop that goes back to the last star, returns on every pattern and every name with the
  answer of the recursive definition of matching.\<close>

theorem glob_match_exact: "vdev_glob_match p s = Some (glob p s)"
  by (rule glob_match_total)

section \<open>The registries and their cache\<close>



text \<open>C22. Under every interleaving of threads that build snapshots, step by step and each with locks of its own, with
  threads that change the registries and announce the change afterwards: as soon as no change is unannounced,
  the cache hands out only the snapshot of the registries as they are.\<close>

theorem snapshot_race_free:
  assumes "race_step\<^sup>*\<^sup>* (race_init n) s" and "Suc (rs_notified s) < 2 ^ 64" and "rs_pending s = 0"
  shows "fst (vfile_build_virtual_fs_snapshot (rs_fs s)) = vfile_build_virtual_fs_snapshot_uncached (rs_fs s)"
proof -
  have "coherent (rs_fs s)" using race_inv_reachable [OF assms(1,2)] assms(3) by (simp add: race_inv_def)
  then show ?thesis using build_coherent [of "rs_fs s"] by (metis prod.collapse)
qed

text \<open>A builder that begins before a device is made and would publish after it.\<close>

definition late_builder :: race_state where
  "late_builder = \<lparr>rs_fs = vfile_notify_virtual_fs_changed (vfs_init\<lparr>g_vdev_list := [0]\<rparr>),
     rs_builders = [race_begin vfs_init], rs_pending = 0, rs_notified = 1\<rparr>"

lemma late_builder_reachable: "race_step\<^sup>*\<^sup>* (race_init 1) late_builder"
proof -
  let ?a = "race_init 1"
  let ?b = "?a\<lparr>rs_builders := [race_begin vfs_init]\<rparr>"
  let ?c = "?b\<lparr>rs_fs := vfs_init\<lparr>g_vdev_list := [0]\<rparr>, rs_pending := 1\<rparr>"
  have "race_step ?a ?b" using race_step.begins [of 0 ?a] by (simp add: race_init_def)
  moreover have "race_step ?b ?c"
    using race_step.change [of ?b "vfs_init\<lparr>g_vdev_list := [0]\<rparr>"] by (simp add: race_init_def same_cache_def)
  moreover have "race_step ?c late_builder"
    using race_step.announce [of ?c 0] by (simp add: race_init_def late_builder_def)
  ultimately show ?thesis by (meson rtranclp.rtrancl_refl rtranclp.rtrancl_into_rtrancl)
qed

theorem snapshot_race_free_witness:
  "fst (vfile_build_virtual_fs_snapshot (rs_fs late_builder)) = vfile_build_virtual_fs_snapshot_uncached (rs_fs late_builder)"
  using snapshot_race_free [OF late_builder_reachable] by (simp add: late_builder_def)

text \<open>C23. A path resolves to a device node exactly when a registered device has the normal form of that path as its name.\<close>

theorem device_resolution_exact:
  assumes "vfs_reachable pick hash st" and "vfile_normalize_absolute_path p = Some n"
  shows "(\<exists>node. fst (vfile_resolve_virtual_node p st) = Inr node \<and> pi_kind node = VDEV_NODE \<and> pi_vdev node = Some h) \<longleftrightarrow>
         h \<in> set (g_vdev_list st) \<and> vd_path (fs_vdev st h) = n"
  using resolve_vdev [OF _ vfs_reachable_names [OF assms(1)] assms(2)] vfs_reachable_ok [OF assms(1)] by blast

theorem device_resolution_exact_witness:
  "\<exists>node. fst (vfile_resolve_virtual_node ''/dev//./dpu_rank0'' (run_ops device_ops)) = Inr node \<and> pi_kind node = VDEV_NODE \<and> pi_vdev node = Some 1"
proof -
  have "vfile_normalize_absolute_path ''/dev//./dpu_rank0'' = Some ''/dev/dpu_rank0''" by code_simp
  from device_resolution_exact [OF example_reachable(1) this, of 1] example_values(1,2) show ?thesis by (simp del: One_nat_def)
qed



text \<open>Device numbers: a new device is registered under the numbers asked for; where one or both are left to the
  library, the pair is in use by no registered device; a minor number chosen for a given major number is the least free one.\<close>

theorem automatic_devnum_free:
  assumes "pim_vdev_create alloc link root name major minor st = (Some h, st')"
  shows "g_vdev_list st' = g_vdev_list st @ [h] \<and>
    (major = - 1 \<or> minor = - 1 \<longrightarrow>
       (vd_major (fs_vdev st' h), vd_minor (fs_vdev st' h)) \<notin> set (devnums_in_use st)) \<and>
    (0 \<le> major \<longrightarrow> vd_major (fs_vdev st' h) = word_of_int major) \<and> (0 \<le> minor \<longrightarrow> vd_minor (fs_vdev st' h) = word_of_int minor) \<and>
    (0 \<le> major \<and> minor = - 1 \<longrightarrow> (\<forall>m < vd_minor (fs_vdev st' h). (word_of_int major, m) \<in> set (devnums_in_use st)))"
proof -
  note c = vdev_create_some [OF assms, folded devnums_in_use_def]
  let ?a = "vd_major (fs_vdev st' h)" and ?b = "vd_minor (fs_vdev st' h)"
  from c have r: "resolve_devnum (devnums_in_use st) major minor = Some (?a, ?b)" "- 1 \<le> major" "- 1 \<le> minor" by blast+
  have "(?a, ?b) \<notin> set (devnums_in_use st)" if "major = - 1 \<or> minor = - 1" using resolve_devnum_free [OF r that] .
  moreover have "(0 \<le> major \<longrightarrow> ?a = word_of_int major) \<and> (0 \<le> minor \<longrightarrow> ?b = word_of_int minor)"
    using r by (auto simp: resolve_devnum_def Let_def split: if_splits)
  moreover have "(word_of_int major, m) \<in> set (devnums_in_use st)" if "0 \<le> major" "minor = - 1" "m < ?b" for m
    using r(1) that minor_loop_exact(1) [of "map (\<lambda>(a, b). vdev_make_devnum_key a b) (devnums_in_use st)" "word_of_int major" 0 ?b]
    by (auto simp: resolve_devnum_def is_used_iff Let_def)
  ultimately show ?thesis using c by blast
qed

theorem automatic_devnum_free_witness:
  "vd_minor (fs_vdev (run_ops (device_ops @ [Vdev_Create True True (Some 0) (Some ''dpu_rank1'') 0 (- 1)])) 2) = 1 \<and>
   (0, 1) \<notin> set (devnums_in_use (run_ops device_ops))"
proof -
  let ?c = "pim_vdev_create True True (Some 0) (Some ''dpu_rank1'') 0 (- 1) (run_ops device_ops)"
  have c: "fst ?c = Some 2" "vd_major (fs_vdev (snd ?c) 2) = 0" "vd_minor (fs_vdev (snd ?c) 2) = 1" by code_simp+
  from c(1) have "?c = (Some 2, snd ?c)" by (metis prod.collapse)
  from automatic_devnum_free [OF this] have "(0, 1) \<notin> set (devnums_in_use (run_ops device_ops))" unfolding c(2,3) by blast
  then show ?thesis using c(3) by (simp add: run_ops_def)
qed

section \<open>Directories\<close>

text \<open>C24. Reading an open directory to its end, with any buffer that holds its longest record, returns after
  finitely many calls and gives each entry of the directory exactly once and in order, after the two dot entries, with its
  type, its inode number and the offset of the next entry.\<close>

theorem directory_read_complete:
  assumes "vfs_reachable pick hash st" and "vfile_normalize_absolute_path path = Some dir"
    and "map_of (sn_dirs (vfile_build_virtual_fs_snapshot_uncached st)) dir = Some children"
    and "\<not> vdir_fd_opened_with_path_only flags"
    and "buffer_ok count (dir_rows hash dir children)" and "length children + 2 < n"
  shows "drain n hash count (vdir_make_fd_entry path flags, st) = Some (rows_seen 0 (dir_rows hash dir children))"
  by (rule drain_all [OF _ assms(2-6)]) (use vfs_reachable_ok [OF assms(1)] in blast)

theorem directory_read_complete_witness:
  "drain 4 no_hash 40 (vdir_make_fd_entry ''/dev/x/..'' 0, run_ops device_ops) =
   Some [(''.'', 4, 6, 1), (''..'', 4, 7, 2), (''dpu_rank0'', 2, 14, 3)]"
proof -
  let ?rows = "dir_rows no_hash ''/dev'' [(''dpu_rank0'', DT_CHR)]"
  have "\<forall>row \<in> set ?rows. good_row row \<and> reclen64 row \<le> 40" "\<not> vdir_fd_opened_with_path_only 0" by code_simp+
  then have "buffer_ok 40 ?rows" "\<not> vdir_fd_opened_with_path_only 0" by (simp_all add: buffer_ok_def dir_rows_def)
  from directory_read_complete [OF example_reachable(1) example_values(3,4) this(2,1), of 4]
  have "drain 4 no_hash 40 (vdir_make_fd_entry ''/dev/x/..'' 0, run_ops device_ops) = Some (rows_seen 0 ?rows)" by simp
  also have "rows_seen 0 ?rows = [(''.'', 4, 6, 1), (''..'', 4, 7, 2), (''dpu_rank0'', 2, 14, 3)]" by code_simp
  finally show ?thesis .
qed

end
