(* ===== verification/Vattr.thy ===== *)
theory Vattr
  imports Vdir
begin

text \<open>
  Reading, writing and seeking in open attributes (\<open>src/vfile/vsyscall.cc\<close>). A descriptor keeps a copy of the value with the
  revision it was made at, and makes a new copy when the revision of its sysfs node or module has moved on. The two
  branches of the code for nodes and modules differ only in the object, which is \<open>attr_table\<close> here.

  A read returns the bytes it copies, a write their number. Failing allocations are arguments: of the copy into the cache
  (\<open>a_copy\<close>), of the new value (\<open>a_build\<close>) and of storing it (\<open>a_store\<close>).
\<close>

section \<open>Flags and access modes\<close>

definition kO_ACCMODE :: u32 where "kO_ACCMODE = 3"
definition kO_RDONLY :: u32 where "kO_RDONLY = 0"
definition kO_WRONLY :: u32 where "kO_WRONLY = 1"
definition kO_RDWR :: u32 where "kO_RDWR = 2"
definition kO_APPEND :: u32 where "kO_APPEND = 0x400"

definition vsyscall_fd_opened_with_path_only :: "u32 \<Rightarrow> bool" where
  "vsyscall_fd_opened_with_path_only open_flags \<longleftrightarrow> open_flags AND kO_PATH \<noteq> 0"

definition vsyscall_fd_access_mode :: "u32 \<Rightarrow> u32" where
  "vsyscall_fd_access_mode open_flags = open_flags AND kO_ACCMODE"

definition vsyscall_fd_can_write :: "u32 \<Rightarrow> bool" where
  "vsyscall_fd_can_write open_flags \<longleftrightarrow>
     vsyscall_fd_access_mode open_flags = kO_WRONLY \<or> vsyscall_fd_access_mode open_flags = kO_RDWR"

definition vsyscall_vsysfs_attr_access_allows_read :: "int \<Rightarrow> bool" where
  "vsyscall_vsysfs_attr_access_allows_read access \<longleftrightarrow> access AND PIM_ACCESS_MODE_RO \<noteq> 0"

definition vsyscall_vsysfs_attr_access_allows_write :: "int \<Rightarrow> bool" where
  "vsyscall_vsysfs_attr_access_allows_write access \<longleftrightarrow> access AND PIM_ACCESS_MODE_WO \<noteq> 0"

section \<open>The cache of a descriptor\<close>

text \<open>The attributes, access modes and revision of the object a descriptor belongs to.\<close>

definition attr_table :: "vfs \<Rightarrow> vfile_fd_entry \<Rightarrow> ((string \<times> string) list \<times> (string \<times> int) list \<times> u64) option" where
  "attr_table st e =
     (case fe_type e of
        FD_VSYSFS \<Rightarrow> map_option (\<lambda>h. (vs_attrs (fs_vsysfs st h), vs_attr_access (fs_vsysfs st h), vs_attrs_revision (fs_vsysfs st h))) (fe_vsysfs e)
      | FD_VMODULE \<Rightarrow> map_option (\<lambda>h. (vm_attrs (fs_vmodule st h), vm_attr_access (fs_vmodule st h), vm_attrs_revision (fs_vmodule st h))) (fe_vmodule e)
      | _ \<Rightarrow> None)"

definition put_attr_table :: "vfile_fd_entry \<Rightarrow> (string \<times> string) list \<Rightarrow> u64 \<Rightarrow> vfs \<Rightarrow> vfs" where
  "put_attr_table e attrs revision st =
     (case (fe_type e, fe_vsysfs e, fe_vmodule e) of
        (FD_VSYSFS, Some h, _) \<Rightarrow> set_vsysfs h ((fs_vsysfs st h)\<lparr>vs_attrs := attrs, vs_attrs_revision := revision\<rparr>) st
      | (FD_VMODULE, _, Some h) \<Rightarrow> set_vmodule h ((fs_vmodule st h)\<lparr>vm_attrs := attrs, vm_attrs_revision := revision\<rparr>) st
      | _ \<Rightarrow> st)"

definition clamp_offset :: "vfile_fd_entry \<Rightarrow> vfile_fd_entry" where
  "clamp_offset e =
     (if fe_sysfs_read_offset e > of_nat (length (fe_sysfs_cached_value e))
      then e\<lparr>fe_sysfs_read_offset := of_nat (length (fe_sysfs_cached_value e))\<rparr> else e)"

definition vsyscall_attr_refresh_cache_locked :: "bool \<Rightarrow> vfs \<Rightarrow> vfile_fd_entry \<Rightarrow> errno option \<times> vfile_fd_entry" where
  "vsyscall_attr_refresh_cache_locked a_copy st e =
     (if fe_type e = FD_PROC_FDINFO then (None, e)
      else case attr_table st e of
             None \<Rightarrow> (Some EBADF, e)
           | Some (attrs, access, revision) \<Rightarrow>
               if fe_sysfs_cached_attr_revision e = revision then (None, e)
               else (case map_of attrs (fe_sysfs_attr_name e) of
                       None \<Rightarrow> (Some ENOENT, e)
                     | Some value \<Rightarrow>
                         if \<not> a_copy then (Some ENOMEM, e)
                         else (None, clamp_offset (e\<lparr>fe_sysfs_cached_value := value,
                                 fe_sysfs_cached_attr_access := access_of access (fe_sysfs_attr_name e),
                                 fe_sysfs_cached_attr_revision := revision\<rparr>))))"

section \<open>Reading\<close>

definition vsyscall_vsysfs_read_from_value_locked :: "string \<Rightarrow> u64 \<Rightarrow> vfile_fd_entry \<Rightarrow> string \<times> vfile_fd_entry" where
  "vsyscall_vsysfs_read_from_value_locked value count e =
     (let off = (if fe_sysfs_read_offset e > of_nat (length value) then of_nat (length value) else fe_sysfs_read_offset e);
          e = e\<lparr>fe_sysfs_read_offset := off\<rparr>;
          remaining = length value - unat off
      in if remaining = 0 then ('''', e)
         else
           let to_copy = (if unat count < remaining then unat count else remaining)
           in (take to_copy (drop (unat off) value), e\<lparr>fe_sysfs_read_offset := off + of_nat to_copy\<rparr>))"

definition is_attr_entry :: "vfile_fd_entry \<Rightarrow> bool" where
  "is_attr_entry e \<longleftrightarrow> fe_type e = FD_VSYSFS \<or> fe_type e = FD_VMODULE \<or> fe_type e = FD_PROC_FDINFO"

definition dispatch_attr_read :: "bool \<Rightarrow> bool \<Rightarrow> u64 \<Rightarrow> vfs \<Rightarrow> vfile_fd_entry \<Rightarrow> (errno + string) \<times> vfile_fd_entry" where
  "dispatch_attr_read a_copy buf_null count st e =
     (if \<not> is_attr_entry e then (Inl EBADF, e)
      else if vsyscall_fd_opened_with_path_only (fe_flags e) then (Inl EBADF, e)
      else if buf_null \<and> count \<noteq> 0 then (Inl EFAULT, e)
      else if vsyscall_fd_access_mode (fe_flags e) = kO_WRONLY then (Inl EBADF, e)
      else
        (case vsyscall_attr_refresh_cache_locked a_copy st e of
           (Some err, e) \<Rightarrow> (Inl err, e)
         | (None, e) \<Rightarrow>
             if \<not> vsyscall_vsysfs_attr_access_allows_read (fe_sysfs_cached_attr_access e) then (Inl EACCES, e)
             else let (bytes, e) = vsyscall_vsysfs_read_from_value_locked (fe_sysfs_cached_value e) count e in (Inr bytes, e)))"

section \<open>Writing\<close>

text \<open>The value with \<open>data\<close> at \<open>offset\<close>, padded with zero bytes.\<close>

definition splice :: "nat \<Rightarrow> string \<Rightarrow> string \<Rightarrow> string" where
  "splice offset data value = take offset value @ replicate (offset - length value) (CHR 0x00) @ data @ drop (offset + length data) value"

definition dispatch_attr_write ::
  "bool \<Rightarrow> bool \<Rightarrow> bool \<Rightarrow> bool \<Rightarrow> string \<Rightarrow> vfile_fd_entry \<times> vfs \<Rightarrow> (errno + nat) \<times> vfile_fd_entry \<times> vfs" where
  "dispatch_attr_write a_copy a_build a_store buf_null data es =
     (let (e, st) = es; count = of_nat (length data) :: u64
      in if \<not> is_attr_entry e then (Inl EBADF, e, st)
         else if vsyscall_fd_opened_with_path_only (fe_flags e) then (Inl EBADF, e, st)
         else if buf_null \<and> count \<noteq> 0 then (Inl EFAULT, e, st)
         else if \<not> vsyscall_fd_can_write (fe_flags e) then (Inl EBADF, e, st)
         else if count = 0 then (Inr 0, e, st)
         else
           (case vsyscall_attr_refresh_cache_locked a_copy st e of
              (Some err, e) \<Rightarrow> (Inl err, e, st)
            | (None, e) \<Rightarrow>
                if \<not> vsyscall_vsysfs_attr_access_allows_write (fe_sysfs_cached_attr_access e) then (Inl EACCES, e, st)
                else if \<not> a_build then (Inl ENOMEM, e, st)
                else
                  let offset = (if fe_flags e AND kO_APPEND \<noteq> 0 then of_nat (length (fe_sysfs_cached_value e))
                                else fe_sysfs_read_offset e);
                      end_pos = offset + count
                  in if end_pos < offset then (Inl EINVAL, e, st)
                     else
                       let updated = splice (unat offset) data (fe_sysfs_cached_value e)
                       in (case attr_table st e of
                             None \<Rightarrow> (Inl EBADF, e, st)
                           | Some (attrs, access, revision) \<Rightarrow>
                               (case map_of attrs (fe_sysfs_attr_name e) of
                                  None \<Rightarrow> (Inl ENOENT, e, st)
                                | Some old \<Rightarrow>
                                    let acc = access_of access (fe_sysfs_attr_name e)
                                    in if \<not> vsyscall_vsysfs_attr_access_allows_write acc then (Inl EACCES, e, st)
                                       else if \<not> a_store then (Inl ENOMEM, e, st)
                                       else
                                         let size_changed = (length old \<noteq> length updated);
                                             next_rev = vfile_bump_nonzero_revision revision;
                                             st = put_attr_table e (om_insert (fe_sysfs_attr_name e) updated attrs) next_rev st;
                                             e = e\<lparr>fe_sysfs_cached_attr_access := acc, fe_sysfs_cached_attr_revision := next_rev,
                                                   fe_sysfs_cached_value := updated, fe_sysfs_read_offset := end_pos\<rparr>
                                         in (Inr (length data), e, if size_changed then vfile_notify_virtual_fs_changed st else st)))))"

section \<open>Truncation and seeking\<close>

text \<open>The truncation for \<open>open\<close> works on a resolved node; \<open>e\<close> is the entry made for it.\<close>

definition truncate_attr_for_open :: "vfile_fd_entry \<Rightarrow> vfs \<Rightarrow> errno option \<times> vfs" where
  "truncate_attr_for_open e st =
     (case attr_table st e of
        None \<Rightarrow> (Some EBADF, st)
      | Some (attrs, access, revision) \<Rightarrow>
          (case map_of attrs (fe_sysfs_attr_name e) of
             None \<Rightarrow> (Some ENOENT, st)
           | Some value \<Rightarrow>
               if \<not> vsyscall_vsysfs_attr_access_allows_write (access_of access (fe_sysfs_attr_name e)) then (Some EACCES, st)
               else
                 let st = put_attr_table e (om_insert (fe_sysfs_attr_name e) '''' attrs) (vfile_bump_nonzero_revision revision) st
                 in (None, if value \<noteq> '''' then vfile_notify_virtual_fs_changed st else st)))"

definition seek_entry :: "int \<Rightarrow> int \<Rightarrow> vfile_fd_entry \<Rightarrow> (errno + u64) \<times> vfile_fd_entry" where
  "seek_entry offset whence e =
     (if vsyscall_fd_opened_with_path_only (fe_flags e) then (Inl EBADF, e)
      else if is_attr_entry e
      then (case vfile_seek_cursor_locked (fe_sysfs_read_offset e) offset whence of
              Inl _ \<Rightarrow> (Inl EINVAL, e)
            | Inr cursor \<Rightarrow> (Inr cursor, e\<lparr>fe_sysfs_read_offset := cursor\<rparr>))
      else if fe_type e = FD_VDIR
      then (case vdir_seek_entry_cursor (Some e) offset whence of (r, Some e') \<Rightarrow> (r, e') | (r, None) \<Rightarrow> (r, e))
      else (Inl ESPIPE, e))"

end
