(* ===== verification/Vmmap.thy ===== *)
theory Vmmap
  imports Omap
begin

text \<open>
  The table of mappings that device callbacks have returned (\<open>g_mmap_table\<close> of \<open>src/vfile/vsyscall.cc\<close>): tracking a new
  mapping, recognising and splitting it when a part is unmapped. Addresses and lengths are 64-bit words; the
  result of \<open>munmap\<close> of the kernel and of the allocation of table nodes are arguments.
\<close>

type_synonym mmap_table = "(u64 \<times> u64) list"

definition MAP_FAILED :: u64 where "MAP_FAILED = - 1"

definition vsyscall_range_end :: "u64 \<Rightarrow> u64 \<Rightarrow> u64 option" where
  "vsyscall_range_end start len = (if len > - 1 - start then None else Some (start + len))"

definition vsyscall_track_mmap_region :: "bool \<Rightarrow> u64 \<Rightarrow> u64 \<Rightarrow> mmap_table \<Rightarrow> mmap_table" where
  "vsyscall_track_mmap_region alloc addr len t =
     (if addr = MAP_FAILED \<or> len = 0 then t
      else case vsyscall_range_end addr len of
             None \<Rightarrow> t
           | Some _ \<Rightarrow> if alloc then om_insert addr len t else t)"

record vsyscall_munmap_context =
  mc_req_start :: u64
  mc_req_end :: u64
  mc_map_start :: u64
  mc_map_end :: u64
  mc_map_len :: u64

text \<open>\<open>Forward\<close>: the call is not ours and goes to the kernel as it is.\<close>

datatype vsyscall_munmap_prepare_result = Forward | Fails errno | Ready vsyscall_munmap_context

definition vsyscall_prepare_munmap_context :: "u64 \<Rightarrow> u64 \<Rightarrow> mmap_table \<Rightarrow> vsyscall_munmap_prepare_result \<times> mmap_table" where
  "vsyscall_prepare_munmap_context addr len t =
     (if addr = MAP_FAILED then (Forward, t)
      else case takeWhile (\<lambda>e. fst e \<le> addr) t of
             [] \<Rightarrow> (Forward, t)
           | below \<Rightarrow>
               let (map_start, map_len) = last below
               in (case vsyscall_range_end map_start map_len of
                     None \<Rightarrow> (Forward, om_erase map_start t)
                   | Some map_end \<Rightarrow>
                       (case vsyscall_range_end addr len of
                          None \<Rightarrow> (Fails EINVAL, t)
                        | Some req_end \<Rightarrow>
                            if addr < map_start \<or> addr \<ge> map_end \<or> req_end > map_end then (Forward, t)
                            else (Ready \<lparr>mc_req_start = addr, mc_req_end = req_end, mc_map_start = map_start,
                                         mc_map_end = map_end, mc_map_len = map_len\<rparr>, t))))"

text \<open>\<open>alloc_left\<close> and \<open>alloc_right\<close>: a node for the part to the left and to the right could be allocated; the first that
  could not ends the update.\<close>

definition vsyscall_update_mmap_table_after_munmap :: "bool \<Rightarrow> bool \<Rightarrow> vsyscall_munmap_context \<Rightarrow> mmap_table \<Rightarrow> mmap_table" where
  "vsyscall_update_mmap_table_after_munmap alloc_left alloc_right ctx t =
     (if map_of t (mc_map_start ctx) \<noteq> Some (mc_map_len ctx) then t
      else
        let t = om_erase (mc_map_start ctx) t;
            left = mc_req_start ctx > mc_map_start ctx
        in if left \<and> \<not> alloc_left then t
           else
             let t = (if left then om_emplace (mc_map_start ctx) (mc_req_start ctx - mc_map_start ctx) t else t)
             in if mc_req_end ctx < mc_map_end ctx \<and> alloc_right
                then om_emplace (mc_req_end ctx) (mc_map_end ctx - mc_req_end ctx) t else t)"

text \<open>The result is \<open>None\<close> when the call is forwarded, otherwise an error or success. \<open>munmap_ok\<close> is the answer of the kernel.\<close>

definition dispatch_munmap :: "errno option \<Rightarrow> bool \<Rightarrow> bool \<Rightarrow> u64 \<Rightarrow> u64 \<Rightarrow> mmap_table \<Rightarrow> (errno + unit) option \<times> mmap_table" where
  "dispatch_munmap munmap_errno alloc_left alloc_right addr len t =
     (case vsyscall_prepare_munmap_context addr len t of
        (Forward, t) \<Rightarrow> (None, t)
      | (Fails e, t) \<Rightarrow> (Some (Inl e), t)
      | (Ready ctx, t) \<Rightarrow>
          (case munmap_errno of
             Some e \<Rightarrow> (Some (Inl e), t)
           | None \<Rightarrow> (Some (Inr ()), vsyscall_update_mmap_table_after_munmap alloc_left alloc_right ctx t)))"

definition vsyscall_clear_mmap_tracking :: "mmap_table \<Rightarrow> mmap_table" where
  "vsyscall_clear_mmap_tracking t = []"

section \<open>What the table stands for\<close>

text \<open>The addresses of a range, and of all ranges of the table.\<close>

definition range_of :: "u64 \<Rightarrow> u64 \<Rightarrow> nat set" where
  "range_of start len = {unat start ..< unat start + unat len}"

definition tracked :: "mmap_table \<Rightarrow> nat set" where
  "tracked t = (\<Union>(s, l) \<in> set t. range_of s l)"

definition mmap_ok :: "mmap_table \<Rightarrow> bool" where
  "mmap_ok t \<longleftrightarrow> om_ok t \<and> (\<forall>(s, l) \<in> set t. l \<noteq> 0 \<and> vsyscall_range_end s l \<noteq> None) \<and>
     (\<forall>(s, l) \<in> set t. \<forall>(s', l') \<in> set t. s \<noteq> s' \<longrightarrow> range_of s l \<inter> range_of s' l' = {})"

lemma om_in_set: "om_ok t \<Longrightarrow> (k, v) \<in> set t \<longleftrightarrow> map_of t k = Some v"
  by (meson map_of_SomeD map_of_is_SomeI om_ok_distinct)

lemma range_end_Some:
  "vsyscall_range_end s l = Some e \<longleftrightarrow> unat s + unat l < 2 ^ 64 \<and> unat e = unat s + unat l"
proof -
  have top: "unat (- 1 :: u64) = 2 ^ 64 - 1" by (simp add: unsigned_minus_1_eq_mask mask_eq_exp_minus_1)
  have lt: "unat s < 2 ^ 64" using unsigned_less [of s] by simp
  moreover have "unat (- 1 - s) = 2 ^ 64 - 1 - unat s" by (subst unat_sub) (use lt in \<open>simp_all add: word_le_nat_alt top\<close>)
  ultimately have "l > - 1 - s \<longleftrightarrow> \<not> unat s + unat l < 2 ^ 64" by (simp add: word_less_nat_alt) linarith
  then show ?thesis by (auto simp: vsyscall_range_end_def unat_word_ariths word_unat_eq_iff)
qed

lemma range_end_None: "vsyscall_range_end s l = None \<longleftrightarrow> \<not> unat s + unat l < 2 ^ 64"
proof (cases "vsyscall_range_end s l")
  case None
  then have "\<not> unat s + unat l < 2 ^ 64"
    using range_end_Some [of s l "s + l"] by (auto simp: unat_word_ariths)
  with None show ?thesis by simp
qed (auto simp: range_end_Some)

lemma range_nonempty: "l \<noteq> 0 \<Longrightarrow> unat s \<in> range_of s l"
  by (simp add: range_of_def unat_gt_0)

lemma floor_entry:
  assumes "om_ok t" and "takeWhile (\<lambda>e. fst e \<le> a) t = x # xs"
  shows "last (x # xs) \<in> set t" and "fst (last (x # xs)) \<le> a"
    and "\<And>e. e \<in> set t \<Longrightarrow> fst e \<le> a \<Longrightarrow> fst e \<le> fst (last (x # xs))"
proof -
  let ?w = "takeWhile (\<lambda>e. fst e \<le> a) t"
  have "last (x # xs) \<in> set ?w" using assms(2) by (metis last_in_set list.distinct(1))
  then show "last (x # xs) \<in> set t" "fst (last (x # xs)) \<le> a" by (auto dest: set_takeWhileD)
  have sorted: "sorted_wrt (\<lambda>p q. fst p < fst q) t" using assms(1) by (simp add: om_ok_def sorted_wrt_map)
  fix e assume e: "e \<in> set t" "fst e \<le> a"
  have t: "t = ?w @ dropWhile (\<lambda>e. fst e \<le> a) t" by simp
  have "\<not> fst q \<le> a" if "q \<in> set (dropWhile (\<lambda>e. fst e \<le> a) t)" for q
  proof (cases "dropWhile (\<lambda>e. fst e \<le> a) t")
    case (Cons y ys)
    then have y: "\<not> fst y \<le> a" by (metis hd_dropWhile list.distinct(1) list.sel(1))
    have "sorted_wrt (\<lambda>p q. fst p < fst q) (y # ys)" using sorted t Cons by (metis sorted_wrt_append)
    then show ?thesis using that Cons y by auto
  next
    case Nil
    then show ?thesis using that unfolding Nil by simp
  qed
  then have w: "e \<in> set (x # xs)" using e t assms(2) by (metis Un_iff set_append)
  have "sorted_wrt (\<lambda>p q. fst p < fst q) (x # xs)" using sorted t assms(2) by (metis sorted_wrt_append)
  moreover have "x # xs = butlast (x # xs) @ [last (x # xs)]" by simp
  ultimately have "\<forall>p \<in> set (butlast (x # xs)). fst p < fst (last (x # xs))" by (metis sorted_wrt_append list.set_intros(1))
  then show "fst e \<le> fst (last (x # xs))" using w by (metis in_set_butlastD append_butlast_last_id list.distinct(1) less_imp_le order_refl set_append Un_iff set_ConsD list.set(1) empty_iff)
qed

text \<open>The table after a part of one mapping has gone.\<close>

lemma update_entries:
  assumes "mmap_ok t" and "(s, l) \<in> set t" and "vsyscall_range_end s l = Some e" and "vsyscall_range_end a n = Some r"
    and "s \<le> a" and "r \<le> e" and "a < e"
  defines "t' \<equiv> vsyscall_update_mmap_table_after_munmap True True
      \<lparr>mc_req_start = a, mc_req_end = r, mc_map_start = s, mc_map_end = e, mc_map_len = l\<rparr> t"
  shows "om_ok t'"
    and "set t' = {x \<in> set t. fst x \<noteq> s} \<union> (if s < a then {(s, a - s)} else {}) \<union> (if r < e then {(r, e - r)} else {})"
proof -
  have ok: "om_ok t" using assms(1) by (simp add: mmap_ok_def)
  have e: "unat e = unat s + unat l" "unat r = unat a + unat n" using assms(3,4) by (simp_all add: range_end_Some)
  have ar: "a \<le> r" using e(2) by (simp add: word_le_nat_alt)
  have at: "map_of t s = Some l" using assms(2) om_in_set [OF ok] by blast
  have free: "map_of t r = None" if "r < e" "r \<noteq> s"
  proof (rule ccontr)
    assume "map_of t r \<noteq> None"
    then obtain k where k: "(r, k) \<in> set t" using om_in_set [OF ok] by blast
    have "k \<noteq> 0" using assms(1) k by (auto simp: mmap_ok_def)
    then have "unat r \<in> range_of r k" by (rule range_nonempty)
    moreover have "unat r \<in> range_of s l"
      using that(1) e assms(5) ar by (auto simp: range_of_def word_less_nat_alt word_le_nat_alt)
    ultimately show False using assms(1,2) k that(2) by (fastforce simp: mmap_ok_def)
  qed
  have t': "t' = (let u = om_erase s t; u = (if s < a then om_insert s (a - s) u else u) in if r < e then om_insert r (e - r) u else u)"
    using at free ar unfolding t'_def
    by (auto simp: vsyscall_update_mmap_table_after_munmap_def om_emplace_def Let_def)
  then show ok': "om_ok t'" using ok by (simp add: Let_def)
  have m: "map_of t' = (let m = (map_of t)(s := None); m = (if s < a then m(s \<mapsto> a - s) else m) in if r < e then m(r \<mapsto> e - r) else m)"
    by (simp add: t' Let_def)
  have "x \<in> set t' \<longleftrightarrow> x \<in> {x \<in> set t. fst x \<noteq> s} \<union> (if s < a then {(s, a - s)} else {}) \<union> (if r < e then {(r, e - r)} else {})" for x
  proof -
    obtain k v where x: "x = (k, v)" by (cases x)
    have "map_of t k = Some v \<longrightarrow> k \<noteq> r \<or> k = s \<or> \<not> r < e" using free by auto
    then show ?thesis
      unfolding x om_in_set [OF ok'] m using om_in_set [OF ok, of k v] ar by (auto simp: Let_def)
  qed
  then show "set t' = {x \<in> set t. fst x \<noteq> s} \<union> (if s < a then {(s, a - s)} else {}) \<union> (if r < e then {(r, e - r)} else {})" by blast
qed

lemma update_exact:
  assumes "mmap_ok t" and "(s, l) \<in> set t" and "vsyscall_range_end s l = Some e" and "vsyscall_range_end a n = Some r"
    and "s \<le> a" and "r \<le> e" and "a < e"
  defines "t' \<equiv> vsyscall_update_mmap_table_after_munmap True True
      \<lparr>mc_req_start = a, mc_req_end = r, mc_map_start = s, mc_map_end = e, mc_map_len = l\<rparr> t"
  shows "mmap_ok t'" and "tracked t' = tracked t - range_of a n"
proof -
  note entries = update_entries [OF assms(1-7), folded t'_def]
  let ?rest = "{x \<in> set t. fst x \<noteq> s}"
  have u: "unat e = unat s + unat l" "unat r = unat a + unat n" "unat s \<le> unat a" "unat r \<le> unat e" "unat e < 2 ^ 64"
    using assms(3-6) by (auto simp: range_end_Some word_le_nat_alt)
  have left: "range_of s (a - s) = {unat s ..< unat a}" if "s < a"
    using that by (simp add: range_of_def unat_sub less_imp_le word_less_nat_alt)
  have right: "range_of r (e - r) = {unat r ..< unat e}" if "r < e"
    using that by (simp add: range_of_def unat_sub less_imp_le word_less_nat_alt)
  have rest: "range_of (fst x) (snd x) \<inter> {unat s ..< unat e} = {}" if "x \<in> ?rest" for x
    using that assms(1,2) u(1) by (fastforce simp: mmap_ok_def range_of_def)
  have same: "x = (s, l)" if "x \<in> set t" "fst x = s" for x
    using that assms(1,2) by (metis (no_types, lifting) mmap_ok_def om_in_set option.inject prod.collapse)
  have parts: "tracked t' = (\<Union>x \<in> ?rest. range_of (fst x) (snd x)) \<union> {unat s ..< unat a} \<union> {unat r ..< unat e}"
    unfolding tracked_def entries(2) using left right u
    by (auto simp: word_less_nat_alt split_beta split: if_splits)
  have whole: "tracked t = (\<Union>x \<in> ?rest. range_of (fst x) (snd x)) \<union> {unat s ..< unat e}"
  proof -
    have "set t = insert (s, l) ?rest" using assms(2) same by blast
    then have "tracked t = (\<Union>x \<in> insert (s, l) ?rest. range_of (fst x) (snd x))" by (simp add: tracked_def split_beta)
    then show ?thesis using u(1) by (auto simp: range_of_def)
  qed
  have "(\<Union>x \<in> ?rest. range_of (fst x) (snd x)) \<inter> {unat s ..< unat e} = {}" using rest by blast
  then show "tracked t' = tracked t - range_of a n"
    unfolding parts whole range_of_def [of a] using u by auto
  have "snd x \<noteq> 0 \<and> vsyscall_range_end (fst x) (snd x) \<noteq> None" if "x \<in> set t'" for x
    using that assms(1) u left right unfolding entries(2)
    by (auto simp: mmap_ok_def range_end_None unat_sub word_less_nat_alt less_imp_le word_le_nat_alt split: if_splits)
  moreover have "range_of (fst x) (snd x) \<inter> range_of (fst y) (snd y) = {}" if "x \<in> set t'" "y \<in> set t'" "fst x \<noteq> fst y" for x y
  proof -
    have sub: "z \<in> ?rest \<or> range_of (fst z) (snd z) \<subseteq> {unat s ..< unat e}" if "z \<in> set t'" for z
      using that u left right unfolding entries(2) by (auto split: if_splits)
    have "range_of (fst x) (snd x) \<inter> range_of (fst y) (snd y) = {}" if "x \<in> ?rest" "y \<in> ?rest"
      using that \<open>fst x \<noteq> fst y\<close> assms(1) by (fastforce simp: mmap_ok_def)
    moreover have ?thesis if "x \<notin> ?rest" "y \<notin> ?rest"
      using that \<open>x \<in> set t'\<close> \<open>y \<in> set t'\<close> \<open>fst x \<noteq> fst y\<close> left right u unfolding entries(2) by (auto split: if_splits)
    ultimately show ?thesis using sub [OF \<open>x \<in> set t'\<close>] sub [OF \<open>y \<in> set t'\<close>] rest by blast
  qed
  ultimately show "mmap_ok t'" using entries(1) by (fastforce simp: mmap_ok_def)
qed

text \<open>A request is recognised exactly when it begins inside a tracked mapping and does not reach beyond it.\<close>

definition inside :: "u64 \<Rightarrow> u64 \<Rightarrow> u64 \<times> u64 \<Rightarrow> bool" where
  "inside a n x \<longleftrightarrow> unat (fst x) \<le> unat a \<and> unat a < unat (fst x) + unat (snd x) \<and> unat a + unat n \<le> unat (fst x) + unat (snd x)"

lemma prepare_exact:
  assumes "mmap_ok t" and "a \<noteq> MAP_FAILED" and "unat a + unat n < 2 ^ 64"
  shows "(\<nexists>x. x \<in> set t \<and> inside a n x) \<Longrightarrow> vsyscall_prepare_munmap_context a n t = (Forward, t)"
    and "x \<in> set t \<Longrightarrow> inside a n x \<Longrightarrow> vsyscall_prepare_munmap_context a n t =
      (Ready \<lparr>mc_req_start = a, mc_req_end = a + n, mc_map_start = fst x, mc_map_end = fst x + snd x, mc_map_len = snd x\<rparr>, t)"
proof -
  have ok: "om_ok t" using assms(1) by (simp add: mmap_ok_def)
  have req: "vsyscall_range_end a n = Some (a + n)" using assms(3) by (simp add: range_end_Some unat_word_ariths)
  have step: "vsyscall_prepare_munmap_context a n t =
      (if inside a n z then Ready \<lparr>mc_req_start = a, mc_req_end = a + n, mc_map_start = fst z, mc_map_end = fst z + snd z, mc_map_len = snd z\<rparr>
       else Forward, t)"
    if w: "takeWhile (\<lambda>e. fst e \<le> a) t = y # ys" "z = last (y # ys)" for y ys z
  proof -
    have z: "z \<in> set t" "fst z \<le> a" using floor_entry(1,2) [OF ok w(1)] w(2) by simp_all
    then have fits: "unat (fst z) + unat (snd z) < 2 ^ 64" using assms(1) by (auto simp: mmap_ok_def range_end_None)
    then have "vsyscall_range_end (fst z) (snd z) = Some (fst z + snd z)" by (simp add: range_end_Some unat_word_ariths)
    moreover have "inside a n z \<longleftrightarrow> \<not> (a < fst z \<or> a \<ge> fst z + snd z \<or> a + n > fst z + snd z)"
      using fits assms(3) by (auto simp: inside_def word_less_nat_alt word_le_nat_alt unat_word_ariths)
    ultimately show ?thesis
      using w assms(2) req by (simp add: vsyscall_prepare_munmap_context_def split_beta Let_def del: last.simps)
  qed
  show "vsyscall_prepare_munmap_context a n t = (Forward, t)" if none: "\<nexists>x. x \<in> set t \<and> inside a n x"
  proof (cases "takeWhile (\<lambda>e. fst e \<le> a) t")
    case (Cons y ys)
    have "\<not> inside a n (last (y # ys))" using floor_entry(1) [OF ok Cons] none by blast
    then show ?thesis using step [OF Cons refl] by simp
  qed (simp add: vsyscall_prepare_munmap_context_def)
  show "vsyscall_prepare_munmap_context a n t =
      (Ready \<lparr>mc_req_start = a, mc_req_end = a + n, mc_map_start = fst x, mc_map_end = fst x + snd x, mc_map_len = snd x\<rparr>, t)"
    if x: "x \<in> set t" "inside a n x"
  proof -
    have "fst x \<le> a" using x(2) by (simp add: inside_def word_le_nat_alt)
    then have "takeWhile (\<lambda>e. fst e \<le> a) t \<noteq> []" using x(1) ok by (cases t) (auto simp: om_ok_def)
    then obtain y ys where w: "takeWhile (\<lambda>e. fst e \<le> a) t = y # ys" by (cases "takeWhile (\<lambda>e. fst e \<le> a) t") auto
    let ?z = "last (y # ys)"
    have z: "?z \<in> set t" "fst x \<le> fst ?z" "fst ?z \<le> a" using floor_entry [OF ok w] x(1) \<open>fst x \<le> a\<close> by auto
    have "?z = x"
    proof (rule ccontr)
      assume "?z \<noteq> x"
      then have ne: "fst ?z \<noteq> fst x" using z(1) x(1) om_ok_distinct [OF ok] by (metis eq_key_imp_eq_value prod.collapse)
      have "unat (fst ?z) \<in> range_of (fst x) (snd x)"
        using z(2,3) x(2) by (auto simp: range_of_def inside_def word_le_nat_alt)
      moreover have "unat (fst ?z) \<in> range_of (fst ?z) (snd ?z)" using assms(1) z(1) by (intro range_nonempty) (auto simp: mmap_ok_def)
      ultimately show False using assms(1) z(1) x(1) ne by (fastforce simp: mmap_ok_def)
    qed
    then show ?thesis using step [OF w refl] x(2) by simp
  qed
qed

lemma munmap_exact:
  assumes "mmap_ok t" and "a \<noteq> MAP_FAILED" and "unat a + unat n < 2 ^ 64"
  shows "(\<nexists>x. x \<in> set t \<and> inside a n x) \<Longrightarrow> dispatch_munmap err l r a n t = (None, t)"
    and "x \<in> set t \<Longrightarrow> inside a n x \<Longrightarrow> dispatch_munmap (Some e) l r a n t = (Some (Inl e), t)"
    and "x \<in> set t \<Longrightarrow> inside a n x \<Longrightarrow> \<exists>t'. dispatch_munmap None True True a n t = (Some (Inr ()), t') \<and>
           mmap_ok t' \<and> tracked t' = tracked t - range_of a n"
proof -
  show "(\<nexists>x. x \<in> set t \<and> inside a n x) \<Longrightarrow> dispatch_munmap err l r a n t = (None, t)"
    using prepare_exact(1) [OF assms] by (simp add: dispatch_munmap_def)
  show "x \<in> set t \<Longrightarrow> inside a n x \<Longrightarrow> dispatch_munmap (Some e) l r a n t = (Some (Inl e), t)"
    using prepare_exact(2) [OF assms] by (simp add: dispatch_munmap_def)
  assume x: "x \<in> set t" "inside a n x"
  have fits: "unat (fst x) + unat (snd x) < 2 ^ 64" using assms(1) x(1) by (auto simp: mmap_ok_def range_end_None)
  have xe: "(fst x, snd x) \<in> set t" "vsyscall_range_end (fst x) (snd x) = Some (fst x + snd x)" "vsyscall_range_end a n = Some (a + n)"
    using x(1) fits assms(3) by (simp_all add: range_end_Some unat_word_ariths)
  have "fst x \<le> a" "a + n \<le> fst x + snd x" "a < fst x + snd x"
    using x(2) fits assms(3) by (auto simp: inside_def word_le_nat_alt word_less_nat_alt unat_word_ariths)
  from update_exact [OF assms(1) xe this]
  show "\<exists>t'. dispatch_munmap None True True a n t = (Some (Inr ()), t') \<and> mmap_ok t' \<and> tracked t' = tracked t - range_of a n"
    using prepare_exact(2) [OF assms x] by (simp add: dispatch_munmap_def)
qed

lemma track_exact:
  assumes "mmap_ok t" and "a \<noteq> MAP_FAILED" and "n \<noteq> 0" and "unat a + unat n < 2 ^ 64" and "range_of a n \<inter> tracked t = {}"
  shows "mmap_ok (vsyscall_track_mmap_region True a n t)" and "tracked (vsyscall_track_mmap_region True a n t) = tracked t \<union> range_of a n"
proof -
  have ok: "om_ok t" using assms(1) by (simp add: mmap_ok_def)
  have e: "vsyscall_range_end a n = Some (a + n)" using assms(4) by (simp add: range_end_Some unat_word_ariths)
  then have t': "vsyscall_track_mmap_region True a n t = om_insert a n t" using assms(2,3) by (simp add: vsyscall_track_mmap_region_def)
  have "map_of t a = None"
  proof (rule ccontr)
    assume "map_of t a \<noteq> None"
    then obtain l where l: "(a, l) \<in> set t" using om_in_set [OF ok] by blast
    then have "unat a \<in> range_of a l" using assms(1) by (intro range_nonempty) (auto simp: mmap_ok_def)
    then show False using l assms(5) range_nonempty [OF assms(3), of a] by (fastforce simp: tracked_def)
  qed
  then have "x \<in> set (om_insert a n t) \<longleftrightarrow> x = (a, n) \<or> x \<in> set t" for x
    using om_in_set [OF om_ok_insert [OF ok]] om_in_set [OF ok] by (cases x) (auto split: if_splits)
  then have set: "set (om_insert a n t) = insert (a, n) (set t)" by blast
  show "tracked (vsyscall_track_mmap_region True a n t) = tracked t \<union> range_of a n" by (auto simp: t' set tracked_def)
  show "mmap_ok (vsyscall_track_mmap_region True a n t)"
    using assms(1,3,5) ok e unfolding t' mmap_ok_def set tracked_def by (auto simp: Int_commute) blast+
qed

end
