(* ===== verification/Vsys.thy ===== *)
theory Vsys
  imports Vattr Vmmap
begin

text \<open>
  The table of descriptors of the virtual files (first part of \<open>src/vfile/vsyscall.cc\<close>): the state of the system call layer,
  binding, looking up, acquiring and closing descriptors, and calls into the callbacks of a device.

  A descriptor is mapped to the number of an entry; descriptors with the same number are aliases. \<open>world\<close> holds what the
  kernel, the callbacks and the allocator answer during one call; a callback may change the registries. A call is one
  step here; \<open>Vfd_Race\<close> has the interleavings of closing with other operations. Waiting for operations under way has no
  effect of its own in this model.
\<close>

section \<open>Results\<close>

record vstat =
  st_mode :: u32
  st_nlink :: nat
  st_uid :: u32
  st_gid :: u32
  st_ino :: u64
  st_size :: nat
  st_blksize :: nat
  st_blocks :: nat
  st_rdev :: "u32 \<times> u32"

text \<open>What a handled call returns: a number, the bytes of a read, directory records, or a filled structure (with the
  mask of \<open>statx\<close>).\<close>

datatype reply = R_Long int | R_Bytes string | R_Dents "u8 list" | R_Stat vstat | R_Statx u32 vstat | R_Statfs

text \<open>\<open>O_Forward\<close>: the call is not ours (the flag \<open>forward\<close> stays set).\<close>

datatype outcome = O_Forward | O_Fail errno | O_Ret reply

fun errno_of :: "int \<Rightarrow> errno" where
  "errno_of n =
     (if n = 2 then ENOENT else if n = 5 then EIO else if n = 9 then EBADF else if n = 12 then ENOMEM else if n = 13 then EACCES
      else if n = 14 then EFAULT else if n = 16 then EBUSY else if n = 17 then EEXIST else if n = 19 then ENODEV
      else if n = 20 then ENOTDIR else if n = 21 then EISDIR else if n = 22 then EINVAL else if n = 24 then EMFILE
      else if n = 25 then ENOTTY else if n = 29 then ESPIPE else if n = 38 then ENOSYS else if n = 40 then ELOOP
      else if n = 95 then EOPNOTSUPP else Eother n)"

definition vsyscall_wrapper_from_negative :: "errno option \<Rightarrow> int \<Rightarrow> errno \<Rightarrow> outcome" where
  "vsyscall_wrapper_from_negative errno ret fallback_err =
     (if ret \<ge> 0 then O_Ret (R_Long ret)
      else if ret = - 1 then O_Fail (case errno of Some e \<Rightarrow> e | None \<Rightarrow> fallback_err)
      else if - ret \<le> 2147483647 then O_Fail (errno_of (- ret))
      else O_Fail fallback_err)"

section \<open>State\<close>

record world =
  w_pim_vfile_open :: "u32 \<Rightarrow> errno option + int"
  w_close :: "int \<Rightarrow> errno option"
  w_dup :: "errno + int"
  w_close_range :: "errno option"
  w_getfd :: "int \<Rightarrow> errno option"
  w_fcntl :: "errno + int"
  w_munmap :: "errno option"
  w_open_cb :: "handle \<Rightarrow> string \<Rightarrow> u32 \<Rightarrow> vfs \<Rightarrow> int \<times> vfs"
  w_ioctl_cb :: "handle \<Rightarrow> int \<Rightarrow> vfs \<Rightarrow> int \<times> vfs"
  w_mmap_cb :: "handle \<Rightarrow> int \<Rightarrow> vfs \<Rightarrow> int \<times> vfs"
  w_close_cb :: "handle \<Rightarrow> int \<Rightarrow> vfs \<Rightarrow> int \<times> vfs"
  w_cb_errno :: "errno option"
  w_hash :: "string \<Rightarrow> u64"
  w_entry_addr :: "nat \<Rightarrow> u64"
  w_uid :: u32
  w_euid :: u32
  w_gid :: u32
  w_egid :: u32
  w_groups :: "((errno + nat) \<times> (errno + u32 list)) list"
  w_max_groups :: nat \<comment> \<open>\<open>kMaxGroups\<close>\<close>
  w_alloc_node :: bool \<comment> \<open>a node of the table of descriptors\<close>
  w_alloc_copy :: bool
  w_alloc_build :: bool
  w_alloc_store :: bool
  w_alloc_track :: bool
  w_alloc_left :: bool
  w_alloc_right :: bool
  w_alloc_fdinfo :: bool

text \<open>What is done outside: descriptors closed in the kernel, and calls of close callbacks with device and owner descriptor.\<close>

datatype event = Kernel_Close int | Close_Callback handle int

record vsys =
  sy_fs :: vfs
  sy_fd_table :: "(int \<times> nat) list"
  sy_entries :: "nat \<Rightarrow> vfile_fd_entry"
  sy_next :: nat
  sy_mmap :: mmap_table
  sy_log :: "event list"

definition upd_entry :: "nat \<Rightarrow> (vfile_fd_entry \<Rightarrow> vfile_fd_entry) \<Rightarrow> vsys \<Rightarrow> vsys" where
  "upd_entry i f s = s\<lparr>sy_entries := (sy_entries s)(i := f (sy_entries s i))\<rparr>"

definition upd_fs :: "vfs \<Rightarrow> vsys \<Rightarrow> vsys" where
  "upd_fs fs s = s\<lparr>sy_fs := fs\<rparr>"

definition note_event :: "event \<Rightarrow> vsys \<Rightarrow> vsys" where
  "note_event e s = s\<lparr>sy_log := sy_log s @ [e]\<rparr>"

section \<open>The table of descriptors\<close>

definition vsyscall_kernel_close_fd :: "world \<Rightarrow> int \<Rightarrow> vsys \<Rightarrow> errno option \<times> vsys" where
  "vsyscall_kernel_close_fd w fd s = (w_close w fd, note_event (Kernel_Close fd) s)"

text \<open>Binding gives the entry its number.\<close>

definition vsyscall_fd_bind_existing :: "world \<Rightarrow> int \<Rightarrow> vfile_fd_entry \<Rightarrow> vsys \<Rightarrow> errno option \<times> vsys" where
  "vsyscall_fd_bind_existing w fd entry s =
     (if fd < 0 then (Some EINVAL, s)
      else if \<not> w_alloc_node w then (Some ENOMEM, s)
      else if map_of (sy_fd_table s) fd \<noteq> None then (Some EEXIST, s)
      else (None, s\<lparr>sy_fd_table := om_insert fd (sy_next s) (sy_fd_table s), sy_entries := (sy_entries s)(sy_next s := entry),
                    sy_next := sy_next s + 1\<rparr>))"

definition vsyscall_bind_existing_fd_or_close :: "world \<Rightarrow> int \<Rightarrow> vfile_fd_entry \<Rightarrow> vsys \<Rightarrow> errno option \<times> vsys" where
  "vsyscall_bind_existing_fd_or_close w fd entry s =
     (case vsyscall_fd_bind_existing w fd entry s of
        (None, s) \<Rightarrow> (None, s)
      | (Some bind_errno, s) \<Rightarrow> (Some bind_errno, snd (vsyscall_kernel_close_fd w fd s)))"

definition vsyscall_fd_alloc :: "world \<Rightarrow> vfile_fd_entry \<Rightarrow> vsys \<Rightarrow> (errno + int) \<times> vsys" where
  "vsyscall_fd_alloc w entry s =
     (case w_pim_vfile_open w (fe_flags entry) of
        Inl None \<Rightarrow> (Inl EMFILE, s)
      | Inl (Some e) \<Rightarrow> (Inl e, s)
      | Inr fd \<Rightarrow>
          (case vsyscall_fd_bind_existing w fd entry s of
             (None, s) \<Rightarrow> (Inr fd, s)
           | (Some bind_errno, s) \<Rightarrow> (Inl bind_errno, snd (vsyscall_kernel_close_fd w fd s))))"

definition vsyscall_fd_lookup :: "int \<Rightarrow> vsys \<Rightarrow> nat option" where
  "vsyscall_fd_lookup fd s = map_of (sy_fd_table s) fd"

definition vsyscall_fd_free :: "int \<Rightarrow> vsys \<Rightarrow> vsys" where
  "vsyscall_fd_free fd s = s\<lparr>sy_fd_table := om_erase fd (sy_fd_table s)\<rparr>"

definition vsyscall_fd_is_owned :: "int \<Rightarrow> vsys \<Rightarrow> bool" where
  "vsyscall_fd_is_owned fd s \<longleftrightarrow> vsyscall_fd_lookup fd s \<noteq> None"

definition vsyscall_alloc_tracked_fd :: "world \<Rightarrow> vfile_fd_entry \<Rightarrow> vsys \<Rightarrow> outcome \<times> vsys" where
  "vsyscall_alloc_tracked_fd w entry s =
     (case vsyscall_fd_alloc w entry s of
        (Inl e, s) \<Rightarrow> (O_Fail e, s)
      | (Inr fd, s) \<Rightarrow>
          (O_Ret (R_Long fd),
           if fe_type entry = FD_VDEV \<and> fe_owner_fd entry < 0
           then upd_entry (the (vsyscall_fd_lookup fd s)) (\<lambda>e. e\<lparr>fe_owner_fd := fd\<rparr>) s else s))"

definition vsyscall_fd_has_alias_locked :: "nat \<Rightarrow> vsys \<Rightarrow> bool" where
  "vsyscall_fd_has_alias_locked i s \<longleftrightarrow> i \<in> snd ` set (sy_fd_table s)"

definition vsyscall_fd_acquire_for_op :: "int \<Rightarrow> vsys \<Rightarrow> nat option \<times> vsys" where
  "vsyscall_fd_acquire_for_op fd s =
     (case vsyscall_fd_lookup fd s of
        None \<Rightarrow> (None, s)
      | Some i \<Rightarrow> if fe_closing (sy_entries s i) then (None, s)
                  else (Some i, upd_entry i (\<lambda>e. e\<lparr>fe_active_ops := fe_active_ops e + 1\<rparr>) s))"

definition vsyscall_fd_release_after_op :: "nat \<Rightarrow> vsys \<Rightarrow> vsys" where
  "vsyscall_fd_release_after_op i s = upd_entry i (\<lambda>e. if fe_active_ops e > 0 then e\<lparr>fe_active_ops := fe_active_ops e - 1\<rparr> else e) s"

definition vsyscall_dispatch_owned_fd :: "int \<Rightarrow> (nat \<Rightarrow> vsys \<Rightarrow> outcome \<times> vsys) \<Rightarrow> vsys \<Rightarrow> outcome \<times> vsys" where
  "vsyscall_dispatch_owned_fd fd fn s =
     (case vsyscall_fd_acquire_for_op fd s of
        (None, s) \<Rightarrow> (O_Forward, s)
      | (Some i, s) \<Rightarrow> apsnd (vsyscall_fd_release_after_op i) (fn i s))"

section \<open>Callbacks of a device\<close>

definition vsyscall_dispatch_vdev_entry_call ::
  "world \<Rightarrow> (pim_vdev \<Rightarrow> nat option) \<Rightarrow> errno \<Rightarrow> errno \<Rightarrow> (handle \<Rightarrow> int \<Rightarrow> vfs \<Rightarrow> int \<times> vfs) \<Rightarrow> nat \<Rightarrow> vsys \<Rightarrow> outcome \<times> vsys" where
  "vsyscall_dispatch_vdev_entry_call w member missing_callback_errno non_vdev_errno invoke i s =
     (let e = sy_entries s i
      in if fe_type e \<noteq> FD_VDEV then (O_Fail non_vdev_errno, s)
         else if vsyscall_fd_opened_with_path_only (fe_flags e) then (O_Fail EBADF, s)
         else
           (case fe_vdev e of
              None \<Rightarrow> (O_Fail EIO, s)
            | Some vdev \<Rightarrow>
                if fe_owner_fd e < 0 then (O_Fail EBADF, s)
                else if member (fs_vdev (sy_fs s) vdev) = None then (O_Fail missing_callback_errno, s)
                else
                  let (ret, fs) = invoke vdev (fe_owner_fd e) (sy_fs s)
                  in (vsyscall_wrapper_from_negative (w_cb_errno w) ret EIO, upd_fs fs s)))"

definition vsyscall_dispatch_owned_vdev_callback ::
  "world \<Rightarrow> int \<Rightarrow> (pim_vdev \<Rightarrow> nat option) \<Rightarrow> errno \<Rightarrow> errno \<Rightarrow> (handle \<Rightarrow> int \<Rightarrow> vfs \<Rightarrow> int \<times> vfs) \<Rightarrow> vsys \<Rightarrow> outcome \<times> vsys" where
  "vsyscall_dispatch_owned_vdev_callback w fd member missing_callback_errno non_vdev_errno invoke s =
     vsyscall_dispatch_owned_fd fd (vsyscall_dispatch_vdev_entry_call w member missing_callback_errno non_vdev_errno invoke) s"

definition run_close_callback :: "world \<Rightarrow> handle \<Rightarrow> int \<Rightarrow> vsys \<Rightarrow> int \<times> vsys" where
  "run_close_callback w vdev owner_fd s =
     (let (ret, fs) = w_close_cb w vdev owner_fd (sy_fs s) in (ret, note_event (Close_Callback vdev owner_fd) (upd_fs fs s)))"

section \<open>Entries\<close>

definition vsyscall_make_device_entry :: "handle \<Rightarrow> int \<Rightarrow> string \<Rightarrow> u32 \<Rightarrow> vfile_fd_entry" where
  "vsyscall_make_device_entry vdev owner_fd path open_flags =
     (new_fd_entry FD_VDEV open_flags)\<lparr>fe_vdev := Some vdev, fe_owner_fd := owner_fd, fe_virtual_path := path\<rparr>"

definition vsyscall_make_vsysfs_entry :: "handle \<Rightarrow> string \<Rightarrow> string \<Rightarrow> u32 \<Rightarrow> vfile_fd_entry" where
  "vsyscall_make_vsysfs_entry vsysfs attr_name path open_flags =
     (new_fd_entry FD_VSYSFS open_flags)\<lparr>fe_vsysfs := Some vsysfs, fe_sysfs_attr_name := attr_name, fe_virtual_path := path\<rparr>"

definition vsyscall_make_vmodule_entry :: "handle \<Rightarrow> string \<Rightarrow> string \<Rightarrow> u32 \<Rightarrow> vfile_fd_entry" where
  "vsyscall_make_vmodule_entry vmodule attr_name path open_flags =
     (new_fd_entry FD_VMODULE open_flags)\<lparr>fe_vmodule := Some vmodule, fe_sysfs_attr_name := attr_name, fe_virtual_path := path\<rparr>"

definition vsyscall_proc_fdinfo_pos_for_entry :: "vfile_fd_entry \<Rightarrow> u64" where
  "vsyscall_proc_fdinfo_pos_for_entry e =
     (case fe_type e of
        FD_VDIR \<Rightarrow> fe_dir_read_offset e
      | FD_VDEV \<Rightarrow> 0
      | _ \<Rightarrow> fe_sysfs_read_offset e)"

definition vsyscall_proc_fdinfo_ino_for_entry :: "world \<Rightarrow> nat \<Rightarrow> vfile_fd_entry \<Rightarrow> u64" where
  "vsyscall_proc_fdinfo_ino_for_entry w i e = (if fe_virtual_path e \<noteq> '''' then w_hash w (fe_virtual_path e) else w_entry_addr w i)"

fun octal :: "nat \<Rightarrow> string" where
  "octal n = (if n < 8 then [char_of (48 + n)] else octal (n div 8) @ [char_of (48 + n mod 8)])"

text \<open>The text has at most 82 bytes, so that it fits into the buffer of 256; \<open>w_alloc_fdinfo\<close>: the copy could be allocated.\<close>

definition vsyscall_build_proc_fdinfo_payload :: "world \<Rightarrow> int \<Rightarrow> nat \<Rightarrow> vsys \<Rightarrow> string option" where
  "vsyscall_build_proc_fdinfo_payload w target_fd i s =
     (let e = sy_entries s i
      in if target_fd < 0 \<or> \<not> w_alloc_fdinfo w then None
         else Some (''pos:'' @ [CHR 0x09] @ decimal (unat (vsyscall_proc_fdinfo_pos_for_entry e)) @ newline @
                    ''flags:'' @ [CHR 0x09] @ ''0'' @ octal (unat (fe_flags e)) @ newline @
                    ''mnt_id:'' @ [CHR 0x09] @ ''0'' @ newline @
                    ''ino:'' @ [CHR 0x09] @ decimal (unat (vsyscall_proc_fdinfo_ino_for_entry w i e)) @ newline))"

definition vsyscall_make_proc_fdinfo_entry :: "world \<Rightarrow> int \<Rightarrow> nat \<Rightarrow> string \<Rightarrow> u32 \<Rightarrow> vsys \<Rightarrow> vfile_fd_entry option" where
  "vsyscall_make_proc_fdinfo_entry w target_fd i path open_flags s =
     map_option (\<lambda>payload. (new_fd_entry FD_PROC_FDINFO open_flags)
          \<lparr>fe_sysfs_cached_attr_revision := 1, fe_sysfs_cached_attr_access := PIM_ACCESS_MODE_RO, fe_virtual_path := path,
           fe_sysfs_cached_value := payload\<rparr>)
       (vsyscall_build_proc_fdinfo_payload w target_fd i s)"

section \<open>Closing\<close>

definition vsyscall_finalize_entry_if_last_alias :: "world \<Rightarrow> nat \<Rightarrow> vsys \<Rightarrow> outcome \<times> vsys" where
  "vsyscall_finalize_entry_if_last_alias w i s =
     (if vsyscall_fd_has_alias_locked i s then (O_Ret (R_Long 0), s)
      else
        let s = upd_entry i (\<lambda>e. e\<lparr>fe_closing := True\<rparr>) s; e = sy_entries s i
        in if fe_type e \<noteq> FD_VDEV then (O_Ret (R_Long 0), s)
           else
             (case fe_vdev e of
                None \<Rightarrow> (O_Fail EIO, s)
              | Some vdev \<Rightarrow>
                  if vd_close_fn (fs_vdev (sy_fs s) vdev) = None then (O_Ret (R_Long 0), s)
                  else
                    let (ret, s) = run_close_callback w vdev (fe_owner_fd e) s
                    in (vsyscall_wrapper_from_negative (w_cb_errno w) ret EIO, s)))"

definition vsyscall_detach_owned_fd_entry :: "int \<Rightarrow> vsys \<Rightarrow> nat option \<times> vsys" where
  "vsyscall_detach_owned_fd_entry fd s =
     (case map_of (sy_fd_table s) fd of
        None \<Rightarrow> (None, s)
      | Some i \<Rightarrow> (Some i, s\<lparr>sy_fd_table := om_erase fd (sy_fd_table s)\<rparr>))"

definition vsyscall_close_kernel_fd_if_needed :: "world \<Rightarrow> int \<Rightarrow> bool \<Rightarrow> vsys \<Rightarrow> errno option \<times> vsys" where
  "vsyscall_close_kernel_fd_if_needed w fd close_kernel_fd s =
     (if \<not> close_kernel_fd then (None, s) else vsyscall_kernel_close_fd w fd s)"

definition vsyscall_finalize_detached_owned_fd :: "world \<Rightarrow> nat \<Rightarrow> errno option \<Rightarrow> vsys \<Rightarrow> outcome \<times> vsys" where
  "vsyscall_finalize_detached_owned_fd w i kernel_close_errno s =
     (let (finalize_ret, s) = vsyscall_finalize_entry_if_last_alias w i s
      in (case kernel_close_errno of Some e \<Rightarrow> O_Fail e | None \<Rightarrow> finalize_ret, s))"

definition close_owned_fd :: "world \<Rightarrow> int \<Rightarrow> bool \<Rightarrow> vsys \<Rightarrow> outcome \<times> vsys" where
  "close_owned_fd w fd close_kernel_fd s =
     (case vsyscall_detach_owned_fd_entry fd s of
        (None, s) \<Rightarrow> (O_Ret (R_Long 0), s)
      | (Some i, s) \<Rightarrow>
          let (close_errno, s) = vsyscall_close_kernel_fd_if_needed w fd close_kernel_fd s
          in vsyscall_finalize_detached_owned_fd w i close_errno s)"

fun vsyscall_close_owned_fd_list :: "world \<Rightarrow> int list \<Rightarrow> bool \<Rightarrow> vsys \<Rightarrow> outcome \<times> vsys" where
  "vsyscall_close_owned_fd_list w [] close_kernel_fd s = (O_Ret (R_Long 0), s)"
| "vsyscall_close_owned_fd_list w (fd # fds) close_kernel_fd s =
     (case close_owned_fd w fd close_kernel_fd s of
        (O_Fail e, s) \<Rightarrow> (O_Fail e, s)
      | (_, s) \<Rightarrow> vsyscall_close_owned_fd_list w fds close_kernel_fd s)"

definition vsyscall_wait_and_finalize_entry_best_effort :: "world \<Rightarrow> nat \<Rightarrow> vsys \<Rightarrow> vsys" where
  "vsyscall_wait_and_finalize_entry_best_effort w i s =
     (let s = upd_entry i (\<lambda>e. e\<lparr>fe_closing := True\<rparr>) s; e = sy_entries s i
      in if fe_type e \<noteq> FD_VDEV then s
         else
           (case fe_vdev e of
              None \<Rightarrow> s
            | Some vdev \<Rightarrow>
                if vd_close_fn (fs_vdev (sy_fs s) vdev) = None then s else snd (run_close_callback w vdev (fe_owner_fd e) s)))"

text \<open>The loop over the detached table, in the order of its iteration; \<open>finalized\<close> are the entries already done.\<close>

fun drain_loop :: "world \<Rightarrow> nat list \<Rightarrow> (int \<times> nat) list \<Rightarrow> vsys \<Rightarrow> vsys" where
  "drain_loop w finalized [] s = s"
| "drain_loop w finalized ((fd, i) # detached) s =
     (let s = (if fd \<ge> 0 then snd (vsyscall_kernel_close_fd w fd s) else s)
      in if i \<in> set finalized then drain_loop w finalized detached s
         else drain_loop w (i # finalized) detached (vsyscall_wait_and_finalize_entry_best_effort w i s))"

definition vsyscall_drain_owned_fd_batch_best_effort :: "world \<Rightarrow> (int \<times> nat) list \<Rightarrow> vsys \<Rightarrow> vsys" where
  "vsyscall_drain_owned_fd_batch_best_effort w detached s = drain_loop w [] detached s"

text \<open>The outer loop ends when the table is empty: after one round, since no other thread opens descriptors in between.\<close>

definition vsyscall_close_all_owned_fds_best_effort :: "world \<Rightarrow> vsys \<Rightarrow> vsys" where
  "vsyscall_close_all_owned_fds_best_effort w s =
     (if sy_fd_table s = [] then s else vsyscall_drain_owned_fd_batch_best_effort w (sy_fd_table s) (s\<lparr>sy_fd_table := []\<rparr>))"

section \<open>Duplicating\<close>

definition vsyscall_collect_owned_fds_in_range :: "u32 \<Rightarrow> u32 \<Rightarrow> vsys \<Rightarrow> int list" where
  "vsyscall_collect_owned_fds_in_range lo hi s =
     filter (\<lambda>fd. fd \<ge> 0 \<and> lo \<le> word_of_int fd \<and> word_of_int fd \<le> hi) (map fst (sy_fd_table s))"

definition vsyscall_fail_enomem_with_optional_close :: "world \<Rightarrow> int \<Rightarrow> bool \<Rightarrow> vsys \<Rightarrow> outcome \<times> vsys" where
  "vsyscall_fail_enomem_with_optional_close w fd close_fd s =
     (O_Fail ENOMEM, if close_fd then snd (vsyscall_kernel_close_fd w fd s) else s)"

text \<open>A node is needed only for a descriptor that is not in the table.\<close>

definition vsyscall_rebind_fd_alias_after_dup :: "world \<Rightarrow> int \<Rightarrow> nat option \<Rightarrow> bool \<Rightarrow> vsys \<Rightarrow> outcome \<times> vsys" where
  "vsyscall_rebind_fd_alias_after_dup w target_fd new_entry close_target_fd_on_failure s =
     (let replaced = map_of (sy_fd_table s) target_fd
      in if new_entry \<noteq> None \<and> replaced = None \<and> \<not> w_alloc_node w
         then vsyscall_fail_enomem_with_optional_close w target_fd close_target_fd_on_failure s
         else
           let s = s\<lparr>sy_fd_table := (case new_entry of
                                        Some i \<Rightarrow> om_insert target_fd i (sy_fd_table s)
                                      | None \<Rightarrow> om_erase target_fd (sy_fd_table s))\<rparr>
           in (case replaced of
                 None \<Rightarrow> (O_Ret (R_Long target_fd), s)
               | Some r \<Rightarrow>
                   if Some r = new_entry then (O_Ret (R_Long target_fd), s)
                   else (case vsyscall_finalize_entry_if_last_alias w r s of
                           (O_Fail e, s) \<Rightarrow> (O_Fail e, if close_target_fd_on_failure then snd (vsyscall_kernel_close_fd w target_fd s) else s)
                         | (_, s) \<Rightarrow> (O_Ret (R_Long target_fd), s))))"

end
