(* ===== verification/Vsys_Path.thy ===== *)
theory Vsys_Path
  imports Vsys
begin

text \<open>
  Paths of system calls (\<open>src/vfile/vsyscall.cc\<close>): resolution relative to a directory descriptor, the links of the proc
  file system to descriptors, the nodes behind paths, symbolic links and \<open>readlink\<close>. Strings have no zero bytes, as the
  C strings they stand for; a null pointer is \<open>None\<close>.
\<close>

section \<open>Paths\<close>

definition AT_FDCWD :: int where "AT_FDCWD = - 100"

definition vsyscall_path_has_trailing_slash :: "string \<Rightarrow> bool" where
  "vsyscall_path_has_trailing_slash path \<longleftrightarrow> path \<noteq> [] \<and> last path = slash"

definition vsyscall_is_relative_path :: "string option \<Rightarrow> bool" where
  "vsyscall_is_relative_path path \<longleftrightarrow> (case path of None \<Rightarrow> False | Some p \<Rightarrow> p \<noteq> [] \<and> hd p \<noteq> slash)"

fun parse_digits :: "int \<Rightarrow> string \<Rightarrow> int option" where
  "parse_digits fd [] = Some fd"
| "parse_digits fd (ch # p) =
     (if ch < CHR ''0'' \<or> ch > CHR ''9'' then None
      else
        let digit = int (of_char ch) - 48
        in if fd > (2147483647 - digit) div 10 then None else parse_digits (fd * 10 + digit) p)"

definition vsyscall_parse_proc_self_numeric_path :: "string \<Rightarrow> string \<Rightarrow> int option" where
  "vsyscall_parse_proc_self_numeric_path abs_path prefix =
     (if length abs_path \<le> length prefix \<or> take (length prefix) abs_path \<noteq> prefix then None
      else parse_digits 0 (drop (length prefix) abs_path))"

definition vsyscall_rewrite_proc_self_fd_path_for_open :: "string \<Rightarrow> vsys \<Rightarrow> string option" where
  "vsyscall_rewrite_proc_self_fd_path_for_open abs_path s =
     (case vsyscall_parse_proc_self_numeric_path abs_path ''/proc/self/fd/'' of
        None \<Rightarrow> None
      | Some procfd \<Rightarrow>
          (case vsyscall_fd_lookup procfd s of
             None \<Rightarrow> None
           | Some i \<Rightarrow>
               if fe_virtual_path (sy_entries s i) = '''' then None
               else vfile_normalize_absolute_path (fe_virtual_path (sy_entries s i))))"

record resolved_path =
  rp_abs_path :: string
  rp_from_owned_dfd :: bool
  rp_trailing_slash :: bool

datatype path_status = P_Not_Ours | P_Error errno | P_Resolved resolved_path

definition vsyscall_resolve_path_at :: "int \<Rightarrow> string option \<Rightarrow> vsys \<Rightarrow> path_status" where
  "vsyscall_resolve_path_at dfd pathname s =
     (case pathname of
        None \<Rightarrow> P_Not_Ours
      | Some [] \<Rightarrow> P_Not_Ours
      | Some path \<Rightarrow>
          let trailing = vsyscall_path_has_trailing_slash path
          in if hd path = slash
             then (case vfile_normalize_absolute_path path of
                     None \<Rightarrow> P_Not_Ours
                   | Some p \<Rightarrow> P_Resolved \<lparr>rp_abs_path = p, rp_from_owned_dfd = False, rp_trailing_slash = trailing\<rparr>)
             else if dfd = AT_FDCWD then P_Not_Ours
             else
               (case vsyscall_fd_lookup dfd s of
                  None \<Rightarrow> P_Not_Ours
                | Some i \<Rightarrow>
                    let e = sy_entries s i
                    in if fe_type e \<noteq> FD_VDIR \<or> fe_virtual_path e = '''' then P_Error ENOTDIR
                       else
                         let joined = fe_virtual_path e;
                             joined = (if joined \<noteq> [slash] then joined @ [slash] else joined) @ path
                         in (case vfile_normalize_absolute_path joined of
                               None \<Rightarrow> P_Error EINVAL
                             | Some p \<Rightarrow> P_Resolved \<lparr>rp_abs_path = p, rp_from_owned_dfd = True, rp_trailing_slash = trailing\<rparr>)))"

text \<open>The path, or the result with which the call ends.\<close>

definition vsyscall_dispatch_resolve_path_for_dispatch :: "int \<Rightarrow> string option \<Rightarrow> vsys \<Rightarrow> outcome + resolved_path" where
  "vsyscall_dispatch_resolve_path_for_dispatch dfd pathname s =
     (case vsyscall_resolve_path_at dfd pathname s of
        P_Not_Ours \<Rightarrow> Inl O_Forward
      | P_Error e \<Rightarrow> Inl (O_Fail e)
      | P_Resolved p \<Rightarrow> Inr p)"

section \<open>Nodes\<close>

definition vsyscall_return_not_ours_or_fail :: "bool \<Rightarrow> errno \<Rightarrow> outcome" where
  "vsyscall_return_not_ours_or_fail from_owned_dfd owned_dfd_errno = (if from_owned_dfd then O_Fail owned_dfd_errno else O_Forward)"

definition resolve_node :: "string \<Rightarrow> vsys \<Rightarrow> (errno option + vfile_virtual_path_info) \<times> vsys" where
  "resolve_node path s = (let (r, fs) = vfile_resolve_virtual_node path (sy_fs s) in (r, upd_fs fs s))"

definition vsyscall_dispatch_lookup_node_from_resolved_path ::
  "resolved_path \<Rightarrow> errno \<Rightarrow> vsys \<Rightarrow> (outcome + vfile_virtual_path_info) \<times> vsys" where
  "vsyscall_dispatch_lookup_node_from_resolved_path p not_found_owned_errno s =
     (case resolve_node (rp_abs_path p) s of
        (Inr node, s) \<Rightarrow>
          if rp_trailing_slash p \<and> pi_kind node \<noteq> VDIR then (Inl (O_Fail ENOTDIR), s) else (Inr node, s)
      | (Inl (Some e), s) \<Rightarrow> (Inl (O_Fail e), s)
      | (Inl None, s) \<Rightarrow> (Inl (vsyscall_return_not_ours_or_fail (rp_from_owned_dfd p) not_found_owned_errno), s))"

definition vsyscall_dispatch_resolve_node ::
  "int \<Rightarrow> string option \<Rightarrow> errno \<Rightarrow> vsys \<Rightarrow> (outcome + vfile_virtual_path_info \<times> bool) \<times> vsys" where
  "vsyscall_dispatch_resolve_node dfd pathname not_found_owned_errno s =
     (case vsyscall_dispatch_resolve_path_for_dispatch dfd pathname s of
        Inl r \<Rightarrow> (Inl r, s)
      | Inr p \<Rightarrow> (case vsyscall_dispatch_lookup_node_from_resolved_path p not_found_owned_errno s of
                    (Inl r, s) \<Rightarrow> (Inl r, s)
                  | (Inr node, s) \<Rightarrow> (Inr (node, rp_from_owned_dfd p), s)))"

section \<open>Symbolic links\<close>

text \<open>The target of a class directory that is a link to a device directory.\<close>

definition vsyscall_is_vsysfs_class_symlink_node :: "vfile_virtual_path_info \<Rightarrow> vfs \<Rightarrow> string option" where
  "vsyscall_is_vsysfs_class_symlink_node node st =
     (case (pi_kind node, pi_vsysfs node) of
        (VDIR, Some h) \<Rightarrow>
          let v = fs_vsysfs st h; root = fs_vsysfs_root st (vs_root v);
              root_uses_distinct_globs = (vs_root v \<in> set (g_vsysfs_root_list st) \<longrightarrow> sr_class_glob root \<noteq> sr_devices_glob root)
          in if \<not> root_uses_distinct_globs then None
             else if vs_class_dir v = '''' \<or> vs_devices_dir v = '''' \<or> vs_class_dir v = vs_devices_dir v then None
             else if pi_path node \<noteq> vs_class_dir v then None
             else Some (vs_devices_dir v)
      | _ \<Rightarrow> None)"

definition vsyscall_is_virtual_attr_symlink_name :: "string \<Rightarrow> bool" where
  "vsyscall_is_virtual_attr_symlink_name attr_name \<longleftrightarrow> attr_name = ''subsystem'' \<or> attr_name = ''device''"

definition trim_back :: "(char \<Rightarrow> bool) \<Rightarrow> string \<Rightarrow> string" where
  "trim_back P t = rev (dropWhile P (rev t))"

definition vsyscall_trim_virtual_symlink_target :: "string \<Rightarrow> string option" where
  "vsyscall_trim_virtual_symlink_target target =
     (let t = trim_back (\<lambda>c. c = CHR 0x0A \<or> c = CHR 0x0D) target in if t = '''' then None else Some t)"

definition vsyscall_try_get_virtual_attr_symlink_target :: "vfile_virtual_path_info \<Rightarrow> vfs \<Rightarrow> string option" where
  "vsyscall_try_get_virtual_attr_symlink_target node st =
     (case (pi_kind node, pi_vsysfs node, pi_vmodule node) of
        (VSYSFS_ATTR, Some h, _) \<Rightarrow>
          if vsyscall_is_virtual_attr_symlink_name (pi_attr_name node)
          then (case map_of (vs_attrs (fs_vsysfs st h)) (pi_attr_name node) of
                  None \<Rightarrow> None | Some v \<Rightarrow> vsyscall_trim_virtual_symlink_target v)
          else None
      | (VMODULE_ATTR, _, Some h) \<Rightarrow>
          if pi_attr_name node = ''subsystem''
          then (case map_of (vm_attrs (fs_vmodule st h)) (pi_attr_name node) of
                  None \<Rightarrow> None | Some v \<Rightarrow> vsyscall_trim_virtual_symlink_target v)
          else None
      | _ \<Rightarrow> None)"

definition vsyscall_try_get_entry_attr_symlink_target :: "vfile_fd_entry \<Rightarrow> vfs \<Rightarrow> string option" where
  "vsyscall_try_get_entry_attr_symlink_target e st =
     (case (fe_type e, fe_vsysfs e, fe_vmodule e) of
        (FD_VSYSFS, Some h, _) \<Rightarrow>
          if vsyscall_is_virtual_attr_symlink_name (fe_sysfs_attr_name e)
          then (case map_of (vs_attrs (fs_vsysfs st h)) (fe_sysfs_attr_name e) of
                  None \<Rightarrow> None | Some v \<Rightarrow> vsyscall_trim_virtual_symlink_target v)
          else None
      | (FD_VMODULE, _, Some h) \<Rightarrow>
          if fe_sysfs_attr_name e = ''subsystem''
          then (case map_of (vm_attrs (fs_vmodule st h)) (fe_sysfs_attr_name e) of
                  None \<Rightarrow> None | Some v \<Rightarrow> vsyscall_trim_virtual_symlink_target v)
          else None
      | _ \<Rightarrow> None)"

section \<open>Reading links\<close>

definition vsyscall_trim_readlink_target_in_place :: "string \<Rightarrow> string" where
  "vsyscall_trim_readlink_target_in_place target = trim_back (\<lambda>c. c = CHR 0x0A \<or> c = CHR 0x0D \<or> c = CHR 0x00) target"

function vsyscall_split_absolute_path_components :: "string \<Rightarrow> string list" where
  "vsyscall_split_absolute_path_components p =
     (let p = dropWhile (\<lambda>c. c = slash) p
      in if p = [] then []
         else takeWhile (\<lambda>c. c \<noteq> slash) p # vsyscall_split_absolute_path_components (dropWhile (\<lambda>c. c \<noteq> slash) p))"
  by auto
termination
proof (relation "measure length", goal_cases)
  case (2 p x)
  then have "hd x \<noteq> slash" using hd_dropWhile [of "\<lambda>c. c = slash" p] by simp
  then have "length (dropWhile (\<lambda>c. c \<noteq> slash) x) < length x"
    using 2(2) by (cases x) (simp_all add: le_imp_less_Suc length_dropWhile_le)
  also have "length x \<le> length p" using 2 by (simp add: length_dropWhile_le)
  finally show ?case by simp
qed simp

declare vsyscall_split_absolute_path_components.simps [simp del]

fun common_parts :: "string list \<Rightarrow> string list \<Rightarrow> nat" where
  "common_parts (a # as) (b # bs) = (if a = b then Suc (common_parts as bs) else 0)"
| "common_parts _ _ = 0"

definition link_parent_of :: "string \<Rightarrow> string" where
  "link_parent_of link_norm =
     (let parent = rev (drop 1 (dropWhile (\<lambda>c. c \<noteq> slash) (rev link_norm)))
      in if slash \<in> set link_norm \<and> parent \<noteq> [] then parent else [slash])"

definition vsyscall_make_readlink_relative_target :: "string \<Rightarrow> string \<Rightarrow> string option" where
  "vsyscall_make_readlink_relative_target link_path target_abs =
     (case (vfile_normalize_absolute_path link_path, vfile_normalize_absolute_path target_abs) of
        (Some link_norm, Some target_norm) \<Rightarrow>
          let from_parts = vsyscall_split_absolute_path_components (link_parent_of link_norm);
              to_parts = vsyscall_split_absolute_path_components target_norm;
              common = common_parts from_parts to_parts;
              rel = join_segments (replicate (length from_parts - common) ''..'' @ drop common to_parts)
          in Some (if rel = [] then ''.'' else rel)
      | _ \<Rightarrow> None)"

text \<open>\<open>buf_null\<close>: no buffer was given. The reply is the bytes copied.\<close>

definition vsyscall_return_readlink_target :: "string \<Rightarrow> bool \<Rightarrow> nat \<Rightarrow> outcome" where
  "vsyscall_return_readlink_target target buf_null bufsiz =
     (if buf_null then O_Fail EFAULT
      else if bufsiz = 0 then O_Fail EINVAL
      else O_Ret (R_Bytes (take (min (length target) bufsiz) target)))"

definition vsyscall_try_get_virtual_readlink_target :: "vfile_virtual_path_info \<Rightarrow> vfs \<Rightarrow> string option" where
  "vsyscall_try_get_virtual_readlink_target node st =
     (let trimmed = (\<lambda>v. let t = vsyscall_trim_readlink_target_in_place v in if t = '''' then None else Some t)
      in case (pi_kind node, pi_vsysfs node, pi_vmodule node) of
           (VSYSFS_ATTR, Some h, _) \<Rightarrow>
             if pi_attr_name node = ''subsystem'' \<or> pi_attr_name node = ''device''
             then Option.bind (map_of (vs_attrs (fs_vsysfs st h)) (pi_attr_name node)) trimmed else None
         | (VMODULE_ATTR, _, Some h) \<Rightarrow>
             if pi_attr_name node = ''subsystem''
             then Option.bind (map_of (vm_attrs (fs_vmodule st h)) (pi_attr_name node)) trimmed else None
         | (VDIR, _, _) \<Rightarrow> if pi_path node = ''/sys/class/subsystem'' then Some ''/sys/class'' else None
         | _ \<Rightarrow> None)"

definition vsyscall_extract_virtual_class_subsystem_name :: "string \<Rightarrow> string option" where
  "vsyscall_extract_virtual_class_subsystem_name abs_path =
     (let prefix = ''/sys/class/''; suffix = ''/subsystem''
      in if abs_path = ''/sys/class/subsystem'' then None
         else if length abs_path \<le> length prefix + length suffix then None
         else if take (length prefix) abs_path \<noteq> prefix then None
         else if drop (length abs_path - length suffix) abs_path \<noteq> suffix then None
         else
           let extracted = take (length abs_path - length suffix - length prefix) (drop (length prefix) abs_path)
           in if extracted = '''' \<or> slash \<in> set extracted then None else Some extracted)"

definition vsyscall_virtual_class_exists :: "string \<Rightarrow> vfs \<Rightarrow> bool" where
  "vsyscall_virtual_class_exists class_name st \<longleftrightarrow> (\<exists>r \<in> set (g_vsysfs_root_list st). sr_class_name (fs_vsysfs_root st r) = class_name)"

definition vsyscall_try_get_virtual_class_subsystem_target :: "string \<Rightarrow> vfs \<Rightarrow> string option" where
  "vsyscall_try_get_virtual_class_subsystem_target abs_path st =
     (case vsyscall_extract_virtual_class_subsystem_name abs_path of
        None \<Rightarrow> None
      | Some class_name \<Rightarrow> if vsyscall_virtual_class_exists class_name st then Some (''/sys/subsystem/'' @ class_name) else None)"

definition dispatch_readlinkat :: "int \<Rightarrow> string option \<Rightarrow> bool \<Rightarrow> nat \<Rightarrow> vsys \<Rightarrow> outcome \<times> vsys" where
  "dispatch_readlinkat dfd pathname buf_null bufsiz s =
     (if pathname = None then (O_Forward, s)
      else case vsyscall_dispatch_resolve_path_for_dispatch dfd pathname s of
        Inl r \<Rightarrow> (r, s)
      | Inr p \<Rightarrow>
          if rp_abs_path p = ''/sys/class/subsystem'' then (vsyscall_return_readlink_target ''/sys/class'' buf_null bufsiz, s)
          else
            (case vsyscall_try_get_virtual_class_subsystem_target (rp_abs_path p) (sy_fs s) of
               Some target \<Rightarrow> (vsyscall_return_readlink_target target buf_null bufsiz, s)
             | None \<Rightarrow>
                 (case vsyscall_dispatch_lookup_node_from_resolved_path p ENOENT s of
                    (Inl r, s) \<Rightarrow> (r, s)
                  | (Inr node, s) \<Rightarrow>
                      (case vsyscall_is_vsysfs_class_symlink_node node (sy_fs s) of
                         Some target \<Rightarrow>
                           (vsyscall_return_readlink_target
                              (case vsyscall_make_readlink_relative_target (pi_path node) target of Some rel \<Rightarrow> rel | None \<Rightarrow> target)
                              buf_null bufsiz, s)
                       | None \<Rightarrow>
                           (case vsyscall_try_get_virtual_readlink_target node (sy_fs s) of
                              Some target \<Rightarrow> (vsyscall_return_readlink_target target buf_null bufsiz, s)
                            | None \<Rightarrow> (O_Fail EINVAL, s))))))"

end
