(* ===== verification/Vsys_Stat.thy ===== *)
theory Vsys_Stat
  imports Vsys_Path
begin

text \<open>
  The status of files (\<open>src/vfile/vsyscall.cc\<close>): the structures that \<open>stat\<close>, \<open>fstat\<close>, \<open>statx\<close> and \<open>statfs\<close> fill, the checks of
  their flags, and \<open>access\<close>. The constants are those of Linux on x86-64.
\<close>

section \<open>Filling the structures\<close>

definition kVsyscallStatBlockUnitBytes :: nat where "kVsyscallStatBlockUnitBytes = 512"
definition kVsyscallStatPreferredBlksize :: nat where "kVsyscallStatPreferredBlksize = 4096"
definition kVsyscallVirtualChrRdev :: "u32 \<times> u32" where "kVsyscallVirtualChrRdev = (1, 3)"
definition kS_IFCHR :: u32 where "kS_IFCHR = 0x2000"
definition kS_IFDIR :: u32 where "kS_IFDIR = 0x4000"
definition kS_IFREG :: u32 where "kS_IFREG = 0x8000"
definition kS_IFLNK :: u32 where "kS_IFLNK = 0xA000"

definition vsyscall_vsysfs_attr_perm_bits :: "int \<Rightarrow> u32" where
  "vsyscall_vsysfs_attr_perm_bits access =
     (if access = PIM_ACCESS_MODE_NONE then 0
      else if access = PIM_ACCESS_MODE_RO then 0x124
      else if access = PIM_ACCESS_MODE_WO then 0x92
      else 0x1A4)"

datatype vsyscall_stat_kind = CHR_DEVICE | DIR | REG_ATTR

fun vsyscall_stat_kind_from_fd_entry_type :: "fd_type \<Rightarrow> vsyscall_stat_kind" where
  "vsyscall_stat_kind_from_fd_entry_type FD_VDEV = CHR_DEVICE"
| "vsyscall_stat_kind_from_fd_entry_type FD_VDIR = DIR"
| "vsyscall_stat_kind_from_fd_entry_type FD_VSYSFS = REG_ATTR"
| "vsyscall_stat_kind_from_fd_entry_type FD_VMODULE = REG_ATTR"
| "vsyscall_stat_kind_from_fd_entry_type FD_PROC_FDINFO = REG_ATTR"

fun vsyscall_stat_kind_from_virtual_node_kind :: "vfile_virtual_path_kind \<Rightarrow> vsyscall_stat_kind" where
  "vsyscall_stat_kind_from_virtual_node_kind VDEV_NODE = CHR_DEVICE"
| "vsyscall_stat_kind_from_virtual_node_kind VDIR = DIR"
| "vsyscall_stat_kind_from_virtual_node_kind VSYSFS_ATTR = REG_ATTR"
| "vsyscall_stat_kind_from_virtual_node_kind VMODULE_ATTR = REG_ATTR"

definition vsyscall_init_stat_common :: "world \<Rightarrow> u64 \<Rightarrow> vstat" where
  "vsyscall_init_stat_common w ino =
     \<lparr>st_mode = 0, st_nlink = 1, st_uid = w_euid w, st_gid = w_egid w, st_ino = ino, st_size = 0,
      st_blksize = kVsyscallStatPreferredBlksize, st_blocks = 0, st_rdev = (0, 0)\<rparr>"

definition blocks_of :: "nat \<Rightarrow> nat" where
  "blocks_of n = (n + (kVsyscallStatBlockUnitBytes - 1)) div kVsyscallStatBlockUnitBytes"

definition vsyscall_build_symlink_stat :: "world \<Rightarrow> string \<Rightarrow> vstat" where
  "vsyscall_build_symlink_stat w target =
     (vsyscall_init_stat_common w (w_hash w target))
       \<lparr>st_mode := kS_IFLNK OR 0x1FF, st_size := length target, st_blocks := blocks_of (length target)\<rparr>"

definition vsyscall_apply_stat_kind :: "vsyscall_stat_kind \<Rightarrow> nat \<Rightarrow> int \<Rightarrow> u32 \<times> u32 \<Rightarrow> vstat \<Rightarrow> vstat" where
  "vsyscall_apply_stat_kind kind payload_size attr_access rdev st =
     (case kind of
        CHR_DEVICE \<Rightarrow> st\<lparr>st_mode := kS_IFCHR OR 0x180, st_rdev := rdev\<rparr>
      | DIR \<Rightarrow> st\<lparr>st_mode := kS_IFDIR OR 0x16D, st_nlink := 2\<rparr>
      | REG_ATTR \<Rightarrow> st\<lparr>st_mode := kS_IFREG OR vsyscall_vsysfs_attr_perm_bits attr_access, st_size := payload_size,
                       st_blocks := blocks_of payload_size\<rparr>)"

section \<open>The status of a descriptor and of a path\<close>

definition kO_NOFOLLOW :: u32 where "kO_NOFOLLOW = 0x20000"

definition opened_link_itself :: "vfile_fd_entry \<Rightarrow> bool" where
  "opened_link_itself e \<longleftrightarrow> fe_flags e AND kO_NOFOLLOW \<noteq> 0 \<and> fe_flags e AND kO_PATH \<noteq> 0"

text \<open>The target of the link that a descriptor refers to, when it was opened as the link itself.\<close>

definition entry_link_target :: "nat \<Rightarrow> vsys \<Rightarrow> string option \<times> vsys" where
  "entry_link_target i s =
     (let e = sy_entries s i
      in if \<not> opened_link_itself e then (None, s)
         else if fe_type e = FD_VDIR \<and> fe_virtual_path e \<noteq> ''''
         then (case resolve_node (fe_virtual_path e) s of
                 (Inr node, s) \<Rightarrow> (vsyscall_is_vsysfs_class_symlink_node node (sy_fs s), s)
               | (Inl _, s) \<Rightarrow> (None, s))
         else if fe_type e = FD_VSYSFS \<or> fe_type e = FD_VMODULE then (vsyscall_try_get_entry_attr_symlink_target e (sy_fs s), s)
         else (None, s))"

text \<open>Size, access mode and device number of what an entry refers to.\<close>

definition entry_properties :: "vfile_fd_entry \<Rightarrow> vfs \<Rightarrow> errno + nat \<times> int \<times> (u32 \<times> u32)" where
  "entry_properties e st =
     (case fe_type e of
        FD_VDEV \<Rightarrow> (case fe_vdev e of
                      None \<Rightarrow> Inl EBADF
                    | Some h \<Rightarrow> Inr (0, PIM_ACCESS_MODE_RW, (vd_major (fs_vdev st h), vd_minor (fs_vdev st h))))
      | FD_VDIR \<Rightarrow> Inr (0, PIM_ACCESS_MODE_RW, kVsyscallVirtualChrRdev)
      | FD_PROC_FDINFO \<Rightarrow> Inr (length (fe_sysfs_cached_value e), fe_sysfs_cached_attr_access e, kVsyscallVirtualChrRdev)
      | _ \<Rightarrow> (case attr_table st e of
                None \<Rightarrow> Inl EBADF
              | Some (attrs, access, _) \<Rightarrow>
                  (case map_of attrs (fe_sysfs_attr_name e) of
                     None \<Rightarrow> Inl ENOENT
                   | Some value \<Rightarrow> Inr (length value, access_of access (fe_sysfs_attr_name e), kVsyscallVirtualChrRdev))))"

definition vsyscall_build_vdev_stat :: "world \<Rightarrow> nat \<Rightarrow> vsys \<Rightarrow> (errno + vstat) \<times> vsys" where
  "vsyscall_build_vdev_stat w i s =
     (case entry_link_target i s of
        (Some target, s) \<Rightarrow> (Inr (vsyscall_build_symlink_stat w target), s)
      | (None, s) \<Rightarrow>
          let e = sy_entries s i
          in (case entry_properties e (sy_fs s) of
                Inl err \<Rightarrow> (Inl err, s)
              | Inr (payload_size, attr_access, rdev) \<Rightarrow>
                  let inode = (if fe_type e = FD_VDIR then w_hash w (fe_virtual_path e) else w_entry_addr w i)
                  in (Inr (vsyscall_apply_stat_kind (vsyscall_stat_kind_from_fd_entry_type (fe_type e)) payload_size attr_access rdev
                             (vsyscall_init_stat_common w inode)), s)))"

definition is_attr_kind :: "vfile_virtual_path_kind \<Rightarrow> bool" where
  "is_attr_kind k \<longleftrightarrow> k = VSYSFS_ATTR \<or> k = VMODULE_ATTR"

definition vsyscall_build_stat_from_virtual_path :: "world \<Rightarrow> vfile_virtual_path_info \<Rightarrow> vfs \<Rightarrow> vstat" where
  "vsyscall_build_stat_from_virtual_path w node st =
     vsyscall_apply_stat_kind (vsyscall_stat_kind_from_virtual_node_kind (pi_kind node))
       (if is_attr_kind (pi_kind node) then pi_attr_size node else 0)
       (if is_attr_kind (pi_kind node) then pi_attr_access node else PIM_ACCESS_MODE_RW)
       (case (pi_kind node, pi_vdev node) of
          (VDEV_NODE, Some h) \<Rightarrow> (vd_major (fs_vdev st h), vd_minor (fs_vdev st h))
        | _ \<Rightarrow> kVsyscallVirtualChrRdev)
       (vsyscall_init_stat_common w (w_hash w (pi_path node)))"

text \<open>\<open>buf_null\<close>: no buffer was given.\<close>

definition vsyscall_build_stat_for_owned_entry :: "world \<Rightarrow> bool \<Rightarrow> nat \<Rightarrow> vsys \<Rightarrow> outcome \<times> vsys" where
  "vsyscall_build_stat_for_owned_entry w buf_null i s =
     (if buf_null then (O_Fail EFAULT, s)
      else case vsyscall_build_vdev_stat w i s of
             (Inl err, s) \<Rightarrow> (O_Fail err, s)
           | (Inr st, s) \<Rightarrow> (O_Ret (R_Stat st), s))"

section \<open>Flags\<close>

definition AT_SYMLINK_NOFOLLOW :: u32 where "AT_SYMLINK_NOFOLLOW = 0x100"
definition AT_EACCESS :: u32 where "AT_EACCESS = 0x200"
definition AT_NO_AUTOMOUNT :: u32 where "AT_NO_AUTOMOUNT = 0x800"
definition AT_EMPTY_PATH :: u32 where "AT_EMPTY_PATH = 0x1000"
definition AT_STATX_SYNC_TYPE :: u32 where "AT_STATX_SYNC_TYPE = 0x6000"
definition AT_STATX_FORCE_SYNC :: u32 where "AT_STATX_FORCE_SYNC = 0x2000"
definition AT_STATX_DONT_SYNC :: u32 where "AT_STATX_DONT_SYNC = 0x4000"

definition vsyscall_supported_at_path_flags :: u32 where
  "vsyscall_supported_at_path_flags = AT_SYMLINK_NOFOLLOW OR AT_EMPTY_PATH"

definition vsyscall_supported_at_lookup_flags :: u32 where
  "vsyscall_supported_at_lookup_flags = vsyscall_supported_at_path_flags OR AT_NO_AUTOMOUNT"

definition vsyscall_validate_known_flags :: "u32 \<Rightarrow> u32 \<Rightarrow> errno option" where
  "vsyscall_validate_known_flags flags supported = (if flags AND NOT supported \<noteq> 0 then Some EINVAL else None)"

text \<open>All of \<open>STATX_BASIC_STATS\<close>, \<open>STATX_BTIME\<close>, \<open>STATX_MNT_ID\<close>, \<open>STATX_DIOALIGN\<close>, \<open>STATX_SUBVOL\<close> and \<open>STATX_WRITE_ATOMIC\<close>.\<close>

definition vsyscall_supported_statx_mask_bits :: u32 where
  "vsyscall_supported_statx_mask_bits = 0x7FF OR 0x800 OR 0x1000 OR 0x2000 OR 0x8000 OR 0x10000"

definition vsyscall_validate_statx_mask :: "u32 \<Rightarrow> errno option" where
  "vsyscall_validate_statx_mask m = (if m AND NOT vsyscall_supported_statx_mask_bits \<noteq> 0 then Some EINVAL else None)"

definition vsyscall_validate_statx_flags :: "u32 \<Rightarrow> errno option" where
  "vsyscall_validate_statx_flags flags =
     (case vsyscall_validate_known_flags flags (vsyscall_supported_at_lookup_flags OR AT_STATX_SYNC_TYPE) of
        Some e \<Rightarrow> Some e
      | None \<Rightarrow>
          let sync_flags = flags AND AT_STATX_SYNC_TYPE
          in if sync_flags = 0 \<or> sync_flags = AT_STATX_FORCE_SYNC \<or> sync_flags = AT_STATX_DONT_SYNC then None else Some EINVAL)"

section \<open>Looking up a status\<close>

definition empty_path_request :: "u32 \<Rightarrow> string option \<Rightarrow> bool" where
  "empty_path_request flags pathname \<longleftrightarrow> flags AND AT_EMPTY_PATH \<noteq> 0 \<and> (pathname = None \<or> pathname = Some [])"

text \<open>An owned entry while it is acquired.\<close>

definition with_owned_entry :: "int \<Rightarrow> (nat \<Rightarrow> vsys \<Rightarrow> (outcome + 'a) \<times> vsys) \<Rightarrow> vsys \<Rightarrow> (outcome + 'a) \<times> vsys" where
  "with_owned_entry fd fn s =
     (case vsyscall_fd_acquire_for_op fd s of
        (None, s) \<Rightarrow> (Inl O_Forward, s)
      | (Some i, s) \<Rightarrow> apsnd (vsyscall_fd_release_after_op i) (fn i s))"

definition entry_stat :: "world \<Rightarrow> nat \<Rightarrow> vsys \<Rightarrow> (outcome + vstat) \<times> vsys" where
  "entry_stat w i s = apfst (map_sum O_Fail id) (vsyscall_build_vdev_stat w i s)"

text \<open>The status of the target of a link; a target that does not resolve gives \<open>ENOENT\<close>.\<close>

definition target_stat :: "world \<Rightarrow> string \<Rightarrow> vsys \<Rightarrow> (outcome + vstat) \<times> vsys" where
  "target_stat w target s =
     (case resolve_node target s of
        (Inl e, s) \<Rightarrow> (Inl (O_Fail (case e of Some e \<Rightarrow> e | None \<Rightarrow> ENOENT)), s)
      | (Inr node, s) \<Rightarrow> (Inr (vsyscall_build_stat_from_virtual_path w node (sy_fs s)), s))"

definition vsyscall_dispatch_lookup_stat :: "world \<Rightarrow> int \<Rightarrow> string option \<Rightarrow> u32 \<Rightarrow> vsys \<Rightarrow> (outcome + vstat) \<times> vsys" where
  "vsyscall_dispatch_lookup_stat w dfd pathname flags s =
     (if empty_path_request flags pathname then with_owned_entry dfd (entry_stat w) s
      else if pathname = None then (Inl O_Forward, s)
      else
        (case vsyscall_dispatch_resolve_node dfd pathname ENOENT s of
           (Inl r, s) \<Rightarrow> (Inl r, s)
         | (Inr (node, _), s) \<Rightarrow>
             let class_symlink = vsyscall_is_vsysfs_class_symlink_node node (sy_fs s);
                 attr_symlink = vsyscall_try_get_virtual_attr_symlink_target node (sy_fs s);
                 nofollow = (flags AND AT_SYMLINK_NOFOLLOW \<noteq> 0)
             in (case (class_symlink, attr_symlink) of
                   (Some t, _) \<Rightarrow>
                     if nofollow then (Inr (vsyscall_build_symlink_stat w t), s) else target_stat w t s
                 | (None, Some t) \<Rightarrow> if nofollow then (Inr (vsyscall_build_symlink_stat w t), s) else target_stat w t s
                 | (None, None) \<Rightarrow> (Inr (vsyscall_build_stat_from_virtual_path w node (sy_fs s)), s))))"

definition owned_relative :: "int \<Rightarrow> string option \<Rightarrow> vsys \<Rightarrow> bool" where
  "owned_relative dfd pathname s \<longleftrightarrow>
     dfd \<noteq> AT_FDCWD \<and> vsyscall_fd_is_owned dfd s \<and> (vsyscall_is_relative_path pathname \<or> pathname = Some [])"

definition vsyscall_dispatch_lookup_stat_validated ::
  "world \<Rightarrow> int \<Rightarrow> string option \<Rightarrow> u32 \<Rightarrow> errno option \<Rightarrow> vsys \<Rightarrow> (outcome + vstat) \<times> vsys" where
  "vsyscall_dispatch_lookup_stat_validated w dfd pathname flags validation_err s =
     (case validation_err of
        None \<Rightarrow> vsyscall_dispatch_lookup_stat w dfd pathname flags s
      | Some err \<Rightarrow>
          if owned_relative dfd pathname s then (Inl (O_Fail err), s)
          else
            (case vsyscall_dispatch_resolve_path_for_dispatch dfd pathname s of
               Inl r \<Rightarrow> (Inl r, s)
             | Inr p \<Rightarrow>
                 if rp_from_owned_dfd p then (Inl (O_Fail err), s)
                 else (case vsyscall_dispatch_lookup_node_from_resolved_path p ENOENT s of
                         (Inl r, s) \<Rightarrow> (Inl r, s)
                       | (Inr _, s) \<Rightarrow> (Inl (O_Fail err), s))))"

definition dispatch_newfstatat :: "world \<Rightarrow> int \<Rightarrow> string option \<Rightarrow> bool \<Rightarrow> u32 \<Rightarrow> vsys \<Rightarrow> outcome \<times> vsys" where
  "dispatch_newfstatat w dfd pathname buf_null flags s =
     (case vsyscall_dispatch_lookup_stat_validated w dfd pathname flags
             (vsyscall_validate_known_flags flags vsyscall_supported_at_lookup_flags) s of
        (Inl r, s) \<Rightarrow> (r, s)
      | (Inr st, s) \<Rightarrow> (if buf_null then O_Fail EFAULT else O_Ret (R_Stat st), s))"

text \<open>TYPE, MODE, NLINK, UID, GID, INO, SIZE and BLOCKS.\<close>

definition vsyscall_fill_statx_from_stat :: "vstat \<Rightarrow> u32 \<Rightarrow> reply" where
  "vsyscall_fill_statx_from_stat st requested_mask =
     R_Statx (if requested_mask \<noteq> 0 then 0x71F AND requested_mask else 0x71F) st"

definition dispatch_statx :: "world \<Rightarrow> int \<Rightarrow> string option \<Rightarrow> u32 \<Rightarrow> u32 \<Rightarrow> bool \<Rightarrow> vsys \<Rightarrow> outcome \<times> vsys" where
  "dispatch_statx w dfd pathname flags m buf_null s =
     (case vsyscall_dispatch_lookup_stat_validated w dfd pathname flags
             (case vsyscall_validate_statx_flags flags of Some e \<Rightarrow> Some e | None \<Rightarrow> vsyscall_validate_statx_mask m) s of
        (Inl r, s) \<Rightarrow> (r, s)
      | (Inr st, s) \<Rightarrow> (if buf_null then O_Fail EFAULT else O_Ret (vsyscall_fill_statx_from_stat st m), s))"

section \<open>The status of the file system\<close>

definition vsyscall_path_is_under_sys :: "string \<Rightarrow> bool" where
  "vsyscall_path_is_under_sys path \<longleftrightarrow> path = ''/sys'' \<or> take 5 path = ''/sys/''"

definition vsyscall_is_sysfs_virtual_node_for_statfs :: "vfile_virtual_path_info \<Rightarrow> bool" where
  "vsyscall_is_sysfs_virtual_node_for_statfs node \<longleftrightarrow>
     is_attr_kind (pi_kind node) \<or> (pi_kind node = VDIR \<and> vsyscall_path_is_under_sys (pi_path node))"

definition vsyscall_is_sysfs_owned_entry_for_statfs :: "vfile_fd_entry \<Rightarrow> bool" where
  "vsyscall_is_sysfs_owned_entry_for_statfs e \<longleftrightarrow>
     fe_type e = FD_VSYSFS \<or> fe_type e = FD_VMODULE \<or> (fe_type e = FD_VDIR \<and> vsyscall_path_is_under_sys (fe_virtual_path e))"

definition vsyscall_dispatch_statfs_for_path :: "string option \<Rightarrow> bool \<Rightarrow> vsys \<Rightarrow> outcome \<times> vsys" where
  "vsyscall_dispatch_statfs_for_path pathname buf_null s =
     (if pathname = None then (O_Forward, s)
      else
        (case vsyscall_dispatch_resolve_node AT_FDCWD pathname ENOENT s of
           (Inl r, s) \<Rightarrow> (r, s)
         | (Inr (node, from_owned_dfd), s) \<Rightarrow>
             if \<not> vsyscall_is_sysfs_virtual_node_for_statfs node then (vsyscall_return_not_ours_or_fail from_owned_dfd ENOENT, s)
             else (if buf_null then O_Fail EFAULT else O_Ret R_Statfs, s)))"

definition dispatch_fstatfs_typed :: "int \<Rightarrow> bool \<Rightarrow> vsys \<Rightarrow> outcome \<times> vsys" where
  "dispatch_fstatfs_typed fd buf_null s =
     vsyscall_dispatch_owned_fd fd
       (\<lambda>i s. (if \<not> vsyscall_is_sysfs_owned_entry_for_statfs (sy_entries s i) then O_Forward
               else if buf_null then O_Fail EFAULT else O_Ret R_Statfs, s)) s"

section \<open>Access\<close>

text \<open>The loop over the supplementary groups. Each element of \<open>answers\<close> is the answer of \<open>getgroups\<close> to the question for the
  number and to the question for the list, in one round.\<close>

fun group_loop :: "nat \<Rightarrow> u32 \<Rightarrow> bool \<Rightarrow> int \<Rightarrow> ((errno + nat) \<times> (errno + u32 list)) list \<Rightarrow> bool" where
  "group_loop kMaxGroups target_gid saw_probe_einval last_einval [] = False"
| "group_loop kMaxGroups target_gid saw_probe_einval last_einval ((probe, fetch) # answers) =
     (case probe of
        Inl e \<Rightarrow> if e = EINVAL \<and> \<not> saw_probe_einval then group_loop kMaxGroups target_gid True last_einval answers else False
      | Inr group_count \<Rightarrow>
          if group_count = 0 then False
          else
            (case fetch of
               Inr groups \<Rightarrow> target_gid \<in> set groups
             | Inl e \<Rightarrow>
                 if e \<noteq> EINVAL then False
                 else if int group_count \<le> last_einval then False
                 else if group_count \<ge> kMaxGroups then False
                 else group_loop kMaxGroups target_gid False (int group_count) answers))"

text \<open>The loop ends: however many answers there were, it looks at no more than two for each number of groups up to the limit.\<close>

lemma group_loop_bounded:
  assumes "2 * nat (int m - l) + (if b then 1 else 2) \<le> length xs"
  shows "group_loop m gid b l (xs @ ys) = group_loop m gid b l xs"
  using assms
proof (induction xs arbitrary: b l)
  case (Cons x xs)
  show ?case
  proof (cases x)
    case (Pair probe fetch)
    have grow: "group_loop m gid False (int c) (xs @ ys) = group_loop m gid False (int c) xs" if "int c > l" "c < m" for c
      using that Cons.prems by (intro Cons.IH) (auto split: if_splits)
    have probe_again: "group_loop m gid True l (xs @ ys) = group_loop m gid True l xs" if "\<not> b"
      using that Cons.prems by (intro Cons.IH) simp
    show ?thesis using Pair grow probe_again by (auto split: sum.split)
  qed
qed (simp split: if_splits)

definition vsyscall_process_in_group :: "world \<Rightarrow> u32 \<Rightarrow> bool \<Rightarrow> bool" where
  "vsyscall_process_in_group w target_gid use_effective_ids =
     (target_gid = (if use_effective_ids then w_egid w else w_gid w) \<or> group_loop (w_max_groups w) target_gid False (- 1) (w_groups w))"

definition vsyscall_check_access_mode :: "world \<Rightarrow> vstat \<Rightarrow> u32 \<Rightarrow> bool \<Rightarrow> errno option" where
  "vsyscall_check_access_mode w st mode use_effective_ids =
     (if mode AND NOT 7 \<noteq> 0 then Some EINVAL
      else if mode = 0 then None
      else
        let subject_uid = (if use_effective_ids then w_euid w else w_uid w)
        in if subject_uid = 0
           then (if mode AND 1 \<noteq> 0 \<and> st_mode st AND 0x49 = 0 then Some EACCES else None)
           else
             let granted_bits = (if subject_uid = st_uid st then drop_bit 6 (st_mode st) AND 7
                                 else if vsyscall_process_in_group w (st_gid st) use_effective_ids then drop_bit 3 (st_mode st) AND 7
                                 else st_mode st AND 7)
             in if mode AND 4 \<noteq> 0 \<and> granted_bits AND 4 = 0 then Some EACCES
                else if mode AND 2 \<noteq> 0 \<and> granted_bits AND 2 = 0 then Some EACCES
                else if mode AND 1 \<noteq> 0 \<and> granted_bits AND 1 = 0 then Some EACCES
                else None)"

definition access_outcome :: "world \<Rightarrow> u32 \<Rightarrow> bool \<Rightarrow> (outcome + vstat) \<times> vsys \<Rightarrow> outcome \<times> vsys" where
  "access_outcome w mode use_effective_ids r =
     (case r of
        (Inl out, s) \<Rightarrow> (out, s)
      | (Inr st, s) \<Rightarrow> (case vsyscall_check_access_mode w st mode use_effective_ids of
                          Some e \<Rightarrow> O_Fail e | None \<Rightarrow> O_Ret (R_Long 0), s))"

definition dispatch_faccessat_common :: "world \<Rightarrow> int \<Rightarrow> string option \<Rightarrow> u32 \<Rightarrow> u32 \<Rightarrow> vsys \<Rightarrow> outcome \<times> vsys" where
  "dispatch_faccessat_common w dfd pathname mode flags s =
     (case vsyscall_validate_known_flags flags (vsyscall_supported_at_path_flags OR AT_EACCESS) of
        Some flag_err \<Rightarrow>
          if owned_relative dfd pathname s then (O_Fail flag_err, s)
          else if empty_path_request flags pathname
          then vsyscall_dispatch_owned_fd dfd (\<lambda>i s. (O_Fail flag_err, s)) s
          else if pathname = None then (O_Forward, s)
          else
            (case vsyscall_resolve_path_at dfd pathname s of
               P_Error e \<Rightarrow> (O_Fail e, s)
             | P_Not_Ours \<Rightarrow> (O_Forward, s)
             | P_Resolved p \<Rightarrow>
                 if rp_from_owned_dfd p then (O_Fail flag_err, s)
                 else (case resolve_node (rp_abs_path p) s of
                         (Inr _, s) \<Rightarrow> (O_Fail flag_err, s)
                       | (Inl (Some e), s) \<Rightarrow> (O_Fail e, s)
                       | (Inl None, s) \<Rightarrow> (O_Forward, s)))
      | None \<Rightarrow>
          let use_effective_ids = (flags AND AT_EACCESS \<noteq> 0)
          in if empty_path_request flags pathname
             then access_outcome w mode use_effective_ids (with_owned_entry dfd (entry_stat w) s)
             else if pathname = None then (O_Forward, s)
             else access_outcome w mode use_effective_ids (vsyscall_dispatch_lookup_stat w dfd pathname flags s))"

end
