(* ===== verification/Vsys_Open.thy ===== *)
theory Vsys_Open
  imports Vsys_Stat
begin

text \<open>
  Opening virtual files (\<open>src/vfile/vsyscall.cc\<close>). The function that opens a resolved node follows the link of a class
  directory by calling itself on the target; the first argument of \<open>vsyscall_dispatch_open_resolved_node\<close> bounds the number
  of these calls, and \<open>None\<close> stands for an opening that has not returned within them.
\<close>

section \<open>Flags\<close>

definition kO_CREAT :: u32 where "kO_CREAT = 0x40"
definition kO_TRUNC :: u32 where "kO_TRUNC = 0x200"
definition kO_DIRECTORY :: u32 where "kO_DIRECTORY = 0x10000"
definition kO_CLOEXEC :: u32 where "kO_CLOEXEC = 0x80000"

text \<open>\<open>O_ACCMODE\<close>, \<open>O_APPEND\<close>, \<open>O_ASYNC\<close>, \<open>O_CLOEXEC\<close>, \<open>O_CREAT\<close>, \<open>O_DIRECT\<close>, \<open>O_DIRECTORY\<close>, \<open>O_DSYNC\<close>, \<open>O_EXCL\<close>, \<open>O_LARGEFILE\<close> (0),
  \<open>O_NOATIME\<close>, \<open>O_NOCTTY\<close>, \<open>O_NOFOLLOW\<close>, \<open>O_NONBLOCK\<close>, \<open>O_PATH\<close>, \<open>O_RSYNC\<close>, \<open>O_SYNC\<close>, \<open>O_TMPFILE\<close> and \<open>O_TRUNC\<close>.\<close>

definition vsyscall_supported_open_flags :: u32 where
  "vsyscall_supported_open_flags =
     kO_ACCMODE OR kO_APPEND OR 0x2000 OR kO_CLOEXEC OR kO_CREAT OR 0x4000 OR kO_DIRECTORY OR 0x1000 OR 0x80 OR 0x40000 OR 0x100 OR
     kO_NOFOLLOW OR 0x800 OR kO_PATH OR 0x101000 OR 0x410000 OR kO_TRUNC"

definition vsyscall_validate_open_flags :: "u64 \<Rightarrow> errno option" where
  "vsyscall_validate_open_flags flags_long =
     (let flags = ucast flags_long :: u32
      in if scast flags \<noteq> flags_long then Some EINVAL else vsyscall_validate_known_flags flags vsyscall_supported_open_flags)"

section \<open>Devices\<close>

definition vsyscall_cleanup_vdev_after_open_bind_failure :: "world \<Rightarrow> handle \<Rightarrow> int \<Rightarrow> vsys \<Rightarrow> vsys" where
  "vsyscall_cleanup_vdev_after_open_bind_failure w vdev owner_fd s =
     (if owner_fd < 0 then s
      else if vd_close_fn (fs_vdev (sy_fs s) vdev) = None then s
      else snd (run_close_callback w vdev owner_fd s))"

definition vsyscall_dispatch_open_vdev_node :: "world \<Rightarrow> vfile_virtual_path_info \<Rightarrow> handle \<Rightarrow> u32 \<Rightarrow> vsys \<Rightarrow> outcome \<times> vsys" where
  "vsyscall_dispatch_open_vdev_node w node vdev flags s =
     (if flags AND kO_DIRECTORY \<noteq> 0 then (O_Fail ENOTDIR, s)
      else if vd_open_fn (fs_vdev (sy_fs s) vdev) = None
      then vsyscall_alloc_tracked_fd w (vsyscall_make_device_entry vdev (- 1) (pi_path node) flags) s
      else
        let (fd, fs) = w_open_cb w vdev (pi_path node) flags (sy_fs s); s = upd_fs fs s
        in if fd < 0 then (vsyscall_wrapper_from_negative (w_cb_errno w) fd EIO, s)
           else (case vsyscall_bind_existing_fd_or_close w fd (vsyscall_make_device_entry vdev fd (pi_path node) flags) s of
                   (None, s) \<Rightarrow> (O_Ret (R_Long fd), s)
                 | (Some bind_errno, s) \<Rightarrow> (O_Fail bind_errno, vsyscall_cleanup_vdev_after_open_bind_failure w vdev fd s)))"

section \<open>Attributes\<close>

text \<open>The two functions for sysfs nodes and modules differ in the entry only; \<open>entry\<close> is the one they make.\<close>

definition vsyscall_dispatch_open_attr_node :: "world \<Rightarrow> vfile_virtual_path_info \<Rightarrow> vfile_fd_entry \<Rightarrow> u32 \<Rightarrow> vsys \<Rightarrow> outcome \<times> vsys" where
  "vsyscall_dispatch_open_attr_node w node entry flags s =
     (if flags AND kO_DIRECTORY \<noteq> 0 then (O_Fail ENOTDIR, s)
      else if flags AND kO_PATH \<noteq> 0 then vsyscall_alloc_tracked_fd w entry s
      else
        let access_mode = vsyscall_fd_access_mode flags
        in if access_mode \<noteq> kO_RDONLY \<and> access_mode \<noteq> kO_WRONLY \<and> access_mode \<noteq> kO_RDWR then (O_Fail EINVAL, s)
           else if (access_mode = kO_RDONLY \<or> access_mode = kO_RDWR) \<and> \<not> vsyscall_vsysfs_attr_access_allows_read (pi_attr_access node)
           then (O_Fail EACCES, s)
           else if (access_mode = kO_WRONLY \<or> access_mode = kO_RDWR) \<and> \<not> vsyscall_vsysfs_attr_access_allows_write (pi_attr_access node)
           then (O_Fail EACCES, s)
           else if flags AND kO_TRUNC \<noteq> 0 \<and> \<not> vsyscall_fd_can_write flags then (O_Fail EACCES, s)
           else if flags AND kO_TRUNC \<noteq> 0
           then (case vsyscall_alloc_tracked_fd w entry s of
                   (O_Ret (R_Long fd), s) \<Rightarrow>
                     (case truncate_attr_for_open entry (sy_fs s) of
                        (None, fs) \<Rightarrow> (O_Ret (R_Long fd), upd_fs fs s)
                      | (Some trunc_errno, fs) \<Rightarrow>
                          (O_Fail trunc_errno, snd (vsyscall_kernel_close_fd w fd (vsyscall_fd_free fd (upd_fs fs s)))))
                 | r \<Rightarrow> r)
           else vsyscall_alloc_tracked_fd w entry s)"

definition vsyscall_dispatch_open_vsysfs_attr_node :: "world \<Rightarrow> vfile_virtual_path_info \<Rightarrow> handle \<Rightarrow> u32 \<Rightarrow> vsys \<Rightarrow> outcome \<times> vsys" where
  "vsyscall_dispatch_open_vsysfs_attr_node w node h flags s =
     vsyscall_dispatch_open_attr_node w node (vsyscall_make_vsysfs_entry h (pi_attr_name node) (pi_path node) flags) flags s"

definition vsyscall_dispatch_open_vmodule_attr_node :: "world \<Rightarrow> vfile_virtual_path_info \<Rightarrow> handle \<Rightarrow> u32 \<Rightarrow> vsys \<Rightarrow> outcome \<times> vsys" where
  "vsyscall_dispatch_open_vmodule_attr_node w node h flags s =
     vsyscall_dispatch_open_attr_node w node (vsyscall_make_vmodule_entry h (pi_attr_name node) (pi_path node) flags) flags s"

section \<open>Directories and descriptor information\<close>

definition vsyscall_dispatch_open_dir_node :: "world \<Rightarrow> vfile_virtual_path_info \<Rightarrow> u32 \<Rightarrow> vsys \<Rightarrow> outcome \<times> vsys" where
  "vsyscall_dispatch_open_dir_node w node flags s =
     (if flags AND kO_PATH \<noteq> 0 then vsyscall_alloc_tracked_fd w (vdir_make_fd_entry (pi_path node) flags) s
      else if flags AND kO_ACCMODE \<noteq> kO_RDONLY \<or> flags AND (kO_CREAT OR kO_TRUNC) \<noteq> 0 then (O_Fail EISDIR, s)
      else vsyscall_alloc_tracked_fd w (vdir_make_fd_entry (pi_path node) flags) s)"

definition vsyscall_dispatch_open_proc_fdinfo_node :: "world \<Rightarrow> int \<Rightarrow> string \<Rightarrow> u32 \<Rightarrow> vsys \<Rightarrow> outcome \<times> vsys" where
  "vsyscall_dispatch_open_proc_fdinfo_node w target_fd path flags s =
     (if flags AND kO_DIRECTORY \<noteq> 0 then (O_Fail ENOTDIR, s)
      else if flags AND kO_PATH = 0 \<and> vsyscall_fd_access_mode flags \<noteq> kO_RDONLY then (O_Fail EACCES, s)
      else
        (case vsyscall_fd_lookup target_fd s of
           None \<Rightarrow> (O_Forward, s)
         | Some i \<Rightarrow>
             (case vsyscall_make_proc_fdinfo_entry w target_fd i path flags s of
                None \<Rightarrow> (O_Fail ENOMEM, s)
              | Some entry \<Rightarrow> vsyscall_alloc_tracked_fd w entry s)))"

section \<open>Resolving and opening\<close>

datatype open_node = N_Resolved vfile_virtual_path_info bool | N_Proc_Fdinfo int | N_Stop outcome

definition vsyscall_resolve_open_node_for_dispatch :: "int \<Rightarrow> string option \<Rightarrow> vsys \<Rightarrow> open_node \<times> vsys" where
  "vsyscall_resolve_open_node_for_dispatch dfd pathname s =
     (case vsyscall_dispatch_resolve_path_for_dispatch dfd pathname s of
        Inl r \<Rightarrow> (N_Stop r, s)
      | Inr p \<Rightarrow>
          let fdinfo = (case vsyscall_parse_proc_self_numeric_path (rp_abs_path p) ''/proc/self/fdinfo/'' of
                          None \<Rightarrow> - 1
                        | Some target_fd \<Rightarrow> if target_fd \<ge> 0 \<and> vsyscall_fd_is_owned target_fd s then target_fd else - 1)
          in if fdinfo \<ge> 0 then (N_Proc_Fdinfo fdinfo, s)
             else
               let p = (case vsyscall_rewrite_proc_self_fd_path_for_open (rp_abs_path p) s of
                          None \<Rightarrow> p | Some rewritten \<Rightarrow> p\<lparr>rp_abs_path := rewritten\<rparr>)
               in (case vsyscall_dispatch_lookup_node_from_resolved_path p ENOENT s of
                     (Inl r, s) \<Rightarrow> (N_Stop r, s)
                   | (Inr node, s) \<Rightarrow> (N_Resolved node (rp_from_owned_dfd p), s)))"

text \<open>A resolved node has one of the four kinds; the default case of the code is for \<open>NONE\<close>, which resolution never gives.\<close>

fun vsyscall_dispatch_open_resolved_node :: "nat \<Rightarrow> world \<Rightarrow> open_node \<Rightarrow> u64 \<Rightarrow> vsys \<Rightarrow> (outcome \<times> vsys) option" where
  "vsyscall_dispatch_open_resolved_node 0 w resolved flags_long s = None"
| "vsyscall_dispatch_open_resolved_node (Suc n) w (N_Stop ret) flags_long s = Some (ret, s)"
| "vsyscall_dispatch_open_resolved_node (Suc n) w (N_Proc_Fdinfo target_fd) flags_long s =
     (case vsyscall_validate_open_flags flags_long of
        Some flag_err \<Rightarrow> Some (O_Fail flag_err, s)
      | None \<Rightarrow>
          Some (vsyscall_dispatch_open_proc_fdinfo_node w target_fd (''/proc/self/fdinfo/'' @ decimal (nat target_fd)) (ucast flags_long) s))"
| "vsyscall_dispatch_open_resolved_node (Suc n) w (N_Resolved node from_owned_dfd) flags_long s =
     (let flags = ucast flags_long :: u32
      in case vsyscall_validate_open_flags flags_long of
           Some flag_err \<Rightarrow> Some (O_Fail flag_err, s)
         | None \<Rightarrow>
             (case pi_kind node of
                VDEV_NODE \<Rightarrow>
                  (case pi_vdev node of
                     None \<Rightarrow> Some (O_Fail EIO, s)
                   | Some vdev \<Rightarrow> Some (vsyscall_dispatch_open_vdev_node w node vdev flags s))
              | VSYSFS_ATTR \<Rightarrow>
                  (case pi_vsysfs node of
                     None \<Rightarrow> Some (O_Fail EIO, s)
                   | Some h \<Rightarrow> if pi_attr_name node = '''' then Some (O_Fail EIO, s)
                               else Some (vsyscall_dispatch_open_vsysfs_attr_node w node h flags s))
              | VMODULE_ATTR \<Rightarrow>
                  (case pi_vmodule node of
                     None \<Rightarrow> Some (O_Fail EIO, s)
                   | Some h \<Rightarrow> if pi_attr_name node = '''' then Some (O_Fail EIO, s)
                               else Some (vsyscall_dispatch_open_vmodule_attr_node w node h flags s))
              | VDIR \<Rightarrow>
                  if pi_path node = '''' then Some (O_Fail EIO, s)
                  else
                    (case vsyscall_is_vsysfs_class_symlink_node node (sy_fs s) of
                       None \<Rightarrow> Some (vsyscall_dispatch_open_dir_node w node flags s)
                     | Some class_symlink_target \<Rightarrow>
                         if flags AND kO_NOFOLLOW \<noteq> 0
                         then (if flags AND kO_PATH \<noteq> 0 then Some (vsyscall_dispatch_open_dir_node w node flags s)
                               else Some (O_Fail ELOOP, s))
                         else
                           (case resolve_node class_symlink_target s of
                              (Inl (Some resolve_errno), s) \<Rightarrow> Some (O_Fail resolve_errno, s)
                            | (Inl None, s) \<Rightarrow> Some (O_Fail ENOENT, s)
                            | (Inr target_node, s) \<Rightarrow>
                                vsyscall_dispatch_open_resolved_node n w (N_Resolved target_node from_owned_dfd) flags_long s))))"

definition dispatch_openat :: "nat \<Rightarrow> world \<Rightarrow> int \<Rightarrow> string option \<Rightarrow> u64 \<Rightarrow> vsys \<Rightarrow> (outcome \<times> vsys) option" where
  "dispatch_openat n w dfd pathname flags s =
     (if pathname = None then Some (O_Forward, s)
      else let (resolved, s) = vsyscall_resolve_open_node_for_dispatch dfd pathname s
           in vsyscall_dispatch_open_resolved_node n w resolved flags s)"

definition dispatch_name_to_handle_at :: "int \<Rightarrow> string option \<Rightarrow> u32 \<Rightarrow> vsys \<Rightarrow> outcome \<times> vsys" where
  "dispatch_name_to_handle_at dfd pathname flags s =
     (if flags AND AT_EMPTY_PATH \<noteq> 0 \<and> (pathname = None \<or> pathname = Some '''')
      then (if vsyscall_fd_is_owned dfd s then (O_Fail EOPNOTSUPP, s) else (O_Forward, s))
      else if pathname = None then (O_Forward, s)
      else
        (case vsyscall_dispatch_resolve_path_for_dispatch dfd pathname s of
           Inl r \<Rightarrow> (r, s)
         | Inr p \<Rightarrow>
             let p = (case vsyscall_rewrite_proc_self_fd_path_for_open (rp_abs_path p) s of
                        None \<Rightarrow> p | Some rewritten \<Rightarrow> p\<lparr>rp_abs_path := rewritten\<rparr>)
             in (case vsyscall_dispatch_lookup_node_from_resolved_path p ENOENT s of
                   (Inl r, s) \<Rightarrow> (r, s)
                 | (Inr node, s) \<Rightarrow> (O_Fail EOPNOTSUPP, s))))"

end
