(* ===== verification/Vsys_Dispatch.thy ===== *)
theory Vsys_Dispatch
  imports Vsys_Open
begin

text \<open>
  The remaining system calls of \<open>src/vfile/vsyscall.cc\<close> and the dispatcher \<open>_pim_vsyscall_dispatch\<close>. A call is a value of
  \<open>syscall\<close> with its arguments; buffers are given by whether they are null and, for a write, by their bytes. Exceptions of
  the allocator other than those that \<open>world\<close> names are not modelled.
\<close>

section \<open>Reading, writing and seeking\<close>

text \<open>An operation on one entry and the registries, run on the entry with number \<open>i\<close>.\<close>

definition on_entry :: "(vfile_fd_entry \<times> vfs \<Rightarrow> outcome \<times> vfile_fd_entry \<times> vfs) \<Rightarrow> nat \<Rightarrow> vsys \<Rightarrow> outcome \<times> vsys" where
  "on_entry f i s =
     (case f (sy_entries s i, sy_fs s) of (r, e, fs) \<Rightarrow> (r, upd_entry i (\<lambda>_. e) (upd_fs fs s)))"

datatype io_op = IO_Read bool u64 | IO_Write bool string

definition vsyscall_dispatch_io_entry :: "world \<Rightarrow> io_op \<Rightarrow> vfile_fd_entry \<times> vfs \<Rightarrow> outcome \<times> vfile_fd_entry \<times> vfs" where
  "vsyscall_dispatch_io_entry w op es =
     (let (e, fs) = es
      in if vsyscall_fd_opened_with_path_only (fe_flags e) then (O_Fail EBADF, es)
         else case fe_type e of
                FD_VDEV \<Rightarrow> (O_Fail EINVAL, es)
              | FD_VDIR \<Rightarrow> (case op of IO_Read _ _ \<Rightarrow> (O_Fail EISDIR, es) | IO_Write _ _ \<Rightarrow> (O_Fail EBADF, es))
              | _ \<Rightarrow>
                  (case op of
                     IO_Read buf_null count \<Rightarrow>
                       (case dispatch_attr_read (w_alloc_copy w) buf_null count fs e of
                          (Inl err, e) \<Rightarrow> (O_Fail err, e, fs)
                        | (Inr bytes, e) \<Rightarrow> (O_Ret (R_Bytes bytes), e, fs))
                   | IO_Write buf_null data \<Rightarrow>
                       (case dispatch_attr_write (w_alloc_copy w) (w_alloc_build w) (w_alloc_store w) buf_null data es of
                          (Inl err, e, fs) \<Rightarrow> (O_Fail err, e, fs)
                        | (Inr n, e, fs) \<Rightarrow> (O_Ret (R_Long (int n)), e, fs))))"

definition dispatch_io :: "world \<Rightarrow> int \<Rightarrow> io_op \<Rightarrow> vsys \<Rightarrow> outcome \<times> vsys" where
  "dispatch_io w fd op s = vsyscall_dispatch_owned_fd fd (on_entry (vsyscall_dispatch_io_entry w op)) s"

definition getdents_entry :: "world \<Rightarrow> bool \<Rightarrow> bool \<Rightarrow> u64 \<Rightarrow> vfile_fd_entry \<times> vfs \<Rightarrow> outcome \<times> vfile_fd_entry \<times> vfs" where
  "getdents_entry w is64 dirp count es =
     (case (if is64 then vdir_getdents64_from_entry (w_hash w) dirp count es else vdir_getdents_from_entry (w_hash w) dirp count es) of
        (Inl err, es) \<Rightarrow> (O_Fail err, es)
      | (Inr bytes, es) \<Rightarrow> (O_Ret (R_Dents bytes), es))"

definition lseek_entry :: "int \<Rightarrow> int \<Rightarrow> vfile_fd_entry \<times> vfs \<Rightarrow> outcome \<times> vfile_fd_entry \<times> vfs" where
  "lseek_entry offset whence es =
     (case es of (e, fs) \<Rightarrow>
        (case seek_entry offset whence e of
           (Inl err, e) \<Rightarrow> (O_Fail err, e, fs)
         | (Inr cursor, e) \<Rightarrow> (O_Ret (R_Long (sint cursor)), e, fs)))"

definition dispatch_lseek :: "int \<Rightarrow> int \<Rightarrow> int \<Rightarrow> vsys \<Rightarrow> outcome \<times> vsys" where
  "dispatch_lseek fd offset whence s = vsyscall_dispatch_owned_fd fd (on_entry (lseek_entry offset whence)) s"

section \<open>Mappings\<close>

text \<open>A call that is not ours has the value 0 here, like a mapping at address 0.\<close>

definition dispatch_mmap :: "world \<Rightarrow> u64 \<Rightarrow> int \<Rightarrow> vsys \<Rightarrow> outcome \<times> vsys" where
  "dispatch_mmap w len fd s =
     (let (r, s) = vsyscall_dispatch_owned_vdev_callback w fd vd_mmap_fn ENODEV EBADF (w_mmap_cb w) s;
          track = (\<lambda>addr. s\<lparr>sy_mmap := vsyscall_track_mmap_region (w_alloc_track w) (word_of_int addr) len (sy_mmap s)\<rparr>)
      in (r, case r of O_Forward \<Rightarrow> track 0 | O_Ret (R_Long ret) \<Rightarrow> track ret | _ \<Rightarrow> s))"

definition dispatch_munmap_call :: "world \<Rightarrow> u64 \<Rightarrow> u64 \<Rightarrow> vsys \<Rightarrow> outcome \<times> vsys" where
  "dispatch_munmap_call w addr len s =
     (case dispatch_munmap (w_munmap w) (w_alloc_left w) (w_alloc_right w) addr len (sy_mmap s) of
        (r, t) \<Rightarrow> (case r of None \<Rightarrow> O_Forward | Some (Inl e) \<Rightarrow> O_Fail e | Some (Inr _) \<Rightarrow> O_Ret (R_Long 0), s\<lparr>sy_mmap := t\<rparr>))"

section \<open>Flags of a descriptor\<close>

definition F_GETFD :: int where "F_GETFD = 1"
definition F_SETFD :: int where "F_SETFD = 2"
definition F_GETFL :: int where "F_GETFL = 3"
definition F_SETFL :: int where "F_SETFL = 4"

text \<open>\<open>O_APPEND\<close>, \<open>O_ASYNC\<close>, \<open>O_DIRECT\<close>, \<open>O_NOATIME\<close> and \<open>O_NONBLOCK\<close>.\<close>

definition vsyscall_fcntl_setfl_supported_mask :: u32 where
  "vsyscall_fcntl_setfl_supported_mask = kO_APPEND OR 0x2000 OR 0x4000 OR 0x40000 OR 0x800"

definition vsyscall_fcntl_allowed_for_path_only :: "int \<Rightarrow> bool" where
  "vsyscall_fcntl_allowed_for_path_only cmd \<longleftrightarrow> cmd = F_GETFD \<or> cmd = F_SETFD \<or> cmd = F_GETFL"

definition fcntl_entry :: "world \<Rightarrow> int \<Rightarrow> u32 \<Rightarrow> vfile_fd_entry \<times> vfs \<Rightarrow> outcome \<times> vfile_fd_entry \<times> vfs" where
  "fcntl_entry w cmd arg es =
     (let (e, fs) = es; flags = fe_flags e
      in if vsyscall_fd_opened_with_path_only flags \<and> \<not> vsyscall_fcntl_allowed_for_path_only cmd then (O_Fail EBADF, es)
         else if cmd = F_GETFL then (O_Ret (R_Long (sint flags)), es)
         else if cmd = F_SETFL
         then let m = vsyscall_fcntl_setfl_supported_mask
              in (O_Ret (R_Long 0), e\<lparr>fe_flags := (flags AND NOT m) OR (arg AND m)\<rparr>, fs)
         else if cmd = F_GETFD then (O_Ret (R_Long (if flags AND kO_CLOEXEC \<noteq> 0 then 1 else 0)), es)
         else if cmd = F_SETFD
         then (O_Ret (R_Long 0), e\<lparr>fe_flags := if arg AND 1 \<noteq> 0 then flags OR kO_CLOEXEC else flags AND NOT kO_CLOEXEC\<rparr>, fs)
         else (case w_fcntl w of Inl err \<Rightarrow> (O_Fail err, es) | Inr n \<Rightarrow> (O_Ret (R_Long n), es)))"

definition dispatch_fcntl :: "world \<Rightarrow> int \<Rightarrow> int \<Rightarrow> u32 \<Rightarrow> vsys \<Rightarrow> outcome \<times> vsys" where
  "dispatch_fcntl w fd cmd arg s = vsyscall_dispatch_owned_fd fd (on_entry (fcntl_entry w cmd arg)) s"

section \<open>Changes of the table\<close>

definition vsyscall_dispatch_fd_mutation ::
  "bool \<Rightarrow> errno + int \<Rightarrow> (int \<Rightarrow> vsys \<Rightarrow> outcome \<times> vsys) \<Rightarrow> vsys \<Rightarrow> outcome \<times> vsys" where
  "vsyscall_dispatch_fd_mutation should_intercept kernel_ret finalize_step s =
     (if \<not> should_intercept then (O_Forward, s)
      else case kernel_ret of Inl e \<Rightarrow> (O_Fail e, s) | Inr ret \<Rightarrow> finalize_step ret s)"

definition dispatch_close :: "world \<Rightarrow> int \<Rightarrow> vsys \<Rightarrow> outcome \<times> vsys" where
  "dispatch_close w fd s = vsyscall_dispatch_fd_mutation (vsyscall_fd_is_owned fd s) (Inr 0) (\<lambda>_. close_owned_fd w fd True) s"

definition dispatch_dup :: "world \<Rightarrow> int \<Rightarrow> vsys \<Rightarrow> outcome \<times> vsys" where
  "dispatch_dup w oldfd s =
     (let old_entry = vsyscall_fd_lookup oldfd s
      in vsyscall_dispatch_fd_mutation (old_entry \<noteq> None) (w_dup w)
           (\<lambda>kernel_ret. vsyscall_rebind_fd_alias_after_dup w kernel_ret old_entry True) s)"

definition vsyscall_dup2_or_dup3_kernel_call :: "world \<Rightarrow> int \<Rightarrow> int \<Rightarrow> bool \<Rightarrow> errno + int" where
  "vsyscall_dup2_or_dup3_kernel_call w oldfd newfd is_dup3 =
     (if \<not> is_dup3 \<and> oldfd = newfd then Inr newfd
      else if is_dup3 \<and> oldfd = newfd then Inl EINVAL
      else w_dup w)"

definition vsyscall_finalize_dup2_or_dup3_aliases ::
  "world \<Rightarrow> int \<Rightarrow> int \<Rightarrow> bool \<Rightarrow> nat option \<Rightarrow> int \<Rightarrow> vsys \<Rightarrow> outcome \<times> vsys" where
  "vsyscall_finalize_dup2_or_dup3_aliases w oldfd newfd is_dup3 old_entry kernel_ret s =
     (if \<not> is_dup3 \<and> oldfd = newfd then (O_Ret (R_Long kernel_ret), s)
      else vsyscall_rebind_fd_alias_after_dup w newfd old_entry False s)"

definition vsyscall_prepare_dup2_context :: "int \<Rightarrow> int \<Rightarrow> vsys \<Rightarrow> nat option \<times> bool" where
  "vsyscall_prepare_dup2_context oldfd newfd s =
     (let old_entry = map_of (sy_fd_table s) oldfd
      in (old_entry, old_entry \<noteq> None \<or> map_of (sy_fd_table s) newfd \<noteq> None))"

definition dispatch_dup2_enter :: "world \<Rightarrow> int \<Rightarrow> int \<Rightarrow> bool \<Rightarrow> vsys \<Rightarrow> outcome \<times> vsys" where
  "dispatch_dup2_enter w oldfd newfd is_dup3 s =
     (let (old_entry, should_intercept) = vsyscall_prepare_dup2_context oldfd newfd s
      in vsyscall_dispatch_fd_mutation should_intercept (vsyscall_dup2_or_dup3_kernel_call w oldfd newfd is_dup3)
           (vsyscall_finalize_dup2_or_dup3_aliases w oldfd newfd is_dup3 old_entry) s)"

text \<open>The descriptors the kernel no longer knows, in ascending order.\<close>

fun sweep_loop :: "world \<Rightarrow> int list \<Rightarrow> vsys \<Rightarrow> outcome \<times> vsys" where
  "sweep_loop w [] s = (O_Ret (R_Long 0), s)"
| "sweep_loop w (fd # maybe_stale) s =
     (if fd < 0 \<or> w_getfd w fd \<noteq> Some EBADF then sweep_loop w maybe_stale s
      else case close_owned_fd w fd False s of
             (O_Fail e, s) \<Rightarrow> (O_Fail e, s)
           | (_, s) \<Rightarrow> sweep_loop w maybe_stale s)"

definition vsyscall_sweep_close_range_stale_aliases :: "world \<Rightarrow> u32 \<Rightarrow> u32 \<Rightarrow> vsys \<Rightarrow> outcome \<times> vsys" where
  "vsyscall_sweep_close_range_stale_aliases w lo hi s = sweep_loop w (sort (vsyscall_collect_owned_fds_in_range lo hi s)) s"

definition CLOSE_RANGE_CLOEXEC :: u32 where "CLOSE_RANGE_CLOEXEC = 4"

definition vsyscall_finalize_close_range_aliases :: "world \<Rightarrow> u32 \<Rightarrow> u32 \<Rightarrow> u32 \<Rightarrow> int list \<Rightarrow> vsys \<Rightarrow> outcome \<times> vsys" where
  "vsyscall_finalize_close_range_aliases w lo hi flags owned_fds s =
     (if flags AND CLOSE_RANGE_CLOEXEC \<noteq> 0 then (O_Ret (R_Long 0), s)
      else case vsyscall_close_owned_fd_list w (sort owned_fds) False s of
             (O_Fail e, s) \<Rightarrow> (O_Fail e, s)
           | (_, s) \<Rightarrow> vsyscall_sweep_close_range_stale_aliases w lo hi s)"

definition dispatch_close_range :: "world \<Rightarrow> u32 \<Rightarrow> u32 \<Rightarrow> u32 \<Rightarrow> vsys \<Rightarrow> outcome \<times> vsys" where
  "dispatch_close_range w lo hi flags s =
     (let owned_fds = vsyscall_collect_owned_fds_in_range lo hi s
      in vsyscall_dispatch_fd_mutation True (case w_close_range w of Some e \<Rightarrow> Inl e | None \<Rightarrow> Inr 0)
           (\<lambda>_. vsyscall_finalize_close_range_aliases w lo hi flags owned_fds) s)"

section \<open>The dispatcher\<close>

definition pim_vfile_owns_fd :: "int \<Rightarrow> vsys \<Rightarrow> bool" where
  "pim_vfile_owns_fd fd s \<longleftrightarrow> vsyscall_fd_lookup fd s \<noteq> None"

definition pim_vfile_clear :: "world \<Rightarrow> vsys \<Rightarrow> vsys" where
  "pim_vfile_clear w s =
     (let s = vsyscall_close_all_owned_fds_best_effort w s; s = s\<lparr>sy_mmap := vsyscall_clear_mmap_tracking (sy_mmap s)\<rparr>
      in upd_fs (vfile_notify_virtual_fs_changed (vfile_clear_vdev_state (vfile_clear_vsysfs_state (vfile_clear_vmodule_state (sy_fs s))))) s)"

datatype syscall =
    SYS_openat int "string option" u64 | SYS_name_to_handle_at int "string option" u32
  | SYS_faccessat2 int "string option" u32 u32 | SYS_readlinkat int "string option" bool nat
  | SYS_fcntl int int u32 | SYS_ioctl int | SYS_read int bool u64 | SYS_write int bool string
  | SYS_getdents64 int bool u64 | SYS_getdents int bool u64 | SYS_mmap u64 int | SYS_munmap u64 u64
  | SYS_close int | SYS_dup int | SYS_dup2 int int | SYS_dup3 int int | SYS_close_range u32 u32 u32
  | SYS_fstat int bool | SYS_fstatfs int bool | SYS_newfstatat int "string option" bool u32 | SYS_statfs "string option" bool
  | SYS_statx int "string option" u32 u32 bool | SYS_lseek int int int | SYS_other

text \<open>\<open>open\<close>, \<open>access\<close>, \<open>faccessat\<close> and \<open>readlink\<close> are the calls below with \<open>AT_FDCWD\<close> and flags 0; \<open>n\<close> bounds the links that
  \<open>open\<close> follows.\<close>

fun pim_vsyscall_dispatch :: "nat \<Rightarrow> world \<Rightarrow> syscall \<Rightarrow> vsys \<Rightarrow> (outcome \<times> vsys) option" where
  "pim_vsyscall_dispatch n w (SYS_openat dfd path flags) s = dispatch_openat n w dfd path flags s"
| "pim_vsyscall_dispatch n w (SYS_name_to_handle_at dfd path flags) s = Some (dispatch_name_to_handle_at dfd path flags s)"
| "pim_vsyscall_dispatch n w (SYS_faccessat2 dfd path mode flags) s = Some (dispatch_faccessat_common w dfd path mode flags s)"
| "pim_vsyscall_dispatch n w (SYS_readlinkat dfd path buf_null bufsiz) s = Some (dispatch_readlinkat dfd path buf_null bufsiz s)"
| "pim_vsyscall_dispatch n w (SYS_fcntl fd cmd arg) s = Some (dispatch_fcntl w fd cmd arg s)"
| "pim_vsyscall_dispatch n w (SYS_ioctl fd) s =
     Some (vsyscall_dispatch_owned_vdev_callback w fd vd_ioctl_fn ENOTTY ENOTTY (w_ioctl_cb w) s)"
| "pim_vsyscall_dispatch n w (SYS_read fd buf_null count) s = Some (dispatch_io w fd (IO_Read buf_null count) s)"
| "pim_vsyscall_dispatch n w (SYS_write fd buf_null data) s = Some (dispatch_io w fd (IO_Write buf_null data) s)"
| "pim_vsyscall_dispatch n w (SYS_getdents64 fd dirp count) s =
     Some (vsyscall_dispatch_owned_fd fd (on_entry (getdents_entry w True dirp count)) s)"
| "pim_vsyscall_dispatch n w (SYS_getdents fd dirp count) s =
     Some (vsyscall_dispatch_owned_fd fd (on_entry (getdents_entry w False dirp count)) s)"
| "pim_vsyscall_dispatch n w (SYS_mmap len fd) s = Some (dispatch_mmap w len fd s)"
| "pim_vsyscall_dispatch n w (SYS_munmap addr len) s = Some (dispatch_munmap_call w addr len s)"
| "pim_vsyscall_dispatch n w (SYS_close fd) s = Some (dispatch_close w fd s)"
| "pim_vsyscall_dispatch n w (SYS_dup fd) s = Some (dispatch_dup w fd s)"
| "pim_vsyscall_dispatch n w (SYS_dup2 fd newfd) s = Some (dispatch_dup2_enter w fd newfd False s)"
| "pim_vsyscall_dispatch n w (SYS_dup3 fd newfd) s = Some (dispatch_dup2_enter w fd newfd True s)"
| "pim_vsyscall_dispatch n w (SYS_close_range lo hi flags) s = Some (dispatch_close_range w lo hi flags s)"
| "pim_vsyscall_dispatch n w (SYS_fstat fd buf_null) s =
     Some (vsyscall_dispatch_owned_fd fd (vsyscall_build_stat_for_owned_entry w buf_null) s)"
| "pim_vsyscall_dispatch n w (SYS_fstatfs fd buf_null) s = Some (dispatch_fstatfs_typed fd buf_null s)"
| "pim_vsyscall_dispatch n w (SYS_newfstatat dfd path buf_null flags) s = Some (dispatch_newfstatat w dfd path buf_null flags s)"
| "pim_vsyscall_dispatch n w (SYS_statfs path buf_null) s = Some (vsyscall_dispatch_statfs_for_path path buf_null s)"
| "pim_vsyscall_dispatch n w (SYS_statx dfd path flags req buf_null) s = Some (dispatch_statx w dfd path flags req buf_null s)"
| "pim_vsyscall_dispatch n w (SYS_lseek fd offset whence) s = Some (dispatch_lseek fd offset whence s)"
| "pim_vsyscall_dispatch n w SYS_other s = Some (O_Forward, s)"

end
