(* ===== verification/Vsys_Inv.thy ===== *)
theory Vsys_Inv
  imports Vsys_Dispatch
begin

text \<open>
  The descriptor table is well typed: every descriptor leads to an entry that has been made, is not being closed, and has
  what its type needs. Calls that only look at entries keep the table, the sessions and the record of what
  was done outside (\<open>keeps\<close>).
\<close>

named_theorems keeps_rules

section \<open>Well-typed tables\<close>

definition entry_ok :: "vfile_fd_entry \<Rightarrow> bool" where
  "entry_ok e \<longleftrightarrow>
     (case fe_type e of
        FD_VDEV \<Rightarrow> fe_vdev e \<noteq> None \<and> fe_owner_fd e \<ge> 0
      | FD_VSYSFS \<Rightarrow> fe_vsysfs e \<noteq> None \<and> fe_sysfs_attr_name e \<noteq> ''''
      | FD_VMODULE \<Rightarrow> fe_vmodule e \<noteq> None \<and> fe_sysfs_attr_name e \<noteq> ''''
      | FD_PROC_FDINFO \<Rightarrow> True
      | FD_VDIR \<Rightarrow> fe_virtual_path e \<noteq> '''')"

definition fd_ok :: "vsys \<Rightarrow> bool" where
  "fd_ok s \<longleftrightarrow>
     om_ok (sy_fd_table s) \<and>
     (\<forall>i \<in> snd ` set (sy_fd_table s). i < sy_next s \<and> \<not> fe_closing (sy_entries s i)) \<and>
     (\<forall>i < sy_next s. entry_ok (sy_entries s i) \<and> fe_active_ops (sy_entries s i) = 0)"

text \<open>What of an entry an operation on it leaves alone: all but positions, caches and flags.\<close>

definition same_session :: "vfile_fd_entry \<Rightarrow> vfile_fd_entry \<Rightarrow> bool" where
  "same_session e d \<longleftrightarrow>
     fe_type d = fe_type e \<and> fe_vdev d = fe_vdev e \<and> fe_vsysfs d = fe_vsysfs e \<and> fe_vmodule d = fe_vmodule e \<and>
     fe_owner_fd d = fe_owner_fd e \<and> fe_sysfs_attr_name d = fe_sysfs_attr_name e \<and> fe_virtual_path d = fe_virtual_path e \<and>
     fe_closing d = fe_closing e \<and> fe_active_ops d = fe_active_ops e"

definition keeps :: "vsys \<Rightarrow> vsys \<Rightarrow> bool" where
  "keeps s s' \<longleftrightarrow> sy_fd_table s' = sy_fd_table s \<and> sy_next s' = sy_next s \<and> sy_mmap s' = sy_mmap s \<and> sy_log s' = sy_log s \<and>
     (\<forall>i. same_session (sy_entries s i) (sy_entries s' i))"

lemma same_session_refl [simp, intro]: "same_session e e"
  by (simp add: same_session_def)

lemma entry_ok_same: "same_session e d \<Longrightarrow> entry_ok d = entry_ok e"
  by (simp add: same_session_def entry_ok_def split: fd_type.split)

lemma keeps_refl [simp, intro]: "keeps s s"
  by (simp add: keeps_def)

lemma keeps_trans [trans]: "keeps s t \<Longrightarrow> keeps t u \<Longrightarrow> keeps s u"
  by (simp add: keeps_def same_session_def)

lemma keeps_upd_fs [simp, intro]: "keeps s (upd_fs fs s)"
  by (simp add: keeps_def upd_fs_def)

lemma fd_ok_cong:
  assumes "fd_ok s" and "sy_fd_table s' = sy_fd_table s" and "sy_next s' = sy_next s"
    and "\<And>i. same_session (sy_entries s i) (sy_entries s' i)"
  shows "fd_ok s'"
proof -
  have "entry_ok (sy_entries s' i) = entry_ok (sy_entries s i)" for i
    using assms(4) [of i] by (rule entry_ok_same)
  moreover have "fe_closing (sy_entries s' i) = fe_closing (sy_entries s i)"
    "fe_active_ops (sy_entries s' i) = fe_active_ops (sy_entries s i)" for i
    using assms(4) [of i] unfolding same_session_def by blast+
  ultimately show ?thesis using assms(1-3) by (simp add: fd_ok_def)
qed

lemma keeps_ok: "keeps s s' \<Longrightarrow> fd_ok s \<Longrightarrow> fd_ok s'"
  by (rule fd_ok_cong) (auto simp: keeps_def)

lemma fd_ok_lookup: "fd_ok s \<Longrightarrow> vsyscall_fd_lookup fd s = Some i \<Longrightarrow> i < sy_next s \<and> \<not> fe_closing (sy_entries s i)"
  unfolding fd_ok_def vsyscall_fd_lookup_def by (metis imageI map_of_SomeD snd_conv)

section \<open>Acquired entries\<close>

lemma acquire_ok:
  assumes "fd_ok s"
  shows "vsyscall_fd_acquire_for_op fd s =
    (case vsyscall_fd_lookup fd s of
       None \<Rightarrow> (None, s)
     | Some i \<Rightarrow> (Some i, upd_entry i (\<lambda>e. e\<lparr>fe_active_ops := 1\<rparr>) s))"
proof (cases "vsyscall_fd_lookup fd s")
  case (Some i)
  then have "\<not> fe_closing (sy_entries s i)" "fe_active_ops (sy_entries s i) = 0"
    using assms fd_ok_lookup [OF assms Some] by (auto simp: fd_ok_def)
  then show ?thesis using Some by (simp add: vsyscall_fd_acquire_for_op_def upd_entry_def)
qed (simp add: vsyscall_fd_acquire_for_op_def)

lemma release_keeps:
  assumes "fd_ok s" and "i < sy_next s" and "keeps (upd_entry i (\<lambda>e. e\<lparr>fe_active_ops := 1\<rparr>) s) t"
  shows "keeps s (vsyscall_fd_release_after_op i t)"
proof -
  have "fe_active_ops (sy_entries s i) = 0" using assms(1,2) by (auto simp: fd_ok_def)
  then show ?thesis
    using assms(3) by (auto simp: keeps_def vsyscall_fd_release_after_op_def upd_entry_def same_session_def split: if_splits)
qed

text \<open>An operation on an owned descriptor, and the same for calls that look a status up.\<close>

lemma owned_fd_keeps [keeps_rules]:
  assumes "fd_ok s" and "\<And>i t. keeps t (snd (fn i t))"
  shows "keeps s (snd (vsyscall_dispatch_owned_fd fd fn s))"
proof (cases "vsyscall_fd_lookup fd s")
  case (Some i)
  then show ?thesis
    using release_keeps [OF assms(1) _ assms(2)] fd_ok_lookup [OF assms(1) Some]
    by (simp add: vsyscall_dispatch_owned_fd_def acquire_ok [OF assms(1)])
qed (simp add: vsyscall_dispatch_owned_fd_def acquire_ok [OF assms(1)])

lemma owned_entry_keeps [keeps_rules]:
  assumes "fd_ok s" and "\<And>i t. keeps t (snd (fn i t))"
  shows "keeps s (snd (with_owned_entry fd fn s))"
proof (cases "vsyscall_fd_lookup fd s")
  case (Some i)
  then show ?thesis
    using release_keeps [OF assms(1) _ assms(2)] fd_ok_lookup [OF assms(1) Some]
    by (simp add: with_owned_entry_def acquire_ok [OF assms(1)])
qed (simp add: with_owned_entry_def acquire_ok [OF assms(1)])

section \<open>Operations on one entry\<close>

text \<open>What the calls on an open file promise: they leave the session alone.\<close>

locale entry_operation =
  fixes f :: "vfile_fd_entry \<times> vfs \<Rightarrow> outcome \<times> vfile_fd_entry \<times> vfs"
  assumes keeps_session: "same_session e (fst (snd (f (e, fs))))"
begin

lemma on_entry_keeps: "keeps s (snd (on_entry f i s))"
  using keeps_session [of "sy_entries s i" "sy_fs s"]
  by (cases "f (sy_entries s i, sy_fs s)") (simp add: on_entry_def keeps_def upd_entry_def upd_fs_def)

lemma dispatch_keeps: "fd_ok s \<Longrightarrow> keeps s (snd (vsyscall_dispatch_owned_fd fd (on_entry f) s))"
  by (rule owned_fd_keeps [OF _ on_entry_keeps])

lemma on_entry_other: "j \<noteq> i \<Longrightarrow> sy_entries (snd (on_entry f i s)) j = sy_entries s j"
  by (simp add: on_entry_def upd_entry_def upd_fs_def split: prod.split)

lemma dispatch_other:
  assumes "fd_ok s" and "vsyscall_fd_lookup fd s \<noteq> Some j"
  shows "sy_entries (snd (vsyscall_dispatch_owned_fd fd (on_entry f) s)) j = sy_entries s j"
  using assms(2) on_entry_other [of j]
  by (auto simp: vsyscall_dispatch_owned_fd_def acquire_ok [OF assms(1)] vsyscall_fd_release_after_op_def upd_entry_def split: option.split)

end

lemma refresh_session: "same_session e (snd (vsyscall_attr_refresh_cache_locked a st e))"
  by (auto simp: vsyscall_attr_refresh_cache_locked_def clamp_offset_def same_session_def split: option.split)

lemma refresh_cases:
  obtains r d where "vsyscall_attr_refresh_cache_locked a st e = (r, d)" "same_session e d"
  using refresh_session [of e a st] by (cases "vsyscall_attr_refresh_cache_locked a st e") simp

lemma same_session_updates [simp]:
  "same_session e (d\<lparr>fe_sysfs_read_offset := p\<rparr>) = same_session e d"
  "same_session e (d\<lparr>fe_sysfs_cached_value := v\<rparr>) = same_session e d"
  "same_session e (d\<lparr>fe_sysfs_cached_attr_access := x\<rparr>) = same_session e d"
  "same_session e (d\<lparr>fe_sysfs_cached_attr_revision := r\<rparr>) = same_session e d"
  "same_session e (d\<lparr>fe_dir_read_offset := p\<rparr>) = same_session e d"
  "same_session e (d\<lparr>fe_dir_cached_rows := rows\<rparr>) = same_session e d"
  "same_session e (d\<lparr>fe_dir_cached_generation := g\<rparr>) = same_session e d"
  "same_session e (d\<lparr>fe_flags := fl\<rparr>) = same_session e d"
  by (simp_all add: same_session_def)

lemma read_value_session: "same_session e d \<Longrightarrow> same_session e (snd (vsyscall_vsysfs_read_from_value_locked v n d))"
  by (simp add: vsyscall_vsysfs_read_from_value_locked_def Let_def)

lemma attr_read_session: "same_session e (snd (dispatch_attr_read a b n st e))"
  by (rule refresh_cases [of a st e]) (simp add: dispatch_attr_read_def read_value_session split_beta split: option.split)

lemma attr_write_session: "same_session e (fst (snd (dispatch_attr_write a b c d data (e, st))))"
  by (rule refresh_cases [of a st e]) (simp add: dispatch_attr_write_def Let_def split: option.split)

interpretation io: entry_operation "vsyscall_dispatch_io_entry w op" for w op
proof (unfold_locales, goal_cases)
  case (1 e fs)
  have "same_session e (snd (dispatch_attr_read a b n fs e))" "same_session e (fst (snd (dispatch_attr_write a b c d data (e, fs))))"
    for a b c d n data by (rule attr_read_session attr_write_session)+
  then have "dispatch_attr_read a b n fs e = (r, e') \<Longrightarrow> same_session e e'"
    "dispatch_attr_write a b c d data (e, fs) = (r', e', fs') \<Longrightarrow> same_session e e'" for a b c d n data r r' e' fs'
    by (metis fst_conv snd_conv)+
  then show ?case
    by (auto simp: vsyscall_dispatch_io_entry_def Let_def split: prod.split sum.split fd_type.split io_op.split)
qed

lemma refresh_dir_session: "same_session (fst es) (fst (snd (vdir_refresh_cache_if_needed h g es)))"
  by (simp add: vdir_refresh_cache_if_needed_def split: prod.split option.split)

lemma emit_session: "same_session e d \<Longrightarrow> same_session e (snd (vdir_emit_cached_dirents_locked calc fill n d))"
  by (simp add: vdir_emit_cached_dirents_locked_def Let_def split: sum.split prod.split)

lemma try_once_session: "same_session (fst es) (fst (snd (vdir_getdents_try_once h calc fill n g es)))"
  using refresh_dir_session [of es h g] emit_session [of "fst es"]
  by (auto simp: vdir_getdents_try_once_def split: prod.split option.split) (metis snd_conv)

lemma same_session_trans: "same_session e d \<Longrightarrow> same_session d c \<Longrightarrow> same_session e c"
  by (simp add: same_session_def)

lemma getdents_session: "same_session (fst es) (fst (snd (vdir_dispatch_getdents_common h calc fill d n es)))"
proof -
  have one: "vdir_getdents_try_once h calc fill n g es = (r, es') \<Longrightarrow> same_session (fst es) (fst es')" for g r es es'
    using try_once_session [of es h calc fill n g] by simp
  show ?thesis
    by (auto simp: vdir_dispatch_getdents_common_def Let_def split: prod.split option.split dest!: one intro: same_session_trans)
qed

interpretation getdents: entry_operation "getdents_entry w is64 dirp count" for w is64 dirp count
proof (unfold_locales, goal_cases)
  case (1 e fs)
  have "vdir_dispatch_getdents_common h calc fill d n (e, fs) = (r, es') \<Longrightarrow> same_session e (fst es')" for h calc fill d n r es'
    using getdents_session [of "(e, fs)" h calc fill d n] by simp
  then show ?case
    by (auto simp: getdents_entry_def vdir_getdents64_from_entry_def vdir_getdents_from_entry_def split: prod.split sum.split)
qed

interpretation lseek: entry_operation "lseek_entry offset whence" for offset whence
proof (unfold_locales, goal_cases)
  case (1 e fs)
  show ?case
    by (auto simp: lseek_entry_def seek_entry_def vdir_seek_entry_cursor_def same_session_def split: prod.splits sum.splits option.splits if_splits)
qed

interpretation fcntl: entry_operation "fcntl_entry w cmd arg" for w cmd arg
proof (unfold_locales, goal_cases)
  case (1 e fs)
  show ?case by (simp add: fcntl_entry_def Let_def same_session_def split: sum.split)
qed

section \<open>Calls that look at paths\<close>

lemma resolve_node_keeps: "resolve_node p s = (r, s') \<Longrightarrow> keeps s s'"
  by (auto simp: resolve_node_def split: prod.splits)

lemma lookup_node_keeps: "vsyscall_dispatch_lookup_node_from_resolved_path p e s = (r, s') \<Longrightarrow> keeps s s'"
  by (auto simp: vsyscall_dispatch_lookup_node_from_resolved_path_def split: prod.splits sum.splits option.splits if_splits
      dest: resolve_node_keeps)

lemma dispatch_node_keeps: "vsyscall_dispatch_resolve_node dfd p e s = (r, s') \<Longrightarrow> keeps s s'"
  by (auto simp: vsyscall_dispatch_resolve_node_def split: prod.splits sum.splits dest: lookup_node_keeps)

lemma readlinkat_keeps: "keeps s (snd (dispatch_readlinkat dfd p b n s))"
  by (auto simp: dispatch_readlinkat_def split: sum.split prod.split option.split dest: lookup_node_keeps)

lemma name_to_handle_at_keeps: "keeps s (snd (dispatch_name_to_handle_at dfd p fl s))"
  by (auto simp: dispatch_name_to_handle_at_def Let_def split: sum.split prod.split option.split dest: lookup_node_keeps)

lemma link_target_keeps: "entry_link_target i s = (r, s') \<Longrightarrow> keeps s s'"
  by (auto simp: entry_link_target_def Let_def split: sum.splits prod.splits if_splits dest: resolve_node_keeps)

lemma vdev_stat_keeps: "vsyscall_build_vdev_stat w i s = (r, s') \<Longrightarrow> keeps s s'"
  by (auto simp: vsyscall_build_vdev_stat_def Let_def split: sum.splits prod.splits option.splits dest: link_target_keeps)

lemma owned_stat_keeps: "keeps s (snd (vsyscall_build_stat_for_owned_entry w b i s))"
  by (auto simp: vsyscall_build_stat_for_owned_entry_def split: sum.split prod.split dest: vdev_stat_keeps)

lemma entry_stat_keeps: "keeps s (snd (entry_stat w i s))"
  by (cases "vsyscall_build_vdev_stat w i s") (auto simp: entry_stat_def dest: vdev_stat_keeps)

lemma target_stat_keeps: "keeps s (snd (target_stat w p s))"
  by (auto simp: target_stat_def split: sum.split prod.split dest: resolve_node_keeps)

lemma lookup_stat_keeps: "fd_ok s \<Longrightarrow> keeps s (snd (vsyscall_dispatch_lookup_stat w dfd p fl s))"
  using owned_entry_keeps [of s, OF _ entry_stat_keeps]
  by (auto simp: vsyscall_dispatch_lookup_stat_def Let_def split: sum.split prod.split option.split
      dest!: dispatch_node_keeps intro: keeps_trans [OF _ target_stat_keeps])

lemma lookup_stat_validated_keeps: "fd_ok s \<Longrightarrow> keeps s (snd (vsyscall_dispatch_lookup_stat_validated w dfd p fl v s))"
  by (auto simp: vsyscall_dispatch_lookup_stat_validated_def lookup_stat_keeps split: sum.split prod.split option.split
      dest: lookup_node_keeps)

lemma newfstatat_keeps: "fd_ok s \<Longrightarrow> keeps s (snd (dispatch_newfstatat w dfd p b fl s))"
  using lookup_stat_validated_keeps [of s w dfd p fl]
  by (auto simp: dispatch_newfstatat_def split: sum.split prod.split) (metis snd_conv)+

lemma statx_keeps: "fd_ok s \<Longrightarrow> keeps s (snd (dispatch_statx w dfd p fl m b s))"
  using lookup_stat_validated_keeps [of s w dfd p fl]
  by (auto simp: dispatch_statx_def split: sum.split prod.split) (metis snd_conv)+

lemma statfs_keeps: "keeps s (snd (vsyscall_dispatch_statfs_for_path p b s))"
  by (auto simp: vsyscall_dispatch_statfs_for_path_def split: sum.split prod.split dest: dispatch_node_keeps)

lemma fstatfs_keeps: "fd_ok s \<Longrightarrow> keeps s (snd (dispatch_fstatfs_typed fd b s))"
  unfolding dispatch_fstatfs_typed_def by (rule owned_fd_keeps) simp_all

lemma access_outcome_state [simp]: "snd (access_outcome w m b r) = snd r"
  by (cases r) (simp add: access_outcome_def split: sum.split)

lemma faccessat_keeps: "fd_ok s \<Longrightarrow> keeps s (snd (dispatch_faccessat_common w dfd p m fl s))"
  using owned_entry_keeps [of s, OF _ entry_stat_keeps] owned_fd_keeps [of s "\<lambda>i s. (O_Fail e, s)" dfd for e]
  by (auto simp: dispatch_faccessat_common_def lookup_stat_keeps Let_def split: option.split path_status.split prod.split sum.split
      dest: resolve_node_keeps)

section \<open>Callbacks of devices\<close>

lemma entry_call_keeps: "keeps s (snd (vsyscall_dispatch_vdev_entry_call w m e1 e2 cb i s))"
  by (simp add: vsyscall_dispatch_vdev_entry_call_def Let_def split: option.split prod.split)

lemma owned_callback_keeps: "fd_ok s \<Longrightarrow> keeps s (snd (vsyscall_dispatch_owned_vdev_callback w fd m e1 e2 cb s))"
  unfolding vsyscall_dispatch_owned_vdev_callback_def by (rule owned_fd_keeps [OF _ entry_call_keeps])

text \<open>The mappings are not part of the table.\<close>

lemma fd_ok_mmap [simp]: "fd_ok (s\<lparr>sy_mmap := t\<rparr>) = fd_ok s"
  by (simp add: fd_ok_def)

lemma mmap_ok_kept: "fd_ok s \<Longrightarrow> fd_ok (snd (dispatch_mmap w len fd s))"
  using keeps_ok [OF owned_callback_keeps [of s w fd vd_mmap_fn ENODEV EBADF "w_mmap_cb w"]]
  by (cases "vsyscall_dispatch_owned_vdev_callback w fd vd_mmap_fn ENODEV EBADF (w_mmap_cb w) s")
    (simp add: dispatch_mmap_def split: outcome.split reply.split)

lemma munmap_ok_kept: "fd_ok (snd (dispatch_munmap_call w a n s)) = fd_ok s"
  by (simp add: dispatch_munmap_call_def split: prod.split)

end
