(* ===== verification/Vsys_Table.thy ===== *)
theory Vsys_Table
  imports Vsys_Inv
begin

text \<open>
  The calls that change the descriptor table: opening, duplicating and closing keep it well typed, and with them every
  system call does.
\<close>

section \<open>Aliases\<close>

lemma alias_iff: "om_ok (sy_fd_table s) \<Longrightarrow> vsyscall_fd_has_alias_locked i s \<longleftrightarrow> (\<exists>fd. map_of (sy_fd_table s) fd = Some i)"
  by (force simp: vsyscall_fd_has_alias_locked_def om_in_set [symmetric])

lemma fd_ok_alt:
  "fd_ok s \<longleftrightarrow> om_ok (sy_fd_table s) \<and>
     (\<forall>fd i. map_of (sy_fd_table s) fd = Some i \<longrightarrow> i < sy_next s \<and> \<not> fe_closing (sy_entries s i)) \<and>
     (\<forall>i < sy_next s. entry_ok (sy_entries s i) \<and> fe_active_ops (sy_entries s i) = 0)"
proof (cases "om_ok (sy_fd_table s)")
  case True
  then have "i \<in> snd ` set (sy_fd_table s) \<longleftrightarrow> (\<exists>fd. map_of (sy_fd_table s) fd = Some i)" for i
    using alias_iff [of s i] by (simp add: vsyscall_fd_has_alias_locked_def)
  then show ?thesis unfolding fd_ok_def by blast
qed (simp add: fd_ok_def)

lemma fd_ok_upd_fs [simp]: "fd_ok (upd_fs fs s) = fd_ok s"
  by (simp add: fd_ok_def upd_fs_def)

lemma fd_ok_note [simp]: "fd_ok (note_event e s) = fd_ok s"
  by (simp add: fd_ok_def note_event_def)

lemma kernel_close_ok [simp]: "fd_ok (snd (vsyscall_kernel_close_fd w fd s)) = fd_ok s"
  by (simp add: vsyscall_kernel_close_fd_def)

lemma close_callback_ok [simp]: "fd_ok (snd (run_close_callback w v fd s)) = fd_ok s"
  by (simp add: run_close_callback_def split: prod.split)

lemma fd_ok_erase: "fd_ok s \<Longrightarrow> fd_ok (s\<lparr>sy_fd_table := om_erase fd (sy_fd_table s)\<rparr>)"
  by (simp add: fd_ok_alt)

lemma fd_ok_empty: "fd_ok s \<Longrightarrow> fd_ok (s\<lparr>sy_fd_table := []\<rparr>)"
  by (simp add: fd_ok_alt)

lemma fd_ok_alias:
  "fd_ok s \<Longrightarrow> map_of (sy_fd_table s) old = Some i \<Longrightarrow> fd_ok (s\<lparr>sy_fd_table := om_insert fd i (sy_fd_table s)\<rparr>)"
  by (auto simp: fd_ok_alt)

lemma fd_ok_closing:
  assumes "fd_ok s" and "\<not> vsyscall_fd_has_alias_locked i s"
  shows "fd_ok (upd_entry i (\<lambda>e. e\<lparr>fe_closing := True\<rparr>) s)"
proof -
  have "entry_ok (e\<lparr>fe_closing := True\<rparr>) = entry_ok e" for e by (simp add: entry_ok_def split: fd_type.split)
  then show ?thesis
    using assms by (auto simp: fd_ok_def upd_entry_def vsyscall_fd_has_alias_locked_def)
qed

section \<open>Binding\<close>

definition fresh :: "vfile_fd_entry \<Rightarrow> bool" where
  "fresh e \<longleftrightarrow> \<not> fe_closing e \<and> fe_active_ops e = 0"

lemma fd_ok_bind:
  assumes "fd_ok s" and "entry_ok e" and "fresh e"
  shows "fd_ok (s\<lparr>sy_fd_table := om_insert fd (sy_next s) (sy_fd_table s), sy_entries := (sy_entries s)(sy_next s := e),
                  sy_next := sy_next s + 1\<rparr>)"
  using assms by (auto simp: fd_ok_alt fresh_def less_Suc_eq)

lemma bind_existing_ok:
  "fd_ok s \<Longrightarrow> entry_ok e \<Longrightarrow> fresh e \<Longrightarrow> fd_ok (snd (vsyscall_fd_bind_existing w fd e s))"
  by (simp add: vsyscall_fd_bind_existing_def fd_ok_bind [simplified])

lemma bind_or_close_ok:
  assumes "fd_ok s" and "entry_ok e" and "fresh e"
  shows "fd_ok (snd (vsyscall_bind_existing_fd_or_close w fd e s))"
  using bind_existing_ok [OF assms, of w fd]
  by (cases "vsyscall_fd_bind_existing w fd e s") (simp add: vsyscall_bind_existing_fd_or_close_def split: option.split)

text \<open>A device entry without an owner gets the new descriptor as its owner.\<close>

definition owned_by :: "int \<Rightarrow> vfile_fd_entry \<Rightarrow> vfile_fd_entry" where
  "owned_by fd e = (if fe_type e = FD_VDEV \<and> fe_owner_fd e < 0 then e\<lparr>fe_owner_fd := fd\<rparr> else e)"

lemma alloc_tracked_cases:
  obtains (fails) e' s' where "vsyscall_alloc_tracked_fd w e s = (O_Fail e', s')" "s' = s \<or> (\<exists>fd. s' = note_event (Kernel_Close fd) s)"
  | (bound) fd where "0 \<le> fd" "map_of (sy_fd_table s) fd = None" "w_pim_vfile_open w (fe_flags e) = Inr fd"
      "vsyscall_alloc_tracked_fd w e s =
         (O_Ret (R_Long fd), s\<lparr>sy_fd_table := om_insert fd (sy_next s) (sy_fd_table s),
                               sy_entries := (sy_entries s)(sy_next s := owned_by fd e), sy_next := sy_next s + 1\<rparr>)"
proof (cases "w_pim_vfile_open w (fe_flags e)")
  case (Inl a)
  then show ?thesis
    by (cases a) (auto simp: vsyscall_alloc_tracked_fd_def vsyscall_fd_alloc_def intro: fails)
next
  case (Inr fd)
  show ?thesis
  proof (cases "vsyscall_fd_bind_existing w fd e s")
    case (Pair a t)
    show ?thesis
    proof (cases a)
      case None
      then have t: "0 \<le> fd" "map_of (sy_fd_table s) fd = None"
        "t = s\<lparr>sy_fd_table := om_insert fd (sy_next s) (sy_fd_table s), sy_entries := (sy_entries s)(sy_next s := e), sy_next := sy_next s + 1\<rparr>"
        using Pair by (auto simp: vsyscall_fd_bind_existing_def split: if_splits)
      have "vsyscall_alloc_tracked_fd w e s =
         (O_Ret (R_Long fd), s\<lparr>sy_fd_table := om_insert fd (sy_next s) (sy_fd_table s),
                               sy_entries := (sy_entries s)(sy_next s := owned_by fd e), sy_next := sy_next s + 1\<rparr>)"
        using Inr Pair None t
        by (auto simp: vsyscall_alloc_tracked_fd_def vsyscall_fd_alloc_def owned_by_def upd_entry_def vsyscall_fd_lookup_def)
      then show ?thesis using bound t Inr by blast
    next
      case (Some b)
      then have "t = s" using Pair by (auto simp: vsyscall_fd_bind_existing_def split: if_splits)
      then show ?thesis
        using Inr Pair Some by (intro fails) (auto simp: vsyscall_alloc_tracked_fd_def vsyscall_fd_alloc_def vsyscall_kernel_close_fd_def)
    qed
  qed
qed

lemma alloc_tracked_ok:
  assumes "fd_ok s" and "\<And>fd. 0 \<le> fd \<Longrightarrow> entry_ok (owned_by fd e)" and "fresh e"
  shows "fd_ok (snd (vsyscall_alloc_tracked_fd w e s))"
proof (cases rule: alloc_tracked_cases [of w e s])
  case (bound fd)
  have "fresh (owned_by fd e)" using assms(3) by (simp add: fresh_def owned_by_def)
  then show ?thesis using bound fd_ok_bind [OF assms(1)] assms(2) by simp
qed (use assms(1) in auto)

lemma fresh_entries [simp]:
  "fresh (vsyscall_make_device_entry v fd p fl)" "fresh (vsyscall_make_vsysfs_entry h a p fl)"
  "fresh (vsyscall_make_vmodule_entry h a p fl)" "fresh (vdir_make_fd_entry p fl)"
  by (simp_all add: fresh_def vsyscall_make_device_entry_def vsyscall_make_vsysfs_entry_def vsyscall_make_vmodule_entry_def
      vdir_make_fd_entry_def new_fd_entry_def)

lemma typed_entries [simp]:
  "0 \<le> fd \<Longrightarrow> entry_ok (owned_by fd (vsyscall_make_device_entry v (- 1) p fl))"
  "0 \<le> fd \<Longrightarrow> entry_ok (vsyscall_make_device_entry v fd p fl)"
  "a \<noteq> '''' \<Longrightarrow> entry_ok (owned_by fd (vsyscall_make_vsysfs_entry h a p fl))"
  "a \<noteq> '''' \<Longrightarrow> entry_ok (owned_by fd (vsyscall_make_vmodule_entry h a p fl))"
  "p \<noteq> '''' \<Longrightarrow> entry_ok (owned_by fd (vdir_make_fd_entry p fl))"
  by (simp_all add: entry_ok_def owned_by_def vsyscall_make_device_entry_def vsyscall_make_vsysfs_entry_def
      vsyscall_make_vmodule_entry_def vdir_make_fd_entry_def new_fd_entry_def)

lemma typed_fdinfo:
  "vsyscall_make_proc_fdinfo_entry w t i p fl s = Some e \<Longrightarrow> fresh e \<and> entry_ok (owned_by fd e)"
  by (auto simp: vsyscall_make_proc_fdinfo_entry_def fresh_def entry_ok_def owned_by_def new_fd_entry_def)

section \<open>Closing\<close>

lemma finalize_ok: "fd_ok s \<Longrightarrow> fd_ok (snd (vsyscall_finalize_entry_if_last_alias w i s))"
  by (auto simp: vsyscall_finalize_entry_if_last_alias_def Let_def fd_ok_closing split: option.split prod.split)
    (metis close_callback_ok fd_ok_closing snd_conv)

lemma close_owned_ok: "fd_ok s \<Longrightarrow> fd_ok (snd (close_owned_fd w fd b s))"
proof -
  assume "fd_ok s"
  then have "fd_ok (snd (vsyscall_close_kernel_fd_if_needed w fd b (s\<lparr>sy_fd_table := om_erase fd (sy_fd_table s)\<rparr>)))"
    by (simp add: vsyscall_close_kernel_fd_if_needed_def fd_ok_erase)
  from finalize_ok [OF this] \<open>fd_ok s\<close> show ?thesis
    by (simp add: close_owned_fd_def vsyscall_detach_owned_fd_entry_def vsyscall_finalize_detached_owned_fd_def split_beta
        split: option.split)
qed

lemma close_list_ok: "fd_ok s \<Longrightarrow> fd_ok (snd (vsyscall_close_owned_fd_list w fds b s))"
proof (induction fds arbitrary: s)
  case (Cons fd fds)
  then show ?case
    using close_owned_ok [OF Cons.prems, of w fd b] by (cases "close_owned_fd w fd b s") (auto split: outcome.split)
qed simp

lemma sweep_ok: "fd_ok s \<Longrightarrow> fd_ok (snd (sweep_loop w fds s))"
proof (induction fds arbitrary: s)
  case (Cons fd fds)
  then show ?case
    using close_owned_ok [OF Cons.prems, of w fd False] by (cases "close_owned_fd w fd False s") (auto split: outcome.split)
qed simp

lemma close_ok: "fd_ok s \<Longrightarrow> fd_ok (snd (dispatch_close w fd s))"
  by (simp add: dispatch_close_def vsyscall_dispatch_fd_mutation_def close_owned_ok)

lemma close_range_ok:
  assumes "fd_ok s"
  shows "fd_ok (snd (dispatch_close_range w lo hi fl s))"
proof -
  let ?r = "vsyscall_close_owned_fd_list w (sort (vsyscall_collect_owned_fds_in_range lo hi s)) False s"
  have r: "fd_ok (snd ?r)" using assms by (rule close_list_ok)
  then show ?thesis
    using assms
    by (cases ?r) (auto simp: dispatch_close_range_def vsyscall_dispatch_fd_mutation_def vsyscall_finalize_close_range_aliases_def
        vsyscall_sweep_close_range_stale_aliases_def sweep_ok Let_def split: option.split outcome.split)
qed

section \<open>Duplicating\<close>

lemma rebind_ok:
  assumes "fd_ok s" and "\<And>i. new = Some i \<Longrightarrow> \<exists>old. map_of (sy_fd_table s) old = Some i"
  shows "fd_ok (snd (vsyscall_rebind_fd_alias_after_dup w fd new b s))"
proof -
  define t where "t = s\<lparr>sy_fd_table := (case new of Some i \<Rightarrow> om_insert fd i (sy_fd_table s) | None \<Rightarrow> om_erase fd (sy_fd_table s))\<rparr>"
  have t: "fd_ok t" using assms by (auto simp: t_def fd_ok_erase intro: fd_ok_alias split: option.split)
  have f: "fd_ok (snd (vsyscall_finalize_entry_if_last_alias w r t))" for r using t by (rule finalize_ok)
  show ?thesis
  proof (cases "map_of (sy_fd_table s) fd")
    case None
    then show ?thesis
      using t assms(1) by (simp add: vsyscall_rebind_fd_alias_after_dup_def vsyscall_fail_enomem_with_optional_close_def t_def [symmetric] Let_def)
  next
    case (Some r)
    then show ?thesis
      using t f [of r] by (cases "vsyscall_finalize_entry_if_last_alias w r t")
        (simp add: vsyscall_rebind_fd_alias_after_dup_def t_def [symmetric] Let_def split: outcome.split)
  qed
qed

lemma dup_ok: "fd_ok s \<Longrightarrow> fd_ok (snd (dispatch_dup w fd s))"
  by (auto simp: dispatch_dup_def vsyscall_dispatch_fd_mutation_def vsyscall_fd_lookup_def Let_def intro!: rebind_ok split: sum.split)

lemma dup2_ok: "fd_ok s \<Longrightarrow> fd_ok (snd (dispatch_dup2_enter w old new b s))"
  by (auto simp: dispatch_dup2_enter_def vsyscall_dispatch_fd_mutation_def vsyscall_prepare_dup2_context_def
      vsyscall_finalize_dup2_or_dup3_aliases_def Let_def intro!: rebind_ok split: sum.split)

section \<open>Opening\<close>

lemma open_vdev_ok:
  assumes "fd_ok s"
  shows "fd_ok (snd (vsyscall_dispatch_open_vdev_node w node v fl s))"
proof -
  obtain fd fs where cb: "w_open_cb w v (pi_path node) fl (sy_fs s) = (fd, fs)" by fastforce
  let ?b = "vsyscall_bind_existing_fd_or_close w fd (vsyscall_make_device_entry v fd (pi_path node) fl) (upd_fs fs s)"
  have "0 \<le> fd \<Longrightarrow> fd_ok (snd ?b)" using assms by (intro bind_or_close_ok) simp_all
  then show ?thesis
    using assms cb
    by (cases ?b) (auto simp: vsyscall_dispatch_open_vdev_node_def vsyscall_cleanup_vdev_after_open_bind_failure_def alloc_tracked_ok Let_def
        split: option.split)
qed

lemma open_attr_ok:
  assumes "fd_ok s" and "\<And>fd. 0 \<le> fd \<Longrightarrow> entry_ok (owned_by fd e)" and "fresh e"
  shows "fd_ok (snd (vsyscall_dispatch_open_attr_node w node e fl s))"
proof -
  have a: "fd_ok (snd (vsyscall_alloc_tracked_fd w e s))" using assms by (rule alloc_tracked_ok)
  then show ?thesis
    using assms(1) fd_ok_erase
    by (cases "vsyscall_alloc_tracked_fd w e s")
      (auto simp: vsyscall_dispatch_open_attr_node_def vsyscall_fd_free_def Let_def split: outcome.split reply.split prod.split option.split)
qed

lemma open_dir_ok: "fd_ok s \<Longrightarrow> pi_path node \<noteq> [] \<Longrightarrow> fd_ok (snd (vsyscall_dispatch_open_dir_node w node fl s))"
  by (simp add: vsyscall_dispatch_open_dir_node_def alloc_tracked_ok)

lemma open_fdinfo_ok: "fd_ok s \<Longrightarrow> fd_ok (snd (vsyscall_dispatch_open_proc_fdinfo_node w t p fl s))"
  by (auto simp: vsyscall_dispatch_open_proc_fdinfo_node_def alloc_tracked_ok typed_fdinfo split: option.split)

lemma open_vsysfs_ok:
  "fd_ok s \<Longrightarrow> pi_attr_name node \<noteq> [] \<Longrightarrow> fd_ok (snd (vsyscall_dispatch_open_vsysfs_attr_node w node h fl s))"
  "fd_ok s \<Longrightarrow> pi_attr_name node \<noteq> [] \<Longrightarrow> fd_ok (snd (vsyscall_dispatch_open_vmodule_attr_node w node h fl s))"
  by (simp_all add: vsyscall_dispatch_open_vsysfs_attr_node_def vsyscall_dispatch_open_vmodule_attr_node_def open_attr_ok)

lemma open_resolved_ok:
  "fd_ok s \<Longrightarrow> vsyscall_dispatch_open_resolved_node n w node fl s = Some (r, s') \<Longrightarrow> fd_ok s'"
proof (induction n arbitrary: node s)
  case (Suc n)
  note ok = \<open>fd_ok s\<close>
  show ?case
  proof (cases node)
    case (N_Resolved nd b)
    have pairs: "snd x = s' \<Longrightarrow> fd_ok (snd x) \<Longrightarrow> fd_ok s'" for x :: "outcome \<times> vsys" by simp
    have step: "fd_ok t" if "resolve_node p s = (q, t)" for p q t using keeps_ok [OF resolve_node_keeps [OF that] ok] .
    show ?thesis
    proof (cases "vsyscall_validate_open_flags fl")
      case None
      note res = Suc.prems(2) [unfolded N_Resolved vsyscall_dispatch_open_resolved_node.simps None option.case Let_def]
      show ?thesis
      proof (cases "pi_kind nd")
        case VDIR
        then show ?thesis
          using res step Suc.IH open_dir_ok [OF ok] ok
          by (auto split: if_splits option.splits prod.splits sum.splits) (metis snd_conv)+
      qed (use res ok open_vdev_ok [OF ok] open_vsysfs_ok [OF ok] in
          \<open>auto split: if_splits option.splits; metis snd_conv\<close>)+
    qed (use Suc.prems N_Resolved in auto)
  next
    case (N_Proc_Fdinfo t)
    then show ?thesis
      using Suc.prems(2) ok open_fdinfo_ok [OF ok] by (auto split: option.splits) (metis snd_conv)
  qed (use Suc.prems in simp)
qed simp

lemma openat_ok:
  assumes "fd_ok s" and "dispatch_openat n w dfd p fl s = Some (r, s')"
  shows "fd_ok s'"
proof -
  obtain q t where q: "vsyscall_resolve_open_node_for_dispatch dfd p s = (q, t)" by fastforce
  then have "keeps s t"
    by (auto simp: vsyscall_resolve_open_node_for_dispatch_def Let_def split: sum.splits option.splits if_splits prod.splits
        dest: lookup_node_keeps)
  then show ?thesis
    using open_resolved_ok [OF keeps_ok] assms q by (auto simp: dispatch_openat_def split: if_splits)
qed

section \<open>Every system call\<close>

text \<open>The calls that leave the table, the mappings and the kernel alone.\<close>

fun only_views :: "syscall \<Rightarrow> bool" where
  "only_views (SYS_openat _ _ _) = False" | "only_views (SYS_mmap _ _) = False" | "only_views (SYS_munmap _ _) = False"
| "only_views (SYS_close _) = False" | "only_views (SYS_dup _) = False" | "only_views (SYS_dup2 _ _) = False"
| "only_views (SYS_dup3 _ _) = False" | "only_views (SYS_close_range _ _ _) = False" | "only_views _ = True"

lemma views_keeps:
  assumes "fd_ok s" and "only_views c" and "pim_vsyscall_dispatch n w c s = Some (r, s')"
  shows "keeps s s'"
proof -
  have "keeps s (snd (the (pim_vsyscall_dispatch n w c s)))"
    using assms(1,2)
    by (cases c)
      (simp_all add: name_to_handle_at_keeps faccessat_keeps readlinkat_keeps owned_callback_keeps newfstatat_keeps statfs_keeps
        statx_keeps fstatfs_keeps owned_fd_keeps [OF _ owned_stat_keeps] dispatch_fcntl_def dispatch_io_def dispatch_lseek_def
        io.dispatch_keeps getdents.dispatch_keeps lseek.dispatch_keeps fcntl.dispatch_keeps)
  then show ?thesis using assms(3) by simp
qed

lemma dispatch_ok:
  assumes "fd_ok s" and "pim_vsyscall_dispatch n w c s = Some (r, s')"
  shows "fd_ok s'"
proof (cases "only_views c")
  case True
  then show ?thesis using keeps_ok [OF views_keeps] assms by blast
next
  case False
  then consider dfd p fl where "c = SYS_openat dfd p fl" | "fd_ok (snd (the (pim_vsyscall_dispatch n w c s)))"
    using assms(1) by (cases c) (simp_all add: close_ok close_range_ok dup_ok dup2_ok mmap_ok_kept munmap_ok_kept)
  then show ?thesis using openat_ok [OF assms(1)] assms(2) by cases auto
qed

end
