(* ===== verification/Vsys_Close.thy ===== *)
theory Vsys_Close
  imports Vsys_Table
begin

text \<open>
  What closing does outside: which close callbacks are called, and which calls the layer leaves to the kernel.
\<close>

section \<open>The end of a session\<close>

definition last_alias :: "int \<Rightarrow> nat \<Rightarrow> vsys \<Rightarrow> bool" where
  "last_alias fd i s \<longleftrightarrow> (\<forall>fd'. fd' \<noteq> fd \<longrightarrow> vsyscall_fd_lookup fd' s \<noteq> Some i)"

text \<open>The close callbacks that the end of session \<open>i\<close> calls: the one of its device, if there is one.\<close>

definition close_calls :: "nat \<Rightarrow> vsys \<Rightarrow> event list" where
  "close_calls i s =
     (let e = sy_entries s i
      in if fe_type e = FD_VDEV \<and> vd_close_fn (fs_vdev (sy_fs s) (the (fe_vdev e))) \<noteq> None
         then [Close_Callback (the (fe_vdev e)) (fe_owner_fd e)] else [])"

lemma upd_entry_simps [simp]:
  "sy_fs (upd_entry i f s) = sy_fs s" "sy_fd_table (upd_entry i f s) = sy_fd_table s" "sy_next (upd_entry i f s) = sy_next s"
  "sy_log (upd_entry i f s) = sy_log s" "sy_mmap (upd_entry i f s) = sy_mmap s"
  "sy_entries (upd_entry i f s) = (sy_entries s)(i := f (sy_entries s i))"
  by (simp_all add: upd_entry_def)

lemma run_close_callback_simps [simp]:
  "sy_fd_table (snd (run_close_callback w v fd s)) = sy_fd_table s" "sy_entries (snd (run_close_callback w v fd s)) = sy_entries s"
  "sy_log (snd (run_close_callback w v fd s)) = sy_log s @ [Close_Callback v fd]" "sy_next (snd (run_close_callback w v fd s)) = sy_next s"
  "sy_fs (snd (run_close_callback w v fd s)) = snd (w_close_cb w v fd (sy_fs s))" "sy_mmap (snd (run_close_callback w v fd s)) = sy_mmap s"
  "fst (run_close_callback w v fd s) = fst (w_close_cb w v fd (sy_fs s))"
  by (simp_all add: run_close_callback_def note_event_def upd_fs_def split_beta)

lemma finalize_exact:
  assumes "entry_ok (sy_entries s i)" and "\<not> vsyscall_fd_has_alias_locked i s"
  shows "sy_log (snd (vsyscall_finalize_entry_if_last_alias w i s)) = sy_log s @ close_calls i s"
    and "sy_fd_table (snd (vsyscall_finalize_entry_if_last_alias w i s)) = sy_fd_table s"
    and "sy_entries (snd (vsyscall_finalize_entry_if_last_alias w i s)) = (sy_entries s)(i := (sy_entries s i)\<lparr>fe_closing := True\<rparr>)"
    and "fst (vsyscall_finalize_entry_if_last_alias w i s) =
           (if close_calls i s = [] then O_Ret (R_Long 0)
            else vsyscall_wrapper_from_negative (w_cb_errno w)
                   (fst (w_close_cb w (the (fe_vdev (sy_entries s i))) (fe_owner_fd (sy_entries s i)) (sy_fs s))) EIO)"
  using assms
  by (auto simp: vsyscall_finalize_entry_if_last_alias_def close_calls_def Let_def entry_ok_def split_beta)

text \<open>Closing a descriptor closes it in the kernel; the session ends exactly with its last alias.\<close>

lemma close_exact:
  assumes "fd_ok s" and "vsyscall_fd_lookup fd s = Some i" and "dispatch_close w fd s = (r, s')"
  shows "vsyscall_fd_lookup fd' s' = (if fd' = fd then None else vsyscall_fd_lookup fd' s)"
    and "sy_log s' = sy_log s @ [Kernel_Close fd] @ (if last_alias fd i s then close_calls i s else [])"
    and "fe_closing (sy_entries s' i) = last_alias fd i s"
    and "r = (case w_close w fd of
                Some e \<Rightarrow> O_Fail e
              | None \<Rightarrow>
                  if \<not> last_alias fd i s \<or> close_calls i s = [] then O_Ret (R_Long 0)
                  else vsyscall_wrapper_from_negative (w_cb_errno w)
                         (fst (w_close_cb w (the (fe_vdev (sy_entries s i))) (fe_owner_fd (sy_entries s i)) (sy_fs s))) EIO)"
proof -
  define t where "t = note_event (Kernel_Close fd) (s\<lparr>sy_fd_table := om_erase fd (sy_fd_table s)\<rparr>)"
  have ok: "om_ok (sy_fd_table t)" using assms(1) by (simp add: t_def note_event_def fd_ok_def)
  have e: "entry_ok (sy_entries t i)" "\<not> fe_closing (sy_entries t i)"
    using assms(1) fd_ok_lookup [OF assms(1,2)] by (auto simp: t_def note_event_def fd_ok_def)
  have al: "vsyscall_fd_has_alias_locked i t = (\<not> last_alias fd i s)"
    unfolding alias_iff [OF ok] by (auto simp: t_def note_event_def last_alias_def vsyscall_fd_lookup_def)
  have calls: "close_calls i t = close_calls i s" by (simp add: close_calls_def t_def note_event_def)
  have eq: "dispatch_close w fd s =
      (case w_close w fd of Some e \<Rightarrow> O_Fail e | None \<Rightarrow> fst (vsyscall_finalize_entry_if_last_alias w i t),
       snd (vsyscall_finalize_entry_if_last_alias w i t))"
    using assms(2)
    by (simp add: dispatch_close_def vsyscall_dispatch_fd_mutation_def vsyscall_fd_is_owned_def close_owned_fd_def
        vsyscall_detach_owned_fd_entry_def vsyscall_close_kernel_fd_if_needed_def vsyscall_finalize_detached_owned_fd_def
        vsyscall_kernel_close_fd_def vsyscall_fd_lookup_def t_def split_beta split: option.split)
  have tb: "vsyscall_fd_lookup fd' t = (if fd' = fd then None else vsyscall_fd_lookup fd' s)" "sy_log t = sy_log s @ [Kernel_Close fd]"
      "sy_fs t = sy_fs s" "sy_entries t = sy_entries s"
    by (simp_all add: t_def note_event_def vsyscall_fd_lookup_def)
  have fin: "vsyscall_fd_lookup fd' (snd (vsyscall_finalize_entry_if_last_alias w i t)) = vsyscall_fd_lookup fd' t \<and>
    sy_log (snd (vsyscall_finalize_entry_if_last_alias w i t)) = sy_log t @ (if last_alias fd i s then close_calls i s else []) \<and>
    fe_closing (sy_entries (snd (vsyscall_finalize_entry_if_last_alias w i t)) i) = last_alias fd i s \<and>
    fst (vsyscall_finalize_entry_if_last_alias w i t) =
      (if \<not> last_alias fd i s \<or> close_calls i s = [] then O_Ret (R_Long 0)
       else vsyscall_wrapper_from_negative (w_cb_errno w)
              (fst (w_close_cb w (the (fe_vdev (sy_entries s i))) (fe_owner_fd (sy_entries s i)) (sy_fs s))) EIO)"
  proof (cases "last_alias fd i s")
    case True
    then show ?thesis using finalize_exact [OF e(1), of w] al calls tb by (simp add: vsyscall_fd_lookup_def)
  next
    case False
    then show ?thesis using al e(2) by (simp add: vsyscall_finalize_entry_if_last_alias_def)
  qed
  show "vsyscall_fd_lookup fd' s' = (if fd' = fd then None else vsyscall_fd_lookup fd' s)"
    "sy_log s' = sy_log s @ [Kernel_Close fd] @ (if last_alias fd i s then close_calls i s else [])"
    "fe_closing (sy_entries s' i) = last_alias fd i s"
    "r = (case w_close w fd of
                Some e \<Rightarrow> O_Fail e
              | None \<Rightarrow>
                  if \<not> last_alias fd i s \<or> close_calls i s = [] then O_Ret (R_Long 0)
                  else vsyscall_wrapper_from_negative (w_cb_errno w)
                         (fst (w_close_cb w (the (fe_vdev (sy_entries s i))) (fe_owner_fd (sy_entries s i)) (sy_fs s))) EIO)"
    using assms(3) fin tb eq by (auto split: option.splits)
qed

section \<open>Clearing everything\<close>

text \<open>The numbers in the order of their first occurrence.\<close>

fun first_occurrences :: "nat list \<Rightarrow> nat list \<Rightarrow> nat list" where
  "first_occurrences seen [] = []"
| "first_occurrences seen (x # xs) = (if x \<in> set seen then first_occurrences seen xs else x # first_occurrences (x # seen) xs)"

lemma first_occurrences_set: "set (first_occurrences seen xs) = set xs - set seen"
  by (induction xs arbitrary: seen) auto

lemma first_occurrences_distinct: "distinct (first_occurrences seen xs)"
  by (induction xs arbitrary: seen) (auto simp: first_occurrences_set)

definition is_close_callback :: "event \<Rightarrow> bool" where
  "is_close_callback e \<longleftrightarrow> (case e of Close_Callback _ _ \<Rightarrow> True | Kernel_Close _ \<Rightarrow> False)"

definition keeps_close_fns :: "world \<Rightarrow> bool" where
  "keeps_close_fns w \<longleftrightarrow> (\<forall>v fd fs h. vd_close_fn (fs_vdev (snd (w_close_cb w v fd fs)) h) = vd_close_fn (fs_vdev fs h))"

lemma wait_finalize_exact:
  assumes "entry_ok (sy_entries s i)"
  shows "sy_log (vsyscall_wait_and_finalize_entry_best_effort w i s) = sy_log s @ close_calls i s"
    and "sy_entries (vsyscall_wait_and_finalize_entry_best_effort w i s) = (sy_entries s)(i := (sy_entries s i)\<lparr>fe_closing := True\<rparr>)"
    and "keeps_close_fns w \<Longrightarrow> vd_close_fn (fs_vdev (sy_fs (vsyscall_wait_and_finalize_entry_best_effort w i s)) h) = vd_close_fn (fs_vdev (sy_fs s) h)"
    and "sy_fd_table (vsyscall_wait_and_finalize_entry_best_effort w i s) = sy_fd_table s"
  using assms
  by (auto simp: vsyscall_wait_and_finalize_entry_best_effort_def close_calls_def keeps_close_fns_def Let_def entry_ok_def)

lemma close_calls_finalized:
  assumes "entry_ok (sy_entries s i)" and "keeps_close_fns w"
  shows "close_calls j (vsyscall_wait_and_finalize_entry_best_effort w i s) = close_calls j s"
    and "entry_ok (sy_entries (vsyscall_wait_and_finalize_entry_best_effort w i s) j) = entry_ok (sy_entries s j)"
  using assms by (auto simp: close_calls_def wait_finalize_exact entry_ok_def Let_def split: fd_type.split)

lemma close_calls_filter [simp]: "filter is_close_callback (close_calls i s) = close_calls i s"
  "filter (\<lambda>e. \<not> is_close_callback e) (close_calls i s) = []"
  by (simp_all add: close_calls_def is_close_callback_def Let_def)

lemma close_calls_kernel [simp]: "close_calls i (note_event e s) = close_calls i s"
  by (simp add: close_calls_def note_event_def)

lemma drain_exact:
  assumes "keeps_close_fns w"
  shows "(\<And>i. i \<in> snd ` set t \<Longrightarrow> entry_ok (sy_entries s i)) \<Longrightarrow>
    filter is_close_callback (sy_log (drain_loop w seen t s)) =
      filter is_close_callback (sy_log s) @ concat (map (\<lambda>i. close_calls i s) (first_occurrences seen (map snd t))) \<and>
    filter (\<lambda>e. \<not> is_close_callback e) (sy_log (drain_loop w seen t s)) =
      filter (\<lambda>e. \<not> is_close_callback e) (sy_log s) @ map Kernel_Close (filter (\<lambda>fd. 0 \<le> fd) (map fst t)) \<and>
    sy_fd_table (drain_loop w seen t s) = sy_fd_table s"
proof (induction t arbitrary: seen s)
  case (Cons x t)
  obtain fd i where x: "x = (fd, i)" by fastforce
  define u where "u = (if 0 \<le> fd then note_event (Kernel_Close fd) s else s)"
  have u: "sy_entries u = sy_entries s" "\<And>j. close_calls j u = close_calls j s" "sy_fd_table u = sy_fd_table s"
    "filter is_close_callback (sy_log u) = filter is_close_callback (sy_log s)"
    "filter (\<lambda>e. \<not> is_close_callback e) (sy_log u) =
       filter (\<lambda>e. \<not> is_close_callback e) (sy_log s) @ map Kernel_Close (filter (\<lambda>fd. 0 \<le> fd) [fd])"
    by (auto simp: u_def close_calls_def) (simp_all add: note_event_def is_close_callback_def)
  have loop: "drain_loop w seen (x # t) s =
      (if i \<in> set seen then drain_loop w seen t u
       else drain_loop w (i # seen) t (vsyscall_wait_and_finalize_entry_best_effort w i u))"
    by (simp add: x u_def vsyscall_kernel_close_fd_def Let_def)
  have e: "\<And>j. j \<in> snd ` set t \<Longrightarrow> entry_ok (sy_entries u j)" "entry_ok (sy_entries u i)" using Cons.prems x u(1) by auto
  show ?case
  proof (cases "i \<in> set seen")
    case True
    then show ?thesis using Cons.IH [of u seen] e u loop by (simp add: x)
  next
    case False
    let ?v = "vsyscall_wait_and_finalize_entry_best_effort w i u"
    have "\<And>j. j \<in> snd ` set t \<Longrightarrow> entry_ok (sy_entries ?v j)" using close_calls_finalized(2) [OF e(2) assms] e(1) by simp
    from Cons.IH [OF this, of "i # seen"] show ?thesis
      using False loop u close_calls_finalized(1) [OF e(2) assms] wait_finalize_exact [OF e(2), of w] by (simp add: x)
  qed
qed simp

text \<open>All descriptors are closed in the kernel, and the close callback of each session still open is called once.\<close>

lemma clear_exact:
  assumes "fd_ok s" and "keeps_close_fns w"
  shows "sy_fd_table (pim_vfile_clear w s) = []" and "sy_mmap (pim_vfile_clear w s) = []"
    and "filter is_close_callback (sy_log (pim_vfile_clear w s)) =
      filter is_close_callback (sy_log s) @ concat (map (\<lambda>i. close_calls i s) (first_occurrences [] (map snd (sy_fd_table s))))"
    and "filter (\<lambda>e. \<not> is_close_callback e) (sy_log (pim_vfile_clear w s)) =
      filter (\<lambda>e. \<not> is_close_callback e) (sy_log s) @ map Kernel_Close (filter (\<lambda>fd. 0 \<le> fd) (map fst (sy_fd_table s)))"
proof -
  have e: "i \<in> snd ` set (sy_fd_table s) \<Longrightarrow> entry_ok (sy_entries (s\<lparr>sy_fd_table := []\<rparr>) i)" for i
    using assms(1) by (auto simp: fd_ok_def)
  have c: "close_calls i (s\<lparr>sy_fd_table := []\<rparr>) = close_calls i s" for i by (simp add: close_calls_def)
  note d = drain_exact [OF assms(2), of "sy_fd_table s" "s\<lparr>sy_fd_table := []\<rparr>" "[]", OF e, simplified]
  show "sy_fd_table (pim_vfile_clear w s) = []" "sy_mmap (pim_vfile_clear w s) = []"
    "filter is_close_callback (sy_log (pim_vfile_clear w s)) =
      filter is_close_callback (sy_log s) @ concat (map (\<lambda>i. close_calls i s) (first_occurrences [] (map snd (sy_fd_table s))))"
    "filter (\<lambda>e. \<not> is_close_callback e) (sy_log (pim_vfile_clear w s)) =
      filter (\<lambda>e. \<not> is_close_callback e) (sy_log s) @ map Kernel_Close (filter (\<lambda>fd. 0 \<le> fd) (map fst (sy_fd_table s)))"
    using d by (auto simp: pim_vfile_clear_def vsyscall_close_all_owned_fds_best_effort_def vsyscall_drain_owned_fd_batch_best_effort_def
        vsyscall_clear_mmap_tracking_def upd_fs_def Let_def c)
qed

section \<open>Calls that are not ours\<close>

text \<open>No result of a callback or of a change of the table asks for forwarding.\<close>

lemma wrapper_not_forward [simp]: "vsyscall_wrapper_from_negative e n f \<noteq> O_Forward"
  by (simp add: vsyscall_wrapper_from_negative_def)

lemma finalize_not_forward [simp]: "fst (vsyscall_finalize_entry_if_last_alias w i s) \<noteq> O_Forward"
  by (simp add: vsyscall_finalize_entry_if_last_alias_def Let_def split: option.split prod.split)

lemma close_not_forward [simp]: "fst (close_owned_fd w fd b s) \<noteq> O_Forward"
  by (simp add: close_owned_fd_def vsyscall_finalize_detached_owned_fd_def split: option.split prod.split)
    (metis finalize_not_forward fst_conv)

lemma rebind_not_forward [simp]: "fst (vsyscall_rebind_fd_alias_after_dup w fd new b s) \<noteq> O_Forward"
  by (simp add: vsyscall_rebind_fd_alias_after_dup_def vsyscall_fail_enomem_with_optional_close_def Let_def
      split: option.split prod.split outcome.split)

lemma close_list_not_forward [simp]: "fst (vsyscall_close_owned_fd_list w fds b s) \<noteq> O_Forward"
  by (induction fds arbitrary: s) (auto split: prod.split outcome.split)

lemma sweep_not_forward [simp]: "fst (sweep_loop w fds s) \<noteq> O_Forward"
  by (induction fds arbitrary: s) (auto split: prod.split outcome.split)

lemma close_range_not_forward [simp]: "fst (dispatch_close_range w lo hi fl s) \<noteq> O_Forward"
  by (simp add: dispatch_close_range_def vsyscall_dispatch_fd_mutation_def vsyscall_finalize_close_range_aliases_def
      vsyscall_sweep_close_range_stale_aliases_def Let_def split: option.split prod.split outcome.split)

lemma alloc_tracked_not_forward [simp]: "fst (vsyscall_alloc_tracked_fd w e s) \<noteq> O_Forward"
  by (cases rule: alloc_tracked_cases [of w e s]) simp_all

lemma open_vdev_not_forward [simp]: "fst (vsyscall_dispatch_open_vdev_node w node v fl s) \<noteq> O_Forward"
  by (simp add: vsyscall_dispatch_open_vdev_node_def Let_def split: option.split prod.split)

lemma open_attr_not_forward [simp]: "fst (vsyscall_dispatch_open_attr_node w node e fl s) \<noteq> O_Forward"
  by (cases rule: alloc_tracked_cases [of w e s])
    (simp_all add: vsyscall_dispatch_open_attr_node_def Let_def split: option.split prod.split)

lemma open_dir_not_forward [simp]: "fst (vsyscall_dispatch_open_dir_node w node fl s) \<noteq> O_Forward"
  by (simp add: vsyscall_dispatch_open_dir_node_def)

lemma not_forward_pair: "fst x \<noteq> O_Forward \<Longrightarrow> (x = (O_Forward, s)) = False"
  by auto

lemma open_resolved_forward:
  "vsyscall_dispatch_open_resolved_node n w node fl s = Some (O_Forward, s') \<Longrightarrow> keeps s s'"
proof (induction n arbitrary: node s)
  case (Suc n)
  show ?case
  proof (cases node)
    case (N_Resolved nd b)
    show ?thesis
    proof (cases "vsyscall_validate_open_flags fl")
      case None
      note res = Suc.prems [unfolded N_Resolved vsyscall_dispatch_open_resolved_node.simps None option.case Let_def]
      show ?thesis
      proof (cases "pi_kind nd")
        case VDIR
        then show ?thesis
          using res Suc.IH
          by (auto simp: not_forward_pair [OF open_dir_not_forward] split: if_splits option.splits prod.splits sum.splits dest!: resolve_node_keeps intro: keeps_trans)
      qed (use res in \<open>auto simp: vsyscall_dispatch_open_vsysfs_attr_node_def vsyscall_dispatch_open_vmodule_attr_node_def
             not_forward_pair [OF open_vdev_not_forward] not_forward_pair [OF open_attr_not_forward] split: if_splits option.splits\<close>)
    qed (use Suc.prems N_Resolved in auto)
  next
    case (N_Proc_Fdinfo t)
    then show ?thesis
      using Suc.prems
      by (auto simp: vsyscall_dispatch_open_proc_fdinfo_node_def not_forward_pair [OF alloc_tracked_not_forward] split: option.splits if_splits)
  qed (use Suc.prems in simp)
qed simp

lemma openat_forward: "dispatch_openat n w dfd p fl s = Some (O_Forward, s') \<Longrightarrow> keeps s s'"
proof -
  assume a: "dispatch_openat n w dfd p fl s = Some (O_Forward, s')"
  obtain q t where q: "vsyscall_resolve_open_node_for_dispatch dfd p s = (q, t)" by fastforce
  then have "keeps s t"
    by (auto simp: vsyscall_resolve_open_node_for_dispatch_def Let_def split: sum.splits option.splits if_splits prod.splits
        dest: lookup_node_keeps)
  then show ?thesis
    using a q open_resolved_forward by (auto simp: dispatch_openat_def split: if_splits intro: keeps_trans)
qed

definition ranges_ok :: "mmap_table \<Rightarrow> bool" where
  "ranges_ok t \<longleftrightarrow> om_ok t \<and> (\<forall>(a, l) \<in> set t. vsyscall_range_end a l \<noteq> None)"

lemma munmap_forward:
  assumes "ranges_ok t" and "dispatch_munmap err l r a n t = (None, t')"
  shows "t' = t"
proof (cases "takeWhile (\<lambda>e. fst e \<le> a) t")
  case Nil
  then show ?thesis
    using assms(2) by (simp add: dispatch_munmap_def vsyscall_prepare_munmap_context_def split: if_splits)
next
  case (Cons x xs)
  obtain b m where x: "last (x # xs) = (b, m)" by fastforce
  then have "(b, m) \<in> set t" using floor_entry(1) [OF _ Cons] assms(1) by (simp add: ranges_ok_def)
  then obtain e where "vsyscall_range_end b m = Some e" using assms(1) by (auto simp: ranges_ok_def)
  then show ?thesis
    using assms(2) Cons x
    by (auto simp: dispatch_munmap_def vsyscall_prepare_munmap_context_def split: if_splits option.splits)
qed

lemma owned_callback_forward:
  assumes "fd_ok s" and "vsyscall_dispatch_owned_vdev_callback w fd m e1 e2 cb s = (O_Forward, s')"
  shows "vsyscall_fd_lookup fd s = None" and "s' = s"
proof -
  have "fst (vsyscall_dispatch_vdev_entry_call w m e1 e2 cb i t) \<noteq> O_Forward" for i t
    by (simp add: vsyscall_dispatch_vdev_entry_call_def Let_def split: option.split prod.split)
  then show "vsyscall_fd_lookup fd s = None" "s' = s"
    using assms(2)
    by (auto simp: vsyscall_dispatch_owned_vdev_callback_def vsyscall_dispatch_owned_fd_def acquire_ok [OF assms(1)] apsnd_def
        map_prod_def split: option.splits prod.splits) (metis fst_conv)+
qed

lemma mmap_forward:
  assumes "fd_ok s" and "dispatch_mmap w len fd s = (O_Forward, s')"
  shows "vsyscall_fd_lookup fd s = None" and "s' = s\<lparr>sy_mmap := vsyscall_track_mmap_region (w_alloc_track w) 0 len (sy_mmap s)\<rparr>"
proof -
  obtain t where t: "vsyscall_dispatch_owned_vdev_callback w fd vd_mmap_fn ENODEV EBADF (w_mmap_cb w) s = (O_Forward, t)"
    "s' = t\<lparr>sy_mmap := vsyscall_track_mmap_region (w_alloc_track w) 0 len (sy_mmap t)\<rparr>"
    using assms(2) by (auto simp: dispatch_mmap_def split: prod.splits)
  from owned_callback_forward [OF assms(1) t(1)] t(2)
  show "vsyscall_fd_lookup fd s = None" "s' = s\<lparr>sy_mmap := vsyscall_track_mmap_region (w_alloc_track w) 0 len (sy_mmap s)\<rparr>" by simp_all
qed

lemma forward_keeps:
  assumes "fd_ok s" and "ranges_ok (sy_mmap s)" and "pim_vsyscall_dispatch n w c s = Some (O_Forward, s')"
    and "\<nexists>len fd. c = SYS_mmap len fd"
  shows "keeps s s'"
proof (cases c)
  case (SYS_openat dfd p fl)
  then show ?thesis using assms(3) openat_forward by simp
next
  case (SYS_munmap a n)
  then show ?thesis
    using assms(2,3) munmap_forward by (fastforce simp: dispatch_munmap_call_def split: prod.splits option.splits sum.splits)
next
  case (SYS_close fd)
  then show ?thesis
    using assms(3)
    by (auto simp: dispatch_close_def vsyscall_dispatch_fd_mutation_def not_forward_pair [OF close_not_forward] split: if_splits)
next
  case (SYS_dup fd)
  then show ?thesis
    using assms(3) by (auto simp: dispatch_dup_def vsyscall_dispatch_fd_mutation_def Let_def split: if_splits sum.splits)
      (metis rebind_not_forward fst_conv)
next
  case (SYS_dup2 fd new)
  then show ?thesis
    using assms(3) by (auto simp: dispatch_dup2_enter_def vsyscall_dispatch_fd_mutation_def vsyscall_finalize_dup2_or_dup3_aliases_def
        split: if_splits sum.splits prod.splits) (metis rebind_not_forward fst_conv)
next
  case (SYS_dup3 fd new)
  then show ?thesis
    using assms(3) by (auto simp: dispatch_dup2_enter_def vsyscall_dispatch_fd_mutation_def vsyscall_finalize_dup2_or_dup3_aliases_def
        split: if_splits sum.splits prod.splits) (metis rebind_not_forward fst_conv)
next
  case (SYS_close_range lo hi fl)
  then show ?thesis using assms(3) close_range_not_forward [of w lo hi fl s] by simp
next
  case (SYS_mmap len fd)
  then show ?thesis using assms(4) by simp
qed (use views_keeps [OF assms(1) _ assms(3)] in simp_all)

end
