(* ===== verification/Vsys_Links.thy ===== *)
theory Vsys_Links
  imports Vsys_Dispatch Vpath_Props
begin

text \<open>
  Symbolic links: the relative target that \<open>readlink\<close> gives leads from the directory of the link to the target, and
  \<open>open\<close>, which follows links without counting them, returns when no device directory is itself a class directory, and
  never returns on two links that name each other.
\<close>

section \<open>Relative targets\<close>

lemma split_on_append: "split_on (u @ slash # v) = split_on u @ split_on v"
  by (induction u) simp_all

lemma components_append: "components (u @ slash # v) = components u @ components v"
  by (simp add: components_def split_on_append)

lemma components_joined:
  assumes "\<forall>x \<in> set xs. x \<noteq> [] \<and> slash \<notin> set x"
  shows "components (join_segments xs) = xs"
  using assms
proof (induction xs rule: join_segments.induct)
  case (3 x y xs)
  then show ?case by (simp add: components_def split_on_segment)
qed (auto simp: components_def split_on_last)

lemma join_snoc: "xs \<noteq> [] \<Longrightarrow> join_segments (xs @ [x]) = join_segments xs @ slash # x"
  by (induction xs rule: join_segments.induct) simp_all

lemma split_components: "vsyscall_split_absolute_path_components p = components p"
proof (induction p rule: vsyscall_split_absolute_path_components.induct)
  case (1 p)
  let ?x = "dropWhile (\<lambda>c. c = slash) p"
  show ?case
  proof (cases "?x = []")
    case True
    then have "components p = []" using components_drop [of p] by (metis components_nil)
    then show ?thesis using True by (subst vsyscall_split_absolute_path_components.simps) (simp add: Let_def)
  next
    case False
    then have "hd ?x \<noteq> slash" using hd_dropWhile [of "\<lambda>c. c = slash" p] by simp
    then show ?thesis
      using False 1 [OF refl False] components_first [OF False] components_drop [of p]
      by (subst vsyscall_split_absolute_path_components.simps) (simp add: Let_def del: dropWhile_eq_Nil_conv)
  qed
qed

lemma link_parent_components:
  assumes "\<forall>x \<in> set xs. segment_ok x"
  shows "components (link_parent_of (slash # join_segments xs)) = butlast xs \<and> hd (link_parent_of (slash # join_segments xs)) = slash \<and>
    link_parent_of (slash # join_segments xs) \<noteq> []"
proof (cases xs rule: rev_cases)
  case Nil
  then show ?thesis by (simp add: link_parent_of_def components_def)
next
  case (snoc ys x)
  have x: "slash \<notin> set x" "\<forall>y \<in> set ys. segment_ok y" using assms snoc by (auto simp: segment_ok_def)
  have last_part: "dropWhile (\<lambda>c. c \<noteq> slash) (rev (u @ slash # x)) = slash # rev u" for u
  proof -
    have "dropWhile (\<lambda>c. c \<noteq> slash) (rev x @ slash # rev u) = dropWhile (\<lambda>c. c \<noteq> slash) (slash # rev u)"
      by (rule dropWhile_append2) (use x(1) in auto)
    then show ?thesis by simp
  qed
  show ?thesis
  proof (cases "ys = []")
    case True
    then show ?thesis using snoc last_part [of "[]"] by (simp add: link_parent_of_def components_def)
  next
    case False
    then have "link_parent_of (slash # join_segments xs) = slash # join_segments ys"
      using snoc last_part [of "slash # join_segments ys"] by (simp add: link_parent_of_def join_snoc)
    moreover have "components (slash # join_segments ys) = ys"
      using components_join [OF x(2)] components_append [of "[]"] by simp
    ultimately show ?thesis using snoc by simp
  qed
qed

lemma common_parts_take: "take (common_parts as bs) as = take (common_parts as bs) bs \<and> common_parts as bs \<le> length as"
  by (induction as bs rule: common_parts.induct) simp_all

lemma push_dots: "foldl push_segment stack (replicate m ''..'') = take (length stack - m) stack"
proof (induction m arbitrary: stack)
  case (Suc m)
  then show ?case by (simp add: push_segment_def butlast_conv_take min_def)
qed simp

lemma relative_target_exact:
  assumes "vfile_normalize_absolute_path link_path = Some link_norm" and "vfile_normalize_absolute_path target_abs = Some target_norm"
  shows "\<exists>rel. vsyscall_make_readlink_relative_target link_path target_abs = Some rel \<and>
    vfile_normalize_absolute_path (link_parent_of link_norm @ slash # rel) = Some target_norm"
proof -
  define dir where "dir = butlast (resolved link_path)"
  define goal where "goal = resolved target_abs"
  define c where "c = common_parts dir goal"
  let ?parts = "replicate (length dir - c) ''..'' @ drop c goal"
  let ?rel = "if join_segments ?parts = [] then ''.'' else join_segments ?parts"
  have norm: "link_norm = slash # join_segments (resolved link_path)" "target_norm = slash # join_segments goal"
    using assms by (auto simp: normalize_path goal_def split: if_splits)
  have p: "components (link_parent_of link_norm) = dir" "hd (link_parent_of link_norm) = slash" "link_parent_of link_norm \<noteq> []"
    using link_parent_components [OF resolved_ok [of link_path]] by (simp_all add: norm(1) dir_def)
  have t: "components target_norm = goal"
    using components_join [OF resolved_ok [of target_abs]] components_append [of "[]"] by (simp add: norm(2) goal_def)
  have rel: "vsyscall_make_readlink_relative_target link_path target_abs = Some ?rel"
    by (simp add: vsyscall_make_readlink_relative_target_def assms split_components p(1) t c_def Let_def)
  have segs: "\<forall>x \<in> set dir. segment_ok x" "\<forall>x \<in> set goal. segment_ok x"
    using resolved_ok by (auto simp: dir_def goal_def dest: in_set_butlastD)
  have parts: "components (join_segments ?parts) = ?parts"
  proof (rule components_joined, rule ballI)
    fix x assume "x \<in> set ?parts"
    then have "x = ''..'' \<or> x \<in> set goal" by (auto dest: in_set_dropD)
    then show "x \<noteq> [] \<and> slash \<notin> set x"
    proof
      assume "x \<in> set goal"
      then show ?thesis using segs(2) unfolding segment_ok_def by blast
    qed simp
  qed
  have c: "take c dir = take c goal" "c \<le> length dir" using common_parts_take [of dir goal] by (simp_all add: c_def)
  have "foldl push_segment dir ?parts = foldl push_segment (take c dir) (drop c goal)"
    using c(2) by (simp add: push_dots)
  also have "\<dots> = goal" using c(1) segs(2) push_segments_id [of "drop c goal" "take c dir"] by (metis append_take_drop_id in_set_dropD)
  finally have walk: "foldl push_segment dir ?parts = goal" .
  have "foldl push_segment dir (components ?rel) = goal"
  proof (cases "join_segments ?parts = []")
    case True
    then have "?parts = []" using parts by (metis components_nil)
    then show ?thesis using True walk by (simp add: components_def push_segment_def)
  next
    case False
    then show ?thesis using walk parts by simp
  qed
  moreover have "foldl push_segment [] dir = dir" using push_segments_id [OF segs(1), of "[]"] by simp
  ultimately have "resolved (link_parent_of link_norm @ slash # ?rel) = goal"
    by (simp add: resolved_def components_append p(1))
  then have "vfile_normalize_absolute_path (link_parent_of link_norm @ slash # ?rel) = Some target_norm"
    using p(2,3) by (simp add: normalize_path norm(2) hd_append)
  then show ?thesis using rel by blast
qed

section \<open>Resolution leaves the registries alone\<close>

lemma build_again: "vfile_build_virtual_fs_snapshot (snd (vfile_build_virtual_fs_snapshot st)) = vfile_build_virtual_fs_snapshot st"
  by (auto simp: vfile_build_virtual_fs_snapshot_def snapshot_begin_def snapshot_publish_def vfile_get_cached_virtual_fs_snapshot_locked_def
      split: option.split)

lemma resolve_state: "snd (vfile_resolve_virtual_node p st) = snd (vfile_build_virtual_fs_snapshot st)"
  by (simp add: vfile_resolve_virtual_node_def split: prod.split option.split)

lemma resolve_again: "fst (vfile_resolve_virtual_node p (snd (vfile_build_virtual_fs_snapshot st))) = fst (vfile_resolve_virtual_node p st)"
  by (simp add: vfile_resolve_virtual_node_def build_again split: prod.split option.split)

lemma symlink_build:
  "vsyscall_is_vsysfs_class_symlink_node node (snd (vfile_build_virtual_fs_snapshot st)) = vsyscall_is_vsysfs_class_symlink_node node st"
proof -
  have "g_vsysfs_root_list (snd (vfile_build_virtual_fs_snapshot st)) = g_vsysfs_root_list st"
    "fs_vsysfs (snd (vfile_build_virtual_fs_snapshot st)) = fs_vsysfs st"
    "fs_vsysfs_root (snd (vfile_build_virtual_fs_snapshot st)) = fs_vsysfs_root st"
    by (simp_all add: vfile_build_virtual_fs_snapshot_def snapshot_begin_def snapshot_publish_def split: option.split)
  then show ?thesis by (simp add: vsyscall_is_vsysfs_class_symlink_node_def cong: option.case_cong vfile_virtual_path_kind.case_cong)
qed

text \<open>A node has the normal form of the path that led to it.\<close>

lemma resolve_node_path:
  "fst (vfile_resolve_virtual_node p st) = Inr node \<Longrightarrow> vfile_normalize_absolute_path p = Some (pi_path node)"
  by (auto simp: vfile_resolve_virtual_node_def vfile_try_resolve_non_dir_node_def vfile_try_resolve_attr_node_def
      vfile_bind_vsysfs_attr_node_def vfile_bind_vmodule_attr_node_def vfile_try_resolve_vdev_node_def vfile_try_resolve_dir_node_def
      path_info_def split: prod.splits option.splits attr_owner.splits)

section \<open>Links that end\<close>

definition dirs_apart :: "vfs \<Rightarrow> bool" where
  "dirs_apart st \<longleftrightarrow> (\<forall>h h'. vfile_normalize_absolute_path (vs_devices_dir (fs_vsysfs st h)) \<noteq> Some (vs_class_dir (fs_vsysfs st h')))"

lemma symlink_target:
  "vsyscall_is_vsysfs_class_symlink_node node st = Some t \<Longrightarrow>
     \<exists>h. t = vs_devices_dir (fs_vsysfs st h) \<and> pi_path node = vs_class_dir (fs_vsysfs st h)"
  by (auto simp: vsyscall_is_vsysfs_class_symlink_node_def Let_def split: vfile_virtual_path_kind.splits option.splits if_splits)

lemma target_is_no_link:
  assumes "dirs_apart st" and "vsyscall_is_vsysfs_class_symlink_node node st = Some t" and "fst (vfile_resolve_virtual_node t st) = Inr node'"
  shows "vsyscall_is_vsysfs_class_symlink_node node' st = None"
proof (rule ccontr)
  assume "vsyscall_is_vsysfs_class_symlink_node node' st \<noteq> None"
  then obtain t' h' where "pi_path node' = vs_class_dir (fs_vsysfs st h')" using symlink_target by blast
  moreover obtain h where "t = vs_devices_dir (fs_vsysfs st h)" using symlink_target [OF assms(2)] by blast
  ultimately show False using assms(1) resolve_node_path [OF assms(3)] by (auto simp: dirs_apart_def)
qed

lemma open_no_link:
  assumes "\<And>nd b. node = N_Resolved nd b \<Longrightarrow> vsyscall_is_vsysfs_class_symlink_node nd (sy_fs s) = None"
  shows "vsyscall_dispatch_open_resolved_node (Suc n) w node fl s = vsyscall_dispatch_open_resolved_node (Suc 0) w node fl s"
    and "vsyscall_dispatch_open_resolved_node (Suc n) w node fl s \<noteq> None"
  using assms by (cases node; auto simp: Let_def split: option.split vfile_virtual_path_kind.split)+

lemma open_resolved_returns:
  assumes "dirs_apart (sy_fs s)"
  shows "\<exists>r. \<forall>n. vsyscall_dispatch_open_resolved_node (Suc (Suc n)) w node fl s = Some r"
proof (cases "\<exists>nd b t. node = N_Resolved nd b \<and> vsyscall_is_vsysfs_class_symlink_node nd (sy_fs s) = Some t")
  case False
  then have no: "\<And>nd b. node = N_Resolved nd b \<Longrightarrow> vsyscall_is_vsysfs_class_symlink_node nd (sy_fs s) = None" by auto
  have "vsyscall_dispatch_open_resolved_node (Suc 0) w node fl s \<noteq> None" by (rule open_no_link(2)) (rule no)
  moreover have "vsyscall_dispatch_open_resolved_node (Suc n) w node fl s = vsyscall_dispatch_open_resolved_node (Suc 0) w node fl s" for n
    by (rule open_no_link(1)) (rule no)
  ultimately show ?thesis by (metis option.exhaust)
next
  case True
  then obtain nd b t where nd: "node = N_Resolved nd b" "vsyscall_is_vsysfs_class_symlink_node nd (sy_fs s) = Some t" by blast
  obtain q u where q: "resolve_node t s = (q, u)" by fastforce
  have fs: "sy_fs u = snd (vfile_build_virtual_fs_snapshot (sy_fs s))" "fst (vfile_resolve_virtual_node t (sy_fs s)) = q"
    using q resolve_state [of t "sy_fs s"] by (auto simp: resolve_node_def upd_fs_def split: prod.splits)
  have "\<exists>r. \<forall>n. vsyscall_dispatch_open_resolved_node (Suc n) w (N_Resolved nd' b) fl u = Some r" if "q = Inr nd'" for nd'
  proof -
    have no: "vsyscall_is_vsysfs_class_symlink_node nd' (sy_fs u) = None"
      using target_is_no_link [OF assms nd(2)] fs that by (simp add: symlink_build)
    have "vsyscall_dispatch_open_resolved_node (Suc 0) w (N_Resolved nd' b) fl u \<noteq> None" by (rule open_no_link(2)) (use no in simp)
    moreover have "vsyscall_dispatch_open_resolved_node (Suc n) w (N_Resolved nd' b) fl u =
        vsyscall_dispatch_open_resolved_node (Suc 0) w (N_Resolved nd' b) fl u" for n by (rule open_no_link(1)) (use no in simp)
    ultimately show ?thesis by (metis option.exhaust)
  qed
  then obtain r where r: "q = Inr nd' \<Longrightarrow> vsyscall_dispatch_open_resolved_node (Suc n) w (N_Resolved nd' b) fl u = Some r" for n nd'
    by (cases q) auto
  have kind: "pi_kind nd = VDIR"
    using nd(2) by (auto simp: vsyscall_is_vsysfs_class_symlink_node_def split: vfile_virtual_path_kind.splits)
  show ?thesis
    unfolding nd(1) vsyscall_dispatch_open_resolved_node.simps(4) [of "Suc _"]
    using q nd(2) kind r
    by (cases "vsyscall_validate_open_flags fl"; cases "pi_path nd = []"; cases "(ucast fl :: u32) AND kO_NOFOLLOW = 0"; cases q)
      (auto simp: Let_def simp del: vsyscall_dispatch_open_resolved_node.simps split: option.split_asm option.split)
qed

lemma openat_returns:
  assumes "dirs_apart (sy_fs s)"
  shows "\<exists>r. \<forall>n. dispatch_openat (Suc (Suc n)) w dfd p fl s = Some r"
proof -
  obtain q u where q: "vsyscall_resolve_open_node_for_dispatch dfd p s = (q, u)" by fastforce
  then have "sy_fs u = sy_fs s \<or> sy_fs u = snd (vfile_build_virtual_fs_snapshot (sy_fs s))"
    using resolve_state
    by (auto simp: vsyscall_resolve_open_node_for_dispatch_def vsyscall_dispatch_lookup_node_from_resolved_path_def resolve_node_def upd_fs_def Let_def
        split: sum.splits option.splits if_splits prod.splits) (metis snd_conv)+
  moreover have "fs_vsysfs (snd (vfile_build_virtual_fs_snapshot st)) = fs_vsysfs st" for st
    by (simp add: vfile_build_virtual_fs_snapshot_def snapshot_begin_def snapshot_publish_def split: option.split)
  ultimately have "dirs_apart (sy_fs u)" using assms by (auto simp: dirs_apart_def)
  then obtain r where "\<forall>n. vsyscall_dispatch_open_resolved_node (Suc (Suc n)) w q fl u = Some r" using open_resolved_returns by blast
  then show ?thesis using q by (cases p) (auto simp: dispatch_openat_def)
qed

section \<open>Links that go round\<close>

lemma open_loop:
  assumes "fst (vfile_resolve_virtual_node a st) = Inr na" and "fst (vfile_resolve_virtual_node b st) = Inr nb"
    and "pi_kind na = VDIR" and "pi_kind nb = VDIR" and "pi_path na \<noteq> []" and "pi_path nb \<noteq> []"
    and "vsyscall_is_vsysfs_class_symlink_node na st = Some b" and "vsyscall_is_vsysfs_class_symlink_node nb st = Some a"
    and "vsyscall_validate_open_flags fl = None" and "(ucast fl :: u32) AND kO_NOFOLLOW = 0" and "nd = na \<or> nd = nb"
    and "sy_fs s = snd (vfile_build_virtual_fs_snapshot st)"
  shows "vsyscall_dispatch_open_resolved_node n w (N_Resolved nd own) fl s = None"
  using assms(11,12)
proof (induction n arbitrary: nd s)
  case (Suc n)
  have r: "resolve_node p s = (fst (vfile_resolve_virtual_node p st), s)" for p
    using resolve_state [of p "sy_fs s"] resolve_again [of p st]
    by (auto simp: resolve_node_def upd_fs_def Suc.prems(2) build_again split: prod.split)
  show ?case
    using Suc.prems Suc.IH [of _ s] assms by (auto simp: r symlink_build Let_def)
qed simp

end
