(* ===== verification/Vattr_Props.thy ===== *)
theory Vattr_Props
  imports Vattr Vfs_Inv
begin

text \<open>
  What a descriptor of an attribute promises: it serves the current value, a write changes exactly the bytes at its
  position, and every other descriptor sees it.
\<close>

section \<open>Current descriptors\<close>

text \<open>The copy was made at the present revision or an earlier one, and at the present revision it is the value.\<close>

definition current :: "vfs \<Rightarrow> vfile_fd_entry \<Rightarrow> bool" where
  "current st e \<longleftrightarrow>
     (case attr_table st e of
        None \<Rightarrow> False
      | Some (attrs, access, revision) \<Rightarrow>
          fe_sysfs_cached_attr_revision e \<le> revision \<and>
          (fe_sysfs_cached_attr_revision e = revision \<longrightarrow>
             map_of attrs (fe_sysfs_attr_name e) = Some (fe_sysfs_cached_value e) \<and>
             fe_sysfs_cached_attr_access e = access_of access (fe_sysfs_attr_name e)))"

definition same_attr :: "vfile_fd_entry \<Rightarrow> vfile_fd_entry \<Rightarrow> bool" where
  "same_attr e d \<longleftrightarrow> fe_type e = fe_type d \<and> fe_vsysfs e = fe_vsysfs d \<and> fe_vmodule e = fe_vmodule d \<and>
     fe_sysfs_attr_name e = fe_sysfs_attr_name d"

text \<open>The value and the access mode of the attribute a descriptor is for.\<close>

definition attr_now :: "vfs \<Rightarrow> vfile_fd_entry \<Rightarrow> (string \<times> int) option" where
  "attr_now st e =
     (case attr_table st e of
        None \<Rightarrow> None
      | Some (attrs, access, revision) \<Rightarrow>
          map_option (\<lambda>v. (v, access_of access (fe_sysfs_attr_name e))) (map_of attrs (fe_sysfs_attr_name e)))"

lemma same_attr_table: "same_attr e d \<Longrightarrow> attr_table st e = attr_table st d"
  by (simp add: same_attr_def attr_table_def split: fd_type.split)

lemma same_attr_now: "same_attr e d \<Longrightarrow> attr_now st e = attr_now st d"
  using same_attr_table [of e d st] by (simp add: attr_now_def same_attr_def split: option.split)

lemma attr_table_type: "attr_table st e = Some x \<Longrightarrow> fe_type e = FD_VSYSFS \<or> fe_type e = FD_VMODULE"
  by (auto simp: attr_table_def split: fd_type.splits)

lemma attr_table_cached [simp]:
  "attr_table st (e\<lparr>fe_sysfs_cached_value := v\<rparr>) = attr_table st e" "attr_table st (e\<lparr>fe_sysfs_read_offset := p\<rparr>) = attr_table st e"
  "attr_table st (e\<lparr>fe_sysfs_cached_attr_access := a\<rparr>) = attr_table st e" "attr_table st (e\<lparr>fe_sysfs_cached_attr_revision := r\<rparr>) = attr_table st e"
  "attr_table st (clamp_offset e) = attr_table st e" "attr_table (vfile_notify_virtual_fs_changed st) e = attr_table st e"
  by (simp_all add: attr_table_def clamp_offset_def vfile_notify_virtual_fs_changed_def Let_def cong: fd_type.case_cong)

lemma clamp_offset_simps [simp]:
  "fe_type (clamp_offset e) = fe_type e" "fe_flags (clamp_offset e) = fe_flags e" "fe_sysfs_attr_name (clamp_offset e) = fe_sysfs_attr_name e"
  "fe_sysfs_cached_value (clamp_offset e) = fe_sysfs_cached_value e" "fe_sysfs_cached_attr_access (clamp_offset e) = fe_sysfs_cached_attr_access e"
  "fe_sysfs_cached_attr_revision (clamp_offset e) = fe_sysfs_cached_attr_revision e" "fe_vsysfs (clamp_offset e) = fe_vsysfs e"
  "fe_vmodule (clamp_offset e) = fe_vmodule e"
  by (simp_all add: clamp_offset_def)

text \<open>After a refresh the cache holds the attribute as it is.\<close>

lemma refresh_current:
  assumes "current st e" and "attr_now st e = Some (v, x)"
  obtains e' where "vsyscall_attr_refresh_cache_locked True st e = (None, e')" "same_attr e' e" "fe_flags e' = fe_flags e"
    "fe_sysfs_cached_value e' = v" "fe_sysfs_cached_attr_access e' = x" "current st e'"
    "fe_sysfs_read_offset e' = fe_sysfs_read_offset e \<or> e' = clamp_offset e'"
    "fe_sysfs_read_offset e' = (if fe_sysfs_cached_attr_revision e = snd (snd (the (attr_table st e))) then fe_sysfs_read_offset e
       else min (fe_sysfs_read_offset e) (of_nat (length v)))"
proof -
  obtain attrs access revision where t: "attr_table st e = Some (attrs, access, revision)"
    using assms(1) by (auto simp: current_def split: option.splits)
  have v: "map_of attrs (fe_sysfs_attr_name e) = Some v" "x = access_of access (fe_sysfs_attr_name e)"
    using assms(2) t by (auto simp: attr_now_def)
  have ty: "fe_type e \<noteq> FD_PROC_FDINFO" using attr_table_type [OF t] by auto
  show ?thesis
  proof (cases "fe_sysfs_cached_attr_revision e = revision")
    case True
    show ?thesis
      by (rule that [of e]) (use True t v ty assms(1) in \<open>auto simp: vsyscall_attr_refresh_cache_locked_def same_attr_def current_def\<close>)
  next
    case False
    let ?e = "clamp_offset (e\<lparr>fe_sysfs_cached_value := v, fe_sysfs_cached_attr_access := x, fe_sysfs_cached_attr_revision := revision\<rparr>)"
    have "fe_sysfs_read_offset ?e = min (fe_sysfs_read_offset e) (of_nat (length v))"
      by (auto simp: clamp_offset_def min_def)
    moreover have "?e = clamp_offset ?e" by (auto simp: clamp_offset_def)
    ultimately show ?thesis
      by (intro that [of ?e]) (use False t v ty in \<open>auto simp: vsyscall_attr_refresh_cache_locked_def same_attr_def current_def\<close>)
  qed
qed

section \<open>Writing\<close>

lemma put_attr_table_get:
  assumes "attr_table st e = Some (attrs, access, revision)"
  shows "attr_table (put_attr_table e attrs' revision' st) e = Some (attrs', access, revision')"
  using assms by (auto simp: attr_table_def put_attr_table_def set_vsysfs_def set_vmodule_def split: fd_type.splits)

lemma write_exact:
  assumes "current st e" and "attr_now st e = Some (v, x)" and "data \<noteq> []" and "length data < 2 ^ 64"
    and "dispatch_attr_write True True True False data (e, st) = (Inr n, e', st')"
  obtains p where "n = length data" "attr_now st' e = Some (splice (unat p) data v, x)" "same_attr e' e"
    "current st' e'" "fe_sysfs_read_offset e' = p + of_nat n" "unat p + n < 2 ^ 64"
    "p = (if fe_flags e AND kO_APPEND \<noteq> 0 then of_nat (length v)
          else if fe_sysfs_cached_attr_revision e = snd (snd (the (attr_table st e))) then fe_sysfs_read_offset e
          else min (fe_sysfs_read_offset e) (of_nat (length v)))"
    "\<And>attrs access rev. attr_table st e = Some (attrs, access, rev) \<Longrightarrow>
       attr_table st' e = Some (om_insert (fe_sysfs_attr_name e) (splice (unat p) data v) attrs, access, vfile_bump_nonzero_revision rev)"
proof -
  obtain attrs access rev where t: "attr_table st e = Some (attrs, access, rev)"
    using assms(1) by (auto simp: current_def split: option.splits)
  have v: "map_of attrs (fe_sysfs_attr_name e) = Some v" "x = access_of access (fe_sysfs_attr_name e)"
    using assms(2) t by (auto simp: attr_now_def)
  obtain e1 where e1: "vsyscall_attr_refresh_cache_locked True st e = (None, e1)" "same_attr e1 e" "fe_flags e1 = fe_flags e"
    "fe_sysfs_cached_value e1 = v" "fe_sysfs_cached_attr_access e1 = x"
    "fe_sysfs_read_offset e1 = (if fe_sysfs_cached_attr_revision e = snd (snd (the (attr_table st e))) then fe_sysfs_read_offset e
       else min (fe_sysfs_read_offset e) (of_nat (length v)))"
    using refresh_current [OF assms(1,2)] by metis
  define p where "p = (if fe_flags e AND kO_APPEND \<noteq> 0 then of_nat (length v) else fe_sysfs_read_offset e1)"
  have t1: "attr_table st e1 = Some (attrs, access, rev)" "fe_sysfs_attr_name e1 = fe_sysfs_attr_name e"
    using same_attr_table [OF e1(2)] t e1(2) by (simp_all add: same_attr_def)
  have count: "(of_nat (length data) :: u64) \<noteq> 0" "unat (of_nat (length data) :: u64) = length data"
    using assms(3,4) by (auto simp: unat_of_nat word_unat_eq_iff)
  let ?new = "splice (unat p) data v" and ?rev = "vfile_bump_nonzero_revision rev"
  let ?e' = "e1\<lparr>fe_sysfs_cached_attr_access := x, fe_sysfs_cached_attr_revision := ?rev, fe_sysfs_cached_value := ?new,
                 fe_sysfs_read_offset := p + of_nat (length data)\<rparr>"
  let ?s = "put_attr_table e1 (om_insert (fe_sysfs_attr_name e) ?new attrs) ?rev st"
  have r: "n = length data \<and> e' = ?e' \<and> (st' = ?s \<or> st' = vfile_notify_virtual_fs_changed ?s) \<and> \<not> p + of_nat (length data) < p"
    using assms(5) count(1) e1 t1 v
    by (auto simp: dispatch_attr_write_def Let_def p_def split: if_splits)
  have s: "attr_table st' e1 = Some (om_insert (fe_sysfs_attr_name e) ?new attrs, access, ?rev)"
    using r put_attr_table_get [OF t1(1)] by auto
  then have se: "attr_table st' e = Some (om_insert (fe_sysfs_attr_name e) ?new attrs, access, ?rev)"
    using same_attr_table [OF e1(2)] by simp
  have wrap: "unat p + length data < 2 ^ 64"
  proof (rule ccontr)
    assume c: "\<not> unat p + length data < 2 ^ 64"
    have "unat (p + of_nat (length data)) = (unat p + length data) mod 2 ^ 64" using count(2) by (simp add: unat_word_ariths)
    also have "\<dots> = unat p + length data - 2 ^ 64"
      using c assms(4) unsigned_less [of p, where ?'a = nat] by (simp add: mod_if)
    finally have "unat (p + of_nat (length data)) < unat p" using assms(4) c by simp
    then show False using r by (simp add: word_less_nat_alt)
  qed
  show ?thesis
  proof (rule that [of p])
    show "attr_now st' e = Some (?new, x)" using se v(2) by (simp add: attr_now_def)
    show "current st' e'" using r s t1(2) v(2) by (simp add: current_def)
    show "same_attr e' e" using r e1(2) by (simp add: same_attr_def)
    show "attr_table st' e = Some (om_insert (fe_sysfs_attr_name e) ?new attrs', access', vfile_bump_nonzero_revision rev')"
      if "attr_table st e = Some (attrs', access', rev')" for attrs' access' rev' using se t that by simp
  qed (use r wrap e1(6) p_def in auto)
qed

section \<open>Reading what was written\<close>

lemma bump_greater: "rev \<noteq> - 1 \<Longrightarrow> r \<le> rev \<Longrightarrow> r < vfile_bump_nonzero_revision rev" for r rev :: u64
proof -
  assume a: "rev \<noteq> - 1" "r \<le> rev"
  then have "rev + 1 \<noteq> 0" using eq_neg_iff_add_eq_0 [of rev 1] by simp
  moreover from this have "unat (rev + 1) = unat rev + 1" using unatSuc [of rev] by (simp add: add.commute)
  ultimately show ?thesis using a(2) by (simp add: vfile_bump_nonzero_revision_def word_less_nat_alt word_le_nat_alt)
qed

text \<open>What another descriptor of the same attribute has after a write.\<close>

lemma write_seen:
  assumes "current st e" and "attr_now st e = Some (v, x)" and "data \<noteq> []" and "length data < 2 ^ 64"
    and "dispatch_attr_write True True True False data (e, st) = (Inr n, e', st')"
    and "same_attr d e" and "current st d" and "snd (snd (the (attr_table st e))) \<noteq> - 1"
  obtains p where "n = length data" "attr_now st' d = Some (splice p data v, x)" "current st' d"
proof -
  obtain attrs access rev where t: "attr_table st e = Some (attrs, access, rev)"
    using assms(1) by (auto simp: current_def split: option.splits)
  have same: "attr_table st d = attr_table st e" "attr_table st' d = attr_table st' e" "attr_now st' d = attr_now st' e"
    using same_attr_table [OF assms(6)] same_attr_now [OF assms(6)] by simp_all
  have later: "fe_sysfs_cached_attr_revision d < vfile_bump_nonzero_revision rev"
    using assms(7,8) t same(1) by (intro bump_greater) (auto simp: current_def)
  show ?thesis
  proof (rule write_exact [OF assms(1-5)])
    fix p :: u64
    assume p: "n = length data" "attr_now st' e = Some (splice (unat p) data v, x)"
      "\<And>attrs access rev. attr_table st e = Some (attrs, access, rev) \<Longrightarrow>
         attr_table st' e = Some (om_insert (fe_sysfs_attr_name e) (splice (unat p) data v) attrs, access, vfile_bump_nonzero_revision rev)"
    have "current st' d" using p(3) [OF t] same(2) later by (auto simp: current_def)
    then show thesis using that p(1,2) same(3) by simp
  qed
qed

lemma read_exact:
  assumes "current st e" and "attr_now st e = Some (v, x)" and "vsyscall_vsysfs_attr_access_allows_read x"
    and "\<not> vsyscall_fd_opened_with_path_only (fe_flags e)" and "vsyscall_fd_access_mode (fe_flags e) \<noteq> kO_WRONLY"
    and "length v < 2 ^ 64"
  shows "fst (dispatch_attr_read True False count st e) = Inr (take (unat count) (drop (unat (fe_sysfs_read_offset e)) v))"
proof -
  obtain e1 where e1: "vsyscall_attr_refresh_cache_locked True st e = (None, e1)" "fe_sysfs_cached_value e1 = v" "fe_sysfs_cached_attr_access e1 = x"
    "fe_sysfs_read_offset e1 = (if fe_sysfs_cached_attr_revision e = snd (snd (the (attr_table st e))) then fe_sysfs_read_offset e
       else min (fe_sysfs_read_offset e) (of_nat (length v)))"
    using refresh_current [OF assms(1,2)] by metis
  have ty: "is_attr_entry e"
    using assms(1) attr_table_type [of st e] by (auto simp: current_def is_attr_entry_def split: option.splits)
  have len: "unat (of_nat (length v) :: u64) = length v" using assms(6) by (simp add: unat_of_nat)
  let ?p = "fe_sysfs_read_offset e"
  have p: "fe_sysfs_read_offset e1 = ?p \<or> fe_sysfs_read_offset e1 = of_nat (length v) \<and> length v \<le> unat ?p"
    using e1(4) len by (auto simp: min_def word_le_nat_alt not_le split: if_splits)
  have read: "fst (vsyscall_vsysfs_read_from_value_locked v count d) = take (unat count) (drop (unat (fe_sysfs_read_offset d)) v)" for d
  proof (cases "fe_sysfs_read_offset d > of_nat (length v)")
    case True
    then have "length v \<le> unat (fe_sysfs_read_offset d)" using len by (simp add: word_less_nat_alt)
    then show ?thesis using True len by (simp add: vsyscall_vsysfs_read_from_value_locked_def)
  next
    case False
    then show ?thesis by (simp add: vsyscall_vsysfs_read_from_value_locked_def Let_def)
  qed
  have "drop (unat (fe_sysfs_read_offset e1)) v = drop (unat ?p) v" using p len by auto
  then have "fst (vsyscall_vsysfs_read_from_value_locked v count e1) = take (unat count) (drop (unat ?p) v)" using read by simp
  then show ?thesis
    using ty assms(3-5) e1 by (simp add: dispatch_attr_read_def split_beta Let_def)
qed

end
