(* ===== verification/Vfd_Race.thy ===== *)
theory Vfd_Race
  imports Omap
begin

text \<open>
  The life of an open session under concurrency (\<open>src/vfile/vsyscall.cc\<close>). Descriptors that were duplicated are aliases
  of one entry. An operation looks its entry up under the mutex of the table and registers with it under the mutex of
  the entry; a close takes the descriptor out of the table, looks for further aliases in a second critical section,
  marks the entry as closing, waits for the operations under way and calls the close callback of the device.

  A step is one critical section of one thread. A call that begins is given by \<open>fd_request\<close>.
\<close>

datatype fd_thread =
    T_Idle
  | T_Looked nat \<comment> \<open>has found the entry, and not registered with it\<close>
  | T_Op nat \<comment> \<open>runs an operation on the entry\<close>
  | T_Dup nat int \<comment> \<open>has duplicated the descriptor in the kernel, and not bound the new one\<close>
  | T_Detached nat \<comment> \<open>has taken an alias of the entry out of the table\<close>
  | T_Last nat \<comment> \<open>has found no further alias\<close>
  | T_Waiting nat \<comment> \<open>has marked the entry as closing\<close>
  | T_Closing nat \<comment> \<open>is in the close callback\<close>

datatype fd_request = Req_Open int | Req_Op int | Req_Dup int int | Req_Close int

record fd_race =
  fr_table :: "(int \<times> nat) list"
  fr_closing :: "nat \<Rightarrow> bool"
  fr_active_ops :: "nat \<Rightarrow> u32"
  fr_calls :: "nat \<Rightarrow> nat"
  fr_next :: nat
  fr_threads :: "fd_thread list"

definition fd_race_init :: "nat \<Rightarrow> fd_race" where
  "fd_race_init n = \<lparr>fr_table = [], fr_closing = (\<lambda>_. False), fr_active_ops = (\<lambda>_. 0), fr_calls = (\<lambda>_. 0), fr_next = 0,
     fr_threads = replicate n T_Idle\<rparr>"

definition set_thread :: "nat \<Rightarrow> fd_thread \<Rightarrow> fd_race \<Rightarrow> fd_race" where
  "set_thread i t s = s\<lparr>fr_threads := (fr_threads s)[i := t]\<rparr>"

definition has_alias :: "nat \<Rightarrow> fd_race \<Rightarrow> bool" where
  "has_alias e s \<longleftrightarrow> e \<in> snd ` set (fr_table s)"

definition begin_call :: "fd_request \<Rightarrow> nat \<Rightarrow> fd_race \<Rightarrow> fd_race" where
  "begin_call req i s =
     (case req of
        Req_Open fd \<Rightarrow>
          if map_of (fr_table s) fd = None then s\<lparr>fr_table := om_insert fd (fr_next s) (fr_table s), fr_next := fr_next s + 1\<rparr> else s
      | Req_Op fd \<Rightarrow> (case map_of (fr_table s) fd of None \<Rightarrow> s | Some e \<Rightarrow> set_thread i (T_Looked e) s)
      | Req_Dup old new \<Rightarrow> (case map_of (fr_table s) old of None \<Rightarrow> s | Some e \<Rightarrow> set_thread i (T_Dup e new) s)
      | Req_Close fd \<Rightarrow>
          (case map_of (fr_table s) fd of
             None \<Rightarrow> s
           | Some e \<Rightarrow> set_thread i (T_Detached e) (s\<lparr>fr_table := om_erase fd (fr_table s)\<rparr>)))"

definition thread_access :: "fd_request \<Rightarrow> nat \<Rightarrow> fd_race \<Rightarrow> fd_race" where
  "thread_access req i s =
     (case fr_threads s ! i of
        T_Idle \<Rightarrow> begin_call req i s
      | T_Looked e \<Rightarrow>
          if fr_closing s e then set_thread i T_Idle s
          else set_thread i (T_Op e) (s\<lparr>fr_active_ops := (fr_active_ops s)(e := fr_active_ops s e + 1)\<rparr>)
      | T_Op e \<Rightarrow> set_thread i T_Idle (s\<lparr>fr_active_ops := (fr_active_ops s)(e := fr_active_ops s e - 1)\<rparr>)
      | T_Dup e new \<Rightarrow>
          set_thread i (case map_of (fr_table s) new of
                          Some d \<Rightarrow> if d \<noteq> e then T_Detached d else T_Idle
                        | None \<Rightarrow> T_Idle)
            (s\<lparr>fr_table := om_insert new e (fr_table s)\<rparr>)
      | T_Detached e \<Rightarrow> set_thread i (if has_alias e s then T_Idle else T_Last e) s
      | T_Last e \<Rightarrow> set_thread i (T_Waiting e) (s\<lparr>fr_closing := (fr_closing s)(e := True)\<rparr>)
      | T_Waiting e \<Rightarrow>
          if fr_active_ops s e = 0 then set_thread i (T_Closing e) (s\<lparr>fr_calls := (fr_calls s)(e := fr_calls s e + 1)\<rparr>) else s
      | T_Closing e \<Rightarrow> set_thread i T_Idle s)"

inductive fd_race_step :: "fd_race \<Rightarrow> fd_race \<Rightarrow> bool" where
  access: "i < length (fr_threads s) \<Longrightarrow> fd_race_step s (thread_access req i s)"

inductive_cases fd_race_stepE: "fd_race_step s s'"

section \<open>No operation meets the close callback\<close>

definition fd_race_inv :: "fd_race \<Rightarrow> bool" where
  "fd_race_inv s \<longleftrightarrow>
     length (fr_threads s) < 2 ^ 32 \<and>
     (\<forall>e. fr_active_ops s e = of_nat (length (filter (\<lambda>t. t = T_Op e) (fr_threads s)))) \<and>
     (\<forall>e. T_Waiting e \<in> set (fr_threads s) \<or> T_Closing e \<in> set (fr_threads s) \<or> 0 < fr_calls s e \<longrightarrow> fr_closing s e) \<and>
     (\<forall>e. 0 < fr_calls s e \<longrightarrow> T_Op e \<notin> set (fr_threads s)) \<and>
     (\<forall>e. T_Closing e \<in> set (fr_threads s) \<longrightarrow> 0 < fr_calls s e)"

lemma fd_race_inv_init: "n < 2 ^ 32 \<Longrightarrow> fd_race_inv (fd_race_init n)"
  by (auto simp: fd_race_inv_def fd_race_init_def)

text \<open>A step that leaves operations and callbacks alone.\<close>

lemma fd_race_inv_other:
  assumes "fd_race_inv s" and "i < length (fr_threads s)" and "\<And>e. fr_threads s ! i \<noteq> T_Op e"
    and "\<And>e. t \<noteq> T_Op e \<and> t \<noteq> T_Waiting e \<and> t \<noteq> T_Closing e"
  shows "fd_race_inv (set_thread i t s)"
proof -
  have "length (filter (\<lambda>t. t = T_Op e) ((fr_threads s)[i := t])) = length (filter (\<lambda>t. t = T_Op e) (fr_threads s))" for e
    using length_filter_list_update [OF assms(2), of "\<lambda>t. t = T_Op e" t] assms(3,4) by simp
  then show ?thesis
    using assms(1,4) by (auto simp: fd_race_inv_def set_thread_def dest!: set_list_update_subset)
qed

lemma fd_race_inv_table: "fd_race_inv (s\<lparr>fr_table := tb, fr_next := n\<rparr>) = fd_race_inv s" "fd_race_inv (s\<lparr>fr_table := tb\<rparr>) = fd_race_inv s"
  by (simp_all add: fd_race_inv_def)

lemma fd_race_inv_begin:
  assumes "fd_race_inv s" and "i < length (fr_threads s)" and "fr_threads s ! i = T_Idle"
  shows "fd_race_inv (begin_call req i s)"
  using assms
  by (auto simp: begin_call_def fd_race_inv_table split: fd_request.split option.split intro!: fd_race_inv_other)

lemma fd_race_inv_access:
  assumes "fd_race_inv s" and "i < length (fr_threads s)"
  shows "fd_race_inv (thread_access req i s)"
proof (cases "fr_threads s ! i")
  case T_Idle
  then show ?thesis using fd_race_inv_begin [OF assms T_Idle] by (simp add: thread_access_def)
next
  case (T_Looked e)
  show ?thesis
  proof (cases "fr_closing s e")
    case True
    then show ?thesis using T_Looked assms by (simp add: thread_access_def fd_race_inv_other)
  next
    case False
    then show ?thesis
      using T_Looked assms length_filter_update_word [OF assms(2), of "\<lambda>t. t = T_Op _" "T_Op e"]
      by (auto simp: thread_access_def fd_race_inv_def set_thread_def dest!: set_list_update_subset)
  qed
next
  case (T_Op e)
  then show ?thesis
    using assms length_filter_update_word [OF assms(2), of "\<lambda>t. t = T_Op _" T_Idle]
    by (auto simp: thread_access_def fd_race_inv_def set_thread_def dest!: set_list_update_subset)
next
  case (T_Waiting e)
  have count: "of_nat (length (filter (\<lambda>t. t = T_Op e) (fr_threads s))) = fr_active_ops s e" "length (fr_threads s) < 2 ^ 32"
    using assms(1) by (auto simp: fd_race_inv_def)
  have "T_Op e \<notin> set (fr_threads s)" if "fr_active_ops s e = 0"
    using none_counted [OF count(2), of "\<lambda>t. t = T_Op e"] that count(1) by (auto simp: filter_empty_conv)
  moreover have "T_Waiting e \<in> set (fr_threads s)" using T_Waiting assms(2) by (metis nth_mem)
  ultimately show ?thesis
    using T_Waiting assms length_filter_update_word [OF assms(2), of "\<lambda>t. t = T_Op _" "T_Closing e"]
    by (auto simp: thread_access_def fd_race_inv_def set_thread_def dest!: set_list_update_subset)
next
  case (T_Last e)
  then show ?thesis
    using assms length_filter_update_word [OF assms(2), of "\<lambda>t. t = T_Op _" "T_Waiting e"]
    by (auto simp: thread_access_def fd_race_inv_def set_thread_def dest!: set_list_update_subset)
qed (use assms in \<open>auto simp: thread_access_def fd_race_inv_table intro!: fd_race_inv_other split: option.split\<close>)

lemma fd_race_inv_reachable: "fd_race_step\<^sup>*\<^sup>* (fd_race_init n) s \<Longrightarrow> n < 2 ^ 32 \<Longrightarrow> fd_race_inv s"
  by (induction rule: rtranclp_induct) (auto intro: fd_race_inv_init fd_race_inv_access elim!: fd_race_stepE)

text \<open>A run given by the threads that move and the calls they begin.\<close>

definition fd_run :: "(nat \<times> fd_request) list \<Rightarrow> fd_race \<Rightarrow> fd_race" where
  "fd_run sched s = fold (\<lambda>(i, req). thread_access req i) sched s"

lemma length_access [simp]: "length (fr_threads (thread_access req i s)) = length (fr_threads s)"
  by (auto simp: thread_access_def begin_call_def set_thread_def split: fd_thread.split fd_request.split option.split)

lemma fd_run_reachable:
  "\<forall>x \<in> set sched. fst x < length (fr_threads s) \<Longrightarrow> fd_race_step\<^sup>*\<^sup>* s (fd_run sched s)"
proof (induction sched arbitrary: s)
  case (Cons x sched)
  then have "fd_race_step s (thread_access (snd x) (fst x) s)" by (intro fd_race_step.access) simp
  moreover have "fd_race_step\<^sup>*\<^sup>* (thread_access (snd x) (fst x) s) (fd_run sched (thread_access (snd x) (fst x) s))"
    using Cons by simp
  ultimately show ?case by (simp add: fd_run_def split_beta converse_rtranclp_into_rtranclp)
qed (simp add: fd_run_def)

end
