(* ===== verification/Vsys_Correct.thy ===== *)
theory Vsys_Correct
  imports Vfile_Correct Vsys_Close Vsys_Links Vattr_Props Vfd_Race
begin

text \<open>
  The properties of the system call layer. The examples open, duplicate and close descriptors of the device of the small
  system of \<open>Vfile_Correct\<close>, with a kernel and callbacks that refuse nothing.
\<close>

section \<open>Runs\<close>

definition vsys_init :: "vfs \<Rightarrow> vsys" where
  "vsys_init fs = \<lparr>sy_fs = fs, sy_fd_table = [], sy_entries = (\<lambda>_. new_fd_entry FD_VDIR 0), sy_next = 0, sy_mmap = [], sy_log = []\<rparr>"

text \<open>A system call that returns, the clearing of everything, or a change of the registries by other parts of the library.\<close>

inductive sys_step :: "vsys \<Rightarrow> vsys \<Rightarrow> bool" where
  call: "pim_vsyscall_dispatch n w c s = Some (r, s') \<Longrightarrow> sys_step s s'"
| clear: "sys_step s (pim_vfile_clear w s)"
| registry: "sys_step s (upd_fs fs s)"

inductive_cases sys_stepE: "sys_step s s'"

lemma drain_ok: "fd_ok s \<Longrightarrow> sy_fd_table s = [] \<Longrightarrow> fd_ok (drain_loop w seen t s) \<and> sy_fd_table (drain_loop w seen t s) = []"
proof (induction t arbitrary: seen s)
  case (Cons x t)
  obtain fd i where x: "x = (fd, i)" by fastforce
  define u where "u = (if 0 \<le> fd then note_event (Kernel_Close fd) s else s)"
  define v where "v = vsyscall_wait_and_finalize_entry_best_effort w i u"
  have u: "fd_ok u" "sy_fd_table u = []" using Cons.prems by (simp add: u_def, simp add: u_def note_event_def)
  have "fd_ok (upd_entry i (\<lambda>e. e\<lparr>fe_closing := True\<rparr>) u)"
    by (rule fd_ok_closing [OF u(1)]) (simp add: vsyscall_fd_has_alias_locked_def u(2))
  then have v: "fd_ok v" "sy_fd_table v = []"
    using u(2) by (auto simp: v_def vsyscall_wait_and_finalize_entry_best_effort_def Let_def split: option.split)
  have "drain_loop w seen (x # t) s = (if i \<in> set seen then drain_loop w seen t u else drain_loop w (i # seen) t v)"
    by (simp add: x u_def v_def vsyscall_kernel_close_fd_def Let_def)
  then show ?case using Cons.IH [OF u] Cons.IH [OF v] by simp
qed simp

lemma clear_ok: "fd_ok s \<Longrightarrow> fd_ok (pim_vfile_clear w s)"
  using drain_ok [OF fd_ok_empty, of s w "[]" "sy_fd_table s"]
  by (simp add: pim_vfile_clear_def vsyscall_close_all_owned_fds_best_effort_def vsyscall_drain_owned_fd_batch_best_effort_def Let_def)

lemma init_ok: "fd_ok (vsys_init fs)"
  by (simp add: fd_ok_def vsys_init_def)

lemma run_ok: "sys_step\<^sup>*\<^sup>* (vsys_init fs) s \<Longrightarrow> fd_ok s"
  by (induction rule: rtranclp_induct) (auto simp: init_ok elim!: sys_stepE intro: dispatch_ok clear_ok)

section \<open>Examples\<close>

definition quiet_world :: "int \<Rightarrow> world" where
  "quiet_world fd =
     \<lparr>w_pim_vfile_open = (\<lambda>_. Inr fd), w_close = (\<lambda>_. None), w_dup = Inr fd, w_close_range = None, w_getfd = (\<lambda>_. None),
      w_fcntl = Inr 0, w_munmap = None, w_open_cb = (\<lambda>_ _ _ fs. (fd, fs)), w_ioctl_cb = (\<lambda>_ _ fs. (7, fs)),
      w_mmap_cb = (\<lambda>_ _ fs. (0x10000, fs)), w_close_cb = (\<lambda>_ _ fs. (0, fs)), w_cb_errno = None, w_hash = no_hash,
      w_entry_addr = of_nat, w_uid = 0, w_euid = 0, w_gid = 0, w_egid = 0, w_groups = [], w_max_groups = 32, w_alloc_node = True, w_alloc_copy = True,
      w_alloc_build = True, w_alloc_store = True, w_alloc_track = True, w_alloc_left = True, w_alloc_right = True, w_alloc_fdinfo = True\<rparr>"

definition after :: "int \<Rightarrow> syscall \<Rightarrow> vsys \<Rightarrow> vsys" where
  "after fd c s = snd (the (pim_vsyscall_dispatch 2 (quiet_world fd) c s))"

lemma after_step: "map_option fst (pim_vsyscall_dispatch 2 (quiet_world fd) c s) = Some r \<Longrightarrow> sys_step s (after fd c s)"
  unfolding after_def by (metis map_option_eq_Some option.sel prod.collapse sys_step.call)

definition callback_ops :: "vfs_op list" where
  "callback_ops = [Vdev_Root_Create True (Some ''dpu_rank*''), Vdev_Root_Set_Ioctl_Cb True (Some 0) (Some 1),
     Vdev_Root_Set_Close_Cb True (Some 0) (Some 2), Vdev_Create True True (Some 0) (Some ''/dev/dpu_rank0'') (- 1) (- 1)]"

text \<open>One session with the descriptors 3 and 4.\<close>

definition two_aliases :: vsys where
  "two_aliases = after 4 (SYS_dup 3) (after 3 (SYS_openat AT_FDCWD (Some ''/dev/dpu_rank0'') 2) (vsys_init (run_ops callback_ops)))"

lemma two_aliases_values:
  "map_option fst (pim_vsyscall_dispatch 2 (quiet_world 3) (SYS_openat AT_FDCWD (Some ''/dev/dpu_rank0'') 2) (vsys_init (run_ops callback_ops))) = Some (O_Ret (R_Long 3))"
  "sy_fd_table two_aliases = [(3, 0), (4, 0)]" "fe_type (sy_entries two_aliases 0) = FD_VDEV" "fe_flags (sy_entries two_aliases 0) = 2"
  "fe_vdev (sy_entries two_aliases 0) = Some 1" "fe_owner_fd (sy_entries two_aliases 0) = 3"
  "vd_ioctl_fn (fs_vdev (sy_fs two_aliases) 1) = Some 1" "vd_close_fn (fs_vdev (sy_fs two_aliases) 1) = Some 2"
  "sy_mmap two_aliases = []" "sy_log two_aliases = []"
  by code_simp+

lemma two_aliases_run: "sys_step\<^sup>*\<^sup>* (vsys_init (run_ops callback_ops)) two_aliases"
proof -
  let ?s = "vsys_init (run_ops callback_ops)" and ?open = "SYS_openat AT_FDCWD (Some ''/dev/dpu_rank0'') 2"
  have "sys_step ?s (after 3 ?open ?s)"
    by (rule after_step [OF two_aliases_values(1)])
  moreover have "sys_step (after 3 ?open ?s) two_aliases"
    unfolding two_aliases_def by (rule after_step) simp
  ultimately show ?thesis by (meson rtranclp.rtrancl_refl rtranclp.rtrancl_into_rtrancl)
qed


lemma two_aliases_lookup: "vsyscall_fd_lookup 3 two_aliases = Some 0" "vsyscall_fd_lookup 4 two_aliases = Some 0"
  by (simp_all add: vsyscall_fd_lookup_def two_aliases_values)

section \<open>The table of descriptors\<close>



text \<open>C28. Closing a descriptor of the table closes it in the kernel once and takes it out of the table, and no other
  descriptor. The close callback of the device is called exactly when the last alias of the session goes, with the
  descriptor the session was opened with, and its result is the result of the call, unless the kernel refused.\<close>

theorem close_ends_session_once:
  assumes "sys_step\<^sup>*\<^sup>* (vsys_init fs) s" and "vsyscall_fd_lookup fd s = Some i"
  shows "\<exists>r s'. pim_vsyscall_dispatch n w (SYS_close fd) s = Some (r, s') \<and>
    (\<forall>fd'. vsyscall_fd_lookup fd' s' = (if fd' = fd then None else vsyscall_fd_lookup fd' s)) \<and>
    sy_log s' = sy_log s @ [Kernel_Close fd] @ (if last_alias fd i s then close_calls i s else []) \<and>
    fe_closing (sy_entries s' i) = last_alias fd i s \<and>
    r = (case w_close w fd of
           Some e \<Rightarrow> O_Fail e
         | None \<Rightarrow>
             if \<not> last_alias fd i s \<or> close_calls i s = [] then O_Ret (R_Long 0)
             else vsyscall_wrapper_from_negative (w_cb_errno w)
                    (fst (w_close_cb w (the (fe_vdev (sy_entries s i))) (fe_owner_fd (sy_entries s i)) (sy_fs s))) EIO)"
proof -
  obtain r s' where c: "dispatch_close w fd s = (r, s')" by fastforce
  from close_exact [OF run_ok [OF assms(1)] assms(2) c] c show ?thesis by auto
qed

theorem close_ends_session_once_witness:
  "\<exists>r s'. pim_vsyscall_dispatch 1 (quiet_world 5) (SYS_close 3) two_aliases = Some (r, s') \<and> sy_log s' = [Kernel_Close 3]"
proof -
  have "\<not> last_alias 3 0 two_aliases" using two_aliases_lookup(2) by (auto simp: last_alias_def intro!: exI [of _ 4])
  then show ?thesis
    using close_ends_session_once [OF two_aliases_run two_aliases_lookup(1), of 1 "quiet_world 5"] two_aliases_values by auto
qed





text \<open>Setting or clearing the close-on-exec flag through one descriptor of a session sets or clears it for every alias of the
  session: the flag, which belongs to a descriptor, is kept with the session.\<close>

theorem descriptor_flag_shared:
  assumes "sys_step\<^sup>*\<^sup>* (vsys_init fs) s" and "vsyscall_fd_lookup fd s = Some i" and "vsyscall_fd_lookup fd' s = Some i"
    and "pim_vsyscall_dispatch n w (SYS_fcntl fd F_SETFD arg) s = Some (r, s')"
  shows "r = O_Ret (R_Long 0) \<and>
    map_option fst (pim_vsyscall_dispatch n w (SYS_fcntl fd' F_GETFD 0) s') = Some (O_Ret (R_Long (if arg AND 1 \<noteq> 0 then 1 else 0)))"
proof -
  have ok: "fd_ok s" using assms(1) by (rule run_ok)
  have ok': "fd_ok s'" using dispatch_ok [OF ok assms(4)] .
  have same: "vsyscall_fd_lookup fd' s' = Some i"
    using views_keeps [OF ok _ assms(4)] assms(3) by (simp add: keeps_def vsyscall_fd_lookup_def)
  have cloexec: "kO_CLOEXEC \<noteq> 0" "(x OR kO_CLOEXEC) AND kO_CLOEXEC \<noteq> 0" "(x AND NOT kO_CLOEXEC) AND kO_CLOEXEC = 0" for x
    by (simp_all add: bit.conj_disj_distrib2 and.assoc kO_CLOEXEC_def)
  have "r = O_Ret (R_Long 0) \<and> (fe_flags (sy_entries s' i) AND kO_CLOEXEC \<noteq> 0 \<longleftrightarrow> arg AND 1 \<noteq> 0)"
    using assms(2,4)
    by (auto simp: cloexec dispatch_fcntl_def vsyscall_dispatch_owned_fd_def acquire_ok [OF ok] on_entry_def fcntl_entry_def Let_def F_SETFD_def
        F_GETFL_def F_SETFL_def F_GETFD_def vsyscall_fcntl_allowed_for_path_only_def vsyscall_fd_release_after_op_def upd_fs_def
        split: if_splits)
  then show ?thesis
    using same
    by (auto simp: dispatch_fcntl_def vsyscall_dispatch_owned_fd_def acquire_ok [OF ok'] on_entry_def fcntl_entry_def Let_def F_SETFD_def
        F_GETFL_def F_SETFL_def F_GETFD_def vsyscall_fcntl_allowed_for_path_only_def)
qed

theorem descriptor_flag_shared_witness:
  "map_option fst (pim_vsyscall_dispatch 2 (quiet_world 5) (SYS_fcntl 4 F_GETFD 0) (after 5 (SYS_fcntl 3 F_SETFD 1) two_aliases)) =
   Some (O_Ret (R_Long 1))"
proof -
  have "pim_vsyscall_dispatch 2 (quiet_world 5) (SYS_fcntl 3 F_SETFD 1) two_aliases =
      Some (fst (dispatch_fcntl (quiet_world 5) 3 F_SETFD 1 two_aliases), after 5 (SYS_fcntl 3 F_SETFD 1) two_aliases)"
    by (simp add: after_def)
  from descriptor_flag_shared [OF two_aliases_run two_aliases_lookup this] show ?thesis by simp
qed

section \<open>Closing under concurrency\<close>

text \<open>C29. Under every interleaving of threads that open, duplicate, use and close descriptors, no operation runs on an entry
  while its close callback runs, and none begins after it.\<close>

theorem no_operation_meets_close:
  assumes "fd_race_step\<^sup>*\<^sup>* (fd_race_init n) s" and "n < 2 ^ 32" and "0 < fr_calls s e"
  shows "T_Op e \<notin> set (fr_threads s) \<and>
    (\<forall>s'. fd_race_step\<^sup>*\<^sup>* s s' \<longrightarrow> T_Op e \<notin> set (fr_threads s'))"
proof -
  have inv: "fd_race_inv s" using assms(1,2) by (rule fd_race_inv_reachable)
  have "0 < fr_calls s' e" if "fd_race_step\<^sup>*\<^sup>* s s'" for s'
    using that assms(3)
  proof (induction rule: rtranclp_induct)
    case (step t u)
    then show ?case
      by (auto elim!: fd_race_stepE simp: thread_access_def begin_call_def set_thread_def split: fd_thread.split fd_request.split option.split)
  qed
  moreover have "fd_race_inv s'" if "fd_race_step\<^sup>*\<^sup>* s s'" for s'
    using fd_race_inv_reachable [OF rtranclp_trans [OF assms(1) that] assms(2)] .
  ultimately show ?thesis by (metis fd_race_inv_def rtranclp.rtrancl_refl)
qed

text \<open>One thread opens a session and closes it while another is in an operation on it.\<close>

definition closing_run :: fd_race where
  "closing_run = fd_run [(0, Req_Open 3), (1, Req_Op 3), (1, Req_Op 3), (0, Req_Close 3), (0, Req_Close 3), (0, Req_Close 3), (0, Req_Close 3),
     (1, Req_Op 3), (0, Req_Close 3)] (fd_race_init 2)"

theorem no_operation_meets_close_witness: "T_Op 0 \<notin> set (fr_threads closing_run)"
proof -
  have "0 < fr_calls closing_run 0" by code_simp
  moreover have "fd_race_step\<^sup>*\<^sup>* (fd_race_init 2) closing_run"
    unfolding closing_run_def by (rule fd_run_reachable) (simp add: fd_race_init_def)
  ultimately show ?thesis using no_operation_meets_close [of 2 closing_run 0] by simp
qed

text \<open>The close callback can be called twice for one session: when two threads close its two last descriptors, both
  may take their descriptor out of the table before either looks for further aliases.\<close>

theorem close_callback_twice:
  "\<exists>s. fd_race_step\<^sup>*\<^sup>* (fd_race_init 2) s \<and> fr_calls s 0 = 2"
proof -
  let ?run = "[(0, Req_Open 3), (0, Req_Dup 3 4), (0, Req_Dup 3 4), (0, Req_Close 3), (1, Req_Close 4), (0, Req_Close 3), (1, Req_Close 4),
    (0, Req_Close 3), (1, Req_Close 4), (0, Req_Close 3), (1, Req_Close 4)]"
  have "fr_calls (fd_run ?run (fd_race_init 2)) 0 = 2" by code_simp
  moreover have "fd_race_step\<^sup>*\<^sup>* (fd_race_init 2) (fd_run ?run (fd_race_init 2))"
    by (rule fd_run_reachable) (simp add: fd_race_init_def)
  ultimately show ?thesis by blast
qed

section \<open>Mappings\<close>




section \<open>Attributes\<close>

lemma attr_table_active [simp]: "attr_table st (e\<lparr>fe_active_ops := k\<rparr>) = attr_table st e"
  by (simp add: attr_table_def cong: fd_type.case_cong)

lemma attr_active [simp]:
  "current st (e\<lparr>fe_active_ops := k\<rparr>) = current st e"
  "attr_now st (e\<lparr>fe_active_ops := k\<rparr>) = attr_now st e" "same_attr (e\<lparr>fe_active_ops := k\<rparr>) d = same_attr e d"
  by (simp_all add: current_def attr_now_def same_attr_def split: option.split)














section \<open>Links\<close>

text \<open>C35. Reading the link from a class directory to a device directory gives a relative path that, followed from the
  directory of the link, leads to the device directory.\<close>

theorem readlink_leads_to_target:
  assumes "vfile_normalize_absolute_path p = Some a" and "a \<noteq> ''/sys/class/subsystem''"
    and "vsyscall_try_get_virtual_class_subsystem_target a (sy_fs s) = None"
    and "fst (vfile_resolve_virtual_node a (sy_fs s)) = Inr node" and "vsyscall_is_vsysfs_class_symlink_node node (sy_fs s) = Some target"
    and "vfile_normalize_absolute_path target = Some t" and "bufsiz \<noteq> 0"
  shows "\<exists>rel. fst (dispatch_readlinkat dfd (Some p) False bufsiz s) = O_Ret (R_Bytes (take bufsiz rel)) \<and>
    vfile_normalize_absolute_path (link_parent_of a @ ''/'' @ rel) = Some t"
proof -
  have a: "vfile_normalize_absolute_path a = Some a" using normalize_idempotent [OF assms(1)] .
  have node: "pi_path node = a" using resolve_node_path [OF assms(4)] a by simp
  have kind: "pi_kind node = VDIR"
    using assms(5) by (auto simp: vsyscall_is_vsysfs_class_symlink_node_def split: vfile_virtual_path_kind.splits)
  obtain u where u: "resolve_node a s = (Inr node, u)" "sy_fs u = snd (vfile_build_virtual_fs_snapshot (sy_fs s))"
    using assms(4) resolve_state [of a "sy_fs s"] by (cases "vfile_resolve_virtual_node a (sy_fs s)") (auto simp: resolve_node_def upd_fs_def)
  obtain rel where rel: "vsyscall_make_readlink_relative_target a target = Some rel"
    "vfile_normalize_absolute_path (link_parent_of a @ slash # rel) = Some t" using relative_target_exact [OF a assms(6)] by blast
  have p: "p \<noteq> []" "hd p = slash" using assms(1) by (auto simp: normalize_path split: if_splits)
  have "vsyscall_dispatch_resolve_path_for_dispatch dfd (Some p) s =
      Inr \<lparr>rp_abs_path = a, rp_from_owned_dfd = False, rp_trailing_slash = vsyscall_path_has_trailing_slash p\<rparr>"
    using p assms(1) by (cases p) (simp_all add: vsyscall_dispatch_resolve_path_for_dispatch_def vsyscall_resolve_path_at_def)
  then have "fst (dispatch_readlinkat dfd (Some p) False bufsiz s) = O_Ret (R_Bytes (take bufsiz rel))"
    using assms(2,3,5,7) kind node u rel(1)
    by (simp add: dispatch_readlinkat_def vsyscall_dispatch_lookup_node_from_resolved_path_def symlink_build vsyscall_return_readlink_target_def min_def)
  then show ?thesis using rel(2) by auto
qed

theorem readlink_leads_to_target_witness:
  "\<exists>rel. fst (dispatch_readlinkat AT_FDCWD (Some ''/sys/class/dpu_rank/dpu_rank0'') False 100 (vsys_init (run_ops sysfs_ops))) = O_Ret (R_Bytes (take 100 rel)) \<and>
    vfile_normalize_absolute_path (link_parent_of ''/sys/class/dpu_rank/dpu_rank0'' @ ''/'' @ rel) = Some ''/sys/devices/platform/dpu_rank0''"
proof -
  let ?p = "''/sys/class/dpu_rank/dpu_rank0''" and ?fs = "run_ops sysfs_ops"
  define r where "r = fst (vfile_resolve_virtual_node ?p ?fs)"
  have "vfile_normalize_absolute_path ?p = Some ?p" "vsyscall_try_get_virtual_class_subsystem_target ?p ?fs = None"
    "vfile_normalize_absolute_path ''/sys/devices/platform/dpu_rank0'' = Some ''/sys/devices/platform/dpu_rank0''" by code_simp+
  moreover have "\<not> isl r" "vsyscall_is_vsysfs_class_symlink_node (projr r) ?fs = Some ''/sys/devices/platform/dpu_rank0''"
    unfolding r_def by code_simp+
  ultimately show ?thesis
    using readlink_leads_to_target [of ?p ?p "vsys_init ?fs" "projr r" "''/sys/devices/platform/dpu_rank0''" _ 100 AT_FDCWD]
    by (simp add: vsys_init_def r_def sum.collapse)
qed



text \<open>Two sysfs roots whose device directories are each other's class directories.\<close>

definition cycle_ops :: "vfs_op list" where
  "cycle_ops = device_ops @
     [Vsysfs_Root_Create True (Some 0) (Some ''a'') (Some ''../class/b'') (Some ''x*''),
      Vsysfs_Root_Create True (Some 0) (Some ''b'') (Some ''../class/a'') (Some ''x*''),
      Vsysfs_Create True True True (Some 2) (Some 1) (Some ''dpu_rank0''), Vsysfs_Create True True True (Some 3) (Some 1) (Some ''dpu_rank0'')]"

definition cycle_facts :: "string \<Rightarrow> string \<Rightarrow> string \<Rightarrow> vfs \<Rightarrow> bool" where
  "cycle_facts p a b fs =
     (case (fst (vfile_resolve_virtual_node p fs), fst (vfile_resolve_virtual_node a fs), fst (vfile_resolve_virtual_node b fs)) of
        (Inr na, Inr na', Inr nb) \<Rightarrow>
          na' = na \<and> pi_kind na = VDIR \<and> pi_kind nb = VDIR \<and> pi_path na \<noteq> [] \<and> pi_path nb \<noteq> [] \<and>
          vsyscall_is_vsysfs_class_symlink_node na fs = Some b \<and> vsyscall_is_vsysfs_class_symlink_node nb fs = Some a
      | _ \<Rightarrow> False)"

lemma cycle_factsE:
  assumes "cycle_facts p a b fs"
  obtains na nb where "fst (vfile_resolve_virtual_node p fs) = Inr na" "fst (vfile_resolve_virtual_node a fs) = Inr na"
    "fst (vfile_resolve_virtual_node b fs) = Inr nb" "pi_kind na = VDIR" "pi_kind nb = VDIR" "pi_path na \<noteq> []" "pi_path nb \<noteq> []"
    "vsyscall_is_vsysfs_class_symlink_node na fs = Some b" "vsyscall_is_vsysfs_class_symlink_node nb fs = Some a"
  using assms by (auto simp: cycle_facts_def split: sum.splits)

lemma cycle_values:
  "cycle_facts ''/sys/class/a/dpu_rank0'' ''/sys/devices/../class/a/dpu_rank0'' ''/sys/devices/../class/b/dpu_rank0'' (run_ops cycle_ops)"
  by code_simp

text \<open>Opening a class directory whose link leads to a class directory that leads back never returns: the links are followed
  without a bound, and two roots can be made to name each other.\<close>

theorem open_link_cycle:
  "pim_vsyscall_dispatch n w (SYS_openat AT_FDCWD (Some ''/sys/class/a/dpu_rank0'') 0) (vsys_init (run_ops cycle_ops)) = None"
proof -
  let ?p = "''/sys/class/a/dpu_rank0''" and ?fs = "run_ops cycle_ops"
  obtain na nb where v: "fst (vfile_resolve_virtual_node ?p ?fs) = Inr na"
    "fst (vfile_resolve_virtual_node ''/sys/devices/../class/a/dpu_rank0'' ?fs) = Inr na"
    "fst (vfile_resolve_virtual_node ''/sys/devices/../class/b/dpu_rank0'' ?fs) = Inr nb"
    "pi_kind na = VDIR" "pi_kind nb = VDIR" "pi_path na \<noteq> []" "pi_path nb \<noteq> []"
    "vsyscall_is_vsysfs_class_symlink_node na ?fs = Some ''/sys/devices/../class/b/dpu_rank0''"
    "vsyscall_is_vsysfs_class_symlink_node nb ?fs = Some ''/sys/devices/../class/a/dpu_rank0''"
    by (rule cycle_factsE [OF cycle_values])
  have path: "vsyscall_dispatch_resolve_path_for_dispatch AT_FDCWD (Some ?p) (vsys_init ?fs) =
      Inr \<lparr>rp_abs_path = ?p, rp_from_owned_dfd = False, rp_trailing_slash = False\<rparr>"
    "vsyscall_parse_proc_self_numeric_path ?p ''/proc/self/fdinfo/'' = None" "vsyscall_parse_proc_self_numeric_path ?p ''/proc/self/fd/'' = None"
    "vsyscall_validate_open_flags 0 = None" "(ucast (0 :: u64) :: u32) AND kO_NOFOLLOW = 0" by code_simp+
  obtain u where u: "resolve_node ?p (vsys_init ?fs) = (Inr na, u)" "sy_fs u = snd (vfile_build_virtual_fs_snapshot ?fs)"
    using v(1) resolve_state [of ?p ?fs]
    by (cases "vfile_resolve_virtual_node ?p ?fs") (auto simp: resolve_node_def upd_fs_def vsys_init_def)
  then have "vsyscall_resolve_open_node_for_dispatch AT_FDCWD (Some ?p) (vsys_init ?fs) = (N_Resolved na False, u)"
    using path by (simp add: vsyscall_resolve_open_node_for_dispatch_def vsyscall_rewrite_proc_self_fd_path_for_open_def
        vsyscall_dispatch_lookup_node_from_resolved_path_def)
  then show ?thesis
    using open_loop [OF v(2-9) path(4,5) _ u(2), of na] by (simp add: dispatch_openat_def)
qed

end
