(* ===== verification/Spec2Isabelle.thy ===== *)
theory Spec2Isabelle
  imports Exec_Props Chip_Props Rank_Live Device_Correct Callbacks_Correct Sigsegv_Correct Vfile_Correct Vsys_Correct
begin

text \<open>
  Verification of hostpimsim-upmem, a simulator of UPMEM processing-in-memory ranks for programs that run on the host.

  \<^bold>\<open>The program.\<close> A core library (\<open>src/src\<close>, \<open>src/include/hostpimsim.h\<close>) offers devices: a block of memory divided into
  regions, registers with handlers, a pool of threads that runs handlers, a monitor that polls registers or protects their
  pages, and virtual files, served by intercepting system calls, by which a driver appears under \<open>/dev\<close> and \<open>/sys\<close>. A plug-in (\<open>src/contrib/hostpimsim-upmem\<close>) builds on
  it a rank of eight chips; a chip is a control interface and eight DPUs; a DPU has an instruction memory, a working memory,
  a main memory, a DMA engine and a pipeline with 24 tasklets. The host writes 64-bit command words into a register of
  a chip (\<open>upmem.cc\<close>); the chip decodes them and executes them on the DPUs it has selected.

  \<^bold>\<open>The theories, bottom up.\<close>
  \<^item> \<open>Prelude\<close>: machine integers, bytes and words, slices of byte lists, bit masks.
  \<^item> \<open>Isa\<close>, \<open>Decode_Base\<close>, \<open>Decode_1\<close> to \<open>Decode_8\<close>, \<open>Decoder\<close>: \<open>decode_raw_word_48\<close> of \<open>dpu/pipeline.cc\<close>. A definition
    \<open>decode_at_<n>\<close> is the switch at line \<open>n\<close>; the condition maps and the metadata of the executor follow.
  \<^item> \<open>Memory\<close>, \<open>Memory_Props\<close>, \<open>Dma\<close>: \<open>dpu/iram.cc\<close>, \<open>wram.cc\<close>, \<open>mram.cc\<close>, \<open>dma.cc\<close>. The locale \<open>ram_port\<close> states once
    what a store leaves alone; it is interpreted for each memory and width.
  \<^item> \<open>Pipeline_State\<close>, \<open>Exec_Hot\<close>, \<open>Exec_Legacy\<close>, \<open>Pipeline\<close>, \<open>Exec_Props\<close>: \<open>Pipeline::execute_once\<close> with its decode cache, the two
    switches over operations and retirement; the value lemmas of arithmetic sequences.
  \<^item> \<open>Frames\<close>, \<open>Ci_Frames\<close>, \<open>Ci_State\<close>, \<open>Dpu_Control\<close>: the command words, the state of a control interface, \<open>UPMEMDPU::control\<close>. The
    locale \<open>code_table\<close> is the search of a code in a table of encodings, interpreted for three tables.
  \<^item> \<open>Device\<close>, \<open>Pool\<close>, \<open>Mmio\<close>, \<open>Mmio_Props\<close>: regions, the thread pool, registers and handlers (\<open>src/hostpimsim.cc\<close>,
    \<open>pool.cc\<close>, \<open>internal.hh\<close>). The locale \<open>pool_handlers\<close> is what the pool needs of the handlers it runs; it is interpreted
    on the handler of a chip.
  \<^item> \<open>Chip\<close>, \<open>Chip_Props\<close>, \<open>Rank\<close>, \<open>Rank_Props\<close>, \<open>Rank_Live\<close>, \<open>Rank_Commands\<close>: \<open>upmem.cc\<close> and \<open>upmem.hh\<close>.
  \<^item> \<open>Dispatch_Guard\<close>, \<open>Seqlock\<close>: the two lock-free protocols of \<open>hostpimsim.cc\<close> and \<open>monitor.cc\<close> as steps of one memory access.
    \<open>Monitor\<close>, \<open>Monitor_Props\<close>: \<open>monitor.cc\<close>. \<open>Device_Correct\<close> holds the properties of the core library.
  \<^item> \<open>Vpath\<close>, \<open>Vpath_Props\<close>: names, paths and globs (\<open>src/vfile/vfile.hh\<close> and the helpers of \<open>vdev.cc\<close>, \<open>vmodule.cc\<close>,
    \<open>vsysfs.cc\<close>). \<open>Omap\<close>: \<open>std::map\<close> as a sorted list, with the locale \<open>table\<close> for undoing an insertion. \<open>Vfs\<close>, \<open>Vdev\<close>, \<open>Vdev_Props\<close>,
    \<open>Vsysfs\<close>: the registries of modules, devices and sysfs nodes. \<open>Vcache\<close>: the cached snapshot (\<open>vfile_cache.cc\<close>).
    \<open>Vdir\<close>, \<open>Vdir_Props\<close>: open directories (\<open>vdir.cc\<close>). \<open>Vfs_Props\<close>, \<open>Vsysfs_Atomic\<close>, \<open>Vfs_Ops\<close>, \<open>Vfs_Inv\<close>, \<open>Vfs_Resolve\<close>,
    \<open>Vcache_Race\<close>: their invariants over all sequences and interleavings of calls. \<open>Vfile_Correct\<close> holds the properties.
  \<^item> \<open>Vmmap\<close>, \<open>Vattr\<close>, \<open>Vsys\<close>, \<open>Vsys_Path\<close>, \<open>Vsys_Stat\<close>, \<open>Vsys_Open\<close>, \<open>Vsys_Dispatch\<close>: the interception of system calls
    (\<open>vsyscall.cc\<close>): tracked mappings, attributes, descriptors and their sessions, paths relative to a descriptor, \<open>stat\<close>,
    access and links, opening, and the dispatcher over all calls. \<open>Vfd_Race\<close>: threads that use, duplicate and close
    descriptors, as steps of one critical section. \<open>Vsys_Inv\<close>, \<open>Vsys_Table\<close>, \<open>Vsys_Close\<close>, \<open>Vsys_Links\<close>, \<open>Vattr_Props\<close>: their
    lemmas. The locale \<open>entry_operation\<close> is what an operation on a session keeps; it is interpreted for reading and writing,
    directories, seeking and \<open>fcntl\<close>. \<open>Vsys_Correct\<close> holds the properties.
  \<^item> \<open>Sigsegv_Decode\<close>, \<open>Sigsegv\<close>: \<open>sigsegv.cc\<close>, the decoders of x86-64 and AArch64 stores, the handler of a fault, arming and
    disarming. \<open>Sigsegv_Race\<close>: the word that handlers, callback threads and the disabling thread share, as single accesses.
    \<open>Sigsegv_Decode_Props\<close>, \<open>Sigsegv_Props\<close>: their lemmas. \<open>Sigsegv_Correct\<close> holds the properties.
  \<^item> \<open>Callbacks\<close>, \<open>Callbacks_Correct\<close>: the callbacks of the devices of a rank and the tree the plug-in sets up (\<open>cb.cc\<close>,
    \<open>preload.cc\<close>), with ranks as objects that can be deleted.

  \<^bold>\<open>How code becomes definitions.\<close> Integers keep their width. An object is a record; objects that others point to live in
  a store and are named by handles. A result with an error is a sum or a pair with the error code; a function that may
  not return has an option as its result (\<open>None\<close>: it does not). What the operating system decides (a failing
  allocation, \<open>mmap\<close>, the creation of a thread) and what the standard does not fix (\<open>std::hash\<close>, the first element of
  an unordered map) is an argument. Operations under one lock are one step; where the
  code gives up a lock in between, or uses atomics without one, the interleaving is modelled with smaller steps.

  \<^bold>\<open>What is shown.\<close> Of the DPU: decoding is sound, the decode cache invisible, an instruction safe, a run-state read exact,
  every reachable state well-formed, arithmetic sequences compute the numbers they should. Of the host interface: command words
  are decoded exactly, commands reach exactly the selected DPUs, transfers to and from a rank are exact and succeed when in
  bounds. Of the core library: regions and handler tables stay well-formed, barriers are exact, the pool drains, the
  monitor reports exactly the changes and never a torn value. Of the virtual files: the cache is never stale, resolution and
  directory reads are exact. Of intercepted calls: every descriptor has a session of its type, the last close and no other ends
  it, no operation meets its end, a call passed on changes nothing, mappings are tracked exactly, a write is seen by other
  sessions, \<open>readlink\<close> leads to the target and \<open>open\<close> returns. Of monitoring by page protection: stores are decoded exactly,
  faults handled exactly, arming is all or nothing. Of the driver: used in sequence, its callbacks never touch a deleted rank
  and leave none behind.

  \<^bold>\<open>Findings.\<close> Some theorems prove that the code departs from its intent: the legacy subtract-with-borrow loses a borrow, two
  conditions of \<open>subc\<close> overlap, a narrow write leaves a wrong cached value, the dispatch guard needs a fence, the monitor
  can report a stale value, a failing write of a default attribute locks a mutex twice, some stores are decoded wrongly, the end
  of a callback thread can be overwritten, stores can be lost or mixed, duplicates share their close-on-exec flag, a close
  callback can be called twice, links can lead in a circle, and two threads can open the same rank.

  \<^bold>\<open>Bounds and fuel.\<close> The progress loop of a run-state read has the bound of the code (\<open>kProgressBudget\<close>). Counters that wrap
  (pool counters, the write counter, generations) are words, and the theorems say how many events may be outstanding
  before a wrap could confuse them. The reading of a directory takes as fuel one call per entry and three more, which is
  enough for every buffer that holds the longest record. The glob matcher is a partial function and shown total. The fuel of
  the dispatcher counts the links \<open>open\<close> follows: two rounds are enough when no directory of devices is one of a class, and
  otherwise there are trees for which none is. The loop over the groups of the process reads a list of answers of the kernel,
  of which it uses at most two for each number of groups.

  \<^bold>\<open>Not modelled.\<close> Shared memory objects, attaching to files and \<open>mmap\<close> of device memory are calls of the operating
  system. The records of decoder misses and all other log output, the fields that \<open>statfs\<close> fills in, and exceptions other
  than those of the allocations that are arguments have no model. The tree of the plug-in is modelled for allocations that succeed.
\<close>

section \<open>Instruction decoding\<close>


section \<open>One instruction\<close>

text \<open>C2. The decode cache is invisible: starting from a cache whose used lines are right, whatever
  the IRAM, the tasklet and the machine state, \<open>execute_once\<close> returns and computes what decoding the
  fetched word afresh gives, and leaves such a cache.\<close>

theorem execute_once_cache_invisible:
  assumes "cache_ok cache" and "addr \<noteq> 0"
  shows "\<exists>cache'. execute_once addr ir i cache c =
           (fst (execute_ref ir i c), cache', snd (execute_ref ir i c)) \<and> cache_ok cache'"
  using assms by (rule execute_once_ref)

theorem execute_once_cache_invisible_witness:
  "\<exists>cache'. execute_once 4096 (iram_write_word iram_init 0 0x7C6300000000) 0 decode_cache_init
       (boot_thread 1 0 pipeline_init, wram_init, mram_init) =
     (fst (execute_ref (iram_write_word iram_init 0 0x7C6300000000) 0
        (boot_thread 1 0 pipeline_init, wram_init, mram_init)), cache',
      snd (execute_ref (iram_write_word iram_init 0 0x7C6300000000) 0
        (boot_thread 1 0 pipeline_init, wram_init, mram_init))) \<and> cache_ok cache'"
  by (rule execute_once_cache_invisible [OF cache_ok_init]) simp

text \<open>C3. An instruction is safe: it keeps every register file, flag, run mask and memory well-formed
  (so no access leaves its array), does not touch the registers, the program counter and the flags of
  any other running tasklet nor stop it, and leaves the MRAM mapping in place.\<close>

theorem execute_once_safe:
  assumes "cache_ok cache" and "addr \<noteq> 0" and "wf_core c"
    and "execute_once addr ir i cache c = (keep_running, cache', c')"
  shows "wf_core c' \<and> isolated (nat i) (fst c) (fst c') \<and>
         mram_bound (snd (snd c')) = mram_bound (snd (snd c)) \<and> cache_ok cache'"
  using execute_once_ref [OF assms(1,2), of ir i c] execute_ref_inv [OF assms(3), where i = i and ir = ir] assms(4)
  by auto

lemma wf_core_booted:
  "wf_core (boot_thread 1 0 pipeline_init, wram_init, mram_init)"
  using wf_boot_thread [OF wf_pipeline_init, of 0] by (simp add: wf_core_def wf_intros)

theorem execute_once_safe_witness:
  "let c = (boot_thread 1 0 pipeline_init, wram_init, mram_init);
       (keep_running, cache', c') =
         execute_once 4096 (iram_write_word iram_init 0 0x7C6300000000) 0 decode_cache_init c
   in wf_core c' \<and> isolated (nat 0) (fst c) (fst c') \<and>
      mram_bound (snd (snd c')) = mram_bound (snd (snd c)) \<and> cache_ok cache'"
  unfolding Let_def
  using execute_once_safe [OF cache_ok_init _ wf_core_booted, of 4096 "iram_write_word iram_init 0 0x7C6300000000" 0]
  by (auto split: prod.split)

section \<open>One DPU\<close>



text \<open>C5. Every DPU state that the control interface, the host copies and the allocation of its MRAM
  can produce from power-on is well-formed: the memories have their sizes, the flags are 0 or 1, only
  bits of existing tasklets are set in the run mask, and no tasklet sleeps or replays.\<close>

theorem reachable_dpu_well_formed:
  assumes "dpu_reachable d"
  shows "wf_dpu d"
  using assms by (rule wf_dpu_reachable)

theorem reachable_dpu_well_formed_witness:
  "wf_dpu (control_ref (thread_frame_command kBootBase 3)
            (upmem_dpu_init\<lparr>dp_mram := snd (mram_allocate True (dp_mram upmem_dpu_init))\<rparr>))"
  by (rule reachable_dpu_well_formed [OF reach_step [OF reach_step [OF reach_init step_mram_allocate] step_control]])

text \<open>C6. A run-state read with the MRAM mapped answers 0 exactly when the tasklets all stop within
  \<open>kProgressBudget\<close> rounds of turns; then the state is the one of the first round after which
  none runs, otherwise the one after the whole budget.\<close>

theorem run_state_read_exact:
  assumes "cache_ok (fst s)" and "addr \<noteq> 0" and "is_run_state_read_command cmd"
    and "mram_bound (dp_mram (snd s))"
  shows "let d = snd s; d' = snd (control addr cmd s);
             after = (\<lambda>k. (round_ref (dp_iram d) ^^ k) (dpu_core d));
             idle = (\<lambda>k. pl_run_bits (fst (after k)) = 0)
         in dp_last_control_generation d' = dp_last_control_generation d + 1 \<and>
            ((\<exists>k \<le> kProgressBudget. idle k \<and> (\<forall>j < k. \<not> idle j) \<and>
               dpu_core d' = after k \<and> dp_last_control_result d' = 0) \<or>
             (\<forall>k \<le> kProgressBudget. \<not> idle k) \<and>
               dpu_core d' = after kProgressBudget \<and> dp_last_control_result d' = 1)"
proof -
  let ?d = "snd s" and ?d' = "snd (control addr cmd s)"
  let ?c = "progress_ref kProgressBudget (dp_iram ?d) (dpu_core ?d)"
  have d': "?d' = set_last_control_result (if pl_run_bits (fst ?c) \<noteq> 0 then 1 else 0) (put_core ?c ?d)"
    using control_refines(1) [OF assms(1,2)] assms(3,4) by (auto simp: control_ref_def mram_bound_def Let_def)
  have core: "dpu_core ?d' = ?c"
    by (simp add: d' dpu_core_def set_last_control_result_def put_core_def split: prod.split)
  have gen: "dp_last_control_generation ?d' = dp_last_control_generation ?d + 1"
    and res: "dp_last_control_result ?d' = (if pl_run_bits (fst ?c) \<noteq> 0 then 1 else 0)"
    by (simp_all add: d' set_last_control_result_def put_core_def split: prod.split)
  obtain k where "k \<le> kProgressBudget" "?c = (round_ref (dp_iram ?d) ^^ k) (dpu_core ?d)"
    "pl_run_bits (fst ?c) = 0 \<or> k = kProgressBudget"
    "\<forall>j < k. pl_run_bits (fst ((round_ref (dp_iram ?d) ^^ j) (dpu_core ?d))) \<noteq> 0"
    using progress_ref_iterate [of kProgressBudget "dp_iram ?d" "dpu_core ?d"] by blast
  then show ?thesis
    unfolding Let_def gen core res by (cases "pl_run_bits (fst ?c) = 0") (auto simp: le_less)
qed

theorem run_state_read_exact_witness:
  "let d = upmem_dpu_init\<lparr>dp_mram := snd (mram_allocate True mram_init)\<rparr>;
       d' = snd (control 4096 0x3300000000000284 (decode_cache_init, d))
   in dpu_core d' = dpu_core d \<and> dp_last_control_result d' = 0 \<and> dp_last_control_generation d' = 1"
proof -
  let ?d = "upmem_dpu_init\<lparr>dp_mram := snd (mram_allocate True mram_init)\<rparr>"
  have "is_run_state_read_command 0x3300000000000284" by (simp add: is_run_state_read_command_def)
  moreover have "mram_bound (dp_mram ?d)"
    by (simp add: mram_bound_def mram_allocate_def mram_init_def)
  moreover have "pl_run_bits (fst (dpu_core ?d)) = 0"
    by (simp add: dpu_core_def upmem_dpu_init_def pipeline_init_def)
  ultimately show ?thesis
    using run_state_read_exact [of "(decode_cache_init, ?d)" 4096 "0x3300000000000284"] cache_ok_init
    by (auto simp: Let_def round_idle upmem_dpu_init_def dest!: spec [of _ 0])
qed

section \<open>Commands and frames\<close>

text \<open>The base word of each kind of thread command.\<close>

definition base_of :: "thread_cmd_kind \<Rightarrow> u64" where
  "base_of kd = (case kd of Boot \<Rightarrow> kBootBase | Resume \<Rightarrow> kResumeBase | ClearRun \<Rightarrow> kClearBase | ReadRun \<Rightarrow> kReadBase)"

definition index_of :: "thread_cmd_kind \<Rightarrow> nat" where
  "index_of kd = (case kd of Boot \<Rightarrow> 0 | Resume \<Rightarrow> 1 | ClearRun \<Rightarrow> 2 | ReadRun \<Rightarrow> 3)"

lemma base_of_index: "bases ! index_of kd = base_of kd" "kind_of_nat (index_of kd) = kd" "index_of kd < 4"
  by (simp_all add: bases_def base_of_def index_of_def kind_of_nat_def split: thread_cmd_kind.split)

lemma base_of_kind: "k < 4 \<Longrightarrow> base_of (kind_of_nat k) = bases ! k"
proof -
  assume "k < 4"
  then have "k = 0 \<or> k = 1 \<or> k = 2 \<or> k = 3" by auto
  then show ?thesis by (auto simp: base_of_def kind_of_nat_def bases_def)
qed

lemma decode_thread_command_iff:
  "decode_thread_command cmd = Some (kd, tid) \<longleftrightarrow>
     unat tid < kNumTasklets \<and> cmd = thread_frame_command (base_of kd) tid"
proof
  assume "decode_thread_command cmd = Some (kd, tid)"
  then obtain k t where "k < 4" "t < kNumTasklets" "kd = kind_of_nat k" "tid = of_nat t"
    "cmd = thread_frame_command (bases ! k) (of_nat t)" by (rule decode_thread_sound)
  then show "unat tid < kNumTasklets \<and> cmd = thread_frame_command (base_of kd) tid"
    by (simp add: base_of_kind unat_of_nat)
next
  assume "unat tid < kNumTasklets \<and> cmd = thread_frame_command (base_of kd) tid"
  with decode_thread_frame [OF base_of_index(3), of "unat tid" kd]
  show "decode_thread_command cmd = Some (kd, tid)" by (simp add: base_of_index)
qed

text \<open>C7. The search for a thread command inverts the encoder of the host library: it finds the kind
  and the tasklet of every encoded command of an existing tasklet, and recognises no other word.\<close>

theorem decode_thread_command_exact:
  "(decode_thread_command cmd = Some (kd, tid) \<longleftrightarrow>
      unat tid < kNumTasklets \<and> cmd = thread_frame_command (base_of kd) tid) \<and>
   (decode_thread_command cmd = None \<longleftrightarrow>
      cmd \<notin> {thread_frame_command (base_of k) t |k t. unat t < kNumTasklets})"
proof
  show "decode_thread_command cmd = Some (kd, tid) \<longleftrightarrow>
      unat tid < kNumTasklets \<and> cmd = thread_frame_command (base_of kd) tid"
    by (rule decode_thread_command_iff)
  show "decode_thread_command cmd = None \<longleftrightarrow>
      cmd \<notin> {thread_frame_command (base_of k) t |k t. unat t < kNumTasklets}"
    using decode_thread_command_iff [of cmd]
    by (cases "decode_thread_command cmd") auto
qed

lemma thread_command_tag_byte: "ucast (drop_bit 48 (thread_frame_command base t) AND 0xFF) = (0x98 :: u8)"
proof -
  have "byte_at 48 (thread_frame_command base t) = byte_at 0 (ucast (0x98 :: u8))"
    unfolding thread_frame_x by (rule frame_byte)
  then show ?thesis by (simp add: byte_at_def)
qed

lemma control_thread_frame:
  assumes "unat t < kNumTasklets"
  shows "control_ref (thread_frame_command (base_of kd) t) d = thread_command kd t d"
proof -
  have "\<not> is_run_state_read_command (thread_frame_command (base_of kd) t)"
    by (simp add: is_run_state_read_command_def thread_command_tag_byte)
  moreover have "decode_thread_command (thread_frame_command (base_of kd) t) = Some (kd, t)"
    using assms by (simp add: decode_thread_command_iff)
  ultimately show ?thesis by (simp add: control_ref_def)
qed

text \<open>What an encoded thread command does to a well-formed DPU: the answer is whether the tasklet
  was running, boot and resume set its run bit and clear removes it, boot zeroes its registers,
  program counter and flags, and nothing else of the run mask, the registers of other tasklets and
  the memories changes.\<close>

theorem thread_command_effect:
  assumes "wf_dpu d" and "unat t < kNumTasklets"
    and "d' = control_ref (thread_frame_command (base_of kd) t) d"
  shows "dp_last_control_result d' = (if bit (pl_run_bits (dp_pipeline d)) (unat t) then 1 else 0) \<and>
    (\<forall>u < kNumTasklets. bit (pl_run_bits (dp_pipeline d')) u \<longleftrightarrow>
       (if u = unat t \<and> kd \<noteq> ReadRun then kd = Boot \<or> kd = Resume else bit (pl_run_bits (dp_pipeline d)) u)) \<and>
    (\<forall>u < kNumTasklets. tasklet_regs u (dp_pipeline d') =
       (if u = unat t \<and> kd = Boot then (replicate kNumGPRegPerTasklet 0, 0, 0, 0)
        else tasklet_regs u (dp_pipeline d))) \<and>
    dp_iram d' = dp_iram d \<and> dp_wram d' = dp_wram d \<and> dp_mram d' = dp_mram d"
proof -
  have d': "d' = thread_command kd t d" using assms by (simp add: control_thread_frame)
  have "wf_pipeline (dp_pipeline d)" using assms(1) by (simp add: wf_dpu_def dpu_core_def wf_core_def)
  then have len: "length (pl_gp_regs (dp_pipeline d)) = 24" "length (pl_pc_regs (dp_pipeline d)) = 24"
    "length (pl_zf_regs (dp_pipeline d)) = 24" "length (pl_cf_regs (dp_pipeline d)) = 24"
    by (simp_all add: wf_pipeline_def)
  show ?thesis
    using assms(2) tasklet_small [OF assms(2)] len unfolding d'
    by (cases kd) (auto simp: thread_command_def Let_def boot_thread_def wake_def reset_tasklet_def
        stop_tasklet_def set_last_control_result_def tasklet_regs_def mask_bits nth_list_update
        bit_or_iff bit_1_iff)
qed

theorem thread_command_effect_witness:
  "dp_last_control_result (control_ref (thread_frame_command (base_of Boot) 5) upmem_dpu_init) = 0 \<and>
   bit (pl_run_bits (dp_pipeline (control_ref (thread_frame_command (base_of Boot) 5) upmem_dpu_init))) 5"
  using thread_command_effect [OF wf_dpu_init _ refl, of 5 Boot]
  by (simp add: upmem_dpu_init_def pipeline_init_def)

text \<open>The simulator recovers every WRAM word address from the read frame that the host encodes, and
  finds an address in no other word.\<close>

theorem decode_wram_read_word_frame_exact:
  "decode_wram_read_word_frame cmd = Some a \<longleftrightarrow>
     word_in_bounds a \<and> cmd = wram_read_word_frame_for_addr a"
proof
  assume "decode_wram_read_word_frame cmd = Some a"
  then obtain c where c: "find (\<lambda>c. wram_read_word_frame_for_addr (of_nat c) = cmd) [0..<kWramWords] = Some c"
    and a: "a = of_nat c" unfolding decode_wram_read_word_frame_def by blast
  from wram_read_table.search_sound [OF c]
  have "c < kWramWords" "wram_read_word_frame_for_addr (of_nat c) = cmd" by simp_all
  with a show "word_in_bounds a \<and> cmd = wram_read_word_frame_for_addr a"
    by (simp add: word_in_bounds_iff kWramWords_def unat_of_nat)
next
  assume "word_in_bounds a \<and> cmd = wram_read_word_frame_for_addr a"
  then show "decode_wram_read_word_frame cmd = Some a" by (simp add: decode_wram_read_frame)
qed

text \<open>A WRAM write is a structure word and a frame word. From both the simulator recovers the
  address: the structure gives its upper part, the upper half of the frame (whatever the data in the
  lower half) its low five bits, and their sum is the address that was encoded.\<close>

theorem wram_write_address_recovered:
  assumes "word_in_bounds a"
  shows "\<exists>base low5.
    decode_wram_write_word_structure (wram_write_word_structure_for_addr a) = Some base \<and>
    decode_wram_write_word_frame_low5 (wram_write_word_frame_upper_for_addr a OR ucast (data :: u32)) = Some low5 \<and>
    ucast base + ucast low5 = a"
proof -
  let ?b = "32 * (unat a div 32)" and ?l = "unat a mod 32"
  have "unat a < 16384" using assms by (simp add: word_in_bounds_iff)
  then have "?b < 65536" by linarith
  then have "unat (of_nat ?b :: u16) = ?b" by (simp only: unat_of_nat len_bit0 len_num1) simp
  moreover have "unat (of_nat ?l :: u8) = ?l" by (simp only: unat_of_nat len_bit0 len_num1) simp
  ultimately have "(ucast (of_nat ?b :: u16) :: u32) + ucast (of_nat ?l :: u8) = of_nat ?b + of_nat ?l"
    by (metis of_nat_unat)
  also have "\<dots> = of_nat (?b + ?l)" by (simp only: of_nat_add)
  also have "\<dots> = a" by simp
  finally show ?thesis
    using decode_wram_write_structure [of "unat a"] decode_wram_write_low5 [of "unat a" data] \<open>unat a < 16384\<close>
    by (simp add: kWramWords_def del: of_nat_mult)
qed

theorem wram_write_address_recovered_witness:
  "\<exists>base low5.
    decode_wram_write_word_structure (wram_write_word_structure_for_addr 1000) = Some base \<and>
    decode_wram_write_word_frame_low5 (wram_write_word_frame_upper_for_addr 1000 OR ucast (7 :: u32)) = Some low5 \<and>
    ucast base + ucast low5 = (1000 :: u32)"
  by (rule wram_write_address_recovered) (simp add: word_in_bounds_iff)

section \<open>The memories\<close>



text \<open>Programming the IRAM: after a sequence of word writes to distinct slots, every slot written
  inside the memory reads as the low 48 bits of the value written there, and every slot not written
  keeps its word.\<close>

theorem iram_image_read_back:
  assumes "wf_iram m" and "distinct (map fst ps)"
    and img: "img = fold (\<lambda>(s, v) m. iram_write_word m s v) ps m"
  shows "((s, v) \<in> set ps \<and> slot_in_bounds s \<longrightarrow> iram_read_word img s = v AND kIramInst48Mask) \<and>
         (s \<notin> fst ` set ps \<longrightarrow> iram_read_word img s = iram_read_word m s)"
proof -
  have img': "img = iram_port.stores ps m" by (simp add: img iram_port.stores_def)
  have disj: "slot_foot (fst (ps ! i)) \<inter> slot_foot (fst (ps ! j)) = {}"
    if "i < length ps" "j < length ps" "i \<noteq> j" for i j
    using assms(2) that nth_eq_iff_index_eq [of "map fst ps" i j] by (simp add: slot_foot_disjoint)
  have "iram_read_word img s = v AND kIramInst48Mask" if "(s, v) \<in> set ps" "slot_in_bounds s"
    unfolding img' by (rule iram_port.load_stores_image) (use assms(1) that disj in blast)+
  moreover have "iram_read_word img s = iram_read_word m s" if "s \<notin> fst ` set ps"
    unfolding img' using assms(1) that
    by (intro iram_port.load_stores_other) (auto simp: slot_foot_disjoint)
  ultimately show ?thesis by blast
qed

theorem iram_image_read_back_witness:
  "iram_read_word (fold (\<lambda>(s, v) m. iram_write_word m s v) [(0, 0x7C6300000000), (7, 0xFFFF000000000001)] iram_init) 7 = 1"
  using iram_image_read_back [OF wf_iram_init, of "[(0, 0x7C6300000000), (7, 0xFFFF000000000001)]", OF _ refl, of 7 "0xFFFF000000000001"]
  by (simp add: slot_in_bounds_iff kIramInst48Mask_def)

text \<open>C9. A DMA transfer from MRAM to WRAM moves exactly the bytes of the request that lie in both
  memories and no others; it reports failure exactly when it moves nothing.\<close>

theorem dma_load_exact:
  assumes "wf_mram m" and "wf_wram w" and "dma_to_wram_from_mram w m bytes wo mo = (ok, w')"
  shows "(ok \<longleftrightarrow> dma_active m bytes wo mo) \<and> wf_wram w' \<and>
    (\<forall>i < kWRAMSizeBytes. wram_data w' ! i =
       (if ok \<and> unat wo \<le> i \<and> i < unat wo + dma_len bytes wo mo
        then the (mram_addr m) ! (unat mo + (i - unat wo)) else wram_data w ! i))"
  using assms(3) wf_wram_dma [OF assms(1,2), of bytes wo mo] dma_to_wram_bytes [OF assms(1,2), of bytes wo mo]
  by (cases "dma_active m bytes wo mo") (auto simp: dma_to_wram_eq [OF assms(1)])

lemma mram_allocated: "wf_mram (snd (mram_allocate True mram_init))" "mram_bound (snd (mram_allocate True mram_init))"
  by (simp_all add: wf_intros) (simp add: mram_bound_def mram_allocate_def mram_init_def)

theorem dma_load_exact_witness:
  "let (ok, w') = dma_to_wram_from_mram wram_init (snd (mram_allocate True mram_init)) 64 65520 0
   in ok \<and> wf_wram w'"
  using dma_load_exact [OF mram_allocated(1) wf_wram_init, of 64 65520 0] mram_allocated(2)
  by (auto simp: dma_active_def split: prod.split)

text \<open>Storing a block of WRAM to MRAM by DMA and loading it back gives the same bytes, whatever the
  WRAM held in between.\<close>

theorem dma_store_load_round_trip:
  assumes "wf_mram m" and "wf_wram w" and "wf_wram w'"
    and "dma_to_mram_from_wram m w bytes mo wo = (True, m')"
  shows "\<exists>w''. dma_to_wram_from_mram w' m' bytes wo mo = (True, w'') \<and>
    slice_get (unat wo) (dma_len bytes wo mo) (wram_data w'') = slice_get (unat wo) (dma_len bytes wo mo) (wram_data w)"
proof -
  have active: "dma_active m bytes wo mo" and m': "m' = snd (dma_to_mram_from_wram m w bytes mo wo)"
    using assms(4) by (auto simp: dma_to_mram_eq [OF assms(1,2)] split: if_splits)
  have "wf_mram m'" "dma_active m' bytes wo mo"
    using assms active by (simp_all add: m' wf_mram_dma dma_active_def)
  then have "fst (dma_to_wram_from_mram w' m' bytes wo mo)" by (simp add: dma_to_wram_eq)
  with dma_round_trip [OF assms(1-3) active m'] show ?thesis
    by (cases "dma_to_wram_from_mram w' m' bytes wo mo") auto
qed

theorem dma_store_load_round_trip_witness:
  "\<exists>m' w''. dma_to_mram_from_wram (snd (mram_allocate True mram_init)) (wram_store_u8 wram_init 16 9) 8 4096 16 = (True, m') \<and>
    dma_to_wram_from_mram wram_init m' 8 16 4096 = (True, w'') \<and>
    slice_get 16 (dma_len 8 16 4096) (wram_data w'') = slice_get 16 (dma_len 8 16 4096) (wram_data (wram_store_u8 wram_init 16 9))"
proof -
  let ?m = "snd (mram_allocate True mram_init)" and ?w = "wram_store_u8 wram_init 16 9"
  have w: "wf_wram ?w" by (intro wf_intros)
  have "dma_active ?m 8 16 4096" using mram_allocated(2) by (simp add: dma_active_def)
  then have "fst (dma_to_mram_from_wram ?m ?w 8 4096 16)" by (simp add: dma_to_mram_eq [OF mram_allocated(1) w])
  then obtain m' where m': "dma_to_mram_from_wram ?m ?w 8 4096 16 = (True, m')"
    by (cases "dma_to_mram_from_wram ?m ?w 8 4096 16") auto
  from dma_store_load_round_trip [OF mram_allocated(1) w wf_wram_init m'] m' show ?thesis by auto
qed

text \<open>Host copies: writing to a mapped MRAM succeeds exactly when the block fits (or is empty),
  changes exactly the bytes of the block, and reading the block returns what was written.\<close>

theorem mram_host_copy_round_trip:
  assumes "wf_mram m" and "mram_host_copy_to m a (Some s) (length s) = (ok, m')"
  shows "(ok \<longleftrightarrow> mram_bound m \<and> (unat a + length s \<le> kMramSizeBytes \<or> s = [])) \<and>
    (\<not> ok \<longrightarrow> m' = m) \<and> wf_mram m' \<and>
    (ok \<longrightarrow> mram_host_copy_from m' a (length s) = Some s \<and>
       (\<forall>i < kMramSizeBytes. i < unat a \<or> unat a + length s \<le> i \<longrightarrow> the (mram_addr m') ! i = the (mram_addr m) ! i))"
proof -
  have ok: "ok \<longleftrightarrow> mram_bound m \<and> (unat a + length s \<le> kMramSizeBytes \<or> s = [])"
    using mram_host_copy_to_ok [OF assms(1), of a s "length s"] assms(2) by auto
  have "\<not> ok \<longrightarrow> m' = m"
    using assms by (auto simp: mram_host_copy_to_def split: option.splits if_splits)
  moreover have "wf_mram m'"
    using wf_mram_host_copy_to [OF assms(1), where src = "Some s" and n = "length s" and a = a] assms(2) by simp
  moreover have "mram_host_copy_from m' a (length s) = Some s" if ok
    using mram_host_copy_to_from [OF assms(1) refl, of a s] assms(2) that by simp
  moreover have "the (mram_addr m') ! i = the (mram_addr m) ! i"
    if "i < kMramSizeBytes" "i < unat a \<or> unat a + length s \<le> i" ok for i
  proof (cases "s = []")
    case True
    then show ?thesis using assms by (auto simp: mram_host_copy_to_def split: option.splits)
  next
    case False
    then show ?thesis
      using mram_host_copy_to_bytes [OF assms(1), of "length s" a s i] ok that assms(2) by auto
  qed
  ultimately show ?thesis using ok by blast
qed

theorem mram_host_copy_round_trip_witness:
  "mram_host_copy_from (snd (mram_host_copy_to (snd (mram_allocate True mram_init)) 4096 (Some [1, 2, 3]) 3)) 4096 3 = Some [1, 2, 3]"
  using mram_host_copy_round_trip [OF mram_allocated(1), of 4096 "[1, 2, 3]" _ _, OF prod.collapse [symmetric]]
    mram_allocated(2) by (simp add: numeral_3_eq_3)

section \<open>Multi-word arithmetic\<close>

text \<open>An \<open>add\<close> on the low words followed by an \<open>addc\<close> on the high words is 64-bit addition: the two
  destinations hold the sum modulo 2^64 and the carry flag its carry.\<close>

theorem add_addc_is_add64:
  assumes "live t x"
    and "\<not> rd_imm_is_signed8 d1" "rd_has_rc d1" "drc d1 < 24" and "rd_has_rc d2" "drc d2 < 24"
    and "drc d1 \<noteq> drc d2" "dra d2 \<noteq> drc d1" "drb d2 \<noteq> drc d1"
    and "y = hot_addc t d2 (hot_add t d1 x)"
    and "a = join64 (vra t d2 x) (vra t d1 x)" and "b = join64 (rhs_operand t d2 x) (rhs_operand t d1 x)"
  shows "join64 (read_reg t (drc d2) y) (read_reg t (drc d1) y) = a + b \<and>
         (cf_set t y \<longleftrightarrow> 2 ^ 64 \<le> unat a + unat b)"
  using add_addc_chain [OF assms] by blast

text \<open>Registers \<open>a\<close>, \<open>b\<close>, \<open>c\<close> as the operands of a concrete decoded instruction, and a fresh machine.\<close>

definition regs3 :: "u32 \<Rightarrow> u32 \<Rightarrow> u32 \<Rightarrow> raw_decoded48" where
  "regs3 a b c = raw_decoded48_init\<lparr>rd_has_ra := True, rd_ra := a, rd_has_rb := True, rd_rb := b,
     rd_has_rc := True, rd_rc := c\<rparr>"

definition fresh :: exec where
  "fresh = start_exec 0 (pipeline_init, wram_init, mram_init)"

lemma live_fresh: "live 0 fresh"
  by (simp add: live_def fresh_def start_exec_def wf_intros)

lemma read_fresh: "i < 24 \<Longrightarrow> read_reg 0 i fresh = 0"
  by (simp add: fresh_def start_exec_def read_reg_def pipeline_init_def word_less_nat_alt)

lemma regs3_simps:
  "dra (regs3 a b c) = ucast (a AND 0x1F)" "drb (regs3 a b c) = ucast (b AND 0x1F)" "drc (regs3 a b c) = ucast (c AND 0x1F)"
  "rd_has_rc (regs3 a b c)" "rd_has_rb (regs3 a b c)" "\<not> rd_imm_is_signed8 (regs3 a b c)"
  by (simp_all add: regs3_def dra_def drb_def drc_def raw_decoded48_init_def)

lemma unat_join64_ff: "unat (join64 0 0xFFFFFFFF) = 4294967295" "unat (join64 0 1) = 1"
  by (simp_all add: unat_join64)

theorem add_addc_is_add64_witness:
  "let x = write_reg 0 0 0xFFFFFFFF (write_reg 0 2 1 fresh);
       y = hot_addc 0 (regs3 1 3 5) (hot_add 0 (regs3 0 2 4) x)
   in join64 (read_reg 0 5 y) (read_reg 0 4 y) = join64 0 0xFFFFFFFF + join64 0 1 \<and> \<not> cf_set 0 y"
proof -
  let ?x = "write_reg 0 0 0xFFFFFFFF (write_reg 0 2 1 fresh)"
  have "live 0 ?x" using live_fresh by simp
  moreover have "read_reg 0 1 ?x = 0" "read_reg 0 3 ?x = 0" by (simp_all add: read_fresh)
  ultimately show ?thesis
    using add_addc_is_add64 [of 0 ?x "regs3 0 2 4" "regs3 1 3 5", OF _ _ _ _ _ _ _ _ _ refl refl refl] live_fresh
    by (simp add: regs3_simps vra_def vrb_def rhs_operand_def Let_def unat_join64_ff)
qed

text \<open>C10. A \<open>sub\<close> followed by a \<open>subc\<close> on registers is 64-bit subtraction with its borrow.\<close>

theorem sub_subc_is_sub64:
  assumes "live t x"
    and "\<not> rd_sub_lhs_is_imm d1" "rd_sub_rhs_is_reg d1" "\<not> rd_sub_is_rrrc d1" "rd_has_rc d1" "drc d1 < 24"
    and "\<not> rd_subc_lhs_is_imm d2" "rd_subc_rhs_is_reg d2" "\<not> rd_subc_is_rrrc d2" "rd_has_rc d2" "drc d2 < 24"
    and "drc d1 \<noteq> drc d2" "dra d2 \<noteq> drc d1" "drb d2 \<noteq> drc d1"
    and "y = hot_subc t d2 (hot_sub t d1 x)"
  shows "join64 (read_reg t (drc d2) y) (read_reg t (drc d1) y) =
      join64 (vra t d2 x) (vra t d1 x) - join64 (vrb t d2 x) (vrb t d1 x) \<and>
    (cf_set t y \<longleftrightarrow> join64 (vra t d2 x) (vra t d1 x) < join64 (vrb t d2 x) (vrb t d1 x))"
  using sub_subc_chain [OF assms] by blast

theorem sub_subc_is_sub64_witness:
  "let d1 = (regs3 0 2 4)\<lparr>rd_sub_rhs_is_reg := True\<rparr>; d2 = (regs3 1 3 5)\<lparr>rd_subc_rhs_is_reg := True\<rparr>;
       x = write_reg 0 2 1 fresh; y = hot_subc 0 d2 (hot_sub 0 d1 x)
   in join64 (read_reg 0 5 y) (read_reg 0 4 y) = - 1 \<and> cf_set 0 y"
proof -
  let ?x = "write_reg 0 2 1 fresh"
  let ?d1 = "(regs3 0 2 4)\<lparr>rd_sub_rhs_is_reg := True\<rparr>" and ?d2 = "(regs3 1 3 5)\<lparr>rd_subc_rhs_is_reg := True\<rparr>"
  have r: "read_reg 0 0 ?x = 0" "read_reg 0 1 ?x = 0" "read_reg 0 3 ?x = 0" "read_reg 0 2 ?x = 1"
    using live_fresh by (simp_all add: read_fresh)
  have "join64 0 0 - join64 0 1 = - 1" "join64 0 0 < join64 0 1" by (simp_all add: join64_def)
  then show ?thesis
    using sub_subc_is_sub64 [of 0 ?x ?d1 ?d2, OF _ _ _ _ _ _ _ _ _ _ _ _ _ _ refl] live_fresh r
    by (simp add: regs3_def dra_def drb_def drc_def raw_decoded48_init_def vra_def vrb_def Let_def)
qed

text \<open>Thirty-two \<open>mul_step\<close> instructions with shifts 0 to 31 multiply: starting from a zero
  accumulator the odd register of the pair ends as the product of the multiplier in the even
  register and the multiplicand, modulo 2^32.\<close>

theorem mul_step_loop_multiplies:
  assumes "live t x" and "step_pair d" and "read_reg t (ddc d + 1) x = 0"
  shows "read_reg t (ddc d + 1) (mul_steps t d 32 x) = read_reg t (ddc d) x * read_reg t (dra d) x \<and>
         read_reg t (ddc d) (mul_steps t d 32 x) = 0"
  using mul_steps_value [OF assms(1,2), of 32] assms(3)
  by (simp add: take_bit_word_eq_self drop_bit_word_beyond)

definition pair_regs_of :: "u32 \<Rightarrow> u32 \<Rightarrow> raw_decoded48" where
  "pair_regs_of a dd = raw_decoded48_init\<lparr>rd_has_ra := True, rd_ra := a, rd_has_db := True, rd_db := dd,
     rd_has_dc := True, rd_dc := dd, rd_hot_fmt := F_Rrrici\<rparr>"

lemma step_pair_example: "step_pair (pair_regs_of 0 2)" "ddc (pair_regs_of 0 2) = 2" "dra (pair_regs_of 0 2) = 0"
  by (simp_all add: step_pair_def pair_regs_of_def ddc_def ddb_def dra_def raw_decoded48_init_def)

theorem mul_step_loop_multiplies_witness:
  "read_reg 0 3 (mul_steps 0 (pair_regs_of 0 2) 32 (write_reg 0 0 100 (write_reg 0 2 7 fresh))) = 700"
proof -
  let ?x = "write_reg 0 0 100 (write_reg 0 2 7 fresh)"
  have "live 0 ?x" "read_reg 0 0 ?x = 100" "read_reg 0 2 ?x = 7" using live_fresh by simp_all
  moreover have "read_reg 0 3 ?x = 0" by (simp add: read_fresh)
  ultimately show ?thesis
    using mul_step_loop_multiplies [of 0 ?x "pair_regs_of 0 2"] by (simp add: step_pair_example)
qed

text \<open>C11. The division loop: \<open>div_step\<close> with shifts from \<open>n - 1\<close> down to 0, where the shifted divisor does
  not overflow and exceeds the dividend, leaves the remainder in the odd register and shifts the
  quotient into the even one.\<close>

theorem div_step_loop_divides:
  assumes "live t x" and "step_pair d" and "n \<le> 32" and "V = unat (read_reg t (dra d) x)" and "0 < V"
    and "n = 0 \<or> V * 2 ^ (n - 1) < 2 ^ 32" and "unat (read_reg t (ddc d + 1) x) < V * 2 ^ n"
  shows "read_reg t (ddc d) (div_steps t d n x) =
      read_reg t (ddc d) x * 2 ^ n + of_nat (unat (read_reg t (ddc d + 1) x) div V) \<and>
    unat (read_reg t (ddc d + 1) (div_steps t d n x)) = unat (read_reg t (ddc d + 1) x) mod V"
  using assms by (rule div_steps_value)

theorem div_step_loop_divides_witness:
  "let x = write_reg 0 0 7 (write_reg 0 3 100 fresh); y = div_steps 0 (pair_regs_of 0 2) 4 x
   in read_reg 0 2 y = 14 \<and> unat (read_reg 0 3 y) = 2"
proof -
  let ?x = "write_reg 0 0 7 (write_reg 0 3 100 fresh)"
  have "live 0 ?x" "read_reg 0 0 ?x = 7" "read_reg 0 3 ?x = 100" using live_fresh by simp_all
  moreover have "read_reg 0 2 ?x = 0" by (simp add: read_fresh)
  ultimately show ?thesis
    using div_step_loop_divides [of 0 ?x "pair_regs_of 0 2" 4 7] by (simp add: step_pair_example)
qed

section \<open>Locks\<close>

text \<open>\<open>acquire\<close> is a test-and-set: it reports success (the zero flag) exactly when the lock was free
  and holds the lock afterwards, so a second tasklet that tries the same lock fails; \<open>release\<close> frees
  exactly that lock.\<close>

theorem acquire_mutual_exclusion:
  assumes "live t x" and "live u x" and "\<not> rd_acquire_is_release d" and "\<not> rd_acquire_is_release e"
    and "y = hot_acquire t d x" and "z = hot_acquire u e y" and "lock_of u e y = lock_of t d x"
  shows "(zf_set t y \<longleftrightarrow> \<not> lock_held (lock_of t d x) x) \<and> \<not> zf_set u z \<and>
    (\<forall>l. lock_held l z \<longleftrightarrow> l = lock_of t d x \<or> lock_held l x) \<and>
    (\<forall>r. rd_acquire_is_release r \<and> lock_of t r z = lock_of t d x \<longrightarrow>
       (\<forall>l. lock_held l (hot_acquire t r z) \<longleftrightarrow> l \<noteq> lock_of t d x \<and> lock_held l x))"
proof -
  note a = hot_acquire_lock [OF assms(1,3,5)]
  have "live u y" using a(3) assms(2) by (simp add: live_def)
  note b = hot_acquire_lock [OF this assms(4,6)]
  have "live t z" using b(3) assms(1) by (simp add: live_def)
  then show ?thesis using a b assms(7) hot_release_lock(2) [of t z _ _] by auto
qed

theorem acquire_mutual_exclusion_witness:
  "let y = hot_acquire 0 raw_decoded48_init fresh; z = hot_acquire 1 raw_decoded48_init y
   in zf_set 0 y \<and> \<not> zf_set 1 z"
proof -
  have "live 1 fresh" using live_fresh by (simp add: live_def)
  moreover have free: "\<not> lock_held l fresh" for l
    using lock_index [of l] by (simp add: lock_held_def fresh_def start_exec_def pipeline_init_def)
  moreover have "vra 0 raw_decoded48_init fresh = 0"
    by (simp add: vra_def dra_def raw_decoded48_init_def read_reg_def)
  moreover have "vra 1 raw_decoded48_init (hot_acquire 0 raw_decoded48_init fresh) = 0"
    by (simp add: vra_def dra_def raw_decoded48_init_def read_reg_def)
  ultimately show ?thesis
    using acquire_mutual_exclusion [of 0 fresh 1 raw_decoded48_init raw_decoded48_init, OF _ _ _ _ refl refl] live_fresh
    by (simp add: Let_def lock_of_def) (simp add: raw_decoded48_init_def)
qed

section \<open>Arithmetic helpers and the performance counter\<close>

text \<open>The saturating addition returns the exact signed sum clamped to the range of 32-bit integers.\<close>

theorem saturating_add_clamps:
  "sint (saturating_add_s32 a b) = max (- (2 ^ 31)) (min (2 ^ 31 - 1) (sint a + sint b))"
  by (rule saturating_add_sint)

text \<open>The rotations move bit \<open>i\<close> by the amount modulo 32, for every amount including multiples of 32
  (where a plain pair of shifts would be undefined), and are inverse to each other.\<close>

theorem rotations_exact:
  "rotr32 (rotl32 v s) s = v \<and>
   (\<forall>i < 32. bit (rotl32 v s) i = bit v ((i + 32 - unat (s AND 31)) mod 32)) \<and>
   (\<forall>i < 32. bit (rotr32 v s) i = bit v ((i + unat (s AND 31)) mod 32))"
  by (simp add: rotr32_rotl32 bit_rotl32 bit_rotr32)

theorem rotations_exact_witness: "bit (rotl32 1 33) 1 \<and> rotr32 (rotl32 5 64) 64 = 5"
proof -
  have "unat ((33 :: u32) AND 31) = 1" by simp
  then show ?thesis using rotations_exact [of 1 33] rotations_exact [of 5 64] by simp
qed

lemma retire_steps_raw:
  "pl_perf_counter_mode p = kPerfModeCycles \<Longrightarrow>
   pl_perf_counter_raw ((perf_counter_retire_step b ^^ n) p) = pl_perf_counter_raw p + of_nat n \<and>
   pl_perf_counter_mode ((perf_counter_retire_step b ^^ n) p) = kPerfModeCycles"
  by (induction n) (simp_all add: perf_counter_retire_step_def)

text \<open>The performance counter: configured to count cycles with a reset, it reads, after \<open>n + 1\<close> retired
  instructions (replayed or not), \<open>n\<close> modulo 2^32 in units of sixteen; configured to count nothing with
  a reset, it reads 0 for ever.\<close>

theorem perf_counter_counts:
  "perf_counter_read32 ((perf_counter_retire_step b ^^ Suc n) (snd (perf_counter_config 3 p))) =
     drop_bit 4 (of_nat n) \<and>
   perf_counter_read32 ((perf_counter_retire_step b ^^ n) (snd (perf_counter_config 7 p))) = 0"
proof
  let ?p = "snd (perf_counter_config 3 p)"
  have "pl_perf_counter_mode ?p = kPerfModeCycles" "pl_perf_counter_raw ?p = - 1"
    by (simp_all add: perf_counter_config_def Let_def)
  then show "perf_counter_read32 ((perf_counter_retire_step b ^^ Suc n) ?p) = drop_bit 4 (of_nat n)"
    using retire_steps_raw [of ?p "Suc n" b] by (simp add: perf_counter_read32_def del: funpow.simps)
  let ?q = "snd (perf_counter_config 7 p)"
  have q: "pl_perf_counter_mode ?q = kPerfModeNothing" "pl_perf_counter_raw ?q = 0"
    by (simp_all add: perf_counter_config_def Let_def)
  then have "perf_counter_retire_step b ?q = ?q" by (simp add: perf_counter_retire_step_def)
  then have "(perf_counter_retire_step b ^^ n) ?q = ?q" by (induction n) simp_all
  with q show "perf_counter_read32 ((perf_counter_retire_step b ^^ n) ?q) = 0"
    by (simp add: perf_counter_read32_def)
qed

section \<open>Where the code departs from its description\<close>

text \<open>The legacy \<open>OP_SUBC\<close> loses the borrow: with a borrow pending and a subtrahend of all ones it
  clears the carry flag for every minuend, although every minuend is smaller than 2^32.\<close>

theorem legacy_subc_loses_borrow:
  assumes "live t x" and "ff_opcode f = OP_SUBC" and "op_b t f x = 0xFFFFFFFF" and "cf_set t x"
  shows "\<not> cf_set t (leg_sub t f x)"
  using assms by (rule legacy_subc_borrow)

theorem legacy_subc_loses_borrow_witness:
  "\<not> cf_set 0 (leg_sub 0 (fixed_decode 0x3400011A0000) (set_cf 0 True fresh))"
  using legacy_subc_loses_borrow [of 0 "set_cf 0 True fresh" "fixed_decode 0x3400011A0000"] live_fresh
  by (simp add: fixed_decode_def pl_byte_def OP_SUBC_def op_b_def rb_val_def read_reg_def)

text \<open>The 64-bit unsigned conditions of \<open>subc\<close> are not complementary: after a borrow with a non-zero
  low word both "lower or same" and "higher" hold, and without borrow and with a non-zero low word
  neither does.\<close>

theorem subc_unsigned_conditions_overlap:
  "eval_subc_cc_simple CC_XLessEqualUnsigned z True v False overflow \<and>
   eval_subc_cc_simple CC_XGreaterUnsigned z True v False overflow \<and>
   \<not> eval_subc_cc_simple CC_XLessEqualUnsigned z False v False overflow \<and>
   \<not> eval_subc_cc_simple CC_XGreaterUnsigned z False v False overflow"
  by (simp add: eval_subc_cc_simple_def)

section \<open>Transfers between the host and a rank\<close>

text \<open>A host that never refuses, a rank as \<open>upmem_create_rank\<close> leaves it, and a transfer of 64 bytes to the
  DPUs 0, 1 and 9; they serve as inputs of the witnesses.\<close>

definition willing_host :: host_env where
  "willing_host = \<lparr>os_page_size = 4096, os_backing = 0x10000, os_region_alloc_ok = (\<lambda>_. True),
     os_table_alloc_ok = (\<lambda>_. True), os_mprotect = (\<lambda>_ _ _. True), os_mram_mmap_ok = (\<lambda>_. True),
     os_push_ok = (\<lambda>_. True), os_hardware_concurrency = 4, os_spawn_ok = True, os_pool_threads = None\<rparr>"

definition fresh_rank :: upmem_sys where
  "fresh_rank = (the (pim_device_init (Some (\<lambda>_. 0)) kRankApertureSizeBytes True), replicate kRankNumBanks chip_init)"

definition sample_transfer :: dpu_transfer_mram where
  "sample_transfer = \<lparr>tm_ptr = (replicate kRankNumDpus None)[0 := Some (replicate 64 1), 1 := Some (replicate 64 2),
     9 := Some (replicate 64 3)], tm_offset_in_mram = 8, tm_size = 64\<rparr>"

lemma cooperative_willing: "cooperative willing_host"
  by (auto simp: cooperative_def willing_host_def intro!: exI [of _ 12])

lemma created_rank_live:
  assumes "upmem_create_rank obj_ok backing dev_ok = Inr sys"
  shows "rank_live env sys"
  using assms
  by (auto simp: upmem_create_rank_def pim_device_init_def pim_device_setup_common_def rank_live_def rank_dev_ok_def
      is_topology_mutation_blocked_def wf_regions_def shape_ok_def dpus_of_def chip_init_def Let_def
      split: if_splits option.splits)

lemma fresh_rank_live: "rank_live env fresh_rank"
  by (rule created_rank_live [of True "Some (\<lambda>_. 0)" True])
     (simp add: upmem_create_rank_def fresh_rank_def pim_device_init_def pim_device_setup_common_def)

lemma fresh_mram: "h < kRankNumDpus \<Longrightarrow> dp_mram (dpu_by_global fresh_rank h) = mram_init"
  by (simp add: dpu_by_global_def fresh_rank_def chip_init_def upmem_dpu_init_def)

lemma sample_in_bounds: "transfer_in_bounds kMramSizeBytes sample_transfer"
  by (simp add: transfer_in_bounds_def sample_transfer_def)

text \<open>C12. A transfer to the rank that returns 0 has done what one copy per DPU does: each DPU with a buffer
  got its MRAM, if it had none, and holds the bytes of its buffer at the offset; no other DPU's MRAM changed.
  The grouping of the banks into sparse requests is not visible.\<close>

theorem rank_write_exact:
  assumes "host_copy_to_rank env tm sys = (Inr (), sys')" and "shape_ok sys" and "h < kRankNumDpus"
  shows "dp_mram (dpu_by_global sys' h) =
    (if tm_ptr tm ! h = None \<or> tm_size tm = 0 then dp_mram (dpu_by_global sys h)
     else snd (mram_host_copy_to (populated (dp_mram (dpu_by_global sys h))) (tm_offset_in_mram tm)
                 (tm_ptr tm ! h) (unat (tm_size tm))))"
proof (cases "tm_ptr tm ! h = None \<or> tm_size tm = 0")
  case True
  then show ?thesis
    using host_copy_to_rank_effect(2) [OF assms] by (auto simp: mram_at_def)
next
  case False
  then obtain src where src: "tm_ptr tm ! h = Some src" by auto
  have pos: "0 < unat (tm_size tm)" using False by (simp add: unat_gt_0)
  have "transfer_in_bounds kMramSizeBytes tm" using assms(1) by (auto simp: host_copy_to_rank_def split: if_splits)
  from transfer_bounds [OF this pos] have "fst (mram_host_copy_to (populated m) (tm_offset_in_mram tm) (Some src) (unat (tm_size tm)))" for m
    by (auto simp: mram_host_copy_to_def populated_def mram_allocate_def split: option.split)
  then have "snd (mram_host_copy_to (populated m) (tm_offset_in_mram tm) (Some src) (unat (tm_size tm))) = written tm h m" for m
    using mram_host_copy_to_write [OF _ pos, of "populated m" "tm_offset_in_mram tm" src] src
    by (metis (full_types) option.sel prod.collapse written_def)
  then show ?thesis
    using host_copy_to_rank_effect(2) [OF assms] False src by (simp add: mram_at_def)
qed

theorem rank_write_exact_witness:
  "\<exists>sys'. host_copy_to_rank willing_host sample_transfer fresh_rank = (Inr (), sys') \<and>
     dp_mram (dpu_by_global sys' 9) = snd (mram_host_copy_to (populated mram_init) 8 (Some (replicate 64 3)) 64) \<and>
     dp_mram (dpu_by_global sys' 2) = mram_init"
proof -
  obtain sys' where s: "host_copy_to_rank willing_host sample_transfer fresh_rank = (Inr (), sys')"
    using host_copy_to_rank_succeeds [OF cooperative_willing fresh_rank_live sample_in_bounds] by blast
  have shape: "shape_ok fresh_rank" using fresh_rank_live [of willing_host] by (simp add: rank_live_def)
  show ?thesis
    using s fresh_mram [of 9] fresh_mram [of 2] rank_write_exact [OF s shape, of 9] rank_write_exact [OF s shape, of 2]
    by (simp add: sample_transfer_def)
qed

text \<open>C13. A new rank is ready, and on a host that refuses nothing a transfer to the rank returns 0 exactly when
  it lies inside the MRAM, whatever was created before; a transfer that does not fit is refused with
  \<open>EINVAL\<close> and changes nothing. The rank stays ready.\<close>

theorem rank_write_succeeds:
  assumes "cooperative env"
  shows "(upmem_create_rank obj_ok backing dev_ok = Inr sys0 \<longrightarrow> rank_live env sys0) \<and>
    (rank_live env sys \<longrightarrow>
      (if unat (tm_offset_in_mram tm) + unat (tm_size tm) \<le> kMramSizeBytes
       then \<exists>sys'. host_copy_to_rank env tm sys = (Inr (), sys') \<and> rank_live env sys'
       else host_copy_to_rank env tm sys = (Inl EINVAL, sys)))"
proof -
  have "transfer_in_bounds kMramSizeBytes tm \<longleftrightarrow> unat (tm_offset_in_mram tm) + unat (tm_size tm) \<le> kMramSizeBytes"
    by (auto simp: transfer_in_bounds_def Let_def)
  then show ?thesis
    using host_copy_to_rank_succeeds [OF assms, of sys tm] created_rank_live [of obj_ok backing dev_ok sys0 env]
    by (auto simp: host_copy_to_rank_def)
qed

theorem rank_write_succeeds_witness:
  "\<exists>sys'. host_copy_to_rank willing_host sample_transfer fresh_rank = (Inr (), sys') \<and> rank_live willing_host sys'"
  using rank_write_succeeds [OF cooperative_willing, of True None True fresh_rank fresh_rank sample_transfer] fresh_rank_live [of willing_host]
  by (simp add: sample_transfer_def)

text \<open>C14. What was written to a rank is read back: after a transfer to the rank and one from it with the
  same offset and size, each destination buffer of a DPU that was written starts with the bytes of the
  source buffer, and the rest of the buffer and the rank's MRAM are unchanged.\<close>

theorem rank_round_trip:
  assumes "host_copy_to_rank env tm sys = (Inr (), sys1)" and "host_copy_from_rank env' tm' sys1 = (Inr (), (sys2, bufs))"
    and "shape_ok sys" and "tm_offset_in_mram tm' = tm_offset_in_mram tm" and "tm_size tm' = tm_size tm" and "tm_size tm \<noteq> 0"
    and "length (tm_ptr tm') = kRankNumDpus" and "h < kRankNumDpus" and "wf_mram (dp_mram (dpu_by_global sys h))"
    and "tm_ptr tm ! h = Some src" and "unat (tm_size tm) \<le> length src" and "tm_ptr tm' ! h = Some dst"
  shows "bufs ! h = Some (slice_put 0 (take (unat (tm_size tm)) src) dst) \<and>
    dp_mram (dpu_by_global sys2 h) = dp_mram (dpu_by_global sys1 h)"
proof -
  have m1: "mram_at sys1 h = written tm h (mram_at sys h)" and shape1: "shape_ok sys1"
    using host_copy_to_rank_effect [OF assms(1,3)] assms(6,8,10) by auto
  have bounds: "unat (tm_offset_in_mram tm) + unat (tm_size tm) \<le> kMramSizeBytes"
    using assms(1) by (auto simp: host_copy_to_rank_def transfer_in_bounds_def Let_def split: if_splits)
  have "rank_at (sys2, bufs) h = fetched (tm_offset_in_mram tm) (unat (tm_size tm)) (written tm h (mram_at sys h), Some dst)"
    using host_copy_from_rank_effect(2) [OF assms(2), of h] shape1 assms(4-8,12) m1 by (simp add: rank_ok_def)
  also have "\<dots> = (written tm h (mram_at sys h), Some (slice_put 0 (take (unat (tm_size tm)) src) dst))"
    using assms(9-11) bounds by (intro fetched_written) (simp_all add: mram_at_def)
  finally show ?thesis using m1 by (simp add: rank_at_def mram_at_def)
qed

theorem rank_round_trip_witness:
  "\<exists>sys1 sys2 bufs. host_copy_to_rank willing_host sample_transfer fresh_rank = (Inr (), sys1) \<and>
     host_copy_from_rank willing_host (sample_transfer\<lparr>tm_ptr := replicate kRankNumDpus (Some (replicate 100 0))\<rparr>) sys1 =
       (Inr (), (sys2, bufs)) \<and>
     bufs ! 9 = Some (replicate 64 3 @ replicate 36 0)"
proof -
  let ?tm' = "sample_transfer\<lparr>tm_ptr := replicate kRankNumDpus (Some (replicate 100 0))\<rparr>"
  obtain sys1 where 1: "host_copy_to_rank willing_host sample_transfer fresh_rank = (Inr (), sys1)" "rank_live willing_host sys1"
    using host_copy_to_rank_succeeds [OF cooperative_willing fresh_rank_live sample_in_bounds] by blast
  have "transfer_in_bounds kMramSizeBytes ?tm'" using sample_in_bounds by (simp add: transfer_in_bounds_def)
  then obtain sys2 bufs where 2: "host_copy_from_rank willing_host ?tm' sys1 = (Inr (), (sys2, bufs))"
    using host_copy_from_rank_succeeds [OF cooperative_willing 1(2), of ?tm'] by auto
  have "shape_ok fresh_rank" using fresh_rank_live [of willing_host] by (simp add: rank_live_def)
  then have "bufs ! 9 = Some (slice_put 0 (take (unat (64 :: u32)) (replicate 64 3)) (replicate 100 0))"
    using rank_round_trip [OF 1(1) 2, of 9 "replicate 64 3" "replicate 100 0"] fresh_mram [of 9]
    by (simp add: sample_transfer_def wf_mram_def mram_init_def)
  also have "\<dots> = Some (replicate 64 3 @ replicate 36 0)" by (simp add: slice_put_def)
  finally show ?thesis using 1(1) 2 by blast
qed

section \<open>Commands on a chip\<close>

text \<open>A system with one chip whose control interface is in place, in which DPUs 0 and 1 are selected and DPU 1
  alone has its MRAM.\<close>

definition sample_chip :: chip where
  "sample_chip = upd_dpu 1 (\<lambda>d. d\<lparr>dp_mram := populated (dp_mram d)\<rparr>)
     (upd_state (set_selected_mask 3) (set_write_region (Some kCtrlMmioBase) chip_init))"

definition sample_sys :: upmem_sys where
  "sample_sys = (fst fresh_rank, [sample_chip])"

lemma sample_sys_parts:
  "length (snd sample_sys) = 1" "ci_region_write (ch_ci (snd sample_sys ! 0)) = Some kCtrlMmioBase"
  "length (ch_dpus (snd sample_sys ! 0)) = kChipNumDpus" "cs_selected_mask (chip_state (snd sample_sys ! 0)) = 3"
  "\<not> cs_iram_write_structure_valid (chip_state (snd sample_sys ! 0))"
  "\<not> cs_wram_write_structure_valid (chip_state (snd sample_sys ! 0))"
  "mram_ready (ch_dpus (snd sample_sys ! 0) ! 1)" "\<not> mram_ready (ch_dpus (snd sample_sys ! 0) ! 0)"
  "ch_dpus (snd sample_sys ! 0) ! 0 = upmem_dpu_init"
  by (simp_all add: sample_sys_def sample_chip_def upd_dpu_def upd_state_def upd_ci_state_def set_write_region_def
      chip_init_def ci_init_def ci_state_init_def set_selected_mask_def chip_state_def mram_ready_def upmem_dpu_init_def
      mram_init_def populated_def mram_allocate_def)

text \<open>C15. A thread command (boot, resume, and the others) that the host commits to a chip is executed by exactly
  the selected DPUs that have an MRAM, the answer that the chip publishes names exactly these DPUs, and no other
  DPU, no other chip and not the device are touched.\<close>

theorem thread_command_dispatch:
  assumes "c < length (snd sys)" and "length (ch_dpus (snd sys ! c)) = kChipNumDpus"
    and "ci_region_write (ch_ci (snd sys ! c)) \<noteq> None" and "decode_thread_command w = Some (k, t)"
    and "\<not> cs_iram_write_structure_valid (chip_state (snd sys ! c))"
    and "\<not> cs_wram_write_structure_valid (chip_state (snd sys ! c))" and "cs_selected_mask (chip_state (snd sys ! c)) \<noteq> 0"
    and "sys' = propagate_ci push_ok c w sys"
  shows "(\<forall>i < kChipNumDpus.
      (let d = ch_dpus (snd sys ! c) ! i;
           runs = bit (cs_selected_mask (chip_state (snd sys ! c))) i \<and> mram_addr (dp_mram d) \<noteq> None \<and> mram_size (dp_mram d) \<noteq> 0
       in ch_dpus (snd sys' ! c) ! i = (if runs then thread_command k t d else d) \<and>
          (bit (cs_dispatched_payload (chip_state (snd sys' ! c))) i \<longleftrightarrow> runs))) \<and>
    (\<forall>c'. c' \<noteq> c \<longrightarrow> snd sys' ! c' = snd sys ! c') \<and> fst sys' = fst sys"
  using propagate_thread_command [OF assms(1-7), where push_ok = push_ok] unfolding assms(8) mram_ready_def Let_def by blast

theorem thread_command_dispatch_witness:
  "let sys' = propagate_ci (\<lambda>_. True) 0 (thread_frame_command (base_of Boot) 0) sample_sys
   in ch_dpus (snd sys' ! 0) ! 1 = thread_command Boot 0 (ch_dpus (snd sample_sys ! 0) ! 1) \<and>
      ch_dpus (snd sys' ! 0) ! 0 = upmem_dpu_init"
proof -
  have d: "decode_thread_command (thread_frame_command (base_of Boot) 0) = Some (Boot, 0)"
    by (simp add: decode_thread_command_iff)
  show ?thesis
    using thread_command_dispatch [OF _ sample_sys_parts(3) _ d sample_sys_parts(5,6) _ refl, of "\<lambda>_. True"]
      sample_sys_parts(7,8)
    by (auto simp: Let_def sample_sys_parts mram_ready_def dest: spec [of _ 0] spec [of _ 1])
qed

text \<open>A WRAM word written through the control interface, with the structure word and the frame that the
  host library sends for it, arrives at that address in each selected DPU, in no other DPU and at no other
  address; the chip answers with the mask of the DPUs.\<close>

theorem wram_word_through_ci:
  assumes "c < length (snd sys)" and "ci_region_write (ch_ci (snd sys ! c)) \<noteq> None"
    and "length (ch_dpus (snd sys ! c)) = kChipNumDpus" and "a < kWramWords" and "i < kChipNumDpus"
    and "wf_wram (dp_wram (ch_dpus (snd sys ! c) ! i))"
    and "sys' = propagate_ci push_ok c (wram_write_word_frame_upper_for_addr (of_nat a) OR ucast data)
                  (propagate_ci push_ok c (wram_write_word_structure_for_addr (of_nat a)) sys)"
  shows "(\<forall>b < kWramWords. wram_read_word (dp_wram (ch_dpus (snd sys' ! c) ! i)) (of_nat b) =
       (if b = a \<and> bit (cs_selected_mask (chip_state (snd sys ! c))) i then data
        else wram_read_word (dp_wram (ch_dpus (snd sys ! c) ! i)) (of_nat b))) \<and>
    ch_dpus (snd sys' ! c) ! i = (ch_dpus (snd sys ! c) ! i)\<lparr>dp_wram := dp_wram (ch_dpus (snd sys' ! c) ! i)\<rparr> \<and>
    cs_dispatched_payload (chip_state (snd sys' ! c)) = ucast (cs_selected_mask (chip_state (snd sys ! c))) \<and>
    fst sys' = fst sys"
proof -
  have sys': "sys' = write_wram_by_ci push_ok c a data sys" using assms(7) by (simp add: write_wram_by_ci_def)
  have addr: "unat (of_nat b :: u32) = b" if "b < kWramWords" for b
    using that by (simp add: unsigned_of_nat take_bit_nat_eq_self kWramWords_def)
  note eff = write_wram_by_ci_effect [OF assms(1-4), where push_ok = push_ok and data = data, folded sys']
  let ?w = "dp_wram (ch_dpus (snd sys ! c) ! i)"
  have "wram_read_word (wram_write_word ?w (of_nat a) data) (of_nat b) =
      (if b = a then data else wram_read_word ?w (of_nat b))" if "b < kWramWords" for b
  proof (cases "b = a")
    case True
    then show ?thesis
      using wram_word.load_store_same [OF assms(6), of "of_nat a"] addr [OF assms(4)] assms(4)
      by (simp add: word_in_bounds_iff kWramWords_def)
  next
    case False
    then have "word_foot (of_nat a) \<inter> word_foot (of_nat b) = {}"
      using addr [OF assms(4)] addr [OF that] by (auto simp: word_foot_def)
    with False assms(6) show ?thesis by (simp add: wram_word_frame)
  qed
  then show ?thesis
    using eff(1) [OF assms(5)] eff(2,4) by (auto simp: Let_def)
qed

theorem wram_word_through_ci_witness:
  "let sys' = propagate_ci (\<lambda>_. True) 0 (wram_write_word_frame_upper_for_addr (of_nat 100) OR ucast (0xCAFE :: u32))
                (propagate_ci (\<lambda>_. True) 0 (wram_write_word_structure_for_addr (of_nat 100)) sample_sys)
   in wram_read_word (dp_wram (ch_dpus (snd sys' ! 0) ! 0)) 100 = 0xCAFE \<and>
      cs_dispatched_payload (chip_state (snd sys' ! 0)) = 3"
proof -
  have wf: "wf_wram (dp_wram (ch_dpus (snd sample_sys ! 0) ! 0))"
    by (simp add: sample_sys_parts upmem_dpu_init_def wf_intros)
  have c: "0 < length (snd sample_sys)" "ci_region_write (ch_ci (snd sample_sys ! 0)) \<noteq> None" "100 < kWramWords" "0 < kChipNumDpus"
    by (simp_all add: sample_sys_parts kWramWords_def)
  note r = wram_word_through_ci [OF c(1,2) sample_sys_parts(3) c(3,4) wf refl, where push_ok = "\<lambda>_. True" and data = "0xCAFE"]
  show ?thesis
    using conjunct1 [OF r, THEN spec, of 100] conjunct2 [OF r] by (simp add: Let_def sample_sys_parts kWramWords_def)
qed

end
